(* ===== verification/Prelude.thy ===== *)
theory Prelude
  imports Main "HOL-Library.Word"
begin

text \<open>
  Shared vocabulary of the development.

  \<^item> Rust \<open>String\<close>/\<open>&str\<close> is a \<open>string\<close>, the list of its UTF-8 bytes (a HOL \<open>char\<close> is one
    byte), so \<open>len()\<close> is \<open>length\<close> and \<open>bytes()\<close> is the list itself. Operations of the source
    that look at Unicode scalar values go through \<open>utf8_chars\<close>.
  \<^item> \<open>u64\<close>, \<open>u32\<close> are words, a \<open>Uuid\<close> is its 128 bits, \<open>usize\<close> is \<open>nat\<close> with the bound
    written where the source checks it.
  \<^item> \<open>Result<T, E>\<close> is \<open>'e + 'a\<close> with \<open>Inl\<close> the error; \<open>?\<close> is \<open>and_then\<close>.
  \<^item> Third-party crates are the fields of the record \<open>libs\<close>, an argument of the definitions
    that call them; what the theorems rely on is a named predicate on \<open>libs\<close>.
\<close>

named_theorems res_simps "evaluation of the result combinators"
named_theorems wire_simps "evaluation of the persisted spellings of the enumerations"

section \<open>Machine integers and identifiers\<close>

type_synonym u64 = "64 word"
type_synonym u32 = "32 word"
type_synonym uuid = "128 word"

definition usize_limit :: nat where
  "usize_limit = 2 ^ 64"

text \<open>\<open>i64::try_from(x).is_ok()\<close> for an unsigned 64-bit value.\<close>

definition fits_i64 :: "u64 \<Rightarrow> bool" where
  "fits_i64 x = (x < 0x8000000000000000)"

lemma fits_i64_unat: "fits_i64 x \<longleftrightarrow> unat x < 2 ^ 63"
  by (simp add: fits_i64_def word_less_nat_alt)

definition is_nil :: "uuid \<Rightarrow> bool" where
  "is_nil u = (u = 0)"

section \<open>Results\<close>

fun and_then :: "'e + 'a \<Rightarrow> ('a \<Rightarrow> 'e + 'b) \<Rightarrow> 'e + 'b" where
  "and_then (Inl e) f = Inl e"
| "and_then (Inr x) f = f x"

definition ok_or :: "'a option \<Rightarrow> 'e \<Rightarrow> 'e + 'a" where
  "ok_or x e = (case x of None \<Rightarrow> Inl e | Some v \<Rightarrow> Inr v)"

definition ensure :: "bool \<Rightarrow> 'e \<Rightarrow> 'e + unit" where
  "ensure b e = (if b then Inr () else Inl e)"

definition map_err :: "('e \<Rightarrow> 'f) \<Rightarrow> 'e + 'a \<Rightarrow> 'f + 'a" where
  "map_err f r = (case r of Inl e \<Rightarrow> Inl (f e) | Inr x \<Rightarrow> Inr x)"

definition is_ok :: "'e + 'a \<Rightarrow> bool" where
  "is_ok r = (case r of Inl _ \<Rightarrow> False | Inr _ \<Rightarrow> True)"

text \<open>A \<open>for\<close> loop over a slice that validates each element and stops at the first error.\<close>

fun for_each :: "('a \<Rightarrow> 'e + unit) \<Rightarrow> 'a list \<Rightarrow> 'e + unit" where
  "for_each f [] = Inr ()"
| "for_each f (x # xs) = and_then (f x) (\<lambda>_. for_each f xs)"

text \<open>\<open>into_iter().flatten()\<close> on an array of options.\<close>

definition flatten_opt :: "'a option list \<Rightarrow> 'a list" where
  "flatten_opt xs = List.map_filter (\<lambda>x. x) xs"

definition is_some_and :: "'a option \<Rightarrow> ('a \<Rightarrow> bool) \<Rightarrow> bool" where
  "is_some_and x p = (case x of None \<Rightarrow> False | Some v \<Rightarrow> p v)"

definition is_none_or :: "'a option \<Rightarrow> ('a \<Rightarrow> bool) \<Rightarrow> bool" where
  "is_none_or x p = (case x of None \<Rightarrow> True | Some v \<Rightarrow> p v)"

definition or_opt :: "'a option \<Rightarrow> 'a option \<Rightarrow> 'a option" where
  "or_opt x y = (case x of None \<Rightarrow> y | Some v \<Rightarrow> Some v)"

lemma ok_or_simps [simp, res_simps]: "ok_or None e = Inl e" "ok_or (Some v) e = Inr v"
  by (simp_all add: ok_or_def)

lemma ok_or_eq_Inr [simp]: "ok_or x e = Inr v \<longleftrightarrow> x = Some v"
  by (cases x) auto

lemma ok_or_eq_Inl [simp]: "ok_or x e = Inl d \<longleftrightarrow> x = None \<and> d = e"
  by (cases x) auto

lemma ensure_simps [simp, res_simps]: "ensure True e = Inr ()" "ensure False e = Inl e"
  by (simp_all add: ensure_def)

lemma ensure_eq_Inr [simp]: "ensure b e = Inr u \<longleftrightarrow> b"
  by (simp add: ensure_def)

lemma ensure_eq_Inl [simp]: "ensure b e = Inl d \<longleftrightarrow> \<not> b \<and> d = e"
  by (auto simp: ensure_def)

lemma map_err_simps [simp, res_simps]: "map_err f (Inl e) = Inl (f e)" "map_err f (Inr x) = Inr x"
  by (simp_all add: map_err_def)

lemma map_err_eq_Inr [simp]: "map_err f r = Inr x \<longleftrightarrow> r = Inr x"
  by (cases r) auto

lemma is_ok_simps [simp, res_simps]: "is_ok (Inl e) = False" "is_ok (Inr x) = True"
  by (simp_all add: is_ok_def)

lemma is_ok_iff: "is_ok r \<longleftrightarrow> (\<exists>x. r = Inr x)"
  by (cases r) auto

lemma is_ok_unit: "is_ok (r :: 'e + unit) \<longleftrightarrow> r = Inr ()"
  by (cases r) auto

lemma and_then_eq_Inr [simp]: "and_then r f = Inr y \<longleftrightarrow> (\<exists>x. r = Inr x \<and> f x = Inr y)"
  by (cases r) auto

lemma and_then_eq_Inl: "and_then r f = Inl e \<longleftrightarrow> r = Inl e \<or> (\<exists>x. r = Inr x \<and> f x = Inl e)"
  by (cases r) auto

lemma is_ok_and_then_unit: "is_ok (and_then (r :: 'e + unit) f) \<longleftrightarrow> is_ok r \<and> is_ok (f ())"
  by (cases r) auto

lemma is_ok_ensure [simp]: "is_ok (ensure b e) = b"
  by (simp add: ensure_def)

lemma is_ok_for_each: "is_ok (for_each f xs) \<longleftrightarrow> (\<forall>x \<in> set xs. is_ok (f x))"
  by (induction xs) (simp_all add: is_ok_and_then_unit)

lemma for_each_eq_Inr: "for_each f xs = Inr u \<longleftrightarrow> (\<forall>x \<in> set xs. f x = Inr ())"
  by (induction xs) auto

lemma is_some_and_simps [simp]:
  "is_some_and None p = False" "is_some_and (Some v) p = p v"
  by (simp_all add: is_some_and_def)

lemma is_none_or_simps [simp]:
  "is_none_or None p = True" "is_none_or (Some v) p = p v"
  by (simp_all add: is_none_or_def)

lemma or_opt_simps [simp]: "or_opt None y = y" "or_opt (Some v) y = Some v"
  by (simp_all add: or_opt_def)

lemma flatten_opt_simps [simp]:
  "flatten_opt [] = []"
  "flatten_opt (None # xs) = flatten_opt xs"
  "flatten_opt (Some v # xs) = v # flatten_opt xs"
  by (simp_all add: flatten_opt_def List.map_filter_def)

lemma set_flatten_opt: "set (flatten_opt xs) = {v. Some v \<in> set xs}"
  by (induction xs) (auto simp: flatten_opt_def List.map_filter_def)

section \<open>Persisted enumerations\<close>

text \<open>
  The contract of an \<open>as_str\<close>/\<open>parse\<close> pair: what is written to a database column reads back
  as itself, and nothing else reads back at all.
\<close>

locale wire_enum =
  fixes to_wire :: "'a \<Rightarrow> string"
    and of_wire :: "string \<Rightarrow> 'e + 'a"
  assumes of_wire_to_wire: "of_wire (to_wire x) = Inr x"
    and to_wire_of_wire: "of_wire s = Inr x \<Longrightarrow> to_wire x = s"
begin

lemma to_wire_inject: "to_wire x = to_wire y \<longleftrightarrow> x = y"
  using of_wire_to_wire by (metis sum.inject(2))

lemma of_wire_Inr_iff: "of_wire s = Inr x \<longleftrightarrow> s = to_wire x"
  using of_wire_to_wire to_wire_of_wire by auto

lemma of_wire_ok_iff: "is_ok (of_wire s) \<longleftrightarrow> s \<in> range to_wire"
  by (auto simp: is_ok_iff of_wire_Inr_iff)

end

end
