(* ===== verification/Rust_Strings.thy ===== *)
theory Rust_Strings
  imports Prelude
begin

text \<open>
  The part of the Rust standard library the modelled code uses on strings: ASCII byte
  classes, \<open>split\<close>, \<open>join\<close>, prefix and suffix tests, the byte/character/UTF-16 views of a
  UTF-8 string, decimal and hexadecimal printing and big-endian length fields, with the
  algebraic lemmas the components share.
\<close>

section \<open>Bytes\<close>

definition byte :: "char \<Rightarrow> nat" where
  "byte c = of_char c"

lemma byte_bound: "byte c < 256"
  by (simp add: byte_def)

lemma byte_inject [simp]: "byte c = byte d \<longleftrightarrow> c = d"
  by (simp add: byte_def)

definition is_ascii_digit :: "char \<Rightarrow> bool" where
  "is_ascii_digit c = (48 \<le> byte c \<and> byte c \<le> 57)"

definition is_ascii_lowercase :: "char \<Rightarrow> bool" where
  "is_ascii_lowercase c = (97 \<le> byte c \<and> byte c \<le> 122)"

definition is_ascii_uppercase :: "char \<Rightarrow> bool" where
  "is_ascii_uppercase c = (65 \<le> byte c \<and> byte c \<le> 90)"

definition is_ascii_alphanumeric :: "char \<Rightarrow> bool" where
  "is_ascii_alphanumeric c = (is_ascii_digit c \<or> is_ascii_lowercase c \<or> is_ascii_uppercase c)"

definition is_ascii_control :: "char \<Rightarrow> bool" where
  "is_ascii_control c = (byte c < 32 \<or> byte c = 127)"

text \<open>\<open>byte.is_ascii_digit() || (b'a'..=b'f').contains(&byte)\<close>\<close>

definition is_lower_hex_byte :: "char \<Rightarrow> bool" where
  "is_lower_hex_byte c = (is_ascii_digit c \<or> (97 \<le> byte c \<and> byte c \<le> 102))"

lemmas byte_class_defs =
  is_ascii_digit_def is_ascii_lowercase_def is_ascii_uppercase_def is_ascii_alphanumeric_def
  is_ascii_control_def is_lower_hex_byte_def byte_def

lemma lower_hex_alphanumeric: "is_lower_hex_byte c \<Longrightarrow> is_ascii_alphanumeric c"
  by (auto simp: byte_class_defs)

lemma alphanumeric_not_control: "is_ascii_alphanumeric c \<Longrightarrow> \<not> is_ascii_control c"
  by (auto simp: byte_class_defs)

section \<open>Prefix, suffix, split and join\<close>

definition starts_with :: "string \<Rightarrow> string \<Rightarrow> bool" where
  "starts_with s p = (take (length p) s = p)"

definition ends_with_byte :: "string \<Rightarrow> char \<Rightarrow> bool" where
  "ends_with_byte s c = (s \<noteq> [] \<and> last s = c)"

definition strip_prefix :: "string \<Rightarrow> string \<Rightarrow> string option" where
  "strip_prefix s p = (if starts_with s p then Some (drop (length p) s) else None)"

definition strip_suffix :: "string \<Rightarrow> string \<Rightarrow> string option" where
  "strip_suffix s ending = map_option rev (strip_prefix (rev s) (rev ending))"

definition strip_suffix_byte :: "string \<Rightarrow> char \<Rightarrow> string option" where
  "strip_suffix_byte s c = (if ends_with_byte s c then Some (butlast s) else None)"

lemma starts_with_append [simp]: "starts_with (p @ s) p"
  by (simp add: starts_with_def)

lemma strip_prefix_append [simp]: "strip_prefix (p @ s) p = Some s"
  by (simp add: strip_prefix_def)

lemma strip_prefix_SomeD: "strip_prefix s p = Some t \<Longrightarrow> s = p @ t"
  by (auto simp: strip_prefix_def starts_with_def split: if_splits)
    (metis append_take_drop_id)

lemma strip_suffix_SomeD: "strip_suffix s e = Some t \<Longrightarrow> s = t @ e"
  by (auto simp: strip_suffix_def dest!: strip_prefix_SomeD) (metis rev_append rev_rev_ident)

lemma strip_suffix_append [simp]: "strip_suffix (s @ e) e = Some s"
  by (simp add: strip_suffix_def)

text \<open>\<open>str::split(c)\<close>: never empty, one more piece than there are separators.\<close>

fun split_on :: "char \<Rightarrow> string \<Rightarrow> string list" where
  "split_on c [] = [[]]"
| "split_on c (x # xs) =
     (if x = c then [] # split_on c xs
      else (case split_on c xs of [] \<Rightarrow> [[x]] | p # ps \<Rightarrow> (x # p) # ps))"

fun join_with :: "string \<Rightarrow> string list \<Rightarrow> string" where
  "join_with sep [] = []"
| "join_with sep [p] = p"
| "join_with sep (p # q # ps) = p @ sep @ join_with sep (q # ps)"

lemma split_on_nonempty [simp]: "split_on c s \<noteq> []"
  by (induction s) (auto split: list.splits)

lemma split_on_pieces: "p \<in> set (split_on c s) \<Longrightarrow> c \<notin> set p"
  by (induction s arbitrary: p) (auto split: if_splits list.splits)

lemma join_with_Cons: "ps \<noteq> [] \<Longrightarrow> join_with sep (p # ps) = p @ sep @ join_with sep ps"
  by (cases ps) auto

lemma join_split: "join_with [c] (split_on c s) = s"
proof (induction s)
  case (Cons x xs)
  then show ?case
    by (cases "split_on c xs"; cases "tl (split_on c xs)") (auto simp: join_with_Cons)
qed simp

lemma split_on_no_sep: "c \<notin> set s \<Longrightarrow> split_on c s = [s]"
  by (induction s) auto

lemma split_on_append_sep:
  "c \<notin> set p \<Longrightarrow> split_on c (p @ c # s) = p # split_on c s"
  by (induction p) auto

lemma split_join:
  "ps \<noteq> [] \<Longrightarrow> \<forall>p \<in> set ps. c \<notin> set p \<Longrightarrow> split_on c (join_with [c] ps) = ps"
  by (induction "[c]" ps rule: join_with.induct) (auto simp: split_on_no_sep split_on_append_sep)

lemma hd_split_join:
  "ps \<noteq> [] \<Longrightarrow> \<forall>p \<in> set ps. c \<notin> set p \<Longrightarrow> hd (split_on c (join_with [c] ps)) = hd ps"
  by (simp add: split_join)

lemma set_join_with: "set (join_with sep ps) \<subseteq> \<Union> (set ` set ps) \<union> set sep"
  by (induction sep ps rule: join_with.induct) auto

lemma join_with_last:
  "ps \<noteq> [] \<Longrightarrow> last ps \<noteq> [] \<Longrightarrow> join_with sep ps \<noteq> [] \<and> last (join_with sep ps) = last (last ps)"
  by (induction sep ps rule: join_with.induct) auto

text \<open>\<open>rsplit(c).next()\<close>\<close>

definition last_piece :: "char \<Rightarrow> string \<Rightarrow> string" where
  "last_piece c s = last (split_on c s)"

section \<open>Unicode scalar values in UTF-8\<close>

text \<open>A continuation byte is \<open>0b10xxxxxx\<close>; every other byte starts a new scalar value.\<close>

definition is_continuation :: "char \<Rightarrow> bool" where
  "is_continuation c = (128 \<le> byte c \<and> byte c < 192)"

fun utf8_chars :: "string \<Rightarrow> string list" where
  "utf8_chars [] = []"
| "utf8_chars (b # bs) =
     (case utf8_chars bs of
        [] \<Rightarrow> [[b]]
      | g # gs \<Rightarrow> if is_continuation (hd g) then (b # g) # gs else [b] # g # gs)"

lemma utf8_chars_concat: "concat (utf8_chars s) = s"
  by (induction s) (auto split: list.splits if_splits)

lemma utf8_chars_nonempty: "g \<in> set (utf8_chars s) \<Longrightarrow> g \<noteq> []"
  by (induction s arbitrary: g) (auto split: list.splits if_splits)

lemma utf8_chars_eq_Nil [simp]: "utf8_chars s = [] \<longleftrightarrow> s = []"
  by (cases s) (auto split: list.splits)

text \<open>\<open>encode_utf16().count()\<close>: a four-byte scalar value takes a surrogate pair.\<close>

definition utf16_len :: "string \<Rightarrow> nat" where
  "utf16_len s =
     sum_list (map (\<lambda>b. if is_continuation b then 0 else if 240 \<le> byte b then 2 else 1) s)"

text \<open>
  \<open>chars().any(char::is_control)\<close>: general category Cc is U+0000--U+001F, U+007F and
  U+0080--U+009F; the last range is encoded as \<open>0xC2\<close> followed by \<open>0x80..=0x9F\<close>.
\<close>

fun contains_control :: "string \<Rightarrow> bool" where
  "contains_control [] = False"
| "contains_control (b # bs) =
     (is_ascii_control b
      \<or> (byte b = 194 \<and> (case bs of [] \<Rightarrow> False | c # _ \<Rightarrow> 128 \<le> byte c \<and> byte c < 160))
      \<or> contains_control bs)"

text \<open>Well-formed UTF-8 (the invariant of \<open>str\<close>, and what \<open>OsStr::to_str\<close> checks).\<close>

definition second_byte_ok :: "nat \<Rightarrow> nat \<Rightarrow> bool" where
  "second_byte_ok b c =
     (if b = 224 then 160 \<le> c \<and> c < 192
      else if b = 237 then 128 \<le> c \<and> c < 160
      else if b = 240 then 144 \<le> c \<and> c < 192
      else if b = 244 then 128 \<le> c \<and> c < 144
      else 128 \<le> c \<and> c < 192)"

definition utf8_tail :: "nat \<Rightarrow> nat" where
  "utf8_tail b =
     (if b < 128 then 0 else if 194 \<le> b \<and> b < 224 then 1 else if 224 \<le> b \<and> b < 240 then 2
      else if 240 \<le> b \<and> b < 245 then 3 else 4)"

fun valid_utf8 :: "string \<Rightarrow> bool" where
  "valid_utf8 [] = True"
| "valid_utf8 (b # bs) =
     (if utf8_tail (byte b) = 0 then valid_utf8 bs
      else if utf8_tail (byte b) = 4 \<or> length bs < utf8_tail (byte b) then False
      else second_byte_ok (byte b) (byte (hd bs))
        \<and> list_all is_continuation (take (utf8_tail (byte b)) bs)
        \<and> valid_utf8 (drop (utf8_tail (byte b)) bs))"

lemma valid_utf8_append_ascii:
  "valid_utf8 (p @ c # s) \<Longrightarrow> byte c < 128 \<Longrightarrow> valid_utf8 p \<and> valid_utf8 s"
proof (induction p rule: valid_utf8.induct)
  case 1
  then show ?case by (simp add: utf8_tail_def)
next
  case (2 b bs)
  let ?k = "utf8_tail (byte b)"
  show ?case
  proof (cases "?k = 0")
    case True
    with 2 show ?thesis by simp
  next
    case False
    with "2.prems" have k: "?k \<noteq> 4"
      and sb: "second_byte_ok (byte b) (byte (hd (bs @ c # s)))"
      and cont: "list_all is_continuation (take ?k (bs @ c # s))"
      and rest: "valid_utf8 (drop ?k (bs @ c # s))"
      by (auto split: if_splits)
    have len: "?k \<le> length bs"
    proof (rule ccontr)
      assume "\<not> ?k \<le> length bs"
      then have "c \<in> set (take ?k (bs @ c # s))"
        by (cases "?k - length bs") (auto simp: take_Cons')
      with cont have "is_continuation c" by (simp add: list_all_iff)
      with "2.prems"(2) show False by (simp add: is_continuation_def)
    qed
    with False have ne: "bs \<noteq> []" by auto
    have "valid_utf8 (drop ?k bs) \<and> valid_utf8 s"
      using "2.IH"(2) [OF False] k len rest "2.prems"(2) by simp
    then show ?thesis
      using False k len sb cont ne by simp
  qed
qed

lemma valid_utf8_split_on:
  assumes "byte c < 128" and "valid_utf8 s" and "p \<in> set (split_on c s)"
  shows "valid_utf8 p"
proof -
  have "ps \<noteq> [] \<Longrightarrow> valid_utf8 (join_with [c] ps) \<Longrightarrow> p \<in> set ps \<Longrightarrow> valid_utf8 p" for ps
    by (induction "[c]" ps rule: join_with.induct)
      (auto dest!: valid_utf8_append_ascii [OF _ assms(1)])
  from this [of "split_on c s"] show ?thesis
    using assms by (simp add: join_split)
qed

text \<open>\<open>String::pop\<close>: removes the last scalar value.\<close>

definition string_pop :: "string \<Rightarrow> string option" where
  "string_pop s = (if s = [] then None else Some (concat (butlast (utf8_chars s))))"

text \<open>\<open>chars().take(n).collect::<String>()\<close>\<close>

definition take_chars :: "nat \<Rightarrow> string \<Rightarrow> string" where
  "take_chars n s = concat (take n (utf8_chars s))"

lemma utf16_len_ascii: "\<forall>b \<in> set s. byte b < 128 \<Longrightarrow> utf16_len s = length s"
  by (induction s) (auto simp: utf16_len_def is_continuation_def)

lemma utf8_chars_ascii: "\<forall>b \<in> set s. byte b < 128 \<Longrightarrow> utf8_chars s = map (\<lambda>b. [b]) s"
  by (induction s) (auto simp: is_continuation_def split: list.splits)

lemma take_chars_ascii: "\<forall>b \<in> set s. byte b < 128 \<Longrightarrow> take_chars n s = take n s"
  by (simp add: take_chars_def utf8_chars_ascii take_map)

lemma utf16_len_le: "utf16_len s \<le> 2 * length s"
  by (induction s) (auto simp: utf16_len_def)

lemma string_pop_length: "string_pop s = Some t \<Longrightarrow> length t < length s"
proof -
  assume pop: "string_pop s = Some t"
  then have "s \<noteq> []" and t: "t = concat (butlast (utf8_chars s))"
    by (auto simp: string_pop_def split: if_splits)
  then have ne: "utf8_chars s \<noteq> []" by simp
  have "s = t @ last (utf8_chars s)"
    using utf8_chars_concat [of s] append_butlast_last_id [OF ne] t
    by (metis concat.simps concat_append append_Nil2)
  moreover have "last (utf8_chars s) \<noteq> []"
    using ne last_in_set utf8_chars_nonempty by blast
  ultimately show ?thesis by (metis length_append less_add_same_cancel1 length_greater_0_conv)
qed

end
