(* ===== verification/Encoding.thy ===== *)
theory Encoding
  imports Rust_Strings
begin

text \<open>
  Printing of numbers, hexadecimal digests, big-endian length fields and the two
  length-prefixed byte streams the sync engine hashes (\<open>push_field\<close> of
  \<open>conflict/identity.rs\<close> and \<open>canonical_fingerprint\<close> of \<open>store.rs\<close>). The record \<open>libs\<close>
  holds the third-party functions the engine calls.
\<close>

section \<open>Third-party functions\<close>

text \<open>The operations of the crate \<open>similar\<close> that \<open>edits_from_myers\<close> reads.\<close>

datatype diff_tag = Equal | Delete | Insert | Replace

record diff_op =
  op_tag :: diff_tag
  old_start :: nat
  old_end :: nat
  new_start :: nat
  new_end :: nat

record libs =
  sha256_digest :: "string \<Rightarrow> string"
  nfkc_casefold_nfkc :: "string \<Rightarrow> string"
  uuid_new_v5 :: "uuid \<Rightarrow> string \<Rightarrow> uuid"
  uuid_to_string :: "uuid \<Rightarrow> string"
  uuid_simple :: "uuid \<Rightarrow> string"
  myers_ops :: "string list \<Rightarrow> string list \<Rightarrow> diff_op list"

text \<open>SHA-256 returns 32 bytes.\<close>

definition sha256_total :: "libs \<Rightarrow> bool" where
  "sha256_total L = (\<forall>s. length (sha256_digest L s) = 32)"

section \<open>Decimal and hexadecimal\<close>

definition digit_char :: "nat \<Rightarrow> char" where
  "digit_char d = char_of (48 + d)"

fun nat_to_string :: "nat \<Rightarrow> string" where
  "nat_to_string n =
     (if n < 10 then [digit_char n] else nat_to_string (n div 10) @ [digit_char (n mod 10)])"

declare nat_to_string.simps [simp del]

definition hex_digit :: "nat \<Rightarrow> char" where
  "hex_digit d = (if d < 10 then char_of (48 + d) else char_of (87 + d))"

definition hex_byte :: "char \<Rightarrow> string" where
  "hex_byte c = [hex_digit (byte c div 16), hex_digit (byte c mod 16)]"

definition hex_string :: "string \<Rightarrow> string" where
  "hex_string bs = concat (map hex_byte bs)"

definition hex_sha256 :: "libs \<Rightarrow> string \<Rightarrow> string" where
  "hex_sha256 L bs = hex_string (sha256_digest L bs)"

lemma byte_char_of: "n < 256 \<Longrightarrow> byte (char_of n) = n"
  by (simp add: byte_def take_bit_nat_def)

lemma byte_nibbles: "byte c div 16 < 16" "byte c mod 16 < 16"
  using byte_bound [of c] by auto

lemma byte_digit_char: "d < 10 \<Longrightarrow> byte (digit_char d) = 48 + d"
  by (simp add: digit_char_def byte_char_of)

lemma digit_char_inject: "a < 10 \<Longrightarrow> b < 10 \<Longrightarrow> digit_char a = digit_char b \<longleftrightarrow> a = b"
  by (metis byte_digit_char add_left_cancel)

lemma byte_hex_digit: "d < 16 \<Longrightarrow> byte (hex_digit d) = (if d < 10 then 48 + d else 87 + d)"
  by (simp add: hex_digit_def byte_char_of)

lemma hex_digit_lower: "d < 16 \<Longrightarrow> is_lower_hex_byte (hex_digit d)"
  by (simp add: is_lower_hex_byte_def is_ascii_digit_def byte_hex_digit)

lemma hex_string_lower: "list_all is_lower_hex_byte (hex_string bs)"
  by (induction bs) (auto simp: hex_string_def hex_byte_def intro!: hex_digit_lower byte_nibbles)

lemma length_hex_string: "length (hex_string bs) = 2 * length bs"
  by (induction bs) (auto simp: hex_string_def hex_byte_def)

lemma hex_digit_inject:
  assumes "a < 16" and "b < 16"
  shows "hex_digit a = hex_digit b \<longleftrightarrow> a = b"
proof
  assume "hex_digit a = hex_digit b"
  then have "(if a < 10 then 48 + a else 87 + a) = (if b < 10 then 48 + b else 87 + b)"
    using byte_hex_digit [OF assms(1)] byte_hex_digit [OF assms(2)] by simp
  then show "a = b" by (simp split: if_splits)
qed simp

lemma hex_string_inject: "hex_string as = hex_string bs \<Longrightarrow> as = bs"
proof (induction as arbitrary: bs)
  case Nil
  then show ?case by (cases bs) (auto simp: hex_string_def hex_byte_def)
next
  case (Cons a as)
  then obtain b bs' where bs: "bs = b # bs'"
    by (cases bs) (auto simp: hex_string_def hex_byte_def)
  have "byte a div 16 = byte b div 16 \<and> byte a mod 16 = byte b mod 16"
    using Cons.prems bs by (simp add: hex_string_def hex_byte_def hex_digit_inject byte_nibbles)
  then have "byte a = byte b" by (metis div_mod_decomp)
  then have "a = b" by simp
  moreover have "as = bs'"
    by (rule Cons.IH) (use Cons.prems bs in \<open>auto simp: hex_string_def hex_byte_def\<close>)
  ultimately show ?case using bs by simp
qed

lemma nat_to_string_nonempty [simp]: "nat_to_string n \<noteq> []"
  by (subst nat_to_string.simps) simp

lemma nat_to_string_inject: "nat_to_string m = nat_to_string n \<Longrightarrow> m = n"
proof (induction m arbitrary: n rule: nat_to_string.induct)
  case (1 m)
  note eq = "1.prems"
  show ?case
  proof (cases "m < 10")
    case True
    show ?thesis
    proof (cases "n < 10")
      case True
      with eq \<open>m < 10\<close> show ?thesis
        by (simp add: nat_to_string.simps [of m] nat_to_string.simps [of n] digit_char_inject)
    next
      case False
      with eq \<open>m < 10\<close> show ?thesis
        by (auto simp: nat_to_string.simps [of m] nat_to_string.simps [of n]
            dest: sym [of "[]"])
    qed
  next
    case False
    show ?thesis
    proof (cases "n < 10")
      case True
      with eq False show ?thesis
        by (simp add: nat_to_string.simps [of m] nat_to_string.simps [of n])
    next
      case nbig: False
      with eq False have "nat_to_string (m div 10) = nat_to_string (n div 10)"
        and "m mod 10 = n mod 10"
        by (simp_all add: nat_to_string.simps [of m] nat_to_string.simps [of n] digit_char_inject)
      with "1.IH" [OF False] have "m div 10 = n div 10" and "m mod 10 = n mod 10" by auto
      then show ?thesis by (metis div_mod_decomp)
    qed
  qed
qed

definition u64_to_string :: "u64 \<Rightarrow> string" where
  "u64_to_string x = nat_to_string (unat x)"

definition u32_to_string :: "u32 \<Rightarrow> string" where
  "u32_to_string x = nat_to_string (unat x)"

lemma u64_to_string_inject [simp]: "u64_to_string a = u64_to_string b \<longleftrightarrow> a = b"
  by (auto simp: u64_to_string_def
      dest!: nat_to_string_inject intro: word_unat_eq_iff [THEN iffD2])

lemma u32_to_string_inject [simp]: "u32_to_string a = u32_to_string b \<longleftrightarrow> a = b"
  by (auto simp: u32_to_string_def
      dest!: nat_to_string_inject intro: word_unat_eq_iff [THEN iffD2])

section \<open>Big-endian length fields\<close>

text \<open>\<open>(n as u64).to_be_bytes()\<close>\<close>

fun be_bytes :: "nat \<Rightarrow> nat \<Rightarrow> string" where
  "be_bytes 0 n = []"
| "be_bytes (Suc k) n = be_bytes k (n div 256) @ [char_of (n mod 256)]"

definition be64 :: "nat \<Rightarrow> string" where
  "be64 n = be_bytes 8 n"

lemma length_be_bytes [simp]: "length (be_bytes k n) = k"
  by (induction k arbitrary: n) auto

lemma length_be64 [simp]: "length (be64 n) = 8"
  by (simp add: be64_def)

lemma be_bytes_inject: "m < 256 ^ k \<Longrightarrow> n < 256 ^ k \<Longrightarrow> be_bytes k m = be_bytes k n \<Longrightarrow> m = n"
proof (induction k arbitrary: m n)
  case (Suc k)
  have "be_bytes k (m div 256) = be_bytes k (n div 256)"
    using Suc.prems(3) by simp
  moreover have "m div 256 < 256 ^ k" "n div 256 < 256 ^ k"
    using Suc.prems by (auto simp: less_mult_imp_div_less mult.commute)
  ultimately have d: "m div 256 = n div 256"
    using Suc.IH by blast
  have "byte (char_of (m mod 256)) = byte (char_of (n mod 256))"
    using Suc.prems(3) by (simp only: be_bytes.simps append1_eq_conv)
  then have "m mod 256 = n mod 256"
    by (simp only: byte_char_of mod_less_divisor zero_less_numeral)
  with d show ?case by (metis div_mod_decomp)
qed simp

lemma be64_inject: "m < usize_limit \<Longrightarrow> n < usize_limit \<Longrightarrow> be64 m = be64 n \<longleftrightarrow> m = n"
  using be_bytes_inject [of m 8 n] by (auto simp: be64_def usize_limit_def)

section \<open>Length-prefixed streams\<close>

text \<open>
  The contract of a self-delimiting encoder, on the values \<open>ok\<close> admits: reading a stream that
  starts with an encoded value determines the value and the rest. Concatenating encoded
  values is then injective, which is what makes a digest of the stream an identity of the
  encoded fields rather than of one of their accidental concatenations.
\<close>

locale prefix_code =
  fixes enc :: "'a \<Rightarrow> string"
    and ok :: "'a \<Rightarrow> bool"
  assumes enc_nonempty: "enc x \<noteq> []"
    and enc_delimited: "ok x \<Longrightarrow> ok y \<Longrightarrow> enc x @ r = enc y @ s \<Longrightarrow> x = y \<and> r = s"
begin

lemma stream_inject:
  "list_all ok xs \<Longrightarrow> list_all ok ys \<Longrightarrow> concat (map enc xs) = concat (map enc ys) \<Longrightarrow> xs = ys"
proof (induction xs arbitrary: ys)
  case Nil
  then show ?case by (cases ys) (auto simp: enc_nonempty)
next
  case (Cons x xs)
  have "ys \<noteq> []"
    using Cons.prems(3) enc_nonempty [of x] by auto
  then obtain y ys' where ys: "ys = y # ys'"
    by (cases ys) simp
  have "ok x" and "ok y" and "enc x @ concat (map enc xs) = enc y @ concat (map enc ys')"
    using Cons.prems ys by simp_all
  then have "x = y \<and> concat (map enc xs) = concat (map enc ys')"
    by (rule enc_delimited)
  then show ?case
    using Cons.IH [of ys'] Cons.prems(1,2) ys by simp
qed

end

definition length_prefixed :: "string \<Rightarrow> string" where
  "length_prefixed s = be64 (length s) @ s"

definition addressable :: "string \<Rightarrow> bool" where
  "addressable s = (length s < usize_limit)"

lemma be64_append_inject:
  assumes "m < usize_limit" and "n < usize_limit" and "be64 m @ r = be64 n @ s"
  shows "m = n \<and> r = s"
  using assms by (auto simp: be64_inject)

lemma length_prefixed_delimited:
  assumes "addressable x" and "addressable y" and "length_prefixed x @ r = length_prefixed y @ s"
  shows "x = y \<and> r = s"
proof -
  have "length x = length y \<and> x @ r = y @ s"
    using assms by (intro be64_append_inject) (auto simp: length_prefixed_def addressable_def)
  then show ?thesis by (auto dest: append_eq_append_conv [THEN iffD1, rotated])
qed

definition push_field :: "string \<times> string option \<Rightarrow> string" where
  "push_field f =
     length_prefixed (fst f) @
     (case snd f of
        Some v \<Rightarrow> [CHR 0x01] @ length_prefixed v
      | None \<Rightarrow> [CHR 0x00] @ be64 0)"

definition canonical_field :: "string \<times> string option \<Rightarrow> string" where
  "canonical_field f =
     length_prefixed (fst f) @
     (case snd f of
        Some v \<Rightarrow> [CHR 0x01] @ length_prefixed v
      | None \<Rightarrow> [CHR 0x00])"

definition canonical_stream :: "string \<Rightarrow> (string \<times> string option) list \<Rightarrow> string" where
  "canonical_stream domain fs =
     length_prefixed domain @ concat (map canonical_field fs)"

definition canonical_fingerprint ::
    "libs \<Rightarrow> string \<Rightarrow> (string \<times> string option) list \<Rightarrow> string" where
  "canonical_fingerprint L domain fs = hex_sha256 L (canonical_stream domain fs)"

definition field_ok :: "string \<times> string option \<Rightarrow> bool" where
  "field_ok f = (addressable (fst f) \<and> is_none_or (snd f) addressable)"

lemma be64_nonempty [simp]: "be64 n \<noteq> []"
  using length_be64 [of n] by (metis list.size(3) numeral_neq_zero)

lemma length_prefixed_nonempty [simp]: "length_prefixed s \<noteq> []"
  by (simp add: length_prefixed_def)

lemma push_field_delimited:
  assumes "field_ok f" and "field_ok g" and eq: "push_field f @ r = push_field g @ s"
  shows "f = g \<and> r = s"
proof (cases f; cases g)
  fix n v m w
  assume f: "f = (n, v)" and g: "g = (m, w)"
  obtain tv tw where tv: "push_field f = length_prefixed n @ tv"
    and tw: "push_field g = length_prefixed m @ tw"
    and def_tv: "tv = (case v of Some v \<Rightarrow> CHR 0x01 # length_prefixed v | None \<Rightarrow> CHR 0x00 # be64 0)"
    and def_tw: "tw = (case w of Some v \<Rightarrow> CHR 0x01 # length_prefixed v | None \<Rightarrow> CHR 0x00 # be64 0)"
    by (simp add: push_field_def f g split: option.splits)
  have "n = m \<and> tv @ r = tw @ s"
    using assms tv tw f g by (intro length_prefixed_delimited) (auto simp: field_ok_def)
  moreover from this have "v = w \<and> r = s"
    using assms(1,2) f g def_tv def_tw
    by (auto simp: field_ok_def split: option.splits dest: length_prefixed_delimited)
  ultimately show ?thesis using f g by simp
qed

lemma canonical_field_delimited:
  assumes "field_ok f" and "field_ok g" and eq: "canonical_field f @ r = canonical_field g @ s"
  shows "f = g \<and> r = s"
proof (cases f; cases g)
  fix n v m w
  assume f: "f = (n, v)" and g: "g = (m, w)"
  obtain tv tw where tv: "canonical_field f = length_prefixed n @ tv"
    and tw: "canonical_field g = length_prefixed m @ tw"
    and def_tv: "tv = (case v of Some v \<Rightarrow> CHR 0x01 # length_prefixed v | None \<Rightarrow> [CHR 0x00])"
    and def_tw: "tw = (case w of Some v \<Rightarrow> CHR 0x01 # length_prefixed v | None \<Rightarrow> [CHR 0x00])"
    by (simp add: canonical_field_def f g split: option.splits)
  have "n = m \<and> tv @ r = tw @ s"
    using assms tv tw f g by (intro length_prefixed_delimited) (auto simp: field_ok_def)
  moreover from this have "v = w \<and> r = s"
    using assms(1,2) f g def_tv def_tw
    by (auto simp: field_ok_def split: option.splits dest: length_prefixed_delimited)
  ultimately show ?thesis using f g by simp
qed

interpretation components: prefix_code length_prefixed addressable
  by unfold_locales (simp, rule length_prefixed_delimited)

interpretation identity_fields: prefix_code push_field field_ok
  by unfold_locales (simp add: push_field_def, rule push_field_delimited)

interpretation fingerprint_fields: prefix_code canonical_field field_ok
  by unfold_locales (simp add: canonical_field_def, rule canonical_field_delimited)

lemma canonical_stream_inject:
  assumes "addressable d" and "addressable d'"
    and "list_all field_ok fs" and "list_all field_ok gs"
    and "canonical_stream d fs = canonical_stream d' gs"
  shows "d = d' \<and> fs = gs"
proof -
  have "d = d' \<and> concat (map canonical_field fs) = concat (map canonical_field gs)"
    using assms by (intro length_prefixed_delimited) (auto simp: canonical_stream_def)
  then show ?thesis
    using assms(3,4) fingerprint_fields.stream_inject by blast
qed

lemma hex_sha256_shape:
  assumes "sha256_total L"
  shows "length (hex_sha256 L s) = 64 \<and> list_all is_lower_hex_byte (hex_sha256 L s)"
  using assms by (simp add: hex_sha256_def length_hex_string hex_string_lower sha256_total_def)

end
