(* ===== verification/Vault_Path.thy ===== *)
theory Vault_Path
  imports Encoding
begin

text \<open>
  \<open>myvault-core/src/path.rs\<close>: the portable vault-relative path every other component uses
  as a name. \<open>from_portable\<close> and \<open>from_native\<close> are the only constructors; the theory shows
  that they establish the canonical form, that the canonical form is a fixed point, and that
  the two constructors agree on a Unix host.
\<close>

section \<open>Definitions\<close>

datatype core_error = InvalidRelativePath string

datatype vault_path = VaultPath (as_str: string)

datatype vault_path_class = Content | ObsidianMetadata | Trash

definition MAX_COMPONENT_BYTES :: nat where "MAX_COMPONENT_BYTES = 255"
definition MAX_COMPONENT_UTF16_UNITS :: nat where "MAX_COMPONENT_UTF16_UNITS = 255"
definition MAX_PATH_BYTES :: nat where "MAX_PATH_BYTES = 4096"
definition MAX_PATH_UTF16_UNITS :: nat where "MAX_PATH_UTF16_UNITS = 4096"

lemmas path_limits =
  MAX_COMPONENT_BYTES_def MAX_COMPONENT_UTF16_UNITS_def MAX_PATH_BYTES_def MAX_PATH_UTF16_UNITS_def

text \<open>
  \<open>str::to_uppercase\<close>, exact on every character whose upper case is spelled in ASCII: the
  ASCII letters, dotless i, long s, sharp s and the Latin ligatures. Every other character
  has an upper case with a non-ASCII character in it; the model keeps it as it is, which
  compares the same with the reserved names below.
\<close>

definition upper_char :: "string \<Rightarrow> string" where
  "upper_char g =
     (if length g = 1 \<and> is_ascii_lowercase (hd g) then [char_of (byte (hd g) - 32)]
      else if g = [CHR 0xC4, CHR 0xB1] then ''I''
      else if g = [CHR 0xC5, CHR 0xBF] then ''S''
      else if g = [CHR 0xC3, CHR 0x9F] then ''SS''
      else if g = [CHR 0xEF, CHR 0xAC, CHR 0x80] then ''FF''
      else if g = [CHR 0xEF, CHR 0xAC, CHR 0x81] then ''FI''
      else if g = [CHR 0xEF, CHR 0xAC, CHR 0x82] then ''FL''
      else if g = [CHR 0xEF, CHR 0xAC, CHR 0x83] then ''FFI''
      else if g = [CHR 0xEF, CHR 0xAC, CHR 0x84] then ''FFL''
      else if g = [CHR 0xEF, CHR 0xAC, CHR 0x85] then ''ST''
      else if g = [CHR 0xEF, CHR 0xAC, CHR 0x86] then ''ST''
      else g)"

definition to_uppercase :: "string \<Rightarrow> string" where
  "to_uppercase s = concat (map upper_char (utf8_chars s))"

definition reserved_numbered_name :: "string \<Rightarrow> string \<Rightarrow> bool" where
  "reserved_numbered_name value pre =
     (case strip_prefix value pre of
        None \<Rightarrow> False
      | Some suffix \<Rightarrow> suffix \<in> set
          [''1'', ''2'', ''3'', ''4'', ''5'', ''6'', ''7'', ''8'', ''9'',
           [CHR 0xC2, CHR 0xB9], [CHR 0xC2, CHR 0xB2], [CHR 0xC2, CHR 0xB3]])"

definition is_windows_reserved_name :: "string \<Rightarrow> bool" where
  "is_windows_reserved_name stem =
     (let uppercase = to_uppercase stem in
        uppercase \<in> set [''CON'', ''PRN'', ''AUX'', ''NUL'', ''CONIN$'', ''CONOUT$'', ''CLOCK$'']
        \<or> reserved_numbered_name uppercase ''COM''
        \<or> reserved_numbered_name uppercase ''LPT'')"

definition forbidden_byte :: "char \<Rightarrow> bool" where
  "forbidden_byte c =
     (c \<in> set [CHR ''<'', CHR ''>'', CHR '':'', CHR 0x22, CHR ''|'', CHR ''?'', CHR ''*'', CHR 0x5C])"

definition is_portable_component :: "string \<Rightarrow> bool" where
  "is_portable_component component =
     (if length component > MAX_COMPONENT_BYTES
         \<or> utf16_len component > MAX_COMPONENT_UTF16_UNITS
         \<or> ends_with_byte component CHR ''.'' \<or> ends_with_byte component CHR '' ''
         \<or> contains_control component \<or> list_ex forbidden_byte component
      then False
      else \<not> is_windows_reserved_name (hd (split_on CHR ''.'' component)))"

definition from_components :: "string list \<Rightarrow> string \<Rightarrow> core_error + vault_path" where
  "from_components components original =
     (if components = [] then Inl (InvalidRelativePath original)
      else let canonical = join_with ''/'' components in
        if length canonical > MAX_PATH_BYTES \<or> utf16_len canonical > MAX_PATH_UTF16_UNITS
        then Inl (InvalidRelativePath original)
        else Inr (VaultPath canonical))"

text \<open>The loop of \<open>from_portable\<close> over \<open>value.split('/')\<close>.\<close>

fun collect_components :: "string \<Rightarrow> string list \<Rightarrow> core_error + string list" where
  "collect_components original [] = Inr []"
| "collect_components original (c # cs) =
     (if c = [] \<or> c = ''.'' then collect_components original cs
      else if c = ''..'' \<or> \<not> is_portable_component c then Inl (InvalidRelativePath original)
      else and_then (collect_components original cs) (\<lambda>rest. Inr (c # rest)))"

definition from_portable :: "string \<Rightarrow> core_error + vault_path" where
  "from_portable value =
     (if value = [] \<or> starts_with value ''/'' \<or> starts_with value ''./'' \<or> CHR 0x5C \<in> set value
      then Inl (InvalidRelativePath value)
      else and_then (collect_components value (split_on CHR ''/'' value))
             (\<lambda>components. from_components components value))"

text \<open>
  \<open>std::path::Path\<close> on a Unix host: a component iterator that drops repeated separators and
  every \<open>.\<close> but a leading one.
\<close>

datatype native_component = Normal string | CurDir | ParentDir | RootDir

definition classify_piece :: "string \<Rightarrow> native_component option" where
  "classify_piece p =
     (if p = [] \<or> p = ''.'' then None else if p = ''..'' then Some ParentDir else Some (Normal p))"

definition unix_components :: "string \<Rightarrow> native_component list" where
  "unix_components path =
     (let pieces = split_on CHR ''/'' path in
      (if starts_with path ''/'' then [RootDir] else if hd pieces = ''.'' then [CurDir] else [])
      @ List.map_filter classify_piece pieces)"

fun collect_native :: "string \<Rightarrow> nat \<Rightarrow> native_component list \<Rightarrow> core_error + string list" where
  "collect_native original index [] = Inr []"
| "collect_native original index (Normal value # cs) =
     (if \<not> valid_utf8 value then Inl (InvalidRelativePath original)
      else if \<not> is_portable_component value then Inl (InvalidRelativePath original)
      else and_then (collect_native original (Suc index) cs) (\<lambda>rest. Inr (value # rest)))"
| "collect_native original index (CurDir # cs) =
     (if index > 0 then collect_native original (Suc index) cs
      else Inl (InvalidRelativePath original))"
| "collect_native original index (_ # cs) = Inl (InvalidRelativePath original)"

definition from_native :: "string \<Rightarrow> core_error + vault_path" where
  "from_native path =
     (if path = [] \<or> starts_with path ''/'' then Inl (InvalidRelativePath path)
      else and_then (collect_native path 0 (unix_components path))
             (\<lambda>components. from_components components path))"

definition component_collision_key :: "libs \<Rightarrow> string \<Rightarrow> string" where
  "component_collision_key L component = nfkc_casefold_nfkc L component"

definition collision_key :: "libs \<Rightarrow> vault_path \<Rightarrow> string" where
  "collision_key L p =
     join_with ''/'' (map (component_collision_key L) (split_on CHR ''/'' (as_str p)))"

definition classify_component :: "libs \<Rightarrow> string \<Rightarrow> vault_path_class" where
  "classify_component L component =
     (let key = component_collision_key L component in
      if key = ''.obsidian'' then ObsidianMetadata
      else if key = ''.trash'' then Trash
      else Content)"

definition classify :: "libs \<Rightarrow> vault_path \<Rightarrow> vault_path_class" where
  "classify L p = classify_component L (hd (split_on CHR ''/'' (as_str p)))"

definition is_obsidian_metadata :: "libs \<Rightarrow> vault_path \<Rightarrow> bool" where
  "is_obsidian_metadata L p = (classify L p = ObsidianMetadata)"

section \<open>The canonical form\<close>

text \<open>What a stored path looks like, stated on the string alone.\<close>

definition canonical_component :: "string \<Rightarrow> bool" where
  "canonical_component c = (c \<noteq> [] \<and> c \<noteq> ''.'' \<and> c \<noteq> ''..'' \<and> is_portable_component c)"

definition canonical_path :: "string \<Rightarrow> bool" where
  "canonical_path s =
     (list_all canonical_component (split_on CHR ''/'' s)
      \<and> length s \<le> MAX_PATH_BYTES \<and> utf16_len s \<le> MAX_PATH_UTF16_UNITS)"

lemma portable_no_backslash: "is_portable_component c \<Longrightarrow> CHR 0x5C \<notin> set c"
  by (auto simp: is_portable_component_def forbidden_byte_def list_ex_iff split: if_splits)

lemma collect_components_Inr:
  "collect_components original cs = Inr ps \<longleftrightarrow>
     ps = filter (\<lambda>c. c \<noteq> [] \<and> c \<noteq> ''.'') cs \<and>
     list_all (\<lambda>c. c = [] \<or> c = ''.'' \<or> canonical_component c) cs"
  by (induction cs arbitrary: ps) (auto simp: canonical_component_def split: if_splits)

lemma from_components_Inr:
  "from_components ps original = Inr p \<longleftrightarrow>
     ps \<noteq> [] \<and> p = VaultPath (join_with ''/'' ps)
     \<and> length (as_str p) \<le> MAX_PATH_BYTES \<and> utf16_len (as_str p) \<le> MAX_PATH_UTF16_UNITS"
  by (auto simp: from_components_def Let_def split: if_splits)

lemma join_canonical:
  assumes "ps \<noteq> []" and "list_all canonical_component ps" and "\<forall>p \<in> set ps. CHR ''/'' \<notin> set p"
  shows "split_on CHR ''/'' (join_with ''/'' ps) = ps"
  using assms by (simp add: split_join)

lemma canonical_head:
  assumes "canonical_path s"
  shows "s \<noteq> [] \<and> \<not> starts_with s ''/'' \<and> \<not> starts_with s ''./'' \<and> CHR 0x5C \<notin> set s"
proof (intro conjI)
  let ?ps = "split_on CHR ''/'' s"
  have all: "list_all canonical_component ?ps"
    using assms by (simp add: canonical_path_def)
  have s: "s = join_with ''/'' ?ps" by (simp add: join_split)
  obtain p ps where ps: "?ps = p # ps" by (cases ?ps) auto
  with all have p: "p \<noteq> []" "p \<noteq> ''.''" by (auto simp: canonical_component_def)
  have sep: "CHR ''/'' \<notin> set p" using split_on_pieces [of p "CHR ''/''" s] ps by simp
  have pre: "\<exists>t. s = p @ t" using s ps by (cases ps) auto
  show "s \<noteq> []" using pre p by auto
  show "\<not> starts_with s ''/''"
    using pre p sep by (cases p) (auto simp: starts_with_def)
  show "\<not> starts_with s ''./''"
  proof
    assume "starts_with s ''./''"
    then obtain t where "s = CHR ''.'' # CHR ''/'' # t"
      by (auto simp: starts_with_def) (metis append_Cons append_Nil append_take_drop_id)
    then have "?ps = ''.'' # split_on CHR ''/'' t" by (auto split: list.splits)
    with ps p show False by simp
  qed
  have "\<forall>c \<in> set ?ps. CHR 0x5C \<notin> set c"
    using all portable_no_backslash by (auto simp: list_all_iff canonical_component_def)
  then show "CHR 0x5C \<notin> set s"
    using set_join_with [of "''/''" ?ps] s by auto
qed

lemma from_portable_canonical:
  assumes "canonical_path s"
  shows "from_portable s = Inr (VaultPath s)"
proof -
  let ?ps = "split_on CHR ''/'' s"
  have all: "list_all canonical_component ?ps" using assms by (simp add: canonical_path_def)
  then have flt: "filter (\<lambda>c. c \<noteq> [] \<and> c \<noteq> ''.'') ?ps = ?ps"
    by (simp add: filter_id_conv list_all_iff canonical_component_def)
  have "collect_components s ?ps = Inr ?ps"
    using all flt by (simp add: collect_components_Inr list_all_iff)
  moreover have "from_components ?ps s = Inr (VaultPath s)"
    using assms by (simp add: from_components_Inr join_split canonical_path_def)
  ultimately show ?thesis
    using canonical_head [OF assms] by (simp add: from_portable_def)
qed

lemma from_portable_canonicalises:
  assumes "from_portable s = Inr p"
  shows "canonical_path (as_str p)"
proof -
  let ?ps = "filter (\<lambda>c. c \<noteq> [] \<and> c \<noteq> ''.'') (split_on CHR ''/'' s)"
  from assms have ps: "list_all (\<lambda>c. c = [] \<or> c = ''.'' \<or> canonical_component c) (split_on CHR ''/'' s)"
    and p: "?ps \<noteq> []" "p = VaultPath (join_with ''/'' ?ps)"
      "length (as_str p) \<le> MAX_PATH_BYTES" "utf16_len (as_str p) \<le> MAX_PATH_UTF16_UNITS"
    by (auto simp: from_portable_def collect_components_Inr from_components_Inr split: if_splits)
  have "list_all canonical_component ?ps"
    using ps by (auto simp: list_all_iff)
  moreover have "split_on CHR ''/'' (as_str p) = ?ps"
    using p calculation split_on_pieces by (auto simp del: filter_empty_conv intro!: join_canonical)
  ultimately show ?thesis
    using p by (simp add: canonical_path_def)
qed

lemma from_portable_Inr_iff: "from_portable s = Inr (VaultPath s) \<longleftrightarrow> canonical_path s"
  using from_portable_canonical from_portable_canonicalises by fastforce

section \<open>The native constructor\<close>

lemma collect_components_error:
  "collect_components original cs = Inl e \<Longrightarrow> e = InvalidRelativePath original"
  by (induction cs) (auto simp: and_then_eq_Inl split: if_splits)

lemma collect_backslash:
  assumes "CHR 0x5C \<in> set s"
  shows "collect_components original (split_on CHR ''/'' s) = Inl (InvalidRelativePath original)"
proof (cases "collect_components original (split_on CHR ''/'' s)")
  case (Inl e)
  with collect_components_error show ?thesis by blast
next
  case (Inr ps)
  have "CHR 0x5C \<notin> set c" if "c \<in> set (split_on CHR ''/'' s)" for c
  proof -
    have "c = [] \<or> c = ''.'' \<or> canonical_component c"
      using Inr that by (simp add: collect_components_Inr list_all_iff)
    then show ?thesis
      using portable_no_backslash by (auto simp: canonical_component_def)
  qed
  then have "CHR 0x5C \<notin> set (join_with ''/'' (split_on CHR ''/'' s))"
    using set_join_with [of "''/''" "split_on CHR ''/'' s"] by auto
  then have "CHR 0x5C \<notin> set s" by (simp add: join_split)
  with assms show ?thesis by simp
qed

lemma collect_native_pieces:
  "\<forall>p \<in> set pieces. valid_utf8 p \<Longrightarrow>
   collect_native original index (List.map_filter classify_piece pieces)
     = collect_components original pieces"
proof (induction pieces arbitrary: index)
  case Nil
  then show ?case by (simp add: List.map_filter_def)
next
  case (Cons p ps)
  have "List.map_filter classify_piece (p # ps) =
      (case classify_piece p of None \<Rightarrow> [] | Some c \<Rightarrow> [c]) @ List.map_filter classify_piece ps"
    by (simp add: List.map_filter_def split: option.splits)
  with Cons show ?case by (auto simp: classify_piece_def)
qed

lemma hd_split_dot: "hd (split_on CHR ''/'' s) = ''.'' \<longleftrightarrow> s = ''.'' \<or> starts_with s ''./''"
proof (cases s)
  case (Cons a t)
  then show ?thesis
    by (cases t) (auto simp: starts_with_def split: list.splits if_splits)
qed (simp add: starts_with_def)

lemma from_native_portable:
  assumes "valid_utf8 s"
  shows "from_native s = from_portable s"
proof (cases "s = [] \<or> starts_with s ''/''")
  case True
  then show ?thesis by (auto simp: from_native_def from_portable_def)
next
  case False
  let ?ps = "split_on CHR ''/'' s"
  have valid: "\<forall>p \<in> set ?ps. valid_utf8 p"
    using valid_utf8_split_on [of "CHR ''/''", OF _ assms] by (simp add: byte_def)
  show ?thesis
  proof (cases "hd ?ps = ''.''")
    case True
    then have "from_native s = Inl (InvalidRelativePath s)"
      using False by (simp add: from_native_def unix_components_def)
    moreover have "from_portable s = Inl (InvalidRelativePath s)"
      using True hd_split_dot [of s] by (auto simp: from_portable_def from_components_def)
    ultimately show ?thesis by simp
  next
    case nodot: False
    then have "\<not> starts_with s ''./''" using hd_split_dot [of s] by simp
    then show ?thesis
      using False nodot collect_backslash [of s s] collect_native_pieces [OF valid]
      by (simp add: from_native_def from_portable_def unix_components_def)
  qed
qed

end
