(* ===== verification/Remote_Model.thy ===== *)
theory Remote_Model
  imports Vault_Path
begin

text \<open>
  \<open>myvault-sync-engine/src/lib.rs\<close>: the engine's error type, the remote metadata it accepts
  from a provider and the validators every durable record goes through.
\<close>

section \<open>Errors\<close>

datatype remote_error = RemoteError (remote_code: string)

datatype error =
    Io string
  | PrivateStorage string
  | Database string
  | InvalidVaultId
  | InvalidRemoteId
  | InvalidRemoteToken
  | InvalidRemoteEntry
  | InvalidPortablePath
  | InvalidRevision
  | InvalidTimestamp
  | InvalidErrorCode
  | SyncLeaseHeld
  | BindingCollision
  | BindingIdentityMismatch
  | BindingRequiresAccount
  | InvalidStateTransition
  | InvalidSchema
  | UnsupportedSchema int
  | QueueCollision
  | JobNotFound
  | InvalidTransferEvidence
  | TransferCollision
  | TransferNotFound
  | CursorMismatch
  | RescanRequired
  | InvalidPreviewCursor
  | InvalidPreviewLimit
  | BatchAlreadyActive
  | NoActiveBatch
  | UnknownMutation
  | LocalMutationIncomplete
  | MutationNeedsReconcile
  | MutationNotFound
  | MutationCollision
  | MutationStateVersionMismatch
  | UnsupportedTransferChange
  | TransferChangeMismatch
  | Remote remote_error

definition MAX_SCAN_PAGE_ENTRIES :: nat where "MAX_SCAN_PAGE_ENTRIES = 1000"
definition MAX_SCAN_FRONTIER_FOLDERS :: nat where "MAX_SCAN_FRONTIER_FOLDERS = 5000"

section \<open>Validators\<close>

definition remote_id_byte :: "char \<Rightarrow> bool" where
  "remote_id_byte b = (is_ascii_alphanumeric b \<or> b \<in> set [CHR ''-'', CHR ''_'', CHR ''.''])"

definition private_reference_byte :: "char \<Rightarrow> bool" where
  "private_reference_byte b =
     (is_ascii_lowercase b \<or> is_ascii_digit b \<or> b \<in> set [CHR ''-'', CHR ''_'', CHR ''.''])"

definition validate_remote_id :: "string \<Rightarrow> error + unit" where
  "validate_remote_id value =
     (if (1 \<le> length value \<and> length value \<le> 512) \<and> list_all remote_id_byte value
      then Inr () else Inl InvalidRemoteId)"

definition validate_remote_token :: "string \<Rightarrow> error + unit" where
  "validate_remote_token value =
     (if (1 \<le> length value \<and> length value \<le> 4096) \<and> \<not> list_ex is_ascii_control value
      then Inr () else Inl InvalidRemoteToken)"

definition validate_content_path :: "libs \<Rightarrow> string \<Rightarrow> error + unit" where
  "validate_content_path L value =
     and_then (map_err (\<lambda>_. InvalidPortablePath) (from_portable value)) (\<lambda>path.
       let key = collision_key L path;
           protected = hd (split_on CHR ''/'' key) \<in> set [''.obsidian'', ''.trash'']
       in if as_str path \<noteq> value \<or> is_obsidian_metadata L path \<or> protected
          then Inl InvalidPortablePath else Inr ())"

definition is_valid_sync_content_path :: "libs \<Rightarrow> string \<Rightarrow> bool" where
  "is_valid_sync_content_path L value = is_ok (validate_content_path L value)"

definition is_lower_hex_hash :: "string \<Rightarrow> bool" where
  "is_lower_hex_hash value = (length value = 64 \<and> list_all is_lower_hex_byte value)"

definition validate_revision :: "string \<Rightarrow> error + unit" where
  "validate_revision value = (if is_lower_hex_hash value then Inr () else Inl InvalidRevision)"

definition validate_redacted_code :: "string \<Rightarrow> error + unit" where
  "validate_redacted_code value =
     (if (1 \<le> length value \<and> length value \<le> 128) \<and> list_all remote_id_byte value
      then Inr () else Inl InvalidErrorCode)"

definition validate_private_reference :: "string \<Rightarrow> error + unit" where
  "validate_private_reference value =
     (if (1 \<le> length value \<and> length value \<le> 256) \<and> list_all private_reference_byte value
         \<and> value \<notin> set [''.'', ''..'']
      then Inr () else Inl InvalidTransferEvidence)"

definition u64_to_i64 :: "u64 \<Rightarrow> error + int" where
  "u64_to_i64 value = (if fits_i64 value then Inr (uint value) else Inl InvalidTimestamp)"

lemmas validator_defs =
  validate_remote_id_def validate_remote_token_def validate_revision_def
  validate_redacted_code_def validate_private_reference_def u64_to_i64_def

section \<open>Remote metadata\<close>

definition remote_error_new :: "string \<Rightarrow> error + remote_error" where
  "remote_error_new code = and_then (validate_redacted_code code) (\<lambda>_. Inr (RemoteError code))"

datatype remote_entry_kind = File | Folder

datatype remote_hash_algorithm = Md5 | Sha1 | Sha256

fun hash_algorithm_as_str :: "remote_hash_algorithm \<Rightarrow> string" where
  "hash_algorithm_as_str Md5 = ''md5''"
| "hash_algorithm_as_str Sha1 = ''sha1''"
| "hash_algorithm_as_str Sha256 = ''sha256''"

fun expected_hex_len :: "remote_hash_algorithm \<Rightarrow> nat" where
  "expected_hex_len Md5 = 32"
| "expected_hex_len Sha1 = 40"
| "expected_hex_len Sha256 = 64"

record remote_content_hash =
  algorithm :: remote_hash_algorithm
  hex :: string

definition remote_content_hash_validate :: "remote_content_hash \<Rightarrow> error + unit" where
  "remote_content_hash_validate h =
     (if length (hex h) \<noteq> expected_hex_len (algorithm h) \<or> \<not> list_all is_lower_hex_byte (hex h)
      then Inl InvalidRemoteEntry else Inr ())"

definition remote_content_hash_new ::
    "remote_hash_algorithm \<Rightarrow> string \<Rightarrow> error + remote_content_hash" where
  "remote_content_hash_new alg h =
     (let value = \<lparr>algorithm = alg, hex = h\<rparr> in
      and_then (remote_content_hash_validate value) (\<lambda>_. Inr value))"

record remote_entry =
  re_file_id :: string
  re_parent_id :: string
  re_path :: string
  re_kind :: remote_entry_kind
  re_content_hash :: "remote_content_hash option"
  re_remote_revision :: string

definition remote_entry_validate :: "libs \<Rightarrow> remote_entry \<Rightarrow> error + unit" where
  "remote_entry_validate L e =
     and_then (validate_remote_id (re_file_id e)) (\<lambda>_.
     and_then (validate_remote_id (re_parent_id e)) (\<lambda>_.
     and_then (validate_content_path L (re_path e)) (\<lambda>_.
     and_then (validate_remote_token (re_remote_revision e)) (\<lambda>_.
     and_then (case re_content_hash e of
                 Some hash \<Rightarrow> remote_content_hash_validate hash
               | None \<Rightarrow> Inr ()) (\<lambda>_.
     if re_kind e = Folder \<and> re_content_hash e \<noteq> None then Inl InvalidRemoteEntry else Inr ())))))"

definition validate_entries :: "libs \<Rightarrow> remote_entry list \<Rightarrow> error + unit" where
  "validate_entries L entries = for_each (remote_entry_validate L) entries"

record scan_page =
  sp_entries :: "remote_entry list"
  sp_next_page_token :: "string option"

definition scan_page_validate :: "libs \<Rightarrow> scan_page \<Rightarrow> error + unit" where
  "scan_page_validate L page =
     (if length (sp_entries page) > MAX_SCAN_PAGE_ENTRIES then Inl InvalidRemoteEntry
      else and_then (validate_entries L (sp_entries page)) (\<lambda>_.
        case sp_next_page_token page of
          Some token \<Rightarrow> validate_remote_token token
        | None \<Rightarrow> Inr ()))"

datatype remote_change = Upsert remote_entry | Removed string

fun remote_change_validate :: "libs \<Rightarrow> remote_change \<Rightarrow> error + unit" where
  "remote_change_validate L (Upsert entry) = remote_entry_validate L entry"
| "remote_change_validate L (Removed file_id) = validate_remote_id file_id"

record changes_page =
  cp_changes :: "remote_change list"
  cp_next_page_token :: "string option"
  cp_new_start_page_token :: "string option"

definition changes_page_validate :: "libs \<Rightarrow> changes_page \<Rightarrow> error + unit" where
  "changes_page_validate L page =
     and_then (for_each (remote_change_validate L) (cp_changes page)) (\<lambda>_.
       case (cp_next_page_token page, cp_new_start_page_token page) of
         (Some next, None) \<Rightarrow> validate_remote_token next
       | (None, Some start) \<Rightarrow> validate_remote_token start
       | _ \<Rightarrow> Inl InvalidRemoteEntry)"

record verified_remote_binding =
  vb_account_id :: string
  vb_remote_root_id :: string

definition verified_remote_binding_new ::
    "string \<Rightarrow> string \<Rightarrow> string \<Rightarrow> string \<Rightarrow> error + verified_remote_binding" where
  "verified_remote_binding_new requested_account requested_root observed_account observed_root =
     and_then (validate_remote_id requested_account) (\<lambda>_.
     and_then (validate_remote_id requested_root) (\<lambda>_.
     and_then (validate_remote_id observed_account) (\<lambda>_.
     and_then (validate_remote_id observed_root) (\<lambda>_.
     if requested_account \<noteq> observed_account \<or> requested_root \<noteq> observed_root
     then Inl BindingIdentityMismatch
     else Inr \<lparr>vb_account_id = requested_account, vb_remote_root_id = requested_root\<rparr>))))"

record scan_request =
  sr_folder_id :: string
  sr_folder_path :: string
  sr_page_token :: "string option"

datatype sync_phase = NeedStartToken | Scanning | Draining | Ready

fun sync_phase_as_str :: "sync_phase \<Rightarrow> string" where
  "sync_phase_as_str NeedStartToken = ''need_start_token''"
| "sync_phase_as_str Scanning = ''scanning''"
| "sync_phase_as_str Draining = ''draining''"
| "sync_phase_as_str Ready = ''ready''"

definition sync_phase_parse :: "string \<Rightarrow> error + sync_phase" where
  "sync_phase_parse value =
     (if value = ''need_start_token'' then Inr NeedStartToken
      else if value = ''scanning'' then Inr Scanning
      else if value = ''draining'' then Inr Draining
      else if value = ''ready'' then Inr Ready
      else Inl InvalidSchema)"

section \<open>Lemmas\<close>

interpretation sync_phase_wire: wire_enum sync_phase_as_str sync_phase_parse
proof unfold_locales
  show "sync_phase_parse (sync_phase_as_str x) = Inr x" for x
    by (cases x) (simp_all add: sync_phase_parse_def)
  show "sync_phase_as_str x = s" if "sync_phase_parse s = Inr x" for s x
    using that by (auto simp: sync_phase_parse_def split: if_splits)
qed

lemma validate_remote_id_bound: "validate_remote_id s = Inr u \<Longrightarrow> length s \<le> 512"
  by (auto simp: validate_remote_id_def split: if_splits)

lemma validate_content_path_Inr:
  "validate_content_path L s = Inr u \<longleftrightarrow>
     canonical_path s \<and> classify L (VaultPath s) \<noteq> ObsidianMetadata
     \<and> hd (split_on CHR ''/'' (collision_key L (VaultPath s))) \<notin> {''.obsidian'', ''.trash''}"
  (is "?lhs \<longleftrightarrow> ?rhs")
proof
  assume ?lhs
  then obtain p where p: "from_portable s = Inr p" "as_str p = s"
    and rest: "\<not> is_obsidian_metadata L p"
      "hd (split_on CHR ''/'' (collision_key L p)) \<notin> set [''.obsidian'', ''.trash'']"
    by (auto simp: validate_content_path_def Let_def split: if_splits)
  have "p = VaultPath s" using p(2) by (cases p) simp
  with p rest show ?rhs
    by (auto simp: from_portable_Inr_iff is_obsidian_metadata_def)
next
  assume ?rhs
  then show ?lhs
    by (auto simp: validate_content_path_def from_portable_canonical is_obsidian_metadata_def)
qed

text \<open>
  When the fold of no component introduces a separator, the protected roots are exactly the
  ones the path classification knows.
\<close>

lemma hd_split_collision_key:
  assumes "CHR ''/'' \<notin> set (component_collision_key L (hd (split_on CHR ''/'' s)))"
  shows "hd (split_on CHR ''/'' (collision_key L (VaultPath s)))
       = component_collision_key L (hd (split_on CHR ''/'' s))"
proof (cases "split_on CHR ''/'' s")
  case (Cons p ps)
  then show ?thesis
    using assms
    by (cases ps) (auto simp: collision_key_def split_on_no_sep split_on_append_sep)
qed simp

end
