(* ===== verification/Mutation_Records.thy ===== *)
theory Mutation_Records
  imports Remote_Model
begin

text \<open>
  The durable R3.1 records of \<open>myvault-sync-engine/src/store.rs\<close>: mutation intents, states,
  verification evidence, conflict evidence, their fingerprints and their validators.
\<close>

section \<open>Enumerations\<close>

datatype mutation_operation_kind =
    LocalPublish | MergePublish | ConflictCopyPublish | BasePublish | RemoteExistingBlocked

datatype mutation_phase =
    IntentDurable | Running | RetryScheduled | NeedsReconcilePhase | Completed

datatype mutation_disposition =
    VerifiedApplied | VerifiedNotApplied | RetrySafe | NeedsReconcileDisposition

datatype mutation_retry_mode = RestartExact | ResumeExact

datatype capture_phase = Preflight | PostVerify | Reconcile

datatype dependency_kind =
    Mutation | MergePublication | ConflictCopyPublication | BasePublication

fun operation_kind_as_str :: "mutation_operation_kind \<Rightarrow> string" where
  "operation_kind_as_str LocalPublish = ''local_publish''"
| "operation_kind_as_str MergePublish = ''merge_publish''"
| "operation_kind_as_str ConflictCopyPublish = ''conflict_copy_publish''"
| "operation_kind_as_str BasePublish = ''base_publish''"
| "operation_kind_as_str RemoteExistingBlocked = ''remote_existing_blocked''"

definition operation_kind_parse :: "string \<Rightarrow> error + mutation_operation_kind" where
  "operation_kind_parse value =
     (if value = ''local_publish'' then Inr LocalPublish
      else if value = ''merge_publish'' then Inr MergePublish
      else if value = ''conflict_copy_publish'' then Inr ConflictCopyPublish
      else if value = ''base_publish'' then Inr BasePublish
      else if value = ''remote_existing_blocked'' then Inr RemoteExistingBlocked
      else Inl InvalidSchema)"

fun mutation_phase_as_str :: "mutation_phase \<Rightarrow> string" where
  "mutation_phase_as_str IntentDurable = ''intent_durable''"
| "mutation_phase_as_str Running = ''running''"
| "mutation_phase_as_str RetryScheduled = ''retry_scheduled''"
| "mutation_phase_as_str NeedsReconcilePhase = ''needs_reconcile''"
| "mutation_phase_as_str Completed = ''completed''"

definition mutation_phase_parse :: "string \<Rightarrow> error + mutation_phase" where
  "mutation_phase_parse value =
     (if value = ''intent_durable'' then Inr IntentDurable
      else if value = ''running'' then Inr Running
      else if value = ''retry_scheduled'' then Inr RetryScheduled
      else if value = ''needs_reconcile'' then Inr NeedsReconcilePhase
      else if value = ''completed'' then Inr Completed
      else Inl InvalidSchema)"

fun disposition_as_str :: "mutation_disposition \<Rightarrow> string" where
  "disposition_as_str VerifiedApplied = ''verified_applied''"
| "disposition_as_str VerifiedNotApplied = ''verified_not_applied''"
| "disposition_as_str RetrySafe = ''retry_safe''"
| "disposition_as_str NeedsReconcileDisposition = ''needs_reconcile''"

definition disposition_parse :: "string \<Rightarrow> error + mutation_disposition" where
  "disposition_parse value =
     (if value = ''verified_applied'' then Inr VerifiedApplied
      else if value = ''verified_not_applied'' then Inr VerifiedNotApplied
      else if value = ''retry_safe'' then Inr RetrySafe
      else if value = ''needs_reconcile'' then Inr NeedsReconcileDisposition
      else Inl InvalidSchema)"

fun retry_mode_as_str :: "mutation_retry_mode \<Rightarrow> string" where
  "retry_mode_as_str RestartExact = ''restart_exact''"
| "retry_mode_as_str ResumeExact = ''resume_exact''"

definition retry_mode_parse :: "string \<Rightarrow> error + mutation_retry_mode" where
  "retry_mode_parse value =
     (if value = ''restart_exact'' then Inr RestartExact
      else if value = ''resume_exact'' then Inr ResumeExact
      else Inl InvalidSchema)"

fun capture_phase_as_str :: "capture_phase \<Rightarrow> string" where
  "capture_phase_as_str Preflight = ''preflight''"
| "capture_phase_as_str PostVerify = ''post_verify''"
| "capture_phase_as_str Reconcile = ''reconcile''"

fun dependency_kind_as_str :: "dependency_kind \<Rightarrow> string" where
  "dependency_kind_as_str Mutation = ''mutation''"
| "dependency_kind_as_str MergePublication = ''merge_publication''"
| "dependency_kind_as_str ConflictCopyPublication = ''conflict_copy_publication''"
| "dependency_kind_as_str BasePublication = ''base_publication''"

fun required_operation_kind :: "dependency_kind \<Rightarrow> mutation_operation_kind" where
  "required_operation_kind Mutation = LocalPublish"
| "required_operation_kind MergePublication = MergePublish"
| "required_operation_kind ConflictCopyPublication = ConflictCopyPublish"
| "required_operation_kind BasePublication = BasePublish"

interpretation operation_kind_wire: wire_enum operation_kind_as_str operation_kind_parse
proof unfold_locales
  show "operation_kind_parse (operation_kind_as_str x) = Inr x" for x
    by (cases x) (simp_all add: operation_kind_parse_def)
  show "operation_kind_as_str x = s" if "operation_kind_parse s = Inr x" for s x
    using that by (auto simp: operation_kind_parse_def split: if_splits)
qed

interpretation mutation_phase_wire: wire_enum mutation_phase_as_str mutation_phase_parse
proof unfold_locales
  show "mutation_phase_parse (mutation_phase_as_str x) = Inr x" for x
    by (cases x) (simp_all add: mutation_phase_parse_def)
  show "mutation_phase_as_str x = s" if "mutation_phase_parse s = Inr x" for s x
    using that by (auto simp: mutation_phase_parse_def split: if_splits)
qed

interpretation disposition_wire: wire_enum disposition_as_str disposition_parse
proof unfold_locales
  show "disposition_parse (disposition_as_str x) = Inr x" for x
    by (cases x) (simp_all add: disposition_parse_def)
  show "disposition_as_str x = s" if "disposition_parse s = Inr x" for s x
    using that by (auto simp: disposition_parse_def split: if_splits)
qed

interpretation retry_mode_wire: wire_enum retry_mode_as_str retry_mode_parse
proof unfold_locales
  show "retry_mode_parse (retry_mode_as_str x) = Inr x" for x
    by (cases x) (simp_all add: retry_mode_parse_def)
  show "retry_mode_as_str x = s" if "retry_mode_parse s = Inr x" for s x
    using that by (auto simp: retry_mode_parse_def split: if_splits)
qed

section \<open>Records\<close>

record change_batch_dependency =
  dep_operation_id :: uuid
  dep_kind :: dependency_kind

record mutation_intent =
  mi_operation_id :: uuid
  mi_operation_kind :: mutation_operation_kind
  mi_account_id :: "string option"
  mi_remote_root_id :: "string option"
  mi_remote_file_id :: "string option"
  mi_source_parent_id :: "string option"
  mi_destination_parent_id :: "string option"
  mi_local_object_id :: "string option"
  mi_source_path :: "string option"
  mi_destination_path :: "string option"
  mi_expected_local_revision :: "string option"
  mi_expected_remote_revision :: "string option"
  mi_base_reference :: "string option"
  mi_base_local_revision :: "string option"
  mi_base_remote_revision :: "string option"
  mi_base_sha256 :: "string option"
  mi_base_byte_length :: "u64 option"
  mi_expected_local_sha256 :: "string option"
  mi_expected_local_byte_length :: "u64 option"
  mi_expected_remote_sha256 :: "string option"
  mi_expected_remote_byte_length :: "u64 option"
  mi_operation_marker :: string
  mi_intent_fingerprint :: string
  mi_registered_at_unix_ms :: u64

record mutation_state =
  st_operation_id :: uuid
  st_phase :: mutation_phase
  st_attempt_number :: u32
  st_state_version :: u64
  st_disposition :: "mutation_disposition option"
  st_next_attempt_at_unix_ms :: "u64 option"
  st_retry_mode :: "mutation_retry_mode option"
  st_resume_reference :: "string option"
  st_last_evidence_id :: "uuid option"
  st_outcome_code :: "string option"
  st_updated_at_unix_ms :: u64

record mutation_verification_evidence =
  ev_evidence_id :: uuid
  ev_operation_id :: uuid
  ev_attempt_number :: u32
  ev_capture_phase :: capture_phase
  ev_disposition :: mutation_disposition
  ev_outcome_code :: "string option"
  ev_observed_account_id :: "string option"
  ev_observed_remote_root_id :: "string option"
  ev_observed_remote_file_id :: "string option"
  ev_observed_parent_id :: "string option"
  ev_observed_path :: "string option"
  ev_observed_local_revision :: "string option"
  ev_observed_remote_revision :: "string option"
  ev_observed_sha256 :: "string option"
  ev_observed_byte_length :: "u64 option"
  ev_observed_operation_marker :: "string option"
  ev_forbidden_side_effect :: bool
  ev_verified_received_byte_offset :: "u64 option"
  ev_resume_reference :: "string option"
  ev_evidence_fingerprint :: string
  ev_captured_at_unix_ms :: u64

record conflict_evidence =
  ce_conflict_id :: string
  ce_operation_id :: uuid
  ce_stable_cell_id :: string
  ce_local_state_code :: string
  ce_remote_state_code :: string
  ce_content_class :: string
  ce_lineage_state :: string
  ce_classification_code :: string
  ce_ambiguity_reason :: string
  ce_evidence_sufficiency :: string
  ce_conflict_copy_operation_id :: "uuid option"
  ce_base_evidence_id :: "uuid option"
  ce_local_evidence_id :: "uuid option"
  ce_remote_evidence_id :: "uuid option"
  ce_base_sha256 :: "string option"
  ce_base_byte_length :: "u64 option"
  ce_local_sha256 :: "string option"
  ce_local_byte_length :: "u64 option"
  ce_remote_sha256 :: "string option"
  ce_remote_byte_length :: "u64 option"
  ce_naming_version :: string
  ce_normalized_collision_key :: string
  ce_target_parent_id :: string
  ce_expected_conflict_copy_sha256 :: "string option"
  ce_expected_conflict_copy_byte_length :: "u64 option"
  ce_explanation_code :: "string option"
  ce_device_alias :: "string option"
  ce_evidence_fingerprint :: string
  ce_captured_at_unix_ms :: u64

record mutation_event =
  me_event_id :: u64
  me_operation_id :: uuid
  me_attempt_number :: u32
  me_state_version :: u64
  me_phase :: mutation_phase
  me_disposition :: "mutation_disposition option"
  me_evidence_id :: "uuid option"
  me_outcome_code :: "string option"
  me_occurred_at_unix_ms :: u64

datatype mutation_outcome_transition =
    TransitionVerifiedApplied
  | TransitionVerifiedNotApplied u64
  | TransitionRetrySafe u64 string
  | TransitionNeedsReconcile

section \<open>Fingerprints\<close>

definition intent_fields :: "mutation_intent \<Rightarrow> (string \<times> string option) list" where
  "intent_fields i =
     [(''operation_kind'', Some (operation_kind_as_str (mi_operation_kind i))),
      (''account_id'', mi_account_id i),
      (''remote_root_id'', mi_remote_root_id i),
      (''remote_file_id'', mi_remote_file_id i),
      (''source_parent_id'', mi_source_parent_id i),
      (''destination_parent_id'', mi_destination_parent_id i),
      (''local_object_id'', mi_local_object_id i),
      (''source_path'', mi_source_path i),
      (''destination_path'', mi_destination_path i),
      (''expected_local_revision'', mi_expected_local_revision i),
      (''expected_remote_revision'', mi_expected_remote_revision i),
      (''base_reference'', mi_base_reference i),
      (''base_local_revision'', mi_base_local_revision i),
      (''base_remote_revision'', mi_base_remote_revision i),
      (''base_sha256'', mi_base_sha256 i),
      (''base_byte_length'', map_option u64_to_string (mi_base_byte_length i)),
      (''expected_local_sha256'', mi_expected_local_sha256 i),
      (''expected_local_byte_length'', map_option u64_to_string (mi_expected_local_byte_length i)),
      (''expected_remote_sha256'', mi_expected_remote_sha256 i),
      (''expected_remote_byte_length'', map_option u64_to_string (mi_expected_remote_byte_length i)),
      (''operation_marker'', Some (mi_operation_marker i))]"

definition intent_fingerprint :: "libs \<Rightarrow> mutation_intent \<Rightarrow> string" where
  "intent_fingerprint L i = canonical_fingerprint L ''r3-mutation-intent-v1'' (intent_fields i)"

definition evidence_fields ::
    "libs \<Rightarrow> mutation_verification_evidence \<Rightarrow> (string \<times> string option) list" where
  "evidence_fields L e =
     [(''operation_id'', Some (uuid_to_string L (ev_operation_id e))),
      (''attempt_number'', Some (u32_to_string (ev_attempt_number e))),
      (''capture_phase'', Some (capture_phase_as_str (ev_capture_phase e))),
      (''disposition'', Some (disposition_as_str (ev_disposition e))),
      (''outcome_code'', ev_outcome_code e),
      (''observed_account_id'', ev_observed_account_id e),
      (''observed_remote_root_id'', ev_observed_remote_root_id e),
      (''observed_remote_file_id'', ev_observed_remote_file_id e),
      (''observed_parent_id'', ev_observed_parent_id e),
      (''observed_path'', ev_observed_path e),
      (''observed_local_revision'', ev_observed_local_revision e),
      (''observed_remote_revision'', ev_observed_remote_revision e),
      (''observed_sha256'', ev_observed_sha256 e),
      (''observed_byte_length'', map_option u64_to_string (ev_observed_byte_length e)),
      (''observed_operation_marker'', ev_observed_operation_marker e),
      (''forbidden_side_effect'', Some (if ev_forbidden_side_effect e then ''1'' else ''0'')),
      (''verified_received_byte_offset'',
         map_option u64_to_string (ev_verified_received_byte_offset e)),
      (''resume_reference'', ev_resume_reference e)]"

definition evidence_fingerprint :: "libs \<Rightarrow> mutation_verification_evidence \<Rightarrow> string" where
  "evidence_fingerprint L e =
     canonical_fingerprint L ''r3-mutation-evidence-v1'' (evidence_fields L e)"

definition conflict_fields :: "libs \<Rightarrow> conflict_evidence \<Rightarrow> (string \<times> string option) list" where
  "conflict_fields L c =
     [(''conflict_id'', Some (ce_conflict_id c)),
      (''operation_id'', Some (uuid_to_string L (ce_operation_id c))),
      (''stable_cell_id'', Some (ce_stable_cell_id c)),
      (''local_state_code'', Some (ce_local_state_code c)),
      (''remote_state_code'', Some (ce_remote_state_code c)),
      (''content_class'', Some (ce_content_class c)),
      (''lineage_state'', Some (ce_lineage_state c)),
      (''classification_code'', Some (ce_classification_code c)),
      (''ambiguity_reason'', Some (ce_ambiguity_reason c)),
      (''evidence_sufficiency'', Some (ce_evidence_sufficiency c)),
      (''conflict_copy_operation_id'',
         map_option (uuid_to_string L) (ce_conflict_copy_operation_id c)),
      (''base_evidence_id'', map_option (uuid_to_string L) (ce_base_evidence_id c)),
      (''local_evidence_id'', map_option (uuid_to_string L) (ce_local_evidence_id c)),
      (''remote_evidence_id'', map_option (uuid_to_string L) (ce_remote_evidence_id c)),
      (''base_sha256'', ce_base_sha256 c),
      (''base_byte_length'', map_option u64_to_string (ce_base_byte_length c)),
      (''local_sha256'', ce_local_sha256 c),
      (''local_byte_length'', map_option u64_to_string (ce_local_byte_length c)),
      (''remote_sha256'', ce_remote_sha256 c),
      (''remote_byte_length'', map_option u64_to_string (ce_remote_byte_length c)),
      (''naming_version'', Some (ce_naming_version c)),
      (''normalized_collision_key'', Some (ce_normalized_collision_key c)),
      (''target_parent_id'', Some (ce_target_parent_id c)),
      (''expected_conflict_copy_sha256'', ce_expected_conflict_copy_sha256 c),
      (''expected_conflict_copy_byte_length'',
         map_option u64_to_string (ce_expected_conflict_copy_byte_length c)),
      (''explanation_code'', ce_explanation_code c)]"

definition conflict_fingerprint :: "libs \<Rightarrow> conflict_evidence \<Rightarrow> string" where
  "conflict_fingerprint L c =
     canonical_fingerprint L ''r3-conflict-evidence-v1'' (conflict_fields L c)"

section \<open>Validators\<close>

definition validate_hash_size_pair :: "string option \<Rightarrow> u64 option \<Rightarrow> error + unit" where
  "validate_hash_size_pair hash byte_len =
     (case (hash, byte_len) of
        (None, None) \<Rightarrow> Inr ()
      | (Some h, Some n) \<Rightarrow> and_then (validate_revision h) (\<lambda>_. and_then (u64_to_i64 n) (\<lambda>_. Inr ()))
      | _ \<Rightarrow> Inl InvalidTransferEvidence)"

definition validate_mutation_intent :: "libs \<Rightarrow> mutation_intent \<Rightarrow> error + unit" where
  "validate_mutation_intent L i =
     (if is_nil (mi_operation_id i) then Inl MutationCollision
      else
      and_then (validate_redacted_code (mi_operation_marker i)) (\<lambda>_.
      and_then (validate_revision (mi_intent_fingerprint i)) (\<lambda>_.
      and_then (ensure (mi_intent_fingerprint i = intent_fingerprint L i) InvalidTransferEvidence) (\<lambda>_.
      and_then (for_each validate_remote_id (flatten_opt
        [mi_account_id i, mi_remote_root_id i, mi_remote_file_id i,
         mi_source_parent_id i, mi_destination_parent_id i])) (\<lambda>_.
      and_then (for_each (validate_content_path L)
        (flatten_opt [mi_source_path i, mi_destination_path i])) (\<lambda>_.
      and_then (for_each validate_remote_id (flatten_opt
        [mi_expected_local_revision i, mi_expected_remote_revision i,
         mi_base_local_revision i, mi_base_remote_revision i])) (\<lambda>_.
      and_then (for_each validate_private_reference
        (flatten_opt [mi_local_object_id i, mi_base_reference i])) (\<lambda>_.
      and_then (validate_hash_size_pair (mi_base_sha256 i) (mi_base_byte_length i)) (\<lambda>_.
      and_then (validate_hash_size_pair (mi_expected_local_sha256 i) (mi_expected_local_byte_length i)) (\<lambda>_.
      and_then (validate_hash_size_pair (mi_expected_remote_sha256 i) (mi_expected_remote_byte_length i)) (\<lambda>_.
      and_then (u64_to_i64 (mi_registered_at_unix_ms i)) (\<lambda>_.
      if (mi_account_id i \<noteq> None) \<noteq> (mi_remote_root_id i \<noteq> None) then Inl InvalidTransferEvidence
      else if mi_operation_kind i = RemoteExistingBlocked
        \<and> (mi_account_id i = None \<or> mi_remote_root_id i = None \<or> mi_remote_file_id i = None
           \<or> mi_source_parent_id i = None \<or> mi_source_path i = None
           \<or> mi_expected_remote_revision i = None)
      then Inl InvalidTransferEvidence
      else if mi_operation_kind i = RemoteExistingBlocked
        \<and> \<not> ((mi_base_local_revision i = None \<and> mi_base_remote_revision i = None
               \<and> mi_base_sha256 i = None \<and> mi_base_byte_length i = None)
            \<or> (mi_base_local_revision i \<noteq> None \<and> mi_base_remote_revision i \<noteq> None
               \<and> mi_base_sha256 i \<noteq> None \<and> mi_base_byte_length i \<noteq> None))
      then Inl InvalidTransferEvidence
      else Inr ()))))))))))))"

definition validate_mutation_evidence ::
    "libs \<Rightarrow> mutation_verification_evidence \<Rightarrow> error + unit" where
  "validate_mutation_evidence L e =
     (if is_nil (ev_evidence_id e) \<or> is_nil (ev_operation_id e) then Inl InvalidTransferEvidence
      else
      and_then (u64_to_i64 (ucast (ev_attempt_number e))) (\<lambda>_.
      and_then (validate_revision (ev_evidence_fingerprint e)) (\<lambda>_.
      and_then (ensure (ev_evidence_fingerprint e = evidence_fingerprint L e)
        InvalidTransferEvidence) (\<lambda>_.
      and_then (u64_to_i64 (ev_captured_at_unix_ms e)) (\<lambda>_.
      and_then (for_each validate_redacted_code (flatten_opt [ev_outcome_code e])) (\<lambda>_.
      and_then (ensure (\<not> (ev_disposition e = NeedsReconcileDisposition \<and> ev_outcome_code e = None))
        InvalidTransferEvidence) (\<lambda>_.
      and_then (for_each validate_remote_id (flatten_opt
        [ev_observed_account_id e, ev_observed_remote_root_id e, ev_observed_remote_file_id e,
         ev_observed_parent_id e, ev_observed_local_revision e, ev_observed_remote_revision e])) (\<lambda>_.
      and_then (for_each (validate_content_path L) (flatten_opt [ev_observed_path e])) (\<lambda>_.
      and_then (validate_hash_size_pair (ev_observed_sha256 e) (ev_observed_byte_length e)) (\<lambda>_.
      and_then (for_each validate_redacted_code (flatten_opt [ev_observed_operation_marker e])) (\<lambda>_.
      and_then (for_each (\<lambda>n. and_then (u64_to_i64 n) (\<lambda>_. Inr ()))
        (flatten_opt [ev_verified_received_byte_offset e])) (\<lambda>_.
      for_each validate_private_reference (flatten_opt [ev_resume_reference e])))))))))))))"

definition validate_conflict_evidence :: "libs \<Rightarrow> conflict_evidence \<Rightarrow> error + unit" where
  "validate_conflict_evidence L c =
     (if is_nil (ce_operation_id c) then Inl MutationCollision
      else
      and_then (for_each validate_redacted_code
        [ce_conflict_id c, ce_stable_cell_id c, ce_local_state_code c, ce_remote_state_code c,
         ce_content_class c, ce_lineage_state c, ce_classification_code c, ce_ambiguity_reason c,
         ce_evidence_sufficiency c, ce_naming_version c, ce_normalized_collision_key c]) (\<lambda>_.
      and_then (validate_remote_id (ce_target_parent_id c)) (\<lambda>_.
      and_then (for_each validate_redacted_code (flatten_opt [ce_explanation_code c])) (\<lambda>_.
      and_then (for_each validate_redacted_code (flatten_opt [ce_device_alias c])) (\<lambda>_.
      and_then (for_each (\<lambda>u. ensure (\<not> is_nil u) MutationCollision)
        (flatten_opt [ce_conflict_copy_operation_id c])) (\<lambda>_.
      and_then (for_each (\<lambda>u. ensure (\<not> is_nil u) InvalidTransferEvidence) (flatten_opt
        [ce_base_evidence_id c, ce_local_evidence_id c, ce_remote_evidence_id c])) (\<lambda>_.
      and_then (validate_hash_size_pair (ce_base_sha256 c) (ce_base_byte_length c)) (\<lambda>_.
      and_then (validate_hash_size_pair (ce_local_sha256 c) (ce_local_byte_length c)) (\<lambda>_.
      and_then (validate_hash_size_pair (ce_remote_sha256 c) (ce_remote_byte_length c)) (\<lambda>_.
      and_then (validate_hash_size_pair (ce_expected_conflict_copy_sha256 c)
        (ce_expected_conflict_copy_byte_length c)) (\<lambda>_.
      and_then (ensure (\<not> (ce_conflict_copy_operation_id c \<noteq> None
          \<and> ce_expected_conflict_copy_sha256 c = None)) InvalidTransferEvidence) (\<lambda>_.
      and_then (validate_revision (ce_evidence_fingerprint c)) (\<lambda>_.
      and_then (ensure (ce_evidence_fingerprint c = conflict_fingerprint L c)
        InvalidTransferEvidence) (\<lambda>_.
      and_then (u64_to_i64 (ce_captured_at_unix_ms c)) (\<lambda>_. Inr ())))))))))))))))"

section \<open>Outcome transitions\<close>

definition transition_target ::
    "mutation_phase \<Rightarrow> mutation_verification_evidence \<Rightarrow> mutation_outcome_transition \<Rightarrow>
     error + (mutation_phase \<times> mutation_disposition \<times> u64 option \<times> mutation_retry_mode option
              \<times> string option)" where
  "transition_target current e transition =
     (case transition of
        TransitionVerifiedApplied \<Rightarrow>
          if current \<in> set [Running, NeedsReconcilePhase] \<and> ev_disposition e = VerifiedApplied
             \<and> ev_capture_phase e = PostVerify \<and> \<not> ev_forbidden_side_effect e
          then Inr (Completed, VerifiedApplied, None, None, None)
          else Inl InvalidStateTransition
      | TransitionNeedsReconcile \<Rightarrow>
          if current = Running \<and> ev_disposition e = NeedsReconcileDisposition
             \<and> ev_outcome_code e \<noteq> None
          then Inr (NeedsReconcilePhase, NeedsReconcileDisposition, None, None, None)
          else Inl InvalidStateTransition
      | _ \<Rightarrow> Inl InvalidStateTransition)"

definition require_expected_match :: "'a option \<Rightarrow> 'a option \<Rightarrow> error + unit" where
  "require_expected_match expected observed =
     (if expected \<noteq> None \<and> expected \<noteq> observed then Inl InvalidTransferEvidence else Inr ())"

text \<open>\<open>validate_verified_applied_evidence\<close>, given the intent row the query returns.\<close>

definition validate_verified_applied_evidence ::
    "mutation_intent option \<Rightarrow> mutation_verification_evidence \<Rightarrow> error + unit" where
  "validate_verified_applied_evidence row e =
     (if ev_capture_phase e \<noteq> PostVerify \<or> ev_forbidden_side_effect e
      then Inl InvalidTransferEvidence
      else
      and_then (ok_or row MutationNotFound) (\<lambda>i.
      and_then (require_expected_match (mi_account_id i) (ev_observed_account_id e)) (\<lambda>_.
      and_then (require_expected_match (mi_remote_root_id i) (ev_observed_remote_root_id e)) (\<lambda>_.
      and_then (require_expected_match (mi_remote_file_id i) (ev_observed_remote_file_id e)) (\<lambda>_.
      and_then (require_expected_match (or_opt (mi_destination_parent_id i) (mi_source_parent_id i))
        (ev_observed_parent_id e)) (\<lambda>_.
      and_then (require_expected_match (or_opt (mi_destination_path i) (mi_source_path i))
        (ev_observed_path e)) (\<lambda>_.
      and_then (require_expected_match (mi_expected_local_revision i) (ev_observed_local_revision e)) (\<lambda>_.
      and_then (require_expected_match (mi_expected_remote_revision i) (ev_observed_remote_revision e)) (\<lambda>_.
      and_then (require_expected_match (mi_expected_local_sha256 i) (ev_observed_sha256 e)) (\<lambda>_.
      and_then (require_expected_match (mi_expected_local_byte_length i) (ev_observed_byte_length e)) (\<lambda>_.
      and_then (require_expected_match (mi_expected_remote_sha256 i) (ev_observed_sha256 e)) (\<lambda>_.
      and_then (require_expected_match (mi_expected_remote_byte_length i) (ev_observed_byte_length e)) (\<lambda>_.
      if ev_observed_operation_marker e \<noteq> Some (mi_operation_marker i)
      then Inl InvalidTransferEvidence else Inr ())))))))))))))"

end
