(* ===== verification/Tables.thy ===== *)
theory Tables
  imports Prelude
begin

text \<open>
  Generic facts on SQLite tables kept as lists of rows: a lookup by key is \<open>find\<close>, an
  insertion appends, an update maps the rows that satisfy the \<open>WHERE\<close> clause.
\<close>

lemma find_append: "find P (xs @ ys) = (case find P xs of None \<Rightarrow> find P ys | Some x \<Rightarrow> Some x)"
  by (induction xs) auto

lemma find_key_None: "find (\<lambda>r. key r = k) rows = None \<longleftrightarrow> k \<notin> set (map key rows)"
  by (auto simp: find_None_iff)

lemma find_key_SomeD: "find (\<lambda>r. key r = k) rows = Some r \<Longrightarrow> r \<in> set rows \<and> key r = k"
  by (auto simp: find_Some_iff)

lemma find_key_Some_iff:
  assumes "distinct (map key rows)"
  shows "find (\<lambda>r. key r = k) rows = Some r \<longleftrightarrow> r \<in> set rows \<and> key r = k"
  using assms by (induction rows) (auto simp: image_iff)

lemma find_key_append:
  assumes "find (\<lambda>r. key r = key x) rows = None"
  shows "find (\<lambda>r. key r = k) (rows @ [x]) =
           (if k = key x then Some x else find (\<lambda>r. key r = k) rows)"
  using assms by (auto simp: find_append split: option.split)

text \<open>An \<open>UPDATE\<close> that replaces the one row with key \<open>k\<close>.\<close>

definition put_row :: "('r \<Rightarrow> 'k) \<Rightarrow> 'k \<Rightarrow> 'r \<Rightarrow> 'r list \<Rightarrow> 'r list" where
  "put_row key k x rows = map (\<lambda>r. if key r = k then x else r) rows"

lemma put_row_keys [simp]: "key x = k \<Longrightarrow> map key (put_row key k x rows) = map key rows"
  by (simp add: put_row_def)

lemma set_put_row:
  assumes "r \<in> set (put_row key k x rows)"
  shows "r = x \<or> r \<in> set rows \<and> key r \<noteq> k"
  using assms by (auto simp: put_row_def split: if_splits)

lemma find_put_row_other:
  assumes "key x = k" "j \<noteq> k"
  shows "find (\<lambda>r. key r = j) (put_row key k x rows) = find (\<lambda>r. key r = j) rows"
  using assms by (induction rows) (auto simp: put_row_def)

lemma find_put_row:
  assumes "key x = k" "find (\<lambda>r. key r = k) rows \<noteq> None"
  shows "find (\<lambda>r. key r = j) (put_row key k x rows) =
           (if j = k then Some x else find (\<lambda>r. key r = j) rows)"
proof (cases "j = k")
  case True
  then show ?thesis
    using assms by (induction rows) (auto simp: put_row_def)
qed (simp add: find_put_row_other assms)

lemma key_unique:
  assumes "distinct (map key rows)" "r \<in> set rows" "x \<in> set rows" "key x = key r"
  shows "x = r"
  using assms inj_onD [of key "set rows" x r] by (simp add: distinct_map)

lemma filter_key:
  assumes "distinct (map key rows)" "r \<in> set rows"
  shows "filter (\<lambda>x. key x = key r) rows = [r]"
  using assms by (induction rows) (auto simp: image_iff filter_empty_conv)

lemma hit_iff_key:
  assumes "distinct (map key rows)" "r \<in> set rows" "P r"
    and "\<And>x. P x \<Longrightarrow> key x = key r" and "x \<in> set rows"
  shows "P x \<longleftrightarrow> key x = key r"
  using assms key_unique [of key rows r x] by blast

lemma filter_hit_one:
  assumes "distinct (map key rows)" "r \<in> set rows" "P r" "\<And>x. P x \<Longrightarrow> key x = key r"
  shows "filter P rows = [r]"
proof -
  have "filter P rows = filter (\<lambda>x. key x = key r) rows"
    by (rule filter_cong) (use hit_iff_key [of key rows r P, OF assms] in auto)
  then show ?thesis using filter_key [OF assms(1, 2)] by simp
qed

lemma map_hit_put_row:
  assumes "distinct (map key rows)" "r \<in> set rows" "P r" "\<And>x. P x \<Longrightarrow> key x = key r"
  shows "map (\<lambda>x. if P x then f x else x) rows = put_row key (key r) (f r) rows"
proof -
  have "(if P x then f x else x) = (if key x = key r then f r else x)" if "x \<in> set rows" for x
    using hit_iff_key [of key rows r P x, OF assms that] key_unique [OF assms(1, 2) that] by auto
  then show ?thesis by (simp add: put_row_def)
qed

text \<open>Versions \<open>0, 1, ..., n\<close> without a gap.\<close>

definition gapless :: "nat list \<Rightarrow> nat \<Rightarrow> bool" where
  "gapless vs n = (vs = [0..<Suc n])"

lemma gapless_0 [simp]: "gapless [0] 0"
  by (simp add: gapless_def)

lemma gapless_Suc: "gapless vs n \<Longrightarrow> gapless (vs @ [Suc n]) (Suc n)"
  by (simp add: gapless_def)

section \<open>Versioned rows\<close>

text \<open>
  The contract optimistic concurrency needs of a store: a step either leaves a row alone or
  raises its version, and rows never disappear. Then a version read earlier identifies the
  row for good: if it is still the current version, nothing happened to the row in between.
\<close>

locale versioned_rows =
  fixes step :: "'s \<Rightarrow> 's \<Rightarrow> bool"
    and inv :: "'s \<Rightarrow> bool"
    and row :: "'s \<Rightarrow> 'k \<Rightarrow> 'r option"
    and version :: "'r \<Rightarrow> nat"
  assumes step_inv: "inv s \<Longrightarrow> step s s' \<Longrightarrow> inv s'"
    and step_row: "inv s \<Longrightarrow> step s s' \<Longrightarrow> row s k = Some r \<Longrightarrow>
      row s' k = Some r \<or> (\<exists>r'. row s' k = Some r' \<and> version r < version r')"
begin

lemma steps_inv: "step\<^sup>*\<^sup>* s s' \<Longrightarrow> inv s \<Longrightarrow> inv s'"
  by (induction rule: rtranclp_induct) (auto intro: step_inv)

lemma steps_row:
  assumes "step\<^sup>*\<^sup>* s s'" "inv s" "row s k = Some r"
  shows "row s' k = Some r \<or> (\<exists>r'. row s' k = Some r' \<and> version r < version r')"
  using assms
proof (induction rule: rtranclp_induct)
  case (step y z)
  then show ?case
    using step_row [of y z k] steps_inv [OF step.hyps(1)] by (metis less_trans)
qed simp

lemma steps_version_mono:
  assumes "step\<^sup>*\<^sup>* s s'" "inv s" "row s k = Some r" "row s' k = Some r'"
  shows "version r \<le> version r'"
  using steps_row [OF assms(1-3)] assms(4) by auto

lemma same_version_same_row:
  assumes "step\<^sup>*\<^sup>* s s'" "inv s" "row s k = Some r" "row s' k = Some r'" "version r' = version r"
  shows "r' = r"
  using steps_row [OF assms(1-3)] assms(4, 5) by auto

lemma untouched_between:
  assumes "step\<^sup>*\<^sup>* s t" "step\<^sup>*\<^sup>* t s'" "inv s" "row s k = Some r" "row s' k = Some r'"
    and same: "version r' = version r"
  shows "row t k = Some r"
proof -
  have "row s' k = Some r"
    using same_version_same_row [OF rtranclp_trans [OF assms(1, 2)] assms(3-5) same] assms(5) by simp
  moreover obtain q where q: "row t k = Some q" "q = r \<or> version r < version q"
    using steps_row [OF assms(1, 3, 4)] by auto
  ultimately show ?thesis
    using steps_version_mono [OF assms(2) steps_inv [OF assms(1, 3)] q(1)] by auto
qed

end

end
