(* ===== verification/Mutation_Ledger.thy ===== *)
theory Mutation_Ledger
  imports Mutation_Records Tables
begin

text \<open>
  The mutation ledger of \<open>SyncStore\<close> (\<open>store.rs\<close>): the tables \<open>mutation_intents\<close>,
  \<open>mutation_state\<close>, \<open>mutation_events\<close>, \<open>mutation_verification_evidence\<close> and
  \<open>conflict_evidence\<close> as lists of rows in insertion order, and the operations that change
  them. Each operation is one SQLite transaction: an error leaves the tables as they were,
  so an operation returns either the error or its result with the new tables. Row
  constraints of the schema (primary keys, \<open>UNIQUE\<close>, \<open>CHECK\<close>, foreign keys) are checked by
  the insertions and reported as \<open>Database\<close>. Identifiers are stored as values; their text
  form is the \<open>uuid\<close> crate's.
\<close>

section \<open>Tables\<close>

record ledger =
  lg_intents :: "mutation_intent list"
  lg_states :: "mutation_state list"
  lg_events :: "mutation_event list"
  lg_evidence :: "mutation_verification_evidence list"
  lg_conflicts :: "conflict_evidence list"

definition empty_ledger :: ledger where
  "empty_ledger = \<lparr>lg_intents = [], lg_states = [], lg_events = [], lg_evidence = [], lg_conflicts = []\<rparr>"

definition constraint_failed :: error where
  "constraint_failed = Database ''constraint''"

definition load_intent :: "ledger \<Rightarrow> uuid \<Rightarrow> mutation_intent option" where
  "load_intent g u = find (\<lambda>i. mi_operation_id i = u) (lg_intents g)"

definition load_mutation_identity :: "ledger \<Rightarrow> uuid \<Rightarrow> (string \<times> string) option" where
  "load_mutation_identity g u =
     map_option (\<lambda>i. (mi_intent_fingerprint i, mi_operation_marker i)) (load_intent g u)"

definition mutation_marker_exists :: "ledger \<Rightarrow> string \<Rightarrow> bool" where
  "mutation_marker_exists g marker = list_ex (\<lambda>i. mi_operation_marker i = marker) (lg_intents g)"

definition load_mutation_kind :: "ledger \<Rightarrow> uuid \<Rightarrow> mutation_operation_kind option" where
  "load_mutation_kind g u = map_option mi_operation_kind (load_intent g u)"

definition load_mutation_state :: "ledger \<Rightarrow> uuid \<Rightarrow> mutation_state option" where
  "load_mutation_state g u = find (\<lambda>s. st_operation_id s = u) (lg_states g)"

definition load_evidence :: "ledger \<Rightarrow> uuid \<Rightarrow> mutation_verification_evidence option" where
  "load_evidence g u = find (\<lambda>e. ev_evidence_id e = u) (lg_evidence g)"

definition load_mutation_events :: "ledger \<Rightarrow> uuid \<Rightarrow> mutation_event list" where
  "load_mutation_events g u = filter (\<lambda>e. me_operation_id e = u) (lg_events g)"

definition load_conflict_evidence :: "ledger \<Rightarrow> string \<Rightarrow> conflict_evidence option" where
  "load_conflict_evidence g c = find (\<lambda>r. ce_conflict_id r = c) (lg_conflicts g)"

definition load_conflict_evidence_fingerprint :: "ledger \<Rightarrow> string \<Rightarrow> string option" where
  "load_conflict_evidence_fingerprint g c =
     map_option ce_evidence_fingerprint (load_conflict_evidence g c)"

definition evidence_belongs_to_operation :: "ledger \<Rightarrow> uuid \<Rightarrow> uuid \<Rightarrow> bool" where
  "evidence_belongs_to_operation g u op =
     list_ex (\<lambda>e. ev_evidence_id e = u \<and> ev_operation_id e = op) (lg_evidence g)"

section \<open>Row operations\<close>

definition lengths_fit :: "u64 option list \<Rightarrow> error + unit" where
  "lengths_fit ns = for_each (\<lambda>n. and_then (u64_to_i64 n) (\<lambda>_. Inr ())) (flatten_opt ns)"

definition paired :: "'a option \<Rightarrow> 'b option \<Rightarrow> bool" where
  "paired x y = ((x = None) = (y = None))"

definition insert_mutation_intent :: "ledger \<Rightarrow> mutation_intent \<Rightarrow> error + ledger" where
  "insert_mutation_intent g i =
     and_then (lengths_fit [mi_base_byte_length i, mi_expected_local_byte_length i,
       mi_expected_remote_byte_length i, Some (mi_registered_at_unix_ms i)]) (\<lambda>_.
     if load_intent g (mi_operation_id i) \<noteq> None
        \<or> mutation_marker_exists g (mi_operation_marker i)
        \<or> \<not> paired (mi_base_sha256 i) (mi_base_byte_length i)
        \<or> \<not> paired (mi_expected_local_sha256 i) (mi_expected_local_byte_length i)
        \<or> \<not> paired (mi_expected_remote_sha256 i) (mi_expected_remote_byte_length i)
     then Inl constraint_failed
     else Inr (g\<lparr>lg_intents := lg_intents g @ [i]\<rparr>))"

definition state_row_ok :: "ledger \<Rightarrow> mutation_state \<Rightarrow> bool" where
  "state_row_ok g s =
     (load_intent g (st_operation_id s) \<noteq> None
      \<and> is_none_or (st_last_evidence_id s) (\<lambda>u. load_evidence g u \<noteq> None)
      \<and> ((st_phase s = RetryScheduled) = (st_next_attempt_at_unix_ms s \<noteq> None))
      \<and> ((st_retry_mode s = None \<and> st_resume_reference s = None)
         \<or> (st_retry_mode s = Some RestartExact \<and> st_resume_reference s = None)
         \<or> (st_retry_mode s = Some ResumeExact \<and> st_resume_reference s \<noteq> None)))"

definition insert_mutation_state :: "ledger \<Rightarrow> mutation_state \<Rightarrow> error + ledger" where
  "insert_mutation_state g s =
     and_then (lengths_fit [Some (st_state_version s), st_next_attempt_at_unix_ms s,
       Some (st_updated_at_unix_ms s)]) (\<lambda>_.
     if load_mutation_state g (st_operation_id s) \<noteq> None \<or> \<not> state_row_ok g s
     then Inl constraint_failed
     else Inr (g\<lparr>lg_states := lg_states g @ [s]\<rparr>))"

definition update_mutation_state :: "ledger \<Rightarrow> mutation_state \<Rightarrow> u64 \<Rightarrow> error + ledger" where
  "update_mutation_state g s expected_version =
     and_then (lengths_fit [Some (st_state_version s), st_next_attempt_at_unix_ms s,
       Some (st_updated_at_unix_ms s), Some expected_version]) (\<lambda>_.
     let hit = (\<lambda>r. st_operation_id r = st_operation_id s \<and> st_state_version r = expected_version) in
     if list_ex hit (lg_states g) \<and> \<not> state_row_ok g s then Inl constraint_failed
     else if length (filter hit (lg_states g)) \<noteq> 1 then Inl MutationStateVersionMismatch
     else Inr (g\<lparr>lg_states := map (\<lambda>r. if hit r then s else r) (lg_states g)\<rparr>))"

definition insert_mutation_evidence ::
    "ledger \<Rightarrow> mutation_verification_evidence \<Rightarrow> error + ledger" where
  "insert_mutation_evidence g e =
     and_then (lengths_fit [ev_observed_byte_length e, ev_verified_received_byte_offset e,
       Some (ev_captured_at_unix_ms e)]) (\<lambda>_.
     if load_evidence g (ev_evidence_id e) \<noteq> None
        \<or> load_intent g (ev_operation_id e) = None
        \<or> \<not> paired (ev_observed_sha256 e) (ev_observed_byte_length e)
     then Inl constraint_failed
     else Inr (g\<lparr>lg_evidence := lg_evidence g @ [e]\<rparr>))"

definition insert_mutation_event ::
    "ledger \<Rightarrow> uuid \<Rightarrow> u32 \<Rightarrow> u64 \<Rightarrow> mutation_phase \<Rightarrow> mutation_disposition option \<Rightarrow> uuid option \<Rightarrow>
     string option \<Rightarrow> u64 \<Rightarrow> error + ledger" where
  "insert_mutation_event g op attempt version phase disposition evidence code occurred =
     and_then (for_each validate_redacted_code (flatten_opt [code])) (\<lambda>_.
     and_then (lengths_fit [Some version, Some occurred]) (\<lambda>_.
     if load_intent g op = None \<or> \<not> is_none_or evidence (\<lambda>u. load_evidence g u \<noteq> None)
     then Inl constraint_failed
     else Inr (g\<lparr>lg_events := lg_events g @
       [\<lparr>me_event_id = of_nat (Suc (length (lg_events g))), me_operation_id = op,
         me_attempt_number = attempt, me_state_version = version, me_phase = phase,
         me_disposition = disposition, me_evidence_id = evidence, me_outcome_code = code,
         me_occurred_at_unix_ms = occurred\<rparr>]\<rparr>)))"

definition insert_conflict_evidence :: "ledger \<Rightarrow> conflict_evidence \<Rightarrow> error + ledger" where
  "insert_conflict_evidence g c =
     and_then (lengths_fit [ce_base_byte_length c, ce_local_byte_length c, ce_remote_byte_length c,
       ce_expected_conflict_copy_byte_length c, Some (ce_captured_at_unix_ms c)]) (\<lambda>_.
     if load_conflict_evidence g (ce_conflict_id c) \<noteq> None
        \<or> load_intent g (ce_operation_id c) = None
        \<or> \<not> is_none_or (ce_conflict_copy_operation_id c) (\<lambda>u. load_intent g u \<noteq> None
             \<and> \<not> list_ex (\<lambda>r. ce_conflict_copy_operation_id r = Some u) (lg_conflicts g))
        \<or> \<not> list_all (\<lambda>u. load_evidence g u \<noteq> None) (flatten_opt
             [ce_base_evidence_id c, ce_local_evidence_id c, ce_remote_evidence_id c])
        \<or> \<not> paired (ce_base_sha256 c) (ce_base_byte_length c)
        \<or> \<not> paired (ce_local_sha256 c) (ce_local_byte_length c)
        \<or> \<not> paired (ce_remote_sha256 c) (ce_remote_byte_length c)
        \<or> \<not> paired (ce_expected_conflict_copy_sha256 c) (ce_expected_conflict_copy_byte_length c)
     then Inl constraint_failed
     else Inr (g\<lparr>lg_conflicts := lg_conflicts g @ [c]\<rparr>))"

section \<open>Operations of the store\<close>

datatype registration_outcome = Registered | AlreadyPresent | AlreadyCompleted

definition blocked_evidence_ok :: "mutation_intent \<Rightarrow> mutation_verification_evidence \<Rightarrow> bool" where
  "blocked_evidence_ok i e =
     (\<not> (ev_disposition e \<noteq> NeedsReconcileDisposition
        \<or> ev_capture_phase e \<noteq> Preflight
        \<or> \<not> ev_forbidden_side_effect e
        \<or> ev_outcome_code e = None
        \<or> ev_observed_account_id e \<noteq> mi_account_id i
        \<or> ev_observed_remote_root_id e \<noteq> mi_remote_root_id i
        \<or> ev_observed_remote_file_id e \<noteq> mi_remote_file_id i
        \<or> ev_observed_parent_id e \<noteq> mi_source_parent_id i
        \<or> ev_observed_path e \<noteq> mi_source_path i
        \<or> ev_observed_local_revision e \<noteq> mi_expected_local_revision i
        \<or> ev_observed_remote_revision e \<noteq> mi_expected_remote_revision i
        \<or> ev_observed_operation_marker e \<noteq> Some (mi_operation_marker i)))"

text \<open>The checks \<open>register_mutation_intent\<close> makes before it opens its transaction.\<close>

definition register_preconditions ::
    "libs \<Rightarrow> mutation_intent \<Rightarrow> mutation_verification_evidence option \<Rightarrow> error + unit" where
  "register_preconditions L i initial_evidence =
     and_then (validate_mutation_intent L i) (\<lambda>_.
     and_then (case initial_evidence of
         None \<Rightarrow> Inr ()
       | Some e \<Rightarrow> and_then (validate_mutation_evidence L e) (\<lambda>_.
           if ev_operation_id e \<noteq> mi_operation_id i then Inl MutationCollision else Inr ())) (\<lambda>_.
     if mi_operation_kind i = RemoteExistingBlocked then
       and_then (ok_or initial_evidence InvalidTransferEvidence) (\<lambda>e.
         if blocked_evidence_ok i e then Inr () else Inl InvalidTransferEvidence)
     else if initial_evidence \<noteq> None then Inl InvalidStateTransition
     else Inr ()))"

definition initial_state :: "mutation_intent \<Rightarrow> mutation_state" where
  "initial_state i =
     \<lparr>st_operation_id = mi_operation_id i, st_phase = IntentDurable, st_attempt_number = 0,
      st_state_version = 0, st_disposition = None, st_next_attempt_at_unix_ms = None,
      st_retry_mode = None, st_resume_reference = None, st_last_evidence_id = None,
      st_outcome_code = None, st_updated_at_unix_ms = mi_registered_at_unix_ms i\<rparr>"

text \<open>The \<open>UPDATE\<close> and event that put a blocked intent directly into \<open>NeedsReconcile\<close>.\<close>

definition register_blocked ::
    "ledger \<Rightarrow> mutation_intent \<Rightarrow> mutation_verification_evidence \<Rightarrow> error + ledger" where
  "register_blocked g i e =
     and_then (insert_mutation_evidence g e) (\<lambda>g1.
     and_then (lengths_fit [Some (ev_captured_at_unix_ms e)]) (\<lambda>_.
     let hit = (\<lambda>r. st_operation_id r = mi_operation_id i \<and> st_state_version r = 0
                 \<and> st_phase r = IntentDurable);
         put = (\<lambda>r. r\<lparr>st_phase := NeedsReconcilePhase, st_state_version := 1,
                 st_disposition := Some NeedsReconcileDisposition,
                 st_last_evidence_id := Some (ev_evidence_id e),
                 st_outcome_code := ev_outcome_code e,
                 st_updated_at_unix_ms := ev_captured_at_unix_ms e\<rparr>) in
     if length (filter hit (lg_states g1)) \<noteq> 1 then Inl MutationStateVersionMismatch
     else insert_mutation_event
            (g1\<lparr>lg_states := map (\<lambda>r. if hit r then put r else r) (lg_states g1)\<rparr>)
            (mi_operation_id i) 0 1 NeedsReconcilePhase (Some NeedsReconcileDisposition)
            (Some (ev_evidence_id e)) (ev_outcome_code e) (ev_captured_at_unix_ms e)))"

definition register_mutation_intent ::
    "libs \<Rightarrow> mutation_intent \<Rightarrow> mutation_verification_evidence option \<Rightarrow> ledger \<Rightarrow>
     error + registration_outcome \<times> ledger" where
  "register_mutation_intent L i initial_evidence g =
     and_then (register_preconditions L i initial_evidence) (\<lambda>_.
     case load_mutation_identity g (mi_operation_id i) of
       Some (fingerprint, marker) \<Rightarrow>
         if fingerprint \<noteq> mi_intent_fingerprint i \<or> marker \<noteq> mi_operation_marker i
         then Inl MutationCollision
         else and_then (ok_or (load_mutation_state g (mi_operation_id i)) InvalidSchema) (\<lambda>s.
           Inr (if st_phase s = Completed then AlreadyCompleted else AlreadyPresent, g))
     | None \<Rightarrow>
         if mutation_marker_exists g (mi_operation_marker i) then Inl MutationCollision
         else
         and_then (insert_mutation_intent g i) (\<lambda>g1.
         and_then (insert_mutation_state g1 (initial_state i)) (\<lambda>g2.
         and_then (insert_mutation_event g2 (mi_operation_id i) 0 0 IntentDurable None None None
           (mi_registered_at_unix_ms i)) (\<lambda>g3.
         and_then (case initial_evidence of None \<Rightarrow> Inr g3 | Some e \<Rightarrow> register_blocked g3 i e) (\<lambda>g4.
         Inr (Registered, g4))))))"

definition claimed_state :: "mutation_state \<Rightarrow> u64 \<Rightarrow> mutation_state" where
  "claimed_state s now =
     \<lparr>st_operation_id = st_operation_id s, st_phase = Running,
      st_attempt_number = st_attempt_number s + (if st_phase s = RetryScheduled then 1 else 0),
      st_state_version = st_state_version s + 1, st_disposition = None,
      st_next_attempt_at_unix_ms = None, st_retry_mode = None, st_resume_reference = None,
      st_last_evidence_id = st_last_evidence_id s, st_outcome_code = None,
      st_updated_at_unix_ms = now\<rparr>"

definition claim_mutation ::
    "uuid \<Rightarrow> u64 \<Rightarrow> u64 \<Rightarrow> ledger \<Rightarrow> error + mutation_state \<times> ledger" where
  "claim_mutation op expected_state_version now g =
     and_then (u64_to_i64 now) (\<lambda>_.
     and_then (ok_or (load_mutation_kind g op) MutationNotFound) (\<lambda>kind.
     if kind = RemoteExistingBlocked then Inl MutationNeedsReconcile
     else and_then (ok_or (load_mutation_state g op) MutationNotFound) (\<lambda>s.
     if st_state_version s \<noteq> expected_state_version then Inl MutationStateVersionMismatch
     else if st_phase s \<notin> set [IntentDurable, RetryScheduled]
       \<or> is_some_and (st_next_attempt_at_unix_ms s) (\<lambda>due. due > now)
     then Inl InvalidStateTransition
     else let next = claimed_state s now in
       and_then (update_mutation_state g next (st_state_version s)) (\<lambda>g1.
       and_then (insert_mutation_event g1 op (st_attempt_number next) (st_state_version next)
         (st_phase next) None None None now) (\<lambda>g2.
       Inr (next, g2))))))"

definition record_mutation_outcome ::
    "libs \<Rightarrow> uuid \<Rightarrow> u64 \<Rightarrow> mutation_verification_evidence \<Rightarrow> mutation_outcome_transition \<Rightarrow> ledger \<Rightarrow>
     error + mutation_state \<times> ledger" where
  "record_mutation_outcome L op expected_state_version e transition g =
     and_then (validate_mutation_evidence L e) (\<lambda>_.
     if ev_operation_id e \<noteq> op then Inl MutationCollision
     else and_then (ok_or (load_mutation_state g op) MutationNotFound) (\<lambda>s.
     if st_state_version s \<noteq> expected_state_version then Inl MutationStateVersionMismatch
     else if ev_attempt_number e \<noteq> st_attempt_number s
       \<or> st_phase s \<notin> set [Running, NeedsReconcilePhase]
     then Inl InvalidStateTransition
     else and_then (if transition = TransitionVerifiedApplied
         then validate_verified_applied_evidence (load_intent g (ev_operation_id e)) e
         else Inr ()) (\<lambda>_.
     and_then (transition_target (st_phase s) e transition)
       (\<lambda>(phase, disposition, next_attempt, retry_mode, resume_reference).
     and_then (insert_mutation_evidence g e) (\<lambda>g1.
     let next = \<lparr>st_operation_id = op, st_phase = phase, st_attempt_number = st_attempt_number s,
           st_state_version = st_state_version s + 1, st_disposition = Some disposition,
           st_next_attempt_at_unix_ms = next_attempt, st_retry_mode = retry_mode,
           st_resume_reference = resume_reference, st_last_evidence_id = Some (ev_evidence_id e),
           st_outcome_code = ev_outcome_code e, st_updated_at_unix_ms = ev_captured_at_unix_ms e\<rparr> in
     and_then (update_mutation_state g1 next (st_state_version s)) (\<lambda>g2.
     and_then (insert_mutation_event g2 op (st_attempt_number next) (st_state_version next)
       (st_phase next) (st_disposition next) (Some (ev_evidence_id e)) (ev_outcome_code e)
       (ev_captured_at_unix_ms e)) (\<lambda>g3.
     Inr (next, g3))))))))"

datatype conflict_registration_outcome = ConflictRegistered | ConflictAlreadyPresent

definition record_conflict_evidence ::
    "libs \<Rightarrow> conflict_evidence \<Rightarrow> ledger \<Rightarrow> error + conflict_registration_outcome \<times> ledger" where
  "record_conflict_evidence L c g =
     and_then (validate_conflict_evidence L c) (\<lambda>_.
     if load_mutation_kind g (ce_operation_id c) = None then Inl MutationNotFound
     else case load_conflict_evidence_fingerprint g (ce_conflict_id c) of
       Some existing \<Rightarrow>
         if existing = ce_evidence_fingerprint c then Inr (ConflictAlreadyPresent, g)
         else Inl MutationCollision
     | None \<Rightarrow>
         and_then (for_each (\<lambda>op. and_then (ok_or (load_mutation_kind g op) MutationNotFound) (\<lambda>kind.
             if kind \<noteq> ConflictCopyPublish then Inl MutationCollision else Inr ()))
           (flatten_opt [ce_conflict_copy_operation_id c])) (\<lambda>_.
         and_then (for_each (\<lambda>u. ensure (evidence_belongs_to_operation g u (ce_operation_id c))
             MutationCollision)
           (flatten_opt [ce_base_evidence_id c, ce_local_evidence_id c, ce_remote_evidence_id c])) (\<lambda>_.
         and_then (insert_conflict_evidence g c) (\<lambda>g1. Inr (ConflictRegistered, g1)))))"

text \<open>
  \<open>recover_interrupted_jobs\<close>, the part on mutations, run when the store is opened. \<open>fresh\<close>
  is \<open>Uuid::new_v4\<close>, the random evidence identifier drawn for an operation.
\<close>

definition interrupted_mutation_evidence ::
    "libs \<Rightarrow> uuid \<Rightarrow> uuid \<Rightarrow> u32 \<Rightarrow> u64 \<Rightarrow> mutation_verification_evidence" where
  "interrupted_mutation_evidence L new_id op attempt captured =
     (let e = \<lparr>ev_evidence_id = new_id, ev_operation_id = op, ev_attempt_number = attempt,
        ev_capture_phase = Reconcile, ev_disposition = NeedsReconcileDisposition,
        ev_outcome_code = Some ''interrupted_unknown_outcome'', ev_observed_account_id = None,
        ev_observed_remote_root_id = None, ev_observed_remote_file_id = None,
        ev_observed_parent_id = None, ev_observed_path = None, ev_observed_local_revision = None,
        ev_observed_remote_revision = None, ev_observed_sha256 = None,
        ev_observed_byte_length = None, ev_observed_operation_marker = None,
        ev_forbidden_side_effect = True, ev_verified_received_byte_offset = None,
        ev_resume_reference = None, ev_evidence_fingerprint = [], ev_captured_at_unix_ms = captured\<rparr>
      in e\<lparr>ev_evidence_fingerprint := evidence_fingerprint L e\<rparr>)"

definition recover_one :: "libs \<Rightarrow> (uuid \<Rightarrow> uuid) \<Rightarrow> mutation_state \<Rightarrow> ledger \<Rightarrow> error + ledger" where
  "recover_one L fresh s g =
     (let op = st_operation_id s;
          e = interrupted_mutation_evidence L (fresh op) op (st_attempt_number s)
                (st_updated_at_unix_ms s) in
      and_then (insert_mutation_evidence g e) (\<lambda>g1.
      let next = \<lparr>st_operation_id = op, st_phase = NeedsReconcilePhase,
            st_attempt_number = st_attempt_number s, st_state_version = st_state_version s + 1,
            st_disposition = Some NeedsReconcileDisposition, st_next_attempt_at_unix_ms = None,
            st_retry_mode = None, st_resume_reference = None,
            st_last_evidence_id = Some (ev_evidence_id e), st_outcome_code = ev_outcome_code e,
            st_updated_at_unix_ms = st_updated_at_unix_ms s\<rparr> in
      and_then (update_mutation_state g1 next (st_state_version s)) (\<lambda>g2.
      insert_mutation_event g2 op (st_attempt_number s) (st_state_version s + 1)
        NeedsReconcilePhase (Some NeedsReconcileDisposition) (Some (ev_evidence_id e))
        (ev_outcome_code e) (st_updated_at_unix_ms s))))"

fun recover_each ::
    "libs \<Rightarrow> (uuid \<Rightarrow> uuid) \<Rightarrow> mutation_state list \<Rightarrow> ledger \<Rightarrow> error + ledger" where
  "recover_each L fresh [] g = Inr g"
| "recover_each L fresh (s # ss) g = and_then (recover_one L fresh s g) (recover_each L fresh ss)"

definition recover_interrupted_mutations ::
    "libs \<Rightarrow> (uuid \<Rightarrow> uuid) \<Rightarrow> ledger \<Rightarrow> error + ledger" where
  "recover_interrupted_mutations L fresh g =
     recover_each L fresh
       (sort_key st_operation_id (filter (\<lambda>s. st_phase s = Running) (lg_states g))) g"

end
