(* ===== verification/Ledger_Lifecycle.thy ===== *)
theory Ledger_Lifecycle
  imports Mutation_Ledger
begin

text \<open>
  What the mutation ledger guarantees: an invariant of its tables, the lifecycle every
  operation goes through, and that each store operation is a step of that lifecycle.
\<close>

section \<open>Effects of the row operations\<close>

lemma load_intent_SomeD: "load_intent g u = Some i \<Longrightarrow> i \<in> set (lg_intents g) \<and> mi_operation_id i = u"
  by (auto simp: load_intent_def dest: find_key_SomeD)

lemma load_state_SomeD:
  "load_mutation_state g u = Some s \<Longrightarrow> s \<in> set (lg_states g) \<and> st_operation_id s = u"
  by (auto simp: load_mutation_state_def dest: find_key_SomeD)

lemma load_evidence_SomeD:
  "load_evidence g u = Some e \<Longrightarrow> e \<in> set (lg_evidence g) \<and> ev_evidence_id e = u"
  by (auto simp: load_evidence_def dest: find_key_SomeD)

lemma insert_mutation_intent_Inr:
  assumes "insert_mutation_intent g i = Inr g'"
  shows "g' = g\<lparr>lg_intents := lg_intents g @ [i]\<rparr>" "load_intent g (mi_operation_id i) = None"
    "\<not> mutation_marker_exists g (mi_operation_marker i)"
  using assms by (auto simp: insert_mutation_intent_def split: if_splits)

lemma insert_mutation_state_Inr:
  assumes "insert_mutation_state g s = Inr g'"
  shows "g' = g\<lparr>lg_states := lg_states g @ [s]\<rparr>" "load_mutation_state g (st_operation_id s) = None"
    "state_row_ok g s"
  using assms by (auto simp: insert_mutation_state_def split: if_splits)

lemma insert_mutation_evidence_Inr:
  assumes "insert_mutation_evidence g e = Inr g'"
  shows "g' = g\<lparr>lg_evidence := lg_evidence g @ [e]\<rparr>" "load_evidence g (ev_evidence_id e) = None"
    "load_intent g (ev_operation_id e) \<noteq> None"
  using assms by (auto simp: insert_mutation_evidence_def split: if_splits)

lemma insert_conflict_evidence_Inr:
  assumes "insert_conflict_evidence g c = Inr g'"
  shows "g' = g\<lparr>lg_conflicts := lg_conflicts g @ [c]\<rparr>"
    "load_conflict_evidence g (ce_conflict_id c) = None"
  using assms by (auto simp: insert_conflict_evidence_def split: if_splits)

definition event_of :: "ledger \<Rightarrow> uuid \<Rightarrow> u32 \<Rightarrow> u64 \<Rightarrow> mutation_phase \<Rightarrow> mutation_disposition option \<Rightarrow>
    uuid option \<Rightarrow> string option \<Rightarrow> u64 \<Rightarrow> mutation_event" where
  "event_of g op attempt version phase disposition evidence code occurred =
     \<lparr>me_event_id = of_nat (Suc (length (lg_events g))), me_operation_id = op,
      me_attempt_number = attempt, me_state_version = version, me_phase = phase,
      me_disposition = disposition, me_evidence_id = evidence, me_outcome_code = code,
      me_occurred_at_unix_ms = occurred\<rparr>"

lemma insert_mutation_event_Inr:
  assumes "insert_mutation_event g op attempt version phase disposition evidence code occurred = Inr g'"
  shows "g' = g\<lparr>lg_events := lg_events g @
      [event_of g op attempt version phase disposition evidence code occurred]\<rparr>"
  using assms by (auto simp: insert_mutation_event_def event_of_def split: if_splits)

lemma lengths_fit_Inr: "lengths_fit ns = Inr u \<longleftrightarrow> (\<forall>n. Some n \<in> set ns \<longrightarrow> fits_i64 n)"
  by (auto simp: lengths_fit_def for_each_eq_Inr set_flatten_opt u64_to_i64_def split: if_splits)

lemma update_mutation_state_Inr:
  assumes upd: "update_mutation_state g s v = Inr g'"
    and dist: "distinct (map st_operation_id (lg_states g))"
    and row: "load_mutation_state g (st_operation_id s) = Some r" and ver: "st_state_version r = v"
  shows "g' = g\<lparr>lg_states := put_row st_operation_id (st_operation_id s) s (lg_states g)\<rparr>"
    and "fits_i64 (st_state_version s)" and "state_row_ok g s" and "fits_i64 (st_updated_at_unix_ms s)"
proof -
  let ?hit = "\<lambda>x. st_operation_id x = st_operation_id s \<and> st_state_version x = v"
  have r: "r \<in> set (lg_states g)" "st_operation_id r = st_operation_id s"
    using load_state_SomeD [OF row] by auto
  have "map (\<lambda>x. if ?hit x then s else x) (lg_states g) =
      put_row st_operation_id (st_operation_id s) s (lg_states g)"
    using map_hit_put_row [of st_operation_id "lg_states g" r ?hit "\<lambda>_. s"] dist r ver by auto
  then show "g' = g\<lparr>lg_states := put_row st_operation_id (st_operation_id s) s (lg_states g)\<rparr>"
    using upd by (auto simp: update_mutation_state_def Let_def split: if_splits)
  have "list_ex ?hit (lg_states g)" using r ver by (auto simp: list_ex_iff)
  then show "fits_i64 (st_state_version s)" "state_row_ok g s" "fits_i64 (st_updated_at_unix_ms s)"
    using upd by (auto simp: update_mutation_state_def lengths_fit_Inr Let_def split: if_splits)
qed

section \<open>The invariant\<close>

definition proven_complete :: "ledger \<Rightarrow> mutation_state \<Rightarrow> bool" where
  "proven_complete g s = (\<exists>i e. load_intent g (st_operation_id s) = Some i
     \<and> st_last_evidence_id s = Some (ev_evidence_id e)
     \<and> load_evidence g (ev_evidence_id e) = Some e
     \<and> ev_operation_id e = st_operation_id s \<and> ev_disposition e = VerifiedApplied
     \<and> validate_verified_applied_evidence (Some i) e = Inr ())"

definition state_ok :: "ledger \<Rightarrow> mutation_state \<Rightarrow> bool" where
  "state_ok g s =
     (st_attempt_number s = 0 \<and> st_phase s \<noteq> RetryScheduled \<and> st_next_attempt_at_unix_ms s = None
      \<and> st_retry_mode s = None \<and> st_resume_reference s = None \<and> fits_i64 (st_state_version s)
      \<and> fits_i64 (st_updated_at_unix_ms s)
      \<and> is_none_or (st_last_evidence_id s) (\<lambda>u. load_evidence g u \<noteq> None)
      \<and> gapless (map (unat \<circ> me_state_version) (load_mutation_events g (st_operation_id s)))
          (unat (st_state_version s))
      \<and> me_phase (last (load_mutation_events g (st_operation_id s))) = st_phase s
      \<and> (st_phase s = Completed \<longrightarrow> proven_complete g s))"

definition ledger_keys :: "ledger \<Rightarrow> bool" where
  "ledger_keys g =
     (distinct (map mi_operation_id (lg_intents g))
      \<and> distinct (map mi_operation_marker (lg_intents g))
      \<and> map st_operation_id (lg_states g) = map mi_operation_id (lg_intents g)
      \<and> distinct (map ev_evidence_id (lg_evidence g))
      \<and> (\<forall>e \<in> set (lg_evidence g). load_intent g (ev_operation_id e) \<noteq> None)
      \<and> (\<forall>m \<in> set (lg_events g). load_intent g (me_operation_id m) \<noteq> None)
      \<and> distinct (map ce_conflict_id (lg_conflicts g)))"

definition blocked_ok :: "ledger \<Rightarrow> mutation_state \<Rightarrow> bool" where
  "blocked_ok g s =
     (load_mutation_kind g (st_operation_id s) = Some RemoteExistingBlocked \<longrightarrow>
      st_phase s \<in> {NeedsReconcilePhase, Completed})"

definition ledger_core :: "libs \<Rightarrow> ledger \<Rightarrow> bool" where
  "ledger_core L g =
     (ledger_keys g \<and> (\<forall>i \<in> set (lg_intents g). validate_mutation_intent L i = Inr ())
      \<and> (\<forall>s \<in> set (lg_states g). state_ok g s))"

definition ledger_inv :: "libs \<Rightarrow> ledger \<Rightarrow> bool" where
  "ledger_inv L g = (ledger_core L g \<and> (\<forall>s \<in> set (lg_states g). blocked_ok g s))"

lemma ledger_inv_empty: "ledger_inv L empty_ledger"
  by (simp add: ledger_inv_def ledger_core_def ledger_keys_def empty_ledger_def)

lemma ledger_keys_states:
  assumes "ledger_keys g"
  shows "distinct (map st_operation_id (lg_states g))"
    and "load_mutation_state g u = None \<longleftrightarrow> load_intent g u = None"
proof -
  have keys: "map st_operation_id (lg_states g) = map mi_operation_id (lg_intents g)"
    and dist: "distinct (map mi_operation_id (lg_intents g))"
    using assms by (auto simp: ledger_keys_def)
  show "distinct (map st_operation_id (lg_states g))"
    using dist by (simp add: keys)
  show "load_mutation_state g u = None \<longleftrightarrow> load_intent g u = None"
    unfolding load_mutation_state_def load_intent_def find_key_None keys ..
qed

lemma ledger_keys_load_state:
  assumes "ledger_keys g"
  shows "load_mutation_state g u = Some s \<longleftrightarrow> s \<in> set (lg_states g) \<and> st_operation_id s = u"
  unfolding load_mutation_state_def
  by (rule find_key_Some_iff) (rule ledger_keys_states(1) [OF assms])

text \<open>Tables only grow: what a later ledger keeps of an earlier one.\<close>

definition extends :: "ledger \<Rightarrow> ledger \<Rightarrow> bool" where
  "extends g g' =
     ((\<forall>u i. load_intent g u = Some i \<longrightarrow> load_intent g' u = Some i)
      \<and> (\<forall>u e. load_evidence g u = Some e \<longrightarrow> load_evidence g' u = Some e)
      \<and> (\<exists>ms. lg_events g' = lg_events g @ ms)
      \<and> (\<forall>c r. load_conflict_evidence g c = Some r \<longrightarrow> load_conflict_evidence g' c = Some r))"

lemma extends_refl [simp]: "extends g g"
  by (simp add: extends_def)

lemma extends_trans: "extends g g' \<Longrightarrow> extends g' g'' \<Longrightarrow> extends g g''"
  by (auto simp: extends_def)

lemma extends_append:
  assumes "lg_intents g' = lg_intents g @ new" "lg_evidence g' = lg_evidence g @ es"
    "lg_events g' = lg_events g @ ms" "lg_conflicts g' = lg_conflicts g @ cs"
  shows "extends g g'"
  using assms
  by (auto simp: extends_def load_intent_def load_evidence_def load_conflict_evidence_def find_append)

lemma extends_kind:
  assumes "extends g g'" "load_intent g u \<noteq> None"
  shows "load_mutation_kind g' u = load_mutation_kind g u"
  using assms by (auto simp: extends_def load_mutation_kind_def)

lemma proven_complete_mono: "extends g g' \<Longrightarrow> proven_complete g s \<Longrightarrow> proven_complete g' s"
  unfolding proven_complete_def extends_def by blast

lemma load_evidence_None: "load_evidence g u = None \<longleftrightarrow> u \<notin> ev_evidence_id ` set (lg_evidence g)"
  unfolding load_evidence_def find_key_None by simp

lemma state_ok_frame:
  assumes "extends g g'" "state_ok g s"
    and "load_mutation_events g' (st_operation_id s) = load_mutation_events g (st_operation_id s)"
  shows "state_ok g' s"
proof -
  have "is_none_or (st_last_evidence_id s) (\<lambda>u. load_evidence g' u \<noteq> None)"
    using assms(1, 2) by (cases "st_last_evidence_id s") (auto simp: state_ok_def extends_def)
  then show ?thesis using assms proven_complete_mono by (auto simp: state_ok_def)
qed

lemma blocked_ok_frame:
  assumes "extends g g'" "blocked_ok g s" "load_intent g (st_operation_id s) \<noteq> None"
  shows "blocked_ok g' s"
  using assms by (simp add: blocked_ok_def extends_kind)

section \<open>One version step\<close>

text \<open>
  Claiming, recording an outcome and recovering all end alike: the state row is replaced by
  its successor, one event and at most one piece of evidence are appended.
\<close>

definition advance :: "ledger \<Rightarrow> mutation_state \<Rightarrow> mutation_verification_evidence list \<Rightarrow>
    mutation_event \<Rightarrow> ledger" where
  "advance g nxt es m =
     g\<lparr>lg_states := put_row st_operation_id (st_operation_id nxt) nxt (lg_states g),
       lg_events := lg_events g @ [m], lg_evidence := lg_evidence g @ es\<rparr>"

definition successor :: "ledger \<Rightarrow> mutation_state \<Rightarrow> mutation_state \<Rightarrow>
    mutation_verification_evidence list \<Rightarrow> mutation_event \<Rightarrow> bool" where
  "successor g s nxt es m =
     (load_mutation_state g (st_operation_id s) = Some s
      \<and> st_operation_id nxt = st_operation_id s
      \<and> st_state_version nxt = st_state_version s + 1 \<and> fits_i64 (st_state_version nxt)
      \<and> fits_i64 (st_updated_at_unix_ms nxt) \<and> length es \<le> 1
      \<and> is_none_or (st_last_evidence_id nxt) (\<lambda>u. u \<in> ev_evidence_id ` set (lg_evidence g @ es))
      \<and> (\<forall>e \<in> set es. load_evidence g (ev_evidence_id e) = None \<and> ev_operation_id e = st_operation_id s)
      \<and> me_operation_id m = st_operation_id s \<and> me_state_version m = st_state_version nxt
      \<and> me_phase m = st_phase nxt \<and> me_attempt_number m = st_attempt_number nxt
      \<and> me_disposition m = st_disposition nxt)"

definition plain_row :: "mutation_state \<Rightarrow> bool" where
  "plain_row s = (st_attempt_number s = 0 \<and> st_phase s \<noteq> RetryScheduled
     \<and> st_next_attempt_at_unix_ms s = None \<and> st_retry_mode s = None \<and> st_resume_reference s = None)"

text \<open>A row that an outcome put there, with the evidence of that outcome.\<close>

definition outcome_row :: "mutation_state \<Rightarrow> mutation_verification_evidence \<Rightarrow> bool" where
  "outcome_row s e =
     (st_operation_id s = ev_operation_id e \<and> st_last_evidence_id s = Some (ev_evidence_id e)
      \<and> st_disposition s = Some (ev_disposition e) \<and> st_outcome_code s = ev_outcome_code e
      \<and> (st_phase s, ev_disposition e)
        \<in> {(Completed, VerifiedApplied), (NeedsReconcilePhase, NeedsReconcileDisposition)})"

lemma state_ok_plain: "state_ok g s \<Longrightarrow> plain_row s"
  by (simp add: state_ok_def plain_row_def)

lemma advance_extends: "extends g (advance g nxt es m)"
  by (rule extends_append [where new = "[]" and cs = "[]" and es = es and ms = "[m]"])
    (simp_all add: advance_def)

lemma advance_load_intent [simp]: "load_intent (advance g nxt es m) = load_intent g"
  by (simp add: advance_def load_intent_def fun_eq_iff)

lemma advance_load_kind [simp]: "load_mutation_kind (advance g nxt es m) = load_mutation_kind g"
  by (simp add: load_mutation_kind_def fun_eq_iff)

lemma advance_load_state:
  assumes "successor g s nxt es m"
  shows "load_mutation_state (advance g nxt es m) u =
    (if u = st_operation_id s then Some nxt else load_mutation_state g u)"
  using assms find_put_row [of st_operation_id nxt "st_operation_id nxt" "lg_states g" u]
  by (auto simp: successor_def advance_def load_mutation_state_def)

lemma advance_load_events:
  assumes "successor g s nxt es m"
  shows "load_mutation_events (advance g nxt es m) u =
    load_mutation_events g u @ (if u = st_operation_id s then [m] else [])"
  using assms by (auto simp: successor_def advance_def load_mutation_events_def)

lemma advance_load_evidence:
  assumes "successor g s nxt [e] m"
  shows "load_evidence (advance g nxt [e] m) (ev_evidence_id e) = Some e"
  using assms by (auto simp: successor_def advance_def load_evidence_def find_append)

lemma fits_i64_Suc:
  assumes "fits_i64 v" shows "unat (v + 1) = Suc (unat v)"
proof -
  have "v + 1 \<noteq> 0"
  proof
    assume "v + 1 = 0"
    then have "v = -1" by (simp add: eq_neg_iff_add_eq_0)
    then show False using assms by (simp add: fits_i64_def)
  qed
  then show ?thesis using unatSuc [of v] by (simp add: add.commute)
qed

lemma ledger_keys_advance:
  assumes keys: "ledger_keys g" and suc: "successor g s nxt es m"
  shows "ledger_keys (advance g nxt es m)"
proof -
  have i: "load_intent g (st_operation_id s) \<noteq> None"
    using suc ledger_keys_states(2) [OF keys, of "st_operation_id s"] by (simp add: successor_def)
  have "distinct (map ev_evidence_id (lg_evidence g @ es))"
    using keys suc
    by (cases es) (auto simp: ledger_keys_def successor_def load_evidence_def find_None_iff)
  moreover have "\<forall>e \<in> set (lg_evidence g @ es). load_intent g (ev_operation_id e) \<noteq> None"
    using keys suc i unfolding ledger_keys_def successor_def by auto
  moreover have "\<forall>x \<in> set (lg_events g @ [m]). load_intent g (me_operation_id x) \<noteq> None"
    using keys suc i unfolding ledger_keys_def successor_def by auto
  ultimately show ?thesis
    using keys unfolding ledger_keys_def advance_load_intent by (simp add: advance_def)
qed

lemma state_ok_advance:
  assumes ok: "state_ok g s" and suc: "successor g s nxt es m" and plain: "plain_row nxt"
    and compl: "st_phase nxt = Completed \<Longrightarrow> proven_complete (advance g nxt es m) nxt"
  shows "state_ok (advance g nxt es m) nxt"
proof -
  have ev: "load_mutation_events (advance g nxt es m) (st_operation_id nxt) =
      load_mutation_events g (st_operation_id s) @ [m]"
    using advance_load_events [OF suc] suc by (simp add: successor_def)
  have ver: "unat (st_state_version nxt) = Suc (unat (st_state_version s))"
    using ok suc fits_i64_Suc by (simp add: state_ok_def successor_def)
  have "is_none_or (st_last_evidence_id nxt) (\<lambda>u. load_evidence (advance g nxt es m) u \<noteq> None)"
    using suc unfolding load_evidence_None by (cases "st_last_evidence_id nxt") (auto simp: successor_def advance_def)
  then show ?thesis
    unfolding state_ok_def ev ver
    using ok suc plain compl gapless_Suc ver
    by (auto simp: state_ok_def plain_row_def successor_def)
qed

lemma ledger_core_advance:
  assumes core: "ledger_core L g" and suc: "successor g s nxt es m" and plain: "plain_row nxt"
    and compl: "st_phase nxt = Completed \<Longrightarrow> proven_complete (advance g nxt es m) nxt"
  shows "ledger_core L (advance g nxt es m)"
proof -
  have keys: "ledger_keys g" using core by (simp add: ledger_core_def)
  have s: "s \<in> set (lg_states g)" using suc load_state_SomeD by (auto simp: successor_def)
  have "state_ok (advance g nxt es m) r" if r: "r \<in> set (lg_states (advance g nxt es m))" for r
  proof (cases "r = nxt")
    case True
    then show ?thesis using state_ok_advance [OF _ suc plain compl] core s by (simp add: ledger_core_def)
  next
    case False
    then have old: "r \<in> set (lg_states g)" "st_operation_id r \<noteq> st_operation_id s"
      using set_put_row r suc by (fastforce simp: advance_def successor_def)+
    then show ?thesis
      using state_ok_frame [OF advance_extends] advance_load_events [OF suc] core
      by (simp add: ledger_core_def)
  qed
  then show ?thesis
    using core ledger_keys_advance [OF keys suc] by (simp add: ledger_core_def advance_def)
qed

lemma ledger_inv_advance:
  assumes inv: "ledger_inv L g" and suc: "successor g s nxt es m" and plain: "plain_row nxt"
    and compl: "st_phase nxt = Completed \<Longrightarrow> proven_complete (advance g nxt es m) nxt"
    and blocked: "blocked_ok g nxt"
  shows "ledger_inv L (advance g nxt es m)"
proof -
  have "blocked_ok (advance g nxt es m) r" if "r \<in> set (lg_states (advance g nxt es m))" for r
    using that set_put_row inv blocked
    by (fastforce simp: advance_def ledger_inv_def blocked_ok_def load_mutation_kind_def load_intent_def)
  then show ?thesis
    using ledger_core_advance [OF _ suc plain compl] inv by (simp add: ledger_inv_def)
qed

section \<open>Each operation is a version step\<close>

lemma ledger_invD:
  assumes "ledger_inv L g"
  shows "ledger_keys g" "ledger_core L g"
    "load_mutation_state g u = Some s \<Longrightarrow> state_ok g s"
    "load_mutation_state g u = Some s \<Longrightarrow> plain_row s"
    "load_mutation_state g u = Some s \<Longrightarrow> blocked_ok g s"
    "load_mutation_state g u = Some s \<Longrightarrow> st_operation_id s = u"
  using assms load_state_SomeD [of g u s] state_ok_plain [of g s]
  by (auto simp: ledger_inv_def ledger_core_def)

text \<open>The common tail of the three operations: update the row, append the event.\<close>

lemma update_then_event:
  assumes keys: "ledger_keys g" and row: "load_mutation_state g op = Some s"
    and ids: "st_operation_id nxt = op" "st_state_version nxt = st_state_version s + 1"
    and es: "length es \<le> 1"
      "\<forall>e \<in> set es. load_evidence g (ev_evidence_id e) = None \<and> ev_operation_id e = op"
    and upd: "update_mutation_state (g\<lparr>lg_evidence := lg_evidence g @ es\<rparr>) nxt (st_state_version s) = Inr g2"
    and ev: "insert_mutation_event g2 op (st_attempt_number nxt) (st_state_version nxt) (st_phase nxt)
      (st_disposition nxt) evidence code occurred = Inr g3"
  shows "\<exists>m. successor g s nxt es m \<and> g3 = advance g nxt es m"
proof -
  let ?g1 = "g\<lparr>lg_evidence := lg_evidence g @ es\<rparr>"
  let ?m = "event_of g2 op (st_attempt_number nxt) (st_state_version nxt) (st_phase nxt)
      (st_disposition nxt) evidence code occurred"
  have dist: "distinct (map st_operation_id (lg_states ?g1))"
    using ledger_keys_states(1) [OF keys] by simp
  have row1: "load_mutation_state ?g1 (st_operation_id nxt) = Some s"
    using row ids by (simp add: load_mutation_state_def)
  have g2: "g2 = ?g1\<lparr>lg_states := put_row st_operation_id (st_operation_id nxt) nxt (lg_states ?g1)\<rparr>"
    and fits: "fits_i64 (st_state_version nxt)" "fits_i64 (st_updated_at_unix_ms nxt)"
    and row_ok: "state_row_ok ?g1 nxt"
    using update_mutation_state_Inr [OF upd dist row1] by simp_all
  have g3: "g3 = advance g nxt es ?m"
    using insert_mutation_event_Inr [OF ev] by (simp add: g2 advance_def)
  have "st_operation_id s = op" using load_state_SomeD [OF row] by simp
  moreover have "is_none_or (st_last_evidence_id nxt) (\<lambda>u. u \<in> ev_evidence_id ` set (lg_evidence g @ es))"
    using row_ok unfolding state_row_ok_def load_evidence_None by simp
  ultimately have "successor g s nxt es ?m"
    using row ids es fits by (simp add: successor_def event_of_def)
  then show ?thesis using g3 by blast
qed

lemma claim_mutation_Inr:
  assumes inv: "ledger_inv L g" and claim: "claim_mutation op v now g = Inr (nxt, g')"
  obtains s m k where "successor g s nxt [] m" "g' = advance g nxt [] m" "st_operation_id s = op"
    "st_state_version s = v" "st_phase s = IntentDurable" "nxt = claimed_state s now"
    "load_mutation_kind g op = Some k" "k \<noteq> RemoteExistingBlocked"
proof -
  obtain k s g1 where k: "load_mutation_kind g op = Some k" "k \<noteq> RemoteExistingBlocked"
    and s: "load_mutation_state g op = Some s" "st_state_version s = v"
      "st_phase s \<in> {IntentDurable, RetryScheduled}" and nxt: "nxt = claimed_state s now"
    and upd: "update_mutation_state g nxt (st_state_version s) = Inr g1"
    and ev: "insert_mutation_event g1 op (st_attempt_number nxt) (st_state_version nxt)
       (st_phase nxt) None None None now = Inr g'"
    using claim by (auto simp: claim_mutation_def Let_def split: if_splits)
  have op: "st_operation_id s = op" using load_state_SomeD [OF s(1)] by simp
  have phase: "st_phase s = IntentDurable"
    using s(3) ledger_invD(4) [OF inv s(1)] by (auto simp: plain_row_def)
  have "\<exists>m. successor g s nxt [] m \<and> g' = advance g nxt [] m"
    by (rule update_then_event [of g op s _ _ g1, OF ledger_invD(1) [OF inv] s(1)])
      (use upd ev op in \<open>simp_all add: nxt claimed_state_def\<close>)
  then show thesis using that k s op phase nxt by blast
qed

lemma transition_target_Inr:
  assumes "transition_target p e t = Inr (ph, d, na, rm, rr)"
  shows "na = None" "rm = None" "rr = None"
    and "t = TransitionVerifiedApplied \<and> p \<in> {Running, NeedsReconcilePhase} \<and> ph = Completed
         \<and> d = VerifiedApplied \<and> ev_disposition e = VerifiedApplied
       \<or> t = TransitionNeedsReconcile \<and> p = Running \<and> ph = NeedsReconcilePhase
         \<and> d = NeedsReconcileDisposition \<and> ev_disposition e = NeedsReconcileDisposition"
  using assms by (auto simp: transition_target_def split: mutation_outcome_transition.splits if_splits)

lemma record_mutation_outcome_Inr:
  assumes inv: "ledger_inv L g"
    and out: "record_mutation_outcome L op v e t g = Inr (nxt, g')"
  obtains s m where "successor g s nxt [e] m" "g' = advance g nxt [e] m" "st_operation_id s = op"
    "st_state_version s = v" "plain_row nxt" "st_last_evidence_id nxt = Some (ev_evidence_id e)"
    "t = TransitionVerifiedApplied \<and> st_phase s \<in> {Running, NeedsReconcilePhase}
       \<and> st_phase nxt = Completed \<and> ev_disposition e = VerifiedApplied
       \<and> validate_verified_applied_evidence (load_intent g op) e = Inr ()
     \<or> t = TransitionNeedsReconcile \<and> st_phase s = Running \<and> st_phase nxt = NeedsReconcilePhase"
proof -
  obtain s ph d na rm rr g1 g2 where e: "ev_operation_id e = op"
    and s: "load_mutation_state g op = Some s" "st_state_version s = v"
    and applied: "t = TransitionVerifiedApplied \<Longrightarrow>
      validate_verified_applied_evidence (load_intent g (ev_operation_id e)) e = Inr ()"
    and tt: "transition_target (st_phase s) e t = Inr (ph, d, na, rm, rr)"
    and ins: "insert_mutation_evidence g e = Inr g1"
    and nxt: "nxt = \<lparr>st_operation_id = op, st_phase = ph, st_attempt_number = st_attempt_number s,
       st_state_version = st_state_version s + 1, st_disposition = Some d,
       st_next_attempt_at_unix_ms = na, st_retry_mode = rm, st_resume_reference = rr,
       st_last_evidence_id = Some (ev_evidence_id e), st_outcome_code = ev_outcome_code e,
       st_updated_at_unix_ms = ev_captured_at_unix_ms e\<rparr>"
    and upd: "update_mutation_state g1 nxt (st_state_version s) = Inr g2"
    and ev: "insert_mutation_event g2 op (st_attempt_number nxt) (st_state_version nxt)
       (st_phase nxt) (st_disposition nxt) (Some (ev_evidence_id e)) (ev_outcome_code e)
       (ev_captured_at_unix_ms e) = Inr g'"
    using out by (auto simp: record_mutation_outcome_def Let_def split: if_splits)
  note target = transition_target_Inr [OF tt]
  have plain: "plain_row nxt"
    using ledger_invD(4) [OF inv s(1)] target by (auto simp: plain_row_def nxt)
  have "\<exists>m. successor g s nxt [e] m \<and> g' = advance g nxt [e] m"
  proof (rule update_then_event [OF ledger_invD(1) [OF inv] s(1)])
    show "update_mutation_state (g\<lparr>lg_evidence := lg_evidence g @ [e]\<rparr>) nxt (st_state_version s) = Inr g2"
      using upd insert_mutation_evidence_Inr(1) [OF ins] by simp
    show "\<forall>x \<in> set [e]. load_evidence g (ev_evidence_id x) = None \<and> ev_operation_id x = op"
      using e insert_mutation_evidence_Inr(2) [OF ins] by simp
  qed (use ev in \<open>simp_all add: nxt\<close>)
  moreover have "st_operation_id s = op" using load_state_SomeD [OF s(1)] by simp
  ultimately show thesis
    using that s plain target(4) applied e by (fastforce simp: nxt)
qed

lemma claim_mutation_inv:
  assumes inv: "ledger_inv L g" and claim: "claim_mutation op v now g = Inr (nxt, g')"
  shows "ledger_inv L g'"
proof -
  obtain s m k where suc: "successor g s nxt [] m" and g': "g' = advance g nxt [] m"
    and op: "st_operation_id s = op" and "st_state_version s = v" and ph: "st_phase s = IntentDurable"
    and nxt: "nxt = claimed_state s now"
    and k: "load_mutation_kind g op = Some k" "k \<noteq> RemoteExistingBlocked"
    by (rule claim_mutation_Inr [OF inv claim])
  have "plain_row s" using suc ledger_invD(4) [OF inv, of op s] op by (simp add: successor_def)
  then show ?thesis
    unfolding g' using k op ph
    by (intro ledger_inv_advance [OF inv suc])
      (auto simp: nxt claimed_state_def plain_row_def blocked_ok_def)
qed

lemma record_mutation_outcome_inv:
  assumes inv: "ledger_inv L g" and out: "record_mutation_outcome L op v e t g = Inr (nxt, g')"
  shows "ledger_inv L g'"
proof -
  obtain s m where suc: "successor g s nxt [e] m" and g': "g' = advance g nxt [e] m"
    and op: "st_operation_id s = op" and "st_state_version s = v" and plain: "plain_row nxt"
    and last: "st_last_evidence_id nxt = Some (ev_evidence_id e)"
    and target: "t = TransitionVerifiedApplied \<and> st_phase s \<in> {Running, NeedsReconcilePhase}
       \<and> st_phase nxt = Completed \<and> ev_disposition e = VerifiedApplied
       \<and> validate_verified_applied_evidence (load_intent g op) e = Inr ()
     \<or> t = TransitionNeedsReconcile \<and> st_phase s = Running \<and> st_phase nxt = NeedsReconcilePhase"
    by (rule record_mutation_outcome_Inr [OF inv out])
  have ids: "st_operation_id nxt = op" "ev_operation_id e = op"
    using suc op by (auto simp: successor_def)
  have i: "load_intent g op \<noteq> None"
    using suc op ledger_keys_states(2) [OF ledger_invD(1) [OF inv], of op] by (simp add: successor_def)
  have "proven_complete (advance g nxt [e] m) nxt" if "st_phase nxt = Completed"
    using that target i ids last advance_load_evidence [OF suc] unfolding proven_complete_def by auto
  moreover have "blocked_ok g nxt" using target by (auto simp: blocked_ok_def)
  ultimately show ?thesis
    unfolding g' by (intro ledger_inv_advance [OF inv suc plain]) auto
qed

lemma recover_one_Inr:
  assumes inv: "ledger_inv L g" and rec: "recover_one L fresh s g = Inr g'"
    and row: "load_mutation_state g (st_operation_id s) = Some s"
  obtains nxt e m where "successor g s nxt [e] m" "g' = advance g nxt [e] m"
    "st_phase nxt = NeedsReconcilePhase" "plain_row nxt" "ev_evidence_id e = fresh (st_operation_id s)"
    "outcome_row nxt e" "ev_evidence_fingerprint e = evidence_fingerprint L e"
proof -
  let ?op = "st_operation_id s"
  let ?e = "interrupted_mutation_evidence L (fresh ?op) ?op (st_attempt_number s) (st_updated_at_unix_ms s)"
  define nxt where "nxt = \<lparr>st_operation_id = ?op, st_phase = NeedsReconcilePhase,
     st_attempt_number = st_attempt_number s, st_state_version = st_state_version s + 1,
     st_disposition = Some NeedsReconcileDisposition, st_next_attempt_at_unix_ms = None,
     st_retry_mode = None, st_resume_reference = None, st_last_evidence_id = Some (ev_evidence_id ?e),
     st_outcome_code = ev_outcome_code ?e, st_updated_at_unix_ms = st_updated_at_unix_ms s\<rparr>"
  obtain g1 g2 where ins: "insert_mutation_evidence g ?e = Inr g1"
    and upd: "update_mutation_state g1 nxt (st_state_version s) = Inr g2"
    and ev: "insert_mutation_event g2 ?op (st_attempt_number nxt) (st_state_version nxt) (st_phase nxt)
      (st_disposition nxt) (Some (ev_evidence_id ?e)) (ev_outcome_code ?e) (st_updated_at_unix_ms s) = Inr g'"
    using rec by (auto simp: recover_one_def nxt_def Let_def)
  have e: "ev_operation_id ?e = ?op" "ev_evidence_id ?e = fresh ?op"
    by (simp_all add: interrupted_mutation_evidence_def Let_def)
  have plain: "plain_row nxt" using ledger_invD(4) [OF inv row] by (simp add: plain_row_def nxt_def)
  have "\<exists>m. successor g s nxt [?e] m \<and> g' = advance g nxt [?e] m"
  proof (rule update_then_event [OF ledger_invD(1) [OF inv] row])
    show "update_mutation_state (g\<lparr>lg_evidence := lg_evidence g @ [?e]\<rparr>) nxt (st_state_version s) = Inr g2"
      using upd insert_mutation_evidence_Inr(1) [OF ins] by simp
    show "\<forall>x \<in> set [?e]. load_evidence g (ev_evidence_id x) = None \<and> ev_operation_id x = ?op"
      using e insert_mutation_evidence_Inr(2) [OF ins] by simp
  qed (use ev in \<open>simp_all add: nxt_def\<close>)
  moreover have "outcome_row nxt ?e" by (simp add: outcome_row_def nxt_def interrupted_mutation_evidence_def Let_def)
  moreover have "ev_evidence_fingerprint ?e = evidence_fingerprint L ?e"
    by (simp add: interrupted_mutation_evidence_def Let_def evidence_fingerprint_def evidence_fields_def)
  ultimately show thesis using that [of nxt ?e] plain e by (auto simp: nxt_def)
qed

lemma recover_one_inv:
  assumes inv: "ledger_inv L g" and rec: "recover_one L fresh s g = Inr g'"
    and row: "load_mutation_state g (st_operation_id s) = Some s"
  shows "ledger_inv L g'"
proof -
  obtain nxt e m where suc: "successor g s nxt [e] m" and g': "g' = advance g nxt [e] m"
    and ph: "st_phase nxt = NeedsReconcilePhase" and plain: "plain_row nxt"
    and "ev_evidence_id e = fresh (st_operation_id s)"
    and "outcome_row nxt e" "ev_evidence_fingerprint e = evidence_fingerprint L e"
    by (rule recover_one_Inr [OF assms])
  show ?thesis
    unfolding g' by (rule ledger_inv_advance [OF inv suc plain]) (simp_all add: ph blocked_ok_def)
qed

text \<open>
  Recovery handles the running rows it selected one after the other; a step on one leaves the
  others as selected.
\<close>

definition recovered :: "mutation_state list \<Rightarrow> ledger \<Rightarrow> ledger \<Rightarrow> bool" where
  "recovered ss g g' =
     (extends g g' \<and> lg_intents g' = lg_intents g
      \<and> (\<forall>u. u \<notin> st_operation_id ` set ss \<longrightarrow> load_mutation_state g' u = load_mutation_state g u)
      \<and> (\<forall>s \<in> set ss. \<exists>n. load_mutation_state g' (st_operation_id s) = Some n
           \<and> st_phase n = NeedsReconcilePhase \<and> st_state_version n = st_state_version s + 1))"

lemma recover_each_Inr:
  assumes "ledger_inv L g" "recover_each L fresh ss g = Inr g'"
    and "distinct (map st_operation_id ss)"
    and "\<forall>s \<in> set ss. load_mutation_state g (st_operation_id s) = Some s"
  shows "ledger_inv L g' \<and> recovered ss g g'"
  using assms
proof (induction ss arbitrary: g)
  case Nil
  then show ?case by (simp add: recovered_def)
next
  case (Cons s ss)
  obtain g1 where g1: "recover_one L fresh s g = Inr g1" "recover_each L fresh ss g1 = Inr g'"
    using Cons.prems(2) by auto
  obtain nxt e m where suc: "successor g s nxt [e] m" and adv: "g1 = advance g nxt [e] m"
    and ph: "st_phase nxt = NeedsReconcilePhase" and "plain_row nxt"
    and "ev_evidence_id e = fresh (st_operation_id s)"
    and "outcome_row nxt e" "ev_evidence_fingerprint e = evidence_fingerprint L e"
    by (rule recover_one_Inr [OF Cons.prems(1) g1(1)]) (simp add: Cons.prems(4))
  have inv1: "ledger_inv L g1" using recover_one_inv [OF Cons.prems(1) g1(1)] Cons.prems(4) by simp
  have load1: "load_mutation_state g1 u = (if u = st_operation_id s then Some nxt else load_mutation_state g u)" for u
    using advance_load_state [OF suc] by (simp add: adv)
  have "\<forall>r \<in> set ss. load_mutation_state g1 (st_operation_id r) = Some r"
    using Cons.prems(3, 4) by (auto simp: load1 image_iff)
  then have IH: "ledger_inv L g' \<and> recovered ss g1 g'"
    using Cons.IH [OF inv1 g1(2)] Cons.prems(3) by simp
  have "extends g g1" "lg_intents g1 = lg_intents g" by (simp_all add: adv advance_extends) (simp add: advance_def)
  moreover have "st_state_version nxt = st_state_version s + 1" using suc by (simp add: successor_def)
  moreover have "st_operation_id s \<notin> st_operation_id ` set ss" using Cons.prems(3) by simp
  ultimately show ?case
    using IH ph load1 extends_trans [of g g1 g'] unfolding recovered_def by auto
qed

definition running_rows :: "ledger \<Rightarrow> mutation_state list" where
  "running_rows g = sort_key st_operation_id (filter (\<lambda>s. st_phase s = Running) (lg_states g))"

lemma running_rows_props:
  assumes "ledger_keys g"
  shows "distinct (map st_operation_id (running_rows g))"
    and "s \<in> set (running_rows g) \<longleftrightarrow>
         load_mutation_state g (st_operation_id s) = Some s \<and> st_phase s = Running"
proof -
  have "distinct (map st_operation_id (filter (\<lambda>s. st_phase s = Running) (lg_states g)))"
    using ledger_keys_states(1) [OF assms] by (simp add: distinct_map_filter)
  then have "inj_on st_operation_id (set (running_rows g))" "distinct (running_rows g)"
    by (simp_all add: running_rows_def distinct_map)
  then show "distinct (map st_operation_id (running_rows g))" by (simp add: distinct_map)
  show "s \<in> set (running_rows g) \<longleftrightarrow>
      load_mutation_state g (st_operation_id s) = Some s \<and> st_phase s = Running"
    by (auto simp: running_rows_def ledger_keys_load_state [OF assms])
qed

lemma recover_interrupted_Inr:
  assumes inv: "ledger_inv L g" and rec: "recover_interrupted_mutations L fresh g = Inr g'"
  shows "ledger_inv L g'" "recovered (running_rows g) g g'"
  using recover_each_Inr [OF inv, of fresh "running_rows g" g'] rec
    running_rows_props [OF ledger_invD(1) [OF inv]]
  by (simp_all add: recover_interrupted_mutations_def running_rows_def)

subsection \<open>Registration\<close>

definition enrolled :: "ledger \<Rightarrow> mutation_intent \<Rightarrow> mutation_event \<Rightarrow> ledger" where
  "enrolled g i m = g\<lparr>lg_intents := lg_intents g @ [i], lg_states := lg_states g @ [initial_state i],
     lg_events := lg_events g @ [m]\<rparr>"

lemma enrolled_extends: "extends g (enrolled g i m)"
  by (rule extends_append [where new = "[i]" and cs = "[]" and es = "[]" and ms = "[m]"])
    (simp_all add: enrolled_def)

lemma validate_intent_fits: "validate_mutation_intent L i = Inr () \<Longrightarrow> fits_i64 (mi_registered_at_unix_ms i)"
  by (auto simp: validate_mutation_intent_def u64_to_i64_def split: if_splits)

lemma ledger_core_enrolled:
  assumes core: "ledger_core L g" and fresh: "load_intent g (mi_operation_id i) = None"
    and marker: "\<not> mutation_marker_exists g (mi_operation_marker i)"
    and valid: "validate_mutation_intent L i = Inr ()"
    and m: "me_operation_id m = mi_operation_id i" "me_state_version m = 0" "me_phase m = IntentDurable"
  shows "ledger_core L (enrolled g i m)"
proof -
  have keys: "ledger_keys g" using core by (simp add: ledger_core_def)
  have load: "load_intent (enrolled g i m) u = (if u = mi_operation_id i then Some i else load_intent g u)" for u
    using find_key_append [of mi_operation_id i "lg_intents g" u] fresh
    by (simp add: load_intent_def enrolled_def)
  have no_events: "load_mutation_events g (mi_operation_id i) = []"
    using keys fresh by (auto simp: ledger_keys_def load_mutation_events_def filter_empty_conv)
  have new: "mi_operation_id i \<notin> mi_operation_id ` set (lg_intents g)"
    "mi_operation_marker i \<notin> mi_operation_marker ` set (lg_intents g)"
    using fresh marker by (auto simp: load_intent_def find_None_iff mutation_marker_exists_def list_ex_iff)
  have "ledger_keys (enrolled g i m)"
    unfolding ledger_keys_def load
    using keys new m by (auto simp: ledger_keys_def enrolled_def initial_state_def)
  moreover have "state_ok (enrolled g i m) s" if "s \<in> set (lg_states (enrolled g i m))" for s
  proof (cases "s \<in> set (lg_states g)")
    case True
    then have "load_mutation_state g (st_operation_id s) = Some s"
      using ledger_keys_load_state [OF keys] by simp
    then have "st_operation_id s \<noteq> mi_operation_id i"
      using ledger_keys_states(2) [OF keys, of "st_operation_id s"] fresh by auto
    then show ?thesis
      using state_ok_frame [OF enrolled_extends] core True m
      by (simp add: ledger_core_def load_mutation_events_def enrolled_def)
  next
    case False
    then have "s = initial_state i" using that by (simp add: enrolled_def)
    moreover have "load_mutation_events (enrolled g i m) (mi_operation_id i) = [m]"
      using no_events m by (simp add: load_mutation_events_def enrolled_def)
    ultimately show ?thesis
      using m validate_intent_fits [OF valid] by (simp add: state_ok_def initial_state_def fits_i64_def)
  qed
  ultimately show ?thesis using core valid by (simp add: ledger_core_def enrolled_def)
qed

lemma register_mutation_intent_Inr:
  assumes reg: "register_mutation_intent L i ev g = Inr (out, g')"
  shows "register_preconditions L i ev = Inr ()"
    and "(out = AlreadyPresent \<or> out = AlreadyCompleted) \<and> g' = g \<and> load_intent g (mi_operation_id i) \<noteq> None
      \<or> out = Registered \<and> load_intent g (mi_operation_id i) = None
        \<and> \<not> mutation_marker_exists g (mi_operation_marker i)
        \<and> (\<exists>m. me_operation_id m = mi_operation_id i \<and> me_state_version m = 0
             \<and> me_phase m = IntentDurable
             \<and> (case ev of None \<Rightarrow> g' = enrolled g i m
                | Some e \<Rightarrow> register_blocked (enrolled g i m) i e = Inr g'))"
proof -
  show "register_preconditions L i ev = Inr ()"
    using reg by (simp add: register_mutation_intent_def)
  show "(out = AlreadyPresent \<or> out = AlreadyCompleted) \<and> g' = g \<and> load_intent g (mi_operation_id i) \<noteq> None
      \<or> out = Registered \<and> load_intent g (mi_operation_id i) = None
        \<and> \<not> mutation_marker_exists g (mi_operation_marker i)
        \<and> (\<exists>m. me_operation_id m = mi_operation_id i \<and> me_state_version m = 0
             \<and> me_phase m = IntentDurable
             \<and> (case ev of None \<Rightarrow> g' = enrolled g i m
                | Some e \<Rightarrow> register_blocked (enrolled g i m) i e = Inr g'))"
  proof (cases "load_intent g (mi_operation_id i)")
    case None
    then obtain g1 g2 g3 where
      g1: "insert_mutation_intent g i = Inr g1" and g2: "insert_mutation_state g1 (initial_state i) = Inr g2"
      and g3: "insert_mutation_event g2 (mi_operation_id i) 0 0 IntentDurable None None None
        (mi_registered_at_unix_ms i) = Inr g3"
      and last: "(case ev of None \<Rightarrow> Inr g3 | Some e \<Rightarrow> register_blocked g3 i e) = Inr g'" "out = Registered"
      using reg by (auto simp: register_mutation_intent_def load_mutation_identity_def split: if_splits)
    let ?m = "event_of g2 (mi_operation_id i) 0 0 IntentDurable None None None (mi_registered_at_unix_ms i)"
    have "g3 = enrolled g i ?m"
      using insert_mutation_intent_Inr(1) [OF g1] insert_mutation_state_Inr(1) [OF g2]
        insert_mutation_event_Inr [OF g3] by (simp add: enrolled_def)
    then show ?thesis
      using last None insert_mutation_intent_Inr(3) [OF g1]
      by (intro disjI2) (auto simp: event_of_def split: option.splits intro!: exI [of _ ?m])
  next
    case (Some j)
    then show ?thesis
      using reg by (auto simp: register_mutation_intent_def load_mutation_identity_def split: if_splits)
  qed
qed

lemma register_preconditions_Inr:
  assumes "register_preconditions L i ev = Inr ()"
  shows "validate_mutation_intent L i = Inr ()"
    and "mi_operation_kind i = RemoteExistingBlocked \<longleftrightarrow> ev \<noteq> None"
    and "ev = Some e \<Longrightarrow> ev_operation_id e = mi_operation_id i \<and> blocked_evidence_ok i e
           \<and> validate_mutation_evidence L e = Inr ()"
  using assms
  by (auto simp: register_preconditions_def split: option.splits if_splits)

lemma register_blocked_Inr:
  assumes core: "ledger_core L g" and row: "load_mutation_state g (mi_operation_id i) = Some (initial_state i)"
    and reg: "register_blocked g i e = Inr g'" and e: "ev_operation_id e = mi_operation_id i"
    and disp: "ev_disposition e = NeedsReconcileDisposition"
  obtains nxt m where "successor g (initial_state i) nxt [e] m" "g' = advance g nxt [e] m"
    "st_phase nxt = NeedsReconcilePhase" "plain_row nxt" "st_operation_id nxt = mi_operation_id i"
    "st_state_version nxt = 1" "outcome_row nxt e"
proof -
  let ?hit = "\<lambda>r. st_operation_id r = mi_operation_id i \<and> st_state_version r = 0 \<and> st_phase r = IntentDurable"
  let ?put = "\<lambda>r :: mutation_state. r\<lparr>st_phase := NeedsReconcilePhase, st_state_version := 1,
     st_disposition := Some NeedsReconcileDisposition, st_last_evidence_id := Some (ev_evidence_id e),
     st_outcome_code := ev_outcome_code e, st_updated_at_unix_ms := ev_captured_at_unix_ms e\<rparr>"
  define nxt where "nxt = ?put (initial_state i)"
  have keys: "ledger_keys g" using core by (simp add: ledger_core_def)
  obtain g1 where ins: "insert_mutation_evidence g e = Inr g1" and fits: "fits_i64 (ev_captured_at_unix_ms e)"
    and ev: "insert_mutation_event
            (g1\<lparr>lg_states := map (\<lambda>r. if ?hit r then ?put r else r) (lg_states g1)\<rparr>)
            (mi_operation_id i) 0 1 NeedsReconcilePhase (Some NeedsReconcileDisposition)
            (Some (ev_evidence_id e)) (ev_outcome_code e) (ev_captured_at_unix_ms e) = Inr g'"
    using reg by (auto simp: register_blocked_def lengths_fit_Inr Let_def split: if_splits)
  have g1: "g1 = g\<lparr>lg_evidence := lg_evidence g @ [e]\<rparr>" and new: "load_evidence g (ev_evidence_id e) = None"
    using insert_mutation_evidence_Inr [OF ins] by simp_all
  have put: "map (\<lambda>r. if ?hit r then ?put r else r) (lg_states g) =
      put_row st_operation_id (mi_operation_id i) nxt (lg_states g)"
    using map_hit_put_row [of st_operation_id "lg_states g" "initial_state i" ?hit ?put]
      ledger_keys_states(1) [OF keys] load_state_SomeD [OF row]
    by (simp add: nxt_def initial_state_def)
  let ?m = "event_of (g1\<lparr>lg_states := map (\<lambda>r. if ?hit r then ?put r else r) (lg_states g1)\<rparr>)
     (mi_operation_id i) 0 1 NeedsReconcilePhase (Some NeedsReconcileDisposition)
     (Some (ev_evidence_id e)) (ev_outcome_code e) (ev_captured_at_unix_ms e)"
  have "g' = advance g nxt [e] ?m"
    using insert_mutation_event_Inr [OF ev] put by (simp add: g1 advance_def nxt_def initial_state_def)
  moreover have "successor g (initial_state i) nxt [e] ?m"
    using row new e fits by (simp add: successor_def nxt_def initial_state_def event_of_def fits_i64_def)
  moreover have "st_phase nxt = NeedsReconcilePhase" "plain_row nxt"
    "st_operation_id nxt = mi_operation_id i" "st_state_version nxt = 1" "outcome_row nxt e"
    by (simp_all add: nxt_def initial_state_def plain_row_def outcome_row_def e disp)
  ultimately show thesis by (intro that)
qed

lemma enrolled_load_state:
  assumes "load_mutation_state g (mi_operation_id i) = None"
  shows "load_mutation_state (enrolled g i m) u =
    (if u = mi_operation_id i then Some (initial_state i) else load_mutation_state g u)"
  using assms find_key_append [of st_operation_id "initial_state i" "lg_states g" u]
  by (simp add: load_mutation_state_def enrolled_def initial_state_def)

text \<open>What a successful first registration leaves: the ledger, its one new state row.\<close>

lemma register_new_Inr:
  assumes inv: "ledger_inv L g" and reg: "register_mutation_intent L i ev g = Inr (Registered, g')"
  obtains s where "ledger_inv L g'" "extends g g'" "load_intent g (mi_operation_id i) = None"
    "lg_intents g' = lg_intents g @ [i]"
    "\<And>u. load_mutation_state g' u = (if u = mi_operation_id i then Some s else load_mutation_state g u)"
    "(mi_operation_kind i \<noteq> RemoteExistingBlocked \<and> st_phase s = IntentDurable \<and> st_state_version s = 0)
     \<or> (mi_operation_kind i = RemoteExistingBlocked \<and> st_phase s = NeedsReconcilePhase \<and> st_state_version s = 1)"
proof -
  note pre = register_preconditions_Inr [OF register_mutation_intent_Inr(1) [OF reg]]
  obtain m where new: "load_intent g (mi_operation_id i) = None"
      "\<not> mutation_marker_exists g (mi_operation_marker i)"
    and m: "me_operation_id m = mi_operation_id i" "me_state_version m = 0" "me_phase m = IntentDurable"
    and g': "case ev of None \<Rightarrow> g' = enrolled g i m | Some e \<Rightarrow> register_blocked (enrolled g i m) i e = Inr g'"
    using register_mutation_intent_Inr(2) [OF reg] by auto
  note keys = ledger_invD(1) [OF inv]
  have core: "ledger_core L (enrolled g i m)"
    using ledger_core_enrolled [OF ledger_invD(2) [OF inv] new pre(1) m] .
  have none: "load_mutation_state g (mi_operation_id i) = None"
    using ledger_keys_states(2) [OF keys] new by simp
  note load = enrolled_load_state [OF none, of m]
  have kind: "load_mutation_kind (enrolled g i m) (mi_operation_id i) = Some (mi_operation_kind i)"
    using find_key_append [of mi_operation_id i "lg_intents g"] new
    by (simp add: load_mutation_kind_def load_intent_def enrolled_def)
  have old_blocked: "blocked_ok (enrolled g i m) r" if "r \<in> set (lg_states g)" for r
  proof -
    have "load_mutation_state g (st_operation_id r) = Some r"
      using that ledger_keys_load_state [OF keys] by simp
    then show ?thesis
      using blocked_ok_frame [OF enrolled_extends] ledger_invD(5) [OF inv]
        ledger_keys_states(2) [OF keys, of "st_operation_id r"] by (metis option.distinct(1))
  qed
  show thesis
  proof (cases ev)
    case None
    then have "mi_operation_kind i \<noteq> RemoteExistingBlocked" using pre(2) by simp
    moreover have "ledger_inv L (enrolled g i m)"
      using core old_blocked kind calculation
      by (auto simp: ledger_inv_def enrolled_def initial_state_def blocked_ok_def)
    ultimately show thesis
      using that [of "initial_state i"] None g' new load enrolled_extends
      by (simp add: enrolled_def initial_state_def)
  next
    case (Some e)
    have row: "load_mutation_state (enrolled g i m) (mi_operation_id i) = Some (initial_state i)"
      by (simp add: load)
    obtain nxt x where suc: "successor (enrolled g i m) (initial_state i) nxt [e] x"
      and adv: "g' = advance (enrolled g i m) nxt [e] x" and ph: "st_phase nxt = NeedsReconcilePhase"
      and plain: "plain_row nxt" and op: "st_operation_id nxt = mi_operation_id i" and ver: "st_state_version nxt = 1"
      and "outcome_row nxt e"
      by (rule register_blocked_Inr [OF core row]) (use Some g' pre(3) in \<open>auto simp: blocked_evidence_ok_def\<close>)
    have "blocked_ok g' r" if "r \<in> set (lg_states g')" for r
    proof (cases "r = nxt")
      case False
      then have "r \<in> set (lg_states g)"
        using that op set_put_row [of r st_operation_id "mi_operation_id i" nxt "lg_states g @ [initial_state i]"]
        by (auto simp: adv advance_def enrolled_def initial_state_def)
      then show ?thesis using old_blocked by (simp add: blocked_ok_def adv)
    qed (simp add: blocked_ok_def ph)
    then have "ledger_inv L g'"
      using ledger_core_advance [OF core suc plain] ph by (simp add: ledger_inv_def adv)
    moreover have "extends g g'"
      unfolding adv by (rule extends_trans [OF enrolled_extends advance_extends])
    ultimately show thesis
      using that [of nxt] pre(2) Some new ph ver advance_load_state [OF suc] load
      by (auto simp: adv initial_state_def) (simp add: advance_def enrolled_def)
  qed
qed

section \<open>The lifecycle of an operation\<close>

text \<open>
  The abstract view of one operation: not registered, or a phase with a version. \<open>life_step\<close>
  is the contract of the ledger; the retry phase of the schema does not occur in it.
\<close>

type_synonym life = "(mutation_phase \<times> u64) option"

definition life_of :: "ledger \<Rightarrow> uuid \<Rightarrow> life" where
  "life_of g u = map_option (\<lambda>s. (st_phase s, st_state_version s)) (load_mutation_state g u)"

inductive life_step :: "mutation_operation_kind \<Rightarrow> life \<Rightarrow> life \<Rightarrow> bool" for k where
  register: "k \<noteq> RemoteExistingBlocked \<Longrightarrow> life_step k None (Some (IntentDurable, 0))"
| register_held: "k = RemoteExistingBlocked \<Longrightarrow> life_step k None (Some (NeedsReconcilePhase, 1))"
| claim: "k \<noteq> RemoteExistingBlocked \<Longrightarrow> life_step k (Some (IntentDurable, v)) (Some (Running, v + 1))"
| reconcile: "life_step k (Some (Running, v)) (Some (NeedsReconcilePhase, v + 1))"
| complete: "p \<in> {Running, NeedsReconcilePhase} \<Longrightarrow> life_step k (Some (p, v)) (Some (Completed, v + 1))"

inductive_cases life_step_from_Some: "life_step k (Some (p, v)) l"
inductive_simps life_step_from_None: "life_step k None l"
inductive_simps life_step_Completed: "life_step k (Some (Completed, v)) l"

text \<open>One call on the store that commits.\<close>

inductive ledger_step :: "libs \<Rightarrow> ledger \<Rightarrow> ledger \<Rightarrow> bool" for L where
  register: "register_mutation_intent L i ev g = Inr (out, g') \<Longrightarrow> ledger_step L g g'"
| claim: "claim_mutation op v now g = Inr (s, g') \<Longrightarrow> ledger_step L g g'"
| outcome: "record_mutation_outcome L op v e t g = Inr (s, g') \<Longrightarrow> ledger_step L g g'"
| conflict: "record_conflict_evidence L c g = Inr (o', g') \<Longrightarrow> ledger_step L g g'"
| recover: "recover_interrupted_mutations L fresh g = Inr g' \<Longrightarrow> ledger_step L g g'"

definition refines_life :: "ledger \<Rightarrow> ledger \<Rightarrow> bool" where
  "refines_life g g' = (\<forall>u. load_mutation_state g' u = load_mutation_state g u
     \<or> (\<exists>k. load_mutation_kind g' u = Some k \<and> life_step k (life_of g u) (life_of g' u)))"

lemma refines_life_refl [simp]: "refines_life g g"
  by (simp add: refines_life_def)

lemma advance_refines_life:
  assumes suc: "successor g s nxt es m" and keys: "ledger_keys g"
    and step: "\<And>k. load_mutation_kind g (st_operation_id s) = Some k \<Longrightarrow>
      life_step k (Some (st_phase s, st_state_version s)) (Some (st_phase nxt, st_state_version s + 1))"
  shows "refines_life g (advance g nxt es m)"
proof -
  have "load_intent g (st_operation_id s) \<noteq> None"
    using suc ledger_keys_states(2) [OF keys, of "st_operation_id s"] by (simp add: successor_def)
  then obtain k where "load_mutation_kind g (st_operation_id s) = Some k"
    by (auto simp: load_mutation_kind_def)
  then show ?thesis
    using step suc advance_load_state [OF suc]
    by (auto simp: refines_life_def life_of_def successor_def)
qed

lemma record_conflict_evidence_Inr:
  assumes "record_conflict_evidence L c g = Inr (out, g')"
  shows "out = ConflictAlreadyPresent \<and> g' = g
      \<and> load_conflict_evidence_fingerprint g (ce_conflict_id c) = Some (ce_evidence_fingerprint c)
    \<or> out = ConflictRegistered \<and> g' = g\<lparr>lg_conflicts := lg_conflicts g @ [c]\<rparr>
      \<and> load_conflict_evidence g (ce_conflict_id c) = None"
  using assms insert_conflict_evidence_Inr
  by (auto simp: record_conflict_evidence_def split: option.splits if_splits)

lemma conflict_append_inv:
  assumes "ledger_inv L g" "load_conflict_evidence g (ce_conflict_id c) = None"
  shows "ledger_inv L (g\<lparr>lg_conflicts := lg_conflicts g @ [c]\<rparr>)"
proof -
  let ?g = "g\<lparr>lg_conflicts := lg_conflicts g @ [c]\<rparr>"
  have ext: "extends g ?g"
    by (rule extends_append [where new = "[]" and cs = "[c]" and es = "[]" and ms = "[]"]) simp_all
  have "ledger_keys ?g"
    using assms
    by (auto simp: ledger_inv_def ledger_core_def ledger_keys_def load_conflict_evidence_def find_None_iff
        load_intent_def)
  moreover have "state_ok ?g s" if "s \<in> set (lg_states g)" for s
    using state_ok_frame [OF ext, of s] that assms
    by (simp add: ledger_inv_def ledger_core_def load_mutation_events_def)
  moreover have "blocked_ok ?g s \<longleftrightarrow> blocked_ok g s" for s
    by (simp add: blocked_ok_def load_mutation_kind_def load_intent_def)
  ultimately show ?thesis using assms by (simp add: ledger_inv_def ledger_core_def)
qed

lemma ledger_step_inv:
  assumes "ledger_step L g g'" "ledger_inv L g"
  shows "ledger_inv L g'"
  using assms
proof (induction rule: ledger_step.induct)
  case (register i ev g out g')
  show ?case
  proof (cases "out = Registered")
    case True
    show ?thesis by (rule register_new_Inr [of L g i ev g']) (use register True in auto)
  next
    case False
    then show ?thesis using register register_mutation_intent_Inr(2) [OF register(1)] by auto
  qed
next
  case (conflict c g o' g')
  then show ?case using record_conflict_evidence_Inr [OF conflict(1)] conflict_append_inv by auto
qed (auto intro: claim_mutation_inv record_mutation_outcome_inv recover_interrupted_Inr(1))

lemma ledger_step_refines:
  assumes "ledger_step L g g'" "ledger_inv L g"
  shows "refines_life g g'"
  using assms
proof (induction rule: ledger_step.induct)
  case (register i ev g out g')
  show ?case
  proof (cases "out = Registered")
    case True
    obtain s where g': "ledger_inv L g'" "extends g g'" "load_intent g (mi_operation_id i) = None"
      "lg_intents g' = lg_intents g @ [i]"
      "\<And>u. load_mutation_state g' u = (if u = mi_operation_id i then Some s else load_mutation_state g u)"
      "(mi_operation_kind i \<noteq> RemoteExistingBlocked \<and> st_phase s = IntentDurable \<and> st_state_version s = 0)
       \<or> (mi_operation_kind i = RemoteExistingBlocked \<and> st_phase s = NeedsReconcilePhase \<and> st_state_version s = 1)"
      by (rule register_new_Inr [of L g i ev g']) (use register True in auto)
    have "load_mutation_kind g' (mi_operation_id i) = Some (mi_operation_kind i)"
      using g'(3) find_key_append [of mi_operation_id i "lg_intents g"]
      by (simp add: load_mutation_kind_def load_intent_def g'(4))
    moreover have "load_mutation_state g (mi_operation_id i) = None"
      using g'(3) ledger_keys_states(2) [OF ledger_invD(1) [OF register(2)]] by simp
    ultimately show ?thesis
      using g'(5, 6) by (auto simp: refines_life_def life_of_def life_step_from_None)
  next
    case False
    then show ?thesis using register_mutation_intent_Inr(2) [OF register(1)] by auto
  qed
next
  case (claim op v now g nxt g')
  obtain s m k where suc: "successor g s nxt [] m" and g': "g' = advance g nxt [] m"
    and op: "st_operation_id s = op" and "st_state_version s = v" and ph: "st_phase s = IntentDurable"
    and nxt: "nxt = claimed_state s now"
    and k: "load_mutation_kind g op = Some k" "k \<noteq> RemoteExistingBlocked"
    by (rule claim_mutation_Inr [OF claim(2, 1)])
  show ?case
    unfolding g' by (rule advance_refines_life [OF suc ledger_invD(1) [OF claim(2)]])
      (use op k ph in \<open>simp add: nxt claimed_state_def life_step.claim\<close>)
next
  case (outcome op v e t g nxt g')
  obtain s m where suc: "successor g s nxt [e] m" and g': "g' = advance g nxt [e] m"
    and "st_operation_id s = op" "st_state_version s = v" "plain_row nxt"
      "st_last_evidence_id nxt = Some (ev_evidence_id e)"
    and target: "t = TransitionVerifiedApplied \<and> st_phase s \<in> {Running, NeedsReconcilePhase}
       \<and> st_phase nxt = Completed \<and> ev_disposition e = VerifiedApplied
       \<and> validate_verified_applied_evidence (load_intent g op) e = Inr ()
     \<or> t = TransitionNeedsReconcile \<and> st_phase s = Running \<and> st_phase nxt = NeedsReconcilePhase"
    by (rule record_mutation_outcome_Inr [OF outcome(2, 1)])
  show ?case
    unfolding g' by (rule advance_refines_life [OF suc ledger_invD(1) [OF outcome(2)]])
      (use target in \<open>auto intro: life_step.intros\<close>)
next
  case (conflict c g o' g')
  then show ?case
    using record_conflict_evidence_Inr [OF conflict(1)]
    by (auto simp: refines_life_def load_mutation_state_def)
next
  case (recover fresh g g')
  note rec = recover_interrupted_Inr [OF recover(2, 1)]
  note keys = ledger_invD(1) [OF recover(2)]
  have "load_mutation_state g' u = load_mutation_state g u \<or>
      (\<exists>k. load_mutation_kind g' u = Some k \<and> life_step k (life_of g u) (life_of g' u))" for u
  proof (cases "u \<in> st_operation_id ` set (running_rows g)")
    case True
    then obtain s n where s: "load_mutation_state g u = Some s" "st_phase s = Running"
      and n: "load_mutation_state g' u = Some n" "st_phase n = NeedsReconcilePhase"
        "st_state_version n = st_state_version s + 1"
      using rec(2) running_rows_props(2) [OF keys] by (fastforce simp: recovered_def)
    then obtain i where "load_intent g' u = Some i"
      using ledger_keys_states(2) [OF ledger_invD(1) [OF rec(1)], of u] by auto
    then show ?thesis
      using s n by (auto simp: life_of_def load_mutation_kind_def intro: life_step.reconcile)
  next
    case False
    then show ?thesis using rec(2) by (simp add: recovered_def)
  qed
  then show ?case by (simp add: refines_life_def)
qed

lemma ledger_step_extends:
  assumes "ledger_step L g g'" "ledger_inv L g"
  shows "extends g g'"
  using assms
proof (induction rule: ledger_step.induct)
  case (register i ev g out g')
  show ?case
  proof (cases "out = Registered")
    case True
    show ?thesis by (rule register_new_Inr [of L g i ev g']) (use register True in auto)
  next
    case False
    then show ?thesis using register_mutation_intent_Inr(2) [OF register(1)] by auto
  qed
next
  case (claim op v now g nxt g')
  show ?case by (rule claim_mutation_Inr [OF claim(2, 1)]) (simp add: advance_extends)
next
  case (outcome op v e t g nxt g')
  show ?case by (rule record_mutation_outcome_Inr [OF outcome(2, 1)]) (simp add: advance_extends)
next
  case (conflict c g o' g')
  have "extends g (g\<lparr>lg_conflicts := lg_conflicts g @ [c]\<rparr>)"
    by (rule extends_append [where new = "[]" and cs = "[c]" and es = "[]" and ms = "[]"]) simp_all
  then show ?case using record_conflict_evidence_Inr [OF conflict(1)] by auto
next
  case (recover fresh g g')
  then show ?case using recover_interrupted_Inr(2) by (auto simp: recovered_def)
qed

lemma life_step_version:
  assumes "life_step k (Some (p, v)) l"
  obtains q where "l = Some (q, v + 1)" "p \<noteq> Completed"
  using assms by (auto elim: life_step_from_Some)

interpretation ledger_rows: versioned_rows "ledger_step L" "ledger_inv L" load_mutation_state
    "\<lambda>s. unat (st_state_version s)"
  for L
proof unfold_locales
  fix g g' u r
  assume inv: "ledger_inv L g" and step: "ledger_step L g g'" and r: "load_mutation_state g u = Some r"
  have "fits_i64 (st_state_version r)" using ledger_invD(3) [OF inv r] by (simp add: state_ok_def)
  then have "unat (st_state_version r + 1) = Suc (unat (st_state_version r))" by (rule fits_i64_Suc)
  then show "load_mutation_state g' u = Some r
      \<or> (\<exists>r'. load_mutation_state g' u = Some r' \<and> unat (st_state_version r) < unat (st_state_version r'))"
    using ledger_step_refines [OF step inv] r
    by (auto simp: refines_life_def life_of_def elim!: life_step_version dest!: spec [of _ u])
qed (rule ledger_step_inv)

inductive ledger_reachable :: "libs \<Rightarrow> ledger \<Rightarrow> bool" for L where
  start: "ledger_reachable L empty_ledger"
| step: "ledger_reachable L g \<Longrightarrow> ledger_step L g g' \<Longrightarrow> ledger_reachable L g'"

lemma ledger_reachable_inv: "ledger_reachable L g \<Longrightarrow> ledger_inv L g"
  by (induction rule: ledger_reachable.induct) (auto intro: ledger_inv_empty ledger_step_inv)

end
