(* ===== verification/Concrete_Libs.thy ===== *)
theory Concrete_Libs
  imports Remote_Model "HOL-Library.Code_Target_Nat"
begin

text \<open>
  Concrete stand-ins for the third-party functions. They show that the hypotheses of the
  theorems on those functions can hold together; nothing general rests on them.
\<close>

section \<open>Stand-ins for the crates\<close>

definition tail_digest :: "string \<Rightarrow> string" where
  "tail_digest s = take 32 (rev s @ replicate 32 CHR 0x00)"

definition lower_ascii :: "string \<Rightarrow> string" where
  "lower_ascii s = map (\<lambda>c. if is_ascii_uppercase c then char_of (byte c + 32) else c) s"

definition bytes_value :: "string \<Rightarrow> nat" where
  "bytes_value s = foldl (\<lambda>n c. n * 256 + byte c) 0 s"

definition uuid_hex :: "uuid \<Rightarrow> string" where
  "uuid_hex u = hex_string (be_bytes 16 (unat u))"

definition uuid_text :: "uuid \<Rightarrow> string" where
  "uuid_text u = (let h = uuid_hex u in take 8 h @ ''-'' @ take 4 (drop 8 h) @ ''-''
     @ take 4 (drop 12 h) @ ''-'' @ take 4 (drop 16 h) @ ''-'' @ drop 20 h)"

definition name_uuid :: "uuid \<Rightarrow> string \<Rightarrow> uuid" where
  "name_uuid ns name = of_nat (bytes_value (take 16 (tail_digest (uuid_hex ns @ name))))"

text \<open>One \<open>Replace\<close> between the common prefix and the common suffix of the two line lists.\<close>

fun common_prefix :: "'a list \<Rightarrow> 'a list \<Rightarrow> nat" where
  "common_prefix (x # xs) (y # ys) = (if x = y then Suc (common_prefix xs ys) else 0)"
| "common_prefix _ _ = 0"

definition block_diff :: "string list \<Rightarrow> string list \<Rightarrow> diff_op list" where
  "block_diff xs ys =
     (let p = common_prefix xs ys;
          q = common_prefix (rev (drop p xs)) (rev (drop p ys));
          m = length xs - q;
          n = length ys - q;
          tag = (if p < m then if p < n then Replace else Delete else Insert) in
      (if p = 0 then [] else [\<lparr>op_tag = Equal, old_start = 0, old_end = p, new_start = 0, new_end = p\<rparr>])
      @ (if m \<le> p \<and> n \<le> p then []
         else [\<lparr>op_tag = tag, old_start = p, old_end = m, new_start = p, new_end = n\<rparr>])
      @ (if q = 0 then []
         else [\<lparr>op_tag = Equal, old_start = m, old_end = length xs, new_start = n, new_end = length ys\<rparr>]))"

definition demo_libs :: libs where
  "demo_libs = \<lparr>sha256_digest = tail_digest, nfkc_casefold_nfkc = lower_ascii,
     uuid_new_v5 = name_uuid, uuid_to_string = uuid_text, uuid_simple = uuid_hex, myers_ops = block_diff\<rparr>"

lemma demo_sha256_total: "sha256_total demo_libs"
  by (auto simp: sha256_total_def demo_libs_def tail_digest_def)

end
