(* ===== verification/Concrete_Run.thy ===== *)
theory Concrete_Run
  imports Ledger_Lifecycle Concrete_Libs
begin

text \<open>
  A concrete run of the mutation ledger, on which the theorems about it are instantiated.
\<close>

section \<open>A run of the ledger\<close>

definition sealed_intent :: "libs \<Rightarrow> mutation_intent \<Rightarrow> mutation_intent" where
  "sealed_intent L i = i\<lparr>mi_intent_fingerprint := intent_fingerprint L i\<rparr>"

definition sealed_evidence :: "libs \<Rightarrow> mutation_verification_evidence \<Rightarrow> mutation_verification_evidence" where
  "sealed_evidence L e = e\<lparr>ev_evidence_fingerprint := evidence_fingerprint L e\<rparr>"

definition demo_draft :: mutation_intent where
  "demo_draft =
     \<lparr>mi_operation_id = 7, mi_operation_kind = LocalPublish, mi_account_id = Some ''acct'',
      mi_remote_root_id = Some ''root'', mi_remote_file_id = None, mi_source_parent_id = Some ''parent'',
      mi_destination_parent_id = None, mi_local_object_id = None, mi_source_path = Some ''notes/a.md'',
      mi_destination_path = None, mi_expected_local_revision = Some ''l1'',
      mi_expected_remote_revision = None, mi_base_reference = None, mi_base_local_revision = None,
      mi_base_remote_revision = None, mi_base_sha256 = None, mi_base_byte_length = None,
      mi_expected_local_sha256 = None, mi_expected_local_byte_length = None,
      mi_expected_remote_sha256 = None, mi_expected_remote_byte_length = None,
      mi_operation_marker = ''op-7'', mi_intent_fingerprint = [], mi_registered_at_unix_ms = 100\<rparr>"

definition demo_observation :: mutation_verification_evidence where
  "demo_observation =
     \<lparr>ev_evidence_id = 9, ev_operation_id = 7, ev_attempt_number = 0, ev_capture_phase = PostVerify,
      ev_disposition = VerifiedApplied, ev_outcome_code = None, ev_observed_account_id = Some ''acct'',
      ev_observed_remote_root_id = Some ''root'', ev_observed_remote_file_id = Some ''f1'',
      ev_observed_parent_id = Some ''parent'', ev_observed_path = Some ''notes/a.md'',
      ev_observed_local_revision = Some ''l1'', ev_observed_remote_revision = Some ''r1'',
      ev_observed_sha256 = None, ev_observed_byte_length = None,
      ev_observed_operation_marker = Some ''op-7'', ev_forbidden_side_effect = False,
      ev_verified_received_byte_offset = None, ev_resume_reference = None,
      ev_evidence_fingerprint = [], ev_captured_at_unix_ms = 300\<rparr>"

lemma fingerprints_valid:
  assumes "sha256_total L"
  shows "validate_revision (intent_fingerprint L i) = Inr ()"
    "validate_revision (evidence_fingerprint L e) = Inr ()"
    "validate_revision (conflict_fingerprint L c) = Inr ()"
  using hex_sha256_shape [OF assms]
  by (simp_all add: validate_revision_def is_lower_hex_hash_def intent_fingerprint_def
      evidence_fingerprint_def conflict_fingerprint_def canonical_fingerprint_def)

lemma intent_fingerprint_seal [simp]:
  "intent_fingerprint L (i\<lparr>mi_intent_fingerprint := f\<rparr>) = intent_fingerprint L i"
  by (simp add: intent_fingerprint_def intent_fields_def)

lemma evidence_fingerprint_seal [simp]:
  "evidence_fingerprint L (e\<lparr>ev_evidence_fingerprint := f\<rparr>) = evidence_fingerprint L e"
  by (simp add: evidence_fingerprint_def evidence_fields_def)

definition demo_intent :: mutation_intent where
  "demo_intent = sealed_intent demo_libs demo_draft"

definition demo_evidence :: mutation_verification_evidence where
  "demo_evidence = sealed_evidence demo_libs demo_observation"

lemma demo_path_valid: "validate_content_path demo_libs ''notes/a.md'' = Inr ()"
  by code_simp

lemma demo_codes_valid:
  "validate_redacted_code ''op-7'' = Inr ()" "validate_remote_id ''acct'' = Inr ()"
  "validate_remote_id ''root'' = Inr ()" "validate_remote_id ''parent'' = Inr ()"
  "validate_remote_id ''l1'' = Inr ()" "validate_remote_id ''r1'' = Inr ()"
  "validate_remote_id ''f1'' = Inr ()"
  by code_simp+

lemmas demo_checks = fingerprints_valid demo_sha256_total demo_path_valid demo_codes_valid
  is_nil_def u64_to_i64_def fits_i64_def validate_hash_size_pair_def

lemma demo_intent_valid: "validate_mutation_intent demo_libs demo_intent = Inr ()"
  unfolding demo_intent_def sealed_intent_def validate_mutation_intent_def
  by (simp add: demo_checks) (simp add: demo_draft_def demo_checks)

lemma demo_evidence_valid: "validate_mutation_evidence demo_libs demo_evidence = Inr ()"
  unfolding demo_evidence_def sealed_evidence_def validate_mutation_evidence_def
  by (simp add: demo_checks) (simp add: demo_observation_def demo_checks)

lemma demo_intent_fields:
  "mi_operation_id demo_intent = 7" "mi_operation_kind demo_intent = LocalPublish"
  "mi_operation_marker demo_intent = ''op-7''" "mi_registered_at_unix_ms demo_intent = 100"
  "mi_base_sha256 demo_intent = None" "mi_base_byte_length demo_intent = None"
  "mi_expected_local_sha256 demo_intent = None" "mi_expected_local_byte_length demo_intent = None"
  "mi_expected_remote_sha256 demo_intent = None" "mi_expected_remote_byte_length demo_intent = None"
  by (simp_all add: demo_intent_def sealed_intent_def demo_draft_def)

lemmas ledger_run = register_mutation_intent_def register_preconditions_def load_mutation_identity_def
  mutation_marker_exists_def insert_mutation_intent_def insert_mutation_state_def insert_mutation_event_def
  insert_mutation_evidence_def update_mutation_state_def state_row_ok_def initial_state_def paired_def
  lengths_fit_def u64_to_i64_def fits_i64_def load_intent_def load_mutation_state_def load_evidence_def
  load_mutation_kind_def claim_mutation_def claimed_state_def record_mutation_outcome_def Let_def

lemma demo_evidence_fields:
  "ev_evidence_id demo_evidence = 9" "ev_operation_id demo_evidence = 7"
  "ev_attempt_number demo_evidence = 0" "ev_capture_phase demo_evidence = PostVerify"
  "ev_disposition demo_evidence = VerifiedApplied" "ev_outcome_code demo_evidence = None"
  "ev_observed_sha256 demo_evidence = None" "ev_observed_byte_length demo_evidence = None"
  "ev_verified_received_byte_offset demo_evidence = None" "\<not> ev_forbidden_side_effect demo_evidence"
  "ev_captured_at_unix_ms demo_evidence = 300"
  by (simp_all add: demo_evidence_def sealed_evidence_def demo_observation_def)

lemma demo_evidence_matches: "validate_verified_applied_evidence (Some demo_intent) demo_evidence = Inr ()"
  by (simp add: validate_verified_applied_evidence_def require_expected_match_def demo_intent_def
      sealed_intent_def demo_draft_def demo_evidence_def sealed_evidence_def demo_observation_def)

definition demo_state :: "mutation_phase \<Rightarrow> u64 \<Rightarrow> u64 \<Rightarrow> mutation_disposition option \<Rightarrow> uuid option \<Rightarrow> mutation_state" where
  "demo_state p v now d e =
     \<lparr>st_operation_id = 7, st_phase = p, st_attempt_number = 0, st_state_version = v, st_disposition = d,
      st_next_attempt_at_unix_ms = None, st_retry_mode = None, st_resume_reference = None,
      st_last_evidence_id = e, st_outcome_code = None, st_updated_at_unix_ms = now\<rparr>"

definition demo_event :: "u64 \<Rightarrow> mutation_phase \<Rightarrow> u64 \<Rightarrow> mutation_disposition option \<Rightarrow> uuid option \<Rightarrow> mutation_event" where
  "demo_event v p now d e =
     \<lparr>me_event_id = v + 1, me_operation_id = 7, me_attempt_number = 0, me_state_version = v, me_phase = p,
      me_disposition = d, me_evidence_id = e, me_outcome_code = None, me_occurred_at_unix_ms = now\<rparr>"

definition demo_registered :: ledger where
  "demo_registered = \<lparr>lg_intents = [demo_intent], lg_states = [demo_state IntentDurable 0 100 None None],
     lg_events = [demo_event 0 IntentDurable 100 None None], lg_evidence = [], lg_conflicts = []\<rparr>"

definition demo_claimed :: ledger where
  "demo_claimed = \<lparr>lg_intents = [demo_intent], lg_states = [demo_state Running 1 200 None None],
     lg_events = [demo_event 0 IntentDurable 100 None None, demo_event 1 Running 200 None None],
     lg_evidence = [], lg_conflicts = []\<rparr>"

definition demo_completed :: ledger where
  "demo_completed = \<lparr>lg_intents = [demo_intent],
     lg_states = [demo_state Completed 2 300 (Some VerifiedApplied) (Some 9)],
     lg_events = [demo_event 0 IntentDurable 100 None None, demo_event 1 Running 200 None None,
       demo_event 2 Completed 300 (Some VerifiedApplied) (Some 9)],
     lg_evidence = [demo_evidence], lg_conflicts = []\<rparr>"

lemmas demo_rows = demo_registered_def demo_claimed_def demo_completed_def demo_state_def demo_event_def
  demo_intent_fields demo_evidence_fields

lemma demo_register:
  "register_mutation_intent demo_libs demo_intent None empty_ledger = Inr (Registered, demo_registered)"
  by (simp add: ledger_run demo_intent_valid demo_rows empty_ledger_def)

lemma demo_claim:
  "claim_mutation 7 0 200 demo_registered = Inr (demo_state Running 1 200 None None, demo_claimed)"
  by (simp add: ledger_run demo_rows)

lemma demo_outcome:
  "record_mutation_outcome demo_libs 7 1 demo_evidence TransitionVerifiedApplied demo_claimed =
     Inr (demo_state Completed 2 300 (Some VerifiedApplied) (Some 9), demo_completed)"
  using demo_evidence_matches
  by (simp add: ledger_run demo_rows demo_evidence_valid transition_target_def)

lemma demo_reachable:
  "ledger_reachable demo_libs demo_registered" "ledger_reachable demo_libs demo_claimed"
  "ledger_reachable demo_libs demo_completed"
proof -
  show r: "ledger_reachable demo_libs demo_registered"
    using ledger_reachable.start ledger_step.register [OF demo_register] by (rule ledger_reachable.step)
  show c: "ledger_reachable demo_libs demo_claimed"
    using r ledger_step.claim [OF demo_claim] by (rule ledger_reachable.step)
  show "ledger_reachable demo_libs demo_completed"
    using c ledger_step.outcome [OF demo_outcome] by (rule ledger_reachable.step)
qed

end
