(* ===== verification/Ledger_Properties.thy ===== *)
theory Ledger_Properties
  imports Concrete_Run
begin

text \<open>
  The properties of the mutation ledger: its invariant, the lifecycle it implements, what a
  version token protects, what completion and recovery guarantee, and the exact results of
  registration and of a claim.
\<close>

section \<open>Bounded lifecycles\<close>

text \<open>Which versions an operation can have in which phase.\<close>

fun life_ok :: "mutation_operation_kind \<Rightarrow> life \<Rightarrow> bool" where
  "life_ok k None = True"
| "life_ok k (Some (p, v)) =
     (case p of
        IntentDurable \<Rightarrow> k \<noteq> RemoteExistingBlocked \<and> v = 0
      | Running \<Rightarrow> k \<noteq> RemoteExistingBlocked \<and> v = 1
      | RetryScheduled \<Rightarrow> False
      | NeedsReconcilePhase \<Rightarrow> v = (if k = RemoteExistingBlocked then 1 else 2)
      | Completed \<Rightarrow> if k = RemoteExistingBlocked then v = 2 else v \<in> {2, 3})"

lemma life_step_ok: "life_step k l l' \<Longrightarrow> life_ok k l \<Longrightarrow> life_ok k l'"
  by (cases rule: life_step.cases) (auto split: if_splits)

lemma reachable_life_ok:
  assumes "ledger_reachable L g" "load_mutation_kind g u = Some k"
  shows "life_ok k (life_of g u)"
  using assms
proof (induction arbitrary: k rule: ledger_reachable.induct)
  case start
  then show ?case by (simp add: empty_ledger_def load_mutation_kind_def load_intent_def)
next
  case (step g g')
  note inv = ledger_reachable_inv [OF step.hyps(1)]
  have before: "life_ok k (life_of g u)"
  proof (cases "load_intent g u")
    case None
    then have "load_mutation_state g u = None" using ledger_keys_states(2) [OF ledger_invD(1) [OF inv]] by simp
    then show ?thesis by (simp add: life_of_def)
  next
    case (Some i)
    then show ?thesis
      using extends_kind [OF ledger_step_extends [OF step.hyps(2) inv], of u] step.IH step.prems by simp
  qed
  have "life_of g' u = life_of g u \<or> life_step k (life_of g u) (life_of g' u)"
    using ledger_step_refines [OF step.hyps(2) inv] step.prems
    by (auto simp: refines_life_def life_of_def dest!: spec [of _ u])
  then show ?case using before life_step_ok by auto
qed

lemma require_expected_match_Inr: "require_expected_match x y = Inr u \<longleftrightarrow> (x \<noteq> None \<longrightarrow> y = x)"
  by (auto simp: require_expected_match_def)

lemma verified_applied_matches:
  assumes "validate_verified_applied_evidence (Some i) e = Inr ()"
  shows "ev_capture_phase e = PostVerify \<and> \<not> ev_forbidden_side_effect e
    \<and> ev_observed_operation_marker e = Some (mi_operation_marker i)
     \<and> (mi_account_id i \<noteq> None \<longrightarrow> ev_observed_account_id e = mi_account_id i)
     \<and> (mi_remote_root_id i \<noteq> None \<longrightarrow> ev_observed_remote_root_id e = mi_remote_root_id i)
     \<and> (mi_remote_file_id i \<noteq> None \<longrightarrow> ev_observed_remote_file_id e = mi_remote_file_id i)
     \<and> (or_opt (mi_destination_parent_id i) (mi_source_parent_id i) \<noteq> None \<longrightarrow> ev_observed_parent_id e = or_opt (mi_destination_parent_id i) (mi_source_parent_id i))
     \<and> (or_opt (mi_destination_path i) (mi_source_path i) \<noteq> None \<longrightarrow> ev_observed_path e = or_opt (mi_destination_path i) (mi_source_path i))
     \<and> (mi_expected_local_revision i \<noteq> None \<longrightarrow> ev_observed_local_revision e = mi_expected_local_revision i)
     \<and> (mi_expected_remote_revision i \<noteq> None \<longrightarrow> ev_observed_remote_revision e = mi_expected_remote_revision i)
     \<and> (mi_expected_local_sha256 i \<noteq> None \<longrightarrow> ev_observed_sha256 e = mi_expected_local_sha256 i)
     \<and> (mi_expected_local_byte_length i \<noteq> None \<longrightarrow> ev_observed_byte_length e = mi_expected_local_byte_length i)
     \<and> (mi_expected_remote_sha256 i \<noteq> None \<longrightarrow> ev_observed_sha256 e = mi_expected_remote_sha256 i)
     \<and> (mi_expected_remote_byte_length i \<noteq> None \<longrightarrow> ev_observed_byte_length e = mi_expected_remote_byte_length i)"
  using assms
  by (simp add: validate_verified_applied_evidence_def require_expected_match_Inr del: not_None_eq
      split: if_splits)

section \<open>Properties\<close>

text \<open>
  C23: every committed store call moves every operation by at most one step of the lifecycle
  contract (register, claim, reconcile, complete), and leaves its row untouched otherwise.
\<close>

theorem store_refines_lifecycle:
  assumes "ledger_reachable L g" "ledger_step L g g'"
  shows "load_mutation_state g' u = load_mutation_state g u
     \<or> (\<exists>k. load_mutation_kind g' u = Some k \<and> life_step k (life_of g u) (life_of g' u))"
  using ledger_step_refines [OF assms(2) ledger_reachable_inv [OF assms(1)]]
  by (auto simp: refines_life_def)

theorem store_refines_lifecycle_witness:
  "load_mutation_state demo_claimed 7 = load_mutation_state demo_registered 7
   \<or> (\<exists>k. load_mutation_kind demo_claimed 7 = Some k
        \<and> life_step k (life_of demo_registered 7) (life_of demo_claimed 7))"
  using store_refines_lifecycle [OF demo_reachable(1) ledger_step.claim [OF demo_claim]] .

text \<open>
  C24: an operation is \<open>Completed\<close> only when the ledger holds the verification evidence its state
  row points to: captured after the fact, free of forbidden side effects, carrying the intent's
  marker and agreeing with every expectation the intent states: account, remote root, remote file,
  the parent and the path the operation leads to (the destination's, or the source's without one),
  both revisions, and the digests and lengths expected of the local and of the remote content.
\<close>

theorem completed_only_with_proof:
  assumes "ledger_reachable L g" "load_mutation_state g u = Some s" "st_phase s = Completed"
  shows "\<exists>i e. load_intent g u = Some i \<and> e \<in> set (lg_evidence g)
     \<and> st_last_evidence_id s = Some (ev_evidence_id e) \<and> ev_operation_id e = u
     \<and> ev_disposition e = VerifiedApplied \<and> ev_capture_phase e = PostVerify
     \<and> \<not> ev_forbidden_side_effect e
     \<and> ev_observed_operation_marker e = Some (mi_operation_marker i)
     \<and> (mi_account_id i \<noteq> None \<longrightarrow> ev_observed_account_id e = mi_account_id i)
     \<and> (mi_remote_root_id i \<noteq> None \<longrightarrow> ev_observed_remote_root_id e = mi_remote_root_id i)
     \<and> (mi_remote_file_id i \<noteq> None \<longrightarrow> ev_observed_remote_file_id e = mi_remote_file_id i)
     \<and> (or_opt (mi_destination_parent_id i) (mi_source_parent_id i) \<noteq> None \<longrightarrow> ev_observed_parent_id e = or_opt (mi_destination_parent_id i) (mi_source_parent_id i))
     \<and> (or_opt (mi_destination_path i) (mi_source_path i) \<noteq> None \<longrightarrow> ev_observed_path e = or_opt (mi_destination_path i) (mi_source_path i))
     \<and> (mi_expected_local_revision i \<noteq> None \<longrightarrow> ev_observed_local_revision e = mi_expected_local_revision i)
     \<and> (mi_expected_remote_revision i \<noteq> None \<longrightarrow> ev_observed_remote_revision e = mi_expected_remote_revision i)
     \<and> (mi_expected_local_sha256 i \<noteq> None \<longrightarrow> ev_observed_sha256 e = mi_expected_local_sha256 i)
     \<and> (mi_expected_local_byte_length i \<noteq> None \<longrightarrow> ev_observed_byte_length e = mi_expected_local_byte_length i)
     \<and> (mi_expected_remote_sha256 i \<noteq> None \<longrightarrow> ev_observed_sha256 e = mi_expected_remote_sha256 i)
     \<and> (mi_expected_remote_byte_length i \<noteq> None \<longrightarrow> ev_observed_byte_length e = mi_expected_remote_byte_length i)"
proof -
  have "proven_complete g s" "st_operation_id s = u"
    using ledger_invD(3, 6) [OF ledger_reachable_inv [OF assms(1)] assms(2)] assms(3)
    by (auto simp: state_ok_def)
  then obtain i e where found: "load_intent g u = Some i" "st_last_evidence_id s = Some (ev_evidence_id e)"
    "ev_operation_id e = u" "ev_disposition e = VerifiedApplied" and e: "load_evidence g (ev_evidence_id e) = Some e"
    and valid: "validate_verified_applied_evidence (Some i) e = Inr ()"
    unfolding proven_complete_def by blast
  have "e \<in> set (lg_evidence g)" using load_evidence_SomeD [OF e] by blast
  then show ?thesis
    by (intro exI) (rule conjI [OF found(1) conjI [OF _ conjI [OF found(2) conjI [OF found(3) conjI [OF found(4)
      verified_applied_matches [OF valid]]]]]])
qed

theorem completed_only_with_proof_witness:
  "\<exists>i e. load_intent demo_completed 7 = Some i \<and> e \<in> set (lg_evidence demo_completed)
     \<and> ev_observed_operation_marker e = Some (mi_operation_marker i)"
proof -
  have "load_mutation_state demo_completed 7 = Some (demo_state Completed 2 300 (Some VerifiedApplied) (Some 9))"
    by (simp add: load_mutation_state_def demo_rows)
  moreover have "st_phase (demo_state Completed 2 300 (Some VerifiedApplied) (Some 9)) = Completed"
    by (simp add: demo_state_def)
  ultimately obtain i e where "load_intent demo_completed 7 = Some i" "e \<in> set (lg_evidence demo_completed)"
    "ev_observed_operation_marker e = Some (mi_operation_marker i)"
    using completed_only_with_proof [OF demo_reachable(3)] by blast
  then show ?thesis by blast
qed

text \<open>
  C25: a version token is exact. If a caller read the row of an operation and the row has changed
  since, in any number of store calls, then neither a claim nor an outcome under the old version
  can commit; there is no way back to an earlier version.
\<close>

theorem stale_version_never_commits:
  assumes "ledger_reachable L g" "load_mutation_state g u = Some s"
    and "(ledger_step L)\<^sup>*\<^sup>* g g'" "load_mutation_state g' u \<noteq> Some s"
  shows "\<not> is_ok (claim_mutation u (st_state_version s) now g')
    \<and> \<not> is_ok (record_mutation_outcome L u (st_state_version s) e t g')"
proof -
  obtain s' where s': "load_mutation_state g' u = Some s'"
      "unat (st_state_version s) < unat (st_state_version s')"
    using ledger_rows.steps_row [OF assms(3) ledger_reachable_inv [OF assms(1)] assms(2)] assms(4) by auto
  then have "st_state_version s' \<noteq> st_state_version s" by auto
  with s'(1) show ?thesis
    by (auto simp: is_ok_iff claim_mutation_def record_mutation_outcome_def split: if_splits)
qed

theorem stale_version_never_commits_witness:
  "\<not> is_ok (claim_mutation 7 0 250 demo_completed)
   \<and> \<not> is_ok (record_mutation_outcome demo_libs 7 0 demo_evidence TransitionVerifiedApplied demo_completed)"
proof -
  have steps: "(ledger_step demo_libs)\<^sup>*\<^sup>* demo_registered demo_completed"
    using ledger_step.claim [OF demo_claim] ledger_step.outcome [OF demo_outcome] by (meson rtranclp.simps)
  have "load_mutation_state demo_registered 7 = Some (demo_state IntentDurable 0 100 None None)"
    "load_mutation_state demo_completed 7 \<noteq> Some (demo_state IntentDurable 0 100 None None)"
    by (simp_all add: load_mutation_state_def demo_rows)
  from stale_version_never_commits [OF demo_reachable(1) this(1) steps this(2),
      of 250 demo_evidence TransitionVerifiedApplied]
  show ?thesis by (simp add: demo_state_def)
qed

definition left_intent :: "mutation_phase \<Rightarrow> bool" where
  "left_intent p = (p \<in> {Running, NeedsReconcilePhase, Completed})"

lemma life_step_left_intent: "life_step k (Some (p, v)) (Some (q, w)) \<Longrightarrow> left_intent q"
  by (auto simp: left_intent_def elim: life_step_from_Some)

lemma steps_left_intent:
  assumes "(ledger_step L)\<^sup>*\<^sup>* g g'" "ledger_inv L g" "load_mutation_state g u = Some s" "left_intent (st_phase s)"
  shows "\<exists>s'. load_mutation_state g' u = Some s' \<and> left_intent (st_phase s')"
  using assms
proof (induction rule: rtranclp_induct)
  case (step y z)
  then obtain s' where s': "load_mutation_state y u = Some s'" "left_intent (st_phase s')" by blast
  have inv: "ledger_inv L y" using ledger_rows.steps_inv step by blast
  obtain s'' where "load_mutation_state z u = Some s''"
    using ledger_rows.step_row [OF inv step.hyps(2) s'(1)] by auto
  then show ?case
    using ledger_step_refines [OF step.hyps(2) inv] s' life_step_left_intent
    by (fastforce simp: refines_life_def life_of_def dest!: spec [of _ u])
qed blast

text \<open>
  An operation is claimed at most once. After a claim has committed, no later claim of the
  same operation commits, under any version and at any time.
\<close>

theorem claimed_at_most_once:
  assumes "ledger_reachable L g" "claim_mutation u v now g = Inr (s, g1)" "(ledger_step L)\<^sup>*\<^sup>* g1 g2"
  shows "\<not> is_ok (claim_mutation u w later g2)"
proof -
  note inv = ledger_reachable_inv [OF assms(1)]
  have inv1: "ledger_inv L g1" using claim_mutation_inv [OF inv assms(2)] .
  have "load_mutation_state g1 u = Some s \<and> st_phase s = Running"
    by (rule claim_mutation_Inr [OF inv assms(2)]) (auto simp: advance_load_state claimed_state_def)
  then obtain s2 where s2: "load_mutation_state g2 u = Some s2" "left_intent (st_phase s2)"
    using steps_left_intent [OF assms(3) inv1] by (auto simp: left_intent_def)
  then show ?thesis
    by (auto simp: is_ok_iff claim_mutation_def left_intent_def split: if_splits)
qed

theorem claimed_at_most_once_witness: "\<not> is_ok (claim_mutation 7 2 400 demo_completed)"
  using claimed_at_most_once [OF demo_reachable(1) demo_claim] ledger_step.outcome [OF demo_outcome]
  by (meson r_into_rtranclp)

lemma steps_extends: "(ledger_step L)\<^sup>*\<^sup>* g g' \<Longrightarrow> ledger_inv L g \<Longrightarrow> extends g g'"
  by (induction rule: rtranclp_induct)
    (auto intro: extends_trans ledger_step_extends dest: ledger_rows.steps_inv)

lemma steps_completed:
  assumes "(ledger_step L)\<^sup>*\<^sup>* g g'" "ledger_inv L g" "load_mutation_state g u = Some s" "st_phase s = Completed"
  shows "load_mutation_state g' u = Some s"
  using assms
proof (induction rule: rtranclp_induct)
  case (step y z)
  have inv: "ledger_inv L y" using ledger_rows.steps_inv step by blast
  show ?case
    using ledger_step_refines [OF step.hyps(2) inv] step
    by (auto simp: refines_life_def life_of_def life_step_Completed dest!: spec [of _ u])
qed simp

text \<open>
  C27: completion is final and the record of what happened is append-only: after \<open>Completed\<close> the
  state row of an operation never changes again, and intents, evidence, conflict evidence and
  events, once stored, stay as they are (events keep their order, new ones come after them).
\<close>

theorem history_is_append_only:
  assumes "ledger_reachable L g" "(ledger_step L)\<^sup>*\<^sup>* g g'"
  shows "(load_intent g u = Some i \<longrightarrow> load_intent g' u = Some i)
    \<and> (load_evidence g u = Some e \<longrightarrow> load_evidence g' u = Some e)
    \<and> (load_conflict_evidence g c = Some r \<longrightarrow> load_conflict_evidence g' c = Some r)
    \<and> (\<exists>later. load_mutation_events g' u = load_mutation_events g u @ later)
    \<and> (load_mutation_state g u = Some s \<and> st_phase s = Completed \<longrightarrow> load_mutation_state g' u = Some s)"
  using steps_extends [OF assms(2) ledger_reachable_inv [OF assms(1)]]
    steps_completed [OF assms(2) ledger_reachable_inv [OF assms(1)]]
  by (auto simp: extends_def load_mutation_events_def)

theorem history_is_append_only_witness:
  "load_intent demo_completed 7 = Some demo_intent
   \<and> (\<exists>later. load_mutation_events demo_completed 7 = load_mutation_events demo_claimed 7 @ later)"
proof -
  have "ledger_step demo_libs demo_claimed demo_completed" using ledger_step.outcome [OF demo_outcome] .
  from history_is_append_only [OF demo_reachable(2) r_into_rtranclp [of "ledger_step demo_libs", OF this],
      of 7 demo_intent]
  show ?thesis by (simp add: load_intent_def demo_rows)
qed

text \<open>Recovery succeeds whenever the drawn evidence identifiers are new.\<close>

lemma update_mutation_state_ok:
  assumes keys: "ledger_keys g" and row: "load_mutation_state g (st_operation_id s) = Some r"
    and fits: "lengths_fit [Some (st_state_version s), st_next_attempt_at_unix_ms s,
       Some (st_updated_at_unix_ms s), Some (st_state_version r)] = Inr ()"
    and ok: "state_row_ok g s"
  shows "\<exists>g'. update_mutation_state g s (st_state_version r) = Inr g'"
proof -
  let ?hit = "\<lambda>x. st_operation_id x = st_operation_id s \<and> st_state_version x = st_state_version r"
  have r: "r \<in> set (lg_states g)" "st_operation_id r = st_operation_id s"
    using load_state_SomeD [OF row] by auto
  have "filter ?hit (lg_states g) = [r]"
    using filter_hit_one [of st_operation_id "lg_states g" r ?hit] ledger_keys_states(1) [OF keys] r by auto
  then show ?thesis using fits ok by (simp add: update_mutation_state_def Let_def)
qed

lemma interrupted_code_valid: "validate_redacted_code ''interrupted_unknown_outcome'' = Inr ()"
  by code_simp

lemma recover_one_ok:
  assumes inv: "ledger_inv L g" and row: "load_mutation_state g (st_operation_id s) = Some s"
    and fits: "fits_i64 (st_state_version s + 1)"
    and new: "load_evidence g (fresh (st_operation_id s)) = None"
  shows "\<exists>g'. recover_one L fresh s g = Inr g'"
proof -
  let ?op = "st_operation_id s"
  let ?e = "interrupted_mutation_evidence L (fresh ?op) ?op (st_attempt_number s) (st_updated_at_unix_ms s)"
  let ?g1 = "g\<lparr>lg_evidence := lg_evidence g @ [?e]\<rparr>"
  define nxt where "nxt = \<lparr>st_operation_id = ?op, st_phase = NeedsReconcilePhase,
     st_attempt_number = st_attempt_number s, st_state_version = st_state_version s + 1,
     st_disposition = Some NeedsReconcileDisposition, st_next_attempt_at_unix_ms = None,
     st_retry_mode = None, st_resume_reference = None, st_last_evidence_id = Some (ev_evidence_id ?e),
     st_outcome_code = ev_outcome_code ?e, st_updated_at_unix_ms = st_updated_at_unix_ms s\<rparr>"
  note keys = ledger_invD(1) [OF inv]
  have e: "ev_evidence_id ?e = fresh ?op" "ev_operation_id ?e = ?op" "ev_observed_sha256 ?e = None"
    "ev_observed_byte_length ?e = None" "ev_verified_received_byte_offset ?e = None"
    "ev_captured_at_unix_ms ?e = st_updated_at_unix_ms s"
    "ev_outcome_code ?e = Some ''interrupted_unknown_outcome''"
    by (simp_all add: interrupted_mutation_evidence_def Let_def)
  have s: "fits_i64 (st_state_version s)" "fits_i64 (st_updated_at_unix_ms s)"
    using ledger_invD(3) [OF inv row] by (simp_all add: state_ok_def)
  obtain i where i: "load_intent g ?op = Some i" using ledger_keys_states(2) [OF keys, of ?op] row by auto
  have ins: "insert_mutation_evidence g ?e = Inr ?g1"
    using new i s by (simp add: insert_mutation_evidence_def lengths_fit_Inr e paired_def)
  have keys1: "ledger_keys ?g1"
    using keys new i load_intent_SomeD [OF i]
    by (auto simp: ledger_keys_def load_evidence_def find_None_iff e load_intent_def)
  have ev1: "load_evidence ?g1 (fresh ?op) = Some ?e"
    using new e by (simp add: load_evidence_def find_append)
  have same: "load_intent ?g1 = load_intent g" "load_mutation_state ?g1 = load_mutation_state g"
    by (simp_all add: load_intent_def load_mutation_state_def fun_eq_iff)
  obtain g2 where g2: "update_mutation_state ?g1 nxt (st_state_version s) = Inr g2"
    using update_mutation_state_ok [OF keys1, of nxt s] row fits s i ev1
    by (auto simp: same nxt_def lengths_fit_Inr state_row_ok_def e)
  have "g2 = ?g1\<lparr>lg_states := put_row st_operation_id ?op nxt (lg_states ?g1)\<rparr>"
    using update_mutation_state_Inr(1) [OF g2 ledger_keys_states(1) [OF keys1], of s] row
    by (simp add: same nxt_def)
  then have "load_intent g2 = load_intent g" "load_evidence g2 (fresh ?op) = Some ?e"
    using ev1 by (simp_all add: load_intent_def load_evidence_def fun_eq_iff)
  then show ?thesis
    using i fits s g2 ins
    by (simp add: recover_one_def Let_def insert_mutation_event_def lengths_fit_Inr e interrupted_code_valid
        nxt_def)
qed

lemma recover_each_ok:
  assumes "ledger_inv L g" "distinct (map st_operation_id ss)"
    and "\<forall>s \<in> set ss. load_mutation_state g (st_operation_id s) = Some s \<and> fits_i64 (st_state_version s + 1)
           \<and> load_evidence g (fresh (st_operation_id s)) = None"
    and "inj_on fresh (st_operation_id ` set ss)"
  shows "\<exists>g'. recover_each L fresh ss g = Inr g'"
  using assms
proof (induction ss arbitrary: g)
  case (Cons s ss)
  have row: "load_mutation_state g (st_operation_id s) = Some s" using Cons.prems(3) by simp
  obtain g1 where g1: "recover_one L fresh s g = Inr g1"
    using recover_one_ok [OF Cons.prems(1) row, of fresh] Cons.prems(3) by auto
  obtain nxt e m where suc: "successor g s nxt [e] m" and adv: "g1 = advance g nxt [e] m"
    and "st_phase nxt = NeedsReconcilePhase" "plain_row nxt" and e: "ev_evidence_id e = fresh (st_operation_id s)"
    and "outcome_row nxt e" "ev_evidence_fingerprint e = evidence_fingerprint L e"
    by (rule recover_one_Inr [OF Cons.prems(1) g1 row])
  have "load_evidence g1 u = None \<longleftrightarrow> load_evidence g u = None \<and> u \<noteq> fresh (st_operation_id s)" for u
    by (auto simp: load_evidence_def find_None_iff adv advance_def e)
  moreover have "fresh (st_operation_id r) \<noteq> fresh (st_operation_id s)" if "r \<in> set ss" for r
    using that Cons.prems(2, 4) by (auto simp: inj_on_def image_iff)
  moreover have "load_mutation_state g1 (st_operation_id r) = Some r" if "r \<in> set ss" for r
    using that Cons.prems(2, 3) advance_load_state [OF suc] by (auto simp: adv image_iff)
  ultimately have "\<exists>g'. recover_each L fresh ss g1 = Inr g'"
    using Cons.prems by (intro Cons.IH [OF recover_one_inv [OF Cons.prems(1) g1 row]]) (auto simp: inj_on_def)
  then show ?case using g1 by simp
qed simp

text \<open>
  Opening the store recovers every interrupted operation. Whenever the drawn evidence
  identifiers are new, recovery commits; afterwards nothing is \<open>Running\<close>, what was \<open>Running\<close> is
  in \<open>NeedsReconcile\<close> one version later, and every other row is as it was.
\<close>

lemma recovery_of_mutations:
  assumes reach: "ledger_reachable L g"
    and new: "inj fresh" "\<forall>u. load_evidence g (fresh u) = None"
  shows "\<exists>g'. recover_interrupted_mutations L fresh g = Inr g'
    \<and> (\<forall>s \<in> set (lg_states g'). st_phase s \<noteq> Running)
    \<and> (\<forall>u s. load_mutation_state g u = Some s \<longrightarrow>
         (if st_phase s = Running
          then \<exists>n. load_mutation_state g' u = Some n \<and> st_phase n = NeedsReconcilePhase
                 \<and> st_state_version n = st_state_version s + 1
          else load_mutation_state g' u = Some s))"
proof -
  note inv = ledger_reachable_inv [OF reach]
  note keys = ledger_invD(1) [OF inv]
  note rows = running_rows_props [OF keys]
  have fits: "fits_i64 (st_state_version s + 1)" if "s \<in> set (running_rows g)" for s
  proof -
    have s: "load_mutation_state g (st_operation_id s) = Some s" "st_phase s = Running"
      using that rows(2) by auto
    then obtain i where "load_intent g (st_operation_id s) = Some i"
      using ledger_keys_states(2) [OF keys, of "st_operation_id s"] by auto
    then have "life_ok (mi_operation_kind i) (life_of g (st_operation_id s))"
      using reachable_life_ok [OF reach] by (simp add: load_mutation_kind_def)
    then show ?thesis using s by (simp add: life_of_def fits_i64_def)
  qed
  obtain g' where g': "recover_interrupted_mutations L fresh g = Inr g'"
    using recover_each_ok [OF inv rows(1), of fresh] rows(2) fits new inj_on_subset [OF new(1)]
    by (auto simp: recover_interrupted_mutations_def running_rows_def)
  note rec = recover_interrupted_Inr [OF inv g']
  note keys' = ledger_invD(1) [OF rec(1)]
  have step: "if st_phase s = Running
      then \<exists>n. load_mutation_state g' u = Some n \<and> st_phase n = NeedsReconcilePhase
             \<and> st_state_version n = st_state_version s + 1
      else load_mutation_state g' u = Some s" if s: "load_mutation_state g u = Some s" for u s
  proof -
    have op: "st_operation_id s = u" using load_state_SomeD [OF s] by simp
    show ?thesis
    proof (cases "st_phase s = Running")
      case True
      then have "s \<in> set (running_rows g)" using rows(2) s op by simp
      then show ?thesis using rec(2) True op by (auto simp: recovered_def)
    next
      case False
      have "u \<noteq> st_operation_id r" if "r \<in> set (running_rows g)" for r
        using iffD1 [OF rows(2) that] s False by auto
      then have "u \<notin> st_operation_id ` set (running_rows g)" by blast
      then show ?thesis using rec(2) False s by (simp add: recovered_def)
    qed
  qed
  have "st_phase s \<noteq> Running" if "s \<in> set (lg_states g')" for s
  proof
    assume run: "st_phase s = Running"
    have s: "load_mutation_state g' (st_operation_id s) = Some s"
      using ledger_keys_load_state [OF keys'] that by simp
    have "load_intent g (st_operation_id s) \<noteq> None"
      using rec(2) ledger_keys_states(2) [OF keys', of "st_operation_id s"] s
      by (simp add: recovered_def load_intent_def)
    then obtain r where "load_mutation_state g (st_operation_id s) = Some r"
      using ledger_keys_states(2) [OF keys, of "st_operation_id s"] by auto
    from step [OF this] show False using s run by (auto split: if_splits)
  qed
  then show ?thesis using g' step by blast
qed

text \<open>
  C26: the result of a claim on every branch. On a reachable ledger the claim fails with the first
  of the five errors that applies and otherwise commits: the row becomes \<open>Running\<close> one version
  later with attempt number 0, and one event is appended.
\<close>

theorem claim_mutation_result:
  assumes "ledger_reachable L g"
  shows "claim_mutation u v now g =
    (if \<not> fits_i64 now then Inl InvalidTimestamp
     else case (load_intent g u, load_mutation_state g u) of
       (Some i, Some s) \<Rightarrow>
         if mi_operation_kind i = RemoteExistingBlocked then Inl MutationNeedsReconcile
         else if st_state_version s \<noteq> v then Inl MutationStateVersionMismatch
         else if st_phase s \<noteq> IntentDurable then Inl InvalidStateTransition
         else Inr (claimed_state s now,
           g\<lparr>lg_states := put_row st_operation_id u (claimed_state s now) (lg_states g),
             lg_events := lg_events g @ [event_of g u 0 1 Running None None None now]\<rparr>)
     | _ \<Rightarrow> Inl MutationNotFound)"
proof -
  note inv = ledger_reachable_inv [OF assms]
  note keys = ledger_invD(1) [OF inv]
  show ?thesis
  proof (cases "load_mutation_state g u")
    case None
    then have "load_intent g u = None" using ledger_keys_states(2) [OF keys] by simp
    then show ?thesis by (simp add: claim_mutation_def u64_to_i64_def load_mutation_kind_def)
  next
    case (Some s)
    then obtain i where i: "load_intent g u = Some i" using ledger_keys_states(2) [OF keys, of u] by auto
    have op: "st_operation_id s = u" and plain: "plain_row s"
      using ledger_invD(4, 6) [OF inv Some] by simp_all
    have "claim_mutation u v now g = Inr (claimed_state s now,
        g\<lparr>lg_states := put_row st_operation_id u (claimed_state s now) (lg_states g),
          lg_events := lg_events g @ [event_of g u 0 1 Running None None None now]\<rparr>)"
      if ok: "fits_i64 now" "mi_operation_kind i \<noteq> RemoteExistingBlocked" "st_state_version s = v"
        "st_phase s = IntentDurable"
    proof -
      have "life_ok (mi_operation_kind i) (life_of g u)"
        using reachable_life_ok [OF assms] i by (simp add: load_mutation_kind_def)
      then have ver: "st_state_version s = 0" using Some ok by (simp add: life_of_def)
      have nxt: "st_operation_id (claimed_state s now) = u" "st_state_version (claimed_state s now) = 1"
        "st_attempt_number (claimed_state s now) = 0" "st_phase (claimed_state s now) = Running"
        using op ver plain ok by (simp_all add: claimed_state_def plain_row_def)
      have evid: "is_none_or (st_last_evidence_id s) (\<lambda>e. load_evidence g e \<noteq> None)"
        using ledger_invD(3) [OF inv Some] by (simp add: state_ok_def)
      obtain g1 where g1: "update_mutation_state g (claimed_state s now) (st_state_version s) = Inr g1"
        using update_mutation_state_ok [OF keys, of "claimed_state s now" s] Some op ok ver i evid
        by (auto simp: nxt lengths_fit_Inr state_row_ok_def claimed_state_def fits_i64_def)
      have g1': "g1 = g\<lparr>lg_states := put_row st_operation_id u (claimed_state s now) (lg_states g)\<rparr>"
        using update_mutation_state_Inr(1) [OF g1 ledger_keys_states(1) [OF keys], of s] Some by (simp add: nxt)
      show ?thesis
        using ok i Some g1 ver plain
        by (simp add: claim_mutation_def u64_to_i64_def load_mutation_kind_def Let_def nxt plain_row_def
            insert_mutation_event_def lengths_fit_Inr g1' event_of_def load_intent_def fits_i64_def)
    qed
    then show ?thesis
      using i Some plain
      by (auto simp: claim_mutation_def u64_to_i64_def load_mutation_kind_def plain_row_def)
  qed
qed

theorem claim_mutation_result_witness:
  "claim_mutation 7 0 200 demo_registered = Inr (demo_state Running 1 200 None None, demo_claimed)
   \<and> claim_mutation 7 1 200 demo_claimed = Inl InvalidStateTransition"
  unfolding claim_mutation_result [OF demo_reachable(1)] claim_mutation_result [OF demo_reachable(2)]
  by (simp add: demo_rows load_intent_def load_mutation_state_def fits_i64_def claimed_state_def put_row_def
      event_of_def)

lemma validate_hash_size_pair_Inr:
  "validate_hash_size_pair h n = Inr () \<Longrightarrow> paired h n \<and> (\<forall>m. n = Some m \<longrightarrow> fits_i64 m)"
  by (cases h; cases n) (auto simp: validate_hash_size_pair_def paired_def u64_to_i64_def split: if_splits)

lemma valid_intent_storable:
  assumes "validate_mutation_intent L i = Inr ()"
  shows "lengths_fit [mi_base_byte_length i, mi_expected_local_byte_length i,
       mi_expected_remote_byte_length i, Some (mi_registered_at_unix_ms i)] = Inr ()"
    "paired (mi_base_sha256 i) (mi_base_byte_length i)"
    "paired (mi_expected_local_sha256 i) (mi_expected_local_byte_length i)"
    "paired (mi_expected_remote_sha256 i) (mi_expected_remote_byte_length i)"
proof -
  have "validate_hash_size_pair (mi_base_sha256 i) (mi_base_byte_length i) = Inr ()"
    "validate_hash_size_pair (mi_expected_local_sha256 i) (mi_expected_local_byte_length i) = Inr ()"
    "validate_hash_size_pair (mi_expected_remote_sha256 i) (mi_expected_remote_byte_length i) = Inr ()"
    using assms by (auto simp: validate_mutation_intent_def split: if_splits)
  from this [THEN validate_hash_size_pair_Inr] validate_intent_fits [OF assms]
  show "lengths_fit [mi_base_byte_length i, mi_expected_local_byte_length i,
       mi_expected_remote_byte_length i, Some (mi_registered_at_unix_ms i)] = Inr ()"
    "paired (mi_base_sha256 i) (mi_base_byte_length i)"
    "paired (mi_expected_local_sha256 i) (mi_expected_local_byte_length i)"
    "paired (mi_expected_remote_sha256 i) (mi_expected_remote_byte_length i)"
    by (auto simp: lengths_fit_Inr)
qed

text \<open>
  Registration is idempotent and collision-free. On a reachable ledger an acceptable intent
  without initial evidence is stored with its initial row and event when its identifier and marker
  are new; an identical one already stored changes nothing and reports whether it is completed;
  the same identifier with other content, or a marker in use, is a \<open>MutationCollision\<close>.
\<close>

theorem register_mutation_intent_result:
  assumes reach: "ledger_reachable L g" and pre: "register_preconditions L i None = Inr ()"
  shows "register_mutation_intent L i None g =
    (case load_intent g (mi_operation_id i) of
       Some j \<Rightarrow>
         if mi_intent_fingerprint j \<noteq> mi_intent_fingerprint i
            \<or> mi_operation_marker j \<noteq> mi_operation_marker i
         then Inl MutationCollision
         else Inr (if (\<exists>s. load_mutation_state g (mi_operation_id i) = Some s \<and> st_phase s = Completed)
                   then AlreadyCompleted else AlreadyPresent, g)
     | None \<Rightarrow>
         if mi_operation_marker i \<in> mi_operation_marker ` set (lg_intents g) then Inl MutationCollision
         else Inr (Registered, g\<lparr>lg_intents := lg_intents g @ [i],
           lg_states := lg_states g @ [initial_state i],
           lg_events := lg_events g @ [event_of g (mi_operation_id i) 0 0 IntentDurable None None None
             (mi_registered_at_unix_ms i)]\<rparr>))"
proof -
  note inv = ledger_reachable_inv [OF reach]
  note keys = ledger_invD(1) [OF inv]
  have valid: "validate_mutation_intent L i = Inr ()" using register_preconditions_Inr(1) [OF pre] .
  have marker: "mutation_marker_exists g (mi_operation_marker i) \<longleftrightarrow>
      mi_operation_marker i \<in> mi_operation_marker ` set (lg_intents g)"
    unfolding mutation_marker_exists_def list_ex_iff image_iff by metis
  show ?thesis
  proof (cases "load_intent g (mi_operation_id i)")
    case None
    then have none: "load_mutation_state g (mi_operation_id i) = None"
      using ledger_keys_states(2) [OF keys] by simp
    let ?g1 = "g\<lparr>lg_intents := lg_intents g @ [i]\<rparr>"
    have load1: "load_intent ?g1 (mi_operation_id i) = Some i"
      using None find_key_append [of mi_operation_id i "lg_intents g"] by (simp add: load_intent_def)
    have ins: "insert_mutation_intent g i = Inr ?g1"
      if "\<not> mutation_marker_exists g (mi_operation_marker i)"
      using None that valid_intent_storable [OF valid] by (simp add: insert_mutation_intent_def)
    have fits: "fits_i64 (mi_registered_at_unix_ms i)" using validate_intent_fits [OF valid] .
    have st: "insert_mutation_state ?g1 (initial_state i) = Inr (?g1\<lparr>lg_states := lg_states g @ [initial_state i]\<rparr>)"
      using none load1 fits
      by (simp add: insert_mutation_state_def lengths_fit_Inr initial_state_def state_row_ok_def fits_i64_def
          load_mutation_state_def)
    show ?thesis
      using None pre ins st load1 fits marker
      by (simp add: register_mutation_intent_def load_mutation_identity_def insert_mutation_event_def
          lengths_fit_Inr event_of_def fits_i64_def load_intent_def)
  next
    case (Some j)
    then obtain s where "load_mutation_state g (mi_operation_id i) = Some s"
      using ledger_keys_states(2) [OF keys, of "mi_operation_id i"] by auto
    then show ?thesis using Some pre by (simp add: register_mutation_intent_def load_mutation_identity_def)
  qed
qed

theorem register_mutation_intent_result_witness:
  "register_mutation_intent demo_libs demo_intent None demo_completed = Inr (AlreadyCompleted, demo_completed)"
proof -
  have "register_preconditions demo_libs demo_intent None = Inr ()"
    by (simp add: register_preconditions_def demo_intent_valid demo_intent_fields)
  from register_mutation_intent_result [OF demo_reachable(3) this]
  show ?thesis by (simp add: demo_rows load_intent_def load_mutation_state_def)
qed

text \<open>
  Lifecycles are short and never retried. In every reachable ledger an operation is at
  version 0 (durable), 1 (running), 2 (to be reconciled; 1 for a blocked one) or 2--3 (completed),
  its attempt number is 0, the retry phase does not occur, it has one event per version, and
  outcomes that ask for a retry are refused.
\<close>

theorem lifecycle_is_bounded:
  assumes "ledger_reachable L g" "load_mutation_state g u = Some s"
  shows "(\<exists>k. load_mutation_kind g u = Some k \<and> life_ok k (Some (st_phase s, st_state_version s)))
    \<and> st_state_version s \<le> 3 \<and> st_attempt_number s = 0
    \<and> length (load_mutation_events g u) = Suc (unat (st_state_version s))
    \<and> \<not> is_ok (record_mutation_outcome L u v e (TransitionVerifiedNotApplied at) g)
    \<and> \<not> is_ok (record_mutation_outcome L u v e (TransitionRetrySafe at ref) g)"
proof -
  note inv = ledger_reachable_inv [OF assms(1)]
  obtain i where i: "load_intent g u = Some i"
    using ledger_keys_states(2) [OF ledger_invD(1) [OF inv], of u] assms(2) by auto
  then have ok: "life_ok (mi_operation_kind i) (Some (st_phase s, st_state_version s))"
    using reachable_life_ok [OF assms(1), of u] assms(2) by (simp add: load_mutation_kind_def life_of_def)
  have s: "state_ok g s" "st_operation_id s = u" using ledger_invD(3, 6) [OF inv assms(2)] by simp_all
  then have "length (load_mutation_events g u) = Suc (unat (st_state_version s))"
    using map_eq_imp_length_eq [of "unat \<circ> me_state_version" "load_mutation_events g u" id]
    by (auto simp: state_ok_def gapless_def)
  moreover have "st_state_version s \<le> 3" using ok by (auto split: mutation_phase.splits if_splits)
  moreover have "\<not> is_ok (record_mutation_outcome L u v e t g)"
    if "t \<noteq> TransitionVerifiedApplied" "t \<noteq> TransitionNeedsReconcile" for t
    using that by (cases t) (auto simp: is_ok_iff record_mutation_outcome_def transition_target_def
        split: if_splits)
  ultimately show ?thesis using ok i s by (auto simp: state_ok_def load_mutation_kind_def)
qed

theorem lifecycle_is_bounded_witness:
  "length (load_mutation_events demo_completed 7) = 3
   \<and> \<not> is_ok (record_mutation_outcome demo_libs 7 2 demo_evidence (TransitionVerifiedNotApplied 500) demo_completed)"
proof -
  have "load_mutation_state demo_completed 7 = Some (demo_state Completed 2 300 (Some VerifiedApplied) (Some 9))"
    by (simp add: load_mutation_state_def demo_rows)
  from lifecycle_is_bounded [OF demo_reachable(3) this, of 2 demo_evidence 500]
  show ?thesis by (simp add: demo_state_def)
qed

end
