(* ===== verification/Conflict_Codes.thy ===== *)
theory Conflict_Codes
  imports Remote_Model "HOL-Library.Code_Target_Nat"
begin

text \<open>
  The vocabularies of the conflict matrix that are written to durable records: matrix cells and
  outcomes (\<open>conflict/classifier.rs\<close>) and operation domains (\<open>conflict/identity.rs\<close>), with their
  spellings.
\<close>

section \<open>Spelled vocabularies\<close>

text \<open>
  The contract of a vocabulary whose spelling is stored and hashed: spellings are distinct and
  acceptable to \<open>validate_redacted_code\<close>. A finite list of all words makes both checkable.
\<close>

locale redacted_vocabulary =
  fixes spell :: "'a \<Rightarrow> string"
    and words :: "'a list"
  assumes words_complete: "x \<in> set words"
    and spellings_distinct: "distinct (map spell words)"
    and spellings_redacted: "list_all (\<lambda>w. validate_redacted_code (spell w) = Inr ()) words"
begin

lemma spell_inject: "spell x = spell y \<longleftrightarrow> x = y"
  using spellings_distinct words_complete inj_onD [of spell "set words" x y] by (auto simp: distinct_map)

lemma spell_redacted: "validate_redacted_code (spell x) = Inr ()"
  using spellings_redacted words_complete by (auto simp: list_all_iff)

lemma spell_bounded: "length (spell x) \<le> 128"
  using spell_redacted [of x] by (simp add: validate_redacted_code_def split: if_splits)

end

section \<open>Matrix cells and outcomes\<close>

datatype conflict_cell =
    C01 | C02 | C03 | C04 | C05 | C06a | C06b | C07 | C08 | C09 | C10 | C11 |
    C12 | C13 | C14a | C14b | C14c | C15 | C16 | C17 | C18 | C19 | C20 | C21 |
    C22a | C22b | C23 | C24 | C25 | C26 | C27 | C28a | C28b | C29 | C30 | C31 |
    C32 | C33a | C33b | C34

fun cell_as_str :: "conflict_cell \<Rightarrow> string" where
  "cell_as_str C01 = ''C01''"
| "cell_as_str C02 = ''C02''"
| "cell_as_str C03 = ''C03''"
| "cell_as_str C04 = ''C04''"
| "cell_as_str C05 = ''C05''"
| "cell_as_str C06a = ''C06a''"
| "cell_as_str C06b = ''C06b''"
| "cell_as_str C07 = ''C07''"
| "cell_as_str C08 = ''C08''"
| "cell_as_str C09 = ''C09''"
| "cell_as_str C10 = ''C10''"
| "cell_as_str C11 = ''C11''"
| "cell_as_str C12 = ''C12''"
| "cell_as_str C13 = ''C13''"
| "cell_as_str C14a = ''C14a''"
| "cell_as_str C14b = ''C14b''"
| "cell_as_str C14c = ''C14c''"
| "cell_as_str C15 = ''C15''"
| "cell_as_str C16 = ''C16''"
| "cell_as_str C17 = ''C17''"
| "cell_as_str C18 = ''C18''"
| "cell_as_str C19 = ''C19''"
| "cell_as_str C20 = ''C20''"
| "cell_as_str C21 = ''C21''"
| "cell_as_str C22a = ''C22a''"
| "cell_as_str C22b = ''C22b''"
| "cell_as_str C23 = ''C23''"
| "cell_as_str C24 = ''C24''"
| "cell_as_str C25 = ''C25''"
| "cell_as_str C26 = ''C26''"
| "cell_as_str C27 = ''C27''"
| "cell_as_str C28a = ''C28a''"
| "cell_as_str C28b = ''C28b''"
| "cell_as_str C29 = ''C29''"
| "cell_as_str C30 = ''C30''"
| "cell_as_str C31 = ''C31''"
| "cell_as_str C32 = ''C32''"
| "cell_as_str C33a = ''C33a''"
| "cell_as_str C33b = ''C33b''"
| "cell_as_str C34 = ''C34''"

definition all_cells :: "conflict_cell list" where
  "all_cells =
    [C01, C02, C03, C04, C05, C06a, C06b, C07, C08, C09, C10, C11, C12, C13,
      C14a, C14b, C14c, C15, C16, C17, C18, C19, C20, C21, C22a, C22b, C23, C24,
      C25, C26, C27, C28a, C28b, C29, C30, C31, C32, C33a, C33b, C34]"

datatype conflict_outcome =
    NoOpVerified | GuardedLocalReplace | SafeTextMergeLocal | PreserveBothLocal
  | RemoteMutationBlocked | UnsupportedProtected | NeedsReconcile

fun outcome_as_str :: "conflict_outcome \<Rightarrow> string" where
  "outcome_as_str NoOpVerified = ''no_op_verified''"
| "outcome_as_str GuardedLocalReplace = ''guarded_local_replace''"
| "outcome_as_str SafeTextMergeLocal = ''safe_text_merge_local''"
| "outcome_as_str PreserveBothLocal = ''preserve_both_local''"
| "outcome_as_str RemoteMutationBlocked = ''remote_mutation_blocked''"
| "outcome_as_str UnsupportedProtected = ''unsupported_protected''"
| "outcome_as_str NeedsReconcile = ''needs_reconcile''"

definition all_outcomes :: "conflict_outcome list" where
  "all_outcomes = [NoOpVerified, GuardedLocalReplace, SafeTextMergeLocal, PreserveBothLocal,
     RemoteMutationBlocked, UnsupportedProtected, NeedsReconcile]"

section \<open>Operation domains\<close>

datatype conflict_operation_domain =
    ConflictCopy | DomainMergePublish | DomainBasePublish | DomainLocalPublish
  | DomainRemoteExistingBlocked | GuardedRename | GuardedMove | GuardedRenameMove

fun domain_as_str :: "conflict_operation_domain \<Rightarrow> string" where
  "domain_as_str ConflictCopy = ''conflict-copy''"
| "domain_as_str DomainMergePublish = ''merge-publish''"
| "domain_as_str DomainBasePublish = ''base-publish''"
| "domain_as_str DomainLocalPublish = ''local-publish''"
| "domain_as_str DomainRemoteExistingBlocked = ''remote-existing-blocked''"
| "domain_as_str GuardedRename = ''guarded-local-rename''"
| "domain_as_str GuardedMove = ''guarded-local-move''"
| "domain_as_str GuardedRenameMove = ''guarded-local-rename-move''"

definition all_domains :: "conflict_operation_domain list" where
  "all_domains = [ConflictCopy, DomainMergePublish, DomainBasePublish, DomainLocalPublish,
     DomainRemoteExistingBlocked, GuardedRename, GuardedMove, GuardedRenameMove]"

interpretation cell_codes: redacted_vocabulary cell_as_str all_cells
proof unfold_locales
  show "x \<in> set all_cells" for x by (cases x) (simp_all add: all_cells_def)
  show "distinct (map cell_as_str all_cells)" by code_simp
  show "list_all (\<lambda>w. validate_redacted_code (cell_as_str w) = Inr ()) all_cells" by code_simp
qed

interpretation outcome_codes: redacted_vocabulary outcome_as_str all_outcomes
proof unfold_locales
  show "x \<in> set all_outcomes" for x by (cases x) (simp_all add: all_outcomes_def)
  show "distinct (map outcome_as_str all_outcomes)" by code_simp
  show "list_all (\<lambda>w. validate_redacted_code (outcome_as_str w) = Inr ()) all_outcomes" by code_simp
qed

interpretation domain_codes: redacted_vocabulary domain_as_str all_domains
proof unfold_locales
  show "x \<in> set all_domains" for x by (cases x) (simp_all add: all_domains_def)
  show "distinct (map domain_as_str all_domains)" by code_simp
  show "list_all (\<lambda>w. validate_redacted_code (domain_as_str w) = Inr ()) all_domains" by code_simp
qed

end
