(* ===== verification/Conflict_Identity.thy ===== *)
theory Conflict_Identity
  imports Conflict_Codes
begin

text \<open>
  \<open>conflict/identity.rs\<close>: the stable identity of a conflict, the identifiers derived from it,
  and the deterministic portable name of a conflict copy.
\<close>

section \<open>Definitions\<close>

definition CONFLICT_ID_VERSION :: string where
  "CONFLICT_ID_VERSION = ''myvault-r3-conflict-id-v1''"

definition CONFLICT_NAMING_VERSION :: string where
  "CONFLICT_NAMING_VERSION = ''r3-conflict-name-v1-nfkc17-casefold9-nfkc''"

definition OPERATION_NAMESPACE :: uuid where
  "OPERATION_NAMESPACE = 0xa8357e624e5d5a889169913b906d46cf"

record content_fingerprint =
  fp_sha256 :: string
  fp_byte_length :: u64

record conflict_identity_input =
  id_account_id :: string
  id_remote_root_id :: string
  id_object_identity :: string
  id_cell :: conflict_cell
  id_outcome :: conflict_outcome
  id_canonical_identity_path :: string
  id_target_parent_id :: string
  id_base :: "content_fingerprint option"
  id_local :: "content_fingerprint option"
  id_remote :: "content_fingerprint option"
  id_naming_version :: string

record occupied_conflict_copy =
  oc_normalized_collision_key :: string
  oc_conflict_id :: string
  oc_expected_content :: content_fingerprint
  oc_destination_path :: string
  oc_object_id :: string

record conflict_copy_name_request =
  rq_conflict_id :: string
  rq_source_path :: string
  rq_destination_parent_path :: "string option"
  rq_expected_content :: content_fingerprint
  rq_naming_version :: string
  rq_occupied :: "occupied_conflict_copy list"

record conflict_copy_name =
  cn_destination_path :: string
  cn_normalized_collision_key :: string
  cn_id_prefix_length :: nat
  cn_existing_object_id :: "string option"

datatype conflict_name_failure =
    UnsupportedNamingVersion | InvalidConflictId | InvalidContentFingerprint | InvalidSourcePath
  | InvalidDestinationParent | InvalidNormalizedComponent | InvalidIdentityField
  | InvalidOccupiedEvidence | ExhaustedConflictId

datatype conflict_copy_name_outcome =
    Create conflict_copy_name
  | Reuse conflict_copy_name
  | NameNeedsReconcile conflict_name_failure

definition is_remote_id :: "string \<Rightarrow> bool" where
  "is_remote_id value = ((1 \<le> length value \<and> length value \<le> 512) \<and> list_all remote_id_byte value)"

definition is_lower_hex_64 :: "string \<Rightarrow> bool" where
  "is_lower_hex_64 value = (length value = 64 \<and> list_all is_lower_hex_byte value)"

definition valid_fingerprint :: "content_fingerprint \<Rightarrow> bool" where
  "valid_fingerprint value = (is_lower_hex_64 (fp_sha256 value) \<and> fits_i64 (fp_byte_length value))"

definition exact_vault_path :: "libs \<Rightarrow> string \<Rightarrow> unit + vault_path" where
  "exact_vault_path L value =
     and_then (map_err (\<lambda>_. ()) (from_portable value)) (\<lambda>path.
       let protected = nfkc_casefold_nfkc L (hd (split_on CHR ''/'' (as_str path)))
             \<in> set [''.obsidian'', ''.trash''] in
       if as_str path = value \<and> \<not> protected then Inr path else Inl ())"

definition is_exact_content_path :: "libs \<Rightarrow> string \<Rightarrow> bool" where
  "is_exact_content_path L value = is_ok (exact_vault_path L value)"

text \<open>The body of the loop of \<open>normalized_collision_key\<close>.\<close>

definition normalized_component :: "libs \<Rightarrow> string \<Rightarrow> conflict_name_failure + string" where
  "normalized_component L component =
     (let normalized = nfkc_casefold_nfkc L component in
      if normalized = []
         \<or> CHR ''/'' \<in> set normalized \<or> CHR 0x00 \<in> set normalized \<or> contains_control normalized
         \<or> \<not> (case from_portable normalized of Inl _ \<Rightarrow> False | Inr c \<Rightarrow> as_str c = normalized)
      then Inl InvalidNormalizedComponent
      else Inr (length_prefixed normalized))"

fun normalized_components :: "libs \<Rightarrow> string list \<Rightarrow> conflict_name_failure + string" where
  "normalized_components L [] = Inr []"
| "normalized_components L (c # cs) =
     and_then (normalized_component L c) (\<lambda>bytes.
     and_then (normalized_components L cs) (\<lambda>rest. Inr (bytes @ rest)))"

definition normalized_collision_key :: "libs \<Rightarrow> string \<Rightarrow> conflict_name_failure + string" where
  "normalized_collision_key L path =
     and_then (map_err (\<lambda>_. InvalidSourcePath) (exact_vault_path L path)) (\<lambda>p.
     and_then (normalized_components L (split_on CHR ''/'' (as_str p))) (\<lambda>stream.
     Inr (hex_sha256 L stream)))"

definition validate_identity_input :: "libs \<Rightarrow> conflict_identity_input \<Rightarrow> conflict_name_failure + unit" where
  "validate_identity_input L input =
     (if id_naming_version input \<noteq> CONFLICT_NAMING_VERSION then Inl UnsupportedNamingVersion
      else and_then (map_err (\<lambda>_. InvalidSourcePath)
          (exact_vault_path L (id_canonical_identity_path input))) (\<lambda>_.
      if list_ex (\<lambda>value. \<not> is_remote_id value)
           [id_account_id input, id_remote_root_id input, id_object_identity input, id_target_parent_id input]
         \<or> is_some_and (id_local input) (\<lambda>v. \<not> valid_fingerprint v)
         \<or> is_some_and (id_remote input) (\<lambda>v. \<not> valid_fingerprint v)
         \<or> is_some_and (id_base input) (\<lambda>v. \<not> valid_fingerprint v)
      then Inl InvalidIdentityField
      else Inr ()))"

definition fingerprint_fields_of :: "string \<Rightarrow> content_fingerprint option \<Rightarrow> (string \<times> string option) list" where
  "fingerprint_fields_of pre value =
     [(pre @ ''_sha256'', map_option fp_sha256 value),
      (pre @ ''_byte_length'', map_option (\<lambda>v. u64_to_string (fp_byte_length v)) value)]"

definition identity_fields_of :: "conflict_identity_input \<Rightarrow> (string \<times> string option) list" where
  "identity_fields_of input =
     [(''identity_version'', Some CONFLICT_ID_VERSION),
      (''account_id'', Some (id_account_id input)),
      (''remote_root_id'', Some (id_remote_root_id input)),
      (''object_identity'', Some (id_object_identity input)),
      (''stable_cell_id'', Some (cell_as_str (id_cell input))),
      (''classification_code'', Some (outcome_as_str (id_outcome input))),
      (''canonical_identity_path'', Some (id_canonical_identity_path input)),
      (''target_parent_identity'', Some (id_target_parent_id input))]
     @ fingerprint_fields_of ''base'' (id_base input)
     @ fingerprint_fields_of ''local'' (id_local input)
     @ fingerprint_fields_of ''remote'' (id_remote input)
     @ [(''naming_version'', Some (id_naming_version input))]"

definition identity_stream :: "conflict_identity_input \<Rightarrow> string" where
  "identity_stream input = concat (map push_field (identity_fields_of input))"

definition derive_conflict_id :: "libs \<Rightarrow> conflict_identity_input \<Rightarrow> conflict_name_failure + string" where
  "derive_conflict_id L input =
     and_then (validate_identity_input L input) (\<lambda>_. Inr (hex_sha256 L (identity_stream input)))"

definition derive_operation_id :: "libs \<Rightarrow> conflict_operation_domain \<Rightarrow> string \<Rightarrow> uuid" where
  "derive_operation_id L domain conflict_id =
     uuid_new_v5 L OPERATION_NAMESPACE (domain_as_str domain @ [CHR 0x00] @ conflict_id)"

definition operation_marker :: "conflict_operation_domain \<Rightarrow> string \<Rightarrow> string" where
  "operation_marker domain conflict_id =
     ''r3.'' @ domain_as_str domain @ ''.'' @ take_chars 32 conflict_id"

text \<open>\<open>str::rfind\<close> for an ASCII byte.\<close>

definition rfind_byte :: "char \<Rightarrow> string \<Rightarrow> nat option" where
  "rfind_byte c s =
     (if c \<in> set s then Some (length s - 1 - length (takeWhile (\<lambda>b. b \<noteq> c) (rev s))) else None)"

definition split_extension :: "string \<Rightarrow> string \<times> string" where
  "split_extension name =
     (case rfind_byte CHR ''.'' name of
        None \<Rightarrow> (name, [])
      | Some index \<Rightarrow>
          if index = 0 \<or> index + 1 = length name then (name, [])
          else (take index name, drop index name))"

definition candidate_text :: "string option \<Rightarrow> string \<Rightarrow> string \<Rightarrow> string \<Rightarrow> string" where
  "candidate_text parent stem extension suffix =
     (let component = stem @ suffix @ extension in
      case parent of None \<Rightarrow> component | Some p \<Rightarrow> p @ ''/'' @ component)"

function build_candidate_path ::
    "libs \<Rightarrow> string option \<Rightarrow> string \<Rightarrow> string \<Rightarrow> string \<Rightarrow> vault_path option" where
  "build_candidate_path L parent truncated_stem extension suffix =
     (case exact_vault_path L (candidate_text parent truncated_stem extension suffix) of
        Inr path \<Rightarrow> Some path
      | Inl _ \<Rightarrow>
          (case string_pop truncated_stem of
             None \<Rightarrow> None
           | Some shorter \<Rightarrow> build_candidate_path L parent shorter extension suffix))"
  by pat_completeness auto
termination
  by (relation "measure (\<lambda>(L, parent, stem, extension, suffix). length stem)")
    (auto dest: string_pop_length)

declare build_candidate_path.simps [simp del]

definition PREFIX_LENGTHS :: "nat list" where
  "PREFIX_LENGTHS = map (\<lambda>k. 12 + 4 * k) [0..<14]"

definition conflict_suffix :: "string \<Rightarrow> nat \<Rightarrow> string" where
  "conflict_suffix conflict_id prefix_length = '' (conflict '' @ take prefix_length conflict_id @ '')''"

definition occupied_valid :: "libs \<Rightarrow> occupied_conflict_copy \<Rightarrow> bool" where
  "occupied_valid L occupied =
     (\<not> (\<not> is_lower_hex_64 (oc_normalized_collision_key occupied)
        \<or> \<not> is_lower_hex_64 (oc_conflict_id occupied)
        \<or> \<not> valid_fingerprint (oc_expected_content occupied)
        \<or> \<not> is_remote_id (oc_object_id occupied)
        \<or> normalized_collision_key L (oc_destination_path occupied)
            \<noteq> Inr (oc_normalized_collision_key occupied)))"

text \<open>The \<open>for\<close> loop over the prefix lengths.\<close>

fun try_prefixes ::
    "libs \<Rightarrow> conflict_copy_name_request \<Rightarrow> string \<Rightarrow> string \<Rightarrow> nat list \<Rightarrow> conflict_copy_name_outcome" where
  "try_prefixes L request stem extension [] = NameNeedsReconcile ExhaustedConflictId"
| "try_prefixes L request stem extension (n # ns) =
     (case build_candidate_path L (rq_destination_parent_path request) stem extension
        (conflict_suffix (rq_conflict_id request) n) of
        None \<Rightarrow> NameNeedsReconcile InvalidDestinationParent
      | Some candidate \<Rightarrow>
          (case normalized_collision_key L (as_str candidate) of
             Inl failure \<Rightarrow> NameNeedsReconcile failure
           | Inr key \<Rightarrow>
               let name = \<lparr>cn_destination_path = as_str candidate, cn_normalized_collision_key = key,
                     cn_id_prefix_length = n, cn_existing_object_id = None\<rparr>;
                   collisions = filter (\<lambda>o'. oc_normalized_collision_key o' = key) (rq_occupied request) in
               if collisions = [] then Create name
               else if list_all (\<lambda>o'. oc_conflict_id o' = rq_conflict_id request
                      \<and> oc_expected_content o' = rq_expected_content request) collisions
               then let object_id = oc_object_id (hd collisions) in
                 if list_ex (\<lambda>o'. oc_object_id o' \<noteq> object_id
                      \<or> oc_destination_path o' \<noteq> cn_destination_path name) collisions
                 then NameNeedsReconcile InvalidOccupiedEvidence
                 else Reuse (name\<lparr>cn_existing_object_id := Some object_id\<rparr>)
               else try_prefixes L request stem extension ns))"

definition resolve_conflict_copy_name ::
    "libs \<Rightarrow> conflict_copy_name_request \<Rightarrow> conflict_copy_name_outcome" where
  "resolve_conflict_copy_name L request =
     (if rq_naming_version request \<noteq> CONFLICT_NAMING_VERSION
      then NameNeedsReconcile UnsupportedNamingVersion
      else if \<not> is_lower_hex_64 (rq_conflict_id request) then NameNeedsReconcile InvalidConflictId
      else if \<not> valid_fingerprint (rq_expected_content request)
      then NameNeedsReconcile InvalidContentFingerprint
      else if length (rq_occupied request) > 4096
        \<or> list_ex (\<lambda>o'. \<not> occupied_valid L o') (rq_occupied request)
      then NameNeedsReconcile InvalidOccupiedEvidence
      else case exact_vault_path L (rq_source_path request) of
        Inl _ \<Rightarrow> NameNeedsReconcile InvalidSourcePath
      | Inr source \<Rightarrow>
          if is_some_and (rq_destination_parent_path request) (\<lambda>p. \<not> is_ok (exact_vault_path L p))
          then NameNeedsReconcile InvalidDestinationParent
          else let (stem, extension) = split_extension (last_piece CHR ''/'' (as_str source)) in
            try_prefixes L request stem extension PREFIX_LENGTHS)"

end
