(* ===== verification/Identity_Properties.thy ===== *)
theory Identity_Properties
  imports Conflict_Identity Concrete_Libs
begin

text \<open>
  Properties of \<open>conflict/identity.rs\<close>: a conflict identity determines the evidence it was derived
  from, markers and identifiers derived from it are acceptable and separated by domain, and the
  conflict-copy name is portable, free of collisions and stable under replay.
\<close>

section \<open>Identity streams\<close>

lemma nat_to_string_length: "n < 10 ^ Suc k \<Longrightarrow> length (nat_to_string n) \<le> Suc k"
proof (induction k arbitrary: n)
  case 0
  then show ?case by (simp add: nat_to_string.simps)
next
  case (Suc k)
  show ?case
  proof (cases "n < 10")
    case True
    then show ?thesis by (simp add: nat_to_string.simps)
  next
    case False
    have "n div 10 < 10 ^ Suc k" using Suc.prems by (simp add: less_mult_imp_div_less mult.commute)
    then have "length (nat_to_string (n div 10)) \<le> Suc k" by (rule Suc.IH)
    then show ?thesis using False by (simp add: nat_to_string.simps [of n])
  qed
qed

lemma u64_to_string_length: "length (u64_to_string x) \<le> 20"
proof -
  have "unat x < 2 ^ 64" using unsigned_less [of x] by simp
  then have "unat x < 10 ^ Suc 19" by simp
  then show ?thesis using nat_to_string_length [of "unat x" 19] by (simp add: u64_to_string_def)
qed

lemma addressable_short: "length s \<le> 4096 \<Longrightarrow> addressable s"
  by (simp add: addressable_def usize_limit_def)

lemma exact_vault_path_Inr:
  "exact_vault_path L s = Inr p \<longleftrightarrow> p = VaultPath s \<and> canonical_path s
     \<and> nfkc_casefold_nfkc L (hd (split_on CHR ''/'' s)) \<notin> {''.obsidian'', ''.trash''}"
proof
  assume a: "exact_vault_path L s = Inr p"
  then have "from_portable s = Inr p" "as_str p = s"
    "nfkc_casefold_nfkc L (hd (split_on CHR ''/'' (as_str p))) \<notin> {''.obsidian'', ''.trash''}"
    by (auto simp: exact_vault_path_def Let_def split: if_splits)
  moreover from this have "p = VaultPath s" by (cases p) simp
  ultimately show "p = VaultPath s \<and> canonical_path s
     \<and> nfkc_casefold_nfkc L (hd (split_on CHR ''/'' s)) \<notin> {''.obsidian'', ''.trash''}"
    by (auto simp: from_portable_Inr_iff)
next
  assume "p = VaultPath s \<and> canonical_path s
     \<and> nfkc_casefold_nfkc L (hd (split_on CHR ''/'' s)) \<notin> {''.obsidian'', ''.trash''}"
  then show "exact_vault_path L s = Inr p"
    by (auto simp: exact_vault_path_def from_portable_canonical)
qed

lemma is_exact_content_path_iff:
  "is_exact_content_path L s \<longleftrightarrow> canonical_path s
     \<and> nfkc_casefold_nfkc L (hd (split_on CHR ''/'' s)) \<notin> {''.obsidian'', ''.trash''}"
  by (auto simp: is_exact_content_path_def is_ok_iff exact_vault_path_Inr)

lemma canonical_path_bounded: "canonical_path s \<Longrightarrow> length s \<le> 4096"
  by (simp add: canonical_path_def MAX_PATH_BYTES_def)

lemma fingerprint_fields_ok:
  assumes "is_none_or v valid_fingerprint" "length pre \<le> 100"
  shows "list_all field_ok (fingerprint_fields_of pre v)"
proof (cases v)
  case None
  then show ?thesis
    using assms by (auto simp: fingerprint_fields_of_def field_ok_def intro!: addressable_short)
next
  case (Some f)
  have "length (u64_to_string (fp_byte_length f)) \<le> 4096"
    using u64_to_string_length [of "fp_byte_length f"] by simp
  then show ?thesis
    using assms Some
    by (auto simp: fingerprint_fields_of_def field_ok_def valid_fingerprint_def is_lower_hex_64_def
        intro!: addressable_short)
qed

lemma validate_identity_input_Inr:
  assumes "validate_identity_input L input = Inr ()"
  shows "id_naming_version input = CONFLICT_NAMING_VERSION"
    "canonical_path (id_canonical_identity_path input)"
    "\<forall>s \<in> {id_account_id input, id_remote_root_id input, id_object_identity input,
        id_target_parent_id input}. is_remote_id s"
    "is_none_or (id_base input) valid_fingerprint" "is_none_or (id_local input) valid_fingerprint"
    "is_none_or (id_remote input) valid_fingerprint"
  using assms
  by (auto simp: validate_identity_input_def exact_vault_path_Inr is_some_and_def is_none_or_def
      split: if_splits option.splits)

lemma identity_fields_ok:
  assumes "validate_identity_input L input = Inr ()"
  shows "list_all field_ok (identity_fields_of input)"
proof -
  note v = validate_identity_input_Inr [OF assms]
  have "length s \<le> 4096" if "is_remote_id s" for s using that by (simp add: is_remote_id_def)
  moreover have "length (cell_as_str c) \<le> 4096" for c using cell_codes.spell_bounded [of c] by simp
  moreover have "length (outcome_as_str c) \<le> 4096" for c using outcome_codes.spell_bounded [of c] by simp
  ultimately show ?thesis
    using v fingerprint_fields_ok canonical_path_bounded
    by (auto simp: identity_fields_of_def field_ok_def CONFLICT_ID_VERSION_def CONFLICT_NAMING_VERSION_def
        intro!: addressable_short)
qed

lemma fingerprint_inject:
  assumes "map_option fp_sha256 v = map_option fp_sha256 w"
    "map_option (\<lambda>v. u64_to_string (fp_byte_length v)) v = map_option (\<lambda>v. u64_to_string (fp_byte_length v)) w"
  shows "v = (w :: content_fingerprint option)"
  using assms by (cases v; cases w) auto

lemma identity_fields_inject: "identity_fields_of a = identity_fields_of b \<Longrightarrow> a = b"
  by (cases a; cases b)
    (auto simp: identity_fields_of_def fingerprint_fields_of_def cell_codes.spell_inject
      outcome_codes.spell_inject dest: fingerprint_inject)

lemma identity_stream_inject:
  assumes "validate_identity_input L a = Inr ()" "validate_identity_input L b = Inr ()"
    "identity_stream a = identity_stream b"
  shows "a = b"
  using identity_fields.stream_inject [OF identity_fields_ok [OF assms(1)] identity_fields_ok [OF assms(2)]]
    assms(3) identity_fields_inject by (auto simp: identity_stream_def)

lemma hex_sha256_inject: "hex_sha256 L x = hex_sha256 L y \<longleftrightarrow> sha256_digest L x = sha256_digest L y"
  using hex_string_inject by (auto simp: hex_sha256_def)

text \<open>
  C37: a conflict identity identifies its evidence. Two accepted inputs with the same conflict id
  are equal in every field (account, root, object, cell, outcome, path, parent, the three content
  fingerprints), or their identity streams are an explicit SHA-256 collision.
\<close>

theorem conflict_id_identifies_evidence:
  assumes "derive_conflict_id L a = Inr cid" "derive_conflict_id L b = Inr cid"
  shows "a = b \<or> (identity_stream a \<noteq> identity_stream b
     \<and> sha256_digest L (identity_stream a) = sha256_digest L (identity_stream b))"
  using assms identity_stream_inject [of L a b] by (auto simp: derive_conflict_id_def hex_sha256_inject)

definition demo_identity :: "conflict_cell \<Rightarrow> conflict_identity_input" where
  "demo_identity c = \<lparr>id_account_id = ''acct'', id_remote_root_id = ''root'', id_object_identity = ''obj'',
     id_cell = c, id_outcome = PreserveBothLocal, id_canonical_identity_path = ''notes/a.md'',
     id_target_parent_id = ''parent'', id_base = None,
     id_local = Some \<lparr>fp_sha256 = replicate 64 CHR ''a'', fp_byte_length = 5\<rparr>, id_remote = None,
     id_naming_version = CONFLICT_NAMING_VERSION\<rparr>"

lemma demo_identity_valid: "validate_identity_input demo_libs (demo_identity C04) = Inr ()"
  by code_simp

theorem conflict_id_identifies_evidence_witness:
  "\<exists>cid. derive_conflict_id demo_libs (demo_identity C04) = Inr cid
     \<and> (demo_identity C04 = demo_identity C04 \<or> identity_stream (demo_identity C04) \<noteq> identity_stream (demo_identity C04))"
proof -
  have "derive_conflict_id demo_libs (demo_identity C04)
      = Inr (hex_sha256 demo_libs (identity_stream (demo_identity C04)))"
    by (simp add: derive_conflict_id_def demo_identity_valid)
  then show ?thesis
    using conflict_id_identifies_evidence [of demo_libs "demo_identity C04" _ "demo_identity C04"] by blast
qed

section \<open>Markers\<close>

lemma domain_bounded: "length (domain_as_str d) \<le> 25"
  by (cases d) simp_all

lemma domain_no_dot: "CHR ''.'' \<notin> set (domain_as_str d)"
  by (cases d) simp_all

lemma lower_hex_ascii: "list_all is_lower_hex_byte s \<Longrightarrow> \<forall>b \<in> set s. byte b < 128"
  by (auto simp: list_all_iff is_lower_hex_byte_def is_ascii_digit_def)

lemma lower_hex_remote: "is_lower_hex_byte b \<Longrightarrow> remote_id_byte b"
  by (auto simp: is_lower_hex_byte_def remote_id_byte_def is_ascii_alphanumeric_def is_ascii_digit_def
      is_ascii_lowercase_def)

lemma operation_marker_hex:
  assumes "is_lower_hex_64 cid"
  shows "operation_marker d cid = ''r3.'' @ domain_as_str d @ ''.'' @ take 32 cid"
  using assms take_chars_ascii [OF lower_hex_ascii] by (simp add: operation_marker_def is_lower_hex_64_def)

lemma operation_marker_valid:
  assumes "is_lower_hex_64 a"
  shows "validate_redacted_code (operation_marker d a) = Inr ()"
proof -
  have "list_all remote_id_byte (domain_as_str d)"
    using domain_codes.spell_redacted [of d] by (simp add: validate_redacted_code_def split: if_splits)
  moreover have "list_all remote_id_byte (take 32 a)"
    using assms lower_hex_remote by (auto simp: is_lower_hex_64_def list_all_iff dest: in_set_takeD)
  moreover have "remote_id_byte CHR ''r'' \<and> remote_id_byte CHR ''3'' \<and> remote_id_byte CHR ''.''" by code_simp
  ultimately show ?thesis
    using domain_bounded [of d] assms
    by (simp add: operation_marker_hex validate_redacted_code_def is_lower_hex_64_def)
qed

text \<open>
  The marker of a derived operation is an acceptable redacted code for every domain and
  every conflict id, and markers agree only for the same domain and the same leading 128 bits
  of the id; the marker an intent carries therefore never confuses two kinds of operation.
\<close>

lemma operation_marker_separates:
  assumes "is_lower_hex_64 a" "is_lower_hex_64 b"
  shows "validate_redacted_code (operation_marker d a) = Inr ()
    \<and> (operation_marker d a = operation_marker e b \<longleftrightarrow> d = e \<and> take 32 a = take 32 b)"
proof -
  have "validate_redacted_code (operation_marker d a) = Inr ()" using operation_marker_valid [OF assms(1)] .
  moreover have "d = e \<and> take 32 a = take 32 b"
    if "operation_marker d a = operation_marker e b"
  proof -
    have "split_on CHR ''.'' (domain_as_str d @ ''.'' @ take 32 a) = split_on CHR ''.'' (domain_as_str e @ ''.'' @ take 32 b)"
      using that assms by (simp add: operation_marker_hex)
    then have "domain_as_str d = domain_as_str e"
      by (simp add: split_on_append_sep domain_no_dot)
    then show ?thesis
      using that assms domain_codes.spell_inject [of d e] by (simp add: operation_marker_hex)
  qed
  moreover have "operation_marker d a = operation_marker e b" if "d = e" "take 32 a = take 32 b"
    using that assms by (simp add: operation_marker_hex)
  ultimately show ?thesis by blast
qed

definition demo_cid :: string where
  "demo_cid = replicate 64 CHR ''a''"

lemma demo_cid_hex: "is_lower_hex_64 demo_cid"
  by code_simp

section \<open>Conflict-copy names\<close>

text \<open>The name tried for one prefix length.\<close>

definition candidate :: "libs \<Rightarrow> conflict_copy_name_request \<Rightarrow> string \<Rightarrow> string \<Rightarrow> nat \<Rightarrow> (string \<times> string) option" where
  "candidate L request stem extension n =
     (case build_candidate_path L (rq_destination_parent_path request) stem extension
        (conflict_suffix (rq_conflict_id request) n) of
        None \<Rightarrow> None
      | Some p \<Rightarrow> (case normalized_collision_key L (as_str p) of Inl _ \<Rightarrow> None | Inr key \<Rightarrow> Some (as_str p, key)))"

definition holders :: "conflict_copy_name_request \<Rightarrow> string \<Rightarrow> occupied_conflict_copy list" where
  "holders request key = filter (\<lambda>o'. oc_normalized_collision_key o' = key) (rq_occupied request)"

definition ours :: "conflict_copy_name_request \<Rightarrow> occupied_conflict_copy \<Rightarrow> bool" where
  "ours request o' = (oc_conflict_id o' = rq_conflict_id request \<and> oc_expected_content o' = rq_expected_content request)"

text \<open>A name is taken when its key is held by something other than this very copy.\<close>

definition taken :: "libs \<Rightarrow> conflict_copy_name_request \<Rightarrow> string \<Rightarrow> string \<Rightarrow> nat \<Rightarrow> bool" where
  "taken L request stem extension n =
     (\<exists>path key. candidate L request stem extension n = Some (path, key)
        \<and> (\<exists>o' \<in> set (holders request key). \<not> ours request o'))"

lemma string_pop_prefix: "string_pop s = Some t \<Longrightarrow> \<exists>r. s = t @ r"
proof -
  assume "string_pop s = Some t"
  then have "s \<noteq> []" and t: "t = concat (butlast (utf8_chars s))"
    by (auto simp: string_pop_def split: if_splits)
  then have "concat (butlast (utf8_chars s) @ [last (utf8_chars s)]) = s"
    using append_butlast_last_id [of "utf8_chars s"] utf8_chars_concat [of s] by simp
  then have "s = t @ last (utf8_chars s)" by (simp add: t)
  then show ?thesis by blast
qed

lemma build_candidate_path_Some:
  "build_candidate_path L parent stem extension suffix = Some p \<Longrightarrow>
   \<exists>kept rest. stem = kept @ rest \<and> as_str p = candidate_text parent kept extension suffix
     \<and> exact_vault_path L (as_str p) = Inr p"
proof (induction L parent stem extension suffix rule: build_candidate_path.induct)
  case (1 L parent stem extension suffix)
  show ?case
  proof (cases "exact_vault_path L (candidate_text parent stem extension suffix)")
    case (Inl u)
    then obtain shorter where shorter: "string_pop stem = Some shorter"
      "build_candidate_path L parent shorter extension suffix = Some p"
      using 1(2) by (auto simp: build_candidate_path.simps [of L parent stem] split: option.splits)
    then show ?thesis
      using 1(1) [OF Inl shorter] string_pop_prefix [OF shorter(1)] by (metis append.assoc)
  next
    case (Inr q)
    then have "p = q" using 1(2) by (simp add: build_candidate_path.simps [of L parent stem])
    then show ?thesis using Inr by (auto simp: exact_vault_path_Inr)
  qed
qed

lemma try_prefixes_Create:
  assumes "try_prefixes L request stem extension ns = Create name"
  shows "\<exists>before n after. ns = before @ n # after \<and> cn_id_prefix_length name = n
     \<and> candidate L request stem extension n = Some (cn_destination_path name, cn_normalized_collision_key name)
     \<and> holders request (cn_normalized_collision_key name) = [] \<and> cn_existing_object_id name = None
     \<and> (\<forall>m \<in> set before. taken L request stem extension m)"
  using assms
proof (induction ns)
  case (Cons n ns)
  obtain p where p: "build_candidate_path L (rq_destination_parent_path request) stem extension
      (conflict_suffix (rq_conflict_id request) n) = Some p"
    using Cons.prems by (auto split: option.splits)
  obtain key where key: "normalized_collision_key L (as_str p) = Inr key"
    using Cons.prems p by (auto split: sum.splits)
  have cand: "candidate L request stem extension n = Some (as_str p, key)"
    using p key by (simp add: candidate_def)
  show ?case
  proof (cases "holders request key = []")
    case True
    then have "name = \<lparr>cn_destination_path = as_str p, cn_normalized_collision_key = key,
         cn_id_prefix_length = n, cn_existing_object_id = None\<rparr>"
      using Cons.prems p key by (simp add: Let_def holders_def)
    then show ?thesis using cand True by (intro exI [of _ "[]"]) simp
  next
    case False
    then have more: "\<not> list_all (ours request) (holders request key)"
      "try_prefixes L request stem extension ns = Create name"
      using Cons.prems p key by (auto simp: Let_def holders_def ours_def list_all_iff split: if_splits)
    then have "taken L request stem extension n"
      using cand by (auto simp: taken_def list_all_iff)
    then show ?thesis
      using Cons.IH [OF more(2)] by (metis append_Cons set_ConsD)
  qed
qed simp

lemma candidateD:
  assumes "candidate L request stem extension n = Some (path, key)"
  shows "\<exists>p. build_candidate_path L (rq_destination_parent_path request) stem extension
      (conflict_suffix (rq_conflict_id request) n) = Some p \<and> as_str p = path
      \<and> normalized_collision_key L path = Inr key"
  using assms by (auto simp: candidate_def split: option.splits sum.splits)

lemma try_prefixes_skip:
  assumes "\<forall>m \<in> set before. taken L request stem extension m"
  shows "try_prefixes L request stem extension (before @ ns) = try_prefixes L request stem extension ns"
  using assms
proof (induction before)
  case (Cons m before)
  obtain path key o' where c: "candidate L request stem extension m = Some (path, key)"
    and o': "o' \<in> set (holders request key)" "\<not> ours request o'"
    using Cons.prems by (auto simp: taken_def)
  obtain p where "build_candidate_path L (rq_destination_parent_path request) stem extension
      (conflict_suffix (rq_conflict_id request) m) = Some p" "as_str p = path"
      "normalized_collision_key L path = Inr key"
    using candidateD [OF c] by blast
  moreover have "holders request key \<noteq> []" "\<not> list_all (ours request) (holders request key)"
    using o' by (auto simp: list_all_iff)
  ultimately have "try_prefixes L request stem extension ((m # before) @ ns) =
      try_prefixes L request stem extension (before @ ns)"
    by (simp add: Let_def holders_def ours_def [abs_def])
  then show ?case using Cons by simp
qed simp

lemma resolve_tries:
  assumes "resolve_conflict_copy_name L request = out" "\<And>f. out \<noteq> NameNeedsReconcile f"
  shows "rq_naming_version request = CONFLICT_NAMING_VERSION" "is_lower_hex_64 (rq_conflict_id request)"
    "valid_fingerprint (rq_expected_content request)" "length (rq_occupied request) \<le> 4096"
    "\<forall>o' \<in> set (rq_occupied request). occupied_valid L o'"
    "exact_vault_path L (rq_source_path request) = Inr (VaultPath (rq_source_path request))"
    "is_none_or (rq_destination_parent_path request) (\<lambda>p. is_ok (exact_vault_path L p))"
    "\<exists>stem extension. split_extension (last_piece CHR ''/'' (rq_source_path request)) = (stem, extension)
       \<and> try_prefixes L request stem extension PREFIX_LENGTHS = out"
  using assms
  by (auto simp: resolve_conflict_copy_name_def exact_vault_path_Inr list_ex_iff is_some_and_def is_none_or_def
      split: if_splits sum.splits prod.splits option.splits)

lemma normalized_collision_key_hex:
  assumes "sha256_total L" "normalized_collision_key L path = Inr key"
  shows "is_lower_hex_64 key"
proof -
  obtain stream where "key = hex_sha256 L stream" using assms(2) by (auto simp: normalized_collision_key_def)
  then show ?thesis using hex_sha256_shape [OF assms(1)] by (simp add: is_lower_hex_64_def)
qed

definition demo_request :: conflict_copy_name_request where
  "demo_request = \<lparr>rq_conflict_id = demo_cid, rq_source_path = ''notes/a.md'',
     rq_destination_parent_path = Some ''notes'',
     rq_expected_content = \<lparr>fp_sha256 = demo_cid, fp_byte_length = 5\<rparr>,
     rq_naming_version = CONFLICT_NAMING_VERSION, rq_occupied = []\<rparr>"

definition demo_name :: conflict_copy_name where
  "demo_name = \<lparr>cn_destination_path = ''notes/a (conflict aaaaaaaaaaaa).md'',
     cn_normalized_collision_key = projr (normalized_collision_key demo_libs ''notes/a (conflict aaaaaaaaaaaa).md''),
     cn_id_prefix_length = 12, cn_existing_object_id = None\<rparr>"

lemma demo_object_id: "is_remote_id ''file7''"
  by code_simp

lemma demo_resolve: "resolve_conflict_copy_name demo_libs demo_request = Create demo_name"
  by code_simp

text \<open>
  A conflict copy never lands on an occupied name. When the resolver answers \<open>Create\<close>, the
  destination is a canonical content path in the requested parent, built from the (possibly
  shortened) stem, the conflict suffix and the extension of the source; its collision key is held
  by no occupied entry; and every shorter id prefix was taken by something else.
\<close>

theorem conflict_copy_name_is_free:
  assumes "resolve_conflict_copy_name L request = Create name"
  shows "\<exists>stem extension kept rest.
    split_extension (last_piece CHR ''/'' (rq_source_path request)) = (stem, extension)
    \<and> stem = kept @ rest
    \<and> cn_destination_path name = candidate_text (rq_destination_parent_path request) kept extension
        (conflict_suffix (rq_conflict_id request) (cn_id_prefix_length name))
    \<and> is_exact_content_path L (cn_destination_path name)
    \<and> normalized_collision_key L (cn_destination_path name) = Inr (cn_normalized_collision_key name)
    \<and> cn_normalized_collision_key name \<notin> oc_normalized_collision_key ` set (rq_occupied request)
    \<and> cn_id_prefix_length name \<in> set PREFIX_LENGTHS
    \<and> (\<forall>m \<in> set PREFIX_LENGTHS. m < cn_id_prefix_length name \<longrightarrow> taken L request stem extension m)"
proof -
  obtain stem extension where split: "split_extension (last_piece CHR ''/'' (rq_source_path request)) = (stem, extension)"
    and tries: "try_prefixes L request stem extension PREFIX_LENGTHS = Create name"
    using resolve_tries(8) [OF assms] by auto
  obtain before n after where ns: "PREFIX_LENGTHS = before @ n # after" and n: "cn_id_prefix_length name = n"
    and cand: "candidate L request stem extension n = Some (cn_destination_path name, cn_normalized_collision_key name)"
    and free: "holders request (cn_normalized_collision_key name) = []"
    and taken: "\<forall>m \<in> set before. taken L request stem extension m"
    using try_prefixes_Create [OF tries] by blast
  have sorted: "sorted_wrt (<) (before @ n # after)"
    unfolding ns [symmetric] by code_simp
  have "m \<in> set before" if "m \<in> set PREFIX_LENGTHS" "m < n" for m
    using that sorted unfolding ns by (auto simp: sorted_wrt_append)
  moreover obtain p where p: "build_candidate_path L (rq_destination_parent_path request) stem extension
      (conflict_suffix (rq_conflict_id request) n) = Some p" "as_str p = cn_destination_path name"
      "normalized_collision_key L (cn_destination_path name) = Inr (cn_normalized_collision_key name)"
    using candidateD [OF cand] by blast
  moreover obtain kept rest where "stem = kept @ rest"
      "as_str p = candidate_text (rq_destination_parent_path request) kept extension
        (conflict_suffix (rq_conflict_id request) n)" "exact_vault_path L (as_str p) = Inr p"
    using build_candidate_path_Some [OF p(1)] by blast
  moreover have "n \<in> set PREFIX_LENGTHS" unfolding ns by simp
  ultimately show ?thesis
    using split free taken n
    by (intro exI [of _ stem] exI [of _ extension] exI [of _ kept] exI [of _ rest])
      (auto simp: is_exact_content_path_def holders_def filter_empty_conv)
qed

theorem conflict_copy_name_is_free_witness:
  "\<exists>kept. cn_destination_path demo_name = candidate_text (Some ''notes'') kept ''.md'' (conflict_suffix demo_cid 12)
     \<and> is_exact_content_path demo_libs (cn_destination_path demo_name)"
proof -
  have ext: "split_extension (last_piece CHR ''/'' (rq_source_path demo_request)) = (''a'', ''.md'')"
    by code_simp
  from conflict_copy_name_is_free [OF demo_resolve] show ?thesis
    unfolding ext by (auto simp: demo_request_def demo_name_def)
qed

lemma create_then_reuse:
  assumes total: "sha256_total L" and create: "resolve_conflict_copy_name L request = Create name"
    and obj: "is_remote_id object" and room: "length (rq_occupied request) < 4096"
  shows "resolve_conflict_copy_name L (request\<lparr>rq_occupied := rq_occupied request @
      [\<lparr>oc_normalized_collision_key = cn_normalized_collision_key name,
        oc_conflict_id = rq_conflict_id request, oc_expected_content = rq_expected_content request,
        oc_destination_path = cn_destination_path name, oc_object_id = object\<rparr>]\<rparr>)
    = Reuse (name\<lparr>cn_existing_object_id := Some object\<rparr>)"
    (is "resolve_conflict_copy_name L ?r = _")
proof -
  obtain stem extension where split: "split_extension (last_piece CHR ''/'' (rq_source_path request)) = (stem, extension)"
    and tries: "try_prefixes L request stem extension PREFIX_LENGTHS = Create name"
    using resolve_tries(8) [OF create] by auto
  obtain before n after where ns: "PREFIX_LENGTHS = before @ n # after" and n: "cn_id_prefix_length name = n"
    and cand: "candidate L request stem extension n = Some (cn_destination_path name, cn_normalized_collision_key name)"
    and free: "holders request (cn_normalized_collision_key name) = []" and none: "cn_existing_object_id name = None"
    and taken: "\<forall>m \<in> set before. taken L request stem extension m"
    using try_prefixes_Create [OF tries] by blast
  note req = resolve_tries(1-7) [OF create]
  obtain p where p: "build_candidate_path L (rq_destination_parent_path request) stem extension
      (conflict_suffix (rq_conflict_id request) n) = Some p" "as_str p = cn_destination_path name"
      "normalized_collision_key L (cn_destination_path name) = Inr (cn_normalized_collision_key name)"
    using candidateD [OF cand] by blast
  have "is_lower_hex_64 (cn_normalized_collision_key name)"
    using normalized_collision_key_hex [OF total p(3)] .
  then have valid: "\<forall>o' \<in> set (rq_occupied ?r). occupied_valid L o'"
    using req p(3) obj by (auto simp: occupied_valid_def)
  have "\<forall>m \<in> set before. taken L ?r stem extension m"
    using taken by (auto simp: taken_def candidate_def holders_def ours_def)
  then have "try_prefixes L ?r stem extension PREFIX_LENGTHS = try_prefixes L ?r stem extension (n # after)"
    unfolding ns by (rule try_prefixes_skip)
  also have "\<dots> = Reuse (name\<lparr>cn_existing_object_id := Some object\<rparr>)"
    using p n none free by (cases name) (simp add: Let_def holders_def)
  finally show ?thesis
    using req valid room split
    by (auto simp: resolve_conflict_copy_name_def list_ex_iff is_some_and_def is_none_or_def split: option.splits)
qed

text \<open>
  Replaying a resolution finds the copy it created. After the created name has been recorded
  as occupied by this conflict and this content, the same request resolves to \<open>Reuse\<close> of the same
  path and object, whatever else was occupied before.
\<close>

theorem conflict_copy_name_is_stable:
  assumes "sha256_total L" and "resolve_conflict_copy_name L request = Create name"
    and "is_remote_id object" and "length (rq_occupied request) < 4096"
  shows "resolve_conflict_copy_name L (request\<lparr>rq_occupied := rq_occupied request @
      [\<lparr>oc_normalized_collision_key = cn_normalized_collision_key name,
        oc_conflict_id = rq_conflict_id request, oc_expected_content = rq_expected_content request,
        oc_destination_path = cn_destination_path name, oc_object_id = object\<rparr>]\<rparr>)
    = Reuse (name\<lparr>cn_existing_object_id := Some object\<rparr>)"
  using create_then_reuse [OF assms] .

theorem conflict_copy_name_is_stable_witness:
  "resolve_conflict_copy_name demo_libs (demo_request\<lparr>rq_occupied := rq_occupied demo_request @
      [\<lparr>oc_normalized_collision_key = cn_normalized_collision_key demo_name,
        oc_conflict_id = rq_conflict_id demo_request, oc_expected_content = rq_expected_content demo_request,
        oc_destination_path = cn_destination_path demo_name, oc_object_id = ''file7''\<rparr>]\<rparr>)
    = Reuse (demo_name\<lparr>cn_existing_object_id := Some ''file7''\<rparr>)"
proof (rule conflict_copy_name_is_stable [OF demo_sha256_total demo_resolve demo_object_id])
  show "length (rq_occupied demo_request) < 4096" by (simp add: demo_request_def)
qed

lemma try_prefixes_Reuse:
  assumes "try_prefixes L request stem extension ns = Reuse name"
  shows "\<exists>o' \<in> set (rq_occupied request). ours request o'
     \<and> oc_normalized_collision_key o' = cn_normalized_collision_key name
     \<and> oc_destination_path o' = cn_destination_path name \<and> cn_existing_object_id name = Some (oc_object_id o')
     \<and> (\<forall>q \<in> set (holders request (cn_normalized_collision_key name)).
          ours request q \<and> oc_object_id q = oc_object_id o' \<and> oc_destination_path q = oc_destination_path o')"
  using assms
proof (induction ns)
  case (Cons n ns)
  obtain p where p: "build_candidate_path L (rq_destination_parent_path request) stem extension
      (conflict_suffix (rq_conflict_id request) n) = Some p"
    using Cons.prems by (auto split: option.splits)
  obtain key where key: "normalized_collision_key L (as_str p) = Inr key"
    using Cons.prems p by (auto split: sum.splits)
  show ?case
  proof (cases "holders request key \<noteq> [] \<and> list_all (ours request) (holders request key)")
    case True
    let ?h = "hd (holders request key)"
    have h: "?h \<in> set (holders request key)" using True by simp
    have name: "name = \<lparr>cn_destination_path = as_str p, cn_normalized_collision_key = key,
         cn_id_prefix_length = n, cn_existing_object_id = Some (oc_object_id ?h)\<rparr>"
      and same: "\<forall>q \<in> set (holders request key). oc_object_id q = oc_object_id ?h \<and> oc_destination_path q = as_str p"
      using Cons.prems p key True
      by (auto simp: Let_def holders_def ours_def [abs_def] list_ex_iff split: if_splits)
    have all: "\<forall>q \<in> set (holders request key). q \<in> set (rq_occupied request)
        \<and> oc_normalized_collision_key q = key \<and> ours request q"
      using True by (auto simp: list_all_iff) (simp_all add: holders_def)
    have "cn_normalized_collision_key name = key" "cn_destination_path name = as_str p"
      "cn_existing_object_id name = Some (oc_object_id ?h)"
      unfolding name by simp_all
    then show ?thesis using all h same by metis
  next
    case False
    then have "try_prefixes L request stem extension ns = Reuse name"
      using Cons.prems p key by (auto simp: Let_def holders_def ours_def [abs_def] split: if_splits)
    then show ?thesis by (rule Cons.IH)
  qed
qed simp

text \<open>
  an existing object is adopted only when it is provably the copy of this conflict: every
  occupied entry under the key carries this conflict id and this content, and all of them agree
  on the object and on the exact path.
\<close>

theorem conflict_copy_reuse_is_ours:
  assumes "resolve_conflict_copy_name L request = Reuse name"
  shows "\<exists>o' \<in> set (rq_occupied request).
     oc_conflict_id o' = rq_conflict_id request \<and> oc_expected_content o' = rq_expected_content request
     \<and> oc_normalized_collision_key o' = cn_normalized_collision_key name
     \<and> normalized_collision_key L (cn_destination_path name) = Inr (cn_normalized_collision_key name)
     \<and> oc_destination_path o' = cn_destination_path name \<and> cn_existing_object_id name = Some (oc_object_id o')
     \<and> (\<forall>q \<in> set (rq_occupied request). oc_normalized_collision_key q = cn_normalized_collision_key name \<longrightarrow>
          oc_conflict_id q = rq_conflict_id request \<and> oc_object_id q = oc_object_id o')"
proof -
  obtain stem extension where "try_prefixes L request stem extension PREFIX_LENGTHS = Reuse name"
    using resolve_tries(8) [OF assms] by auto
  from try_prefixes_Reuse [OF this] obtain h where h: "h \<in> set (rq_occupied request)" "ours request h"
    "oc_normalized_collision_key h = cn_normalized_collision_key name"
    "oc_destination_path h = cn_destination_path name" "cn_existing_object_id name = Some (oc_object_id h)"
    "\<forall>q \<in> set (holders request (cn_normalized_collision_key name)).
        ours request q \<and> oc_object_id q = oc_object_id h \<and> oc_destination_path q = oc_destination_path h"
    by blast
  have "normalized_collision_key L (cn_destination_path name) = Inr (cn_normalized_collision_key name)"
    using resolve_tries(5) [OF assms] h(1, 3, 4) by (auto simp: occupied_valid_def)
  moreover have "q \<in> set (holders request (cn_normalized_collision_key name)) \<longleftrightarrow>
      q \<in> set (rq_occupied request) \<and> oc_normalized_collision_key q = cn_normalized_collision_key name" for q
    by (simp add: holders_def)
  ultimately show ?thesis using h unfolding ours_def by blast
qed

theorem conflict_copy_reuse_is_ours_witness:
  "\<exists>o' \<in> {\<lparr>oc_normalized_collision_key = cn_normalized_collision_key demo_name,
        oc_conflict_id = rq_conflict_id demo_request, oc_expected_content = rq_expected_content demo_request,
        oc_destination_path = cn_destination_path demo_name, oc_object_id = ''file7''\<rparr>}.
     oc_conflict_id o' = demo_cid \<and> oc_object_id o' = ''file7''"
proof -
  have "resolve_conflict_copy_name demo_libs (demo_request\<lparr>rq_occupied := rq_occupied demo_request @
      [\<lparr>oc_normalized_collision_key = cn_normalized_collision_key demo_name,
        oc_conflict_id = rq_conflict_id demo_request, oc_expected_content = rq_expected_content demo_request,
        oc_destination_path = cn_destination_path demo_name, oc_object_id = ''file7''\<rparr>]\<rparr>)
    = Reuse (demo_name\<lparr>cn_existing_object_id := Some ''file7''\<rparr>)" (is "_ ?r = _")
    using create_then_reuse [OF demo_sha256_total demo_resolve demo_object_id] by (simp add: demo_request_def)
  from conflict_copy_reuse_is_ours [OF this] show ?thesis by (auto simp: demo_request_def)
qed

end
