(* ===== verification/Markdown_Merge.thy ===== *)
theory Markdown_Merge
  imports Encoding "HOL-Library.Product_Lexorder"
begin

text \<open>
  \<open>conflict/markdown.rs\<close>: the bounded three-way merge of Markdown. The diff is the crate
  \<open>similar\<close>, the field \<open>myers_ops\<close> of \<open>libs\<close>; the merge re-checks every edit script it gets from
  it by applying the script.
\<close>

section \<open>Definitions\<close>

definition MAX_MARKDOWN_VERSION_BYTES :: nat where "MAX_MARKDOWN_VERSION_BYTES = 4 * 1024 * 1024"
definition MAX_MARKDOWN_COMBINED_BYTES :: nat where "MAX_MARKDOWN_COMBINED_BYTES = 12 * 1024 * 1024"
definition MAX_MARKDOWN_LOGICAL_LINES :: nat where "MAX_MARKDOWN_LOGICAL_LINES = 100000"
definition MAX_MARKDOWN_DIFF_WORK :: nat where "MAX_MARKDOWN_DIFF_WORK = 100000000"

datatype markdown_version = BaseVersion | LocalVersion | RemoteVersion

datatype newline_style = NoNewline | Lf | CrLf

datatype markdown_merge_issue =
    EvidenceFingerprintMismatch
  | VersionTooLarge markdown_version
  | CombinedInputTooLarge
  | TooManyLogicalLines markdown_version
  | ByteOrderMark markdown_version
  | BareCarriageReturn markdown_version
  | MixedNewlines markdown_version
  | UnclosedFrontmatter markdown_version
  | DivergentFrontmatter
  | OverlappingEdits
  | DivergentNewlineStyle
  | DivergentFinalNewline
  | InvalidEditScript
  | DiffComplexityLimit

record merged_markdown =
  mm_content :: string
  mm_sha256 :: string
  mm_byte_length :: u64
  mm_newline_style :: newline_style
  mm_final_newline :: bool

datatype markdown_merge_outcome = Merged merged_markdown | PreserveBoth markdown_merge_issue

record parsed_markdown =
  pm_lines :: "string list"
  pm_newline_style :: newline_style
  pm_final_newline :: bool
  pm_frontmatter_end :: "nat option"

record edit =
  ed_start :: nat
  ed_end :: nat
  ed_replacement :: "string list"

text \<open>The \<open>while\<close> loop over the bytes: which line ends occur, or a bare carriage return.\<close>

fun scan_newlines :: "string \<Rightarrow> bool \<Rightarrow> bool \<Rightarrow> (bool \<times> bool) option" where
  "scan_newlines [] saw_lf saw_crlf = Some (saw_lf, saw_crlf)"
| "scan_newlines (b # bs) saw_lf saw_crlf =
     (if b = CHR 0x0D then
        (case bs of
           c # rest \<Rightarrow> if c = CHR 0x0A then scan_newlines rest saw_lf True else None
         | [] \<Rightarrow> None)
      else if b = CHR 0x0A then scan_newlines bs True saw_crlf
      else scan_newlines bs saw_lf saw_crlf)"

definition strip_cr :: "string \<Rightarrow> string" where
  "strip_cr line = (case strip_suffix_byte line CHR 0x0D of None \<Rightarrow> line | Some s \<Rightarrow> s)"

text \<open>\<open>iter().position(...)\<close>\<close>

fun position :: "('a \<Rightarrow> bool) \<Rightarrow> 'a list \<Rightarrow> nat option" where
  "position p [] = None"
| "position p (x # xs) = (if p x then Some 0 else map_option Suc (position p xs))"

definition frontmatter_end_of :: "string list \<Rightarrow> markdown_version \<Rightarrow> markdown_merge_issue + nat option" where
  "frontmatter_end_of lines version =
     (if lines \<noteq> [] \<and> hd lines = ''---'' then
        (case position (\<lambda>line. line = ''---'') (tl lines) of
           Some relative \<Rightarrow> Inr (Some (relative + 2))
         | None \<Rightarrow> Inl (UnclosedFrontmatter version))
      else Inr None)"

definition logical_lines :: "string \<Rightarrow> markdown_version \<Rightarrow> markdown_merge_issue + string list" where
  "logical_lines input version =
     (let lines = map strip_cr (split_on CHR 0x0A input) in
      if ends_with_byte input CHR 0x0A then
        (if last lines \<noteq> [] then Inl (BareCarriageReturn version) else Inr (butlast lines))
      else if input = [] then Inr []
      else Inr lines)"

definition parse_markdown :: "string \<Rightarrow> markdown_version \<Rightarrow> markdown_merge_issue + parsed_markdown" where
  "parse_markdown input version =
     (if length input > MAX_MARKDOWN_VERSION_BYTES then Inl (VersionTooLarge version)
      else if starts_with input [CHR 0xEF, CHR 0xBB, CHR 0xBF] then Inl (ByteOrderMark version)
      else case scan_newlines input False False of
        None \<Rightarrow> Inl (BareCarriageReturn version)
      | Some (saw_lf, saw_crlf) \<Rightarrow>
          if saw_lf \<and> saw_crlf then Inl (MixedNewlines version)
          else
          let style = (if saw_crlf then CrLf else if saw_lf then Lf else NoNewline);
              final_newline = ends_with_byte input CHR 0x0A in
          and_then (logical_lines input version) (\<lambda>lines.
          if length lines > MAX_MARKDOWN_LOGICAL_LINES then Inl (TooManyLogicalLines version)
          else and_then (frontmatter_end_of lines version) (\<lambda>frontmatter_end.
            Inr \<lparr>pm_lines = lines, pm_newline_style = style, pm_final_newline = final_newline,
                 pm_frontmatter_end = frontmatter_end\<rparr>)))"

definition frontmatter :: "parsed_markdown \<Rightarrow> string list option" where
  "frontmatter parsed = map_option (\<lambda>e. take e (pm_lines parsed)) (pm_frontmatter_end parsed)"

definition divergent_frontmatter :: "parsed_markdown \<Rightarrow> parsed_markdown \<Rightarrow> parsed_markdown \<Rightarrow> bool" where
  "divergent_frontmatter base local remote =
     (frontmatter local \<noteq> frontmatter base \<and> frontmatter remote \<noteq> frontmatter base)"

definition select_three_way :: "'a \<Rightarrow> 'a \<Rightarrow> 'a \<Rightarrow> 'a option" where
  "select_three_way base local remote =
     (if local = remote then Some local
      else if local = base then Some remote
      else if remote = base then Some local
      else None)"

text \<open>\<open>apply_edits\<close>, the loop with its cursor.\<close>

fun apply_from :: "string list \<Rightarrow> nat \<Rightarrow> edit list \<Rightarrow> string list option" where
  "apply_from base cursor [] = Some (drop cursor base)"
| "apply_from base cursor (e # es) =
     (if ed_start e < cursor \<or> ed_end e < ed_start e \<or> ed_end e > length base then None
      else map_option (\<lambda>rest. take (ed_start e - cursor) (drop cursor base) @ ed_replacement e @ rest)
             (apply_from base (ed_end e) es))"

definition apply_edits :: "string list \<Rightarrow> edit list \<Rightarrow> string list option" where
  "apply_edits base edits = apply_from base 0 edits"

definition slice :: "'a list \<Rightarrow> nat \<Rightarrow> nat \<Rightarrow> 'a list" where
  "slice xs from to = take (to - from) (drop from xs)"

text \<open>The loop of \<open>edits_from_myers\<close> with its pending edit.\<close>

fun collect_edits :: "string list \<Rightarrow> diff_op list \<Rightarrow> edit option \<Rightarrow> edit list" where
  "collect_edits changed [] pending = (case pending of None \<Rightarrow> [] | Some e \<Rightarrow> [e])"
| "collect_edits changed (op # ops) pending =
     (if op_tag op = Equal
      then (case pending of None \<Rightarrow> [] | Some e \<Rightarrow> [e]) @ collect_edits changed ops None
      else
        let e = (case pending of Some e \<Rightarrow> e
                 | None \<Rightarrow> \<lparr>ed_start = old_start op, ed_end = old_start op, ed_replacement = []\<rparr>) in
        collect_edits changed ops
          (Some (e\<lparr>ed_end := old_end op,
                   ed_replacement := ed_replacement e @ slice changed (new_start op) (new_end op)\<rparr>)))"

definition edits_from_myers :: "libs \<Rightarrow> string list \<Rightarrow> string list \<Rightarrow> markdown_merge_issue + edit list" where
  "edits_from_myers L base changed =
     (let edits = collect_edits changed (myers_ops L base changed) None in
      if apply_edits base edits \<noteq> Some changed then Inl InvalidEditScript else Inr edits)"

definition same_edit :: "edit \<Rightarrow> edit \<Rightarrow> bool" where
  "same_edit left right =
     (ed_start left = ed_start right \<and> ed_end left = ed_end right \<and> ed_replacement left = ed_replacement right)"

definition edits_overlap :: "edit \<Rightarrow> edit \<Rightarrow> bool" where
  "edits_overlap left right =
     (case (ed_start left = ed_end left, ed_start right = ed_end right) of
        (True, True) \<Rightarrow> ed_start left = ed_start right
      | (True, False) \<Rightarrow> ed_start right \<le> ed_start left \<and> ed_start left \<le> ed_end right
      | (False, True) \<Rightarrow> ed_start left \<le> ed_start right \<and> ed_start right \<le> ed_end left
      | (False, False) \<Rightarrow> max (ed_start left) (ed_start right) < min (ed_end left) (ed_end right))"

text \<open>The loop of \<open>combine_edits\<close> over the remote edits.\<close>

fun add_edits :: "edit list \<Rightarrow> edit list \<Rightarrow> markdown_merge_issue + edit list" where
  "add_edits combined [] = Inr combined"
| "add_edits combined (candidate # remote) =
     (if list_ex (\<lambda>e. same_edit e candidate) combined then add_edits combined remote
      else if list_ex (\<lambda>e. edits_overlap e candidate) combined then Inl OverlappingEdits
      else add_edits (combined @ [candidate]) remote)"

definition edit_key :: "edit \<Rightarrow> nat \<times> nat" where
  "edit_key e = (ed_start e, ed_end e)"

definition combine_edits :: "edit list \<Rightarrow> edit list \<Rightarrow> markdown_merge_issue + edit list" where
  "combine_edits local remote =
     and_then (add_edits local remote) (\<lambda>combined. Inr (sort_key edit_key combined))"

fun newline_separator :: "newline_style \<Rightarrow> string" where
  "newline_separator NoNewline = []"
| "newline_separator Lf = [CHR 0x0A]"
| "newline_separator CrLf = [CHR 0x0D, CHR 0x0A]"

definition render :: "string list \<Rightarrow> newline_style \<Rightarrow> bool \<Rightarrow> string option" where
  "render lines style final_newline =
     (if style = NoNewline \<and> (length lines > 1 \<or> final_newline) then None
      else Some (join_with (newline_separator style) lines
                 @ (if final_newline then newline_separator style else [])))"

definition checked_add :: "nat \<Rightarrow> nat \<Rightarrow> nat option" where
  "checked_add a b = (if a + b < usize_limit then Some (a + b) else None)"

definition saturating_mul :: "nat \<Rightarrow> nat \<Rightarrow> nat" where
  "saturating_mul a b = min (a * b) (usize_limit - 1)"

text \<open>The part of the merge after the three versions are parsed.\<close>

definition merge_parsed ::
    "libs \<Rightarrow> parsed_markdown \<Rightarrow> parsed_markdown \<Rightarrow> parsed_markdown \<Rightarrow> markdown_merge_outcome" where
  "merge_parsed L base local remote =
     (if saturating_mul (length (pm_lines base)) (max (length (pm_lines local)) (length (pm_lines remote)))
           > MAX_MARKDOWN_DIFF_WORK
      then PreserveBoth DiffComplexityLimit
      else if divergent_frontmatter base local remote then PreserveBoth DivergentFrontmatter
      else case select_three_way (pm_newline_style base) (pm_newline_style local) (pm_newline_style remote) of
        None \<Rightarrow> PreserveBoth DivergentNewlineStyle
      | Some style \<Rightarrow>
      (case select_three_way (pm_final_newline base) (pm_final_newline local) (pm_final_newline remote) of
        None \<Rightarrow> PreserveBoth DivergentFinalNewline
      | Some final_newline \<Rightarrow>
      (case edits_from_myers L (pm_lines base) (pm_lines local) of
        Inl _ \<Rightarrow> PreserveBoth InvalidEditScript
      | Inr local_edits \<Rightarrow>
      (case edits_from_myers L (pm_lines base) (pm_lines remote) of
        Inl _ \<Rightarrow> PreserveBoth InvalidEditScript
      | Inr remote_edits \<Rightarrow>
      (case combine_edits local_edits remote_edits of
        Inl issue \<Rightarrow> PreserveBoth issue
      | Inr edits \<Rightarrow>
      (case apply_edits (pm_lines base) edits of
        None \<Rightarrow> PreserveBoth InvalidEditScript
      | Some merged_lines \<Rightarrow>
      (case render merged_lines style final_newline of
        None \<Rightarrow> PreserveBoth InvalidEditScript
      | Some content \<Rightarrow>
          if length content < usize_limit
          then Merged \<lparr>mm_content = content, mm_sha256 = hex_sha256 L content,
                 mm_byte_length = of_nat (length content), mm_newline_style = style,
                 mm_final_newline = final_newline\<rparr>
          else PreserveBoth InvalidEditScript)))))))"

definition merge_markdown_three_way :: "libs \<Rightarrow> string \<Rightarrow> string \<Rightarrow> string \<Rightarrow> markdown_merge_outcome" where
  "merge_markdown_three_way L base local remote =
     (case Option.bind (checked_add (length base) (length local)) (\<lambda>n. checked_add n (length remote)) of
        None \<Rightarrow> PreserveBoth CombinedInputTooLarge
      | Some combined \<Rightarrow>
          if combined > MAX_MARKDOWN_COMBINED_BYTES then PreserveBoth CombinedInputTooLarge
          else
          (case parse_markdown base BaseVersion of Inl issue \<Rightarrow> PreserveBoth issue | Inr b \<Rightarrow>
          (case parse_markdown local LocalVersion of Inl issue \<Rightarrow> PreserveBoth issue | Inr l \<Rightarrow>
          (case parse_markdown remote RemoteVersion of Inl issue \<Rightarrow> PreserveBoth issue | Inr r \<Rightarrow>
             merge_parsed L b l r))))"

end
