(* ===== verification/Markdown_Properties.thy ===== *)
theory Markdown_Properties
  imports Markdown_Merge Concrete_Libs
begin

text \<open>
  Properties of the three-way merge: parsing loses nothing, edit scripts of the two sides combine
  and apply, the merge has the algebraic laws of a three-way merge.
\<close>

section \<open>Parsing and rendering\<close>

lemma strip_cr_Cons: "b \<noteq> CHR 0x0D \<or> p \<noteq> [] \<Longrightarrow> strip_cr (b # p) = b # strip_cr p"
  by (auto simp: strip_cr_def strip_suffix_byte_def ends_with_byte_def)

lemma strip_cr_CR [simp]: "strip_cr [CHR 0x0D] = []" "strip_cr [] = []"
  by (simp_all add: strip_cr_def strip_suffix_byte_def ends_with_byte_def)

lemma set_split_on: "p \<in> set (split_on c s) \<Longrightarrow> set p \<subseteq> set s"
  by (induction s arbitrary: p) (fastforce split: if_splits list.splits)+

lemma scan_newlines_flags:
  assumes "scan_newlines s lf crlf = Some (lf', crlf')"
  shows "(lf \<longrightarrow> lf') \<and> (crlf \<longrightarrow> crlf') \<and> (\<not> crlf' \<longrightarrow> CHR 0x0D \<notin> set s)
    \<and> (\<not> lf' \<and> \<not> crlf' \<longrightarrow> CHR 0x0A \<notin> set s)"
  using assms
  by (induction s lf crlf rule: scan_newlines.induct) (auto split: if_splits list.splits)

lemma scan_newlines_crlf:
  assumes "scan_newlines s lf crlf = Some (lf', crlf')" "\<not> lf'"
  shows "join_with [CHR 0x0D, CHR 0x0A] (map strip_cr (split_on CHR 0x0A s)) = s"
  using assms
proof (induction s lf crlf rule: scan_newlines.induct)
  case (2 b bs lf crlf)
  show ?case
  proof (cases "b = CHR 0x0D")
    case True
    then obtain rest where bs: "bs = CHR 0x0A # rest" and scan: "scan_newlines rest lf True = Some (lf', crlf')"
      using "2.prems"(1) by (auto split: list.splits if_splits)
    have "join_with [CHR 0x0D, CHR 0x0A] (map strip_cr (split_on CHR 0x0A rest)) = rest"
      using "2.IH"(1) [OF True bs refl scan "2.prems"(2)] .
    then show ?thesis by (simp add: True bs join_with_Cons)
  next
    case False
    then have lf: "b \<noteq> CHR 0x0A"
      using "2.prems" scan_newlines_flags [of bs True crlf lf' crlf'] by (auto split: if_splits)
    then have scan: "scan_newlines bs lf crlf = Some (lf', crlf')" using "2.prems"(1) False by simp
    have IH: "join_with [CHR 0x0D, CHR 0x0A] (map strip_cr (split_on CHR 0x0A bs)) = bs"
      using "2.IH"(3) [OF False lf scan "2.prems"(2)] .
    obtain p ps where ps: "split_on CHR 0x0A bs = p # ps" by (cases "split_on CHR 0x0A bs") auto
    have "split_on CHR 0x0A (b # bs) = (b # p) # ps" using lf ps by simp
    then show ?thesis using IH ps False by (cases ps) (simp_all add: strip_cr_Cons)
  qed
qed simp

lemma ends_with_split:
  assumes "ends_with_byte s c"
  shows "split_on c s \<noteq> [] \<and> last (split_on c s) = [] \<and> butlast (split_on c s) \<noteq> []"
proof -
  obtain t where s: "s = t @ [c]"
    using assms by (cases s rule: rev_cases) (auto simp: ends_with_byte_def)
  have "last (split_on c (t @ [c])) = [] \<and> butlast (split_on c (t @ [c])) \<noteq> []"
    by (induction t) (auto split: list.splits)
  then show ?thesis by (simp add: s)
qed

lemma join_final:
  assumes "xs \<noteq> []" "last xs = []" "butlast xs \<noteq> []"
  shows "join_with sep (butlast xs) @ sep = join_with sep xs"
proof -
  have "join_with sep (ys @ [[]]) = join_with sep ys @ sep" if "ys \<noteq> []" for ys
    using that
  proof (induction ys)
    case (Cons y ys)
    then show ?case by (cases ys) (simp_all add: join_with_Cons)
  qed simp
  from this [OF assms(3)] show ?thesis using append_butlast_last_id [OF assms(1)] assms(2) by simp
qed

lemma parse_render:
  assumes "parse_markdown s v = Inr p"
  shows "render (pm_lines p) (pm_newline_style p) (pm_final_newline p) = Some s"
proof -
  obtain lf crlf lines where scan: "scan_newlines s False False = Some (lf, crlf)" and one: "\<not> (lf \<and> crlf)"
    and lines: "logical_lines s v = Inr lines"
    and p: "pm_lines p = lines" "pm_newline_style p = (if crlf then CrLf else if lf then Lf else NoNewline)"
      "pm_final_newline p = ends_with_byte s CHR 0x0A"
    using assms by (auto simp: parse_markdown_def Let_def split: if_splits option.splits)
  let ?raw = "map strip_cr (split_on CHR 0x0A s)" and ?sep = "newline_separator (pm_newline_style p)"
  note flags = scan_newlines_flags [OF scan]
  have strip: "strip_cr line = line" if "CHR 0x0D \<notin> set line" for line
    using that by (cases line rule: rev_cases) (auto simp: strip_cr_def strip_suffix_byte_def ends_with_byte_def)
  have raw: "join_with ?sep ?raw = s" if "lf \<or> crlf"
  proof (cases crlf)
    case True
    then show ?thesis using scan_newlines_crlf [OF scan] one by (simp add: p)
  next
    case False
    have "CHR 0x0D \<notin> set line" if "line \<in> set (split_on CHR 0x0A s)" for line
      using that False flags set_split_on [of line "CHR 0x0A" s] by auto
    then have "?raw = split_on CHR 0x0A s" using strip by (intro map_idI) auto
    then show ?thesis using that False by (simp add: p join_split)
  qed
  show ?thesis
  proof (cases "ends_with_byte s CHR 0x0A")
    case True
    then have nl: "lf \<or> crlf"
      using flags by (cases s rule: rev_cases) (auto simp: ends_with_byte_def)
    have raws: "?raw \<noteq> []" "last ?raw = []" "butlast ?raw \<noteq> []"
      using ends_with_split [OF True] by (auto simp: last_map map_butlast [symmetric])
    have "lines = butlast ?raw" using lines True raws by (simp add: logical_lines_def Let_def)
    then show ?thesis using join_final [OF raws, of ?sep] raw [OF nl] True nl by (auto simp: render_def p)
  next
    case False
    show ?thesis
    proof (cases "lf \<or> crlf")
      case True
      then have "s \<noteq> []" using scan by auto
      then have "lines = ?raw" using lines False by (simp add: logical_lines_def Let_def)
      then show ?thesis using raw [OF True] False True by (auto simp: render_def p)
    next
      case none: False
      then have "CHR 0x0A \<notin> set s" "CHR 0x0D \<notin> set s" using flags by auto
      then have "lines = (if s = [] then [] else [s])"
        using lines False strip [of s] by (auto simp: logical_lines_def Let_def split_on_no_sep split: if_splits)
      then show ?thesis using none False by (simp add: render_def p)
    qed
  qed
qed

section \<open>Edit scripts\<close>

definition before :: "edit \<Rightarrow> edit \<Rightarrow> bool" where
  "before a b = (ed_end a \<le> ed_start b)"

definition in_range :: "nat \<Rightarrow> edit \<Rightarrow> bool" where
  "in_range n e = (ed_start e \<le> ed_end e \<and> ed_end e \<le> n)"

text \<open>A script applies exactly when its edits are in range and follow each other.\<close>

lemma apply_from_iff:
  "apply_from base c es \<noteq> None \<longleftrightarrow>
     (\<forall>e \<in> set es. c \<le> ed_start e \<and> in_range (length base) e) \<and> sorted_wrt before es"
proof (induction es arbitrary: c)
  case (Cons e es)
  have "(\<forall>x \<in> set es. ed_end e \<le> ed_start x \<and> in_range (length base) x) \<longleftrightarrow>
      (\<forall>x \<in> set es. before e x \<and> in_range (length base) x)"
    by (simp add: before_def)
  then show ?case
    using Cons.IH [of "ed_end e"]
    by (auto simp: in_range_def before_def) (meson le_trans not_less)
qed simp

lemma apply_edits_iff:
  "apply_edits base es \<noteq> None \<longleftrightarrow> (\<forall>e \<in> set es. in_range (length base) e) \<and> sorted_wrt before es"
  using apply_from_iff [of base 0 es] by (simp add: apply_edits_def)

lemma same_edit_iff: "same_edit a b \<longleftrightarrow> a = b"
  by (cases a; cases b) (auto simp: same_edit_def)

lemma edits_overlap_sym: "edits_overlap a b = edits_overlap b a"
  by (auto simp: edits_overlap_def max.commute min.commute split: bool.splits)










section \<open>The diff\<close>

text \<open>
  What \<open>similar\<close> documents of \<open>diff_slices\<close>: its operations cover both sequences in order without
  a gap, an \<open>Equal\<close> operation covers equal, non-empty stretches, and the diff of a sequence with
  itself has no other operation.
\<close>

fun tiles :: "'a list \<Rightarrow> 'a list \<Rightarrow> nat \<Rightarrow> nat \<Rightarrow> diff_op list \<Rightarrow> bool" where
  "tiles xs ys i j [] = (i = length xs \<and> j = length ys)"
| "tiles xs ys i j (op # ops) =
     (old_start op = i \<and> new_start op = j
      \<and> i \<le> old_end op \<and> old_end op \<le> length xs \<and> j \<le> new_end op \<and> new_end op \<le> length ys
      \<and> (op_tag op = Equal \<longrightarrow> i < old_end op \<and> slice xs i (old_end op) = slice ys j (new_end op))
      \<and> tiles xs ys (old_end op) (new_end op) ops)"

definition diff_contract :: "libs \<Rightarrow> bool" where
  "diff_contract L =
     ((\<forall>xs ys. tiles xs ys 0 0 (myers_ops L xs ys))
      \<and> (\<forall>xs. list_all (\<lambda>op. op_tag op = Equal) (myers_ops L xs xs)))"

lemma slice_drop: "i \<le> k \<Longrightarrow> k \<le> length ys \<Longrightarrow> slice ys i k @ drop k ys = drop i ys"
  by (simp add: slice_def) (metis append_take_drop_id drop_drop le_add_diff_inverse2)

lemma slice_slice: "c \<le> i \<Longrightarrow> i \<le> k \<Longrightarrow> slice xs c i @ slice xs i k = slice xs c k"
proof -
  assume "c \<le> i" "i \<le> k"
  then have "k - c = (i - c) + (k - i)" "drop i xs = drop (i - c) (drop c xs)" by simp_all
  then show ?thesis unfolding slice_def by (simp add: take_add)
qed

lemma collect_edits_apply:
  assumes "tiles xs ys i j ops" "i \<le> length xs" "j \<le> length ys"
  shows "c \<le> i \<Longrightarrow> apply_from xs c (collect_edits ys ops None) = Some (slice xs c i @ drop j ys)"
    and "c \<le> ed_start e \<Longrightarrow> ed_start e \<le> i \<Longrightarrow> ed_end e = i \<Longrightarrow>
      apply_from xs c (collect_edits ys ops (Some e)) = Some (slice xs c (ed_start e) @ ed_replacement e @ drop j ys)"
  using assms
proof (induction ops arbitrary: i j c e)
  case Nil
  {
    case 1
    then show ?case by (simp add: slice_def)
  next
    case 2
    then show ?case by (simp add: slice_def)
  }
next
  case (Cons op ops)
  let ?k = "old_end op" and ?l = "new_end op"
  have op: "old_start op = i" "new_start op = j" "i \<le> ?k" "?k \<le> length xs" "j \<le> ?l" "?l \<le> length ys"
    "tiles xs ys ?k ?l ops" "op_tag op = Equal \<Longrightarrow> slice xs i ?k = slice ys j ?l"
    if "tiles xs ys i j (op # ops)" for i j
    using that by auto
  {
    case 1
    note op = op [OF 1(2)]
    show ?case
    proof (cases "op_tag op = Equal")
      case True
      have "slice xs c ?k @ drop ?l ys = slice xs c i @ drop j ys"
        using slice_slice [OF 1(1) op(3), of xs, symmetric] slice_drop [OF op(5, 6)] op(8) [OF True] by simp
      then show ?thesis using Cons.IH(1) [of c ?k ?l] op 1(1) True by simp
    next
      case False
      then show ?thesis
        using Cons.IH(2) [of c "\<lparr>ed_start = i, ed_end = ?k, ed_replacement = slice ys j ?l\<rparr>" ?k ?l] op 1(1)
          slice_drop [OF op(5, 6)] by (simp add: Let_def)
    qed
  next
    case 2
    note op = op [OF 2(4)]
    show ?case
    proof (cases "op_tag op = Equal")
      case True
      have "slice xs i ?k @ drop ?l ys = drop j ys"
        using slice_drop [OF op(5, 6)] op(8) [OF True] by simp
      then show ?thesis
        using Cons.IH(1) [of i ?k ?l] op 2 True by (simp add: slice_def)
    next
      case False
      let ?e = "e\<lparr>ed_end := ?k, ed_replacement := ed_replacement e @ slice ys j ?l\<rparr>"
      show ?thesis
        using Cons.IH(2) [of c ?e ?k ?l] op 2 False slice_drop [OF op(5, 6)] by (simp add: Let_def)
    qed
  }
qed

lemma edits_from_myers_ok:
  assumes "diff_contract L"
  shows "edits_from_myers L xs ys = Inr (collect_edits ys (myers_ops L xs ys) None)"
proof -
  have "tiles xs ys 0 0 (myers_ops L xs ys)" using assms by (simp add: diff_contract_def)
  from collect_edits_apply(1) [OF this, of 0] show ?thesis
    by (simp add: edits_from_myers_def apply_edits_def slice_def)
qed

lemma collect_edits_equal: "list_all (\<lambda>op. op_tag op = Equal) ops \<Longrightarrow> collect_edits ys ops None = []"
  by (induction ops) auto

lemma edits_from_myers_same: "diff_contract L \<Longrightarrow> edits_from_myers L xs xs = Inr []"
  by (simp add: edits_from_myers_ok collect_edits_equal diff_contract_def)

lemma edits_from_myers_apply: "edits_from_myers L xs ys = Inr es \<Longrightarrow> apply_edits xs es = Some ys"
  by (auto simp: edits_from_myers_def Let_def split: if_splits)

section \<open>Symmetry\<close>

definition apart :: "edit \<Rightarrow> edit \<Rightarrow> bool" where
  "apart a b = (ed_end a < ed_start b)"

lemma collect_edits_apart:
  assumes "tiles xs ys i j ops"
  shows "(\<forall>x \<in> set (collect_edits ys ops None). i \<le> ed_start x) \<and> sorted_wrt apart (collect_edits ys ops None)"
    and "ed_end e = i \<Longrightarrow> \<exists>e' rest. collect_edits ys ops (Some e) = e' # rest \<and> ed_start e' = ed_start e
       \<and> i \<le> ed_end e' \<and> (\<forall>x \<in> set rest. i \<le> ed_start x) \<and> sorted_wrt apart (e' # rest)"
  using assms
proof (induction ops arbitrary: i j e)
  case (Cons op ops)
  let ?k = "old_end op" and ?l = "new_end op"
  {
    case 1
    then have op: "old_start op = i" "i \<le> ?k" "tiles xs ys ?k ?l ops" "op_tag op = Equal \<Longrightarrow> i < ?k" by auto
    show ?case
    proof (cases "op_tag op = Equal")
      case True
      then show ?thesis using Cons.IH(1) [OF op(3)] op(2) by auto
    next
      case False
      then show ?thesis
        using Cons.IH(2) [OF _ op(3), of "\<lparr>ed_start = i, ed_end = ?k, ed_replacement = slice ys (new_start op) ?l\<rparr>"]
          op(1, 2) by (fastforce simp: Let_def)
    qed
  next
    case 2
    then have op: "old_start op = i" "i \<le> ?k" "tiles xs ys ?k ?l ops" "op_tag op = Equal \<Longrightarrow> i < ?k" by auto
    show ?case
    proof (cases "op_tag op = Equal")
      case True
      then show ?thesis using Cons.IH(1) [OF op(3)] op(2, 4) 2(1) by (fastforce simp: apart_def)
    next
      case False
      then show ?thesis
        using Cons.IH(2) [OF _ op(3), of "e\<lparr>ed_end := ?k, ed_replacement := ed_replacement e @ slice ys (new_start op) ?l\<rparr>"]
          op(1, 2) by (fastforce simp: Let_def)
    qed
  }
qed auto

definition pairwise_disjoint :: "edit set \<Rightarrow> bool" where
  "pairwise_disjoint es = (\<forall>a \<in> es. \<forall>b \<in> es. a = b \<or> \<not> edits_overlap a b)"

lemma apart_disjoint:
  assumes "apart a b" "in_range n a" "in_range n b"
  shows "\<not> edits_overlap a b \<and> a \<noteq> b"
  using assms by (auto simp: apart_def in_range_def edits_overlap_def split: bool.splits)

lemma sorted_apart:
  assumes "sorted_wrt apart es" "\<forall>e \<in> set es. in_range n e"
  shows "distinct es \<and> pairwise_disjoint (set es)"
  using assms
proof (induction es)
  case (Cons e es)
  have "\<not> edits_overlap e x \<and> \<not> edits_overlap x e \<and> e \<noteq> x" if "x \<in> set es" for x
    using that Cons.prems apart_disjoint [of e x n] edits_overlap_sym by auto
  then show ?case using Cons by (auto simp: pairwise_disjoint_def)
qed (simp add: pairwise_disjoint_def)

lemma add_edits_success:
  assumes "add_edits combined re = Inr es" "pairwise_disjoint (set combined)"
  shows "pairwise_disjoint (set combined \<union> set re)"
  using assms
proof (induction combined re rule: add_edits.induct)
  case (2 combined c re)
  show ?case
  proof (cases "c \<in> set combined")
    case True
    then show ?thesis using 2 by (auto simp: list_ex_iff same_edit_iff insert_absorb)
  next
    case False
    then have no: "\<not> list_ex (\<lambda>e. same_edit e c) combined" by (auto simp: list_ex_iff same_edit_iff)
    then have free: "\<not> list_ex (\<lambda>e. edits_overlap e c) combined" and rest: "add_edits (combined @ [c]) re = Inr es"
      using "2.prems"(1) by (auto split: if_splits)
    have "pairwise_disjoint (set (combined @ [c]))"
      using "2.prems"(2) free edits_overlap_sym by (auto simp: pairwise_disjoint_def list_ex_iff)
    then show ?thesis using "2.IH"(2) [OF no free rest] by simp
  qed
qed simp

lemma add_edits_disjoint:
  assumes "pairwise_disjoint (set combined \<union> set re)" "distinct re"
  shows "add_edits combined re = Inr (combined @ filter (\<lambda>b. b \<notin> set combined) re)"
  using assms
proof (induction combined re rule: add_edits.induct)
  case (2 combined c re)
  show ?case
  proof (cases "c \<in> set combined")
    case True
    then show ?thesis using 2 by (auto simp: list_ex_iff same_edit_iff insert_absorb)
  next
    case False
    then have no: "\<not> list_ex (\<lambda>e. same_edit e c) combined" by (auto simp: list_ex_iff same_edit_iff)
    have free: "\<not> list_ex (\<lambda>e. edits_overlap e c) combined"
      using "2.prems"(1) False by (auto simp: pairwise_disjoint_def list_ex_iff)
    have "filter (\<lambda>b. b \<notin> set (combined @ [c])) re = filter (\<lambda>b. b \<notin> set combined) re"
      using "2.prems"(2) by (intro filter_cong) auto
    then show ?thesis using "2.IH"(2) [OF no free] "2.prems" False no free by simp
  qed
qed simp

lemma disjoint_keys:
  assumes "pairwise_disjoint es" "\<forall>e \<in> es. in_range n e"
  shows "inj_on edit_key es"
proof (rule inj_onI)
  fix a b assume ab: "a \<in> es" "b \<in> es" "edit_key a = edit_key b"
  then have "edits_overlap a b"
    using assms(2) by (auto simp: edit_key_def edits_overlap_def in_range_def split: bool.splits)
  then show "a = b" using assms(1) ab by (auto simp: pairwise_disjoint_def)
qed

lemma sort_key_set_unique:
  assumes "distinct xs" "distinct ys" "set xs = set ys" "inj_on f (set xs)"
  shows "sort_key f xs = sort_key f ys"
proof -
  have "distinct (map f (sort_key f xs))" "distinct (map f (sort_key f ys))"
    using assms by (simp_all add: distinct_map)
  then have "map f (sort_key f xs) = map f (sort_key f ys)"
    using assms by (intro sorted_distinct_set_unique) simp_all
  then show ?thesis using assms by (intro map_inj_on [of f]) simp_all
qed

lemma combine_edits_sym:
  assumes comb: "combine_edits le re = Inr es" and apart: "sorted_wrt apart le" "sorted_wrt apart re"
    and range: "\<forall>e \<in> set le \<union> set re. in_range n e"
  shows "combine_edits re le = Inr es"
proof -
  have l: "distinct le" "pairwise_disjoint (set le)" and r: "distinct re" "pairwise_disjoint (set re)"
    using sorted_apart [OF apart(1), of n] sorted_apart [OF apart(2), of n] range by auto
  obtain c where c: "add_edits le re = Inr c" "es = sort_key edit_key c" using comb by (auto simp: combine_edits_def)
  have dis: "pairwise_disjoint (set le \<union> set re)" using add_edits_success [OF c(1) l(2)] .
  have "add_edits le re = Inr (le @ filter (\<lambda>b. b \<notin> set le) re)" using add_edits_disjoint [OF dis r(1)] .
  moreover have "add_edits re le = Inr (re @ filter (\<lambda>b. b \<notin> set re) le)"
    using add_edits_disjoint [of re le] dis l(1) by (simp add: Un_commute)
  moreover have "sort_key edit_key (re @ filter (\<lambda>b. b \<notin> set re) le) = sort_key edit_key (le @ filter (\<lambda>b. b \<notin> set le) re)"
    using l r disjoint_keys [OF dis range] by (intro sort_key_set_unique) (auto intro: inj_on_subset)
  ultimately show ?thesis using c by (simp add: combine_edits_def)
qed

lemma myers_apart:
  assumes "diff_contract L" "edits_from_myers L xs ys = Inr es"
  shows "sorted_wrt apart es" "\<forall>e \<in> set es. in_range (length xs) e"
proof -
  have t: "tiles xs ys 0 0 (myers_ops L xs ys)" using assms(1) by (simp add: diff_contract_def)
  show "sorted_wrt apart es"
    using collect_edits_apart(1) [OF t] assms edits_from_myers_ok by auto
  have "apply_edits xs es \<noteq> None" using edits_from_myers_apply [OF assms(2)] by simp
  then show "\<forall>e \<in> set es. in_range (length xs) e" unfolding apply_edits_iff by blast
qed

section \<open>The merge as a whole\<close>

lemma merge_parsed_Merged:
  assumes "merge_parsed L b l r = Merged m"
  obtains style final le re es lines where
    "saturating_mul (length (pm_lines b)) (max (length (pm_lines l)) (length (pm_lines r))) \<le> MAX_MARKDOWN_DIFF_WORK"
    "\<not> divergent_frontmatter b l r"
    "select_three_way (pm_newline_style b) (pm_newline_style l) (pm_newline_style r) = Some style"
    "select_three_way (pm_final_newline b) (pm_final_newline l) (pm_final_newline r) = Some final"
    "edits_from_myers L (pm_lines b) (pm_lines l) = Inr le"
    "edits_from_myers L (pm_lines b) (pm_lines r) = Inr re"
    "combine_edits le re = Inr es"
    "apply_edits (pm_lines b) es = Some lines"
    "render lines style final = Some (mm_content m)"
    "length (mm_content m) < usize_limit"
    "m = \<lparr>mm_content = mm_content m, mm_sha256 = hex_sha256 L (mm_content m),
        mm_byte_length = of_nat (length (mm_content m)), mm_newline_style = style, mm_final_newline = final\<rparr>"
  using assms unfolding merge_parsed_def
  by (auto split: if_splits option.splits sum.splits)

lemma merge_Merged:
  assumes "merge_markdown_three_way L base local remote = Merged m"
  obtains b l r where "parse_markdown base BaseVersion = Inr b" "parse_markdown local LocalVersion = Inr l"
    "parse_markdown remote RemoteVersion = Inr r" "merge_parsed L b l r = Merged m"
  using assms unfolding merge_markdown_three_way_def
  by (auto split: if_splits option.splits sum.splits)

lemma parse_size: "parse_markdown s v = Inr p \<Longrightarrow> length s \<le> 4194304"
  by (auto simp: parse_markdown_def MAX_MARKDOWN_VERSION_BYTES_def split: if_splits)

lemma usize_limit_value: "usize_limit = 18446744073709551616"
  by (simp add: usize_limit_def)

text \<open>Three versions that parse fit the combined bound, so parsing decides.\<close>

lemma merge_parsed_versions:
  assumes "parse_markdown base BaseVersion = Inr b" "parse_markdown local LocalVersion = Inr l"
    "parse_markdown remote RemoteVersion = Inr r"
  shows "merge_markdown_three_way L base local remote = merge_parsed L b l r"
  using assms parse_size [OF assms(1)] parse_size [OF assms(2)] parse_size [OF assms(3)]
  by (simp add: merge_markdown_three_way_def checked_add_def usize_limit_value MAX_MARKDOWN_COMBINED_BYTES_def)

lemma logical_lines_version: "logical_lines s v = Inr x \<Longrightarrow> logical_lines s w = Inr x"
  by (auto simp: logical_lines_def Let_def ends_with_byte_def split: if_split_asm)

lemma frontmatter_end_version: "frontmatter_end_of x v = Inr e \<Longrightarrow> frontmatter_end_of x w = Inr e"
  by (simp add: frontmatter_end_of_def split: if_splits option.splits)

lemma parse_markdown_Inr:
  assumes "parse_markdown s v = Inr p"
  obtains lf crlf lines front where
    "length s \<le> MAX_MARKDOWN_VERSION_BYTES" "\<not> starts_with s [CHR 0xEF, CHR 0xBB, CHR 0xBF]"
    "scan_newlines s False False = Some (lf, crlf)" "\<not> (lf \<and> crlf)" "logical_lines s v = Inr lines"
    "length lines \<le> MAX_MARKDOWN_LOGICAL_LINES" "frontmatter_end_of lines v = Inr front"
    "p = \<lparr>pm_lines = lines, pm_newline_style = (if crlf then CrLf else if lf then Lf else NoNewline),
       pm_final_newline = ends_with_byte s CHR 0x0A, pm_frontmatter_end = front\<rparr>"
  using assms
  by (cases "scan_newlines s False False") (auto simp: parse_markdown_def Let_def split: if_split_asm)

lemma parse_other_version:
  assumes "parse_markdown s v = Inr p"
  shows "parse_markdown s w = Inr p"
proof (rule parse_markdown_Inr [OF assms])
  fix lf crlf lines front
  assume *: "length s \<le> MAX_MARKDOWN_VERSION_BYTES" "\<not> starts_with s [CHR 0xEF, CHR 0xBB, CHR 0xBF]"
    "scan_newlines s False False = Some (lf, crlf)" "\<not> (lf \<and> crlf)" "logical_lines s v = Inr lines"
    "length lines \<le> MAX_MARKDOWN_LOGICAL_LINES" "frontmatter_end_of lines v = Inr front"
    "p = \<lparr>pm_lines = lines, pm_newline_style = (if crlf then CrLf else if lf then Lf else NoNewline),
       pm_final_newline = ends_with_byte s CHR 0x0A, pm_frontmatter_end = front\<rparr>"
  show ?thesis
    unfolding parse_markdown_def
    using * logical_lines_version [OF *(5), of w] frontmatter_end_version [OF *(7), of w] by simp
qed

lemma select_three_way_sym: "select_three_way b l r = select_three_way b r l"
  by (auto simp: select_three_way_def)

lemma merge_parsed_sym:
  assumes L: "diff_contract L" and m: "merge_parsed L b l r = Merged m"
  shows "merge_parsed L b r l = Merged m"
proof (rule merge_parsed_Merged [OF m])
  fix style final le re es lines
  assume work: "saturating_mul (length (pm_lines b)) (max (length (pm_lines l)) (length (pm_lines r))) \<le> MAX_MARKDOWN_DIFF_WORK"
    and front: "\<not> divergent_frontmatter b l r"
    and style: "select_three_way (pm_newline_style b) (pm_newline_style l) (pm_newline_style r) = Some style"
    and final: "select_three_way (pm_final_newline b) (pm_final_newline l) (pm_final_newline r) = Some final"
    and le: "edits_from_myers L (pm_lines b) (pm_lines l) = Inr le"
    and re: "edits_from_myers L (pm_lines b) (pm_lines r) = Inr re"
    and es: "combine_edits le re = Inr es"
    and lines: "apply_edits (pm_lines b) es = Some lines"
    and content: "render lines style final = Some (mm_content m)" "length (mm_content m) < usize_limit"
    and rest: "m = \<lparr>mm_content = mm_content m, mm_sha256 = hex_sha256 L (mm_content m),
        mm_byte_length = of_nat (length (mm_content m)), mm_newline_style = style, mm_final_newline = final\<rparr>"
  have sym: "combine_edits re le = Inr es"
    using combine_edits_sym [OF es myers_apart(1) [OF L le] myers_apart(1) [OF L re], of "length (pm_lines b)"]
      myers_apart(2) [OF L le] myers_apart(2) [OF L re] by blast
  have "select_three_way (pm_newline_style b) (pm_newline_style r) (pm_newline_style l) = Some style"
    "select_three_way (pm_final_newline b) (pm_final_newline r) (pm_final_newline l) = Some final"
    "\<not> divergent_frontmatter b r l"
    using style final front by (auto simp: select_three_way_def divergent_frontmatter_def split: if_splits)
  then show ?thesis
    using work le re sym lines content rest [symmetric] by (simp add: merge_parsed_def max.commute)
qed

lemma sort_key_sorted: "sorted_wrt (\<lambda>a b. f a \<le> f b) xs \<Longrightarrow> sort_key f xs = xs"
proof (induction xs)
  case (Cons x xs)
  then show ?case by (cases xs) auto
qed simp

lemma sort_apart:
  assumes "sorted_wrt apart es" "\<forall>e \<in> set es. in_range n e"
  shows "sort_key edit_key es = es"
proof (rule sort_key_sorted, rule sorted_wrt_mono_rel [OF _ assms(1)])
  fix a b assume "a \<in> set es" "b \<in> set es" "apart a b"
  then show "edit_key a \<le> edit_key b"
    using assms(2) by (fastforce simp: apart_def in_range_def edit_key_def less_eq_prod_def)
qed

lemma add_edits_self: "set re \<subseteq> set combined \<Longrightarrow> add_edits combined re = Inr combined"
  by (induction combined re rule: add_edits.induct) (auto simp: list_ex_iff same_edit_iff)

lemma combine_edits_units:
  assumes apart: "sorted_wrt apart es" and range: "\<forall>e \<in> set es. in_range n e"
  shows "combine_edits es [] = Inr es" "combine_edits [] es = Inr es" "combine_edits es es = Inr es"
proof -
  have d: "distinct es" "pairwise_disjoint (set es)" using sorted_apart [OF apart range] by auto
  show "combine_edits es [] = Inr es" "combine_edits es es = Inr es"
    using sort_apart [OF assms] by (simp_all add: combine_edits_def add_edits_self)
  show "combine_edits [] es = Inr es"
    using add_edits_disjoint [of "[]" es] d sort_apart [OF assms] by (simp add: combine_edits_def)
qed

text \<open>Once both sides agree on what the merge must be, the merge is that version.\<close>

lemma merge_parsed_to:
  assumes L: "diff_contract L"
    and s: "parse_markdown s v = Inr p"
    and work: "saturating_mul (length (pm_lines b)) (max (length (pm_lines l)) (length (pm_lines r))) \<le> MAX_MARKDOWN_DIFF_WORK"
    and front: "\<not> divergent_frontmatter b l r"
    and sides: "(l = p \<and> r = b) \<or> (l = b \<and> r = p) \<or> (l = p \<and> r = p)"
  shows "merge_parsed L b l r = Merged \<lparr>mm_content = s, mm_sha256 = hex_sha256 L s,
    mm_byte_length = of_nat (length s), mm_newline_style = pm_newline_style p, mm_final_newline = pm_final_newline p\<rparr>"
proof -
  obtain es where es: "edits_from_myers L (pm_lines b) (pm_lines p) = Inr es"
    using edits_from_myers_ok [OF L] by blast
  note combine = combine_edits_units [OF myers_apart [OF L es]]
  have "length s < usize_limit" using parse_size [OF s] by (simp add: usize_limit_value)
  then show ?thesis
    using sides work front es edits_from_myers_same [OF L] combine edits_from_myers_apply [OF es] parse_render [OF s]
    by (auto simp: merge_parsed_def select_three_way_def)
qed

section \<open>A diff that keeps the contract\<close>

lemma common_prefix_props:
  "common_prefix xs ys \<le> length xs \<and> common_prefix xs ys \<le> length ys
    \<and> take (common_prefix xs ys) xs = take (common_prefix xs ys) ys"
  by (induction xs ys rule: common_prefix.induct) auto

lemma common_prefix_self [simp]: "common_prefix xs xs = length xs"
  by (induction xs) auto

lemma take_rev_drop:
  assumes "take q (rev xs) = take q (rev ys)"
  shows "drop (length xs - q) xs = drop (length ys - q) ys"
proof -
  have "rev (drop (length xs - q) xs) = rev (drop (length ys - q) ys)" using assms by (simp add: take_rev)
  then show ?thesis by simp
qed

lemma block_diff_tiles: "tiles xs ys 0 0 (block_diff xs ys)"
proof -
  define p where "p = common_prefix xs ys"
  define q where "q = common_prefix (rev (drop p xs)) (rev (drop p ys))"
  have p: "p \<le> length xs" "p \<le> length ys" "take p xs = take p ys"
    using common_prefix_props [of xs ys] by (simp_all add: p_def)
  have q: "q \<le> length xs - p" "q \<le> length ys - p" "take q (rev (drop p xs)) = take q (rev (drop p ys))"
    using common_prefix_props [of "rev (drop p xs)" "rev (drop p ys)"] by (simp_all add: q_def)
  have "drop (length xs - q) xs = drop (length ys - q) ys"
    using take_rev_drop [OF q(3)] p q by simp
  moreover have "slice zs k (length zs) = drop k zs" for zs :: "'a list" and k by (simp add: slice_def)
  ultimately have suffix: "slice xs (length xs - q) (length xs) = slice ys (length ys - q) (length ys)" by metis
  have prefix: "slice xs 0 p = slice ys 0 p" using p(3) by (simp add: slice_def)
  define m n where "m = length xs - q" and "n = length ys - q"
  have mn: "p \<le> m" "m \<le> length xs" "p \<le> n" "n \<le> length ys" "q = 0 \<Longrightarrow> m = length xs \<and> n = length ys"
    "q \<noteq> 0 \<Longrightarrow> m < length xs"
    using p q by (auto simp: m_def n_def)
  define tag where "tag = (if p < m then if p < n then Replace else Delete else Insert)"
  have tag: "tag \<noteq> Equal" by (simp add: tag_def)
  show ?thesis
    unfolding block_diff_def Let_def p_def [symmetric] q_def [symmetric] m_def [symmetric] n_def [symmetric]
      tag_def [symmetric]
    using mn tag prefix suffix [folded m_def n_def] p(1, 2)
    by (cases "p = 0"; cases "q = 0"; cases "m \<le> p \<and> n \<le> p") auto
qed

lemma demo_diff_contract: "diff_contract demo_libs"
proof -
  have "list_all (\<lambda>op. op_tag op = Equal) (block_diff xs xs)" for xs
    by (simp add: block_diff_def Let_def)
  then show ?thesis by (simp add: diff_contract_def demo_libs_def block_diff_tiles)
qed

section \<open>Properties\<close>


definition demo_base :: string where "demo_base = ''a'' @ [CHR 0x0A] @ ''b'' @ [CHR 0x0A] @ ''c'' @ [CHR 0x0A]"
definition demo_local :: string where "demo_local = ''x'' @ [CHR 0x0A] @ ''b'' @ [CHR 0x0A] @ ''c'' @ [CHR 0x0A]"
definition demo_remote :: string where "demo_remote = ''a'' @ [CHR 0x0A] @ ''b'' @ [CHR 0x0A] @ ''y'' @ [CHR 0x0A]"
definition demo_merged :: string where "demo_merged = ''x'' @ [CHR 0x0A] @ ''b'' @ [CHR 0x0A] @ ''y'' @ [CHR 0x0A]"

fun merged_content :: "markdown_merge_outcome \<Rightarrow> string option" where
  "merged_content (Merged m) = Some (mm_content m)"
| "merged_content (PreserveBoth _) = None"

lemma merged_content_Some: "merged_content x = Some c \<Longrightarrow> \<exists>m. x = Merged m \<and> mm_content m = c"
  by (cases x) auto

lemma demo_merge:
  "\<exists>m. merge_markdown_three_way demo_libs demo_base demo_local demo_remote = Merged m \<and> mm_content m = demo_merged"
  by (rule merged_content_Some) code_simp


text \<open>
  The merge does not depend on which device is called local: with a diff that keeps its
  contract, exchanging the two changed versions gives the same merged document, and a merge that is
  refused stays refused.
\<close>

theorem merge_is_symmetric:
  assumes "diff_contract L"
  shows "merge_markdown_three_way L base local remote = Merged m \<longleftrightarrow>
    merge_markdown_three_way L base remote local = Merged m"
proof -
  have "merge_markdown_three_way L base s' s = Merged m" if merged: "merge_markdown_three_way L base s s' = Merged m" for s s'
  proof (rule merge_Merged [OF merged])
    fix b l r
    assume parse: "parse_markdown base BaseVersion = Inr b" "parse_markdown s LocalVersion = Inr l"
      "parse_markdown s' RemoteVersion = Inr r" and m: "merge_parsed L b l r = Merged m"
    show ?thesis
      using merge_parsed_versions [OF parse(1) parse_other_version [OF parse(3)] parse_other_version [OF parse(2)]]
        merge_parsed_sym [OF assms m] by simp
  qed
  then show ?thesis by blast
qed

theorem merge_is_symmetric_witness:
  "diff_contract demo_libs \<and> (\<exists>m. mm_content m = demo_merged
    \<and> merge_markdown_three_way demo_libs demo_base demo_remote demo_local = Merged m)"
  using demo_diff_contract demo_merge
    merge_is_symmetric [OF demo_diff_contract, of demo_base demo_local demo_remote] by metis

text \<open>
  The merge takes a change that only one side made, and a change both sides made once. For
  versions that parse and stay within the work bound: a side that did not change the base gives way
  to the other, byte for byte; when both sides made the same change the result is that change,
  except where the change touches the frontmatter, which the merge always leaves to the user.
\<close>

theorem merge_takes_the_change:
  assumes L: "diff_contract L"
    and parse: "parse_markdown base BaseVersion = Inr b" "parse_markdown s LocalVersion = Inr p"
    and work: "length (pm_lines b) * max (length (pm_lines b)) (length (pm_lines p)) \<le> MAX_MARKDOWN_DIFF_WORK"
  shows "merged_content (merge_markdown_three_way L base s base) = Some s
    \<and> merged_content (merge_markdown_three_way L base base s) = Some s
    \<and> (frontmatter p = frontmatter b \<longrightarrow> merged_content (merge_markdown_three_way L base s s) = Some s)
    \<and> (frontmatter p \<noteq> frontmatter b \<longrightarrow>
         merge_markdown_three_way L base s s = PreserveBoth DivergentFrontmatter)"
proof -
  note other = parse_other_version [OF parse(1)] parse_other_version [OF parse(2)]
  have bound: "saturating_mul (length (pm_lines b)) n \<le> MAX_MARKDOWN_DIFF_WORK"
    if "n \<le> max (length (pm_lines b)) (length (pm_lines p))" for n
    unfolding saturating_mul_def by (rule min.coboundedI1 [OF le_trans [OF mult_le_mono2 [OF that] work]])
  have same: "\<not> divergent_frontmatter b p b" "\<not> divergent_frontmatter b b p"
    by (simp_all add: divergent_frontmatter_def)
  have "merged_content (merge_parsed L b p b) = Some s" "merged_content (merge_parsed L b b p) = Some s"
    using merge_parsed_to [OF L parse(2) bound same(1)] merge_parsed_to [OF L parse(2) bound same(2)] by simp_all
  moreover have "merged_content (merge_parsed L b p p) = Some s" if "frontmatter p = frontmatter b"
    using that merge_parsed_to [OF L parse(2) bound, of p p] by (simp add: divergent_frontmatter_def)
  moreover have "merge_parsed L b p p = PreserveBoth DivergentFrontmatter" if "frontmatter p \<noteq> frontmatter b"
    using that bound [of "length (pm_lines p)"] by (simp add: merge_parsed_def divergent_frontmatter_def)
  ultimately show ?thesis
    using merge_parsed_versions [OF parse(1)] other parse by auto
qed

lemma demo_parse:
  "parse_markdown demo_base BaseVersion = Inr \<lparr>pm_lines = [''a'', ''b'', ''c''], pm_newline_style = Lf,
     pm_final_newline = True, pm_frontmatter_end = None\<rparr>"
  "parse_markdown demo_local LocalVersion = Inr \<lparr>pm_lines = [''x'', ''b'', ''c''], pm_newline_style = Lf,
     pm_final_newline = True, pm_frontmatter_end = None\<rparr>"
  by code_simp+

theorem merge_takes_the_change_witness:
  "merged_content (merge_markdown_three_way demo_libs demo_base demo_local demo_base) = Some demo_local
    \<and> merged_content (merge_markdown_three_way demo_libs demo_base demo_local demo_local) = Some demo_local"
  using merge_takes_the_change [OF demo_diff_contract demo_parse]
  by (simp add: MAX_MARKDOWN_DIFF_WORK_def frontmatter_def)

text \<open>
  C39: parsing a version loses nothing: rendering the parsed lines with the detected newline style
  and final newline gives the input back byte for byte, and the same input parses the same way in
  each of the three roles.
\<close>

theorem parse_then_render:
  assumes "parse_markdown s v = Inr p"
  shows "render (pm_lines p) (pm_newline_style p) (pm_final_newline p) = Some s \<and> parse_markdown s w = Inr p"
  using parse_render [OF assms] parse_other_version [OF assms] by blast

theorem parse_then_render_witness: "render [''a'', ''b'', ''c''] Lf True = Some demo_base"
  using parse_then_render [OF demo_parse(1)] by simp

text \<open>
  When one side deletes the first of two lines and the other the second, the merge deletes both
  and writes a lone line end: a document of one empty line, which neither side contains and which
  is not a rendering the parser gives back as no lines.
\<close>

lemma merge_of_disjoint_deletions_leaves_a_line:
  assumes first: "myers_ops L [''a'', ''b''] [''b''] =
      [\<lparr>op_tag = Delete, old_start = 0, old_end = 1, new_start = 0, new_end = 0\<rparr>,
       \<lparr>op_tag = Equal, old_start = 1, old_end = 2, new_start = 0, new_end = 1\<rparr>]"
    and second: "myers_ops L [''a'', ''b''] [''a''] =
      [\<lparr>op_tag = Equal, old_start = 0, old_end = 1, new_start = 0, new_end = 1\<rparr>,
       \<lparr>op_tag = Delete, old_start = 1, old_end = 2, new_start = 1, new_end = 1\<rparr>]"
  shows "merged_content (merge_markdown_three_way L (''a'' @ [CHR 0x0A] @ ''b'' @ [CHR 0x0A])
      (''b'' @ [CHR 0x0A]) (''a'' @ [CHR 0x0A])) = Some [CHR 0x0A]
    \<and> render [] Lf True = Some [CHR 0x0A]
    \<and> parse_markdown [CHR 0x0A] BaseVersion = Inr \<lparr>pm_lines = [[]], pm_newline_style = Lf,
        pm_final_newline = True, pm_frontmatter_end = None\<rparr>"
proof -
  have parse: "parse_markdown (''a'' @ [CHR 0x0A] @ ''b'' @ [CHR 0x0A]) BaseVersion =
      Inr \<lparr>pm_lines = [''a'', ''b''], pm_newline_style = Lf, pm_final_newline = True, pm_frontmatter_end = None\<rparr>"
    "parse_markdown (''b'' @ [CHR 0x0A]) LocalVersion =
      Inr \<lparr>pm_lines = [''b''], pm_newline_style = Lf, pm_final_newline = True, pm_frontmatter_end = None\<rparr>"
    "parse_markdown (''a'' @ [CHR 0x0A]) RemoteVersion =
      Inr \<lparr>pm_lines = [''a''], pm_newline_style = Lf, pm_final_newline = True, pm_frontmatter_end = None\<rparr>"
    by code_simp+
  have edits: "edits_from_myers L [''a'', ''b''] [''b''] = Inr [\<lparr>ed_start = 0, ed_end = 1, ed_replacement = []\<rparr>]"
    "edits_from_myers L [''a'', ''b''] [''a''] = Inr [\<lparr>ed_start = 1, ed_end = 2, ed_replacement = []\<rparr>]"
    unfolding edits_from_myers_def first second by code_simp+
  have "combine_edits [\<lparr>ed_start = 0, ed_end = 1, ed_replacement = []\<rparr>] [\<lparr>ed_start = 1, ed_end = 2, ed_replacement = []\<rparr>] =
      Inr [\<lparr>ed_start = 0, ed_end = 1, ed_replacement = []\<rparr>, \<lparr>ed_start = 1, ed_end = 2, ed_replacement = []\<rparr>]"
    "apply_edits [''a'', ''b''] [\<lparr>ed_start = 0, ed_end = 1, ed_replacement = []\<rparr>, \<lparr>ed_start = 1, ed_end = 2, ed_replacement = []\<rparr>] = Some []"
    "render [] Lf True = Some [CHR 0x0A]"
    "parse_markdown [CHR 0x0A] BaseVersion = Inr \<lparr>pm_lines = [[]], pm_newline_style = Lf,
        pm_final_newline = True, pm_frontmatter_end = None\<rparr>"
    by code_simp+
  then show ?thesis
    unfolding merge_parsed_versions [OF parse]
    by (simp add: merge_parsed_def edits divergent_frontmatter_def frontmatter_def select_three_way_def
        saturating_mul_def MAX_MARKDOWN_DIFF_WORK_def usize_limit_value)
qed

end
