(* ===== verification/Path_Properties.thy ===== *)
theory Path_Properties
  imports Identity_Properties
begin

text \<open>
  Properties of \<open>VaultPath\<close> and of the two path validators built on it, \<open>validate_content_path\<close> of
  the durable records and \<open>exact_vault_path\<close> of the conflict engine.
\<close>

text \<open>
  C40: what \<open>from_portable\<close> accepts is canonical and is a fixed point. The stored path is relative,
  has no empty, \<open>.\<close> or \<open>..\<close> component and no backslash, respects the length limits, and parsing
  the stored text again gives the same path.
\<close>

theorem portable_path_is_canonical:
  assumes "from_portable s = Inr p"
  shows "from_portable (as_str p) = Inr p
    \<and> (\<forall>c \<in> set (split_on CHR ''/'' (as_str p)). c \<noteq> [] \<and> c \<noteq> ''.'' \<and> c \<noteq> ''..'' \<and> is_portable_component c)
    \<and> \<not> starts_with (as_str p) ''/'' \<and> CHR 0x5C \<notin> set (as_str p)
    \<and> length (as_str p) \<le> 4096 \<and> utf16_len (as_str p) \<le> 4096"
  using from_portable_canonicalises [OF assms] from_portable_canonical [of "as_str p"] canonical_head [of "as_str p"]
  by (auto simp: canonical_path_def canonical_component_def list_all_iff path_limits)

theorem portable_path_is_canonical_witness:
  "from_portable ''notes//./a.md'' = Inr (VaultPath ''notes/a.md'') \<and> from_portable ''notes/a.md'' = Inr (VaultPath ''notes/a.md'')"
proof -
  have p: "from_portable ''notes//./a.md'' = Inr (VaultPath ''notes/a.md'')" by code_simp
  show ?thesis using p portable_path_is_canonical [OF p] by simp
qed

text \<open>
  on a Unix host the native constructor and the portable constructor are the same function on
  every well-formed string, errors included.
\<close>

theorem native_path_equals_portable:
  assumes "valid_utf8 s"
  shows "from_native s = from_portable s"
  using assms by (rule from_native_portable)

theorem native_path_equals_portable_witness:
  "from_native ''notes/../a.md'' = Inl (InvalidRelativePath ''notes/../a.md'')"
proof -
  have v: "valid_utf8 ''notes/../a.md''" by code_simp
  have "from_portable ''notes/../a.md'' = Inl (InvalidRelativePath ''notes/../a.md'')" by code_simp
  then show ?thesis using native_path_equals_portable [OF v] by simp
qed

lemma content_path_exact:
  assumes "validate_content_path L s = Inr ()"
  shows "is_exact_content_path L s"
proof -
  note v = assms [unfolded validate_content_path_Inr]
  let ?c = "component_collision_key L (hd (split_on CHR ''/'' s))"
  have "?c \<noteq> ''.trash''"
  proof
    assume c: "?c = ''.trash''"
    then have "hd (split_on CHR ''/'' (collision_key L (VaultPath s))) = ?c"
      by (intro hd_split_collision_key) simp
    then show False using v c by simp
  qed
  moreover have "?c \<noteq> ''.obsidian''"
    using v by (auto simp: classify_def classify_component_def Let_def split: if_splits)
  ultimately show ?thesis using v by (simp add: is_exact_content_path_iff component_collision_key_def)
qed

lemma exact_path_content:
  assumes sep: "CHR ''/'' \<notin> set (nfkc_casefold_nfkc L (hd (split_on CHR ''/'' s)))" and ex: "is_exact_content_path L s"
  shows "validate_content_path L s = Inr ()"
proof -
  have "hd (split_on CHR ''/'' (collision_key L (VaultPath s))) = component_collision_key L (hd (split_on CHR ''/'' s))"
    using sep by (intro hd_split_collision_key) (simp add: component_collision_key_def)
  then show ?thesis
    using ex
    by (auto simp: validate_content_path_Inr is_exact_content_path_iff classify_def classify_component_def
        component_collision_key_def Let_def)
qed

text \<open>
  The two path policies agree. Every path the durable records accept is accepted by the
  conflict engine, and the converse holds for every path whose folded first component has no
  separator in it.
\<close>

theorem path_policies_agree:
  "(validate_content_path L s = Inr () \<longrightarrow> is_exact_content_path L s)
   \<and> (CHR ''/'' \<notin> set (nfkc_casefold_nfkc L (hd (split_on CHR ''/'' s))) \<longrightarrow>
       (validate_content_path L s = Inr () \<longleftrightarrow> is_exact_content_path L s))"
  using content_path_exact exact_path_content by blast

theorem path_policies_agree_witness: "is_exact_content_path demo_libs ''notes/a.md''"
proof -
  have "validate_content_path demo_libs ''notes/a.md'' = Inr ()" by code_simp
  then show ?thesis using path_policies_agree [of demo_libs "''notes/a.md''"] by blast
qed

text \<open>
  A fold that introduces a separator, as NFKC does for the full-width solidus, tells them apart.
\<close>

fun fold_solidus :: "string \<Rightarrow> string" where
  "fold_solidus [] = []"
| "fold_solidus (c # s) =
     (if c = CHR 0xEF \<and> take 2 s = [CHR 0xBC, CHR 0x8F] then CHR ''/'' # fold_solidus (drop 2 s)
      else c # fold_solidus s)"

definition solidus_path :: string where
  "solidus_path = ''.trash'' @ [CHR 0xEF, CHR 0xBC, CHR 0x8F] @ ''x''"

definition solidus_libs :: libs where
  "solidus_libs = demo_libs\<lparr>nfkc_casefold_nfkc := fold_solidus\<rparr>"

text \<open>
  The two path policies differ. With a fold that turns the full-width solidus into a separator
  the conflict engine accepts a path below a folded \<open>.trash\<close> folder that the durable records refuse.
\<close>

lemma path_policies_differ_on_folded_separator:
  "is_exact_content_path solidus_libs solidus_path
   \<and> validate_content_path solidus_libs solidus_path = Inl InvalidPortablePath"
  by code_simp

end
