(* ===== verification/Conflict_Classifier.thy ===== *)
theory Conflict_Classifier
  imports Conflict_Identity Mutation_Records Markdown_Merge
begin

text \<open>
  \<open>conflict/classifier.rs\<close>: the evidence a classification rests on, the replay proofs read from
  the durable records, the validation of an input and the conflict matrix itself. A Rust type whose
  fields are private is a record here; the operations below are the only ones the source has to
  build such a value. Variants whose names two Rust types share carry a prefix.
\<close>

section \<open>Assessments\<close>

datatype guarded_local_capability = CapabilityAvailable | CapabilityUnavailable | CapabilityUnknown

definition is_available :: "guarded_local_capability \<Rightarrow> bool" where
  "is_available c = (c = CapabilityAvailable)"

datatype deleted_final_state_proof = DeletedVerified | DeletedNotVerified

datatype local_rename_guard = ExactIdentityLineageAndNoCollision | NotProven

datatype boundary_assessment =
    Approved
  | ProtectedPath
  | UnsupportedObjectOrTopology
  | MalformedObjectMetadata
  | AccountRootOrAllowlistMismatch
  | AllowlistedIdentityLineageRevisionOrBaseMismatch

datatype verified_not_applied_retry =
    RetryGuardedLocalReplace
  | RetryGuardedConflictCopy
  | RetryRemoteExistingMutationBlocked
  | RetryPreconditionsChangedOrCapabilityUnavailable

datatype replay_disposition =
    DispVerifiedAppliedExactPostState
  | DispVerifiedNotApplied
  | DispSideEffectOutcomeUnknown
  | DispQueuedIntentCapturedBaseChanged

record replay_proof =
  rp_operation_id :: uuid
  rp_state_version :: u64
  rp_outcome_fingerprint :: string
  rp_disposition :: replay_disposition
  rp_operation_kind :: mutation_operation_kind
  rp_intent_fingerprint :: string
  rp_account_id :: "string option"
  rp_remote_root_id :: "string option"
  rp_object_identity :: "string option"
  rp_identity_path :: "string option"
  rp_target_parent_id :: "string option"
  rp_base_sha256 :: "string option"
  rp_base_byte_length :: "u64 option"
  rp_expected_local_content :: "content_fingerprint option"
  rp_expected_remote_content :: "content_fingerprint option"
  rp_local_revision :: "string option"
  rp_remote_revision :: "string option"

datatype replay_assessment =
    Fresh
  | VerifiedAppliedExactPostState replay_proof
  | ReplayVerifiedNotApplied replay_proof verified_not_applied_retry
  | SideEffectOutcomeUnknown replay_proof
  | QueuedIntentCapturedBaseChanged replay_proof

datatype replay_proof_failure =
    InvalidIntent | InconsistentDurableOutcome | UnsupportedDisposition | BaseDidNotChange

section \<open>Evidence\<close>

record guarded_metadata_target_evidence =
  gt_portable_path :: string
  gt_parent_id :: string
  gt_object_id :: "string option"
  gt_normalized_collision_key :: string
  gt_occupied_collision_keys :: "string list"

record classification_evidence_facts =
  cf_account_id :: "string option"
  cf_remote_root_id :: "string option"
  cf_object_identity :: "string option"
  cf_canonical_identity_path :: "string option"
  cf_target_parent_id :: "string option"
  cf_base :: "content_fingerprint option"
  cf_local :: "content_fingerprint option"
  cf_remote :: "content_fingerprint option"
  cf_local_revision :: "string option"
  cf_remote_revision :: "string option"
  cf_durable_state_version :: u64
  cf_prior_operation_id :: "uuid option"
  cf_prior_outcome_fingerprint :: "string option"
  cf_prior_intent_fingerprint :: "string option"
  cf_prior_replay_disposition :: "replay_disposition option"
  cf_guarded_metadata_target :: "guarded_metadata_target_evidence option"

record verified_semantic_target =
  vt_account_id :: string
  vt_remote_root_id :: string
  vt_object_identity :: string
  vt_durable_state_version :: u64
  vt_target :: string

record classification_evidence =
  cv_facts :: classification_evidence_facts
  cv_verified_markdown_merge :: "content_fingerprint option"
  cv_verified_deleted_final_state :: bool
  cv_verified_same_rename :: "verified_semantic_target option"
  cv_verified_same_move :: "verified_semantic_target option"

datatype classification_proof_failure = EvidenceMismatch

definition classification_evidence_new :: "classification_evidence_facts \<Rightarrow> classification_evidence" where
  "classification_evidence_new facts =
     \<lparr>cv_facts = facts, cv_verified_markdown_merge = None, cv_verified_deleted_final_state = False,
      cv_verified_same_rename = None, cv_verified_same_move = None\<rparr>"

definition fingerprint_bytes :: "libs \<Rightarrow> string \<Rightarrow> content_fingerprint" where
  "fingerprint_bytes L bytes = \<lparr>fp_sha256 = hex_sha256 L bytes, fp_byte_length = of_nat (length bytes)\<rparr>"

definition verify_markdown_merge ::
    "libs \<Rightarrow> classification_evidence \<Rightarrow> string \<Rightarrow> string \<Rightarrow> string \<Rightarrow> markdown_merge_issue + classification_evidence" where
  "verify_markdown_merge L self base local remote =
     (if cf_base (cv_facts self) \<noteq> Some (fingerprint_bytes L base)
         \<or> cf_local (cv_facts self) \<noteq> Some (fingerprint_bytes L local)
         \<or> cf_remote (cv_facts self) \<noteq> Some (fingerprint_bytes L remote)
      then Inl EvidenceFingerprintMismatch
      else case merge_markdown_three_way L base local remote of
        Merged merged \<Rightarrow>
          Inr (self\<lparr>cv_verified_markdown_merge :=
            Some \<lparr>fp_sha256 = mm_sha256 merged, fp_byte_length = mm_byte_length merged\<rparr>\<rparr>)
      | PreserveBoth issue \<Rightarrow> Inl issue)"

text \<open>The identity test the three semantic proofs share.\<close>

definition identity_matches ::
    "classification_evidence_facts \<Rightarrow> string \<Rightarrow> string \<Rightarrow> string \<Rightarrow> u64 \<Rightarrow> bool" where
  "identity_matches facts account_id remote_root_id object_identity durable_state_version =
     (cf_account_id facts = Some account_id \<and> cf_remote_root_id facts = Some remote_root_id
      \<and> cf_object_identity facts = Some object_identity
      \<and> cf_durable_state_version facts = durable_state_version)"

definition verify_deleted_final_state ::
    "classification_evidence \<Rightarrow> string \<Rightarrow> string \<Rightarrow> string \<Rightarrow> u64 \<Rightarrow> bool \<Rightarrow> bool
      \<Rightarrow> classification_proof_failure + classification_evidence" where
  "verify_deleted_final_state self account_id remote_root_id object_identity version local_deleted remote_deleted =
     (if \<not> identity_matches (cv_facts self) account_id remote_root_id object_identity version
         \<or> \<not> local_deleted \<or> \<not> remote_deleted
      then Inl EvidenceMismatch
      else Inr (self\<lparr>cv_verified_deleted_final_state := True\<rparr>))"

definition verify_same_rename ::
    "libs \<Rightarrow> classification_evidence \<Rightarrow> string \<Rightarrow> string \<Rightarrow> string \<Rightarrow> u64 \<Rightarrow> string \<Rightarrow> string
      \<Rightarrow> classification_proof_failure + classification_evidence" where
  "verify_same_rename L self account_id remote_root_id object_identity version local_path remote_path =
     (if \<not> identity_matches (cv_facts self) account_id remote_root_id object_identity version
         \<or> local_path \<noteq> remote_path \<or> \<not> is_exact_content_path L local_path
      then Inl EvidenceMismatch
      else Inr (self\<lparr>cv_verified_same_rename := Some
        \<lparr>vt_account_id = account_id, vt_remote_root_id = remote_root_id, vt_object_identity = object_identity,
         vt_durable_state_version = version, vt_target = local_path\<rparr>\<rparr>))"

definition verify_same_move ::
    "classification_evidence \<Rightarrow> string \<Rightarrow> string \<Rightarrow> string \<Rightarrow> u64 \<Rightarrow> string \<Rightarrow> string
      \<Rightarrow> classification_proof_failure + classification_evidence" where
  "verify_same_move self account_id remote_root_id object_identity version local_parent remote_parent =
     (if \<not> identity_matches (cv_facts self) account_id remote_root_id object_identity version
         \<or> local_parent \<noteq> remote_parent \<or> \<not> is_remote_id local_parent
      then Inl EvidenceMismatch
      else Inr (self\<lparr>cv_verified_same_move := Some
        \<lparr>vt_account_id = account_id, vt_remote_root_id = remote_root_id, vt_object_identity = object_identity,
         vt_durable_state_version = version, vt_target = local_parent\<rparr>\<rparr>))"

section \<open>Replay proofs\<close>

definition intent_content_fingerprint ::
    "string option \<Rightarrow> u64 option \<Rightarrow> replay_proof_failure + content_fingerprint option" where
  "intent_content_fingerprint sha256 byte_length =
     (case (sha256, byte_length) of
        (None, None) \<Rightarrow> Inr None
      | (Some sha, Some len) \<Rightarrow>
          if is_lower_hex_64 sha then Inr (Some \<lparr>fp_sha256 = sha, fp_byte_length = len\<rparr>) else Inl InvalidIntent
      | _ \<Rightarrow> Inl InvalidIntent)"

definition post_state_matches_intent :: "mutation_intent \<Rightarrow> mutation_verification_evidence \<Rightarrow> bool" where
  "post_state_matches_intent intent evidence =
     (ev_observed_operation_marker evidence = Some (mi_operation_marker intent)
      \<and> is_none_or (mi_account_id intent) (\<lambda>v. ev_observed_account_id evidence = Some v)
      \<and> is_none_or (mi_remote_root_id intent) (\<lambda>v. ev_observed_remote_root_id evidence = Some v)
      \<and> is_none_or (mi_remote_file_id intent) (\<lambda>v. ev_observed_remote_file_id evidence = Some v)
      \<and> is_none_or (mi_destination_parent_id intent) (\<lambda>v. ev_observed_parent_id evidence = Some v)
      \<and> is_none_or (mi_destination_path intent) (\<lambda>v. ev_observed_path evidence = Some v)
      \<and> is_none_or (mi_expected_local_revision intent) (\<lambda>v. ev_observed_local_revision evidence = Some v)
      \<and> is_none_or (mi_expected_remote_revision intent) (\<lambda>v. ev_observed_remote_revision evidence = Some v)
      \<and> is_none_or (mi_expected_local_sha256 intent) (\<lambda>v. ev_observed_sha256 evidence = Some v)
      \<and> is_none_or (mi_expected_local_byte_length intent) (\<lambda>v. ev_observed_byte_length evidence = Some v))"

text \<open>The record both constructors of a replay proof build from an intent.\<close>

definition seal_replay_proof ::
    "mutation_intent \<Rightarrow> u64 \<Rightarrow> string \<Rightarrow> replay_disposition \<Rightarrow> content_fingerprint option
      \<Rightarrow> content_fingerprint option \<Rightarrow> replay_proof" where
  "seal_replay_proof intent version outcome_fingerprint disposition local remote =
     \<lparr>rp_operation_id = mi_operation_id intent,
      rp_state_version = version,
      rp_outcome_fingerprint = outcome_fingerprint,
      rp_disposition = disposition,
      rp_operation_kind = mi_operation_kind intent,
      rp_intent_fingerprint = mi_intent_fingerprint intent,
      rp_account_id = mi_account_id intent,
      rp_remote_root_id = mi_remote_root_id intent,
      rp_object_identity = or_opt (mi_remote_file_id intent) (mi_local_object_id intent),
      rp_identity_path = or_opt (mi_source_path intent) (mi_destination_path intent),
      rp_target_parent_id = or_opt (mi_destination_parent_id intent) (mi_source_parent_id intent),
      rp_base_sha256 = mi_base_sha256 intent,
      rp_base_byte_length = mi_base_byte_length intent,
      rp_expected_local_content = local,
      rp_expected_remote_content = remote,
      rp_local_revision = mi_expected_local_revision intent,
      rp_remote_revision = mi_expected_remote_revision intent\<rparr>"

text \<open>The \<open>match\<close> on the disposition of the evidence.\<close>

definition replay_disposition_of ::
    "mutation_intent \<Rightarrow> mutation_state \<Rightarrow> mutation_verification_evidence
      \<Rightarrow> replay_proof_failure + replay_disposition" where
  "replay_disposition_of intent state evidence =
     (case ev_disposition evidence of
        VerifiedApplied \<Rightarrow>
          if st_phase state = Completed \<and> ev_capture_phase evidence = PostVerify
             \<and> post_state_matches_intent intent evidence
          then Inr DispVerifiedAppliedExactPostState else Inl UnsupportedDisposition
      | VerifiedNotApplied \<Rightarrow>
          if st_phase state = NeedsReconcilePhase \<and> ev_capture_phase evidence \<in> {PostVerify, Reconcile}
          then Inr DispVerifiedNotApplied else Inl UnsupportedDisposition
      | NeedsReconcileDisposition \<Rightarrow>
          if st_phase state = NeedsReconcilePhase \<and> ev_capture_phase evidence = Reconcile
          then Inr DispSideEffectOutcomeUnknown else Inl UnsupportedDisposition
      | RetrySafe \<Rightarrow> Inl UnsupportedDisposition)"

definition from_r3_1 ::
    "libs \<Rightarrow> mutation_intent \<Rightarrow> mutation_state \<Rightarrow> mutation_verification_evidence
      \<Rightarrow> replay_proof_failure + replay_proof" where
  "from_r3_1 L intent state evidence =
     (if mi_operation_id intent \<noteq> st_operation_id state
         \<or> mi_operation_id intent \<noteq> ev_operation_id evidence
         \<or> mi_intent_fingerprint intent \<noteq> intent_fingerprint L intent
      then Inl InvalidIntent
      else
      and_then (intent_content_fingerprint (mi_expected_local_sha256 intent) (mi_expected_local_byte_length intent)) (\<lambda>local.
      and_then (intent_content_fingerprint (mi_expected_remote_sha256 intent) (mi_expected_remote_byte_length intent)) (\<lambda>remote.
      if ev_evidence_fingerprint evidence \<noteq> evidence_fingerprint L evidence
         \<or> st_state_version state = 0
         \<or> st_last_evidence_id state \<noteq> Some (ev_evidence_id evidence)
         \<or> st_disposition state \<noteq> Some (ev_disposition evidence)
         \<or> st_outcome_code state \<noteq> ev_outcome_code evidence
      then Inl InconsistentDurableOutcome
      else
      and_then (replay_disposition_of intent state evidence) (\<lambda>disposition.
      Inr (seal_replay_proof intent (st_state_version state) (ev_evidence_fingerprint evidence) disposition local remote)))))"

definition from_queued_base_change ::
    "libs \<Rightarrow> mutation_intent \<Rightarrow> u64 \<Rightarrow> classification_evidence_facts \<Rightarrow> replay_proof_failure + replay_proof" where
  "from_queued_base_change L intent captured_state_version current =
     (if mi_intent_fingerprint intent \<noteq> intent_fingerprint L intent then Inl InvalidIntent
      else
      and_then (intent_content_fingerprint (mi_expected_local_sha256 intent) (mi_expected_local_byte_length intent)) (\<lambda>local.
      and_then (intent_content_fingerprint (mi_expected_remote_sha256 intent) (mi_expected_remote_byte_length intent)) (\<lambda>remote.
      if captured_state_version = 0 \<or> captured_state_version \<ge> cf_durable_state_version current
      then Inl BaseDidNotChange
      else if \<not> (mi_base_sha256 intent \<noteq> map_option fp_sha256 (cf_base current)
                \<or> mi_expected_local_revision intent \<noteq> cf_local_revision current
                \<or> mi_expected_remote_revision intent \<noteq> cf_remote_revision current)
      then Inl BaseDidNotChange
      else Inr (seal_replay_proof intent captured_state_version (mi_intent_fingerprint intent)
             DispQueuedIntentCapturedBaseChanged local remote))))"

definition bind_facts :: "replay_proof \<Rightarrow> classification_evidence_facts \<Rightarrow> classification_evidence_facts" where
  "bind_facts proof facts =
     facts\<lparr>cf_prior_operation_id := Some (rp_operation_id proof),
           cf_prior_outcome_fingerprint := Some (rp_outcome_fingerprint proof),
           cf_prior_intent_fingerprint := Some (rp_intent_fingerprint proof),
           cf_prior_replay_disposition := Some (rp_disposition proof)\<rparr>"

section \<open>Cases and input validation\<close>

datatype conflict_case =
    RemoteContentChanged guarded_local_capability
  | LocalContentChanged
  | NonOverlappingMarkdownChanges
  | OverlappingTextChanges
  | BothBinaryChanged
  | BothChangedWithoutExactBase guarded_local_capability
  | InvalidOrAmbiguousText guarded_local_capability
  | MergeInputExceedsBounds guarded_local_capability
  | LocalDeleteRemoteEdited
  | LocalEditedRemoteDelete
  | BothDeleted deleted_final_state_proof
  | LocalRenameRemoteEdited
  | LocalEditedRemoteRename local_rename_guard
  | SameExactRename
  | EquivalentButByteDifferentRenames
  | DivergentRenames
  | LocalMoveRemoteEdited
  | LocalEditedRemoteMove local_rename_guard
  | SameExactMove
  | DivergentMoves
  | RenameMoveCycle
  | RenameMoveConflict local_rename_guard
  | LocalMetadataChangeRemoteDelete
  | LocalDeleteRemoteMetadataChange
  | DestinationCreatedVsMoveOrRename guarded_local_capability
  | DistinctCreatesAtEquivalentPath guarded_local_capability
  | DifferentItemsMoveToSameTarget
  | DuplicateRemotePath
  | ChildChangedWithParentChanged local_rename_guard
  | PortableEquivalentDestinationCollision guarded_local_capability

datatype conflict_input_failure =
    MissingExactIdentity
  | InvalidExactIdentity
  | InvalidContentEvidence
  | InvalidDurableStateVersion
  | MissingMarkdownMergeProof
  | InvalidReplayProof
  | MissingSemanticProof

record conflict_input =
  ci_evidence :: classification_evidence
  ci_boundary :: boundary_assessment
  ci_replay :: replay_assessment
  ci_case :: conflict_case

record required_content =
  need_base :: bool
  need_local :: bool
  need_remote :: bool

fun required_content_of :: "conflict_case \<Rightarrow> required_content" where
  "required_content_of (RemoteContentChanged _) = \<lparr>need_base = True, need_local = True, need_remote = True\<rparr>"
| "required_content_of LocalContentChanged = \<lparr>need_base = True, need_local = True, need_remote = True\<rparr>"
| "required_content_of NonOverlappingMarkdownChanges = \<lparr>need_base = True, need_local = True, need_remote = True\<rparr>"
| "required_content_of OverlappingTextChanges = \<lparr>need_base = True, need_local = True, need_remote = True\<rparr>"
| "required_content_of BothBinaryChanged = \<lparr>need_base = True, need_local = True, need_remote = True\<rparr>"
| "required_content_of (BothChangedWithoutExactBase _) = \<lparr>need_base = False, need_local = True, need_remote = True\<rparr>"
| "required_content_of (InvalidOrAmbiguousText _) = \<lparr>need_base = False, need_local = True, need_remote = True\<rparr>"
| "required_content_of (MergeInputExceedsBounds _) = \<lparr>need_base = False, need_local = True, need_remote = True\<rparr>"
| "required_content_of (DestinationCreatedVsMoveOrRename _) = \<lparr>need_base = False, need_local = True, need_remote = True\<rparr>"
| "required_content_of (DistinctCreatesAtEquivalentPath _) = \<lparr>need_base = False, need_local = True, need_remote = True\<rparr>"
| "required_content_of (PortableEquivalentDestinationCollision _) = \<lparr>need_base = False, need_local = True, need_remote = True\<rparr>"
| "required_content_of LocalDeleteRemoteEdited = \<lparr>need_base = False, need_local = False, need_remote = True\<rparr>"
| "required_content_of LocalRenameRemoteEdited = \<lparr>need_base = False, need_local = False, need_remote = True\<rparr>"
| "required_content_of LocalMoveRemoteEdited = \<lparr>need_base = False, need_local = False, need_remote = True\<rparr>"
| "required_content_of LocalEditedRemoteDelete = \<lparr>need_base = False, need_local = True, need_remote = False\<rparr>"
| "required_content_of (LocalEditedRemoteRename _) = \<lparr>need_base = False, need_local = True, need_remote = False\<rparr>"
| "required_content_of _ = \<lparr>need_base = False, need_local = False, need_remote = False\<rparr>"

text \<open>Whether a content a case needs is missing.\<close>

definition content_missing :: "classification_evidence_facts \<Rightarrow> required_content \<Rightarrow> bool" where
  "content_missing facts required =
     (need_base required \<and> cf_base facts = None
      \<or> need_local required \<and> cf_local facts = None
      \<or> need_remote required \<and> cf_remote facts = None)"

definition require_content ::
    "classification_evidence_facts \<Rightarrow> required_content \<Rightarrow> conflict_input_failure + unit" where
  "require_content facts required =
     (if content_missing facts required then Inl InvalidContentEvidence else Inr ())"

fun case_requires_guarded_target :: "conflict_case \<Rightarrow> bool" where
  "case_requires_guarded_target (LocalEditedRemoteRename g) = (g = ExactIdentityLineageAndNoCollision)"
| "case_requires_guarded_target (LocalEditedRemoteMove g) = (g = ExactIdentityLineageAndNoCollision)"
| "case_requires_guarded_target (RenameMoveConflict g) = (g = ExactIdentityLineageAndNoCollision)"
| "case_requires_guarded_target (ChildChangedWithParentChanged g) = (g = ExactIdentityLineageAndNoCollision)"
| "case_requires_guarded_target _ = False"

fun replay_required :: "replay_assessment \<Rightarrow> required_content" where
  "replay_required (ReplayVerifiedNotApplied _ RetryGuardedLocalReplace) =
     \<lparr>need_base = False, need_local = False, need_remote = True\<rparr>"
| "replay_required (ReplayVerifiedNotApplied _ RetryGuardedConflictCopy) =
     \<lparr>need_base = False, need_local = False, need_remote = True\<rparr>"
| "replay_required _ = \<lparr>need_base = False, need_local = False, need_remote = False\<rparr>"

fun case_content_valid :: "classification_evidence_facts \<Rightarrow> conflict_case \<Rightarrow> bool" where
  "case_content_valid facts (RemoteContentChanged _) =
     (cf_local facts = cf_base facts \<and> cf_remote facts \<noteq> cf_base facts)"
| "case_content_valid facts LocalContentChanged =
     (cf_remote facts = cf_base facts \<and> cf_local facts \<noteq> cf_base facts)"
| "case_content_valid facts NonOverlappingMarkdownChanges =
     (cf_local facts \<noteq> cf_base facts \<and> cf_remote facts \<noteq> cf_base facts)"
| "case_content_valid facts OverlappingTextChanges =
     (cf_local facts \<noteq> cf_base facts \<and> cf_remote facts \<noteq> cf_base facts)"
| "case_content_valid facts BothBinaryChanged =
     (cf_local facts \<noteq> cf_base facts \<and> cf_remote facts \<noteq> cf_base facts)"
| "case_content_valid facts (BothChangedWithoutExactBase _) =
     (cf_base facts = None \<and> cf_local facts \<noteq> None \<and> cf_remote facts \<noteq> None)"
| "case_content_valid facts (InvalidOrAmbiguousText _) =
     (cf_local facts \<noteq> None \<and> cf_remote facts \<noteq> None
      \<and> (cf_base facts = None \<or> cf_local facts \<noteq> cf_base facts \<or> cf_remote facts \<noteq> cf_base facts))"
| "case_content_valid facts (MergeInputExceedsBounds _) =
     (cf_local facts \<noteq> None \<and> cf_remote facts \<noteq> None
      \<and> (cf_base facts = None \<or> cf_local facts \<noteq> cf_base facts \<or> cf_remote facts \<noteq> cf_base facts))"
| "case_content_valid facts _ = True"

definition validate_content_predicates ::
    "classification_evidence_facts \<Rightarrow> replay_assessment \<Rightarrow> conflict_case \<Rightarrow> conflict_input_failure + unit" where
  "validate_content_predicates facts replay c =
     (if replay \<noteq> Fresh then require_content facts (replay_required replay)
      else if case_content_valid facts c then Inr () else Inl InvalidContentEvidence)"

definition semantic_target_matches ::
    "verified_semantic_target option \<Rightarrow> classification_evidence_facts \<Rightarrow> bool" where
  "semantic_target_matches sealed facts =
     is_some_and sealed (\<lambda>p.
       cf_account_id facts = Some (vt_account_id p)
       \<and> cf_remote_root_id facts = Some (vt_remote_root_id p)
       \<and> cf_object_identity facts = Some (vt_object_identity p)
       \<and> cf_durable_state_version facts = vt_durable_state_version p
       \<and> vt_target p \<noteq> [])"

fun replay_operation_matches :: "replay_assessment \<Rightarrow> mutation_operation_kind \<Rightarrow> bool" where
  "replay_operation_matches (ReplayVerifiedNotApplied _ RetryGuardedLocalReplace) kind = (kind = LocalPublish)"
| "replay_operation_matches (ReplayVerifiedNotApplied _ RetryGuardedConflictCopy) kind = (kind = ConflictCopyPublish)"
| "replay_operation_matches (ReplayVerifiedNotApplied _ RetryRemoteExistingMutationBlocked) kind = (kind = RemoteExistingBlocked)"
| "replay_operation_matches _ kind = True"

text \<open>The named sub-results of \<open>replay_snapshot_matches\<close>.\<close>

definition snapshot_identity_matches :: "classification_evidence_facts \<Rightarrow> replay_proof \<Rightarrow> bool" where
  "snapshot_identity_matches facts p =
     (rp_account_id p = cf_account_id facts \<and> rp_remote_root_id p = cf_remote_root_id facts
      \<and> rp_object_identity p = cf_object_identity facts
      \<and> rp_identity_path p = cf_canonical_identity_path facts
      \<and> rp_target_parent_id p = cf_target_parent_id facts)"

definition snapshot_base_matches :: "classification_evidence_facts \<Rightarrow> replay_proof \<Rightarrow> bool" where
  "snapshot_base_matches facts p =
     (rp_disposition p = DispVerifiedAppliedExactPostState \<and> rp_operation_kind p = BasePublish
      \<or> rp_base_sha256 p = map_option fp_sha256 (cf_base facts)
        \<and> rp_base_byte_length p = map_option fp_byte_length (cf_base facts))"

definition snapshot_payload_matches :: "classification_evidence_facts \<Rightarrow> replay_proof \<Rightarrow> bool" where
  "snapshot_payload_matches facts p =
     (case rp_operation_kind p of
        LocalPublish \<Rightarrow> rp_expected_local_content p = cf_remote facts
      | ConflictCopyPublish \<Rightarrow> rp_expected_local_content p = cf_remote facts
      | MergePublish \<Rightarrow> rp_expected_local_content p \<noteq> None
      | BasePublish \<Rightarrow> rp_expected_local_content p = cf_base facts
      | RemoteExistingBlocked \<Rightarrow> True)"

definition snapshot_tuple_matches :: "classification_evidence_facts \<Rightarrow> replay_proof \<Rightarrow> bool" where
  "snapshot_tuple_matches facts p =
     (snapshot_base_matches facts p
      \<and> rp_local_revision p = cf_local_revision facts
      \<and> rp_remote_revision p = cf_remote_revision facts
      \<and> snapshot_payload_matches facts p
      \<and> (rp_expected_remote_content p = None \<or> rp_expected_remote_content p = cf_remote facts))"

definition exact_post_state_matches :: "classification_evidence_facts \<Rightarrow> replay_proof \<Rightarrow> bool" where
  "exact_post_state_matches facts p =
     (rp_disposition p \<noteq> DispVerifiedAppliedExactPostState
      \<or> (case rp_operation_kind p of
           LocalPublish \<Rightarrow> cf_local facts = rp_expected_local_content p
         | MergePublish \<Rightarrow> cf_local facts = rp_expected_local_content p
         | ConflictCopyPublish \<Rightarrow> True
         | RemoteExistingBlocked \<Rightarrow> True
         | BasePublish \<Rightarrow> cf_base facts = rp_expected_local_content p))"

definition replay_snapshot_matches :: "classification_evidence \<Rightarrow> replay_proof \<Rightarrow> bool" where
  "replay_snapshot_matches evidence p =
     (let facts = cv_facts evidence in
      snapshot_identity_matches facts p
      \<and> (if rp_disposition p = DispQueuedIntentCapturedBaseChanged
          then \<not> snapshot_tuple_matches facts p
          else snapshot_tuple_matches facts p \<and> exact_post_state_matches facts p))"

text \<open>The proof a replay assessment carries and the disposition it must have.\<close>

fun replay_expectation :: "replay_assessment \<Rightarrow> (replay_proof \<times> replay_disposition) option" where
  "replay_expectation Fresh = None"
| "replay_expectation (VerifiedAppliedExactPostState p) = Some (p, DispVerifiedAppliedExactPostState)"
| "replay_expectation (ReplayVerifiedNotApplied p _) = Some (p, DispVerifiedNotApplied)"
| "replay_expectation (SideEffectOutcomeUnknown p) = Some (p, DispSideEffectOutcomeUnknown)"
| "replay_expectation (QueuedIntentCapturedBaseChanged p) = Some (p, DispQueuedIntentCapturedBaseChanged)"

definition version_matches :: "replay_assessment \<Rightarrow> replay_proof \<Rightarrow> classification_evidence_facts \<Rightarrow> bool" where
  "version_matches replay p facts =
     (case replay of
        QueuedIntentCapturedBaseChanged _ \<Rightarrow> rp_state_version p \<le> cf_durable_state_version facts
      | _ \<Rightarrow> rp_state_version p = cf_durable_state_version facts)"

definition validate_replay_proof ::
    "classification_evidence \<Rightarrow> replay_assessment \<Rightarrow> conflict_input_failure + unit" where
  "validate_replay_proof evidence replay =
     (let facts = cv_facts evidence in
      case replay_expectation replay of
        None \<Rightarrow>
          if cf_prior_operation_id facts = None \<and> cf_prior_outcome_fingerprint facts = None
             \<and> cf_prior_intent_fingerprint facts = None \<and> cf_prior_replay_disposition facts = None
          then Inr () else Inl InvalidReplayProof
      | Some (p, expected) \<Rightarrow>
          if is_nil (rp_operation_id p)
             \<or> \<not> version_matches replay p facts
             \<or> \<not> is_lower_hex_64 (rp_outcome_fingerprint p)
             \<or> cf_prior_operation_id facts \<noteq> Some (rp_operation_id p)
             \<or> cf_prior_outcome_fingerprint facts \<noteq> Some (rp_outcome_fingerprint p)
             \<or> cf_prior_intent_fingerprint facts \<noteq> Some (rp_intent_fingerprint p)
             \<or> rp_disposition p \<noteq> expected
             \<or> cf_prior_replay_disposition facts \<noteq> Some expected
             \<or> \<not> replay_operation_matches replay (rp_operation_kind p)
             \<or> \<not> replay_snapshot_matches evidence p
          then Inl InvalidReplayProof else Inr ())"

text \<open>The checks of a guarded metadata target.\<close>

definition guarded_target_invalid :: "libs \<Rightarrow> guarded_metadata_target_evidence \<Rightarrow> bool" where
  "guarded_target_invalid L target =
     (\<not> is_exact_content_path L (gt_portable_path target)
      \<or> \<not> is_remote_id (gt_parent_id target)
      \<or> is_some_and (gt_object_id target) (\<lambda>i. \<not> is_remote_id i)
      \<or> normalized_collision_key L (gt_portable_path target) \<noteq> Inr (gt_normalized_collision_key target)
      \<or> length (gt_occupied_collision_keys target) > 4096
      \<or> list_ex (\<lambda>key. \<not> is_lower_hex_64 key \<or> key = gt_normalized_collision_key target)
          (gt_occupied_collision_keys target))"

definition exact_ids :: "classification_evidence_facts \<Rightarrow> string option list" where
  "exact_ids facts =
     [cf_account_id facts, cf_remote_root_id facts, cf_object_identity facts, cf_target_parent_id facts]"

definition semantic_proof_missing :: "classification_evidence \<Rightarrow> conflict_case \<Rightarrow> bool" where
  "semantic_proof_missing evidence c =
     (c = BothDeleted DeletedVerified \<and> \<not> cv_verified_deleted_final_state evidence
      \<or> c = SameExactRename \<and> \<not> semantic_target_matches (cv_verified_same_rename evidence) (cv_facts evidence)
      \<or> c = SameExactMove \<and> \<not> semantic_target_matches (cv_verified_same_move evidence) (cv_facts evidence))"

definition validate_classification_evidence ::
    "libs \<Rightarrow> classification_evidence \<Rightarrow> boundary_assessment \<Rightarrow> replay_assessment \<Rightarrow> conflict_case
      \<Rightarrow> conflict_input_failure + unit" where
  "validate_classification_evidence L evidence boundary replay c =
     (let facts = cv_facts evidence in
      if boundary \<noteq> Approved then Inr ()
      else if list_ex (\<lambda>v. v = None) (exact_ids facts) then Inl MissingExactIdentity
      else if list_ex (\<lambda>v. \<not> is_remote_id v) (flatten_opt (exact_ids facts))
              \<or> \<not> is_some_and (cf_canonical_identity_path facts) (is_exact_content_path L)
              \<or> \<not> is_some_and (cf_local_revision facts) is_lower_hex_64
              \<or> \<not> is_some_and (cf_remote_revision facts) is_remote_id
      then Inl InvalidExactIdentity
      else if cf_durable_state_version facts = 0 then Inl InvalidDurableStateVersion
      else if is_some_and (cf_guarded_metadata_target facts) (guarded_target_invalid L) then Inl InvalidExactIdentity
      else if case_requires_guarded_target c \<and> cf_guarded_metadata_target facts = None then Inl MissingSemanticProof
      else
      and_then (validate_replay_proof evidence replay) (\<lambda>_.
      if list_ex (\<lambda>f. \<not> is_lower_hex_64 (fp_sha256 f) \<or> \<not> fits_i64 (fp_byte_length f))
           (flatten_opt [cf_base facts, cf_local facts, cf_remote facts, cv_verified_markdown_merge evidence])
      then Inl InvalidContentEvidence
      else if content_missing facts (required_content_of c) then Inl InvalidContentEvidence
      else if replay = Fresh \<and> c = NonOverlappingMarkdownChanges \<and> cv_verified_markdown_merge evidence = None
      then Inl MissingMarkdownMergeProof
      else
      and_then (validate_content_predicates facts replay c) (\<lambda>_.
      if semantic_proof_missing evidence c then Inl MissingSemanticProof else Inr ())))"

definition conflict_input_new ::
    "libs \<Rightarrow> classification_evidence \<Rightarrow> boundary_assessment \<Rightarrow> replay_assessment \<Rightarrow> conflict_case
      \<Rightarrow> conflict_input_failure + conflict_input" where
  "conflict_input_new L evidence boundary replay c =
     and_then (validate_classification_evidence L evidence boundary replay c) (\<lambda>_.
       Inr \<lparr>ci_evidence = evidence, ci_boundary = boundary, ci_replay = replay, ci_case = c\<rparr>)"

definition conflict_input_fresh ::
    "libs \<Rightarrow> classification_evidence \<Rightarrow> conflict_case \<Rightarrow> conflict_input_failure + conflict_input" where
  "conflict_input_fresh L evidence c = conflict_input_new L evidence Approved Fresh c"
section \<open>Plans\<close>

datatype conflict_draft =
    DraftLocalContentPublish
  | DraftMergePublish
  | DraftConflictCopyPublish
  | DraftBasePublish
  | DraftRemoteExistingBlocked
  | GuardedLocalRename
  | GuardedLocalMove
  | GuardedLocalRenameMove

datatype retained_evidence =
    LocalBytes | RemoteBytes | DeleteIntent | LocalRenameIntent | RemoteRenameIntent | MoveIntent
  | LocalIdentity | RemoteIdentity | ParentLineage | DestinationIdentity | ProviderMetadata
  | PreserveBothEvidence

datatype cursor_gate = ExactVerification | AllLocalPublications | GateNeedsReconcile

record conflict_plan =
  cp_cell :: conflict_cell
  cp_outcome :: conflict_outcome
  cp_drafts :: "conflict_draft list"
  cp_retained :: "retained_evidence list"
  cp_cursor_gate :: cursor_gate
  cp_classification_evidence :: "classification_evidence option"

definition conflict_plan_new ::
    "conflict_cell \<Rightarrow> conflict_outcome \<Rightarrow> conflict_draft list \<Rightarrow> retained_evidence list \<Rightarrow> cursor_gate
      \<Rightarrow> conflict_plan" where
  "conflict_plan_new cell outcome drafts retained gate =
     \<lparr>cp_cell = cell, cp_outcome = outcome, cp_drafts = drafts, cp_retained = retained,
      cp_cursor_gate = gate, cp_classification_evidence = None\<rparr>"

definition bind_evidence :: "conflict_plan \<Rightarrow> classification_evidence \<Rightarrow> conflict_plan" where
  "bind_evidence plan evidence = plan\<lparr>cp_classification_evidence := Some evidence\<rparr>"

definition needs_reconcile ::
    "conflict_cell \<Rightarrow> conflict_draft list \<Rightarrow> retained_evidence list \<Rightarrow> conflict_plan" where
  "needs_reconcile cell drafts retained = conflict_plan_new cell NeedsReconcile drafts retained GateNeedsReconcile"

definition preserve_both :: "conflict_cell \<Rightarrow> conflict_plan" where
  "preserve_both cell =
     conflict_plan_new cell PreserveBothLocal [DraftConflictCopyPublish]
       [LocalBytes, RemoteBytes, PreserveBothEvidence] AllLocalPublications"

definition preserve_or_reconcile :: "conflict_cell \<Rightarrow> guarded_local_capability \<Rightarrow> conflict_plan" where
  "preserve_or_reconcile cell capability =
     (if is_available capability then preserve_both cell
      else needs_reconcile cell [] [LocalBytes, RemoteBytes, PreserveBothEvidence])"

definition preserve_if_available ::
    "conflict_cell \<Rightarrow> conflict_cell \<Rightarrow> guarded_local_capability \<Rightarrow> conflict_plan" where
  "preserve_if_available available_cell unavailable_cell capability =
     (if is_available capability then preserve_both available_cell
      else needs_reconcile unavailable_cell [] [LocalBytes, RemoteBytes, PreserveBothEvidence])"

fun guarded_draft :: "local_rename_guard \<Rightarrow> conflict_draft \<Rightarrow> conflict_draft list" where
  "guarded_draft ExactIdentityLineageAndNoCollision GuardedLocalMove = [GuardedLocalMove]"
| "guarded_draft ExactIdentityLineageAndNoCollision GuardedLocalRenameMove = [GuardedLocalRenameMove]"
| "guarded_draft _ _ = []"

fun classify_boundary :: "boundary_assessment \<Rightarrow> conflict_plan option" where
  "classify_boundary Approved = None"
| "classify_boundary ProtectedPath =
     Some (conflict_plan_new C27 UnsupportedProtected [] [DestinationIdentity] GateNeedsReconcile)"
| "classify_boundary UnsupportedObjectOrTopology =
     Some (conflict_plan_new C28a UnsupportedProtected [] [ProviderMetadata] GateNeedsReconcile)"
| "classify_boundary MalformedObjectMetadata =
     Some (conflict_plan_new C28b NeedsReconcile [] [ProviderMetadata] GateNeedsReconcile)"
| "classify_boundary AccountRootOrAllowlistMismatch =
     Some (conflict_plan_new C33a UnsupportedProtected [] [ProviderMetadata] GateNeedsReconcile)"
| "classify_boundary AllowlistedIdentityLineageRevisionOrBaseMismatch =
     Some (conflict_plan_new C33b NeedsReconcile [] [ProviderMetadata, ParentLineage] GateNeedsReconcile)"

fun classify_not_applied :: "verified_not_applied_retry \<Rightarrow> conflict_plan" where
  "classify_not_applied RetryGuardedLocalReplace =
     conflict_plan_new C30 GuardedLocalReplace [DraftLocalContentPublish] [] AllLocalPublications"
| "classify_not_applied RetryGuardedConflictCopy =
     conflict_plan_new C30 PreserveBothLocal [DraftConflictCopyPublish] [PreserveBothEvidence] AllLocalPublications"
| "classify_not_applied RetryRemoteExistingMutationBlocked =
     conflict_plan_new C30 RemoteMutationBlocked [DraftRemoteExistingBlocked] [] GateNeedsReconcile"
| "classify_not_applied RetryPreconditionsChangedOrCapabilityUnavailable = needs_reconcile C30 [] []"

fun classify_replay :: "replay_assessment \<Rightarrow> conflict_plan option" where
  "classify_replay Fresh = None"
| "classify_replay (VerifiedAppliedExactPostState p) =
     Some (if rp_operation_kind p = ConflictCopyPublish then needs_reconcile C29 [] [PreserveBothEvidence]
           else conflict_plan_new C29 NoOpVerified [] [] ExactVerification)"
| "classify_replay (ReplayVerifiedNotApplied _ retry) = Some (classify_not_applied retry)"
| "classify_replay (SideEffectOutcomeUnknown _) = Some (needs_reconcile C31 [] [])"
| "classify_replay (QueuedIntentCapturedBaseChanged _) = Some (needs_reconcile C32 [] [LocalBytes, RemoteBytes])"

fun classify_fresh_case :: "conflict_case \<Rightarrow> conflict_plan" where
  "classify_fresh_case (RemoteContentChanged guarded_local_replace) =
     (if is_available guarded_local_replace
      then conflict_plan_new C01 GuardedLocalReplace [DraftLocalContentPublish, DraftBasePublish]
             [RemoteBytes] AllLocalPublications
      else needs_reconcile C01 [] [RemoteBytes])"
| "classify_fresh_case LocalContentChanged =
     conflict_plan_new C02 RemoteMutationBlocked [DraftRemoteExistingBlocked] [LocalBytes] GateNeedsReconcile"
| "classify_fresh_case NonOverlappingMarkdownChanges =
     conflict_plan_new C03 SafeTextMergeLocal
       [DraftMergePublish, DraftBasePublish, DraftRemoteExistingBlocked] [LocalBytes, RemoteBytes] GateNeedsReconcile"
| "classify_fresh_case OverlappingTextChanges = preserve_both C04"
| "classify_fresh_case BothBinaryChanged = preserve_both C05"
| "classify_fresh_case (BothChangedWithoutExactBase guarded_no_replace) =
     preserve_if_available C06a C06b guarded_no_replace"
| "classify_fresh_case (InvalidOrAmbiguousText guarded_no_replace) = preserve_or_reconcile C07 guarded_no_replace"
| "classify_fresh_case (MergeInputExceedsBounds guarded_no_replace) = preserve_or_reconcile C08 guarded_no_replace"
| "classify_fresh_case LocalDeleteRemoteEdited =
     conflict_plan_new C09 NeedsReconcile
       [DraftLocalContentPublish, DraftBasePublish, DraftRemoteExistingBlocked]
       [RemoteBytes, DeleteIntent] GateNeedsReconcile"
| "classify_fresh_case LocalEditedRemoteDelete =
     needs_reconcile C10 [DraftRemoteExistingBlocked] [LocalBytes, DeleteIntent, PreserveBothEvidence]"
| "classify_fresh_case (BothDeleted final_state) =
     (case final_state of
        DeletedVerified \<Rightarrow> conflict_plan_new C11 NoOpVerified [] [DeleteIntent] ExactVerification
      | DeletedNotVerified \<Rightarrow> needs_reconcile C11 [] [DeleteIntent])"
| "classify_fresh_case LocalRenameRemoteEdited =
     conflict_plan_new C12 RemoteMutationBlocked
       [DraftLocalContentPublish, DraftBasePublish, DraftRemoteExistingBlocked]
       [RemoteBytes, LocalRenameIntent] GateNeedsReconcile"
| "classify_fresh_case (LocalEditedRemoteRename local_rename) =
     needs_reconcile C13
       (case local_rename of ExactIdentityLineageAndNoCollision \<Rightarrow> [GuardedLocalRename] | NotProven \<Rightarrow> [])
       [LocalBytes, RemoteRenameIntent]"
| "classify_fresh_case SameExactRename =
     conflict_plan_new C14a NoOpVerified [] [LocalRenameIntent] ExactVerification"
| "classify_fresh_case EquivalentButByteDifferentRenames =
     needs_reconcile C14b [] [LocalRenameIntent, RemoteRenameIntent]"
| "classify_fresh_case DivergentRenames = needs_reconcile C14c [] [LocalRenameIntent, RemoteRenameIntent]"
| "classify_fresh_case LocalMoveRemoteEdited =
     needs_reconcile C15 [DraftLocalContentPublish, DraftRemoteExistingBlocked] [RemoteBytes, MoveIntent]"
| "classify_fresh_case (LocalEditedRemoteMove local_move) =
     needs_reconcile C16 (guarded_draft local_move GuardedLocalMove) [LocalBytes, MoveIntent]"
| "classify_fresh_case SameExactMove =
     conflict_plan_new C17 NoOpVerified [] [ParentLineage] ExactVerification"
| "classify_fresh_case DivergentMoves = needs_reconcile C18 [] [MoveIntent, ParentLineage]"
| "classify_fresh_case RenameMoveCycle = needs_reconcile C18 [] [MoveIntent, LocalRenameIntent, ParentLineage]"
| "classify_fresh_case (RenameMoveConflict combined_target) =
     needs_reconcile C19 (guarded_draft combined_target GuardedLocalRenameMove) [LocalRenameIntent, MoveIntent]"
| "classify_fresh_case LocalMetadataChangeRemoteDelete =
     needs_reconcile C20 [DraftRemoteExistingBlocked] [LocalRenameIntent, MoveIntent, DeleteIntent]"
| "classify_fresh_case LocalDeleteRemoteMetadataChange =
     needs_reconcile C21 [] [DeleteIntent, RemoteRenameIntent, MoveIntent, RemoteIdentity]"
| "classify_fresh_case (DestinationCreatedVsMoveOrRename guarded_no_replace) =
     preserve_if_available C22a C22b guarded_no_replace"
| "classify_fresh_case (DistinctCreatesAtEquivalentPath guarded_no_replace) =
     preserve_or_reconcile C23 guarded_no_replace"
| "classify_fresh_case DifferentItemsMoveToSameTarget =
     needs_reconcile C24 [] [LocalIdentity, RemoteIdentity, DestinationIdentity]"
| "classify_fresh_case DuplicateRemotePath = needs_reconcile C25 [] [RemoteIdentity, DestinationIdentity]"
| "classify_fresh_case (ChildChangedWithParentChanged resolved_lineage) =
     needs_reconcile C26 (guarded_draft resolved_lineage GuardedLocalMove) [LocalBytes, ParentLineage]"
| "classify_fresh_case (PortableEquivalentDestinationCollision guarded_no_replace) =
     preserve_or_reconcile C34 guarded_no_replace"

definition classify_conflict :: "conflict_input \<Rightarrow> conflict_plan" where
  "classify_conflict input =
     bind_evidence
       (case or_opt (classify_boundary (ci_boundary input)) (classify_replay (ci_replay input)) of
          Some plan \<Rightarrow> plan
        | None \<Rightarrow> classify_fresh_case (ci_case input))
       (ci_evidence input)"

end
