(* ===== verification/Classifier_Properties.thy ===== *)
theory Classifier_Properties
  imports Conflict_Classifier Markdown_Properties Ledger_Properties Identity_Properties
begin

text \<open>
  Properties of the conflict classifier: the precedence of boundary, replay and case, what every
  plan may publish and what it must retain, what evidence an advance of the cursor needs, and which
  replay proofs the mutation ledger can give.
\<close>

section \<open>Shape of the plans\<close>

lemmas plan_defs = conflict_plan_new_def bind_evidence_def needs_reconcile_def preserve_both_def
  preserve_or_reconcile_def preserve_if_available_def is_available_def

text \<open>What the classifier says before the evidence is bound.\<close>

definition unbound_plan :: "boundary_assessment \<Rightarrow> replay_assessment \<Rightarrow> conflict_case \<Rightarrow> conflict_plan" where
  "unbound_plan b r c =
     (case or_opt (classify_boundary b) (classify_replay r) of Some plan \<Rightarrow> plan | None \<Rightarrow> classify_fresh_case c)"

lemma classify_conflict_unbound:
  "classify_conflict input =
     bind_evidence (unbound_plan (ci_boundary input) (ci_replay input) (ci_case input)) (ci_evidence input)"
  by (simp add: classify_conflict_def unbound_plan_def)

lemma bind_evidence_fields [simp]:
  "cp_cell (bind_evidence p e) = cp_cell p" "cp_outcome (bind_evidence p e) = cp_outcome p"
  "cp_drafts (bind_evidence p e) = cp_drafts p" "cp_retained (bind_evidence p e) = cp_retained p"
  "cp_cursor_gate (bind_evidence p e) = cp_cursor_gate p"
  "cp_classification_evidence (bind_evidence p e) = Some e"
  by (simp_all add: bind_evidence_def)

text \<open>The discipline every plan keeps between its outcome, its drafts and its cursor gate.\<close>

definition disciplined :: "conflict_plan \<Rightarrow> bool" where
  "disciplined plan =
     ((cp_cursor_gate plan = ExactVerification \<longleftrightarrow> cp_outcome plan = NoOpVerified)
      \<and> (cp_cursor_gate plan = ExactVerification \<longrightarrow> cp_drafts plan = [])
      \<and> (cp_cursor_gate plan = AllLocalPublications \<longrightarrow>
           cp_drafts plan \<in> {[DraftLocalContentPublish], [DraftConflictCopyPublish],
             [DraftLocalContentPublish, DraftBasePublish]})
      \<and> (DraftRemoteExistingBlocked \<in> set (cp_drafts plan) \<longrightarrow>
           cp_cursor_gate plan = GateNeedsReconcile \<and> last (cp_drafts plan) = DraftRemoteExistingBlocked)
      \<and> (DraftBasePublish \<in> set (cp_drafts plan) \<longrightarrow>
           take 2 (cp_drafts plan) \<in> {[DraftLocalContentPublish, DraftBasePublish], [DraftMergePublish, DraftBasePublish]})
      \<and> distinct (cp_drafts plan))"

lemma disciplined_boundary: "classify_boundary b = Some plan \<Longrightarrow> disciplined plan"
  by (cases b) (auto simp: disciplined_def plan_defs)

lemma disciplined_replay: "classify_replay r = Some plan \<Longrightarrow> disciplined plan"
proof (cases r)
  case (ReplayVerifiedNotApplied p t)
  then show "classify_replay r = Some plan \<Longrightarrow> disciplined plan"
    by (cases t) (auto simp: disciplined_def plan_defs)
qed (auto simp: disciplined_def plan_defs split: if_splits)

lemma disciplined_fresh: "disciplined (classify_fresh_case c)"
proof (cases c)
  case (BothDeleted p) then show ?thesis by (cases p) (auto simp: disciplined_def plan_defs)
next
  case (LocalEditedRemoteRename p) then show ?thesis by (cases p) (auto simp: disciplined_def plan_defs)
next
  case (LocalEditedRemoteMove p) then show ?thesis by (cases p) (auto simp: disciplined_def plan_defs)
next
  case (RenameMoveConflict p) then show ?thesis by (cases p) (auto simp: disciplined_def plan_defs)
next
  case (ChildChangedWithParentChanged p) then show ?thesis by (cases p) (auto simp: disciplined_def plan_defs)
qed (auto simp: disciplined_def plan_defs)

lemma disciplined_unbound: "disciplined (unbound_plan b r c)"
  using disciplined_boundary [of b] disciplined_replay [of r] disciplined_fresh [of c]
  by (auto simp: unbound_plan_def or_opt_def split: option.splits)

text \<open>The capability a case asks for, and the guard a metadata case carries.\<close>

fun case_capability :: "conflict_case \<Rightarrow> guarded_local_capability option" where
  "case_capability (RemoteContentChanged k) = Some k"
| "case_capability (BothChangedWithoutExactBase k) = Some k"
| "case_capability (InvalidOrAmbiguousText k) = Some k"
| "case_capability (MergeInputExceedsBounds k) = Some k"
| "case_capability (DestinationCreatedVsMoveOrRename k) = Some k"
| "case_capability (DistinctCreatesAtEquivalentPath k) = Some k"
| "case_capability (PortableEquivalentDestinationCollision k) = Some k"
| "case_capability _ = None"

lemma no_capability_no_drafts:
  assumes "case_capability c = Some k" "k \<noteq> CapabilityAvailable"
  shows "cp_drafts (classify_fresh_case c) = [] \<and> cp_outcome (classify_fresh_case c) = NeedsReconcile
    \<and> cp_cursor_gate (classify_fresh_case c) = GateNeedsReconcile"
  using assms by (cases c) (auto simp: plan_defs)

definition metadata_drafts :: "conflict_draft set" where
  "metadata_drafts = {GuardedLocalRename, GuardedLocalMove, GuardedLocalRenameMove}"

lemma metadata_draft_guarded:
  assumes "d \<in> set (cp_drafts (classify_fresh_case c))" "d \<in> metadata_drafts"
  shows "case_requires_guarded_target c"
proof (cases c)
  case (BothDeleted p) then show ?thesis using assms by (cases p) (auto simp: metadata_drafts_def plan_defs)
next
  case (LocalEditedRemoteRename p) then show ?thesis using assms by (cases p) (auto simp: metadata_drafts_def plan_defs)
next
  case (LocalEditedRemoteMove p) then show ?thesis using assms by (cases p) (auto simp: metadata_drafts_def plan_defs)
next
  case (RenameMoveConflict p) then show ?thesis using assms by (cases p) (auto simp: metadata_drafts_def plan_defs)
next
  case (ChildChangedWithParentChanged p) then show ?thesis using assms by (cases p) (auto simp: metadata_drafts_def plan_defs)
qed (use assms in \<open>auto simp: metadata_drafts_def plan_defs split: if_splits\<close>)

lemma replay_no_metadata_drafts:
  assumes "classify_replay r = Some plan"
  shows "set (cp_drafts plan) \<inter> metadata_drafts = {}"
proof (cases r)
  case (ReplayVerifiedNotApplied p t)
  then show ?thesis using assms by (cases t) (auto simp: metadata_drafts_def plan_defs)
qed (use assms in \<open>auto simp: metadata_drafts_def plan_defs split: if_splits\<close>)

lemma boundary_no_drafts: "classify_boundary b = Some plan \<Longrightarrow>
    cp_drafts plan = [] \<and> cp_cursor_gate plan = GateNeedsReconcile \<and> cp_outcome plan \<in> {UnsupportedProtected, NeedsReconcile}"
  by (cases b) (auto simp: plan_defs)

lemma not_applied_gate [simp]: "cp_cursor_gate (classify_not_applied t) \<noteq> ExactVerification"
  by (cases t) (simp_all add: plan_defs)

lemma classify_boundary_None: "classify_boundary b = None \<longleftrightarrow> b = Approved"
  by (cases b) simp_all

lemma classify_replay_None: "classify_replay r = None \<longleftrightarrow> r = Fresh"
  by (cases r) simp_all

section \<open>What validation gives\<close>

lemma conflict_input_new_Inr:
  "conflict_input_new L ev b r c = Inr input \<longleftrightarrow>
     validate_classification_evidence L ev b r c = Inr ()
     \<and> input = \<lparr>ci_evidence = ev, ci_boundary = b, ci_replay = r, ci_case = c\<rparr>"
  by (auto simp: conflict_input_new_def)

lemma validated_approved:
  assumes "validate_classification_evidence L ev Approved r c = Inr ()"
  shows "validate_replay_proof ev r = Inr ()"
    "is_some_and (cf_guarded_metadata_target (cv_facts ev)) (guarded_target_invalid L) = False"
    "case_requires_guarded_target c \<Longrightarrow> cf_guarded_metadata_target (cv_facts ev) \<noteq> None"
    "\<not> content_missing (cv_facts ev) (required_content_of c)"
    "r = Fresh \<Longrightarrow> c = NonOverlappingMarkdownChanges \<Longrightarrow> cv_verified_markdown_merge ev \<noteq> None"
    "r = Fresh \<Longrightarrow> case_content_valid (cv_facts ev) c"
    "\<not> semantic_proof_missing ev c"
  using assms
  by (auto simp: validate_classification_evidence_def Let_def validate_content_predicates_def simp del: not_None_eq
      split: if_splits)

lemma validate_replay_proof_Inr:
  assumes "validate_replay_proof ev r = Inr ()" "replay_expectation r = Some (p, d)"
  shows "rp_disposition p = d" "version_matches r p (cv_facts ev)" "replay_snapshot_matches ev p"
    "replay_operation_matches r (rp_operation_kind p)" "is_lower_hex_64 (rp_outcome_fingerprint p)"
    "cf_prior_operation_id (cv_facts ev) = Some (rp_operation_id p)"
  using assms by (auto simp: validate_replay_proof_def Let_def split: if_splits)

section \<open>Concrete inputs\<close>

definition demo_fp :: "char \<Rightarrow> content_fingerprint" where
  "demo_fp c = \<lparr>fp_sha256 = replicate 64 c, fp_byte_length = 10\<rparr>"

definition demo_target :: guarded_metadata_target_evidence where
  "demo_target = \<lparr>gt_portable_path = ''notes/b.md'', gt_parent_id = ''parent'', gt_object_id = None,
     gt_normalized_collision_key =
       (case normalized_collision_key demo_libs ''notes/b.md'' of Inr k \<Rightarrow> k | Inl _ \<Rightarrow> []),
     gt_occupied_collision_keys = []\<rparr>"

definition demo_facts :: classification_evidence_facts where
  "demo_facts = \<lparr>cf_account_id = Some ''acct'', cf_remote_root_id = Some ''root'',
     cf_object_identity = Some ''object'', cf_canonical_identity_path = Some ''notes/a.md'',
     cf_target_parent_id = Some ''parent'', cf_base = Some (demo_fp CHR ''a''),
     cf_local = Some (demo_fp CHR ''b''), cf_remote = Some (demo_fp CHR ''c''),
     cf_local_revision = Some (replicate 64 CHR ''d''), cf_remote_revision = Some ''rev'',
     cf_durable_state_version = 3, cf_prior_operation_id = None, cf_prior_outcome_fingerprint = None,
     cf_prior_intent_fingerprint = None, cf_prior_replay_disposition = None,
     cf_guarded_metadata_target = Some demo_target\<rparr>"

definition demo_ev :: classification_evidence where
  "demo_ev = classification_evidence_new demo_facts"

definition demo_deleted :: classification_evidence where
  "demo_deleted = demo_ev\<lparr>cv_verified_deleted_final_state := True\<rparr>"

definition demo_input :: "classification_evidence \<Rightarrow> boundary_assessment \<Rightarrow> conflict_case \<Rightarrow> conflict_input" where
  "demo_input ev b c = \<lparr>ci_evidence = ev, ci_boundary = b, ci_replay = Fresh, ci_case = c\<rparr>"

lemma demo_accepted:
  "conflict_input_new demo_libs demo_ev Approved Fresh OverlappingTextChanges
     = Inr (demo_input demo_ev Approved OverlappingTextChanges)"
  "conflict_input_new demo_libs demo_ev Approved Fresh (LocalEditedRemoteRename ExactIdentityLineageAndNoCollision)
     = Inr (demo_input demo_ev Approved (LocalEditedRemoteRename ExactIdentityLineageAndNoCollision))"
  "conflict_input_new demo_libs demo_deleted Approved Fresh (BothDeleted DeletedVerified)
     = Inr (demo_input demo_deleted Approved (BothDeleted DeletedVerified))"
  by code_simp+

section \<open>Properties of the plans\<close>

text \<open>
  the frozen precedence. A boundary finding decides the plan alone, publishes nothing and stops
  the cursor; an earlier outcome decides before the case; every plan carries the evidence it was
  classified from.
\<close>

theorem classification_precedence:
  "(ci_boundary input \<noteq> Approved \<longrightarrow>
      (\<forall>r c. classify_conflict (input\<lparr>ci_replay := r, ci_case := c\<rparr>) = classify_conflict input)
      \<and> cp_drafts (classify_conflict input) = []
      \<and> cp_cursor_gate (classify_conflict input) = GateNeedsReconcile
      \<and> cp_outcome (classify_conflict input) \<in> {UnsupportedProtected, NeedsReconcile})
   \<and> (ci_replay input \<noteq> Fresh \<longrightarrow>
      (\<forall>c. classify_conflict (input\<lparr>ci_case := c\<rparr>) = classify_conflict input))
   \<and> cp_classification_evidence (classify_conflict input) = Some (ci_evidence input)"
proof (intro conjI impI)
  assume "ci_boundary input \<noteq> Approved"
  then obtain plan where plan: "classify_boundary (ci_boundary input) = Some plan"
    using classify_boundary_None by blast
  then have unbound: "unbound_plan (ci_boundary input) r c = plan" for r c by (simp add: unbound_plan_def)
  show "\<forall>r c. classify_conflict (input\<lparr>ci_replay := r, ci_case := c\<rparr>) = classify_conflict input"
    by (simp add: classify_conflict_unbound unbound)
  show "cp_drafts (classify_conflict input) = []" "cp_cursor_gate (classify_conflict input) = GateNeedsReconcile"
    "cp_outcome (classify_conflict input) \<in> {UnsupportedProtected, NeedsReconcile}"
    using boundary_no_drafts [OF plan] by (simp_all add: classify_conflict_unbound unbound)
next
  assume "ci_replay input \<noteq> Fresh"
  then obtain plan where "classify_replay (ci_replay input) = Some plan" using classify_replay_None by blast
  then show "\<forall>c. classify_conflict (input\<lparr>ci_case := c\<rparr>) = classify_conflict input"
    by (simp add: classify_conflict_unbound unbound_plan_def or_opt_def split: option.splits)
qed (simp add: classify_conflict_unbound)

theorem classification_precedence_witness:
  "cp_drafts (classify_conflict (demo_input demo_ev ProtectedPath LocalContentChanged)) = []
   \<and> cp_cursor_gate (classify_conflict (demo_input demo_ev ProtectedPath LocalContentChanged)) = GateNeedsReconcile"
  using classification_precedence [of "demo_input demo_ev ProtectedPath LocalContentChanged"]
  by (simp add: demo_input_def)

text \<open>
  What a plan publishes fits its cursor gate. The cursor may advance on verification alone
  exactly for a verified no-op, which publishes nothing; a plan that lets the cursor advance after
  its publications has only local ones; a blocked change of an existing remote item is always last
  and holds the cursor; a base is published only right after the content it belongs to; no plan
  asks for the same publication twice.
\<close>

theorem plan_discipline:
  "(cp_cursor_gate (classify_conflict input) = ExactVerification
      \<longleftrightarrow> cp_outcome (classify_conflict input) = NoOpVerified)
   \<and> (cp_cursor_gate (classify_conflict input) = ExactVerification \<longrightarrow> cp_drafts (classify_conflict input) = [])
   \<and> (cp_cursor_gate (classify_conflict input) = AllLocalPublications \<longrightarrow>
        cp_drafts (classify_conflict input) \<in> {[DraftLocalContentPublish], [DraftConflictCopyPublish],
          [DraftLocalContentPublish, DraftBasePublish]})
   \<and> (DraftRemoteExistingBlocked \<in> set (cp_drafts (classify_conflict input)) \<longrightarrow>
        cp_cursor_gate (classify_conflict input) = GateNeedsReconcile
        \<and> last (cp_drafts (classify_conflict input)) = DraftRemoteExistingBlocked)
   \<and> (DraftBasePublish \<in> set (cp_drafts (classify_conflict input)) \<longrightarrow>
        take 2 (cp_drafts (classify_conflict input))
          \<in> {[DraftLocalContentPublish, DraftBasePublish], [DraftMergePublish, DraftBasePublish]})
   \<and> distinct (cp_drafts (classify_conflict input))"
  using disciplined_unbound [of "ci_boundary input" "ci_replay input" "ci_case input"]
  unfolding disciplined_def classify_conflict_unbound bind_evidence_fields .

theorem plan_discipline_witness:
  "cp_drafts (classify_conflict (demo_input demo_ev Approved LocalContentChanged)) = [DraftRemoteExistingBlocked]
   \<and> cp_cursor_gate (classify_conflict (demo_input demo_ev Approved LocalContentChanged)) = GateNeedsReconcile"
proof -
  have "cp_drafts (classify_conflict (demo_input demo_ev Approved LocalContentChanged)) = [DraftRemoteExistingBlocked]"
    by code_simp
  then show ?thesis using plan_discipline [of "demo_input demo_ev Approved LocalContentChanged"] by simp
qed

text \<open>
  C29: the cursor advances on verification alone only with proof. An accepted input whose plan has
  the gate \<open>ExactVerification\<close> passed the boundary and either replays a durable, verified outcome
  of the very state version, identity and contents at hand, or states a double deletion, a same
  rename or a same move whose proof was sealed for this identity.
\<close>

theorem cursor_advance_needs_proof:
  assumes input: "conflict_input_new L ev b r c = Inr input"
    and gate: "cp_cursor_gate (classify_conflict input) = ExactVerification"
  shows "b = Approved \<and> cp_drafts (classify_conflict input) = []
    \<and> ((\<exists>p. r = VerifiedAppliedExactPostState p \<and> rp_operation_kind p \<noteq> ConflictCopyPublish
          \<and> rp_disposition p = DispVerifiedAppliedExactPostState
          \<and> rp_state_version p = cf_durable_state_version (cv_facts ev)
          \<and> snapshot_identity_matches (cv_facts ev) p \<and> snapshot_tuple_matches (cv_facts ev) p
          \<and> exact_post_state_matches (cv_facts ev) p)
       \<or> r = Fresh
         \<and> (c = BothDeleted DeletedVerified \<and> cv_verified_deleted_final_state ev
            \<or> c = SameExactRename \<and> semantic_target_matches (cv_verified_same_rename ev) (cv_facts ev)
            \<or> c = SameExactMove \<and> semantic_target_matches (cv_verified_same_move ev) (cv_facts ev)))"
proof -
  have valid: "validate_classification_evidence L ev b r c = Inr ()"
    and input': "ci_boundary input = b" "ci_replay input = r" "ci_case input = c"
    using input by (auto simp: conflict_input_new_Inr)
  have plan: "cp_cursor_gate (unbound_plan b r c) = ExactVerification"
    using gate by (simp add: classify_conflict_unbound input')
  have b: "b = Approved"
  proof (rule ccontr)
    assume "b \<noteq> Approved"
    then obtain p where "classify_boundary b = Some p" using classify_boundary_None by blast
    then show False using plan boundary_no_drafts [of b p] by (simp add: unbound_plan_def)
  qed
  note valid' = validated_approved [OF valid [unfolded b]]
  have drafts: "cp_drafts (classify_conflict input) = []"
    using disciplined_unbound [of b r c] plan by (simp add: classify_conflict_unbound input' disciplined_def)
  show ?thesis
  proof (cases "r = Fresh")
    case True
    then have "cp_cursor_gate (classify_fresh_case c) = ExactVerification" using plan b by (simp add: unbound_plan_def)
    then have "c \<in> {BothDeleted DeletedVerified, SameExactRename, SameExactMove}"
      by (cases c) (auto simp: plan_defs split: if_splits deleted_final_state_proof.splits)
    then show ?thesis using True b drafts valid'(7) by (auto simp: semantic_proof_missing_def)
  next
    case False
    then obtain q where q: "classify_replay r = Some q" using classify_replay_None by blast
    then have "cp_cursor_gate q = ExactVerification" using plan b by (simp add: unbound_plan_def)
    then obtain p where p: "r = VerifiedAppliedExactPostState p" "rp_operation_kind p \<noteq> ConflictCopyPublish"
      using q by (cases r) (auto simp: plan_defs split: if_splits)
    note proof_facts = validate_replay_proof_Inr [OF valid'(1), unfolded p, of p, simplified]
    show ?thesis
      using p b drafts proof_facts by (auto simp: version_matches_def replay_snapshot_matches_def Let_def)
  qed
qed

theorem cursor_advance_needs_proof_witness:
  "cp_cursor_gate (classify_conflict (demo_input demo_deleted Approved (BothDeleted DeletedVerified))) = ExactVerification
   \<and> cv_verified_deleted_final_state demo_deleted"
proof -
  have gate: "cp_cursor_gate (classify_conflict (demo_input demo_deleted Approved (BothDeleted DeletedVerified))) = ExactVerification"
    by code_simp
  then show ?thesis using cursor_advance_needs_proof [OF demo_accepted(3) gate] by simp
qed

text \<open>
  C30: nothing a user wrote is dropped. For every accepted fresh input, when the case knows the local
  content and it differs from the base then the plan retains the local bytes, and likewise for the
  remote content.
\<close>

theorem changed_content_is_retained:
  assumes "conflict_input_fresh L ev c = Inr input"
  shows "(need_local (required_content_of c) \<and> cf_local (cv_facts ev) \<noteq> cf_base (cv_facts ev) \<longrightarrow>
      LocalBytes \<in> set (cp_retained (classify_conflict input)))
    \<and> (need_remote (required_content_of c) \<and> cf_remote (cv_facts ev) \<noteq> cf_base (cv_facts ev) \<longrightarrow>
      RemoteBytes \<in> set (cp_retained (classify_conflict input)))"
proof -
  have valid: "validate_classification_evidence L ev Approved Fresh c = Inr ()"
    and input: "ci_boundary input = Approved" "ci_replay input = Fresh" "ci_case input = c"
    using assms by (auto simp: conflict_input_fresh_def conflict_input_new_Inr)
  have "case_content_valid (cv_facts ev) c" using validated_approved(6) [OF valid] by simp
  then show ?thesis
    by (cases c) (auto simp: classify_conflict_unbound input unbound_plan_def plan_defs split: if_splits)
qed

theorem changed_content_is_retained_witness:
  "{LocalBytes, RemoteBytes} \<subseteq> set (cp_retained (classify_conflict (demo_input demo_ev Approved OverlappingTextChanges)))"
proof -
  have "cf_local (cv_facts demo_ev) \<noteq> cf_base (cv_facts demo_ev)" "cf_remote (cv_facts demo_ev) \<noteq> cf_base (cv_facts demo_ev)"
    by code_simp+
  then show ?thesis
    using changed_content_is_retained [of demo_libs demo_ev OverlappingTextChanges] demo_accepted(1)
    by (simp add: conflict_input_fresh_def)
qed

text \<open>The drafts that publish content in the vault.\<close>

definition content_drafts :: "conflict_draft set" where
  "content_drafts = {DraftLocalContentPublish, DraftMergePublish, DraftConflictCopyPublish, DraftBasePublish}"

text \<open>What the retry of an operation verified as not applied publishes, and the kind of that operation.\<close>

definition retry_publishes :: "verified_not_applied_retry \<Rightarrow> conflict_draft list \<Rightarrow> mutation_operation_kind \<Rightarrow> bool" where
  "retry_publishes t ds k = (t = RetryGuardedLocalReplace \<and> ds = [DraftLocalContentPublish] \<and> k = LocalPublish
     \<or> t = RetryGuardedConflictCopy \<and> ds = [DraftConflictCopyPublish] \<and> k = ConflictCopyPublish)"

lemma replay_content_drafts:
  assumes valid: "validate_replay_proof ev r = Inr ()" and plan: "classify_replay r = Some plan"
    and drafts: "set (cp_drafts plan) \<inter> content_drafts \<noteq> {}"
  shows "\<exists>p t. r = ReplayVerifiedNotApplied p t \<and> retry_publishes t (cp_drafts plan) (rp_operation_kind p)
    \<and> rp_disposition p = DispVerifiedNotApplied \<and> cf_prior_operation_id (cv_facts ev) = Some (rp_operation_id p)
    \<and> rp_state_version p = cf_durable_state_version (cv_facts ev) \<and> snapshot_identity_matches (cv_facts ev) p
    \<and> rp_expected_local_content p = cf_remote (cv_facts ev)"
proof (cases r)
  case (ReplayVerifiedNotApplied p t)
  then have plan: "plan = classify_not_applied t" using plan by simp
  have t: "t = RetryGuardedLocalReplace \<or> t = RetryGuardedConflictCopy"
    using drafts plan by (cases t) (auto simp: plan_defs content_drafts_def)
  have "replay_expectation r = Some (p, DispVerifiedNotApplied)" by (simp add: ReplayVerifiedNotApplied)
  note v = validate_replay_proof_Inr [OF valid this, unfolded ReplayVerifiedNotApplied]
  have "retry_publishes t (cp_drafts plan) (rp_operation_kind p)"
    using t v(4) by (auto simp: retry_publishes_def plan plan_defs)
  moreover have "snapshot_identity_matches (cv_facts ev) p" "snapshot_tuple_matches (cv_facts ev) p"
    using v(1, 3) by (simp_all add: replay_snapshot_matches_def Let_def)
  ultimately show ?thesis using v ReplayVerifiedNotApplied
    by (auto simp: version_matches_def snapshot_tuple_matches_def snapshot_payload_matches_def retry_publishes_def)
qed (use plan drafts in \<open>auto simp: plan_defs split: if_splits\<close>)

text \<open>
  C31: no publication without its guard, whatever input the validation accepts. A plan that publishes
  content has passed the boundary, and then there are two ways. The case is fresh, and the guarded
  capability it carries, if it carries one, is available. Or the plan retries a guarded replace or a
  guarded conflict copy (whose capability the retry assessment states): then it publishes exactly
  that, on the proof that the prior operation, of that kind, over this very identity, state version
  and remote content, was verified as not applied. A fresh, approved case whose capability is
  unavailable or unknown publishes nothing and is left to reconciliation; and a local rename or move
  is drafted only when the accepted evidence holds a valid target whose collision key is free.
\<close>

theorem publication_needs_its_guard:
  assumes "conflict_input_new L ev b r c = Inr input"
  shows "(set (cp_drafts (classify_conflict input)) \<inter> content_drafts \<noteq> {} \<longrightarrow> b = Approved
      \<and> (r = Fresh \<and> case_capability c \<notin> {Some CapabilityUnavailable, Some CapabilityUnknown}
         \<or> (\<exists>p t. r = ReplayVerifiedNotApplied p t
              \<and> retry_publishes t (cp_drafts (classify_conflict input)) (rp_operation_kind p)
              \<and> rp_disposition p = DispVerifiedNotApplied
              \<and> cf_prior_operation_id (cv_facts ev) = Some (rp_operation_id p)
              \<and> rp_state_version p = cf_durable_state_version (cv_facts ev)
              \<and> snapshot_identity_matches (cv_facts ev) p
              \<and> rp_expected_local_content p = cf_remote (cv_facts ev))))
    \<and> (b = Approved \<and> r = Fresh \<and> case_capability c \<in> {Some CapabilityUnavailable, Some CapabilityUnknown} \<longrightarrow>
      cp_drafts (classify_conflict input) = [] \<and> cp_outcome (classify_conflict input) = NeedsReconcile
      \<and> cp_cursor_gate (classify_conflict input) = GateNeedsReconcile)
    \<and> (set (cp_drafts (classify_conflict input)) \<inter> metadata_drafts \<noteq> {} \<longrightarrow>
      (\<exists>t. cf_guarded_metadata_target (cv_facts ev) = Some t
        \<and> is_exact_content_path L (gt_portable_path t) \<and> is_remote_id (gt_parent_id t)
        \<and> normalized_collision_key L (gt_portable_path t) = Inr (gt_normalized_collision_key t)
        \<and> gt_normalized_collision_key t \<notin> set (gt_occupied_collision_keys t)))"
    (is "(?content \<longrightarrow> ?b \<and> ?guard) \<and> (?none \<longrightarrow> ?rest) \<and> (?meta \<longrightarrow> ?target)")
proof -
  have valid: "validate_classification_evidence L ev b r c = Inr ()"
    and input: "ci_boundary input = b" "ci_replay input = r" "ci_case input = c"
    using assms by (auto simp: conflict_input_new_Inr)
  note plan = classify_conflict_unbound [of input, unfolded input]
  have approved: "b = Approved" if "d \<in> set (cp_drafts (classify_conflict input))" for d
    using that boundary_no_drafts [of b] classify_boundary_None [of b] by (fastforce simp: plan unbound_plan_def)
  have none: "?none \<longrightarrow> ?rest"
    using no_capability_no_drafts [of c] by (auto simp: plan unbound_plan_def)
  have content: "?guard" if d: "?content"
  proof -
    have b: "b = Approved" using d approved by blast
    show ?thesis
    proof (cases "classify_replay r")
      case None
      then have "r = Fresh" by (simp add: classify_replay_None)
      then show ?thesis using d b none by auto
    next
      case (Some q)
      have "cp_drafts (classify_conflict input) = cp_drafts q" using b Some by (simp add: plan unbound_plan_def)
      then show ?thesis
        using replay_content_drafts [OF validated_approved(1) [OF valid [unfolded b]] Some] d by presburger
    qed
  qed
  have meta: "?target" if d: "?meta"
  proof -
    have b: "b = Approved" using d approved by blast
    have r: "classify_replay r = None"
      using d replay_no_metadata_drafts [of r] by (cases "classify_replay r") (auto simp: plan unbound_plan_def b)
    then have guarded: "case_requires_guarded_target c"
      using d metadata_draft_guarded by (auto simp: plan unbound_plan_def b)
    note v = validated_approved(2, 3) [OF valid [unfolded b]]
    obtain t where t: "cf_guarded_metadata_target (cv_facts ev) = Some t" using v(2) guarded by auto
    have "\<not> guarded_target_invalid L t" using v(1) t by simp
    then show ?thesis using t by (auto simp: guarded_target_invalid_def list_ex_iff)
  qed
  show ?thesis using content none meta approved by blast
qed

text \<open>A retry whose case names an unavailable capability: the retry assessment decides, not the case.\<close>

definition demo_retry_proof :: replay_proof where
  "demo_retry_proof = \<lparr>rp_operation_id = 7, rp_state_version = 3, rp_outcome_fingerprint = replicate 64 CHR ''f'',
     rp_disposition = DispVerifiedNotApplied, rp_operation_kind = LocalPublish,
     rp_intent_fingerprint = replicate 64 CHR ''e'', rp_account_id = Some ''acct'', rp_remote_root_id = Some ''root'',
     rp_object_identity = Some ''object'', rp_identity_path = Some ''notes/a.md'', rp_target_parent_id = Some ''parent'',
     rp_base_sha256 = Some (replicate 64 CHR ''a''), rp_base_byte_length = Some 10,
     rp_expected_local_content = Some (demo_fp CHR ''c''), rp_expected_remote_content = None,
     rp_local_revision = Some (replicate 64 CHR ''d''), rp_remote_revision = Some ''rev''\<rparr>"

definition demo_retry_ev :: classification_evidence where
  "demo_retry_ev = classification_evidence_new (demo_facts\<lparr>cf_prior_operation_id := Some 7,
     cf_prior_outcome_fingerprint := Some (replicate 64 CHR ''f''),
     cf_prior_intent_fingerprint := Some (replicate 64 CHR ''e''),
     cf_prior_replay_disposition := Some DispVerifiedNotApplied\<rparr>)"

definition demo_retry_input :: conflict_input where
  "demo_retry_input = \<lparr>ci_evidence = demo_retry_ev, ci_boundary = Approved,
     ci_replay = ReplayVerifiedNotApplied demo_retry_proof RetryGuardedLocalReplace,
     ci_case = RemoteContentChanged CapabilityUnavailable\<rparr>"

lemma demo_retry_accepted:
  "conflict_input_new demo_libs demo_retry_ev Approved
     (ReplayVerifiedNotApplied demo_retry_proof RetryGuardedLocalReplace) (RemoteContentChanged CapabilityUnavailable)
     = Inr demo_retry_input"
  "cp_drafts (classify_conflict demo_retry_input) = [DraftLocalContentPublish]"
  by code_simp+

theorem publication_needs_its_guard_witness:
  "GuardedLocalRename \<in> set (cp_drafts (classify_conflict
      (demo_input demo_ev Approved (LocalEditedRemoteRename ExactIdentityLineageAndNoCollision))))
   \<and> normalized_collision_key demo_libs ''notes/b.md'' = Inr (gt_normalized_collision_key demo_target)
   \<and> cp_drafts (classify_conflict demo_retry_input) = [DraftLocalContentPublish]
   \<and> rp_expected_local_content demo_retry_proof = cf_remote (cv_facts demo_retry_ev)"
proof -
  have "GuardedLocalRename \<in> set (cp_drafts (classify_conflict
      (demo_input demo_ev Approved (LocalEditedRemoteRename ExactIdentityLineageAndNoCollision))))"
    by code_simp
  moreover have "cf_guarded_metadata_target (cv_facts demo_ev) = Some demo_target" "gt_portable_path demo_target = ''notes/b.md''"
    by (simp_all add: demo_ev_def classification_evidence_new_def demo_facts_def demo_target_def)
  moreover have "rp_expected_local_content demo_retry_proof = cf_remote (cv_facts demo_retry_ev)"
    using publication_needs_its_guard [OF demo_retry_accepted(1)] demo_retry_accepted(2)
    by (auto simp: content_drafts_def)
  ultimately show ?thesis
    using publication_needs_its_guard [OF demo_accepted(2)] demo_retry_accepted(2) by (auto simp: metadata_drafts_def)
qed

section \<open>Sealed evidence\<close>

text \<open>
  The fields of \<open>ClassificationEvidence\<close> are private: a value is built by \<open>new\<close> and the four
  \<open>verify_*\<close> operations only.
\<close>

inductive sealed_evidence :: "libs \<Rightarrow> classification_evidence \<Rightarrow> bool" for L where
  new: "sealed_evidence L (classification_evidence_new facts)"
| merge: "sealed_evidence L ev \<Longrightarrow> verify_markdown_merge L ev base local remote = Inr ev' \<Longrightarrow> sealed_evidence L ev'"
| deleted: "sealed_evidence L ev \<Longrightarrow> verify_deleted_final_state ev a r i v ld rd = Inr ev' \<Longrightarrow> sealed_evidence L ev'"
| rename: "sealed_evidence L ev \<Longrightarrow> verify_same_rename L ev a r i v lp rp = Inr ev' \<Longrightarrow> sealed_evidence L ev'"
| move: "sealed_evidence L ev \<Longrightarrow> verify_same_move ev a r i v lp rp = Inr ev' \<Longrightarrow> sealed_evidence L ev'"

definition merge_proven :: "libs \<Rightarrow> classification_evidence_facts \<Rightarrow> content_fingerprint \<Rightarrow> bool" where
  "merge_proven L facts f =
     (\<exists>base local remote m. cf_base facts = Some (fingerprint_bytes L base)
        \<and> cf_local facts = Some (fingerprint_bytes L local) \<and> cf_remote facts = Some (fingerprint_bytes L remote)
        \<and> merge_markdown_three_way L base local remote = Merged m \<and> f = fingerprint_bytes L (mm_content m))"

lemma merged_fingerprint:
  assumes "merge_markdown_three_way L base local remote = Merged m"
  shows "\<lparr>fp_sha256 = mm_sha256 m, fp_byte_length = mm_byte_length m\<rparr> = fingerprint_bytes L (mm_content m)"
proof (rule merge_Merged [OF assms])
  fix b l r assume "merge_parsed L b l r = Merged m"
  then show ?thesis by (rule merge_parsed_Merged) (metis fingerprint_bytes_def merged_markdown.select_convs(2, 3))
qed

lemma verify_markdown_merge_Inr:
  assumes "verify_markdown_merge L ev base local remote = Inr ev'"
  shows "\<exists>f. merge_proven L (cv_facts ev) f \<and> ev' = ev\<lparr>cv_verified_markdown_merge := Some f\<rparr>"
  using assms merged_fingerprint [of L base local remote]
  by (fastforce simp: verify_markdown_merge_def merge_proven_def split: if_splits markdown_merge_outcome.splits)

lemma remote_id_nonempty: "is_remote_id s \<Longrightarrow> s \<noteq> []"
  by (auto simp: is_remote_id_def)

lemma exact_path_nonempty: "is_exact_content_path L s \<Longrightarrow> s \<noteq> []"
  by (auto simp: is_exact_content_path_iff canonical_path_def canonical_component_def)

text \<open>
  Sealed evidence means what it says. A sealed merge fingerprint is the fingerprint of the
  actual three-way merge of contents that have the recorded base, local and remote fingerprints; a
  sealed rename or move target is bound to this account, root, object and state version and is a
  valid path or parent identifier; a sealed double deletion names its object.
\<close>

theorem sealed_evidence_is_bound:
  assumes "sealed_evidence L ev"
  shows "(\<forall>f. cv_verified_markdown_merge ev = Some f \<longrightarrow> merge_proven L (cv_facts ev) f)
    \<and> (\<forall>t. cv_verified_same_rename ev = Some t \<longrightarrow>
         semantic_target_matches (Some t) (cv_facts ev) \<and> is_exact_content_path L (vt_target t))
    \<and> (\<forall>t. cv_verified_same_move ev = Some t \<longrightarrow>
         semantic_target_matches (Some t) (cv_facts ev) \<and> is_remote_id (vt_target t))
    \<and> (cv_verified_deleted_final_state ev \<longrightarrow> cf_object_identity (cv_facts ev) \<noteq> None)"
  using assms
proof (induction rule: sealed_evidence.induct)
  case (merge ev base local remote ev')
  then show ?case using verify_markdown_merge_Inr [OF merge.hyps(2)] by auto
next
  case (rename ev a r i v lp rp ev')
  then show ?case
    by (auto simp: verify_same_rename_def identity_matches_def semantic_target_matches_def exact_path_nonempty
        split: if_splits)
next
  case (move ev a r i v lp rp ev')
  then show ?case
    by (auto simp: verify_same_move_def identity_matches_def semantic_target_matches_def remote_id_nonempty
        split: if_splits)
qed (auto simp: classification_evidence_new_def verify_deleted_final_state_def identity_matches_def
    split: if_splits)

definition demo_merge_ev :: classification_evidence where
  "demo_merge_ev = classification_evidence_new (demo_facts\<lparr>cf_base := Some (fingerprint_bytes demo_libs demo_base),
     cf_local := Some (fingerprint_bytes demo_libs demo_local), cf_remote := Some (fingerprint_bytes demo_libs demo_remote)\<rparr>)"

theorem sealed_evidence_is_bound_witness:
  "\<exists>ev f. verify_markdown_merge demo_libs demo_merge_ev demo_base demo_local demo_remote = Inr ev
    \<and> cv_verified_markdown_merge ev = Some f \<and> merge_proven demo_libs (cv_facts ev) f"
proof -
  have facts: "cf_base (cv_facts demo_merge_ev) = Some (fingerprint_bytes demo_libs demo_base)"
    "cf_local (cv_facts demo_merge_ev) = Some (fingerprint_bytes demo_libs demo_local)"
    "cf_remote (cv_facts demo_merge_ev) = Some (fingerprint_bytes demo_libs demo_remote)"
    by (simp_all add: demo_merge_ev_def classification_evidence_new_def)
  obtain m where "merge_markdown_three_way demo_libs demo_base demo_local demo_remote = Merged m"
    using demo_merge by blast
  then obtain ev where ev: "verify_markdown_merge demo_libs demo_merge_ev demo_base demo_local demo_remote = Inr ev"
    by (simp add: verify_markdown_merge_def facts)
  moreover from this obtain f where f: "cv_verified_markdown_merge ev = Some f"
    using verify_markdown_merge_Inr [OF ev] by auto
  moreover have "sealed_evidence demo_libs ev"
    using sealed_evidence.merge [OF _ ev] by (simp add: demo_merge_ev_def sealed_evidence.new)
  ultimately show ?thesis using sealed_evidence_is_bound [of demo_libs ev] by blast
qed

end
