(* ===== verification/Replay_Properties.thy ===== *)
theory Replay_Properties
  imports Conflict_Classifier Ledger_Properties
begin

text \<open>
  The replay proofs of the classifier against the rows of the mutation ledger: which rows of a
  reachable ledger can be sealed as a replay proof, and with which disposition.
\<close>

section \<open>Rows that an outcome left\<close>

definition outcome_ok :: "libs \<Rightarrow> ledger \<Rightarrow> mutation_state \<Rightarrow> bool" where
  "outcome_ok L g s =
     (st_phase s \<in> {NeedsReconcilePhase, Completed} \<longrightarrow>
      (\<exists>e. outcome_row s e \<and> load_evidence g (ev_evidence_id e) = Some e
         \<and> ev_evidence_fingerprint e = evidence_fingerprint L e))"

lemma outcome_ok_mono: "extends g g' \<Longrightarrow> outcome_ok L g s \<Longrightarrow> outcome_ok L g' s"
  unfolding outcome_ok_def extends_def by blast

lemma validate_mutation_evidence_seal:
  "validate_mutation_evidence L e = Inr u \<Longrightarrow> ev_evidence_fingerprint e = evidence_fingerprint L e"
  by (auto simp: validate_mutation_evidence_def split: if_splits)

lemma advance_outcome_ok:
  assumes "successor g s nxt [e] m" "outcome_row nxt e" "ev_evidence_fingerprint e = evidence_fingerprint L e"
  shows "outcome_ok L (advance g nxt [e] m) nxt"
  using assms(2, 3) advance_load_evidence [OF assms(1)] unfolding outcome_ok_def by auto

lemma record_mutation_outcome_row:
  assumes "record_mutation_outcome L op v e t g = Inr (nxt, g')"
  shows "outcome_row nxt e" "validate_mutation_evidence L e = Inr ()"
proof -
  obtain s ph d na rm rr where "load_mutation_state g op = Some s"
    and e: "ev_operation_id e = op" "validate_mutation_evidence L e = Inr ()"
    and tt: "transition_target (st_phase s) e t = Inr (ph, d, na, rm, rr)"
    and nxt: "nxt = \<lparr>st_operation_id = op, st_phase = ph, st_attempt_number = st_attempt_number s,
       st_state_version = st_state_version s + 1, st_disposition = Some d,
       st_next_attempt_at_unix_ms = na, st_retry_mode = rm, st_resume_reference = rr,
       st_last_evidence_id = Some (ev_evidence_id e), st_outcome_code = ev_outcome_code e,
       st_updated_at_unix_ms = ev_captured_at_unix_ms e\<rparr>"
    using assms by (auto simp: record_mutation_outcome_def Let_def split: if_splits)
  show "validate_mutation_evidence L e = Inr ()" by fact
  show "outcome_row nxt e" using e nxt transition_target_Inr(4) [OF tt] by (auto simp: outcome_row_def)
qed

text \<open>What one call leaves: each row is an old one or accounts for its outcome.\<close>

definition rows_accounted :: "libs \<Rightarrow> ledger \<Rightarrow> ledger \<Rightarrow> bool" where
  "rows_accounted L g g' =
     (\<forall>u s. load_mutation_state g' u = Some s \<longrightarrow> load_mutation_state g u = Some s \<or> outcome_ok L g' s)"

lemma advance_accounted:
  assumes "successor g s nxt es m" "outcome_ok L (advance g nxt es m) nxt"
  shows "rows_accounted L g (advance g nxt es m)"
  using assms(2) advance_load_state [OF assms(1)] by (auto simp: rows_accounted_def)

lemma rows_accounted_trans:
  assumes "rows_accounted L g g1" "rows_accounted L g1 g2" "extends g1 g2"
  shows "rows_accounted L g g2"
  using assms outcome_ok_mono unfolding rows_accounted_def by blast

lemma recover_each_accounted:
  assumes "ledger_inv L g" "recover_each L fresh ss g = Inr g'"
    and "distinct (map st_operation_id ss)"
    and "\<forall>s \<in> set ss. load_mutation_state g (st_operation_id s) = Some s"
  shows "rows_accounted L g g'"
  using assms
proof (induction ss arbitrary: g)
  case Nil
  then show ?case by (simp add: rows_accounted_def)
next
  case (Cons s ss)
  obtain g1 where g1: "recover_one L fresh s g = Inr g1" "recover_each L fresh ss g1 = Inr g'"
    using Cons.prems(2) by auto
  have row: "load_mutation_state g (st_operation_id s) = Some s" using Cons.prems(4) by simp
  obtain nxt e m where suc: "successor g s nxt [e] m" and adv: "g1 = advance g nxt [e] m"
    and "st_phase nxt = NeedsReconcilePhase" and "plain_row nxt"
    and "ev_evidence_id e = fresh (st_operation_id s)"
    and out: "outcome_row nxt e" "ev_evidence_fingerprint e = evidence_fingerprint L e"
    by (rule recover_one_Inr [OF Cons.prems(1) g1(1) row])
  have inv1: "ledger_inv L g1" using recover_one_inv [OF Cons.prems(1) g1(1) row] .
  have rest: "\<forall>r \<in> set ss. load_mutation_state g1 (st_operation_id r) = Some r" "distinct (map st_operation_id ss)"
    using Cons.prems(3, 4) advance_load_state [OF suc] by (auto simp: adv image_iff)
  have "rows_accounted L g g1"
    unfolding adv by (rule advance_accounted [OF suc advance_outcome_ok [OF suc out]])
  moreover have "extends g1 g'"
    using recover_each_Inr [OF inv1 g1(2) rest(2, 1)] by (simp add: recovered_def)
  ultimately show ?case
    using Cons.IH [OF inv1 g1(2) rest(2, 1)] rows_accounted_trans by blast
qed

lemma register_accounted:
  assumes inv: "ledger_inv L g" and reg: "register_mutation_intent L i ev g = Inr (out, g')"
  shows "rows_accounted L g g'"
proof (cases "g' = g")
  case True
  then show ?thesis by (simp add: rows_accounted_def)
next
  case False
  note pre = register_preconditions_Inr [OF register_mutation_intent_Inr(1) [OF reg]]
  obtain m where new: "load_intent g (mi_operation_id i) = None"
      "\<not> mutation_marker_exists g (mi_operation_marker i)"
    and m: "me_operation_id m = mi_operation_id i" "me_state_version m = 0" "me_phase m = IntentDurable"
    and g': "case ev of None \<Rightarrow> g' = enrolled g i m | Some e \<Rightarrow> register_blocked (enrolled g i m) i e = Inr g'"
    using register_mutation_intent_Inr(2) [OF reg] False by auto
  have core: "ledger_core L (enrolled g i m)"
    using ledger_core_enrolled [OF ledger_invD(2) [OF inv] new pre(1) m] .
  have "load_mutation_state g (mi_operation_id i) = None"
    using ledger_keys_states(2) [OF ledger_invD(1) [OF inv]] new by simp
  note load = enrolled_load_state [OF this, of m]
  have first: "rows_accounted L g (enrolled g i m)"
    by (auto simp: rows_accounted_def load outcome_ok_def initial_state_def split: if_splits)
  show ?thesis
  proof (cases ev)
    case None
    then show ?thesis using first g' by simp
  next
    case (Some e)
    note e = pre(3) [OF Some]
    obtain nxt x where suc: "successor (enrolled g i m) (initial_state i) nxt [e] x"
      and adv: "g' = advance (enrolled g i m) nxt [e] x" and "st_phase nxt = NeedsReconcilePhase"
      and "plain_row nxt" and "st_operation_id nxt = mi_operation_id i" and "st_state_version nxt = 1"
      and out: "outcome_row nxt e"
      by (rule register_blocked_Inr [OF core])
        (use Some g' e in \<open>auto simp: load blocked_evidence_ok_def\<close>)
    have "rows_accounted L (enrolled g i m) g'"
      unfolding adv
      using e by (intro advance_accounted [OF suc advance_outcome_ok [OF suc out]] validate_mutation_evidence_seal) auto
    then show ?thesis using first rows_accounted_trans advance_extends adv by blast
  qed
qed

lemma ledger_step_accounted:
  assumes "ledger_step L g g'" "ledger_inv L g"
  shows "rows_accounted L g g'"
  using assms(1)
proof (cases rule: ledger_step.cases)
  case (register i ev out)
  then show ?thesis using register_accounted assms(2) by blast
next
  case (claim op v now s)
  obtain s0 m k where suc: "successor g s0 s [] m" and "g' = advance g s [] m" and "st_operation_id s0 = op"
    and "st_state_version s0 = v" and "st_phase s0 = IntentDurable" and "s = claimed_state s0 now"
    and "load_mutation_kind g op = Some k" "k \<noteq> RemoteExistingBlocked"
    by (rule claim_mutation_Inr [OF assms(2) claim])
  then show ?thesis using advance_accounted [OF suc] by (simp add: outcome_ok_def claimed_state_def)
next
  case (outcome op v e t s)
  note row = record_mutation_outcome_row [OF outcome]
  obtain s0 m where suc: "successor g s0 s [e] m" and g': "g' = advance g s [e] m" and "st_operation_id s0 = op"
    and "st_state_version s0 = v" "plain_row s" "st_last_evidence_id s = Some (ev_evidence_id e)"
    and "t = TransitionVerifiedApplied \<and> st_phase s0 \<in> {Running, NeedsReconcilePhase}
       \<and> st_phase s = Completed \<and> ev_disposition e = VerifiedApplied
       \<and> validate_verified_applied_evidence (load_intent g op) e = Inr ()
     \<or> t = TransitionNeedsReconcile \<and> st_phase s0 = Running \<and> st_phase s = NeedsReconcilePhase"
    by (rule record_mutation_outcome_Inr [OF assms(2) outcome])
  show ?thesis
    unfolding g'
    by (rule advance_accounted [OF suc advance_outcome_ok [OF suc row(1) validate_mutation_evidence_seal [OF row(2)]]])
next
  case (conflict c o')
  then have "lg_states g' = lg_states g" using record_conflict_evidence_Inr [OF conflict] by auto
  then show ?thesis by (simp add: rows_accounted_def load_mutation_state_def)
next
  case (recover fresh)
  then show ?thesis
    using recover_each_accounted [OF assms(2), of fresh "running_rows g" g']
      running_rows_props [OF ledger_invD(1) [OF assms(2)]]
    by (simp add: recover_interrupted_mutations_def running_rows_def)
qed

lemma reachable_outcome_ok:
  assumes "ledger_reachable L g" "load_mutation_state g u = Some s"
  shows "outcome_ok L g s"
  using assms
proof (induction arbitrary: s rule: ledger_reachable.induct)
  case start
  then show ?case by (simp add: empty_ledger_def load_mutation_state_def)
next
  case (step g g')
  note inv = ledger_reachable_inv [OF step.hyps(1)]
  consider "load_mutation_state g u = Some s" | "outcome_ok L g' s"
    using ledger_step_accounted [OF step.hyps(2) inv] step.prems unfolding rows_accounted_def by blast
  then show ?case
    using step.IH outcome_ok_mono [OF ledger_step_extends [OF step.hyps(2) inv]] by cases auto
qed

section \<open>Sealing a row\<close>

lemma intent_content_ok:
  assumes "validate_hash_size_pair sha len = Inr ()"
  shows "\<exists>f. intent_content_fingerprint sha len = Inr f"
  using assms
  by (auto simp: validate_hash_size_pair_def intent_content_fingerprint_def validate_revision_def
      is_lower_hex_hash_def is_lower_hex_64_def split: option.splits if_splits)

lemma valid_intent_seal:
  assumes "validate_mutation_intent L i = Inr ()"
  shows "mi_intent_fingerprint i = intent_fingerprint L i"
    "\<exists>f. intent_content_fingerprint (mi_expected_local_sha256 i) (mi_expected_local_byte_length i) = Inr f"
    "\<exists>f. intent_content_fingerprint (mi_expected_remote_sha256 i) (mi_expected_remote_byte_length i) = Inr f"
proof -
  have "mi_intent_fingerprint i = intent_fingerprint L i"
    "validate_hash_size_pair (mi_expected_local_sha256 i) (mi_expected_local_byte_length i) = Inr ()"
    "validate_hash_size_pair (mi_expected_remote_sha256 i) (mi_expected_remote_byte_length i) = Inr ()"
    using assms by (simp_all add: validate_mutation_intent_def split: if_splits)
  then show "mi_intent_fingerprint i = intent_fingerprint L i"
    "\<exists>f. intent_content_fingerprint (mi_expected_local_sha256 i) (mi_expected_local_byte_length i) = Inr f"
    "\<exists>f. intent_content_fingerprint (mi_expected_remote_sha256 i) (mi_expected_remote_byte_length i) = Inr f"
    using intent_content_ok by blast+
qed

text \<open>The post-state check of the classifier follows from the check of the ledger.\<close>

lemma or_opt_expected: "(or_opt x y \<noteq> None \<longrightarrow> z = or_opt x y) \<Longrightarrow> is_none_or x (\<lambda>v. z = Some v)"
  by (cases x) auto

lemma expected_match: "(x \<noteq> None \<longrightarrow> z = x) \<Longrightarrow> is_none_or x (\<lambda>v. z = Some v)"
  by (cases x) auto

lemma verified_applied_post_state:
  assumes "validate_verified_applied_evidence (Some i) e = Inr ()"
  shows "post_state_matches_intent i e"
  unfolding post_state_matches_intent_def
  by (intro conjI expected_match or_opt_expected [of _ "mi_source_parent_id i"] or_opt_expected [of _ "mi_source_path i"])
    (use assms in \<open>simp_all add: validate_verified_applied_evidence_def require_expected_match_Inr del: not_None_eq
       split: if_split_asm\<close>)

lemma from_r3_1_row:
  assumes "validate_mutation_intent L i = Inr ()" "mi_operation_id i = st_operation_id s"
    and "outcome_row s e" "ev_evidence_fingerprint e = evidence_fingerprint L e" "st_state_version s \<noteq> 0"
  shows "\<exists>local remote. from_r3_1 L i s e =
    and_then (replay_disposition_of i s e) (\<lambda>d.
      Inr (seal_replay_proof i (st_state_version s) (ev_evidence_fingerprint e) d local remote))"
proof -
  obtain local remote where
    "intent_content_fingerprint (mi_expected_local_sha256 i) (mi_expected_local_byte_length i) = Inr local"
    "intent_content_fingerprint (mi_expected_remote_sha256 i) (mi_expected_remote_byte_length i) = Inr remote"
    using valid_intent_seal(2, 3) [OF assms(1)] by blast
  then show ?thesis
    using assms valid_intent_seal(1) [OF assms(1)]
    by (intro exI [of _ local] exI [of _ remote]) (simp add: from_r3_1_def outcome_row_def)
qed

lemma from_r3_1_not_applied:
  assumes "from_r3_1 L i s e = Inr p" "rp_disposition p = DispVerifiedNotApplied"
  shows "st_phase s = NeedsReconcilePhase" "ev_disposition e = VerifiedNotApplied"
    "st_last_evidence_id s = Some (ev_evidence_id e)"
  using assms
  by (auto simp: from_r3_1_def replay_disposition_of_def seal_replay_proof_def
      split: if_splits mutation_disposition.splits)

section \<open>Property\<close>

text \<open>
  C28: what the classifier can replay from a reachable ledger. Every completed operation can be
  sealed as verified applied with its version; an operation to be reconciled can be sealed, as an
  unknown outcome, exactly when its last evidence was captured by a reconciliation; so a blocked
  operation, whose evidence is a preflight one, cannot. No row of any reachable ledger can be sealed
  as verified not applied: the replay branch of the classifier for it has no durable source.
\<close>

theorem replay_of_durable_rows:
  assumes reach: "ledger_reachable L g"
    and i: "load_intent g u = Some i" and s: "load_mutation_state g u = Some s"
    and e: "st_last_evidence_id s = Some w" "load_evidence g w = Some e"
  shows "(st_phase s = Completed \<longrightarrow> (\<exists>p. from_r3_1 L i s e = Inr p
        \<and> rp_disposition p = DispVerifiedAppliedExactPostState \<and> rp_operation_id p = u
        \<and> rp_state_version p = st_state_version s))
    \<and> (st_phase s = NeedsReconcilePhase \<longrightarrow>
        (if ev_capture_phase e = Reconcile
         then \<exists>p. from_r3_1 L i s e = Inr p \<and> rp_disposition p = DispSideEffectOutcomeUnknown
         else from_r3_1 L i s e = Inl UnsupportedDisposition))
    \<and> (\<forall>p. from_r3_1 L i s e = Inr p \<longrightarrow> rp_disposition p \<noteq> DispVerifiedNotApplied)"
proof -
  note inv = ledger_reachable_inv [OF reach]
  have valid: "validate_mutation_intent L i = Inr ()" and ids: "mi_operation_id i = u" "st_operation_id s = u"
    using inv load_intent_SomeD [OF i] ledger_invD(6) [OF inv s] by (auto simp: ledger_inv_def ledger_core_def)
  have life: "life_ok (mi_operation_kind i) (Some (st_phase s, st_state_version s))"
    using reachable_life_ok [OF reach, of u] i s by (simp add: load_mutation_kind_def life_of_def)
  have eid: "ev_evidence_id e = w" using load_evidence_SomeD [OF e(2)] by simp
  have row: "outcome_row s e \<and> ev_evidence_fingerprint e = evidence_fingerprint L e"
    if ph: "st_phase s \<in> {NeedsReconcilePhase, Completed}"
  proof -
    obtain e' where e': "outcome_row s e'" "load_evidence g (ev_evidence_id e') = Some e'"
      "ev_evidence_fingerprint e' = evidence_fingerprint L e'"
      using ph reachable_outcome_ok [OF reach s] unfolding outcome_ok_def by blast
    then have "ev_evidence_id e' = w" using e(1) by (simp add: outcome_row_def)
    then have "e' = e" using e'(2) e(2) by simp
    then show ?thesis using e'(1, 3) by blast
  qed
  have seal: "\<exists>local remote. from_r3_1 L i s e = and_then (replay_disposition_of i s e) (\<lambda>d.
      Inr (seal_replay_proof i (st_state_version s) (ev_evidence_fingerprint e) d local remote))"
    if "st_phase s \<in> {NeedsReconcilePhase, Completed}"
    using that row [OF that] life ids by (intro from_r3_1_row [OF valid]) (auto split: if_splits)
  have "ev_disposition e = VerifiedApplied \<and> validate_verified_applied_evidence (Some i) e = Inr ()"
    if "st_phase s = Completed"
  proof -
    have "proven_complete g s" using that ledger_invD(3) [OF inv s] by (simp add: state_ok_def)
    then obtain e' where "st_last_evidence_id s = Some (ev_evidence_id e')" "load_evidence g (ev_evidence_id e') = Some e'"
      "ev_disposition e' = VerifiedApplied" "validate_verified_applied_evidence (Some i) e' = Inr ()"
      using i ids unfolding proven_complete_def by auto
    moreover from this have "e' = e" using e by simp
    ultimately show ?thesis by blast
  qed
  then have applied: "replay_disposition_of i s e = Inr DispVerifiedAppliedExactPostState" if "st_phase s = Completed"
    using that verified_applied_post_state [of i e]
    by (auto simp: replay_disposition_of_def validate_verified_applied_evidence_def split: if_splits)
  have unknown: "replay_disposition_of i s e =
      (if ev_capture_phase e = Reconcile then Inr DispSideEffectOutcomeUnknown else Inl UnsupportedDisposition)"
    if "st_phase s = NeedsReconcilePhase"
    using that row by (auto simp: replay_disposition_of_def outcome_row_def)
  have "rp_disposition p \<noteq> DispVerifiedNotApplied" if "from_r3_1 L i s e = Inr p" for p
    using from_r3_1_not_applied [OF that] row by (auto simp: outcome_row_def)
  then show ?thesis
    using seal applied unknown ids by (auto simp: seal_replay_proof_def)
qed

theorem replay_of_durable_rows_witness:
  "\<exists>p. from_r3_1 demo_libs demo_intent (demo_state Completed 2 300 (Some VerifiedApplied) (Some 9)) demo_evidence = Inr p
    \<and> rp_disposition p = DispVerifiedAppliedExactPostState \<and> rp_operation_id p = 7"
proof -
  have "load_intent demo_completed 7 = Some demo_intent"
    "load_mutation_state demo_completed 7 = Some (demo_state Completed 2 300 (Some VerifiedApplied) (Some 9))"
    "load_evidence demo_completed 9 = Some demo_evidence"
    by (simp_all add: load_intent_def load_evidence_def load_mutation_state_def demo_rows)
  from replay_of_durable_rows [OF demo_reachable(3) this(1, 2) _ this(3)]
  show ?thesis by (auto simp: demo_state_def)
qed

end
