(* ===== verification/Materialization.thy ===== *)
theory Materialization
  imports Conflict_Classifier
begin

text \<open>
  \<open>conflict/materialization.rs\<close>: from a classification to immutable operation drafts, their cursor
  and execution dependencies, and the durable mutation intents. The panic of
  \<open>ConflictPlan::evidence\<close> on an unbound plan is the failure \<open>UnboundPlanPanic\<close>.
\<close>

section \<open>Data\<close>

record publication_source =
  ps_portable_path :: string
  ps_parent_id :: string
  ps_object_id :: string
  ps_revision :: "string option"
  ps_content :: content_fingerprint

record publication_target =
  pt_portable_path :: string
  pt_parent_id :: string
  pt_object_id :: "string option"

record materialization_context =
  mc_account_id :: string
  mc_remote_root_id :: string
  mc_base_reference :: "string option"
  mc_durable_state_version :: u64
  mc_base_local_revision :: "string option"
  mc_base_remote_revision :: "string option"
  mc_base :: "publication_source option"
  mc_local :: "publication_source option"
  mc_remote :: "publication_source option"
  mc_local_target :: publication_target
  mc_conflict_copy_destination_parent_path :: "string option"
  mc_occupied_conflict_copies :: "occupied_conflict_copy list"
  mc_rename_target :: "publication_target option"
  mc_blocked_remote_source :: "publication_source option"
  mc_blocked_remote_destination :: "publication_target option"
  mc_merged_content :: "content_fingerprint option"

datatype local_plan_kind =
    PlanLocalPublish
  | PlanMergePublish
  | PlanConflictCopyPublish
  | PlanConflictCopyReuseVerified
  | PlanBasePublish
  | PlanRemoteExistingBlocked
  | PlanGuardedLocalRename
  | PlanGuardedLocalMove
  | PlanGuardedLocalRenameMove

record materialization_draft =
  md_operation_id :: uuid
  md_kind :: local_plan_kind
  md_durable_operation_kind :: "mutation_operation_kind option"
  md_source :: "publication_source option"
  md_destination :: "publication_target option"
  md_expected_content :: "content_fingerprint option"
  md_operation_marker :: string

record publication_order_dependency =
  po_operation_id :: uuid
  po_prerequisites :: "uuid list"

record materialization_plan =
  mp_conflict_id :: string
  mp_cell :: conflict_cell
  mp_outcome :: conflict_outcome
  mp_cursor_gate :: cursor_gate
  mp_retained :: "retained_evidence list"
  mp_classification_evidence :: classification_evidence
  mp_account_id :: string
  mp_remote_root_id :: string
  mp_base_reference :: "string option"
  mp_durable_state_version :: u64
  mp_base_local_revision :: "string option"
  mp_base_remote_revision :: "string option"
  mp_base :: "publication_source option"
  mp_local :: "publication_source option"
  mp_remote :: "publication_source option"
  mp_drafts :: "materialization_draft list"
  mp_cursor_dependencies :: "change_batch_dependency list"
  mp_execution_dependencies :: "publication_order_dependency list"

datatype materialization_failure =
    MaterializationInvalidConflictId
  | MissingLocalEvidence
  | MissingRemoteEvidence
  | MissingMergedContent
  | MissingConflictCopyTarget
  | MissingResolvedBase
  | MissingRenameTarget
  | MissingBlockedIntentEvidence
  | InvalidEvidence
  | InvalidRegisteredTimestamp
  | DraftNotInPlan
  | ClassificationEvidenceMismatch
  | UnboundPlanPanic

section \<open>Validation\<close>

definition is_private_reference :: "string \<Rightarrow> bool" where
  "is_private_reference value =
     ((1 \<le> length value \<and> length value \<le> 256)
      \<and> list_all (\<lambda>b. is_ascii_lowercase b \<or> is_ascii_digit b \<or> b \<in> set ''-_.'') value
      \<and> value \<notin> set [''.'', ''..''])"

definition source_invalid :: "libs \<Rightarrow> publication_source \<Rightarrow> bool" where
  "source_invalid L s =
     (\<not> is_exact_content_path L (ps_portable_path s) \<or> \<not> is_remote_id (ps_parent_id s)
      \<or> \<not> is_remote_id (ps_object_id s) \<or> \<not> valid_fingerprint (ps_content s))"

definition target_invalid :: "libs \<Rightarrow> publication_target \<Rightarrow> bool" where
  "target_invalid L t =
     (\<not> is_exact_content_path L (pt_portable_path t) \<or> \<not> is_remote_id (pt_parent_id t)
      \<or> is_some_and (pt_object_id t) (\<lambda>v. \<not> is_remote_id v))"

definition validate_context :: "libs \<Rightarrow> materialization_context \<Rightarrow> materialization_failure + unit" where
  "validate_context L c =
     (if mc_durable_state_version c = 0
         \<or> \<not> is_remote_id (mc_account_id c)
         \<or> \<not> is_remote_id (mc_remote_root_id c)
         \<or> is_some_and (mc_base_reference c) (\<lambda>v. \<not> is_private_reference v)
         \<or> is_some_and (mc_base_local_revision c) (\<lambda>v. \<not> is_lower_hex_64 v)
         \<or> is_some_and (mc_base_remote_revision c) (\<lambda>v. \<not> is_remote_id v)
         \<or> is_some_and (Option.bind (mc_local c) ps_revision) (\<lambda>v. \<not> is_lower_hex_64 v)
         \<or> is_some_and (mc_local c) (\<lambda>s. \<not> is_private_reference (ps_object_id s))
         \<or> is_some_and (Option.bind (mc_remote c) ps_revision) (\<lambda>v. \<not> is_remote_id v)
         \<or> list_ex (source_invalid L)
             (flatten_opt [mc_base c, mc_local c, mc_remote c, mc_blocked_remote_source c])
         \<or> list_ex (target_invalid L)
             (flatten_opt [Some (mc_local_target c), mc_rename_target c, mc_blocked_remote_destination c])
         \<or> is_some_and (mc_conflict_copy_destination_parent_path c) (\<lambda>p. \<not> is_exact_content_path L p)
         \<or> list_ex (\<lambda>f. \<not> valid_fingerprint f) (flatten_opt [mc_merged_content c])
      then Inl InvalidEvidence else Inr ())"

definition plan_evidence :: "conflict_plan \<Rightarrow> materialization_failure + classification_evidence" where
  "plan_evidence plan = ok_or (cp_classification_evidence plan) UnboundPlanPanic"

fun is_metadata_draft :: "conflict_draft \<Rightarrow> bool" where
  "is_metadata_draft GuardedLocalRename = True"
| "is_metadata_draft GuardedLocalMove = True"
| "is_metadata_draft GuardedLocalRenameMove = True"
| "is_metadata_draft _ = False"

definition guarded_target_matches :: "conflict_plan \<Rightarrow> classification_evidence_facts \<Rightarrow> materialization_context \<Rightarrow> bool" where
  "guarded_target_matches plan facts c =
     (if list_ex is_metadata_draft (cp_drafts plan) then
        (case (cf_guarded_metadata_target facts, mc_rename_target c) of
           (Some e, Some t) \<Rightarrow>
             gt_portable_path e = pt_portable_path t \<and> gt_parent_id e = pt_parent_id t
             \<and> gt_object_id e = pt_object_id t
         | _ \<Rightarrow> False)
      else True)"

definition classification_bound :: "conflict_plan \<Rightarrow> classification_evidence \<Rightarrow> materialization_context \<Rightarrow> bool" where
  "classification_bound plan evidence c =
     (let facts = cv_facts evidence;
          identity_source = or_opt (or_opt (mc_base c) (mc_local c)) (mc_remote c) in
      cf_account_id facts = Some (mc_account_id c)
      \<and> cf_remote_root_id facts = Some (mc_remote_root_id c)
      \<and> cf_object_identity facts = map_option ps_object_id identity_source
      \<and> cf_canonical_identity_path facts = map_option ps_portable_path identity_source
      \<and> cf_target_parent_id facts = Some (pt_parent_id (mc_local_target c))
      \<and> cf_base facts = map_option ps_content (mc_base c)
      \<and> cf_local facts = map_option ps_content (mc_local c)
      \<and> cf_remote facts = map_option ps_content (mc_remote c)
      \<and> cf_local_revision facts = Option.bind (mc_local c) ps_revision
      \<and> cf_remote_revision facts = Option.bind (mc_remote c) ps_revision
      \<and> cf_durable_state_version facts = mc_durable_state_version c
      \<and> guarded_target_matches plan facts c
      \<and> (cp_outcome plan \<noteq> SafeTextMergeLocal \<or> cv_verified_markdown_merge evidence = mc_merged_content c))"

definition validate_classification_binding ::
    "conflict_plan \<Rightarrow> materialization_context \<Rightarrow> materialization_failure + unit" where
  "validate_classification_binding plan c =
     and_then (plan_evidence plan) (\<lambda>evidence.
       if classification_bound plan evidence c then Inr () else Inl ClassificationEvidenceMismatch)"

definition derive_bound_conflict_id :: "libs \<Rightarrow> conflict_plan \<Rightarrow> materialization_failure + string" where
  "derive_bound_conflict_id L plan =
     and_then (plan_evidence plan) (\<lambda>evidence.
     let facts = cv_facts evidence in
     and_then (ok_or (cf_account_id facts) ClassificationEvidenceMismatch) (\<lambda>account_id.
     and_then (ok_or (cf_remote_root_id facts) ClassificationEvidenceMismatch) (\<lambda>remote_root_id.
     and_then (ok_or (cf_object_identity facts) ClassificationEvidenceMismatch) (\<lambda>object_identity.
     and_then (ok_or (cf_canonical_identity_path facts) ClassificationEvidenceMismatch) (\<lambda>path.
     and_then (ok_or (cf_target_parent_id facts) ClassificationEvidenceMismatch) (\<lambda>target_parent_id.
     map_err (\<lambda>_. MaterializationInvalidConflictId) (derive_conflict_id L
       \<lparr>id_account_id = account_id, id_remote_root_id = remote_root_id, id_object_identity = object_identity,
        id_cell = cp_cell plan, id_outcome = cp_outcome plan, id_canonical_identity_path = path,
        id_target_parent_id = target_parent_id, id_base = cf_base facts, id_local = cf_local facts,
        id_remote = cf_remote facts, id_naming_version = CONFLICT_NAMING_VERSION\<rparr>)))))))"

section \<open>Drafts\<close>

type_synonym drafted = "materialization_draft \<times> change_batch_dependency option"

definition durable_draft ::
    "libs \<Rightarrow> local_plan_kind \<Rightarrow> mutation_operation_kind \<Rightarrow> conflict_operation_domain \<Rightarrow> dependency_kind
      \<Rightarrow> publication_source option \<Rightarrow> publication_target option \<Rightarrow> content_fingerprint option \<Rightarrow> string \<Rightarrow> drafted" where
  "durable_draft L kind operation_kind domain dependency source destination expected conflict_id =
     (\<lparr>md_operation_id = derive_operation_id L domain conflict_id, md_kind = kind,
       md_durable_operation_kind = Some operation_kind, md_source = source, md_destination = destination,
       md_expected_content = expected, md_operation_marker = operation_marker domain conflict_id\<rparr>,
      Some \<lparr>dep_operation_id = derive_operation_id L domain conflict_id, dep_kind = dependency\<rparr>)"

definition guarded_metadata_draft ::
    "libs \<Rightarrow> local_plan_kind \<Rightarrow> conflict_operation_domain \<Rightarrow> materialization_context \<Rightarrow> string
      \<Rightarrow> materialization_failure + drafted" where
  "guarded_metadata_draft L kind domain c conflict_id =
     and_then (ok_or (mc_rename_target c) MissingRenameTarget) (\<lambda>target.
       Inr (\<lparr>md_operation_id = derive_operation_id L domain conflict_id, md_kind = kind,
             md_durable_operation_kind = None, md_source = mc_local c, md_destination = Some target,
             md_expected_content = map_option ps_content (mc_local c),
             md_operation_marker = operation_marker domain conflict_id\<rparr>, None))"

definition conflict_copy_draft ::
    "libs \<Rightarrow> materialization_context \<Rightarrow> string \<Rightarrow> materialization_failure + drafted" where
  "conflict_copy_draft L c conflict_id =
     and_then (ok_or (mc_remote c) MissingRemoteEvidence) (\<lambda>remote.
     let outcome = resolve_conflict_copy_name L
           \<lparr>rq_conflict_id = conflict_id, rq_source_path = ps_portable_path remote,
            rq_destination_parent_path = mc_conflict_copy_destination_parent_path c,
            rq_expected_content = ps_content remote, rq_naming_version = CONFLICT_NAMING_VERSION,
            rq_occupied = mc_occupied_conflict_copies c\<rparr>;
         target = (\<lambda>name. \<lparr>pt_portable_path = cn_destination_path name,
            pt_parent_id = pt_parent_id (mc_local_target c), pt_object_id = cn_existing_object_id name\<rparr>) in
     case outcome of
       NameNeedsReconcile _ \<Rightarrow> Inl MissingConflictCopyTarget
     | Reuse name \<Rightarrow>
         Inr (\<lparr>md_operation_id = derive_operation_id L ConflictCopy conflict_id,
               md_kind = PlanConflictCopyReuseVerified, md_durable_operation_kind = None,
               md_source = Some remote, md_destination = Some (target name),
               md_expected_content = Some (ps_content remote),
               md_operation_marker = operation_marker ConflictCopy conflict_id\<rparr>, None)
     | Create name \<Rightarrow>
         Inr (durable_draft L PlanConflictCopyPublish ConflictCopyPublish ConflictCopy ConflictCopyPublication
               (Some remote) (Some (target name)) (Some (ps_content remote)) conflict_id))"

definition resolved_base_content :: "conflict_outcome \<Rightarrow> materialization_context \<Rightarrow> content_fingerprint option" where
  "resolved_base_content outcome c =
     (case outcome of
        SafeTextMergeLocal \<Rightarrow> mc_merged_content c
      | GuardedLocalReplace \<Rightarrow> map_option ps_content (mc_remote c)
      | NeedsReconcile \<Rightarrow> map_option ps_content (mc_remote c)
      | _ \<Rightarrow> None)"

definition base_draft ::
    "libs \<Rightarrow> conflict_outcome \<Rightarrow> materialization_context \<Rightarrow> string \<Rightarrow> materialization_failure + drafted" where
  "base_draft L outcome c conflict_id =
     and_then (ok_or (resolved_base_content outcome c) MissingResolvedBase) (\<lambda>base_content.
     let target = mc_local_target c;
         base_source = map_option (\<lambda>local.
           \<lparr>ps_portable_path = pt_portable_path target, ps_parent_id = pt_parent_id target,
            ps_object_id = (case pt_object_id target of Some i \<Rightarrow> i | None \<Rightarrow> ps_object_id local),
            ps_revision = ps_revision local, ps_content = base_content\<rparr>) (mc_local c) in
     Inr (durable_draft L PlanBasePublish BasePublish DomainBasePublish BasePublication
            base_source (Some target) (Some base_content) conflict_id))"

definition blocked_draft ::
    "libs \<Rightarrow> materialization_context \<Rightarrow> string \<Rightarrow> materialization_failure + drafted" where
  "blocked_draft L c conflict_id =
     and_then (ok_or (mc_blocked_remote_source c) MissingBlockedIntentEvidence) (\<lambda>source.
     and_then (ok_or (mc_blocked_remote_destination c) MissingBlockedIntentEvidence) (\<lambda>destination.
       Inr (\<lparr>md_operation_id = derive_operation_id L DomainRemoteExistingBlocked conflict_id,
             md_kind = PlanRemoteExistingBlocked, md_durable_operation_kind = Some RemoteExistingBlocked,
             md_source = Some source, md_destination = Some destination,
             md_expected_content = Some (ps_content source),
             md_operation_marker = operation_marker DomainRemoteExistingBlocked conflict_id\<rparr>, None)))"

fun draft_for ::
    "libs \<Rightarrow> conflict_draft \<Rightarrow> conflict_plan \<Rightarrow> materialization_context \<Rightarrow> string
      \<Rightarrow> materialization_failure + drafted" where
  "draft_for L DraftLocalContentPublish plan c conflict_id =
     and_then (ok_or (mc_remote c) MissingRemoteEvidence) (\<lambda>remote.
       Inr (durable_draft L PlanLocalPublish LocalPublish DomainLocalPublish Mutation
              (Some remote) (Some (mc_local_target c)) (Some (ps_content remote)) conflict_id))"
| "draft_for L DraftMergePublish plan c conflict_id =
     and_then (ok_or (mc_merged_content c) MissingMergedContent) (\<lambda>merged.
       Inr (durable_draft L PlanMergePublish MergePublish DomainMergePublish MergePublication
              (mc_local c) (Some (mc_local_target c)) (Some merged) conflict_id))"
| "draft_for L DraftConflictCopyPublish plan c conflict_id = conflict_copy_draft L c conflict_id"
| "draft_for L DraftBasePublish plan c conflict_id = base_draft L (cp_outcome plan) c conflict_id"
| "draft_for L DraftRemoteExistingBlocked plan c conflict_id = blocked_draft L c conflict_id"
| "draft_for L GuardedLocalRename plan c conflict_id =
     guarded_metadata_draft L PlanGuardedLocalRename GuardedRename c conflict_id"
| "draft_for L GuardedLocalMove plan c conflict_id =
     guarded_metadata_draft L PlanGuardedLocalMove GuardedMove c conflict_id"
| "draft_for L GuardedLocalRenameMove plan c conflict_id =
     guarded_metadata_draft L PlanGuardedLocalRenameMove GuardedRenameMove c conflict_id"

section \<open>The plan\<close>

text \<open>The loop over the requirements, with the drafts and the cursor dependencies it collects.\<close>

fun collect_drafts ::
    "libs \<Rightarrow> conflict_plan \<Rightarrow> materialization_context \<Rightarrow> string \<Rightarrow> conflict_draft list
      \<Rightarrow> materialization_failure + materialization_draft list \<times> change_batch_dependency list" where
  "collect_drafts L plan c conflict_id [] = Inr ([], [])"
| "collect_drafts L plan c conflict_id (r # rs) =
     and_then (draft_for L r plan c conflict_id) (\<lambda>(draft, dependency).
     and_then (collect_drafts L plan c conflict_id rs) (\<lambda>(drafts, dependencies).
       Inr (draft # drafts, (case dependency of Some d \<Rightarrow> d # dependencies | None \<Rightarrow> dependencies))))"

definition publication_prerequisites :: "materialization_draft list \<Rightarrow> uuid list" where
  "publication_prerequisites drafts =
     map md_operation_id (filter (\<lambda>d. md_durable_operation_kind d
       \<in> set [Some LocalPublish, Some MergePublish, Some ConflictCopyPublish]) drafts)"

definition execution_dependencies_of :: "materialization_draft list \<Rightarrow> publication_order_dependency list" where
  "execution_dependencies_of drafts =
     map (\<lambda>d. \<lparr>po_operation_id = md_operation_id d,
       po_prerequisites = (if md_durable_operation_kind d = Some BasePublish
         then publication_prerequisites drafts else [])\<rparr>) drafts"

definition materialize_conflict_plan ::
    "libs \<Rightarrow> conflict_plan \<Rightarrow> materialization_context \<Rightarrow> materialization_failure + materialization_plan" where
  "materialize_conflict_plan L plan c =
     and_then (validate_context L c) (\<lambda>_.
     and_then (validate_classification_binding plan c) (\<lambda>_.
     and_then (derive_bound_conflict_id L plan) (\<lambda>conflict_id.
     and_then (collect_drafts L plan c conflict_id (cp_drafts plan)) (\<lambda>(drafts, cursor_dependencies).
     and_then (plan_evidence plan) (\<lambda>evidence.
     Inr \<lparr>mp_conflict_id = conflict_id, mp_cell = cp_cell plan, mp_outcome = cp_outcome plan,
          mp_cursor_gate = (if list_ex (\<lambda>d. md_kind d = PlanConflictCopyReuseVerified) drafts
            then GateNeedsReconcile else cp_cursor_gate plan),
          mp_retained = cp_retained plan, mp_classification_evidence = evidence,
          mp_account_id = mc_account_id c, mp_remote_root_id = mc_remote_root_id c,
          mp_base_reference = mc_base_reference c, mp_durable_state_version = mc_durable_state_version c,
          mp_base_local_revision = mc_base_local_revision c, mp_base_remote_revision = mc_base_remote_revision c,
          mp_base = mc_base c, mp_local = mc_local c, mp_remote = mc_remote c, mp_drafts = drafts,
          mp_cursor_dependencies = cursor_dependencies,
          mp_execution_dependencies = execution_dependencies_of drafts\<rparr>)))))"

definition draft_intent ::
    "materialization_plan \<Rightarrow> materialization_draft \<Rightarrow> mutation_operation_kind \<Rightarrow> u64 \<Rightarrow> mutation_intent" where
  "draft_intent plan draft kind registered =
     \<lparr>mi_operation_id = md_operation_id draft,
      mi_operation_kind = kind,
      mi_account_id = Some (mp_account_id plan),
      mi_remote_root_id = Some (mp_remote_root_id plan),
      mi_remote_file_id = map_option ps_object_id (mp_remote plan),
      mi_source_parent_id = map_option ps_parent_id (md_source draft),
      mi_destination_parent_id = map_option pt_parent_id (md_destination draft),
      mi_local_object_id = map_option ps_object_id (mp_local plan),
      mi_source_path = map_option ps_portable_path (md_source draft),
      mi_destination_path = map_option pt_portable_path (md_destination draft),
      mi_expected_local_revision = Option.bind (mp_local plan) ps_revision,
      mi_expected_remote_revision = Option.bind (mp_remote plan) ps_revision,
      mi_base_reference = mp_base_reference plan,
      mi_base_local_revision = mp_base_local_revision plan,
      mi_base_remote_revision = mp_base_remote_revision plan,
      mi_base_sha256 = map_option (fp_sha256 \<circ> ps_content) (mp_base plan),
      mi_base_byte_length = map_option (fp_byte_length \<circ> ps_content) (mp_base plan),
      mi_expected_local_sha256 = map_option fp_sha256 (md_expected_content draft),
      mi_expected_local_byte_length = map_option fp_byte_length (md_expected_content draft),
      mi_expected_remote_sha256 = map_option (fp_sha256 \<circ> ps_content) (mp_remote plan),
      mi_expected_remote_byte_length = map_option (fp_byte_length \<circ> ps_content) (mp_remote plan),
      mi_operation_marker = md_operation_marker draft,
      mi_intent_fingerprint = [],
      mi_registered_at_unix_ms = registered\<rparr>"

definition mutation_intent_from_draft ::
    "libs \<Rightarrow> materialization_plan \<Rightarrow> materialization_draft \<Rightarrow> u64 \<Rightarrow> materialization_failure + mutation_intent option" where
  "mutation_intent_from_draft L plan draft registered =
     (if \<not> fits_i64 registered then Inl InvalidRegisteredTimestamp
      else if \<not> list_ex (\<lambda>d. d = draft) (mp_drafts plan) then Inl DraftNotInPlan
      else case md_durable_operation_kind draft of
        None \<Rightarrow> Inr None
      | Some kind \<Rightarrow>
          let intent = draft_intent plan draft kind registered in
          Inr (Some (intent\<lparr>mi_intent_fingerprint := intent_fingerprint L intent\<rparr>)))"

end
