(* ===== verification/Materialization_Properties.thy ===== *)
theory Materialization_Properties
  imports Materialization Classifier_Properties Path_Properties
begin

text \<open>
  Properties of the materialization: the cursor waits for every publication, bases follow their
  content, the intents pass the validation of the mutation ledger, and what the drafts of two cells
  of the conflict matrix lead to.
\<close>

section \<open>Drafts\<close>

definition publishes :: "materialization_draft \<Rightarrow> bool" where
  "publishes d = (md_durable_operation_kind d \<notin> {None, Some RemoteExistingBlocked})"

lemma hd_filter_publishes: "publishes d \<longleftrightarrow> (\<exists>k. md_durable_operation_kind d = Some k \<and> k \<noteq> RemoteExistingBlocked)"
  by (cases "md_durable_operation_kind d") (auto simp: publishes_def)

text \<open>What a draft and its dependency have in common.\<close>

definition well_drafted :: "libs \<Rightarrow> string \<Rightarrow> materialization_draft \<Rightarrow> change_batch_dependency option \<Rightarrow> bool" where
  "well_drafted L conflict_id d dep =
     ((\<exists>domain. md_operation_id d = derive_operation_id L domain conflict_id
        \<and> md_operation_marker d = operation_marker domain conflict_id)
      \<and> (case dep of
           None \<Rightarrow> \<not> publishes d
         | Some p \<Rightarrow> dep_operation_id p = md_operation_id d
             \<and> md_durable_operation_kind d = Some (required_operation_kind (dep_kind p))))"

lemma conflict_copy_draft_Inr:
  assumes "conflict_copy_draft L c cid = Inr (d, dep)"
  obtains (reuse) "md_kind d = PlanConflictCopyReuseVerified" "md_durable_operation_kind d = None"
      "md_operation_id d = derive_operation_id L ConflictCopy cid"
      "md_operation_marker d = operation_marker ConflictCopy cid" "dep = None"
  | (create) remote name where "mc_remote c = Some remote"
      "resolve_conflict_copy_name L \<lparr>rq_conflict_id = cid, rq_source_path = ps_portable_path remote,
          rq_destination_parent_path = mc_conflict_copy_destination_parent_path c,
          rq_expected_content = ps_content remote, rq_naming_version = CONFLICT_NAMING_VERSION,
          rq_occupied = mc_occupied_conflict_copies c\<rparr> = Create name"
      "(d, dep) = durable_draft L PlanConflictCopyPublish ConflictCopyPublish ConflictCopy ConflictCopyPublication
        (Some remote) (Some \<lparr>pt_portable_path = cn_destination_path name,
          pt_parent_id = pt_parent_id (mc_local_target c), pt_object_id = cn_existing_object_id name\<rparr>)
        (Some (ps_content remote)) cid"
proof -
  obtain remote where remote: "mc_remote c = Some remote" using assms by (auto simp: conflict_copy_draft_def)
  show thesis
  proof (cases "resolve_conflict_copy_name L \<lparr>rq_conflict_id = cid, rq_source_path = ps_portable_path remote,
          rq_destination_parent_path = mc_conflict_copy_destination_parent_path c,
          rq_expected_content = ps_content remote, rq_naming_version = CONFLICT_NAMING_VERSION,
          rq_occupied = mc_occupied_conflict_copies c\<rparr>")
    case (Create name)
    then show thesis using assms remote create [OF remote Create] by (simp add: conflict_copy_draft_def)
  next
    case (Reuse name)
    then show thesis using assms remote reuse by (auto simp: conflict_copy_draft_def)
  next
    case (NameNeedsReconcile x)
    then show thesis using assms remote by (simp add: conflict_copy_draft_def)
  qed
qed

lemmas draft_defs = guarded_metadata_draft_def base_draft_def blocked_draft_def durable_draft_def Let_def

lemma draft_for_well:
  assumes "draft_for L r plan c cid = Inr (d, dep)"
  shows "well_drafted L cid d dep"
  using assms
  by (cases r) (auto simp: draft_defs well_drafted_def publishes_def elim!: conflict_copy_draft_Inr)

text \<open>The durable kind of a draft is decided by its requirement, except for a reused copy.\<close>

fun draft_kind :: "conflict_draft \<Rightarrow> mutation_operation_kind option" where
  "draft_kind DraftLocalContentPublish = Some LocalPublish"
| "draft_kind DraftMergePublish = Some MergePublish"
| "draft_kind DraftConflictCopyPublish = Some ConflictCopyPublish"
| "draft_kind DraftBasePublish = Some BasePublish"
| "draft_kind DraftRemoteExistingBlocked = Some RemoteExistingBlocked"
| "draft_kind _ = None"

lemma draft_for_kind:
  assumes "draft_for L r plan c cid = Inr (d, dep)"
  shows "md_durable_operation_kind d = draft_kind r
    \<or> r = DraftConflictCopyPublish \<and> md_durable_operation_kind d = None \<and> md_kind d = PlanConflictCopyReuseVerified"
  using assms
  by (cases r) (auto simp: draft_defs elim!: conflict_copy_draft_Inr)

lemma collect_drafts_Inr:
  assumes "collect_drafts L plan c cid rs = Inr (ds, deps)"
  shows "list_all2 (\<lambda>r d. \<exists>dep. draft_for L r plan c cid = Inr (d, dep)) rs ds
    \<and> list_all2 (\<lambda>p d. dep_operation_id p = md_operation_id d
        \<and> md_durable_operation_kind d = Some (required_operation_kind (dep_kind p))) deps (filter publishes ds)"
  using assms
proof (induction rs arbitrary: ds deps)
  case (Cons r rs)
  obtain d dep ds' deps' where d: "draft_for L r plan c cid = Inr (d, dep)"
    and rest: "collect_drafts L plan c cid rs = Inr (ds', deps')"
    and eq: "ds = d # ds'" "deps = (case dep of Some p \<Rightarrow> p # deps' | None \<Rightarrow> deps')"
    using Cons.prems by auto
  have "publishes d" if "dep = Some p" for p
    using draft_for_well [OF d] that
    by (cases "dep_kind p") (auto simp: well_drafted_def publishes_def)
  then show ?case
    using Cons.IH [OF rest] d draft_for_well [OF d] eq
    by (cases dep) (auto simp: well_drafted_def)
qed simp

lemma materialize_Inr:
  assumes "materialize_conflict_plan L plan c = Inr mp"
  obtains ev cid where "validate_context L c = Inr ()" "cp_classification_evidence plan = Some ev"
    "classification_bound plan ev c" "derive_bound_conflict_id L plan = Inr cid"
    "collect_drafts L plan c cid (cp_drafts plan) = Inr (mp_drafts mp, mp_cursor_dependencies mp)"
    "mp_cursor_gate mp = (if list_ex (\<lambda>d. md_kind d = PlanConflictCopyReuseVerified) (mp_drafts mp)
       then GateNeedsReconcile else cp_cursor_gate plan)"
    "mp_execution_dependencies mp = execution_dependencies_of (mp_drafts mp)"
    "mp_account_id mp = mc_account_id c" "mp_remote_root_id mp = mc_remote_root_id c"
    "mp_base_reference mp = mc_base_reference c" "mp_base_local_revision mp = mc_base_local_revision c"
    "mp_base_remote_revision mp = mc_base_remote_revision c"
    "mp_base mp = mc_base c" "mp_local mp = mc_local c" "mp_remote mp = mc_remote c"
  using assms
  by (auto simp: materialize_conflict_plan_def validate_classification_binding_def plan_evidence_def
      split: if_split_asm)

section \<open>The shapes of the plans\<close>

definition draft_shapes :: "conflict_draft list set" where
  "draft_shapes = {[], [DraftLocalContentPublish], [DraftConflictCopyPublish], [DraftRemoteExistingBlocked],
     [DraftLocalContentPublish, DraftBasePublish], [DraftLocalContentPublish, DraftRemoteExistingBlocked],
     [DraftLocalContentPublish, DraftBasePublish, DraftRemoteExistingBlocked],
     [DraftMergePublish, DraftBasePublish, DraftRemoteExistingBlocked],
     [GuardedLocalRename], [GuardedLocalMove], [GuardedLocalRenameMove]}"

lemma guarded_draft_cases: "guarded_draft g d \<in> {[], [GuardedLocalMove], [GuardedLocalRenameMove]}"
  by (cases "(g, d)" rule: guarded_draft.cases) simp_all

lemma fresh_draft_shapes: "cp_drafts (classify_fresh_case c) \<in> draft_shapes"
proof (cases c)
  case (BothDeleted p) then show ?thesis by (cases p) (simp_all add: draft_shapes_def plan_defs)
next
  case (LocalEditedRemoteRename p) then show ?thesis by (cases p) (simp_all add: draft_shapes_def plan_defs)
next
  case (LocalEditedRemoteMove p)
  then show ?thesis using guarded_draft_cases [of p GuardedLocalMove] by (auto simp: draft_shapes_def plan_defs)
next
  case (RenameMoveConflict p)
  then show ?thesis using guarded_draft_cases [of p GuardedLocalRenameMove] by (auto simp: draft_shapes_def plan_defs)
next
  case (ChildChangedWithParentChanged p)
  then show ?thesis using guarded_draft_cases [of p GuardedLocalMove] by (auto simp: draft_shapes_def plan_defs)
qed (simp_all add: draft_shapes_def plan_defs)

lemma replay_draft_shapes: "classify_replay r = Some plan \<Longrightarrow> cp_drafts plan \<in> draft_shapes"
proof (cases r)
  case (ReplayVerifiedNotApplied p t)
  then show "classify_replay r = Some plan \<Longrightarrow> cp_drafts plan \<in> draft_shapes"
    by (cases t) (auto simp: draft_shapes_def plan_defs)
qed (auto simp: draft_shapes_def plan_defs split: if_splits)

lemma plan_draft_shapes: "cp_drafts (unbound_plan b r c) \<in> draft_shapes"
  using boundary_no_drafts [of b] replay_draft_shapes [of r] fresh_draft_shapes [of c]
  by (auto simp: unbound_plan_def or_opt_def draft_shapes_def split: option.splits)

lemma materialized_shape:
  assumes "materialize_conflict_plan L (classify_conflict input) c = Inr mp"
  obtains rs where "rs \<in> draft_shapes" "cp_drafts (classify_conflict input) = rs"
    "list_all2 (\<lambda>r d. md_durable_operation_kind d = draft_kind r
       \<or> r = DraftConflictCopyPublish \<and> md_durable_operation_kind d = None
         \<and> md_kind d = PlanConflictCopyReuseVerified) rs (mp_drafts mp)"
proof (rule materialize_Inr [OF assms])
  fix ev cid
  assume *: "collect_drafts L (classify_conflict input) c cid (cp_drafts (classify_conflict input))
    = Inr (mp_drafts mp, mp_cursor_dependencies mp)"
  have shape: "cp_drafts (classify_conflict input) \<in> draft_shapes"
    using plan_draft_shapes by (simp add: classify_conflict_unbound)
  have "list_all2 (\<lambda>r d. \<exists>dep. draft_for L r (classify_conflict input) c cid = Inr (d, dep))
      (cp_drafts (classify_conflict input)) (mp_drafts mp)"
    using collect_drafts_Inr [OF *] by blast
  then show thesis
    by (intro that [OF shape refl]) (erule list_all2_mono, use draft_for_kind in blast)
qed

section \<open>A concrete plan\<close>

definition const_uuid :: "uuid \<Rightarrow> string \<Rightarrow> uuid" where "const_uuid ns name = 7"

definition plan_libs :: libs where "plan_libs = demo_libs\<lparr>uuid_new_v5 := const_uuid\<rparr>"

definition demo_source :: "string option \<Rightarrow> content_fingerprint option \<Rightarrow> publication_source option" where
  "demo_source revision = map_option (\<lambda>f. \<lparr>ps_portable_path = ''notes/a.md'', ps_parent_id = ''parent'',
     ps_object_id = ''object'', ps_revision = revision, ps_content = f\<rparr>)"

definition demo_location :: publication_target where
  "demo_location = \<lparr>pt_portable_path = ''notes/a.md'', pt_parent_id = ''parent'', pt_object_id = None\<rparr>"

definition demo_ctx :: "classification_evidence \<Rightarrow> materialization_context" where
  "demo_ctx ev = \<lparr>mc_account_id = ''acct'', mc_remote_root_id = ''root'', mc_base_reference = None,
     mc_durable_state_version = 3, mc_base_local_revision = Some (replicate 64 CHR ''d''),
     mc_base_remote_revision = Some ''rev'',
     mc_base = demo_source None (cf_base (cv_facts ev)),
     mc_local = demo_source (Some (replicate 64 CHR ''d'')) (cf_local (cv_facts ev)),
     mc_remote = demo_source (Some ''rev'') (cf_remote (cv_facts ev)),
     mc_local_target = demo_location, mc_conflict_copy_destination_parent_path = Some ''notes'',
     mc_occupied_conflict_copies = [], mc_rename_target = None,
     mc_blocked_remote_source = demo_source (Some ''rev'') (cf_remote (cv_facts ev)),
     mc_blocked_remote_destination = Some demo_location,
     mc_merged_content = cv_verified_markdown_merge ev\<rparr>"

text \<open>The remote side changed, the local side did not.\<close>

definition demo_remote_ev :: classification_evidence where
  "demo_remote_ev = classification_evidence_new (demo_facts\<lparr>cf_local := cf_base demo_facts\<rparr>)"

definition demo_remote_input :: conflict_input where
  "demo_remote_input = demo_input demo_remote_ev Approved (RemoteContentChanged CapabilityAvailable)"

lemma demo_remote_accepted:
  "conflict_input_new plan_libs demo_remote_ev Approved Fresh (RemoteContentChanged CapabilityAvailable) = Inr demo_remote_input"
  "validate_context plan_libs (demo_ctx demo_remote_ev) = Inr ()"
  "validate_classification_binding (classify_conflict demo_remote_input) (demo_ctx demo_remote_ev) = Inr ()"
  by code_simp+

lemma demo_remote_plan:
  "cp_classification_evidence (classify_conflict demo_remote_input) = Some demo_remote_ev"
  "cp_drafts (classify_conflict demo_remote_input) = [DraftLocalContentPublish, DraftBasePublish]"
  "cp_cell (classify_conflict demo_remote_input) = C01" "cp_outcome (classify_conflict demo_remote_input) = GuardedLocalReplace"
  "cp_cursor_gate (classify_conflict demo_remote_input) = AllLocalPublications"
  by (simp_all add: demo_remote_input_def demo_input_def classify_conflict_unbound unbound_plan_def plan_defs)

lemma demo_remote_id: "\<exists>cid. derive_bound_conflict_id plan_libs (classify_conflict demo_remote_input) = Inr cid"
proof -
  have valid: "validate_identity_input plan_libs
     \<lparr>id_account_id = ''acct'', id_remote_root_id = ''root'', id_object_identity = ''object'', id_cell = C01,
      id_outcome = GuardedLocalReplace, id_canonical_identity_path = ''notes/a.md'', id_target_parent_id = ''parent'',
      id_base = Some (demo_fp CHR ''a''), id_local = Some (demo_fp CHR ''a''), id_remote = Some (demo_fp CHR ''c''),
      id_naming_version = CONFLICT_NAMING_VERSION\<rparr> = Inr ()"
    by code_simp
  have facts: "cf_account_id (cv_facts demo_remote_ev) = Some ''acct''" "cf_remote_root_id (cv_facts demo_remote_ev) = Some ''root''"
    "cf_object_identity (cv_facts demo_remote_ev) = Some ''object''"
    "cf_canonical_identity_path (cv_facts demo_remote_ev) = Some ''notes/a.md''"
    "cf_target_parent_id (cv_facts demo_remote_ev) = Some ''parent''"
    "cf_base (cv_facts demo_remote_ev) = Some (demo_fp CHR ''a'')" "cf_local (cv_facts demo_remote_ev) = Some (demo_fp CHR ''a'')"
    "cf_remote (cv_facts demo_remote_ev) = Some (demo_fp CHR ''c'')"
    by (simp_all add: demo_remote_ev_def classification_evidence_new_def demo_facts_def)
  show ?thesis
    by (simp add: derive_bound_conflict_id_def plan_evidence_def demo_remote_plan facts derive_conflict_id_def valid)
qed

text \<open>The plan has the local publication first, then the base.\<close>

lemma demo_remote_materialized:
  obtains mp d where "materialize_conflict_plan plan_libs (classify_conflict demo_remote_input) (demo_ctx demo_remote_ev) = Inr mp"
    "mp_cursor_gate mp = AllLocalPublications" "hd (mp_drafts mp) = d" "d \<in> set (mp_drafts mp)"
    "md_durable_operation_kind d = Some LocalPublish" "md_operation_id d = 7"
    "map_option ps_portable_path (md_source d) = Some ''notes/a.md''"
    "map_option pt_portable_path (md_destination d) = Some ''notes/a.md''"
proof -
  obtain cid where cid: "derive_bound_conflict_id plan_libs (classify_conflict demo_remote_input) = Inr cid"
    using demo_remote_id by blast
  have seven: "derive_operation_id plan_libs x cid = 7" for x by (simp add: derive_operation_id_def plan_libs_def const_uuid_def)
  have ctx: "mc_remote (demo_ctx demo_remote_ev) = demo_source (Some ''rev'') (Some (demo_fp CHR ''c''))"
    "mc_local_target (demo_ctx demo_remote_ev) = demo_location"
    by (simp_all add: demo_ctx_def demo_remote_ev_def classification_evidence_new_def demo_facts_def)
  have "\<exists>ds deps. collect_drafts plan_libs (classify_conflict demo_remote_input) (demo_ctx demo_remote_ev) cid
      (cp_drafts (classify_conflict demo_remote_input)) = Inr (ds, deps)
    \<and> list_all (\<lambda>d. md_kind d \<noteq> PlanConflictCopyReuseVerified) ds \<and> ds \<noteq> []
    \<and> md_durable_operation_kind (hd ds) = Some LocalPublish \<and> md_operation_id (hd ds) = 7
    \<and> map_option ps_portable_path (md_source (hd ds)) = Some ''notes/a.md''
    \<and> map_option pt_portable_path (md_destination (hd ds)) = Some ''notes/a.md''"
    by (simp add: demo_remote_plan ctx demo_source_def base_draft_def resolved_base_content_def durable_draft_def Let_def seven
        demo_location_def)
  then obtain ds deps where ds: "collect_drafts plan_libs (classify_conflict demo_remote_input) (demo_ctx demo_remote_ev) cid
      (cp_drafts (classify_conflict demo_remote_input)) = Inr (ds, deps)"
    "\<not> list_ex (\<lambda>d. md_kind d = PlanConflictCopyReuseVerified) ds" "ds \<noteq> []"
    "md_durable_operation_kind (hd ds) = Some LocalPublish" "md_operation_id (hd ds) = 7"
    "map_option ps_portable_path (md_source (hd ds)) = Some ''notes/a.md''"
    "map_option pt_portable_path (md_destination (hd ds)) = Some ''notes/a.md''"
    by (auto simp: list_ex_iff list_all_iff)
  then have "\<exists>mp. materialize_conflict_plan plan_libs (classify_conflict demo_remote_input) (demo_ctx demo_remote_ev) = Inr mp
      \<and> mp_cursor_gate mp = AllLocalPublications \<and> mp_drafts mp = ds"
    by (simp add: materialize_conflict_plan_def demo_remote_accepted cid plan_evidence_def demo_remote_plan(1, 5))
  then obtain mp where "materialize_conflict_plan plan_libs (classify_conflict demo_remote_input) (demo_ctx demo_remote_ev) = Inr mp"
    "mp_cursor_gate mp = AllLocalPublications" "mp_drafts mp = ds"
    by (elim exE conjE) (rule that)
  moreover from this have "hd (mp_drafts mp) \<in> set (mp_drafts mp)" using ds(3) by simp
  ultimately show thesis using ds(4-7) by (intro that [where mp = mp and d = "hd (mp_drafts mp)"]) simp_all
qed

section \<open>Properties\<close>

text \<open>
  C32: the cursor waits for every publication. The cursor dependencies of a materialized plan are,
  in order, the operations of exactly those drafts that publish, each with the dependency kind of
  its operation; when the plan lets the cursor advance after its publications, every draft is one of
  them and there is at least one; when it lets the cursor advance on verification alone there is no
  draft; and a base is the second draft and waits for the content published by the first.
\<close>

theorem cursor_waits_for_every_publication:
  assumes mat: "materialize_conflict_plan L (classify_conflict input) c = Inr mp"
  shows "map dep_operation_id (mp_cursor_dependencies mp) = map md_operation_id (filter publishes (mp_drafts mp))
    \<and> map (Some \<circ> required_operation_kind \<circ> dep_kind) (mp_cursor_dependencies mp)
        = map md_durable_operation_kind (filter publishes (mp_drafts mp))
    \<and> (mp_cursor_gate mp = AllLocalPublications \<longrightarrow> mp_drafts mp \<noteq> [] \<and> list_all publishes (mp_drafts mp))
    \<and> (mp_cursor_gate mp = ExactVerification \<longrightarrow> mp_drafts mp = [])
    \<and> (\<forall>i < length (mp_drafts mp). md_durable_operation_kind (mp_drafts mp ! i) = Some BasePublish \<longrightarrow>
         i = 1 \<and> publishes (mp_drafts mp ! 0)
         \<and> mp_execution_dependencies mp ! 1 = \<lparr>po_operation_id = md_operation_id (mp_drafts mp ! 1),
             po_prerequisites = [md_operation_id (mp_drafts mp ! 0)]\<rparr>)"
proof (rule materialize_Inr [OF mat])
  fix ev cid
  assume coll: "collect_drafts L (classify_conflict input) c cid (cp_drafts (classify_conflict input))
      = Inr (mp_drafts mp, mp_cursor_dependencies mp)"
    and gate: "mp_cursor_gate mp = (if list_ex (\<lambda>d. md_kind d = PlanConflictCopyReuseVerified) (mp_drafts mp)
       then GateNeedsReconcile else cp_cursor_gate (classify_conflict input))"
    and exec: "mp_execution_dependencies mp = execution_dependencies_of (mp_drafts mp)"
  obtain rs where rs: "rs \<in> draft_shapes" "cp_drafts (classify_conflict input) = rs"
    and kinds: "list_all2 (\<lambda>r d. md_durable_operation_kind d = draft_kind r
       \<or> r = DraftConflictCopyPublish \<and> md_durable_operation_kind d = None
         \<and> md_kind d = PlanConflictCopyReuseVerified) rs (mp_drafts mp)"
    by (rule materialized_shape [OF mat])
  have "list_all2 (\<lambda>p d. dep_operation_id p = md_operation_id d
        \<and> md_durable_operation_kind d = Some (required_operation_kind (dep_kind p)))
      (mp_cursor_dependencies mp) (filter publishes (mp_drafts mp))"
    using collect_drafts_Inr [OF coll] by blast
  then have deps: "map dep_operation_id (mp_cursor_dependencies mp) = map md_operation_id (filter publishes (mp_drafts mp))"
    "map (Some \<circ> required_operation_kind \<circ> dep_kind) (mp_cursor_dependencies mp)
        = map md_durable_operation_kind (filter publishes (mp_drafts mp))"
    by (induction rule: list_all2_induct) simp_all
  have disc: "disciplined (classify_conflict input)"
    using disciplined_unbound by (simp add: classify_conflict_unbound disciplined_def)
  have local_only: "mp_drafts mp \<noteq> [] \<and> list_all publishes (mp_drafts mp)" if "mp_cursor_gate mp = AllLocalPublications"
  proof -
    have "rs \<in> {[DraftLocalContentPublish], [DraftConflictCopyPublish], [DraftLocalContentPublish, DraftBasePublish]}"
      and reuse: "\<not> list_ex (\<lambda>d. md_kind d = PlanConflictCopyReuseVerified) (mp_drafts mp)"
      using that gate disc rs by (auto simp: disciplined_def split: if_splits)
    then show ?thesis using kinds by (auto simp: list_all2_Cons1 publishes_def)
  qed
  have exact: "mp_drafts mp = []" if "mp_cursor_gate mp = ExactVerification"
    using that gate disc rs kinds by (auto simp: disciplined_def split: if_splits)
  have base: "\<forall>i < length (mp_drafts mp). md_durable_operation_kind (mp_drafts mp ! i) = Some BasePublish \<longrightarrow>
         i = 1 \<and> publishes (mp_drafts mp ! 0)
         \<and> mp_execution_dependencies mp ! 1 = \<lparr>po_operation_id = md_operation_id (mp_drafts mp ! 1),
             po_prerequisites = [md_operation_id (mp_drafts mp ! 0)]\<rparr>"
    using rs(1) kinds unfolding exec draft_shapes_def
    by (elim insertE emptyE)
      (auto simp: list_all2_Cons1 publishes_def execution_dependencies_of_def publication_prerequisites_def
        less_Suc_eq nth_Cons' split: if_splits)
  show ?thesis using deps local_only exact base by blast
qed

theorem cursor_waits_for_every_publication_witness:
  "\<exists>mp. materialize_conflict_plan plan_libs (classify_conflict demo_remote_input) (demo_ctx demo_remote_ev) = Inr mp
    \<and> mp_cursor_gate mp = AllLocalPublications \<and> mp_drafts mp \<noteq> [] \<and> list_all publishes (mp_drafts mp)"
  by (rule demo_remote_materialized) (use cursor_waits_for_every_publication in blast)

section \<open>Intents\<close>

text \<open>What the context guarantees of every draft.\<close>

definition draft_valid :: "libs \<Rightarrow> materialization_draft \<Rightarrow> bool" where
  "draft_valid L d =
     (is_none_or (md_source d) (\<lambda>s. \<not> source_invalid L s)
      \<and> is_none_or (md_destination d) (\<lambda>t. \<not> target_invalid L t)
      \<and> is_none_or (md_expected_content d) valid_fingerprint)"

lemma validate_context_Inr:
  assumes "validate_context L c = Inr ()"
  shows "is_remote_id (mc_account_id c)" "is_remote_id (mc_remote_root_id c)"
    "is_none_or (mc_base_reference c) is_private_reference"
    "is_none_or (mc_base_local_revision c) is_lower_hex_64" "is_none_or (mc_base_remote_revision c) is_remote_id"
    "is_none_or (Option.bind (mc_local c) ps_revision) is_lower_hex_64"
    "is_none_or (mc_local c) (\<lambda>s. is_private_reference (ps_object_id s))"
    "is_none_or (Option.bind (mc_remote c) ps_revision) is_remote_id"
    "Some s \<in> set [mc_base c, mc_local c, mc_remote c, mc_blocked_remote_source c] \<Longrightarrow> \<not> source_invalid L s"
    "Some t \<in> set [Some (mc_local_target c), mc_rename_target c, mc_blocked_remote_destination c] \<Longrightarrow> \<not> target_invalid L t"
    "mc_merged_content c = Some f \<Longrightarrow> valid_fingerprint f"
  using assms
  by (auto simp: validate_context_def list_ex_iff set_flatten_opt is_some_and_def is_none_or_def
      split: if_split_asm option.splits)

lemma created_name:
  assumes "resolve_conflict_copy_name L request = Create name"
  shows "is_exact_content_path L (cn_destination_path name)" "cn_existing_object_id name = None"
proof -
  obtain stem extension where tries: "try_prefixes L request stem extension PREFIX_LENGTHS = Create name"
    using resolve_tries(8) [OF assms] by auto
  then obtain n where cand: "candidate L request stem extension n = Some (cn_destination_path name, cn_normalized_collision_key name)"
    and none: "cn_existing_object_id name = None"
    using try_prefixes_Create [OF tries] by blast
  then show "cn_existing_object_id name = None" by simp
  show "is_exact_content_path L (cn_destination_path name)"
    using candidateD [OF cand] build_candidate_path_Some
    unfolding is_exact_content_path_def by (metis is_ok_simps(2))
qed

lemma source_content_valid: "\<not> source_invalid L s \<Longrightarrow> valid_fingerprint (ps_content s)"
  by (simp add: source_invalid_def)

lemma draft_for_valid:
  assumes ctx: "validate_context L c = Inr ()" and d: "draft_for L r plan c cid = Inr (d, dep)"
    and durable: "md_durable_operation_kind d = Some k"
  shows "draft_valid L d"
proof -
  note v = validate_context_Inr [OF ctx]
  have target: "\<not> target_invalid L (mc_local_target c)" using v(10) by simp
  have local: "is_none_or (mc_local c) (\<lambda>s. \<not> source_invalid L s)"
    using v(9) by (cases "mc_local c") simp_all
  have remote: "\<not> source_invalid L s" if "mc_remote c = Some s" for s using that v(9) by simp
  have blocked: "\<not> source_invalid L s" if "mc_blocked_remote_source c = Some s" for s using that v(9) by simp
  have blocked_to: "\<not> target_invalid L t" if "mc_blocked_remote_destination c = Some t" for t using that v(10) by simp
  show ?thesis
  proof (cases r)
    case DraftConflictCopyPublish
    then have "conflict_copy_draft L c cid = Inr (d, dep)" using d by simp
    then show ?thesis
    proof (cases rule: conflict_copy_draft_Inr)
      case reuse
      then show ?thesis using durable by simp
    next
      case (create rem name)
      then show ?thesis
        using remote created_name [OF create(2)] target
        by (auto simp: durable_draft_def draft_valid_def target_invalid_def dest: source_content_valid)
    qed
  next
    case DraftBasePublish
    have content: "valid_fingerprint f" if "resolved_base_content out c = Some f" for f out
      using that remote v(11) by (auto simp: resolved_base_content_def source_invalid_def split: conflict_outcome.splits)
    show ?thesis
      using d DraftBasePublish target local content
      by (cases "mc_local c")
        (auto simp: base_draft_def durable_draft_def draft_valid_def source_invalid_def target_invalid_def Let_def
          split: option.splits)
  qed (use d durable target local remote blocked blocked_to v(11) in
      \<open>auto simp: draft_defs draft_valid_def dest: source_content_valid\<close>)
qed

lemma remote_id_valid: "is_remote_id s \<longleftrightarrow> validate_remote_id s = Inr ()"
  by (simp add: is_remote_id_def validate_remote_id_def)

lemma lower_hex_64_remote: "is_lower_hex_64 s \<Longrightarrow> is_remote_id s"
  using lower_hex_remote by (auto simp: is_lower_hex_64_def is_remote_id_def list_all_iff)

lemma private_reference_valid: "is_private_reference s \<Longrightarrow> validate_private_reference s = Inr ()"
  by (auto simp: is_private_reference_def validate_private_reference_def private_reference_byte_def list_all_iff)

lemma fingerprint_pair_valid:
  "is_none_or x valid_fingerprint \<Longrightarrow> validate_hash_size_pair (map_option fp_sha256 x) (map_option fp_byte_length x) = Inr ()"
  by (cases x) (auto simp: validate_hash_size_pair_def valid_fingerprint_def validate_revision_def is_lower_hex_hash_def
      is_lower_hex_64_def u64_to_i64_def)

lemma for_each_opts: "for_each f (flatten_opt xs) = Inr u \<longleftrightarrow> (\<forall>x \<in> set xs. is_none_or x (\<lambda>v. f v = Inr ()))"
proof (induction xs)
  case (Cons x xs)
  then show ?case by (cases x) auto
qed simp

lemma is_none_or_mono: "is_none_or x p \<Longrightarrow> (\<And>v. p v \<Longrightarrow> q v) \<Longrightarrow> is_none_or x q"
  by (cases x) auto

lemma is_none_or_map: "is_none_or (map_option f x) p = is_none_or x (\<lambda>v. p (f v))"
  by (cases x) auto

text \<open>
  The fields of the intent of a valid draft, one validator group each.
\<close>

lemma draft_intent_fields:
  assumes ctx: "validate_context L c = Inr ()" and d: "draft_valid L d"
    and mp: "mp_account_id mp = mc_account_id c" "mp_remote_root_id mp = mc_remote_root_id c"
      "mp_base_reference mp = mc_base_reference c" "mp_base_local_revision mp = mc_base_local_revision c"
      "mp_base_remote_revision mp = mc_base_remote_revision c"
      "mp_base mp = mc_base c" "mp_local mp = mc_local c" "mp_remote mp = mc_remote c"
    and i: "i = draft_intent mp d k now"
  shows "for_each validate_remote_id (flatten_opt [mi_account_id i, mi_remote_root_id i, mi_remote_file_id i,
         mi_source_parent_id i, mi_destination_parent_id i]) = Inr ()"
    "for_each validate_remote_id (flatten_opt [mi_expected_local_revision i, mi_expected_remote_revision i,
         mi_base_local_revision i, mi_base_remote_revision i]) = Inr ()"
    "for_each validate_private_reference (flatten_opt [mi_local_object_id i, mi_base_reference i]) = Inr ()"
    "validate_hash_size_pair (mi_base_sha256 i) (mi_base_byte_length i) = Inr ()"
    "validate_hash_size_pair (mi_expected_local_sha256 i) (mi_expected_local_byte_length i) = Inr ()"
    "validate_hash_size_pair (mi_expected_remote_sha256 i) (mi_expected_remote_byte_length i) = Inr ()"
    "\<forall>p \<in> set (flatten_opt [mi_source_path i, mi_destination_path i]). is_exact_content_path L p"
proof -
  note v = validate_context_Inr [OF ctx]
  have sources: "is_none_or x (\<lambda>s. \<not> source_invalid L s)" if "x \<in> {mc_base c, mc_local c, mc_remote c}" for x
    using that v(9) by (cases x) auto
  have source: "is_none_or (md_source d) (\<lambda>s. \<not> source_invalid L s)" using d by (simp add: draft_valid_def)
  have contents: "validate_hash_size_pair (map_option (fp_sha256 \<circ> ps_content) x) (map_option (fp_byte_length \<circ> ps_content) x) = Inr ()"
    if "x \<in> {mc_base c, mc_remote c}" for x
    using fingerprint_pair_valid [of "map_option ps_content x"] sources [of x] that
    by (cases x) (auto dest: source_content_valid)
  show "validate_hash_size_pair (mi_base_sha256 i) (mi_base_byte_length i) = Inr ()"
    "validate_hash_size_pair (mi_expected_remote_sha256 i) (mi_expected_remote_byte_length i) = Inr ()"
    using contents by (simp_all add: i draft_intent_def mp)
  show "validate_hash_size_pair (mi_expected_local_sha256 i) (mi_expected_local_byte_length i) = Inr ()"
    using fingerprint_pair_valid d by (simp add: i draft_intent_def draft_valid_def)
  have targets: "is_none_or (md_destination d) (\<lambda>t. \<not> target_invalid L t)" using d by (simp add: draft_valid_def)
  have hex: "is_none_or x is_lower_hex_64 \<Longrightarrow> is_none_or x is_remote_id" for x
    using is_none_or_mono lower_hex_64_remote by blast
  have "is_none_or (map_option ps_object_id (mc_remote c)) is_remote_id"
    "is_none_or (map_option ps_parent_id (md_source d)) is_remote_id"
    "is_none_or (map_option pt_parent_id (md_destination d)) is_remote_id"
    using sources [of "mc_remote c"] source targets
    by (auto simp: is_none_or_map source_invalid_def target_invalid_def elim!: is_none_or_mono)
  then show "for_each validate_remote_id (flatten_opt [mi_account_id i, mi_remote_root_id i, mi_remote_file_id i,
         mi_source_parent_id i, mi_destination_parent_id i]) = Inr ()"
    using v(1, 2) by (simp add: for_each_opts i draft_intent_def mp remote_id_valid [symmetric])
  show "for_each validate_remote_id (flatten_opt [mi_expected_local_revision i, mi_expected_remote_revision i,
         mi_base_local_revision i, mi_base_remote_revision i]) = Inr ()"
    using v(5, 8) hex [OF v(4)] hex [OF v(6)]
    by (simp add: for_each_opts i draft_intent_def mp remote_id_valid [symmetric])
  show "for_each validate_private_reference (flatten_opt [mi_local_object_id i, mi_base_reference i]) = Inr ()"
    using is_none_or_mono [OF v(3) private_reference_valid] is_none_or_mono [OF v(7) private_reference_valid]
    by (simp add: for_each_opts i draft_intent_def mp is_none_or_map)
  show "\<forall>p \<in> set (flatten_opt [mi_source_path i, mi_destination_path i]). is_exact_content_path L p"
    using source targets
    by (cases "md_source d"; cases "md_destination d")
      (auto simp: i draft_intent_def source_invalid_def target_invalid_def)
qed

lemma mutation_intent_from_draft_Inr:
  assumes "mutation_intent_from_draft L mp d now = Inr (Some i)"
  obtains k where "fits_i64 now" "d \<in> set (mp_drafts mp)" "md_durable_operation_kind d = Some k"
    "i = (draft_intent mp d k now)\<lparr>mi_intent_fingerprint := intent_fingerprint L (draft_intent mp d k now)\<rparr>"
  using assms
  by (auto simp: mutation_intent_from_draft_def Let_def list_ex_iff split: if_splits option.splits)

lemma materialized_draft:
  assumes "materialize_conflict_plan L plan c = Inr mp" "d \<in> set (mp_drafts mp)"
  obtains r dep cid where "r \<in> set (cp_drafts plan)" "draft_for L r plan c cid = Inr (d, dep)"
    "derive_bound_conflict_id L plan = Inr cid"
proof (rule materialize_Inr [OF assms(1)])
  fix ev cid
  assume cid: "derive_bound_conflict_id L plan = Inr cid"
    and coll: "collect_drafts L plan c cid (cp_drafts plan) = Inr (mp_drafts mp, mp_cursor_dependencies mp)"
  from collect_drafts_Inr [OF coll] assms(2) obtain r dep where "r \<in> set (cp_drafts plan)" "draft_for L r plan c cid = Inr (d, dep)"
    by (fastforce simp: list_all2_conv_all_nth in_set_conv_nth)
  then show thesis using that cid by blast
qed

lemma bound_conflict_id_hex:
  assumes "sha256_total L" "derive_bound_conflict_id L plan = Inr cid"
  shows "is_lower_hex_64 cid"
  using assms(2) hex_sha256_shape [OF assms(1)]
  by (auto simp: derive_bound_conflict_id_def derive_conflict_id_def is_lower_hex_64_def Let_def)

lemma accepted_remote_revision:
  assumes "conflict_input_new L ev b r cs = Inr input" "cp_drafts (classify_conflict input) \<noteq> []"
  shows "cf_remote_revision (cv_facts ev) \<noteq> None"
proof -
  have "b = Approved"
    using assms boundary_no_drafts [of b] classify_boundary_None [of b]
    by (fastforce simp: conflict_input_new_Inr classify_conflict_unbound unbound_plan_def)
  then have "is_some_and (cf_remote_revision (cv_facts ev)) is_remote_id"
    using assms(1) by (simp add: conflict_input_new_Inr validate_classification_evidence_def Let_def split: if_split_asm)
  then show ?thesis by (cases "cf_remote_revision (cv_facts ev)") simp_all
qed

lemma blocked_draft_source:
  assumes "draft_for L r plan c cid = Inr (d, dep)" "md_durable_operation_kind d = Some RemoteExistingBlocked"
  shows "md_source d \<noteq> None"
  using assms by (cases r) (auto simp: draft_defs elim!: conflict_copy_draft_Inr)

text \<open>
  C33: materialized intents fit the ledger. From an accepted conflict, every intent a materialized
  plan yields passes the validation of the mutation ledger, given a total digest, an operation
  identifier that is not nil and paths whose first component folds without a separator; for a
  blocked change of an existing remote item exactly when the base revisions are given together with
  the base, which the materialization does not check.
\<close>

theorem materialized_intent_is_valid:
  assumes input: "conflict_input_new L ev b r cs = Inr input"
    and mat: "materialize_conflict_plan L (classify_conflict input) c = Inr mp"
    and intent: "mutation_intent_from_draft L mp d now = Inr (Some i)"
    and libs: "sha256_total L" "\<not> is_nil (mi_operation_id i)"
    and paths: "\<forall>p \<in> set (flatten_opt [mi_source_path i, mi_destination_path i]).
      CHR ''/'' \<notin> set (nfkc_casefold_nfkc L (hd (split_on CHR ''/'' p)))"
  shows "validate_mutation_intent L i = Inr () \<longleftrightarrow>
    (mi_operation_kind i = RemoteExistingBlocked \<longrightarrow>
       (mc_base_local_revision c \<noteq> None) = (mc_base c \<noteq> None)
       \<and> (mc_base_remote_revision c \<noteq> None) = (mc_base c \<noteq> None))"
proof (rule mutation_intent_from_draft_Inr [OF intent], rule materialize_Inr [OF mat])
  fix k ev' cid'
  assume now: "fits_i64 now" and d: "d \<in> set (mp_drafts mp)" and k: "md_durable_operation_kind d = Some k"
    and i: "i = (draft_intent mp d k now)\<lparr>mi_intent_fingerprint := intent_fingerprint L (draft_intent mp d k now)\<rparr>"
    and ctx: "validate_context L c = Inr ()"
    and ev': "cp_classification_evidence (classify_conflict input) = Some ev'"
    and bound: "classification_bound (classify_conflict input) ev' c"
    and mp: "mp_account_id mp = mc_account_id c" "mp_remote_root_id mp = mc_remote_root_id c"
      "mp_base_reference mp = mc_base_reference c" "mp_base_local_revision mp = mc_base_local_revision c"
      "mp_base_remote_revision mp = mc_base_remote_revision c"
      "mp_base mp = mc_base c" "mp_local mp = mc_local c" "mp_remote mp = mc_remote c"
  let ?i = "draft_intent mp d k now"
  obtain q dep cid where q: "q \<in> set (cp_drafts (classify_conflict input))"
    and draft: "draft_for L q (classify_conflict input) c cid = Inr (d, dep)"
    and cid: "derive_bound_conflict_id L (classify_conflict input) = Inr cid"
    by (rule materialized_draft [OF mat d])
  note fields = draft_intent_fields [OF ctx draft_for_valid [OF ctx draft k] mp refl, of k now]
  have marker: "validate_redacted_code (md_operation_marker d) = Inr ()"
    using draft_for_well [OF draft] operation_marker_valid [OF bound_conflict_id_hex [OF libs(1) cid]]
    by (auto simp: well_drafted_def)
  have path: "for_each (validate_content_path L) (flatten_opt [mi_source_path ?i, mi_destination_path ?i]) = Inr ()"
    using fields(7) paths exact_path_content by (simp add: for_each_eq_Inr i)
  have "ev' = ev" using ev' input by (simp add: conflict_input_new_Inr classify_conflict_unbound)
  moreover have "cp_drafts (classify_conflict input) \<noteq> []" using q by auto
  ultimately have "Option.bind (mc_remote c) ps_revision \<noteq> None"
    using accepted_remote_revision [OF input] bound unfolding classification_bound_def Let_def by metis
  then have remote: "mc_remote c \<noteq> None" "mi_expected_remote_revision ?i \<noteq> None"
    by (cases "mc_remote c"; simp add: draft_intent_def mp)+
  have "md_source d \<noteq> None" if "k = RemoteExistingBlocked" using blocked_draft_source [OF draft] k that by simp
  then have blocked: "k = RemoteExistingBlocked \<Longrightarrow> mi_account_id ?i \<noteq> None \<and> mi_remote_root_id ?i \<noteq> None
      \<and> mi_remote_file_id ?i \<noteq> None \<and> mi_source_parent_id ?i \<noteq> None \<and> mi_source_path ?i \<noteq> None"
    using remote(1) by (auto simp: draft_intent_def mp)
  have plain: "mi_operation_marker ?i = md_operation_marker d" "mi_operation_kind ?i = k" "mi_registered_at_unix_ms ?i = now"
    "mi_account_id ?i \<noteq> None" "mi_remote_root_id ?i \<noteq> None" "mi_base_local_revision ?i = mc_base_local_revision c"
    "mi_base_remote_revision ?i = mc_base_remote_revision c"
    "mi_base_sha256 ?i \<noteq> None \<longleftrightarrow> mc_base c \<noteq> None" "mi_base_byte_length ?i \<noteq> None \<longleftrightarrow> mc_base c \<noteq> None"
    by (simp_all add: draft_intent_def mp)
  have nil: "\<not> is_nil (mi_operation_id ?i)" using libs(2) by (simp add: i)
  have seal: "validate_revision (intent_fingerprint L ?i) = Inr ()"
    "intent_fingerprint L (?i\<lparr>mi_intent_fingerprint := x\<rparr>) = intent_fingerprint L ?i" for x
    using fingerprints_valid(1) [OF libs(1)] by (simp_all add: intent_fingerprint_def intent_fields_def)
  show ?thesis
    unfolding i validate_mutation_intent_def
    using nil marker seal fields(1-6) path blocked plain remote(2) now
    by (cases "k = RemoteExistingBlocked") (auto simp: u64_to_i64_def)
qed

theorem materialized_intent_is_valid_witness:
  "\<exists>mp i. mutation_intent_from_draft plan_libs mp (hd (mp_drafts mp)) 100 = Inr (Some i)
    \<and> mi_operation_kind i = LocalPublish \<and> validate_mutation_intent plan_libs i = Inr ()"
proof (rule demo_remote_materialized)
  fix mp d
  assume mat: "materialize_conflict_plan plan_libs (classify_conflict demo_remote_input) (demo_ctx demo_remote_ev) = Inr mp"
    and d: "hd (mp_drafts mp) = d" "d \<in> set (mp_drafts mp)" "md_durable_operation_kind d = Some LocalPublish" "md_operation_id d = 7"
      "map_option ps_portable_path (md_source d) = Some ''notes/a.md''"
      "map_option pt_portable_path (md_destination d) = Some ''notes/a.md''"
  let ?i = "(draft_intent mp d LocalPublish 100)\<lparr>mi_intent_fingerprint := intent_fingerprint plan_libs (draft_intent mp d LocalPublish 100)\<rparr>"
  have made: "mutation_intent_from_draft plan_libs mp d 100 = Inr (Some ?i)"
    using d by (auto simp: mutation_intent_from_draft_def fits_i64_def list_ex_iff Let_def)
  have total: "sha256_total plan_libs" using demo_sha256_total by (simp add: sha256_total_def plan_libs_def)
  have fold: "CHR ''/'' \<notin> set (nfkc_casefold_nfkc plan_libs (hd (split_on CHR ''/'' ''notes/a.md'')))" by code_simp
  have fields: "mi_operation_id ?i = 7" "mi_operation_kind ?i = LocalPublish"
    "mi_source_path ?i = Some ''notes/a.md''" "mi_destination_path ?i = Some ''notes/a.md''"
    using d by (simp_all add: draft_intent_def)
  have "\<not> is_nil (mi_operation_id ?i)" unfolding fields by (simp add: is_nil_def)
  moreover have "\<forall>p \<in> set (flatten_opt [mi_source_path ?i, mi_destination_path ?i]).
      CHR ''/'' \<notin> set (nfkc_casefold_nfkc plan_libs (hd (split_on CHR ''/'' p)))"
    unfolding fields using fold by (simp add: flatten_opt_def)
  ultimately have "validate_mutation_intent plan_libs ?i = Inr ()"
    using materialized_intent_is_valid [OF demo_remote_accepted(1) mat made total] fields(2) by auto
  then show ?thesis using made d(1) by (intro exI [of _ mp] exI [of _ ?i]) (simp add: draft_intent_def)
qed

section \<open>Two cells that cannot finish\<close>

text \<open>
  C35: a local rename against a remote edit can be classified but never materialized: its plan asks
  for a base and its outcome resolves none, whatever the context.
\<close>

theorem rename_against_edit_never_materializes:
  assumes "ci_boundary input = Approved" "ci_replay input = Fresh" "ci_case input = LocalRenameRemoteEdited"
  shows "\<not> is_ok (materialize_conflict_plan L (classify_conflict input) c)"
proof
  assume "is_ok (materialize_conflict_plan L (classify_conflict input) c)"
  then obtain mp where "materialize_conflict_plan L (classify_conflict input) c = Inr mp" by (auto simp: is_ok_iff)
  then show False
    by (rule materialize_Inr)
      (auto simp: classify_conflict_unbound assms unbound_plan_def plan_defs base_draft_def resolved_base_content_def)
qed

theorem rename_against_edit_never_materializes_witness:
  "\<not> is_ok (materialize_conflict_plan demo_libs
      (classify_conflict (demo_input demo_ev Approved LocalRenameRemoteEdited)) (demo_ctx demo_ev))"
  using rename_against_edit_never_materializes [of "demo_input demo_ev Approved LocalRenameRemoteEdited"]
  by (simp add: demo_input_def)

text \<open>
  C36: a merge publication can never be recorded as applied unless the merge is the remote content:
  its intent expects the merged digest locally and the remote digest remotely, and the ledger
  compares the one observed digest with both.
\<close>

theorem merge_publication_cannot_complete:
  assumes intent: "mutation_intent_from_draft L mp d now = Inr (Some i)"
    and d: "md_expected_content d = Some merged" and remote: "mp_remote mp = Some rem"
    and differ: "fp_sha256 merged \<noteq> fp_sha256 (ps_content rem)"
    and stored: "load_intent g (mi_operation_id i) = Some i"
  shows "\<not> is_ok (record_mutation_outcome L (mi_operation_id i) v e TransitionVerifiedApplied g)"
proof
  assume "is_ok (record_mutation_outcome L (mi_operation_id i) v e TransitionVerifiedApplied g)"
  then have "validate_verified_applied_evidence (Some i) e = Inr ()"
    using stored by (auto simp: is_ok_iff record_mutation_outcome_def split: if_splits)
  moreover have "mi_expected_local_sha256 i = Some (fp_sha256 merged)"
    "mi_expected_remote_sha256 i = Some (fp_sha256 (ps_content rem))"
    using d remote by (auto intro: mutation_intent_from_draft_Inr [OF intent] simp: draft_intent_def)
  ultimately show False using verified_applied_matches [of i e] differ by auto
qed

definition demo_merge_draft :: materialization_draft where
  "demo_merge_draft = \<lparr>md_operation_id = 7, md_kind = PlanMergePublish, md_durable_operation_kind = Some MergePublish,
     md_source = demo_source None (Some (demo_fp CHR ''b'')), md_destination = Some demo_location,
     md_expected_content = Some (demo_fp CHR ''e''), md_operation_marker = ''r3.merge-publish''\<rparr>"

definition demo_merge_plan :: materialization_plan where
  "demo_merge_plan = \<lparr>mp_conflict_id = replicate 64 CHR ''0'', mp_cell = C03, mp_outcome = SafeTextMergeLocal,
     mp_cursor_gate = GateNeedsReconcile, mp_retained = [LocalBytes, RemoteBytes], mp_classification_evidence = demo_ev,
     mp_account_id = ''acct'', mp_remote_root_id = ''root'', mp_base_reference = None, mp_durable_state_version = 3,
     mp_base_local_revision = None, mp_base_remote_revision = None, mp_base = demo_source None (Some (demo_fp CHR ''a'')),
     mp_local = demo_source None (Some (demo_fp CHR ''b'')), mp_remote = demo_source None (Some (demo_fp CHR ''c'')),
     mp_drafts = [demo_merge_draft], mp_cursor_dependencies = [], mp_execution_dependencies = []\<rparr>"

theorem merge_publication_cannot_complete_witness:
  "\<exists>i. mutation_intent_from_draft demo_libs demo_merge_plan demo_merge_draft 100 = Inr (Some i)
    \<and> (\<forall>v e. \<not> is_ok (record_mutation_outcome demo_libs (mi_operation_id i) v e TransitionVerifiedApplied
         (empty_ledger\<lparr>lg_intents := [i]\<rparr>)))"
proof -
  obtain i where i: "mutation_intent_from_draft demo_libs demo_merge_plan demo_merge_draft 100 = Inr (Some i)"
    by (simp add: mutation_intent_from_draft_def fits_i64_def demo_merge_plan_def Let_def demo_merge_draft_def)
  have "md_expected_content demo_merge_draft = Some (demo_fp CHR ''e'')" by (simp add: demo_merge_draft_def)
  moreover obtain rem where "mp_remote demo_merge_plan = Some rem" "ps_content rem = demo_fp CHR ''c''"
    by (simp add: demo_merge_plan_def demo_source_def)
  moreover have "fp_sha256 (demo_fp CHR ''e'') \<noteq> fp_sha256 (demo_fp CHR ''c'')" by (simp add: demo_fp_def)
  moreover have "load_intent (empty_ledger\<lparr>lg_intents := [i]\<rparr>) (mi_operation_id i) = Some i"
    by (simp add: load_intent_def empty_ledger_def)
  ultimately show ?thesis
    using i merge_publication_cannot_complete [OF i] by metis
qed

end
