(* ===== verification/Sync_Records.thy ===== *)
theory Sync_Records
  imports Mutation_Ledger "HOL-Library.List_Lexorder" "HOL-Library.Char_ord"
begin

text \<open>
  The durable records of \<open>SyncStore\<close> (\<open>store.rs\<close>) beside the mutation ledger: the vault state, the
  remote metadata, the scan frontier, queue jobs, transfers and the cursor batch, with their
  validators, and \<open>sync_store\<close>, the whole database. Tables are lists of rows in insertion order.
  Enumerations are stored by constructor; the spellings are the \<open>as_str\<close>/\<open>parse\<close> pairs. An attempt
  count is the integer of its column, read back through \<open>u32::try_from\<close>.
\<close>

section \<open>Vault state and remote metadata\<close>

datatype bind_outcome = BindCreated | AlreadyBound | LegacyBindingConfirmed

record vault_sync_state =
  vs_vault_id :: uuid
  vs_account_id :: "string option"
  vs_remote_root_id :: string
  vs_phase :: sync_phase
  vs_start_token :: "string option"
  vs_scan_page_token :: "string option"
  vs_changes_page_token :: "string option"
  vs_durable_cursor :: "string option"
  vs_rescan_required :: bool
  vs_updated_at_unix_ms :: u64

record remote_base_evidence =
  rb_local_revision :: string
  rb_remote_revision :: string
  rb_content_hash :: string
  rb_byte_length :: u64

text \<open>
  A row of \<open>remote_entries\<close>. The four base columns are null together or not at all
  (\<open>CHECK\<close> of the schema).
\<close>

record remote_row =
  rr_entry :: remote_entry
  rr_base :: "remote_base_evidence option"

record frontier_row =
  fr_sequence :: int
  fr_folder_id :: string
  fr_portable_path :: string
  fr_page_token :: "string option"

record remote_preview_cursor =
  pc_path :: string
  pc_file_id :: string

record remote_preview_entry =
  pe_file_id :: string
  pe_parent_id :: string
  pe_path :: string
  pe_kind :: remote_entry_kind
  pe_path_collision :: bool

record remote_preview_page =
  pp_entries :: "remote_preview_entry list"
  pp_next_after :: "remote_preview_cursor option"
  pp_has_more :: bool
  pp_total_entries :: nat
  pp_colliding_entries :: nat
  pp_rescan_required :: bool

section \<open>Queue jobs\<close>

datatype queue_job_kind = JobUpload | JobDownload | JobMove | JobTrash

fun job_kind_as_str :: "queue_job_kind \<Rightarrow> string" where
  "job_kind_as_str JobUpload = ''upload''"
| "job_kind_as_str JobDownload = ''download''"
| "job_kind_as_str JobMove = ''move''"
| "job_kind_as_str JobTrash = ''trash''"

definition job_kind_parse :: "string \<Rightarrow> error + queue_job_kind" where
  "job_kind_parse value =
     (if value = ''upload'' then Inr JobUpload
      else if value = ''download'' then Inr JobDownload
      else if value = ''move'' then Inr JobMove
      else if value = ''trash'' then Inr JobTrash
      else Inl InvalidSchema)"

datatype job_state = JobPending | JobRunning | JobRetryScheduled | JobNeedsReconcile | JobCompleted

fun job_state_as_str :: "job_state \<Rightarrow> string" where
  "job_state_as_str JobPending = ''pending''"
| "job_state_as_str JobRunning = ''running''"
| "job_state_as_str JobRetryScheduled = ''retry_scheduled''"
| "job_state_as_str JobNeedsReconcile = ''needs_reconcile''"
| "job_state_as_str JobCompleted = ''completed''"

definition job_state_parse :: "string \<Rightarrow> error + job_state" where
  "job_state_parse value =
     (if value = ''pending'' then Inr JobPending
      else if value = ''running'' then Inr JobRunning
      else if value = ''retry_scheduled'' then Inr JobRetryScheduled
      else if value = ''needs_reconcile'' then Inr JobNeedsReconcile
      else if value = ''completed'' then Inr JobCompleted
      else Inl InvalidSchema)"

record queue_job =
  jb_operation_id :: uuid
  jb_kind :: queue_job_kind
  jb_path :: string
  jb_destination_path :: "string option"
  jb_remote_file_id :: "string option"
  jb_expected_local_revision :: "string option"
  jb_state :: job_state
  jb_attempt_count :: int
  jb_next_attempt_at_unix_ms :: u64
  jb_created_at_unix_ms :: u64
  jb_last_error_code :: "string option"

definition queue_job_validate :: "libs \<Rightarrow> queue_job \<Rightarrow> error + unit" where
  "queue_job_validate L j =
     (if is_nil (jb_operation_id j) then Inl QueueCollision
      else and_then (validate_content_path L (jb_path j)) (\<lambda>_.
      and_then (case (jb_kind j, jb_destination_path j) of
          (JobMove, Some destination) \<Rightarrow> validate_content_path L destination
        | (JobMove, None) \<Rightarrow> Inl InvalidPortablePath
        | (_, Some _) \<Rightarrow> Inl InvalidPortablePath
        | (_, None) \<Rightarrow> Inr ()) (\<lambda>_.
      and_then (for_each validate_remote_id (flatten_opt [jb_remote_file_id j])) (\<lambda>_.
      if jb_kind j \<in> set [JobDownload, JobMove, JobTrash] \<and> jb_remote_file_id j = None
      then Inl InvalidRemoteId
      else and_then (for_each validate_revision (flatten_opt [jb_expected_local_revision j])) (\<lambda>_.
      and_then (for_each validate_redacted_code (flatten_opt [jb_last_error_code j])) (\<lambda>_.
      and_then (u64_to_i64 (jb_next_attempt_at_unix_ms j)) (\<lambda>_.
      and_then (u64_to_i64 (jb_created_at_unix_ms j)) (\<lambda>_. Inr ()))))))))"

definition queue_job_new ::
    "libs \<Rightarrow> uuid \<Rightarrow> queue_job_kind \<Rightarrow> string \<Rightarrow> string option \<Rightarrow> string option \<Rightarrow> string option \<Rightarrow> u64
      \<Rightarrow> error + queue_job" where
  "queue_job_new L op kind path destination remote_file revision created =
     (let job = \<lparr>jb_operation_id = op, jb_kind = kind, jb_path = path, jb_destination_path = destination,
        jb_remote_file_id = remote_file, jb_expected_local_revision = revision, jb_state = JobPending,
        jb_attempt_count = 0, jb_next_attempt_at_unix_ms = created, jb_created_at_unix_ms = created,
        jb_last_error_code = None\<rparr> in
      and_then (queue_job_validate L job) (\<lambda>_. Inr job))"

definition same_request :: "queue_job \<Rightarrow> queue_job \<Rightarrow> bool" where
  "same_request a b =
     (jb_operation_id a = jb_operation_id b \<and> jb_kind a = jb_kind b \<and> jb_path a = jb_path b
      \<and> jb_destination_path a = jb_destination_path b \<and> jb_remote_file_id a = jb_remote_file_id b
      \<and> jb_expected_local_revision a = jb_expected_local_revision b
      \<and> jb_created_at_unix_ms a = jb_created_at_unix_ms b)"

datatype enqueue_outcome = Enqueued | JobAlreadyPresent | JobAlreadyCompleted

record history_row =
  hi_operation_id :: uuid
  hi_outcome_code :: string
  hi_occurred_at_unix_ms :: u64

section \<open>Transfers\<close>

datatype transfer_direction = TransferUpload | TransferDownload

fun direction_as_str :: "transfer_direction \<Rightarrow> string" where
  "direction_as_str TransferUpload = ''upload''"
| "direction_as_str TransferDownload = ''download''"

definition direction_parse :: "string \<Rightarrow> error + transfer_direction" where
  "direction_parse value =
     (if value = ''upload'' then Inr TransferUpload
      else if value = ''download'' then Inr TransferDownload
      else Inl InvalidSchema)"

datatype transfer_mime_class = MimeMarkdown | MimeBlob

fun mime_class_as_str :: "transfer_mime_class \<Rightarrow> string" where
  "mime_class_as_str MimeMarkdown = ''markdown''"
| "mime_class_as_str MimeBlob = ''blob''"

definition mime_class_parse :: "string \<Rightarrow> error + transfer_mime_class" where
  "mime_class_parse value =
     (if value = ''markdown'' then Inr MimeMarkdown
      else if value = ''blob'' then Inr MimeBlob
      else Inl InvalidSchema)"

datatype transfer_phase =
    TransferPending | TransferRunning | TransferRetryScheduled | TransferAuthRequired
  | TransferNeedsReconcile | TransferCompleted

fun transfer_phase_as_str :: "transfer_phase \<Rightarrow> string" where
  "transfer_phase_as_str TransferPending = ''pending''"
| "transfer_phase_as_str TransferRunning = ''running''"
| "transfer_phase_as_str TransferRetryScheduled = ''retry_scheduled''"
| "transfer_phase_as_str TransferAuthRequired = ''auth_required''"
| "transfer_phase_as_str TransferNeedsReconcile = ''needs_reconcile''"
| "transfer_phase_as_str TransferCompleted = ''completed''"

definition transfer_phase_parse :: "string \<Rightarrow> error + transfer_phase" where
  "transfer_phase_parse value =
     (if value = ''pending'' then Inr TransferPending
      else if value = ''running'' then Inr TransferRunning
      else if value = ''retry_scheduled'' then Inr TransferRetryScheduled
      else if value = ''auth_required'' then Inr TransferAuthRequired
      else if value = ''needs_reconcile'' then Inr TransferNeedsReconcile
      else if value = ''completed'' then Inr TransferCompleted
      else Inl InvalidSchema)"

record transfer_record =
  tr_operation_id :: uuid
  tr_direction :: transfer_direction
  tr_portable_path :: string
  tr_remote_parent_id :: string
  tr_remote_file_id :: "string option"
  tr_display_name :: string
  tr_expected_local_revision :: "string option"
  tr_expected_remote_revision :: "string option"
  tr_sha256 :: string
  tr_byte_length :: u64
  tr_mime_class :: transfer_mime_class
  tr_operation_marker :: string
  tr_stage_reference :: "string option"
  tr_base_reference :: "string option"
  tr_phase :: transfer_phase
  tr_attempt_count :: int
  tr_next_attempt_at_unix_ms :: u64
  tr_created_at_unix_ms :: u64
  tr_updated_at_unix_ms :: u64
  tr_last_error_code :: "string option"
  tr_verified_local_revision :: "string option"
  tr_verified_remote_revision :: "string option"

text \<open>\<open>portable_path.rsplit('/').next()\<close> always has a first element.\<close>

definition display_name_of :: "string \<Rightarrow> string" where
  "display_name_of path = last (split_on CHR ''/'' path)"

definition transfer_validate :: "libs \<Rightarrow> transfer_record \<Rightarrow> error + unit" where
  "transfer_validate L t =
     (if is_nil (tr_operation_id t) then Inl InvalidTransferEvidence
      else and_then (validate_content_path L (tr_portable_path t)) (\<lambda>_.
      if tr_display_name t \<noteq> display_name_of (tr_portable_path t) then Inl InvalidTransferEvidence
      else and_then (validate_remote_id (tr_remote_parent_id t)) (\<lambda>_.
      and_then (for_each validate_remote_id (flatten_opt [tr_remote_file_id t])) (\<lambda>_.
      if tr_direction t = TransferDownload \<and> tr_remote_file_id t = None then Inl InvalidTransferEvidence
      else if tr_direction t = TransferUpload
        \<and> (tr_expected_local_revision t = None \<or> tr_stage_reference t = None)
      then Inl InvalidTransferEvidence
      else and_then (for_each validate_revision (flatten_opt [tr_expected_local_revision t])) (\<lambda>_.
      and_then (for_each validate_remote_id (flatten_opt [tr_expected_remote_revision t])) (\<lambda>_.
      and_then (validate_revision (tr_sha256 t)) (\<lambda>_.
      and_then (validate_remote_id (tr_operation_marker t)) (\<lambda>_.
      and_then (for_each validate_private_reference
        (flatten_opt [tr_stage_reference t, tr_base_reference t])) (\<lambda>_.
      and_then (for_each validate_redacted_code (flatten_opt [tr_last_error_code t])) (\<lambda>_.
      and_then (for_each validate_revision (flatten_opt [tr_verified_local_revision t])) (\<lambda>_.
      and_then (for_each validate_remote_id (flatten_opt [tr_verified_remote_revision t])) (\<lambda>_.
      and_then (for_each (\<lambda>n. and_then (u64_to_i64 n) (\<lambda>_. Inr ()))
        [tr_byte_length t, tr_next_attempt_at_unix_ms t, tr_created_at_unix_ms t,
         tr_updated_at_unix_ms t]) (\<lambda>_.
      if tr_updated_at_unix_ms t < tr_created_at_unix_ms t
        \<or> tr_phase t = TransferCompleted
          \<and> (tr_remote_file_id t = None \<or> tr_base_reference t = None
             \<or> tr_verified_local_revision t = None \<or> tr_verified_remote_revision t = None)
      then Inl InvalidTransferEvidence else Inr ())))))))))))))"

definition transfer_new ::
    "libs \<Rightarrow> uuid \<Rightarrow> transfer_direction \<Rightarrow> string \<Rightarrow> string \<Rightarrow> string option \<Rightarrow> string option \<Rightarrow> string option
      \<Rightarrow> string \<Rightarrow> u64 \<Rightarrow> transfer_mime_class \<Rightarrow> string \<Rightarrow> string option \<Rightarrow> string option \<Rightarrow> u64
      \<Rightarrow> error + transfer_record" where
  "transfer_new L op direction path parent remote_file local_revision remote_revision sha bytes mime marker
     stage base created =
     (let record = \<lparr>tr_operation_id = op, tr_direction = direction, tr_portable_path = path,
        tr_remote_parent_id = parent, tr_remote_file_id = remote_file,
        tr_display_name = display_name_of path, tr_expected_local_revision = local_revision,
        tr_expected_remote_revision = remote_revision, tr_sha256 = sha, tr_byte_length = bytes,
        tr_mime_class = mime, tr_operation_marker = marker, tr_stage_reference = stage,
        tr_base_reference = base, tr_phase = TransferPending, tr_attempt_count = 0,
        tr_next_attempt_at_unix_ms = created, tr_created_at_unix_ms = created,
        tr_updated_at_unix_ms = created, tr_last_error_code = None,
        tr_verified_local_revision = None, tr_verified_remote_revision = None\<rparr> in
      and_then (transfer_validate L record) (\<lambda>_. Inr record))"

definition same_registration :: "transfer_record \<Rightarrow> transfer_record \<Rightarrow> bool" where
  "same_registration a b =
     (tr_operation_id a = tr_operation_id b \<and> tr_direction a = tr_direction b
      \<and> tr_portable_path a = tr_portable_path b \<and> tr_remote_parent_id a = tr_remote_parent_id b
      \<and> (tr_remote_file_id b = None \<or> tr_remote_file_id a = tr_remote_file_id b)
      \<and> tr_display_name a = tr_display_name b
      \<and> tr_expected_local_revision a = tr_expected_local_revision b
      \<and> tr_expected_remote_revision a = tr_expected_remote_revision b
      \<and> tr_sha256 a = tr_sha256 b \<and> tr_byte_length a = tr_byte_length b
      \<and> tr_mime_class a = tr_mime_class b \<and> tr_operation_marker a = tr_operation_marker b
      \<and> tr_stage_reference a = tr_stage_reference b
      \<and> (tr_base_reference b = None \<or> tr_base_reference a = tr_base_reference b)
      \<and> tr_created_at_unix_ms a = tr_created_at_unix_ms b)"

datatype transfer_registration_outcome =
    TransferRegistered | TransferAlreadyPresent | TransferAlreadyCompleted

record transfer_completion =
  tc_remote_file_id :: string
  tc_remote_revision :: string
  tc_local_revision :: string
  tc_base_reference :: string
  tc_outcome_code :: string
  tc_occurred_at_unix_ms :: u64

definition completion_validate :: "transfer_completion \<Rightarrow> error + unit" where
  "completion_validate c =
     and_then (validate_remote_id (tc_remote_file_id c)) (\<lambda>_.
     and_then (validate_remote_id (tc_remote_revision c)) (\<lambda>_.
     and_then (validate_revision (tc_local_revision c)) (\<lambda>_.
     and_then (validate_private_reference (tc_base_reference c)) (\<lambda>_.
     and_then (validate_redacted_code (tc_outcome_code c)) (\<lambda>_.
     and_then (u64_to_i64 (tc_occurred_at_unix_ms c)) (\<lambda>_. Inr ()))))))"

definition completion_new ::
    "string \<Rightarrow> string \<Rightarrow> string \<Rightarrow> string \<Rightarrow> string \<Rightarrow> u64 \<Rightarrow> error + transfer_completion" where
  "completion_new file remote_revision local_revision base code occurred =
     (let c = \<lparr>tc_remote_file_id = file, tc_remote_revision = remote_revision,
        tc_local_revision = local_revision, tc_base_reference = base, tc_outcome_code = code,
        tc_occurred_at_unix_ms = occurred\<rparr> in
      and_then (completion_validate c) (\<lambda>_. Inr c))"

datatype transfer_completion_outcome = CompletionCompleted | CompletionAlreadyCompleted

record transfer_summary =
  ts_pending :: nat
  ts_running :: nat
  ts_retry_scheduled :: nat
  ts_auth_required :: nat
  ts_needs_reconcile :: nat
  ts_completed :: nat

definition summary_active :: "transfer_summary \<Rightarrow> nat" where
  "summary_active s = ts_pending s + ts_running s + ts_retry_scheduled s + ts_auth_required s + ts_needs_reconcile s"

section \<open>Cursor batches\<close>

datatype local_mutation_state = LocalPending | LocalApplying | LocalNeedsReconcile | LocalCommitted

fun local_state_as_str :: "local_mutation_state \<Rightarrow> string" where
  "local_state_as_str LocalPending = ''pending''"
| "local_state_as_str LocalApplying = ''applying''"
| "local_state_as_str LocalNeedsReconcile = ''needs_reconcile''"
| "local_state_as_str LocalCommitted = ''committed''"

definition local_state_parse :: "string \<Rightarrow> error + local_mutation_state" where
  "local_state_parse value =
     (if value = ''pending'' then Inr LocalPending
      else if value = ''applying'' then Inr LocalApplying
      else if value = ''needs_reconcile'' then Inr LocalNeedsReconcile
      else if value = ''committed'' then Inr LocalCommitted
      else Inl InvalidSchema)"

record local_mutation_status =
  lm_mutation_id :: string
  lm_state :: local_mutation_state

record change_batch =
  cb_batch_id :: uuid
  cb_expected_cursor :: string
  cb_next_cursor :: string
  cb_declared_mutations :: nat
  cb_applying_mutations :: nat
  cb_committed_mutations :: nat

record batch_row =
  br_batch_id :: uuid
  br_expected_cursor :: string
  br_next_cursor :: string

text \<open>The column \<open>dependency_kind\<close>: \<open>legacy_v3\<close> or a typed R3 dependency.\<close>

datatype batch_dependency = LegacyV3 | Typed dependency_kind

record batch_mutation =
  bm_batch_id :: uuid
  bm_mutation_id :: string
  bm_dependency_kind :: batch_dependency
  bm_operation_id :: "uuid option"
  bm_committed_evidence_id :: "uuid option"
  bm_state :: local_mutation_state

section \<open>The database\<close>

record sync_store =
  ss_vault_id :: uuid
  ss_vault_state :: "vault_sync_state option"
  ss_remote_entries :: "remote_row list"
  ss_frontier :: "frontier_row list"
  ss_jobs :: "queue_job list"
  ss_job_history :: "history_row list"
  ss_transfers :: "transfer_record list"
  ss_transfer_history :: "history_row list"
  ss_batch :: "batch_row option"
  ss_batch_mutations :: "batch_mutation list"
  ss_ledger :: ledger

definition empty_store :: "uuid \<Rightarrow> sync_store" where
  "empty_store vault = \<lparr>ss_vault_id = vault, ss_vault_state = None, ss_remote_entries = [],
     ss_frontier = [], ss_jobs = [], ss_job_history = [], ss_transfers = [], ss_transfer_history = [],
     ss_batch = None, ss_batch_mutations = [], ss_ledger = empty_ledger\<rparr>"

text \<open>An \<open>UPDATE ... WHERE\<close> and the number of rows it changes.\<close>

definition update_where :: "('r \<Rightarrow> bool) \<Rightarrow> ('r \<Rightarrow> 'r) \<Rightarrow> 'r list \<Rightarrow> 'r list" where
  "update_where P f rows = map (\<lambda>r. if P r then f r else r) rows"

definition count_where :: "('r \<Rightarrow> bool) \<Rightarrow> 'r list \<Rightarrow> nat" where
  "count_where P rows = length (filter P rows)"

text \<open>\<open>u32::try_from\<close> on a column.\<close>

definition fits_u32 :: "int \<Rightarrow> bool" where
  "fits_u32 n = (0 \<le> n \<and> n < 2 ^ 32)"

section \<open>Spellings\<close>

interpretation job_kind_wire: wire_enum job_kind_as_str job_kind_parse
proof unfold_locales
  show "job_kind_parse (job_kind_as_str x) = Inr x" for x by (cases x) (simp_all add: job_kind_parse_def)
  show "job_kind_as_str x = s" if "job_kind_parse s = Inr x" for s x
    using that by (auto simp: job_kind_parse_def split: if_splits)
qed

interpretation job_state_wire: wire_enum job_state_as_str job_state_parse
proof unfold_locales
  show "job_state_parse (job_state_as_str x) = Inr x" for x by (cases x) (simp_all add: job_state_parse_def)
  show "job_state_as_str x = s" if "job_state_parse s = Inr x" for s x
    using that by (auto simp: job_state_parse_def split: if_splits)
qed

interpretation direction_wire: wire_enum direction_as_str direction_parse
proof unfold_locales
  show "direction_parse (direction_as_str x) = Inr x" for x by (cases x) (simp_all add: direction_parse_def)
  show "direction_as_str x = s" if "direction_parse s = Inr x" for s x
    using that by (auto simp: direction_parse_def split: if_splits)
qed

interpretation mime_class_wire: wire_enum mime_class_as_str mime_class_parse
proof unfold_locales
  show "mime_class_parse (mime_class_as_str x) = Inr x" for x by (cases x) (simp_all add: mime_class_parse_def)
  show "mime_class_as_str x = s" if "mime_class_parse s = Inr x" for s x
    using that by (auto simp: mime_class_parse_def split: if_splits)
qed

interpretation transfer_phase_wire: wire_enum transfer_phase_as_str transfer_phase_parse
proof unfold_locales
  show "transfer_phase_parse (transfer_phase_as_str x) = Inr x" for x
    by (cases x) (simp_all add: transfer_phase_parse_def)
  show "transfer_phase_as_str x = s" if "transfer_phase_parse s = Inr x" for s x
    using that by (auto simp: transfer_phase_parse_def split: if_splits)
qed

interpretation local_state_wire: wire_enum local_state_as_str local_state_parse
proof unfold_locales
  show "local_state_parse (local_state_as_str x) = Inr x" for x by (cases x) (simp_all add: local_state_parse_def)
  show "local_state_as_str x = s" if "local_state_parse s = Inr x" for s x
    using that by (auto simp: local_state_parse_def split: if_splits)
qed

end
