(* ===== verification/Initial_Sync.thy ===== *)
theory Initial_Sync
  imports Sync_Records
begin

text \<open>
  Binding a vault to a remote root and the initial scan: the store operations of \<open>store.rs\<close> on
  \<open>vault_state\<close>, \<open>remote_entries\<close> and \<open>scan_frontier\<close>, the preview query, and the driver
  \<open>advance_initial_sync\<close> of \<open>lib.rs\<close>. A store operation is one transaction: on an error the store is
  as before. The driver commits through several transactions, so it returns the store beside its result.
\<close>

section \<open>Vault state\<close>

definition load_state :: "sync_store \<Rightarrow> error + vault_sync_state option" where
  "load_state s =
     (case ss_vault_state s of
        None \<Rightarrow> Inr None
      | Some st \<Rightarrow>
          if vs_vault_id st \<noteq> ss_vault_id s then Inl BindingCollision
          else and_then (validate_remote_id (vs_remote_root_id st)) (\<lambda>_.
          and_then (for_each validate_remote_id (flatten_opt [vs_account_id st])) (\<lambda>_.
          and_then (for_each validate_remote_token (flatten_opt [vs_start_token st, vs_scan_page_token st,
            vs_changes_page_token st, vs_durable_cursor st])) (\<lambda>_.
          Inr (Some st)))))"

definition require_state :: "sync_store \<Rightarrow> error + vault_sync_state" where
  "require_state s = and_then (load_state s) (\<lambda>st. ok_or st InvalidStateTransition)"

definition set_state :: "(vault_sync_state \<Rightarrow> vault_sync_state) \<Rightarrow> sync_store \<Rightarrow> sync_store" where
  "set_state f s = s\<lparr>ss_vault_state := map_option f (ss_vault_state s)\<rparr>"

definition bind_remote_root :: "verified_remote_binding \<Rightarrow> u64 \<Rightarrow> sync_store \<Rightarrow> error + bind_outcome \<times> sync_store" where
  "bind_remote_root binding now s =
     and_then (u64_to_i64 now) (\<lambda>_.
     and_then (load_state s) (\<lambda>loaded.
     case loaded of
       Some st \<Rightarrow>
         if vs_remote_root_id st \<noteq> vb_remote_root_id binding then Inl BindingCollision
         else (case vs_account_id st of
           Some account \<Rightarrow>
             if account \<noteq> vb_account_id binding then Inl BindingCollision else Inr (AlreadyBound, s)
         | None \<Rightarrow>
             Inr (LegacyBindingConfirmed,
               (set_state (\<lambda>v. v\<lparr>vs_account_id := Some (vb_account_id binding), vs_phase := NeedStartToken,
                  vs_start_token := None, vs_scan_page_token := None, vs_changes_page_token := None,
                  vs_durable_cursor := None, vs_rescan_required := True, vs_updated_at_unix_ms := now\<rparr>) s)
               \<lparr>ss_frontier := []\<rparr>))
     | None \<Rightarrow>
         Inr (BindCreated, s\<lparr>ss_vault_state := Some
           \<lparr>vs_vault_id = ss_vault_id s, vs_account_id = Some (vb_account_id binding),
            vs_remote_root_id = vb_remote_root_id binding, vs_phase = NeedStartToken,
            vs_start_token = None, vs_scan_page_token = None, vs_changes_page_token = None,
            vs_durable_cursor = None, vs_rescan_required = False, vs_updated_at_unix_ms = now\<rparr>\<rparr>)))"

definition verify_remote_binding :: "verified_remote_binding \<Rightarrow> sync_store \<Rightarrow> error + unit" where
  "verify_remote_binding binding s =
     and_then (require_state s) (\<lambda>st.
     and_then (ok_or (vs_account_id st) BindingRequiresAccount) (\<lambda>account.
     if account \<noteq> vb_account_id binding \<or> vs_remote_root_id st \<noteq> vb_remote_root_id binding
     then Inl BindingCollision else Inr ()))"

definition mark_rescan_required :: "u64 \<Rightarrow> sync_store \<Rightarrow> error + sync_store" where
  "mark_rescan_required now s =
     and_then (u64_to_i64 now) (\<lambda>_.
     and_then (require_state s) (\<lambda>_.
     Inr ((set_state (\<lambda>v. v\<lparr>vs_phase := NeedStartToken, vs_start_token := None, vs_scan_page_token := None,
        vs_changes_page_token := None, vs_durable_cursor := None, vs_rescan_required := True,
        vs_updated_at_unix_ms := now\<rparr>) s)\<lparr>ss_frontier := []\<rparr>)))"

section \<open>The scan frontier\<close>

definition load_frontier_head :: "sync_store \<Rightarrow> frontier_row option" where
  "load_frontier_head s = (case sort_key fr_sequence (ss_frontier s) of [] \<Rightarrow> None | r # _ \<Rightarrow> Some r)"

definition validate_frontier_path :: "libs \<Rightarrow> string \<Rightarrow> error + unit" where
  "validate_frontier_path L path = (if path = [] then Inr () else validate_content_path L path)"

text \<open>\<open>sequence\<close> is the primary key and \<open>folder_id\<close> is unique.\<close>

definition insert_frontier :: "int \<Rightarrow> string \<Rightarrow> string \<Rightarrow> sync_store \<Rightarrow> error + sync_store" where
  "insert_frontier sequence folder path s =
     (if list_ex (\<lambda>r. fr_sequence r = sequence \<or> fr_folder_id r = folder) (ss_frontier s)
      then Inl constraint_failed
      else Inr (s\<lparr>ss_frontier := ss_frontier s @ [\<lparr>fr_sequence = sequence, fr_folder_id = folder,
        fr_portable_path = path, fr_page_token = None\<rparr>]\<rparr>))"

definition begin_initial_scan :: "string \<Rightarrow> u64 \<Rightarrow> sync_store \<Rightarrow> error + sync_store" where
  "begin_initial_scan start_token now s =
     and_then (validate_remote_token start_token) (\<lambda>_.
     and_then (u64_to_i64 now) (\<lambda>_.
     and_then (require_state s) (\<lambda>st.
     if vs_phase st \<noteq> NeedStartToken then Inl InvalidStateTransition
     else if vs_account_id st = None then Inl BindingRequiresAccount
     else and_then (insert_frontier 1 (vs_remote_root_id st) [] (s\<lparr>ss_remote_entries := [], ss_frontier := []\<rparr>)) (\<lambda>s1.
     Inr (set_state (\<lambda>v. v\<lparr>vs_phase := Scanning, vs_start_token := Some start_token,
        vs_scan_page_token := None, vs_changes_page_token := None, vs_durable_cursor := None,
        vs_rescan_required := False, vs_updated_at_unix_ms := now\<rparr>) s1)))))"

definition next_scan_request :: "libs \<Rightarrow> sync_store \<Rightarrow> error + scan_request option" where
  "next_scan_request L s =
     and_then (require_state s) (\<lambda>st.
     if vs_phase st \<noteq> Scanning then Inr None
     else and_then (ok_or (load_frontier_head s) InvalidSchema) (\<lambda>r.
     and_then (validate_remote_id (fr_folder_id r)) (\<lambda>_.
     and_then (validate_frontier_path L (fr_portable_path r)) (\<lambda>_.
     and_then (for_each validate_remote_token (flatten_opt [fr_page_token r])) (\<lambda>_.
     if vs_scan_page_token st \<noteq> fr_page_token r then Inl CursorMismatch
     else Inr (Some \<lparr>sr_folder_id = fr_folder_id r, sr_folder_path = fr_portable_path r,
       sr_page_token = fr_page_token r\<rparr>))))))"

section \<open>Remote metadata\<close>

definition find_remote :: "sync_store \<Rightarrow> string \<Rightarrow> remote_row option" where
  "find_remote s file = find (\<lambda>r. re_file_id (rr_entry r) = file) (ss_remote_entries s)"

text \<open>\<open>INSERT ... ON CONFLICT(file_id) DO UPDATE\<close>: the base columns of an existing row stay.\<close>

definition upsert_rows :: "remote_entry \<Rightarrow> remote_row list \<Rightarrow> remote_row list" where
  "upsert_rows e rows =
     (if list_ex (\<lambda>r. re_file_id (rr_entry r) = re_file_id e) rows
      then update_where (\<lambda>r. re_file_id (rr_entry r) = re_file_id e) (\<lambda>r. r\<lparr>rr_entry := e\<rparr>) rows
      else rows @ [\<lparr>rr_entry = e, rr_base = None\<rparr>])"

definition upsert_remote_entry :: "libs \<Rightarrow> remote_entry \<Rightarrow> sync_store \<Rightarrow> error + sync_store" where
  "upsert_remote_entry L e s =
     and_then (remote_entry_validate L e) (\<lambda>_.
     Inr (s\<lparr>ss_remote_entries := upsert_rows e (ss_remote_entries s)\<rparr>))"

definition load_remote_entry :: "libs \<Rightarrow> sync_store \<Rightarrow> string \<Rightarrow> error + remote_entry option" where
  "load_remote_entry L s file =
     (case find_remote s file of
        None \<Rightarrow> Inr None
      | Some r \<Rightarrow>
          and_then (for_each (\<lambda>h. and_then (remote_content_hash_new (algorithm h) (hex h)) (\<lambda>_. Inr ()))
            (flatten_opt [re_content_hash (rr_entry r)])) (\<lambda>_.
          and_then (remote_entry_validate L (rr_entry r)) (\<lambda>_. Inr (Some (rr_entry r)))))"

definition store_remote_entry :: "libs \<Rightarrow> sync_store \<Rightarrow> string \<Rightarrow> error + remote_entry option" where
  "store_remote_entry L s file = and_then (validate_remote_id file) (\<lambda>_. load_remote_entry L s file)"

definition store_remote_base :: "sync_store \<Rightarrow> string \<Rightarrow> error + remote_base_evidence option" where
  "store_remote_base s file =
     and_then (validate_remote_id file) (\<lambda>_.
     case Option.bind (find_remote s file) rr_base of
       None \<Rightarrow> Inr None
     | Some b \<Rightarrow>
         and_then (validate_revision (rb_local_revision b)) (\<lambda>_.
         and_then (validate_remote_token (rb_remote_revision b)) (\<lambda>_.
         and_then (remote_content_hash_new Sha256 (rb_content_hash b)) (\<lambda>_. Inr (Some b)))))"

definition remote_entry_count :: "sync_store \<Rightarrow> nat" where
  "remote_entry_count s = length (ss_remote_entries s)"

definition MAX_REMOTE_PREVIEW_PAGE_SIZE :: nat where "MAX_REMOTE_PREVIEW_PAGE_SIZE = 200"

text \<open>Another entry has the same path.\<close>

definition path_collides :: "sync_store \<Rightarrow> remote_entry \<Rightarrow> bool" where
  "path_collides s e = list_ex (\<lambda>d. re_path (rr_entry d) = re_path e \<and> re_file_id (rr_entry d) \<noteq> re_file_id e)
     (ss_remote_entries s)"

definition preview_after :: "remote_preview_cursor option \<Rightarrow> remote_entry \<Rightarrow> bool" where
  "preview_after after e =
     (case after of
        None \<Rightarrow> True
      | Some c \<Rightarrow> re_path e > pc_path c \<or> re_path e = pc_path c \<and> re_file_id e > pc_file_id c)"

definition preview_rows :: "remote_preview_cursor option \<Rightarrow> sync_store \<Rightarrow> remote_entry list" where
  "preview_rows after s =
     sort_key re_path (sort_key re_file_id (filter (preview_after after) (map rr_entry (ss_remote_entries s))))"

definition preview_entry :: "sync_store \<Rightarrow> remote_entry \<Rightarrow> remote_preview_entry" where
  "preview_entry s e = \<lparr>pe_file_id = re_file_id e, pe_parent_id = re_parent_id e, pe_path = re_path e,
     pe_kind = re_kind e, pe_path_collision = path_collides s e\<rparr>"

definition remote_preview ::
    "libs \<Rightarrow> remote_preview_cursor option \<Rightarrow> nat \<Rightarrow> sync_store \<Rightarrow> error + remote_preview_page" where
  "remote_preview L after limit s =
     (if \<not> (1 \<le> limit \<and> limit \<le> MAX_REMOTE_PREVIEW_PAGE_SIZE) then Inl InvalidPreviewLimit
      else and_then (case after of None \<Rightarrow> Inr () | Some c \<Rightarrow>
          and_then (map_err (\<lambda>_. InvalidPreviewCursor) (validate_content_path L (pc_path c))) (\<lambda>_.
          map_err (\<lambda>_. InvalidPreviewCursor) (validate_remote_id (pc_file_id c)))) (\<lambda>_.
      and_then (require_state s) (\<lambda>st.
      let fetched = map (preview_entry s) (take (limit + 1) (preview_rows after s));
          has_more = length fetched > limit;
          entries = (if has_more then butlast fetched else fetched) in
      Inr \<lparr>pp_entries = entries,
           pp_next_after = (if has_more then Some \<lparr>pc_path = pe_path (last entries),
             pc_file_id = pe_file_id (last entries)\<rparr> else None),
           pp_has_more = has_more, pp_total_entries = remote_entry_count s,
           pp_colliding_entries = count_where (path_collides s) (map rr_entry (ss_remote_entries s)),
           pp_rescan_required = vs_rescan_required st\<rparr>)))"

section \<open>Scan pages\<close>

definition relative_child :: "string \<Rightarrow> string \<Rightarrow> string option" where
  "relative_child folder_path path =
     (if folder_path = [] then Some path
      else Option.bind (strip_prefix path folder_path) (\<lambda>rest. strip_prefix rest ''/''))"

fun validate_children :: "libs \<Rightarrow> sync_store \<Rightarrow> string \<Rightarrow> frontier_row \<Rightarrow> string list \<Rightarrow> remote_entry list
      \<Rightarrow> error + unit" where
  "validate_children L s root current identities [] = Inr ()"
| "validate_children L s root current identities (e # es) =
     and_then (remote_entry_validate L e) (\<lambda>_.
     if re_parent_id e \<noteq> fr_folder_id current \<or> re_file_id e \<in> set identities then Inl InvalidRemoteEntry
     else and_then (ok_or (relative_child (fr_portable_path current) (re_path e)) InvalidRemoteEntry) (\<lambda>relative.
     if relative = [] \<or> CHR ''/'' \<in> set relative then Inl InvalidRemoteEntry
     else if re_kind e = Folder \<and> (re_file_id e = root \<or> find_remote s (re_file_id e) \<noteq> None)
     then Inl InvalidRemoteEntry
     else validate_children L s root current (re_file_id e # identities) es))"

definition validate_scan_page_children ::
    "libs \<Rightarrow> sync_store \<Rightarrow> string \<Rightarrow> frontier_row \<Rightarrow> scan_page \<Rightarrow> error + unit" where
  "validate_scan_page_children L s root current page = validate_children L s root current [] (sp_entries page)"

text \<open>The loop of \<open>enqueue_child_folders\<close>, over the folders of the page.\<close>

fun enqueue_folders :: "frontier_row \<Rightarrow> int \<Rightarrow> nat \<Rightarrow> remote_entry list \<Rightarrow> sync_store \<Rightarrow> error + sync_store" where
  "enqueue_folders current next_sequence frontier_count [] s = Inr s"
| "enqueue_folders current next_sequence frontier_count (e # es) s =
     (if re_file_id e = fr_folder_id current then Inl InvalidRemoteEntry
      else case find (\<lambda>r. fr_folder_id r = re_file_id e) (ss_frontier s) of
        Some r \<Rightarrow>
          if fr_portable_path r \<noteq> re_path e then Inl InvalidRemoteEntry
          else enqueue_folders current next_sequence frontier_count es s
      | None \<Rightarrow>
          if next_sequence + 1 \<ge> 2 ^ 63 then Inl InvalidRemoteEntry
          else if frontier_count + 1 \<ge> usize_limit then Inl InvalidRemoteEntry
          else if frontier_count + 1 > MAX_SCAN_FRONTIER_FOLDERS then Inl InvalidRemoteEntry
          else and_then (insert_frontier (next_sequence + 1) (re_file_id e) (re_path e) s)
            (enqueue_folders current (next_sequence + 1) (frontier_count + 1) es))"

definition enqueue_child_folders :: "frontier_row \<Rightarrow> remote_entry list \<Rightarrow> sync_store \<Rightarrow> error + sync_store" where
  "enqueue_child_folders current entries s =
     enqueue_folders current (foldr max (map fr_sequence (ss_frontier s)) 0) (length (ss_frontier s))
       (filter (\<lambda>e. re_kind e = Folder) entries) s"

fun upsert_entries :: "libs \<Rightarrow> remote_entry list \<Rightarrow> sync_store \<Rightarrow> error + sync_store" where
  "upsert_entries L [] s = Inr s"
| "upsert_entries L (e # es) s = and_then (upsert_remote_entry L e s) (upsert_entries L es)"

definition advance_frontier :: "vault_sync_state \<Rightarrow> frontier_row \<Rightarrow> string option \<Rightarrow> u64 \<Rightarrow> sync_store
      \<Rightarrow> error + sync_store" where
  "advance_frontier st current next_page now s =
     (case next_page of
        Some next \<Rightarrow>
          Inr (set_state (\<lambda>v. v\<lparr>vs_scan_page_token := Some next, vs_updated_at_unix_ms := now\<rparr>)
            (s\<lparr>ss_frontier := update_where (\<lambda>r. fr_sequence r = fr_sequence current)
               (\<lambda>r. r\<lparr>fr_page_token := Some next\<rparr>) (ss_frontier s)\<rparr>))
      | None \<Rightarrow>
          let s1 = s\<lparr>ss_frontier := filter (\<lambda>r. fr_sequence r \<noteq> fr_sequence current) (ss_frontier s)\<rparr> in
          (case load_frontier_head s1 of
             Some r \<Rightarrow>
               Inr (set_state (\<lambda>v. v\<lparr>vs_scan_page_token := fr_page_token r, vs_updated_at_unix_ms := now\<rparr>) s1)
           | None \<Rightarrow>
               and_then (ok_or (vs_start_token st) InvalidStateTransition) (\<lambda>start.
               Inr (set_state (\<lambda>v. v\<lparr>vs_phase := Draining, vs_scan_page_token := None,
                  vs_changes_page_token := Some start, vs_updated_at_unix_ms := now\<rparr>) s1))))"

definition apply_scan_page :: "libs \<Rightarrow> string option \<Rightarrow> scan_page \<Rightarrow> u64 \<Rightarrow> sync_store \<Rightarrow> error + sync_store" where
  "apply_scan_page L expected page now s =
     and_then (for_each validate_remote_token (flatten_opt [expected])) (\<lambda>_.
     and_then (scan_page_validate L page) (\<lambda>_.
     and_then (u64_to_i64 now) (\<lambda>_.
     and_then (require_state s) (\<lambda>st.
     if vs_phase st \<noteq> Scanning then Inl InvalidStateTransition
     else if vs_scan_page_token st \<noteq> expected then Inl CursorMismatch
     else and_then (ok_or (load_frontier_head s) InvalidSchema) (\<lambda>current.
     if fr_page_token current \<noteq> expected then Inl CursorMismatch
     else and_then (validate_scan_page_children L s (vs_remote_root_id st) current page) (\<lambda>_.
     and_then (upsert_entries L (sp_entries page) s) (\<lambda>s1.
     and_then (enqueue_child_folders current (sp_entries page) s1)
       (advance_frontier st current (sp_next_page_token page) now))))))))"

section \<open>Changes pages\<close>

definition delete_remote :: "string \<Rightarrow> sync_store \<Rightarrow> sync_store" where
  "delete_remote file s = s\<lparr>ss_remote_entries := filter (\<lambda>r. re_file_id (rr_entry r) \<noteq> file) (ss_remote_entries s)\<rparr>"

fun apply_changes :: "libs \<Rightarrow> remote_change list \<Rightarrow> sync_store \<Rightarrow> error + sync_store" where
  "apply_changes L [] s = Inr s"
| "apply_changes L (Upsert e # cs) s = and_then (upsert_remote_entry L e s) (apply_changes L cs)"
| "apply_changes L (Removed file # cs) s = apply_changes L cs (delete_remote file s)"

definition apply_changes_page :: "libs \<Rightarrow> string \<Rightarrow> changes_page \<Rightarrow> u64 \<Rightarrow> sync_store \<Rightarrow> error + sync_store" where
  "apply_changes_page L expected page now s =
     and_then (validate_remote_token expected) (\<lambda>_.
     and_then (changes_page_validate L page) (\<lambda>_.
     and_then (u64_to_i64 now) (\<lambda>_.
     and_then (require_state s) (\<lambda>st.
     if vs_phase st \<noteq> Draining then Inl InvalidStateTransition
     else if vs_changes_page_token st \<noteq> Some expected then Inl CursorMismatch
     else and_then (apply_changes L (cp_changes page) s) (\<lambda>s1.
     case cp_next_page_token page of
       Some next \<Rightarrow>
         Inr (set_state (\<lambda>v. v\<lparr>vs_changes_page_token := Some next, vs_updated_at_unix_ms := now\<rparr>) s1)
     | None \<Rightarrow>
         and_then (ok_or (cp_new_start_page_token page) InvalidRemoteEntry) (\<lambda>durable.
         Inr (set_state (\<lambda>v. v\<lparr>vs_phase := Ready, vs_start_token := None, vs_scan_page_token := None,
            vs_changes_page_token := None, vs_durable_cursor := Some durable,
            vs_updated_at_unix_ms := now\<rparr>) s1)))))))"

section \<open>The driver\<close>

text \<open>
  The trait \<open>DriveClient\<close>; its implementation talks to the provider. A call may change the client.
\<close>

record 'c drive_client =
  get_start_page_token :: "'c \<Rightarrow> (remote_error + string) \<times> 'c"
  scan_folder_page :: "scan_request \<Rightarrow> 'c \<Rightarrow> (remote_error + scan_page) \<times> 'c"
  fetch_changes_page :: "string \<Rightarrow> 'c \<Rightarrow> (remote_error + changes_page) \<times> 'c"

datatype initial_sync_progress =
    StartTokenCaptured | ScanPageCommitted | ScanComplete | ChangesPageCommitted | SyncReady

text \<open>A store call inside the driver: the store changes only when the call commits.\<close>

definition run_store :: "(sync_store \<Rightarrow> error + sync_store) \<Rightarrow> sync_store \<Rightarrow> (error + unit) \<times> sync_store" where
  "run_store f s = (case f s of Inl e \<Rightarrow> (Inl e, s) | Inr s' \<Rightarrow> (Inr (), s'))"

definition scan_finished :: "sync_store \<Rightarrow> error + bool" where
  "scan_finished s = and_then (load_state s) (\<lambda>st. Inr (is_some_and st (\<lambda>v. vs_phase v = Draining)))"

definition advance_scan ::
    "libs \<Rightarrow> 'c drive_client \<Rightarrow> u64 \<Rightarrow> sync_store \<Rightarrow> 'c \<Rightarrow> (error + initial_sync_progress) \<times> sync_store \<times> 'c" where
  "advance_scan L C now s c =
     (case and_then (next_scan_request L s) (\<lambda>r. ok_or r InvalidStateTransition) of
        Inl e \<Rightarrow> (Inl e, s, c)
      | Inr request \<Rightarrow>
          (case scan_folder_page C request c of
             (Inl e, c1) \<Rightarrow> (Inl (Remote e), s, c1)
           | (Inr page, c1) \<Rightarrow>
               (case scan_page_validate L page of
                  Inl e \<Rightarrow> (Inl e, s, c1)
                | Inr _ \<Rightarrow>
                    (case run_store (apply_scan_page L (sr_page_token request) page now) s of
                       (Inl e, s1) \<Rightarrow> (Inl e, s1, c1)
                     | (Inr _, s1) \<Rightarrow>
                         (case scan_finished s1 of
                            Inl e \<Rightarrow> (Inl e, s1, c1)
                          | Inr complete \<Rightarrow> (Inr (if complete then ScanComplete else ScanPageCommitted), s1, c1))))))"

definition advance_changes ::
    "libs \<Rightarrow> 'c drive_client \<Rightarrow> u64 \<Rightarrow> string \<Rightarrow> sync_store \<Rightarrow> 'c \<Rightarrow> (error + initial_sync_progress) \<times> sync_store \<times> 'c" where
  "advance_changes L C now cursor s c =
     (case fetch_changes_page C cursor c of
        (Inl e, c1) \<Rightarrow>
          if remote_code e \<in> set [''cursor_expired'', ''cursor_ambiguous''] then
            (case run_store (mark_rescan_required now) s of
               (Inl d, s1) \<Rightarrow> (Inl d, s1, c1)
             | (Inr _, s1) \<Rightarrow> (Inl RescanRequired, s1, c1))
          else (Inl (Remote e), s, c1)
      | (Inr page, c1) \<Rightarrow>
          (case changes_page_validate L page of
             Inl e \<Rightarrow> (Inl e, s, c1)
           | Inr _ \<Rightarrow>
               (case run_store (apply_changes_page L cursor page now) s of
                  (Inl e, s1) \<Rightarrow> (Inl e, s1, c1)
                | (Inr _, s1) \<Rightarrow>
                    (Inr (if cp_new_start_page_token page \<noteq> None then SyncReady else ChangesPageCommitted), s1, c1))))"

definition advance_initial_sync ::
    "libs \<Rightarrow> 'c drive_client \<Rightarrow> u64 \<Rightarrow> sync_store \<Rightarrow> 'c \<Rightarrow> (error + initial_sync_progress) \<times> sync_store \<times> 'c" where
  "advance_initial_sync L C now s c =
     (case require_state s of
        Inl e \<Rightarrow> (Inl e, s, c)
      | Inr st \<Rightarrow>
          if vs_account_id st = None then (Inl BindingRequiresAccount, s, c)
          else (case vs_phase st of
            NeedStartToken \<Rightarrow>
              (case get_start_page_token C c of
                 (Inl e, c1) \<Rightarrow> (Inl (Remote e), s, c1)
               | (Inr token, c1) \<Rightarrow>
                   (case validate_remote_token token of
                      Inl e \<Rightarrow> (Inl e, s, c1)
                    | Inr _ \<Rightarrow>
                        (case run_store (begin_initial_scan token now) s of
                           (Inl e, s1) \<Rightarrow> (Inl e, s1, c1)
                         | (Inr _, s1) \<Rightarrow> (Inr StartTokenCaptured, s1, c1))))
          | Scanning \<Rightarrow> advance_scan L C now s c
          | Draining \<Rightarrow>
              (case vs_changes_page_token st of
                 None \<Rightarrow> (Inl InvalidStateTransition, s, c)
               | Some cursor \<Rightarrow> advance_changes L C now cursor s c)
          | Ready \<Rightarrow> (Inr SyncReady, s, c)))"

end
