(* ===== verification/Sync_Scan.thy ===== *)
theory Sync_Scan
  imports Initial_Sync
begin

text \<open>
  The invariant of binding and scan: which tokens each phase of the initial sync holds, the order of
  the frontier, the validity of the remote metadata; and that every operation of \<open>Initial_Sync\<close> keeps it.
\<close>

section \<open>Tables with a key\<close>

lemma update_where_simps [simp]: "update_where P f [] = []"
  "update_where P f (x # xs) = (if P x then f x else x) # update_where P f xs"
  by (simp_all add: update_where_def)

lemma length_update_where [simp]: "length (update_where P f xs) = length xs"
  by (simp add: update_where_def)

lemma map_update_where:
  assumes "\<And>x. P x \<Longrightarrow> key (f x) = key x"
  shows "map key (update_where P f xs) = map key xs"
  using assms by (simp add: update_where_def)

lemma set_update_whereD: "y \<in> set (update_where P f xs) \<Longrightarrow> \<exists>x \<in> set xs. y = (if P x then f x else x)"
  by (auto simp: update_where_def)

lemma update_where_None: "\<not> list_ex P xs \<Longrightarrow> update_where P f xs = xs"
  by (induction xs) (auto simp: update_where_def)

lemma count_where_simps [simp]: "count_where P [] = 0"
  "count_where P (x # xs) = (if P x then Suc (count_where P xs) else count_where P xs)"
  by (simp_all add: count_where_def)

lemma count_where_0 [simp]: "count_where P xs = 0 \<longleftrightarrow> (\<forall>x \<in> set xs. \<not> P x)"
  by (induction xs) auto

lemma count_where_1:
  assumes "count_where P xs = 1"
  obtains x where "x \<in> set xs" "P x"
  using assms by (metis count_where_0 zero_neq_one)

section \<open>Invariant\<close>

definition valid_token :: "string \<Rightarrow> bool" where
  "valid_token t = (validate_remote_token t = Inr ())"

definition base_ok :: "remote_base_evidence \<Rightarrow> bool" where
  "base_ok b = (validate_revision (rb_local_revision b) = Inr ()
     \<and> valid_token (rb_remote_revision b) \<and> is_lower_hex_hash (rb_content_hash b))"

definition row_ok :: "libs \<Rightarrow> remote_row \<Rightarrow> bool" where
  "row_ok L r = (remote_entry_validate L (rr_entry r) = Inr () \<and> is_none_or (rr_base r) base_ok)"

definition remote_ok :: "libs \<Rightarrow> remote_row list \<Rightarrow> bool" where
  "remote_ok L rows = (distinct (map (re_file_id \<circ> rr_entry) rows) \<and> (\<forall>r \<in> set rows. row_ok L r))"

definition frontier_row_ok :: "libs \<Rightarrow> frontier_row \<Rightarrow> bool" where
  "frontier_row_ok L r = (0 < fr_sequence r \<and> fr_sequence r < 2 ^ 63 \<and> validate_remote_id (fr_folder_id r) = Inr ()
     \<and> validate_frontier_path L (fr_portable_path r) = Inr ())"

definition frontier_ok :: "libs \<Rightarrow> frontier_row list \<Rightarrow> bool" where
  "frontier_ok L rows = (sorted_wrt (<) (map fr_sequence rows) \<and> distinct (map fr_folder_id rows)
     \<and> (\<forall>r \<in> set rows. frontier_row_ok L r) \<and> (\<forall>r \<in> set (tl rows). fr_page_token r = None))"

definition state_valid :: "vault_sync_state \<Rightarrow> bool" where
  "state_valid st = (validate_remote_id (vs_remote_root_id st) = Inr ()
     \<and> is_none_or (vs_account_id st) (\<lambda>a. validate_remote_id a = Inr ())
     \<and> is_none_or (vs_start_token st) valid_token \<and> is_none_or (vs_scan_page_token st) valid_token
     \<and> is_none_or (vs_changes_page_token st) valid_token \<and> is_none_or (vs_durable_cursor st) valid_token)"

fun phase_ok :: "sync_phase \<Rightarrow> vault_sync_state \<Rightarrow> frontier_row list \<Rightarrow> bool" where
  "phase_ok NeedStartToken st rows = (vs_start_token st = None \<and> vs_scan_page_token st = None
     \<and> vs_changes_page_token st = None \<and> vs_durable_cursor st = None \<and> rows = [])"
| "phase_ok Scanning st rows = (vs_start_token st \<noteq> None \<and> vs_changes_page_token st = None
     \<and> vs_durable_cursor st = None \<and> rows \<noteq> [] \<and> vs_scan_page_token st = fr_page_token (hd rows))"
| "phase_ok Draining st rows = (vs_start_token st \<noteq> None \<and> vs_scan_page_token st = None
     \<and> vs_changes_page_token st \<noteq> None \<and> vs_durable_cursor st = None \<and> rows = [])"
| "phase_ok Ready st rows = (vs_start_token st = None \<and> vs_scan_page_token st = None
     \<and> vs_changes_page_token st = None \<and> vs_durable_cursor st \<noteq> None \<and> rows = [])"

definition sync_inv :: "libs \<Rightarrow> sync_store \<Rightarrow> bool" where
  "sync_inv L s = (remote_ok L (ss_remote_entries s) \<and> frontier_ok L (ss_frontier s)
     \<and> (case ss_vault_state s of
          None \<Rightarrow> ss_frontier s = []
        | Some st \<Rightarrow> vs_vault_id st = ss_vault_id s \<and> state_valid st \<and> phase_ok (vs_phase st) st (ss_frontier s)))"

lemma sync_inv_empty: "sync_inv L (empty_store v)"
  by (simp add: sync_inv_def empty_store_def remote_ok_def frontier_ok_def)

lemma sync_invD:
  assumes "sync_inv L s"
  shows "remote_ok L (ss_remote_entries s)" "frontier_ok L (ss_frontier s)"
    "ss_vault_state s = Some st \<Longrightarrow> vs_vault_id st = ss_vault_id s"
    "ss_vault_state s = Some st \<Longrightarrow> state_valid st"
    "ss_vault_state s = Some st \<Longrightarrow> phase_ok (vs_phase st) st (ss_frontier s)"
  using assms by (auto simp: sync_inv_def)

section \<open>Reads succeed\<close>

lemma load_state_ok:
  assumes "sync_inv L s"
  shows "load_state s = Inr (ss_vault_state s)"
proof (cases "ss_vault_state s")
  case (Some st)
  then have "vs_vault_id st = ss_vault_id s" and v: "state_valid st" using sync_invD [OF assms] by blast+
  moreover have "for_each validate_remote_id (flatten_opt [vs_account_id st]) = Inr ()"
    using v by (cases "vs_account_id st") (simp_all add: state_valid_def)
  moreover have "for_each validate_remote_token (flatten_opt [vs_start_token st, vs_scan_page_token st,
      vs_changes_page_token st, vs_durable_cursor st]) = Inr ()"
    using v unfolding for_each_eq_Inr set_flatten_opt by (auto simp: state_valid_def valid_token_def is_none_or_def split: option.splits)
  ultimately show ?thesis using Some v by (simp add: load_state_def state_valid_def)
qed (simp add: load_state_def)

lemma require_state_Inr:
  "require_state s = Inr st \<Longrightarrow> ss_vault_state s = Some st"
  by (auto simp: require_state_def load_state_def split: option.splits if_splits)

lemma require_state_ok:
  assumes "sync_inv L s" "ss_vault_state s = Some st"
  shows "require_state s = Inr st"
  using assms load_state_ok [OF assms(1)] by (simp add: require_state_def)

lemma frontier_sorted: "frontier_ok L rows \<Longrightarrow> sort_key fr_sequence rows = rows"
  by (auto simp: frontier_ok_def sorted_map intro!: sort_key_id_if_sorted elim!: sorted_wrt_mono_rel [rotated])

lemma frontier_head:
  assumes "frontier_ok L (ss_frontier s)"
  shows "load_frontier_head s = (case ss_frontier s of [] \<Rightarrow> None | r # _ \<Rightarrow> Some r)"
  using frontier_sorted [OF assms] by (simp add: load_frontier_head_def)

section \<open>Frames\<close>

lemma set_state_simps [simp]:
  "ss_vault_state (set_state f s) = map_option f (ss_vault_state s)"
  "ss_remote_entries (set_state f s) = ss_remote_entries s"
  "ss_frontier (set_state f s) = ss_frontier s" "ss_vault_id (set_state f s) = ss_vault_id s"
  "ss_ledger (set_state f s) = ss_ledger s" "ss_batch (set_state f s) = ss_batch s"
  "ss_batch_mutations (set_state f s) = ss_batch_mutations s" "ss_jobs (set_state f s) = ss_jobs s"
  "ss_job_history (set_state f s) = ss_job_history s" "ss_transfers (set_state f s) = ss_transfers s"
  "ss_transfer_history (set_state f s) = ss_transfer_history s"
  by (simp_all add: set_state_def)

text \<open>What a scan or a change of metadata leaves alone.\<close>

definition same_rest :: "sync_store \<Rightarrow> sync_store \<Rightarrow> bool" where
  "same_rest s s' = (ss_vault_id s' = ss_vault_id s \<and> ss_jobs s' = ss_jobs s \<and> ss_job_history s' = ss_job_history s
     \<and> ss_transfers s' = ss_transfers s \<and> ss_transfer_history s' = ss_transfer_history s
     \<and> ss_batch s' = ss_batch s \<and> ss_batch_mutations s' = ss_batch_mutations s \<and> ss_ledger s' = ss_ledger s)"

lemma same_rest_refl [simp]: "same_rest s s"
  by (simp add: same_rest_def)

lemma same_rest_set_state [simp]: "same_rest t (set_state f s) = same_rest t s"
  by (simp add: same_rest_def)

lemma same_rest_tables [simp]:
  "same_rest t (s\<lparr>ss_frontier := f\<rparr>) = same_rest t s"
  "same_rest t (s\<lparr>ss_remote_entries := r\<rparr>) = same_rest t s"
  "same_rest t (s\<lparr>ss_vault_state := v\<rparr>) = same_rest t s"
  by (simp_all add: same_rest_def)

lemma same_rest_trans: "same_rest s t \<Longrightarrow> same_rest t u \<Longrightarrow> same_rest s u"
  by (simp add: same_rest_def)

section \<open>Binding and reset\<close>

definition binding_valid :: "verified_remote_binding \<Rightarrow> bool" where
  "binding_valid b = (validate_remote_id (vb_account_id b) = Inr () \<and> validate_remote_id (vb_remote_root_id b) = Inr ())"

lemma verified_remote_binding_valid:
  "verified_remote_binding_new a r oa orr = Inr b \<Longrightarrow> binding_valid b"
  by (auto simp: verified_remote_binding_new_def binding_valid_def split: if_splits)

lemma bind_remote_root_inv:
  assumes inv: "sync_inv L s" and b: "binding_valid b" and r: "bind_remote_root b now s = Inr (out, s')"
  shows "sync_inv L s'" "same_rest s s'"
proof -
  note load = load_state_ok [OF inv]
  have *: "sync_inv L s' \<and> same_rest s s'"
  proof (cases "ss_vault_state s")
    case None
    then have "ss_frontier s = []" using inv by (simp add: sync_inv_def)
    then show ?thesis
      using r b None inv by (auto simp: bind_remote_root_def load sync_inv_def binding_valid_def state_valid_def)
  next
    case (Some st)
    have v: "state_valid st" using sync_invD(4) [OF inv Some] .
    show ?thesis
      using r b Some inv v
      by (auto simp: bind_remote_root_def load sync_inv_def binding_valid_def frontier_ok_def state_valid_def
          split: if_splits option.splits)
  qed
  then show "sync_inv L s'" "same_rest s s'" by simp_all
qed

lemma mark_rescan_required_inv:
  assumes inv: "sync_inv L s" and r: "mark_rescan_required now s = Inr s'"
  shows "sync_inv L s'" "same_rest s s'"
proof -
  obtain st where st: "ss_vault_state s = Some st"
    using r require_state_Inr by (auto simp: mark_rescan_required_def)
  note v = sync_invD(4) [OF inv st]
  show "sync_inv L s'" "same_rest s s'"
    using r inv st v
    by (auto simp: mark_rescan_required_def sync_inv_def frontier_ok_def state_valid_def)
qed

lemma begin_initial_scan_inv:
  assumes inv: "sync_inv L s" and r: "begin_initial_scan token now s = Inr s'"
  shows "sync_inv L s'" "same_rest s s'"
proof -
  obtain st where st: "ss_vault_state s = Some st"
    using r require_state_Inr by (auto simp: begin_initial_scan_def)
  note v = sync_invD(4) [OF inv st]
  show "sync_inv L s'" "same_rest s s'"
    using r inv st v require_state_ok [OF inv st]
    by (auto simp: begin_initial_scan_def insert_frontier_def sync_inv_def frontier_ok_def remote_ok_def
        frontier_row_ok_def validate_frontier_path_def valid_token_def state_valid_def split: if_splits)
qed

section \<open>Remote metadata\<close>

lemma upsert_rows_keys:
  "map (re_file_id \<circ> rr_entry) (upsert_rows e rows) = map (re_file_id \<circ> rr_entry) rows @
     (if list_ex (\<lambda>r. re_file_id (rr_entry r) = re_file_id e) rows then [] else [re_file_id e])"
  by (auto simp: upsert_rows_def intro!: map_update_where)

lemma upsert_rows_ok:
  assumes "remote_ok L rows" "remote_entry_validate L e = Inr ()"
  shows "remote_ok L (upsert_rows e rows)"
proof -
  have "distinct (map (re_file_id \<circ> rr_entry) (upsert_rows e rows))"
    unfolding upsert_rows_keys using assms(1) by (auto simp: remote_ok_def list_ex_iff)
  moreover have "\<forall>r \<in> set (upsert_rows e rows). row_ok L r"
    using assms by (auto simp: upsert_rows_def remote_ok_def row_ok_def dest!: set_update_whereD)
  ultimately show ?thesis by (simp add: remote_ok_def)
qed

lemma upsert_entries_Inr:
  assumes "upsert_entries L es s = Inr s'"
  shows "s' = s\<lparr>ss_remote_entries := fold upsert_rows es (ss_remote_entries s)\<rparr>"
    "\<forall>e \<in> set es. remote_entry_validate L e = Inr ()"
proof -
  have "s' = s\<lparr>ss_remote_entries := fold upsert_rows es (ss_remote_entries s)\<rparr>
      \<and> (\<forall>e \<in> set es. remote_entry_validate L e = Inr ())"
    using assms by (induction es arbitrary: s) (fastforce simp: upsert_remote_entry_def)+
  then show "s' = s\<lparr>ss_remote_entries := fold upsert_rows es (ss_remote_entries s)\<rparr>"
    "\<forall>e \<in> set es. remote_entry_validate L e = Inr ()" by blast+
qed

lemma fold_upsert_ok:
  "remote_ok L rows \<Longrightarrow> \<forall>e \<in> set es. remote_entry_validate L e = Inr () \<Longrightarrow> remote_ok L (fold upsert_rows es rows)"
  by (induction es arbitrary: rows) (simp_all add: upsert_rows_ok)

lemma remote_ok_filter: "remote_ok L rows \<Longrightarrow> remote_ok L (filter P rows)"
  by (auto simp: remote_ok_def distinct_map_filter)

lemma apply_changes_Inr:
  assumes "apply_changes L cs s = Inr s'" "remote_ok L (ss_remote_entries s)"
  shows "\<exists>rows. s' = s\<lparr>ss_remote_entries := rows\<rparr> \<and> remote_ok L rows"
  using assms
proof (induction L cs s rule: apply_changes.induct)
  case (1 L s)
  then show ?case by (intro exI [of _ "ss_remote_entries s"]) simp
next
  case (2 L e cs s)
  then show ?case by (fastforce simp: upsert_remote_entry_def intro: upsert_rows_ok)
next
  case (3 L f cs s)
  then show ?case by (fastforce simp: delete_remote_def intro: remote_ok_filter)
qed

section \<open>The frontier\<close>

text \<open>The rows an enqueue adds, with their sequence numbers.\<close>

fun new_rows :: "int \<Rightarrow> remote_entry list \<Rightarrow> frontier_row list" where
  "new_rows n [] = []"
| "new_rows n (e # es) = \<lparr>fr_sequence = n + 1, fr_folder_id = re_file_id e, fr_portable_path = re_path e,
     fr_page_token = None\<rparr> # new_rows (n + 1) es"

lemma new_rows_simps [simp]:
  "map fr_folder_id (new_rows n es) = map re_file_id es"
  "length (new_rows n es) = length es"
  by (induction es arbitrary: n) simp_all

lemma new_rows_token: "r \<in> set (new_rows n es) \<Longrightarrow> fr_page_token r = None \<and> n < fr_sequence r \<and> fr_sequence r \<le> n + int (length es)
    \<and> (\<exists>e \<in> set es. fr_folder_id r = re_file_id e \<and> fr_portable_path r = re_path e)"
  by (induction es arbitrary: n) fastforce+

lemma new_rows_sorted: "sorted_wrt (<) (map fr_sequence (new_rows n es))"
  by (induction es arbitrary: n) (auto dest: new_rows_token)

lemma enqueue_folders_Inr:
  assumes "enqueue_folders cur n k es s = Inr s'" "\<forall>r \<in> set (ss_frontier s). fr_sequence r \<le> n"
    and "length (ss_frontier s) = k"
  shows "\<exists>new. s' = s\<lparr>ss_frontier := ss_frontier s @ new_rows n new\<rparr> \<and> set new \<subseteq> set es
    \<and> distinct (map re_file_id new) \<and> (\<forall>e \<in> set new. re_file_id e \<notin> fr_folder_id ` set (ss_frontier s))
    \<and> (new \<noteq> [] \<longrightarrow> n + int (length new) < 2 ^ 63)"
  using assms
proof (induction cur n k es s rule: enqueue_folders.induct)
  case (1 cur n k s)
  then show ?case by (intro exI [of _ "[]"]) simp
next
  case (2 cur n k e es s)
  show ?case
  proof (cases "find (\<lambda>r. fr_folder_id r = re_file_id e) (ss_frontier s)")
    case None
    let ?s1 = "s\<lparr>ss_frontier := ss_frontier s @ [\<lparr>fr_sequence = n + 1, fr_folder_id = re_file_id e,
        fr_portable_path = re_path e, fr_page_token = None\<rparr>]\<rparr>"
    have step: "insert_frontier (n + 1) (re_file_id e) (re_path e) s = Inr ?s1"
      "enqueue_folders cur (n + 1) (k + 1) es ?s1 = Inr s'" "n + 1 < 2 ^ 63"
      "re_file_id e \<noteq> fr_folder_id cur" "\<not> usize_limit \<le> k + 1" "\<not> MAX_SCAN_FRONTIER_FOLDERS < k + 1"
      using 2(3) None by (auto simp: insert_frontier_def split: if_splits)
    have "\<exists>new. s' = ?s1\<lparr>ss_frontier := ss_frontier ?s1 @ new_rows (n + 1) new\<rparr> \<and> set new \<subseteq> set es
        \<and> distinct (map re_file_id new) \<and> (\<forall>x \<in> set new. re_file_id x \<notin> fr_folder_id ` set (ss_frontier ?s1))
        \<and> (new \<noteq> [] \<longrightarrow> n + 1 + int (length new) < 2 ^ 63)"
      using step 2(4, 5) by (intro 2(1) [OF step(4) None]) auto
    then obtain new where new: "s' = ?s1\<lparr>ss_frontier := ss_frontier ?s1 @ new_rows (n + 1) new\<rparr>" "set new \<subseteq> set es"
      "distinct (map re_file_id new)" "\<forall>x \<in> set new. re_file_id x \<notin> fr_folder_id ` set (ss_frontier ?s1)"
      "new \<noteq> [] \<longrightarrow> n + 1 + int (length new) < 2 ^ 63" by blast
    then show ?thesis using None step(3) by (intro exI [of _ "e # new"]) (auto simp: find_None_iff)
  next
    case (Some r)
    then have "enqueue_folders cur n k es s = Inr s'" "re_file_id e \<noteq> fr_folder_id cur" "\<not> fr_portable_path r \<noteq> re_path e"
      using 2(3) by (auto split: if_splits)
    then show ?thesis using 2(2) [OF _ Some] 2(4-) by fastforce
  qed
qed

lemma foldr_max_ge: "x \<in> set xs \<Longrightarrow> x \<le> foldr max xs (0 :: int)"
  by (induction xs) auto

lemma foldr_max_nonneg: "0 \<le> foldr max xs (0 :: int)"
  by (induction xs) auto

lemma frontier_ok_append:
  assumes "frontier_ok L rows" "rows \<noteq> []" "\<forall>r \<in> set rows. fr_sequence r \<le> n" "0 \<le> n"
    and "\<forall>e \<in> set new. remote_entry_validate L e = Inr ()" "distinct (map re_file_id new)"
    "\<forall>e \<in> set new. re_file_id e \<notin> fr_folder_id ` set rows" "new \<noteq> [] \<longrightarrow> n + int (length new) < 2 ^ 63"
  shows "frontier_ok L (rows @ new_rows n new)"
proof -
  have "frontier_row_ok L r" if new: "r \<in> set (new_rows n new)" for r
  proof -
    obtain e where e: "e \<in> set new" "fr_folder_id r = re_file_id e" "fr_portable_path r = re_path e"
      and seq: "n < fr_sequence r" "fr_sequence r \<le> n + int (length new)"
      using new_rows_token [OF new] by blast
    have "new \<noteq> []" using e(1) by auto
    then show ?thesis
      using seq assms(4, 5, 8) e
      by (auto simp: frontier_row_ok_def remote_entry_validate_def validate_frontier_path_def)
  qed
  moreover have "\<forall>r \<in> set (tl (rows @ new_rows n new)). fr_page_token r = None"
    using assms(1, 2) by (auto simp: frontier_ok_def dest: new_rows_token)
  moreover have "set (map fr_folder_id rows) \<inter> set (map fr_folder_id (new_rows n new)) = {}"
    unfolding new_rows_simps set_map
  proof (rule Int_emptyI)
    fix k assume "k \<in> fr_folder_id ` set rows" "k \<in> re_file_id ` set new"
    then show False using assms(7) by (elim imageE [where f = re_file_id]) simp
  qed
  moreover have "sorted_wrt (<) (map fr_sequence (rows @ new_rows n new))"
    using assms(1, 3) new_rows_sorted [of n new]
    by (fastforce simp: sorted_wrt_append frontier_ok_def dest: new_rows_token)
  moreover have "distinct (map fr_folder_id (rows @ new_rows n new))"
    using assms(1, 6) calculation(3) unfolding map_append distinct_append new_rows_simps by (simp add: frontier_ok_def)
  ultimately show ?thesis using assms(1) by (auto simp: frontier_ok_def)
qed

lemma enqueue_child_folders_Inr:
  assumes "enqueue_child_folders cur es s = Inr s'" "frontier_ok L (ss_frontier s)" "ss_frontier s \<noteq> []"
    and "\<forall>e \<in> set es. remote_entry_validate L e = Inr ()"
  obtains new where "s' = s\<lparr>ss_frontier := ss_frontier s @ new\<rparr>" "frontier_ok L (ss_frontier s @ new)"
    "\<forall>r \<in> set new. fr_page_token r = None"
proof -
  define n where "n = foldr max (map fr_sequence (ss_frontier s)) 0"
  have le: "\<forall>r \<in> set (ss_frontier s). fr_sequence r \<le> n" by (auto simp: n_def intro!: foldr_max_ge)
  obtain new where new: "s' = s\<lparr>ss_frontier := ss_frontier s @ new_rows n new\<rparr>"
    "set new \<subseteq> set (filter (\<lambda>e. re_kind e = Folder) es)" "distinct (map re_file_id new)"
    "\<forall>e \<in> set new. re_file_id e \<notin> fr_folder_id ` set (ss_frontier s)"
    "new \<noteq> [] \<longrightarrow> n + int (length new) < 2 ^ 63"
    using enqueue_folders_Inr [OF assms(1) [unfolded enqueue_child_folders_def, folded n_def] le refl] by blast
  have "frontier_ok L (ss_frontier s @ new_rows n new)"
    by (rule frontier_ok_append [OF assms(2, 3) le _ _ new(3-5)])
      (use new(2) assms(4) in \<open>auto simp: n_def foldr_max_nonneg\<close>)
  then show thesis using that [OF new(1)] new_rows_token by blast
qed

lemma frontier_first:
  assumes "frontier_ok L (c # rest)"
  shows "update_where (\<lambda>r. fr_sequence r = fr_sequence c) f rest = rest"
    "filter (\<lambda>r. fr_sequence r \<noteq> fr_sequence c) rest = rest"
proof -
  have "\<forall>r \<in> set rest. fr_sequence r \<noteq> fr_sequence c" using assms by (auto simp: frontier_ok_def)
  then show "update_where (\<lambda>r. fr_sequence r = fr_sequence c) f rest = rest"
    "filter (\<lambda>r. fr_sequence r \<noteq> fr_sequence c) rest = rest"
    by (auto simp: update_where_def intro!: map_idI filter_True)
qed

lemma frontier_ok_tl: "frontier_ok L (c # rest) \<Longrightarrow> frontier_ok L rest"
  by (cases rest) (auto simp: frontier_ok_def)

section \<open>Pages\<close>

lemma advance_frontier_inv:
  assumes front: "ss_frontier s = c # rest" "frontier_ok L (c # rest)" and rem: "remote_ok L (ss_remote_entries s)"
    and st: "ss_vault_state s = Some st" "vs_vault_id st = ss_vault_id s" "state_valid st" "vs_phase st = Scanning"
      "vs_start_token st \<noteq> None" "vs_changes_page_token st = None" "vs_durable_cursor st = None"
    and tok: "is_none_or tok valid_token" and r: "advance_frontier st c tok now s = Inr s'"
  shows "sync_inv L s'" "same_rest s s'"
proof -
  have rest: "frontier_ok L rest" "\<forall>r \<in> set rest. fr_page_token r = None"
    using front(2) frontier_ok_tl by (auto simp: frontier_ok_def)
  have "sync_inv L s' \<and> same_rest s s'"
  proof (cases tok)
    case (Some t)
    have "frontier_ok L (c\<lparr>fr_page_token := Some t\<rparr> # rest)"
      using front(2) by (auto simp: frontier_ok_def frontier_row_ok_def)
    then show ?thesis
      using r Some st tok rem by (auto simp: advance_frontier_def front(1) frontier_first [OF front(2)] sync_inv_def state_valid_def)
  next
    case None
    let ?s1 = "s\<lparr>ss_frontier := rest\<rparr>"
    have head: "load_frontier_head ?s1 = (case rest of [] \<Rightarrow> None | r # _ \<Rightarrow> Some r)"
      using frontier_head [of L ?s1] rest(1) by simp
    have "(case load_frontier_head ?s1 of
             Some r \<Rightarrow> Inr (set_state (\<lambda>v. v\<lparr>vs_scan_page_token := fr_page_token r, vs_updated_at_unix_ms := now\<rparr>) ?s1)
           | None \<Rightarrow> and_then (ok_or (vs_start_token st) InvalidStateTransition) (\<lambda>start.
               Inr (set_state (\<lambda>v. v\<lparr>vs_phase := Draining, vs_scan_page_token := None,
                  vs_changes_page_token := Some start, vs_updated_at_unix_ms := now\<rparr>) ?s1))) = Inr s'"
      using r None by (simp add: advance_frontier_def front(1) frontier_first [OF front(2)] Let_def)
    then show ?thesis
      using st rem rest unfolding head
      by (cases rest) (auto simp: sync_inv_def state_valid_def)
  qed
  then show "sync_inv L s'" "same_rest s s'" by simp_all
qed

lemma apply_scan_page_Inr:
  assumes inv: "sync_inv L s" and r: "apply_scan_page L expected page now s = Inr s'"
  obtains st cur s1 s2 where "ss_vault_state s = Some st" "vs_phase st = Scanning" "vs_scan_page_token st = expected"
    "ss_frontier s = cur # tl (ss_frontier s)" "fr_page_token cur = expected" "scan_page_validate L page = Inr ()"
    "validate_scan_page_children L s (vs_remote_root_id st) cur page = Inr ()"
    "upsert_entries L (sp_entries page) s = Inr s1" "enqueue_child_folders cur (sp_entries page) s1 = Inr s2"
    "advance_frontier st cur (sp_next_page_token page) now s2 = Inr s'"
proof -
  from r obtain st cur s1 s2 where a: "require_state s = Inr st" "vs_phase st = Scanning" "vs_scan_page_token st = expected"
    "load_frontier_head s = Some cur" "fr_page_token cur = expected" "scan_page_validate L page = Inr ()"
    "validate_scan_page_children L s (vs_remote_root_id st) cur page = Inr ()"
    "upsert_entries L (sp_entries page) s = Inr s1" "enqueue_child_folders cur (sp_entries page) s1 = Inr s2"
    "advance_frontier st cur (sp_next_page_token page) now s2 = Inr s'"
    by (auto simp: apply_scan_page_def split: if_splits)
  have "ss_frontier s = cur # tl (ss_frontier s)"
    using a(4) frontier_head [OF sync_invD(2) [OF inv]] by (auto split: list.splits)
  then show thesis by (rule that [OF require_state_Inr [OF a(1)] a(2, 3) _ a(5-10)])
qed

lemma apply_scan_page_inv:
  assumes inv: "sync_inv L s" and r: "apply_scan_page L expected page now s = Inr s'"
  shows "sync_inv L s'" "same_rest s s'"
proof -
  obtain st cur s1 s2 where st: "ss_vault_state s = Some st" "vs_phase st = Scanning"
    and cur: "ss_frontier s = cur # tl (ss_frontier s)" and page: "scan_page_validate L page = Inr ()"
    and ups: "upsert_entries L (sp_entries page) s = Inr s1"
    and enq: "enqueue_child_folders cur (sp_entries page) s1 = Inr s2"
    and adv: "advance_frontier st cur (sp_next_page_token page) now s2 = Inr s'"
    by (rule apply_scan_page_Inr [OF inv r])
  note s1 = upsert_entries_Inr [OF ups]
  have front1: "ss_frontier s1 = ss_frontier s" using s1(1) by simp
  obtain rest where rest: "ss_frontier s = cur # rest" using cur by blast
  then have ok1: "frontier_ok L (ss_frontier s1)" "ss_frontier s1 \<noteq> []"
    using front1 sync_invD(2) [OF inv] by simp_all
  obtain new where s2: "s2 = s1\<lparr>ss_frontier := ss_frontier s1 @ new\<rparr>" "frontier_ok L (ss_frontier s1 @ new)"
    by (rule enqueue_child_folders_Inr [OF enq ok1 s1(2)])
  have front2: "ss_frontier s2 = cur # (rest @ new)" "frontier_ok L (cur # (rest @ new))"
    using s2 by (simp_all add: front1 rest)
  have rem: "remote_ok L (ss_remote_entries s2)"
    using fold_upsert_ok [OF sync_invD(1) [OF inv] s1(2)] s1(1) s2(1) by simp
  have ph: "vs_start_token st \<noteq> None" "vs_changes_page_token st = None" "vs_durable_cursor st = None"
    using sync_invD(5) [OF inv st(1)] st(2) by simp_all
  have "is_none_or (sp_next_page_token page) valid_token"
    using page by (auto simp: scan_page_validate_def valid_token_def split: if_splits option.splits)
  then have "sync_inv L s'" "same_rest s2 s'"
    using advance_frontier_inv [OF front2 rem _ _ sync_invD(4) [OF inv st(1)] st(2) ph _ adv]
      s1(1) s2(1) st(1) sync_invD(3) [OF inv st(1)] by simp_all
  then show "sync_inv L s'" "same_rest s s'" using s1(1) s2(1) by (simp_all add: same_rest_def)
qed

lemma apply_changes_page_inv:
  assumes inv: "sync_inv L s" and r: "apply_changes_page L expected page now s = Inr s'"
  shows "sync_inv L s'" "same_rest s s'"
proof -
  from r obtain st s1 where a: "require_state s = Inr st" "vs_phase st = Draining" "changes_page_validate L page = Inr ()"
    "apply_changes L (cp_changes page) s = Inr s1"
    and fin: "(case cp_next_page_token page of
       Some next \<Rightarrow> Inr (set_state (\<lambda>v. v\<lparr>vs_changes_page_token := Some next, vs_updated_at_unix_ms := now\<rparr>) s1)
     | None \<Rightarrow> and_then (ok_or (cp_new_start_page_token page) InvalidRemoteEntry) (\<lambda>durable.
         Inr (set_state (\<lambda>v. v\<lparr>vs_phase := Ready, vs_start_token := None, vs_scan_page_token := None,
            vs_changes_page_token := None, vs_durable_cursor := Some durable, vs_updated_at_unix_ms := now\<rparr>) s1))) = Inr s'"
    by (auto simp: apply_changes_page_def split: if_splits)
  note st = require_state_Inr [OF a(1)]
  obtain rows where s1: "s1 = s\<lparr>ss_remote_entries := rows\<rparr>" "remote_ok L rows"
    using apply_changes_Inr [OF a(4) sync_invD(1) [OF inv]] by blast
  have tok: "is_none_or (cp_next_page_token page) valid_token" "is_none_or (cp_new_start_page_token page) valid_token"
    using a(3) by (auto simp: changes_page_validate_def valid_token_def split: option.splits)
  have ph: "phase_ok Draining st (ss_frontier s)" using sync_invD(5) [OF inv st] a(2) by simp
  note v = sync_invD(3, 4) [OF inv st]
  show "sync_inv L s'" "same_rest s s'"
    using fin s1 st tok ph v sync_invD(2) [OF inv] a(2)
    by (auto simp: sync_inv_def state_valid_def split: option.splits)
qed

end
