(* ===== verification/Queue_Jobs.thy ===== *)
theory Queue_Jobs
  imports Initial_Sync
begin

text \<open>
  The job queue of \<open>SyncStore\<close> (\<open>store.rs\<close>): enqueueing, claiming the oldest due job, retry and
  verified completion with its history row.
\<close>

definition row_to_job :: "libs \<Rightarrow> queue_job \<Rightarrow> error + queue_job" where
  "row_to_job L j =
     and_then (ensure (fits_u32 (jb_attempt_count j)) InvalidSchema) (\<lambda>_.
     and_then (queue_job_validate L j) (\<lambda>_. Inr j))"

definition find_job :: "sync_store \<Rightarrow> uuid \<Rightarrow> queue_job option" where
  "find_job s op = find (\<lambda>j. jb_operation_id j = op) (ss_jobs s)"

definition load_job :: "libs \<Rightarrow> sync_store \<Rightarrow> uuid \<Rightarrow> error + queue_job option" where
  "load_job L s op =
     (case find_job s op of None \<Rightarrow> Inr None | Some j \<Rightarrow> and_then (row_to_job L j) (\<lambda>j. Inr (Some j)))"

definition insert_job :: "queue_job \<Rightarrow> sync_store \<Rightarrow> error + sync_store" where
  "insert_job j s =
     and_then (u64_to_i64 (jb_next_attempt_at_unix_ms j)) (\<lambda>_.
     and_then (u64_to_i64 (jb_created_at_unix_ms j)) (\<lambda>_.
     if find_job s (jb_operation_id j) \<noteq> None then Inl constraint_failed
     else Inr (s\<lparr>ss_jobs := ss_jobs s @ [j]\<rparr>)))"

definition enqueue_job :: "libs \<Rightarrow> queue_job \<Rightarrow> sync_store \<Rightarrow> error + enqueue_outcome \<times> sync_store" where
  "enqueue_job L j s =
     and_then (queue_job_validate L j) (\<lambda>_.
     and_then (require_state s) (\<lambda>_.
     and_then (load_job L s (jb_operation_id j)) (\<lambda>existing.
     case existing of
       Some e \<Rightarrow>
         if same_request e j
         then Inr (if jb_state e = JobCompleted then JobAlreadyCompleted else JobAlreadyPresent, s)
         else Inl QueueCollision
     | None \<Rightarrow> and_then (insert_job j s) (\<lambda>s1. Inr (Enqueued, s1)))))"

definition job_due :: "u64 \<Rightarrow> queue_job \<Rightarrow> bool" where
  "job_due now j = (jb_state j \<in> set [JobPending, JobRetryScheduled] \<and> jb_next_attempt_at_unix_ms j \<le> now)"

definition due_jobs :: "u64 \<Rightarrow> sync_store \<Rightarrow> queue_job list" where
  "due_jobs now s = sort_key jb_created_at_unix_ms (sort_key jb_operation_id (filter (job_due now) (ss_jobs s)))"

definition claim_next_job :: "libs \<Rightarrow> u64 \<Rightarrow> sync_store \<Rightarrow> error + queue_job option \<times> sync_store" where
  "claim_next_job L now s =
     and_then (u64_to_i64 now) (\<lambda>_.
     case due_jobs now s of
       [] \<Rightarrow> Inr (None, s)
     | candidate # _ \<Rightarrow>
         and_then (row_to_job L candidate) (\<lambda>job.
         let hit = (\<lambda>r. jb_operation_id r = jb_operation_id job \<and> jb_state r \<in> set [JobPending, JobRetryScheduled]) in
         if count_where hit (ss_jobs s) \<noteq> 1 then Inl InvalidStateTransition
         else Inr (Some (job\<lparr>jb_state := JobRunning\<rparr>),
           s\<lparr>ss_jobs := update_where hit (\<lambda>r. r\<lparr>jb_state := JobRunning\<rparr>) (ss_jobs s)\<rparr>)))"

definition schedule_retry :: "uuid \<Rightarrow> u64 \<Rightarrow> string \<Rightarrow> sync_store \<Rightarrow> error + sync_store" where
  "schedule_retry op next_attempt code s =
     (if is_nil op then Inl JobNotFound
      else and_then (validate_redacted_code code) (\<lambda>_.
      and_then (u64_to_i64 next_attempt) (\<lambda>_.
      let hit = (\<lambda>r. jb_operation_id r = op \<and> jb_state r \<in> set [JobRunning, JobNeedsReconcile]) in
      if count_where hit (ss_jobs s) \<noteq> 1 then Inl InvalidStateTransition
      else Inr (s\<lparr>ss_jobs := update_where hit (\<lambda>r. r\<lparr>jb_state := JobRetryScheduled,
        jb_attempt_count := jb_attempt_count r + 1, jb_next_attempt_at_unix_ms := next_attempt,
        jb_last_error_code := Some code\<rparr>) (ss_jobs s)\<rparr>))))"

definition complete_verified_job :: "libs \<Rightarrow> uuid \<Rightarrow> string \<Rightarrow> u64 \<Rightarrow> sync_store \<Rightarrow> error + sync_store" where
  "complete_verified_job L op code occurred s =
     (if is_nil op then Inl JobNotFound
      else and_then (validate_redacted_code code) (\<lambda>_.
      and_then (u64_to_i64 occurred) (\<lambda>_.
      and_then (load_job L s op) (\<lambda>loaded.
      and_then (ok_or loaded JobNotFound) (\<lambda>job.
      if jb_state job \<notin> set [JobRunning, JobNeedsReconcile] then Inl InvalidStateTransition
      else if list_ex (\<lambda>h. hi_operation_id h = op) (ss_job_history s) then Inl constraint_failed
      else
        let hit = (\<lambda>r. jb_operation_id r = op \<and> jb_state r \<in> set [JobRunning, JobNeedsReconcile]) in
        if count_where hit (ss_jobs s) \<noteq> 1 then Inl InvalidStateTransition
        else Inr (s\<lparr>ss_job_history := ss_job_history s @ [\<lparr>hi_operation_id = op, hi_outcome_code = code,
              hi_occurred_at_unix_ms = occurred\<rparr>],
            ss_jobs := update_where hit (\<lambda>r. r\<lparr>jb_state := JobCompleted,
              jb_next_attempt_at_unix_ms := occurred, jb_last_error_code := None\<rparr>) (ss_jobs s)\<rparr>))))))"

definition queue_count :: "sync_store \<Rightarrow> nat" where
  "queue_count s = count_where (\<lambda>j. jb_state j \<noteq> JobCompleted) (ss_jobs s)"

definition history_count :: "sync_store \<Rightarrow> nat" where
  "history_count s = length (ss_job_history s)"

text \<open>The part of \<open>recover_interrupted_jobs\<close> on jobs.\<close>

definition recover_jobs :: "sync_store \<Rightarrow> sync_store" where
  "recover_jobs s = s\<lparr>ss_jobs := update_where (\<lambda>j. jb_state j = JobRunning)
     (\<lambda>j. j\<lparr>jb_state := JobNeedsReconcile, jb_last_error_code := Some ''interrupted_unknown_outcome''\<rparr>) (ss_jobs s)\<rparr>"

end
