(* ===== verification/Transfers.thy ===== *)
theory Transfers
  imports Queue_Jobs
begin

text \<open>
  Content transfers of \<open>SyncStore\<close> (\<open>store.rs\<close>): registration, claim, the pauses, reconciliation,
  the base reference and verified completion. A transfer that belongs to the active cursor batch is
  the row of \<open>change_batch_mutations\<close> whose \<open>mutation_id\<close> is the text of its operation.
\<close>

section \<open>Rows\<close>

definition row_to_transfer :: "libs \<Rightarrow> transfer_record \<Rightarrow> error + transfer_record" where
  "row_to_transfer L t =
     and_then (ensure (fits_u32 (tr_attempt_count t)) InvalidSchema) (\<lambda>_.
     and_then (transfer_validate L t) (\<lambda>_. Inr t))"

definition find_transfer :: "sync_store \<Rightarrow> uuid \<Rightarrow> transfer_record option" where
  "find_transfer s op = find (\<lambda>t. tr_operation_id t = op) (ss_transfers s)"

definition load_transfer :: "libs \<Rightarrow> sync_store \<Rightarrow> uuid \<Rightarrow> error + transfer_record option" where
  "load_transfer L s op =
     (case find_transfer s op of None \<Rightarrow> Inr None | Some t \<Rightarrow> and_then (row_to_transfer L t) (\<lambda>t. Inr (Some t)))"

definition require_transfer :: "libs \<Rightarrow> sync_store \<Rightarrow> uuid \<Rightarrow> error + transfer_record" where
  "require_transfer L s op = and_then (load_transfer L s op) (\<lambda>t. ok_or t TransferNotFound)"

definition marker_owned :: "sync_store \<Rightarrow> string \<Rightarrow> bool" where
  "marker_owned s marker = list_ex (\<lambda>t. tr_operation_marker t = marker) (ss_transfers s)"

definition insert_transfer :: "transfer_record \<Rightarrow> sync_store \<Rightarrow> error + sync_store" where
  "insert_transfer t s =
     and_then (for_each (\<lambda>n. and_then (u64_to_i64 n) (\<lambda>_. Inr ())) [tr_byte_length t,
       tr_next_attempt_at_unix_ms t, tr_created_at_unix_ms t, tr_updated_at_unix_ms t]) (\<lambda>_.
     if find_transfer s (tr_operation_id t) \<noteq> None \<or> marker_owned s (tr_operation_marker t)
     then Inl constraint_failed
     else Inr (s\<lparr>ss_transfers := ss_transfers s @ [t]\<rparr>))"

definition validate_new_transfer :: "libs \<Rightarrow> transfer_record \<Rightarrow> error + unit" where
  "validate_new_transfer L t =
     and_then (transfer_validate L t) (\<lambda>_.
     if tr_phase t \<noteq> TransferPending \<or> tr_attempt_count t \<noteq> 0 \<or> tr_last_error_code t \<noteq> None
        \<or> tr_verified_local_revision t \<noteq> None \<or> tr_verified_remote_revision t \<noteq> None
     then Inl InvalidTransferEvidence else Inr ())"

section \<open>Registration and claim\<close>

definition register_transfer ::
    "libs \<Rightarrow> transfer_record \<Rightarrow> sync_store \<Rightarrow> error + transfer_registration_outcome \<times> sync_store" where
  "register_transfer L t s =
     and_then (validate_new_transfer L t) (\<lambda>_.
     and_then (require_state s) (\<lambda>_.
     and_then (load_transfer L s (tr_operation_id t)) (\<lambda>existing.
     case existing of
       Some e \<Rightarrow>
         if \<not> same_registration e t then Inl TransferCollision
         else Inr (if tr_phase e = TransferCompleted then TransferAlreadyCompleted else TransferAlreadyPresent, s)
     | None \<Rightarrow>
         if marker_owned s (tr_operation_marker t) then Inl TransferCollision
         else and_then (insert_transfer t s) (\<lambda>s1. Inr (TransferRegistered, s1)))))"

definition register_transfer_in_transaction :: "libs \<Rightarrow> transfer_record \<Rightarrow> sync_store \<Rightarrow> error + sync_store" where
  "register_transfer_in_transaction L t s =
     and_then (load_transfer L s (tr_operation_id t)) (\<lambda>existing.
     case existing of
       Some e \<Rightarrow>
         if \<not> same_registration e t \<or> tr_phase e = TransferCompleted then Inl TransferCollision else Inr s
     | None \<Rightarrow>
         if marker_owned s (tr_operation_marker t) then Inl TransferCollision else insert_transfer t s)"

definition transfer_due :: "u64 \<Rightarrow> transfer_record \<Rightarrow> bool" where
  "transfer_due now t =
     (tr_phase t \<in> set [TransferPending, TransferRetryScheduled] \<and> tr_next_attempt_at_unix_ms t \<le> now)"

definition due_transfers :: "u64 \<Rightarrow> sync_store \<Rightarrow> transfer_record list" where
  "due_transfers now s =
     sort_key tr_created_at_unix_ms (sort_key tr_operation_id (filter (transfer_due now) (ss_transfers s)))"

text \<open>\<open>UPDATE transfers ... WHERE operation_id = op AND phase IN phases\<close>, which must change one row.\<close>

definition update_transfer ::
    "uuid \<Rightarrow> transfer_phase list \<Rightarrow> (transfer_record \<Rightarrow> bool) \<Rightarrow> (transfer_record \<Rightarrow> transfer_record) \<Rightarrow> sync_store
      \<Rightarrow> error + sync_store" where
  "update_transfer op phases extra f s =
     (let hit = (\<lambda>t. tr_operation_id t = op \<and> tr_phase t \<in> set phases \<and> extra t) in
      if count_where hit (ss_transfers s) \<noteq> 1 then Inl InvalidStateTransition
      else Inr (s\<lparr>ss_transfers := update_where hit f (ss_transfers s)\<rparr>))"

definition claim_next_transfer :: "libs \<Rightarrow> u64 \<Rightarrow> sync_store \<Rightarrow> error + transfer_record option \<times> sync_store" where
  "claim_next_transfer L now s =
     and_then (u64_to_i64 now) (\<lambda>_.
     case due_transfers now s of
       [] \<Rightarrow> Inr (None, s)
     | candidate # _ \<Rightarrow>
         and_then (row_to_transfer L candidate) (\<lambda>transfer.
         let claim = (\<lambda>t. t\<lparr>tr_phase := TransferRunning, tr_updated_at_unix_ms := now\<rparr>) in
         and_then (update_transfer (tr_operation_id transfer) [TransferPending, TransferRetryScheduled]
           (\<lambda>_. True) claim s) (\<lambda>s1.
         Inr (Some (claim transfer), s1))))"

section \<open>Pauses and retries\<close>

definition schedule_transfer_retry :: "libs \<Rightarrow> uuid \<Rightarrow> u64 \<Rightarrow> string \<Rightarrow> u64 \<Rightarrow> sync_store \<Rightarrow> error + sync_store" where
  "schedule_transfer_retry L op next_attempt code updated s =
     (if is_nil op then Inl TransferNotFound
      else and_then (validate_redacted_code code) (\<lambda>_.
      and_then (u64_to_i64 next_attempt) (\<lambda>_.
      and_then (u64_to_i64 updated) (\<lambda>_.
      and_then (require_transfer L s op) (\<lambda>existing.
      if tr_phase existing = TransferRetryScheduled
         \<and> tr_next_attempt_at_unix_ms existing = next_attempt \<and> tr_last_error_code existing = Some code
      then Inr s
      else if updated < tr_updated_at_unix_ms existing then Inl InvalidStateTransition
      else update_transfer op [TransferRunning, TransferAuthRequired, TransferNeedsReconcile] (\<lambda>_. True)
        (\<lambda>t. t\<lparr>tr_phase := TransferRetryScheduled, tr_attempt_count := tr_attempt_count t + 1,
           tr_next_attempt_at_unix_ms := next_attempt, tr_updated_at_unix_ms := updated,
           tr_last_error_code := Some code\<rparr>) s)))))"

definition pause_transfer_offline :: "libs \<Rightarrow> uuid \<Rightarrow> u64 \<Rightarrow> string \<Rightarrow> u64 \<Rightarrow> sync_store \<Rightarrow> error + sync_store" where
  "pause_transfer_offline L op next_attempt code updated s =
     (if is_nil op then Inl TransferNotFound
      else and_then (validate_redacted_code code) (\<lambda>_.
      and_then (u64_to_i64 next_attempt) (\<lambda>_.
      and_then (u64_to_i64 updated) (\<lambda>_.
      and_then (require_transfer L s op) (\<lambda>existing.
      if tr_phase existing = TransferRetryScheduled
         \<and> tr_next_attempt_at_unix_ms existing = next_attempt \<and> tr_last_error_code existing = Some code
      then Inr s
      else if updated < tr_updated_at_unix_ms existing then Inl InvalidStateTransition
      else update_transfer op [TransferRunning] (\<lambda>_. True)
        (\<lambda>t. t\<lparr>tr_phase := TransferRetryScheduled, tr_next_attempt_at_unix_ms := next_attempt,
           tr_updated_at_unix_ms := updated, tr_last_error_code := Some code\<rparr>) s)))))"

definition mark_transfer_stopped :: "libs \<Rightarrow> uuid \<Rightarrow> transfer_phase \<Rightarrow> string \<Rightarrow> u64 \<Rightarrow> sync_store \<Rightarrow> error + sync_store" where
  "mark_transfer_stopped L op target code updated s =
     (if is_nil op then Inl TransferNotFound
      else if target \<notin> set [TransferAuthRequired, TransferNeedsReconcile] then Inl InvalidStateTransition
      else and_then (validate_redacted_code code) (\<lambda>_.
      and_then (u64_to_i64 updated) (\<lambda>_.
      and_then (require_transfer L s op) (\<lambda>existing.
      if tr_phase existing = target \<and> tr_last_error_code existing = Some code then Inr s
      else if updated < tr_updated_at_unix_ms existing then Inl InvalidStateTransition
      else update_transfer op [TransferRunning] (\<lambda>_. True)
        (\<lambda>t. t\<lparr>tr_phase := target, tr_updated_at_unix_ms := updated, tr_last_error_code := Some code\<rparr>) s))))"

definition mark_transfer_auth_required :: "libs \<Rightarrow> uuid \<Rightarrow> string \<Rightarrow> u64 \<Rightarrow> sync_store \<Rightarrow> error + sync_store" where
  "mark_transfer_auth_required L op = mark_transfer_stopped L op TransferAuthRequired"

definition mark_transfer_needs_reconcile :: "libs \<Rightarrow> uuid \<Rightarrow> string \<Rightarrow> u64 \<Rightarrow> sync_store \<Rightarrow> error + sync_store" where
  "mark_transfer_needs_reconcile L op = mark_transfer_stopped L op TransferNeedsReconcile"

definition resume_auth_required_transfers :: "u64 \<Rightarrow> sync_store \<Rightarrow> error + nat \<times> sync_store" where
  "resume_auth_required_transfers now s =
     and_then (u64_to_i64 now) (\<lambda>_.
     let hit = (\<lambda>t. tr_phase t = TransferAuthRequired \<and> tr_updated_at_unix_ms t \<le> now) in
     Inr (count_where hit (ss_transfers s),
       s\<lparr>ss_transfers := update_where hit (\<lambda>t. t\<lparr>tr_phase := TransferRetryScheduled,
         tr_attempt_count := tr_attempt_count t + 1, tr_next_attempt_at_unix_ms := now,
         tr_updated_at_unix_ms := now, tr_last_error_code := Some ''auth_restored''\<rparr>) (ss_transfers s)\<rparr>))"

definition requeue_transfer_for_reconciliation :: "libs \<Rightarrow> uuid \<Rightarrow> u64 \<Rightarrow> sync_store \<Rightarrow> error + sync_store" where
  "requeue_transfer_for_reconciliation L op now s =
     (if is_nil op then Inl TransferNotFound
      else and_then (u64_to_i64 now) (\<lambda>_.
      and_then (require_transfer L s op) (\<lambda>existing.
      if tr_phase existing \<noteq> TransferNeedsReconcile \<or> now < tr_updated_at_unix_ms existing
      then Inl InvalidStateTransition
      else update_transfer op [TransferNeedsReconcile] (\<lambda>t. tr_updated_at_unix_ms t \<le> now)
        (\<lambda>t. t\<lparr>tr_phase := TransferRetryScheduled, tr_attempt_count := tr_attempt_count t + 1,
           tr_next_attempt_at_unix_ms := now, tr_updated_at_unix_ms := now,
           tr_last_error_code := Some ''reconcile_requested''\<rparr>) s)))"

definition publish_transfer_base_reference :: "libs \<Rightarrow> uuid \<Rightarrow> string \<Rightarrow> u64 \<Rightarrow> sync_store \<Rightarrow> error + sync_store" where
  "publish_transfer_base_reference L op base updated s =
     and_then (validate_private_reference base) (\<lambda>_.
     and_then (u64_to_i64 updated) (\<lambda>_.
     and_then (require_transfer L s op) (\<lambda>existing.
     if tr_base_reference existing = Some base then Inr s
     else if tr_base_reference existing \<noteq> None \<or> updated < tr_updated_at_unix_ms existing
     then Inl TransferCollision
     else update_transfer op [TransferRunning, TransferNeedsReconcile] (\<lambda>t. tr_base_reference t = None)
       (\<lambda>t. t\<lparr>tr_base_reference := Some base, tr_updated_at_unix_ms := updated\<rparr>) s)))"

section \<open>The active cursor batch\<close>

definition batch_rows :: "sync_store \<Rightarrow> uuid \<Rightarrow> batch_mutation list" where
  "batch_rows s batch = filter (\<lambda>m. bm_batch_id m = batch) (ss_batch_mutations s)"

definition load_change_batch :: "sync_store \<Rightarrow> error + change_batch option" where
  "load_change_batch s =
     (case ss_batch s of
        None \<Rightarrow> Inr None
      | Some b \<Rightarrow>
          and_then (validate_remote_token (br_expected_cursor b)) (\<lambda>_.
          and_then (validate_remote_token (br_next_cursor b)) (\<lambda>_.
          let rows = batch_rows s (br_batch_id b) in
          Inr (Some \<lparr>cb_batch_id = br_batch_id b, cb_expected_cursor = br_expected_cursor b,
            cb_next_cursor = br_next_cursor b, cb_declared_mutations = length rows,
            cb_applying_mutations = count_where (\<lambda>m. bm_state m = LocalApplying) rows,
            cb_committed_mutations = count_where (\<lambda>m. bm_state m = LocalCommitted) rows\<rparr>))))"

definition load_local_mutation_state :: "sync_store \<Rightarrow> uuid \<Rightarrow> string \<Rightarrow> local_mutation_state option" where
  "load_local_mutation_state s batch mutation =
     map_option bm_state (find (\<lambda>m. bm_mutation_id m = mutation) (batch_rows s batch))"

definition transfer_mutation_id :: "libs \<Rightarrow> uuid \<Rightarrow> string" where
  "transfer_mutation_id L op = uuid_to_string L op"

definition active_transfer_mutation_state :: "sync_store \<Rightarrow> string \<Rightarrow> error + local_mutation_state option" where
  "active_transfer_mutation_state s mutation =
     and_then (load_change_batch s) (\<lambda>batch. Inr
       (Option.bind batch (\<lambda>b. load_local_mutation_state s (cb_batch_id b) mutation)))"

definition commit_transfer_mutation :: "string \<Rightarrow> sync_store \<Rightarrow> error + sync_store" where
  "commit_transfer_mutation mutation s =
     (let hit = (\<lambda>m. bm_mutation_id m = mutation \<and> bm_state m = LocalApplying
            \<and> is_some_and (ss_batch s) (\<lambda>b. bm_batch_id m = br_batch_id b)) in
      if count_where hit (ss_batch_mutations s) \<noteq> 1 then Inl InvalidStateTransition
      else Inr (s\<lparr>ss_batch_mutations := update_where hit (\<lambda>m. m\<lparr>bm_state := LocalCommitted\<rparr>) (ss_batch_mutations s)\<rparr>))"

section \<open>Completion\<close>

definition base_target :: "transfer_record \<Rightarrow> transfer_completion \<Rightarrow> remote_row \<Rightarrow> bool" where
  "base_target t c r =
     (re_file_id (rr_entry r) = tc_remote_file_id c \<and> re_parent_id (rr_entry r) = tr_remote_parent_id t
      \<and> re_path (rr_entry r) = tr_portable_path t \<and> re_kind (rr_entry r) = File
      \<and> re_remote_revision (rr_entry r) = tc_remote_revision c
      \<and> is_none_or (re_content_hash (rr_entry r)) (\<lambda>h. algorithm h \<noteq> Sha256 \<or> hex h = tr_sha256 t))"

definition update_remote_base_if_present ::
    "transfer_record \<Rightarrow> transfer_completion \<Rightarrow> sync_store \<Rightarrow> error + sync_store" where
  "update_remote_base_if_present t c s =
     (if find_remote s (tc_remote_file_id c) = None then Inr s
      else and_then (u64_to_i64 (tr_byte_length t)) (\<lambda>_.
        if count_where (base_target t c) (ss_remote_entries s) \<noteq> 1 then Inl TransferChangeMismatch
        else Inr (s\<lparr>ss_remote_entries := update_where (base_target t c) (\<lambda>r. r\<lparr>rr_base := Some
          \<lparr>rb_local_revision = tc_local_revision c, rb_remote_revision = tc_remote_revision c,
           rb_content_hash = tr_sha256 t, rb_byte_length = tr_byte_length t\<rparr>\<rparr>) (ss_remote_entries s)\<rparr>)))"

definition same_completion :: "sync_store \<Rightarrow> transfer_record \<Rightarrow> transfer_completion \<Rightarrow> bool" where
  "same_completion s t c =
     (tr_remote_file_id t = Some (tc_remote_file_id c)
      \<and> tr_verified_remote_revision t = Some (tc_remote_revision c)
      \<and> tr_verified_local_revision t = Some (tc_local_revision c)
      \<and> tr_base_reference t = Some (tc_base_reference c)
      \<and> map_option (\<lambda>h. (hi_outcome_code h, hi_occurred_at_unix_ms h))
          (find (\<lambda>h. hi_operation_id h = tr_operation_id t) (ss_transfer_history s))
        = Some (tc_outcome_code c, tc_occurred_at_unix_ms c))"

definition completion_rejected :: "transfer_record \<Rightarrow> transfer_completion \<Rightarrow> bool" where
  "completion_rejected t c =
     (tr_phase t \<notin> set [TransferRunning, TransferNeedsReconcile]
      \<or> tr_updated_at_unix_ms t > tc_occurred_at_unix_ms c
      \<or> is_some_and (tr_remote_file_id t) (\<lambda>v. v \<noteq> tc_remote_file_id c)
      \<or> is_some_and (tr_expected_remote_revision t) (\<lambda>v. v \<noteq> tc_remote_revision c)
      \<or> tr_direction t = TransferUpload
        \<and> is_some_and (tr_expected_local_revision t) (\<lambda>v. v \<noteq> tc_local_revision c)
      \<or> is_some_and (tr_base_reference t) (\<lambda>v. v \<noteq> tc_base_reference c))"

definition completed_transfer :: "transfer_completion \<Rightarrow> transfer_record \<Rightarrow> transfer_record" where
  "completed_transfer c t = t\<lparr>tr_remote_file_id := Some (tc_remote_file_id c),
     tr_base_reference := Some (tc_base_reference c), tr_phase := TransferCompleted,
     tr_next_attempt_at_unix_ms := tc_occurred_at_unix_ms c, tr_updated_at_unix_ms := tc_occurred_at_unix_ms c,
     tr_last_error_code := None, tr_verified_local_revision := Some (tc_local_revision c),
     tr_verified_remote_revision := Some (tc_remote_revision c)\<rparr>"

definition insert_transfer_history :: "uuid \<Rightarrow> string \<Rightarrow> u64 \<Rightarrow> sync_store \<Rightarrow> error + sync_store" where
  "insert_transfer_history op code occurred s =
     (if list_ex (\<lambda>h. hi_operation_id h = op) (ss_transfer_history s) \<or> find_transfer s op = None
      then Inl constraint_failed
      else Inr (s\<lparr>ss_transfer_history := ss_transfer_history s @ [\<lparr>hi_operation_id = op,
        hi_outcome_code = code, hi_occurred_at_unix_ms = occurred\<rparr>]\<rparr>))"

definition complete_verified_transfer ::
    "libs \<Rightarrow> uuid \<Rightarrow> transfer_completion \<Rightarrow> sync_store \<Rightarrow> error + transfer_completion_outcome \<times> sync_store" where
  "complete_verified_transfer L op c s =
     (if is_nil op then Inl TransferNotFound
      else and_then (completion_validate c) (\<lambda>_.
      and_then (require_transfer L s op) (\<lambda>existing.
      and_then (active_transfer_mutation_state s (transfer_mutation_id L op)) (\<lambda>mutation_state.
      if tr_phase existing = TransferCompleted then
        (if same_completion s existing c \<and> is_none_or mutation_state (\<lambda>m. m = LocalCommitted)
         then Inr (CompletionAlreadyCompleted, s) else Inl TransferCollision)
      else if completion_rejected existing c then Inl InvalidStateTransition
      else if mutation_state \<noteq> None \<and> tr_direction existing \<noteq> TransferDownload then Inl TransferChangeMismatch
      else if is_some_and mutation_state (\<lambda>m. m \<noteq> LocalApplying) then Inl InvalidStateTransition
      else
        and_then (u64_to_i64 (tc_occurred_at_unix_ms c)) (\<lambda>_.
        and_then (insert_transfer_history op (tc_outcome_code c) (tc_occurred_at_unix_ms c) s) (\<lambda>s1.
        and_then (update_transfer op [TransferRunning, TransferNeedsReconcile] (\<lambda>_. True)
          (completed_transfer c) s1) (\<lambda>s2.
        and_then (update_remote_base_if_present existing c s2) (\<lambda>s3.
        and_then (if mutation_state = Some LocalApplying
            then commit_transfer_mutation (transfer_mutation_id L op) s3 else Inr s3) (\<lambda>s4.
        Inr (CompletionCompleted, s4))))))))))"

section \<open>Queries and recovery\<close>

definition transfer_count :: "sync_store \<Rightarrow> nat" where
  "transfer_count s = count_where (\<lambda>t. tr_phase t \<noteq> TransferCompleted) (ss_transfers s)"

definition transfer_summary_of :: "sync_store \<Rightarrow> transfer_summary" where
  "transfer_summary_of s =
     (let count = (\<lambda>p. count_where (\<lambda>t. tr_phase t = p) (ss_transfers s)) in
      \<lparr>ts_pending = count TransferPending, ts_running = count TransferRunning,
       ts_retry_scheduled = count TransferRetryScheduled, ts_auth_required = count TransferAuthRequired,
       ts_needs_reconcile = count TransferNeedsReconcile, ts_completed = count TransferCompleted\<rparr>)"

definition recover_transfers :: "sync_store \<Rightarrow> sync_store" where
  "recover_transfers s = s\<lparr>ss_transfers := update_where (\<lambda>t. tr_phase t = TransferRunning)
     (\<lambda>t. t\<lparr>tr_phase := TransferNeedsReconcile, tr_last_error_code := Some ''interrupted_unknown_outcome''\<rparr>)
     (ss_transfers s)\<rparr>"

end
