(* ===== verification/Change_Batches.thy ===== *)
theory Change_Batches
  imports Transfers
begin

text \<open>
  Cursor batches of \<open>SyncStore\<close> (\<open>store.rs\<close>): the durable Changes cursor moves from
  \<open>expected_cursor\<close> to \<open>next_cursor\<close> only when the batch commits. Three families of operations share
  the tables \<open>change_batch\<close> and \<open>change_batch_mutations\<close>: declared local mutations, transfer-coupled
  pages and typed R3 dependencies on the mutation ledger. The two large queries that decide whether a
  batch is complete are written in the three-valued logic of SQL: a comparison with \<open>NULL\<close> is
  \<open>NULL\<close>, and \<open>WHERE\<close> selects a row only if its condition is true.
\<close>

section \<open>SQL conditions\<close>

definition sql_ne :: "'a option \<Rightarrow> 'a option \<Rightarrow> bool option" where
  "sql_ne x y = (case (x, y) of (Some a, Some b) \<Rightarrow> Some (a \<noteq> b) | _ \<Rightarrow> None)"

definition sql_eq :: "'a option \<Rightarrow> 'a option \<Rightarrow> bool option" where
  "sql_eq x y = (case (x, y) of (Some a, Some b) \<Rightarrow> Some (a = b) | _ \<Rightarrow> None)"

definition is_null :: "'a option \<Rightarrow> bool option" where
  "is_null x = Some (x = None)"

definition sql_and :: "bool option \<Rightarrow> bool option \<Rightarrow> bool option" where
  "sql_and p q = (if p = Some False \<or> q = Some False then Some False
     else if p = Some True \<and> q = Some True then Some True else None)"

text \<open>\<open>WHERE p1 OR ... OR pn\<close> selects the row.\<close>

definition sql_any :: "bool option list \<Rightarrow> bool" where
  "sql_any ps = list_ex (\<lambda>p. p = Some True) ps"

section \<open>Rows of a batch\<close>

text \<open>
  The key is the batch with the mutation; the batch, the intent and the evidence are foreign keys;
  a legacy row names neither operation nor evidence, a typed row names its operation.
\<close>

definition insert_batch_mutation :: "batch_mutation \<Rightarrow> sync_store \<Rightarrow> error + sync_store" where
  "insert_batch_mutation m s =
     (if list_ex (\<lambda>x. bm_batch_id x = bm_batch_id m \<and> bm_mutation_id x = bm_mutation_id m) (ss_batch_mutations s)
         \<or> \<not> is_some_and (ss_batch s) (\<lambda>b. br_batch_id b = bm_batch_id m)
         \<or> \<not> is_none_or (bm_operation_id m) (\<lambda>op. load_intent (ss_ledger s) op \<noteq> None)
         \<or> \<not> is_none_or (bm_committed_evidence_id m) (\<lambda>e. load_evidence (ss_ledger s) e \<noteq> None)
         \<or> \<not> (bm_dependency_kind m = LegacyV3 \<and> bm_operation_id m = None \<and> bm_committed_evidence_id m = None
              \<or> bm_dependency_kind m \<noteq> LegacyV3 \<and> bm_operation_id m \<noteq> None)
      then Inl constraint_failed
      else Inr (s\<lparr>ss_batch_mutations := ss_batch_mutations s @ [m]\<rparr>))"

fun insert_batch_mutations :: "batch_mutation list \<Rightarrow> sync_store \<Rightarrow> error + sync_store" where
  "insert_batch_mutations [] s = Inr s"
| "insert_batch_mutations (m # ms) s = and_then (insert_batch_mutation m s) (insert_batch_mutations ms)"

definition insert_batch :: "uuid \<Rightarrow> string \<Rightarrow> string \<Rightarrow> sync_store \<Rightarrow> error + sync_store" where
  "insert_batch batch expected next_cursor s =
     (if ss_batch s \<noteq> None then Inl constraint_failed
      else Inr (s\<lparr>ss_batch := Some \<lparr>br_batch_id = batch, br_expected_cursor = expected,
        br_next_cursor = next_cursor\<rparr>\<rparr>))"

text \<open>\<open>DELETE FROM change_batch WHERE singleton = 1\<close>, with \<open>ON DELETE CASCADE\<close>.\<close>

definition delete_batch :: "sync_store \<Rightarrow> sync_store" where
  "delete_batch s = s\<lparr>ss_batch := None, ss_batch_mutations := filter (\<lambda>m.
     \<not> is_some_and (ss_batch s) (\<lambda>b. br_batch_id b = bm_batch_id m)) (ss_batch_mutations s)\<rparr>"

definition find_batch_mutation :: "sync_store \<Rightarrow> uuid \<Rightarrow> string \<Rightarrow> batch_mutation option" where
  "find_batch_mutation s batch mutation = find (\<lambda>m. bm_mutation_id m = mutation) (batch_rows s batch)"

definition joined_transfer :: "libs \<Rightarrow> sync_store \<Rightarrow> string \<Rightarrow> transfer_record option" where
  "joined_transfer L s mutation = find (\<lambda>t. uuid_to_string L (tr_operation_id t) = mutation) (ss_transfers s)"

definition is_transfer_backed_mutation :: "libs \<Rightarrow> sync_store \<Rightarrow> uuid \<Rightarrow> string \<Rightarrow> bool" where
  "is_transfer_backed_mutation L s batch mutation =
     (find_batch_mutation s batch mutation \<noteq> None \<and> joined_transfer L s mutation \<noteq> None)"

definition is_legacy_v3_dependency :: "sync_store \<Rightarrow> uuid \<Rightarrow> string \<Rightarrow> bool" where
  "is_legacy_v3_dependency s batch mutation =
     is_some_and (find_batch_mutation s batch mutation) (\<lambda>m. bm_dependency_kind m = LegacyV3)"

definition transfer_backed_mutation_count :: "libs \<Rightarrow> sync_store \<Rightarrow> uuid \<Rightarrow> nat" where
  "transfer_backed_mutation_count L s batch =
     count_where (\<lambda>m. joined_transfer L s (bm_mutation_id m) \<noteq> None) (batch_rows s batch)"

definition legacy_v3_dependency_count :: "sync_store \<Rightarrow> uuid \<Rightarrow> nat" where
  "legacy_v3_dependency_count s batch = count_where (\<lambda>m. bm_dependency_kind m = LegacyV3) (batch_rows s batch)"

definition typed_r3_dependency_count :: "sync_store \<Rightarrow> uuid \<Rightarrow> nat" where
  "typed_r3_dependency_count s batch = count_where (\<lambda>m. bm_dependency_kind m \<noteq> LegacyV3) (batch_rows s batch)"

definition active_batch :: "uuid \<Rightarrow> sync_store \<Rightarrow> error + change_batch" where
  "active_batch batch s =
     and_then (load_change_batch s) (\<lambda>loaded.
     and_then (ok_or loaded NoActiveBatch) (\<lambda>b.
     if cb_batch_id b \<noteq> batch then Inl NoActiveBatch else Inr b))"

text \<open>The cursor update every commit ends with.\<close>

definition advance_cursor :: "change_batch \<Rightarrow> u64 \<Rightarrow> sync_store \<Rightarrow> error + sync_store" where
  "advance_cursor b now s =
     (if is_some_and (ss_vault_state s) (\<lambda>v. vs_phase v = Ready \<and> vs_durable_cursor v = Some (cb_expected_cursor b))
      then Inr (delete_batch (set_state (\<lambda>v. v\<lparr>vs_durable_cursor := Some (cb_next_cursor b),
        vs_updated_at_unix_ms := now\<rparr>) s))
      else Inl CursorMismatch)"

text \<open>The guards every batch starts with, before and inside the transaction.\<close>

definition batch_request_ok :: "uuid \<Rightarrow> string \<Rightarrow> string \<Rightarrow> error + unit" where
  "batch_request_ok batch expected next_cursor =
     (if is_nil batch then Inl InvalidStateTransition
      else and_then (validate_remote_token expected) (\<lambda>_. validate_remote_token next_cursor))"

definition cursor_ready :: "string \<Rightarrow> sync_store \<Rightarrow> error + unit" where
  "cursor_ready expected s =
     and_then (require_state s) (\<lambda>st.
     if vs_phase st \<noteq> Ready \<or> vs_durable_cursor st \<noteq> Some expected then Inl CursorMismatch else Inr ())"

section \<open>Declared local mutations\<close>

definition legacy_row :: "uuid \<Rightarrow> string \<Rightarrow> batch_mutation" where
  "legacy_row batch mutation = \<lparr>bm_batch_id = batch, bm_mutation_id = mutation, bm_dependency_kind = LegacyV3,
     bm_operation_id = None, bm_committed_evidence_id = None, bm_state = LocalPending\<rparr>"

definition begin_change_batch :: "uuid \<Rightarrow> string \<Rightarrow> string \<Rightarrow> string list \<Rightarrow> sync_store \<Rightarrow> error + sync_store" where
  "begin_change_batch batch expected next_cursor mutation_ids s =
     and_then (batch_request_ok batch expected next_cursor) (\<lambda>_.
     if \<not> distinct mutation_ids then Inl UnknownMutation
     else and_then (for_each validate_redacted_code (sort mutation_ids)) (\<lambda>_.
     and_then (cursor_ready expected s) (\<lambda>_.
     if ss_batch s \<noteq> None then Inl BatchAlreadyActive
     else and_then (insert_batch batch expected next_cursor s)
       (insert_batch_mutations (map (legacy_row batch) (sort mutation_ids))))))"

definition local_mutation_guard :: "uuid \<Rightarrow> string \<Rightarrow> sync_store \<Rightarrow> error + unit" where
  "local_mutation_guard batch mutation s =
     and_then (validate_redacted_code mutation) (\<lambda>_.
     and_then (active_batch batch s) (\<lambda>_.
     ensure (is_legacy_v3_dependency s batch mutation) InvalidStateTransition))"

text \<open>\<open>UPDATE change_batch_mutations SET state\<close>, \<open>None\<close> when it does not change exactly one row.\<close>

definition move_mutation ::
    "uuid \<Rightarrow> string \<Rightarrow> local_mutation_state \<Rightarrow> local_mutation_state \<Rightarrow> sync_store \<Rightarrow> sync_store option" where
  "move_mutation batch mutation old new s =
     (let hit = (\<lambda>m. bm_batch_id m = batch \<and> bm_mutation_id m = mutation \<and> bm_state m = old) in
      if count_where hit (ss_batch_mutations s) = 1
      then Some (s\<lparr>ss_batch_mutations := update_where hit (\<lambda>m. m\<lparr>bm_state := new\<rparr>) (ss_batch_mutations s)\<rparr>)
      else None)"

definition begin_local_mutation :: "libs \<Rightarrow> uuid \<Rightarrow> string \<Rightarrow> sync_store \<Rightarrow> error + sync_store" where
  "begin_local_mutation L batch mutation s =
     and_then (local_mutation_guard batch mutation s) (\<lambda>_.
     if is_transfer_backed_mutation L s batch mutation then Inl InvalidStateTransition
     else case move_mutation batch mutation LocalPending LocalApplying s of
       Some s1 \<Rightarrow> Inr s1
     | None \<Rightarrow>
         (case load_local_mutation_state s batch mutation of
            Some LocalApplying \<Rightarrow> Inl MutationNeedsReconcile
          | Some LocalNeedsReconcile \<Rightarrow> Inl MutationNeedsReconcile
          | Some LocalCommitted \<Rightarrow> Inl InvalidStateTransition
          | _ \<Rightarrow> Inl UnknownMutation))"

definition mark_local_mutation_committed :: "libs \<Rightarrow> uuid \<Rightarrow> string \<Rightarrow> sync_store \<Rightarrow> error + sync_store" where
  "mark_local_mutation_committed L batch mutation s =
     and_then (local_mutation_guard batch mutation s) (\<lambda>_.
     if is_transfer_backed_mutation L s batch mutation then Inl InvalidStateTransition
     else case move_mutation batch mutation LocalApplying LocalCommitted s of
       Some s1 \<Rightarrow> Inr s1
     | None \<Rightarrow>
         if load_local_mutation_state s batch mutation \<noteq> None then Inl InvalidStateTransition
         else Inl UnknownMutation)"

definition reset_local_mutation_after_verified_absence :: "uuid \<Rightarrow> string \<Rightarrow> sync_store \<Rightarrow> error + sync_store" where
  "reset_local_mutation_after_verified_absence batch mutation s =
     and_then (local_mutation_guard batch mutation s) (\<lambda>_.
     ok_or (move_mutation batch mutation LocalApplying LocalPending s) InvalidStateTransition)"

definition local_mutations :: "uuid \<Rightarrow> sync_store \<Rightarrow> error + local_mutation_status list" where
  "local_mutations batch s =
     and_then (active_batch batch s) (\<lambda>_.
     let rows = sort_key bm_mutation_id (batch_rows s batch) in
     and_then (for_each validate_redacted_code (map bm_mutation_id rows)) (\<lambda>_.
     Inr (map (\<lambda>m. \<lparr>lm_mutation_id = bm_mutation_id m, lm_state = bm_state m\<rparr>) rows)))"

definition commit_change_batch :: "libs \<Rightarrow> uuid \<Rightarrow> u64 \<Rightarrow> sync_store \<Rightarrow> error + sync_store" where
  "commit_change_batch L batch now s =
     and_then (u64_to_i64 now) (\<lambda>_.
     and_then (active_batch batch s) (\<lambda>b.
     if transfer_backed_mutation_count L s batch \<noteq> 0 then Inl InvalidStateTransition
     else if typed_r3_dependency_count s batch \<noteq> 0 then Inl InvalidStateTransition
     else if legacy_v3_dependency_count s batch \<noteq> 0 then Inl LocalMutationIncomplete
     else if cb_applying_mutations b \<noteq> 0 \<or> cb_declared_mutations b \<noteq> cb_committed_mutations b
     then Inl LocalMutationIncomplete
     else advance_cursor b now s))"

definition abort_change_batch :: "libs \<Rightarrow> uuid \<Rightarrow> sync_store \<Rightarrow> error + sync_store" where
  "abort_change_batch L batch s =
     and_then (active_batch batch s) (\<lambda>b.
     if transfer_backed_mutation_count L s batch \<noteq> 0 then Inl MutationNeedsReconcile
     else if cb_applying_mutations b \<noteq> 0 \<or> cb_committed_mutations b \<noteq> 0 then Inl MutationNeedsReconcile
     else if list_ex (\<lambda>m. bm_state m \<noteq> LocalPending) (batch_rows s batch) then Inl MutationNeedsReconcile
     else Inr (delete_batch s))"

section \<open>Transfer-coupled pages\<close>

definition needs_download :: "remote_entry option \<Rightarrow> remote_entry \<Rightarrow> bool" where
  "needs_download existing e =
     (re_kind e = File \<and> is_none_or existing (\<lambda>p.
        re_remote_revision p \<noteq> re_remote_revision e \<or> re_content_hash p \<noteq> re_content_hash e))"

text \<open>The first loop of \<open>validate_resolved_transfer_changes\<close>: the files whose download is required.\<close>

fun resolve_changes :: "libs \<Rightarrow> sync_store \<Rightarrow> string list \<Rightarrow> remote_change list \<Rightarrow> error + string list" where
  "resolve_changes L s changed [] = Inr []"
| "resolve_changes L s changed (Removed file # cs) = Inl UnsupportedTransferChange"
| "resolve_changes L s changed (Upsert e # cs) =
     (if re_file_id e \<in> set changed then Inl InvalidRemoteEntry
      else and_then (load_remote_entry L s (re_file_id e)) (\<lambda>existing.
      if is_some_and existing (\<lambda>p. re_path p \<noteq> re_path e \<or> re_parent_id p \<noteq> re_parent_id e
           \<or> re_kind p \<noteq> re_kind e)
      then Inl UnsupportedTransferChange
      else if path_collides s e then Inl UnsupportedTransferChange
      else and_then (resolve_changes L s (re_file_id e # changed) cs) (\<lambda>required.
        Inr (if needs_download existing e then re_file_id e # required else required))))"

definition download_matches :: "transfer_record \<Rightarrow> remote_entry \<Rightarrow> bool" where
  "download_matches t e =
     (re_kind e = File \<and> tr_portable_path t = re_path e \<and> tr_remote_parent_id t = re_parent_id e
      \<and> tr_expected_remote_revision t = Some (re_remote_revision e)
      \<and> \<not> is_some_and (re_content_hash e) (\<lambda>h. algorithm h = Sha256 \<and> hex h \<noteq> tr_sha256 t))"

definition upserted :: "remote_change list \<Rightarrow> string \<Rightarrow> remote_entry option" where
  "upserted changes file =
     Option.bind (find (\<lambda>c. case c of Upsert e \<Rightarrow> re_file_id e = file | Removed _ \<Rightarrow> False) changes)
       (\<lambda>c. case c of Upsert e \<Rightarrow> Some e | Removed _ \<Rightarrow> None)"

text \<open>The second loop, with the file identifiers it has seen.\<close>

fun match_downloads :: "remote_change list \<Rightarrow> string list \<Rightarrow> transfer_record list \<Rightarrow> error + string list" where
  "match_downloads changes supplied [] = Inr supplied"
| "match_downloads changes supplied (t # ts) =
     and_then (ok_or (tr_remote_file_id t) TransferChangeMismatch) (\<lambda>file.
     if file \<in> set supplied then Inl TransferChangeMismatch
     else and_then (ok_or (upserted changes file) TransferChangeMismatch) (\<lambda>e.
     if \<not> download_matches t e then Inl TransferChangeMismatch
     else match_downloads changes (file # supplied) ts))"

definition validate_resolved_transfer_changes ::
    "libs \<Rightarrow> sync_store \<Rightarrow> remote_change list \<Rightarrow> transfer_record list \<Rightarrow> error + unit" where
  "validate_resolved_transfer_changes L s changes downloads =
     and_then (resolve_changes L s [] changes) (\<lambda>required.
     and_then (match_downloads changes [] downloads) (\<lambda>supplied.
     ensure (set supplied = set required) TransferChangeMismatch))"

fun register_downloads :: "libs \<Rightarrow> uuid \<Rightarrow> transfer_record list \<Rightarrow> sync_store \<Rightarrow> error + sync_store" where
  "register_downloads L batch [] s = Inr s"
| "register_downloads L batch (t # ts) s =
     and_then (register_transfer_in_transaction L t s) (\<lambda>s1.
     and_then (insert_batch_mutation (legacy_row batch (transfer_mutation_id L (tr_operation_id t))) s1)
       (register_downloads L batch ts))"

definition upserts_of :: "remote_change list \<Rightarrow> remote_entry list" where
  "upserts_of changes = List.map_filter (\<lambda>c. case c of Upsert e \<Rightarrow> Some e | Removed _ \<Rightarrow> None) changes"

definition download_request_ok :: "libs \<Rightarrow> transfer_record \<Rightarrow> error + unit" where
  "download_request_ok L t =
     and_then (validate_new_transfer L t) (\<lambda>_.
     if tr_direction t \<noteq> TransferDownload \<or> tr_expected_remote_revision t = None
     then Inl TransferChangeMismatch else Inr ())"

definition begin_transfer_change_batch ::
    "libs \<Rightarrow> uuid \<Rightarrow> string \<Rightarrow> string \<Rightarrow> remote_change list \<Rightarrow> transfer_record list \<Rightarrow> sync_store \<Rightarrow> error + sync_store" where
  "begin_transfer_change_batch L batch expected next_cursor changes downloads s =
     and_then (batch_request_ok batch expected next_cursor) (\<lambda>_.
     if length changes > MAX_SCAN_PAGE_ENTRIES then Inl InvalidRemoteEntry
     else and_then (for_each (remote_change_validate L) changes) (\<lambda>_.
     and_then (for_each (download_request_ok L) downloads) (\<lambda>_.
     and_then (cursor_ready expected s) (\<lambda>_.
     and_then (load_change_batch s) (\<lambda>active.
     if active \<noteq> None then Inl BatchAlreadyActive
     else and_then (validate_resolved_transfer_changes L s changes downloads) (\<lambda>_.
     and_then (insert_batch batch expected next_cursor s) (\<lambda>s1.
     and_then (upsert_entries L (upserts_of changes) s1)
       (register_downloads L batch downloads))))))))"

definition begin_transfer_local_publish :: "libs \<Rightarrow> uuid \<Rightarrow> u64 \<Rightarrow> sync_store \<Rightarrow> error + sync_store" where
  "begin_transfer_local_publish L op now s =
     (if is_nil op then Inl TransferNotFound
      else and_then (u64_to_i64 now) (\<lambda>_.
      and_then (load_change_batch s) (\<lambda>loaded.
      and_then (ok_or loaded NoActiveBatch) (\<lambda>active.
      and_then (require_transfer L s op) (\<lambda>transfer.
      if tr_direction transfer \<noteq> TransferDownload
         \<or> tr_phase transfer \<notin> set [TransferRunning, TransferNeedsReconcile]
         \<or> tr_updated_at_unix_ms transfer > now
      then Inl InvalidStateTransition
      else let mutation = transfer_mutation_id L op in
      case move_mutation (cb_batch_id active) mutation LocalPending LocalApplying s of
        None \<Rightarrow>
          (case load_local_mutation_state s (cb_batch_id active) mutation of
             Some LocalApplying \<Rightarrow>
               if tr_last_error_code transfer = Some ''reconcile_requested'' then Inr s
               else Inl MutationNeedsReconcile
           | Some LocalNeedsReconcile \<Rightarrow> Inl MutationNeedsReconcile
           | Some LocalCommitted \<Rightarrow> Inl InvalidStateTransition
           | _ \<Rightarrow> Inl UnknownMutation)
      | Some s1 \<Rightarrow>
          update_transfer op [TransferRunning, TransferNeedsReconcile] (\<lambda>t. tr_updated_at_unix_ms t \<le> now)
            (\<lambda>t. t\<lparr>tr_updated_at_unix_ms := now\<rparr>) s1)))))"

text \<open>The row of the left joins on \<open>transfers\<close>, \<open>transfer_history\<close> and \<open>remote_entries\<close>.\<close>

definition transfer_incomplete :: "libs \<Rightarrow> sync_store \<Rightarrow> batch_mutation \<Rightarrow> bool" where
  "transfer_incomplete L s m =
     (let t = joined_transfer L s (bm_mutation_id m);
          history = Option.bind t (\<lambda>x. find (\<lambda>h. hi_operation_id h = tr_operation_id x) (ss_transfer_history s));
          remote = Option.bind (Option.bind t tr_remote_file_id) (find_remote s);
          entry = map_option rr_entry remote;
          base = Option.bind remote rr_base;
          hash = Option.bind entry re_content_hash in
      sql_any
        [Some (bm_state m \<noteq> LocalCommitted),
         sql_ne (map_option tr_direction t) (Some TransferDownload),
         sql_ne (map_option tr_phase t) (Some TransferCompleted),
         is_null history,
         is_null (Option.bind t tr_remote_file_id),
         is_null (Option.bind t tr_base_reference),
         is_null (Option.bind t tr_verified_local_revision),
         is_null (Option.bind t tr_verified_remote_revision),
         is_null (Option.bind t tr_expected_remote_revision),
         sql_ne (Option.bind t tr_expected_remote_revision) (Option.bind t tr_verified_remote_revision),
         is_null remote,
         sql_ne (map_option re_parent_id entry) (map_option tr_remote_parent_id t),
         sql_ne (map_option re_path entry) (map_option tr_portable_path t),
         sql_ne (map_option re_kind entry) (Some File),
         sql_ne (map_option re_remote_revision entry) (Option.bind t tr_verified_remote_revision),
         sql_ne (map_option rb_local_revision base) (Option.bind t tr_verified_local_revision),
         sql_ne (map_option rb_remote_revision base) (Option.bind t tr_verified_remote_revision),
         sql_ne (map_option rb_content_hash base) (map_option tr_sha256 t),
         sql_ne (map_option rb_byte_length base) (map_option tr_byte_length t),
         sql_and (sql_eq (map_option algorithm hash) (Some Sha256))
           (if hash = None then Some True else sql_ne (map_option hex hash) (map_option tr_sha256 t))])"

definition commit_transfer_change_batch :: "libs \<Rightarrow> uuid \<Rightarrow> u64 \<Rightarrow> sync_store \<Rightarrow> error + sync_store" where
  "commit_transfer_change_batch L batch now s =
     and_then (u64_to_i64 now) (\<lambda>_.
     and_then (active_batch batch s) (\<lambda>b.
     if typed_r3_dependency_count s batch \<noteq> 0 then Inl InvalidStateTransition
     else if legacy_v3_dependency_count s batch \<noteq> 0 then Inl LocalMutationIncomplete
     else if cb_applying_mutations b \<noteq> 0 \<or> cb_declared_mutations b \<noteq> cb_committed_mutations b
     then Inl LocalMutationIncomplete
     else if count_where (transfer_incomplete L s) (batch_rows s batch) \<noteq> 0 then Inl LocalMutationIncomplete
     else advance_cursor b now s))"

section \<open>Typed R3 dependencies\<close>

definition typed_row :: "libs \<Rightarrow> uuid \<Rightarrow> change_batch_dependency \<Rightarrow> batch_mutation" where
  "typed_row L batch d = \<lparr>bm_batch_id = batch, bm_mutation_id = uuid_to_string L (dep_operation_id d),
     bm_dependency_kind = Typed (dep_kind d), bm_operation_id = Some (dep_operation_id d),
     bm_committed_evidence_id = None, bm_state = LocalPending\<rparr>"

definition dependency_ok :: "sync_store \<Rightarrow> change_batch_dependency \<Rightarrow> error + unit" where
  "dependency_ok s d =
     and_then (ok_or (load_mutation_kind (ss_ledger s) (dep_operation_id d)) MutationNotFound) (\<lambda>kind.
     if kind \<noteq> required_operation_kind (dep_kind d)
        \<or> load_mutation_state (ss_ledger s) (dep_operation_id d) = None
     then Inl MutationCollision else Inr ())"

definition begin_r3_change_batch ::
    "libs \<Rightarrow> uuid \<Rightarrow> string \<Rightarrow> string \<Rightarrow> change_batch_dependency list \<Rightarrow> sync_store \<Rightarrow> error + sync_store" where
  "begin_r3_change_batch L batch expected next_cursor dependencies s =
     and_then (batch_request_ok batch expected next_cursor) (\<lambda>_.
     if \<not> distinct (map dep_operation_id dependencies) \<or> 0 \<in> set (map dep_operation_id dependencies)
     then Inl MutationCollision
     else and_then (cursor_ready expected s) (\<lambda>_.
     and_then (load_change_batch s) (\<lambda>active.
     if active \<noteq> None then Inl BatchAlreadyActive
     else and_then (for_each (dependency_ok s) dependencies) (\<lambda>_.
     and_then (insert_batch batch expected next_cursor s)
       (insert_batch_mutations (map (typed_row L batch) dependencies))))))"

definition completion_event :: "mutation_state \<Rightarrow> uuid \<Rightarrow> mutation_event \<Rightarrow> bool" where
  "completion_event st evidence e =
     (me_operation_id e = st_operation_id st \<and> me_evidence_id e = Some evidence
      \<and> me_attempt_number e = st_attempt_number st \<and> me_state_version e = st_state_version st
      \<and> me_phase e = Completed \<and> me_disposition e = Some VerifiedApplied
      \<and> me_outcome_code e = st_outcome_code st)"

definition require_exact_r3_completion_evidence :: "sync_store \<Rightarrow> uuid \<Rightarrow> uuid \<Rightarrow> error + unit" where
  "require_exact_r3_completion_evidence s op evidence =
     and_then (ok_or (load_mutation_state (ss_ledger s) op) MutationNotFound) (\<lambda>st.
     if st_phase st = NeedsReconcilePhase then Inl MutationNeedsReconcile
     else if st_phase st \<noteq> Completed \<or> st_disposition st \<noteq> Some VerifiedApplied
       \<or> st_last_evidence_id st \<noteq> Some evidence
     then Inl LocalMutationIncomplete
     else and_then (ok_or (find (\<lambda>e. ev_evidence_id e = evidence \<and> ev_operation_id e = op)
         (lg_evidence (ss_ledger s))) LocalMutationIncomplete) (\<lambda>e.
     if ev_capture_phase e \<noteq> PostVerify \<or> ev_disposition e \<noteq> VerifiedApplied \<or> ev_forbidden_side_effect e
       \<or> ev_attempt_number e \<noteq> st_attempt_number st \<or> ev_outcome_code e \<noteq> st_outcome_code st
     then Inl LocalMutationIncomplete
     else and_then (u64_to_i64 (st_state_version st)) (\<lambda>_.
     ensure (list_ex (completion_event st evidence) (lg_events (ss_ledger s))) LocalMutationIncomplete)))"

definition commit_r3_change_dependency ::
    "libs \<Rightarrow> uuid \<Rightarrow> change_batch_dependency \<Rightarrow> uuid \<Rightarrow> sync_store \<Rightarrow> error + sync_store" where
  "commit_r3_change_dependency L batch d evidence s =
     (if is_nil batch \<or> is_nil (dep_operation_id d) \<or> is_nil evidence then Inl InvalidStateTransition
      else and_then (active_batch batch s) (\<lambda>_.
      and_then (ok_or (find_batch_mutation s batch (uuid_to_string L (dep_operation_id d))) UnknownMutation) (\<lambda>row.
      if bm_dependency_kind row \<noteq> Typed (dep_kind d) \<or> bm_operation_id row \<noteq> Some (dep_operation_id d)
      then Inl MutationCollision
      else and_then (ok_or (load_mutation_kind (ss_ledger s) (dep_operation_id d)) MutationNotFound) (\<lambda>kind.
      if kind \<noteq> required_operation_kind (dep_kind d) then Inl MutationCollision
      else and_then (case bm_state row of
          LocalCommitted \<Rightarrow> ensure (bm_committed_evidence_id row = Some evidence) MutationCollision
        | LocalPending \<Rightarrow> Inr ()
        | _ \<Rightarrow> Inl MutationNeedsReconcile) (\<lambda>_.
      and_then (require_exact_r3_completion_evidence s (dep_operation_id d) evidence) (\<lambda>_.
      if bm_state row = LocalCommitted then Inr s
      else
        let hit = (\<lambda>m. bm_batch_id m = batch \<and> bm_mutation_id m = uuid_to_string L (dep_operation_id d)
              \<and> bm_dependency_kind m = Typed (dep_kind d) \<and> bm_operation_id m = Some (dep_operation_id d)
              \<and> bm_state m = LocalPending \<and> bm_committed_evidence_id m = None) in
        if count_where hit (ss_batch_mutations s) \<noteq> 1 then Inl MutationStateVersionMismatch
        else if load_evidence (ss_ledger s) evidence = None then Inl constraint_failed
        else Inr (s\<lparr>ss_batch_mutations := update_where hit (\<lambda>m. m\<lparr>bm_state := LocalCommitted,
          bm_committed_evidence_id := Some evidence\<rparr>) (ss_batch_mutations s)\<rparr>)))))))"

text \<open>The left joins on \<open>mutation_intents\<close>, \<open>mutation_state\<close> and \<open>mutation_verification_evidence\<close>.\<close>

definition r3_incomplete :: "sync_store \<Rightarrow> batch_mutation \<Rightarrow> bool" where
  "r3_incomplete s m =
     (let g = ss_ledger s;
          intent = Option.bind (bm_operation_id m) (load_intent g);
          st = Option.bind (bm_operation_id m) (load_mutation_state g);
          evidence = Option.bind (bm_committed_evidence_id m) (load_evidence g) in
      sql_any
        [Some (bm_dependency_kind m = LegacyV3),
         is_null (bm_operation_id m),
         is_null (bm_committed_evidence_id m),
         Some (bm_state m \<noteq> LocalCommitted),
         is_null intent,
         (case bm_dependency_kind m of
            LegacyV3 \<Rightarrow> Some False
          | Typed k \<Rightarrow> sql_ne (map_option mi_operation_kind intent) (Some (required_operation_kind k))),
         sql_ne (map_option st_phase st) (Some Completed),
         sql_ne (Option.bind st st_disposition) (Some VerifiedApplied),
         sql_ne (Option.bind st st_last_evidence_id) (bm_committed_evidence_id m),
         sql_ne (map_option ev_operation_id evidence) (bm_operation_id m),
         sql_ne (map_option ev_capture_phase evidence) (Some PostVerify),
         sql_ne (map_option ev_disposition evidence) (Some VerifiedApplied),
         sql_ne (map_option ev_forbidden_side_effect evidence) (Some False),
         Some (\<not> is_some_and st (\<lambda>x. is_some_and (bm_operation_id m) (\<lambda>op.
           is_some_and (bm_committed_evidence_id m) (\<lambda>ev.
             list_ex (\<lambda>e. me_operation_id e = op \<and> me_evidence_id e = Some ev
               \<and> me_attempt_number e = st_attempt_number x \<and> me_state_version e = st_state_version x
               \<and> me_phase e = Completed \<and> me_disposition e = Some VerifiedApplied
               \<and> me_outcome_code e = st_outcome_code x) (lg_events g)))))])"

definition commit_r3_change_batch :: "libs \<Rightarrow> uuid \<Rightarrow> u64 \<Rightarrow> sync_store \<Rightarrow> error + sync_store" where
  "commit_r3_change_batch L batch now s =
     and_then (u64_to_i64 now) (\<lambda>_.
     and_then (active_batch batch s) (\<lambda>b.
     if legacy_v3_dependency_count s batch \<noteq> 0 \<or> transfer_backed_mutation_count L s batch \<noteq> 0
     then Inl InvalidStateTransition
     else if count_where (r3_incomplete s) (batch_rows s batch) \<noteq> 0 then Inl LocalMutationIncomplete
     else advance_cursor b now s))"

section \<open>Recovery\<close>

text \<open>\<open>recover_interrupted_jobs\<close>, run when the store is opened.\<close>

definition recover_interrupted_jobs :: "libs \<Rightarrow> (uuid \<Rightarrow> uuid) \<Rightarrow> sync_store \<Rightarrow> error + sync_store" where
  "recover_interrupted_jobs L fresh s =
     (let s1 = recover_transfers (recover_jobs s) in
      and_then (recover_interrupted_mutations L fresh (ss_ledger s1)) (\<lambda>g. Inr (s1\<lparr>ss_ledger := g\<rparr>)))"

end
