(* ===== verification/Store_Steps.thy ===== *)
theory Store_Steps
  imports Sync_Scan Change_Batches Ledger_Lifecycle
begin

text \<open>
  Every committed call on the store as one step, what each call can change, and the invariant of the
  whole database: the mutation ledger, the scan, the jobs and transfers with their histories, and the
  cursor batch.
\<close>

section \<open>Steps\<close>

inductive store_step :: "libs \<Rightarrow> sync_store \<Rightarrow> sync_store \<Rightarrow> bool" for L where
  bind: "binding_valid b \<Longrightarrow> bind_remote_root b now s = Inr (out, s') \<Longrightarrow> store_step L s s'"
| begin_scan: "begin_initial_scan token now s = Inr s' \<Longrightarrow> store_step L s s'"
| scan_page: "apply_scan_page L expected page now s = Inr s' \<Longrightarrow> store_step L s s'"
| changes_page: "apply_changes_page L cursor cpage now s = Inr s' \<Longrightarrow> store_step L s s'"
| rescan: "mark_rescan_required now s = Inr s' \<Longrightarrow> store_step L s s'"
| enqueue: "queue_job_new L op kind path dest file revision created = Inr job \<Longrightarrow> enqueue_job L job s = Inr (eo, s')
    \<Longrightarrow> store_step L s s'"
| claim_job: "claim_next_job L now s = Inr (oj, s') \<Longrightarrow> store_step L s s'"
| retry_job: "schedule_retry op at code s = Inr s' \<Longrightarrow> store_step L s s'"
| complete_job: "complete_verified_job L op code at s = Inr s' \<Longrightarrow> store_step L s s'"
| register: "register_transfer L t s = Inr (ro, s') \<Longrightarrow> store_step L s s'"
| claim_transfer: "claim_next_transfer L now s = Inr (ot, s') \<Longrightarrow> store_step L s s'"
| retry_transfer: "schedule_transfer_retry L op at code now s = Inr s' \<Longrightarrow> store_step L s s'"
| pause: "pause_transfer_offline L op at code now s = Inr s' \<Longrightarrow> store_step L s s'"
| stop: "mark_transfer_stopped L op target code now s = Inr s' \<Longrightarrow> store_step L s s'"
| resume: "resume_auth_required_transfers now s = Inr (n, s') \<Longrightarrow> store_step L s s'"
| requeue: "requeue_transfer_for_reconciliation L op now s = Inr s' \<Longrightarrow> store_step L s s'"
| publish_base: "publish_transfer_base_reference L op base now s = Inr s' \<Longrightarrow> store_step L s s'"
| complete_transfer: "complete_verified_transfer L op c s = Inr (co, s') \<Longrightarrow> store_step L s s'"
| begin_batch: "begin_change_batch batch cur nxt ids s = Inr s' \<Longrightarrow> store_step L s s'"
| begin_transfer_batch: "begin_transfer_change_batch L batch cur nxt changes downloads s = Inr s' \<Longrightarrow> store_step L s s'"
| begin_r3_batch: "begin_r3_change_batch L batch cur nxt deps s = Inr s' \<Longrightarrow> store_step L s s'"
| begin_local: "begin_local_mutation L batch mutation s = Inr s' \<Longrightarrow> store_step L s s'"
| commit_local: "mark_local_mutation_committed L batch mutation s = Inr s' \<Longrightarrow> store_step L s s'"
| reset_local: "reset_local_mutation_after_verified_absence batch mutation s = Inr s' \<Longrightarrow> store_step L s s'"
| begin_publish: "begin_transfer_local_publish L op now s = Inr s' \<Longrightarrow> store_step L s s'"
| commit_dependency: "commit_r3_change_dependency L batch d ev s = Inr s' \<Longrightarrow> store_step L s s'"
| commit_batch: "commit_change_batch L batch now s = Inr s' \<Longrightarrow> store_step L s s'"
| commit_transfer_batch: "commit_transfer_change_batch L batch now s = Inr s' \<Longrightarrow> store_step L s s'"
| commit_r3_batch: "commit_r3_change_batch L batch now s = Inr s' \<Longrightarrow> store_step L s s'"
| abort: "abort_change_batch L batch s = Inr s' \<Longrightarrow> store_step L s s'"
| ledger: "ledger_step L (ss_ledger s) g \<Longrightarrow> store_step L s (s\<lparr>ss_ledger := g\<rparr>)"
| recover: "recover_interrupted_jobs L fresh s = Inr s' \<Longrightarrow> store_step L s s'"

inductive store_reachable :: "libs \<Rightarrow> sync_store \<Rightarrow> bool" for L where
  start: "store_reachable L (empty_store vault)"
| step: "store_reachable L s \<Longrightarrow> store_step L s s' \<Longrightarrow> store_reachable L s'"

section \<open>Results\<close>

text \<open>An early return of an error, and of the unchanged store.\<close>

lemma if_results:
  "(if b then Inl e else r) = Inr x \<longleftrightarrow> \<not> b \<and> r = Inr x"
  "(if b then Inr y else r) = Inr x \<longleftrightarrow> b \<and> x = y \<or> \<not> b \<and> r = Inr x"
  by auto

section \<open>Tables with a history\<close>

text \<open>Rows with a key, and the keys of the finished ones in a history.\<close>

definition tracked :: "('r \<Rightarrow> 'k) \<Rightarrow> ('r \<Rightarrow> bool) \<Rightarrow> 'r list \<Rightarrow> 'k list \<Rightarrow> bool" where
  "tracked key fin rows hist = (distinct (map key rows) \<and> distinct hist
     \<and> set hist = key ` set (filter fin rows))"

lemma tracked_append:
  assumes "tracked key fin rows hist" "key r \<notin> key ` set rows" "\<not> fin r"
  shows "tracked key fin (rows @ [r]) hist"
  using assms by (auto simp: tracked_def)

lemma tracked_update:
  assumes "tracked key fin rows hist" "\<And>r. P r \<Longrightarrow> key (f r) = key r" "\<And>r. P r \<Longrightarrow> fin (f r) = fin r"
  shows "tracked key fin (update_where P f rows) hist"
proof -
  have "key ` set (filter fin (update_where P f rows)) = key ` set (filter fin rows)"
    by (induction rows) (simp_all add: assms(2, 3))
  then show ?thesis using assms(1) map_update_where [of P key f rows] assms(2) by (simp add: tracked_def)
qed

lemma tracked_finish:
  assumes "tracked key fin rows hist" "count_where P rows = 1" "k \<notin> set hist"
    and "\<And>r. P r \<Longrightarrow> key (f r) = key r \<and> fin (f r) \<and> key r = k"
  shows "tracked key fin (update_where P f rows) (hist @ [k])"
proof -
  have "key ` set (filter fin (update_where P f rows))
      = key ` set (filter fin rows) \<union> (if list_ex P rows then {k} else {})"
    by (induction rows) (auto simp: assms(4))
  moreover have "list_ex P rows" unfolding list_ex_iff by (rule count_where_1 [OF assms(2)]) blast
  ultimately show ?thesis using assms map_update_where [of P key f rows] by (simp add: tracked_def)
qed

section \<open>Jobs\<close>

definition job_fin :: "queue_job \<Rightarrow> bool" where "job_fin j = (jb_state j = JobCompleted)"

definition jobs_inv :: "sync_store \<Rightarrow> bool" where
  "jobs_inv s = tracked jb_operation_id job_fin (ss_jobs s) (map hi_operation_id (ss_job_history s))"

lemma enqueue_job_Inr:
  assumes "enqueue_job L job s = Inr (eo, s')"
  shows "s' = s \<or> find_job s (jb_operation_id job) = None \<and> s' = s\<lparr>ss_jobs := ss_jobs s @ [job]\<rparr>"
  using assms
  by (auto simp: enqueue_job_def insert_job_def split: option.split_asm if_split_asm)

lemma claim_next_job_Inr:
  assumes "claim_next_job L now s = Inr (oj, s')"
  shows "s' = s \<or> (\<exists>op. s' = s\<lparr>ss_jobs := update_where (\<lambda>r. jb_operation_id r = op
      \<and> jb_state r \<in> set [JobPending, JobRetryScheduled]) (\<lambda>r. r\<lparr>jb_state := JobRunning\<rparr>) (ss_jobs s)\<rparr>)"
  using assms
  by (auto simp: claim_next_job_def Let_def split: list.split_asm if_split_asm)

lemma schedule_retry_Inr:
  assumes "schedule_retry op at code s = Inr s'"
  shows "s' = s\<lparr>ss_jobs := update_where (\<lambda>r. jb_operation_id r = op \<and> jb_state r \<in> set [JobRunning, JobNeedsReconcile])
     (\<lambda>r. r\<lparr>jb_state := JobRetryScheduled, jb_attempt_count := jb_attempt_count r + 1,
        jb_next_attempt_at_unix_ms := at, jb_last_error_code := Some code\<rparr>) (ss_jobs s)\<rparr>"
  using assms by (auto simp: schedule_retry_def Let_def split: if_split_asm)

lemma complete_verified_job_Inr:
  assumes "complete_verified_job L op code at s = Inr s'"
  defines "hit \<equiv> \<lambda>r. jb_operation_id r = op \<and> jb_state r \<in> set [JobRunning, JobNeedsReconcile]"
  shows "s' = s\<lparr>ss_job_history := ss_job_history s @ [\<lparr>hi_operation_id = op, hi_outcome_code = code,
              hi_occurred_at_unix_ms = at\<rparr>],
            ss_jobs := update_where hit (\<lambda>r. r\<lparr>jb_state := JobCompleted,
              jb_next_attempt_at_unix_ms := at, jb_last_error_code := None\<rparr>) (ss_jobs s)\<rparr>"
    "count_where hit (ss_jobs s) = 1" "op \<notin> set (map hi_operation_id (ss_job_history s))"
  using assms by (auto simp: complete_verified_job_def Let_def list_ex_iff split: if_split_asm)

lemma jobs_inv_cong: "ss_jobs s' = ss_jobs s \<Longrightarrow> ss_job_history s' = ss_job_history s \<Longrightarrow> jobs_inv s' = jobs_inv s"
  by (simp add: jobs_inv_def)

lemma jobs_inv_update:
  assumes "jobs_inv s" "\<And>r. P r \<Longrightarrow> jb_operation_id (f r) = jb_operation_id r" "\<And>r. P r \<Longrightarrow> job_fin (f r) = job_fin r"
  shows "jobs_inv (s\<lparr>ss_jobs := update_where P f (ss_jobs s)\<rparr>)"
  using assms tracked_update [of jb_operation_id job_fin "ss_jobs s" _ P f] by (simp add: jobs_inv_def)

lemma job_steps_inv:
  assumes "jobs_inv s"
  shows "queue_job_new L op kind path dest fid revision created = Inr job \<Longrightarrow> enqueue_job L job s = Inr (eo, s') \<Longrightarrow> jobs_inv s'"
    "claim_next_job L now s = Inr (oj, s') \<Longrightarrow> jobs_inv s'"
    "schedule_retry op at code s = Inr s' \<Longrightarrow> jobs_inv s'"
    "complete_verified_job L op code at s = Inr s' \<Longrightarrow> jobs_inv s'"
    "jobs_inv (recover_jobs s)"
proof -
  show "jobs_inv s'" if new: "queue_job_new L op kind path dest fid revision created = Inr job"
      and enq: "enqueue_job L job s = Inr (eo, s')"
  proof -
    have "\<not> job_fin job" using new by (auto simp: queue_job_new_def job_fin_def Let_def)
    moreover have "find_job s (jb_operation_id job) = None \<Longrightarrow> jb_operation_id job \<notin> jb_operation_id ` set (ss_jobs s)"
      by (auto simp: find_job_def find_None_iff)
    ultimately show ?thesis
      using enqueue_job_Inr [OF enq] assms by (auto simp: jobs_inv_def intro: tracked_append)
  qed
  show "jobs_inv s'" if "claim_next_job L now s = Inr (oj, s')"
    using claim_next_job_Inr [OF that] assms by (auto simp: job_fin_def intro!: jobs_inv_update)
  show "jobs_inv s'" if "schedule_retry op at code s = Inr s'"
    unfolding schedule_retry_Inr [OF that] using assms by (auto simp: job_fin_def intro!: jobs_inv_update)
  show "jobs_inv s'" if "complete_verified_job L op code at s = Inr s'"
    unfolding complete_verified_job_Inr(1) [OF that] jobs_inv_def
    using assms complete_verified_job_Inr(2, 3) [OF that] by (auto simp: jobs_inv_def job_fin_def intro!: tracked_finish)
  show "jobs_inv (recover_jobs s)"
    unfolding recover_jobs_def using assms by (auto simp: job_fin_def intro!: jobs_inv_update)
qed

section \<open>Transfers\<close>

definition transfer_fin :: "transfer_record \<Rightarrow> bool" where "transfer_fin t = (tr_phase t = TransferCompleted)"

definition transfers_inv :: "sync_store \<Rightarrow> bool" where
  "transfers_inv s = (tracked tr_operation_id transfer_fin (ss_transfers s) (map hi_operation_id (ss_transfer_history s))
     \<and> distinct (map tr_operation_marker (ss_transfers s)))"

lemma require_transfer_find: "require_transfer L s op = Inr t \<Longrightarrow> find_transfer s op = Some t"
  by (auto simp: require_transfer_def load_transfer_def row_to_transfer_def ok_or_def split: option.split_asm)

text \<open>
  A row after a call: what it was registered with is as before, and its remote file and its base
  reference, which may be absent at first, are never replaced once they are there.
\<close>

definition transfer_kept :: "transfer_record \<Rightarrow> transfer_record \<Rightarrow> bool" where
  "transfer_kept t t' = (tr_operation_id t' = tr_operation_id t \<and> tr_direction t' = tr_direction t
     \<and> tr_portable_path t' = tr_portable_path t \<and> tr_remote_parent_id t' = tr_remote_parent_id t
     \<and> tr_display_name t' = tr_display_name t \<and> tr_expected_local_revision t' = tr_expected_local_revision t
     \<and> tr_expected_remote_revision t' = tr_expected_remote_revision t \<and> tr_sha256 t' = tr_sha256 t
     \<and> tr_byte_length t' = tr_byte_length t \<and> tr_mime_class t' = tr_mime_class t
     \<and> tr_operation_marker t' = tr_operation_marker t \<and> tr_stage_reference t' = tr_stage_reference t
     \<and> tr_created_at_unix_ms t' = tr_created_at_unix_ms t
     \<and> (tr_remote_file_id t \<noteq> None \<longrightarrow> tr_remote_file_id t' = tr_remote_file_id t)
     \<and> (tr_base_reference t \<noteq> None \<longrightarrow> tr_base_reference t' = tr_base_reference t))"

lemma transfer_kept_refl [simp]: "transfer_kept t t"
  by (simp add: transfer_kept_def)

text \<open>
  What a call may do to the phase of a transfer: the contract of the queue, with the phases a claim,
  a pause, a stop, a resumption and recovery lead to.
\<close>

inductive phase_step :: "transfer_phase \<Rightarrow> transfer_phase \<Rightarrow> bool" where
  claim: "p \<in> {TransferPending, TransferRetryScheduled} \<Longrightarrow> phase_step p TransferRunning"
| retry: "p \<in> {TransferRunning, TransferAuthRequired, TransferNeedsReconcile} \<Longrightarrow> phase_step p TransferRetryScheduled"
| auth: "phase_step TransferRunning TransferAuthRequired"
| reconcile: "phase_step TransferRunning TransferNeedsReconcile"
| complete: "p \<in> {TransferRunning, TransferNeedsReconcile} \<Longrightarrow> phase_step p TransferCompleted"

inductive_simps phase_step_from [simp]: "phase_step p q"

text \<open>A completed row holds the revisions that were verified, and they are the ones it expected.\<close>

definition transfer_verified :: "transfer_record \<Rightarrow> bool" where
  "transfer_verified t = (tr_remote_file_id t \<noteq> None \<and> tr_base_reference t \<noteq> None
     \<and> tr_verified_local_revision t \<noteq> None \<and> tr_verified_remote_revision t \<noteq> None
     \<and> (tr_expected_remote_revision t \<noteq> None \<longrightarrow> tr_verified_remote_revision t = tr_expected_remote_revision t)
     \<and> (tr_direction t = TransferUpload \<and> tr_expected_local_revision t \<noteq> None \<longrightarrow>
          tr_verified_local_revision t = tr_expected_local_revision t))"

text \<open>One row follows the contract, completes with what it expected, and nothing leaves \<open>Completed\<close>.\<close>

definition row_step :: "transfer_record \<Rightarrow> transfer_record \<Rightarrow> bool" where
  "row_step t t' = (t' = t \<or> transfer_kept t t' \<and> tr_phase t \<noteq> TransferCompleted
     \<and> (tr_phase t' = tr_phase t \<or> phase_step (tr_phase t) (tr_phase t'))
     \<and> (tr_phase t' = TransferCompleted \<longrightarrow> transfer_verified t'))"

lemma row_step_key: "row_step t t' \<Longrightarrow> tr_operation_id t' = tr_operation_id t \<and> tr_operation_marker t' = tr_operation_marker t"
  by (auto simp: row_step_def transfer_kept_def)

lemma row_step_refl [simp]: "row_step t t"
  by (simp add: row_step_def)

lemma update_transfer_Inr:
  assumes "update_transfer op phases extra f s = Inr s'"
  shows "s' = s\<lparr>ss_transfers := update_where (\<lambda>t. tr_operation_id t = op \<and> tr_phase t \<in> set phases \<and> extra t) f (ss_transfers s)\<rparr>"
    "count_where (\<lambda>t. tr_operation_id t = op \<and> tr_phase t \<in> set phases \<and> extra t) (ss_transfers s) = 1"
  using assms by (auto simp: update_transfer_def Let_def split: if_split_asm)

text \<open>A call that changes transfers only: rows move by their contract, and at most new ones appear.\<close>

definition transfers_move :: "sync_store \<Rightarrow> sync_store \<Rightarrow> bool" where
  "transfers_move s s' = (\<exists>P f. s' = s\<lparr>ss_transfers := update_where P f (ss_transfers s)\<rparr>
     \<and> (\<forall>t. P t \<longrightarrow> row_step t (f t) \<and> transfer_fin (f t) = transfer_fin t))"

lemma transfers_moveI:
  assumes "s' = s\<lparr>ss_transfers := update_where P f (ss_transfers s)\<rparr>"
    and "\<And>t. P t \<Longrightarrow> row_step t (f t) \<and> transfer_fin (f t) = transfer_fin t"
  shows "transfers_move s s'"
  using assms unfolding transfers_move_def by blast

lemma transfers_move_refl [simp]: "transfers_move s s"
  by (rule transfers_moveI [where P = "\<lambda>_. False" and f = id]) (simp_all add: update_where_def)

lemma transfers_move_inv:
  assumes "transfers_move s s'" "transfers_inv s"
  shows "transfers_inv s'"
proof -
  obtain P f where s': "s' = s\<lparr>ss_transfers := update_where P f (ss_transfers s)\<rparr>"
    and kept: "\<And>t. P t \<Longrightarrow> row_step t (f t) \<and> transfer_fin (f t) = transfer_fin t"
    using assms(1) unfolding transfers_move_def by blast
  have "\<And>t. P t \<Longrightarrow> tr_operation_id (f t) = tr_operation_id t \<and> tr_operation_marker (f t) = tr_operation_marker t"
    using kept row_step_key by blast
  then show ?thesis
    using assms(2) kept by (auto simp: s' transfers_inv_def map_update_where intro!: tracked_update)
qed

lemma update_transfer_move:
  assumes "update_transfer op phases extra f s = Inr s'"
    and "\<And>t. tr_phase t \<in> set phases \<Longrightarrow> extra t \<Longrightarrow> row_step t (f t) \<and> transfer_fin (f t) = transfer_fin t"
  shows "transfers_move s s'"
  using update_transfer_Inr(1) [OF assms(1)] by (rule transfers_moveI) (use assms(2) in blast)

lemmas row_step_simps = row_step_def transfer_kept_def transfer_fin_def

lemma retry_row_step:
  assumes "tr_phase t \<in> set [TransferRunning, TransferAuthRequired, TransferNeedsReconcile]"
  shows "row_step t (t\<lparr>tr_phase := TransferRetryScheduled, tr_attempt_count := a, tr_next_attempt_at_unix_ms := n,
      tr_updated_at_unix_ms := u, tr_last_error_code := e\<rparr>)
    \<and> transfer_fin (t\<lparr>tr_phase := TransferRetryScheduled, tr_attempt_count := a, tr_next_attempt_at_unix_ms := n,
      tr_updated_at_unix_ms := u, tr_last_error_code := e\<rparr>) = transfer_fin t"
  using assms by (auto simp: row_step_simps)

lemma claim_row_step:
  assumes "tr_phase t \<in> set [TransferPending, TransferRetryScheduled]"
  shows "row_step t (t\<lparr>tr_phase := TransferRunning, tr_updated_at_unix_ms := u\<rparr>)
    \<and> transfer_fin (t\<lparr>tr_phase := TransferRunning, tr_updated_at_unix_ms := u\<rparr>) = transfer_fin t"
  using assms by (auto simp: row_step_simps)

lemma pause_row_step:
  assumes "tr_phase t \<in> set [TransferRunning]"
  shows "row_step t (t\<lparr>tr_phase := TransferRetryScheduled, tr_next_attempt_at_unix_ms := n,
      tr_updated_at_unix_ms := u, tr_last_error_code := e\<rparr>)
    \<and> transfer_fin (t\<lparr>tr_phase := TransferRetryScheduled, tr_next_attempt_at_unix_ms := n,
      tr_updated_at_unix_ms := u, tr_last_error_code := e\<rparr>) = transfer_fin t"
  using assms by (auto simp: row_step_simps)

lemma stop_row_step:
  assumes "tr_phase t \<in> set [TransferRunning]" "target \<in> set [TransferAuthRequired, TransferNeedsReconcile]"
  shows "row_step t (t\<lparr>tr_phase := target, tr_updated_at_unix_ms := u, tr_last_error_code := e\<rparr>)
    \<and> transfer_fin (t\<lparr>tr_phase := target, tr_updated_at_unix_ms := u, tr_last_error_code := e\<rparr>) = transfer_fin t"
  using assms by (auto simp: row_step_simps)

lemma base_row_step:
  assumes "tr_phase t \<in> set [TransferRunning, TransferNeedsReconcile]" "tr_base_reference t = None"
  shows "row_step t (t\<lparr>tr_base_reference := b, tr_updated_at_unix_ms := u\<rparr>)
    \<and> transfer_fin (t\<lparr>tr_base_reference := b, tr_updated_at_unix_ms := u\<rparr>) = transfer_fin t"
  using assms by (auto simp: row_step_simps)

lemma transfer_moves:
  "claim_next_transfer L now s = Inr (ot, s') \<Longrightarrow> transfers_move s s'"
  "schedule_transfer_retry L op at code now s = Inr s' \<Longrightarrow> transfers_move s s'"
  "pause_transfer_offline L op at code now s = Inr s' \<Longrightarrow> transfers_move s s'"
  "mark_transfer_stopped L op target code now s = Inr s' \<Longrightarrow> transfers_move s s'"
  "resume_auth_required_transfers now s = Inr (n, s') \<Longrightarrow> transfers_move s s'"
  "requeue_transfer_for_reconciliation L op now s = Inr s' \<Longrightarrow> transfers_move s s'"
  "publish_transfer_base_reference L op base now s = Inr s' \<Longrightarrow> transfers_move s s'"
  "transfers_move s (recover_transfers s)"
proof -
  show "transfers_move s s'" if "claim_next_transfer L now s = Inr (ot, s')"
    using that unfolding claim_next_transfer_def Let_def and_then_eq_Inr
    by (elim exE conjE) (simp split: list.split_asm, elim exE conjE, hypsubst, erule update_transfer_move, rule claim_row_step, simp)
  show "transfers_move s s'" if "schedule_transfer_retry L op at code now s = Inr s'"
    using that unfolding schedule_transfer_retry_def if_results and_then_eq_Inr
    by (elim exE conjE disjE) (simp only: transfers_move_refl | erule update_transfer_move, rule retry_row_step, assumption)+
  show "transfers_move s s'" if "pause_transfer_offline L op at code now s = Inr s'"
    using that unfolding pause_transfer_offline_def if_results and_then_eq_Inr
    by (elim exE conjE disjE) (simp only: transfers_move_refl | erule update_transfer_move, rule pause_row_step, assumption)+
  show "transfers_move s s'" if "mark_transfer_stopped L op target code now s = Inr s'"
    using that unfolding mark_transfer_stopped_def if_results and_then_eq_Inr
    by (elim exE conjE disjE) (simp only: transfers_move_refl | erule update_transfer_move, rule stop_row_step, assumption, blast)+
  show "transfers_move s s'" if "resume_auth_required_transfers now s = Inr (n, s')"
    using that by (auto simp: resume_auth_required_transfers_def Let_def row_step_simps intro!: transfers_moveI [OF refl])
  show "transfers_move s s'" if "requeue_transfer_for_reconciliation L op now s = Inr s'"
    using that unfolding requeue_transfer_for_reconciliation_def if_results and_then_eq_Inr
    by (elim exE conjE disjE) (simp only: transfers_move_refl | erule update_transfer_move, rule retry_row_step, simp only: list.set insert_iff simp_thms)+
  show "transfers_move s s'" if "publish_transfer_base_reference L op base now s = Inr s'"
    using that unfolding publish_transfer_base_reference_def if_results and_then_eq_Inr
    by (elim exE conjE disjE) (simp only: transfers_move_refl | erule update_transfer_move, rule base_row_step, assumption+)+
  show "transfers_move s (recover_transfers s)"
    unfolding recover_transfers_def by (rule transfers_moveI [OF refl]) (auto simp: row_step_simps)
qed

lemma register_transfer_Inr:
  assumes "register_transfer L t s = Inr (ro, s')"
  shows "s' = s \<or> s' = s\<lparr>ss_transfers := ss_transfers s @ [t]\<rparr> \<and> find_transfer s (tr_operation_id t) = None
    \<and> \<not> marker_owned s (tr_operation_marker t) \<and> tr_phase t = TransferPending"
  using assms
  by (auto simp: register_transfer_def insert_transfer_def validate_new_transfer_def split: option.split_asm if_split_asm)

lemma transfers_inv_append:
  assumes "transfers_inv s" "find_transfer s (tr_operation_id t) = None" "\<not> marker_owned s (tr_operation_marker t)"
    "tr_phase t = TransferPending"
  shows "transfers_inv (s\<lparr>ss_transfers := ss_transfers s @ [t]\<rparr>)"
  using assms
  by (auto simp: transfers_inv_def find_transfer_def find_None_iff marker_owned_def list_ex_iff transfer_fin_def intro!: tracked_append)

section \<open>Completed transfers\<close>

lemma update_remote_base_Inr:
  assumes "update_remote_base_if_present t c s = Inr s'"
  obtains rs where "s' = s\<lparr>ss_remote_entries := rs\<rparr>"
    "rs = ss_remote_entries s \<or> rs = update_where (base_target t c) (\<lambda>r. r\<lparr>rr_base := Some
          \<lparr>rb_local_revision = tc_local_revision c, rb_remote_revision = tc_remote_revision c,
           rb_content_hash = tr_sha256 t, rb_byte_length = tr_byte_length t\<rparr>\<rparr>) (ss_remote_entries s)"
proof (cases "find_remote s (tc_remote_file_id c) = None")
  case True
  then have "s' = s\<lparr>ss_remote_entries := ss_remote_entries s\<rparr>" using assms by (simp add: update_remote_base_if_present_def)
  then show thesis by (rule that) simp
next
  case False
  then have "s' = s\<lparr>ss_remote_entries := update_where (base_target t c) (\<lambda>r. r\<lparr>rr_base := Some
          \<lparr>rb_local_revision = tc_local_revision c, rb_remote_revision = tc_remote_revision c,
           rb_content_hash = tr_sha256 t, rb_byte_length = tr_byte_length t\<rparr>\<rparr>) (ss_remote_entries s)\<rparr>"
    using assms by (auto simp: update_remote_base_if_present_def split: if_split_asm)
  then show thesis by (rule that) simp
qed

definition commit_hit :: "sync_store \<Rightarrow> string \<Rightarrow> batch_mutation \<Rightarrow> bool" where
  "commit_hit s mutation m = (bm_mutation_id m = mutation \<and> bm_state m = LocalApplying
     \<and> is_some_and (ss_batch s) (\<lambda>b. bm_batch_id m = br_batch_id b))"

lemma commit_transfer_mutation_Inr:
  assumes "commit_transfer_mutation mutation s = Inr s'"
  shows "s' = s\<lparr>ss_batch_mutations := update_where (commit_hit s mutation) (\<lambda>m. m\<lparr>bm_state := LocalCommitted\<rparr>) (ss_batch_mutations s)\<rparr>"
  using assms by (simp add: commit_transfer_mutation_def Let_def if_results commit_hit_def [abs_def])

definition done_hit :: "uuid \<Rightarrow> transfer_record \<Rightarrow> bool" where
  "done_hit op t = (tr_operation_id t = op \<and> tr_phase t \<in> {TransferRunning, TransferNeedsReconcile})"

lemma complete_verified_transfer_Inr:
  assumes r: "complete_verified_transfer L op c s = Inr (co, s')"
  obtains (same) t where "s' = s" "require_transfer L s op = Inr t" "tr_phase t = TransferCompleted"
  | (completed) t rs ms where
    "require_transfer L s op = Inr t" "\<not> completion_rejected t c" "completion_validate c = Inr ()"
    "s' = s\<lparr>ss_transfer_history := ss_transfer_history s @ [\<lparr>hi_operation_id = op,
        hi_outcome_code = tc_outcome_code c, hi_occurred_at_unix_ms = tc_occurred_at_unix_ms c\<rparr>],
      ss_transfers := update_where (done_hit op) (completed_transfer c) (ss_transfers s),
      ss_remote_entries := rs, ss_batch_mutations := ms\<rparr>"
    "count_where (done_hit op) (ss_transfers s) = 1" "op \<notin> set (map hi_operation_id (ss_transfer_history s))"
    "rs = ss_remote_entries s \<or> rs = update_where (base_target t c) (\<lambda>r. r\<lparr>rr_base := Some
          \<lparr>rb_local_revision = tc_local_revision c, rb_remote_revision = tc_remote_revision c,
           rb_content_hash = tr_sha256 t, rb_byte_length = tr_byte_length t\<rparr>\<rparr>) (ss_remote_entries s)"
    "ms = ss_batch_mutations s \<or> ms = update_where (commit_hit s (transfer_mutation_id L op))
       (\<lambda>m. m\<lparr>bm_state := LocalCommitted\<rparr>) (ss_batch_mutations s)"
proof -
  let ?finish = "\<lambda>t mst. and_then (u64_to_i64 (tc_occurred_at_unix_ms c)) (\<lambda>_.
        and_then (insert_transfer_history op (tc_outcome_code c) (tc_occurred_at_unix_ms c) s) (\<lambda>s1.
        and_then (update_transfer op [TransferRunning, TransferNeedsReconcile] (\<lambda>_. True) (completed_transfer c) s1) (\<lambda>s2.
        and_then (update_remote_base_if_present t c s2) (\<lambda>s3.
        and_then (if mst = Some LocalApplying
            then commit_transfer_mutation (transfer_mutation_id L op) s3 else Inr s3) (\<lambda>s4.
        Inr (CompletionCompleted, s4))))))"
  from r obtain t mst where t: "require_transfer L s op = Inr t" "completion_validate c = Inr ()"
    and body: "(if tr_phase t = TransferCompleted then
        (if same_completion s t c \<and> is_none_or mst (\<lambda>m. m = LocalCommitted)
         then Inr (CompletionAlreadyCompleted, s) else Inl TransferCollision)
      else if completion_rejected t c then Inl InvalidStateTransition
      else if mst \<noteq> None \<and> tr_direction t \<noteq> TransferDownload then Inl TransferChangeMismatch
      else if is_some_and mst (\<lambda>m. m \<noteq> LocalApplying) then Inl InvalidStateTransition
      else ?finish t mst) = Inr (co, s')"
    unfolding complete_verified_transfer_def if_results(1) and_then_eq_Inr [of "completion_validate c"]
      and_then_eq_Inr [of "require_transfer L s op"] and_then_eq_Inr [of "active_transfer_mutation_state _ _"] by auto
  obtain fin where fin: "?finish t mst = fin" by blast
  have cases: "s' = s \<and> tr_phase t = TransferCompleted \<or> \<not> completion_rejected t c \<and> fin = Inr (co, s')"
    using body unfolding fin by (simp split: if_split_asm)
  show thesis
  proof (cases "s' = s \<and> tr_phase t = TransferCompleted")
    case True
    then show thesis using same [OF _ t(1)] by blast
  next
    case False
    then obtain s1 s2 s3 where ok: "\<not> completion_rejected t c"
      and h: "insert_transfer_history op (tc_outcome_code c) (tc_occurred_at_unix_ms c) s = Inr s1"
      and u: "update_transfer op [TransferRunning, TransferNeedsReconcile] (\<lambda>_. True) (completed_transfer c) s1 = Inr s2"
      and b: "update_remote_base_if_present t c s2 = Inr s3"
      and m: "(if mst = Some LocalApplying then commit_transfer_mutation (transfer_mutation_id L op) s3 else Inr s3) = Inr s'"
      using cases unfolding fin [symmetric] and_then_eq_Inr by blast
    have s1: "s1 = s\<lparr>ss_transfer_history := ss_transfer_history s @ [\<lparr>hi_operation_id = op,
        hi_outcome_code = tc_outcome_code c, hi_occurred_at_unix_ms = tc_occurred_at_unix_ms c\<rparr>]\<rparr>"
      "op \<notin> set (map hi_operation_id (ss_transfer_history s))"
      using h by (auto simp: insert_transfer_history_def if_results list_ex_iff)
    have hit: "(\<lambda>t. tr_operation_id t = op \<and> tr_phase t \<in> set [TransferRunning, TransferNeedsReconcile] \<and> True) = done_hit op"
      by (auto simp: done_hit_def)
    note s2 = update_transfer_Inr [OF u, unfolded hit]
    obtain rs where s3: "s3 = s2\<lparr>ss_remote_entries := rs\<rparr>"
      "rs = ss_remote_entries s2 \<or> rs = update_where (base_target t c) (\<lambda>r. r\<lparr>rr_base := Some
          \<lparr>rb_local_revision = tc_local_revision c, rb_remote_revision = tc_remote_revision c,
           rb_content_hash = tr_sha256 t, rb_byte_length = tr_byte_length t\<rparr>\<rparr>) (ss_remote_entries s2)"
      by (rule update_remote_base_Inr [OF b])
    have hits: "commit_hit s3 = commit_hit s" by (simp add: s3 s2 s1 commit_hit_def [abs_def])
    have "\<exists>ms. s' = s3\<lparr>ss_batch_mutations := ms\<rparr> \<and> (ms = ss_batch_mutations s3 \<or> ms = update_where
        (commit_hit s (transfer_mutation_id L op)) (\<lambda>m. m\<lparr>bm_state := LocalCommitted\<rparr>) (ss_batch_mutations s3))"
    proof (cases "mst = Some LocalApplying")
      case True
      then show ?thesis using m commit_transfer_mutation_Inr [of "transfer_mutation_id L op" s3 s'] by (auto simp: hits)
    next
      case False
      then show ?thesis using m by (intro exI [of _ "ss_batch_mutations s3"]) simp
    qed
    then obtain ms where s4: "s' = s3\<lparr>ss_batch_mutations := ms\<rparr>" "ms = ss_batch_mutations s3 \<or> ms = update_where
        (commit_hit s (transfer_mutation_id L op)) (\<lambda>m. m\<lparr>bm_state := LocalCommitted\<rparr>) (ss_batch_mutations s3)"
      by blast
    show thesis
      by (rule completed [OF t(1) ok t(2), where rs = rs and ms = ms]) (use s1 s2 s3 s4 in simp_all)
  qed
qed

lemma completed_keys: "done_hit op t \<Longrightarrow> transfer_fin (completed_transfer c t)
    \<and> tr_operation_id (completed_transfer c t) = tr_operation_id t \<and> tr_operation_id t = op
    \<and> tr_operation_marker (completed_transfer c t) = tr_operation_marker t"
  by (simp add: done_hit_def completed_transfer_def transfer_fin_def)

lemma completed_row_step:
  assumes "\<not> completion_rejected t c"
  shows "row_step t (completed_transfer c t)"
  using assms by (auto simp: completed_transfer_def completion_rejected_def transfer_verified_def row_step_simps)

lemma transfers_inv_complete:
  assumes "transfers_inv s" "count_where (done_hit op) (ss_transfers s) = 1"
    "op \<notin> set (map hi_operation_id (ss_transfer_history s))" "hi_operation_id h = op"
    "ss_transfers s' = update_where (done_hit op) (completed_transfer c) (ss_transfers s)"
    "ss_transfer_history s' = ss_transfer_history s @ [h]"
  shows "transfers_inv s'"
proof -
  have "tracked tr_operation_id transfer_fin (ss_transfers s') (map hi_operation_id (ss_transfer_history s) @ [op])"
    unfolding assms(5)
    by (rule tracked_finish [OF _ assms(2, 3)]) (use assms(1) completed_keys in \<open>auto simp: transfers_inv_def\<close>)
  moreover have "map tr_operation_marker (ss_transfers s') = map tr_operation_marker (ss_transfers s)"
    unfolding assms(5) by (rule map_update_where) (use completed_keys in blast)
  ultimately show ?thesis using assms(1, 4, 6) by (simp add: transfers_inv_def)
qed

section \<open>Batches\<close>

text \<open>A call that moves rows of the batch between states and nothing else.\<close>

definition rows_move :: "sync_store \<Rightarrow> sync_store \<Rightarrow> bool" where
  "rows_move s s' = (\<exists>P q. s' = s\<lparr>ss_batch_mutations := update_where P (\<lambda>m. m\<lparr>bm_state := q\<rparr>) (ss_batch_mutations s)\<rparr>)"

lemma move_mutation_Some:
  assumes "move_mutation batch mutation old new s = Some s'"
  shows "rows_move s s'"
  using assms by (auto simp: move_mutation_def rows_move_def Let_def split: if_split_asm)

lemma local_mutation_moves:
  "begin_local_mutation L batch mutation s = Inr s' \<Longrightarrow> rows_move s s'"
  "mark_local_mutation_committed L batch mutation s = Inr s' \<Longrightarrow> rows_move s s'"
  "reset_local_mutation_after_verified_absence batch mutation s = Inr s' \<Longrightarrow> rows_move s s'"
  by (auto simp: begin_local_mutation_def mark_local_mutation_committed_def
      reset_local_mutation_after_verified_absence_def dest!: move_mutation_Some
      split: if_split_asm option.split_asm local_mutation_state.split_asm)

lemma touch_row_step:
  assumes "tr_phase t \<in> set [TransferRunning, TransferNeedsReconcile]"
  shows "row_step t (t\<lparr>tr_updated_at_unix_ms := u\<rparr>)
    \<and> transfer_fin (t\<lparr>tr_updated_at_unix_ms := u\<rparr>) = transfer_fin t"
  using assms by (auto simp: row_step_simps)

lemma touch_moves:
  "update_transfer op [TransferRunning, TransferNeedsReconcile] p (\<lambda>t. t\<lparr>tr_updated_at_unix_ms := u\<rparr>) s = Inr s'
    \<Longrightarrow> transfers_move s s'"
  by (erule update_transfer_move) (rule touch_row_step)

lemma begin_transfer_local_publish_Inr:
  assumes "begin_transfer_local_publish L op now s = Inr s'"
  shows "s' = s \<or> (\<exists>s1. rows_move s s1 \<and> transfers_move s1 s')"
proof -
  obtain active :: change_batch and t :: transfer_record where "(let mutation = transfer_mutation_id L op in
      case move_mutation (cb_batch_id active) mutation LocalPending LocalApplying s of
        None \<Rightarrow>
          (case load_local_mutation_state s (cb_batch_id active) mutation of
             Some LocalApplying \<Rightarrow>
               if tr_last_error_code t = Some ''reconcile_requested'' then Inr s
               else Inl MutationNeedsReconcile
           | Some LocalNeedsReconcile \<Rightarrow> Inl MutationNeedsReconcile
           | Some LocalCommitted \<Rightarrow> Inl InvalidStateTransition
           | _ \<Rightarrow> Inl UnknownMutation)
      | Some s1 \<Rightarrow>
          update_transfer op [TransferRunning, TransferNeedsReconcile] (\<lambda>t. tr_updated_at_unix_ms t \<le> now)
            (\<lambda>t. t\<lparr>tr_updated_at_unix_ms := now\<rparr>) s1) = Inr s'"
    using assms unfolding begin_transfer_local_publish_def if_results(1) and_then_eq_Inr
    by blast
  then show ?thesis
    by (auto simp: Let_def dest!: move_mutation_Some split: option.split_asm local_mutation_state.split_asm if_split_asm)
      (use touch_moves in blast)
qed

lemma insert_batch_mutation_Inr:
  assumes "insert_batch_mutation m s = Inr s'"
  shows "s' = s\<lparr>ss_batch_mutations := ss_batch_mutations s @ [m]\<rparr>"
    "(bm_batch_id m, bm_mutation_id m) \<notin> (\<lambda>x. (bm_batch_id x, bm_mutation_id x)) ` set (ss_batch_mutations s)"
    "is_some_and (ss_batch s) (\<lambda>b. br_batch_id b = bm_batch_id m)"
  using assms by (auto simp: insert_batch_mutation_def list_ex_iff split: if_split_asm)

definition batch_key :: "batch_mutation \<Rightarrow> uuid \<times> string" where
  "batch_key m = (bm_batch_id m, bm_mutation_id m)"

lemma insert_batch_mutations_Inr:
  assumes "insert_batch_mutations ms s = Inr s'" "distinct (map batch_key (ss_batch_mutations s))"
  shows "s' = s\<lparr>ss_batch_mutations := ss_batch_mutations s @ ms\<rparr> \<and> distinct (map batch_key (ss_batch_mutations s @ ms))"
  using assms
proof (induction ms arbitrary: s)
  case (Cons m ms)
  then obtain s1 where s1: "insert_batch_mutation m s = Inr s1" "insert_batch_mutations ms s1 = Inr s'" by auto
  note i = insert_batch_mutation_Inr [OF s1(1)]
  have "distinct (map batch_key (ss_batch_mutations s1))"
    using Cons.prems(2) i(2) unfolding i(1) by (simp add: batch_key_def [abs_def])
  then show ?case using Cons.IH [OF s1(2)] i(1) by simp
qed simp

lemma insert_batch_Inr:
  "insert_batch batch expected nxt s = Inr s' \<Longrightarrow> ss_batch s = None
    \<and> s' = s\<lparr>ss_batch := Some \<lparr>br_batch_id = batch, br_expected_cursor = expected, br_next_cursor = nxt\<rparr>\<rparr>"
  by (auto simp: insert_batch_def split: if_split_asm)

lemma register_in_transaction_Inr:
  assumes "register_transfer_in_transaction L t s = Inr s'" "validate_new_transfer L t = Inr ()"
  shows "s' = s \<and> find_transfer s (tr_operation_id t) \<noteq> None
    \<or> s' = s\<lparr>ss_transfers := ss_transfers s @ [t]\<rparr> \<and> find_transfer s (tr_operation_id t) = None
      \<and> \<not> marker_owned s (tr_operation_marker t) \<and> tr_phase t = TransferPending"
  using assms
  by (auto simp: register_transfer_in_transaction_def insert_transfer_def validate_new_transfer_def load_transfer_def
      split: option.split_asm if_split_asm)

lemma register_downloads_Inr:
  assumes "register_downloads L batch ts s = Inr s'" "\<forall>t \<in> set ts. validate_new_transfer L t = Inr ()"
    and "transfers_inv s" "distinct (map batch_key (ss_batch_mutations s))"
  shows "\<exists>new. s' = s\<lparr>ss_transfers := ss_transfers s @ new, ss_batch_mutations := ss_batch_mutations s @
      map (\<lambda>t. legacy_row batch (transfer_mutation_id L (tr_operation_id t))) ts\<rparr>
    \<and> transfers_inv s' \<and> distinct (map batch_key (ss_batch_mutations s'))
    \<and> (\<forall>t \<in> set ts. find_transfer s' (tr_operation_id t) \<noteq> None)"
  using assms
proof (induction ts arbitrary: s)
  case Nil
  then show ?case by (intro exI [of _ "[]"]) simp
next
  case (Cons t ts)
  let ?row = "legacy_row batch (transfer_mutation_id L (tr_operation_id t))"
  obtain s1 s2 where s1: "register_transfer_in_transaction L t s = Inr s1"
    and s2: "insert_batch_mutation ?row s1 = Inr s2" "register_downloads L batch ts s2 = Inr s'"
    using Cons.prems(1) by auto
  have "\<exists>new. s1 = s\<lparr>ss_transfers := ss_transfers s @ new\<rparr> \<and> transfers_inv s1 \<and> find_transfer s1 (tr_operation_id t) \<noteq> None"
    using register_in_transaction_Inr [OF s1 bspec [OF Cons.prems(2) list.set_intros(1)]]
  proof (elim disjE)
    assume "s1 = s \<and> find_transfer s (tr_operation_id t) \<noteq> None"
    then show ?thesis using Cons.prems(3) by (intro exI [of _ "[]"]) simp
  next
    assume "s1 = s\<lparr>ss_transfers := ss_transfers s @ [t]\<rparr> \<and> find_transfer s (tr_operation_id t) = None
      \<and> \<not> marker_owned s (tr_operation_marker t) \<and> tr_phase t = TransferPending"
    then show ?thesis
      using transfers_inv_append [OF Cons.prems(3)] by (intro exI [of _ "[t]"]) (auto simp: find_transfer_def find_append split: option.splits)
  qed
  then obtain new where new: "s1 = s\<lparr>ss_transfers := ss_transfers s @ new\<rparr>" "transfers_inv s1"
    "find_transfer s1 (tr_operation_id t) \<noteq> None" by blast
  note i = insert_batch_mutation_Inr [OF s2(1)]
  have "distinct (map batch_key (ss_batch_mutations s2))" "transfers_inv s2"
    using Cons.prems(4) i(2) new(1, 2) unfolding i(1) by (simp_all add: batch_key_def [abs_def] transfers_inv_def)
  then obtain new2 where new2: "s' = s2\<lparr>ss_transfers := ss_transfers s2 @ new2, ss_batch_mutations := ss_batch_mutations s2 @
      map (\<lambda>t. legacy_row batch (transfer_mutation_id L (tr_operation_id t))) ts\<rparr>" "transfers_inv s'"
      "distinct (map batch_key (ss_batch_mutations s'))" "\<forall>t \<in> set ts. find_transfer s' (tr_operation_id t) \<noteq> None"
    using Cons.IH [OF s2(2)] Cons.prems(2) by auto
  have "find_transfer s' (tr_operation_id t) \<noteq> None"
    using new(3) i(1) new2(1) by (auto simp: find_transfer_def find_append split: option.splits)
  then show ?case using new(1) i(1) new2 by (intro exI [of _ "new @ new2"]) simp
qed

section \<open>The invariant of the batch\<close>

definition finished_with :: "ledger \<Rightarrow> uuid \<Rightarrow> uuid \<Rightarrow> bool" where
  "finished_with g op ev = (\<exists>st e. load_mutation_state g op = Some st \<and> st_phase st = Completed
     \<and> st_disposition st = Some VerifiedApplied \<and> st_last_evidence_id st = Some ev
     \<and> load_evidence g ev = Some e \<and> ev_operation_id e = op \<and> ev_capture_phase e = PostVerify
     \<and> ev_disposition e = VerifiedApplied \<and> \<not> ev_forbidden_side_effect e
     \<and> list_ex (completion_event st ev) (lg_events g))"

definition batch_row_ok :: "libs \<Rightarrow> ledger \<Rightarrow> batch_mutation \<Rightarrow> bool" where
  "batch_row_ok L g m = (case bm_dependency_kind m of
       LegacyV3 \<Rightarrow> bm_operation_id m = None \<and> bm_committed_evidence_id m = None
     | Typed k \<Rightarrow> (\<exists>op. bm_operation_id m = Some op \<and> bm_mutation_id m = uuid_to_string L op
         \<and> load_mutation_kind g op = Some (required_operation_kind k)
         \<and> is_none_or (bm_committed_evidence_id m) (finished_with g op)))"

definition batch_inv :: "libs \<Rightarrow> sync_store \<Rightarrow> bool" where
  "batch_inv L s = (distinct (map batch_key (ss_batch_mutations s))
     \<and> (case ss_batch s of
          None \<Rightarrow> ss_batch_mutations s = []
        | Some b \<Rightarrow> valid_token (br_expected_cursor b) \<and> valid_token (br_next_cursor b)
            \<and> (\<forall>m \<in> set (ss_batch_mutations s). bm_batch_id m = br_batch_id b))
     \<and> (\<forall>m \<in> set (ss_batch_mutations s). batch_row_ok L (ss_ledger s) m))"

definition store_inv :: "libs \<Rightarrow> sync_store \<Rightarrow> bool" where
  "store_inv L s = (ledger_inv L (ss_ledger s) \<and> sync_inv L s \<and> jobs_inv s \<and> transfers_inv s \<and> batch_inv L s)"

lemma batch_row_ok_state [simp]: "batch_row_ok L g (m\<lparr>bm_state := q\<rparr>) = batch_row_ok L g m"
  by (simp add: batch_row_ok_def split: batch_dependency.split)

lemma batch_key_simps [simp]: "batch_key (m\<lparr>bm_state := q\<rparr>) = batch_key m"
  "batch_key (m\<lparr>bm_committed_evidence_id := e\<rparr>) = batch_key m"
  by (simp_all add: batch_key_def)

lemma batch_inv_update:
  assumes "batch_inv L s" "\<And>m. P m \<Longrightarrow> batch_key (f m) = batch_key m"
    and "\<And>m. P m \<Longrightarrow> m \<in> set (ss_batch_mutations s) \<Longrightarrow> batch_row_ok L (ss_ledger s) m \<Longrightarrow> batch_row_ok L (ss_ledger s) (f m)"
  shows "batch_inv L (s\<lparr>ss_batch_mutations := update_where P f (ss_batch_mutations s)\<rparr>)"
proof -
  have "bm_batch_id (f m) = bm_batch_id m" if "P m" for m using assms(2) [OF that] by (simp add: batch_key_def)
  moreover have "map batch_key (update_where P f (ss_batch_mutations s)) = map batch_key (ss_batch_mutations s)"
    by (rule map_update_where) (rule assms(2))
  moreover have "update_where P f [] = []" by simp
  ultimately show ?thesis
    using assms(1, 3) by (auto simp: batch_inv_def split: option.splits dest!: set_update_whereD)
qed

lemma rows_move_inv:
  assumes "rows_move s s'" "batch_inv L s"
  shows "batch_inv L s'"
proof -
  obtain P q where "s' = s\<lparr>ss_batch_mutations := update_where P (\<lambda>m. m\<lparr>bm_state := q\<rparr>) (ss_batch_mutations s)\<rparr>"
    using assms(1) unfolding rows_move_def by blast
  then show ?thesis using batch_inv_update [OF assms(2), of P "\<lambda>m. m\<lparr>bm_state := q\<rparr>"] by simp
qed

lemma batch_inv_cong:
  "ss_batch s' = ss_batch s \<Longrightarrow> ss_batch_mutations s' = ss_batch_mutations s \<Longrightarrow> ss_ledger s' = ss_ledger s
    \<Longrightarrow> batch_inv L s' = batch_inv L s"
  by (simp add: batch_inv_def split: option.split)

lemma sync_inv_cong:
  "ss_vault_id s' = ss_vault_id s \<Longrightarrow> ss_vault_state s' = ss_vault_state s \<Longrightarrow> ss_frontier s' = ss_frontier s
    \<Longrightarrow> ss_remote_entries s' = ss_remote_entries s \<Longrightarrow> sync_inv L s' = sync_inv L s"
  by (simp add: sync_inv_def split: option.split)

lemma sync_inv_remote:
  "ss_vault_id s' = ss_vault_id s \<Longrightarrow> ss_vault_state s' = ss_vault_state s \<Longrightarrow> ss_frontier s' = ss_frontier s
    \<Longrightarrow> remote_ok L (ss_remote_entries s') \<Longrightarrow> sync_inv L s \<Longrightarrow> sync_inv L s'"
  by (simp add: sync_inv_def split: option.splits)

lemma transfers_inv_cong:
  "ss_transfers s' = ss_transfers s \<Longrightarrow> ss_transfer_history s' = ss_transfer_history s \<Longrightarrow> transfers_inv s' = transfers_inv s"
  by (simp add: transfers_inv_def)

lemmas inv_congs = batch_inv_cong sync_inv_cong transfers_inv_cong jobs_inv_cong

lemma store_inv_jobs:
  assumes "store_inv L s" "s' = s\<lparr>ss_jobs := js, ss_job_history := hs\<rparr>" "jobs_inv s'"
  shows "store_inv L s'"
  using assms inv_congs(1-3) [of s' s] by (simp add: store_inv_def)

lemma store_inv_scan:
  assumes "store_inv L s" "sync_inv L s'" "same_rest s s'"
  shows "store_inv L s'"
  using assms inv_congs(1, 3, 4) [of s' s] by (simp add: store_inv_def same_rest_def)

lemma store_inv_transfers:
  assumes "store_inv L s" "transfers_move s s'"
  shows "store_inv L s'"
proof -
  obtain ts where "s' = s\<lparr>ss_transfers := ts\<rparr>" using assms(2) unfolding transfers_move_def by blast
  then show ?thesis
    using assms(1) transfers_move_inv [OF assms(2)] inv_congs(1, 2, 4) [of s' s] by (simp add: store_inv_def)
qed

lemma store_inv_rows:
  assumes "store_inv L s" "rows_move s s'"
  shows "store_inv L s'"
proof -
  obtain ms where "s' = s\<lparr>ss_batch_mutations := ms\<rparr>" using assms(2) unfolding rows_move_def by blast
  then show ?thesis
    using assms(1) rows_move_inv [OF assms(2)] inv_congs(2-4) [of s' s] by (simp add: store_inv_def)
qed

section \<open>Beginning, committing and aborting a batch\<close>

lemma begin_change_batch_Inr:
  assumes "begin_change_batch batch cur nxt ids s = Inr s'" "batch_inv L s"
  shows "ss_batch s = None" "batch_inv L s'" "s' = s\<lparr>ss_batch := Some \<lparr>br_batch_id = batch, br_expected_cursor = cur,
      br_next_cursor = nxt\<rparr>, ss_batch_mutations := map (legacy_row batch) (sort ids)\<rparr>"
proof -
  obtain s1 where s1: "insert_batch batch cur nxt s = Inr s1"
    and rows: "insert_batch_mutations (map (legacy_row batch) (sort ids)) s1 = Inr s'"
    and tok: "batch_request_ok batch cur nxt = Inr ()"
    using assms(1) by (auto simp: begin_change_batch_def if_results)
  note b = insert_batch_Inr [OF s1]
  then show none: "ss_batch s = None" by blast
  have empty: "ss_batch_mutations s = []" using none assms(2) by (simp add: batch_inv_def)
  have r: "s' = s1\<lparr>ss_batch_mutations := map (legacy_row batch) (sort ids)\<rparr>" "distinct (map batch_key (map (legacy_row batch) (sort ids)))"
    using insert_batch_mutations_Inr [OF rows] b empty by simp_all
  then show "s' = s\<lparr>ss_batch := Some \<lparr>br_batch_id = batch, br_expected_cursor = cur,
      br_next_cursor = nxt\<rparr>, ss_batch_mutations := map (legacy_row batch) (sort ids)\<rparr>" using b by simp
  then show "batch_inv L s'"
    using tok r(2) by (auto simp: batch_inv_def batch_request_ok_def if_results valid_token_def legacy_row_def batch_row_ok_def)
qed

lemma begin_r3_change_batch_Inr:
  assumes "begin_r3_change_batch L batch cur nxt deps s = Inr s'" "batch_inv L s"
  shows "ss_batch s = None" "batch_inv L s'" "s' = s\<lparr>ss_batch := Some \<lparr>br_batch_id = batch, br_expected_cursor = cur,
      br_next_cursor = nxt\<rparr>, ss_batch_mutations := map (typed_row L batch) deps\<rparr>"
proof -
  obtain s1 where s1: "insert_batch batch cur nxt s = Inr s1"
    and rows: "insert_batch_mutations (map (typed_row L batch) deps) s1 = Inr s'"
    and deps: "for_each (dependency_ok s) deps = Inr ()" and tok: "batch_request_ok batch cur nxt = Inr ()"
    using assms(1) by (auto simp: begin_r3_change_batch_def if_results)
  note b = insert_batch_Inr [OF s1]
  then show none: "ss_batch s = None" by blast
  have empty: "ss_batch_mutations s = []" using none assms(2) by (simp add: batch_inv_def)
  have r: "s' = s1\<lparr>ss_batch_mutations := map (typed_row L batch) deps\<rparr>" "distinct (map batch_key (map (typed_row L batch) deps))"
    using insert_batch_mutations_Inr [OF rows] b empty by simp_all
  then show s': "s' = s\<lparr>ss_batch := Some \<lparr>br_batch_id = batch, br_expected_cursor = cur,
      br_next_cursor = nxt\<rparr>, ss_batch_mutations := map (typed_row L batch) deps\<rparr>" using b by simp
  have "batch_row_ok L (ss_ledger s) (typed_row L batch d)" if "d \<in> set deps" for d
    using deps that by (auto simp: for_each_eq_Inr dependency_ok_def if_results typed_row_def batch_row_ok_def dest!: bspec [of _ _ d])
  then show "batch_inv L s'"
    unfolding s' using tok r(2) by (auto simp: batch_inv_def batch_request_ok_def if_results valid_token_def typed_row_def)
qed

lemma begin_transfer_change_batch_Inr:
  assumes "begin_transfer_change_batch L batch cur nxt changes downloads s = Inr s'" "store_inv L s"
  obtains rs ts where "ss_batch s = None" "store_inv L s'" "s' = s\<lparr>ss_batch := Some \<lparr>br_batch_id = batch, br_expected_cursor = cur,
      br_next_cursor = nxt\<rparr>, ss_remote_entries := rs, ss_transfers := ss_transfers s @ ts,
      ss_batch_mutations := map (\<lambda>t. legacy_row batch (transfer_mutation_id L (tr_operation_id t))) downloads\<rparr>"
    "\<forall>t \<in> set downloads. find_transfer s' (tr_operation_id t) \<noteq> None"
proof -
  obtain s1 s2 where s1: "insert_batch batch cur nxt s = Inr s1" and s2: "upsert_entries L (upserts_of changes) s1 = Inr s2"
    and reg: "register_downloads L batch downloads s2 = Inr s'"
    and req: "for_each (download_request_ok L) downloads = Inr ()" and tok: "batch_request_ok batch cur nxt = Inr ()"
    using assms(1) by (auto simp: begin_transfer_change_batch_def if_results)
  note b = insert_batch_Inr [OF s1] and u = upsert_entries_Inr [OF s2]
  have empty: "ss_batch_mutations s = []" using b assms(2) by (simp add: store_inv_def batch_inv_def)
  have new: "\<forall>t \<in> set downloads. validate_new_transfer L t = Inr ()"
    using req by (auto simp: for_each_eq_Inr download_request_ok_def)
  have inv2: "transfers_inv s2" "distinct (map batch_key (ss_batch_mutations s2))"
    using assms(2) b u(1) empty by (simp_all add: store_inv_def transfers_inv_def)
  obtain ts where r: "s' = s2\<lparr>ss_transfers := ss_transfers s2 @ ts, ss_batch_mutations := ss_batch_mutations s2 @
      map (\<lambda>t. legacy_row batch (transfer_mutation_id L (tr_operation_id t))) downloads\<rparr>" "transfers_inv s'"
      "distinct (map batch_key (ss_batch_mutations s'))" "\<forall>t \<in> set downloads. find_transfer s' (tr_operation_id t) \<noteq> None"
    using register_downloads_Inr [OF reg new inv2] by blast
  have rem: "remote_ok L (fold upsert_rows (upserts_of changes) (ss_remote_entries s))"
    using fold_upsert_ok [OF _ u(2)] sync_invD(1) assms(2) by (auto simp: store_inv_def)
  have s': "s' = s\<lparr>ss_batch := Some \<lparr>br_batch_id = batch, br_expected_cursor = cur,
      br_next_cursor = nxt\<rparr>, ss_remote_entries := fold upsert_rows (upserts_of changes) (ss_remote_entries s), ss_transfers := ss_transfers s @ ts,
      ss_batch_mutations := map (\<lambda>t. legacy_row batch (transfer_mutation_id L (tr_operation_id t))) downloads\<rparr>"
    using r(1) u(1) b empty by simp
  have "batch_inv L s'"
    using r(3) tok by (auto simp: s' batch_inv_def batch_request_ok_def if_results valid_token_def legacy_row_def batch_row_ok_def)
  moreover have "sync_inv L s'" by (rule sync_inv_remote [where s = s]) (use assms(2) rem in \<open>simp_all add: s' store_inv_def\<close>)
  moreover have "jobs_inv s'" "ledger_inv L (ss_ledger s')" using assms(2) by (simp_all add: s' store_inv_def jobs_inv_def)
  ultimately have "store_inv L s'" using r(2) by (simp add: store_inv_def)
  then show thesis using that b r(4) s' by blast
qed

end
