(* ===== verification/Store_Invariant.thy ===== *)
theory Store_Invariant
  imports Store_Steps
begin

text \<open>
  Every step of the store keeps the invariant; the exact meaning of the completeness query of a typed
  batch, which is written in the three-valued logic of SQL.
\<close>

lemma store_invD:
  assumes "store_inv L s"
  shows "ledger_inv L (ss_ledger s)" "sync_inv L s" "jobs_inv s" "transfers_inv s" "batch_inv L s"
  using assms by (simp_all add: store_inv_def)

section \<open>Committing a batch\<close>

lemma delete_batch_inv: "batch_inv L s \<Longrightarrow> batch_inv L (delete_batch s)"
  by (auto simp: batch_inv_def delete_batch_def split: option.splits)

lemma active_batch_Inr:
  assumes "active_batch batch s = Inr b"
  obtains r where "ss_batch s = Some r" "br_batch_id r = batch" "cb_batch_id b = batch"
    "cb_expected_cursor b = br_expected_cursor r" "cb_next_cursor b = br_next_cursor r"
    "cb_declared_mutations b = length (batch_rows s batch)"
proof -
  from assms obtain loaded where "load_change_batch s = Inr loaded" "loaded = Some b" "cb_batch_id b = batch"
    by (auto simp: active_batch_def if_results)
  then show thesis using that by (auto simp: load_change_batch_def Let_def split: option.split_asm)
qed

lemma advance_cursor_Inr:
  assumes "advance_cursor b now s = Inr s'"
  obtains v where "ss_vault_state s = Some v" "vs_phase v = Ready" "vs_durable_cursor v = Some (cb_expected_cursor b)"
    "s' = delete_batch (s\<lparr>ss_vault_state := Some (v\<lparr>vs_durable_cursor := Some (cb_next_cursor b), vs_updated_at_unix_ms := now\<rparr>)\<rparr>)"
  using assms by (cases "ss_vault_state s") (auto simp: advance_cursor_def set_state_def split: if_split_asm)

text \<open>The three commits share their last step.\<close>

lemma commits_Inr:
  "commit_change_batch L batch now s = Inr s' \<Longrightarrow> \<exists>b. active_batch batch s = Inr b \<and> advance_cursor b now s = Inr s'
     \<and> legacy_v3_dependency_count s batch = 0 \<and> typed_r3_dependency_count s batch = 0"
  "commit_transfer_change_batch L batch now s = Inr s' \<Longrightarrow> \<exists>b. active_batch batch s = Inr b \<and> advance_cursor b now s = Inr s'
     \<and> legacy_v3_dependency_count s batch = 0 \<and> typed_r3_dependency_count s batch = 0"
  "commit_r3_change_batch L batch now s = Inr s' \<Longrightarrow> \<exists>b. active_batch batch s = Inr b \<and> advance_cursor b now s = Inr s'
     \<and> legacy_v3_dependency_count s batch = 0 \<and> (\<forall>m \<in> set (batch_rows s batch). \<not> r3_incomplete s m)"
  unfolding commit_change_batch_def commit_transfer_change_batch_def commit_r3_change_batch_def if_results and_then_eq_Inr
  by auto

lemma advance_cursor_inv:
  assumes inv: "store_inv L s" and b: "active_batch batch s = Inr b" and r: "advance_cursor b now s = Inr s'"
  shows "store_inv L s'"
proof -
  obtain row where row: "ss_batch s = Some row" "cb_next_cursor b = br_next_cursor row"
    by (rule active_batch_Inr [OF b])
  obtain v where v: "ss_vault_state s = Some v" "vs_phase v = Ready" "vs_durable_cursor v = Some (cb_expected_cursor b)"
    "s' = delete_batch (s\<lparr>ss_vault_state := Some (v\<lparr>vs_durable_cursor := Some (cb_next_cursor b), vs_updated_at_unix_ms := now\<rparr>)\<rparr>)"
    by (rule advance_cursor_Inr [OF r])
  let ?s1 = "s\<lparr>ss_vault_state := Some (v\<lparr>vs_durable_cursor := Some (cb_next_cursor b), vs_updated_at_unix_ms := now\<rparr>)\<rparr>"
  have tok: "valid_token (br_next_cursor row)" using inv row(1) by (simp add: store_inv_def batch_inv_def)
  have sync: "sync_inv L s" using inv by (simp add: store_inv_def)
  have "sync_inv L ?s1"
    using sync tok v(1, 2) row(2) by (simp add: sync_inv_def state_valid_def frontier_ok_def)
  then have "sync_inv L s'" using v(4) sync_inv_cong [of s' ?s1 L] by (simp add: delete_batch_def)
  moreover have "batch_inv L s'"
    unfolding v(4) using inv batch_inv_cong [of ?s1 s L] by (intro delete_batch_inv) (simp add: store_inv_def)
  ultimately show ?thesis
    using inv v(4) jobs_inv_cong [of s' s] transfers_inv_cong [of s' s] by (simp add: store_inv_def delete_batch_def)
qed

section \<open>Typed dependencies\<close>

lemma require_completion_Inr:
  assumes r: "require_exact_r3_completion_evidence s op ev = Inr ()" and inv: "ledger_inv L (ss_ledger s)"
  shows "finished_with (ss_ledger s) op ev"
proof -
  let ?g = "ss_ledger s"
  from r obtain st e where st: "load_mutation_state ?g op = Some st" "st_phase st = Completed"
      "st_disposition st = Some VerifiedApplied" "st_last_evidence_id st = Some ev"
    and e: "find (\<lambda>e. ev_evidence_id e = ev \<and> ev_operation_id e = op) (lg_evidence ?g) = Some e"
      "ev_capture_phase e = PostVerify" "ev_disposition e = VerifiedApplied" "\<not> ev_forbidden_side_effect e"
    and event: "list_ex (completion_event st ev) (lg_events ?g)"
    by (auto simp: require_exact_r3_completion_evidence_def if_results)
  have "e \<in> set (lg_evidence ?g)" "ev_evidence_id e = ev" "ev_operation_id e = op"
    using e(1) by (auto simp: find_Some_iff)
  moreover have "distinct (map ev_evidence_id (lg_evidence ?g))" using inv by (simp add: ledger_inv_def ledger_core_def ledger_keys_def)
  ultimately have "load_evidence ?g ev = Some e" unfolding load_evidence_def by (simp add: find_key_Some_iff)
  then show ?thesis unfolding finished_with_def using st e(2-4) event \<open>ev_operation_id e = op\<close> by blast
qed

lemma commit_r3_change_dependency_inv:
  assumes r: "commit_r3_change_dependency L batch d ev s = Inr s'" and inv: "store_inv L s"
  shows "store_inv L s'" "s' = s \<or> (\<exists>P. s' = s\<lparr>ss_batch_mutations := update_where P (\<lambda>m. m\<lparr>bm_state := LocalCommitted,
          bm_committed_evidence_id := Some ev\<rparr>) (ss_batch_mutations s)\<rparr>)"
proof -
  let ?hit = "\<lambda>m. bm_batch_id m = batch \<and> bm_mutation_id m = uuid_to_string L (dep_operation_id d)
              \<and> bm_dependency_kind m = Typed (dep_kind d) \<and> bm_operation_id m = Some (dep_operation_id d)
              \<and> bm_state m = LocalPending \<and> bm_committed_evidence_id m = None"
  let ?f = "\<lambda>m. m\<lparr>bm_state := LocalCommitted, bm_committed_evidence_id := Some ev\<rparr>"
  have shape: "s' = s \<or> s' = s\<lparr>ss_batch_mutations := update_where ?hit ?f (ss_batch_mutations s)\<rparr>"
    and ok: "require_exact_r3_completion_evidence s (dep_operation_id d) ev = Inr ()"
    using r unfolding commit_r3_change_dependency_def if_results(1) Let_def and_then_eq_Inr
    by (auto simp: if_results)
  then show "s' = s \<or> (\<exists>P. s' = s\<lparr>ss_batch_mutations := update_where P ?f (ss_batch_mutations s)\<rparr>)" by blast
  have "batch_inv L (s\<lparr>ss_batch_mutations := update_where ?hit ?f (ss_batch_mutations s)\<rparr>)"
    by (rule batch_inv_update)
      (use inv require_completion_Inr [OF ok store_invD(1) [OF inv]] in \<open>auto simp: store_inv_def batch_row_ok_def batch_key_def\<close>)
  then show "store_inv L s'"
    using shape inv inv_congs(2-4) [of s' s] by (auto simp: store_inv_def)
qed

text \<open>What is finished in the ledger stays finished, and its row is proven.\<close>

lemma finished_with_step:
  assumes "ledger_step L g g'" "ledger_inv L g" "finished_with g op ev"
  shows "finished_with g' op ev"
proof -
  obtain st e where st: "load_mutation_state g op = Some st" "st_phase st = Completed" "st_disposition st = Some VerifiedApplied"
      "st_last_evidence_id st = Some ev"
    and e: "load_evidence g ev = Some e" "ev_operation_id e = op" "ev_capture_phase e = PostVerify"
      "ev_disposition e = VerifiedApplied" "\<not> ev_forbidden_side_effect e"
    and event: "list_ex (completion_event st ev) (lg_events g)"
    using assms(3) unfolding finished_with_def by blast
  have "load_mutation_state g' op = Some st"
    using ledger_step_refines [OF assms(1, 2)] st(1, 2)
    by (auto simp: refines_life_def life_of_def life_step_Completed dest!: spec [of _ op])
  moreover have "load_evidence g' ev = Some e" "list_ex (completion_event st ev) (lg_events g')"
    using ledger_step_extends [OF assms(1, 2)] e(1) event by (auto simp: extends_def)
  ultimately show ?thesis unfolding finished_with_def using st e by blast
qed

lemma batch_inv_ledger_step:
  assumes "ledger_step L (ss_ledger s) g" "store_inv L s"
  shows "batch_inv L (s\<lparr>ss_ledger := g\<rparr>)"
proof -
  have inv: "ledger_inv L (ss_ledger s)" using assms(2) by (simp add: store_inv_def)
  have "batch_row_ok L g m" if row: "batch_row_ok L (ss_ledger s) m" for m
  proof (cases "bm_dependency_kind m")
    case (Typed k)
    then obtain op where op: "bm_operation_id m = Some op" "bm_mutation_id m = uuid_to_string L op"
      "load_mutation_kind (ss_ledger s) op = Some (required_operation_kind k)"
      "is_none_or (bm_committed_evidence_id m) (finished_with (ss_ledger s) op)"
      using row by (auto simp: batch_row_ok_def)
    then have "load_mutation_kind g op = Some (required_operation_kind k)"
      using extends_kind [OF ledger_step_extends [OF assms(1) inv], of op] by (auto simp: load_mutation_kind_def)
    then show ?thesis
      using op Typed finished_with_step [OF assms(1) inv]
      by (cases "bm_committed_evidence_id m") (auto simp: batch_row_ok_def)
  qed (use row in \<open>simp add: batch_row_ok_def\<close>)
  then show ?thesis using assms(2) by (auto simp: store_inv_def batch_inv_def split: option.splits)
qed

lemma store_inv_ledger_step:
  assumes "ledger_step L (ss_ledger s) g" "store_inv L s"
  shows "store_inv L (s\<lparr>ss_ledger := g\<rparr>)"
  using assms batch_inv_ledger_step [OF assms] ledger_step_inv [OF assms(1)] inv_congs(2-4) [of "s\<lparr>ss_ledger := g\<rparr>" s]
  by (simp add: store_inv_def)

lemma recover_interrupted_jobs_Inr:
  assumes "recover_interrupted_jobs L fresh s = Inr s'"
  obtains g where "ledger_step L (ss_ledger s) g" "recover_interrupted_mutations L fresh (ss_ledger s) = Inr g"
    "s' = (recover_transfers (recover_jobs s))\<lparr>ss_ledger := g\<rparr>"
proof -
  have "ss_ledger (recover_transfers (recover_jobs s)) = ss_ledger s" by (simp add: recover_transfers_def recover_jobs_def)
  then show thesis using assms that ledger_step.recover by (auto simp: recover_interrupted_jobs_def Let_def)
qed

section \<open>Every step keeps the invariant\<close>

lemma base_of_completion_ok:
  assumes "require_transfer L s op = Inr t" "completion_validate c = Inr ()"
  shows "base_ok \<lparr>rb_local_revision = tc_local_revision c, rb_remote_revision = tc_remote_revision c,
     rb_content_hash = tr_sha256 t, rb_byte_length = tr_byte_length t\<rparr>"
proof -
  have "validate_revision (tr_sha256 t) = Inr ()"
    using assms(1)
    by (auto simp: require_transfer_def load_transfer_def row_to_transfer_def transfer_validate_def if_results split: option.split_asm)
  moreover have "valid_token x" if "validate_remote_id x = Inr ()" for x
  proof -
    have "\<not> is_ascii_control c" if "remote_id_byte c" for c
      using that by (auto simp: remote_id_byte_def dest: alphanumeric_not_control) (simp_all add: is_ascii_control_def byte_def)
    then show ?thesis
      using that by (auto simp: validate_remote_id_def valid_token_def validate_remote_token_def list_all_iff list_ex_iff split: if_split_asm)
  qed
  ultimately show ?thesis
    using assms(2) by (auto simp: base_ok_def completion_validate_def validate_revision_def split: if_split_asm)
qed

lemma store_inv_complete_transfer:
  assumes r: "complete_verified_transfer L op c s = Inr (co, s')" and inv: "store_inv L s"
  shows "store_inv L s'"
  using r
proof (cases rule: complete_verified_transfer_Inr)
  case (completed t rs ms)
  have rem: "remote_ok L rs"
  proof -
    have ok: "remote_ok L (ss_remote_entries s)" using inv by (simp add: store_inv_def sync_inv_def)
    let ?f = "\<lambda>r. r\<lparr>rr_base := Some \<lparr>rb_local_revision = tc_local_revision c, rb_remote_revision = tc_remote_revision c,
           rb_content_hash = tr_sha256 t, rb_byte_length = tr_byte_length t\<rparr>\<rparr>"
    have "map (re_file_id \<circ> rr_entry) (update_where (base_target t c) ?f (ss_remote_entries s))
        = map (re_file_id \<circ> rr_entry) (ss_remote_entries s)"
      by (rule map_update_where) simp
    then have "remote_ok L (update_where (base_target t c) ?f (ss_remote_entries s))"
      using ok base_of_completion_ok [OF completed(1, 3)]
      by (auto simp: remote_ok_def row_ok_def dest!: set_update_whereD)
    then show ?thesis using completed(7) ok by blast
  qed
  have "sync_inv L s'"
    by (rule sync_inv_remote [OF _ _ _ _ store_invD(2) [OF inv]]) (simp_all add: completed(4) rem)
  moreover have "transfers_inv s'"
    by (rule transfers_inv_complete [OF store_invD(4) [OF inv] completed(5, 6), where c = c]) (simp_all add: completed(4))
  moreover have "batch_inv L s'"
  proof -
    have "rows_move s (s\<lparr>ss_batch_mutations := ms\<rparr>) \<or> s\<lparr>ss_batch_mutations := ms\<rparr> = s"
      using completed(8) by (auto simp: rows_move_def)
    then have "batch_inv L (s\<lparr>ss_batch_mutations := ms\<rparr>)" using inv rows_move_inv by (auto simp: store_inv_def)
    then show ?thesis using batch_inv_cong [of s' "s\<lparr>ss_batch_mutations := ms\<rparr>"] completed(4) by simp
  qed
  ultimately show ?thesis using inv jobs_inv_cong [of s' s] completed(4) by (simp add: store_inv_def)
qed (use inv in simp)

lemma store_inv_recover:
  assumes "recover_interrupted_jobs L fresh s = Inr s'" "store_inv L s"
  shows "store_inv L s'"
proof -
  obtain g where g: "ledger_step L (ss_ledger s) g" "s' = (recover_transfers (recover_jobs s))\<lparr>ss_ledger := g\<rparr>"
    by (rule recover_interrupted_jobs_Inr [OF assms(1)])
  have "store_inv L (recover_jobs s)"
    using assms(2) job_steps_inv(5) [of s] inv_congs(1-3) [of "recover_jobs s" s]
    by (simp add: store_inv_def recover_jobs_def)
  then have "store_inv L (recover_transfers (recover_jobs s))" using store_inv_transfers transfer_moves(8) by blast
  then show ?thesis
    unfolding g(2) by (intro store_inv_ledger_step) (use g(1) in \<open>simp_all add: recover_transfers_def recover_jobs_def\<close>)
qed

lemma store_inv_register:
  assumes "register_transfer L t s = Inr (ro, s')" "store_inv L s"
  shows "store_inv L s'"
  using register_transfer_Inr [OF assms(1)]
proof
  assume "s' = s\<lparr>ss_transfers := ss_transfers s @ [t]\<rparr> \<and> find_transfer s (tr_operation_id t) = None
    \<and> \<not> marker_owned s (tr_operation_marker t) \<and> tr_phase t = TransferPending"
  then show ?thesis
    using assms(2) transfers_inv_append inv_congs(1, 2, 4) [of s' s] by (simp add: store_inv_def)
qed (use assms(2) in simp)

lemma store_inv_batch:
  assumes "store_inv L s" "batch_inv L s'" "s' = s\<lparr>ss_batch := b, ss_batch_mutations := ms\<rparr>"
  shows "store_inv L s'"
  using assms inv_congs(2-4) [of s' s] by (simp add: store_inv_def)

lemma store_step_inv:
  assumes "store_step L s s'" "store_inv L s"
  shows "store_inv L s'"
  using assms
proof (induction rule: store_step.induct)
  case (bind b now s out s')
  show ?case by (rule store_inv_scan [OF bind(3) bind_remote_root_inv [OF store_invD(2) [OF bind(3)] bind(1, 2)]])
next
  case (begin_scan token now s s')
  show ?case by (rule store_inv_scan [OF begin_scan(2) begin_initial_scan_inv [OF store_invD(2) [OF begin_scan(2)] begin_scan(1)]])
next
  case (scan_page expected page now s s')
  show ?case by (rule store_inv_scan [OF scan_page(2) apply_scan_page_inv [OF store_invD(2) [OF scan_page(2)] scan_page(1)]])
next
  case (changes_page cursor cpage now s s')
  show ?case by (rule store_inv_scan [OF changes_page(2) apply_changes_page_inv [OF store_invD(2) [OF changes_page(2)] changes_page(1)]])
next
  case (rescan now s s')
  show ?case by (rule store_inv_scan [OF rescan(2) mark_rescan_required_inv [OF store_invD(2) [OF rescan(2)] rescan(1)]])
next
  case (enqueue op kind path dest fid revision created job s eo s')
  have "\<exists>js. s' = s\<lparr>ss_jobs := js, ss_job_history := ss_job_history s\<rparr>"
    using enqueue_job_Inr [OF enqueue(2)] by (auto intro: exI [of _ "ss_jobs s"])
  then show ?case using store_inv_jobs [OF enqueue(3)] job_steps_inv(1) [OF store_invD(3) [OF enqueue(3)] enqueue(1, 2)] by blast
next
  case (claim_job now s oj s')
  have "\<exists>js. s' = s\<lparr>ss_jobs := js, ss_job_history := ss_job_history s\<rparr>"
    using claim_next_job_Inr [OF claim_job(1)] by (auto intro: exI [of _ "ss_jobs s"])
  then show ?case using store_inv_jobs [OF claim_job(2)] job_steps_inv(2) [OF store_invD(3) [OF claim_job(2)] claim_job(1)] by blast
next
  case (retry_job op at code s s')
  have "\<exists>js. s' = s\<lparr>ss_jobs := js, ss_job_history := ss_job_history s\<rparr>"
    using schedule_retry_Inr [OF retry_job(1)] by auto
  then show ?case using store_inv_jobs [OF retry_job(2)] job_steps_inv(3) [OF store_invD(3) [OF retry_job(2)] retry_job(1)] by blast
next
  case (complete_job op code at s s')
  have "s' = s\<lparr>ss_jobs := ss_jobs s', ss_job_history := ss_job_history s'\<rparr>"
    by (simp add: complete_verified_job_Inr(1) [OF complete_job(1)])
  then show ?case using store_inv_jobs [OF complete_job(2)] job_steps_inv(4) [OF store_invD(3) [OF complete_job(2)] complete_job(1)] by blast
next
  case (register t s ro s')
  then show ?case by (rule store_inv_register)
next
  case (claim_transfer now s ot s')
  then show ?case using store_inv_transfers transfer_moves(1) by blast
next
  case (retry_transfer op at code now s s')
  then show ?case using store_inv_transfers transfer_moves(2) by blast
next
  case (pause op at code now s s')
  then show ?case using store_inv_transfers transfer_moves(3) by blast
next
  case (stop op target code now s s')
  then show ?case using store_inv_transfers transfer_moves(4) by blast
next
  case (resume now s n s')
  then show ?case using store_inv_transfers transfer_moves(5) by blast
next
  case (requeue op now s s')
  then show ?case using store_inv_transfers transfer_moves(6) by blast
next
  case (publish_base op base now s s')
  then show ?case using store_inv_transfers transfer_moves(7) by blast
next
  case (complete_transfer op c s co s')
  then show ?case by (rule store_inv_complete_transfer)
next
  case (begin_batch batch cur nxt ids s s')
  then have "batch_inv L s" by (simp add: store_inv_def)
  then show ?case using begin_change_batch_Inr [OF begin_batch(1)] store_inv_batch [OF begin_batch(2)] by blast
next
  case (begin_transfer_batch batch cur nxt changes downloads s s')
  then show ?case by (rule begin_transfer_change_batch_Inr)
next
  case (begin_r3_batch batch cur nxt deps s s')
  then have "batch_inv L s" by (simp add: store_inv_def)
  then show ?case using begin_r3_change_batch_Inr [OF begin_r3_batch(1)] store_inv_batch [OF begin_r3_batch(2)] by blast
next
  case (begin_local batch mutation s s')
  then show ?case using store_inv_rows local_mutation_moves(1) by blast
next
  case (commit_local batch mutation s s')
  then show ?case using store_inv_rows local_mutation_moves(2) by blast
next
  case (reset_local batch mutation s s')
  then show ?case using store_inv_rows local_mutation_moves(3) by blast
next
  case (begin_publish op now s s')
  then show ?case
    using begin_transfer_local_publish_Inr [OF begin_publish(1)] store_inv_rows store_inv_transfers by blast
next
  case (commit_dependency batch d ev s s')
  then show ?case by (rule commit_r3_change_dependency_inv)
next
  case (commit_batch batch now s s')
  then show ?case using commits_Inr(1) advance_cursor_inv by blast
next
  case (commit_transfer_batch batch now s s')
  then show ?case using commits_Inr(2) advance_cursor_inv by blast
next
  case (commit_r3_batch batch now s s')
  then show ?case using commits_Inr(3) advance_cursor_inv by blast
next
  case (abort batch s s')
  then have "s' = delete_batch s" by (auto simp: abort_change_batch_def if_results)
  then show ?case
    using abort(2) delete_batch_inv inv_congs(2-4) [of s' s] by (simp add: store_inv_def delete_batch_def)
next
  case (ledger s g)
  then show ?case by (rule store_inv_ledger_step)
next
  case (recover fresh s s')
  then show ?case by (rule store_inv_recover)
qed

lemma store_inv_empty: "store_inv L (empty_store v)"
  using sync_inv_empty [of L v] ledger_inv_empty [of L]
  by (simp add: store_inv_def empty_store_def jobs_inv_def transfers_inv_def batch_inv_def tracked_def)

lemma store_reachable_inv: "store_reachable L s \<Longrightarrow> store_inv L s"
  by (induction rule: store_reachable.induct) (auto intro: store_inv_empty store_step_inv)

section \<open>When a typed batch is complete\<close>

text \<open>
  In a store that satisfies the invariant no left join of the query misses: a typed row is complete
  exactly when it was committed with its evidence.
\<close>

lemma sql_any_simps [simp]: "sql_any [] = False" "sql_any (p # ps) = (p = Some True \<or> sql_any ps)"
  by (simp_all add: sql_any_def)

lemma r3_incomplete_iff:
  assumes inv: "store_inv L s" and m: "m \<in> set (ss_batch_mutations s)"
  shows "r3_incomplete s m \<longleftrightarrow> \<not> (bm_dependency_kind m \<noteq> LegacyV3 \<and> bm_state m = LocalCommitted
    \<and> bm_committed_evidence_id m \<noteq> None)"
proof (cases "bm_dependency_kind m = LegacyV3 \<or> bm_state m \<noteq> LocalCommitted \<or> bm_committed_evidence_id m = None")
  case True
  then show ?thesis by (auto simp: r3_incomplete_def Let_def is_null_def)
next
  case False
  then obtain k ev where k: "bm_dependency_kind m = Typed k" "bm_committed_evidence_id m = Some ev" "bm_state m = LocalCommitted"
    by (cases "bm_dependency_kind m") auto
  have "batch_row_ok L (ss_ledger s) m" using store_invD(5) [OF inv] m by (simp add: batch_inv_def)
  then obtain op where op: "bm_operation_id m = Some op" "load_mutation_kind (ss_ledger s) op = Some (required_operation_kind k)"
    "finished_with (ss_ledger s) op ev"
    using k(1, 2) by (auto simp: batch_row_ok_def)
  obtain i where i: "load_intent (ss_ledger s) op = Some i" "mi_operation_kind i = required_operation_kind k"
    using op(2) by (auto simp: load_mutation_kind_def)
  obtain st e where st: "load_mutation_state (ss_ledger s) op = Some st" "st_phase st = Completed"
      "st_disposition st = Some VerifiedApplied" "st_last_evidence_id st = Some ev"
    and e: "load_evidence (ss_ledger s) ev = Some e" "ev_operation_id e = op" "ev_capture_phase e = PostVerify"
      "ev_disposition e = VerifiedApplied" "\<not> ev_forbidden_side_effect e"
    and event: "list_ex (completion_event st ev) (lg_events (ss_ledger s))"
    using op(3) unfolding finished_with_def by blast
  have "st_operation_id st = op" using load_state_SomeD [OF st(1)] by simp
  then have "list_ex (\<lambda>x. me_operation_id x = op \<and> me_evidence_id x = Some ev
      \<and> me_attempt_number x = st_attempt_number st \<and> me_state_version x = st_state_version st
      \<and> me_phase x = Completed \<and> me_disposition x = Some VerifiedApplied
      \<and> me_outcome_code x = st_outcome_code st) (lg_events (ss_ledger s))"
    using event by (simp add: completion_event_def [abs_def])
  then show ?thesis
    by (simp add: r3_incomplete_def Let_def is_null_def sql_ne_def k op i st e)
qed

text \<open>What the ledger holds of a dependency that lets the cursor move.\<close>

definition dependency_proven :: "ledger \<Rightarrow> batch_mutation \<Rightarrow> bool" where
  "dependency_proven g m = (\<exists>k op ev i st e. bm_dependency_kind m = Typed k \<and> bm_operation_id m = Some op
     \<and> bm_committed_evidence_id m = Some ev \<and> load_intent g op = Some i \<and> mi_operation_kind i = required_operation_kind k
     \<and> load_mutation_state g op = Some st \<and> st_phase st = Completed \<and> st_last_evidence_id st = Some ev
     \<and> load_evidence g ev = Some e \<and> ev_operation_id e = op \<and> ev_capture_phase e = PostVerify
     \<and> \<not> ev_forbidden_side_effect e \<and> validate_verified_applied_evidence (Some i) e = Inr ())"

lemma complete_row_proven:
  assumes inv: "store_inv L s" and m: "m \<in> set (ss_batch_mutations s)" and "\<not> r3_incomplete s m"
  shows "dependency_proven (ss_ledger s) m"
proof -
  have ledger: "ledger_inv L (ss_ledger s)" using store_invD(1) [OF inv] .
  obtain k ev where k: "bm_dependency_kind m = Typed k" "bm_committed_evidence_id m = Some ev"
    using assms(3) r3_incomplete_iff [OF inv m] by (cases "bm_dependency_kind m") auto
  have "batch_row_ok L (ss_ledger s) m" using store_invD(5) [OF inv] m by (simp add: batch_inv_def)
  then obtain op where op: "bm_operation_id m = Some op" "load_mutation_kind (ss_ledger s) op = Some (required_operation_kind k)"
    "finished_with (ss_ledger s) op ev"
    using k by (auto simp: batch_row_ok_def)
  obtain i where i: "load_intent (ss_ledger s) op = Some i" "mi_operation_kind i = required_operation_kind k"
    using op(2) by (auto simp: load_mutation_kind_def)
  obtain st e where st: "load_mutation_state (ss_ledger s) op = Some st" "st_phase st = Completed" "st_last_evidence_id st = Some ev"
    and e: "load_evidence (ss_ledger s) ev = Some e" "ev_operation_id e = op" "ev_capture_phase e = PostVerify"
      "\<not> ev_forbidden_side_effect e"
    using op(3) unfolding finished_with_def by blast
  have "proven_complete (ss_ledger s) st" "st_operation_id st = op"
    using ledger_invD(3) [OF ledger st(1)] st(2) load_state_SomeD [OF st(1)] by (simp_all add: state_ok_def)
  then have "validate_verified_applied_evidence (Some i) e = Inr ()"
    using st(3) e(1) i(1) by (auto simp: proven_complete_def)
  then show ?thesis unfolding dependency_proven_def using k op(1) i st e by blast
qed

end
