(* ===== verification/Store_Effects.thy ===== *)
theory Store_Effects
  imports Store_Invariant
begin

text \<open>
  What one step of the store can do to the durable cursor, to the active batch and to a transfer:
  the frames from which the properties of whole runs follow.
\<close>

section \<open>The kinds of step\<close>

definition durable :: "sync_store \<Rightarrow> string option" where
  "durable s = Option.bind (ss_vault_state s) vs_durable_cursor"

text \<open>What identifies a row of the batch; its state and its evidence may change.\<close>

definition row_sig :: "batch_mutation \<Rightarrow> uuid \<times> string \<times> batch_dependency" where
  "row_sig m = (bm_batch_id m, bm_mutation_id m, bm_dependency_kind m)"

definition same_batch :: "sync_store \<Rightarrow> sync_store \<Rightarrow> bool" where
  "same_batch s s' = (ss_batch s' = ss_batch s
     \<and> map row_sig (ss_batch_mutations s') = map row_sig (ss_batch_mutations s))"

text \<open>
  The end of the initial drain: the store, draining at the cursor the page answers, applied the last
  page, whose new start token is the durable cursor of the vault that is now ready.
\<close>

definition drain_ended :: "libs \<Rightarrow> sync_store \<Rightarrow> sync_store \<Rightarrow> bool" where
  "drain_ended L s s' = (\<exists>cursor page now v v'. apply_changes_page L cursor page now s = Inr s'
     \<and> cp_next_page_token page = None \<and> cp_new_start_page_token page = durable s'
     \<and> ss_vault_state s = Some v \<and> vs_phase v = Draining \<and> vs_changes_page_token v = Some cursor
     \<and> ss_vault_state s' = Some v' \<and> vs_phase v' = Ready)"

definition scan_effect :: "libs \<Rightarrow> sync_store \<Rightarrow> sync_store \<Rightarrow> bool" where
  "scan_effect L s s' = (same_batch s s' \<and> (durable s' = durable s \<or> durable s' = None \<or> drain_ended L s s'))"

definition begin_effect :: "sync_store \<Rightarrow> sync_store \<Rightarrow> bool" where
  "begin_effect s s' = (ss_batch s = None \<and> ss_batch s' \<noteq> None \<and> ss_vault_state s' = ss_vault_state s)"

definition commit_effect :: "sync_store \<Rightarrow> sync_store \<Rightarrow> bool" where
  "commit_effect s s' = (\<exists>r. ss_batch s = Some r \<and> ss_batch s' = None
     \<and> durable s = Some (br_expected_cursor r) \<and> durable s' = Some (br_next_cursor r)
     \<and> (\<forall>m \<in> set (batch_rows s (br_batch_id r)). dependency_proven (ss_ledger s) m))"

definition abort_effect :: "libs \<Rightarrow> sync_store \<Rightarrow> sync_store \<Rightarrow> bool" where
  "abort_effect L s s' = (\<exists>r. ss_batch s = Some r \<and> s' = delete_batch s
     \<and> transfer_backed_mutation_count L s (br_batch_id r) = 0)"

lemma same_batch_refl [simp]: "same_batch s s"
  by (simp add: same_batch_def)

lemma scan_effectI:
  assumes "ss_vault_state s' = ss_vault_state s" "ss_batch s' = ss_batch s"
    "map row_sig (ss_batch_mutations s') = map row_sig (ss_batch_mutations s)"
  shows "scan_effect L s s'"
  using assms by (simp add: scan_effect_def same_batch_def durable_def)

lemma scan_effect_rest:
  assumes "same_rest s s'" "durable s' = durable s \<or> durable s' = None \<or> drain_ended L s s'"
  shows "scan_effect L s s'"
  using assms by (simp add: scan_effect_def same_batch_def same_rest_def)

lemma row_sig_simps [simp]: "row_sig (m\<lparr>bm_state := q\<rparr>) = row_sig m"
  "row_sig (m\<lparr>bm_committed_evidence_id := e\<rparr>) = row_sig m"
  by (simp_all add: row_sig_def)

lemma scan_effect_rows_move: "rows_move s s' \<Longrightarrow> scan_effect L s s'"
  unfolding rows_move_def by (elim exE) (simp add: scan_effectI map_update_where)

lemma scan_effect_transfers_move: "transfers_move s s' \<Longrightarrow> scan_effect L s s'"
  unfolding transfers_move_def by (elim exE conjE) (simp add: scan_effectI)

lemma scan_effect_trans:
  "rows_move s s1 \<Longrightarrow> transfers_move s1 s' \<Longrightarrow> scan_effect L s s'"
  unfolding rows_move_def transfers_move_def by (elim exE conjE) (simp add: scan_effectI map_update_where)

section \<open>Classification\<close>

lemma reset_cursor:
  "bind_remote_root b now s = Inr (out, s') \<Longrightarrow> durable s' = durable s \<or> durable s' = None"
  "begin_initial_scan token now s = Inr s' \<Longrightarrow> durable s' = None"
  "mark_rescan_required now s = Inr s' \<Longrightarrow> durable s' = None"
proof -
  show "durable s' = durable s \<or> durable s' = None" if "bind_remote_root b now s = Inr (out, s')"
  proof (cases "ss_vault_state s")
    case None
    then show ?thesis using that by (auto simp: bind_remote_root_def durable_def load_state_def)
  next
    case (Some st)
    then show ?thesis
      using that by (auto simp: bind_remote_root_def durable_def load_state_def split: if_splits option.splits)
  qed
  show "durable s' = None" if "begin_initial_scan token now s = Inr s'"
    using that by (auto simp: begin_initial_scan_def durable_def insert_frontier_def split: if_splits bind_split)
  show "durable s' = None" if "mark_rescan_required now s = Inr s'"
    using that by (auto simp: mark_rescan_required_def durable_def split: bind_split)
qed

lemma apply_scan_page_cursor:
  assumes r: "apply_scan_page L expected page now s = Inr s'" and inv: "sync_inv L s"
  shows "durable s' = None"
proof -
  obtain st cur s1 s2 where st: "ss_vault_state s = Some st" "vs_phase st = Scanning"
    and cur: "ss_frontier s = cur # tl (ss_frontier s)"
    and s1: "upsert_entries L (sp_entries page) s = Inr s1"
    and s2: "enqueue_child_folders cur (sp_entries page) s1 = Inr s2"
    and adv: "advance_frontier st cur (sp_next_page_token page) now s2 = Inr s'"
    by (rule apply_scan_page_Inr [OF inv r])
  note u = upsert_entries_Inr [OF s1]
  have "frontier_ok L (ss_frontier s1)" "ss_frontier s1 \<noteq> []"
    using u(1) sync_invD(2) [OF inv] cur by auto
  then obtain new where "s2 = s1\<lparr>ss_frontier := ss_frontier s1 @ new\<rparr>"
    by (rule enqueue_child_folders_Inr [OF s2 _ _ u(2)])
  then have "ss_vault_state s2 = Some st" using u(1) st(1) by simp
  moreover have "vs_durable_cursor st = None" using sync_invD(5) [OF inv st(1)] st(2) by simp
  ultimately show ?thesis
    using adv by (auto simp: advance_frontier_def durable_def Let_def split: option.splits)
qed

lemma apply_changes_page_cursor:
  assumes r: "apply_changes_page L cursor page now s = Inr s'" and inv: "sync_inv L s"
  shows "durable s' = durable s \<or> drain_ended L s s'"
proof -
  from r obtain v s1 where a: "require_state s = Inr v" "vs_phase v = Draining" "vs_changes_page_token v = Some cursor"
    "apply_changes L (cp_changes page) s = Inr s1"
    and fin: "(case cp_next_page_token page of
       Some next \<Rightarrow> Inr (set_state (\<lambda>v. v\<lparr>vs_changes_page_token := Some next, vs_updated_at_unix_ms := now\<rparr>) s1)
     | None \<Rightarrow> and_then (ok_or (cp_new_start_page_token page) InvalidRemoteEntry) (\<lambda>durable.
         Inr (set_state (\<lambda>v. v\<lparr>vs_phase := Ready, vs_start_token := None, vs_scan_page_token := None,
            vs_changes_page_token := None, vs_durable_cursor := Some durable, vs_updated_at_unix_ms := now\<rparr>) s1))) = Inr s'"
    by (auto simp: apply_changes_page_def split: if_splits)
  note v = require_state_Inr [OF a(1)]
  obtain rows where s1: "s1 = s\<lparr>ss_remote_entries := rows\<rparr>"
    using apply_changes_Inr [OF a(4) sync_invD(1) [OF inv]] by blast
  show ?thesis
  proof (cases "cp_next_page_token page")
    case None
    then have "cp_new_start_page_token page = durable s'" "\<exists>v'. ss_vault_state s' = Some v' \<and> vs_phase v' = Ready"
      using fin v by (auto simp: s1 durable_def set_state_def)
    then show ?thesis using r None v a(2, 3) unfolding drain_ended_def by blast
  next
    case (Some n)
    then show ?thesis using fin v by (auto simp: s1 durable_def set_state_def)
  qed
qed

lemma count_rows_0:
  "count_where P (batch_rows s b) = 0 \<Longrightarrow> count_where (\<lambda>m. \<not> P m) (batch_rows s b) = 0 \<Longrightarrow> batch_rows s b = []"
  by (cases "batch_rows s b") (auto split: if_splits)

text \<open>Whatever commit was called, the rows it lets pass are proven.\<close>

lemma commit_effectI:
  assumes inv: "store_inv L s" and b: "active_batch batch s = Inr b" and r: "advance_cursor b now s = Inr s'"
    and rows: "\<forall>m \<in> set (batch_rows s batch). \<not> r3_incomplete s m"
  shows "commit_effect s s'"
proof -
  obtain row where row: "ss_batch s = Some row" "br_batch_id row = batch"
    "cb_expected_cursor b = br_expected_cursor row" "cb_next_cursor b = br_next_cursor row"
    by (rule active_batch_Inr [OF b])
  obtain v where v: "ss_vault_state s = Some v" "vs_durable_cursor v = Some (cb_expected_cursor b)"
    "s' = delete_batch (s\<lparr>ss_vault_state := Some (v\<lparr>vs_durable_cursor := Some (cb_next_cursor b), vs_updated_at_unix_ms := now\<rparr>)\<rparr>)"
    by (rule advance_cursor_Inr [OF r])
  have "\<forall>m \<in> set (batch_rows s batch). dependency_proven (ss_ledger s) m"
    using rows complete_row_proven [OF inv] by (auto simp: batch_rows_def)
  then show ?thesis
    unfolding commit_effect_def using row v by (intro exI [of _ row]) (simp add: durable_def delete_batch_def)
qed

lemma commit_effects:
  assumes inv: "store_inv L s"
  shows "commit_change_batch L batch now s = Inr s' \<Longrightarrow> commit_effect s s'"
    "commit_transfer_change_batch L batch now s = Inr s' \<Longrightarrow> commit_effect s s'"
    "commit_r3_change_batch L batch now s = Inr s' \<Longrightarrow> commit_effect s s'"
proof -
  have none: "\<forall>m \<in> set (batch_rows s batch). \<not> r3_incomplete s m"
    if "legacy_v3_dependency_count s batch = 0" "typed_r3_dependency_count s batch = 0"
    using count_rows_0 [of "\<lambda>m. bm_dependency_kind m = LegacyV3" s batch] that
    unfolding legacy_v3_dependency_count_def typed_r3_dependency_count_def by (simp del: count_where_0)
  show "commit_effect s s'" if "commit_change_batch L batch now s = Inr s'"
    using commits_Inr(1) [OF that] none commit_effectI [OF inv] by blast
  show "commit_effect s s'" if "commit_transfer_change_batch L batch now s = Inr s'"
    using commits_Inr(2) [OF that] none commit_effectI [OF inv] by blast
  show "commit_effect s s'" if "commit_r3_change_batch L batch now s = Inr s'"
    using commits_Inr(3) [OF that] commit_effectI [OF inv] by blast
qed

lemmas moved_effect = transfer_moves(1-7) [THEN scan_effect_transfers_move] local_mutation_moves [THEN scan_effect_rows_move]

lemma store_step_effect:
  assumes "store_step L s s'" "store_inv L s"
  shows "scan_effect L s s' \<or> begin_effect s s' \<or> commit_effect s s' \<or> abort_effect L s s'"
  using assms
proof (induction rule: store_step.induct)
  case (bind b now s out s')
  then show ?case using scan_effect_rest [OF bind_remote_root_inv(2) [OF store_invD(2)]] reset_cursor(1) by blast
next
  case (begin_scan token now s s')
  then show ?case using scan_effect_rest [OF begin_initial_scan_inv(2) [OF store_invD(2)]] reset_cursor(2) by blast
next
  case (scan_page expected page now s s')
  then show ?case
    using scan_effect_rest [OF apply_scan_page_inv(2) [OF store_invD(2)]] apply_scan_page_cursor [OF _ store_invD(2)] by blast
next
  case (changes_page cursor cpage now s s')
  then show ?case
    using scan_effect_rest [OF apply_changes_page_inv(2) [OF store_invD(2)]] apply_changes_page_cursor [OF _ store_invD(2)] by blast
next
  case (rescan now s s')
  then show ?case using scan_effect_rest [OF mark_rescan_required_inv(2) [OF store_invD(2)]] reset_cursor(3) by blast
next
  case (enqueue op kind path dest fid revision created job s eo s')
  then have "scan_effect L s s'" using enqueue_job_Inr [OF enqueue(2)] by (auto intro: scan_effectI)
  then show ?case by blast
next
  case (claim_job now s oj s')
  then have "scan_effect L s s'" using claim_next_job_Inr [OF claim_job(1)] by (auto intro: scan_effectI)
  then show ?case by blast
next
  case (retry_job op at code s s')
  then have "scan_effect L s s'" using schedule_retry_Inr [OF retry_job(1)] by (auto intro: scan_effectI)
  then show ?case by blast
next
  case (complete_job op code at s s')
  then have "scan_effect L s s'" using complete_verified_job_Inr(1) [OF complete_job(1)] by (auto intro: scan_effectI)
  then show ?case by blast
next
  case (register t s ro s')
  then have "scan_effect L s s'" using register_transfer_Inr [OF register(1)] by (auto intro: scan_effectI)
  then show ?case by blast
next
  case (complete_transfer op c s co s')
  have "scan_effect L s s'"
    using complete_transfer(1)
  proof (cases rule: complete_verified_transfer_Inr)
    case (completed t rs ms)
    then have "map row_sig ms = map row_sig (ss_batch_mutations s)" by (auto intro: map_update_where)
    then show ?thesis by (intro scan_effectI) (simp_all add: completed(4))
  qed (auto intro: scan_effectI)
  then show ?case by blast
next
  case (begin_batch batch cur nxt ids s s')
  then have "begin_effect s s'"
    using begin_change_batch_Inr [OF begin_batch(1) store_invD(5) [OF begin_batch(2)]] by (simp add: begin_effect_def)
  then show ?case by blast
next
  case (begin_transfer_batch batch cur nxt changes downloads s s')
  then have "begin_effect s s'" by (rule begin_transfer_change_batch_Inr) (simp add: begin_effect_def)
  then show ?case by blast
next
  case (begin_r3_batch batch cur nxt deps s s')
  then have "begin_effect s s'"
    using begin_r3_change_batch_Inr [OF begin_r3_batch(1) store_invD(5) [OF begin_r3_batch(2)]] by (simp add: begin_effect_def)
  then show ?case by blast
next
  case (begin_publish op now s s')
  have "scan_effect L s s'"
    using begin_transfer_local_publish_Inr [OF begin_publish(1)] scan_effect_trans by (auto intro: scan_effectI)
  then show ?case by blast
next
  case (commit_dependency batch d ev s s')
  have "scan_effect L s s'"
    using commit_r3_change_dependency_inv(2) [OF commit_dependency]
    by (elim disjE exE) (simp_all add: scan_effectI map_update_where)
  then show ?case by blast
next
  case (abort batch s s')
  from abort(1) obtain b where b: "active_batch batch s = Inr b" "transfer_backed_mutation_count L s batch = 0" "s' = delete_batch s"
    unfolding abort_change_batch_def if_results and_then_eq_Inr by blast
  have "abort_effect L s s'"
    by (rule active_batch_Inr [OF b(1)]) (use b(2, 3) in \<open>auto simp: abort_effect_def\<close>)
  then show ?case by blast
next
  case (ledger s g)
  have "scan_effect L s (s\<lparr>ss_ledger := g\<rparr>)" by (intro scan_effectI) simp_all
  then show ?case by blast
next
  case (recover fresh s s')
  obtain g where "s' = (recover_transfers (recover_jobs s))\<lparr>ss_ledger := g\<rparr>"
    by (rule recover_interrupted_jobs_Inr [OF recover(1)])
  then have "scan_effect L s s'" by (intro scan_effectI) (simp_all add: recover_transfers_def recover_jobs_def)
  then show ?case by blast
qed (blast intro: moved_effect commit_effects)+

section \<open>Transfers\<close>

definition transfers_follow :: "sync_store \<Rightarrow> sync_store \<Rightarrow> bool" where
  "transfers_follow s s' = (\<forall>op t. find_transfer s op = Some t \<longrightarrow> (\<exists>t'. find_transfer s' op = Some t' \<and> row_step t t'))"

lemma transfers_follow_refl: "ss_transfers s' = ss_transfers s \<Longrightarrow> transfers_follow s s'"
  by (simp add: transfers_follow_def find_transfer_def)

lemma find_update_where:
  assumes "\<And>x. P x \<Longrightarrow> key (f x) = key x"
  shows "find (\<lambda>x. key x = k) (update_where P f xs) = map_option (\<lambda>x. if P x then f x else x) (find (\<lambda>x. key x = k) xs)"
  using assms by (induction xs) auto

lemma transfers_follow_found:
  assumes "ss_transfers s' = update_where P f (ss_transfers s)"
    "\<And>t. P t \<Longrightarrow> tr_operation_id (f t) = tr_operation_id t"
    "\<And>t. find_transfer s (tr_operation_id t) = Some t \<Longrightarrow> P t \<Longrightarrow> row_step t (f t)"
  shows "transfers_follow s s'"
  unfolding transfers_follow_def
proof (intro allI impI)
  fix op t
  assume t: "find_transfer s op = Some t"
  then have key: "tr_operation_id t = op" by (auto simp: find_transfer_def find_Some_iff)
  have row: "P t \<Longrightarrow> row_step t (f t)" using assms(3) [of t] t unfolding key by blast
  have "find_transfer s' op = Some (if P t then f t else t)"
    using t find_update_where [of P tr_operation_id f op "ss_transfers s", OF assms(2)] by (simp add: find_transfer_def assms(1))
  then show "\<exists>t'. find_transfer s' op = Some t' \<and> row_step t t'" using row by simp
qed

lemma transfers_follow_update:
  assumes "ss_transfers s' = update_where P f (ss_transfers s)" "\<And>t. P t \<Longrightarrow> row_step t (f t)"
  shows "transfers_follow s s'"
proof (rule transfers_follow_found [OF assms(1)])
  show "tr_operation_id (f t) = tr_operation_id t" if "P t" for t using assms(2) [OF that] row_step_key by blast
  show "row_step t (f t)" if "P t" for t by (rule assms(2) [OF that])
qed

lemma transfers_follow_append:
  assumes "ss_transfers s' = ss_transfers s @ ts"
  shows "transfers_follow s s'"
  unfolding transfers_follow_def find_transfer_def assms find_append by (auto intro: exI [of _ t])

lemma transfers_follow_move: "transfers_move s s' \<Longrightarrow> transfers_follow s s'"
  unfolding transfers_move_def by (elim exE conjE) (rule transfers_follow_update, simp, blast)

lemmas moved_follow = transfer_moves(1-7) [THEN transfers_follow_move]

lemma rest_follow: "same_rest s s' \<Longrightarrow> transfers_follow s s'"
  by (rule transfers_follow_refl) (simp add: same_rest_def)

lemmas scan_follow = bind_remote_root_inv(2) [OF store_invD(2), THEN rest_follow]
  begin_initial_scan_inv(2) [OF store_invD(2), THEN rest_follow] apply_scan_page_inv(2) [OF store_invD(2), THEN rest_follow]
  apply_changes_page_inv(2) [OF store_invD(2), THEN rest_follow] mark_rescan_required_inv(2) [OF store_invD(2), THEN rest_follow]

lemma rows_move_follow: "rows_move s s' \<Longrightarrow> transfers_follow s s'"
  unfolding rows_move_def by (elim exE) (simp add: transfers_follow_refl)

lemmas rows_follow = local_mutation_moves [THEN rows_move_follow]

lemma advance_follow: "advance_cursor b now s = Inr s' \<Longrightarrow> transfers_follow s s'"
  by (erule advance_cursor_Inr) (simp add: transfers_follow_refl delete_batch_def)

lemma commit_follow:
  "commit_change_batch L batch now s = Inr s' \<Longrightarrow> transfers_follow s s'"
  "commit_transfer_change_batch L batch now s = Inr s' \<Longrightarrow> transfers_follow s s'"
  "commit_r3_change_batch L batch now s = Inr s' \<Longrightarrow> transfers_follow s s'"
  using commits_Inr advance_follow by blast+

lemma store_step_follow:
  assumes "store_step L s s'" "store_inv L s"
  shows "transfers_follow s s'"
  using assms
proof (induction rule: store_step.induct)
  case (enqueue op kind path dest fid revision created job s eo s')
  then show ?case using enqueue_job_Inr [OF enqueue(2)] by (auto intro: transfers_follow_refl)
next
  case (claim_job now s oj s')
  then show ?case using claim_next_job_Inr [OF claim_job(1)] by (auto intro: transfers_follow_refl)
next
  case (retry_job op at code s s')
  then show ?case using schedule_retry_Inr [OF retry_job(1)] by (auto intro: transfers_follow_refl)
next
  case (complete_job op code at s s')
  then show ?case using complete_verified_job_Inr(1) [OF complete_job(1)] by (auto intro: transfers_follow_refl)
next
  case (register t s ro s')
  then show ?case
    using register_transfer_Inr [OF register(1)] by (auto intro: transfers_follow_refl transfers_follow_append)
next
  case (complete_transfer op c s co s')
  show ?case
    using complete_transfer(1)
  proof (cases rule: complete_verified_transfer_Inr)
    case (completed t rs ms)
    have hit: "\<not> completion_rejected t' c" if "find_transfer s (tr_operation_id t') = Some t'" "done_hit op t'" for t'
      using completed(2) require_transfer_find [OF completed(1)] that by (simp add: done_hit_def)
    show ?thesis
    proof (rule transfers_follow_found)
      show "ss_transfers s' = update_where (done_hit op) (completed_transfer c) (ss_transfers s)" by (simp add: completed(4))
    qed (use completed_keys completed_row_step [OF hit] in blast)+
  qed (simp add: transfers_follow_refl)
next
  case (begin_batch batch cur nxt ids s s')
  then show ?case
    using begin_change_batch_Inr(3) [OF begin_batch(1) store_invD(5) [OF begin_batch(2)]] by (simp add: transfers_follow_refl)
next
  case (begin_transfer_batch batch cur nxt changes downloads s s')
  then show ?case by (rule begin_transfer_change_batch_Inr) (simp add: transfers_follow_append)
next
  case (begin_r3_batch batch cur nxt deps s s')
  then show ?case
    using begin_r3_change_batch_Inr(3) [OF begin_r3_batch(1) store_invD(5) [OF begin_r3_batch(2)]] by (simp add: transfers_follow_refl)
next
  case (begin_publish op now s s')
  show ?case
    using begin_transfer_local_publish_Inr [OF begin_publish(1)]
  proof (elim disjE exE conjE)
    fix s1 assume "rows_move s s1" "transfers_move s1 s'"
    then have "ss_transfers s1 = ss_transfers s" "transfers_follow s1 s'"
      using transfers_follow_move by (auto simp: rows_move_def)
    then show ?case by (simp add: transfers_follow_def find_transfer_def)
  qed (simp add: transfers_follow_refl)
next
  case (commit_dependency batch d ev s s')
  show ?case
    using commit_r3_change_dependency_inv(2) [OF commit_dependency] by (auto intro: transfers_follow_refl)
next
  case (abort batch s s')
  then have "s' = delete_batch s" by (auto simp: abort_change_batch_def if_results)
  then show ?case by (simp add: transfers_follow_refl delete_batch_def)
next
  case (recover fresh s s')
  obtain g where g: "s' = (recover_transfers (recover_jobs s))\<lparr>ss_ledger := g\<rparr>"
    by (rule recover_interrupted_jobs_Inr [OF recover(1)])
  have "transfers_follow (recover_jobs s) (recover_transfers (recover_jobs s))"
    using transfers_follow_move transfer_moves(8) by blast
  then show ?case by (simp add: g transfers_follow_def find_transfer_def recover_jobs_def)
qed (simp add: transfers_follow_refl | rule scan_follow moved_follow rows_follow commit_follow, assumption+)+

section \<open>The ledger\<close>

text \<open>A step of the store is at most a step of the ledger.\<close>

lemma upsert_entries_ledger: "upsert_entries L es s = Inr s' \<Longrightarrow> ss_ledger s' = ss_ledger s"
  using upsert_entries_Inr(1) by fastforce

lemma moved_ledger:
  "transfers_move s s' \<Longrightarrow> ss_ledger s' = ss_ledger s" "rows_move s s' \<Longrightarrow> ss_ledger s' = ss_ledger s"
  "advance_cursor b now s = Inr s' \<Longrightarrow> ss_ledger s' = ss_ledger s" "same_rest s s' \<Longrightarrow> ss_ledger s' = ss_ledger s"
  by (auto simp: transfers_move_def rows_move_def advance_cursor_def delete_batch_def same_rest_def split: if_splits)

lemmas kept_ledger = transfer_moves(1-7) [THEN moved_ledger(1)] local_mutation_moves [THEN moved_ledger(2)]
  bind_remote_root_inv(2) [OF store_invD(2), THEN moved_ledger(4)]
  begin_initial_scan_inv(2) [OF store_invD(2), THEN moved_ledger(4)] apply_scan_page_inv(2) [OF store_invD(2), THEN moved_ledger(4)]
  apply_changes_page_inv(2) [OF store_invD(2), THEN moved_ledger(4)] mark_rescan_required_inv(2) [OF store_invD(2), THEN moved_ledger(4)]

lemma commit_ledger:
  "commit_change_batch L batch now s = Inr s' \<Longrightarrow> ss_ledger s' = ss_ledger s"
  "commit_transfer_change_batch L batch now s = Inr s' \<Longrightarrow> ss_ledger s' = ss_ledger s"
  "commit_r3_change_batch L batch now s = Inr s' \<Longrightarrow> ss_ledger s' = ss_ledger s"
  using commits_Inr moved_ledger(3) by blast+

lemma store_step_ledger:
  assumes "store_step L s s'" "store_inv L s"
  shows "ss_ledger s' = ss_ledger s \<or> ledger_step L (ss_ledger s) (ss_ledger s')"
  using assms
proof (induction rule: store_step.induct)
  case (enqueue op kind path dest fid revision created job s eo s')
  then show ?case using enqueue_job_Inr [OF enqueue(2)] by auto
next
  case (claim_job now s oj s')
  then show ?case using claim_next_job_Inr [OF claim_job(1)] by auto
next
  case (retry_job op at code s s')
  then show ?case using schedule_retry_Inr [OF retry_job(1)] by auto
next
  case (complete_job op code at s s')
  then show ?case using complete_verified_job_Inr(1) [OF complete_job(1)] by auto
next
  case (register t s ro s')
  then show ?case using register_transfer_Inr [OF register(1)] by auto
next
  case (complete_transfer op c s co s')
  show ?case using complete_transfer(1) by (cases rule: complete_verified_transfer_Inr) simp_all
next
  case (begin_batch batch cur nxt ids s s')
  then show ?case using begin_change_batch_Inr(3) [OF begin_batch(1) store_invD(5) [OF begin_batch(2)]] by simp
next
  case (begin_transfer_batch batch cur nxt changes downloads s s')
  then show ?case by (rule begin_transfer_change_batch_Inr) simp
next
  case (begin_r3_batch batch cur nxt deps s s')
  then show ?case using begin_r3_change_batch_Inr(3) [OF begin_r3_batch(1) store_invD(5) [OF begin_r3_batch(2)]] by simp
next
  case (begin_publish op now s s')
  show ?case
    using begin_transfer_local_publish_Inr [OF begin_publish(1)]
    by (elim disjE exE conjE) (simp_all add: moved_ledger(1, 2))
next
  case (commit_dependency batch d ev s s')
  show ?case using commit_r3_change_dependency_inv(2) [OF commit_dependency] by auto
next
  case (abort batch s s')
  then have "s' = delete_batch s" by (auto simp: abort_change_batch_def if_results)
  then show ?case by (simp add: delete_batch_def)
next
  case (recover fresh s s')
  show ?case by (rule recover_interrupted_jobs_Inr [OF recover(1)]) simp
qed (simp | rule disjI1, rule kept_ledger commit_ledger, assumption+)+

lemma store_reachable_ledger: "store_reachable L s \<Longrightarrow> ledger_reachable L (ss_ledger s)"
proof (induction rule: store_reachable.induct)
  case (start vault)
  then show ?case using ledger_reachable.start by (simp add: empty_store_def)
next
  case (step s s')
  then show ?case using store_step_ledger store_reachable_inv ledger_reachable.step by metis
qed

section \<open>A page with downloads\<close>

text \<open>A row that only the operations on transfers understand, under a batch only typed rows can leave.\<close>

definition download_row :: "libs \<Rightarrow> sync_store \<Rightarrow> batch_row \<Rightarrow> string \<Rightarrow> bool" where
  "download_row L s b mutation = (ss_batch s = Some b \<and> joined_transfer L s mutation \<noteq> None
     \<and> (br_batch_id b, mutation, LegacyV3) \<in> row_sig ` set (ss_batch_mutations s))"

lemma joined_transfer_follow:
  assumes "transfers_follow s s'" "joined_transfer L s mutation \<noteq> None" "transfers_inv s"
  shows "joined_transfer L s' mutation \<noteq> None"
proof -
  obtain t where t: "t \<in> set (ss_transfers s)" "uuid_to_string L (tr_operation_id t) = mutation"
    using assms(2) unfolding joined_transfer_def find_None_iff by blast
  have "find_transfer s (tr_operation_id t) \<noteq> None" using t(1) by (auto simp: find_transfer_def find_None_iff)
  then have "find_transfer s' (tr_operation_id t) \<noteq> None" using assms(1) by (fastforce simp: transfers_follow_def)
  then show ?thesis using t(2) by (auto simp: find_transfer_def joined_transfer_def find_None_iff)
qed

lemma download_row_kept:
  assumes "store_step L s s'" "store_inv L s" "download_row L s b mutation"
  shows "download_row L s' b mutation"
proof -
  obtain m where b: "ss_batch s = Some b" and m: "m \<in> set (ss_batch_mutations s)" "bm_batch_id m = br_batch_id b"
      "bm_mutation_id m = mutation" "bm_dependency_kind m = LegacyV3" and t: "joined_transfer L s mutation \<noteq> None"
    using assms(3) by (auto simp: download_row_def row_sig_def)
  have row: "m \<in> set (batch_rows s (br_batch_id b))" using m(1, 2) by (simp add: batch_rows_def)
  consider "scan_effect L s s'" | "begin_effect s s'" | "commit_effect s s'" | "abort_effect L s s'"
    using store_step_effect [OF assms(1, 2)] by blast
  then show ?thesis
  proof cases
    case 1
    then have "ss_batch s' = Some b" "row_sig ` set (ss_batch_mutations s') = row_sig ` set (ss_batch_mutations s)"
      using b unfolding scan_effect_def same_batch_def set_map [symmetric] by simp_all
    then show ?thesis
      using assms(3) joined_transfer_follow [OF store_step_follow [OF assms(1, 2)] t store_invD(4) [OF assms(2)]]
      by (simp add: download_row_def)
  next
    case 2
    then show ?thesis using b by (simp add: begin_effect_def)
  next
    case 3
    then have "dependency_proven (ss_ledger s) m" using b row by (auto simp: commit_effect_def)
    then show ?thesis using m(4) by (simp add: dependency_proven_def)
  next
    case 4
    then have "transfer_backed_mutation_count L s (br_batch_id b) = 0" using b by (auto simp: abort_effect_def)
    then show ?thesis using row m(3) t by (auto simp: transfer_backed_mutation_count_def)
  qed
qed

text \<open>Every call that begins or ends a batch is refused while such a row is there.\<close>

lemma active_batch_ok:
  assumes "batch_inv L s" "ss_batch s = Some r"
  shows "\<exists>b. active_batch (br_batch_id r) s = Inr b \<and> load_change_batch s = Inr (Some b)"
    "batch \<noteq> br_batch_id r \<Longrightarrow> active_batch batch s = Inl NoActiveBatch"
  using assms by (auto simp: active_batch_def load_change_batch_def batch_inv_def valid_token_def Let_def)

lemma download_row_refuses:
  assumes inv: "store_inv L s" and row: "download_row L s b mutation"
  shows "\<exists>e. commit_change_batch L batch now s = Inl e" "\<exists>e. commit_transfer_change_batch L batch now s = Inl e"
    "\<exists>e. commit_r3_change_batch L batch now s = Inl e" "\<exists>e. abort_change_batch L batch s = Inl e"
    "\<exists>e. begin_change_batch other cur nxt ids s = Inl e" "\<exists>e. begin_r3_change_batch L other cur nxt deps s = Inl e"
    "\<exists>e. begin_transfer_change_batch L other cur nxt changes downloads s = Inl e"
proof -
  have refused: "\<exists>e. r = Inl e" if "\<And>s'. r = Inr s' \<Longrightarrow> False" for r :: "error + sync_store"
    using that by (cases r) auto
  have stays: "download_row L s' b mutation" if "store_step L s s'" for s'
    using download_row_kept [OF that inv row] .
  have gone: "\<not> download_row L s' b mutation" if "ss_batch s' = None" for s'
    using that by (simp add: download_row_def)
  have active: "ss_batch s = Some b" using row by (simp add: download_row_def)
  have commit: False if "commit_effect s s'" "download_row L s' b mutation" for s'
    using that gone by (auto simp: commit_effect_def)
  show "\<exists>e. commit_change_batch L batch now s = Inl e"
    by (rule refused) (use commit commit_effects(1) [OF inv] stays store_step.commit_batch in blast)
  show "\<exists>e. commit_transfer_change_batch L batch now s = Inl e"
    by (rule refused) (use commit commit_effects(2) [OF inv] stays store_step.commit_transfer_batch in blast)
  show "\<exists>e. commit_r3_change_batch L batch now s = Inl e"
    by (rule refused) (use commit commit_effects(3) [OF inv] stays store_step.commit_r3_batch in blast)
  show "\<exists>e. abort_change_batch L batch s = Inl e"
  proof (rule refused)
    fix s' assume a: "abort_change_batch L batch s = Inr s'"
    then have "s' = delete_batch s" by (auto simp: abort_change_batch_def if_results)
    then show False using gone [of s'] stays [OF store_step.abort [OF a]] by (simp add: delete_batch_def)
  qed
  show "\<exists>e. begin_change_batch other cur nxt ids s = Inl e"
    by (rule refused) (use begin_change_batch_Inr(1) [OF _ store_invD(5) [OF inv]] active in fastforce)
  show "\<exists>e. begin_r3_change_batch L other cur nxt deps s = Inl e"
    by (rule refused) (use begin_r3_change_batch_Inr(1) [OF _ store_invD(5) [OF inv]] active in fastforce)
  show "\<exists>e. begin_transfer_change_batch L other cur nxt changes downloads s = Inl e"
    by (rule refused, erule begin_transfer_change_batch_Inr [OF _ inv]) (simp add: active)
qed

end
