(* ===== verification/Concrete_Store.thy ===== *)
theory Concrete_Store
  imports Store_Effects Concrete_Run
begin

text \<open>
  A concrete run of the store: a vault is bound, scanned and drained, a typed batch moves the cursor
  with the evidence of the ledger run, and a page with a download becomes active.
\<close>

section \<open>The initial sync\<close>

definition demo_vault ::
    "sync_phase \<Rightarrow> string option \<Rightarrow> string option \<Rightarrow> string option \<Rightarrow> u64 \<Rightarrow> vault_sync_state" where
  "demo_vault p start changes cursor now = \<lparr>vs_vault_id = 5, vs_account_id = Some ''acct'', vs_remote_root_id = ''root'',
     vs_phase = p, vs_start_token = start, vs_scan_page_token = None, vs_changes_page_token = changes,
     vs_durable_cursor = cursor, vs_rescan_required = False, vs_updated_at_unix_ms = now\<rparr>"

definition demo_bound :: sync_store where
  "demo_bound = (empty_store 5)\<lparr>ss_vault_state := Some (demo_vault NeedStartToken None None None 1)\<rparr>"

definition demo_scanning :: sync_store where
  "demo_scanning = (empty_store 5)\<lparr>ss_vault_state := Some (demo_vault Scanning (Some ''t0'') None None 2),
     ss_frontier := [\<lparr>fr_sequence = 1, fr_folder_id = ''root'', fr_portable_path = [], fr_page_token = None\<rparr>]\<rparr>"

definition demo_draining :: sync_store where
  "demo_draining = (empty_store 5)\<lparr>ss_vault_state := Some (demo_vault Draining (Some ''t0'') (Some ''t0'') None 3)\<rparr>"

definition demo_ready :: sync_store where
  "demo_ready = (empty_store 5)\<lparr>ss_vault_state := Some (demo_vault Ready None None (Some ''c1'') 4)\<rparr>"

definition demo_binding :: verified_remote_binding where
  "demo_binding = \<lparr>vb_account_id = ''acct'', vb_remote_root_id = ''root''\<rparr>"

lemma demo_initial_sync:
  "bind_remote_root demo_binding 1 (empty_store 5) = Inr (BindCreated, demo_bound)"
  "begin_initial_scan ''t0'' 2 demo_bound = Inr demo_scanning"
  "apply_scan_page demo_libs None \<lparr>sp_entries = [], sp_next_page_token = None\<rparr> 3 demo_scanning = Inr demo_draining"
  "apply_changes_page demo_libs ''t0'' \<lparr>cp_changes = [], cp_next_page_token = None, cp_new_start_page_token = Some ''c1''\<rparr> 4
     demo_draining = Inr demo_ready"
  by (code_simp; simp?)+

lemma demo_store_steps:
  "store_step demo_libs (empty_store 5) demo_bound" "store_step demo_libs demo_bound demo_scanning"
  "store_step demo_libs demo_scanning demo_draining" "store_step demo_libs demo_draining demo_ready"
proof -
  have "binding_valid demo_binding" by (simp add: binding_valid_def demo_binding_def demo_codes_valid)
  then show "store_step demo_libs (empty_store 5) demo_bound" using demo_initial_sync(1) by (rule store_step.bind)
qed (rule store_step.begin_scan store_step.scan_page store_step.changes_page, rule demo_initial_sync)+

lemma demo_ready_reachable: "store_reachable demo_libs demo_ready"
  using demo_store_steps store_reachable.intros by metis

section \<open>A typed batch\<close>

definition demo_executed :: sync_store where
  "demo_executed = demo_ready\<lparr>ss_ledger := demo_completed\<rparr>"

definition demo_dependency :: change_batch_dependency where
  "demo_dependency = \<lparr>dep_operation_id = 7, dep_kind = Mutation\<rparr>"

definition demo_row :: "local_mutation_state \<Rightarrow> uuid option \<Rightarrow> batch_mutation" where
  "demo_row q e = \<lparr>bm_batch_id = 11, bm_mutation_id = uuid_text 7, bm_dependency_kind = Typed Mutation,
     bm_operation_id = Some 7, bm_committed_evidence_id = e, bm_state = q\<rparr>"

definition demo_batch :: "local_mutation_state \<Rightarrow> uuid option \<Rightarrow> sync_store" where
  "demo_batch q e = demo_executed\<lparr>ss_batch := Some \<lparr>br_batch_id = 11, br_expected_cursor = ''c1'', br_next_cursor = ''c2''\<rparr>,
     ss_batch_mutations := [demo_row q e]\<rparr>"

definition demo_advanced :: sync_store where
  "demo_advanced = demo_executed\<lparr>ss_vault_state := Some (demo_vault Ready None None (Some ''c2'') 400)\<rparr>"

lemma demo_executed_reachable: "store_reachable demo_libs demo_executed"
proof -
  have "store_reachable demo_libs (demo_ready\<lparr>ss_ledger := g\<rparr>)" if "ledger_reachable demo_libs g" for g
    using that
  proof (induction rule: ledger_reachable.induct)
    case start
    have "demo_ready\<lparr>ss_ledger := empty_ledger\<rparr> = demo_ready" by (simp add: demo_ready_def empty_store_def)
    then show ?case using demo_ready_reachable by simp
  next
    case (step g g')
    have "store_step demo_libs (demo_ready\<lparr>ss_ledger := g\<rparr>) (demo_ready\<lparr>ss_ledger := g, ss_ledger := g'\<rparr>)"
      by (rule store_step.ledger) (use step in simp)
    then show ?case using step.IH store_reachable.step by fastforce
  qed
  then show ?thesis unfolding demo_executed_def using demo_reachable(3) .
qed


lemma demo_uuid_text [simp]: "uuid_to_string demo_libs = uuid_text"
  by (simp add: demo_libs_def)

lemma demo_requests_ok: "batch_request_ok 11 ''c1'' ''c2'' = Inr ()" "cursor_ready ''c1'' demo_ready = Inr ()"
  "validate_remote_token ''c1'' = Inr ()" "validate_remote_token ''c2'' = Inr ()"
  by (code_simp; simp?)+

lemma cursor_ready_cong: "ss_vault_state s' = ss_vault_state s \<Longrightarrow> ss_vault_id s' = ss_vault_id s \<Longrightarrow> cursor_ready c s' = cursor_ready c s"
  by (cases "ss_vault_state s") (simp_all add: cursor_ready_def require_state_def load_state_def)

lemmas batch_run = demo_requests_ok load_change_batch_def batch_rows_def active_batch_def insert_batch_def insert_batch_mutation_def
  ledger_run demo_rows dependency_ok_def typed_row_def demo_dependency_def is_nil_def find_batch_mutation_def

lemma demo_tables:
  "ss_batch demo_executed = None" "ss_batch_mutations demo_executed = []" "ss_ledger demo_executed = demo_completed"
  "ss_transfers demo_executed = []" "cursor_ready ''c1'' demo_executed = Inr ()"
  "ss_vault_state demo_executed = Some (demo_vault Ready None None (Some ''c1'') 4)"
  using demo_requests_ok(2) cursor_ready_cong [of demo_executed demo_ready]
  by (simp_all add: demo_executed_def demo_ready_def empty_store_def)

lemma demo_batch_begin:
  "begin_r3_change_batch demo_libs 11 ''c1'' ''c2'' [demo_dependency] demo_executed = Inr (demo_batch LocalPending None)"
  by (simp add: begin_r3_change_batch_def demo_tables batch_run demo_batch_def demo_row_def)

lemma demo_batch_dependency:
  "commit_r3_change_dependency demo_libs 11 demo_dependency 9 (demo_batch LocalPending None) = Inr (demo_batch LocalCommitted (Some 9))"
  by (simp add: commit_r3_change_dependency_def demo_tables batch_run demo_batch_def demo_row_def
      require_exact_r3_completion_evidence_def completion_event_def)

lemma demo_batch_commit:
  "commit_r3_change_batch demo_libs 11 400 (demo_batch LocalCommitted (Some 9)) = Inr demo_advanced"
  by (simp add: commit_r3_change_batch_def demo_tables batch_run demo_batch_def demo_row_def legacy_v3_dependency_count_def
      transfer_backed_mutation_count_def joined_transfer_def r3_incomplete_def is_null_def sql_ne_def
      advance_cursor_def set_state_def delete_batch_def demo_advanced_def demo_vault_def)

lemma demo_batch_reachable:
  "store_reachable demo_libs (demo_batch LocalPending None)" "store_reachable demo_libs (demo_batch LocalCommitted (Some 9))"
  "store_reachable demo_libs demo_advanced"
proof -
  show a: "store_reachable demo_libs (demo_batch LocalPending None)"
    using demo_executed_reachable store_step.begin_r3_batch [OF demo_batch_begin] by (rule store_reachable.step)
  show b: "store_reachable demo_libs (demo_batch LocalCommitted (Some 9))"
    using a store_step.commit_dependency [OF demo_batch_dependency] by (rule store_reachable.step)
  show "store_reachable demo_libs demo_advanced"
    using b store_step.commit_r3_batch [OF demo_batch_commit] by (rule store_reachable.step)
qed

section \<open>A page with a download\<close>

definition demo_entry :: remote_entry where
  "demo_entry = \<lparr>re_file_id = ''f1'', re_parent_id = ''root'', re_path = ''a.md'', re_kind = File,
     re_content_hash = None, re_remote_revision = ''r1''\<rparr>"

definition demo_transfer :: transfer_record where
  "demo_transfer = \<lparr>tr_operation_id = 21, tr_direction = TransferDownload, tr_portable_path = ''a.md'',
     tr_remote_parent_id = ''root'', tr_remote_file_id = Some ''f1'', tr_display_name = ''a.md'',
     tr_expected_local_revision = None, tr_expected_remote_revision = Some ''r1'',
     tr_sha256 = replicate 64 CHR ''a'', tr_byte_length = 3, tr_mime_class = MimeMarkdown, tr_operation_marker = ''m-21'',
     tr_stage_reference = None, tr_base_reference = None, tr_phase = TransferPending, tr_attempt_count = 0,
     tr_next_attempt_at_unix_ms = 10, tr_created_at_unix_ms = 10, tr_updated_at_unix_ms = 10,
     tr_last_error_code = None, tr_verified_local_revision = None, tr_verified_remote_revision = None\<rparr>"

definition demo_page :: sync_store where
  "demo_page = demo_ready\<lparr>ss_batch := Some \<lparr>br_batch_id = 12, br_expected_cursor = ''c1'', br_next_cursor = ''c2''\<rparr>,
     ss_remote_entries := [\<lparr>rr_entry = demo_entry, rr_base = None\<rparr>], ss_transfers := [demo_transfer],
     ss_batch_mutations := [legacy_row 12 (uuid_text 21)]\<rparr>"

lemma demo_page_begin:
  "begin_transfer_change_batch demo_libs 12 ''c1'' ''c2'' [Upsert demo_entry] [demo_transfer] demo_ready = Inr demo_page"
  by (code_simp; simp?)

definition demo_running :: sync_store where
  "demo_running = demo_page\<lparr>ss_transfers := [demo_transfer\<lparr>tr_phase := TransferRunning, tr_updated_at_unix_ms := 20\<rparr>]\<rparr>"

lemma demo_claim_transfer:
  "claim_next_transfer demo_libs 20 demo_page = Inr (Some (demo_transfer\<lparr>tr_phase := TransferRunning, tr_updated_at_unix_ms := 20\<rparr>),
     demo_running)"
  by (code_simp; simp?)

lemma demo_page_reachable: "store_reachable demo_libs demo_page" "store_reachable demo_libs demo_running"
proof -
  show p: "store_reachable demo_libs demo_page"
    using demo_ready_reachable store_step.begin_transfer_batch [OF demo_page_begin] by (rule store_reachable.step)
  show "store_reachable demo_libs demo_running"
    using p store_step.claim_transfer [OF demo_claim_transfer] by (rule store_reachable.step)
qed

end
