(* ===== verification/Store_Properties.thy ===== *)
theory Store_Properties
  imports Concrete_Store Ledger_Properties
begin

text \<open>
  The properties of the whole sync store: its invariant, what moves the durable cursor, when a typed
  batch commits, the lifecycle of a transfer, recovery, and the fate of a page with downloads.
\<close>

section \<open>Committing a typed batch\<close>

definition r3_row_complete :: "libs \<Rightarrow> sync_store \<Rightarrow> batch_mutation \<Rightarrow> bool" where
  "r3_row_complete L s m = (bm_dependency_kind m \<noteq> LegacyV3 \<and> bm_state m = LocalCommitted
     \<and> bm_committed_evidence_id m \<noteq> None \<and> joined_transfer L s (bm_mutation_id m) = None)"

lemma all_rows:
  assumes "batch_inv L s" "ss_batch s = Some r"
  shows "batch_rows s (br_batch_id r) = ss_batch_mutations s"
  using assms by (simp add: batch_inv_def batch_rows_def)

lemma rows_complete_iff:
  assumes inv: "store_inv L s" and r: "ss_batch s = Some r"
  shows "legacy_v3_dependency_count s (br_batch_id r) = 0 \<and> transfer_backed_mutation_count L s (br_batch_id r) = 0
     \<and> count_where (r3_incomplete s) (batch_rows s (br_batch_id r)) = 0
    \<longleftrightarrow> (\<forall>m \<in> set (ss_batch_mutations s). r3_row_complete L s m)"
  unfolding legacy_v3_dependency_count_def transfer_backed_mutation_count_def all_rows [OF store_invD(5) [OF inv] r]
    count_where_0 r3_row_complete_def
  by (auto simp: r3_incomplete_iff [OF inv])

section \<open>Properties\<close>

text \<open>
  C2: every database the calls of the store can produce satisfies the invariant of its tables: the
  tokens each phase of the initial sync holds, the order of the scan frontier, valid and uniquely
  keyed remote metadata, histories that list exactly the finished jobs and transfers, unique
  operation markers, rows of the cursor batch that belong to the active batch, and typed rows whose
  committed evidence is the ledger's evidence of their completed operation; and in the mutation ledger
  valid intents, one state row for each, events with the versions \<open>0..v\<close> without a gap that end in
  the current phase, blocked intents that never run, and completion backed by evidence.
\<close>

theorem store_invariant: "store_reachable L s \<Longrightarrow> store_inv L s"
  by (rule store_reachable_inv)

theorem store_invariant_witness: "store_inv demo_libs demo_advanced \<and> store_inv demo_libs demo_running"
  using store_invariant [OF demo_batch_reachable(3)] store_invariant [OF demo_page_reachable(2)] by blast

text \<open>
  C1: the durable cursor gets a new value in two ways only. Either the call applied the last page of
  the initial drain: the vault was draining at exactly the cursor the page answers, the page has no
  successor, its new start token is the new cursor, and the vault is ready afterwards. Or the active
  batch, which expected the old value, commits: then every dependency of the batch is typed,
  its operation is completed in the ledger, and the evidence the row was committed with passes the
  verification of the operation's intent; the batch is gone afterwards.
\<close>

theorem cursor_moves_only_with_proof:
  assumes "store_reachable L s" "store_step L s s'" "durable s' = Some c" "durable s \<noteq> Some c"
  shows "(\<exists>cursor page now v v'. apply_changes_page L cursor page now s = Inr s'
          \<and> cp_next_page_token page = None \<and> cp_new_start_page_token page = Some c
          \<and> ss_vault_state s = Some v \<and> vs_phase v = Draining \<and> vs_changes_page_token v = Some cursor
          \<and> ss_vault_state s' = Some v' \<and> vs_phase v' = Ready)
     \<or> (\<exists>b. ss_batch s = Some b \<and> durable s = Some (br_expected_cursor b) \<and> c = br_next_cursor b \<and> ss_batch s' = None
          \<and> (\<forall>m \<in> set (batch_rows s (br_batch_id b)). dependency_proven (ss_ledger s) m))"
proof -
  note effect = store_step_effect [OF assms(2) store_reachable_inv [OF assms(1)]]
  have "\<not> begin_effect s s'" "\<not> abort_effect L s s'"
    using assms(3, 4) by (auto simp: begin_effect_def abort_effect_def durable_def delete_batch_def)
  then have "drain_ended L s s' \<or> commit_effect s s'" using effect assms(3, 4) by (auto simp: scan_effect_def)
  then show ?thesis using assms(3, 4) by (fastforce simp: drain_ended_def commit_effect_def)
qed

theorem cursor_moves_only_with_proof_witness:
  "durable demo_advanced = Some ''c2'' \<and> dependency_proven demo_completed (demo_row LocalCommitted (Some 9))"
proof -
  have cursors: "durable demo_advanced = Some ''c2''" "durable (demo_batch LocalCommitted (Some 9)) = Some ''c1''"
    "\<not> is_some_and (ss_vault_state (demo_batch LocalCommitted (Some 9))) (\<lambda>v. vs_phase v = Draining)"
    by (simp_all add: durable_def demo_advanced_def demo_batch_def demo_tables demo_vault_def)
  have "\<forall>m \<in> set (batch_rows (demo_batch LocalCommitted (Some 9)) 11). dependency_proven (ss_ledger (demo_batch LocalCommitted (Some 9))) m"
    using cursor_moves_only_with_proof [OF demo_batch_reachable(2) store_step.commit_r3_batch [OF demo_batch_commit] cursors(1)] cursors(2, 3)
    by (auto simp: demo_batch_def)
  then show ?thesis using cursors(1) by (simp add: demo_batch_def demo_tables batch_rows_def demo_row_def)
qed

text \<open>
  C3: a typed batch commits exactly when it is the active batch, the vault is ready at the cursor the
  batch expects, and every row is typed, committed with evidence and not backed by a transfer. The
  commit moves the cursor and removes the batch with its rows, and changes nothing else.
\<close>

theorem commit_r3_change_batch_result:
  assumes reach: "store_reachable L s" and now: "fits_i64 now"
  shows "commit_r3_change_batch L batch now s = Inr s' \<longleftrightarrow>
     (\<exists>r v. ss_batch s = Some r \<and> br_batch_id r = batch \<and> ss_vault_state s = Some v \<and> vs_phase v = Ready
       \<and> vs_durable_cursor v = Some (br_expected_cursor r) \<and> (\<forall>m \<in> set (ss_batch_mutations s). r3_row_complete L s m)
       \<and> s' = s\<lparr>ss_vault_state := Some (v\<lparr>vs_durable_cursor := Some (br_next_cursor r), vs_updated_at_unix_ms := now\<rparr>),
           ss_batch := None, ss_batch_mutations := []\<rparr>)"
proof (cases "\<exists>r. ss_batch s = Some r \<and> br_batch_id r = batch")
  case True
  note inv = store_reachable_inv [OF reach]
  obtain r where r: "ss_batch s = Some r" "br_batch_id r = batch" using True by blast
  obtain b where b: "active_batch batch s = Inr b" using active_batch_ok(1) [OF store_invD(5) [OF inv] r(1)] r(2) by blast
  have cur: "cb_expected_cursor b = br_expected_cursor r" "cb_next_cursor b = br_next_cursor r"
    by (rule active_batch_Inr [OF b], simp add: r)+
  have gone: "delete_batch (s\<lparr>ss_vault_state := v\<rparr>) = s\<lparr>ss_vault_state := v, ss_batch := None, ss_batch_mutations := []\<rparr>" for v
    using all_rows [OF store_invD(5) [OF inv] r(1)] r
    by (auto simp: delete_batch_def batch_rows_def filter_empty_conv filter_id_conv)
  have "commit_r3_change_batch L batch now s = Inr s' \<longleftrightarrow>
      (\<forall>m \<in> set (ss_batch_mutations s). r3_row_complete L s m) \<and> advance_cursor b now s = Inr s'"
    unfolding rows_complete_iff [OF inv r(1), symmetric] r(2) commit_r3_change_batch_def using now b
    by (simp add: u64_to_i64_def if_results del: count_where_0)
  also have "advance_cursor b now s = Inr s' \<longleftrightarrow> (\<exists>v. ss_vault_state s = Some v \<and> vs_phase v = Ready
       \<and> vs_durable_cursor v = Some (br_expected_cursor r)
       \<and> s' = s\<lparr>ss_vault_state := Some (v\<lparr>vs_durable_cursor := Some (br_next_cursor r), vs_updated_at_unix_ms := now\<rparr>),
           ss_batch := None, ss_batch_mutations := []\<rparr>)"
    unfolding gone [symmetric] by (cases "ss_vault_state s") (auto simp: advance_cursor_def set_state_def cur)
  finally show ?thesis using r by auto
next
  case False
  have "commit_r3_change_batch L batch now s \<noteq> Inr s'"
  proof
    assume "commit_r3_change_batch L batch now s = Inr s'"
    then obtain b where b: "active_batch batch s = Inr b" using commits_Inr(3) by blast
    show False by (rule active_batch_Inr [OF b]) (use False in blast)
  qed
  then show ?thesis using False by blast
qed

theorem commit_r3_change_batch_result_witness:
  "commit_r3_change_batch demo_libs 11 400 (demo_batch LocalCommitted (Some 9)) = Inr demo_advanced
   \<and> r3_row_complete demo_libs (demo_batch LocalCommitted (Some 9)) (demo_row LocalCommitted (Some 9))"
proof -
  have "\<forall>m \<in> set (ss_batch_mutations (demo_batch LocalCommitted (Some 9))). r3_row_complete demo_libs (demo_batch LocalCommitted (Some 9)) m"
    using commit_r3_change_batch_result [OF demo_batch_reachable(2), of 400 11 demo_advanced] demo_batch_commit
    by (auto simp: fits_i64_def)
  then show ?thesis using demo_batch_commit by (simp add: demo_batch_def)
qed

text \<open>
  C4: a transfer moves only by the lifecycle contract. After any call of the store the transfer is
  still there, with the identity, direction, path, parent, name, expected revisions, digest, length,
  class, marker, stage and creation time it was registered with, and with the same remote file and
  base reference once it has them; its phase is the same or one step of the contract further. A
  transfer completes only with verified revisions, which are the ones it expected where it expected
  any, and a completed transfer is not touched again.
\<close>

theorem transfer_follows_lifecycle:
  assumes "store_reachable L s" "store_step L s s'" "find_transfer s op = Some t"
  shows "\<exists>t'. find_transfer s' op = Some t' \<and> transfer_kept t t'
     \<and> (tr_phase t' = tr_phase t \<or> phase_step (tr_phase t) (tr_phase t')) \<and> (tr_phase t = TransferCompleted \<longrightarrow> t' = t)
     \<and> (tr_phase t \<noteq> TransferCompleted \<and> tr_phase t' = TransferCompleted \<longrightarrow> transfer_verified t')"
proof -
  obtain t' where t': "find_transfer s' op = Some t'" "row_step t t'"
    using store_step_follow [OF assms(2) store_reachable_inv [OF assms(1)]] assms(3) by (auto simp: transfers_follow_def)
  show ?thesis by (rule exI [of _ t']) (use t' in \<open>auto simp: row_step_def\<close>)
qed

theorem transfer_follows_lifecycle_witness:
  "\<exists>t'. find_transfer demo_running 21 = Some t' \<and> transfer_kept demo_transfer t' \<and> phase_step TransferPending (tr_phase t')"
proof -
  have t: "find_transfer demo_page 21 = Some demo_transfer"
    by (simp add: find_transfer_def demo_page_def demo_transfer_def)
  have "find_transfer demo_running 21 = Some t' \<Longrightarrow> tr_phase t' = TransferRunning" for t'
    by (auto simp: find_transfer_def demo_running_def demo_transfer_def)
  then show ?thesis
    using transfer_follows_lifecycle [OF demo_page_reachable(1) store_step.claim_transfer [OF demo_claim_transfer] t]
    by (auto simp: demo_transfer_def)
qed



text \<open>
  C7: a page that needs a download never leaves the store. Once it has begun, in every later state the
  batch is still active and every call that would commit it, abort it or begin another batch is
  refused: its rows are stored as \<open>legacy_v3\<close>, which no commit accepts, and they are backed by
  transfers, which the abort refuses.
\<close>

theorem download_page_never_leaves:
  assumes "store_reachable L s" "begin_transfer_change_batch L batch cur nxt changes downloads s = Inr s1"
    "downloads \<noteq> []" "(store_step L)\<^sup>*\<^sup>* s1 s2"
  shows "ss_batch s2 = ss_batch s1
    \<and> (\<exists>e. commit_change_batch L any_batch now s2 = Inl e) \<and> (\<exists>e. commit_transfer_change_batch L any_batch now s2 = Inl e)
    \<and> (\<exists>e. commit_r3_change_batch L any_batch now s2 = Inl e) \<and> (\<exists>e. abort_change_batch L any_batch s2 = Inl e)
    \<and> (\<exists>e. begin_change_batch other c1 c2 ids s2 = Inl e) \<and> (\<exists>e. begin_r3_change_batch L other c1 c2 deps s2 = Inl e)
    \<and> (\<exists>e. begin_transfer_change_batch L other c1 c2 changes2 downloads2 s2 = Inl e)"
proof -
  note inv = store_reachable_inv [OF assms(1)]
  obtain t ts where downloads: "downloads = t # ts" using assms(3) by (cases downloads) auto
  let ?b = "\<lparr>br_batch_id = batch, br_expected_cursor = cur, br_next_cursor = nxt\<rparr>"
  let ?m = "transfer_mutation_id L (tr_operation_id t)"
  have start: "download_row L s1 ?b ?m \<and> store_inv L s1"
  proof (rule begin_transfer_change_batch_Inr [OF assms(2) inv])
    fix rs and new :: "transfer_record list"
    assume a: "store_inv L s1" "\<forall>t \<in> set downloads. find_transfer s1 (tr_operation_id t) \<noteq> None"
      "s1 = s\<lparr>ss_batch := Some ?b, ss_remote_entries := rs, ss_transfers := ss_transfers s @ new,
        ss_batch_mutations := map (\<lambda>t. legacy_row batch (transfer_mutation_id L (tr_operation_id t))) downloads\<rparr>"
    have "joined_transfer L s1 ?m \<noteq> None"
      using a(2) downloads by (auto simp: find_transfer_def joined_transfer_def find_None_iff transfer_mutation_id_def)
    then show ?thesis using a(1, 3) downloads by (simp add: download_row_def row_sig_def legacy_row_def)
  qed
  have row: "download_row L s2 ?b ?m" and inv2: "store_inv L s2"
    using assms(4) start by (induction rule: rtranclp_induct) (auto intro: download_row_kept store_step_inv)
  have "ss_batch s2 = ss_batch s1" using row start by (simp add: download_row_def)
  then show ?thesis by (intro conjI download_row_refuses [OF inv2 row])
qed

theorem download_page_never_leaves_witness:
  "ss_batch demo_running \<noteq> None \<and> (\<exists>e. commit_transfer_change_batch demo_libs 12 500 demo_running = Inl e)"
proof -
  have "(store_step demo_libs)\<^sup>*\<^sup>* demo_page demo_running"
    using store_step.claim_transfer [OF demo_claim_transfer] by blast
  from download_page_never_leaves [OF demo_ready_reachable demo_page_begin _ this, where any_batch = 12 and now = 500]
  show ?thesis by (simp add: demo_page_def)
qed

end
