(* ===== verification/Scan_Tree.thy ===== *)
theory Scan_Tree
  imports Store_Invariant "HOL-Library.Multiset"
begin

text \<open>
  The initial scan against a provider that serves a finite folder tree: the frontier of the store is
  a work list of folders with the pages still to read, and one call of the driver reads one page.
\<close>

section \<open>A folder tree in pages\<close>

text \<open>
  A folder with its pages; a page is requested by its token and holds entries, the folders among them
  with their own trees.
\<close>

datatype remote_folder = RemoteFolder (rf_id: string) (rf_path: string) (rf_pages: "remote_page list")
and remote_page = RemotePage (pg_token: "string option") (pg_entries: "remote_entry list") (pg_folders: "remote_folder list")

fun folder_total :: "remote_folder \<Rightarrow> nat"
and page_total :: "remote_page \<Rightarrow> nat" where
  "folder_total (RemoteFolder i p pgs) = sum_list (map page_total pgs)"
| "page_total (RemotePage t es fs) = Suc (sum_list (map folder_total fs))"

fun folder_entries :: "remote_folder \<Rightarrow> remote_entry list"
and page_entries :: "remote_page \<Rightarrow> remote_entry list" where
  "folder_entries (RemoteFolder i p pgs) = concat (map page_entries pgs)"
| "page_entries (RemotePage t es fs) = es @ concat (map folder_entries fs)"

text \<open>What a page of folder \<open>i\<close> at path \<open>p\<close> contains.\<close>

definition child_ok :: "libs \<Rightarrow> string \<Rightarrow> string \<Rightarrow> remote_entry \<Rightarrow> bool" where
  "child_ok L i p e = (remote_entry_validate L e = Inr () \<and> re_parent_id e = i
     \<and> is_some_and (relative_child p (re_path e)) (\<lambda>r. r \<noteq> [] \<and> CHR ''/'' \<notin> set r))"

definition folders_of :: "remote_entry list \<Rightarrow> remote_entry list" where
  "folders_of es = filter (\<lambda>e. re_kind e = Folder) es"

fun folder_ok :: "libs \<Rightarrow> remote_folder \<Rightarrow> bool"
and page_ok :: "libs \<Rightarrow> string \<Rightarrow> string \<Rightarrow> remote_page \<Rightarrow> bool" where
  "folder_ok L (RemoteFolder i p pgs) = (pgs \<noteq> [] \<and> list_all (page_ok L i p) pgs
     \<and> list_all (\<lambda>pg. is_some_and (pg_token pg) valid_token) (tl pgs))"
| "page_ok L i p (RemotePage t es fs) = (length es \<le> MAX_SCAN_PAGE_ENTRIES \<and> list_all (child_ok L i p) es
     \<and> map rf_id fs = map re_file_id (folders_of es) \<and> map rf_path fs = map re_path (folders_of es)
     \<and> list_all (folder_ok L) fs \<and> list_all (\<lambda>f. pg_token (hd (rf_pages f)) = None) fs)"

definition following_token :: "remote_page list \<Rightarrow> string option" where
  "following_token pgs = (case pgs of [] \<Rightarrow> None | pg # _ \<Rightarrow> pg_token pg)"

text \<open>The provider answers every page request of the tree, and stays as it is.\<close>

fun serves :: "'c drive_client \<Rightarrow> 'c \<Rightarrow> remote_folder \<Rightarrow> bool"
and serves_pages :: "'c drive_client \<Rightarrow> 'c \<Rightarrow> string \<Rightarrow> string \<Rightarrow> remote_page list \<Rightarrow> bool" where
  "serves C c (RemoteFolder i p pgs) = serves_pages C c i p pgs"
| "serves_pages C c i p [] = True"
| "serves_pages C c i p (RemotePage t es fs # pgs) =
     (scan_folder_page C \<lparr>sr_folder_id = i, sr_folder_path = p, sr_page_token = t\<rparr> c
        = (Inr \<lparr>sp_entries = es, sp_next_page_token = following_token pgs\<rparr>, c)
      \<and> list_all (serves C c) fs \<and> serves_pages C c i p pgs)"

text \<open>The caller's loop: the driver is called until it has committed \<open>n\<close> steps.\<close>

fun sync_steps :: "libs \<Rightarrow> 'c drive_client \<Rightarrow> u64 \<Rightarrow> nat \<Rightarrow> sync_store \<Rightarrow> 'c \<Rightarrow> (sync_store \<times> 'c) option" where
  "sync_steps L C now 0 s c = Some (s, c)"
| "sync_steps L C now (Suc n) s c =
     (case advance_initial_sync L C now s c of
        (Inl e, s1, c1) \<Rightarrow> None
      | (Inr r, s1, c1) \<Rightarrow> sync_steps L C now n s1 c1)"

section \<open>The work list\<close>

fun work_step :: "remote_folder list \<Rightarrow> remote_folder list" where
  "work_step (RemoteFolder i p (RemotePage t es fs # pgs) # rest) =
     (if pgs = [] then rest @ fs else RemoteFolder i p pgs # rest @ fs)"
| "work_step ws = ws"

definition work_total :: "remote_folder list \<Rightarrow> nat" where
  "work_total ws = sum_list (map folder_total ws)"

definition work_entries :: "remote_folder list \<Rightarrow> remote_entry list" where
  "work_entries ws = concat (map folder_entries ws)"

lemma work_step_total:
  "work_total (RemoteFolder i p (RemotePage t es fs # pgs) # rest)
     = Suc (work_total (work_step (RemoteFolder i p (RemotePage t es fs # pgs) # rest)))"
  by (simp add: work_total_def)

lemma work_step_entries:
  "mset (work_entries (RemoteFolder i p (RemotePage t es fs # pgs) # rest))
     = mset es + mset (work_entries (work_step (RemoteFolder i p (RemotePage t es fs # pgs) # rest)))"
  by (simp add: work_entries_def)

lemma work_step_ok:
  assumes "list_all (folder_ok L) (RemoteFolder i p (RemotePage t es fs # pgs) # rest)"
  shows "list_all (folder_ok L) (work_step (RemoteFolder i p (RemotePage t es fs # pgs) # rest))"
  using assms by (cases pgs) auto

lemma work_step_serves:
  assumes "list_all (serves C c) (RemoteFolder i p (RemotePage t es fs # pgs) # rest)"
  shows "list_all (serves C c) (work_step (RemoteFolder i p (RemotePage t es fs # pgs) # rest))"
  using assms by auto

section \<open>One page goes through\<close>

lemma validate_children_ok:
  assumes "list_all (child_ok L i p) es" "distinct (map re_file_id es)" "set (map re_file_id es) \<inter> set ids = {}"
    and "root \<notin> re_file_id ` set es" "\<forall>e \<in> set es. find_remote s (re_file_id e) = None"
    and "fr_folder_id cur = i" "fr_portable_path cur = p"
  shows "validate_children L s root cur ids es = Inr ()"
  using assms
proof (induction es arbitrary: ids)
  case (Cons e es)
  obtain r where r: "relative_child p (re_path e) = Some r" "r \<noteq> []" "CHR ''/'' \<notin> set r"
    using Cons.prems(1) by (auto simp: child_ok_def is_some_and_def split: option.splits)
  have "validate_children L s root cur (re_file_id e # ids) es = Inr ()"
    by (rule Cons.IH) (use Cons.prems in auto)
  then show ?case using Cons.prems r by (auto simp: child_ok_def)
qed simp

lemma upsert_new:
  assumes "distinct (map re_file_id es)" "\<forall>e \<in> set es. re_file_id e \<notin> (re_file_id \<circ> rr_entry) ` set rows"
  shows "fold upsert_rows es rows = rows @ map (\<lambda>e. \<lparr>rr_entry = e, rr_base = None\<rparr>) es"
  using assms
proof (induction es arbitrary: rows)
  case (Cons e es)
  have "upsert_rows e rows = rows @ [\<lparr>rr_entry = e, rr_base = None\<rparr>]"
    using Cons.prems(2) by (auto simp: upsert_rows_def list_ex_iff image_iff)
  moreover have "fold upsert_rows es (rows @ [\<lparr>rr_entry = e, rr_base = None\<rparr>])
      = (rows @ [\<lparr>rr_entry = e, rr_base = None\<rparr>]) @ map (\<lambda>e. \<lparr>rr_entry = e, rr_base = None\<rparr>) es"
    by (rule Cons.IH) (use Cons.prems in \<open>auto simp: image_iff\<close>)
  ultimately show ?case by simp
qed simp

lemma upsert_entries_ok:
  assumes "\<forall>e \<in> set es. remote_entry_validate L e = Inr ()"
  shows "upsert_entries L es s = Inr (s\<lparr>ss_remote_entries := fold upsert_rows es (ss_remote_entries s)\<rparr>)"
  using assms by (induction es arbitrary: s) (simp_all add: upsert_remote_entry_def)

lemma enqueue_folders_ok:
  assumes "distinct (map re_file_id es)" "\<forall>e \<in> set es. re_file_id e \<notin> fr_folder_id ` set (ss_frontier s)"
    and "\<forall>r \<in> set (ss_frontier s). fr_sequence r \<le> n" "cur \<in> set (ss_frontier s)"
    and "n + int (length es) < 2 ^ 63" "k + length es \<le> MAX_SCAN_FRONTIER_FOLDERS"
  shows "enqueue_folders cur n k es s = Inr (s\<lparr>ss_frontier := ss_frontier s @ new_rows n es\<rparr>)"
  using assms
proof (induction es arbitrary: n k s)
  case (Cons e es)
  let ?s1 = "s\<lparr>ss_frontier := ss_frontier s @ [\<lparr>fr_sequence = n + 1, fr_folder_id = re_file_id e,
        fr_portable_path = re_path e, fr_page_token = None\<rparr>]\<rparr>"
  have "insert_frontier (n + 1) (re_file_id e) (re_path e) s = Inr ?s1"
    using Cons.prems(2, 3) by (force simp: insert_frontier_def list_ex_iff)
  moreover have "enqueue_folders cur (n + 1) (k + 1) es ?s1 = Inr (?s1\<lparr>ss_frontier := ss_frontier ?s1 @ new_rows (n + 1) es\<rparr>)"
    by (rule Cons.IH) (use Cons.prems in \<open>auto simp: image_iff\<close>)
  moreover have "find (\<lambda>r. fr_folder_id r = re_file_id e) (ss_frontier s) = None" "re_file_id e \<noteq> fr_folder_id cur"
    using Cons.prems(2, 4) by (auto simp: find_None_iff image_iff)
  moreover have "k + 1 < usize_limit" using Cons.prems(6) by (simp add: usize_limit_def MAX_SCAN_FRONTIER_FOLDERS_def)
  ultimately show ?case using Cons.prems(5, 6) by simp
qed simp

section \<open>The store follows the work list\<close>

definition first_token :: "remote_folder \<Rightarrow> string option" where
  "first_token f = following_token (rf_pages f)"

definition work_row :: "remote_folder \<Rightarrow> string \<times> string \<times> string option" where
  "work_row f = (rf_id f, rf_path f, first_token f)"

definition frontier_key :: "frontier_row \<Rightarrow> string \<times> string \<times> string option" where
  "frontier_key r = (fr_folder_id r, fr_portable_path r, fr_page_token r)"

text \<open>The identifiers still to come are new, and they fit into the frontier.\<close>

definition work_fresh :: "string \<Rightarrow> sync_store \<Rightarrow> remote_folder list \<Rightarrow> bool" where
  "work_fresh root s ws = (distinct (map re_file_id (work_entries ws)) \<and> root \<notin> re_file_id ` set (work_entries ws)
     \<and> re_file_id ` set (work_entries ws) \<inter> (re_file_id \<circ> rr_entry) ` set (ss_remote_entries s) = {}
     \<and> re_file_id ` set (work_entries ws) \<inter> fr_folder_id ` set (ss_frontier s) = {}
     \<and> length (ss_frontier s) + length (folders_of (work_entries ws)) \<le> MAX_SCAN_FRONTIER_FOLDERS
     \<and> (\<forall>r \<in> set (ss_frontier s). fr_sequence r + int (length (folders_of (work_entries ws))) \<le> int MAX_SCAN_FRONTIER_FOLDERS))"

definition scan_sim :: "libs \<Rightarrow> string \<Rightarrow> sync_store \<Rightarrow> remote_folder list \<Rightarrow> bool" where
  "scan_sim L start s ws = (sync_inv L s \<and> (\<exists>st. ss_vault_state s = Some st \<and> vs_start_token st = Some start
     \<and> vs_account_id st \<noteq> None \<and> work_fresh (vs_remote_root_id st) s ws
     \<and> vs_phase st = (if ws = [] then Draining else Scanning) \<and> (ws = [] \<longrightarrow> vs_changes_page_token st = Some start)
     \<and> map frontier_key (ss_frontier s) = map work_row ws))"

lemma mset_folders: "mset xs = mset ys \<Longrightarrow> length (folders_of xs) = length (folders_of ys)"
  by (metis folders_of_def mset_filter size_mset)

lemma work_fresh_mset:
  assumes "mset (work_entries ws) = mset xs"
  shows "work_fresh root s ws = (distinct (map re_file_id xs) \<and> root \<notin> re_file_id ` set xs
     \<and> re_file_id ` set xs \<inter> (re_file_id \<circ> rr_entry) ` set (ss_remote_entries s) = {}
     \<and> re_file_id ` set xs \<inter> fr_folder_id ` set (ss_frontier s) = {}
     \<and> length (ss_frontier s) + length (folders_of xs) \<le> MAX_SCAN_FRONTIER_FOLDERS
     \<and> (\<forall>r \<in> set (ss_frontier s). fr_sequence r + int (length (folders_of xs)) \<le> int MAX_SCAN_FRONTIER_FOLDERS))"
proof -
  have "set (work_entries ws) = set xs" using assms by (metis set_mset_mset)
  moreover have "distinct (map re_file_id (work_entries ws)) = distinct (map re_file_id xs)"
    using assms by (metis mset_map mset_eq_imp_distinct_iff)
  ultimately show ?thesis unfolding work_fresh_def mset_folders [OF assms] by simp
qed

lemma new_rows_keys:
  assumes "map rf_id fs = map re_file_id es" "map rf_path fs = map re_path es"
    "list_all (\<lambda>f. pg_token (hd (rf_pages f)) = None) fs" "list_all (folder_ok L) fs"
  shows "map frontier_key (new_rows n es) = map work_row fs"
  using assms
proof (induction es arbitrary: fs n)
  case (Cons e es)
  then obtain f fs' where fs: "fs = f # fs'" by (cases fs) auto
  obtain i p pgs where f: "f = RemoteFolder i p pgs" by (cases f)
  then show ?case
    using Cons fs by (cases pgs) (auto simp: work_row_def frontier_key_def first_token_def following_token_def)
qed simp

text \<open>The rest of the frontier after a page.\<close>

definition advanced_rows :: "frontier_row \<Rightarrow> frontier_row list \<Rightarrow> string option \<Rightarrow> frontier_row list" where
  "advanced_rows cur rest tok = (case tok of None \<Rightarrow> rest | Some t \<Rightarrow> cur\<lparr>fr_page_token := tok\<rparr> # rest)"

lemma advance_frontier_ok:
  assumes front: "ss_frontier s = cur # rest" "frontier_ok L (cur # rest)" "ss_vault_state s = Some st"
    "vs_phase st = Scanning" "vs_start_token st = Some start"
  shows "\<exists>st'. advance_frontier st cur tok now s = Inr (s\<lparr>ss_frontier := advanced_rows cur rest tok, ss_vault_state := Some st'\<rparr>)
     \<and> vs_start_token st' = Some start \<and> vs_account_id st' = vs_account_id st \<and> vs_remote_root_id st' = vs_remote_root_id st
     \<and> vs_phase st' = (if advanced_rows cur rest tok = [] then Draining else Scanning)
     \<and> (advanced_rows cur rest tok = [] \<longrightarrow> vs_changes_page_token st' = Some start)"
proof (cases tok)
  case (Some t)
  then show ?thesis
    using front by (intro exI [of _ "st\<lparr>vs_scan_page_token := Some t, vs_updated_at_unix_ms := now\<rparr>"])
      (simp add: advance_frontier_def advanced_rows_def frontier_first [OF front(2)] set_state_def)
next
  case None
  have "load_frontier_head (s\<lparr>ss_frontier := rest\<rparr>) = (case rest of [] \<Rightarrow> None | r # _ \<Rightarrow> Some r)"
    using frontier_head [of L "s\<lparr>ss_frontier := rest\<rparr>"] frontier_ok_tl [OF front(2)] by simp
  moreover have "filter (\<lambda>r. fr_sequence r \<noteq> fr_sequence cur) (ss_frontier s) = rest"
    using frontier_first(2) [OF front(2)] front(1) by simp
  ultimately have "advance_frontier st cur tok now s = (case rest of
      [] \<Rightarrow> Inr (s\<lparr>ss_frontier := [], ss_vault_state := Some (st\<lparr>vs_phase := Draining, vs_scan_page_token := None,
          vs_changes_page_token := Some start, vs_updated_at_unix_ms := now\<rparr>)\<rparr>)
    | r # _ \<Rightarrow> Inr (s\<lparr>ss_frontier := rest, ss_vault_state := Some (st\<lparr>vs_scan_page_token := fr_page_token r,
          vs_updated_at_unix_ms := now\<rparr>)\<rparr>))"
    using None front(3, 5) by (simp add: advance_frontier_def set_state_def Let_def split: list.split)
  then show ?thesis
    using None front(4, 5) by (cases rest) (auto simp: advanced_rows_def)
qed

lemma foldr_max_le: "0 \<le> b \<Longrightarrow> \<forall>x \<in> set xs. x \<le> b \<Longrightarrow> foldr max xs (0 :: int) \<le> b"
  by (induction xs) auto

lemma foldr_max_mem: "xs \<noteq> [] \<Longrightarrow> \<forall>x \<in> set xs. 0 < x \<Longrightarrow> foldr max xs (0 :: int) \<in> set xs"
  by (induction xs rule: list_nonempty_induct) (auto simp: max_def)

lemma folders_of_append [simp]: "folders_of (xs @ ys) = folders_of xs @ folders_of ys"
  by (simp add: folders_of_def)

lemma folders_of_subset: "set (folders_of xs) \<subseteq> set xs"
  by (auto simp: folders_of_def)

lemma distinct_folders_of: "distinct (map re_file_id es) \<Longrightarrow> distinct (map re_file_id (folders_of es))"
  by (simp add: folders_of_def distinct_map_filter)

lemma frontier_rows_cons:
  assumes "map frontier_key rows = map work_row (RemoteFolder i p (RemotePage t es fs # pgs) # rest)"
  obtains cur others where "rows = cur # others" "fr_folder_id cur = i" "fr_portable_path cur = p" "fr_page_token cur = t"
    "map frontier_key others = map work_row rest"
  using assms by (cases rows) (auto simp: frontier_key_def work_row_def first_token_def following_token_def)

text \<open>The store accepts a page of the tree that is new to it.\<close>

lemma apply_page_ok:
  assumes inv: "sync_inv L s" and st: "ss_vault_state s = Some st" "vs_phase st = Scanning" "vs_start_token st = Some start"
    and front: "ss_frontier s = cur # others" "fr_folder_id cur = i" "fr_portable_path cur = p" "fr_page_token cur = t"
    and page: "length es \<le> MAX_SCAN_PAGE_ENTRIES" "list_all (child_ok L i p) es" "is_none_or tok valid_token"
    and new: "distinct (map re_file_id es)" "vs_remote_root_id st \<notin> re_file_id ` set es"
      "re_file_id ` set es \<inter> (re_file_id \<circ> rr_entry) ` set (ss_remote_entries s) = {}"
      "re_file_id ` set es \<inter> fr_folder_id ` set (ss_frontier s) = {}"
      "length (ss_frontier s) + length (folders_of es) \<le> MAX_SCAN_FRONTIER_FOLDERS"
      "\<forall>r \<in> set (ss_frontier s). fr_sequence r + int (length (folders_of es)) \<le> int MAX_SCAN_FRONTIER_FOLDERS"
    and now: "fits_i64 now"
  defines "n \<equiv> foldr max (map fr_sequence (ss_frontier s)) 0"
  shows "\<exists>st'. apply_scan_page L t \<lparr>sp_entries = es, sp_next_page_token = tok\<rparr> now s
     = Inr (s\<lparr>ss_remote_entries := ss_remote_entries s @ map (\<lambda>e. \<lparr>rr_entry = e, rr_base = None\<rparr>) es,
         ss_frontier := advanced_rows cur (others @ new_rows n (folders_of es)) tok, ss_vault_state := Some st'\<rparr>)
     \<and> vs_start_token st' = Some start \<and> vs_account_id st' = vs_account_id st \<and> vs_remote_root_id st' = vs_remote_root_id st
     \<and> vs_phase st' = (if advanced_rows cur (others @ new_rows n (folders_of es)) tok = [] then Draining else Scanning)
     \<and> (advanced_rows cur (others @ new_rows n (folders_of es)) tok = [] \<longrightarrow> vs_changes_page_token st' = Some start)"
proof -
  let ?page = "\<lparr>sp_entries = es, sp_next_page_token = tok\<rparr>"
  let ?s1 = "s\<lparr>ss_remote_entries := ss_remote_entries s @ map (\<lambda>e. \<lparr>rr_entry = e, rr_base = None\<rparr>) es\<rparr>"
  let ?s2 = "?s1\<lparr>ss_frontier := cur # others @ new_rows n (folders_of es)\<rparr>"
  have fo: "frontier_ok L (ss_frontier s)" using sync_invD(2) [OF inv] .
  have head: "load_frontier_head s = Some cur" using frontier_head [OF fo] front(1) by simp
  have tok: "vs_scan_page_token st = t" using sync_invD(5) [OF inv st(1)] st(2) front by simp
  have expected: "for_each validate_remote_token (flatten_opt [t]) = Inr ()"
    using sync_invD(4) [OF inv st(1)] tok by (cases t) (auto simp: state_valid_def valid_token_def)
  have valid: "\<forall>e \<in> set es. remote_entry_validate L e = Inr ()"
    using page(2) by (auto simp: list_all_iff child_ok_def)
  have pv: "scan_page_validate L ?page = Inr ()"
    using page(1, 3) valid by (auto simp: scan_page_validate_def validate_entries_def for_each_eq_Inr valid_token_def split: option.splits)
  have children: "validate_scan_page_children L s (vs_remote_root_id st) cur ?page = Inr ()"
    unfolding validate_scan_page_children_def
    by (simp, rule validate_children_ok [OF page(2) new(1) _ new(2) _ front(2, 3)])
      (use new(3) in \<open>force simp: find_remote_def find_None_iff\<close>)+
  have up: "upsert_entries L es s = Inr ?s1"
  proof -
    have "fold upsert_rows es (ss_remote_entries s) = ss_remote_entries s @ map (\<lambda>e. \<lparr>rr_entry = e, rr_base = None\<rparr>) es"
      by (rule upsert_new [OF new(1)]) (use new(3) in blast)
    then show ?thesis using upsert_entries_ok [OF valid] by simp
  qed
  have le: "\<forall>r \<in> set (ss_frontier s). fr_sequence r \<le> n" by (auto simp: n_def intro!: foldr_max_ge)
  have n: "0 \<le> n" "n + int (length (folders_of es)) \<le> int MAX_SCAN_FRONTIER_FOLDERS"
  proof -
    have "n \<le> int MAX_SCAN_FRONTIER_FOLDERS - int (length (folders_of es))"
      unfolding n_def by (rule foldr_max_le) (use new(5, 6) in auto)
    then show "n + int (length (folders_of es)) \<le> int MAX_SCAN_FRONTIER_FOLDERS" by simp
  qed (simp add: n_def foldr_max_nonneg)
  have disj: "\<forall>e \<in> set (folders_of es). re_file_id e \<notin> fr_folder_id ` set (ss_frontier s)"
    using new(4) folders_of_subset [of es] by blast
  have enq: "enqueue_child_folders cur es ?s1 = Inr ?s2"
  proof -
    have "enqueue_folders cur n (length (ss_frontier ?s1)) (folders_of es) ?s1
        = Inr (?s1\<lparr>ss_frontier := ss_frontier ?s1 @ new_rows n (folders_of es)\<rparr>)"
      by (rule enqueue_folders_ok)
        (use distinct_folders_of [OF new(1)] disj le n(2) new(5) front(1) in \<open>auto simp: MAX_SCAN_FRONTIER_FOLDERS_def\<close>)
    then show ?thesis using front(1) by (simp add: enqueue_child_folders_def n_def folders_of_def)
  qed
  have fo2: "frontier_ok L (cur # others @ new_rows n (folders_of es))"
    using frontier_ok_append [OF fo _ le n(1) _ distinct_folders_of [OF new(1)] disj] valid folders_of_subset [of es] n(2) front(1)
    by (auto simp: MAX_SCAN_FRONTIER_FOLDERS_def)
  have step: "apply_scan_page L t ?page now s = advance_frontier st cur tok now ?s2"
    using expected pv now require_state_ok [OF inv st(1)] st(2) tok head front(4) children up enq
    by (simp add: apply_scan_page_def u64_to_i64_def)
  show ?thesis
    using advance_frontier_ok [of ?s2 cur "others @ new_rows n (folders_of es)" L st start tok now] fo2 st unfolding step by simp
qed

lemma next_request_ok:
  assumes "sync_inv L s" "ss_vault_state s = Some st" "vs_phase st = Scanning" "ss_frontier s = cur # others"
  shows "next_scan_request L s = Inr (Some \<lparr>sr_folder_id = fr_folder_id cur, sr_folder_path = fr_portable_path cur,
     sr_page_token = fr_page_token cur\<rparr>)"
proof -
  have fo: "frontier_ok L (ss_frontier s)" using sync_invD(2) [OF assms(1)] .
  have tok: "vs_scan_page_token st = fr_page_token cur" using sync_invD(5) [OF assms(1, 2)] assms(3, 4) by simp
  have "for_each validate_remote_token (flatten_opt [fr_page_token cur]) = Inr ()"
    using sync_invD(4) [OF assms(1, 2)] tok by (cases "fr_page_token cur") (auto simp: state_valid_def valid_token_def)
  moreover have "load_frontier_head s = Some cur" "frontier_row_ok L cur"
    using frontier_head [OF fo] fo assms(4) by (simp_all add: frontier_ok_def)
  ultimately show ?thesis
    using require_state_ok [OF assms(1, 2)] assms(3) tok by (simp add: next_scan_request_def frontier_row_ok_def)
qed

text \<open>What is new stays new after the page: its own entries leave the list.\<close>

lemma work_fresh_step:
  assumes fresh: "work_fresh root s ws" and ms: "mset (work_entries ws) = mset es + mset (work_entries ws')"
    and entries: "ss_remote_entries s' = ss_remote_entries s @ map (\<lambda>e. \<lparr>rr_entry = e, rr_base = None\<rparr>) es"
    and rows: "set (map fr_folder_id (ss_frontier s')) \<subseteq> set (map fr_folder_id (ss_frontier s)) \<union> re_file_id ` set es"
      "length (ss_frontier s') \<le> length (ss_frontier s) + length (folders_of es)"
      "\<forall>r \<in> set (ss_frontier s'). \<exists>b \<in> set (ss_frontier s). fr_sequence r \<le> fr_sequence b + int (length (folders_of es))"
  shows "work_fresh root s' ws'"
proof -
  let ?xs = "es @ work_entries ws'"
  have eq: "mset (work_entries ws) = mset ?xs" using ms by simp
  note f = fresh [unfolded work_fresh_mset [OF eq]]
  have d: "re_file_id ` set es \<inter> re_file_id ` set (work_entries ws') = {}" using f by auto
  have "(re_file_id \<circ> rr_entry) ` set (ss_remote_entries s') = (re_file_id \<circ> rr_entry) ` set (ss_remote_entries s) \<union> re_file_id ` set es"
    unfolding entries by (simp add: image_Un image_image)
  moreover have "fr_sequence r + int (length (folders_of (work_entries ws'))) \<le> int MAX_SCAN_FRONTIER_FOLDERS"
    if r: "r \<in> set (ss_frontier s')" for r
  proof -
    obtain b where "b \<in> set (ss_frontier s)" "fr_sequence r \<le> fr_sequence b + int (length (folders_of es))" using rows(3) r by blast
    then show ?thesis using f by fastforce
  qed
  moreover have "re_file_id ` set (work_entries ws') \<inter> fr_folder_id ` set (ss_frontier s') = {}"
  proof -
    have "fr_folder_id ` set (ss_frontier s') \<subseteq> fr_folder_id ` set (ss_frontier s) \<union> re_file_id ` set es" using rows(1) by simp
    moreover have "re_file_id ` set (work_entries ws') \<inter> fr_folder_id ` set (ss_frontier s) = {}"
      using f unfolding set_append image_Un by blast
    ultimately show ?thesis using d by blast
  qed
  ultimately show ?thesis using f d rows(2) unfolding work_fresh_def by auto
qed

lemma advanced_rows_keys:
  assumes "is_none_or tok valid_token" "tok = following_token pgs" "list_all (\<lambda>pg. is_some_and (pg_token pg) valid_token) pgs"
    "fr_folder_id cur = i" "fr_portable_path cur = p" "map frontier_key others = map work_row rest"
  shows "map frontier_key (advanced_rows cur others tok) = map work_row (if pgs = [] then rest else RemoteFolder i p pgs # rest)"
  using assms
  by (cases pgs) (auto simp: advanced_rows_def following_token_def frontier_key_def work_row_def first_token_def is_some_and_def
      split: option.splits)

lemma scan_step:
  assumes sim: "scan_sim L start s ws" and ws: "ws = RemoteFolder i p (RemotePage t es fs # pgs) # rest"
    and ok: "list_all (folder_ok L) ws" and serve: "list_all (serves C c) ws" and now: "fits_i64 now"
  shows "\<exists>r s'. advance_initial_sync L C now s c = (Inr r, s', c) \<and> scan_sim L start s' (work_step ws)
     \<and> map rr_entry (ss_remote_entries s') = map rr_entry (ss_remote_entries s) @ es"
proof -
  let ?tok = "following_token pgs"
  obtain st where inv: "sync_inv L s" and st: "ss_vault_state s = Some st" "vs_start_token st = Some start" "vs_account_id st \<noteq> None"
    and fresh: "work_fresh (vs_remote_root_id st) s ws" and ph: "vs_phase st = Scanning"
    and keys: "map frontier_key (ss_frontier s) = map work_row ws"
    using sim ws unfolding scan_sim_def by auto
  obtain cur others where cur: "ss_frontier s = cur # others" "fr_folder_id cur = i" "fr_portable_path cur = p" "fr_page_token cur = t"
    and others: "map frontier_key others = map work_row rest"
    by (rule frontier_rows_cons [OF keys [unfolded ws]])
  have page: "length es \<le> MAX_SCAN_PAGE_ENTRIES" "list_all (child_ok L i p) es"
    and subs: "map rf_id fs = map re_file_id (folders_of es)" "map rf_path fs = map re_path (folders_of es)"
      "list_all (\<lambda>f. pg_token (hd (rf_pages f)) = None) fs" "list_all (folder_ok L) fs"
    and toks: "list_all (\<lambda>pg. is_some_and (pg_token pg) valid_token) pgs"
    using ok unfolding ws by simp_all
  have tok: "is_none_or ?tok valid_token" using toks by (cases pgs) (auto simp: following_token_def is_some_and_def split: option.splits)
  have ms: "mset (work_entries ws) = mset es + mset (work_entries (work_step ws))" unfolding ws by (rule work_step_entries)
  have eq: "mset (work_entries ws) = mset (es @ work_entries (work_step ws))" using ms by simp
  note f = fresh [unfolded work_fresh_mset [OF eq]]
  define n where "n = foldr max (map fr_sequence (ss_frontier s)) 0"
  define rows where "rows = advanced_rows cur (others @ new_rows n (folders_of es)) ?tok"
  obtain st' where applied: "apply_scan_page L t \<lparr>sp_entries = es, sp_next_page_token = ?tok\<rparr> now s
     = Inr (s\<lparr>ss_remote_entries := ss_remote_entries s @ map (\<lambda>e. \<lparr>rr_entry = e, rr_base = None\<rparr>) es,
         ss_frontier := rows, ss_vault_state := Some st'\<rparr>)"
    and st': "vs_start_token st' = Some start" "vs_account_id st' = vs_account_id st" "vs_remote_root_id st' = vs_remote_root_id st"
     "vs_phase st' = (if rows = [] then Draining else Scanning)" "rows = [] \<longrightarrow> vs_changes_page_token st' = Some start"
    using apply_page_ok [OF inv st(1) ph st(2) cur page tok _ _ _ _ _ _ now, folded n_def, folded rows_def] f by fastforce
  let ?s' = "s\<lparr>ss_remote_entries := ss_remote_entries s @ map (\<lambda>e. \<lparr>rr_entry = e, rr_base = None\<rparr>) es,
         ss_frontier := rows, ss_vault_state := Some st'\<rparr>"
  have inv': "sync_inv L ?s'" by (rule apply_scan_page_inv [OF inv applied])
  have k: "map frontier_key rows = map work_row (work_step ws)"
    using advanced_rows_keys [OF tok refl toks cur(2, 3), of "others @ new_rows n (folders_of es)" "rest @ fs"]
      others new_rows_keys [OF subs] unfolding rows_def ws by simp
  have "work_fresh (vs_remote_root_id st) ?s' (work_step ws)"
  proof (rule work_fresh_step [OF fresh ms])
    have sub: "set rows \<subseteq> {cur, cur\<lparr>fr_page_token := ?tok\<rparr>} \<union> set others \<union> set (new_rows n (folders_of es))"
      by (auto simp: rows_def advanced_rows_def split: option.splits)
    have bound: "\<exists>b \<in> set (ss_frontier s). n \<le> fr_sequence b"
    proof -
      have "n \<in> set (map fr_sequence (ss_frontier s))"
        unfolding n_def by (rule foldr_max_mem)
          (use sync_invD(2) [OF inv] cur(1) in \<open>auto simp: frontier_ok_def frontier_row_ok_def\<close>)
      then show ?thesis by auto
    qed
    show "set (map fr_folder_id (ss_frontier ?s')) \<subseteq> set (map fr_folder_id (ss_frontier s)) \<union> re_file_id ` set es"
      using sub new_rows_token [of _ n "folders_of es"] folders_of_subset [of es] cur(1) by fastforce
    show "length (ss_frontier ?s') \<le> length (ss_frontier s) + length (folders_of es)"
      by (simp add: rows_def advanced_rows_def cur(1) split: option.splits)
    show "\<forall>r \<in> set (ss_frontier ?s'). \<exists>b \<in> set (ss_frontier s). fr_sequence r \<le> fr_sequence b + int (length (folders_of es))"
      using sub bound new_rows_token [of _ n "folders_of es"] cur(1) by fastforce
  qed simp
  then have sim': "scan_sim L start ?s' (work_step ws)"
    using inv' st' st(3) k unfolding scan_sim_def by (auto dest: arg_cong [where f = length])
  have fetch: "scan_folder_page C \<lparr>sr_folder_id = i, sr_folder_path = p, sr_page_token = t\<rparr> c
      = (Inr \<lparr>sp_entries = es, sp_next_page_token = ?tok\<rparr>, c)"
    using serve unfolding ws by simp
  have pv: "scan_page_validate L \<lparr>sp_entries = es, sp_next_page_token = ?tok\<rparr> = Inr ()"
    using applied by (auto simp: apply_scan_page_def)
  have "\<exists>r. advance_scan L C now s c = (Inr r, ?s', c)"
    using next_request_ok [OF inv st(1) ph cur(1)] fetch pv applied load_state_ok [OF inv'] cur(2-4)
    by (simp add: advance_scan_def run_store_def scan_finished_def)
  then obtain r where "advance_initial_sync L C now s c = (Inr r, ?s', c)"
    using require_state_ok [OF inv st(1)] st(3) ph by (auto simp: advance_initial_sync_def)
  then show ?thesis using sim' by (intro exI [of _ r] exI [of _ ?s']) (simp add: comp_def)
qed

section \<open>The whole tree\<close>

lemma work_cons:
  assumes "list_all (folder_ok L) ws"
  shows "ws = [] \<or> (\<exists>i p t es fs pgs rest. ws = RemoteFolder i p (RemotePage t es fs # pgs) # rest)"
proof (cases ws)
  case (Cons f rest)
  obtain i p pgs where "f = RemoteFolder i p pgs" by (cases f)
  moreover then obtain pg pgs' where "pgs = pg # pgs'" using assms Cons by (cases pgs) auto
  moreover obtain t es fs where "pg = RemotePage t es fs" by (cases pg)
  ultimately show ?thesis using Cons by blast
qed simp

text \<open>As many calls as the work list has pages drain it, and leave exactly its entries.\<close>

lemma scan_run:
  assumes "scan_sim L start s ws" "list_all (folder_ok L) ws" "list_all (serves C c) ws" "fits_i64 now"
  shows "\<exists>s'. sync_steps L C now (work_total ws) s c = Some (s', c) \<and> scan_sim L start s' []
     \<and> mset (map rr_entry (ss_remote_entries s')) = mset (map rr_entry (ss_remote_entries s)) + mset (work_entries ws)"
  using assms
proof (induction "work_total ws" arbitrary: s ws)
  case 0
  have "ws = []" using work_cons [OF 0(3)] 0(1) work_step_total by (metis Zero_not_Suc)
  then show ?case using 0 by (simp add: work_total_def work_entries_def)
next
  case (Suc n)
  obtain i p t es fs pgs rest where ws: "ws = RemoteFolder i p (RemotePage t es fs # pgs) # rest"
    using work_cons [of L ws] Suc(2, 4) by (auto simp: work_total_def)
  have n: "n = work_total (work_step ws)" using Suc(2) work_step_total unfolding ws by (metis nat.inject)
  have step: "list_all (folder_ok L) (work_step ws)" "list_all (serves C c) (work_step ws)"
    unfolding ws by (rule work_step_ok [OF Suc(4) [unfolded ws]], rule work_step_serves [OF Suc(5) [unfolded ws]])
  obtain r s1 where s1: "advance_initial_sync L C now s c = (Inr r, s1, c)" "scan_sim L start s1 (work_step ws)"
    "map rr_entry (ss_remote_entries s1) = map rr_entry (ss_remote_entries s) @ es"
    using scan_step [OF Suc(3) ws Suc(4-6)] by blast
  obtain s' where "sync_steps L C now n s1 c = Some (s', c)" "scan_sim L start s' []"
    "mset (map rr_entry (ss_remote_entries s')) = mset (map rr_entry (ss_remote_entries s1)) + mset (work_entries (work_step ws))"
    using Suc(1) [OF n s1(2) step(1, 2) Suc(6), folded n] by blast
  then show ?case
    unfolding Suc(2) [symmetric]
    using s1(1, 3) work_step_entries [of i p t es fs pgs rest] unfolding ws by (intro exI [of _ s']) simp
qed

end
