(* ===== verification/Scan_Properties.thy ===== *)
theory Scan_Properties
  imports Scan_Tree Concrete_Store
begin

text \<open>
  The property of the initial scan: it ends, and it has read the whole tree.
\<close>

section \<open>A tree with three pages\<close>

definition demo_child :: "string \<Rightarrow> string \<Rightarrow> string \<Rightarrow> remote_entry_kind \<Rightarrow> remote_entry" where
  "demo_child i parent p k = \<lparr>re_file_id = i, re_parent_id = parent, re_path = p, re_kind = k,
     re_content_hash = None, re_remote_revision = ''r1''\<rparr>"

definition demo_tree :: remote_folder where
  "demo_tree = RemoteFolder ''root'' []
     [RemotePage None [demo_child ''f1'' ''root'' ''a.md'' File, demo_child ''d1'' ''root'' ''d'' Folder]
        [RemoteFolder ''d1'' ''d'' [RemotePage None [demo_child ''f3'' ''d1'' ''d/b.md'' File] []]],
      RemotePage (Some ''t1'') [demo_child ''f2'' ''root'' ''c.md'' File] []]"

fun demo_scan :: "scan_request \<Rightarrow> scan_page" where
  "demo_scan r = (if sr_folder_id r = ''d1'' then \<lparr>sp_entries = [demo_child ''f3'' ''d1'' ''d/b.md'' File], sp_next_page_token = None\<rparr>
     else if sr_page_token r = None then \<lparr>sp_entries = [demo_child ''f1'' ''root'' ''a.md'' File, demo_child ''d1'' ''root'' ''d'' Folder],
       sp_next_page_token = Some ''t1''\<rparr>
     else \<lparr>sp_entries = [demo_child ''f2'' ''root'' ''c.md'' File], sp_next_page_token = None\<rparr>)"

definition demo_client :: "unit drive_client" where
  "demo_client = \<lparr>get_start_page_token = (\<lambda>c. (Inr ''t0'', c)), scan_folder_page = (\<lambda>r c. (Inr (demo_scan r), c)),
     fetch_changes_page = (\<lambda>t c. (Inr \<lparr>cp_changes = [], cp_next_page_token = None, cp_new_start_page_token = Some ''c1''\<rparr>, c))\<rparr>"

lemma demo_children_ok:
  "child_ok demo_libs ''root'' [] (demo_child ''f1'' ''root'' ''a.md'' File)"
  "child_ok demo_libs ''root'' [] (demo_child ''d1'' ''root'' ''d'' Folder)"
  "child_ok demo_libs ''root'' [] (demo_child ''f2'' ''root'' ''c.md'' File)"
  "child_ok demo_libs ''d1'' ''d'' (demo_child ''f3'' ''d1'' ''d/b.md'' File)" "valid_token ''t1''"
  by code_simp+

lemma demo_tree_ok: "folder_ok demo_libs demo_tree"
  using demo_children_ok by (simp add: demo_tree_def MAX_SCAN_PAGE_ENTRIES_def folders_of_def) (simp add: demo_child_def)

lemma demo_tree_served: "serves demo_client () demo_tree"
  by (simp add: demo_tree_def demo_client_def following_token_def)

section \<open>Property\<close>

text \<open>
  C5: the initial scan ends and covers the tree. Against a provider that answers every page request of
  a finite folder tree (in any division into pages of at most 1000 entries, with fewer than 5000
  folders and unique identifiers), as many calls of the driver as the tree has pages all succeed, empty
  the frontier and leave the store draining from the token captured before the scan, with exactly the
  entries of the tree recorded.
\<close>

theorem scan_covers_the_tree:
  assumes reach: "store_reachable L s0" and start: "begin_initial_scan token now s0 = Inr s"
    and root: "map_option vs_remote_root_id (ss_vault_state s0) = Some (rf_id tree)" "rf_path tree = []" "first_token tree = None"
    and tree: "folder_ok L tree" "serves C c tree" "distinct (rf_id tree # map re_file_id (folder_entries tree))"
      "length (folders_of (folder_entries tree)) < MAX_SCAN_FRONTIER_FOLDERS"
    and now: "fits_i64 now"
  shows "\<exists>s' v. sync_steps L C now (folder_total tree) s c = Some (s', c) \<and> ss_vault_state s' = Some v
     \<and> vs_phase v = Draining \<and> vs_changes_page_token v = Some token \<and> ss_frontier s' = []
     \<and> mset (map rr_entry (ss_remote_entries s')) = mset (folder_entries tree)"
proof -
  have inv0: "sync_inv L s0" using store_invD(2) [OF store_reachable_inv [OF reach]] .
  have inv: "sync_inv L s" by (rule begin_initial_scan_inv [OF inv0 start])
  obtain v where v: "ss_vault_state s0 = Some v" "vs_remote_root_id v = rf_id tree" using root(1) by auto
  have s: "ss_frontier s = [\<lparr>fr_sequence = 1, fr_folder_id = rf_id tree, fr_portable_path = [], fr_page_token = None\<rparr>]"
    "ss_remote_entries s = []" "vs_account_id v \<noteq> None"
    "\<exists>st. ss_vault_state s = Some st \<and> vs_start_token st = Some token \<and> vs_account_id st = vs_account_id v
       \<and> vs_remote_root_id st = rf_id tree \<and> vs_phase st = Scanning"
    using start v require_state_ok [OF inv0 v(1)]
    by (auto simp: begin_initial_scan_def insert_frontier_def split: if_splits)
  have "work_fresh (rf_id tree) s [tree]"
    using tree(3, 4) by (auto simp: work_fresh_def work_entries_def s)
  then have "scan_sim L token s [tree]"
    using inv s root(2, 3) unfolding scan_sim_def by (auto simp: frontier_key_def work_row_def)
  then obtain s' where s': "sync_steps L C now (folder_total tree) s c = Some (s', c)" "scan_sim L token s' []"
    "mset (map rr_entry (ss_remote_entries s')) = mset (folder_entries tree)"
    using scan_run [of L token s "[tree]" C c now] tree now s(2) by (auto simp: work_total_def work_entries_def)
  then show ?thesis unfolding scan_sim_def by auto
qed

theorem scan_covers_the_tree_witness:
  "\<exists>s'. sync_steps demo_libs demo_client 2 3 demo_scanning () = Some (s', ())
     \<and> mset (map rr_entry (ss_remote_entries s')) = mset (folder_entries demo_tree)"
proof -
  have "store_reachable demo_libs demo_bound"
    using store_reachable.start demo_store_steps(1) by (rule store_reachable.step)
  moreover have "map_option vs_remote_root_id (ss_vault_state demo_bound) = Some (rf_id demo_tree)" "rf_path demo_tree = []"
    "first_token demo_tree = None" "folder_total demo_tree = 3" "fits_i64 2"
    by (simp_all add: demo_bound_def demo_vault_def demo_tree_def first_token_def following_token_def fits_i64_def)
  moreover have "distinct (rf_id demo_tree # map re_file_id (folder_entries demo_tree))"
    "length (folders_of (folder_entries demo_tree)) < MAX_SCAN_FRONTIER_FOLDERS"
    by (simp_all add: demo_tree_def demo_child_def folders_of_def MAX_SCAN_FRONTIER_FOLDERS_def)
  ultimately show ?thesis
    using scan_covers_the_tree [OF _ demo_initial_sync(2) _ _ _ demo_tree_ok demo_tree_served] by fastforce
qed

end
