(* ===== verification/Private_Files.thy ===== *)
theory Private_Files
  imports Vault_Path "HOL-Library.Sublist"
begin

text \<open>
  The private directory tree that the snapshot store works on, as \<open>crates/myvault-private-fs\<close>
  sees it on Linux and macOS, and the file operations of that crate.

  \<^item> A tree is an association list from paths to nodes; a node carries its inode number and
    whether its mode is private (0700 for directories, 0600 for files). A directory handle
    (\<open>cap_std::fs::Dir\<close>) is the path of the directory it was opened on.
  \<^item> An operation is a function from the world to a result and a world. Every system call takes
    one tick of the clock and asks the fault oracle whether it fails at that tick. A failing call
    leaves the tree as it was, except that an interrupted write leaves a prefix of its bytes. A
    process that dies at tick \<open>n\<close> is the oracle that fails every call from \<open>n\<close> on. Consecutive
    calls that only read metadata count as one call.
  \<^item> The oracle never answers \<open>NotFound\<close> or \<open>AlreadyExists\<close>: those two describe the tree.
\<close>

section \<open>Trees\<close>

datatype io_kind = NotFound | AlreadyExists | Unsupported | OtherKind

datatype private_error =
    PfIo io_kind
  | DirectorySyncUnsupported io_kind
  | PfInvalidRoot string
  | PfPrivacyValidationRequired
  | PfExtendedAcl
  | PfExternalMutation

type_synonym fs_path = "string list"

datatype node =
    FileNode (inode: nat) (is_private: bool) (content: string)
  | DirNode (inode: nat) (is_private: bool)

type_synonym tree = "(fs_path \<times> node) list"

definition node_at :: "tree \<Rightarrow> fs_path \<Rightarrow> node option" where
  "node_at t p = map_of t p"

text \<open>Trees need not be closed under parents, so a name is taken when anything lies at or below it.\<close>

definition occupied :: "tree \<Rightarrow> fs_path \<Rightarrow> bool" where
  "occupied t p = list_ex (\<lambda>(q, _). prefix p q) t"

definition names_in :: "tree \<Rightarrow> fs_path \<Rightarrow> string list" where
  "names_in t d = remdups (map (\<lambda>(q, _). last q) (filter (\<lambda>(q, _). q \<noteq> [] \<and> butlast q = d) t))"

definition drop_node :: "fs_path \<Rightarrow> tree \<Rightarrow> tree" where
  "drop_node p t = filter (\<lambda>(q, _). q \<noteq> p) t"

definition put_node :: "fs_path \<Rightarrow> node \<Rightarrow> tree \<Rightarrow> tree" where
  "put_node p n t = (p, n) # drop_node p t"

definition moved :: "fs_path \<Rightarrow> fs_path \<Rightarrow> fs_path \<Rightarrow> fs_path" where
  "moved s d q = (if prefix s q then d @ drop (length s) q else q)"

definition move_tree :: "fs_path \<Rightarrow> fs_path \<Rightarrow> tree \<Rightarrow> tree" where
  "move_tree s d t = map (\<lambda>(q, n). (moved s d q, n)) t"

lemma node_at_drop: "node_at (drop_node p t) q = (if q = p then None else node_at t q)"
  by (induction t) (auto simp: node_at_def drop_node_def)

lemma node_at_put: "node_at (put_node p n t) q = (if q = p then Some n else node_at t q)"
  by (simp add: put_node_def node_at_drop) (simp add: node_at_def node_at_drop [unfolded node_at_def])

lemma not_occupied: "\<not> occupied t p \<longleftrightarrow> (\<forall>q. prefix p q \<longrightarrow> node_at t q = None)"
  by (induction t) (auto simp: occupied_def node_at_def)

lemma set_names_in: "set (names_in t d) = {n. node_at t (d @ [n]) \<noteq> None}"
proof -
  have "n \<in> set (names_in t d) \<longleftrightarrow> d @ [n] \<in> fst ` set t" for n
    by (auto simp: names_in_def image_iff)
      (metis append_butlast_last_id fst_conv, metis butlast_snoc last_snoc snoc_eq_iff_butlast)
  then show ?thesis by (auto simp: node_at_def map_of_eq_None_iff)
qed

lemma distinct_names_in [simp]: "distinct (names_in t d)"
  by (simp add: names_in_def)

lemma moved_eq_below: "prefix s q \<Longrightarrow> moved s d q = d @ r \<longleftrightarrow> q = s @ r"
  by (auto simp: moved_def elim: prefixE)

lemma moved_eq_outside:
  assumes "\<not> prefix d p"
  shows "moved s d q = p \<longleftrightarrow> \<not> prefix s q \<and> q = p"
  using assms by (auto simp: moved_def)

lemma node_at_move_inside:
  assumes "\<not> occupied t d"
  shows "node_at (move_tree s d t) (d @ r) = node_at t (s @ r)"
  using assms
proof (induction t)
  case Nil
  then show ?case by (simp add: move_tree_def node_at_def)
next
  case (Cons e t)
  obtain q n where e: "e = (q, n)" by (cases e)
  have out: "\<not> prefix d q" using Cons.prems e by (simp add: occupied_def)
  have "moved s d q = d @ r \<longleftrightarrow> q = s @ r"
    using out by (cases "prefix s q") (simp add: moved_eq_below, auto simp: moved_def)
  with Cons e show ?case by (auto simp: move_tree_def node_at_def occupied_def)
qed

lemma node_at_move_outside:
  assumes "\<not> prefix d p"
  shows "node_at (move_tree s d t) p = (if prefix s p then None else node_at t p)"
proof (induction t)
  case Nil
  then show ?case by (simp add: move_tree_def node_at_def)
next
  case (Cons e t)
  then show ?case
    using moved_eq_outside [OF assms, of s "fst e"]
    by (cases e) (auto simp: move_tree_def node_at_def)
qed

section \<open>Operations\<close>

record world =
  w_tree :: tree
  w_clock :: nat
  w_faults :: "nat \<Rightarrow> private_error option"
  w_written :: "nat \<Rightarrow> nat"
  w_umask_private :: bool
  w_uuids :: "nat \<Rightarrow> uuid"
  w_drawn :: nat
  w_next_inode :: nat

type_synonym ('e, 'a) act = "world \<Rightarrow> ('e + 'a) \<times> world"

definition ret :: "'a \<Rightarrow> ('e, 'a) act" where
  "ret x w = (Inr x, w)"

definition fail :: "'e \<Rightarrow> ('e, 'a) act" where
  "fail e w = (Inl e, w)"

text \<open>Sequencing with \<open>?\<close>.\<close>

definition perform :: "('e, 'a) act \<Rightarrow> ('a \<Rightarrow> ('e, 'b) act) \<Rightarrow> ('e, 'b) act" where
  "perform m f w = (case m w of (Inl e, w') \<Rightarrow> (Inl e, w') | (Inr x, w') \<Rightarrow> f x w')"

text \<open>A \<open>match\<close> on the result of an operation.\<close>

definition attempt :: "('e, 'a) act \<Rightarrow> ('e + 'a \<Rightarrow> ('f, 'b) act) \<Rightarrow> ('f, 'b) act" where
  "attempt m f w = (case m w of (r, w') \<Rightarrow> f r w')"

definition lift_err :: "('e \<Rightarrow> 'f) \<Rightarrow> ('e, 'a) act \<Rightarrow> ('f, 'a) act" where
  "lift_err g m w = (case m w of (r, w') \<Rightarrow> (map_err g r, w'))"

text \<open>A pure computation that may fail.\<close>

definition of_result :: "'e + 'a \<Rightarrow> ('e, 'a) act" where
  "of_result r w = (r, w)"

definition require :: "bool \<Rightarrow> 'e \<Rightarrow> ('e, unit) act" where
  "require b e = (if b then ret () else fail e)"

fun for_acts :: "('a \<Rightarrow> ('e, unit) act) \<Rightarrow> 'a list \<Rightarrow> ('e, unit) act" where
  "for_acts f [] = ret ()"
| "for_acts f (x # xs) = perform (f x) (\<lambda>_. for_acts f xs)"

section \<open>System calls\<close>

definition io_fault :: "private_error \<Rightarrow> io_kind" where
  "io_fault e = (if e = PfIo Unsupported then Unsupported else OtherKind)"

definition tick :: "world \<Rightarrow> world" where
  "tick w = w\<lparr>w_clock := Suc (w_clock w)\<rparr>"

definition syscall :: "(io_kind, 'a) act \<Rightarrow> (io_kind, 'a) act" where
  "syscall f w = (case w_faults w (w_clock w) of
       Some e \<Rightarrow> (Inl (io_fault e), tick w)
     | None \<Rightarrow> f (tick w))"

text \<open>Checks of owner, mode, link count and access control list; the oracle may reject anything.\<close>

definition privacy_fault :: "private_error \<Rightarrow> private_error" where
  "privacy_fault e = (case e of PfIo _ \<Rightarrow> PfIo (io_fault e) | _ \<Rightarrow> e)"

definition privacy_check :: "(world \<Rightarrow> bool) \<Rightarrow> private_error \<Rightarrow> (private_error, unit) act" where
  "privacy_check ok e w = (case w_faults w (w_clock w) of
       Some f \<Rightarrow> (Inl (privacy_fault f), tick w)
     | None \<Rightarrow> (if ok w then Inr () else Inl e, tick w))"

definition set_tree :: "(tree \<Rightarrow> tree) \<Rightarrow> world \<Rightarrow> world" where
  "set_tree f w = w\<lparr>w_tree := f (w_tree w)\<rparr>"

definition sys_create_dir :: "fs_path \<Rightarrow> (io_kind, unit) act" where
  "sys_create_dir p = syscall (\<lambda>w.
     if occupied (w_tree w) p then (Inl AlreadyExists, w)
     else (Inr (), (set_tree (put_node p (DirNode (w_next_inode w) (w_umask_private w))) w)
                     \<lparr>w_next_inode := Suc (w_next_inode w)\<rparr>))"

definition sys_create_file :: "fs_path \<Rightarrow> (io_kind, unit) act" where
  "sys_create_file p = syscall (\<lambda>w.
     if occupied (w_tree w) p then (Inl AlreadyExists, w)
     else (Inr (), (set_tree (put_node p (FileNode (w_next_inode w) (w_umask_private w) [])) w)
                     \<lparr>w_next_inode := Suc (w_next_inode w)\<rparr>))"

definition sys_metadata :: "fs_path \<Rightarrow> (io_kind, node) act" where
  "sys_metadata p = syscall (\<lambda>w. (ok_or (node_at (w_tree w) p) NotFound, w))"

definition sys_entries :: "fs_path \<Rightarrow> (io_kind, string list) act" where
  "sys_entries d = syscall (\<lambda>w. (Inr (names_in (w_tree w) d), w))"

fun made_private :: "node \<Rightarrow> node" where
  "made_private (FileNode i _ c) = FileNode i True c"
| "made_private (DirNode i _) = DirNode i True"

definition sys_set_private :: "fs_path \<Rightarrow> (io_kind, unit) act" where
  "sys_set_private p = syscall (\<lambda>w. case node_at (w_tree w) p of
       None \<Rightarrow> (Inl NotFound, w)
     | Some n \<Rightarrow> (Inr (), set_tree (put_node p (made_private n)) w))"

text \<open>\<open>write_all\<close> on a new file: a failure leaves the bytes written so far.\<close>

fun written_node :: "string \<Rightarrow> node \<Rightarrow> node" where
  "written_node bytes (FileNode i pr _) = FileNode i pr bytes"
| "written_node bytes (DirNode i pr) = DirNode i pr"

definition sys_write :: "fs_path \<Rightarrow> string \<Rightarrow> (io_kind, unit) act" where
  "sys_write p bytes w = (case node_at (w_tree w) p of
       None \<Rightarrow> (Inl NotFound, tick w)
     | Some n \<Rightarrow> (case w_faults w (w_clock w) of
         Some e \<Rightarrow> (Inl (io_fault e),
           set_tree (put_node p (written_node (take (w_written w (w_clock w)) bytes) n)) (tick w))
       | None \<Rightarrow> (Inr (), set_tree (put_node p (written_node bytes n)) (tick w))))"

definition sys_sync :: "(io_kind, unit) act" where
  "sys_sync = syscall (ret ())"

text \<open>\<open>renameat2\<close> with \<open>RENAME_NOREPLACE\<close>.\<close>

definition sys_rename_noreplace :: "fs_path \<Rightarrow> fs_path \<Rightarrow> (io_kind, unit) act" where
  "sys_rename_noreplace s d = syscall (\<lambda>w.
     if node_at (w_tree w) s = None then (Inl NotFound, w)
     else if occupied (w_tree w) d then (Inl AlreadyExists, w)
     else (Inr (), set_tree (move_tree s d) w))"

definition sys_remove_file :: "fs_path \<Rightarrow> (io_kind, unit) act" where
  "sys_remove_file p = syscall (\<lambda>w. case node_at (w_tree w) p of
       None \<Rightarrow> (Inl NotFound, w)
     | Some (DirNode _ _) \<Rightarrow> (Inl OtherKind, w)
     | Some (FileNode _ _ _) \<Rightarrow> (Inr (), set_tree (drop_node p) w))"

definition sys_remove_dir :: "fs_path \<Rightarrow> (io_kind, unit) act" where
  "sys_remove_dir p = syscall (\<lambda>w. case node_at (w_tree w) p of
       None \<Rightarrow> (Inl NotFound, w)
     | Some (FileNode _ _ _) \<Rightarrow> (Inl OtherKind, w)
     | Some (DirNode _ _) \<Rightarrow> if names_in (w_tree w) p \<noteq> [] then (Inl OtherKind, w)
         else (Inr (), set_tree (drop_node p) w))"

text \<open>\<open>Uuid::new_v4()\<close>.\<close>

definition new_v4 :: "('e, uuid) act" where
  "new_v4 w = (Inr (w_uuids w (w_drawn w)), w\<lparr>w_drawn := Suc (w_drawn w)\<rparr>)"

section \<open>The crate myvault-private-fs\<close>

fun is_dir_node :: "node \<Rightarrow> bool" where
  "is_dir_node (DirNode _ _) = True"
| "is_dir_node (FileNode _ _ _) = False"

definition validate_child_name :: "string \<Rightarrow> private_error + unit" where
  "validate_child_name name = (case unix_components name of
       [Normal component] \<Rightarrow> ensure (valid_utf8 component)
          (PfInvalidRoot ''child name must be one normalized UTF-8 component'')
     | _ \<Rightarrow> Inl (PfInvalidRoot ''child name must be one normalized UTF-8 component''))"

definition private_at :: "fs_path \<Rightarrow> world \<Rightarrow> bool" where
  "private_at p w = is_some_and (node_at (w_tree w) p) is_private"

definition require_private_directory :: "fs_path \<Rightarrow> (private_error, unit) act" where
  "require_private_directory d =
     privacy_check (private_at d) (PfInvalidRoot ''private directory grants group or world access'')"

definition verify_private_file :: "fs_path \<Rightarrow> (private_error, unit) act" where
  "verify_private_file p = privacy_check
     (\<lambda>w. private_at p w \<and> is_some_and (node_at (w_tree w) p) (\<lambda>n. \<not> is_dir_node n)) PfExternalMutation"

definition set_private_directory_permissions :: "fs_path \<Rightarrow> (private_error, unit) act" where
  "set_private_directory_permissions d = lift_err PfIo (sys_set_private d)"

definition set_private_file_permissions :: "fs_path \<Rightarrow> (private_error, unit) act" where
  "set_private_file_permissions p = lift_err PfIo (sys_set_private p)"

definition sync_directory :: "fs_path \<Rightarrow> (private_error, unit) act" where
  "sync_directory d = lift_err PfIo sys_sync"

definition open_child_dir_nofollow :: "fs_path \<Rightarrow> string \<Rightarrow> (private_error, fs_path) act" where
  "open_child_dir_nofollow parent name =
     perform (lift_err PfIo (sys_metadata (parent @ [name]))) (\<lambda>n.
     if is_dir_node n then ret (parent @ [name]) else fail (PfInvalidRoot ''root is not a directory''))"

definition open_private_dir :: "fs_path \<Rightarrow> string \<Rightarrow> (private_error, fs_path) act" where
  "open_private_dir parent name =
     perform (of_result (validate_child_name name)) (\<lambda>_.
     perform (open_child_dir_nofollow parent name) (\<lambda>directory.
     perform (require_private_directory directory) (\<lambda>_. ret directory)))"

definition create_private_dir :: "fs_path \<Rightarrow> string \<Rightarrow> (private_error, fs_path) act" where
  "create_private_dir parent name =
     perform (of_result (validate_child_name name)) (\<lambda>_.
     perform (lift_err PfIo (sys_create_dir (parent @ [name]))) (\<lambda>_.
     perform (open_child_dir_nofollow parent name) (\<lambda>directory.
     perform (set_private_directory_permissions directory) (\<lambda>_.
     perform (require_private_directory directory) (\<lambda>_.
     perform (sync_directory directory) (\<lambda>_.
     perform (sync_directory parent) (\<lambda>_. ret directory)))))))"

definition create_or_open_private_dir :: "fs_path \<Rightarrow> string \<Rightarrow> (private_error, fs_path) act" where
  "create_or_open_private_dir parent name =
     perform (of_result (validate_child_name name)) (\<lambda>_.
     attempt (sys_create_dir (parent @ [name])) (\<lambda>r.
     perform (case r of Inr _ \<Rightarrow> ret True
                | Inl k \<Rightarrow> if k = AlreadyExists then ret False else fail (PfIo k)) (\<lambda>created.
     perform (open_child_dir_nofollow parent name) (\<lambda>directory.
     perform (if created then set_private_directory_permissions directory else ret ()) (\<lambda>_.
     perform (require_private_directory directory) (\<lambda>_.
     perform (sync_directory directory) (\<lambda>_.
     perform (sync_directory parent) (\<lambda>_. ret directory))))))))"

definition open_private_file :: "fs_path \<Rightarrow> string \<Rightarrow> (private_error, fs_path) act" where
  "open_private_file parent name =
     perform (of_result (validate_child_name name)) (\<lambda>_.
     perform (lift_err PfIo (sys_metadata (parent @ [name]))) (\<lambda>_.
     perform (verify_private_file (parent @ [name])) (\<lambda>_. ret (parent @ [name]))))"

definition held_directory_identity :: "fs_path \<Rightarrow> (private_error, nat) act" where
  "held_directory_identity d = perform (lift_err PfIo (sys_metadata d)) (\<lambda>n. ret (inode n))"

definition held_private_file_identity :: "fs_path \<Rightarrow> (private_error, nat) act" where
  "held_private_file_identity p =
     perform (verify_private_file p) (\<lambda>_.
     perform (lift_err PfIo (sys_metadata p)) (\<lambda>n. ret (inode n)))"

definition remove_private_file_if_identity ::
    "fs_path \<Rightarrow> string \<Rightarrow> fs_path \<Rightarrow> nat \<Rightarrow> (private_error, unit) act" where
  "remove_private_file_if_identity parent name held expected =
     perform (open_private_file parent name) (\<lambda>current.
     perform (held_private_file_identity held) (\<lambda>i.
     perform (require (i = expected) PfExternalMutation) (\<lambda>_.
     perform (held_private_file_identity current) (\<lambda>j.
     perform (require (j = expected) PfExternalMutation) (\<lambda>_.
     lift_err PfIo (sys_remove_file (parent @ [name])))))))"

definition remove_empty_private_dir_if_identity ::
    "fs_path \<Rightarrow> string \<Rightarrow> fs_path \<Rightarrow> nat \<Rightarrow> (private_error, unit) act" where
  "remove_empty_private_dir_if_identity parent name held expected =
     perform (of_result (validate_child_name name)) (\<lambda>_.
     perform (held_directory_identity held) (\<lambda>i.
     perform (require (i = expected) PfExternalMutation) (\<lambda>_.
     perform (lift_err PfIo (sys_entries held)) (\<lambda>es.
     perform (require (es = []) PfExternalMutation) (\<lambda>_.
     perform (open_private_dir parent name) (\<lambda>current.
     perform (held_directory_identity current) (\<lambda>j.
     perform (require (j = expected) PfExternalMutation) (\<lambda>_.
     perform (lift_err PfIo (sys_entries current)) (\<lambda>fs.
     perform (require (fs = []) PfExternalMutation) (\<lambda>_.
     lift_err PfIo (sys_remove_dir (parent @ [name]))))))))))))"

end
