(* ===== verification/Snapshot_Records.thy ===== *)
theory Snapshot_Records
  imports Private_Files
begin

text \<open>
  The data of \<open>crates/myvault-snapshots\<close>: errors, revisions, manifests, evidence and reports,
  with their validators. BLAKE3, the parsing of UUID text and \<open>serde_json\<close> are the fields of
  \<open>snap_libs\<close>; a field deserializer of the source is applied to the text that \<open>serde_json\<close> hands
  it.
\<close>

section \<open>Constants\<close>

definition MANIFEST_FILE :: string where "MANIFEST_FILE = ''manifest.json''"
definition PAYLOAD_FILE :: string where "PAYLOAD_FILE = ''payload''"
definition MAX_MANIFEST_BYTES :: nat where "MAX_MANIFEST_BYTES = 16 * 1024"
definition MAX_PAYLOAD_BYTES :: nat where "MAX_PAYLOAD_BYTES = 16 * 1024 * 1024"
definition MANIFEST_VERSION :: u32 where "MANIFEST_VERSION = 1"

section \<open>Retention vocabulary\<close>

record retention_policy =
  max_age_ms :: u64
  max_per_lineage :: nat
  max_logical_bytes :: u64

datatype retention_reason = Age | LineageCount | TotalSize

record retention_candidate =
  rc_snapshot_id :: uuid
  rc_path :: string
  rc_created_at_unix_ms :: u64
  rc_logical_bytes :: u64
  rc_reasons :: "retention_reason list"

section \<open>Reports and errors\<close>

datatype publish_outcome = Published | AlreadyPublished | PromotedFromStaging

datatype quarantine_outcome = Created | RecoveredExisting | NoCandidates

record quarantine_report =
  qr_outcome :: quarantine_outcome
  qr_run_id :: uuid
  qr_detached :: nat
  qr_already_marked :: nat
  qr_stale_work_entries :: nat

datatype deletion_outcome = DeletionCompleted | DeletionResumed

record deletion_report =
  dr_run_id :: uuid
  dr_outcome :: deletion_outcome
  dr_reclaimed_bytes :: u64

datatype durability_boundary =
    BindingDirectory | WorkDirectory | StagingDirectory | ObjectsDirectory | QuarantineRun
  | QuarantineRuns | QuarantineWork | QuarantineItems | QuarantineState | QuarantineMarkerStaging
  | SourceObjects | DeletionItem | DeletionItems | DeletionRun | DeletionRuns

datatype snapshot_error =
    SnapIo io_kind
  | SnapJson
  | InvalidRoot string
  | PrivacyValidationRequired
  | ExtendedAcl
  | ExternalMutation
  | InvalidVaultId
  | InvalidSnapshotId
  | InvalidRevision
  | InvalidNotePath
  | ManifestTooLarge
  | PayloadTooLarge
  | UnsupportedVersion u32
  | InvalidObjectTopology
  | SnapshotNotFound
  | SnapshotCollision
  | BindingCollision
  | AmbiguousEvidence
  | TooManySnapshotEntries
  | ArithmeticOverflow
  | VerificationBudgetExceeded
  | OperationLockLost
  | PublishedButLockLost publish_outcome
  | OperationFailedAndLockLost snapshot_error
  | GcPlanTooLarge
  | TooManyGcRuns
  | InvalidGcPlan
  | QuarantineCollision
  | QuarantinedButLockLost quarantine_report
  | DeletedButLockLost deletion_report
  | DetachedButNotSynced uuid uuid durability_boundary snapshot_error
  | DetachedOutcomeUnknown uuid uuid snapshot_error
  | RemovedButNotSynced uuid "uuid option" durability_boundary snapshot_error
  | RemovedAndSyncedButInterrupted uuid "uuid option" durability_boundary snapshot_error
  | PublishedButNotSynced durability_boundary private_error

text \<open>\<open>impl From<private_fs::Error> for Error\<close>.\<close>

fun from_private :: "private_error \<Rightarrow> snapshot_error" where
  "from_private (PfIo k) = SnapIo k"
| "from_private (DirectorySyncUnsupported k) = SnapIo k"
| "from_private (PfInvalidRoot reason) = InvalidRoot reason"
| "from_private PfPrivacyValidationRequired = PrivacyValidationRequired"
| "from_private PfExtendedAcl = ExtendedAcl"
| "from_private PfExternalMutation = ExternalMutation"

section \<open>Manifests\<close>

record snapshot_revision =
  blake3_hex :: string
  byte_len :: u64

datatype snapshot_reason = BeforeContentReplace

record snapshot_manifest =
  sm_version :: u32
  sm_snapshot_id :: uuid
  sm_vault_id :: uuid
  sm_path :: string
  sm_created_at_unix_ms :: u64
  sm_revision :: snapshot_revision
  sm_reason :: snapshot_reason

text \<open>What \<open>serde_json\<close> reads before the deserializers of the identifier fields run.\<close>

record raw_manifest =
  raw_version :: u32
  raw_snapshot_id :: string
  raw_vault_id :: string
  raw_path :: string
  raw_created_at_unix_ms :: u64
  raw_revision :: snapshot_revision
  raw_reason :: snapshot_reason

record routing_envelope =
  re_version :: u32
  re_snapshot_id :: uuid
  re_vault_id :: uuid

record vault_binding =
  vb_version :: u32
  vb_vault_id :: uuid
  vb_unix_device :: u64
  vb_unix_inode :: u64

record snap_libs =
  sl_libs :: libs
  blake3_hash :: "string \<Rightarrow> string"
  uuid_parse_str :: "string \<Rightarrow> uuid option"
  manifest_to_vec :: "snapshot_manifest \<Rightarrow> string option"
  manifest_parse :: "string \<Rightarrow> raw_manifest option"
  envelope_parse :: "string \<Rightarrow> (u32 \<times> string \<times> string) option"
  binding_to_vec :: "vault_binding \<Rightarrow> string option"
  binding_parse :: "string \<Rightarrow> (u32 \<times> string \<times> u64 \<times> u64) option"

abbreviation uuid_string :: "snap_libs \<Rightarrow> uuid \<Rightarrow> string" where
  "uuid_string S u \<equiv> uuid_to_string (sl_libs S) u"

definition blake3_to_hex :: "snap_libs \<Rightarrow> string \<Rightarrow> string" where
  "blake3_to_hex S bytes = hex_string (blake3_hash S bytes)"

definition revision_from_bytes :: "snap_libs \<Rightarrow> string \<Rightarrow> snapshot_revision" where
  "revision_from_bytes S bytes =
     \<lparr>blake3_hex = blake3_to_hex S bytes, byte_len = of_nat (length bytes)\<rparr>"

definition is_digest :: "string \<Rightarrow> bool" where
  "is_digest v = (length v = 64 \<and> list_all is_lower_hex_byte v)"

definition revision_validate :: "snapshot_revision \<Rightarrow> snapshot_error + unit" where
  "revision_validate r =
     (if byte_len r > of_nat MAX_PAYLOAD_BYTES \<or> length (blake3_hex r) \<noteq> 64
         \<or> \<not> list_all is_lower_hex_byte (blake3_hex r)
      then Inl InvalidRevision else Inr ())"

definition validate_ids :: "uuid \<Rightarrow> uuid \<Rightarrow> snapshot_error + unit" where
  "validate_ids snapshot_id vault_id =
     (if is_nil snapshot_id then Inl InvalidSnapshotId
      else if is_nil vault_id then Inl InvalidVaultId else Inr ())"

text \<open>
  \<open>Path::extension\<close> of a canonical path: what follows the last dot of the file name, unless that
  dot is its first byte.
\<close>

definition path_extension :: "string \<Rightarrow> string option" where
  "path_extension path =
     (let file_name = last_piece CHR ''/'' path; pieces = split_on CHR ''.'' file_name in
      if length pieces < 2 \<or> (length pieces = 2 \<and> hd pieces = []) then None else Some (last pieces))"

definition manifest_validate :: "snap_libs \<Rightarrow> snapshot_manifest \<Rightarrow> snapshot_error + unit" where
  "manifest_validate S m =
     (if sm_version m \<noteq> MANIFEST_VERSION then Inl (UnsupportedVersion (sm_version m))
      else and_then (validate_ids (sm_snapshot_id m) (sm_vault_id m)) (\<lambda>_.
        and_then (revision_validate (sm_revision m)) (\<lambda>_.
        and_then (map_err (\<lambda>_. InvalidNotePath) (from_portable (sm_path m))) (\<lambda>path.
        if as_str path \<noteq> sm_path m
           \<or> \<not> is_some_and (path_extension (sm_path m)) (\<lambda>e. e = ''md'' \<or> e = ''MD'')
           \<or> hd (split_on CHR ''/'' (collision_key (sl_libs S) path)) \<in> {''.trash'', ''.obsidian''}
        then Inl InvalidNotePath else Inr ()))))"

definition canonical_manifest_bytes :: "snap_libs \<Rightarrow> snapshot_manifest \<Rightarrow> snapshot_error + string" where
  "canonical_manifest_bytes S m =
     and_then (ok_or (manifest_to_vec S m) SnapJson) (\<lambda>bytes.
     if length bytes > MAX_MANIFEST_BYTES then Inl ManifestTooLarge else Inr bytes)"

definition manifest_new ::
    "snap_libs \<Rightarrow> uuid \<Rightarrow> uuid \<Rightarrow> string \<Rightarrow> u64 \<Rightarrow> snapshot_revision \<Rightarrow> snapshot_error + snapshot_manifest" where
  "manifest_new S snapshot_id vault_id path created revision =
     (let m = \<lparr>sm_version = MANIFEST_VERSION, sm_snapshot_id = snapshot_id, sm_vault_id = vault_id,
        sm_path = path, sm_created_at_unix_ms = created, sm_revision = revision,
        sm_reason = BeforeContentReplace\<rparr> in
      and_then (manifest_validate S m) (\<lambda>_.
      and_then (canonical_manifest_bytes S m) (\<lambda>_. Inr m)))"

definition deserialize_canonical_nonnil_uuid :: "snap_libs \<Rightarrow> string \<Rightarrow> snapshot_error + uuid" where
  "deserialize_canonical_nonnil_uuid S text =
     and_then (ok_or (uuid_parse_str S text) SnapJson) (\<lambda>id.
     if is_nil id \<or> uuid_string S id \<noteq> text then Inl SnapJson else Inr id)"

text \<open>\<open>serde_json::from_slice\<close> at the types of the source.\<close>

definition manifest_from_slice :: "snap_libs \<Rightarrow> string \<Rightarrow> snapshot_error + snapshot_manifest" where
  "manifest_from_slice S bytes =
     and_then (ok_or (manifest_parse S bytes) SnapJson) (\<lambda>raw.
     and_then (deserialize_canonical_nonnil_uuid S (raw_snapshot_id raw)) (\<lambda>snapshot_id.
     and_then (deserialize_canonical_nonnil_uuid S (raw_vault_id raw)) (\<lambda>vault_id.
     Inr \<lparr>sm_version = raw_version raw, sm_snapshot_id = snapshot_id, sm_vault_id = vault_id,
        sm_path = raw_path raw, sm_created_at_unix_ms = raw_created_at_unix_ms raw,
        sm_revision = raw_revision raw, sm_reason = raw_reason raw\<rparr>)))"

definition envelope_from_slice :: "snap_libs \<Rightarrow> string \<Rightarrow> snapshot_error + routing_envelope" where
  "envelope_from_slice S bytes =
     and_then (ok_or (envelope_parse S bytes) SnapJson) (\<lambda>(version, snapshot_text, vault_text).
     and_then (deserialize_canonical_nonnil_uuid S snapshot_text) (\<lambda>snapshot_id.
     and_then (deserialize_canonical_nonnil_uuid S vault_text) (\<lambda>vault_id.
     Inr \<lparr>re_version = version, re_snapshot_id = snapshot_id, re_vault_id = vault_id\<rparr>)))"

definition binding_from_slice :: "snap_libs \<Rightarrow> string \<Rightarrow> snapshot_error + vault_binding" where
  "binding_from_slice S bytes =
     and_then (ok_or (binding_parse S bytes) SnapJson) (\<lambda>(version, vault_text, device, ino).
     and_then (deserialize_canonical_nonnil_uuid S vault_text) (\<lambda>vault_id.
     Inr \<lparr>vb_version = version, vb_vault_id = vault_id, vb_unix_device = device,
       vb_unix_inode = ino\<rparr>))"

section \<open>Evidence\<close>

datatype evidence_location = Staging | Objects

datatype snapshot_evidence =
    Supported evidence_location snapshot_manifest
  | EvidenceUnsupported evidence_location uuid uuid u32 snapshot_revision

section \<open>What the crates promise\<close>

text \<open>
  The documented behaviour the theorems rely on: BLAKE3 returns 32 bytes; UUID text parses back
  and is one path component of ASCII bytes other than a dot; \<open>serde_json\<close> writes a manifest as a
  document that reads back as the same fields, both in full and through the routing envelope.
\<close>

definition blake3_total :: "snap_libs \<Rightarrow> bool" where
  "blake3_total S = (\<forall>s. length (blake3_hash S s) = 32)"

definition uuid_text_ok :: "snap_libs \<Rightarrow> bool" where
  "uuid_text_ok S = (\<forall>u. uuid_parse_str S (uuid_string S u) = Some u \<and> uuid_string S u \<noteq> []
     \<and> list_all (\<lambda>c. is_lower_hex_byte c \<or> c = CHR ''-'') (uuid_string S u))"

definition manifest_json_ok :: "snap_libs \<Rightarrow> bool" where
  "manifest_json_ok S = (\<forall>m bytes. manifest_to_vec S m = Some bytes \<longrightarrow>
     manifest_parse S bytes = Some \<lparr>raw_version = sm_version m,
       raw_snapshot_id = uuid_string S (sm_snapshot_id m), raw_vault_id = uuid_string S (sm_vault_id m),
       raw_path = sm_path m, raw_created_at_unix_ms = sm_created_at_unix_ms m,
       raw_revision = sm_revision m, raw_reason = sm_reason m\<rparr>
     \<and> envelope_parse S bytes = Some (sm_version m, uuid_string S (sm_snapshot_id m),
       uuid_string S (sm_vault_id m)))"

lemma deserialize_uuid_string:
  assumes "uuid_text_ok S" and "\<not> is_nil u"
  shows "deserialize_canonical_nonnil_uuid S (uuid_string S u) = Inr u"
  using assms by (simp add: deserialize_canonical_nonnil_uuid_def uuid_text_ok_def)

lemma manifest_validate_ids:
  assumes "manifest_validate S m = Inr u"
  shows "\<not> is_nil (sm_snapshot_id m)" "\<not> is_nil (sm_vault_id m)" "sm_version m = MANIFEST_VERSION"
  using assms by (auto simp: manifest_validate_def validate_ids_def split: if_splits)

lemma manifest_from_to:
  assumes "uuid_text_ok S" and "manifest_json_ok S" and "manifest_to_vec S m = Some bytes"
    and "\<not> is_nil (sm_snapshot_id m)" and "\<not> is_nil (sm_vault_id m)"
  shows "manifest_from_slice S bytes = Inr m"
    and "envelope_from_slice S bytes = Inr \<lparr>re_version = sm_version m,
      re_snapshot_id = sm_snapshot_id m, re_vault_id = sm_vault_id m\<rparr>"
  using assms(2,3) deserialize_uuid_string [OF assms(1,4)] deserialize_uuid_string [OF assms(1,5)]
  by (simp_all add: manifest_json_ok_def manifest_from_slice_def envelope_from_slice_def)

lemma canonical_manifest_bytes_Inr:
  "canonical_manifest_bytes S m = Inr bytes \<longleftrightarrow>
     manifest_to_vec S m = Some bytes \<and> length bytes \<le> MAX_MANIFEST_BYTES"
  by (cases "manifest_to_vec S m") (auto simp: canonical_manifest_bytes_def)

end
