(* ===== verification/Snapshot_Store.thy ===== *)
theory Snapshot_Store
  imports Snapshot_Records
begin

text \<open>
  The operations of \<open>crates/myvault-snapshots/src/lib.rs\<close>: the operation lock, the vault binding,
  publication of a snapshot through a work directory, \<open>staging\<close> and \<open>objects\<close>, and the inspection
  of what is stored.
\<close>

definition ROOT_DIRECTORY :: string where "ROOT_DIRECTORY = ''recovery-snapshots''"
definition VERSION_DIRECTORY :: string where "VERSION_DIRECTORY = ''v1''"
definition VAULTS_DIRECTORY :: string where "VAULTS_DIRECTORY = ''vaults''"
definition BINDING_FILE :: string where "BINDING_FILE = ''binding.json''"
definition STAGING_DIRECTORY :: string where "STAGING_DIRECTORY = ''staging''"
definition OBJECTS_DIRECTORY :: string where "OBJECTS_DIRECTORY = ''objects''"
definition OPERATION_LOCK_FILE :: string where "OPERATION_LOCK_FILE = ''operation.lock''"

record snapshot_store =
  st_vault_id :: uuid
  st_staging :: fs_path
  st_objects :: fs_path
  st_vault :: fs_path
  st_lock_identity :: nat

type_synonym 'a snap = "(snapshot_error, 'a) act"

abbreviation pf :: "(private_error, 'a) act \<Rightarrow> 'a snap" where
  "pf m \<equiv> lift_err from_private m"

abbreviation io :: "(io_kind, 'a) act \<Rightarrow> 'a snap" where
  "io m \<equiv> lift_err SnapIo m"

section \<open>Files\<close>

definition sync_published :: "fs_path \<Rightarrow> durability_boundary \<Rightarrow> unit snap" where
  "sync_published directory boundary =
     lift_err (PublishedButNotSynced boundary) (sync_directory directory)"

definition atomic_rename_noreplace :: "fs_path \<Rightarrow> string \<Rightarrow> fs_path \<Rightarrow> string \<Rightarrow> unit snap" where
  "atomic_rename_noreplace source_parent source destination_parent destination =
     io (sys_rename_noreplace (source_parent @ [source]) (destination_parent @ [destination]))"

definition write_private_file :: "fs_path \<Rightarrow> string \<Rightarrow> string \<Rightarrow> unit snap" where
  "write_private_file directory name bytes =
     (let path = directory @ [name] in
      perform (io (sys_create_file path)) (\<lambda>_.
      perform (pf (set_private_file_permissions path)) (\<lambda>_.
      perform (io (sys_write path bytes)) (\<lambda>_.
      perform (io sys_sync) (\<lambda>_.
      pf (verify_private_file path))))))"

definition open_held_private_file :: "fs_path \<Rightarrow> string \<Rightarrow> nat \<Rightarrow> (fs_path \<times> nat) snap" where
  "open_held_private_file directory name maximum =
     (let path = directory @ [name] in
      perform (io (sys_metadata path)) (\<lambda>_.
      perform (pf (verify_private_file path)) (\<lambda>_.
      perform (io (sys_metadata path)) (\<lambda>metadata. case metadata of
          DirNode _ _ \<Rightarrow> fail ExternalMutation
        | FileNode _ _ bytes \<Rightarrow>
            if length bytes > maximum
            then fail (if name = PAYLOAD_FILE then PayloadTooLarge else ManifestTooLarge)
            else ret (path, length bytes)))))"

text \<open>The handle is read up to one byte more than its length, so a longer file is noticed.\<close>

definition read_held_private_file :: "fs_path \<Rightarrow> nat \<Rightarrow> string snap" where
  "read_held_private_file path expected_length =
     perform (io (sys_metadata path)) (\<lambda>metadata. case metadata of
         DirNode _ _ \<Rightarrow> fail (SnapIo OtherKind)
       | FileNode _ _ stored \<Rightarrow>
           (let bytes = take (expected_length + 1) stored in
            perform (pf (verify_private_file path)) (\<lambda>_.
            perform (io (sys_metadata path)) (\<lambda>after.
            if length bytes \<noteq> expected_length
               \<or> (case after of DirNode _ _ \<Rightarrow> True | FileNode _ _ c \<Rightarrow> length c \<noteq> expected_length)
            then fail ExternalMutation else ret bytes))))"

definition read_private_file :: "fs_path \<Rightarrow> string \<Rightarrow> nat \<Rightarrow> string snap" where
  "read_private_file directory name maximum =
     perform (open_held_private_file directory name maximum) (\<lambda>(path, length).
     read_held_private_file path length)"

definition read_optional_private_file :: "fs_path \<Rightarrow> string \<Rightarrow> nat \<Rightarrow> string option snap" where
  "read_optional_private_file directory name maximum =
     attempt (read_private_file directory name maximum) (\<lambda>r. case r of
         Inr bytes \<Rightarrow> ret (Some bytes)
       | Inl e \<Rightarrow> if e = SnapIo NotFound then ret None else fail e)"

definition open_optional_private_dir :: "fs_path \<Rightarrow> string \<Rightarrow> fs_path option snap" where
  "open_optional_private_dir parent name =
     attempt (sys_metadata (parent @ [name])) (\<lambda>r. case r of
         Inr _ \<Rightarrow> perform (pf (open_private_dir parent name)) (\<lambda>d. ret (Some d))
       | Inl k \<Rightarrow> if k = NotFound then ret None else fail (SnapIo k))"

section \<open>The operation lock\<close>

definition validate_locked_file :: "fs_path \<Rightarrow> nat \<Rightarrow> unit snap" where
  "validate_locked_file vault expected_identity =
     (let path = vault @ [OPERATION_LOCK_FILE] in
      perform (pf (verify_private_file path)) (\<lambda>_.
      perform (io (sys_metadata path)) (\<lambda>held.
      perform (io (sys_metadata path)) (\<lambda>named.
      if is_dir_node named \<or> inode held \<noteq> inode named \<or> inode held \<noteq> expected_identity
      then fail ExternalMutation else ret ()))))"

definition acquire_operation_lock :: "fs_path \<Rightarrow> nat \<Rightarrow> unit snap" where
  "acquire_operation_lock vault expected_identity =
     (let path = vault @ [OPERATION_LOCK_FILE] in
      perform (io (sys_metadata path)) (\<lambda>_.
      perform (pf (verify_private_file path)) (\<lambda>_.
      perform (lift_err (\<lambda>k. if k = Unsupported then PrivacyValidationRequired else SnapIo k)
        (syscall (ret ()))) (\<lambda>_.
      validate_locked_file vault expected_identity))))"

definition ensure_operation_lock :: "fs_path \<Rightarrow> nat snap" where
  "ensure_operation_lock vault =
     (let path = vault @ [OPERATION_LOCK_FILE] in
      attempt (sys_create_file path) (\<lambda>r. case r of
          Inr _ \<Rightarrow>
            perform (pf (set_private_file_permissions path)) (\<lambda>_.
            perform (io sys_sync) (\<lambda>_.
            perform (pf (verify_private_file path)) (\<lambda>_.
            perform (sync_published vault BindingDirectory) (\<lambda>_.
            perform (io (sys_metadata path)) (\<lambda>metadata. ret (inode metadata))))))
        | Inl k \<Rightarrow> if k = AlreadyExists then
            perform (io (sys_metadata path)) (\<lambda>_.
            perform (pf (verify_private_file path)) (\<lambda>_.
            perform (io (sys_metadata path)) (\<lambda>metadata. ret (inode metadata))))
          else fail (SnapIo k)))"

text \<open>\<open>lock_operation\<close>, the body, and \<open>finish\<close> with the result it reports when the lock was lost.\<close>

definition with_operation_lock ::
    "('a \<Rightarrow> snapshot_error) \<Rightarrow> snapshot_store \<Rightarrow> 'a snap \<Rightarrow> 'a snap" where
  "with_operation_lock lost st body =
     perform (acquire_operation_lock (st_vault st) (st_lock_identity st)) (\<lambda>_.
     attempt body (\<lambda>result.
     attempt (validate_locked_file (st_vault st) (st_lock_identity st)) (\<lambda>finished.
     case (result, finished) of
       (Inr x, Inr _) \<Rightarrow> ret x
     | (Inr x, Inl _) \<Rightarrow> fail (lost x)
     | (Inl e, Inr _) \<Rightarrow> fail e
     | (Inl e, Inl _) \<Rightarrow> fail (OperationFailedAndLockLost e))))"

section \<open>Opening the store\<close>

definition publish_or_verify_binding :: "snap_libs \<Rightarrow> fs_path \<Rightarrow> vault_binding \<Rightarrow> unit snap" where
  "publish_or_verify_binding S directory binding =
     perform (of_result (ok_or (binding_to_vec S binding) SnapJson)) (\<lambda>bytes.
     perform (read_optional_private_file directory BINDING_FILE MAX_MANIFEST_BYTES) (\<lambda>existing.
     case existing of
       Some actual \<Rightarrow>
         perform (of_result (binding_from_slice S actual)) (\<lambda>observed.
         if observed \<noteq> binding then fail BindingCollision
         else perform (of_result (ok_or (binding_to_vec S observed) SnapJson)) (\<lambda>again.
         if again \<noteq> actual then fail BindingCollision
         else sync_published directory BindingDirectory))
     | None \<Rightarrow>
         perform new_v4 (\<lambda>fresh.
         let temporary = ''.binding-'' @ uuid_string S fresh @ ''.tmp'' in
         perform (write_private_file directory temporary bytes) (\<lambda>_.
         attempt (atomic_rename_noreplace directory temporary directory BINDING_FILE) (\<lambda>r. case r of
             Inr _ \<Rightarrow> sync_published directory BindingDirectory
           | Inl e \<Rightarrow> if e = SnapIo AlreadyExists then
               perform (read_private_file directory BINDING_FILE MAX_MANIFEST_BYTES) (\<lambda>actual.
               if actual = bytes then sync_published directory BindingDirectory
               else fail BindingCollision)
             else fail e)))))"

text \<open>
  \<open>SnapshotStore::open\<close>; the race-checked opening of the two ambient roots is an argument: its
  error, or the private root with the device and inode of the vault root.
\<close>

definition snapshot_store_open ::
    "snap_libs \<Rightarrow> private_error + (fs_path \<times> u64 \<times> u64) \<Rightarrow> uuid \<Rightarrow> snapshot_store snap" where
  "snapshot_store_open S roots vault_id =
     (if is_nil vault_id then fail InvalidVaultId
      else perform (pf (of_result roots)) (\<lambda>(private_root, device, ino).
      perform (pf (create_or_open_private_dir private_root ROOT_DIRECTORY)) (\<lambda>recovery.
      perform (pf (create_or_open_private_dir recovery VERSION_DIRECTORY)) (\<lambda>version.
      perform (pf (create_or_open_private_dir version VAULTS_DIRECTORY)) (\<lambda>vaults.
      perform (pf (create_or_open_private_dir vaults (uuid_string S vault_id))) (\<lambda>vault.
      perform (publish_or_verify_binding S vault \<lparr>vb_version = 1, vb_vault_id = vault_id,
        vb_unix_device = device, vb_unix_inode = ino\<rparr>) (\<lambda>_.
      perform (ensure_operation_lock vault) (\<lambda>lock_identity.
      perform (pf (create_or_open_private_dir vault STAGING_DIRECTORY)) (\<lambda>staging.
      perform (pf (create_or_open_private_dir vault OBJECTS_DIRECTORY)) (\<lambda>objects.
      ret \<lparr>st_vault_id = vault_id, st_staging = staging, st_objects = objects, st_vault = vault,
        st_lock_identity = lock_identity\<rparr>))))))))))"

section \<open>Verification of objects\<close>

fun object_entries_ok :: "bool \<Rightarrow> bool \<Rightarrow> nat \<Rightarrow> string list \<Rightarrow> bool" where
  "object_entries_ok manifest payload count [] = (count = 2 \<and> manifest \<and> payload)"
| "object_entries_ok manifest payload count (name # names) =
     (count < 255 \<and> valid_utf8 name \<and>
      (if name = MANIFEST_FILE \<and> \<not> manifest then object_entries_ok True payload (Suc count) names
       else if name = PAYLOAD_FILE \<and> \<not> payload then object_entries_ok manifest True (Suc count) names
       else False))"

definition verify_exact_object_entries :: "fs_path \<Rightarrow> unit snap" where
  "verify_exact_object_entries directory =
     perform (io (sys_entries directory)) (\<lambda>names.
     require (object_entries_ok False False 0 names) InvalidObjectTopology)"

definition read_payload_revision :: "snap_libs \<Rightarrow> fs_path \<Rightarrow> snapshot_revision snap" where
  "read_payload_revision S directory =
     perform (read_private_file directory PAYLOAD_FILE MAX_PAYLOAD_BYTES) (\<lambda>bytes.
     ret (revision_from_bytes S bytes))"

definition check_manifest_bytes ::
    "snap_libs \<Rightarrow> snapshot_manifest \<Rightarrow> string \<Rightarrow> string \<Rightarrow> snapshot_error + unit" where
  "check_manifest_bytes S expected expected_bytes bytes =
     (if bytes \<noteq> expected_bytes then Inl SnapshotCollision
      else and_then (manifest_from_slice S bytes) (\<lambda>observed.
      and_then (manifest_validate S observed) (\<lambda>_.
      if observed \<noteq> expected then Inl SnapshotCollision
      else and_then (canonical_manifest_bytes S observed) (\<lambda>again.
      if again \<noteq> bytes then Inl SnapshotCollision else Inr ()))))"

definition verify_expected_object ::
    "snap_libs \<Rightarrow> fs_path \<Rightarrow> snapshot_manifest \<Rightarrow> string \<Rightarrow> unit snap" where
  "verify_expected_object S directory expected expected_bytes =
     perform (verify_exact_object_entries directory) (\<lambda>_.
     perform (read_private_file directory MANIFEST_FILE MAX_MANIFEST_BYTES) (\<lambda>bytes.
     perform (of_result (check_manifest_bytes S expected expected_bytes bytes)) (\<lambda>_.
     perform (read_payload_revision S directory) (\<lambda>revision.
     require (revision = sm_revision expected) SnapshotCollision))))"

definition evidence_of ::
    "snap_libs \<Rightarrow> evidence_location \<Rightarrow> uuid \<Rightarrow> uuid \<Rightarrow> string \<Rightarrow> snapshot_revision
      \<Rightarrow> snapshot_error + snapshot_evidence" where
  "evidence_of S location expected_snapshot_id expected_vault_id bytes payload_revision =
     and_then (envelope_from_slice S bytes) (\<lambda>envelope.
     if re_snapshot_id envelope \<noteq> expected_snapshot_id \<or> re_vault_id envelope \<noteq> expected_vault_id
     then Inl SnapshotCollision
     else if re_version envelope \<noteq> MANIFEST_VERSION
     then Inr (EvidenceUnsupported location (re_snapshot_id envelope) (re_vault_id envelope)
       (re_version envelope) payload_revision)
     else and_then (manifest_from_slice S bytes) (\<lambda>manifest.
     and_then (manifest_validate S manifest) (\<lambda>_.
     and_then (canonical_manifest_bytes S manifest) (\<lambda>canonical.
     if canonical \<noteq> bytes \<or> payload_revision \<noteq> sm_revision manifest then Inl SnapshotCollision
     else Inr (Supported location manifest)))))"

text \<open>
  The verification budget is passed and returned: \<open>Some b\<close> is the value behind the mutable
  reference. It is updated before the files are read.
\<close>

type_synonym inspection = "((snapshot_error + snapshot_evidence) \<times> nat)"

definition inspect_object ::
    "snap_libs \<Rightarrow> fs_path \<Rightarrow> evidence_location \<Rightarrow> uuid \<Rightarrow> uuid \<Rightarrow> nat option
      \<Rightarrow> (nat option \<times> (snapshot_error + inspection)) snap" where
  "inspect_object S directory location expected_snapshot_id expected_vault_id budget =
     (let spent = (\<lambda>b r. ret (b, r)) in
      attempt (perform (verify_exact_object_entries directory) (\<lambda>_.
        perform (open_held_private_file directory MANIFEST_FILE MAX_MANIFEST_BYTES) (\<lambda>mf.
        perform (open_held_private_file directory PAYLOAD_FILE MAX_PAYLOAD_BYTES) (\<lambda>pl.
        ret (mf, pl))))) (\<lambda>opened. case opened of
          Inl e \<Rightarrow> spent budget (Inl e)
        | Inr ((manifest_file, manifest_len), (payload_file, payload_len)) \<Rightarrow>
            (let logical_bytes = manifest_len + payload_len in
             if is_some_and budget (\<lambda>b. logical_bytes > b)
             then spent budget (Inl VerificationBudgetExceeded)
             else (let budget' = map_option (\<lambda>b. b - logical_bytes) budget in
             attempt (perform (read_held_private_file manifest_file manifest_len) (\<lambda>bytes.
               perform (read_held_private_file payload_file payload_len) (\<lambda>payload.
               ret (evidence_of S location expected_snapshot_id expected_vault_id bytes
                 (revision_from_bytes S payload), logical_bytes)))) (\<lambda>r. spent budget' r)))))"

text \<open>\<open>inspect_object\<close> without a budget, as most callers use it.\<close>

definition inspect_whole_object ::
    "snap_libs \<Rightarrow> fs_path \<Rightarrow> evidence_location \<Rightarrow> uuid \<Rightarrow> uuid \<Rightarrow> inspection snap" where
  "inspect_whole_object S directory location expected_snapshot_id expected_vault_id =
     perform (inspect_object S directory location expected_snapshot_id expected_vault_id None)
       (\<lambda>(_, r). of_result r)"

definition inspect :: "snap_libs \<Rightarrow> snapshot_store \<Rightarrow> uuid \<Rightarrow> snapshot_evidence snap" where
  "inspect S st snapshot_id =
     (if is_nil snapshot_id then fail InvalidSnapshotId
      else let name = uuid_string S snapshot_id in
      perform (open_optional_private_dir (st_objects st) name) (\<lambda>object.
      perform (open_optional_private_dir (st_staging st) name) (\<lambda>staging.
      case (object, staging) of
        (Some _, Some _) \<Rightarrow> fail AmbiguousEvidence
      | (Some directory, None) \<Rightarrow>
          perform (inspect_whole_object S directory Objects snapshot_id (st_vault_id st)) (\<lambda>(evidence, _).
          of_result evidence)
      | (None, Some directory) \<Rightarrow>
          perform (inspect_whole_object S directory Staging snapshot_id (st_vault_id st)) (\<lambda>(evidence, _).
          of_result evidence)
      | (None, None) \<Rightarrow> fail SnapshotNotFound)))"

section \<open>Publication\<close>

definition work_name :: "snap_libs \<Rightarrow> uuid \<Rightarrow> uuid \<Rightarrow> string" where
  "work_name S snapshot_id fresh =
     ''.work-'' @ uuid_string S snapshot_id @ ''-'' @ uuid_string S fresh"

fun create_fresh_work :: "snap_libs \<Rightarrow> nat \<Rightarrow> snapshot_store \<Rightarrow> uuid \<Rightarrow> (string \<times> fs_path) snap" where
  "create_fresh_work S 0 st snapshot_id = fail SnapshotCollision"
| "create_fresh_work S (Suc tries) st snapshot_id =
     perform new_v4 (\<lambda>fresh.
     let name = work_name S snapshot_id fresh in
     attempt (create_private_dir (st_staging st) name) (\<lambda>r. case r of
         Inr work \<Rightarrow> ret (name, work)
       | Inl e \<Rightarrow> if e = PfIo AlreadyExists then create_fresh_work S tries st snapshot_id
           else fail (from_private e)))"

definition promote_staging ::
    "snap_libs \<Rightarrow> snapshot_store \<Rightarrow> snapshot_manifest \<Rightarrow> string \<Rightarrow> publish_outcome \<Rightarrow> publish_outcome snap" where
  "promote_staging S st manifest manifest_bytes outcome =
     (let name = uuid_string S (sm_snapshot_id manifest) in
      attempt (atomic_rename_noreplace (st_staging st) name (st_objects st) name) (\<lambda>r. case r of
          Inl e \<Rightarrow> if e = SnapIo AlreadyExists then fail AmbiguousEvidence else fail e
        | Inr _ \<Rightarrow>
            perform (sync_published (st_objects st) ObjectsDirectory) (\<lambda>_.
            perform (sync_published (st_staging st) StagingDirectory) (\<lambda>_.
            perform (pf (open_private_dir (st_objects st) name)) (\<lambda>object.
            perform (verify_expected_object S object manifest manifest_bytes) (\<lambda>_.
            ret outcome))))))"

definition resume_stable ::
    "snap_libs \<Rightarrow> snapshot_store \<Rightarrow> snapshot_manifest \<Rightarrow> string \<Rightarrow> publish_outcome option snap" where
  "resume_stable S st manifest manifest_bytes =
     (let name = uuid_string S (sm_snapshot_id manifest) in
      perform (open_optional_private_dir (st_objects st) name) (\<lambda>object.
      perform (open_optional_private_dir (st_staging st) name) (\<lambda>staging.
      case (object, staging) of
        (Some _, Some _) \<Rightarrow> fail AmbiguousEvidence
      | (Some directory, None) \<Rightarrow>
          perform (verify_expected_object S directory manifest manifest_bytes) (\<lambda>_.
          perform (sync_published (st_objects st) ObjectsDirectory) (\<lambda>_.
          perform (sync_published (st_staging st) StagingDirectory) (\<lambda>_.
          ret (Some AlreadyPublished))))
      | (None, Some directory) \<Rightarrow>
          perform (verify_expected_object S directory manifest manifest_bytes) (\<lambda>_.
          perform (promote_staging S st manifest manifest_bytes PromotedFromStaging) (\<lambda>outcome.
          ret (Some outcome)))
      | (None, None) \<Rightarrow> ret None)))"

text \<open>The checks of \<open>publish\<close> before it touches the tree.\<close>

definition publish_preconditions ::
    "snap_libs \<Rightarrow> snapshot_store \<Rightarrow> snapshot_manifest \<Rightarrow> string \<Rightarrow> snapshot_error + string" where
  "publish_preconditions S st manifest payload =
     and_then (manifest_validate S manifest) (\<lambda>_.
     if sm_vault_id manifest \<noteq> st_vault_id st then Inl InvalidVaultId
     else if length payload > MAX_PAYLOAD_BYTES then Inl PayloadTooLarge
     else if revision_from_bytes S payload \<noteq> sm_revision manifest then Inl InvalidRevision
     else canonical_manifest_bytes S manifest)"

definition write_work ::
    "snap_libs \<Rightarrow> fs_path \<Rightarrow> snapshot_manifest \<Rightarrow> string \<Rightarrow> string \<Rightarrow> unit snap" where
  "write_work S work manifest manifest_bytes payload =
     perform (write_private_file work PAYLOAD_FILE payload) (\<lambda>_.
     perform (write_private_file work MANIFEST_FILE manifest_bytes) (\<lambda>_.
     perform (verify_expected_object S work manifest manifest_bytes) (\<lambda>_.
     sync_published work WorkDirectory)))"

definition publish_locked ::
    "snap_libs \<Rightarrow> snapshot_store \<Rightarrow> snapshot_manifest \<Rightarrow> string \<Rightarrow> publish_outcome snap" where
  "publish_locked S st manifest payload =
     perform (of_result (publish_preconditions S st manifest payload)) (\<lambda>manifest_bytes.
     perform (resume_stable S st manifest manifest_bytes) (\<lambda>resumed. case resumed of
       Some outcome \<Rightarrow> ret outcome
     | None \<Rightarrow>
         perform (create_fresh_work S 32 st (sm_snapshot_id manifest)) (\<lambda>(name, work).
         perform (write_work S work manifest manifest_bytes payload) (\<lambda>_.
         attempt (atomic_rename_noreplace (st_staging st) name (st_staging st)
           (uuid_string S (sm_snapshot_id manifest))) (\<lambda>r. case r of
             Inr _ \<Rightarrow>
               perform (sync_published (st_staging st) StagingDirectory) (\<lambda>_.
               promote_staging S st manifest manifest_bytes Published)
           | Inl e \<Rightarrow> if e = SnapIo AlreadyExists then
               perform (resume_stable S st manifest manifest_bytes) (\<lambda>again.
               of_result (ok_or again SnapshotCollision))
             else fail e)))))"

definition publish :: "snap_libs \<Rightarrow> snapshot_store \<Rightarrow> snapshot_manifest \<Rightarrow> string \<Rightarrow> publish_outcome snap" where
  "publish S st manifest payload =
     with_operation_lock PublishedButLockLost st (publish_locked S st manifest payload)"

end
