(* ===== verification/Private_Logic.thy ===== *)
theory Private_Logic
  imports Private_Files
begin

text \<open>
  Reasoning about operations on the private tree.

  \<^item> The locale \<open>discipline\<close> has one parameter, a reflexive and transitive relation between the
    tree before and the tree after an operation. Its judgement \<open>upholds P m Q\<close> says that \<open>m\<close>,
    started where \<open>P\<close> holds, relates the two trees whatever the fault oracle does, and that \<open>Q\<close>
    holds when it returns a value. A component states what it may do to the tree as such a relation.
  \<^item> \<open>reads\<close> operations change nothing but the clock.
  \<^item> \<open>succeeds P m Q\<close> says that \<open>m\<close> returns a value when no call fails.
\<close>

named_theorems read_intros "operations that only read"
named_theorems upholds_intros "rules of the disciplines"

section \<open>Reading operations\<close>

definition reads :: "('e, 'a) act \<Rightarrow> bool" where
  "reads m = (\<forall>w. \<exists>c. snd (m w) = w\<lparr>w_clock := c\<rparr>)"

lemma reads_tree: "reads m \<Longrightarrow> w_tree (snd (m w)) = w_tree w"
  by (auto simp: reads_def dest!: spec [of _ w])

lemma reads_same:
  assumes "\<And>w. snd (m w) = w"
  shows "reads m"
  unfolding reads_def
proof
  fix w :: world
  have "snd (m w) = w\<lparr>w_clock := w_clock w\<rparr>" by (simp add: assms)
  then show "\<exists>c. snd (m w) = w\<lparr>w_clock := c\<rparr>" ..
qed

lemma reads_ret [read_intros]: "reads (ret x)"
  by (rule reads_same) (simp add: ret_def)

lemma reads_fail [read_intros]: "reads (fail e)"
  by (rule reads_same) (simp add: fail_def)

lemma reads_of_result [read_intros]: "reads (of_result r)"
  by (rule reads_same) (simp add: of_result_def)

lemma lift_err_simps [simp]:
  "fst (lift_err g m w) = map_err g (fst (m w))" "snd (lift_err g m w) = snd (m w)"
  by (simp_all add: lift_err_def split: prod.splits)

lemma reads_require [read_intros]: "reads (require b e)"
  by (simp add: require_def reads_ret reads_fail)

lemma reads_attempt [read_intros]:
  assumes "reads m" and "\<And>r. reads (f r)"
  shows "reads (attempt m f)"
  unfolding reads_def
proof
  fix w :: world
  obtain r w1 where m: "m w = (r, w1)" by (cases "m w")
  obtain c where c: "w1 = w\<lparr>w_clock := c\<rparr>" using assms(1) m by (metis reads_def snd_conv)
  obtain d where "snd (f r w1) = w1\<lparr>w_clock := d\<rparr>" using assms(2) by (metis reads_def)
  then show "\<exists>c. snd (attempt m f w) = w\<lparr>w_clock := c\<rparr>" using m c by (auto simp: attempt_def)
qed

lemma perform_attempt:
  "perform m f = attempt m (\<lambda>r. case r of Inl e \<Rightarrow> fail e | Inr x \<Rightarrow> f x)"
  by (auto simp: perform_def attempt_def fail_def fun_eq_iff split: prod.splits sum.splits)

lemma lift_err_attempt: "lift_err g m = attempt m (\<lambda>r. of_result (map_err g r))"
  by (auto simp: lift_err_def attempt_def of_result_def fun_eq_iff split: prod.splits)

lemma reads_case_sum [read_intros]:
  "(\<And>e. reads (f e)) \<Longrightarrow> (\<And>x. reads (g x)) \<Longrightarrow> reads (case r of Inl e \<Rightarrow> f e | Inr x \<Rightarrow> g x)"
  by (cases r) auto

lemma reads_case_option [read_intros]:
  "reads f \<Longrightarrow> (\<And>x. reads (g x)) \<Longrightarrow> reads (case r of None \<Rightarrow> f | Some x \<Rightarrow> g x)"
  by (cases r) auto

lemma reads_case_prod [read_intros]:
  "(\<And>x y. reads (f x y)) \<Longrightarrow> reads (case r of (x, y) \<Rightarrow> f x y)"
  by (cases r) auto

lemma reads_case_node [read_intros]:
  "(\<And>i p c. reads (f i p c)) \<Longrightarrow> (\<And>i p. reads (g i p))
   \<Longrightarrow> reads (case n of FileNode i p c \<Rightarrow> f i p c | DirNode i p \<Rightarrow> g i p)"
  by (cases n) auto

lemma reads_if [read_intros]: "reads a \<Longrightarrow> reads b \<Longrightarrow> reads (if c then a else b)"
  by simp

lemma reads_perform [read_intros]: "reads m \<Longrightarrow> (\<And>x. reads (f x)) \<Longrightarrow> reads (perform m f)"
  unfolding perform_attempt by (intro read_intros) auto

lemma reads_lift_err [read_intros]: "reads m \<Longrightarrow> reads (lift_err g m)"
  unfolding lift_err_attempt by (intro read_intros) auto

lemma reads_for_acts [read_intros]: "(\<And>x. reads (f x)) \<Longrightarrow> reads (for_acts f xs)"
  by (induction xs) (auto intro: read_intros)

lemma reads_syscall: "reads m \<Longrightarrow> reads (syscall m)"
  unfolding reads_def
proof
  fix w :: world
  assume r: "\<forall>w. \<exists>c. snd (m w) = w\<lparr>w_clock := c\<rparr>"
  obtain c where "snd (m (tick w)) = (tick w)\<lparr>w_clock := c\<rparr>" using r by blast
  then show "\<exists>c. snd (syscall m w) = w\<lparr>w_clock := c\<rparr>"
    by (cases "w_faults w (w_clock w)") (auto simp: syscall_def tick_def)
qed

lemma reads_state: "reads (\<lambda>w. (f w, w))"
  by (rule reads_same) simp

lemma reads_privacy_check [read_intros]: "reads (privacy_check ok e)"
  by (auto simp: reads_def privacy_check_def tick_def split: option.splits)

lemma reads_sys_metadata [read_intros]: "reads (sys_metadata p)"
  unfolding sys_metadata_def by (rule reads_syscall) (rule reads_state)

lemma reads_sys_entries [read_intros]: "reads (sys_entries p)"
  unfolding sys_entries_def by (rule reads_syscall) (rule reads_state)

lemma reads_sys_sync [read_intros]: "reads sys_sync"
  unfolding sys_sync_def by (rule reads_syscall) (rule reads_ret)

lemma reads_verify_private_file [read_intros]: "reads (verify_private_file p)"
  unfolding verify_private_file_def by (intro read_intros)

lemma reads_require_private_directory [read_intros]: "reads (require_private_directory p)"
  unfolding require_private_directory_def by (intro read_intros)

lemma reads_sync_directory [read_intros]: "reads (sync_directory d)"
  unfolding sync_directory_def by (intro read_intros)

lemma reads_open_child_dir_nofollow [read_intros]: "reads (open_child_dir_nofollow d n)"
  unfolding open_child_dir_nofollow_def by (intro read_intros)

lemma reads_open_private_dir [read_intros]: "reads (open_private_dir d n)"
  unfolding open_private_dir_def by (intro read_intros)

lemma reads_open_private_file [read_intros]: "reads (open_private_file d n)"
  unfolding open_private_file_def by (intro read_intros)

lemma reads_held_directory_identity [read_intros]: "reads (held_directory_identity d)"
  unfolding held_directory_identity_def by (intro read_intros)

lemma reads_held_private_file_identity [read_intros]: "reads (held_private_file_identity d)"
  unfolding held_private_file_identity_def by (intro read_intros)

section \<open>What a returned value says of the tree\<close>

text \<open>\<open>learns m Q\<close>: when \<open>m\<close> returns \<open>x\<close>, the tree it ends with satisfies \<open>Q x\<close>.\<close>

definition learns :: "('e, 'a) act \<Rightarrow> ('a \<Rightarrow> tree \<Rightarrow> bool) \<Rightarrow> bool" where
  "learns m Q = (\<forall>w x. fst (m w) = Inr x \<longrightarrow> Q x (w_tree (snd (m w))))"

lemma learnsD: "learns m Q \<Longrightarrow> m w = (Inr x, w') \<Longrightarrow> Q x (w_tree w')"
  by (metis learns_def fst_conv snd_conv)

lemma perform_Inr:
  assumes "perform m f w = (Inr y, w')"
  obtains x w1 where "m w = (Inr x, w1)" "f x w1 = (Inr y, w')"
proof -
  obtain r w1 where m: "m w = (r, w1)" by (cases "m w")
  with assms that show thesis by (cases r) (auto simp: perform_def)
qed

lemma learns_perform:
  assumes m: "learns m P" and f: "\<And>x. reads (f x)" "\<And>x. learns (f x) (\<lambda>y t. P x t \<longrightarrow> Q y t)"
  shows "learns (perform m f) Q"
  unfolding learns_def
proof (intro allI impI)
  fix w :: world and y
  assume "fst (perform m f w) = Inr y"
  then obtain w' where w': "perform m f w = (Inr y, w')" by (metis prod.collapse)
  then obtain x w1 where s: "m w = (Inr x, w1)" "f x w1 = (Inr y, w')" by (rule perform_Inr)
  have "P x (w_tree w')" using learnsD [OF m s(1)] reads_tree [OF f(1), of x w1] s(2) by simp
  then show "Q y (w_tree (snd (perform m f w)))" using learnsD [OF f(2) s(2)] w' by simp
qed

lemma learns_then:
  assumes "reads m" and "\<And>x. learns (f x) Q"
  shows "learns (perform m f) Q"
  unfolding learns_def
proof (intro allI impI)
  fix w :: world and y
  assume "fst (perform m f w) = Inr y"
  then obtain w' where w': "perform m f w = (Inr y, w')" by (metis prod.collapse)
  then obtain x w1 where "m w = (Inr x, w1)" "f x w1 = (Inr y, w')" by (rule perform_Inr)
  then show "Q y (w_tree (snd (perform m f w)))" using learnsD [OF assms(2)] w' by simp
qed

lemma learns_mono: "learns m P \<Longrightarrow> (\<And>x t. P x t \<Longrightarrow> Q x t) \<Longrightarrow> learns m Q"
  by (auto simp: learns_def)

lemma learns_conj: "learns m P \<Longrightarrow> learns m Q \<Longrightarrow> learns m (\<lambda>x t. P x t \<and> Q x t)"
  by (auto simp: learns_def)

lemma learns_ret: "(\<And>t. Q x t) \<Longrightarrow> learns (ret x) Q"
  by (simp add: learns_def ret_def)

lemma learns_fail: "learns (fail e) Q"
  by (simp add: learns_def fail_def)

lemma learns_of_result: "(\<And>x t. r = Inr x \<Longrightarrow> Q x t) \<Longrightarrow> learns (of_result r) Q"
  by (simp add: learns_def of_result_def)

lemma learns_require: "(\<And>t. b \<Longrightarrow> Q () t) \<Longrightarrow> learns (require b e) Q"
  by (simp add: require_def learns_ret learns_fail)

lemma learns_lift_err: "learns m Q \<Longrightarrow> learns (lift_err g m) Q"
  by (simp add: learns_def)

lemma learns_if: "(c \<Longrightarrow> learns a Q) \<Longrightarrow> (\<not> c \<Longrightarrow> learns b Q) \<Longrightarrow> learns (if c then a else b) Q"
  by simp

lemma learns_attempt:
  assumes "reads m" and "\<And>r. reads (f r)" and "learns m P"
    and "\<And>x. learns (f (Inr x)) (\<lambda>y t. P x t \<longrightarrow> Q y t)" and "\<And>e. learns (f (Inl e)) Q"
  shows "learns (attempt m f) Q"
  unfolding learns_def
proof (intro allI impI)
  fix w :: world and y
  assume y: "fst (attempt m f w) = Inr y"
  obtain r w1 where m: "m w = (r, w1)" by (cases "m w")
  then have eq: "attempt m f w = f r w1" by (simp add: attempt_def)
  show "Q y (w_tree (snd (attempt m f w)))"
  proof (cases r)
    case (Inl e)
    with assms(5) [of e] y show ?thesis by (simp add: learns_def eq)
  next
    case (Inr x)
    then have "P x (w_tree (snd (f r w1)))"
      using learnsD [OF assms(3), of w x w1] m reads_tree [OF assms(2), of r w1] by simp
    with assms(4) [of x] y Inr show ?thesis by (simp add: learns_def eq)
  qed
qed

lemma learns_sys_metadata: "learns (sys_metadata p) (\<lambda>n t. node_at t p = Some n)"
  by (auto simp: learns_def sys_metadata_def syscall_def tick_def split: option.splits)

lemma learns_sys_entries: "learns (sys_entries d) (\<lambda>ns t. ns = names_in t d)"
  by (auto simp: learns_def sys_entries_def syscall_def tick_def split: option.splits)

lemma learns_verify_private_file:
  "learns (verify_private_file p) (\<lambda>_ t. \<exists>i c. node_at t p = Some (FileNode i True c))"
proof -
  have "\<exists>i c. n = FileNode i True c" if "is_private n" "\<not> is_dir_node n" for n
    using that by (cases n) auto
  then show ?thesis
    by (auto simp: learns_def verify_private_file_def privacy_check_def private_at_def is_some_and_def
        tick_def split: option.splits if_splits)
qed

lemma learns_require_private_directory:
  "learns (require_private_directory d) (\<lambda>_ t. \<exists>n. node_at t d = Some n \<and> is_private n)"
  by (auto simp: learns_def require_private_directory_def privacy_check_def private_at_def
      is_some_and_def tick_def split: option.splits if_splits)

lemma learns_open_child_dir_nofollow:
  "learns (open_child_dir_nofollow d n) (\<lambda>h t. h = d @ [n] \<and> (\<exists>i p. node_at t h = Some (DirNode i p)))"
  unfolding open_child_dir_nofollow_def
  by (rule learns_perform [OF learns_lift_err [OF learns_sys_metadata]])
    (auto intro!: read_intros learns_if learns_ret learns_fail elim: is_dir_node.elims)

lemma learns_open_private_dir:
  "learns (open_private_dir d n) (\<lambda>h t. h = d @ [n] \<and> (\<exists>i. node_at t h = Some (DirNode i True)))"
  unfolding open_private_dir_def
proof (rule learns_then, intro read_intros)
  have *: "learns (require_private_directory h) (\<lambda>_ t. \<exists>n. node_at t h = Some n \<and> is_private n)" for h
    by (rule learns_require_private_directory)
  show "learns (perform (open_child_dir_nofollow d n)
      (\<lambda>directory. perform (require_private_directory directory) (\<lambda>_. ret directory)))
      (\<lambda>h t. h = d @ [n] \<and> (\<exists>i. node_at t h = Some (DirNode i True)))"
    by (rule learns_perform [OF learns_open_child_dir_nofollow], intro read_intros,
        rule learns_perform [OF *]) (auto intro!: read_intros learns_ret)
qed

section \<open>Triples\<close>

text \<open>
  Total over the fault oracle: from a tree in \<open>P\<close>, a returned value ends in \<open>Q\<close> and an error in
  \<open>E\<close>. The two are used with a ghost tree, the one the whole operation started from.
\<close>

definition triple ::
    "(tree \<Rightarrow> bool) \<Rightarrow> ('e, 'a) act \<Rightarrow> ('a \<Rightarrow> tree \<Rightarrow> bool) \<Rightarrow> (tree \<Rightarrow> bool) \<Rightarrow> bool" where
  "triple P m Q E = (\<forall>w. P (w_tree w) \<longrightarrow>
     (case fst (m w) of Inl _ \<Rightarrow> E (w_tree (snd (m w))) | Inr x \<Rightarrow> Q x (w_tree (snd (m w)))))"

lemma tripleD:
  assumes "triple P m Q E" and "P (w_tree w)" and "m w = (r, w')"
  shows "case r of Inl _ \<Rightarrow> E (w_tree w') | Inr x \<Rightarrow> Q x (w_tree w')"
  using assms(1) [unfolded triple_def, rule_format, OF assms(2)] assms(3) by (cases r) simp_all

lemma tripleI:
  assumes "\<And>w r w'. P (w_tree w) \<Longrightarrow> m w = (r, w')
    \<Longrightarrow> case r of Inl _ \<Rightarrow> E (w_tree w') | Inr x \<Rightarrow> Q x (w_tree w')"
  shows "triple P m Q E"
  unfolding triple_def using assms by (metis prod.collapse)

lemma triple_attempt:
  assumes m: "triple P m Q D" and f: "\<And>x. triple (Q x) (f (Inr x)) R E"
    and e: "\<And>e. triple D (f (Inl e)) R E"
  shows "triple P (attempt m f) R E"
proof (rule tripleI)
  fix w r w'
  assume p: "P (w_tree w)" and a: "attempt m f w = (r, w')"
  obtain r1 w1 where m1: "m w = (r1, w1)" by (cases "m w")
  have f1: "f r1 w1 = (r, w')" using a m1 by (simp add: attempt_def)
  have s: "case r1 of Inl _ \<Rightarrow> D (w_tree w1) | Inr x \<Rightarrow> Q x (w_tree w1)" by (rule tripleD [OF m p m1])
  show "case r of Inl _ \<Rightarrow> E (w_tree w') | Inr x \<Rightarrow> R x (w_tree w')"
    using s f1 tripleD [OF f] tripleD [OF e] by (cases r1) auto
qed

lemma triple_weaken:
  assumes "triple P m Q E" and "\<And>t. P' t \<Longrightarrow> P t" and "\<And>x t. Q x t \<Longrightarrow> Q' x t" and "\<And>t. E t \<Longrightarrow> E' t"
  shows "triple P' m Q' E'"
proof (rule tripleI)
  fix w r w'
  assume p: "P' (w_tree w)" and m: "m w = (r, w')"
  show "case r of Inl _ \<Rightarrow> E' (w_tree w') | Inr x \<Rightarrow> Q' x (w_tree w')"
    using tripleD [OF assms(1) assms(2) [OF p] m] assms(3,4) by (cases r) simp_all
qed

lemma triple_reads: "reads m \<Longrightarrow> triple P m (\<lambda>_. P) P"
  by (auto simp: triple_def reads_tree split: sum.splits)

lemma triple_reads_learns: "reads m \<Longrightarrow> learns m Q \<Longrightarrow> triple P m (\<lambda>x t. P t \<and> Q x t) P"
  by (auto simp: triple_def reads_tree learns_def split: sum.splits)

lemma triple_fail: "(\<And>t. P t \<Longrightarrow> E t) \<Longrightarrow> triple P (fail e) Q E"
  by (simp add: triple_def fail_def)

lemma triple_ret: "(\<And>t. P t \<Longrightarrow> Q x t) \<Longrightarrow> triple P (ret x) Q E"
  by (simp add: triple_def ret_def)

lemma triple_of_result:
  "(\<And>x t. r = Inr x \<Longrightarrow> P t \<Longrightarrow> Q x t) \<Longrightarrow> (\<And>e t. r = Inl e \<Longrightarrow> P t \<Longrightarrow> E t) \<Longrightarrow> triple P (of_result r) Q E"
  by (auto simp: triple_def of_result_def split: sum.splits)

lemma triple_perform:
  assumes "triple P m Q E" and "\<And>x. triple (Q x) (f x) R E"
  shows "triple P (perform m f) R E"
  unfolding perform_attempt by (rule triple_attempt [OF assms(1)]) (auto intro: assms(2) triple_fail)

lemma triple_read_then:
  assumes "reads m" and "\<And>t. P t \<Longrightarrow> E t" and "\<And>x. triple P (f x) R E"
  shows "triple P (perform m f) R E"
proof (rule triple_perform)
  show "triple P m (\<lambda>_. P) E"
    by (rule triple_weaken [OF triple_reads [OF assms(1), of P]]) (auto intro: assms(2))
qed (rule assms(3))

lemma triple_learn_then:
  assumes "reads m" and "learns m Q" and "\<And>t. P t \<Longrightarrow> E t" and "\<And>x. triple (\<lambda>t. P t \<and> Q x t) (f x) R E"
  shows "triple P (perform m f) R E"
proof (rule triple_perform)
  show "triple P m (\<lambda>x t. P t \<and> Q x t) E"
    by (rule triple_weaken [OF triple_reads_learns [OF assms(1,2), of P]]) (auto intro: assms(3))
qed (rule assms(4))

lemma triple_lift_err: "triple P m Q E \<Longrightarrow> triple P (lift_err g m) Q E"
  unfolding triple_def by (auto split: sum.splits simp: map_err_def)

lemma triple_if:
  "(c \<Longrightarrow> triple P a Q E) \<Longrightarrow> (\<not> c \<Longrightarrow> triple P b Q E) \<Longrightarrow> triple P (if c then a else b) Q E"
  by simp

lemma triple_pull: "(\<And>u. P u \<Longrightarrow> triple (\<lambda>t. t = u) m Q E) \<Longrightarrow> triple P m Q E"
  by (simp add: triple_def)

lemma triple_pure: "(b \<Longrightarrow> triple P m Q E) \<Longrightarrow> triple (\<lambda>t. P t \<and> b) m Q E"
  by (auto simp: triple_def)

text \<open>The calls that change the tree.\<close>

lemma triple_syscall: "triple P m Q E \<Longrightarrow> (\<And>t. P t \<Longrightarrow> E t) \<Longrightarrow> triple P (syscall m) Q E"
proof (rule tripleI)
  fix w r w'
  assume m: "triple P m Q E" and e: "\<And>t. P t \<Longrightarrow> E t" and p: "P (w_tree w)"
    and s: "syscall m w = (r, w')"
  have p': "P (w_tree (tick w))" using p by (simp add: tick_def)
  show "case r of Inl _ \<Rightarrow> E (w_tree w') | Inr x \<Rightarrow> Q x (w_tree w')"
  proof (cases "w_faults w (w_clock w)")
    case None
    then have "m (tick w) = (r, w')" using s by (simp add: syscall_def)
    then show ?thesis by (rule tripleD [OF m p'])
  next
    case (Some f)
    then show ?thesis using s e [OF p] by (auto simp: syscall_def tick_def)
  qed
qed

lemma triple_sys_create_dir:
  "triple (\<lambda>t. t = u) (sys_create_dir p)
     (\<lambda>_ t. \<not> occupied u p \<and> (\<exists>i b. t = put_node p (DirNode i b) u)) (\<lambda>t. t = u)"
  unfolding sys_create_dir_def
  by (rule triple_syscall) (auto simp: triple_def set_tree_def split: if_splits)

lemma triple_sys_create_file:
  "triple (\<lambda>t. t = u) (sys_create_file p)
     (\<lambda>_ t. \<not> occupied u p \<and> (\<exists>i b. t = put_node p (FileNode i b []) u)) (\<lambda>t. t = u)"
  unfolding sys_create_file_def
  by (rule triple_syscall) (auto simp: triple_def set_tree_def split: if_splits)

lemma triple_sys_set_private:
  "triple (\<lambda>t. t = u) (sys_set_private p)
     (\<lambda>_ t. \<exists>n. node_at u p = Some n \<and> t = put_node p (made_private n) u) (\<lambda>t. t = u)"
  unfolding sys_set_private_def
  by (rule triple_syscall) (auto simp: triple_def set_tree_def split: option.splits)

lemma triple_sys_write:
  "triple (\<lambda>t. t = u) (sys_write p bytes)
     (\<lambda>_ t. \<exists>n. node_at u p = Some n \<and> t = put_node p (written_node bytes n) u)
     (\<lambda>t. t = u \<or> (\<exists>n k. node_at u p = Some n \<and> t = put_node p (written_node (take k bytes) n) u))"
  by (auto simp: triple_def sys_write_def set_tree_def tick_def split: option.splits)

lemma triple_sys_rename_noreplace:
  "triple (\<lambda>t. t = u) (sys_rename_noreplace s d)
     (\<lambda>_ t. node_at u s \<noteq> None \<and> \<not> occupied u d \<and> t = move_tree s d u) (\<lambda>t. t = u)"
  unfolding sys_rename_noreplace_def
  by (rule triple_syscall) (auto simp: triple_def set_tree_def split: if_splits)

lemma triple_sys_remove_file:
  "triple (\<lambda>t. t = u) (sys_remove_file p)
     (\<lambda>_ t. (\<exists>i b c. node_at u p = Some (FileNode i b c)) \<and> t = drop_node p u) (\<lambda>t. t = u)"
  unfolding sys_remove_file_def
  by (rule triple_syscall) (auto simp: triple_def set_tree_def split: option.splits node.splits)

lemma triple_sys_remove_dir:
  "triple (\<lambda>t. t = u) (sys_remove_dir p)
     (\<lambda>_ t. (\<exists>i b. node_at u p = Some (DirNode i b)) \<and> names_in u p = [] \<and> t = drop_node p u)
     (\<lambda>t. t = u)"
  unfolding sys_remove_dir_def
  by (rule triple_syscall) (auto simp: triple_def set_tree_def split: option.splits node.splits)

lemma triple_new_v4: "triple P new_v4 (\<lambda>_. P) E"
  by (simp add: triple_def new_v4_def)

section \<open>Success when no call fails\<close>

definition calm :: "world \<Rightarrow> bool" where
  "calm w = (w_faults w = (\<lambda>_. None))"

definition succeeds :: "(tree \<Rightarrow> bool) \<Rightarrow> ('e, 'a) act \<Rightarrow> ('a \<Rightarrow> tree \<Rightarrow> bool) \<Rightarrow> bool" where
  "succeeds P m Q = (\<forall>w. calm w \<longrightarrow> P (w_tree w) \<longrightarrow>
     (\<exists>x w'. m w = (Inr x, w') \<and> calm w' \<and> Q x (w_tree w')))"

lemma succeedsD:
  assumes "succeeds P m Q" and "calm w" and "P (w_tree w)"
  obtains x w' where "m w = (Inr x, w')" "calm w'" "Q x (w_tree w')"
  using assms unfolding succeeds_def by blast

lemma succeeds_weaken:
  assumes "succeeds P m Q" and "\<And>t. P' t \<Longrightarrow> P t" and "\<And>x t. Q x t \<Longrightarrow> Q' x t"
  shows "succeeds P' m Q'"
  using assms unfolding succeeds_def by metis

lemma succeeds_attempt:
  assumes m: "succeeds P m Q" and f: "\<And>x. succeeds (Q x) (f (Inr x)) R"
  shows "succeeds P (attempt m f) R"
  unfolding succeeds_def
proof (intro allI impI)
  fix w :: world
  assume "calm w" "P (w_tree w)"
  with m obtain x w1 where 1: "m w = (Inr x, w1)" "calm w1" "Q x (w_tree w1)" by (rule succeedsD)
  from f 1(2,3) obtain y w2 where "f (Inr x) w1 = (Inr y, w2)" "calm w2" "R y (w_tree w2)"
    by (rule succeedsD)
  then show "\<exists>x w'. attempt m f w = (Inr x, w') \<and> calm w' \<and> R x (w_tree w')"
    using 1 by (simp add: attempt_def)
qed

lemma succeeds_perform:
  "succeeds P m Q \<Longrightarrow> (\<And>x. succeeds (Q x) (f x) R) \<Longrightarrow> succeeds P (perform m f) R"
  unfolding perform_attempt by (rule succeeds_attempt) auto

lemma succeeds_ret: "(\<And>t. P t \<Longrightarrow> Q x t) \<Longrightarrow> succeeds P (ret x) Q"
  by (simp add: succeeds_def ret_def)

lemma succeeds_of_result: "(\<And>t. P t \<Longrightarrow> \<exists>x. r = Inr x \<and> Q x t) \<Longrightarrow> succeeds P (of_result r) Q"
  by (auto simp: succeeds_def of_result_def)

lemma succeeds_require: "(\<And>t. P t \<Longrightarrow> b) \<Longrightarrow> succeeds P (require b e) (\<lambda>_. P)"
  by (auto simp: succeeds_def require_def ret_def)

lemma succeeds_lift_err: "succeeds P m Q \<Longrightarrow> succeeds P (lift_err g m) Q"
  unfolding lift_err_attempt
  by (rule succeeds_attempt) (auto intro: succeeds_of_result)

lemma succeeds_pull: "(\<And>u. P u \<Longrightarrow> succeeds (\<lambda>t. t = u) m Q) \<Longrightarrow> succeeds P m Q"
  by (simp add: succeeds_def)

lemma calm_tick [simp]: "calm (tick w) = calm w" "w_tree (tick w) = w_tree w"
  by (simp_all add: calm_def tick_def)

lemma calm_set_tree [simp]: "calm (set_tree f w) = calm w" "w_tree (set_tree f w) = f (w_tree w)"
  by (simp_all add: calm_def set_tree_def)

lemma calm_syscall: "calm w \<Longrightarrow> syscall f w = f (tick w)"
  by (simp add: calm_def syscall_def)

lemma calm_next_inode [simp]: "calm (w\<lparr>w_next_inode := k\<rparr>) = calm w"
  by (simp add: calm_def)

lemma succeeds_sys_metadata:
  "(\<And>t. P t \<Longrightarrow> node_at t p \<noteq> None) \<Longrightarrow> succeeds P (sys_metadata p) (\<lambda>n t. P t \<and> node_at t p = Some n)"
  by (force simp: succeeds_def sys_metadata_def calm_syscall)

lemma succeeds_sys_entries: "succeeds P (sys_entries d) (\<lambda>ns t. P t \<and> ns = names_in t d)"
  by (simp add: succeeds_def sys_entries_def calm_syscall)

lemma succeeds_sys_sync: "succeeds P sys_sync (\<lambda>_. P)"
  by (simp add: succeeds_def sys_sync_def calm_syscall ret_def)

lemma succeeds_privacy_check:
  "(\<And>w. P (w_tree w) \<Longrightarrow> ok w) \<Longrightarrow> succeeds P (privacy_check ok e) (\<lambda>_. P)"
  by (auto simp: succeeds_def privacy_check_def calm_def) (simp_all add: tick_def)

lemma succeeds_sys_create_dir:
  "succeeds (\<lambda>t. t = u \<and> \<not> occupied u p) (sys_create_dir p) (\<lambda>_ t. \<exists>i b. t = put_node p (DirNode i b) u)"
  by (auto simp: succeeds_def sys_create_dir_def calm_syscall)

lemma succeeds_sys_create_file:
  "succeeds (\<lambda>t. t = u \<and> \<not> occupied u p) (sys_create_file p)
     (\<lambda>_ t. \<exists>i b. t = put_node p (FileNode i b []) u)"
  by (auto simp: succeeds_def sys_create_file_def calm_syscall)

lemma succeeds_sys_set_private:
  "succeeds (\<lambda>t. t = u \<and> node_at u p \<noteq> None) (sys_set_private p)
     (\<lambda>_ t. \<exists>n. node_at u p = Some n \<and> t = put_node p (made_private n) u)"
  by (auto simp: succeeds_def sys_set_private_def calm_syscall)

lemma succeeds_sys_write:
  "succeeds (\<lambda>t. t = u \<and> node_at u p \<noteq> None) (sys_write p bytes)
     (\<lambda>_ t. \<exists>n. node_at u p = Some n \<and> t = put_node p (written_node bytes n) u)"
  by (auto simp: succeeds_def sys_write_def calm_def) (auto simp: set_tree_def tick_def)

lemma succeeds_sys_rename_noreplace:
  "succeeds (\<lambda>t. t = u \<and> node_at u s \<noteq> None \<and> \<not> occupied u d) (sys_rename_noreplace s d)
     (\<lambda>_ t. t = move_tree s d u)"
  by (auto simp: succeeds_def sys_rename_noreplace_def calm_syscall)

section \<open>Operations that draw no identifier\<close>

named_theorems undrawn_intros "operations that draw no identifier"

definition undrawn :: "('e, 'a) act \<Rightarrow> bool" where
  "undrawn m = (\<forall>w. w_uuids (snd (m w)) = w_uuids w \<and> w_drawn (snd (m w)) = w_drawn w)"

lemma undrawn_reads: "reads m \<Longrightarrow> undrawn m"
  unfolding reads_def undrawn_def
proof
  fix w
  assume "\<forall>w. \<exists>c. snd (m w) = w\<lparr>w_clock := c\<rparr>"
  then obtain c where "snd (m w) = w\<lparr>w_clock := c\<rparr>" by blast
  then show "w_uuids (snd (m w)) = w_uuids w \<and> w_drawn (snd (m w)) = w_drawn w" by simp
qed

lemma undrawn_attempt [undrawn_intros]:
  "undrawn m \<Longrightarrow> (\<And>r. undrawn (f r)) \<Longrightarrow> undrawn (attempt m f)"
  by (auto simp: undrawn_def attempt_def split: prod.splits) (metis snd_conv)+

lemma undrawn_case_sum [undrawn_intros]:
  "(\<And>e. undrawn (f e)) \<Longrightarrow> (\<And>x. undrawn (g x)) \<Longrightarrow> undrawn (case r of Inl e \<Rightarrow> f e | Inr x \<Rightarrow> g x)"
  by (cases r) auto

lemma undrawn_case_option [undrawn_intros]:
  "undrawn f \<Longrightarrow> (\<And>x. undrawn (g x)) \<Longrightarrow> undrawn (case r of None \<Rightarrow> f | Some x \<Rightarrow> g x)"
  by (cases r) auto

lemma undrawn_case_prod [undrawn_intros]:
  "(\<And>x y. undrawn (f x y)) \<Longrightarrow> undrawn (case r of (x, y) \<Rightarrow> f x y)"
  by (cases r) auto

lemma undrawn_if [undrawn_intros]: "undrawn a \<Longrightarrow> undrawn b \<Longrightarrow> undrawn (if c then a else b)"
  by simp

lemma undrawn_perform [undrawn_intros]:
  "undrawn m \<Longrightarrow> (\<And>x. undrawn (f x)) \<Longrightarrow> undrawn (perform m f)"
  unfolding perform_attempt by (intro undrawn_intros) (auto intro: undrawn_reads read_intros)

lemma undrawn_lift_err [undrawn_intros]: "undrawn m \<Longrightarrow> undrawn (lift_err g m)"
  by (simp add: undrawn_def)

lemma undrawn_sys_rename_noreplace [undrawn_intros]: "undrawn (sys_rename_noreplace s d)"
  by (auto simp: undrawn_def sys_rename_noreplace_def syscall_def tick_def set_tree_def split: option.splits)

section \<open>Disciplines\<close>

named_theorems keep_intros "composition of operations that uphold a discipline"


locale discipline =
  fixes K :: "tree \<Rightarrow> tree \<Rightarrow> bool"
  assumes K_refl: "K t t"
    and K_trans: "K t u \<Longrightarrow> K u v \<Longrightarrow> K t v"
begin

definition upholds :: "(tree \<Rightarrow> bool) \<Rightarrow> ('e, 'a) act \<Rightarrow> ('a \<Rightarrow> tree \<Rightarrow> bool) \<Rightarrow> bool" where
  "upholds P m Q = (\<forall>w. P (w_tree w) \<longrightarrow> K (w_tree w) (w_tree (snd (m w)))
     \<and> (\<forall>x. fst (m w) = Inr x \<longrightarrow> Q x (w_tree (snd (m w)))))"

lemma upholds_K: "upholds P m Q \<Longrightarrow> P (w_tree w) \<Longrightarrow> K (w_tree w) (w_tree (snd (m (w :: world))))"
  by (simp add: upholds_def)

lemma upholds_Q: "upholds P m Q \<Longrightarrow> P (w_tree w) \<Longrightarrow> m w = (Inr x, w') \<Longrightarrow> Q x (w_tree w')"
  by (metis upholds_def fst_conv snd_conv)

lemma upholds_weaken:
  "upholds P m Q \<Longrightarrow> (\<And>t. P' t \<Longrightarrow> P t) \<Longrightarrow> (\<And>x t. Q x t \<Longrightarrow> Q' x t) \<Longrightarrow> upholds P' m Q'"
  by (simp add: upholds_def)

lemma upholds_attempt:
  assumes m: "upholds P m Q" and f: "\<And>x. upholds (Q x) (f (Inr x)) R"
    and e: "\<And>e. upholds (\<lambda>_. True) (f (Inl e)) R"
  shows "upholds P (attempt m f) R"
  unfolding upholds_def
proof (intro allI impI conjI)
  fix w :: world
  assume p: "P (w_tree w)"
  obtain r w1 where r: "m w = (r, w1)" by (cases "m w")
  have k1: "K (w_tree w) (w_tree w1)" using upholds_K [OF m p] r by simp
  have *: "K (w_tree w1) (w_tree (snd (f r w1)))
      \<and> (\<forall>x. fst (f r w1) = Inr x \<longrightarrow> R x (w_tree (snd (f r w1))))"
  proof (cases r)
    case (Inl e')
    then show ?thesis using e [of e'] by (simp add: upholds_def)
  next
    case (Inr x)
    then have "Q x (w_tree w1)" using upholds_Q [OF m p] r by simp
    then show ?thesis using f [of x] Inr by (simp add: upholds_def)
  qed
  have a: "attempt m f w = f r w1" using r by (simp add: attempt_def)
  show "K (w_tree w) (w_tree (snd (attempt m f w)))" using * a K_trans [OF k1] by simp
  fix x
  assume "fst (attempt m f w) = Inr x"
  then show "R x (w_tree (snd (attempt m f w)))" using * a by simp
qed

lemma upholds_reads:
  "reads m \<Longrightarrow> upholds P m (\<lambda>_. P)"
  by (simp add: upholds_def reads_tree K_refl)

lemma upholds_reads_learns:
  "reads m \<Longrightarrow> learns m Q \<Longrightarrow> upholds P m (\<lambda>x t. P t \<and> Q x t)"
  by (auto simp: upholds_def reads_tree K_refl learns_def)

lemma upholds_ret: "upholds (Q x) (ret x) Q"
  by (simp add: upholds_def ret_def K_refl)

lemma upholds_retI: "(\<And>t. P t \<Longrightarrow> Q x t) \<Longrightarrow> upholds P (ret x) Q"
  by (simp add: upholds_def ret_def K_refl)

lemma upholds_fail: "upholds P (fail e) Q"
  by (simp add: upholds_def fail_def K_refl)

lemma upholds_of_result: "(\<And>x t. r = Inr x \<Longrightarrow> P t \<Longrightarrow> Q x t) \<Longrightarrow> upholds P (of_result r) Q"
  by (simp add: upholds_def of_result_def K_refl)

lemma upholds_perform:
  "upholds P m Q \<Longrightarrow> (\<And>x. upholds (Q x) (f x) R) \<Longrightarrow> upholds P (perform m f) R"
  unfolding perform_attempt by (rule upholds_attempt) (auto intro: upholds_fail)

lemma upholds_read_then:
  "reads m \<Longrightarrow> (\<And>x. upholds P (f x) R) \<Longrightarrow> upholds P (perform m f) R"
  by (rule upholds_perform [OF upholds_reads])

lemma upholds_learn_then:
  "reads m \<Longrightarrow> learns m Q \<Longrightarrow> (\<And>x. upholds (\<lambda>t. P t \<and> Q x t) (f x) R) \<Longrightarrow> upholds P (perform m f) R"
  by (rule upholds_perform [OF upholds_reads_learns])

lemma upholds_lift_err: "upholds P m Q \<Longrightarrow> upholds P (lift_err g m) Q"
  by (simp add: upholds_def)

lemma upholds_if:
  "(c \<Longrightarrow> upholds P a Q) \<Longrightarrow> (\<not> c \<Longrightarrow> upholds P b Q) \<Longrightarrow> upholds P (if c then a else b) Q"
  by simp

lemma upholds_for_acts:
  assumes "\<And>x. x \<in> set xs \<Longrightarrow> upholds P (f x) (\<lambda>_. P)"
  shows "upholds P (for_acts f xs) (\<lambda>_. P)"
  using assms
proof (induction xs)
  case Nil
  show ?case by (simp add: upholds_def ret_def K_refl)
next
  case (Cons x xs)
  show ?case
    by (simp, rule upholds_perform [OF Cons.prems [OF list.set_intros(1)]], rule Cons.IH)
      (rule Cons.prems, simp)
qed

lemma upholds_pull: "(\<And>u. upholds (\<lambda>t. t = u \<and> P u) m Q) \<Longrightarrow> upholds P m Q"
  by (simp add: upholds_def)

lemma upholds_of_triple:
  assumes "\<And>u. P u \<Longrightarrow> triple (\<lambda>t. t = u) m (\<lambda>x t. K u t \<and> Q x t) (K u)"
  shows "upholds P m Q"
  unfolding upholds_def
proof (intro allI impI)
  fix w :: world
  assume "P (w_tree w)"
  from assms [OF this] show "K (w_tree w) (w_tree (snd (m w)))
      \<and> (\<forall>x. fst (m w) = Inr x \<longrightarrow> Q x (w_tree (snd (m w))))"
    by (cases "fst (m w)") (auto simp: triple_def dest: spec [of _ w])
qed

lemma triple_of_upholds:
  assumes "upholds P m Q" and "P u"
  shows "triple (\<lambda>t. t = u) m (\<lambda>x t. K u t \<and> Q x t) (K u)"
  using assms by (auto simp: triple_def upholds_def split: sum.splits)

lemma upholds_after:
  assumes "upholds P m Q"
  shows "triple (\<lambda>t. K t0 t \<and> P t) m (\<lambda>x t. K t0 t \<and> Q x t) (K t0)"
proof (rule tripleI)
  fix w r w'
  assume w: "K t0 (w_tree w) \<and> P (w_tree w)" and m: "m w = (r, w')"
  have "K t0 (w_tree w')" using upholds_K [OF assms, of w] w m K_trans by auto
  then show "case r of Inl _ \<Rightarrow> K t0 (w_tree w') | Inr x \<Rightarrow> K t0 (w_tree w') \<and> Q x (w_tree w')"
    using upholds_Q [OF assms, of w] w m by (cases r) auto
qed

lemma upholds_fact: "(b \<Longrightarrow> upholds P m Q) \<Longrightarrow> upholds (\<lambda>t. P t \<and> b) m Q"
  by (auto simp: upholds_def)


text \<open>Operations that uphold the discipline from any tree.\<close>

definition keeps :: "('e, 'a) act \<Rightarrow> bool" where
  "keeps m = upholds (\<lambda>_. True) m (\<lambda>_ _. True)"

lemma keepsI: "(\<And>w :: world. K (w_tree w) (w_tree (snd (m w)))) \<Longrightarrow> keeps m"
  by (simp add: keeps_def upholds_def)

lemma keepsD: "keeps m \<Longrightarrow> K (w_tree w) (w_tree (snd (m (w :: world))))"
  by (simp add: keeps_def upholds_def)

lemma keeps_weaken: "upholds P m Q \<Longrightarrow> (\<And>t. P t) \<Longrightarrow> keeps m"
  by (simp add: keeps_def upholds_def)

lemma upholds_keeps: "keeps m \<Longrightarrow> upholds P m (\<lambda>_ _. True)"
  by (simp add: keeps_def upholds_def)

lemma upholds_keeps_learns: "keeps m \<Longrightarrow> learns m Q \<Longrightarrow> upholds P m Q"
  by (simp add: keeps_def upholds_def learns_def)

lemma keeps_of_triple: "(\<And>u. triple (\<lambda>t. t = u) m (\<lambda>_. K u) (K u)) \<Longrightarrow> keeps m"
  unfolding keeps_def by (rule upholds_of_triple) simp

lemma keeps_reads: "reads m \<Longrightarrow> keeps m"
  by (rule keepsI) (simp add: reads_tree K_refl)

lemma keeps_attempt [keep_intros]: "keeps m \<Longrightarrow> (\<And>r. keeps (f r)) \<Longrightarrow> keeps (attempt m f)"
  unfolding keeps_def by (rule upholds_attempt)

lemma keeps_perform [keep_intros]: "keeps m \<Longrightarrow> (\<And>x. keeps (f x)) \<Longrightarrow> keeps (perform m f)"
  unfolding keeps_def by (rule upholds_perform)

lemma keeps_learn_then:
  assumes "keeps m" and "learns m (\<lambda>x _. R x)" and "\<And>x. R x \<Longrightarrow> keeps (f x)"
  shows "keeps (perform m f)"
proof -
  have "upholds (\<lambda>_. R x) (f x) (\<lambda>_ _. True)" for x
    using assms(3) [of x] by (cases "R x") (simp_all add: keeps_def upholds_def)
  then show ?thesis
    unfolding keeps_def by (rule upholds_perform [OF upholds_keeps_learns [OF assms(1,2)]])
qed

lemma keeps_lift_err [keep_intros]: "keeps m \<Longrightarrow> keeps (lift_err g m)"
  unfolding keeps_def by (rule upholds_lift_err)

lemma keeps_if [keep_intros]: "(c \<Longrightarrow> keeps a) \<Longrightarrow> (\<not> c \<Longrightarrow> keeps b) \<Longrightarrow> keeps (if c then a else b)"
  by simp

lemma keeps_case_sum [keep_intros]:
  "(\<And>e. keeps (f e)) \<Longrightarrow> (\<And>x. keeps (g x)) \<Longrightarrow> keeps (case r of Inl e \<Rightarrow> f e | Inr x \<Rightarrow> g x)"
  by (cases r) auto

lemma keeps_case_option [keep_intros]:
  "keeps a \<Longrightarrow> (\<And>x. keeps (f x)) \<Longrightarrow> keeps (case r of None \<Rightarrow> a | Some x \<Rightarrow> f x)"
  by (cases r) auto

lemma keeps_case_prod [keep_intros]: "(\<And>a b. keeps (f a b)) \<Longrightarrow> keeps (case p of (a, b) \<Rightarrow> f a b)"
  by (cases p) auto

lemma keeps_for_acts [keep_intros]: "(\<And>x. x \<in> set xs \<Longrightarrow> keeps (f x)) \<Longrightarrow> keeps (for_acts f xs)"
  unfolding keeps_def by (rule upholds_weaken [OF upholds_for_acts]) auto

lemma keeps_basic [keep_intros]:
  "keeps (ret x)" "keeps (fail e)" "keeps (of_result r)" "keeps (require b e)" "keeps new_v4"
  by (auto intro: keeps_reads read_intros) (rule keepsI, simp add: new_v4_def K_refl)

end

end
