(* ===== verification/Snapshot_Publish.thy ===== *)
theory Snapshot_Publish
  imports Snapshot_Store Private_Logic
begin

text \<open>
  What publication may do to the tree. \<open>object_holds\<close> describes a directory that stores one
  snapshot completely; \<open>publish_keeps\<close> is the discipline of \<open>publish\<close>: stored evidence is never
  changed and whatever appears under \<open>objects\<close> is complete.
\<close>

section \<open>Operations that only read\<close>

lemma reads_sync_published [read_intros]: "reads (sync_published d b)"
  unfolding sync_published_def by (intro read_intros)

lemma reads_open_held_private_file [read_intros]: "reads (open_held_private_file d n k)"
  unfolding open_held_private_file_def Let_def by (intro read_intros)

lemma reads_read_held_private_file [read_intros]: "reads (read_held_private_file p k)"
  unfolding read_held_private_file_def Let_def by (intro read_intros)

lemma reads_read_private_file [read_intros]: "reads (read_private_file d n k)"
  unfolding read_private_file_def by (intro read_intros)

lemma reads_read_optional_private_file [read_intros]: "reads (read_optional_private_file d n k)"
  unfolding read_optional_private_file_def by (intro read_intros)

lemma reads_open_optional_private_dir [read_intros]: "reads (open_optional_private_dir d n)"
  unfolding open_optional_private_dir_def by (intro read_intros)

lemma reads_validate_locked_file [read_intros]: "reads (validate_locked_file v i)"
  unfolding validate_locked_file_def Let_def by (intro read_intros)

lemma reads_acquire_operation_lock [read_intros]: "reads (acquire_operation_lock v i)"
  unfolding acquire_operation_lock_def Let_def by (intro read_intros reads_syscall)

lemma reads_verify_exact_object_entries [read_intros]: "reads (verify_exact_object_entries d)"
  unfolding verify_exact_object_entries_def by (intro read_intros)

lemma reads_read_payload_revision [read_intros]: "reads (read_payload_revision S d)"
  unfolding read_payload_revision_def by (intro read_intros)

lemma reads_verify_expected_object [read_intros]: "reads (verify_expected_object S d m b)"
  unfolding verify_expected_object_def by (intro read_intros)

lemma reads_inspect_object [read_intros]: "reads (inspect_object S d l s v b)"
  unfolding inspect_object_def Let_def by (intro read_intros)

lemma reads_inspect_whole_object [read_intros]: "reads (inspect_whole_object S d l s v)"
  unfolding inspect_whole_object_def by (intro read_intros)

lemma reads_inspect [read_intros]: "reads (inspect S st u)"
  unfolding inspect_def Let_def by (intro read_intros)

section \<open>What verification establishes\<close>

definition file_holds :: "tree \<Rightarrow> fs_path \<Rightarrow> string \<Rightarrow> bool" where
  "file_holds t p bytes = (\<exists>i. node_at t p = Some (FileNode i True bytes))"

definition dir_holds :: "tree \<Rightarrow> fs_path \<Rightarrow> bool" where
  "dir_holds t p = (\<exists>i. node_at t p = Some (DirNode i True))"

lemma learns_open_held_private_file:
  "learns (open_held_private_file d n k)
     (\<lambda>r t. fst r = d @ [n] \<and> (\<exists>bytes. file_holds t (fst r) bytes \<and> length bytes = snd r \<and> snd r \<le> k))"
  unfolding open_held_private_file_def Let_def
  apply (rule learns_then, intro read_intros)
  apply (rule learns_perform [OF learns_lift_err [OF learns_verify_private_file]], intro read_intros)
  apply (rule learns_perform [OF learns_lift_err [OF learns_sys_metadata]], intro read_intros)
  subgoal for _ _ node
    by (cases node) (auto intro!: learns_if learns_ret learns_fail simp: file_holds_def)
  done

lemma learns_read_held_private_file:
  "learns (read_held_private_file p k) (\<lambda>bytes t. file_holds t p bytes \<and> length bytes = k)"
  unfolding read_held_private_file_def Let_def
proof (rule learns_perform [OF learns_lift_err [OF learns_sys_metadata]], intro read_intros)
  fix n
  have after: "learns (perform (lift_err from_private (verify_private_file p)) (\<lambda>_.
        perform (lift_err SnapIo (sys_metadata p)) (\<lambda>after.
        if length (take (k + 1) stored) \<noteq> k
          \<or> (case after of FileNode _ _ c \<Rightarrow> length c \<noteq> k | DirNode _ _ \<Rightarrow> True)
        then fail ExternalMutation else ret (take (k + 1) stored))))
      (\<lambda>y t. node_at t p = Some (FileNode i b stored) \<longrightarrow> file_holds t p y \<and> length y = k)" for i b stored
    by (rule learns_perform [OF learns_lift_err [OF learns_verify_private_file]], intro read_intros,
        rule learns_perform [OF learns_lift_err [OF learns_sys_metadata]], intro read_intros)
      (auto intro!: learns_if learns_ret learns_fail simp: file_holds_def split: node.splits)
  show "learns (case n of FileNode _ _ stored \<Rightarrow>
        perform (lift_err from_private (verify_private_file p)) (\<lambda>_.
        perform (lift_err SnapIo (sys_metadata p)) (\<lambda>after.
        if length (take (k + 1) stored) \<noteq> k
          \<or> (case after of FileNode _ _ c \<Rightarrow> length c \<noteq> k | DirNode _ _ \<Rightarrow> True)
        then fail ExternalMutation else ret (take (k + 1) stored)))
      | DirNode _ _ \<Rightarrow> fail (SnapIo OtherKind))
     (\<lambda>y t. node_at t p = Some n \<longrightarrow> file_holds t p y \<and> length y = k)"
    using after by (cases n) (auto intro: learns_fail)
qed

lemma learns_read_private_file:
  "learns (read_private_file d n k) (\<lambda>bytes t. file_holds t (d @ [n]) bytes \<and> length bytes \<le> k)"
  unfolding read_private_file_def
  apply (rule learns_perform [OF learns_open_held_private_file], intro read_intros)
  subgoal for opened
    by (cases opened) (auto intro!: learns_mono [OF learns_read_held_private_file])
  done

lemma object_entries_ok_set:
  "object_entries_ok a b c ns \<Longrightarrow> set ns \<union> (if a then {MANIFEST_FILE} else {})
     \<union> (if b then {PAYLOAD_FILE} else {}) = {MANIFEST_FILE, PAYLOAD_FILE}"
  by (induction a b c ns rule: object_entries_ok.induct) (auto split: if_splits)

lemma learns_verify_exact_object_entries:
  "learns (verify_exact_object_entries d) (\<lambda>_ t. set (names_in t d) = {MANIFEST_FILE, PAYLOAD_FILE})"
  unfolding verify_exact_object_entries_def
  by (rule learns_perform [OF learns_lift_err [OF learns_sys_entries]], intro read_intros)
    (auto intro!: learns_require dest: object_entries_ok_set)

text \<open>A directory that stores exactly the snapshot of a manifest.\<close>

definition object_files_hold :: "snap_libs \<Rightarrow> snapshot_manifest \<Rightarrow> string \<Rightarrow> tree \<Rightarrow> fs_path \<Rightarrow> bool" where
  "object_files_hold S m bytes t d =
     (set (names_in t d) = {MANIFEST_FILE, PAYLOAD_FILE}
      \<and> file_holds t (d @ [MANIFEST_FILE]) bytes \<and> length bytes \<le> MAX_MANIFEST_BYTES
      \<and> check_manifest_bytes S m bytes bytes = Inr ()
      \<and> (\<exists>payload. file_holds t (d @ [PAYLOAD_FILE]) payload \<and> length payload \<le> MAX_PAYLOAD_BYTES
           \<and> revision_from_bytes S payload = sm_revision m))"

definition object_holds :: "snap_libs \<Rightarrow> snapshot_manifest \<Rightarrow> tree \<Rightarrow> fs_path \<Rightarrow> bool" where
  "object_holds S m t d = (dir_holds t d
     \<and> (\<exists>bytes. manifest_to_vec S m = Some bytes \<and> object_files_hold S m bytes t d))"

lemma learns_read_payload_revision:
  "learns (read_payload_revision S d) (\<lambda>r t. \<exists>payload. file_holds t (d @ [PAYLOAD_FILE]) payload
     \<and> length payload \<le> MAX_PAYLOAD_BYTES \<and> revision_from_bytes S payload = r)"
  unfolding read_payload_revision_def
  by (rule learns_perform [OF learns_read_private_file], intro read_intros) (auto intro!: learns_ret)

lemma learns_verify_expected_object:
  "learns (verify_expected_object S d m bytes) (\<lambda>_ t. object_files_hold S m bytes t d)"
  unfolding verify_expected_object_def
proof (rule learns_perform [OF learns_verify_exact_object_entries], intro read_intros,
    rule learns_perform [OF learns_read_private_file], intro read_intros)
  fix u :: unit and found
  show "learns (perform (of_result (check_manifest_bytes S m bytes found)) (\<lambda>_.
        perform (read_payload_revision S d) (\<lambda>revision.
        require (revision = sm_revision m) SnapshotCollision)))
     (\<lambda>y t. file_holds t (d @ [MANIFEST_FILE]) found \<and> length found \<le> MAX_MANIFEST_BYTES \<longrightarrow>
        set (names_in t d) = {MANIFEST_FILE, PAYLOAD_FILE} \<longrightarrow> object_files_hold S m bytes t d)"
  proof (rule learns_perform [of _ "\<lambda>_ _. found = bytes \<and> check_manifest_bytes S m bytes bytes = Inr ()"])
    show "learns (of_result (check_manifest_bytes S m bytes found))
        (\<lambda>_ _. found = bytes \<and> check_manifest_bytes S m bytes bytes = Inr ())"
      by (rule learns_of_result) (auto simp: check_manifest_bytes_def split: if_splits)
    show "learns (perform (read_payload_revision S d) (\<lambda>revision.
          require (revision = sm_revision m) SnapshotCollision))
       (\<lambda>y t. found = bytes \<and> check_manifest_bytes S m bytes bytes = Inr () \<longrightarrow>
          file_holds t (d @ [MANIFEST_FILE]) found \<and> length found \<le> MAX_MANIFEST_BYTES \<longrightarrow>
          set (names_in t d) = {MANIFEST_FILE, PAYLOAD_FILE} \<longrightarrow> object_files_hold S m bytes t d)" for x
      by (rule learns_perform [OF learns_read_payload_revision], intro read_intros)
        (auto intro!: learns_require simp: object_files_hold_def)
  qed (intro read_intros)
qed

lemma learns_open_optional_private_dir:
  "learns (open_optional_private_dir d n)
     (\<lambda>r t. (\<forall>h. r = Some h \<longrightarrow> h = d @ [n] \<and> dir_holds t h) \<and> (r = None \<longrightarrow> node_at t (d @ [n]) = None))"
  unfolding learns_def
proof (intro allI impI)
  fix w r
  assume r: "fst (open_optional_private_dir d n w) = Inr r"
  obtain q w1 where m: "sys_metadata (d @ [n]) w = (q, w1)" by (cases "sys_metadata (d @ [n]) w")
  show "(\<forall>h. r = Some h \<longrightarrow> h = d @ [n] \<and> dir_holds (w_tree (snd (open_optional_private_dir d n w))) h)
      \<and> (r = None \<longrightarrow> node_at (w_tree (snd (open_optional_private_dir d n w))) (d @ [n]) = None)"
  proof (cases q)
    case (Inl k)
    with r m have "k = NotFound" "r = None" "w1 = snd (sys_metadata (d @ [n]) w)"
      by (auto simp: open_optional_private_dir_def attempt_def ret_def fail_def split: if_splits)
    moreover have "node_at (w_tree w1) (d @ [n]) = None"
      using m Inl \<open>k = NotFound\<close>
      by (auto simp: sys_metadata_def syscall_def tick_def io_fault_def split: option.splits if_splits)
    ultimately show ?thesis using m Inl
      by (simp add: open_optional_private_dir_def attempt_def ret_def)
  next
    case (Inr x)
    have "learns (perform (lift_err from_private (open_private_dir d n)) (\<lambda>h. ret (Some h)))
       (\<lambda>r t. (\<forall>h. r = Some h \<longrightarrow> h = d @ [n] \<and> dir_holds t h) \<and> (r = None \<longrightarrow> node_at t (d @ [n]) = None))"
      by (rule learns_perform [OF learns_lift_err [OF learns_open_private_dir]], intro read_intros)
        (auto intro!: learns_ret simp: dir_holds_def)
    moreover have "open_optional_private_dir d n w
        = perform (lift_err from_private (open_private_dir d n)) (\<lambda>h. ret (Some h)) w1"
      using m Inr by (simp add: open_optional_private_dir_def attempt_def)
    ultimately show ?thesis using r by (simp add: learns_def)
  qed
qed

section \<open>Trees that differ in one place\<close>

definition same_below :: "tree \<Rightarrow> tree \<Rightarrow> fs_path \<Rightarrow> bool" where
  "same_below t u p = (\<forall>r. node_at u (p @ r) = node_at t (p @ r))"

definition changed_at :: "fs_path \<Rightarrow> tree \<Rightarrow> tree \<Rightarrow> bool" where
  "changed_at p t u = (\<forall>q. q \<noteq> p \<longrightarrow> node_at u q = node_at t q)"

lemma occupied_iff: "occupied t p \<longleftrightarrow> (\<exists>r. node_at t (p @ r) \<noteq> None)"
  using not_occupied [of t p] by (auto simp: prefix_def)

lemma occupied_same: "same_below t u p \<Longrightarrow> occupied u p \<longleftrightarrow> occupied t p"
  by (simp add: occupied_iff same_below_def)

lemma same_below_refl [simp]: "same_below t t p"
  by (simp add: same_below_def)

lemma same_below_trans: "same_below t u p \<Longrightarrow> same_below u v p \<Longrightarrow> same_below t v p"
  by (simp add: same_below_def)

lemma same_belowD: "same_below t u p \<Longrightarrow> node_at u p = node_at t p"
  "same_below t u p \<Longrightarrow> node_at u (p @ [n]) = node_at t (p @ [n])"
  "same_below t u p \<Longrightarrow> set (names_in u p) = set (names_in t p)"
  by (simp_all add: same_below_def set_names_in) (metis append_Nil2)

lemma object_holds_moved:
  assumes "\<And>r. node_at u (e @ r) = node_at t (d @ r)" and "object_holds S m t d"
  shows "object_holds S m u e"
proof -
  have 0: "node_at u e = node_at t d" using assms(1) [of "[]"] by simp
  have 1: "node_at u (e @ [n]) = node_at t (d @ [n])" for n using assms(1) by simp
  have "set (names_in u e) = set (names_in t d)" by (simp add: set_names_in 1)
  then show ?thesis
    using assms(2) by (simp add: object_holds_def object_files_hold_def dir_holds_def file_holds_def 0 1)
qed

lemma object_holds_same: "same_below t u d \<Longrightarrow> object_holds S m t d \<Longrightarrow> object_holds S m u d"
  by (rule object_holds_moved) (simp_all add: same_below_def)

lemma changed_at_refl [simp]: "changed_at p t t"
  by (simp add: changed_at_def)

lemma changed_at_trans: "changed_at p t u \<Longrightarrow> changed_at p u v \<Longrightarrow> changed_at p t v"
  by (simp add: changed_at_def)

lemma changed_at_put: "changed_at p t (put_node p n t)"
  by (simp add: changed_at_def node_at_put)

interpretation change: discipline "changed_at p" for p
  by unfold_locales (auto intro: changed_at_trans)

text \<open>Creating a directory or a file changes the tree at its path only.\<close>

lemma triple_create_private_dir:
  "triple (\<lambda>t. t = u) (create_private_dir d n)
     (\<lambda>h t. h = d @ [n] \<and> \<not> occupied u h \<and> changed_at h u t \<and> dir_holds t h)
     (\<lambda>t. t = u \<or> \<not> occupied u (d @ [n]) \<and> changed_at (d @ [n]) u t)"
proof -
  let ?h = "d @ [n]"
  let ?P = "\<lambda>t. \<not> occupied u ?h \<and> changed_at ?h u t"
  let ?E = "\<lambda>t. t = u \<or> ?P t"
  have made: "triple (\<lambda>t. ?P t \<and> h = ?h \<and> (\<exists>i p. node_at t h = Some (DirNode i p)))
      (set_private_directory_permissions h) (\<lambda>_ t. ?P t \<and> h = ?h \<and> dir_holds t h) ?E" for h
    unfolding set_private_directory_permissions_def
    by (rule triple_lift_err, rule triple_pull, rule triple_weaken [OF triple_sys_set_private])
      (auto simp: dir_holds_def node_at_put intro: changed_at_trans [OF _ changed_at_put])
  have tail: "triple (\<lambda>t. ?P t \<and> h = ?h \<and> dir_holds t h)
      (perform (require_private_directory h) (\<lambda>_. perform (sync_directory h) (\<lambda>_.
       perform (sync_directory d) (\<lambda>_. ret h))))
      (\<lambda>h t. h = ?h \<and> \<not> occupied u h \<and> changed_at h u t \<and> dir_holds t h) ?E" for h
    by ((rule triple_read_then, (intro read_intros), blast)+, rule triple_ret) auto
  show ?thesis
    unfolding create_private_dir_def
    apply (rule triple_read_then, intro read_intros, simp)
    apply (rule triple_perform [where Q = "\<lambda>_. ?P"])
     apply (rule triple_lift_err, rule triple_weaken [OF triple_sys_create_dir])
       apply (auto intro: changed_at_put) [3]
    apply (rule triple_learn_then [OF _ learns_open_child_dir_nofollow], intro read_intros, blast)
    apply (rule triple_perform [OF made tail])
    done
qed

lemma triple_write_private_file:
  "triple (\<lambda>t. t = u) (write_private_file d n bytes) (\<lambda>_. changed_at (d @ [n]) u) (changed_at (d @ [n]) u)"
proof -
  let ?p = "d @ [n]"
  have create: "change.upholds ?p (\<lambda>_. True) (sys_create_file ?p) (\<lambda>_ _. True)"
    by (rule change.upholds_of_triple, rule triple_weaken [OF triple_sys_create_file])
      (auto intro: changed_at_put)
  have perm: "change.upholds ?p (\<lambda>_. True) (sys_set_private ?p) (\<lambda>_ _. True)"
    by (rule change.upholds_of_triple, rule triple_weaken [OF triple_sys_set_private])
      (auto intro: changed_at_put)
  have fill: "change.upholds ?p (\<lambda>_. True) (sys_write ?p bytes) (\<lambda>_ _. True)"
    by (rule change.upholds_of_triple, rule triple_weaken [OF triple_sys_write])
      (auto intro: changed_at_put)
  have "change.upholds ?p (\<lambda>_. True) (write_private_file d n bytes) (\<lambda>_ _. True)"
    unfolding write_private_file_def Let_def set_private_file_permissions_def
    by (rule change.upholds_perform [OF change.upholds_lift_err [OF create]],
        rule change.upholds_perform [OF change.upholds_lift_err [OF change.upholds_lift_err [OF perm]]],
        rule change.upholds_perform [OF change.upholds_lift_err [OF fill]],
        rule change.upholds_read_then, intro read_intros, rule change.upholds_weaken [OF change.upholds_reads])
      (auto intro: read_intros)
  from change.triple_of_upholds [OF this] show ?thesis
    by (rule triple_weaken) auto
qed

section \<open>The discipline of publication\<close>

definition store_layout :: "snapshot_store \<Rightarrow> bool" where
  "store_layout st = (st_staging st = st_vault st @ [STAGING_DIRECTORY]
     \<and> st_objects st = st_vault st @ [OBJECTS_DIRECTORY])"

definition object_path :: "snap_libs \<Rightarrow> snapshot_store \<Rightarrow> snapshot_manifest \<Rightarrow> fs_path" where
  "object_path S st m = st_objects st @ [uuid_string S (sm_snapshot_id m)]"

definition staged_path :: "snap_libs \<Rightarrow> snapshot_store \<Rightarrow> snapshot_manifest \<Rightarrow> fs_path" where
  "staged_path S st m = st_staging st @ [uuid_string S (sm_snapshot_id m)]"

text \<open>
  The evidence of one snapshot as an interrupted publication can leave it: nothing, a complete
  object under \<open>staging\<close>, or a complete object under \<open>objects\<close>.
\<close>

definition slot_ok :: "snap_libs \<Rightarrow> snapshot_store \<Rightarrow> snapshot_manifest \<Rightarrow> tree \<Rightarrow> bool" where
  "slot_ok S st m t =
     ((occupied t (object_path S st m) \<longrightarrow> object_holds S m t (object_path S st m))
    \<and> (occupied t (staged_path S st m) \<longrightarrow> object_holds S m t (staged_path S st m))
    \<and> \<not> (occupied t (object_path S st m) \<and> occupied t (staged_path S st m)))"

definition publish_keeps ::
    "snap_libs \<Rightarrow> snapshot_store \<Rightarrow> snapshot_manifest \<Rightarrow> tree \<Rightarrow> tree \<Rightarrow> bool" where
  "publish_keeps S st m t u =
     ((\<forall>p. \<not> prefix (st_staging st) p \<and> \<not> prefix (st_objects st) p \<longrightarrow> node_at u p = node_at t p)
    \<and> (\<forall>n. occupied t (st_objects st @ [n]) \<longrightarrow> same_below t u (st_objects st @ [n]))
    \<and> (\<forall>n. n \<noteq> uuid_string S (sm_snapshot_id m) \<longrightarrow> occupied t (st_staging st @ [n])
         \<longrightarrow> same_below t u (st_staging st @ [n]))
    \<and> (occupied t (staged_path S st m) \<longrightarrow> same_below t u (staged_path S st m)
         \<or> (\<forall>r. node_at u (object_path S st m @ r) = node_at t (staged_path S st m @ r)))
    \<and> (\<forall>n. occupied u (st_objects st @ [n]) \<longrightarrow> occupied t (st_objects st @ [n])
         \<or> st_objects st @ [n] = object_path S st m \<and> object_holds S m u (object_path S st m))
    \<and> (slot_ok S st m t \<longrightarrow> slot_ok S st m u))"

lemma publish_keeps_refl: "publish_keeps S st m t t"
  by (simp add: publish_keeps_def)

lemma publish_keeps_trans:
  assumes 1: "publish_keeps S st m t u" and 2: "publish_keeps S st m u v"
  shows "publish_keeps S st m t v"
  unfolding publish_keeps_def
proof (intro conjI allI impI)
  fix p
  assume "\<not> prefix (st_staging st) p \<and> \<not> prefix (st_objects st) p"
  then show "node_at v p = node_at t p" using 1 2 by (simp add: publish_keeps_def)
next
  fix n
  assume o: "occupied t (st_objects st @ [n])"
  then have "same_below t u (st_objects st @ [n])" using 1 by (simp add: publish_keeps_def)
  moreover from this have "same_below u v (st_objects st @ [n])"
    using 2 o by (simp add: publish_keeps_def occupied_same)
  ultimately show "same_below t v (st_objects st @ [n])" by (rule same_below_trans)
next
  fix n
  assume n: "n \<noteq> uuid_string S (sm_snapshot_id m)" and o: "occupied t (st_staging st @ [n])"
  then have "same_below t u (st_staging st @ [n])" using 1 by (simp add: publish_keeps_def)
  moreover from this have "same_below u v (st_staging st @ [n])"
    using 2 o n by (simp add: publish_keeps_def occupied_same)
  ultimately show "same_below t v (st_staging st @ [n])" by (rule same_below_trans)
next
  let ?s = "staged_path S st m" and ?o = "object_path S st m"
  assume o: "occupied t ?s"
  then consider "same_below t u ?s" | "\<forall>r. node_at u (?o @ r) = node_at t (?s @ r)"
    using 1 by (auto simp: publish_keeps_def)
  then show "same_below t v ?s \<or> (\<forall>r. node_at v (?o @ r) = node_at t (?s @ r))"
  proof cases
    case 1
    then have "same_below u v ?s \<or> (\<forall>r. node_at v (?o @ r) = node_at u (?s @ r))"
      using 2 o by (simp add: publish_keeps_def occupied_same)
    then show ?thesis using 1 by (auto simp: same_below_def)
  next
    case moved: 2
    then have "occupied u ?o" using o by (simp add: occupied_iff)
    then have "same_below u v ?o" using 2 by (simp add: publish_keeps_def object_path_def)
    then show ?thesis using moved by (simp add: same_below_def)
  qed
next
  fix n
  let ?p = "st_objects st @ [n]"
  assume "occupied v ?p"
  then consider "occupied u ?p" | "?p = object_path S st m" "object_holds S m v (object_path S st m)"
    using 2 by (auto simp: publish_keeps_def)
  then show "occupied t ?p \<or> ?p = object_path S st m \<and> object_holds S m v (object_path S st m)"
  proof cases
    case 1
    then have "same_below u v ?p" using 2 by (simp add: publish_keeps_def)
    moreover have "occupied t ?p \<or> ?p = object_path S st m \<and> object_holds S m u (object_path S st m)"
      using 1 assms(1) by (simp add: publish_keeps_def)
    ultimately show ?thesis by (metis object_holds_same)
  qed blast
next
  assume "slot_ok S st m t"
  then show "slot_ok S st m v" using 1 2 by (simp add: publish_keeps_def)
qed

interpretation pub: discipline "publish_keeps S st m" for S st m
  by unfold_locales (auto intro: publish_keeps_refl publish_keeps_trans)

lemma store_layout_apart:
  assumes "store_layout st"
  shows "\<not> prefix (st_objects st @ [n]) (st_staging st @ r)" "\<not> prefix (st_staging st @ [n]) (st_objects st @ r)"
    "\<not> prefix (st_staging st) (st_objects st)" "\<not> prefix (st_objects st) (st_staging st)"
  using assms by (auto simp: store_layout_def STAGING_DIRECTORY_def OBJECTS_DIRECTORY_def prefix_def)

lemma publish_keeps_promote:
  assumes lay: "store_layout st" and holds: "object_holds S m u (staged_path S st m)"
    and free: "\<not> occupied u (object_path S st m)"
  shows "publish_keeps S st m u (move_tree (staged_path S st m) (object_path S st m) u)"
proof -
  let ?s = "staged_path S st m" and ?o = "object_path S st m"
  let ?v = "move_tree ?s ?o u"
  note apart = store_layout_apart [OF lay]
  have inside: "node_at ?v (?o @ r) = node_at u (?s @ r)" for r
    by (rule node_at_move_inside [OF free])
  have outside: "node_at ?v p = (if prefix ?s p then None else node_at u p)" if "\<not> prefix ?o p" for p
    by (rule node_at_move_outside [OF that])
  have other: "same_below u ?v (st_objects st @ [n])" if "st_objects st @ [n] \<noteq> ?o" for n
    using that apart outside by (auto simp: same_below_def object_path_def staged_path_def)
  have staging: "same_below u ?v (st_staging st @ [n])" if "st_staging st @ [n] \<noteq> ?s" for n
    using that apart outside by (auto simp: same_below_def object_path_def staged_path_def)
  have rest: "node_at ?v p = node_at u p" if "\<not> prefix (st_staging st) p" "\<not> prefix (st_objects st) p" for p
  proof -
    have "\<not> prefix ?o p" "\<not> prefix ?s p"
      using that by (auto simp: object_path_def staged_path_def dest: append_prefixD)
    then show ?thesis by (simp add: outside)
  qed
  have "object_holds S m ?v ?o" by (rule object_holds_moved [OF inside holds])
  note made = this
  show ?thesis
    unfolding publish_keeps_def
  proof (intro conjI allI impI)
    show "node_at ?v p = node_at u p" if "\<not> prefix (st_staging st) p \<and> \<not> prefix (st_objects st) p" for p
      using that rest by blast
    show "same_below u ?v (st_objects st @ [n])" if "occupied u (st_objects st @ [n])" for n
      using that free other [of n] by fastforce
    show "same_below u ?v (st_staging st @ [n])" if "n \<noteq> uuid_string S (sm_snapshot_id m)" for n
      using that staging [of n] by (simp add: staged_path_def)
    show "same_below u ?v ?s \<or> (\<forall>r. node_at ?v (?o @ r) = node_at u (?s @ r))"
      using inside by blast
    show "occupied u (st_objects st @ [n]) \<or> st_objects st @ [n] = ?o \<and> object_holds S m ?v ?o"
      if "occupied ?v (st_objects st @ [n])" for n
      using that made other [of n] occupied_same by blast
    have "\<not> occupied ?v ?s"
      using outside apart by (auto simp: occupied_iff object_path_def staged_path_def)
    then show "slot_ok S st m ?v" using made by (simp add: slot_ok_def)
  qed
qed

lemma promote_staging_upholds:
  assumes lay: "store_layout st"
  shows "pub.upholds S st m (\<lambda>t. object_holds S m t (staged_path S st m))
     (promote_staging S st m bytes outcome) (\<lambda>_ _. True)"
proof -
  have rename: "pub.upholds S st m (\<lambda>t. object_holds S m t (staged_path S st m))
      (atomic_rename_noreplace (st_staging st) (uuid_string S (sm_snapshot_id m))
        (st_objects st) (uuid_string S (sm_snapshot_id m))) (\<lambda>_ _. True)"
    unfolding atomic_rename_noreplace_def staged_path_def [symmetric] object_path_def [symmetric]
    by (rule pub.upholds_lift_err, rule pub.upholds_of_triple,
        rule triple_weaken [OF triple_sys_rename_noreplace])
      (auto intro: publish_keeps_promote [OF lay] publish_keeps_refl)
  show ?thesis
    unfolding promote_staging_def Let_def
    apply (rule pub.upholds_attempt [OF rename])
     apply (simp, rule pub.upholds_weaken [OF pub.upholds_reads], intro read_intros, simp, simp)
    apply (auto intro: pub.upholds_fail)
    done
qed

lemma resume_stable_upholds:
  assumes lay: "store_layout st" and bytes: "manifest_to_vec S m = Some bytes"
  shows "pub.upholds S st m (\<lambda>t. t = u) (resume_stable S st m bytes)
     (\<lambda>r t. r = None \<longrightarrow> t = u \<and> node_at t (object_path S st m) = None \<and> node_at t (staged_path S st m) = None)"
proof -
  let ?n = "uuid_string S (sm_snapshot_id m)"
  have staged: "pub.upholds S st m (\<lambda>t. h = staged_path S st m \<and> dir_holds t h)
      (perform (verify_expected_object S h m bytes) (\<lambda>_.
       perform (promote_staging S st m bytes PromotedFromStaging) (\<lambda>outcome. ret (Some outcome))))
      (\<lambda>r t. r = None \<longrightarrow> Q t)" for h Q
    apply (rule pub.upholds_learn_then [OF _ learns_verify_expected_object], intro read_intros)
    apply (rule pub.upholds_perform [OF pub.upholds_weaken [OF promote_staging_upholds [OF lay]]])
    using bytes apply (auto simp: object_holds_def intro!: pub.upholds_retI)
    done
  show ?thesis
    unfolding resume_stable_def Let_def
    apply (rule pub.upholds_learn_then [OF _ learns_open_optional_private_dir], intro read_intros)
    apply (rule pub.upholds_learn_then [OF _ learns_open_optional_private_dir], intro read_intros)
    subgoal for object staging
      apply (cases object; cases staging; simp)
      subgoal
        by (rule pub.upholds_retI) (auto simp: object_path_def staged_path_def)
      subgoal for h
        by (rule pub.upholds_weaken [OF staged]) (auto simp: staged_path_def)
      subgoal
        by (rule pub.upholds_read_then, intro read_intros, rule pub.upholds_read_then, intro read_intros,
            rule pub.upholds_read_then, intro read_intros, rule pub.upholds_retI) auto
      subgoal
        by (rule pub.upholds_fail)
      done
    done
qed

section \<open>Work directories\<close>

text \<open>The tree grows only below names of work directories that were free at the start.\<close>

definition work_path :: "snap_libs \<Rightarrow> snapshot_store \<Rightarrow> snapshot_manifest \<Rightarrow> uuid \<Rightarrow> fs_path" where
  "work_path S st m fresh = st_staging st @ [work_name S (sm_snapshot_id m) fresh]"

definition grown :: "snap_libs \<Rightarrow> snapshot_store \<Rightarrow> snapshot_manifest \<Rightarrow> tree \<Rightarrow> tree \<Rightarrow> bool" where
  "grown S st m t u = (\<forall>q. node_at u q \<noteq> node_at t q \<longrightarrow>
     (\<exists>f. prefix (work_path S st m f) q \<and> \<not> occupied t (work_path S st m f)))"

lemma work_path_unique:
  assumes "prefix (work_path S st m f) q" and "prefix (work_path S st m g) q"
  shows "work_path S st m f = work_path S st m g"
  using assms by (auto simp: work_path_def prefix_def)

lemma grown_refl: "grown S st m t t"
  by (simp add: grown_def)

lemma grown_occupied:
  assumes "grown S st m t u" and "\<not> occupied u (work_path S st m f)"
  shows "\<not> occupied t (work_path S st m f)"
proof
  assume o: "occupied t (work_path S st m f)"
  then obtain r where r: "node_at t (work_path S st m f @ r) \<noteq> None" by (auto simp: occupied_iff)
  moreover have "node_at u (work_path S st m f @ r) = None"
    using assms(2) by (auto simp: occupied_iff)
  ultimately obtain g where "prefix (work_path S st m g) (work_path S st m f @ r)"
      "\<not> occupied t (work_path S st m g)"
    using assms(1) unfolding grown_def by metis
  then show False using o work_path_unique [of S st m g _ f] by (metis prefixI)
qed

lemma grown_changed:
  assumes "grown S st m t u" and "\<not> occupied t (work_path S st m f)"
    and "\<And>q. \<not> prefix (work_path S st m f) q \<Longrightarrow> node_at v q = node_at u q"
  shows "grown S st m t v"
  using assms unfolding grown_def by metis

lemma grown_changed_at:
  assumes "grown S st m t u" and "\<not> occupied t (work_path S st m f)"
    and "changed_at (work_path S st m f @ r) u v"
  shows "grown S st m t v"
proof (rule grown_changed [OF assms(1,2)])
  fix q
  assume "\<not> prefix (work_path S st m f) q"
  then have "q \<noteq> work_path S st m f @ r" by auto
  then show "node_at v q = node_at u q" using assms(3) by (simp add: changed_at_def)
qed

lemma uuid_string_plain:
  assumes "uuid_text_ok S"
  shows "uuid_string S u \<noteq> CHR ''.'' # s"
proof
  assume "uuid_string S u = CHR ''.'' # s"
  moreover have "list_all (\<lambda>c. is_lower_hex_byte c \<or> c = CHR ''-'') (uuid_string S u)"
    using assms by (simp add: uuid_text_ok_def)
  ultimately show False by (simp add: is_lower_hex_byte_def is_ascii_digit_def byte_def)
qed

lemma grown_staged:
  assumes "uuid_text_ok S" and "grown S st m t u"
  shows "same_below t u (staged_path S st m)"
proof -
  have "\<not> prefix (work_path S st m f) (staged_path S st m @ r)" for f r
    using uuid_string_plain [OF assms(1)] by (auto simp: work_path_def staged_path_def work_name_def)
  then show ?thesis using assms(2) by (auto simp: same_below_def grown_def)
qed

lemma slot_ok_same:
  assumes "same_below t u (object_path S st m)" and "same_below t u (staged_path S st m)"
    and "slot_ok S st m t"
  shows "slot_ok S st m u"
  using assms by (auto simp: slot_ok_def occupied_same intro: object_holds_same)

lemma grown_keeps:
  assumes lay: "store_layout st" and ids: "uuid_text_ok S" and grown: "grown S st m t u"
  shows "publish_keeps S st m t u"
proof -
  note apart = store_layout_apart [OF lay]
  have objs: "node_at u (st_objects st @ r) = node_at t (st_objects st @ r)" for r
    using grown apart by (auto simp: grown_def work_path_def)
  have kept: "same_below t u (st_staging st @ [n])" if o: "occupied t (st_staging st @ [n])" for n
    unfolding same_below_def
  proof (rule allI, rule ccontr)
    fix r
    assume "node_at u ((st_staging st @ [n]) @ r) \<noteq> node_at t ((st_staging st @ [n]) @ r)"
    then obtain f where "prefix (work_path S st m f) ((st_staging st @ [n]) @ r)"
        "\<not> occupied t (work_path S st m f)"
      using grown unfolding grown_def by metis
    then show False using o by (auto simp: work_path_def)
  qed
  have rest: "node_at u p = node_at t p" if "\<not> prefix (st_staging st) p" for p
    using that grown by (auto simp: grown_def work_path_def dest: append_prefixD)
  show ?thesis
    unfolding publish_keeps_def
    using objs kept rest slot_ok_same [OF _ grown_staged [OF ids grown]]
    by (auto simp: same_below_def occupied_iff staged_path_def object_path_def)
qed

lemma triple_create_fresh_work:
  assumes "grown S st m t0 u"
  shows "triple (\<lambda>t. t = u) (create_fresh_work S k st (sm_snapshot_id m))
     (\<lambda>r t. grown S st m t0 t \<and> (\<exists>f. snd r = work_path S st m f) \<and> st_staging st @ [fst r] = snd r
        \<and> \<not> occupied t0 (snd r) \<and> dir_holds t (snd r))
     (grown S st m t0)"
  using assms
proof (induction k arbitrary: u)
  case 0
  then show ?case by (auto intro: triple_fail)
next
  case (Suc k)
  note made = grown_occupied [OF Suc.prems] grown_changed_at [OF Suc.prems, of _ "[]", simplified]
  have dir: "triple (\<lambda>t. t = u) (create_private_dir (st_staging st) (work_name S (sm_snapshot_id m) f))
      (\<lambda>h t. grown S st m t0 t \<and> h = work_path S st m f \<and> \<not> occupied t0 h \<and> dir_holds t h)
      (grown S st m t0)" for f
    by (rule triple_weaken [OF triple_create_private_dir, unfolded work_path_def [symmetric]])
      (use made Suc.prems in \<open>auto simp: work_path_def [symmetric]\<close>)
  have again: "triple (grown S st m t0) (create_fresh_work S k st (sm_snapshot_id m))
     (\<lambda>r t. grown S st m t0 t \<and> (\<exists>f. snd r = work_path S st m f) \<and> st_staging st @ [fst r] = snd r
        \<and> \<not> occupied t0 (snd r) \<and> dir_holds t (snd r))
     (grown S st m t0)"
    by (rule triple_pull) (rule Suc.IH)
  show ?case
    apply (simp add: Let_def)
    apply (rule triple_perform [OF triple_new_v4])
    apply (rule triple_attempt [OF dir])
     apply (simp, rule triple_ret, auto simp: work_path_def) [1]
    apply (auto intro: again triple_fail)
    done
qed

lemma triple_work_file:
  assumes "\<not> occupied t0 (work_path S st m f)"
  shows "triple (\<lambda>t. grown S st m t0 t \<and> dir_holds t (work_path S st m f))
     (write_private_file (work_path S st m f) n bytes)
     (\<lambda>_ t. grown S st m t0 t \<and> dir_holds t (work_path S st m f)) (grown S st m t0)"
  apply (rule triple_pull, rule triple_weaken [OF triple_write_private_file])
    apply simp
   apply (auto intro: grown_changed_at [OF _ assms] simp: dir_holds_def changed_at_def)
  done

lemma triple_write_work:
  assumes "\<not> occupied t0 (work_path S st m f)"
  shows "triple (\<lambda>t. grown S st m t0 t \<and> dir_holds t (work_path S st m f))
     (write_work S (work_path S st m f) m bytes payload)
     (\<lambda>_ t. grown S st m t0 t \<and> dir_holds t (work_path S st m f)
        \<and> object_files_hold S m bytes t (work_path S st m f))
     (grown S st m t0)"
  unfolding write_work_def
  apply (rule triple_perform [OF triple_work_file [OF assms]])
  apply (rule triple_perform [OF triple_work_file [OF assms]])
  apply (rule triple_learn_then [OF _ learns_verify_expected_object], intro read_intros, blast)
  apply (rule triple_weaken [OF triple_reads], intro read_intros, assumption)
   apply auto
  done

text \<open>The first rename gives the finished work directory its stable name.\<close>

lemma publish_keeps_stage:
  assumes lay: "store_layout st" and ids: "uuid_text_ok S" and grown: "grown S st m t0 u"
    and free: "\<not> occupied t0 (work_path S st m f)" and stable: "\<not> occupied u (staged_path S st m)"
    and work: "object_holds S m u (work_path S st m f)" and new: "node_at t0 (object_path S st m) = None"
  shows "publish_keeps S st m t0 (move_tree (work_path S st m f) (staged_path S st m) u)"
proof -
  let ?w = "work_path S st m f" and ?s = "staged_path S st m"
  let ?v = "move_tree ?w ?s u"
  note apart = store_layout_apart [OF lay]
  have outside: "node_at ?v p = (if prefix ?w p then None else node_at u p)" if "\<not> prefix ?s p" for p
    by (rule node_at_move_outside [OF that])
  have base: "publish_keeps S st m t0 u" by (rule grown_keeps [OF lay ids grown])
  have objs: "same_below u ?v (st_objects st @ [n])" for n
    using apart outside by (auto simp: same_below_def staged_path_def work_path_def)
  have rest: "node_at ?v p = node_at u p" if "\<not> prefix (st_staging st) p" for p
  proof -
    have "\<not> prefix ?s p" "\<not> prefix ?w p"
      using that by (auto simp: work_path_def staged_path_def dest: append_prefixD)
    then show ?thesis by (simp add: outside)
  qed
  have objects_same: "same_below t0 u (st_objects st @ [n])" for n
    using grown apart by (auto simp: same_below_def grown_def work_path_def)
  have unstaged: "\<not> occupied t0 ?s"
    using stable occupied_same [OF grown_staged [OF ids grown]] by simp
  show ?thesis
    unfolding publish_keeps_def
  proof (intro conjI allI impI)
    show "node_at ?v p = node_at t0 p" if "\<not> prefix (st_staging st) p \<and> \<not> prefix (st_objects st) p" for p
      using that rest base by (simp add: publish_keeps_def)
    show "same_below t0 ?v (st_objects st @ [n])" if "occupied t0 (st_objects st @ [n])" for n
    proof (rule same_below_trans [OF _ objs])
      show "same_below t0 u (st_objects st @ [n])" using that base by (simp add: publish_keeps_def)
    qed
    show "same_below t0 ?v (st_staging st @ [n])"
      if n: "n \<noteq> uuid_string S (sm_snapshot_id m)" and o: "occupied t0 (st_staging st @ [n])" for n
    proof -
      have "same_below t0 u (st_staging st @ [n])" using base n o by (simp add: publish_keeps_def)
      moreover have "st_staging st @ [n] \<noteq> ?w" using o free by auto
      then have "same_below u ?v (st_staging st @ [n])"
        using n outside by (auto simp: same_below_def staged_path_def work_path_def)
      ultimately show ?thesis by (rule same_below_trans)
    qed
    show "same_below t0 ?v ?s \<or> (\<forall>r. node_at ?v (object_path S st m @ r) = node_at t0 (?s @ r))"
      if "occupied t0 ?s" using that unstaged by contradiction
    show "occupied t0 (st_objects st @ [n])
        \<or> st_objects st @ [n] = object_path S st m \<and> object_holds S m ?v (object_path S st m)"
      if "occupied ?v (st_objects st @ [n])" for n
      using that objs [of n] base object_holds_same [OF objs]
      by (auto simp: publish_keeps_def occupied_same object_path_def)
    show "slot_ok S st m ?v" if t0: "slot_ok S st m t0"
    proof -
      have "\<not> occupied t0 (object_path S st m)"
        using new t0 by (auto simp: slot_ok_def object_holds_def dir_holds_def)
      then have "\<not> occupied ?v (object_path S st m)"
        using occupied_same [OF objs] occupied_same [OF objects_same] by (simp add: object_path_def)
      moreover have "object_holds S m ?v ?s"
        by (rule object_holds_moved [OF node_at_move_inside [OF stable] work])
      ultimately show ?thesis by (simp add: slot_ok_def)
    qed
  qed
qed

lemma publish_staged:
  assumes lay: "store_layout st" and ids: "uuid_text_ok S" and bytes: "manifest_to_vec S m = Some bytes"
    and free: "\<not> occupied t0 (work_path S st m f)" and new: "node_at t0 (object_path S st m) = None"
  shows "triple (\<lambda>t. grown S st m t0 t \<and> dir_holds t (work_path S st m f)
        \<and> object_files_hold S m bytes t (work_path S st m f))
     (atomic_rename_noreplace (st_staging st) (work_name S (sm_snapshot_id m) f) (st_staging st)
       (uuid_string S (sm_snapshot_id m)))
     (\<lambda>_ t. publish_keeps S st m t0 t \<and> object_holds S m t (staged_path S st m))
     (publish_keeps S st m t0)"
  unfolding atomic_rename_noreplace_def staged_path_def [symmetric] work_path_def [symmetric]
proof (rule triple_lift_err, rule triple_pull, rule triple_weaken [OF triple_sys_rename_noreplace])
  fix u t x
  assume u: "grown S st m t0 u \<and> dir_holds u (work_path S st m f)
      \<and> object_files_hold S m bytes u (work_path S st m f)"
  show "publish_keeps S st m t0 t" if "t = u" using that u grown_keeps [OF lay ids] by blast
  assume t: "node_at u (work_path S st m f) \<noteq> None \<and> \<not> occupied u (staged_path S st m)
      \<and> t = move_tree (work_path S st m f) (staged_path S st m) u"
  have w: "object_holds S m u (work_path S st m f)" using u bytes by (auto simp: object_holds_def)
  then have "object_holds S m t (staged_path S st m)"
    using t node_at_move_inside by (metis object_holds_moved)
  then show "publish_keeps S st m t0 t \<and> object_holds S m t (staged_path S st m)"
    using t u publish_keeps_stage [OF lay ids _ free _ w new] by blast
qed simp

lemma publish_locked_keeps:
  assumes lay: "store_layout st" and ids: "uuid_text_ok S"
  shows "triple (\<lambda>t. t = t0) (publish_locked S st m payload)
     (\<lambda>_. publish_keeps S st m t0) (publish_keeps S st m t0)"
proof -
  let ?K = "publish_keeps S st m t0"
  have resume: "triple ?K (resume_stable S st m bytes) (\<lambda>_. ?K) ?K" if "manifest_to_vec S m = Some bytes" for bytes
    by (rule triple_pull, rule triple_weaken [OF pub.upholds_after [OF resume_stable_upholds [OF lay that]]])
      auto
  have stage: "triple (\<lambda>t. ?K t \<and> object_holds S m t (staged_path S st m))
      (perform (sync_published (st_staging st) StagingDirectory) (\<lambda>_. promote_staging S st m bytes Published))
      (\<lambda>_. ?K) ?K" for bytes
    by (rule triple_read_then, intro read_intros, blast,
        rule triple_weaken [OF pub.upholds_after [OF promote_staging_upholds [OF lay]]]) auto
  have collide: "triple ?K (if e = SnapIo AlreadyExists
      then perform (resume_stable S st m bytes) (\<lambda>again. of_result (ok_or again SnapshotCollision))
      else fail e) (\<lambda>_. ?K) ?K" if "manifest_to_vec S m = Some bytes" for e bytes
    by (auto intro!: triple_perform [OF resume [OF that]] triple_of_result triple_fail)
  let ?go = "\<lambda>bytes name work. perform (write_work S work m bytes payload) (\<lambda>_.
      attempt (atomic_rename_noreplace (st_staging st) name (st_staging st)
        (uuid_string S (sm_snapshot_id m))) (\<lambda>r. case r of
          Inr _ \<Rightarrow> perform (sync_published (st_staging st) StagingDirectory) (\<lambda>_.
            promote_staging S st m bytes Published)
        | Inl e \<Rightarrow> if e = SnapIo AlreadyExists then
            perform (resume_stable S st m bytes) (\<lambda>again. of_result (ok_or again SnapshotCollision))
          else fail e))"
  have work: "triple (\<lambda>t. grown S st m t0 t \<and> dir_holds t (work_path S st m f))
      (?go bytes (work_name S (sm_snapshot_id m) f) (work_path S st m f)) (\<lambda>_. ?K) ?K"
    if "\<not> occupied t0 (work_path S st m f)" "manifest_to_vec S m = Some bytes"
      "node_at t0 (object_path S st m) = None" for f bytes
    apply (rule triple_perform)
     apply (rule triple_weaken [OF triple_write_work [OF that(1)]], assumption, assumption)
     apply (erule grown_keeps [OF lay ids])
    apply (rule triple_attempt [OF publish_staged [OF lay ids that(2,1,3)]])
     apply (simp add: stage)
    apply (simp only: sum.case)
    apply (rule collide [OF that(2)])
    done
  have fresh: "triple (\<lambda>t. t = t0)
      (perform (create_fresh_work S 32 st (sm_snapshot_id m)) (\<lambda>(name, work). ?go bytes name work))
      (\<lambda>_. ?K) ?K" if bytes: "manifest_to_vec S m = Some bytes"
        and new: "node_at t0 (object_path S st m) = None" for bytes
  proof (rule triple_perform)
    show "triple (\<lambda>t. t = t0) (create_fresh_work S 32 st (sm_snapshot_id m))
        (\<lambda>made t. grown S st m t0 t \<and> (\<exists>f. snd made = work_path S st m f)
        \<and> st_staging st @ [fst made] = snd made \<and> \<not> occupied t0 (snd made) \<and> dir_holds t (snd made)) ?K"
      by (rule triple_weaken [OF triple_create_fresh_work [OF grown_refl]]) (auto intro: grown_keeps [OF lay ids])
    fix made :: "string \<times> fs_path"
    show "triple (\<lambda>t. grown S st m t0 t \<and> (\<exists>f. snd made = work_path S st m f)
        \<and> st_staging st @ [fst made] = snd made \<and> \<not> occupied t0 (snd made) \<and> dir_holds t (snd made))
        (case made of (name, work) \<Rightarrow> ?go bytes name work) (\<lambda>_. ?K) ?K" (is "triple ?P _ _ _")
    proof (rule triple_pull)
      fix u
      assume u: "?P u"
      then obtain f where f: "made = (work_name S (sm_snapshot_id m) f, work_path S st m f)"
        by (cases made) (auto simp: work_path_def)
      have free: "\<not> occupied t0 (work_path S st m f)" using u f by simp
      show "triple (\<lambda>t. t = u) (case made of (name, work) \<Rightarrow> ?go bytes name work) (\<lambda>_. ?K) ?K"
        unfolding f prod.case by (rule triple_weaken [OF work [OF free bytes new]]) (use u f in auto)
    qed
  qed
  show ?thesis
    unfolding publish_locked_def
  proof (rule triple_perform [where Q = "\<lambda>bytes t. t = t0 \<and> manifest_to_vec S m = Some bytes"])
    show "triple (\<lambda>t. t = t0) (of_result (publish_preconditions S st m payload))
        (\<lambda>bytes t. t = t0 \<and> manifest_to_vec S m = Some bytes) ?K"
      by (rule triple_of_result) (auto simp: publish_preconditions_def canonical_manifest_bytes_Inr
          publish_keeps_refl split: if_splits)
    fix bytes
    show "triple (\<lambda>t. t = t0 \<and> manifest_to_vec S m = Some bytes)
        (perform (resume_stable S st m bytes) (\<lambda>resumed. case resumed of
          None \<Rightarrow> perform (create_fresh_work S 32 st (sm_snapshot_id m)) (\<lambda>(name, work). ?go bytes name work)
        | Some outcome \<Rightarrow> ret outcome)) (\<lambda>_. ?K) ?K"
    proof (rule triple_pure, rule triple_perform [OF pub.triple_of_upholds [OF resume_stable_upholds [OF lay] refl]])
      fix resumed
      assume bytes: "manifest_to_vec S m = Some bytes"
      show "triple (\<lambda>t. ?K t \<and> (resumed = None \<longrightarrow> t = t0 \<and> node_at t (object_path S st m) = None
            \<and> node_at t (staged_path S st m) = None))
          (case resumed of None \<Rightarrow> perform (create_fresh_work S 32 st (sm_snapshot_id m))
            (\<lambda>(name, work). ?go bytes name work) | Some outcome \<Rightarrow> ret outcome) (\<lambda>_. ?K) ?K"
      proof (cases resumed)
        case None
        show ?thesis
          unfolding None option.case
        proof (rule triple_pull)
          fix u
          assume u: "?K u \<and> (None = None \<longrightarrow> u = t0 \<and> node_at u (object_path S st m) = None
              \<and> node_at u (staged_path S st m) = None)"
          then have "u = t0" and new: "node_at t0 (object_path S st m) = None" by auto
          show "triple (\<lambda>t. t = u) (perform (create_fresh_work S 32 st (sm_snapshot_id m))
              (\<lambda>(name, work). ?go bytes name work)) (\<lambda>_. ?K) ?K"
            unfolding \<open>u = t0\<close> by (rule fresh [OF bytes new])
        qed
      qed (auto intro: triple_ret)
    qed
  qed
qed

lemma publish_keeps_evidence:
  assumes "store_layout st" and "uuid_text_ok S"
  shows "publish_keeps S st m (w_tree w) (w_tree (snd (publish S st m payload w)))"
proof -
  let ?K = "publish_keeps S st m (w_tree w)"
  have "triple (\<lambda>t. t = w_tree w) (publish S st m payload) (\<lambda>_. ?K) ?K"
    unfolding publish_def with_operation_lock_def
    apply (rule triple_read_then, intro read_intros, simp add: publish_keeps_refl)
    apply (rule triple_attempt [OF publish_locked_keeps [OF assms]])
     apply (rule triple_weaken [OF triple_reads], intro read_intros, assumption+)+
    done
  then show ?thesis by (auto simp: triple_def split: sum.splits dest: spec [of _ w])
qed

end
