(* ===== verification/Snapshot_Resume.thy ===== *)
theory Snapshot_Resume
  imports Snapshot_Publish
begin

text \<open>
  What \<open>publish\<close> and \<open>inspect\<close> return when no call fails, from any tree that interrupted
  publications of the same snapshot can leave behind.
\<close>

section \<open>Names\<close>

lemma valid_utf8_ascii: "\<forall>b \<in> set s. byte b < 128 \<Longrightarrow> valid_utf8 s"
  by (induction s rule: valid_utf8.induct) (auto simp: utf8_tail_def)

definition plain_name :: "string \<Rightarrow> bool" where
  "plain_name n = (n \<noteq> [] \<and> n \<noteq> ''.'' \<and> n \<noteq> ''..''
     \<and> (\<forall>b \<in> set n. byte b < 128 \<and> b \<noteq> CHR ''/''))"

lemma plain_child_name:
  assumes "plain_name n"
  shows "validate_child_name n = Inr ()"
proof -
  have n: "n \<noteq> []" "n \<noteq> ''.''" "n \<noteq> ''..''" "CHR ''/'' \<notin> set n" and utf8: "valid_utf8 n"
    using assms by (auto simp: plain_name_def intro!: valid_utf8_ascii)
  have one: "split_on CHR ''/'' n = [n]" by (rule split_on_no_sep [OF n(4)])
  have "\<not> starts_with n ''/''" using n by (cases n) (auto simp: starts_with_def)
  then have "unix_components n = [Normal n]"
    using n by (simp add: unix_components_def one classify_piece_def List.map_filter_def)
  then show ?thesis using utf8 by (simp add: validate_child_name_def)
qed

lemma uuid_char:
  assumes "uuid_text_ok S" and "c \<in> set (uuid_string S u)"
  shows "byte c < 128 \<and> c \<noteq> CHR ''/'' \<and> c \<noteq> CHR ''.''"
proof -
  have "is_lower_hex_byte c \<or> c = CHR ''-''"
    using assms by (auto simp: uuid_text_ok_def list_all_iff)
  then show ?thesis by (auto simp: is_lower_hex_byte_def is_ascii_digit_def byte_def)
qed

lemma plain_uuid_string: "uuid_text_ok S \<Longrightarrow> plain_name (uuid_string S u)"
  using uuid_char [of S _ u] uuid_string_plain [of S u]
  by (auto simp: plain_name_def uuid_text_ok_def)

lemma plain_work_name: "uuid_text_ok S \<Longrightarrow> plain_name (work_name S u f)"
  using uuid_char [of S _ u] uuid_char [of S _ f]
  by (auto simp: plain_name_def work_name_def byte_def)

section \<open>Reading\<close>

lemma succeeds_verify_private_file:
  assumes "\<And>t. P t \<Longrightarrow> \<exists>bytes. file_holds t p bytes"
  shows "succeeds P (verify_private_file p) (\<lambda>_. P)"
  unfolding verify_private_file_def
  by (rule succeeds_privacy_check) (use assms in \<open>fastforce simp: private_at_def file_holds_def\<close>)

lemma succeeds_sync_published: "succeeds P (sync_published d b) (\<lambda>_. P)"
  unfolding sync_published_def sync_directory_def
  by (intro succeeds_lift_err succeeds_sys_sync)

lemma succeeds_require_private_directory:
  assumes "\<And>t. P t \<Longrightarrow> dir_holds t d"
  shows "succeeds P (require_private_directory d) (\<lambda>_. P)"
  unfolding require_private_directory_def
  by (rule succeeds_privacy_check) (use assms in \<open>fastforce simp: private_at_def dir_holds_def\<close>)

lemma succeeds_open_child_dir_nofollow:
  assumes "\<And>t. P t \<Longrightarrow> \<exists>i b. node_at t (d @ [n]) = Some (DirNode i b)"
  shows "succeeds P (open_child_dir_nofollow d n) (\<lambda>h t. P t \<and> h = d @ [n])"
  unfolding open_child_dir_nofollow_def
  apply (rule succeeds_perform [OF succeeds_lift_err [OF succeeds_sys_metadata]])
   apply (use assms in fastforce)
  subgoal for node
    by (rule succeeds_pull) (use assms in \<open>force intro: succeeds_ret\<close>)
  done

lemma succeeds_open_private_dir:
  assumes "\<And>t. P t \<Longrightarrow> dir_holds t (d @ [n])" and "plain_name n"
  shows "succeeds P (open_private_dir d n) (\<lambda>h t. P t \<and> h = d @ [n])"
  unfolding open_private_dir_def
  apply (rule succeeds_perform [OF succeeds_of_result [where Q = "\<lambda>_. P"]])
   apply (simp add: plain_child_name [OF assms(2)])
  apply (rule succeeds_perform [OF succeeds_open_child_dir_nofollow])
  using assms(1) unfolding dir_holds_def apply blast
  apply (rule succeeds_perform [OF succeeds_require_private_directory])
   apply (use assms(1) [unfolded dir_holds_def] in \<open>simp add: dir_holds_def\<close>)
  apply (rule succeeds_ret)
  apply auto
  done

lemma succeeds_open_held_private_file:
  assumes "\<And>t. P t \<Longrightarrow> file_holds t (d @ [n]) bytes" and "length bytes \<le> k"
  shows "succeeds P (open_held_private_file d n k) (\<lambda>r t. P t \<and> r = (d @ [n], length bytes))"
  unfolding open_held_private_file_def Let_def
  apply (rule succeeds_perform [OF succeeds_lift_err [OF succeeds_sys_metadata]])
   apply (use assms(1) in \<open>auto simp: file_holds_def\<close>) [1]
  apply (rule succeeds_perform [OF succeeds_lift_err [OF succeeds_verify_private_file]])
   apply (use assms(1) in blast)
  apply (rule succeeds_perform [OF succeeds_lift_err [OF succeeds_sys_metadata]])
   apply simp
  apply (rule succeeds_pull)
  apply (use assms in \<open>fastforce simp: file_holds_def intro: succeeds_ret\<close>)
  done

lemma succeeds_read_held_private_file:
  assumes "\<And>t. P t \<Longrightarrow> file_holds t p bytes"
  shows "succeeds P (read_held_private_file p (length bytes)) (\<lambda>r t. P t \<and> r = bytes)"
  unfolding read_held_private_file_def Let_def
  apply (rule succeeds_perform [OF succeeds_lift_err [OF succeeds_sys_metadata]])
   apply (use assms in \<open>auto simp: file_holds_def\<close>) [1]
  subgoal for node
    apply (rule succeeds_pull)
    subgoal for u
      using assms [of u]
      apply (clarsimp simp: file_holds_def)
      apply (rule succeeds_perform [OF succeeds_lift_err [OF succeeds_verify_private_file]])
       apply (use assms in blast)
      apply (rule succeeds_perform [OF succeeds_lift_err [OF succeeds_sys_metadata]])
       apply simp
      apply (rule succeeds_pull)
      apply (auto intro: succeeds_ret)
      done
    done
  done

lemma succeeds_read_private_file:
  assumes "\<And>t. P t \<Longrightarrow> file_holds t (d @ [n]) bytes" and "length bytes \<le> k"
  shows "succeeds P (read_private_file d n k) (\<lambda>r t. P t \<and> r = bytes)"
  unfolding read_private_file_def
  apply (rule succeeds_perform [OF succeeds_open_held_private_file [OF assms]], assumption)
  subgoal for r
    apply (cases r)
    apply (simp, rule succeeds_pull, clarsimp)
    apply (rule succeeds_weaken [OF succeeds_read_held_private_file])
      apply (rule assms(1))
      apply auto
    done
  done

lemma object_entries_okI:
  assumes "set ns = {MANIFEST_FILE, PAYLOAD_FILE}" and "distinct ns"
  shows "object_entries_ok False False 0 ns"
proof -
  have ne: "MANIFEST_FILE \<noteq> PAYLOAD_FILE" by (simp add: MANIFEST_FILE_def PAYLOAD_FILE_def)
  have "length ns = 2" using assms ne distinct_card [of ns] by simp
  then obtain a b where "ns = [a, b]" by (metis length_0_conv length_Suc_conv numeral_2_eq_2)
  moreover have "valid_utf8 MANIFEST_FILE" "valid_utf8 PAYLOAD_FILE"
    by code_simp+
  moreover have "a = MANIFEST_FILE \<and> b = PAYLOAD_FILE \<or> a = PAYLOAD_FILE \<and> b = MANIFEST_FILE"
    using assms(1) \<open>ns = [a, b]\<close> by (simp add: doubleton_eq_iff)
  ultimately show ?thesis using ne by auto
qed

lemma succeeds_verify_exact_object_entries:
  assumes "\<And>t. P t \<Longrightarrow> set (names_in t d) = {MANIFEST_FILE, PAYLOAD_FILE}"
  shows "succeeds P (verify_exact_object_entries d) (\<lambda>_. P)"
  unfolding verify_exact_object_entries_def
  apply (rule succeeds_perform [OF succeeds_lift_err [OF succeeds_sys_entries]])
  subgoal for names
    by (rule succeeds_weaken [OF succeeds_require [where P = "\<lambda>t. P t \<and> names = names_in t d"]])
      (use assms in \<open>auto intro: object_entries_okI\<close>)
  done

lemma succeeds_verify_expected_object:
  assumes "\<And>t. P t \<Longrightarrow> object_files_hold S m bytes t d"
  shows "succeeds P (verify_expected_object S d m bytes) (\<lambda>_. P)"
proof (rule succeeds_pull)
  fix u
  assume "P u"
  then obtain payload where u: "set (names_in u d) = {MANIFEST_FILE, PAYLOAD_FILE}"
      "file_holds u (d @ [MANIFEST_FILE]) bytes" "length bytes \<le> MAX_MANIFEST_BYTES"
      "check_manifest_bytes S m bytes bytes = Inr ()" "file_holds u (d @ [PAYLOAD_FILE]) payload"
      "length payload \<le> MAX_PAYLOAD_BYTES" "revision_from_bytes S payload = sm_revision m"
    using assms [of u] by (auto simp: object_files_hold_def)
  have "succeeds (\<lambda>t. t = u) (verify_expected_object S d m bytes) (\<lambda>_ t. t = u)"
    unfolding verify_expected_object_def read_payload_revision_def
    apply (rule succeeds_perform [OF succeeds_verify_exact_object_entries], simp add: u)
    apply (rule succeeds_perform [OF succeeds_read_private_file [where bytes = bytes]], simp add: u, simp add: u)
    apply (rule succeeds_perform [OF succeeds_of_result [where Q = "\<lambda>_ t. t = u"]], simp add: u)
    apply (rule succeeds_perform)
     apply (rule succeeds_perform [OF succeeds_read_private_file [where bytes = payload]], simp add: u, simp add: u)
     apply (rule succeeds_ret [where Q = "\<lambda>r t. t = u \<and> r = sm_revision m"], simp add: u)
    subgoal for _ _ _ r
      by (rule succeeds_weaken [OF succeeds_require [where P = "\<lambda>t. t = u \<and> r = sm_revision m"]]) auto
    done
  then show "succeeds (\<lambda>t. t = u) (verify_expected_object S d m bytes) (\<lambda>_. P)"
    by (rule succeeds_weaken) (simp_all add: \<open>P u\<close>)
qed

lemma succeeds_open_optional_some:
  assumes "\<And>t. P t \<Longrightarrow> dir_holds t (d @ [n])" and "plain_name n"
  shows "succeeds P (open_optional_private_dir d n) (\<lambda>r t. P t \<and> r = Some (d @ [n]))"
  unfolding open_optional_private_dir_def
  apply (rule succeeds_attempt [OF succeeds_sys_metadata])
   apply (use assms(1) in \<open>auto simp: dir_holds_def\<close>) [1]
  apply (simp, rule succeeds_perform [OF succeeds_lift_err [OF succeeds_open_private_dir [OF _ assms(2)]]])
   apply (rule assms(1), blast)
  apply (auto intro: succeeds_ret)
  done

lemma succeeds_open_optional_none:
  assumes "\<And>t. P t \<Longrightarrow> node_at t (d @ [n]) = None"
  shows "succeeds P (open_optional_private_dir d n) (\<lambda>r t. P t \<and> r = None)"
  using assms
  by (simp add: succeeds_def open_optional_private_dir_def attempt_def sys_metadata_def calm_syscall ret_def)

section \<open>Publication\<close>

lemma succeeds_write_private_file:
  "succeeds (\<lambda>t. t = u \<and> \<not> occupied u (d @ [n])) (write_private_file d n bytes)
     (\<lambda>_ t. changed_at (d @ [n]) u t \<and> file_holds t (d @ [n]) bytes)"
proof -
  let ?p = "d @ [n]"
  let ?Q = "\<lambda>c t. changed_at ?p u t \<and> file_holds t ?p c"
  have perm: "succeeds (\<lambda>t. \<exists>i b. t = put_node ?p (FileNode i b []) u) (sys_set_private ?p) (\<lambda>_. ?Q [])"
    by (rule succeeds_pull, rule succeeds_weaken [OF succeeds_sys_set_private])
      (auto simp: node_at_put file_holds_def changed_at_def)
  have fill: "succeeds (?Q []) (sys_write ?p bytes) (\<lambda>_. ?Q bytes)"
    by (rule succeeds_pull, rule succeeds_weaken [OF succeeds_sys_write])
      (auto simp: node_at_put file_holds_def changed_at_def)
  show ?thesis
    unfolding write_private_file_def Let_def set_private_file_permissions_def
    by (rule succeeds_perform [OF succeeds_lift_err [OF succeeds_sys_create_file]],
        rule succeeds_perform [OF succeeds_lift_err [OF succeeds_lift_err [OF perm]]],
        rule succeeds_perform [OF succeeds_lift_err [OF fill]],
        rule succeeds_perform [OF succeeds_lift_err [OF succeeds_sys_sync]],
        rule succeeds_lift_err [OF succeeds_verify_private_file]) blast
qed

lemma succeeds_create_private_dir:
  assumes "plain_name n"
  shows "succeeds (\<lambda>t. t = u \<and> \<not> occupied u (d @ [n])) (create_private_dir d n)
     (\<lambda>h t. h = d @ [n] \<and> changed_at h u t \<and> dir_holds t h)"
proof -
  let ?h = "d @ [n]"
  let ?M = "\<lambda>t. \<exists>i b. t = put_node ?h (DirNode i b) u"
  let ?Q = "\<lambda>t. changed_at ?h u t \<and> dir_holds t ?h"
  have perm: "succeeds (\<lambda>t. ?M t \<and> h = ?h) (sys_set_private h) (\<lambda>_ t. ?Q t \<and> h = ?h)" for h
    by (rule succeeds_pull, rule succeeds_weaken [OF succeeds_sys_set_private])
      (auto simp: node_at_put dir_holds_def changed_at_def)
  show ?thesis
    unfolding create_private_dir_def set_private_directory_permissions_def sync_directory_def
    apply (rule succeeds_perform [OF succeeds_of_result [where Q = "\<lambda>_ t. t = u \<and> \<not> occupied u ?h"]])
     apply (simp add: plain_child_name [OF assms])
    apply (rule succeeds_perform [OF succeeds_lift_err [OF succeeds_sys_create_dir]])
    apply (rule succeeds_perform [OF succeeds_open_child_dir_nofollow])
     apply (auto simp: node_at_put) [1]
    apply (rule succeeds_perform [OF succeeds_lift_err [OF perm]])
    apply (rule succeeds_perform [OF succeeds_require_private_directory], blast)
    apply (rule succeeds_perform [OF succeeds_lift_err [OF succeeds_sys_sync]])
    apply (rule succeeds_perform [OF succeeds_lift_err [OF succeeds_sys_sync]])
    apply (rule succeeds_ret, blast)
    done
qed

lemma succeeds_write_work:
  assumes dir: "dir_holds u work" and empty: "\<And>r. r \<noteq> [] \<Longrightarrow> node_at u (work @ r) = None"
    and bytes: "length bytes \<le> MAX_MANIFEST_BYTES" "check_manifest_bytes S m bytes bytes = Inr ()"
    and payload: "length payload \<le> MAX_PAYLOAD_BYTES" "revision_from_bytes S payload = sm_revision m"
  shows "succeeds (\<lambda>t. t = u) (write_work S work m bytes payload)
     (\<lambda>_ t. dir_holds t work \<and> object_files_hold S m bytes t work)"
proof -
  let ?mf = "work @ [MANIFEST_FILE]" and ?pf = "work @ [PAYLOAD_FILE]"
  have ne: "MANIFEST_FILE \<noteq> PAYLOAD_FILE" by (simp add: MANIFEST_FILE_def PAYLOAD_FILE_def)
  have free: "\<not> occupied u ?pf" using empty by (auto simp: occupied_iff)
  have first: "succeeds (\<lambda>t. t = u) (write_private_file work PAYLOAD_FILE payload)
      (\<lambda>_ t. changed_at ?pf u t \<and> file_holds t ?pf payload)"
    by (rule succeeds_weaken [OF succeeds_write_private_file]) (use free in auto)
  have second: "succeeds (\<lambda>t. changed_at ?pf u t \<and> file_holds t ?pf payload)
      (write_private_file work MANIFEST_FILE bytes)
      (\<lambda>_ t. dir_holds t work \<and> object_files_hold S m bytes t work)"
  proof (rule succeeds_pull)
    fix v
    assume v: "changed_at ?pf u v \<and> file_holds v ?pf payload"
    then have "\<not> occupied v ?mf" using empty ne by (auto simp: occupied_iff changed_at_def)
    moreover have "dir_holds t work \<and> object_files_hold S m bytes t work"
      if t: "changed_at ?mf v t" "file_holds t ?mf bytes" for t
    proof -
      have other: "node_at t q = node_at u q" if "q \<noteq> ?mf" "q \<noteq> ?pf" for q
        using that t v by (simp add: changed_at_def)
      have pl: "file_holds t ?pf payload" using t v ne by (simp add: changed_at_def file_holds_def)
      have "set (names_in t work) = {MANIFEST_FILE, PAYLOAD_FILE}"
      proof -
        have "node_at t (work @ [n]) \<noteq> None \<longleftrightarrow> n = MANIFEST_FILE \<or> n = PAYLOAD_FILE" for n
          using t(2) pl empty [of "[n]"] other [of "work @ [n]"]
          by (cases "n = MANIFEST_FILE"; cases "n = PAYLOAD_FILE") (auto simp: file_holds_def)
        then show ?thesis by (auto simp: set_names_in)
      qed
      moreover have "dir_holds t work" using dir other [of work] by (simp add: dir_holds_def)
      ultimately show ?thesis using t pl bytes payload by (auto simp: object_files_hold_def)
    qed
    ultimately show "succeeds (\<lambda>t. t = v) (write_private_file work MANIFEST_FILE bytes)
        (\<lambda>_ t. dir_holds t work \<and> object_files_hold S m bytes t work)"
      by (intro succeeds_weaken [OF succeeds_write_private_file]) auto
  qed
  show ?thesis
    unfolding write_work_def
    by (rule succeeds_perform [OF first], rule succeeds_perform [OF second],
        rule succeeds_perform [OF succeeds_verify_expected_object], blast,
        rule succeeds_sync_published)
qed

lemma succeeds_promote_staging:
  assumes ids: "uuid_text_ok S" and vec: "manifest_to_vec S m = Some bytes"
    and holds: "object_holds S m u (staged_path S st m)" and free: "\<not> occupied u (object_path S st m)"
  shows "succeeds (\<lambda>t. t = u)
     (promote_staging S st m bytes outcome) (\<lambda>r t. r = outcome \<and> object_holds S m t (object_path S st m))"
proof -
  let ?s = "staged_path S st m" and ?o = "object_path S st m"
  let ?P = "\<lambda>t. t = u \<and> object_holds S m u ?s \<and> \<not> occupied u ?o"
  have rename: "succeeds ?P (sys_rename_noreplace ?s ?o) (\<lambda>_ t. object_holds S m t ?o)"
  proof (rule succeeds_weaken [OF succeeds_sys_rename_noreplace])
    show "t = u \<and> node_at u ?s \<noteq> None \<and> \<not> occupied u ?o" if "?P t" for t
      using that by (auto simp: object_holds_def dir_holds_def)
    show "object_holds S m t ?o" if "t = move_tree ?s ?o u" for t
      using that holds object_holds_moved [OF node_at_move_inside [OF free]] by blast
  qed
  show ?thesis
    unfolding promote_staging_def atomic_rename_noreplace_def Let_def
      staged_path_def [symmetric] object_path_def [symmetric]
    apply (rule succeeds_attempt [OF succeeds_lift_err [OF succeeds_weaken [OF rename]]])
      apply (use holds free in simp)
     apply assumption
    apply (simp, rule succeeds_perform [OF succeeds_sync_published])
    apply (rule succeeds_perform [OF succeeds_sync_published])
    apply (rule succeeds_perform [OF succeeds_lift_err [OF succeeds_open_private_dir [OF _ plain_uuid_string [OF ids]]]])
     apply (simp add: object_holds_def object_path_def)
    apply (rule succeeds_perform [OF succeeds_verify_expected_object])
     apply (use vec in \<open>auto simp: object_holds_def object_path_def\<close>) [1]
    apply (rule succeeds_ret, simp)
    done
qed

lemma succeeds_resume_stable:
  assumes lay: "store_layout st" and ids: "uuid_text_ok S" and vec: "manifest_to_vec S m = Some bytes"
    and slot: "slot_ok S st m u"
  shows "succeeds (\<lambda>t. t = u) (resume_stable S st m bytes)
     (\<lambda>r t. case r of
        None \<Rightarrow> t = u \<and> \<not> occupied u (object_path S st m) \<and> \<not> occupied u (staged_path S st m)
      | Some _ \<Rightarrow> object_holds S m t (object_path S st m))"
proof -
  note plain = plain_uuid_string [OF ids]
  note paths = object_path_def [symmetric] staged_path_def [symmetric]
  have gone: "node_at u p = None" if "\<not> occupied u p" for p
    using that by (auto simp: occupied_iff dest: spec [of _ "[]"])
  have files: "object_files_hold S m bytes u p" if "object_holds S m u p" for p
    using that vec by (simp add: object_holds_def)
  consider (object) "object_holds S m u (object_path S st m)" "\<not> occupied u (staged_path S st m)"
    | (staged) "object_holds S m u (staged_path S st m)" "\<not> occupied u (object_path S st m)"
    | (none) "\<not> occupied u (object_path S st m)" "\<not> occupied u (staged_path S st m)"
    using slot by (auto simp: slot_ok_def)
  then show ?thesis
  proof cases
    case object
    show ?thesis
      unfolding resume_stable_def Let_def
      apply (rule succeeds_perform [OF succeeds_open_optional_some [OF _ plain]], use object in \<open>simp add: paths object_holds_def\<close>)
      apply (rule succeeds_perform [OF succeeds_open_optional_none], use object gone in \<open>simp add: paths\<close>)
      subgoal for a b
        apply (rule succeeds_pull, clarsimp simp: paths)
        apply (rule succeeds_perform [OF succeeds_verify_expected_object], use object files in simp)
        apply (rule succeeds_perform [OF succeeds_sync_published])
        apply (rule succeeds_perform [OF succeeds_sync_published])
        apply (rule succeeds_ret, use object in simp)
        done
      done
  next
    case staged
    show ?thesis
      unfolding resume_stable_def Let_def
      apply (rule succeeds_perform [OF succeeds_open_optional_none], use staged gone in \<open>simp add: paths\<close>)
      apply (rule succeeds_perform [OF succeeds_open_optional_some [OF _ plain]], use staged in \<open>simp add: paths object_holds_def\<close>)
      subgoal for a b
        apply (rule succeeds_pull, clarsimp simp: paths)
        apply (rule succeeds_perform [OF succeeds_verify_expected_object], use staged files in simp)
        apply (rule succeeds_perform [OF succeeds_promote_staging [OF ids vec staged]])
        apply (rule succeeds_ret, simp)
        done
      done
  next
    case none
    show ?thesis
      unfolding resume_stable_def Let_def
      apply (rule succeeds_perform [OF succeeds_open_optional_none], use none gone in \<open>simp add: paths\<close>)
      apply (rule succeeds_perform [OF succeeds_open_optional_none], use none gone in \<open>simp add: paths\<close>)
      apply (rule succeeds_pull, clarsimp simp: paths)
      apply (rule succeeds_ret, use none in simp)
      done
  qed
qed

section \<open>A publication that is not interrupted\<close>

text \<open>One of the 32 names drawn for the work directory is free.\<close>

definition fresh_work_name :: "snap_libs \<Rightarrow> snapshot_store \<Rightarrow> snapshot_manifest \<Rightarrow> world \<Rightarrow> bool" where
  "fresh_work_name S st m w =
     (\<exists>k < 32. \<not> occupied (w_tree w) (work_path S st m (w_uuids w (w_drawn w + k))))"

lemma create_fresh_work_succeeds:
  assumes ids: "uuid_text_ok S" and "calm w" and "k < n"
    and "\<not> occupied (w_tree w) (work_path S st m (w_uuids w (w_drawn w + k)))"
  obtains f w' where "create_fresh_work S n st (sm_snapshot_id m) w = (Inr (work_name S (sm_snapshot_id m) f, work_path S st m f), w')"
    "calm w'" "\<not> occupied (w_tree w) (work_path S st m f)"
    "changed_at (work_path S st m f) (w_tree w) (w_tree w')" "dir_holds (w_tree w') (work_path S st m f)"
  using assms(2-)
proof (induction n arbitrary: w k thesis)
  case 0
  then show ?case by simp
next
  case (Suc n)
  let ?f = "w_uuids w (w_drawn w)"
  let ?w = "w\<lparr>w_drawn := Suc (w_drawn w)\<rparr>"
  let ?name = "work_name S (sm_snapshot_id m) ?f"
  have path: "st_staging st @ [?name] = work_path S st m ?f" by (simp add: work_path_def)
  have calm: "calm ?w" using Suc.prems(2) by (simp add: calm_def)
  show ?case
  proof (cases "occupied (w_tree w) (work_path S st m ?f)")
    case False
    from succeeds_create_private_dir [OF plain_work_name [OF ids], of "w_tree w" "st_staging st" "sm_snapshot_id m" ?f]
    obtain h w' where "create_private_dir (st_staging st) ?name ?w = (Inr h, w')" "calm w'"
        "h = work_path S st m ?f" "changed_at h (w_tree w) (w_tree w')" "dir_holds (w_tree w') h"
      by (rule succeedsD [of _ _ _ ?w]) (use calm False path in auto)
    then show ?thesis
      using False by (intro Suc.prems(1) [of ?f w'])
        (simp_all add: perform_def attempt_def new_v4_def ret_def Let_def)
  next
    case True
    then have k: "k \<noteq> 0" using Suc.prems(4) by (metis add.right_neutral)
    have next_w: "create_private_dir (st_staging st) ?name ?w = (Inl (PfIo AlreadyExists), tick ?w)"
      using calm True path plain_child_name [OF plain_work_name [OF ids]]
      by (simp add: create_private_dir_def perform_def of_result_def lift_err_def sys_create_dir_def calm_syscall)
    obtain f w' where "create_fresh_work S n st (sm_snapshot_id m) (tick ?w)
          = (Inr (work_name S (sm_snapshot_id m) f, work_path S st m f), w')" "calm w'"
        "\<not> occupied (w_tree w) (work_path S st m f)"
        "changed_at (work_path S st m f) (w_tree w) (w_tree w')" "dir_holds (w_tree w') (work_path S st m f)"
      by (rule Suc.IH [where w = "tick ?w" and k = "k - 1"])
        (use calm k Suc.prems(3,4) in \<open>auto simp: tick_def calm_def\<close>)
    then show ?thesis
      using next_w by (intro Suc.prems(1) [of f w'])
        (simp_all add: perform_def attempt_def new_v4_def Let_def)
  qed
qed

lemma check_manifest_bytes_ok:
  assumes "uuid_text_ok S" and "manifest_json_ok S" and "publish_preconditions S st m payload = Inr bytes"
  shows "manifest_to_vec S m = Some bytes" "length bytes \<le> MAX_MANIFEST_BYTES"
    "check_manifest_bytes S m bytes bytes = Inr ()" "length payload \<le> MAX_PAYLOAD_BYTES"
    "revision_from_bytes S payload = sm_revision m"
proof -
  have v: "manifest_validate S m = Inr ()" and c: "canonical_manifest_bytes S m = Inr bytes"
    and "length payload \<le> MAX_PAYLOAD_BYTES" "revision_from_bytes S payload = sm_revision m"
    using assms(3) by (auto simp: publish_preconditions_def split: if_splits)
  then show "length payload \<le> MAX_PAYLOAD_BYTES" "revision_from_bytes S payload = sm_revision m" by simp_all
  from c show b: "manifest_to_vec S m = Some bytes" "length bytes \<le> MAX_MANIFEST_BYTES"
    by (simp_all add: canonical_manifest_bytes_Inr)
  show "check_manifest_bytes S m bytes bytes = Inr ()"
    using manifest_from_to(1) [OF assms(1,2) b(1) manifest_validate_ids(1,2) [OF v]] v c
    by (simp add: check_manifest_bytes_def)
qed

text \<open>The two renames, from a finished work directory.\<close>

lemma succeeds_stage_and_promote:
  assumes lay: "store_layout st" and ids: "uuid_text_ok S" and vec: "manifest_to_vec S m = Some bytes"
    and work: "object_holds S m u (work_path S st m f)"
    and free: "\<not> occupied u (object_path S st m)" "\<not> occupied u (staged_path S st m)"
  shows "succeeds (\<lambda>t. t = u)
     (attempt (atomic_rename_noreplace (st_staging st) (work_name S (sm_snapshot_id m) f) (st_staging st)
        (uuid_string S (sm_snapshot_id m))) (\<lambda>r. case r of
          Inr _ \<Rightarrow> perform (sync_published (st_staging st) StagingDirectory) (\<lambda>_.
            promote_staging S st m bytes Published)
        | Inl e \<Rightarrow> g e))
     (\<lambda>_ t. object_holds S m t (object_path S st m))"
proof -
  let ?v = "move_tree (work_path S st m f) (staged_path S st m) u"
  have rename: "succeeds (\<lambda>t. t = u) (sys_rename_noreplace (work_path S st m f) (staged_path S st m)) (\<lambda>_ t. t = ?v)"
    by (rule succeeds_weaken [OF succeeds_sys_rename_noreplace])
      (use work free in \<open>auto simp: object_holds_def dir_holds_def\<close>)
  have staged: "object_holds S m ?v (staged_path S st m)"
    by (rule object_holds_moved [OF node_at_move_inside [OF free(2)] work])
  have "\<not> prefix (staged_path S st m) (object_path S st m @ r)"
      "\<not> prefix (work_path S st m f) (object_path S st m @ r)" for r
    using store_layout_apart [OF lay] by (auto simp: staged_path_def object_path_def work_path_def)
  then have object: "\<not> occupied ?v (object_path S st m)"
    using free(1) by (simp add: occupied_iff node_at_move_outside)
  show ?thesis
    unfolding atomic_rename_noreplace_def staged_path_def [symmetric] work_path_def [symmetric]
    by (rule succeeds_attempt [OF succeeds_lift_err [OF rename]], simp,
        rule succeeds_perform [OF succeeds_sync_published],
        rule succeeds_weaken [OF succeeds_promote_staging [OF ids vec staged object]]) auto
qed

lemma undrawn_resume_stable: "undrawn (resume_stable S st m bytes)"
  unfolding resume_stable_def promote_staging_def atomic_rename_noreplace_def Let_def
  by (intro undrawn_intros; (rule undrawn_reads, intro read_intros))

text \<open>What follows the choice of a work directory.\<close>

lemma work_succeeds:
  assumes lay: "store_layout st" and ids: "uuid_text_ok S" and json: "manifest_json_ok S"
    and pre: "publish_preconditions S st m payload = Inr bytes"
    and free: "\<not> occupied u (object_path S st m)" "\<not> occupied u (staged_path S st m)"
      "\<not> occupied u (work_path S st m f)"
    and made: "changed_at (work_path S st m f) u v" "dir_holds v (work_path S st m f)"
  shows "succeeds (\<lambda>t. t = v) (perform (write_work S (work_path S st m f) m bytes payload) (\<lambda>_.
     attempt (atomic_rename_noreplace (st_staging st) (work_name S (sm_snapshot_id m) f) (st_staging st)
        (uuid_string S (sm_snapshot_id m))) (\<lambda>r. case r of
          Inr _ \<Rightarrow> perform (sync_published (st_staging st) StagingDirectory) (\<lambda>_.
            promote_staging S st m bytes Published)
        | Inl e \<Rightarrow> g e)))
     (\<lambda>_ t. object_holds S m t (object_path S st m))"
proof -
  let ?w = "work_path S st m f"
  note bytes = check_manifest_bytes_ok [OF ids json pre]
  have "grown S st m u v"
    by (rule grown_changed_at [OF grown_refl free(3), of "[]"]) (use made in simp)
  have "node_at v (?w @ r) = None" if "r \<noteq> []" for r
    using that made(1) free(3) by (simp add: changed_at_def occupied_iff)
  from succeeds_write_work [OF made(2) this bytes(2-5)]
  have "succeeds (\<lambda>t. t = v) (write_work S ?w m bytes payload)
      (\<lambda>_ t. dir_holds t ?w \<and> object_files_hold S m bytes t ?w)" .
  moreover have "triple (\<lambda>t. t = v) (write_work S ?w m bytes payload)
      (\<lambda>_ t. grown S st m u t) (grown S st m u)"
    by (rule triple_weaken [OF triple_write_work [OF free(3)]]) (use \<open>grown S st m u v\<close> made in auto)
  ultimately have written: "succeeds (\<lambda>t. t = v) (write_work S ?w m bytes payload)
      (\<lambda>_ t. grown S st m u t \<and> object_holds S m t ?w)"
    using bytes(1) by (fastforce simp: succeeds_def triple_def object_holds_def)
  show ?thesis
  proof (rule succeeds_perform [OF written], rule succeeds_pull, rule succeeds_stage_and_promote [OF lay ids bytes(1)])
    fix t
    assume t: "grown S st m u t \<and> object_holds S m t ?w"
    then show "object_holds S m t ?w" by simp
    show "\<not> occupied t (staged_path S st m)"
      using free(2) t occupied_same [OF grown_staged [OF ids]] by blast
    have "same_below u t (object_path S st m)"
      using t store_layout_apart [OF lay] by (auto simp: same_below_def grown_def work_path_def object_path_def)
    then show "\<not> occupied t (object_path S st m)" using free(1) occupied_same by blast
  qed
qed

lemma publish_locked_succeeds:
  assumes lay: "store_layout st" and ids: "uuid_text_ok S" and json: "manifest_json_ok S"
    and pre: "publish_preconditions S st m payload = Inr bytes"
    and slot: "slot_ok S st m (w_tree w)" and calm: "calm w" and fresh: "fresh_work_name S st m w"
  obtains r w' where "publish_locked S st m payload w = (Inr r, w')" "calm w'"
    "object_holds S m (w_tree w') (object_path S st m)"
proof -
  note bytes = check_manifest_bytes_ok [OF ids json pre]
  obtain r w1 where r: "resume_stable S st m bytes w = (Inr r, w1)" "calm w1"
      "case r of None \<Rightarrow> w_tree w1 = w_tree w \<and> \<not> occupied (w_tree w) (object_path S st m)
          \<and> \<not> occupied (w_tree w) (staged_path S st m)
        | Some _ \<Rightarrow> object_holds S m (w_tree w1) (object_path S st m)"
    by (rule succeedsD [OF succeeds_resume_stable [OF lay ids bytes(1) slot] calm]) auto
  show thesis
  proof (cases r)
    case (Some outcome)
    then show thesis
      using r that [of outcome w1] by (simp add: publish_locked_def perform_def of_result_def pre ret_def)
  next
    case None
    have same: "w_uuids w1 = w_uuids w" "w_drawn w1 = w_drawn w"
      using undrawn_resume_stable [of S st m bytes] r(1) by (metis undrawn_def snd_conv)+
    have tree: "w_tree w1 = w_tree w" and none: "\<not> occupied (w_tree w1) (object_path S st m)"
        "\<not> occupied (w_tree w1) (staged_path S st m)"
      using r(3) None by simp_all
    obtain k where k: "k < 32" "\<not> occupied (w_tree w1) (work_path S st m (w_uuids w1 (w_drawn w1 + k)))"
      using fresh by (auto simp: fresh_work_name_def same tree)
    obtain f w2 where f: "create_fresh_work S 32 st (sm_snapshot_id m) w1
          = (Inr (work_name S (sm_snapshot_id m) f, work_path S st m f), w2)" "calm w2"
        "\<not> occupied (w_tree w1) (work_path S st m f)"
        "changed_at (work_path S st m f) (w_tree w1) (w_tree w2)" "dir_holds (w_tree w2) (work_path S st m f)"
      by (rule create_fresh_work_succeeds [OF ids r(2) k])
    note go = work_succeeds [OF lay ids json pre none f(3-5)]
    show thesis
      by (rule succeedsD [OF go f(2) refl], rule that)
        (simp_all add: publish_locked_def perform_def [of "of_result _"] of_result_def pre
          perform_def [of "resume_stable _ _ _ _"] r(1) None perform_def [of "create_fresh_work _ _ _ _"] f(1))
  qed
qed

section \<open>The lock and inspection\<close>

definition lock_ok :: "snapshot_store \<Rightarrow> tree \<Rightarrow> bool" where
  "lock_ok st t = (\<exists>c. node_at t (st_vault st @ [OPERATION_LOCK_FILE])
     = Some (FileNode (st_lock_identity st) True c))"

lemma succeeds_validate_locked_file:
  assumes "\<And>t. P t \<Longrightarrow> lock_ok st t"
  shows "succeeds P (validate_locked_file (st_vault st) (st_lock_identity st)) (\<lambda>_. P)"
  unfolding validate_locked_file_def Let_def
  apply (rule succeeds_perform [OF succeeds_lift_err [OF succeeds_verify_private_file]])
   apply (use assms in \<open>force simp: lock_ok_def file_holds_def\<close>)
  apply (rule succeeds_perform [OF succeeds_lift_err [OF succeeds_sys_metadata]])
   apply (use assms in \<open>force simp: lock_ok_def\<close>)
  apply (rule succeeds_perform [OF succeeds_lift_err [OF succeeds_sys_metadata]])
   apply simp
  apply (rule succeeds_pull)
  apply (use assms in \<open>force simp: lock_ok_def intro: succeeds_ret\<close>)
  done

lemma succeeds_acquire_operation_lock:
  assumes "\<And>t. P t \<Longrightarrow> lock_ok st t"
  shows "succeeds P (acquire_operation_lock (st_vault st) (st_lock_identity st)) (\<lambda>_. P)"
  unfolding acquire_operation_lock_def Let_def
  apply (rule succeeds_perform [OF succeeds_lift_err [OF succeeds_sys_metadata]])
   apply (use assms in \<open>force simp: lock_ok_def\<close>)
  apply (rule succeeds_perform [OF succeeds_lift_err [OF succeeds_verify_private_file]])
   apply (use assms in \<open>force simp: lock_ok_def file_holds_def\<close>)
  apply (rule succeeds_perform [OF succeeds_lift_err [OF succeeds_sys_sync [unfolded sys_sync_def]]])
  apply (rule succeeds_weaken [OF succeeds_validate_locked_file [of P]])
    apply (use assms in auto)
  done

lemma succeeds_with_operation_lock:
  assumes body: "succeeds P body Q" and "\<And>t. P t \<Longrightarrow> lock_ok st t" and "\<And>x t. Q x t \<Longrightarrow> lock_ok st t"
  shows "succeeds P (with_operation_lock lost st body) Q"
  unfolding with_operation_lock_def
  apply (rule succeeds_perform [OF succeeds_acquire_operation_lock], fact assms(2))
  apply (rule succeeds_attempt [OF body])
  apply (rule succeeds_attempt [OF succeeds_validate_locked_file], fact assms(3))
  apply (simp add: succeeds_ret)
  done

lemma lock_ok_kept:
  assumes lay: "store_layout st" and "publish_keeps S st m t u" and "lock_ok st t"
  shows "lock_ok st u"
proof -
  have "\<not> prefix (st_staging st) (st_vault st @ [OPERATION_LOCK_FILE])"
      "\<not> prefix (st_objects st) (st_vault st @ [OPERATION_LOCK_FILE])"
    using lay by (auto simp: store_layout_def STAGING_DIRECTORY_def OBJECTS_DIRECTORY_def OPERATION_LOCK_FILE_def)
  then show ?thesis using assms(2,3) by (simp add: publish_keeps_def lock_ok_def)
qed

lemma publish_succeeds:
  assumes lay: "store_layout st" and ids: "uuid_text_ok S" and json: "manifest_json_ok S"
    and pre: "publish_preconditions S st m payload = Inr bytes" and lock: "lock_ok st (w_tree w)"
    and slot: "slot_ok S st m (w_tree w)" and calm: "calm w" and fresh: "fresh_work_name S st m w"
  obtains r w' where "publish S st m payload w = (Inr r, w')" "calm w'"
    "object_holds S m (w_tree w') (object_path S st m)"
proof -
  let ?acquire = "acquire_operation_lock (st_vault st) (st_lock_identity st)"
  obtain u w1 where 1: "?acquire w = (Inr u, w1)" "calm w1" "w_tree w1 = w_tree w"
    by (rule succeedsD [OF succeeds_acquire_operation_lock [of "\<lambda>t. t = w_tree w" st] calm refl])
      (use lock in auto)
  obtain c where c: "w1 = w\<lparr>w_clock := c\<rparr>"
    using reads_acquire_operation_lock [of "st_vault st" "st_lock_identity st"] 1(1) by (metis reads_def snd_conv)
  have "slot_ok S st m (w_tree w1)" "fresh_work_name S st m w1"
    using slot fresh by (simp_all add: c fresh_work_name_def)
  with lay ids json pre obtain r w2 where 2: "publish_locked S st m payload w1 = (Inr r, w2)" "calm w2"
      "object_holds S m (w_tree w2) (object_path S st m)"
    by (rule publish_locked_succeeds [OF _ _ _ _ _ 1(2)])
  have "publish_keeps S st m (w_tree w1) (w_tree w2)"
    using tripleD [OF publish_locked_keeps [OF lay ids] refl 2(1)] by simp
  then have "lock_ok st (w_tree w2)" using lock_ok_kept [OF lay] lock 1(3) by simp
  then obtain v w3 where 3: "validate_locked_file (st_vault st) (st_lock_identity st) w2 = (Inr v, w3)"
      "calm w3" "w_tree w3 = w_tree w2"
    by (metis (mono_tags, lifting) succeedsD [OF succeeds_validate_locked_file [of "\<lambda>t. t = w_tree w2" st] 2(2) refl])
  have "publish S st m payload w = (Inr r, w3)"
    by (simp add: publish_def with_operation_lock_def perform_def 1(1) attempt_def 2(1) 3(1) ret_def)
  then show thesis using that [of r w3] 2(3) 3 by simp
qed

lemma evidence_of_object:
  assumes ids: "uuid_text_ok S" and json: "manifest_json_ok S" and vec: "manifest_to_vec S m = Some bytes"
    and "check_manifest_bytes S m bytes bytes = Inr ()"
  shows "evidence_of S loc (sm_snapshot_id m) (sm_vault_id m) bytes (sm_revision m) = Inr (Supported loc m)"
proof -
  have m: "manifest_from_slice S bytes = Inr m" "manifest_validate S m = Inr ()"
      "canonical_manifest_bytes S m = Inr bytes"
    using assms(4) by (auto simp: check_manifest_bytes_def split: if_splits)
  note ok = manifest_validate_ids [OF m(2)]
  show ?thesis
    using manifest_from_to(2) [OF ids json vec ok(1,2)] m ok(3) by (simp add: evidence_of_def)
qed

lemma succeeds_inspect_object:
  assumes ids: "uuid_text_ok S" and json: "manifest_json_ok S" and holds: "object_holds S m u d"
    and budget: "\<not> is_some_and budget (\<lambda>b. b < MAX_MANIFEST_BYTES + MAX_PAYLOAD_BYTES)"
  shows "\<exists>n. succeeds (\<lambda>t. t = u) (inspect_object S d loc (sm_snapshot_id m) (sm_vault_id m) budget)
     (\<lambda>r t. t = u \<and> r = (map_option (\<lambda>b. b - n) budget, Inr (Inr (Supported loc m), n)))"
proof -
  obtain bytes payload where u: "manifest_to_vec S m = Some bytes"
      "set (names_in u d) = {MANIFEST_FILE, PAYLOAD_FILE}"
      "file_holds u (d @ [MANIFEST_FILE]) bytes" "length bytes \<le> MAX_MANIFEST_BYTES"
      "check_manifest_bytes S m bytes bytes = Inr ()" "file_holds u (d @ [PAYLOAD_FILE]) payload"
      "length payload \<le> MAX_PAYLOAD_BYTES" "revision_from_bytes S payload = sm_revision m"
    using holds by (auto simp: object_holds_def object_files_hold_def)
  let ?mf = "(d @ [MANIFEST_FILE], length bytes)" and ?pf = "(d @ [PAYLOAD_FILE], length payload)"
  have opened: "succeeds (\<lambda>t. t = u) (perform (verify_exact_object_entries d) (\<lambda>_.
        perform (open_held_private_file d MANIFEST_FILE MAX_MANIFEST_BYTES) (\<lambda>mf.
        perform (open_held_private_file d PAYLOAD_FILE MAX_PAYLOAD_BYTES) (\<lambda>pl. ret (mf, pl)))))
      (\<lambda>r t. t = u \<and> r = (?mf, ?pf))"
    apply (rule succeeds_perform [OF succeeds_verify_exact_object_entries], simp add: u)
    apply (rule succeeds_perform [OF succeeds_open_held_private_file [where bytes = bytes]], simp add: u, simp add: u)
    apply (rule succeeds_perform [OF succeeds_open_held_private_file [where bytes = payload]], simp add: u, simp add: u)
    apply (rule succeeds_ret, simp)
    done
  let ?e = "(Inr (Supported loc m), length bytes + length payload)"
  have read: "succeeds (\<lambda>t. t = u) (perform (read_held_private_file (d @ [MANIFEST_FILE]) (length bytes)) (\<lambda>b.
        perform (read_held_private_file (d @ [PAYLOAD_FILE]) (length payload)) (\<lambda>p.
        ret (evidence_of S loc (sm_snapshot_id m) (sm_vault_id m) b (revision_from_bytes S p),
          length bytes + length payload))))
      (\<lambda>r t. t = u \<and> r = ?e)"
    apply (rule succeeds_perform [OF succeeds_read_held_private_file], simp add: u)
    apply (rule succeeds_perform [OF succeeds_read_held_private_file], simp add: u)
    apply (rule succeeds_ret, simp add: u evidence_of_object [OF ids json u(1,5)])
    done
  have "\<not> is_some_and budget (\<lambda>b. b < length bytes + length payload)"
    using budget u(4,7) by (auto simp: is_some_and_def split: option.splits)
  then show ?thesis
    unfolding inspect_object_def Let_def
    apply (intro exI [of _ "length bytes + length payload"])
    apply (rule succeeds_attempt [OF opened])
    apply (rule succeeds_pull, clarsimp)
    apply (rule succeeds_attempt [OF read])
    apply (rule succeeds_ret, simp)
    done
qed

lemma succeeds_inspect_whole_object:
  assumes "uuid_text_ok S" and "manifest_json_ok S" and "object_holds S m u d"
  shows "succeeds (\<lambda>t. t = u) (inspect_whole_object S d loc (sm_snapshot_id m) (sm_vault_id m))
     (\<lambda>r t. t = u \<and> fst r = Inr (Supported loc m))"
proof -
  obtain n where "succeeds (\<lambda>t. t = u) (inspect_object S d loc (sm_snapshot_id m) (sm_vault_id m) None)
     (\<lambda>r t. t = u \<and> r = (None, Inr (Inr (Supported loc m), n)))"
    using succeeds_inspect_object [OF assms, of None loc] by (auto simp: is_some_and_def)
  then show ?thesis
    unfolding inspect_whole_object_def
    by (rule succeeds_perform) (rule succeeds_pull, auto intro: succeeds_of_result)
qed

lemma inspect_succeeds:
  assumes ids: "uuid_text_ok S" and json: "manifest_json_ok S" and calm: "calm w"
    and holds: "object_holds S m (w_tree w) (object_path S st m)"
    and gone: "\<not> occupied (w_tree w) (staged_path S st m)"
    and id: "\<not> is_nil (sm_snapshot_id m)" and vault: "sm_vault_id m = st_vault_id st"
  shows "fst (inspect S st (sm_snapshot_id m) w) = Inr (Supported Objects m)"
proof -
  let ?u = "w_tree w"
  note paths = object_path_def [symmetric] staged_path_def [symmetric]
  have none: "node_at ?u (staged_path S st m) = None"
    using gone by (auto simp: occupied_iff dest: spec [of _ "[]"])
  have "succeeds (\<lambda>t. t = ?u) (inspect S st (sm_snapshot_id m)) (\<lambda>r _. r = Supported Objects m)"
    unfolding inspect_def Let_def
    apply (simp add: id)
    apply (rule succeeds_perform [OF succeeds_open_optional_some [OF _ plain_uuid_string [OF ids]]],
        use holds in \<open>simp add: paths object_holds_def\<close>)
    apply (rule succeeds_perform [OF succeeds_open_optional_none], use none in \<open>simp add: paths\<close>)
    apply (rule succeeds_pull, clarsimp simp: paths vault [symmetric])
    apply (rule succeeds_perform [OF succeeds_inspect_whole_object [OF ids json holds]])
    apply (rule succeeds_pull)
    apply (auto intro: succeeds_of_result)
    done
  from succeedsD [OF this calm refl] show ?thesis by force
qed

text \<open>Attempts under any fault oracles, one after the other on the same tree.\<close>

fun after_attempts ::
    "snap_libs \<Rightarrow> snapshot_store \<Rightarrow> snapshot_manifest \<Rightarrow> string \<Rightarrow> tree \<Rightarrow> world list \<Rightarrow> tree" where
  "after_attempts S st m payload t [] = t"
| "after_attempts S st m payload t (w # ws) =
     after_attempts S st m payload (w_tree (snd (publish S st m payload (w\<lparr>w_tree := t\<rparr>)))) ws"

lemma after_attempts_keeps:
  assumes "store_layout st" and "uuid_text_ok S"
  shows "publish_keeps S st m t (after_attempts S st m payload t ws)"
proof (induction ws arbitrary: t)
  case Nil
  show ?case by (simp add: publish_keeps_refl)
next
  case (Cons w ws)
  show ?case
    using publish_keeps_evidence [OF assms, of m "w\<lparr>w_tree := t\<rparr>" payload] Cons.IH
    by (auto intro: publish_keeps_trans)
qed

end
