(* ===== verification/Snapshot_Retention.thy ===== *)
theory Snapshot_Retention
  imports Snapshot_Store "HOL-Library.Product_Lexorder"
begin

text \<open>
  Retention of snapshots, \<open>crates/myvault-snapshots/src/retention.rs\<close>: the pure selection
  \<open>RetentionPolicy::plan_manifests\<close> and the bounded scan \<open>plan_retention\<close> that feeds it.
\<close>

definition MAX_RETENTION_CANDIDATES :: nat where "MAX_RETENTION_CANDIDATES = 256"
definition MAX_SNAPSHOT_SCAN_ENTRIES :: nat where "MAX_SNAPSHOT_SCAN_ENTRIES = 8192"
definition MAX_VERIFICATION_BYTES :: nat where "MAX_VERIFICATION_BYTES = 256 * 1024 * 1024"

definition retention_policy_default :: retention_policy where
  "retention_policy_default = \<lparr>max_age_ms = 30 * 24 * 60 * 60 * 1000, max_per_lineage = 100,
     max_logical_bytes = 1024 * 1024 * 1024\<rparr>"

section \<open>Checked arithmetic\<close>

definition checked_add :: "u64 \<Rightarrow> u64 \<Rightarrow> u64 option" where
  "checked_add a b = (if unat a + unat b < 2 ^ 64 then Some (a + b) else None)"

definition checked_sub :: "u64 \<Rightarrow> u64 \<Rightarrow> u64 option" where
  "checked_sub a b = (if b \<le> a then Some (a - b) else None)"

fun checked_sum_from :: "u64 \<Rightarrow> u64 list \<Rightarrow> snapshot_error + u64" where
  "checked_sum_from acc [] = Inr acc"
| "checked_sum_from acc (b # bs) =
     and_then (ok_or (checked_add acc b) ArithmeticOverflow) (\<lambda>t. checked_sum_from t bs)"

definition checked_sum :: "u64 list \<Rightarrow> snapshot_error + u64" where
  "checked_sum values = checked_sum_from 0 values"

section \<open>The selection\<close>

definition manifest_logical_bytes :: "snap_libs \<Rightarrow> snapshot_manifest \<Rightarrow> snapshot_error + u64" where
  "manifest_logical_bytes S m =
     and_then (canonical_manifest_bytes S m) (\<lambda>bytes.
     and_then (if length bytes < 2 ^ 64 then Inr (of_nat (length bytes)) else Inl ArithmeticOverflow)
       (\<lambda>manifest_bytes. ok_or (checked_add manifest_bytes (byte_len (sm_revision m))) ArithmeticOverflow))"

fun check_manifests ::
    "snap_libs \<Rightarrow> uuid option \<Rightarrow> uuid list \<Rightarrow> snapshot_manifest list \<Rightarrow> snapshot_error + unit" where
  "check_manifests S vault seen [] = Inr ()"
| "check_manifests S vault seen (m # ms) =
     and_then (manifest_validate S m) (\<lambda>_.
     if sm_snapshot_id m \<in> set seen \<or> is_some_and vault (\<lambda>v. sm_vault_id m \<noteq> v)
     then Inl SnapshotCollision
     else check_manifests S vault (sm_snapshot_id m # seen) ms)"

definition age_key :: "snapshot_manifest \<Rightarrow> u64 \<times> uuid" where
  "age_key m = (sm_created_at_unix_ms m, sm_snapshot_id m)"

text \<open>
  The map from identifiers to sets of reasons is the list of its insertions; the set of one
  identifier is read back in the order of the reasons.
\<close>

type_synonym marks = "(uuid \<times> retention_reason) list"

definition reasons_of :: "marks \<Rightarrow> uuid \<Rightarrow> retention_reason list" where
  "reasons_of marks u = filter (\<lambda>r. (u, r) \<in> set marks) [Age, LineageCount, TotalSize]"

definition too_old :: "retention_policy \<Rightarrow> u64 \<Rightarrow> snapshot_manifest \<Rightarrow> bool" where
  "too_old policy now m =
     is_some_and (checked_sub now (max_age_ms policy)) (\<lambda>cutoff. sm_created_at_unix_ms m \<le> cutoff)"

definition age_marks :: "retention_policy \<Rightarrow> u64 \<Rightarrow> snapshot_manifest list \<Rightarrow> marks" where
  "age_marks policy now ordered =
     map (\<lambda>m. (sm_snapshot_id m, Age)) (filter (too_old policy now) ordered)"

definition lineage_key :: "libs \<Rightarrow> snapshot_manifest \<Rightarrow> snapshot_error + string" where
  "lineage_key L m =
     and_then (map_err (\<lambda>_. InvalidNotePath) (from_portable (sm_path m))) (\<lambda>p. Inr (collision_key L p))"

fun push_lineage ::
    "string \<Rightarrow> snapshot_manifest \<Rightarrow> (string \<times> snapshot_manifest list) list
      \<Rightarrow> (string \<times> snapshot_manifest list) list" where
  "push_lineage key m [] = [(key, [m])]"
| "push_lineage key m ((k, ms) # rest) =
     (if k = key then (k, ms @ [m]) # rest else (k, ms) # push_lineage key m rest)"

fun group_lineages ::
    "libs \<Rightarrow> (string \<times> snapshot_manifest list) list \<Rightarrow> snapshot_manifest list
      \<Rightarrow> snapshot_error + (string \<times> snapshot_manifest list) list" where
  "group_lineages L lineages [] = Inr lineages"
| "group_lineages L lineages (m # ms) =
     and_then (lineage_key L m) (\<lambda>key. group_lineages L (push_lineage key m lineages) ms)"

definition lineage_marks :: "retention_policy \<Rightarrow> snapshot_manifest list \<Rightarrow> marks" where
  "lineage_marks policy lineage =
     (let ordered = sort_key age_key lineage; excess = length ordered - max_per_lineage policy in
      map (\<lambda>m. (sm_snapshot_id m, LineageCount)) (take excess ordered))"

fun logical_sizes_of :: "snap_libs \<Rightarrow> snapshot_manifest list \<Rightarrow> snapshot_error + (uuid \<times> u64) list" where
  "logical_sizes_of S [] = Inr []"
| "logical_sizes_of S (m # ms) =
     and_then (manifest_logical_bytes S m) (\<lambda>size.
     and_then (logical_sizes_of S ms) (\<lambda>rest. Inr ((sm_snapshot_id m, size) # rest)))"

definition size_of :: "(uuid \<times> u64) list \<Rightarrow> uuid \<Rightarrow> u64" where
  "size_of sizes u = the (map_of sizes u)"

fun size_marks ::
    "retention_policy \<Rightarrow> (uuid \<times> u64) list \<Rightarrow> u64 \<Rightarrow> snapshot_manifest list \<Rightarrow> snapshot_error + marks" where
  "size_marks policy sizes remaining [] = Inr []"
| "size_marks policy sizes remaining (m # ms) =
     (if remaining \<le> max_logical_bytes policy then Inr []
      else and_then (ok_or (checked_sub remaining (size_of sizes (sm_snapshot_id m))) ArithmeticOverflow)
        (\<lambda>left. and_then (size_marks policy sizes left ms) (\<lambda>rest.
          Inr ((sm_snapshot_id m, TotalSize) # rest))))"

definition candidate_of :: "(uuid \<times> u64) list \<Rightarrow> marks \<Rightarrow> snapshot_manifest \<Rightarrow> retention_candidate" where
  "candidate_of sizes marks m =
     \<lparr>rc_snapshot_id = sm_snapshot_id m, rc_path = sm_path m,
      rc_created_at_unix_ms = sm_created_at_unix_ms m,
      rc_logical_bytes = size_of sizes (sm_snapshot_id m),
      rc_reasons = reasons_of marks (sm_snapshot_id m)\<rparr>"

definition plan_manifests ::
    "snap_libs \<Rightarrow> retention_policy \<Rightarrow> u64 \<Rightarrow> snapshot_manifest list
      \<Rightarrow> snapshot_error + retention_candidate list" where
  "plan_manifests S policy now manifests =
     and_then (check_manifests S (map_option sm_vault_id (if manifests = [] then None else Some (hd manifests)))
       [] manifests) (\<lambda>_.
     let ordered = sort_key age_key manifests in
     and_then (group_lineages (sl_libs S) [] manifests) (\<lambda>lineages.
     and_then (logical_sizes_of S manifests) (\<lambda>sizes.
     and_then (checked_sum (map snd (sort_key fst sizes))) (\<lambda>total.
     and_then (size_marks policy sizes total ordered) (\<lambda>by_size.
     let marks = age_marks policy now ordered
           @ concat (map (\<lambda>(_, lineage). lineage_marks policy lineage) lineages) @ by_size in
     Inr (map (candidate_of sizes marks)
       (filter (\<lambda>m. reasons_of marks (sm_snapshot_id m) \<noteq> []) ordered)))))))"

section \<open>The scan\<close>

record retention_plan =
  rp_candidates :: "retention_candidate list"
  rp_scanned_entries :: nat
  rp_supported_objects :: nat
  rp_opaque_evidence :: nat
  rp_staging_evidence :: nat
  rp_supported_logical_bytes :: u64
  rp_verified_bytes :: nat
  rp_verification_budget_exhausted :: bool
  rp_candidate_cap_reached :: bool
  rp_capacity_proven :: bool

definition canonical_snapshot_id :: "snap_libs \<Rightarrow> string \<Rightarrow> uuid option" where
  "canonical_snapshot_id S name = (case uuid_parse_str S name of
       None \<Rightarrow> None
     | Some u \<Rightarrow> if \<not> is_nil u \<and> uuid_string S u = name then Some u else None)"

fun location_order :: "evidence_location \<Rightarrow> nat" where
  "location_order Objects = 0"
| "location_order Staging = 1"

text \<open>A name that is not UTF-8 is kept as a placeholder.\<close>

fun add_entries ::
    "evidence_location \<Rightarrow> string list \<Rightarrow> (evidence_location \<times> string) list
      \<Rightarrow> snapshot_error + (evidence_location \<times> string) list" where
  "add_entries location [] entries = Inr entries"
| "add_entries location (name # names) entries =
     (if length entries = MAX_SNAPSHOT_SCAN_ENTRIES then Inl TooManySnapshotEntries
      else add_entries location names (entries @
        [(location, if valid_utf8 name then name
           else ''<non-utf8-'' @ nat_to_string (length entries) @ ''>'')]))"

definition collect_entries ::
    "fs_path \<Rightarrow> evidence_location \<Rightarrow> (evidence_location \<times> string) list
      \<Rightarrow> (evidence_location \<times> string) list snap" where
  "collect_entries directory location entries =
     perform (io (sys_entries directory)) (\<lambda>names. of_result (add_entries location names entries))"

definition physical_key :: "evidence_location \<times> string \<Rightarrow> nat list" where
  "physical_key e = location_order (fst e) # map byte (snd e)"

fun lex_le :: "nat list \<Rightarrow> nat list \<Rightarrow> bool" where
  "lex_le [] ys = True"
| "lex_le (x # xs) [] = False"
| "lex_le (x # xs) (y # ys) = (x < y \<or> x = y \<and> lex_le xs ys)"

fun insert_physical ::
    "evidence_location \<times> string \<Rightarrow> (evidence_location \<times> string) list \<Rightarrow> (evidence_location \<times> string) list" where
  "insert_physical e [] = [e]"
| "insert_physical e (d # ds) =
     (if lex_le (physical_key e) (physical_key d) then e # d # ds else d # insert_physical e ds)"

definition sort_physical :: "(evidence_location \<times> string) list \<Rightarrow> (evidence_location \<times> string) list" where
  "sort_physical es = foldr insert_physical es []"

text \<open>The identifiers found, each with its locations, and the number of opaque entries.\<close>

fun push_location ::
    "uuid \<Rightarrow> evidence_location \<Rightarrow> (uuid \<times> evidence_location list) list
      \<Rightarrow> (uuid \<times> evidence_location list) list" where
  "push_location u location [] = [(u, [location])]"
| "push_location u location ((i, ls) # rest) =
     (if i = u then (i, ls @ [location]) # rest else (i, ls) # push_location u location rest)"

fun classify_entries ::
    "snap_libs \<Rightarrow> (evidence_location \<times> string) list \<Rightarrow> (uuid \<times> evidence_location list) list \<Rightarrow> nat
      \<Rightarrow> (uuid \<times> evidence_location list) list \<times> nat" where
  "classify_entries S [] by_id opaque = (by_id, opaque)"
| "classify_entries S ((location, name) # rest) by_id opaque =
     (if location = Staging \<and> starts_with name ''.work-'' then classify_entries S rest by_id (Suc opaque)
      else case canonical_snapshot_id S name of
          Some u \<Rightarrow> classify_entries S rest (push_location u location by_id) opaque
        | None \<Rightarrow> classify_entries S rest by_id (Suc opaque))"

record scan_state =
  sc_manifests :: "snapshot_manifest list"
  sc_opaque :: nat
  sc_staging :: nat
  sc_verified :: nat
  sc_exhausted :: bool

definition note_inspection ::
    "evidence_location \<Rightarrow> snapshot_error + inspection \<Rightarrow> scan_state \<Rightarrow> scan_state" where
  "note_inspection location inspection s = (case inspection of
       Inr (Inr (Supported _ manifest), _) \<Rightarrow>
         if location = Objects then s\<lparr>sc_manifests := sc_manifests s @ [manifest]\<rparr>
         else s\<lparr>sc_staging := Suc (sc_staging s)\<rparr>
     | Inr (Inr (EvidenceUnsupported _ _ _ _ _), _) \<Rightarrow> s\<lparr>sc_opaque := Suc (sc_opaque s)\<rparr>
     | Inr (Inl _, _) \<Rightarrow> s\<lparr>sc_opaque := Suc (sc_opaque s)\<rparr>
     | Inl VerificationBudgetExceeded \<Rightarrow> s\<lparr>sc_exhausted := True, sc_opaque := Suc (sc_opaque s)\<rparr>
     | Inl _ \<Rightarrow> s\<lparr>sc_opaque := Suc (sc_opaque s)\<rparr>)"

definition inspect_entry ::
    "snap_libs \<Rightarrow> snapshot_store \<Rightarrow> uuid \<times> evidence_location list \<Rightarrow> scan_state \<Rightarrow> scan_state snap" where
  "inspect_entry S st entry s = (case entry of
       (snapshot_id, [location]) \<Rightarrow>
         attempt (open_optional_private_dir (if location = Objects then st_objects st else st_staging st)
           (uuid_string S snapshot_id)) (\<lambda>opened. case opened of
             Inr (Some directory) \<Rightarrow>
               perform (inspect_object S directory location snapshot_id (st_vault_id st)
                 (Some (MAX_VERIFICATION_BYTES - sc_verified s))) (\<lambda>(budget, inspection).
               ret (note_inspection location inspection
                 (s\<lparr>sc_verified := MAX_VERIFICATION_BYTES - the budget\<rparr>)))
           | _ \<Rightarrow> ret (s\<lparr>sc_opaque := Suc (sc_opaque s)\<rparr>))
     | (_, locations) \<Rightarrow> ret (s\<lparr>sc_opaque := sc_opaque s + length locations\<rparr>))"

fun inspect_entries ::
    "snap_libs \<Rightarrow> snapshot_store \<Rightarrow> (uuid \<times> evidence_location list) list \<Rightarrow> scan_state \<Rightarrow> scan_state snap" where
  "inspect_entries S st [] s = ret s"
| "inspect_entries S st (e # es) s =
     perform (inspect_entry S st e s) (\<lambda>s'. inspect_entries S st es s')"

definition finish_plan ::
    "snap_libs \<Rightarrow> retention_policy \<Rightarrow> u64 \<Rightarrow> nat \<Rightarrow> scan_state \<Rightarrow> snapshot_error + retention_plan" where
  "finish_plan S policy now scanned s =
     and_then (logical_sizes_of S (sc_manifests s)) (\<lambda>sizes.
     and_then (checked_sum (map snd sizes)) (\<lambda>supported_logical_bytes.
     and_then (plan_manifests S policy now (sc_manifests s)) (\<lambda>all_candidates.
     let cap = length all_candidates > MAX_RETENTION_CANDIDATES in
     Inr \<lparr>rp_candidates = take MAX_RETENTION_CANDIDATES all_candidates, rp_scanned_entries = scanned,
       rp_supported_objects = length (sc_manifests s), rp_opaque_evidence = sc_opaque s,
       rp_staging_evidence = sc_staging s, rp_supported_logical_bytes = supported_logical_bytes,
       rp_verified_bytes = sc_verified s, rp_verification_budget_exhausted = sc_exhausted s,
       rp_candidate_cap_reached = cap,
       rp_capacity_proven = (sc_opaque s = 0 \<and> sc_staging s = 0 \<and> \<not> sc_exhausted s \<and> \<not> cap)\<rparr>)))"

definition plan_retention_locked ::
    "snap_libs \<Rightarrow> snapshot_store \<Rightarrow> u64 \<Rightarrow> retention_policy \<Rightarrow> retention_plan snap" where
  "plan_retention_locked S st now policy =
     perform (collect_entries (st_objects st) Objects []) (\<lambda>found.
     perform (collect_entries (st_staging st) Staging found) (\<lambda>physical.
     case classify_entries S (sort_physical physical) [] 0 of (by_id, opaque) \<Rightarrow>
       perform (inspect_entries S st (sort_key fst by_id)
         \<lparr>sc_manifests = [], sc_opaque = opaque, sc_staging = 0, sc_verified = 0, sc_exhausted = False\<rparr>) (\<lambda>s.
       of_result (finish_plan S policy now (length physical) s))))"

definition plan_retention ::
    "snap_libs \<Rightarrow> snapshot_store \<Rightarrow> u64 \<Rightarrow> retention_policy \<Rightarrow> retention_plan snap" where
  "plan_retention S st now policy =
     with_operation_lock (\<lambda>_. OperationLockLost) st (plan_retention_locked S st now policy)"

end
