(* ===== verification/Retention_Properties.thy ===== *)
theory Retention_Properties
  imports Snapshot_Retention Snapshot_Publish "HOL-Library.Multiset"
begin

text \<open>
  The selection of snapshots to retire, compared with a declarative reference and with the
  policy it implements.
\<close>

section \<open>Reference\<close>

definition logical_size :: "snap_libs \<Rightarrow> snapshot_manifest \<Rightarrow> nat" where
  "logical_size S m = length (the (manifest_to_vec S m)) + unat (byte_len (sm_revision m))"

definition lineage_of :: "snap_libs \<Rightarrow> snapshot_manifest \<Rightarrow> string" where
  "lineage_of S m = (case lineage_key (sl_libs S) m of Inr k \<Rightarrow> k | Inl _ \<Rightarrow> [])"

text \<open>A snapshot retires when it is too old, when enough newer snapshots of its lineage exist, or
  when it and everything newer exceed the size limit.\<close>

definition retire_reason ::
    "snap_libs \<Rightarrow> retention_policy \<Rightarrow> u64 \<Rightarrow> snapshot_manifest list \<Rightarrow> snapshot_manifest
      \<Rightarrow> retention_reason \<Rightarrow> bool" where
  "retire_reason S policy now ms m r = (case r of
       Age \<Rightarrow> too_old policy now m
     | LineageCount \<Rightarrow> max_per_lineage policy
         \<le> length (filter (\<lambda>x. lineage_of S x = lineage_of S m \<and> age_key m < age_key x) ms)
     | TotalSize \<Rightarrow> unat (max_logical_bytes policy)
         < sum_list (map (logical_size S) (filter (\<lambda>x. age_key m \<le> age_key x) ms)))"

definition retention_spec ::
    "snap_libs \<Rightarrow> retention_policy \<Rightarrow> u64 \<Rightarrow> snapshot_manifest list \<Rightarrow> retention_candidate list" where
  "retention_spec S policy now ms =
     (let reasons = (\<lambda>m. filter (retire_reason S policy now ms m) [Age, LineageCount, TotalSize]) in
      map (\<lambda>m. \<lparr>rc_snapshot_id = sm_snapshot_id m, rc_path = sm_path m,
          rc_created_at_unix_ms = sm_created_at_unix_ms m,
          rc_logical_bytes = of_nat (logical_size S m), rc_reasons = reasons m\<rparr>)
        (filter (\<lambda>m. reasons m \<noteq> []) (sort_key age_key ms)))"

definition manifests_ok :: "snap_libs \<Rightarrow> snapshot_manifest list \<Rightarrow> bool" where
  "manifests_ok S ms =
     ((\<forall>m \<in> set ms. manifest_validate S m = Inr () \<and> is_ok (canonical_manifest_bytes S m))
    \<and> distinct (map sm_snapshot_id ms) \<and> (\<forall>m \<in> set ms. sm_vault_id m = sm_vault_id (hd ms)))"

section \<open>Checks and sizes\<close>

lemma check_manifests_Inr:
  "check_manifests S vault seen ms = Inr u \<longleftrightarrow>
     (\<forall>m \<in> set ms. manifest_validate S m = Inr () \<and> is_none_or vault (\<lambda>v. sm_vault_id m = v))
     \<and> distinct (map sm_snapshot_id ms) \<and> set seen \<inter> sm_snapshot_id ` set ms = {}"
  by (induction ms arbitrary: seen) (auto simp: is_some_and_def is_none_or_def split: option.splits)

lemma manifest_logical_bytes_eq:
  assumes v: "manifest_validate S m = Inr ()" and "is_ok (canonical_manifest_bytes S m)"
  shows "manifest_logical_bytes S m = Inr (of_nat (logical_size S m))" "logical_size S m < 2 ^ 64"
proof -
  obtain bytes where b: "manifest_to_vec S m = Some bytes" "length bytes \<le> MAX_MANIFEST_BYTES"
    using assms(2) by (auto simp: is_ok_iff canonical_manifest_bytes_Inr)
  have r: "unat (byte_len (sm_revision m)) \<le> MAX_PAYLOAD_BYTES"
    using v by (auto simp: manifest_validate_def revision_validate_def word_le_nat_alt word_less_nat_alt
        MAX_PAYLOAD_BYTES_def split: if_splits)
  have fit: "length bytes + unat (byte_len (sm_revision m)) < 2 ^ 64"
    using b(2) r by (simp add: MAX_MANIFEST_BYTES_def MAX_PAYLOAD_BYTES_def)
  then show "logical_size S m < 2 ^ 64" by (simp add: logical_size_def b)
  have "unat (of_nat (length bytes) :: u64) = length bytes"
    using fit by (simp add: unsigned_of_nat take_bit_nat_eq_self)
  then show "manifest_logical_bytes S m = Inr (of_nat (logical_size S m))"
    using b fit canonical_manifest_bytes_Inr [of S m bytes]
    by (simp add: manifest_logical_bytes_def checked_add_def logical_size_def)
qed

lemma logical_sizes_of_eq:
  assumes "\<forall>m \<in> set ms. manifest_validate S m = Inr () \<and> is_ok (canonical_manifest_bytes S m)"
  shows "logical_sizes_of S ms = Inr (map (\<lambda>m. (sm_snapshot_id m, of_nat (logical_size S m))) ms)"
  using assms by (induction ms) (auto simp: manifest_logical_bytes_eq)

lemma manifest_logical_bytes_ok:
  "manifest_logical_bytes S m = Inr n \<Longrightarrow> is_ok (canonical_manifest_bytes S m)"
  by (auto simp: manifest_logical_bytes_def is_ok_iff)

lemma logical_sizes_of_ok:
  "logical_sizes_of S ms = Inr sizes \<Longrightarrow> \<forall>m \<in> set ms. is_ok (canonical_manifest_bytes S m)"
  by (induction ms arbitrary: sizes) (auto dest: manifest_logical_bytes_ok)

lemma checked_sum_from_eq:
  "checked_sum_from a bs =
     (if unat a + sum_list (map unat bs) < 2 ^ 64 then Inr (a + sum_list bs) else Inl ArithmeticOverflow)"
proof (induction bs arbitrary: a)
  case Nil
  show ?case using unsigned_less [of a, where ?'a = nat] by simp
next
  case (Cons b bs)
  show ?case
  proof (cases "unat a + unat b < 2 ^ 64")
    case True
    then have "unat (a + b) = unat a + unat b" using unat_add_lem [of a b] by simp
    then show ?thesis using True Cons.IH [of "a + b"] by (simp add: checked_add_def add.assoc)
  next
    case False
    then show ?thesis by (simp add: checked_add_def)
  qed
qed

lemma checked_sum_eq:
  "checked_sum bs = (if sum_list (map unat bs) < 2 ^ 64 then Inr (sum_list bs) else Inl ArithmeticOverflow)"
  by (simp add: checked_sum_def checked_sum_from_eq)

lemma unat_sum_list: "sum_list (map unat (bs :: u64 list)) < 2 ^ 64 \<Longrightarrow> unat (sum_list bs) = sum_list (map unat bs)"
proof (induction bs)
  case (Cons b bs)
  then show ?case using unat_add_lem [of b "sum_list bs"] by simp
qed simp

lemma sum_list_sort_key: "sum_list (map (f :: _ \<Rightarrow> _ :: comm_monoid_add) (sort_key g xs)) = sum_list (map f xs)"
  by (simp flip: sum_mset_sum_list)

lemma length_filter_sort_key: "length (filter P (sort_key g xs)) = length (filter P xs)"
  by (simp flip: size_mset)

section \<open>Lineages\<close>

lemma set_push_lineage:
  "distinct (map fst ls) \<Longrightarrow> distinct (map fst (push_lineage k m ls))
    \<and> fst ` set (push_lineage k m ls) = insert k (fst ` set ls)
    \<and> (\<forall>key. map_of (push_lineage k m ls) key = (if key = k
         then Some (case map_of ls k of None \<Rightarrow> [m] | Some xs \<Rightarrow> xs @ [m]) else map_of ls key))"
  by (induction k m ls rule: push_lineage.induct) (auto simp: image_iff)

lemma group_lineages_spec:
  assumes "group_lineages L ls ms = Inr out" and "distinct (map fst ls)"
  shows "distinct (map fst out) \<and> (\<forall>m \<in> set ms. is_ok (lineage_key L m))
    \<and> (\<forall>key. map_of out key = (let new = filter (\<lambda>m. lineage_key L m = Inr key) ms in
         case map_of ls key of None \<Rightarrow> if new = [] then None else Some new | Some xs \<Rightarrow> Some (xs @ new)))"
  using assms
proof (induction ms arbitrary: ls)
  case Nil
  then show ?case by (auto split: option.splits)
next
  case (Cons m ms)
  then obtain k where k: "lineage_key L m = Inr k" and rest: "group_lineages L (push_lineage k m ls) ms = Inr out"
    by auto
  note push = set_push_lineage [OF Cons.prems(2), of k m]
  have d: "distinct (map fst (push_lineage k m ls))" using push by blast
  have at: "map_of (push_lineage k m ls) key = (if key = k
      then Some (case map_of ls k of None \<Rightarrow> [m] | Some xs \<Rightarrow> xs @ [m]) else map_of ls key)" for key
    using push by blast
  have out: "map_of out key = (let new = filter (\<lambda>m. lineage_key L m = Inr key) ms in
      case map_of (push_lineage k m ls) key of None \<Rightarrow> if new = [] then None else Some new
        | Some xs \<Rightarrow> Some (xs @ new))" for key
    using Cons.IH [OF rest d] by blast
  have "map_of out key = (let new = filter (\<lambda>m. lineage_key L m = Inr key) (m # ms) in
      case map_of ls key of None \<Rightarrow> if new = [] then None else Some new | Some xs \<Rightarrow> Some (xs @ new))" for key
    by (cases "key = k"; cases "map_of ls key") (simp_all add: out at k Let_def)
  then show ?case using Cons.IH [OF rest d] k by simp
qed

lemma group_lineages_set:
  assumes "group_lineages L [] ms = Inr out"
  shows "(key, l) \<in> set out \<longleftrightarrow> l \<noteq> [] \<and> l = filter (\<lambda>m. lineage_key L m = Inr key) ms"
proof -
  have d: "distinct (map fst out)" and at: "map_of out key
      = (let new = filter (\<lambda>m. lineage_key L m = Inr key) ms in if new = [] then None else Some new)"
    using group_lineages_spec [OF assms] by simp_all
  have "(key, l) \<in> set out \<longleftrightarrow> map_of out key = Some l" using d by simp
  then show ?thesis unfolding at by (auto simp: Let_def)
qed

lemma group_lineages_ok:
  "\<forall>m \<in> set ms. is_ok (lineage_key L m) \<Longrightarrow> is_ok (group_lineages L ls ms)"
  by (induction ms arbitrary: ls) (auto simp: is_ok_iff)

lemma validate_lineage: "manifest_validate S m = Inr () \<Longrightarrow> lineage_key (sl_libs S) m = Inr (lineage_of S m)"
  by (auto simp: manifest_validate_def lineage_key_def lineage_of_def split: if_splits)

section \<open>Marks\<close>

lemma age_key_inject: "age_key m = age_key n \<Longrightarrow> sm_snapshot_id m = sm_snapshot_id n"
  by (simp add: age_key_def)

lemma distinct_age_key: "distinct (map sm_snapshot_id ms) \<Longrightarrow> distinct (map age_key ms)"
  by (auto simp: distinct_map inj_on_def dest: age_key_inject)

lemma filter_later:
  assumes "sorted (map key xs)" and "distinct (map key xs)" and "i < length xs"
  shows "filter (\<lambda>x. key (xs ! i) < key x) xs = drop (Suc i) xs"
    and "filter (\<lambda>x. key (xs ! i) \<le> key x) xs = drop i xs"
proof -
  have strict: "sorted_wrt (<) (map key xs)" using assms(1,2) by (simp add: strict_sorted_iff)
  have lt: "key (xs ! a) < key (xs ! b)" if "a < b" "b < length xs" for a b
    using sorted_wrt_nth_less [OF strict, of a b] that by simp
  have early: "\<not> key (xs ! i) \<le> key x" if "x \<in> set (take i xs)" for x
    using that lt assms(3) by (auto simp: in_set_conv_nth not_le)
  have late: "key (xs ! i) < key x" if "x \<in> set (drop (Suc i) xs)" for x
    using that lt by (auto simp: in_set_conv_nth)
  have xs: "xs = take i xs @ xs ! i # drop (Suc i) xs" using assms(3) by (rule id_take_nth_drop)
  have "filter P xs = filter P (take i xs) @ filter P (xs ! i # drop (Suc i) xs)" for P
    using xs by (metis filter_append)
  moreover have "drop i xs = xs ! i # drop (Suc i) xs" using assms(3) by (simp add: Cons_nth_drop_Suc)
  moreover have "filter (\<lambda>x. key (xs ! i) \<le> key x) (take i xs) = []" "filter (\<lambda>x. key (xs ! i) < key x) (take i xs) = []"
    using early by (auto simp: filter_empty_conv dest: less_imp_le)
  moreover have "filter (\<lambda>x. key (xs ! i) < key x) (drop (Suc i) xs) = drop (Suc i) xs"
      "filter (\<lambda>x. key (xs ! i) \<le> key x) (drop (Suc i) xs) = drop (Suc i) xs"
    using late by (auto simp: filter_id_conv dest: less_imp_le)
  ultimately show "filter (\<lambda>x. key (xs ! i) < key x) xs = drop (Suc i) xs"
    and "filter (\<lambda>x. key (xs ! i) \<le> key x) xs = drop i xs"
    by simp_all
qed

lemma take_excess:
  assumes d: "distinct (map key xs)" and x: "x \<in> set xs"
  shows "x \<in> set (take (length xs - k) (sort_key key xs)) \<longleftrightarrow> k \<le> length (filter (\<lambda>y. key x < key y) xs)"
proof -
  let ?ys = "sort_key key xs"
  have s: "sorted (map key ?ys)" by simp
  have "distinct (map key ?ys)" using d by (metis distinct_map distinct_sort set_sort)
  note later = filter_later [OF s this]
  obtain i where i: "i < length ?ys" "x = ?ys ! i" using x by (metis in_set_conv_nth set_sort)
  have n: "length (filter (\<lambda>y. key x < key y) xs) = length xs - Suc i"
    using later(1) [OF i(1)] i(2) length_filter_sort_key [of "\<lambda>y. key x < key y" key xs] by simp
  have "distinct ?ys" using \<open>distinct (map key ?ys)\<close> by (simp add: distinct_map)
  then have "x \<in> set (take c ?ys) \<longleftrightarrow> i < c" for c
    using i by (auto simp: in_set_conv_nth nth_eq_iff_index_eq)
  then show ?thesis using i(1) n by simp linarith
qed

text \<open>The loop over the remaining bytes marks the prefix whose suffix sums exceed the limit.\<close>

lemma size_marks_eq:
  assumes "\<And>m. m \<in> set ms \<Longrightarrow> unat (size_of sizes (sm_snapshot_id m)) = f m"
    and "unat remaining = sum_list (map f ms)"
  shows "\<exists>n \<le> length ms. size_marks policy sizes remaining ms
       = Inr (map (\<lambda>m. (sm_snapshot_id m, TotalSize)) (take n ms))
     \<and> (\<forall>i < length ms. i < n \<longleftrightarrow> unat (max_logical_bytes policy) < sum_list (map f (drop i ms)))
     \<and> sum_list (map f (drop n ms)) \<le> unat (max_logical_bytes policy)"
  using assms
proof (induction ms arbitrary: remaining)
  case Nil
  then show ?case by simp
next
  case (Cons m ms)
  let ?max = "unat (max_logical_bytes policy)"
  show ?case
  proof (cases "remaining \<le> max_logical_bytes policy")
    case True
    then have le: "sum_list (map f (m # ms)) \<le> ?max" using Cons.prems(2) by (simp add: word_le_nat_alt)
    have "sum_list (map f (drop i (m # ms))) \<le> sum_list (map f (m # ms))" for i
      by (metis append_take_drop_id le_add2 map_append sum_list_append)
    then have "\<forall>i < length (m # ms). i < 0 \<longleftrightarrow> ?max < sum_list (map f (drop i (m # ms)))"
      using le by (meson le_trans not_less not_less0)
    then show ?thesis using True le by (intro exI [of _ 0]) simp
  next
    case False
    let ?s = "size_of sizes (sm_snapshot_id m)"
    have s: "unat ?s = f m" using Cons.prems(1) by simp
    have sub: "?s \<le> remaining" using Cons.prems(2) s by (simp add: word_le_nat_alt)
    have left: "unat (remaining - ?s) = sum_list (map f ms)"
      using Cons.prems(2) s unat_sub [OF sub] by simp
    obtain n where n: "n \<le> length ms" "size_marks policy sizes (remaining - ?s) ms
          = Inr (map (\<lambda>m. (sm_snapshot_id m, TotalSize)) (take n ms))"
        "\<And>i. i < length ms \<Longrightarrow> i < n \<longleftrightarrow> ?max < sum_list (map f (drop i ms))"
        "sum_list (map f (drop n ms)) \<le> ?max"
      using Cons.IH [OF _ left] Cons.prems(1) by auto
    have big: "?max < sum_list (map f (m # ms))" using False Cons.prems(2) by (simp add: word_le_nat_alt)
    have "\<forall>i < length (m # ms). i < Suc n \<longleftrightarrow> ?max < sum_list (map f (drop i (m # ms)))"
    proof (intro allI impI)
      fix i
      assume "i < length (m # ms)"
      then show "i < Suc n \<longleftrightarrow> ?max < sum_list (map f (drop i (m # ms)))"
        using big n(3) by (cases i) auto
    qed
    then show ?thesis
      using False n sub by (intro exI [of _ "Suc n"]) (simp add: checked_sub_def)
  qed
qed

section \<open>The plan equals the reference\<close>

lemma manifests_okD:
  assumes "manifests_ok S ms" and "m \<in> set ms"
  shows "manifest_validate S m = Inr ()" "is_ok (canonical_manifest_bytes S m)"
    "lineage_key (sl_libs S) m = Inr (lineage_of S m)" "logical_size S m < 2 ^ 64"
  using assms validate_lineage manifest_logical_bytes_eq(2) by (auto simp: manifests_ok_def)

lemma plan_checks:
  "manifests_ok S ms \<longleftrightarrow>
     check_manifests S (map_option sm_vault_id (if ms = [] then None else Some (hd ms))) [] ms = Inr ()
     \<and> (\<forall>m \<in> set ms. is_ok (canonical_manifest_bytes S m))"
  by (cases ms) (auto simp: manifests_ok_def check_manifests_Inr)

lemma size_of_manifest:
  assumes "manifests_ok S ms" and "m \<in> set ms"
  shows "size_of (map (\<lambda>m. (sm_snapshot_id m, of_nat (logical_size S m))) ms) (sm_snapshot_id m)
     = of_nat (logical_size S m)"
proof -
  have "map_of (map (\<lambda>m. (sm_snapshot_id m, of_nat (logical_size S m) :: u64)) ms) (sm_snapshot_id m)
      = Some (of_nat (logical_size S m))"
    using assms by (intro map_of_is_SomeI) (auto simp: manifests_ok_def comp_def)
  then show ?thesis by (simp add: size_of_def)
qed

lemma unat_logical_size: "manifests_ok S ms \<Longrightarrow> m \<in> set ms \<Longrightarrow> unat (of_nat (logical_size S m) :: u64) = logical_size S m"
  using manifests_okD(4) [of S ms m] by (simp add: unsigned_of_nat take_bit_nat_eq_self)

lemma marked_iff:
  assumes "manifests_ok S ms" and "m \<in> set ms" and "set xs \<subseteq> set ms"
  shows "(sm_snapshot_id m, r) \<in> set (map (\<lambda>m. (sm_snapshot_id m, r)) xs) \<longleftrightarrow> m \<in> set xs"
  using assms by (auto simp: manifests_ok_def distinct_map inj_on_def subset_iff)

lemma lineage_marks_iff:
  assumes ok: "manifests_ok S ms" and m: "m \<in> set ms" and out: "group_lineages (sl_libs S) [] ms = Inr lineages"
  shows "(sm_snapshot_id m, LineageCount) \<in> set (concat (map (\<lambda>(_, l). lineage_marks policy l) lineages))
     \<longleftrightarrow> retire_reason S policy now ms m LineageCount"
proof -
  let ?l = "filter (\<lambda>x. lineage_key (sl_libs S) x = Inr (lineage_of S m)) ms"
  have key: "lineage_key (sl_libs S) x = Inr k \<longleftrightarrow> lineage_of S x = k" if "x \<in> set ms" for x k
    using manifests_okD(3) [OF ok that] by auto
  have one: "(sm_snapshot_id m, LineageCount) \<in> set (lineage_marks policy l)
      \<longleftrightarrow> m \<in> set (take (length l - max_per_lineage policy) (sort_key age_key l))"
    if "set l \<subseteq> set ms" for l
  proof -
    have "set (take (length l - max_per_lineage policy) (sort_key age_key l)) \<subseteq> set ms"
      using that set_take_subset [of _ "sort_key age_key l"] by fastforce
    from marked_iff [OF ok m this] show ?thesis by (simp only: lineage_marks_def Let_def length_sort)
  qed
  have sub: "set l \<subseteq> set ms" if "(k, l) \<in> set lineages" for k l
    using group_lineages_set [OF out, of k l] that by auto
  have "(sm_snapshot_id m, LineageCount) \<in> set (concat (map (\<lambda>(_, l). lineage_marks policy l) lineages))
      \<longleftrightarrow> (\<exists>k l. (k, l) \<in> set lineages \<and> (sm_snapshot_id m, LineageCount) \<in> set (lineage_marks policy l))"
    by auto
  then have "(sm_snapshot_id m, LineageCount) \<in> set (concat (map (\<lambda>(_, l). lineage_marks policy l) lineages))
      \<longleftrightarrow> (\<exists>k l. (k, l) \<in> set lineages \<and> m \<in> set (take (length l - max_per_lineage policy) (sort_key age_key l)))"
    using one sub by blast
  moreover have "l = ?l \<and> k = lineage_of S m" if "(k, l) \<in> set lineages"
      "m \<in> set (take (length l - max_per_lineage policy) (sort_key age_key l))" for k l
    using that group_lineages_set [OF out] key [OF m] by (auto dest!: in_set_takeD)
  moreover have "(lineage_of S m, ?l) \<in> set lineages"
    using group_lineages_set [OF out] m key [OF m] by (auto simp: filter_empty_conv)
  ultimately have "(sm_snapshot_id m, LineageCount) \<in> set (concat (map (\<lambda>(_, l). lineage_marks policy l) lineages))
      \<longleftrightarrow> m \<in> set (take (length ?l - max_per_lineage policy) (sort_key age_key ?l))"
    by blast
  moreover have "distinct (map age_key ?l)"
    using ok by (intro distinct_age_key) (simp add: manifests_ok_def distinct_map_filter)
  moreover have "filter (\<lambda>y. age_key m < age_key y) ?l
      = filter (\<lambda>x. lineage_of S x = lineage_of S m \<and> age_key m < age_key x) ms"
    using key by (auto simp: filter_filter intro!: filter_cong)
  ultimately show ?thesis
    using take_excess [of age_key ?l m "max_per_lineage policy"] m key [OF m]
    by (simp add: retire_reason_def)
qed

lemma age_marks_iff:
  assumes "manifests_ok S ms" and "m \<in> set ms"
  shows "(sm_snapshot_id m, Age) \<in> set (age_marks policy now (sort_key age_key ms))
     \<longleftrightarrow> retire_reason S policy now ms m Age"
  using marked_iff [OF assms, of "filter (too_old policy now) (sort_key age_key ms)" Age] assms(2)
  by (simp add: age_marks_def retire_reason_def)

lemma size_marks_iff:
  assumes ok: "manifests_ok S ms" and m: "m \<in> set ms"
    and marks: "\<forall>i < length ms. i < n \<longleftrightarrow> unat (max_logical_bytes policy)
        < sum_list (map (logical_size S) (drop i (sort_key age_key ms)))"
  shows "(sm_snapshot_id m, TotalSize) \<in> set (map (\<lambda>m. (sm_snapshot_id m, TotalSize)) (take n (sort_key age_key ms)))
     \<longleftrightarrow> retire_reason S policy now ms m TotalSize"
proof -
  let ?ys = "sort_key age_key ms"
  have d: "distinct (map age_key ?ys)"
    using ok distinct_age_key [of ms] by (simp add: manifests_ok_def distinct_map)
  obtain i where i: "i < length ?ys" "m = ?ys ! i" using m by (metis in_set_conv_nth set_sort)
  have "sum_list (map (logical_size S) (filter (\<lambda>x. age_key m \<le> age_key x) ms))
      = sum_list (map (logical_size S) (filter (\<lambda>x. age_key m \<le> age_key x) ?ys))"
    by (simp flip: sum_mset_sum_list)
  then have "retire_reason S policy now ms m TotalSize \<longleftrightarrow> i < n"
    using filter_later(2) [OF _ d i(1)] i marks by (simp add: retire_reason_def)
  moreover have "(sm_snapshot_id m, TotalSize) \<in> set (map (\<lambda>m. (sm_snapshot_id m, TotalSize)) (take n ?ys))
      \<longleftrightarrow> m \<in> set (take n ?ys)"
    by (rule marked_iff [OF ok m]) (use set_take_subset [of n ?ys] in simp)
  moreover have "m \<in> set (take n ?ys) \<longleftrightarrow> i < n"
    using i d by (auto simp: in_set_conv_nth nth_eq_iff_index_eq distinct_map)
  ultimately show ?thesis by simp
qed

lemma sum_of_sizes:
  assumes "manifests_ok S ms"
  shows "sum_list (map unat (map snd (sort_key fst
      (map (\<lambda>m. (sm_snapshot_id m, of_nat (logical_size S m) :: u64)) ms)))) = sum_list (map (logical_size S) ms)"
  (is "sum_list (map unat (map snd (sort_key fst ?sizes))) = _")
  using unat_logical_size [OF assms] sum_list_sort_key [of "unat \<circ> snd" fst ?sizes]
  by (simp add: comp_def cong: map_cong)

lemma plan_manifests_spec:
  assumes ok: "manifests_ok S ms" and fit: "sum_list (map (logical_size S) ms) < 2 ^ 64"
  shows "plan_manifests S policy now ms = Inr (retention_spec S policy now ms)"
proof -
  let ?ys = "sort_key age_key ms" and ?sizes = "map (\<lambda>m. (sm_snapshot_id m, of_nat (logical_size S m) :: u64)) ms"
  obtain lineages where lin: "group_lineages (sl_libs S) [] ms = Inr lineages"
    using group_lineages_ok [of ms "sl_libs S" "[]"] manifests_okD(3) [OF ok] by (auto simp: is_ok_iff)
  have sizes: "logical_sizes_of S ms = Inr ?sizes"
    by (rule logical_sizes_of_eq) (use ok in \<open>auto simp: manifests_ok_def\<close>)
  let ?vals = "map snd (sort_key fst ?sizes)"
  have vals: "sum_list (map unat ?vals) = sum_list (map (logical_size S) ms)"
    by (rule sum_of_sizes [OF ok])
  have total: "checked_sum ?vals = Inr (sum_list ?vals)" "unat (sum_list ?vals) = sum_list (map (logical_size S) ?ys)"
    using fit vals unat_sum_list [of ?vals] by (simp_all add: checked_sum_eq sum_list_sort_key)
  obtain n where n: "size_marks policy ?sizes (sum_list ?vals) ?ys
        = Inr (map (\<lambda>m. (sm_snapshot_id m, TotalSize)) (take n ?ys))"
      "\<forall>i < length ms. i < n \<longleftrightarrow> unat (max_logical_bytes policy) < sum_list (map (logical_size S) (drop i ?ys))"
    using size_marks_eq [OF _ total(2), of ?sizes policy] size_of_manifest [OF ok] unat_logical_size [OF ok]
    by auto
  define A where "A = age_marks policy now ?ys"
  define B where "B = concat (map (\<lambda>(_, l). lineage_marks policy l) lineages)"
  define C where "C = map (\<lambda>m. (sm_snapshot_id m, TotalSize)) (take n ?ys)"
  define marks where "marks = A @ B @ C"
  have kinds: "(u, r) \<in> set A \<Longrightarrow> r = Age" "(u, r) \<in> set B \<Longrightarrow> r = LineageCount"
      "(u, r) \<in> set C \<Longrightarrow> r = TotalSize" for u r
    by (auto simp: A_def B_def C_def age_marks_def lineage_marks_def Let_def)
  have mark: "(sm_snapshot_id m, r) \<in> set marks \<longleftrightarrow> retire_reason S policy now ms m r" if "m \<in> set ms" for m r
  proof -
    have "(sm_snapshot_id m, Age) \<in> set A \<longleftrightarrow> retire_reason S policy now ms m Age"
        "(sm_snapshot_id m, LineageCount) \<in> set B \<longleftrightarrow> retire_reason S policy now ms m LineageCount"
        "(sm_snapshot_id m, TotalSize) \<in> set C \<longleftrightarrow> retire_reason S policy now ms m TotalSize"
      unfolding A_def B_def C_def
      by (rule age_marks_iff [OF ok that], rule lineage_marks_iff [OF ok that lin],
          rule size_marks_iff [OF ok that n(2)])
    moreover have "(sm_snapshot_id m, r) \<in> set marks \<longleftrightarrow> (sm_snapshot_id m, r) \<in> set A
        \<or> (sm_snapshot_id m, r) \<in> set B \<or> (sm_snapshot_id m, r) \<in> set C"
      by (simp add: marks_def)
    ultimately show ?thesis using kinds [of "sm_snapshot_id m" r] by (cases r) blast+
  qed
  have reasons: "reasons_of marks (sm_snapshot_id m) = filter (retire_reason S policy now ms m) [Age, LineageCount, TotalSize]"
    if "m \<in> set ms" for m
    using mark [OF that] by (simp add: reasons_of_def)
  have "plan_manifests S policy now ms = Inr (map (candidate_of ?sizes marks)
      (filter (\<lambda>m. reasons_of marks (sm_snapshot_id m) \<noteq> []) ?ys))"
    using ok lin sizes total(1) n(1)
    by (simp add: plan_checks [of S ms] plan_manifests_def marks_def A_def B_def C_def Let_def)
  also have "map (candidate_of ?sizes marks) (filter (\<lambda>m. reasons_of marks (sm_snapshot_id m) \<noteq> []) ?ys)
      = retention_spec S policy now ms"
    unfolding retention_spec_def Let_def
    by (rule map_cong [OF filter_cong]) (auto simp: reasons candidate_of_def size_of_manifest [OF ok] simp del: filter.simps)
  finally show ?thesis .
qed

lemma plan_manifests_ok:
  assumes "plan_manifests S policy now ms = Inr cands"
  shows "manifests_ok S ms" "sum_list (map (logical_size S) ms) < 2 ^ 64"
proof -
  let ?sizes = "map (\<lambda>m. (sm_snapshot_id m, of_nat (logical_size S m) :: u64)) ms"
  obtain sizes t where s: "logical_sizes_of S ms = Inr sizes" "checked_sum (map snd (sort_key fst sizes)) = Inr t"
    and c: "check_manifests S (map_option sm_vault_id (if ms = [] then None else Some (hd ms))) [] ms = Inr ()"
    using assms by (auto simp: plan_manifests_def Let_def)
  show ok: "manifests_ok S ms" using c logical_sizes_of_ok [OF s(1)] by (simp add: plan_checks [of S ms])
  have sizes: "sizes = ?sizes"
    using s(1) logical_sizes_of_eq [of ms S] ok by (simp add: manifests_ok_def)
  have "sum_list (map unat (map snd (sort_key fst sizes))) < 2 ^ 64"
    using s(2) by (simp add: checked_sum_eq split: if_splits)
  then show "sum_list (map (logical_size S) ms) < 2 ^ 64" using sum_of_sizes [OF ok] sizes by simp
qed

section \<open>What survives\<close>

definition survivors :: "retention_candidate list \<Rightarrow> snapshot_manifest list \<Rightarrow> snapshot_manifest list" where
  "survivors cands ms = filter (\<lambda>m. sm_snapshot_id m \<notin> set (map rc_snapshot_id cands)) ms"

lemma survivor_iff:
  assumes "manifests_ok S ms" and "m \<in> set ms"
  shows "m \<in> set (survivors (retention_spec S policy now ms) ms)
     \<longleftrightarrow> (\<forall>r. \<not> retire_reason S policy now ms m r)"
proof -
  let ?reasons = "\<lambda>m. filter (retire_reason S policy now ms m) [Age, LineageCount, TotalSize]"
  have none: "?reasons m = [] \<longleftrightarrow> (\<forall>r. \<not> retire_reason S policy now ms m r)" for m
  proof -
    have "set [Age, LineageCount, TotalSize] = UNIV" by (auto intro: retention_reason.exhaust)
    then show ?thesis unfolding filter_empty_conv by simp
  qed
  have same: "x = m" if "x \<in> set ms" "sm_snapshot_id m = sm_snapshot_id x" for x
    using assms that by (auto simp: manifests_ok_def distinct_map inj_on_def)
  have "set (map rc_snapshot_id (retention_spec S policy now ms))
      = sm_snapshot_id ` {x \<in> set ms. ?reasons x \<noteq> []}"
    by (simp add: retention_spec_def Let_def image_image del: filter.simps)
  then have "m \<in> set (survivors (retention_spec S policy now ms) ms)
      \<longleftrightarrow> sm_snapshot_id m \<notin> sm_snapshot_id ` {x \<in> set ms. ?reasons x \<noteq> []}"
    using assms(2) by (simp add: survivors_def del: filter.simps set_map)
  also have "\<dots> \<longleftrightarrow> ?reasons m = []" using same assms(2) by blast
  also have "\<dots> \<longleftrightarrow> (\<forall>r. \<not> retire_reason S policy now ms m r)" by (rule none)
  finally show ?thesis .
qed

lemma oldest_of:
  assumes "distinct (map sm_snapshot_id ms)" and "filter P ms \<noteq> []"
  shows "\<exists>m \<in> set ms. P m \<and> (\<forall>x \<in> set ms. P x \<longrightarrow> age_key m \<le> age_key x)
     \<and> length (filter P ms) = Suc (length (filter (\<lambda>x. P x \<and> age_key m < age_key x) ms))"
proof -
  let ?xs = "sort_key age_key (filter P ms)"
  have d: "distinct (map age_key ?xs)"
    using distinct_age_key [OF distinct_map_filter [OF assms(1)]] by (simp add: distinct_map)
  have l: "0 < length ?xs" using assms(2) by simp
  note later = filter_later [OF _ d l]
  have m: "?xs ! 0 \<in> set (filter P ms)" using l by (metis nth_mem set_sort)
  have "filter (\<lambda>x. age_key (?xs ! 0) \<le> age_key x) ?xs = ?xs" using later(2) by simp
  then have least: "age_key (?xs ! 0) \<le> age_key x" if "x \<in> set (filter P ms)" for x
    using that by (simp add: filter_id_conv)
  have "length (filter (\<lambda>x. age_key (?xs ! 0) < age_key x) ?xs) = length ?xs - 1" using later(1) by simp
  then have "length (filter (\<lambda>x. P x \<and> age_key (?xs ! 0) < age_key x) ms) = length (filter P ms) - 1"
    using length_filter_sort_key [of "\<lambda>x. age_key (?xs ! 0) < age_key x" age_key "filter P ms"]
    by (simp add: conj_commute)
  then show ?thesis using m least l by (intro bexI [of _ "?xs ! 0"]) auto
qed

lemma length_filter_mono: "(\<And>x. P x \<Longrightarrow> Q x) \<Longrightarrow> length (filter P xs) \<le> length (filter Q xs)"
  by (induction xs) auto

lemma sum_list_filter_mono: "(\<And>x. x \<in> set xs \<Longrightarrow> P x \<Longrightarrow> Q x)
   \<Longrightarrow> sum_list (map f (filter P xs)) \<le> (sum_list (map f (filter Q xs)) :: nat)"
  by (induction xs) (auto simp: le_add2 intro: le_trans [OF _ le_add2])

lemma survivors_meet_policy:
  assumes ok: "manifests_ok S ms" and ks: "ks = survivors (retention_spec S policy now ms) ms"
  shows "m \<in> set ks \<Longrightarrow> \<not> too_old policy now m"
    and "length (filter (\<lambda>m. lineage_of S m = k) ks) \<le> max_per_lineage policy"
    and "sum_list (map (logical_size S) ks) \<le> unat (max_logical_bytes policy)"
proof -
  define kept where "kept m \<longleftrightarrow> sm_snapshot_id m \<notin> set (map rc_snapshot_id (retention_spec S policy now ms))"
    for m :: snapshot_manifest
  have ids: "distinct (map sm_snapshot_id ms)" using ok by (simp add: manifests_ok_def)
  have ks': "ks = filter kept ms" by (simp only: ks survivors_def kept_def [abs_def])
  have kept: "\<not> retire_reason S policy now ms m r" if "m \<in> set ms" "kept m" for m r
    using survivor_iff [OF ok that(1), of policy now] that unfolding ks [symmetric] ks' by simp
  show "\<not> too_old policy now m" if "m \<in> set ks"
    using that kept [of m Age] by (simp add: ks' retire_reason_def)
  show "length (filter (\<lambda>m. lineage_of S m = k) ks) \<le> max_per_lineage policy"
  proof (cases "filter (\<lambda>m. kept m \<and> lineage_of S m = k) ms = []")
    case True
    then show ?thesis by (simp add: ks' conj_commute)
  next
    case False
    from oldest_of [OF ids False] obtain m where m: "m \<in> set ms" "kept m" "lineage_of S m = k"
        "length (filter (\<lambda>m. kept m \<and> lineage_of S m = k) ms)
          = Suc (length (filter (\<lambda>x. (kept x \<and> lineage_of S x = k) \<and> age_key m < age_key x) ms))"
      by blast
    have "length (filter (\<lambda>x. (kept x \<and> lineage_of S x = k) \<and> age_key m < age_key x) ms)
        \<le> length (filter (\<lambda>x. lineage_of S x = lineage_of S m \<and> age_key m < age_key x) ms)"
      using m(3) by (intro length_filter_mono) simp
    also have "\<dots> < max_per_lineage policy"
      using kept [of m LineageCount] m(1,2) by (simp add: retire_reason_def)
    finally show ?thesis using m(4) by (simp add: ks' conj_commute)
  qed
  show "sum_list (map (logical_size S) ks) \<le> unat (max_logical_bytes policy)"
  proof (cases "filter kept ms = []")
    case True
    then show ?thesis by (simp add: ks')
  next
    case False
    from oldest_of [OF ids False] obtain m where m: "m \<in> set ms" "kept m"
        "\<forall>x \<in> set ms. kept x \<longrightarrow> age_key m \<le> age_key x" by blast
    have "sum_list (map (logical_size S) ks)
        \<le> sum_list (map (logical_size S) (filter (\<lambda>x. age_key m \<le> age_key x) ms))"
      unfolding ks' by (rule sum_list_filter_mono) (use m(3) in blast)
    also have "\<dots> \<le> unat (max_logical_bytes policy)"
      using kept [of m TotalSize] m(1,2) by (simp add: retire_reason_def)
    finally show ?thesis .
  qed
qed

end
