(* ===== verification/Retention_Scan.thy ===== *)
theory Retention_Scan
  imports Retention_Properties
begin

text \<open>
  What the scan of \<open>plan_retention\<close> establishes: it changes nothing, and every manifest it passes
  to the selection is that of a verified object of the store.
\<close>

section \<open>Nothing is changed\<close>

lemma reads_collect_entries [read_intros]: "reads (collect_entries d l es)"
  unfolding collect_entries_def by (intro read_intros)

lemma reads_case_locations [read_intros]:
  assumes "\<And>l. reads (f l)" and "\<And>ls. reads (g ls)"
  shows "reads (case ls of [] \<Rightarrow> g [] | [l] \<Rightarrow> f l | l # l' # ls' \<Rightarrow> g (l # l' # ls'))"
  using assms by (auto split: list.splits)

lemma reads_inspect_entry [read_intros]: "reads (inspect_entry S st e s)"
  unfolding inspect_entry_def by (intro read_intros)

lemma reads_inspect_entries [read_intros]: "reads (inspect_entries S st es s)"
  by (induction es arbitrary: s) (auto intro: read_intros)

lemma reads_plan_retention_locked [read_intros]: "reads (plan_retention_locked S st now policy)"
  unfolding plan_retention_locked_def by (intro read_intros)

lemma reads_with_operation_lock [read_intros]: "reads body \<Longrightarrow> reads (with_operation_lock lost st body)"
  unfolding with_operation_lock_def by (intro read_intros)

lemma reads_plan_retention [read_intros]: "reads (plan_retention S st now policy)"
  unfolding plan_retention_def by (intro read_intros)

lemma learns_with_operation_lock:
  assumes "reads body" and "learns body Q"
  shows "learns (with_operation_lock lost st body) Q"
  unfolding with_operation_lock_def
proof (rule learns_then)
  let ?validate = "validate_locked_file (st_vault st) (st_lock_identity st)"
  have fin: "learns (attempt ?validate (\<lambda>finished. case (r, finished) of
        (Inr x, Inr _) \<Rightarrow> ret x | (Inr x, Inl _) \<Rightarrow> fail (lost x) | (Inl e, Inr _) \<Rightarrow> fail e
      | (Inl e, Inl _) \<Rightarrow> fail (OperationFailedAndLockLost e)))
      (\<lambda>y t. (\<forall>x. r = Inr x \<longrightarrow> Q x t) \<longrightarrow> Q y t)" for r
    by (auto simp: learns_def attempt_def ret_def fail_def split: sum.splits prod.splits)
  show "learns (attempt body (\<lambda>result. attempt ?validate (\<lambda>finished. case (result, finished) of
        (Inr x, Inr _) \<Rightarrow> ret x | (Inr x, Inl _) \<Rightarrow> fail (lost x) | (Inl e, Inr _) \<Rightarrow> fail e
      | (Inl e, Inl _) \<Rightarrow> fail (OperationFailedAndLockLost e)))) Q"
    apply (rule learns_attempt [OF assms(1) _ assms(2)])
      apply (intro read_intros)
    subgoal for x by (rule learns_mono [OF fin]) simp
    subgoal for e by (rule learns_mono [OF fin]) simp
    done
qed (intro read_intros)

section \<open>Supported objects are verified objects\<close>

lemma evidence_of_supported:
  assumes "uuid_text_ok S" and "manifest_json_ok S"
    and e: "evidence_of S loc sid vid bytes r = Inr (Supported l m)"
  shows "sm_snapshot_id m = sid" "sm_vault_id m = vid" "l = loc" "manifest_to_vec S m = Some bytes"
    "check_manifest_bytes S m bytes bytes = Inr ()" "r = sm_revision m"
proof -
  obtain env where env: "envelope_from_slice S bytes = Inr env" "re_snapshot_id env = sid" "re_vault_id env = vid"
    and m: "manifest_from_slice S bytes = Inr m" "manifest_validate S m = Inr ()"
      "canonical_manifest_bytes S m = Inr bytes" "r = sm_revision m" "l = loc"
    using e by (auto simp: evidence_of_def split: if_splits)
  show bytes: "manifest_to_vec S m = Some bytes" using m(3) by (simp add: canonical_manifest_bytes_Inr)
  show "sm_snapshot_id m = sid" "sm_vault_id m = vid"
    using manifest_from_to(2) [OF assms(1,2) bytes manifest_validate_ids(1,2) [OF m(2)]] env by auto
  show "check_manifest_bytes S m bytes bytes = Inr ()" using m by (simp add: check_manifest_bytes_def)
  show "r = sm_revision m" "l = loc" using m by simp_all
qed

lemma learns_inspect_object:
  assumes ids: "uuid_text_ok S" and json: "manifest_json_ok S"
  shows "learns (inspect_object S d loc sid vid budget)
    (\<lambda>r t. \<forall>l m n. snd r = Inr (Inr (Supported l m), n) \<longrightarrow> sm_snapshot_id m = sid \<and> sm_vault_id m = vid
       \<and> (\<exists>bytes. manifest_to_vec S m = Some bytes \<and> object_files_hold S m bytes t d))"
proof -
  let ?Q = "\<lambda>r t. \<forall>l m n. snd r = Inr (Inr (Supported l m), n) \<longrightarrow> sm_snapshot_id m = sid \<and> sm_vault_id m = vid
     \<and> (\<exists>bytes. manifest_to_vec S m = Some bytes \<and> object_files_hold S m bytes t d)"
  let ?open = "perform (verify_exact_object_entries d) (\<lambda>_.
      perform (open_held_private_file d MANIFEST_FILE MAX_MANIFEST_BYTES) (\<lambda>mf.
      perform (open_held_private_file d PAYLOAD_FILE MAX_PAYLOAD_BYTES) (\<lambda>pl. ret (mf, pl))))"
  let ?P = "\<lambda>x t. set (names_in t d) = {MANIFEST_FILE, PAYLOAD_FILE}
      \<and> fst (fst x) = d @ [MANIFEST_FILE] \<and> snd (fst x) \<le> MAX_MANIFEST_BYTES
      \<and> fst (snd x) = d @ [PAYLOAD_FILE] \<and> snd (snd x) \<le> MAX_PAYLOAD_BYTES"
  have opened: "learns ?open ?P"
    apply (rule learns_perform [OF learns_verify_exact_object_entries], intro read_intros)
    apply (rule learns_perform [OF learns_open_held_private_file], intro read_intros)
    apply (rule learns_perform [OF learns_open_held_private_file], intro read_intros)
    apply (rule learns_ret, auto)
    done
  let ?R = "\<lambda>mf ml pp pl x t. \<exists>bytes payload. file_holds t mf bytes \<and> length bytes = ml
      \<and> file_holds t pp payload \<and> length payload = pl
      \<and> fst x = evidence_of S loc sid vid bytes (revision_from_bytes S payload)"
  have read: "learns (perform (read_held_private_file mf ml) (\<lambda>bytes.
        perform (read_held_private_file pp pl) (\<lambda>payload.
        ret (evidence_of S loc sid vid bytes (revision_from_bytes S payload), k))))
      (?R mf ml pp pl)" for mf ml pp pl and k :: nat
    by (rule learns_perform [OF learns_read_held_private_file], intro read_intros,
        rule learns_perform [OF learns_read_held_private_file], intro read_intros, rule learns_ret)
      (simp, blast)
  have conclude: "?Q (b, Inr x) t" if "?P ((mf, ml), (pp, pl)) t" "?R mf ml pp pl x t" for b x mf ml pp pl t
  proof (intro allI impI)
    fix l m n
    assume "snd (b, Inr x) = Inr (Inr (Supported l m), n)"
    with that obtain bytes payload where h: "file_holds t (d @ [MANIFEST_FILE]) bytes" "length bytes \<le> MAX_MANIFEST_BYTES"
        "file_holds t (d @ [PAYLOAD_FILE]) payload" "length payload \<le> MAX_PAYLOAD_BYTES"
        "evidence_of S loc sid vid bytes (revision_from_bytes S payload) = Inr (Supported l m)"
        "set (names_in t d) = {MANIFEST_FILE, PAYLOAD_FILE}"
      by auto
    note sup = evidence_of_supported [OF ids json h(5)]
    show "sm_snapshot_id m = sid \<and> sm_vault_id m = vid
       \<and> (\<exists>bytes. manifest_to_vec S m = Some bytes \<and> object_files_hold S m bytes t d)"
      using h sup by (auto simp: object_files_hold_def)
  qed
  show ?thesis
    unfolding inspect_object_def Let_def
  proof (rule learns_attempt [OF _ _ opened])
    fix x :: "(fs_path \<times> nat) \<times> (fs_path \<times> nat)"
    obtain mf ml pp pl where x: "x = ((mf, ml), (pp, pl))" by (metis prod.collapse)
    show "learns (case Inr x of Inl e \<Rightarrow> ret (budget, Inl e)
        | Inr ((manifest_file, manifest_len), (payload_file, payload_len)) \<Rightarrow>
            if is_some_and budget (\<lambda>b. manifest_len + payload_len > b)
            then ret (budget, Inl VerificationBudgetExceeded)
            else attempt (perform (read_held_private_file manifest_file manifest_len) (\<lambda>bytes.
               perform (read_held_private_file payload_file payload_len) (\<lambda>payload.
               ret (evidence_of S loc sid vid bytes (revision_from_bytes S payload),
                 manifest_len + payload_len))))
               (\<lambda>r. ret (map_option (\<lambda>b. b - (manifest_len + payload_len)) budget, r)))
        (\<lambda>y t. ?P x t \<longrightarrow> ?Q y t)"
      unfolding x sum.case prod.case
      apply (rule learns_if, rule learns_ret, simp)
      apply (rule learns_attempt [OF _ _ read])
         apply (intro read_intros)
        apply (intro read_intros)
       apply (rule learns_ret, intro impI)
       apply (erule conclude, assumption)
      apply (rule learns_ret, simp)
      done
  qed (intro read_intros | (simp only: sum.case, rule learns_ret, simp))+
qed


section \<open>The scan\<close>

definition verified_manifests :: "snap_libs \<Rightarrow> snapshot_store \<Rightarrow> tree \<Rightarrow> scan_state \<Rightarrow> bool" where
  "verified_manifests S st t s = (\<forall>m \<in> set (sc_manifests s).
     sm_vault_id m = st_vault_id st \<and> object_holds S m t (object_path S st m))"

lemma note_inspection_manifests:
  "sc_manifests (note_inspection loc r s) = sc_manifests s @
     (case r of Inr (Inr (Supported _ m), _) \<Rightarrow> if loc = Objects then [m] else [] | _ \<Rightarrow> [])"
  by (auto simp: note_inspection_def split: sum.splits prod.splits snapshot_evidence.splits snapshot_error.splits)

lemma learns_inspect_entry:
  assumes ids: "uuid_text_ok S" and json: "manifest_json_ok S"
  shows "learns (inspect_entry S st e s)
    (\<lambda>s' t. verified_manifests S st t s \<longrightarrow> verified_manifests S st t s')"
proof -
  let ?Q = "\<lambda>s' t. verified_manifests S st t s \<longrightarrow> verified_manifests S st t s'"
  have same: "learns (ret (s\<lparr>sc_opaque := k\<rparr>)) ?Q" for k
    by (rule learns_ret) (simp add: verified_manifests_def)
  have one: "learns (attempt (open_optional_private_dir (if l = Objects then st_objects st else st_staging st)
        (uuid_string S u)) (\<lambda>opened. case opened of
          Inr (Some directory) \<Rightarrow>
            perform (inspect_object S directory l u (st_vault_id st)
              (Some (MAX_VERIFICATION_BYTES - sc_verified s))) (\<lambda>(budget, inspection).
            ret (note_inspection l inspection (s\<lparr>sc_verified := MAX_VERIFICATION_BYTES - the budget\<rparr>)))
        | _ \<Rightarrow> ret (s\<lparr>sc_opaque := Suc (sc_opaque s)\<rparr>))) ?Q" for u l
  proof (rule learns_attempt [OF _ _ learns_open_optional_private_dir])
    fix found
    show "learns (case Inr found of
          Inr (Some directory) \<Rightarrow>
            perform (inspect_object S directory l u (st_vault_id st)
              (Some (MAX_VERIFICATION_BYTES - sc_verified s))) (\<lambda>(budget, inspection).
            ret (note_inspection l inspection (s\<lparr>sc_verified := MAX_VERIFICATION_BYTES - the budget\<rparr>)))
        | _ \<Rightarrow> ret (s\<lparr>sc_opaque := Suc (sc_opaque s)\<rparr>))
        (\<lambda>s' t. (\<forall>h. found = Some h \<longrightarrow> h = (if l = Objects then st_objects st else st_staging st) @ [uuid_string S u]
              \<and> dir_holds t h)
            \<and> (found = None \<longrightarrow> node_at t ((if l = Objects then st_objects st else st_staging st) @ [uuid_string S u]) = None)
          \<longrightarrow> ?Q s' t)"
    proof (cases found)
      case None
      with same show ?thesis by (auto intro: learns_mono)
    next
      case (Some d)
      show ?thesis
        unfolding Some sum.case option.case
        apply (rule learns_perform [OF learns_inspect_object [OF ids json]], intro read_intros)
        apply (simp only: split_beta)
        apply (rule learns_ret)
        apply (auto simp: verified_manifests_def note_inspection_manifests object_path_def object_holds_def
            split: sum.splits prod.splits snapshot_evidence.splits)
        done
    qed
  qed (intro read_intros | (simp only: sum.case, rule same))+
  obtain u ls where e: "e = (u, ls)" by (cases e)
  consider "ls = []" | l where "ls = [l]" | l l' ls' where "ls = l # l' # ls'" by (metis list.exhaust)
  then show ?thesis
  proof cases
    case 1
    then show ?thesis using same by (simp only: e inspect_entry_def prod.case list.case)
  next
    case 2
    then show ?thesis using one by (simp only: e inspect_entry_def prod.case list.case)
  next
    case 3
    then show ?thesis using same by (simp only: e inspect_entry_def prod.case list.case)
  qed
qed

lemma learns_inspect_entries:
  assumes ids: "uuid_text_ok S" and json: "manifest_json_ok S"
  shows "learns (inspect_entries S st es s)
    (\<lambda>s' t. verified_manifests S st t s \<longrightarrow> verified_manifests S st t s')"
proof (induction es arbitrary: s)
  case (Cons e es)
  show ?case
    by (simp, rule learns_perform [OF learns_inspect_entry [OF assms]], intro read_intros,
        rule learns_mono [OF Cons.IH]) simp
qed (auto intro: learns_ret)

definition plan_sound ::
    "snap_libs \<Rightarrow> snapshot_store \<Rightarrow> retention_policy \<Rightarrow> u64 \<Rightarrow> tree \<Rightarrow> retention_plan \<Rightarrow> bool" where
  "plan_sound S st policy now t plan = (\<exists>ms. distinct (map sm_snapshot_id ms)
     \<and> (\<forall>m \<in> set ms. sm_vault_id m = st_vault_id st \<and> object_holds S m t (object_path S st m))
     \<and> rp_supported_objects plan = length ms
     \<and> rp_candidates plan = take MAX_RETENTION_CANDIDATES (retention_spec S policy now ms))"

lemma learns_plan_retention:
  assumes ids: "uuid_text_ok S" and json: "manifest_json_ok S"
  shows "learns (plan_retention S st now policy) (\<lambda>plan t. plan_sound S st policy now t plan)"
proof -
  have fin: "plan_sound S st policy now t plan"
    if v: "verified_manifests S st t s" and f: "finish_plan S policy now n s = Inr plan" for t s n plan
  proof -
    obtain cands where c: "plan_manifests S policy now (sc_manifests s) = Inr cands"
      and p: "rp_supported_objects plan = length (sc_manifests s)" "rp_candidates plan = take MAX_RETENTION_CANDIDATES cands"
      using f by (auto simp: finish_plan_def Let_def)
    note ok = plan_manifests_ok [OF c]
    have "cands = retention_spec S policy now (sc_manifests s)" using plan_manifests_spec [OF ok] c by simp
    then show ?thesis using v p ok(1)
      by (auto simp: plan_sound_def verified_manifests_def manifests_ok_def)
  qed
  have "learns (plan_retention_locked S st now policy) (\<lambda>plan t. plan_sound S st policy now t plan)"
    unfolding plan_retention_locked_def
    apply (rule learns_then, intro read_intros)
    apply (rule learns_then, intro read_intros)
    apply (clarsimp split: prod.splits)
    apply (rule learns_perform [OF learns_inspect_entries [OF assms]], intro read_intros)
    apply (rule learns_of_result)
    apply (auto simp: verified_manifests_def intro: fin)
    done
  then show ?thesis
    unfolding plan_retention_def by (intro learns_with_operation_lock read_intros)
qed

end
