(* ===== verification/Concrete_Snapshots.thy ===== *)
theory Concrete_Snapshots
  imports Snapshot_Resume Retention_Scan Concrete_Libs
begin

text \<open>
  Concrete stand-ins for BLAKE3, UUID text and \<open>serde_json\<close>, with proofs that they satisfy what the
  snapshot theorems assume of the crates, and a small store to evaluate the model on.
\<close>

section \<open>Fixed-width numbers\<close>

fun nibbles :: "nat \<Rightarrow> nat \<Rightarrow> string" where
  "nibbles 0 n = []"
| "nibbles (Suc k) n = nibbles k (n div 16) @ [hex_digit (n mod 16)]"

definition nibble_value :: "char \<Rightarrow> nat" where
  "nibble_value c = (if is_ascii_digit c then byte c - 48 else byte c - 87)"

definition nibbles_value :: "string \<Rightarrow> nat" where
  "nibbles_value s = foldl (\<lambda>n c. n * 16 + nibble_value c) 0 s"

lemma length_nibbles [simp]: "length (nibbles k n) = k"
  by (induction k arbitrary: n) auto

lemma nibbles_lower: "list_all is_lower_hex_byte (nibbles k n)"
  by (induction k arbitrary: n) (auto intro: hex_digit_lower)

lemma nibble_value_hex_digit: "d < 16 \<Longrightarrow> nibble_value (hex_digit d) = d"
  by (auto simp: nibble_value_def is_ascii_digit_def byte_hex_digit)

lemma nibbles_value_nibbles: "nibbles_value (nibbles k n) = n mod 16 ^ k"
proof (induction k arbitrary: n)
  case (Suc k)
  have "nibbles_value (nibbles (Suc k) n) = nibbles_value (nibbles k (n div 16)) * 16 + n mod 16"
    by (simp add: nibbles_value_def nibble_value_hex_digit)
  also have "\<dots> = n mod 16 ^ Suc k"
    using Suc [of "n div 16"] by (simp add: mod_mult2_eq mult.commute add.commute)
  finally show ?case .
qed (simp add: nibbles_value_def)

definition word_text :: "nat \<Rightarrow> 'a::len word \<Rightarrow> string" where
  "word_text k x = nibbles k (unat x)"

definition text_word :: "string \<Rightarrow> 'a::len word" where
  "text_word s = of_nat (nibbles_value s)"

lemma length_word_text [simp]: "length (word_text k x) = k"
  by (simp add: word_text_def)

lemma text_word_text:
  assumes "LENGTH('a::len) = 4 * k"
  shows "text_word (word_text k (x :: 'a word)) = x"
proof -
  have "unat x < 2 ^ (4 * k)" using unsigned_less [of x, where ?'a = nat] by (simp add: assms)
  then have "unat x < 16 ^ k" by (simp add: power_mult)
  then show ?thesis by (simp add: text_word_def word_text_def nibbles_value_nibbles)
qed

lemmas text_words [simp] =
  text_word_text [where 'a = 32 and k = 8, simplified]
  text_word_text [where 'a = 64 and k = 16, simplified]
  text_word_text [where 'a = 128 and k = 32, simplified]

section \<open>The crates\<close>

definition plain_uuid_parse :: "string \<Rightarrow> uuid option" where
  "plain_uuid_parse s = (if length s = 32 then Some (text_word s) else None)"

definition plain_manifest :: "snapshot_manifest \<Rightarrow> string option" where
  "plain_manifest m = (let hash = blake3_hex (sm_revision m) in
     if length hash < 2 ^ 32
     then Some (word_text 8 (sm_version m) @ word_text 32 (sm_snapshot_id m) @ word_text 32 (sm_vault_id m)
       @ word_text 16 (sm_created_at_unix_ms m) @ word_text 16 (byte_len (sm_revision m))
       @ nibbles 8 (length hash) @ hash @ sm_path m)
     else None)"

definition plain_manifest_parse :: "string \<Rightarrow> raw_manifest option" where
  "plain_manifest_parse s =
     (let n = nibbles_value (take 8 (drop 104 s)); rest = drop 112 s in
      if length s < 112 + n then None
      else Some \<lparr>raw_version = text_word (take 8 s), raw_snapshot_id = take 32 (drop 8 s),
        raw_vault_id = take 32 (drop 40 s), raw_path = drop n rest,
        raw_created_at_unix_ms = text_word (take 16 (drop 72 s)),
        raw_revision = \<lparr>blake3_hex = take n rest, byte_len = text_word (take 16 (drop 88 s))\<rparr>,
        raw_reason = BeforeContentReplace\<rparr>)"

definition plain_envelope_parse :: "string \<Rightarrow> (u32 \<times> string \<times> string) option" where
  "plain_envelope_parse s =
     (if length s < 72 then None else Some (text_word (take 8 s), take 32 (drop 8 s), take 32 (drop 40 s)))"

definition plain_binding :: "vault_binding \<Rightarrow> string option" where
  "plain_binding b = Some (word_text 8 (vb_version b) @ word_text 32 (vb_vault_id b)
     @ word_text 16 (vb_unix_device b) @ word_text 16 (vb_unix_inode b))"

definition plain_binding_parse :: "string \<Rightarrow> (u32 \<times> string \<times> u64 \<times> u64) option" where
  "plain_binding_parse s =
     (if length s \<noteq> 72 then None else Some (text_word (take 8 s), take 32 (drop 8 s),
       text_word (take 16 (drop 40 s)), text_word (drop 56 s)))"

definition demo_snap :: snap_libs where
  "demo_snap = \<lparr>sl_libs = demo_libs\<lparr>uuid_to_string := word_text 32\<rparr>, blake3_hash = tail_digest,
     uuid_parse_str = plain_uuid_parse, manifest_to_vec = plain_manifest,
     manifest_parse = plain_manifest_parse, envelope_parse = plain_envelope_parse,
     binding_to_vec = plain_binding, binding_parse = plain_binding_parse\<rparr>"

lemma demo_blake3_total: "blake3_total demo_snap"
  by (auto simp: blake3_total_def demo_snap_def tail_digest_def)

lemma demo_uuid_text_ok: "uuid_text_ok demo_snap"
proof -
  have "word_text 32 u \<noteq> []" for u :: uuid using length_word_text [of 32 u] by (metis list.size(3) zero_neq_numeral)
  moreover have "list_all (\<lambda>c. is_lower_hex_byte c \<or> c = CHR ''-'') (word_text 32 u)" for u :: uuid
    using nibbles_lower [of 32 "unat u"] by (simp add: word_text_def list_all_iff)
  ultimately show ?thesis by (simp add: uuid_text_ok_def demo_snap_def demo_libs_def plain_uuid_parse_def)
qed

lemma demo_manifest_json_ok: "manifest_json_ok demo_snap"
proof -
  have "(16 :: nat) ^ 8 = 2 ^ 32" by simp
  then have "nibbles_value (nibbles 8 n) = n" if "n < 2 ^ 32" for n
    using that by (simp add: nibbles_value_nibbles)
  moreover have "BeforeContentReplace = r" for r by (cases r) simp
  ultimately show ?thesis
    by (auto simp: manifest_json_ok_def demo_snap_def plain_manifest_def plain_manifest_parse_def
        plain_envelope_parse_def Let_def demo_libs_def split: if_splits)
qed

section \<open>A store\<close>

definition demo_store :: snapshot_store where
  "demo_store = \<lparr>st_vault_id = 7, st_staging = [STAGING_DIRECTORY], st_objects = [OBJECTS_DIRECTORY],
     st_vault = [], st_lock_identity = 1\<rparr>"

definition demo_payload :: string where "demo_payload = ''# note''"

definition demo_manifest :: "uuid \<Rightarrow> u64 \<Rightarrow> snapshot_manifest" where
  "demo_manifest u created = \<lparr>sm_version = 1, sm_snapshot_id = u, sm_vault_id = 7, sm_path = ''a.md'',
     sm_created_at_unix_ms = created, sm_revision = revision_from_bytes demo_snap demo_payload,
     sm_reason = BeforeContentReplace\<rparr>"

definition demo_tree :: tree where
  "demo_tree = [([OPERATION_LOCK_FILE], FileNode 1 True []), ([STAGING_DIRECTORY], DirNode 2 True),
     ([OBJECTS_DIRECTORY], DirNode 3 True)]"

text \<open>A world in which every system call from a given tick on fails.\<close>

definition crash_world :: "nat \<Rightarrow> world" where
  "crash_world n = \<lparr>w_tree = demo_tree, w_clock = 0,
     w_faults = (\<lambda>k. if n \<le> k then Some (PfIo OtherKind) else None), w_written = (\<lambda>_. 2),
     w_umask_private = False, w_uuids = (\<lambda>k. of_nat (k + 1)), w_drawn = 0, w_next_inode = 10\<rparr>"

definition calm_world :: "tree \<Rightarrow> nat \<Rightarrow> world" where
  "calm_world t drawn = \<lparr>w_tree = t, w_clock = 0, w_faults = (\<lambda>_. None), w_written = (\<lambda>_. 0),
     w_umask_private = False, w_uuids = (\<lambda>k. of_nat (k + 1)), w_drawn = drawn, w_next_inode = 50\<rparr>"

lemma calm_world [simp]: "calm (calm_world t k)" "w_tree (calm_world t k) = t"
  by (simp_all add: calm_def calm_world_def)

section \<open>Retention\<close>

lemma demo_manifests_ok:
  "manifests_ok demo_snap [demo_manifest 5 90, demo_manifest 6 95, demo_manifest 8 20]"
proof -
  have "is_ok (manifest_validate demo_snap (demo_manifest 5 90))" "is_ok (canonical_manifest_bytes demo_snap (demo_manifest 5 90))"
    "is_ok (manifest_validate demo_snap (demo_manifest 6 95))" "is_ok (canonical_manifest_bytes demo_snap (demo_manifest 6 95))"
    "is_ok (manifest_validate demo_snap (demo_manifest 8 20))" "is_ok (canonical_manifest_bytes demo_snap (demo_manifest 8 20))"
    by code_simp+
  then show ?thesis by (simp add: manifests_ok_def is_ok_iff) (simp add: demo_manifest_def)
qed

text \<open>A store with one object, which is past the age limit.\<close>

definition demo_name :: string where "demo_name = ''00000000000000000000000000000005''"

definition demo_object_tree :: tree where
  "demo_object_tree = demo_tree @
     [([OBJECTS_DIRECTORY, demo_name], DirNode 4 True),
      ([OBJECTS_DIRECTORY, demo_name, PAYLOAD_FILE], FileNode 5 True demo_payload),
      ([OBJECTS_DIRECTORY, demo_name, MANIFEST_FILE],
        FileNode 6 True (the (manifest_to_vec demo_snap (demo_manifest 5 100))))]"

lemma demo_names:
  "names_in demo_object_tree (st_objects demo_store) = [demo_name]"
  "names_in demo_object_tree (st_staging demo_store) = []"
  "classify_entries demo_snap (sort_physical [(Objects, demo_name)]) [] 0 = ([(5, [Objects])], 0)"
  "uuid_string demo_snap 5 = demo_name" "valid_utf8 demo_name"
  by code_simp+

lemma demo_object_holds:
  "object_holds demo_snap (demo_manifest 5 100) demo_object_tree [OBJECTS_DIRECTORY, demo_name]"
proof -
  let ?bytes = "the (manifest_to_vec demo_snap (demo_manifest 5 100))"
  have ok: "is_ok (check_manifest_bytes demo_snap (demo_manifest 5 100) ?bytes ?bytes)"
    and len: "length ?bytes = 180" "manifest_to_vec demo_snap (demo_manifest 5 100) \<noteq> None"
    by code_simp+
  have files: "node_at demo_object_tree [OBJECTS_DIRECTORY, demo_name] = Some (DirNode 4 True)"
      "node_at demo_object_tree [OBJECTS_DIRECTORY, demo_name, PAYLOAD_FILE] = Some (FileNode 5 True demo_payload)"
      "node_at demo_object_tree [OBJECTS_DIRECTORY, demo_name, MANIFEST_FILE] = Some (FileNode 6 True ?bytes)"
      "set (names_in demo_object_tree [OBJECTS_DIRECTORY, demo_name]) = {MANIFEST_FILE, PAYLOAD_FILE}"
    by (auto simp: demo_object_tree_def demo_tree_def node_at_def names_in_def MANIFEST_FILE_def PAYLOAD_FILE_def)
  have "object_files_hold demo_snap (demo_manifest 5 100) ?bytes demo_object_tree [OBJECTS_DIRECTORY, demo_name]"
    unfolding object_files_hold_def
    using ok len files
    by (simp add: file_holds_def is_ok_iff MAX_MANIFEST_BYTES_def MAX_PAYLOAD_BYTES_def demo_payload_def)
      (simp add: demo_manifest_def demo_payload_def)
  then show ?thesis using len(2) files(1) by (auto simp: object_holds_def dir_holds_def)
qed

lemma demo_inspect_entry:
  "succeeds (\<lambda>t. t = demo_object_tree) (inspect_entry demo_snap demo_store (5, [Objects])
      \<lparr>sc_manifests = [], sc_opaque = 0, sc_staging = 0, sc_verified = 0, sc_exhausted = False\<rparr>)
     (\<lambda>s t. t = demo_object_tree \<and> sc_manifests s = [demo_manifest 5 100] \<and> sc_opaque s = 0)"
proof -
  have dir: "dir_holds demo_object_tree (st_objects demo_store @ [demo_name])"
    using demo_object_holds by (simp add: object_holds_def demo_store_def)
  have plain: "plain_name demo_name"
    using plain_uuid_string [OF demo_uuid_text_ok, of 5] by (simp only: demo_names)
  obtain n where n: "succeeds (\<lambda>t. t = demo_object_tree)
      (inspect_object demo_snap [OBJECTS_DIRECTORY, demo_name] Objects 5 (st_vault_id demo_store)
        (Some MAX_VERIFICATION_BYTES))
      (\<lambda>r t. t = demo_object_tree \<and> r = (Some (MAX_VERIFICATION_BYTES - n),
        Inr (Inr (Supported Objects (demo_manifest 5 100)), n)))"
    using succeeds_inspect_object [OF demo_uuid_text_ok demo_manifest_json_ok demo_object_holds,
        of "Some MAX_VERIFICATION_BYTES" Objects]
    by (auto simp: demo_manifest_def demo_store_def is_some_and_def MAX_VERIFICATION_BYTES_def
        MAX_MANIFEST_BYTES_def MAX_PAYLOAD_BYTES_def)
  show ?thesis
    unfolding inspect_entry_def prod.case list.case demo_names
    apply simp
    apply (rule succeeds_attempt [OF succeeds_open_optional_some [OF _ plain]], use dir in simp)
    apply (rule succeeds_pull, clarsimp simp: demo_store_def)
    apply (rule succeeds_perform [OF n [unfolded demo_store_def, simplified]])
    apply (rule succeeds_pull, clarsimp)
    apply (rule succeeds_ret, simp add: note_inspection_def)
    done
qed

lemma demo_plan_locked:
  "succeeds (\<lambda>t. t = demo_object_tree) (plan_retention_locked demo_snap demo_store 1000 retention_policy_default)
     (\<lambda>plan t. t = demo_object_tree)"
proof -
  let ?found = "[(Objects, demo_name)]"
  have objects: "succeeds (\<lambda>t. t = demo_object_tree) (collect_entries (st_objects demo_store) Objects [])
      (\<lambda>r t. t = demo_object_tree \<and> r = ?found)"
    unfolding collect_entries_def
    by (rule succeeds_perform [OF succeeds_lift_err [OF succeeds_sys_entries]])
      (rule succeeds_of_result, simp add: demo_names MAX_SNAPSHOT_SCAN_ENTRIES_def)
  have staging: "succeeds (\<lambda>t. t = demo_object_tree) (collect_entries (st_staging demo_store) Staging ?found)
      (\<lambda>r t. t = demo_object_tree \<and> r = ?found)"
    unfolding collect_entries_def
    by (rule succeeds_perform [OF succeeds_lift_err [OF succeeds_sys_entries]])
      (rule succeeds_of_result, simp add: demo_names)
  have ok: "is_ok (finish_plan demo_snap retention_policy_default 1000 1 s)"
    if "sc_manifests s = [demo_manifest 5 100]" for s
  proof -
    have v: "is_ok (manifest_validate demo_snap (demo_manifest 5 100))"
        "is_ok (canonical_manifest_bytes demo_snap (demo_manifest 5 100))"
        "logical_size demo_snap (demo_manifest 5 100) = 186"
      by code_simp+
    then have "manifests_ok demo_snap [demo_manifest 5 100]" by (simp add: manifests_ok_def is_ok_iff)
    then show ?thesis
      using v plan_manifests_spec [of demo_snap "[demo_manifest 5 100]" retention_policy_default 1000]
        logical_sizes_of_eq [of "[demo_manifest 5 100]" demo_snap]
      by (simp add: finish_plan_def that Let_def is_ok_iff checked_sum_eq)
  qed
  show ?thesis
    unfolding plan_retention_locked_def
    apply (rule succeeds_perform [OF objects])
    apply (rule succeeds_pull, clarsimp)
    apply (rule succeeds_perform [OF staging])
    apply (rule succeeds_pull, clarsimp simp: demo_names)
    apply (rule succeeds_perform [OF succeeds_perform [OF demo_inspect_entry]], simp, rule succeeds_ret, assumption)
    apply (rule succeeds_of_result)
    using ok by (auto simp: is_ok_iff)
qed

end
