(* ===== verification/Snapshot_Properties.thy ===== *)
theory Snapshot_Properties
  imports Concrete_Snapshots
begin

text \<open>
  The properties of the snapshot store and of its retention: publication only adds, an interrupted
  publication converges on retry, and the retention plan implements its policy on verified objects.
\<close>

section \<open>Publication\<close>

text \<open>
  C8: Whatever system calls fail and wherever the process dies, publishing a snapshot changes nothing
  outside the two directories of the store, leaves every object already present as it was, leaves
  every other entry of the staging directory as it was, keeps a staged copy of the same snapshot in
  place or moves it whole to its object path, and makes no object appear other than the complete
  and verified one of this manifest.\<close>

theorem publish_is_append_only:
  assumes "store_layout st" and "uuid_text_ok S"
    and "t = w_tree w" and "u = w_tree (snd (publish S st m payload w))"
  shows "(\<not> prefix (st_staging st) p \<and> \<not> prefix (st_objects st) p \<longrightarrow> node_at u p = node_at t p)
    \<and> (occupied t (st_objects st @ [n]) \<longrightarrow> node_at u (st_objects st @ n # r) = node_at t (st_objects st @ n # r))
    \<and> (n \<noteq> uuid_string S (sm_snapshot_id m) \<and> occupied t (st_staging st @ [n])
        \<longrightarrow> node_at u (st_staging st @ n # r) = node_at t (st_staging st @ n # r))
    \<and> (occupied t (staged_path S st m)
        \<longrightarrow> (\<forall>q. node_at u (staged_path S st m @ q) = node_at t (staged_path S st m @ q))
          \<or> (\<forall>q. node_at u (object_path S st m @ q) = node_at t (staged_path S st m @ q)))
    \<and> (occupied u (st_objects st @ [n]) \<and> \<not> occupied t (st_objects st @ [n])
        \<longrightarrow> n = uuid_string S (sm_snapshot_id m) \<and> object_holds S m u (object_path S st m))"
proof -
  have k: "publish_keeps S st m t u" using publish_keeps_evidence [OF assms(1,2)] assms(3,4) by simp
  have at: "node_at u (p @ n # r) = node_at t (p @ n # r)" if "same_below t u (p @ [n])" for p
    using that by (simp add: same_below_def)
  have "node_at u p = node_at t p" if "\<not> prefix (st_staging st) p" "\<not> prefix (st_objects st) p"
    using k that by (simp add: publish_keeps_def)
  moreover have "node_at u (st_objects st @ n # r) = node_at t (st_objects st @ n # r)"
    if "occupied t (st_objects st @ [n])"
    using k that by (intro at) (simp add: publish_keeps_def)
  moreover have "node_at u (st_staging st @ n # r) = node_at t (st_staging st @ n # r)"
    if "n \<noteq> uuid_string S (sm_snapshot_id m)" "occupied t (st_staging st @ [n])"
    using k that by (intro at) (simp add: publish_keeps_def)
  moreover have "(\<forall>q. node_at u (staged_path S st m @ q) = node_at t (staged_path S st m @ q))
      \<or> (\<forall>q. node_at u (object_path S st m @ q) = node_at t (staged_path S st m @ q))"
    if "occupied t (staged_path S st m)"
    using k that by (auto simp: publish_keeps_def same_below_def)
  moreover have "n = uuid_string S (sm_snapshot_id m) \<and> object_holds S m u (object_path S st m)"
    if "occupied u (st_objects st @ [n])" "\<not> occupied t (st_objects st @ [n])"
  proof -
    have "st_objects st @ [n] = object_path S st m \<and> object_holds S m u (object_path S st m)"
      using k that unfolding publish_keeps_def by blast
    then show ?thesis by (simp add: object_path_def)
  qed
  ultimately show ?thesis by blast
qed

text \<open>Another snapshot survives a publication that dies at its thirtieth system call.\<close>

theorem publish_is_append_only_witness:
  "node_at (w_tree (snd (publish demo_snap demo_store (demo_manifest 5 100) demo_payload
      ((crash_world 30)\<lparr>w_tree := ([OBJECTS_DIRECTORY, ''x''], DirNode 9 True) # demo_tree\<rparr>))))
    [OBJECTS_DIRECTORY, ''x''] = Some (DirNode 9 True)"
proof -
  let ?w = "(crash_world 30)\<lparr>w_tree := ([OBJECTS_DIRECTORY, ''x''], DirNode 9 True) # demo_tree\<rparr>"
  have "store_layout demo_store" by code_simp
  from publish_is_append_only [OF this demo_uuid_text_ok refl refl,
      where w = ?w and m = "demo_manifest 5 100" and payload = demo_payload and n = "''x''" and r = "[]"]
  show ?thesis by (auto simp: occupied_def demo_store_def node_at_def)
qed

text \<open>
  C9: Publication is resumable. Start from a tree that holds nothing, a complete staged copy or a
  complete object for the snapshot, run any number of publications of it under arbitrary failures
  and crashes, then publish once more without failures and with one unused work name among the 32
  drawn: that call succeeds, the object is in place, complete and verified, and inspecting it
  returns the manifest.\<close>

theorem publish_retry_converges:
  assumes lay: "store_layout st" and ids: "uuid_text_ok S" and json: "manifest_json_ok S"
    and pre: "publish_preconditions S st m payload = Inr bytes"
    and "lock_ok st start" and "slot_ok S st m start"
    and t: "w_tree w = after_attempts S st m payload start attempts"
    and calm: "calm w" and fresh: "fresh_work_name S st m w"
  shows "\<exists>outcome w'. publish S st m payload w = (Inr outcome, w')
    \<and> object_holds S m (w_tree w') (object_path S st m)
    \<and> fst (inspect S st (sm_snapshot_id m) w') = Inr (Supported Objects m)"
proof -
  have k: "publish_keeps S st m start (w_tree w)" unfolding t by (rule after_attempts_keeps [OF lay ids])
  have lock: "lock_ok st (w_tree w)" using lock_ok_kept [OF lay k] assms(5) .
  have slot: "slot_ok S st m (w_tree w)" using k assms(6) unfolding publish_keeps_def by blast
  obtain r w' where p: "publish S st m payload w = (Inr r, w')" "calm w'"
      "object_holds S m (w_tree w') (object_path S st m)"
    by (rule publish_succeeds [OF lay ids json pre lock slot calm fresh])
  have "publish_keeps S st m (w_tree w) (w_tree w')"
    using publish_keeps_evidence [OF lay ids, of m w payload] p(1) by simp
  with slot have "slot_ok S st m (w_tree w')" unfolding publish_keeps_def by blast
  moreover have "occupied (w_tree w') (object_path S st m)"
    using p(3) by (auto simp: object_holds_def dir_holds_def occupied_iff intro: exI [of _ "[]"])
  ultimately have "\<not> occupied (w_tree w') (staged_path S st m)" by (simp add: slot_ok_def)
  moreover have "\<not> is_nil (sm_snapshot_id m)" "sm_vault_id m = st_vault_id st"
    using pre by (auto simp: publish_preconditions_def dest: manifest_validate_ids split: if_splits)
  ultimately have "fst (inspect S st (sm_snapshot_id m) w') = Inr (Supported Objects m)"
    by (intro inspect_succeeds [OF ids json p(2,3)]) auto
  with p show ?thesis by blast
qed

theorem publish_retry_converges_witness:
  "object_holds demo_snap (demo_manifest 5 100)
     (w_tree (snd (publish demo_snap demo_store (demo_manifest 5 100) demo_payload (calm_world demo_tree 0))))
     (object_path demo_snap demo_store (demo_manifest 5 100))"
proof -
  let ?m = "demo_manifest 5 100"
  have pre: "publish_preconditions demo_snap demo_store ?m demo_payload
      = Inr (the (manifest_to_vec demo_snap ?m))" by code_simp
  have lay: "store_layout demo_store" and lock: "lock_ok demo_store demo_tree"
    by (simp_all add: store_layout_def demo_store_def lock_ok_def demo_tree_def node_at_def)
  have free: "\<not> occupied demo_tree [d, n]" for d n
    by (simp add: occupied_def demo_tree_def)
  have slot: "slot_ok demo_snap demo_store ?m demo_tree"
    by (simp add: slot_ok_def object_path_def staged_path_def demo_store_def free)
  have gone: "w_tree (calm_world demo_tree 0)
      = after_attempts demo_snap demo_store ?m demo_payload demo_tree [crash_world 0]"
    by (simp add: calm_world_def publish_def with_operation_lock_def acquire_operation_lock_def perform_def
        lift_err_def sys_metadata_def syscall_def crash_world_def tick_def map_err_def Let_def)
  have fresh: "fresh_work_name demo_snap demo_store ?m (calm_world demo_tree 0)"
    unfolding fresh_work_name_def
    by (intro exI [of _ 0]) (simp add: work_path_def demo_store_def calm_world_def free)
  show ?thesis
    using publish_retry_converges [OF lay demo_uuid_text_ok demo_manifest_json_ok pre lock slot gone _ fresh]
    by auto
qed

section \<open>Retention\<close>

text \<open>
  C10: The retention selection succeeds exactly on valid manifests of one vault with distinct
  identifiers whose sizes sum up within 64 bits, and then returns, oldest first, every manifest
  that is past the age limit, has at least the allowed number of newer snapshots in its lineage,
  or exceeds the size limit together with everything newer; each with exactly the reasons that
  apply.\<close>

theorem plan_manifests_is_the_reference:
  "plan_manifests S policy now ms = Inr cands \<longleftrightarrow>
     manifests_ok S ms \<and> sum_list (map (logical_size S) ms) < 2 ^ 64 \<and> cands = retention_spec S policy now ms"
  using plan_manifests_ok [of S policy now ms cands] plan_manifests_spec [of S ms policy now] by auto

text \<open>
  C11: Retiring everything the selection names leaves a store that obeys the policy: no snapshot
  past the age limit, at most the allowed number of snapshots per lineage, and at most the allowed
  number of bytes.\<close>

theorem retention_meets_policy:
  assumes "plan_manifests S policy now ms = Inr cands" and "kept = survivors cands ms"
  shows "filter (too_old policy now) kept = []
    \<and> length (filter (\<lambda>m. lineage_of S m = key) kept) \<le> max_per_lineage policy
    \<and> sum_list (map (logical_size S) kept) \<le> unat (max_logical_bytes policy)"
proof -
  note ok = plan_manifests_ok [OF assms(1)]
  have c: "cands = retention_spec S policy now ms" using plan_manifests_spec [OF ok] assms(1) by simp
  note meets = survivors_meet_policy [OF ok(1) assms(2) [unfolded c]]
  show ?thesis using meets by (auto simp: filter_empty_conv)
qed

text \<open>Three snapshots of one note, of which the policy keeps one.\<close>

theorem retention_meets_policy_witness:
  "length (filter (\<lambda>m. lineage_of demo_snap m = ''a.md'') (survivors
     (retention_spec demo_snap \<lparr>max_age_ms = 50, max_per_lineage = 1, max_logical_bytes = 1000\<rparr> 100
        [demo_manifest 5 90, demo_manifest 6 95, demo_manifest 8 20])
     [demo_manifest 5 90, demo_manifest 6 95, demo_manifest 8 20])) \<le> 1"
proof -
  have "logical_size demo_snap (demo_manifest 5 90) = 186" "logical_size demo_snap (demo_manifest 6 95) = 186"
      "logical_size demo_snap (demo_manifest 8 20) = 186"
    by code_simp+
  then have fit: "sum_list (map (logical_size demo_snap)
      [demo_manifest 5 90, demo_manifest 6 95, demo_manifest 8 20]) < 2 ^ 64" by simp
  show ?thesis
    using retention_meets_policy [OF plan_manifests_spec [OF demo_manifests_ok fit] refl,
      where key = "''a.md''" and policy = "\<lparr>max_age_ms = 50, max_per_lineage = 1, max_logical_bytes = 1000\<rparr>"
        and now = 100] by simp
qed

text \<open>
  Planning retention changes nothing on disk, and a plan it returns is the selection, cut at
  the candidate cap, from manifests of this vault whose complete and verified objects are in the
  store.\<close>

theorem retention_plan_is_sound:
  assumes ids: "uuid_text_ok S" and json: "manifest_json_ok S"
    and run: "plan_retention S st now policy w = (Inr plan, w')"
  shows "w_tree w' = w_tree w \<and> (\<exists>ms. distinct (map sm_snapshot_id ms)
     \<and> list_all (\<lambda>m. sm_vault_id m = st_vault_id st \<and> object_holds S m (w_tree w) (object_path S st m)) ms
     \<and> rp_supported_objects plan = length ms
     \<and> rp_candidates plan = take MAX_RETENTION_CANDIDATES (retention_spec S policy now ms))"
proof -
  have same: "w_tree w' = w_tree w"
    using reads_tree [OF reads_plan_retention, of S st now policy w] run by simp
  have "plan_sound S st policy now (w_tree w') plan"
    by (rule learnsD [OF learns_plan_retention [OF ids json] run])
  then show ?thesis unfolding plan_sound_def same list_all_iff using same by blast
qed

theorem retention_plan_is_sound_witness:
  "\<exists>plan w'. plan_retention demo_snap demo_store 1000 retention_policy_default (calm_world demo_object_tree 0)
      = (Inr plan, w') \<and> w_tree w' = demo_object_tree"
proof -
  have lock: "lock_ok demo_store demo_object_tree"
    by (simp add: lock_ok_def demo_store_def demo_object_tree_def demo_tree_def node_at_def)
  have "succeeds (\<lambda>t. t = demo_object_tree) (plan_retention demo_snap demo_store 1000 retention_policy_default)
     (\<lambda>_ t. t = demo_object_tree)"
    unfolding plan_retention_def by (rule succeeds_with_operation_lock [OF demo_plan_locked]) (simp_all add: lock)
  then obtain plan w' where run: "plan_retention demo_snap demo_store 1000 retention_policy_default
      (calm_world demo_object_tree 0) = (Inr plan, w')"
    unfolding succeeds_def by (auto dest!: spec [of _ "calm_world demo_object_tree 0"])
  show ?thesis
    using retention_plan_is_sound [OF demo_uuid_text_ok demo_manifest_json_ok run] run by auto
qed

end
