(* ===== verification/Quarantine_Plan.thy ===== *)
theory Quarantine_Plan
  imports Snapshot_Retention
begin

text \<open>
  The records of \<open>crates/myvault-snapshots/src/quarantine.rs\<close>: plans, markers, the names of the
  files of a run, and their validation. \<open>serde_json\<close> is the record \<open>gc_json\<close>. The fault injection
  points of the source exist in its tests only.
\<close>

section \<open>Constants\<close>

definition QUARANTINE :: string where "QUARANTINE = ''quarantine''"
definition Q_VERSION :: string where "Q_VERSION = ''v1''"
definition RUNS :: string where "RUNS = ''runs''"
definition WORK :: string where "WORK = ''work''"
definition PLAN :: string where "PLAN = ''plan.json''"
definition COMPLETE :: string where "COMPLETE = ''complete.json''"
definition TERMINAL_PREFIX :: string where "TERMINAL_PREFIX = ''.completed.''"
definition TERMINAL_SUFFIX :: string where "TERMINAL_SUFFIX = ''.json''"
definition TERMINAL_ATTEMPT_PREFIX :: string where "TERMINAL_ATTEMPT_PREFIX = ''.completed-attempt.''"
definition ITEMS :: string where "ITEMS = ''items''"
definition STATE :: string where "STATE = ''state''"
definition MARKER_STAGING :: string where "MARKER_STAGING = ''marker-staging''"
definition MAX_PLAN_BYTES :: nat where "MAX_PLAN_BYTES = 128 * 1024"
definition MAX_RUNS :: nat where "MAX_RUNS = 128"
definition MAX_PHYSICAL_RUN_ENTRIES :: nat where "MAX_PHYSICAL_RUN_ENTRIES = 512"

section \<open>Records\<close>

record gc_candidate =
  gc_snapshot_id :: uuid
  gc_manifest_blake3 :: string
  gc_payload_blake3 :: string
  gc_payload_bytes :: u64
  gc_logical_bytes :: u64
  gc_created_at_unix_ms :: u64
  gc_lineage_key :: string
  gc_lineage_blake3 :: string
  gc_reasons :: "retention_reason list"

record gc_plan =
  gp_version :: u32
  gp_run_id :: uuid
  gp_vault_id :: uuid
  gp_policy :: retention_policy
  gp_evaluated_at_unix_ms :: u64
  gp_candidates :: "gc_candidate list"
  gp_plan_blake3 :: string

record unsigned_plan =
  up_version :: u32
  up_run_id :: uuid
  up_vault_id :: uuid
  up_policy :: retention_policy
  up_evaluated_at_unix_ms :: u64
  up_candidates :: "gc_candidate list"

record completion_marker =
  cm_version :: u32
  cm_run_id :: uuid
  cm_vault_id :: uuid
  cm_plan_blake3 :: string

record detached_marker =
  dm_version :: u32
  dm_run_id :: uuid
  dm_snapshot_id :: uuid
  dm_plan_blake3 :: string

record gc_json =
  plan_to_vec :: "gc_plan \<Rightarrow> string option"
  plan_parse :: "string \<Rightarrow> gc_plan option"
  unsigned_to_vec :: "unsigned_plan \<Rightarrow> string option"
  detached_to_vec :: "detached_marker \<Rightarrow> string option"
  detached_parse :: "string \<Rightarrow> detached_marker option"
  completion_to_vec :: "completion_marker \<Rightarrow> string option"
  completion_parse :: "string \<Rightarrow> completion_marker option"

definition completion_from_plan :: "gc_plan \<Rightarrow> completion_marker" where
  "completion_from_plan plan = \<lparr>cm_version = 1, cm_run_id = gp_run_id plan,
     cm_vault_id = gp_vault_id plan, cm_plan_blake3 = gp_plan_blake3 plan\<rparr>"

section \<open>Names\<close>

definition split_once :: "char \<Rightarrow> string \<Rightarrow> (string \<times> string) option" where
  "split_once c s =
     (if c \<in> set s then Some (takeWhile (\<lambda>x. x \<noteq> c) s, tl (dropWhile (\<lambda>x. x \<noteq> c) s)) else None)"

definition marker_name :: "snap_libs \<Rightarrow> uuid \<Rightarrow> string" where
  "marker_name S u = uuid_string S u @ ''.json''"

definition marker_attempt_name :: "snap_libs \<Rightarrow> uuid \<Rightarrow> uuid \<Rightarrow> string" where
  "marker_attempt_name S u fresh = uuid_string S u @ ''.'' @ uuid_string S fresh @ ''.tmp''"

definition parse_uuid_pair :: "snap_libs \<Rightarrow> string \<Rightarrow> (uuid \<times> uuid) option" where
  "parse_uuid_pair S text = (case split_once CHR ''.'' text of
       None \<Rightarrow> None
     | Some (a, b) \<Rightarrow> (case (canonical_snapshot_id S a, canonical_snapshot_id S b) of
         (Some u, Some v) \<Rightarrow> Some (u, v) | _ \<Rightarrow> None))"

definition parse_marker_attempt :: "snap_libs \<Rightarrow> string \<Rightarrow> (uuid \<times> uuid) option" where
  "parse_marker_attempt S name = (case strip_suffix name ''.tmp'' of
       None \<Rightarrow> None | Some stem \<Rightarrow> parse_uuid_pair S stem)"

definition terminal_name :: "snap_libs \<Rightarrow> uuid \<Rightarrow> string" where
  "terminal_name S run_id = TERMINAL_PREFIX @ uuid_string S run_id @ TERMINAL_SUFFIX"

definition parse_terminal_name :: "snap_libs \<Rightarrow> string \<Rightarrow> uuid option" where
  "parse_terminal_name S name = (case strip_prefix name TERMINAL_PREFIX of
       None \<Rightarrow> None
     | Some rest \<Rightarrow> (case strip_suffix rest TERMINAL_SUFFIX of
         None \<Rightarrow> None | Some text \<Rightarrow> canonical_snapshot_id S text))"

definition terminal_attempt_prefix :: "snap_libs \<Rightarrow> uuid \<Rightarrow> string" where
  "terminal_attempt_prefix S run_id = TERMINAL_ATTEMPT_PREFIX @ uuid_string S run_id @ ''.''"

definition terminal_attempt_name :: "snap_libs \<Rightarrow> uuid \<Rightarrow> uuid \<Rightarrow> string" where
  "terminal_attempt_name S run_id attempt_id =
     terminal_attempt_prefix S run_id @ uuid_string S attempt_id @ ''.tmp''"

definition parse_terminal_attempt :: "snap_libs \<Rightarrow> string \<Rightarrow> (uuid \<times> uuid) option" where
  "parse_terminal_attempt S name = (case strip_prefix name TERMINAL_ATTEMPT_PREFIX of
       None \<Rightarrow> None
     | Some rest \<Rightarrow> (case strip_suffix rest ''.tmp'' of
         None \<Rightarrow> None | Some text \<Rightarrow> parse_uuid_pair S text))"

definition parse_completion_attempt :: "snap_libs \<Rightarrow> string \<Rightarrow> uuid option" where
  "parse_completion_attempt S name = (case strip_prefix name ''.complete-'' of
       None \<Rightarrow> None
     | Some rest \<Rightarrow> (case strip_suffix rest ''.tmp'' of
         None \<Rightarrow> None | Some text \<Rightarrow> canonical_snapshot_id S text))"

text \<open>Names in byte order, as \<open>sort\<close> puts them.\<close>

fun insert_name :: "string \<Rightarrow> string list \<Rightarrow> string list" where
  "insert_name n [] = [n]"
| "insert_name n (m # ms) = (if lex_le (map byte n) (map byte m) then n # m # ms else m # insert_name n ms)"

definition sort_names :: "string list \<Rightarrow> string list" where
  "sort_names ns = foldr insert_name ns []"

section \<open>Validation\<close>

definition plan_digest :: "snap_libs \<Rightarrow> gc_json \<Rightarrow> gc_plan \<Rightarrow> snapshot_error + string" where
  "plan_digest S J plan =
     and_then (ok_or (unsigned_to_vec J \<lparr>up_version = gp_version plan, up_run_id = gp_run_id plan,
       up_vault_id = gp_vault_id plan, up_policy = gp_policy plan,
       up_evaluated_at_unix_ms = gp_evaluated_at_unix_ms plan,
       up_candidates = gp_candidates plan\<rparr>) SnapJson) (\<lambda>bytes. Inr (blake3_to_hex S bytes))"

definition ordered_reasons :: "retention_reason list \<Rightarrow> retention_reason list" where
  "ordered_reasons rs = filter (\<lambda>r. r \<in> set rs) [Age, LineageCount, TotalSize]"

definition candidate_invalid :: "snap_libs \<Rightarrow> gc_candidate \<Rightarrow> bool" where
  "candidate_invalid S c = (is_nil (gc_snapshot_id c) \<or> \<not> is_digest (gc_manifest_blake3 c)
     \<or> \<not> is_digest (gc_payload_blake3 c) \<or> gc_payload_bytes c > of_nat MAX_PAYLOAD_BYTES
     \<or> gc_logical_bytes c < gc_payload_bytes c
     \<or> gc_logical_bytes c - gc_payload_bytes c > of_nat MAX_MANIFEST_BYTES
     \<or> gc_reasons c = [] \<or> length (ordered_reasons (gc_reasons c)) \<noteq> length (gc_reasons c)
     \<or> ordered_reasons (gc_reasons c) \<noteq> gc_reasons c
     \<or> gc_lineage_blake3 c \<noteq> blake3_to_hex S (gc_lineage_key c))"

definition validate_plan :: "snap_libs \<Rightarrow> gc_json \<Rightarrow> gc_plan \<Rightarrow> uuid \<Rightarrow> snapshot_error + unit" where
  "validate_plan S J plan vault_id =
     (if gp_version plan \<noteq> 1 \<or> is_nil (gp_run_id plan) \<or> gp_vault_id plan \<noteq> vault_id
         \<or> gp_candidates plan = [] \<or> length (gp_candidates plan) > MAX_RETENTION_CANDIDATES
      then Inl InvalidGcPlan
      else and_then (plan_digest S J plan) (\<lambda>digest.
      if gp_plan_blake3 plan \<noteq> digest then Inl InvalidGcPlan
      else if \<not> distinct (map gc_snapshot_id (gp_candidates plan))
              \<or> list_ex (candidate_invalid S) (gp_candidates plan) then Inl InvalidGcPlan
      else and_then (ok_or (plan_to_vec J plan) SnapJson) (\<lambda>bytes.
      if length bytes > MAX_PLAN_BYTES then Inl GcPlanTooLarge else Inr ())))"

text \<open>The stored bytes of a plan: canonical, valid and of the expected run.\<close>

definition check_plan_bytes ::
    "snap_libs \<Rightarrow> gc_json \<Rightarrow> snapshot_error \<Rightarrow> snapshot_error \<Rightarrow> uuid \<Rightarrow> uuid \<Rightarrow> string
      \<Rightarrow> snapshot_error + gc_plan" where
  "check_plan_bytes S J malformed mismatch run_id vault_id bytes =
     and_then (ok_or (plan_parse J bytes) malformed) (\<lambda>plan.
     and_then (validate_plan S J plan vault_id) (\<lambda>_.
     and_then (ok_or (plan_to_vec J plan) SnapJson) (\<lambda>again.
     if again \<noteq> bytes \<or> gp_run_id plan \<noteq> run_id then Inl mismatch else Inr plan)))"

definition marker_of :: "gc_plan \<Rightarrow> gc_candidate \<Rightarrow> detached_marker" where
  "marker_of plan c = \<lparr>dm_version = 1, dm_run_id = gp_run_id plan, dm_snapshot_id = gc_snapshot_id c,
     dm_plan_blake3 = gp_plan_blake3 plan\<rparr>"

definition check_marker_bytes ::
    "gc_json \<Rightarrow> snapshot_error \<Rightarrow> gc_plan \<Rightarrow> gc_candidate \<Rightarrow> string \<Rightarrow> snapshot_error + unit" where
  "check_marker_bytes J malformed plan c bytes =
     and_then (ok_or (detached_parse J bytes) malformed) (\<lambda>marker.
     and_then (ok_or (detached_to_vec J marker) SnapJson) (\<lambda>again.
     if again \<noteq> bytes \<or> dm_version marker \<noteq> 1 \<or> dm_run_id marker \<noteq> gp_run_id plan
        \<or> dm_snapshot_id marker \<noteq> gc_snapshot_id c \<or> dm_plan_blake3 marker \<noteq> gp_plan_blake3 plan
     then Inl QuarantineCollision else Inr ()))"

definition validate_completion_standalone ::
    "gc_json \<Rightarrow> string \<Rightarrow> uuid \<Rightarrow> uuid \<Rightarrow> snapshot_error + completion_marker" where
  "validate_completion_standalone J bytes run_id vault_id =
     and_then (ok_or (completion_parse J bytes) SnapJson) (\<lambda>marker.
     and_then (ok_or (completion_to_vec J marker) SnapJson) (\<lambda>again.
     if again \<noteq> bytes \<or> cm_version marker \<noteq> 1 \<or> cm_run_id marker \<noteq> run_id
        \<or> cm_vault_id marker \<noteq> vault_id \<or> \<not> is_digest (cm_plan_blake3 marker)
     then Inl QuarantineCollision else Inr marker))"

definition validate_completion :: "gc_json \<Rightarrow> string \<Rightarrow> gc_plan \<Rightarrow> snapshot_error + unit" where
  "validate_completion J bytes plan =
     and_then (validate_completion_standalone J bytes (gp_run_id plan) (gp_vault_id plan)) (\<lambda>marker.
     if cm_plan_blake3 marker \<noteq> gp_plan_blake3 plan then Inl QuarantineCollision else Inr ())"

text \<open>What ties the object of a directory to a candidate.\<close>

definition manifest_bound :: "snap_libs \<Rightarrow> gc_candidate \<Rightarrow> snapshot_manifest \<Rightarrow> string \<Rightarrow> snapshot_error + unit" where
  "manifest_bound S c manifest bytes =
     (if blake3_to_hex S bytes \<noteq> gc_manifest_blake3 c
         \<or> blake3_hex (sm_revision manifest) \<noteq> gc_payload_blake3 c
         \<or> byte_len (sm_revision manifest) \<noteq> gc_payload_bytes c
         \<or> sm_created_at_unix_ms manifest \<noteq> gc_created_at_unix_ms c
      then Inl QuarantineCollision
      else and_then (map_err (\<lambda>_. QuarantineCollision) (lineage_key (sl_libs S) manifest)) (\<lambda>key.
      if key \<noteq> gc_lineage_key c \<or> blake3_to_hex S key \<noteq> gc_lineage_blake3 c
      then Inl QuarantineCollision else Inr ()))"

definition verify_bound :: "snap_libs \<Rightarrow> fs_path \<Rightarrow> gc_candidate \<Rightarrow> uuid \<Rightarrow> unit snap" where
  "verify_bound S directory c vault_id =
     perform (inspect_whole_object S directory Objects (gc_snapshot_id c) vault_id) (\<lambda>(evidence, logical).
     perform (of_result evidence) (\<lambda>e. case e of
       EvidenceUnsupported _ _ _ _ _ \<Rightarrow> fail QuarantineCollision
     | Supported _ manifest \<Rightarrow>
         perform (read_private_file directory MANIFEST_FILE MAX_MANIFEST_BYTES) (\<lambda>bytes.
         if of_nat logical \<noteq> gc_logical_bytes c then fail QuarantineCollision
         else of_result (manifest_bound S c manifest bytes))))"

definition bind_candidate :: "snap_libs \<Rightarrow> snapshot_store \<Rightarrow> retention_candidate \<Rightarrow> gc_candidate snap" where
  "bind_candidate S st candidate =
     (let name = uuid_string S (rc_snapshot_id candidate) in
      perform (pf (open_private_dir (st_objects st) name)) (\<lambda>source.
      perform (inspect_whole_object S source Objects (rc_snapshot_id candidate) (st_vault_id st)) (\<lambda>(evidence, logical).
      perform (of_result evidence) (\<lambda>e. case e of
        EvidenceUnsupported _ _ _ _ _ \<Rightarrow> fail InvalidGcPlan
      | Supported _ manifest \<Rightarrow>
          perform (read_private_file source MANIFEST_FILE MAX_MANIFEST_BYTES) (\<lambda>bytes.
          perform (of_result (lineage_key (sl_libs S) manifest)) (\<lambda>key.
          ret \<lparr>gc_snapshot_id = rc_snapshot_id candidate, gc_manifest_blake3 = blake3_to_hex S bytes,
            gc_payload_blake3 = blake3_hex (sm_revision manifest),
            gc_payload_bytes = byte_len (sm_revision manifest), gc_logical_bytes = of_nat logical,
            gc_created_at_unix_ms = sm_created_at_unix_ms manifest, gc_lineage_key = key,
            gc_lineage_blake3 = blake3_to_hex S key, gc_reasons = rc_reasons candidate\<rparr>))))))"

end
