(* ===== verification/Quarantine_Detach.thy ===== *)
theory Quarantine_Detach
  imports Quarantine_Plan
begin

text \<open>
  \<open>SnapshotStore::quarantine_retention\<close>: a durable plan is published first, then every candidate is
  moved from \<open>objects\<close> into the items of the run and marked as detached. Existing runs are resumed
  before a new one is planned.
\<close>

record run_dirs =
  rd_items :: fs_path
  rd_state :: fs_path
  rd_marker_staging :: fs_path

section \<open>Errors after a detachment\<close>

definition sync_detached :: "gc_plan \<Rightarrow> gc_candidate \<Rightarrow> fs_path \<Rightarrow> durability_boundary \<Rightarrow> unit snap" where
  "sync_detached plan c directory boundary =
     lift_err (DetachedButNotSynced (gp_run_id plan) (gc_snapshot_id c) boundary)
       (sync_published directory boundary)"

abbreviation detached_unknown :: "gc_plan \<Rightarrow> gc_candidate \<Rightarrow> snapshot_error \<Rightarrow> snapshot_error" where
  "detached_unknown plan c \<equiv> DetachedOutcomeUnknown (gp_run_id plan) (gc_snapshot_id c)"

fun preserve_detached_error :: "uuid \<Rightarrow> uuid \<Rightarrow> snapshot_error \<Rightarrow> snapshot_error" where
  "preserve_detached_error run_id snapshot_id (DetachedButNotSynced r s b e) = DetachedButNotSynced r s b e"
| "preserve_detached_error run_id snapshot_id (DetachedOutcomeUnknown r s e) = DetachedOutcomeUnknown r s e"
| "preserve_detached_error run_id snapshot_id other = DetachedOutcomeUnknown run_id snapshot_id other"

section \<open>The contents of a run\<close>

definition names_allowed :: "string set \<Rightarrow> string list \<Rightarrow> bool" where
  "names_allowed allowed names = list_all (\<lambda>name. valid_utf8 name \<and> name \<in> allowed) names"

fun check_staged_markers ::
    "snap_libs \<Rightarrow> fs_path \<Rightarrow> uuid list \<Rightarrow> uuid list \<Rightarrow> string list \<Rightarrow> unit snap" where
  "check_staged_markers S marker_staging planned seen [] = ret ()"
| "check_staged_markers S marker_staging planned seen (name # names) =
     (if \<not> valid_utf8 name then fail QuarantineCollision
      else case parse_marker_attempt S name of
        None \<Rightarrow> fail QuarantineCollision
      | Some (snapshot_id, _) \<Rightarrow>
          if uuid_string S snapshot_id \<notin> set (map (uuid_string S) planned) then fail QuarantineCollision
          else perform (lift_err (\<lambda>_. QuarantineCollision)
            (read_private_file marker_staging name MAX_MANIFEST_BYTES)) (\<lambda>_.
          if count_list seen snapshot_id + 1 > 4 \<or> length seen + 1 > length planned * 4
          then fail QuarantineCollision
          else check_staged_markers S marker_staging planned (snapshot_id # seen) names))"

definition validate_plan_children :: "snap_libs \<Rightarrow> gc_plan \<Rightarrow> run_dirs \<Rightarrow> unit snap" where
  "validate_plan_children S plan d =
     (let planned = map gc_snapshot_id (gp_candidates plan) in
      perform (io (sys_entries (rd_items d))) (\<lambda>items.
      perform (require (names_allowed (set (map (uuid_string S) planned)) items) QuarantineCollision) (\<lambda>_.
      perform (io (sys_entries (rd_state d))) (\<lambda>state.
      perform (require (names_allowed (set (map (marker_name S) planned)) state) QuarantineCollision) (\<lambda>_.
      perform (io (sys_entries (rd_marker_staging d))) (\<lambda>staged.
      check_staged_markers S (rd_marker_staging d) planned [] staged))))))"

definition validate_run_entries :: "fs_path \<Rightarrow> unit snap" where
  "validate_run_entries run =
     perform (io (sys_entries run)) (\<lambda>names.
     require (length names \<le> 4 \<and> sort_names names = [ITEMS, MARKER_STAGING, PLAN, STATE]) InvalidGcPlan)"

section \<open>Markers\<close>

fun find_attempt :: "fs_path \<Rightarrow> string \<Rightarrow> string list \<Rightarrow> string option snap" where
  "find_attempt directory bytes [] = ret None"
| "find_attempt directory bytes (name # names) =
     perform (read_private_file directory name MAX_MANIFEST_BYTES) (\<lambda>actual.
     if actual = bytes then ret (Some name) else find_attempt directory bytes names)"

definition own_marker_attempts :: "snap_libs \<Rightarrow> uuid \<Rightarrow> string list \<Rightarrow> snapshot_error + string list" where
  "own_marker_attempts S snapshot_id names =
     (if \<not> list_all valid_utf8 names then Inl QuarantineCollision
      else Inr (sort_names (filter (\<lambda>name.
        is_some_and (parse_marker_attempt S name) (\<lambda>p. fst p = snapshot_id)) names)))"

definition sync_marker_parents :: "gc_plan \<Rightarrow> gc_candidate \<Rightarrow> run_dirs \<Rightarrow> unit snap" where
  "sync_marker_parents plan c d =
     perform (sync_detached plan c (rd_state d) QuarantineState) (\<lambda>_.
     sync_detached plan c (rd_marker_staging d) QuarantineMarkerStaging)"

definition publish_marker ::
    "snap_libs \<Rightarrow> gc_json \<Rightarrow> run_dirs \<Rightarrow> gc_plan \<Rightarrow> gc_candidate \<Rightarrow> unit snap" where
  "publish_marker S J d plan c =
     (let name = marker_name S (gc_snapshot_id c) in
      perform (of_result (ok_or (detached_to_vec J (marker_of plan c)) SnapJson)) (\<lambda>bytes.
      perform (read_optional_private_file (rd_state d) name MAX_MANIFEST_BYTES) (\<lambda>existing. case existing of
        Some actual \<Rightarrow> if actual \<noteq> bytes then fail QuarantineCollision else sync_marker_parents plan c d
      | None \<Rightarrow>
          perform (io (sys_entries (rd_marker_staging d))) (\<lambda>names.
          perform (of_result (own_marker_attempts S (gc_snapshot_id c) names)) (\<lambda>attempts.
          perform (find_attempt (rd_marker_staging d) bytes attempts) (\<lambda>found.
          perform (case found of
              Some staged \<Rightarrow> ret staged
            | None \<Rightarrow> if length attempts \<ge> 4 then fail QuarantineCollision
                else perform new_v4 (\<lambda>fresh.
                let staged = marker_attempt_name S (gc_snapshot_id c) fresh in
                perform (write_private_file (rd_marker_staging d) staged bytes) (\<lambda>_. ret staged)))
            (\<lambda>temporary.
          attempt (atomic_rename_noreplace (rd_marker_staging d) temporary (rd_state d) name) (\<lambda>r. case r of
              Inr _ \<Rightarrow> sync_marker_parents plan c d
            | Inl e \<Rightarrow> if e = SnapIo AlreadyExists then
                perform (read_private_file (rd_state d) name MAX_MANIFEST_BYTES) (\<lambda>actual.
                if actual \<noteq> bytes then fail QuarantineCollision else sync_marker_parents plan c d)
              else fail e))))))))"

section \<open>Detaching the candidates of a plan\<close>

text \<open>The candidate is already marked: its item is verified and every directory synced again.\<close>

definition confirm_marked ::
    "snap_libs \<Rightarrow> gc_json \<Rightarrow> snapshot_store \<Rightarrow> gc_plan \<Rightarrow> run_dirs \<Rightarrow> gc_candidate \<Rightarrow> string \<Rightarrow> unit snap" where
  "confirm_marked S J st plan d c bytes =
     perform (of_result (check_marker_bytes J QuarantineCollision plan c bytes)) (\<lambda>_.
     perform (lift_err (detached_unknown plan c)
       (pf (open_private_dir (rd_items d) (uuid_string S (gc_snapshot_id c))))) (\<lambda>item.
     perform (lift_err (detached_unknown plan c) (verify_bound S item c (st_vault_id st))) (\<lambda>_.
     perform (sync_detached plan c item QuarantineItems) (\<lambda>_.
     perform (sync_detached plan c (rd_items d) QuarantineItems) (\<lambda>_.
     perform (sync_detached plan c (rd_state d) QuarantineState) (\<lambda>_.
     sync_detached plan c (rd_marker_staging d) QuarantineMarkerStaging))))))"

definition move_candidate ::
    "snap_libs \<Rightarrow> snapshot_store \<Rightarrow> gc_plan \<Rightarrow> run_dirs \<Rightarrow> gc_candidate \<Rightarrow> fs_path \<Rightarrow> fs_path snap" where
  "move_candidate S st plan d c source =
     (let name = uuid_string S (gc_snapshot_id c) in
      perform (verify_bound S source c (st_vault_id st)) (\<lambda>_.
      perform (pf (held_directory_identity source)) (\<lambda>identity.
      perform (atomic_rename_noreplace (st_objects st) name (rd_items d) name) (\<lambda>_.
      perform (sync_detached plan c (rd_items d) QuarantineItems) (\<lambda>_.
      perform (sync_detached plan c (st_objects st) SourceObjects) (\<lambda>_.
      perform (lift_err (detached_unknown plan c) (pf (open_private_dir (rd_items d) name))) (\<lambda>target.
      perform (lift_err (detached_unknown plan c) (pf (held_directory_identity target))) (\<lambda>found.
      if found \<noteq> identity then fail (detached_unknown plan c QuarantineCollision)
      else ret target))))))))"

definition process_candidate ::
    "snap_libs \<Rightarrow> gc_json \<Rightarrow> snapshot_store \<Rightarrow> gc_plan \<Rightarrow> run_dirs \<Rightarrow> gc_candidate \<Rightarrow> (nat \<times> nat) snap" where
  "process_candidate S J st plan d c =
     (let name = uuid_string S (gc_snapshot_id c) in
      perform (read_optional_private_file (rd_state d) (marker_name S (gc_snapshot_id c)) MAX_MANIFEST_BYTES)
        (\<lambda>marked. case marked of
        Some bytes \<Rightarrow> perform (confirm_marked S J st plan d c bytes) (\<lambda>_. ret (0, 1))
      | None \<Rightarrow>
          perform (open_optional_private_dir (st_objects st) name) (\<lambda>source.
          perform (open_optional_private_dir (rd_items d) name) (\<lambda>destination.
          perform (case (source, destination) of
              (Some from, None) \<Rightarrow>
                perform (move_candidate S st plan d c from) (\<lambda>target. ret (target, 1))
            | (None, Some target) \<Rightarrow>
                perform (lift_err (detached_unknown plan c) (verify_bound S target c (st_vault_id st))) (\<lambda>_.
                perform (sync_detached plan c (rd_items d) QuarantineItems) (\<lambda>_.
                perform (sync_detached plan c (st_objects st) SourceObjects) (\<lambda>_.
                ret (target, 0))))
            | _ \<Rightarrow> fail QuarantineCollision) (\<lambda>(target, detached).
          perform (lift_err (detached_unknown plan c) (verify_bound S target c (st_vault_id st))) (\<lambda>_.
          perform (lift_err (preserve_detached_error (gp_run_id plan) (gc_snapshot_id c))
            (publish_marker S J d plan c)) (\<lambda>_.
          ret (detached, 0))))))))"

fun process_candidates ::
    "snap_libs \<Rightarrow> gc_json \<Rightarrow> snapshot_store \<Rightarrow> gc_plan \<Rightarrow> run_dirs \<Rightarrow> nat \<times> nat \<Rightarrow> gc_candidate list
      \<Rightarrow> (nat \<times> nat) snap" where
  "process_candidates S J st plan d counts [] = ret counts"
| "process_candidates S J st plan d counts (c # cs) =
     perform (process_candidate S J st plan d c) (\<lambda>one.
     process_candidates S J st plan d (fst counts + fst one, snd counts + snd one) cs)"

definition process_plan ::
    "snap_libs \<Rightarrow> gc_json \<Rightarrow> snapshot_store \<Rightarrow> gc_plan \<Rightarrow> run_dirs \<Rightarrow> quarantine_outcome \<Rightarrow> nat
      \<Rightarrow> quarantine_report snap" where
  "process_plan S J st plan d outcome stale =
     perform (validate_plan_children S plan d) (\<lambda>_.
     perform (process_candidates S J st plan d (0, 0) (gp_candidates plan)) (\<lambda>counts.
     ret \<lparr>qr_outcome = outcome, qr_run_id = gp_run_id plan, qr_detached = fst counts,
       qr_already_marked = snd counts, qr_stale_work_entries = stale\<rparr>))"

definition open_run_dirs :: "fs_path \<Rightarrow> run_dirs snap" where
  "open_run_dirs run =
     perform (pf (open_private_dir run ITEMS)) (\<lambda>items.
     perform (pf (open_private_dir run STATE)) (\<lambda>state.
     perform (pf (open_private_dir run MARKER_STAGING)) (\<lambda>marker_staging.
     ret \<lparr>rd_items = items, rd_state = state, rd_marker_staging = marker_staging\<rparr>)))"

section \<open>Runs\<close>

definition bounded_entry_count :: "fs_path \<Rightarrow> nat snap" where
  "bounded_entry_count directory =
     perform (io (sys_entries directory)) (\<lambda>names.
     if length names > MAX_RUNS then fail TooManyGcRuns else ret (length names))"

definition open_run_roots :: "snapshot_store \<Rightarrow> (fs_path \<times> fs_path \<times> nat) snap" where
  "open_run_roots st =
     perform (pf (create_or_open_private_dir (st_vault st) QUARANTINE)) (\<lambda>quarantine.
     perform (pf (create_or_open_private_dir quarantine Q_VERSION)) (\<lambda>version.
     perform (pf (create_or_open_private_dir version RUNS)) (\<lambda>runs.
     perform (pf (create_or_open_private_dir version WORK)) (\<lambda>work.
     perform (bounded_entry_count work) (\<lambda>stale.
     ret (runs, work, stale))))))"

type_synonym run_request = "uuid \<times> u64 \<times> retention_policy"

fun list_runs ::
    "snap_libs \<Rightarrow> gc_json \<Rightarrow> fs_path \<Rightarrow> uuid \<Rightarrow> run_request option \<Rightarrow> nat \<Rightarrow> uuid list
      \<Rightarrow> (uuid \<times> string) list \<Rightarrow> string list \<Rightarrow> (uuid \<times> string) list snap" where
  "list_runs S J runs vault_id requested count seen found [] = ret found"
| "list_runs S J runs vault_id requested count seen found (name # names) =
     (if count = MAX_PHYSICAL_RUN_ENTRIES then fail TooManyGcRuns
      else if \<not> valid_utf8 name then fail InvalidGcPlan
      else case parse_terminal_name S name of
        Some u \<Rightarrow>
          if u \<in> set seen then fail QuarantineCollision
          else perform (read_private_file runs name MAX_MANIFEST_BYTES) (\<lambda>bytes.
          perform (of_result (validate_completion_standalone J bytes u vault_id)) (\<lambda>_.
          if is_some_and requested (\<lambda>r. fst r = u) then fail QuarantineCollision
          else list_runs S J runs vault_id requested (Suc count) (u # seen) found names))
      | None \<Rightarrow>
          (case uuid_parse_str S name of
             None \<Rightarrow> fail InvalidGcPlan
           | Some u \<Rightarrow>
               if is_nil u \<or> uuid_string S u \<noteq> name then fail InvalidGcPlan
               else if u \<in> set seen then fail QuarantineCollision
               else if length found = MAX_RUNS then fail TooManyGcRuns
               else list_runs S J runs vault_id requested (Suc count) (u # seen) (found @ [(u, name)]) names))"

fun load_runs ::
    "snap_libs \<Rightarrow> gc_json \<Rightarrow> fs_path \<Rightarrow> uuid \<Rightarrow> (uuid \<times> string) list \<Rightarrow> (uuid \<times> fs_path \<times> gc_plan) list snap" where
  "load_runs S J runs vault_id [] = ret []"
| "load_runs S J runs vault_id ((u, name) # rest) =
     perform (pf (open_private_dir runs name)) (\<lambda>run.
     perform (validate_run_entries run) (\<lambda>_.
     perform (read_private_file run PLAN MAX_PLAN_BYTES) (\<lambda>bytes.
     perform (of_result (check_plan_bytes S J InvalidGcPlan InvalidGcPlan u vault_id bytes)) (\<lambda>plan.
     perform (load_runs S J runs vault_id rest) (\<lambda>loaded.
     ret ((u, run, plan) # loaded))))))"

definition request_conflicts :: "run_request option \<Rightarrow> (uuid \<times> fs_path \<times> gc_plan) list \<Rightarrow> bool" where
  "request_conflicts requested loaded =
     is_some_and requested (\<lambda>(run_id, evaluated, policy).
       is_some_and (List.find (\<lambda>l. fst l = run_id) loaded) (\<lambda>(_, _, plan).
         gp_evaluated_at_unix_ms plan \<noteq> evaluated \<or> gp_policy plan \<noteq> policy))"

fun resume_runs ::
    "snap_libs \<Rightarrow> gc_json \<Rightarrow> snapshot_store \<Rightarrow> fs_path \<Rightarrow> run_request option \<Rightarrow> nat
      \<Rightarrow> quarantine_report option \<Rightarrow> (uuid \<times> fs_path \<times> gc_plan) list \<Rightarrow> quarantine_report option snap" where
  "resume_runs S J st runs requested stale report [] = ret report"
| "resume_runs S J st runs requested stale report ((u, run, plan) # rest) =
     perform (sync_published run QuarantineRun) (\<lambda>_.
     perform (sync_published runs QuarantineRuns) (\<lambda>_.
     perform (open_run_dirs run) (\<lambda>d.
     perform (process_plan S J st plan d RecoveredExisting stale) (\<lambda>r.
     resume_runs S J st runs requested stale
       (if is_some_and requested (\<lambda>q. fst q = u) then Some r else report) rest))))"

definition recover_runs ::
    "snap_libs \<Rightarrow> gc_json \<Rightarrow> snapshot_store \<Rightarrow> fs_path \<Rightarrow> run_request option \<Rightarrow> nat
      \<Rightarrow> quarantine_report option snap" where
  "recover_runs S J st runs requested stale =
     perform (io (sys_entries runs)) (\<lambda>names.
     perform (list_runs S J runs (st_vault_id st) requested 0 [] [] names) (\<lambda>found.
     perform (load_runs S J runs (st_vault_id st) (sort_key fst found)) (\<lambda>loaded.
     if request_conflicts requested loaded then fail QuarantineCollision
     else resume_runs S J st runs requested stale None loaded)))"

fun count_active_runs ::
    "snap_libs \<Rightarrow> gc_json \<Rightarrow> fs_path \<Rightarrow> uuid \<Rightarrow> nat \<Rightarrow> uuid list \<Rightarrow> nat \<Rightarrow> string list \<Rightarrow> nat snap" where
  "count_active_runs S J runs vault_id physical seen active [] =
     (if physical > MAX_PHYSICAL_RUN_ENTRIES - 2 then fail TooManyGcRuns else ret active)"
| "count_active_runs S J runs vault_id physical seen active (name # names) =
     (if physical = MAX_PHYSICAL_RUN_ENTRIES then fail TooManyGcRuns
      else if \<not> valid_utf8 name then fail InvalidGcPlan
      else case parse_terminal_name S name of
        Some u \<Rightarrow>
          if u \<in> set seen then fail QuarantineCollision
          else perform (read_private_file runs name MAX_MANIFEST_BYTES) (\<lambda>bytes.
          perform (of_result (validate_completion_standalone J bytes u vault_id)) (\<lambda>_.
          count_active_runs S J runs vault_id (Suc physical) (u # seen) active names))
      | None \<Rightarrow>
          (case uuid_parse_str S name of
             None \<Rightarrow> fail InvalidGcPlan
           | Some u \<Rightarrow>
               if is_nil u \<or> uuid_string S u \<noteq> name then fail InvalidGcPlan
               else if u \<in> set seen then fail QuarantineCollision
               else count_active_runs S J runs vault_id (Suc physical) (u # seen) (Suc active) names))"

definition bounded_active_run_count :: "snap_libs \<Rightarrow> gc_json \<Rightarrow> fs_path \<Rightarrow> uuid \<Rightarrow> nat snap" where
  "bounded_active_run_count S J runs vault_id =
     perform (io (sys_entries runs)) (\<lambda>names. count_active_runs S J runs vault_id 0 [] 0 names)"

section \<open>A new run\<close>

fun bind_candidates :: "snap_libs \<Rightarrow> snapshot_store \<Rightarrow> retention_candidate list \<Rightarrow> gc_candidate list snap" where
  "bind_candidates S st [] = ret []"
| "bind_candidates S st (c # cs) =
     perform (bind_candidate S st c) (\<lambda>g. perform (bind_candidates S st cs) (\<lambda>gs. ret (g # gs)))"

definition new_plan ::
    "snap_libs \<Rightarrow> gc_json \<Rightarrow> snapshot_store \<Rightarrow> run_request \<Rightarrow> gc_candidate list \<Rightarrow> snapshot_error + gc_plan" where
  "new_plan S J st request candidates = (case request of (run_id, evaluated, policy) \<Rightarrow>
     let plan = \<lparr>gp_version = 1, gp_run_id = run_id, gp_vault_id = st_vault_id st, gp_policy = policy,
       gp_evaluated_at_unix_ms = evaluated, gp_candidates = candidates, gp_plan_blake3 = []\<rparr> in
     and_then (plan_digest S J plan) (\<lambda>digest.
     let signed = plan\<lparr>gp_plan_blake3 := digest\<rparr> in
     and_then (validate_plan S J signed (st_vault_id st)) (\<lambda>_. Inr signed)))"

definition run_work_name :: "snap_libs \<Rightarrow> uuid \<Rightarrow> uuid \<Rightarrow> string" where
  "run_work_name S run_id fresh = ''.work-'' @ uuid_string S run_id @ ''-'' @ uuid_string S fresh"

definition write_run ::
    "snap_libs \<Rightarrow> gc_json \<Rightarrow> fs_path \<Rightarrow> string \<Rightarrow> gc_plan \<Rightarrow> unit snap" where
  "write_run S J work name plan =
     perform (pf (create_private_dir work name)) (\<lambda>run.
     perform (pf (create_private_dir run ITEMS)) (\<lambda>items.
     perform (pf (create_private_dir run STATE)) (\<lambda>state.
     perform (pf (create_private_dir run MARKER_STAGING)) (\<lambda>marker_staging.
     perform (of_result (ok_or (plan_to_vec J plan) SnapJson)) (\<lambda>bytes.
     perform (write_private_file run PLAN bytes) (\<lambda>_.
     perform (sync_published items QuarantineItems) (\<lambda>_.
     perform (sync_published state QuarantineState) (\<lambda>_.
     perform (sync_published marker_staging QuarantineMarkerStaging) (\<lambda>_.
     sync_published run QuarantineRun)))))))))"

definition start_run ::
    "snap_libs \<Rightarrow> gc_json \<Rightarrow> snapshot_store \<Rightarrow> fs_path \<Rightarrow> fs_path \<Rightarrow> nat \<Rightarrow> gc_plan \<Rightarrow> quarantine_report snap" where
  "start_run S J st runs work stale plan =
     perform new_v4 (\<lambda>fresh.
     let name = run_work_name S (gp_run_id plan) fresh; run_name = uuid_string S (gp_run_id plan) in
     perform (write_run S J work name plan) (\<lambda>_.
     perform (atomic_rename_noreplace work name runs run_name) (\<lambda>_.
     perform (sync_published runs QuarantineRuns) (\<lambda>_.
     perform (sync_published work QuarantineWork) (\<lambda>_.
     perform (pf (open_private_dir runs run_name)) (\<lambda>run.
     perform (open_run_dirs run) (\<lambda>d.
     process_plan S J st plan d Created stale)))))))"

definition quarantine_locked ::
    "snap_libs \<Rightarrow> gc_json \<Rightarrow> snapshot_store \<Rightarrow> run_request \<Rightarrow> quarantine_report snap" where
  "quarantine_locked S J st request = (case request of (run_id, evaluated, policy) \<Rightarrow>
     perform (open_run_roots st) (\<lambda>(runs, work, stale).
     perform (recover_runs S J st runs (Some request) stale) (\<lambda>existing. case existing of
       Some report \<Rightarrow> ret report
     | None \<Rightarrow>
         perform (plan_retention_locked S st evaluated policy) (\<lambda>retention.
         if rp_candidates retention = []
         then ret \<lparr>qr_outcome = NoCandidates, qr_run_id = run_id, qr_detached = 0,
           qr_already_marked = 0, qr_stale_work_entries = stale\<rparr>
         else perform (bounded_active_run_count S J runs (st_vault_id st)) (\<lambda>active.
         if active + stale \<ge> MAX_RUNS then fail TooManyGcRuns
         else perform (bind_candidates S st (rp_candidates retention)) (\<lambda>candidates.
         perform (of_result (new_plan S J st request candidates)) (\<lambda>plan.
         start_run S J st runs work stale plan)))))))"

definition quarantine_retention ::
    "snap_libs \<Rightarrow> gc_json \<Rightarrow> snapshot_store \<Rightarrow> uuid \<Rightarrow> u64 \<Rightarrow> retention_policy \<Rightarrow> quarantine_report snap" where
  "quarantine_retention S J st run_id evaluated policy =
     (if is_nil run_id then fail InvalidSnapshotId
      else with_operation_lock QuarantinedButLockLost st (quarantine_locked S J st (run_id, evaluated, policy)))"

end
