(* ===== verification/Quarantine_Delete.thy ===== *)
theory Quarantine_Delete
  imports Quarantine_Detach Snapshot_Publish
begin

text \<open>
  \<open>SnapshotStore::delete_quarantined_run\<close>: the items of a run that its markers authorize are removed
  file by file, a completion marker is published, the metadata of the run is removed, and a terminal
  record of the run is kept.
\<close>

section \<open>Removal\<close>

definition sync_remove :: "fs_path \<Rightarrow> uuid \<Rightarrow> uuid option \<Rightarrow> durability_boundary \<Rightarrow> unit snap" where
  "sync_remove directory run_id snapshot_id boundary =
     lift_err (RemovedButNotSynced run_id snapshot_id boundary) (sync_published directory boundary)"

definition remove_file_synced ::
    "fs_path \<Rightarrow> string \<Rightarrow> uuid \<Rightarrow> uuid option \<Rightarrow> durability_boundary \<Rightarrow> unit snap" where
  "remove_file_synced parent name run_id snapshot_id boundary =
     perform (pf (open_private_file parent name)) (\<lambda>held.
     perform (pf (held_private_file_identity held)) (\<lambda>identity.
     perform (pf (remove_private_file_if_identity parent name held identity)) (\<lambda>_.
     sync_remove parent run_id snapshot_id boundary)))"

text \<open>The removal of an empty directory whose handle is already held.\<close>

definition remove_held_dir_synced ::
    "fs_path \<Rightarrow> string \<Rightarrow> fs_path \<Rightarrow> uuid \<Rightarrow> uuid option \<Rightarrow> durability_boundary \<Rightarrow> unit snap" where
  "remove_held_dir_synced parent name held run_id snapshot_id boundary =
     perform (pf (held_directory_identity held)) (\<lambda>identity.
     perform (pf (remove_empty_private_dir_if_identity parent name held identity)) (\<lambda>_.
     sync_remove parent run_id snapshot_id boundary))"

definition remove_empty_child_synced :: "fs_path \<Rightarrow> string \<Rightarrow> uuid \<Rightarrow> durability_boundary \<Rightarrow> unit snap" where
  "remove_empty_child_synced parent name run_id boundary =
     perform (pf (open_private_dir parent name)) (\<lambda>child.
     remove_held_dir_synced parent name child run_id None boundary)"

section \<open>What a run may contain\<close>

definition bounded_utf8_names :: "fs_path \<Rightarrow> nat \<Rightarrow> string list snap" where
  "bounded_utf8_names directory maximum =
     perform (io (sys_entries directory)) (\<lambda>names.
     if length names > maximum \<or> \<not> list_all valid_utf8 names then fail QuarantineCollision else ret names)"

definition bounded_item_names :: "fs_path \<Rightarrow> string list snap" where
  "bounded_item_names item =
     perform (io (sys_entries item)) (\<lambda>names.
     if length names > 2 then fail QuarantineCollision else ret (sort_names names))"

definition validate_detached_marker ::
    "snap_libs \<Rightarrow> gc_json \<Rightarrow> fs_path \<Rightarrow> gc_plan \<Rightarrow> gc_candidate \<Rightarrow> string snap" where
  "validate_detached_marker S J state plan c =
     perform (read_private_file state (marker_name S (gc_snapshot_id c)) MAX_MANIFEST_BYTES) (\<lambda>bytes.
     perform (of_result (check_marker_bytes J SnapJson plan c bytes)) (\<lambda>_. ret bytes))"

definition validate_state_exact :: "snap_libs \<Rightarrow> fs_path \<Rightarrow> gc_plan \<Rightarrow> unit snap" where
  "validate_state_exact S state plan =
     perform (bounded_utf8_names state (length (gp_candidates plan))) (\<lambda>names.
     require (set names = set (map (\<lambda>c. marker_name S (gc_snapshot_id c)) (gp_candidates plan)))
       QuarantineCollision)"

fun marked_candidates :: "snap_libs \<Rightarrow> gc_plan \<Rightarrow> string list \<Rightarrow> snapshot_error + gc_candidate list" where
  "marked_candidates S plan [] = Inr []"
| "marked_candidates S plan (name # names) =
     and_then (ok_or (List.find (\<lambda>c. marker_name S (gc_snapshot_id c) = name) (gp_candidates plan))
       QuarantineCollision) (\<lambda>c.
     and_then (marked_candidates S plan names) (\<lambda>cs. Inr (c # cs)))"

definition validate_state_subset :: "snap_libs \<Rightarrow> fs_path \<Rightarrow> gc_plan \<Rightarrow> gc_candidate list snap" where
  "validate_state_subset S state plan =
     perform (bounded_utf8_names state (length (gp_candidates plan))) (\<lambda>names.
     of_result (marked_candidates S plan names))"

definition validate_manifest_only :: "snap_libs \<Rightarrow> fs_path \<Rightarrow> gc_candidate \<Rightarrow> unit snap" where
  "validate_manifest_only S item c =
     perform (read_private_file item MANIFEST_FILE MAX_MANIFEST_BYTES) (\<lambda>bytes.
     of_result (and_then (manifest_from_slice S bytes) (\<lambda>manifest.
       and_then (manifest_validate S manifest) (\<lambda>_.
       and_then (map_err (\<lambda>_. QuarantineCollision) (lineage_key (sl_libs S) manifest)) (\<lambda>lineage.
       and_then (ok_or (checked_add (of_nat (length bytes)) (byte_len (sm_revision manifest)))
         ArithmeticOverflow) (\<lambda>logical.
       and_then (ok_or (manifest_to_vec S manifest) SnapJson) (\<lambda>again.
       if again \<noteq> bytes \<or> blake3_to_hex S bytes \<noteq> gc_manifest_blake3 c
          \<or> sm_snapshot_id manifest \<noteq> gc_snapshot_id c
          \<or> blake3_hex (sm_revision manifest) \<noteq> gc_payload_blake3 c
          \<or> byte_len (sm_revision manifest) \<noteq> gc_payload_bytes c \<or> logical \<noteq> gc_logical_bytes c
          \<or> lineage \<noteq> gc_lineage_key c \<or> blake3_to_hex S lineage \<noteq> gc_lineage_blake3 c
       then Inl QuarantineCollision else Inr ())))))))"

definition preflight_candidate_item :: "snap_libs \<Rightarrow> fs_path \<Rightarrow> gc_plan \<Rightarrow> gc_candidate \<Rightarrow> unit snap" where
  "preflight_candidate_item S items plan c =
     perform (open_optional_private_dir items (uuid_string S (gc_snapshot_id c))) (\<lambda>found. case found of
       None \<Rightarrow> ret ()
     | Some item \<Rightarrow>
         perform (bounded_item_names item) (\<lambda>names.
         if names = [MANIFEST_FILE, PAYLOAD_FILE] then verify_bound S item c (gp_vault_id plan)
         else if names = [MANIFEST_FILE] then validate_manifest_only S item c
         else require (names = []) QuarantineCollision))"

fun expected_markers ::
    "snap_libs \<Rightarrow> gc_json \<Rightarrow> fs_path \<Rightarrow> gc_plan \<Rightarrow> gc_candidate list \<Rightarrow> (uuid \<times> string) list snap" where
  "expected_markers S J state plan [] = ret []"
| "expected_markers S J state plan (c # cs) =
     perform (validate_detached_marker S J state plan c) (\<lambda>bytes.
     perform (expected_markers S J state plan cs) (\<lambda>rest. ret ((gc_snapshot_id c, bytes) # rest)))"

fun check_marker_family ::
    "snap_libs \<Rightarrow> fs_path \<Rightarrow> (uuid \<times> string) list \<Rightarrow> nat \<Rightarrow> uuid list \<Rightarrow> string list \<Rightarrow> unit snap" where
  "check_marker_family S staging expected limit seen [] = ret ()"
| "check_marker_family S staging expected limit seen (name # names) =
     (if length seen = limit \<or> \<not> valid_utf8 name then fail QuarantineCollision
      else case parse_marker_attempt S name of
        None \<Rightarrow> fail QuarantineCollision
      | Some (u, _) \<Rightarrow> (case map_of expected u of
          None \<Rightarrow> fail QuarantineCollision
        | Some bytes \<Rightarrow>
            if count_list seen u + 1 > 4 then fail QuarantineCollision
            else perform (read_private_file staging name MAX_MANIFEST_BYTES) (\<lambda>actual.
            if actual \<noteq> bytes then fail QuarantineCollision
            else check_marker_family S staging expected limit (u # seen) names)))"

definition planned_items :: "snap_libs \<Rightarrow> gc_plan \<Rightarrow> string list \<Rightarrow> bool" where
  "planned_items S plan names = (length names \<le> length (gp_candidates plan)
     \<and> list_all (\<lambda>name. valid_utf8 name \<and> is_some_and (canonical_snapshot_id S name)
         (\<lambda>u. u \<in> set (map gc_snapshot_id (gp_candidates plan)))) names)"

definition preflight_initial_nested :: "snap_libs \<Rightarrow> gc_json \<Rightarrow> run_dirs \<Rightarrow> gc_plan \<Rightarrow> unit snap" where
  "preflight_initial_nested S J d plan =
     perform (validate_state_exact S (rd_state d) plan) (\<lambda>_.
     perform (expected_markers S J (rd_state d) plan (gp_candidates plan)) (\<lambda>expected.
     perform (io (sys_entries (rd_marker_staging d))) (\<lambda>staged.
     perform (check_marker_family S (rd_marker_staging d) expected (length (gp_candidates plan) * 4) [] staged) (\<lambda>_.
     perform (io (sys_entries (rd_items d))) (\<lambda>items.
     perform (require (planned_items S plan items) QuarantineCollision) (\<lambda>_.
     for_acts (preflight_candidate_item S (rd_items d) plan) (gp_candidates plan)))))))"

section \<open>Items\<close>

fun remove_marker_attempts ::
    "snap_libs \<Rightarrow> fs_path \<Rightarrow> gc_plan \<Rightarrow> gc_candidate \<Rightarrow> string \<Rightarrow> nat \<Rightarrow> string list \<Rightarrow> unit snap" where
  "remove_marker_attempts S staging plan c expected own [] = ret ()"
| "remove_marker_attempts S staging plan c expected own (name # names) =
     (case parse_marker_attempt S name of
        None \<Rightarrow> fail QuarantineCollision
      | Some (u, _) \<Rightarrow>
          if u \<noteq> gc_snapshot_id c
          then if u \<in> set (map gc_snapshot_id (gp_candidates plan))
            then remove_marker_attempts S staging plan c expected own names
            else fail QuarantineCollision
          else if own + 1 > 4 then fail QuarantineCollision
          else perform (read_private_file staging name MAX_MANIFEST_BYTES) (\<lambda>actual.
          if actual \<noteq> expected then fail QuarantineCollision
          else perform (remove_file_synced staging name (gp_run_id plan) (Some (gc_snapshot_id c))
            QuarantineMarkerStaging) (\<lambda>_.
          remove_marker_attempts S staging plan c expected (Suc own) names)))"

definition resolve_marker_attempts_for_delete ::
    "snap_libs \<Rightarrow> gc_json \<Rightarrow> run_dirs \<Rightarrow> gc_plan \<Rightarrow> gc_candidate \<Rightarrow> unit snap" where
  "resolve_marker_attempts_for_delete S J d plan c =
     perform (validate_detached_marker S J (rd_state d) plan c) (\<lambda>expected.
     perform (bounded_utf8_names (rd_marker_staging d) (length (gp_candidates plan) * 4)) (\<lambda>names.
     remove_marker_attempts S (rd_marker_staging d) plan c expected 0 names))"

definition delete_candidate_item :: "snap_libs \<Rightarrow> fs_path \<Rightarrow> gc_plan \<Rightarrow> gc_candidate \<Rightarrow> u64 snap" where
  "delete_candidate_item S items plan c =
     (let name = uuid_string S (gc_snapshot_id c); sid = Some (gc_snapshot_id c) in
      perform (open_optional_private_dir items name) (\<lambda>found. case found of
        None \<Rightarrow> ret 0
      | Some item \<Rightarrow>
          perform (bounded_item_names item) (\<lambda>names.
          if names = [MANIFEST_FILE, PAYLOAD_FILE] then
            perform (verify_bound S item c (gp_vault_id plan)) (\<lambda>_.
            perform (remove_file_synced item PAYLOAD_FILE (gp_run_id plan) sid DeletionItem) (\<lambda>_. ret 0))
          else if names = [MANIFEST_FILE] then
            perform (validate_manifest_only S item c) (\<lambda>_.
            perform (remove_file_synced item MANIFEST_FILE (gp_run_id plan) sid DeletionItem) (\<lambda>_. ret 0))
          else if names = [] then
            perform (remove_held_dir_synced items name item (gp_run_id plan) sid DeletionItems) (\<lambda>_.
            ret (gc_logical_bytes c))
          else fail QuarantineCollision)))"

section \<open>The loop over one item ends\<close>

lemma reads_sync_remove [read_intros]: "reads (sync_remove d r s b)"
  unfolding sync_remove_def sync_published_def by (intro read_intros)

lemma length_drop_node: "node_at t p \<noteq> None \<Longrightarrow> length (drop_node p t) < length t"
proof -
  assume "node_at t p \<noteq> None"
  then obtain n where "(p, n) \<in> set t" by (auto simp: node_at_def dest: map_of_SomeD)
  then show ?thesis unfolding drop_node_def by (intro length_filter_less [of "(p, n)"]) auto
qed

lemma triple_remove_file_synced:
  "triple (\<lambda>t. t = u) (remove_file_synced d n r s b)
     (\<lambda>_ t. (\<exists>i pr c. node_at u (d @ [n]) = Some (FileNode i pr c)) \<and> t = drop_node (d @ [n]) u)
     (\<lambda>t. t = u \<or> (\<exists>i pr c. node_at u (d @ [n]) = Some (FileNode i pr c)) \<and> t = drop_node (d @ [n]) u)"
  (is "triple _ _ (\<lambda>_. ?gone) ?E")
proof -
  have remove: "triple (\<lambda>t. t = u) (remove_private_file_if_identity d n held i) (\<lambda>_. ?gone) ?E" for held i
    unfolding remove_private_file_if_identity_def
    by (rule triple_read_then, intro read_intros, simp)+
      (rule triple_weaken [OF triple_lift_err [OF triple_sys_remove_file]], auto)
  show ?thesis
    unfolding remove_file_synced_def
    apply (rule triple_read_then, intro read_intros, simp)
    apply (rule triple_read_then, intro read_intros, simp)
    apply (rule triple_perform [OF triple_lift_err [OF remove]])
    apply (rule triple_weaken [OF triple_reads [where P = ?gone]], intro read_intros)
      apply auto
    done
qed

lemma triple_remove_held_dir_synced:
  "triple (\<lambda>t. t = u) (remove_held_dir_synced d n h r s b)
     (\<lambda>_ t. (\<exists>i pr. node_at u (d @ [n]) = Some (DirNode i pr)) \<and> names_in u (d @ [n]) = []
        \<and> t = drop_node (d @ [n]) u)
     (\<lambda>t. t = u \<or> (\<exists>i pr. node_at u (d @ [n]) = Some (DirNode i pr)) \<and> names_in u (d @ [n]) = []
        \<and> t = drop_node (d @ [n]) u)"
  (is "triple _ _ (\<lambda>_. ?gone) ?E")
proof -
  have remove: "triple (\<lambda>t. t = u) (remove_empty_private_dir_if_identity d n h i) (\<lambda>_. ?gone) ?E" for i
    unfolding remove_empty_private_dir_if_identity_def
    by (rule triple_read_then, intro read_intros, simp)+
      (rule triple_weaken [OF triple_lift_err [OF triple_sys_remove_dir]], auto)
  show ?thesis
    unfolding remove_held_dir_synced_def
    apply (rule triple_read_then, intro read_intros, simp)
    apply (rule triple_perform [OF triple_lift_err [OF remove]])
    apply (rule triple_weaken [OF triple_reads [where P = ?gone]], intro read_intros)
      apply auto
    done
qed

text \<open>An item that is still there after nothing was reclaimed has lost one of its files.\<close>

lemma bounded_item_names_reads [read_intros]: "reads (bounded_item_names d)"
  unfolding bounded_item_names_def by (intro read_intros)

lemma reads_case_evidence [read_intros]:
  "(\<And>l m. reads (f l m)) \<Longrightarrow> (\<And>l s v n r. reads (g l s v n r)) \<Longrightarrow>
    reads (case e of Supported l m \<Rightarrow> f l m | EvidenceUnsupported l s v n r \<Rightarrow> g l s v n r)"
  by (cases e) auto

lemma reads_manifest_checks [read_intros]:
  "reads (verify_bound S d c v)" "reads (validate_manifest_only S d c)"
  unfolding verify_bound_def validate_manifest_only_def by (intro read_intros)+

lemma delete_candidate_item_shrinks:
  assumes "delete_candidate_item S items plan c w = (Inr 0, w1)"
    and "open_optional_private_dir items (uuid_string S (gc_snapshot_id c)) w1 = (Inr (Some d), w2)"
  shows "length (w_tree w2) < length (w_tree w)"
proof -
  let ?p = "items @ [uuid_string S (gc_snapshot_id c)]" and ?u = "w_tree w"
  have there: "node_at (w_tree w2) ?p \<noteq> None"
    using learnsD [OF learns_open_optional_private_dir assms(2)] by (auto simp: dir_holds_def)
  have same: "w_tree w2 = w_tree w1"
    using reads_tree [OF reads_open_optional_private_dir, of items _ w1] assms(2) by (metis snd_conv)
  let ?Q = "\<lambda>_ t. node_at t ?p = None \<or> length t < length ?u"
  have one: "triple (\<lambda>t. t = ?u) (perform (remove_file_synced q f r s b) (\<lambda>_. ret (0 :: u64))) ?Q (\<lambda>_. True)" for q f r s b
    by (rule triple_perform [where Q = "\<lambda>_ t. length t < length ?u"],
        rule triple_weaken [OF triple_remove_file_synced])
      (auto intro!: triple_ret intro: length_drop_node)
  have dir: "triple (\<lambda>t. t = ?u) (perform (remove_held_dir_synced items (uuid_string S (gc_snapshot_id c)) h r s b)
      (\<lambda>_. ret (k :: u64))) ?Q (\<lambda>_. True)" for h r s b k
    by (rule triple_perform [where Q = "\<lambda>_ t. length t < length ?u"],
        rule triple_weaken [OF triple_remove_held_dir_synced])
      (auto intro!: triple_ret intro: length_drop_node)
  have "triple (\<lambda>t. t = ?u) (delete_candidate_item S items plan c) ?Q (\<lambda>_. True)"
    unfolding delete_candidate_item_def Let_def
    apply (rule triple_learn_then [OF reads_open_optional_private_dir learns_open_optional_private_dir], simp)
    subgoal for found
      apply (cases found)
       apply (auto intro: triple_ret) []
      apply simp
      apply (rule triple_weaken [where P = "\<lambda>t. t = ?u" and Q = ?Q and E = "\<lambda>_. True"])
         apply (rule triple_read_then, intro read_intros, simp)
         apply (intro triple_if)
            apply (rule triple_read_then, intro read_intros, simp, rule one)
           apply (rule triple_read_then, intro read_intros, simp, rule one)
          apply (rule dir)
         apply (rule triple_fail, auto)
      done
    done
  from tripleD [OF this refl assms(1)] there same show ?thesis by auto
qed

text \<open>The loop of \<open>delete_quarantined_locked\<close> over one candidate; every further round starts on a smaller tree.\<close>

function delete_item_loop ::
    "snap_libs \<Rightarrow> fs_path \<Rightarrow> gc_plan \<Rightarrow> gc_candidate \<Rightarrow> u64 \<Rightarrow> u64 snap" where
  "delete_item_loop S items plan c acc w =
     (case delete_candidate_item S items plan c w of
        (Inl e, w1) \<Rightarrow> (Inl e, w1)
      | (Inr reclaimed, w1) \<Rightarrow> (case checked_add acc reclaimed of
          None \<Rightarrow> (Inl ArithmeticOverflow, w1)
        | Some acc' \<Rightarrow>
            if reclaimed \<noteq> 0 then (Inr acc', w1)
            else (case open_optional_private_dir items (uuid_string S (gc_snapshot_id c)) w1 of
              (Inl e, w2) \<Rightarrow> (Inl e, w2)
            | (Inr None, w2) \<Rightarrow> (Inr acc', w2)
            | (Inr (Some _), w2) \<Rightarrow> delete_item_loop S items plan c acc' w2)))"
  by pat_completeness auto
termination
  by (relation "measure (\<lambda>(S, items, plan, c, acc, w). length (w_tree w))")
    (auto intro: delete_candidate_item_shrinks [OF sym sym])

declare delete_item_loop.simps [simp del]

definition delete_candidate ::
    "snap_libs \<Rightarrow> gc_json \<Rightarrow> run_dirs \<Rightarrow> gc_plan \<Rightarrow> gc_candidate \<Rightarrow> u64 \<Rightarrow> u64 snap" where
  "delete_candidate S J d plan c acc =
     perform (validate_detached_marker S J (rd_state d) plan c) (\<lambda>_.
     perform (resolve_marker_attempts_for_delete S J d plan c) (\<lambda>_.
     delete_item_loop S (rd_items d) plan c acc))"

fun delete_candidates ::
    "snap_libs \<Rightarrow> gc_json \<Rightarrow> run_dirs \<Rightarrow> gc_plan \<Rightarrow> u64 \<Rightarrow> gc_candidate list \<Rightarrow> u64 snap" where
  "delete_candidates S J d plan acc [] = ret acc"
| "delete_candidates S J d plan acc (c # cs) =
     perform (delete_candidate S J d plan c acc) (\<lambda>acc'. delete_candidates S J d plan acc' cs)"

section \<open>Completion of a run\<close>

definition completion_attempt_name :: "snap_libs \<Rightarrow> uuid \<Rightarrow> string" where
  "completion_attempt_name S fresh = ''.complete-'' @ uuid_string S fresh @ ''.tmp''"

definition publish_completion :: "snap_libs \<Rightarrow> gc_json \<Rightarrow> fs_path \<Rightarrow> gc_plan \<Rightarrow> unit snap" where
  "publish_completion S J run plan =
     perform (of_result (ok_or (completion_to_vec J (completion_from_plan plan)) SnapJson)) (\<lambda>bytes.
     perform (bounded_utf8_names run 9) (\<lambda>names.
     let attempts = filter (\<lambda>n. parse_completion_attempt S n \<noteq> None) names in
     if length attempts > 4 then fail QuarantineCollision
     else perform (find_attempt run bytes attempts) (\<lambda>found.
     perform (case found of
         Some staged \<Rightarrow> ret staged
       | None \<Rightarrow> if length attempts \<ge> 4 then fail QuarantineCollision
           else perform new_v4 (\<lambda>fresh.
           let staged = completion_attempt_name S fresh in
           perform (write_private_file run staged bytes) (\<lambda>_. ret staged))) (\<lambda>temporary.
     attempt (atomic_rename_noreplace run temporary run COMPLETE) (\<lambda>r. case r of
         Inr _ \<Rightarrow> sync_published run DeletionRun
       | Inl e \<Rightarrow> if e = SnapIo AlreadyExists then
           perform (read_private_file run COMPLETE MAX_MANIFEST_BYTES) (\<lambda>actual.
           perform (of_result (validate_completion J actual plan)) (\<lambda>_.
           sync_published run DeletionRun))
         else fail e)))))"

fun check_run_root ::
    "snap_libs \<Rightarrow> fs_path \<Rightarrow> string \<Rightarrow> bool \<Rightarrow> nat \<Rightarrow> nat \<Rightarrow> string list \<Rightarrow> string list \<Rightarrow> unit snap" where
  "check_run_root S run expected published count attempts controls [] =
     (if published then require (COMPLETE \<in> set controls) QuarantineCollision
      else require (set controls = {PLAN, ITEMS, STATE, MARKER_STAGING}) QuarantineCollision)"
| "check_run_root S run expected published count attempts controls (name # names) =
     (if count = 9 \<or> \<not> valid_utf8 name then fail QuarantineCollision
      else if name \<in> {PLAN, ITEMS, STATE, MARKER_STAGING}
      then check_run_root S run expected published (Suc count) attempts (name # controls) names
      else if name = COMPLETE \<and> published then
        perform (read_private_file run COMPLETE MAX_MANIFEST_BYTES) (\<lambda>actual.
        if actual \<noteq> expected then fail QuarantineCollision
        else check_run_root S run expected published (Suc count) attempts (name # controls) names)
      else if parse_completion_attempt S name \<noteq> None then
        if attempts + 1 > 4 then fail QuarantineCollision
        else perform (read_private_file run name MAX_MANIFEST_BYTES) (\<lambda>actual.
        if actual \<noteq> expected then fail QuarantineCollision
        else check_run_root S run expected published (Suc count) (Suc attempts) controls names)
      else fail QuarantineCollision)"

definition preflight_run_root ::
    "snap_libs \<Rightarrow> gc_json \<Rightarrow> fs_path \<Rightarrow> completion_marker \<Rightarrow> bool \<Rightarrow> unit snap" where
  "preflight_run_root S J run complete published =
     perform (of_result (ok_or (completion_to_vec J complete) SnapJson)) (\<lambda>expected.
     perform (io (sys_entries run)) (\<lambda>names.
     check_run_root S run expected published 0 0 [] names))"

definition remove_completion_attempts ::
    "snap_libs \<Rightarrow> gc_json \<Rightarrow> fs_path \<Rightarrow> completion_marker \<Rightarrow> unit snap" where
  "remove_completion_attempts S J run complete =
     perform (of_result (ok_or (completion_to_vec J complete) SnapJson)) (\<lambda>expected.
     perform (bounded_utf8_names run 9) (\<lambda>names.
     let attempts = filter (\<lambda>n. n \<noteq> COMPLETE) names in
     perform (for_acts (\<lambda>name.
       if parse_completion_attempt S name = None then fail QuarantineCollision
       else perform (read_private_file run name MAX_MANIFEST_BYTES) (\<lambda>actual.
       require (actual = expected) QuarantineCollision)) attempts) (\<lambda>_.
     if length attempts > 4 then fail QuarantineCollision
     else for_acts (\<lambda>name. remove_file_synced run name (cm_run_id complete) None DeletionRun) attempts)))"

section \<open>Terminal records\<close>

fun check_terminal_family ::
    "snap_libs \<Rightarrow> fs_path \<Rightarrow> uuid \<Rightarrow> string \<Rightarrow> bool \<Rightarrow> nat \<Rightarrow> nat \<Rightarrow> string list \<Rightarrow> unit snap" where
  "check_terminal_family S runs run_id expected allow_stable physical attempts [] = ret ()"
| "check_terminal_family S runs run_id expected allow_stable physical attempts (name # names) =
     (if physical = MAX_PHYSICAL_RUN_ENTRIES then fail TooManyGcRuns
      else if \<not> valid_utf8 name then fail QuarantineCollision
      else if name = terminal_name S run_id then
        if \<not> allow_stable then fail QuarantineCollision
        else perform (read_private_file runs name MAX_MANIFEST_BYTES) (\<lambda>actual.
        if actual \<noteq> expected then fail QuarantineCollision
        else check_terminal_family S runs run_id expected allow_stable (Suc physical) attempts names)
      else if starts_with name (terminal_attempt_prefix S run_id) then
        if \<not> allow_stable \<or> is_none_or (parse_terminal_attempt S name) (\<lambda>p. fst p \<noteq> run_id)
        then fail QuarantineCollision
        else perform (read_private_file runs name MAX_MANIFEST_BYTES) (\<lambda>actual.
        if actual \<noteq> expected \<or> attempts + 1 > 4 then fail QuarantineCollision
        else check_terminal_family S runs run_id expected allow_stable (Suc physical) (Suc attempts) names)
      else check_terminal_family S runs run_id expected allow_stable (Suc physical) attempts names)"

definition preflight_terminal_family ::
    "snap_libs \<Rightarrow> gc_json \<Rightarrow> fs_path \<Rightarrow> completion_marker \<Rightarrow> bool \<Rightarrow> unit snap" where
  "preflight_terminal_family S J runs expected allow_stable =
     perform (of_result (ok_or (completion_to_vec J expected) SnapJson)) (\<lambda>bytes.
     perform (io (sys_entries runs)) (\<lambda>names.
     check_terminal_family S runs (cm_run_id expected) bytes allow_stable 0 0 names))"

definition read_terminal ::
    "snap_libs \<Rightarrow> gc_json \<Rightarrow> fs_path \<Rightarrow> uuid \<Rightarrow> uuid \<Rightarrow> completion_marker option snap" where
  "read_terminal S J runs run_id vault_id =
     perform (read_optional_private_file runs (terminal_name S run_id) MAX_MANIFEST_BYTES) (\<lambda>found. case found of
       None \<Rightarrow> ret None
     | Some bytes \<Rightarrow>
         perform (of_result (validate_completion_standalone J bytes run_id vault_id)) (\<lambda>marker. ret (Some marker)))"

fun own_terminal_attempts ::
    "snap_libs \<Rightarrow> fs_path \<Rightarrow> uuid \<Rightarrow> string \<Rightarrow> nat \<Rightarrow> string list \<Rightarrow> string list snap" where
  "own_terminal_attempts S runs run_id bytes physical [] = ret []"
| "own_terminal_attempts S runs run_id bytes physical (name # names) =
     (if physical = MAX_PHYSICAL_RUN_ENTRIES then fail TooManyGcRuns
      else if \<not> valid_utf8 name then fail QuarantineCollision
      else if starts_with name (terminal_attempt_prefix S run_id)
              \<and> is_none_or (parse_terminal_attempt S name) (\<lambda>p. fst p \<noteq> run_id)
      then fail QuarantineCollision
      else if is_some_and (parse_terminal_attempt S name) (\<lambda>p. fst p = run_id) then
        perform (read_private_file runs name MAX_MANIFEST_BYTES) (\<lambda>actual.
        if actual \<noteq> bytes then fail QuarantineCollision
        else perform (own_terminal_attempts S runs run_id bytes (Suc physical) names) (\<lambda>rest.
        ret (name # rest)))
      else own_terminal_attempts S runs run_id bytes (Suc physical) names)"

definition publish_terminal :: "snap_libs \<Rightarrow> gc_json \<Rightarrow> fs_path \<Rightarrow> completion_marker \<Rightarrow> unit snap" where
  "publish_terminal S J runs complete =
     (let name = terminal_name S (cm_run_id complete) in
      perform (of_result (ok_or (completion_to_vec J complete) SnapJson)) (\<lambda>bytes.
      perform (read_optional_private_file runs name MAX_MANIFEST_BYTES) (\<lambda>existing. case existing of
        Some actual \<Rightarrow> if actual \<noteq> bytes then fail QuarantineCollision else sync_published runs DeletionRuns
      | None \<Rightarrow>
          perform (io (sys_entries runs)) (\<lambda>names.
          perform (own_terminal_attempts S runs (cm_run_id complete) bytes 0 names) (\<lambda>attempts.
          if length attempts > 4 then fail QuarantineCollision
          else perform (case attempts of
              staged # _ \<Rightarrow> ret staged
            | [] \<Rightarrow> if length names = MAX_PHYSICAL_RUN_ENTRIES then fail TooManyGcRuns
                else perform new_v4 (\<lambda>fresh.
                let staged = terminal_attempt_name S (cm_run_id complete) fresh in
                perform (write_private_file runs staged bytes) (\<lambda>_. ret staged))) (\<lambda>temporary.
          attempt (atomic_rename_noreplace runs temporary runs name) (\<lambda>r. case r of
              Inr _ \<Rightarrow> sync_published runs DeletionRuns
            | Inl e \<Rightarrow> if e = SnapIo AlreadyExists then
                perform (read_private_file runs name MAX_MANIFEST_BYTES) (\<lambda>actual.
                if actual \<noteq> bytes then fail QuarantineCollision else sync_published runs DeletionRuns)
              else fail e)))))))"

fun collect_own_attempts ::
    "snap_libs \<Rightarrow> fs_path \<Rightarrow> uuid \<Rightarrow> string \<Rightarrow> string list \<Rightarrow> string list \<Rightarrow> string list snap" where
  "collect_own_attempts S runs run_id expected own [] = ret own"
| "collect_own_attempts S runs run_id expected own (name # names) =
     (if is_some_and (parse_terminal_attempt S name) (\<lambda>p. fst p = run_id) then
        if length own = 4 then fail QuarantineCollision
        else perform (read_private_file runs name MAX_MANIFEST_BYTES) (\<lambda>actual.
        if actual \<noteq> expected then fail QuarantineCollision
        else collect_own_attempts S runs run_id expected (own @ [name]) names)
      else collect_own_attempts S runs run_id expected own names)"

definition finalize_terminal :: "snap_libs \<Rightarrow> gc_json \<Rightarrow> fs_path \<Rightarrow> completion_marker \<Rightarrow> unit snap" where
  "finalize_terminal S J runs complete =
     perform (of_result (ok_or (completion_to_vec J complete) SnapJson)) (\<lambda>expected.
     perform (read_private_file runs (terminal_name S (cm_run_id complete)) MAX_MANIFEST_BYTES) (\<lambda>actual.
     if actual \<noteq> expected then fail QuarantineCollision
     else perform (bounded_utf8_names runs MAX_PHYSICAL_RUN_ENTRIES) (\<lambda>names.
     perform (collect_own_attempts S runs (cm_run_id complete) expected [] names) (\<lambda>own.
     perform (for_acts (\<lambda>name. remove_file_synced runs name (cm_run_id complete) None DeletionRuns) own) (\<lambda>_.
     sync_published runs DeletionRuns)))))"

section \<open>Deletion of a run\<close>

definition cleanup_plan_bytes ::
    "snap_libs \<Rightarrow> gc_json \<Rightarrow> completion_marker \<Rightarrow> string \<Rightarrow> snapshot_error + gc_plan" where
  "cleanup_plan_bytes S J complete bytes =
     and_then (check_plan_bytes S J SnapJson QuarantineCollision (cm_run_id complete) (cm_vault_id complete) bytes)
       (\<lambda>plan. if gp_plan_blake3 plan \<noteq> cm_plan_blake3 complete then Inl QuarantineCollision else Inr plan)"

definition require_empty :: "fs_path \<Rightarrow> unit snap" where
  "require_empty directory =
     perform (io (sys_entries directory)) (\<lambda>names. require (names = []) QuarantineCollision)"

definition preflight_completed_nested ::
    "snap_libs \<Rightarrow> gc_json \<Rightarrow> fs_path \<Rightarrow> completion_marker \<Rightarrow> gc_plan option snap" where
  "preflight_completed_nested S J run complete =
     perform (preflight_run_root S J run complete True) (\<lambda>_.
     perform (read_optional_private_file run PLAN MAX_PLAN_BYTES) (\<lambda>found.
     perform (case found of
         None \<Rightarrow> ret None
       | Some bytes \<Rightarrow> perform (of_result (cleanup_plan_bytes S J complete bytes)) (\<lambda>plan. ret (Some plan))) (\<lambda>plan.
     perform (open_optional_private_dir run ITEMS) (\<lambda>items.
     perform (case items of None \<Rightarrow> ret () | Some d \<Rightarrow> require_empty d) (\<lambda>_.
     perform (open_optional_private_dir run STATE) (\<lambda>state.
     perform (case state of
         None \<Rightarrow> ret ()
       | Some d \<Rightarrow> perform (of_result (ok_or plan QuarantineCollision)) (\<lambda>p.
           perform (validate_state_subset S d p) (\<lambda>marked.
           for_acts (\<lambda>c. perform (validate_detached_marker S J d p c) (\<lambda>_. ret ())) marked))) (\<lambda>_.
     perform (open_optional_private_dir run MARKER_STAGING) (\<lambda>staging.
     perform (case staging of None \<Rightarrow> ret () | Some d \<Rightarrow> require_empty d) (\<lambda>_.
     ret plan)))))))))"

definition remove_markers ::
    "snap_libs \<Rightarrow> gc_json \<Rightarrow> fs_path \<Rightarrow> uuid \<Rightarrow> gc_plan \<Rightarrow> gc_candidate list \<Rightarrow> unit snap" where
  "remove_markers S J state run_id plan marked =
     for_acts (\<lambda>c. perform (validate_detached_marker S J state plan c) (\<lambda>_.
       remove_file_synced state (marker_name S (gc_snapshot_id c)) run_id (Some (gc_snapshot_id c))
         QuarantineState)) marked"

definition cleanup_completed_run_without_plan ::
    "snap_libs \<Rightarrow> gc_json \<Rightarrow> fs_path \<Rightarrow> fs_path \<Rightarrow> completion_marker \<Rightarrow> unit snap" where
  "cleanup_completed_run_without_plan S J runs run complete =
     (let run_id = cm_run_id complete in
      perform (preflight_terminal_family S J runs complete True) (\<lambda>_.
      perform (preflight_completed_nested S J run complete) (\<lambda>plan.
      perform (sync_published run DeletionRun) (\<lambda>_.
      perform (open_optional_private_dir run STATE) (\<lambda>state.
      perform (case state of
          None \<Rightarrow> ret ()
        | Some d \<Rightarrow> perform (of_result (ok_or plan QuarantineCollision)) (\<lambda>p.
            perform (validate_state_subset S d p) (\<lambda>marked.
            perform (remove_markers S J d run_id p marked) (\<lambda>_.
            remove_empty_child_synced run STATE run_id DeletionRun)))) (\<lambda>_.
      perform (open_optional_private_dir run MARKER_STAGING) (\<lambda>staging.
      perform (case staging of
          None \<Rightarrow> ret ()
        | Some d \<Rightarrow> perform (require_empty d) (\<lambda>_.
            remove_empty_child_synced run MARKER_STAGING run_id DeletionRun)) (\<lambda>_.
      perform (open_optional_private_dir run ITEMS) (\<lambda>items.
      perform (case items of
          None \<Rightarrow> ret ()
        | Some _ \<Rightarrow> remove_empty_child_synced run ITEMS run_id DeletionRun) (\<lambda>_.
      perform (if plan \<noteq> None then remove_file_synced run PLAN run_id None DeletionRun else ret ()) (\<lambda>_.
      perform (remove_completion_attempts S J run complete) (\<lambda>_.
      perform (preflight_run_root S J run complete True) (\<lambda>_.
      perform (publish_terminal S J runs complete) (\<lambda>_.
      perform (remove_file_synced run COMPLETE run_id None DeletionRun) (\<lambda>_.
      perform (remove_held_dir_synced runs (uuid_string S run_id) run run_id None DeletionRuns) (\<lambda>_.
      finalize_terminal S J runs complete))))))))))))))))"

definition cleanup_completed_run ::
    "snap_libs \<Rightarrow> gc_json \<Rightarrow> fs_path \<Rightarrow> fs_path \<Rightarrow> gc_plan \<Rightarrow> unit snap" where
  "cleanup_completed_run S J runs run plan =
     perform (read_private_file run COMPLETE MAX_MANIFEST_BYTES) (\<lambda>bytes.
     perform (of_result (validate_completion_standalone J bytes (gp_run_id plan) (gp_vault_id plan))) (\<lambda>complete.
     cleanup_completed_run_without_plan S J runs run complete))"

text \<open>The run directory is gone, or empty: only the terminal record is left to finish.\<close>

definition finish_absent_run ::
    "snap_libs \<Rightarrow> gc_json \<Rightarrow> fs_path \<Rightarrow> uuid \<Rightarrow> completion_marker option \<Rightarrow> fs_path option \<Rightarrow> deletion_report snap" where
  "finish_absent_run S J runs run_id terminal run =
     perform (of_result (ok_or terminal QuarantineCollision)) (\<lambda>complete.
     perform (preflight_terminal_family S J runs complete True) (\<lambda>_.
     perform (case run of
         None \<Rightarrow> ret ()
       | Some d \<Rightarrow> remove_held_dir_synced runs (uuid_string S run_id) d run_id None DeletionRuns) (\<lambda>_.
     perform (finalize_terminal S J runs complete) (\<lambda>_.
     ret \<lparr>dr_run_id = run_id, dr_outcome = DeletionResumed, dr_reclaimed_bytes = 0\<rparr>))))"

definition finish_completed_run ::
    "snap_libs \<Rightarrow> gc_json \<Rightarrow> fs_path \<Rightarrow> fs_path \<Rightarrow> uuid \<Rightarrow> uuid \<Rightarrow> string \<Rightarrow> deletion_report snap" where
  "finish_completed_run S J runs run run_id vault_id bytes =
     perform (of_result (validate_completion_standalone J bytes run_id vault_id)) (\<lambda>completion.
     perform (preflight_terminal_family S J runs completion True) (\<lambda>_.
     perform (sync_published run DeletionRun) (\<lambda>_.
     perform (cleanup_completed_run_without_plan S J runs run completion) (\<lambda>_.
     ret \<lparr>dr_run_id = run_id, dr_outcome = DeletionResumed, dr_reclaimed_bytes = 0\<rparr>))))"

definition delete_active_run ::
    "snap_libs \<Rightarrow> gc_json \<Rightarrow> snapshot_store \<Rightarrow> fs_path \<Rightarrow> fs_path \<Rightarrow> uuid \<Rightarrow> deletion_report snap" where
  "delete_active_run S J st runs run run_id =
     perform (read_private_file run PLAN MAX_PLAN_BYTES) (\<lambda>plan_bytes.
     perform (of_result (check_plan_bytes S J InvalidGcPlan InvalidGcPlan run_id (st_vault_id st) plan_bytes)) (\<lambda>plan.
     perform (preflight_run_root S J run (completion_from_plan plan) False) (\<lambda>_.
     perform (preflight_terminal_family S J runs (completion_from_plan plan) False) (\<lambda>_.
     perform (open_run_dirs run) (\<lambda>d.
     perform (preflight_initial_nested S J d plan) (\<lambda>_.
     perform (delete_candidates S J d plan 0 (gp_candidates plan)) (\<lambda>reclaimed_bytes.
     perform (require_empty (rd_items d)) (\<lambda>_.
     perform (require_empty (rd_marker_staging d)) (\<lambda>_.
     perform (validate_state_exact S (rd_state d) plan) (\<lambda>_.
     perform (publish_completion S J run plan) (\<lambda>_.
     perform (cleanup_completed_run S J runs run plan) (\<lambda>_.
     ret \<lparr>dr_run_id = run_id,
       dr_outcome = (if reclaimed_bytes = 0 then DeletionResumed else DeletionCompleted),
       dr_reclaimed_bytes = reclaimed_bytes\<rparr>))))))))))))"

definition delete_quarantined_locked ::
    "snap_libs \<Rightarrow> gc_json \<Rightarrow> snapshot_store \<Rightarrow> uuid \<Rightarrow> deletion_report snap" where
  "delete_quarantined_locked S J st run_id =
     perform (open_run_roots st) (\<lambda>(runs, _, _).
     perform (read_terminal S J runs run_id (st_vault_id st)) (\<lambda>terminal.
     perform (open_optional_private_dir runs (uuid_string S run_id)) (\<lambda>found. case found of
       None \<Rightarrow> finish_absent_run S J runs run_id terminal None
     | Some run \<Rightarrow>
         perform (io (sys_entries run)) (\<lambda>names.
         if names = [] then finish_absent_run S J runs run_id terminal (Some run)
         else perform (read_optional_private_file run COMPLETE MAX_MANIFEST_BYTES) (\<lambda>complete. case complete of
           Some bytes \<Rightarrow> finish_completed_run S J runs run run_id (st_vault_id st) bytes
         | None \<Rightarrow> delete_active_run S J st runs run run_id)))))"

definition delete_quarantined_run ::
    "snap_libs \<Rightarrow> gc_json \<Rightarrow> snapshot_store \<Rightarrow> uuid \<Rightarrow> deletion_report snap" where
  "delete_quarantined_run S J st run_id =
     (if is_nil run_id then fail InvalidSnapshotId
      else with_operation_lock DeletedButLockLost st (delete_quarantined_locked S J st run_id))"

end
