(* ===== verification/Quarantine_Layout.thy ===== *)
theory Quarantine_Layout
  imports Quarantine_Delete
begin

text \<open>The directories of the quarantine, and what the operations that open them return.\<close>

definition quarantine_dir :: "snapshot_store \<Rightarrow> fs_path" where
  "quarantine_dir st = st_vault st @ [QUARANTINE]"

definition runs_dir :: "snapshot_store \<Rightarrow> fs_path" where
  "runs_dir st = quarantine_dir st @ [Q_VERSION, RUNS]"

definition works_dir :: "snapshot_store \<Rightarrow> fs_path" where
  "works_dir st = quarantine_dir st @ [Q_VERSION, WORK]"

definition run_dir :: "snap_libs \<Rightarrow> snapshot_store \<Rightarrow> uuid \<Rightarrow> fs_path" where
  "run_dir S st run = runs_dir st @ [uuid_string S run]"

lemmas quarantine_names = QUARANTINE_def Q_VERSION_def RUNS_def WORK_def PLAN_def COMPLETE_def ITEMS_def
  STATE_def MARKER_STAGING_def TERMINAL_PREFIX_def TERMINAL_SUFFIX_def TERMINAL_ATTEMPT_PREFIX_def

section \<open>Handles\<close>

lemma learns_perform_result: "(\<And>x. learns (f x) Q) \<Longrightarrow> learns (perform m f) Q"
  unfolding learns_def perform_def by (auto split: sum.splits prod.splits)

lemma learns_attempt_result: "(\<And>r. learns (f r) Q) \<Longrightarrow> learns (attempt m f) Q"
  unfolding learns_def attempt_def by (auto split: prod.splits)

lemma learns_known:
  assumes "learns m (\<lambda>x _. R x)" and "\<And>x. R x \<Longrightarrow> learns (f x) Q"
  shows "learns (perform m f) Q"
  unfolding learns_def
proof (intro allI impI)
  fix w :: world and y
  assume "fst (perform m f w) = Inr y"
  then obtain w' where w': "perform m f w = (Inr y, w')" by (metis prod.collapse)
  then obtain x w1 where s: "m w = (Inr x, w1)" "f x w1 = (Inr y, w')" by (rule perform_Inr)
  then show "Q y (w_tree (snd (perform m f w)))"
    using learnsD [OF assms(2) s(2)] learnsD [OF assms(1) s(1)] w' by simp
qed

lemma learns_child_handle: "learns (open_child_dir_nofollow d n) (\<lambda>h _. h = d @ [n])"
  unfolding open_child_dir_nofollow_def
  by (rule learns_perform_result) (auto intro: learns_ret learns_fail)

lemma learns_private_handle: "learns (open_private_dir d n) (\<lambda>h _. h = d @ [n])"
  unfolding open_private_dir_def
  by (rule learns_perform_result, rule learns_known [OF learns_child_handle], rule learns_perform_result)
    (auto intro: learns_ret)

lemma learns_created_handle: "learns (create_or_open_private_dir d n) (\<lambda>h _. h = d @ [n])"
  unfolding create_or_open_private_dir_def
  by (rule learns_perform_result, rule learns_attempt_result, rule learns_perform_result,
      rule learns_known [OF learns_child_handle], (rule learns_perform_result)+)
    (auto intro: learns_ret)

lemma learns_optional_handle:
  "learns (open_optional_private_dir d n) (\<lambda>r _. case r of None \<Rightarrow> True | Some h \<Rightarrow> h = d @ [n])"
  by (rule learns_mono [OF learns_open_optional_private_dir]) (auto split: option.splits)

lemma learns_run_roots:
  "learns (open_run_roots st) (\<lambda>r _. fst r = runs_dir st \<and> fst (snd r) = works_dir st)"
  unfolding open_run_roots_def
  by (rule learns_known [OF learns_lift_err [OF learns_created_handle]])+
    (rule learns_perform_result, auto intro!: learns_ret simp: runs_dir_def works_dir_def quarantine_dir_def)

lemma learns_run_dirs:
  "learns (open_run_dirs run) (\<lambda>d _. d = \<lparr>rd_items = run @ [ITEMS], rd_state = run @ [STATE],
     rd_marker_staging = run @ [MARKER_STAGING]\<rparr>)"
  unfolding open_run_dirs_def
  by (rule learns_known [OF learns_lift_err [OF learns_private_handle]])+ (auto intro!: learns_ret)

section \<open>Operations that only read\<close>

lemma reads_quarantine_checks [read_intros]:
  "reads (validate_run_entries run)" "reads (bounded_entry_count run)" "reads (open_run_dirs run)"
  "reads (sync_detached plan c d b)" "reads (sync_marker_parents plan c dirs)"
  "reads (bounded_utf8_names run k)" "reads (validate_detached_marker S J state plan c)"
  "reads (require_empty run)"
  unfolding validate_run_entries_def bounded_entry_count_def open_run_dirs_def sync_marker_parents_def
    sync_detached_def bounded_utf8_names_def validate_detached_marker_def require_empty_def
  by (intro read_intros)+

lemma reads_check_staged_markers [read_intros]: "reads (check_staged_markers S d planned seen names)"
  by (induction names arbitrary: seen) (auto intro!: read_intros)

lemma reads_validate_plan_children [read_intros]: "reads (validate_plan_children S plan d)"
  unfolding validate_plan_children_def Let_def by (intro read_intros)

lemma reads_find_attempt [read_intros]: "reads (find_attempt d bytes names)"
  by (induction names) (auto intro!: read_intros)

lemma reads_confirm_marked [read_intros]: "reads (confirm_marked S J st plan d c bytes)"
  unfolding confirm_marked_def by (intro read_intros)

lemma reads_list_runs [read_intros]: "reads (list_runs S J runs v req count seen found names)"
  by (induction names arbitrary: count seen found) (auto intro!: read_intros)

lemma reads_load_runs [read_intros]: "reads (load_runs S J runs v found)"
  by (induction found) (auto intro!: read_intros)

lemma reads_count_active_runs [read_intros]: "reads (count_active_runs S J runs v k seen active names)"
  by (induction names arbitrary: k seen active) (auto intro!: read_intros)

lemma reads_bounded_active_run_count [read_intros]: "reads (bounded_active_run_count S J runs v)"
  unfolding bounded_active_run_count_def by (intro read_intros)

lemma reads_bind_candidate [read_intros]: "reads (bind_candidate S st c)"
  unfolding bind_candidate_def Let_def by (intro read_intros)

lemma reads_bind_candidates [read_intros]: "reads (bind_candidates S st cs)"
  by (induction cs) (auto intro!: read_intros)

lemma reads_state_checks [read_intros]:
  "reads (validate_state_exact S state plan)" "reads (validate_state_subset S state plan)"
  "reads (preflight_candidate_item S items plan c)"
  unfolding validate_state_exact_def validate_state_subset_def preflight_candidate_item_def
  by (intro read_intros)+

lemma reads_expected_markers [read_intros]: "reads (expected_markers S J state plan cs)"
  by (induction cs) (auto intro!: read_intros)

lemma reads_check_marker_family [read_intros]: "reads (check_marker_family S staging expected limit seen names)"
  by (induction names arbitrary: seen) (auto intro!: read_intros)

lemma reads_preflight_initial_nested [read_intros]: "reads (preflight_initial_nested S J d plan)"
  unfolding preflight_initial_nested_def by (intro read_intros)

lemma reads_check_run_root [read_intros]:
  "reads (check_run_root S run expected published count attempts controls names)"
  by (induction names arbitrary: count attempts controls) (auto intro!: read_intros)

lemma reads_preflight_run_root [read_intros]: "reads (preflight_run_root S J run complete published)"
  unfolding preflight_run_root_def by (intro read_intros)

lemma reads_check_terminal_family [read_intros]:
  "reads (check_terminal_family S runs u expected allow physical attempts names)"
  by (induction names arbitrary: physical attempts) (auto intro!: read_intros)

lemma reads_preflight_terminal_family [read_intros]: "reads (preflight_terminal_family S J runs expected allow)"
  unfolding preflight_terminal_family_def by (intro read_intros)

lemma reads_read_terminal [read_intros]: "reads (read_terminal S J runs u v)"
  unfolding read_terminal_def by (intro read_intros)

lemma reads_own_terminal_attempts [read_intros]: "reads (own_terminal_attempts S runs u bytes physical names)"
  by (induction names arbitrary: physical) (auto intro!: read_intros)

lemma reads_collect_own_attempts [read_intros]: "reads (collect_own_attempts S runs u expected own names)"
  by (induction names arbitrary: own) (auto intro!: read_intros)

lemma reads_preflight_completed_nested [read_intros]: "reads (preflight_completed_nested S J run complete)"
  unfolding preflight_completed_nested_def by (intro read_intros)

section \<open>Changes at one path\<close>

lemma triple_create_or_open_private_dir:
  "triple (\<lambda>t. t = u) (create_or_open_private_dir d n) (\<lambda>_. changed_at (d @ [n]) u) (changed_at (d @ [n]) u)"
proof -
  let ?p = "d @ [n]"
  have create: "change.keeps ?p (sys_create_dir ?p)"
    by (rule change.keeps_of_triple, rule triple_weaken [OF triple_sys_create_dir]) (auto intro: changed_at_put)
  have perm: "change.keeps ?p (set_private_directory_permissions ?p)"
    unfolding set_private_directory_permissions_def
    by (rule change.keeps_lift_err, rule change.keeps_of_triple, rule triple_weaken [OF triple_sys_set_private])
      (auto intro: changed_at_put)
  have "change.keeps ?p (create_or_open_private_dir d n)"
    unfolding create_or_open_private_dir_def
    apply (rule change.keeps_perform, intro keep_intros)
    apply (rule change.keeps_attempt, rule create)
    apply (rule change.keeps_perform, intro keep_intros)
    apply (rule change.keeps_learn_then [OF change.keeps_reads learns_child_handle], intro read_intros, clarify)
    apply (intro keep_intros perm)
      apply (intro change.keeps_reads read_intros)+
    done
  from change.triple_of_upholds [OF this [unfolded change.keeps_def]] show ?thesis
    by (rule triple_weaken) auto
qed

context discipline
begin

lemma keeps_run_roots:
  assumes "\<And>p t u. p \<in> {quarantine_dir st, quarantine_dir st @ [Q_VERSION], runs_dir st, works_dir st}
    \<Longrightarrow> changed_at p t u \<Longrightarrow> K t u"
  shows "keeps (open_run_roots st)"
proof -
  have root: "keeps (create_or_open_private_dir d n)"
    if "d @ [n] \<in> {quarantine_dir st, quarantine_dir st @ [Q_VERSION], runs_dir st, works_dir st}" for d n
    using assms [OF that]
    by (intro keeps_of_triple triple_weaken [OF triple_create_or_open_private_dir]) auto
  show ?thesis
    unfolding open_run_roots_def
    apply (rule keeps_learn_then [OF _ learns_lift_err [OF learns_created_handle]],
        rule keeps_lift_err, rule root, simp add: quarantine_dir_def, clarify)
    apply (rule keeps_learn_then [OF _ learns_lift_err [OF learns_created_handle]],
        rule keeps_lift_err, rule root, simp add: quarantine_dir_def, clarify)
    apply (rule keeps_learn_then [OF _ learns_lift_err [OF learns_created_handle]],
        rule keeps_lift_err, rule root, simp add: quarantine_dir_def runs_dir_def, clarify)
    apply (rule keeps_learn_then [OF _ learns_lift_err [OF learns_created_handle]],
        rule keeps_lift_err, rule root, simp add: quarantine_dir_def works_dir_def, clarify)
    apply (intro keeps_reads read_intros)
    done
qed

end

end
