(* ===== verification/Deletion_Safety.thy ===== *)
theory Deletion_Safety
  imports Quarantine_Layout
begin

text \<open>
  What the deletion of a run may change, whatever fails on the way: its own directory and its own
  terminal record, and of its items only those that a valid plan and a matching marker name.
\<close>

section \<open>The discipline of deletion\<close>

definition may_touch :: "snap_libs \<Rightarrow> snapshot_store \<Rightarrow> uuid \<Rightarrow> fs_path \<Rightarrow> bool" where
  "may_touch S st run p = (p \<in> {quarantine_dir st, quarantine_dir st @ [Q_VERSION], runs_dir st, works_dir st}
     \<or> prefix (run_dir S st run) p \<or> prefix (runs_dir st @ [terminal_name S run]) p
     \<or> (\<exists>a. prefix (runs_dir st @ [terminal_attempt_prefix S run @ a]) p))"

text \<open>The evidence of a run: its plan, its markers and its items.\<close>

definition run_evidence :: "snap_libs \<Rightarrow> snapshot_store \<Rightarrow> uuid \<Rightarrow> fs_path \<Rightarrow> bool" where
  "run_evidence S st run p = (prefix (run_dir S st run @ [ITEMS]) p \<or> prefix (run_dir S st run @ [STATE]) p
     \<or> p = run_dir S st run @ [PLAN])"

definition authorized :: "snap_libs \<Rightarrow> gc_json \<Rightarrow> snapshot_store \<Rightarrow> uuid \<Rightarrow> tree \<Rightarrow> string \<Rightarrow> bool" where
  "authorized S J st run t n = (\<exists>plan_bytes plan c bytes.
     file_holds t (run_dir S st run @ [PLAN]) plan_bytes
     \<and> check_plan_bytes S J InvalidGcPlan InvalidGcPlan run (st_vault_id st) plan_bytes = Inr plan
     \<and> c \<in> set (gp_candidates plan) \<and> n = uuid_string S (gc_snapshot_id c)
     \<and> file_holds t (run_dir S st run @ [STATE, marker_name S (gc_snapshot_id c)]) bytes
     \<and> check_marker_bytes J SnapJson plan c bytes = Inr ())"

definition deletes :: "snap_libs \<Rightarrow> gc_json \<Rightarrow> snapshot_store \<Rightarrow> uuid \<Rightarrow> tree \<Rightarrow> tree \<Rightarrow> bool" where
  "deletes S J st run t u =
     ((\<forall>p. \<not> may_touch S st run p \<longrightarrow> node_at u p = node_at t p)
    \<and> (\<forall>p x. run_evidence S st run p \<longrightarrow> node_at u p = Some x \<longrightarrow> node_at t p = Some x)
    \<and> (\<forall>n r. node_at u (run_dir S st run @ [ITEMS, n] @ r) \<noteq> node_at t (run_dir S st run @ [ITEMS, n] @ r)
         \<longrightarrow> authorized S J st run t n))"

lemma authorized_before:
  assumes "\<And>p x. run_evidence S st run p \<Longrightarrow> node_at u p = Some x \<Longrightarrow> node_at t p = Some x"
    and "authorized S J st run u n"
  shows "authorized S J st run t n"
proof -
  have "file_holds t p b" if "run_evidence S st run p" "file_holds u p b" for p b
    using assms(1) that unfolding file_holds_def by blast
  then show ?thesis using assms(2) unfolding authorized_def
    by (metis run_evidence_def append_Cons append_assoc append_Nil prefixI)
qed

lemma deletes_trans:
  assumes 1: "deletes S J st run t u" and 2: "deletes S J st run u v"
  shows "deletes S J st run t v"
  unfolding deletes_def
proof (intro conjI allI impI)
  fix p
  assume "\<not> may_touch S st run p"
  with 1 2 show "node_at v p = node_at t p" by (simp add: deletes_def)
next
  fix p x
  assume "run_evidence S st run p" "node_at v p = Some x"
  with 1 2 show "node_at t p = Some x" by (simp add: deletes_def)
next
  fix n r
  let ?p = "run_dir S st run @ [ITEMS, n] @ r"
  assume "node_at v ?p \<noteq> node_at t ?p"
  then consider "node_at u ?p \<noteq> node_at t ?p" | "node_at v ?p \<noteq> node_at u ?p" by argo
  then show "authorized S J st run t n"
  proof cases
    case 1
    with assms(1) show ?thesis unfolding deletes_def by blast
  next
    case 2
    with assms(2) have "authorized S J st run u n" unfolding deletes_def by blast
    with assms(1) show ?thesis by (intro authorized_before [of S st run u t J n]) (auto simp: deletes_def)
  qed
qed

interpretation del: discipline "deletes S J st run" for S J st run
  by unfold_locales (simp add: deletes_def, rule deletes_trans)

section \<open>Steps\<close>

lemma deletes_changed:
  assumes "changed_at p t u" and "may_touch S st run p" and "\<not> run_evidence S st run p"
  shows "deletes S J st run t u"
proof -
  have *: "node_at u q = node_at t q" if "q \<noteq> p" for q using assms(1) that by (simp add: changed_at_def)
  have "run_evidence S st run (run_dir S st run @ [ITEMS, n] @ r)" for n r
    by (simp add: run_evidence_def prefix_def)
  with assms(2,3) * show ?thesis unfolding deletes_def by metis
qed

lemma deletes_drop:
  assumes "may_touch S st run p"
    and "\<And>n r. p = run_dir S st run @ [ITEMS, n] @ r \<Longrightarrow> authorized S J st run t n"
  shows "deletes S J st run t (drop_node p t)"
  using assms unfolding deletes_def by (simp add: node_at_drop) metis

lemma deletes_moved:
  assumes "\<not> occupied t d"
    and out: "\<And>p. prefix s p \<or> prefix d p \<Longrightarrow> may_touch S st run p \<and> \<not> run_evidence S st run p"
  shows "deletes S J st run t (move_tree s d t)"
proof -
  have *: "node_at (move_tree s d t) p = node_at t p" if "\<not> may_touch S st run p \<or> run_evidence S st run p" for p
  proof -
    have "\<not> prefix s p" "\<not> prefix d p" using out [of p] that by blast+
    then show ?thesis using node_at_move_outside [of d p s t] by simp
  qed
  have "run_evidence S st run (run_dir S st run @ [ITEMS, n] @ r)" for n r
    by (simp add: run_evidence_def prefix_def)
  with * show ?thesis unfolding deletes_def by auto
qed


section \<open>Removals\<close>

lemma remove_file_upholds:
  assumes "may_touch S st run (d @ [n])"
    and "\<And>t m q. P t \<Longrightarrow> d @ [n] = run_dir S st run @ [ITEMS, m] @ q \<Longrightarrow> authorized S J st run t m"
    and "\<And>t. P t \<Longrightarrow> Q (drop_node (d @ [n]) t)"
  shows "del.upholds S J st run P (remove_file_synced d n r s b) (\<lambda>_. Q)"
proof (rule del.upholds_of_triple)
  fix u
  assume p: "P u"
  have "deletes S J st run u (drop_node (d @ [n]) u)" by (rule deletes_drop [OF assms(1)]) (rule assms(2) [OF p])
  then show "triple (\<lambda>t. t = u) (remove_file_synced d n r s b)
      (\<lambda>_ t. deletes S J st run u t \<and> Q t) (deletes S J st run u)"
    by (intro triple_weaken [OF triple_remove_file_synced]) (auto intro: assms(3) [OF p] del.K_refl)
qed

lemma remove_dir_upholds:
  assumes "may_touch S st run (d @ [n])"
    and "\<And>t m q. P t \<Longrightarrow> d @ [n] = run_dir S st run @ [ITEMS, m] @ q \<Longrightarrow> authorized S J st run t m"
    and "\<And>t. P t \<Longrightarrow> Q (drop_node (d @ [n]) t)"
  shows "del.upholds S J st run P (remove_held_dir_synced d n h r s b) (\<lambda>_. Q)"
proof (rule del.upholds_of_triple)
  fix u
  assume p: "P u"
  have "deletes S J st run u (drop_node (d @ [n]) u)" by (rule deletes_drop [OF assms(1)]) (rule assms(2) [OF p])
  then show "triple (\<lambda>t. t = u) (remove_held_dir_synced d n h r s b)
      (\<lambda>_ t. deletes S J st run u t \<and> Q t) (deletes S J st run u)"
    by (intro triple_weaken [OF triple_remove_held_dir_synced]) (auto intro: assms(3) [OF p] del.K_refl)
qed

lemma may_touch_run: "may_touch S st run (run_dir S st run @ p)" "may_touch S st run (run_dir S st run)"
  by (simp_all add: may_touch_def)

text \<open>Removals outside the items need no authorization.\<close>

lemma keeps_remove_file:
  assumes "may_touch S st run (d @ [n])" and "\<not> prefix (run_dir S st run @ [ITEMS]) d"
  shows "del.keeps S J st run (remove_file_synced d n r s b)"
proof -
  have "d @ [n] \<noteq> run_dir S st run @ [ITEMS, m] @ q" for m q
    using assms(2) by (cases q rule: rev_cases) (auto simp: prefix_def)
  then show ?thesis unfolding del.keeps_def
    by (intro remove_file_upholds [OF assms(1)]) auto
qed

lemma keeps_remove_dir:
  assumes "may_touch S st run (d @ [n])" and "\<not> prefix (run_dir S st run @ [ITEMS]) d"
  shows "del.keeps S J st run (remove_held_dir_synced d n h r s b)"
proof -
  have "d @ [n] \<noteq> run_dir S st run @ [ITEMS, m] @ q" for m q
    using assms(2) by (cases q rule: rev_cases) (auto simp: prefix_def)
  then show ?thesis unfolding del.keeps_def
    by (intro remove_dir_upholds [OF assms(1)]) auto
qed

lemma keeps_remove_empty_child:
  "del.keeps S J st run (remove_empty_child_synced (run_dir S st run) n r b)"
  unfolding remove_empty_child_synced_def
  by (rule del.keeps_perform [OF del.keeps_reads], intro read_intros, rule keeps_remove_dir [OF may_touch_run(1)])
    (simp add: prefix_def)

section \<open>Deleting the items\<close>

text \<open>The plan and the marker of a candidate, as they stand while its item is deleted.\<close>

definition plan_stands :: "snap_libs \<Rightarrow> gc_json \<Rightarrow> snapshot_store \<Rightarrow> uuid \<Rightarrow> gc_plan \<Rightarrow> tree \<Rightarrow> bool" where
  "plan_stands S J st run plan t = (\<exists>bytes. file_holds t (run_dir S st run @ [PLAN]) bytes
     \<and> check_plan_bytes S J InvalidGcPlan InvalidGcPlan run (st_vault_id st) bytes = Inr plan)"

definition marker_stands ::
    "snap_libs \<Rightarrow> gc_json \<Rightarrow> snapshot_store \<Rightarrow> uuid \<Rightarrow> gc_plan \<Rightarrow> gc_candidate \<Rightarrow> tree \<Rightarrow> bool" where
  "marker_stands S J st run plan c t = (plan_stands S J st run plan t
     \<and> (\<exists>bytes. file_holds t (run_dir S st run @ [STATE, marker_name S (gc_snapshot_id c)]) bytes
          \<and> check_marker_bytes J SnapJson plan c bytes = Inr ()))"

lemma marker_stands_authorized:
  "marker_stands S J st run plan c t \<Longrightarrow> c \<in> set (gp_candidates plan)
    \<Longrightarrow> authorized S J st run t (uuid_string S (gc_snapshot_id c))"
  unfolding marker_stands_def plan_stands_def authorized_def by blast

lemma stands_drop:
  assumes "p \<noteq> run_dir S st run @ [PLAN]"
  shows "plan_stands S J st run plan t \<Longrightarrow> plan_stands S J st run plan (drop_node p t)"
    and "\<not> prefix (run_dir S st run @ [STATE]) p \<Longrightarrow> marker_stands S J st run plan c t
      \<Longrightarrow> marker_stands S J st run plan c (drop_node p t)"
proof -
  show plan: "plan_stands S J st run plan (drop_node p t)" if "plan_stands S J st run plan t" for t
    using that assms by (auto simp: plan_stands_def file_holds_def node_at_drop)
  show "marker_stands S J st run plan c (drop_node p t)"
    if "\<not> prefix (run_dir S st run @ [STATE]) p" "marker_stands S J st run plan c t"
    using that plan by (auto simp: marker_stands_def file_holds_def node_at_drop prefix_def)
qed

lemma delete_candidate_item_upholds:
  assumes c: "c \<in> set (gp_candidates plan)"
  shows "del.upholds S J st run (marker_stands S J st run plan c)
     (delete_candidate_item S (run_dir S st run @ [ITEMS]) plan c) (\<lambda>_. marker_stands S J st run plan c)"
proof -
  let ?items = "run_dir S st run @ [ITEMS]" and ?n = "uuid_string S (gc_snapshot_id c)"
  let ?P = "marker_stands S J st run plan c"
  have auth: "authorized S J st run t m" if "?P t" "?items @ [?n] @ p = run_dir S st run @ [ITEMS, m] @ q" for t m p q
    using marker_stands_authorized [OF that(1) c] that(2) by simp
  have keep: "?P (drop_node (?items @ p) t)" if "?P t" for p t
    by (rule stands_drop(2) [OF _ _ that]) (auto simp: prefix_def quarantine_names)
  have one: "del.upholds S J st run ?P (remove_file_synced (?items @ [?n]) f r s b) (\<lambda>_. ?P)" for f r s b
    by (rule remove_file_upholds)
      (use auth [where p = "[f]"] keep [where p = "[?n, f]"] may_touch_run(1) [of S st run "[ITEMS, ?n, f]"] in auto)
  have dir: "del.upholds S J st run ?P (remove_held_dir_synced ?items ?n h r s b) (\<lambda>_. ?P)" for h r s b
    by (rule remove_dir_upholds)
      (use auth [where p = "[]"] keep [where p = "[?n]"] may_touch_run(1) [of S st run "[ITEMS, ?n]"] in auto)
  have gone: "del.upholds S J st run ?P (if names = [MANIFEST_FILE, PAYLOAD_FILE] then
      perform (verify_bound S (?items @ [?n]) c (gp_vault_id plan)) (\<lambda>_.
      perform (remove_file_synced (?items @ [?n]) PAYLOAD_FILE (gp_run_id plan) (Some (gc_snapshot_id c)) DeletionItem) (\<lambda>_. ret 0))
    else if names = [MANIFEST_FILE] then
      perform (validate_manifest_only S (?items @ [?n]) c) (\<lambda>_.
      perform (remove_file_synced (?items @ [?n]) MANIFEST_FILE (gp_run_id plan) (Some (gc_snapshot_id c)) DeletionItem) (\<lambda>_. ret 0))
    else if names = [] then
      perform (remove_held_dir_synced ?items ?n (?items @ [?n]) (gp_run_id plan) (Some (gc_snapshot_id c)) DeletionItems) (\<lambda>_.
      ret (gc_logical_bytes c))
    else fail QuarantineCollision) (\<lambda>_. ?P)" for names
    apply (intro del.upholds_if)
       apply (rule del.upholds_read_then, intro read_intros, rule del.upholds_perform [OF one], rule del.upholds_retI, assumption)
      apply (rule del.upholds_read_then, intro read_intros, rule del.upholds_perform [OF one], rule del.upholds_retI, assumption)
     apply (rule del.upholds_perform [OF dir], rule del.upholds_retI, assumption)
    apply (rule del.upholds_fail)
    done
  show ?thesis
    unfolding delete_candidate_item_def Let_def
    apply (rule del.upholds_learn_then [OF reads_open_optional_private_dir learns_optional_handle])
    subgoal for found
      apply (cases found)
       apply (simp, rule del.upholds_retI, assumption)
      apply (simp only: option.case)
      apply (rule del.upholds_fact, clarify)
      apply (rule del.upholds_read_then, intro read_intros, rule gone)
      done
    done
qed

lemma delete_item_loop_upholds:
  assumes c: "c \<in> set (gp_candidates plan)"
  shows "del.upholds S J st run (marker_stands S J st run plan c)
     (delete_item_loop S (run_dir S st run @ [ITEMS]) plan c acc) (\<lambda>_. marker_stands S J st run plan c)"
proof -
  let ?items = "run_dir S st run @ [ITEMS]" and ?P = "marker_stands S J st run plan c"
  let ?open = "open_optional_private_dir ?items (uuid_string S (gc_snapshot_id c))"
  note step = delete_candidate_item_upholds [OF c, of S J st run]
  have "deletes S J st run (w_tree w) (w_tree (snd (delete_item_loop S ?items plan c acc w)))
      \<and> (\<forall>x. fst (delete_item_loop S ?items plan c acc w) = Inr x
           \<longrightarrow> ?P (w_tree (snd (delete_item_loop S ?items plan c acc w))))"
    if "?P (w_tree w)" for w acc
    using that
  proof (induction "length (w_tree w)" arbitrary: w acc rule: less_induct)
    case less
    obtain r w1 where 1: "delete_candidate_item S ?items plan c w = (r, w1)" by (cases "delete_candidate_item S ?items plan c w")
    obtain q w2 where 2: "?open w1 = (q, w2)" by (cases "?open w1")
    have k: "deletes S J st run (w_tree w) (w_tree w1)" using del.upholds_K [OF step less.prems] 1 by simp
    have same: "w_tree w2 = w_tree w1" using reads_tree [OF reads_open_optional_private_dir] 2 by (metis snd_conv)
    have p: "?P (w_tree w1)" if "r = Inr x" for x
      using del.upholds_Q [OF step less.prems] 1 that by simp
    show ?case
    proof (cases "\<exists>acc' d. r = Inr 0 \<and> checked_add acc 0 = Some acc' \<and> q = Inr (Some d)")
      case True
      then obtain acc' d where c: "r = Inr 0" "checked_add acc 0 = Some acc'" "q = Inr (Some d)" by blast
      have small: "length (w_tree w2) < length (w_tree w)" using delete_candidate_item_shrinks 1 2 c by blast
      have "?P (w_tree w2)" using p [OF c(1)] same by simp
      note rest = less.hyps [OF small this, of acc']
      have eq: "delete_item_loop S ?items plan c acc w = delete_item_loop S ?items plan c acc' w2"
        by (subst delete_item_loop.simps) (simp add: 1 2 c)
      show ?thesis unfolding eq using rest k same by (auto intro: deletes_trans)
    next
      case False
      have "delete_item_loop S ?items plan c acc w \<in> {(x, v). (v = w1 \<or> v = w2) \<and> (\<forall>y. x = Inr y \<longrightarrow> (\<exists>z. r = Inr z))}"
        using False by (subst delete_item_loop.simps) (auto simp: 1 2 split: sum.splits option.splits)
      then show ?thesis using k p same by (cases "delete_item_loop S ?items plan c acc w") auto
    qed
  qed
  then show ?thesis by (simp add: del.upholds_def)
qed

lemma keeps_marker_attempts:
  assumes "\<And>t n. P t \<Longrightarrow> P (drop_node (run_dir S st run @ [MARKER_STAGING, n]) t)"
  shows "del.upholds S J st run P
     (remove_marker_attempts S (run_dir S st run @ [MARKER_STAGING]) plan c expected own names) (\<lambda>_. P)"
proof (induction names arbitrary: own)
  case Nil
  show ?case by (simp, rule del.upholds_retI, assumption)
next
  case (Cons name names)
  have one: "del.upholds S J st run P (remove_file_synced (run_dir S st run @ [MARKER_STAGING]) name r s b) (\<lambda>_. P)" for r s b
    by (rule remove_file_upholds)
      (use assms may_touch_run(1) [of S st run "[MARKER_STAGING, name]"] in \<open>auto simp: quarantine_names\<close>)
  show ?case
  proof (cases "parse_marker_attempt S name")
    case None
    then show ?thesis by (simp add: del.upholds_fail)
  next
    case (Some p)
    obtain u v where p: "p = (u, v)" by (cases p)
    show ?thesis
      unfolding remove_marker_attempts.simps Some p option.case prod.case
      apply (intro del.upholds_if Cons.IH del.upholds_fail)
      apply (rule del.upholds_read_then, intro read_intros)
      apply (intro del.upholds_if del.upholds_fail del.upholds_perform [OF one] Cons.IH)
      done
  qed
qed

lemma learns_validate_detached_marker:
  "learns (validate_detached_marker S J state plan c) (\<lambda>_ t. \<exists>bytes.
     file_holds t (state @ [marker_name S (gc_snapshot_id c)]) bytes \<and> check_marker_bytes J SnapJson plan c bytes = Inr ())"
  unfolding validate_detached_marker_def
  apply (rule learns_perform [OF learns_read_private_file], intro read_intros)
  apply (rule learns_perform [OF learns_of_result [where Q = "\<lambda>_ _. check_marker_bytes J SnapJson plan c _ = Inr ()"]], simp, intro read_intros)
  apply (rule learns_ret, auto)
  done

definition run_dirs_of :: "fs_path \<Rightarrow> run_dirs" where
  "run_dirs_of run = \<lparr>rd_items = run @ [ITEMS], rd_state = run @ [STATE], rd_marker_staging = run @ [MARKER_STAGING]\<rparr>"

lemma run_dirs_of_simps [simp]:
  "rd_items (run_dirs_of run) = run @ [ITEMS]" "rd_state (run_dirs_of run) = run @ [STATE]"
  "rd_marker_staging (run_dirs_of run) = run @ [MARKER_STAGING]"
  by (simp_all add: run_dirs_of_def)

lemma delete_candidate_upholds:
  assumes c: "c \<in> set (gp_candidates plan)"
  shows "del.upholds S J st run (plan_stands S J st run plan)
     (delete_candidate S J (run_dirs_of (run_dir S st run)) plan c acc) (\<lambda>_. plan_stands S J st run plan)"
proof -
  let ?P = "marker_stands S J st run plan c"
  have staged: "?P (drop_node (run_dir S st run @ [MARKER_STAGING, n]) t)" if "?P t" for t n
    by (rule stands_drop(2) [OF _ _ that]) (simp_all add: quarantine_names)
  have resolve: "del.upholds S J st run ?P
      (resolve_marker_attempts_for_delete S J (run_dirs_of (run_dir S st run)) plan c) (\<lambda>_. ?P)"
    unfolding resolve_marker_attempts_for_delete_def run_dirs_of_simps
    by (rule del.upholds_read_then, intro read_intros, rule del.upholds_read_then, intro read_intros,
        rule keeps_marker_attempts, rule staged)
  show ?thesis
    unfolding delete_candidate_def run_dirs_of_simps
    apply (rule del.upholds_learn_then [OF _ learns_validate_detached_marker], intro read_intros)
    apply (rule del.upholds_perform [OF del.upholds_weaken [OF resolve]])
      apply (simp add: marker_stands_def)
     apply assumption
    apply (rule del.upholds_weaken [OF delete_item_loop_upholds [OF c]], assumption, simp add: marker_stands_def)
    done
qed

lemma delete_candidates_upholds:
  "set cs \<subseteq> set (gp_candidates plan) \<Longrightarrow> del.upholds S J st run (plan_stands S J st run plan)
     (delete_candidates S J (run_dirs_of (run_dir S st run)) plan acc cs) (\<lambda>_. plan_stands S J st run plan)"
proof (induction cs arbitrary: acc)
  case Nil
  show ?case by (simp, rule del.upholds_retI, assumption)
next
  case (Cons c cs)
  then have c: "c \<in> set (gp_candidates plan)" and cs: "set cs \<subseteq> set (gp_candidates plan)" by simp_all
  show ?case
    by (simp, rule del.upholds_perform [OF delete_candidate_upholds [OF c] Cons.IH [OF cs]])
qed

section \<open>Completion\<close>

lemma prefix_siblings: "prefix (d @ [x]) p \<Longrightarrow> prefix (d @ [y]) p \<Longrightarrow> x = y"
  by (auto simp: prefix_def)

lemma run_evidence_run:
  "run_evidence S st run p \<Longrightarrow> prefix (run_dir S st run) p"
  by (auto simp: run_evidence_def prefix_def)

lemma run_child_no_evidence:
  assumes "n \<notin> {ITEMS, STATE, PLAN}" and "prefix (run_dir S st run @ [n]) p"
  shows "may_touch S st run p \<and> \<not> run_evidence S st run p"
proof
  show "may_touch S st run p" using assms(2) by (auto simp: may_touch_def prefix_def)
  show "\<not> run_evidence S st run p" using assms by (auto simp: run_evidence_def prefix_def)
qed

lemma runs_child_no_evidence:
  assumes ids: "uuid_text_ok S" and n: "n = terminal_name S run \<or> (\<exists>a. n = terminal_attempt_prefix S run @ a)"
    and p: "prefix (runs_dir st @ [n]) p"
  shows "may_touch S st run p \<and> \<not> run_evidence S st run p"
proof
  show "may_touch S st run p" using n p by (auto simp: may_touch_def)
  have "n \<noteq> uuid_string S run"
    using n uuid_string_plain [OF ids]
    by (auto simp: terminal_name_def terminal_attempt_prefix_def quarantine_names)
  then show "\<not> run_evidence S st run p"
    using run_evidence_run [of S st run p] p prefix_siblings unfolding run_dir_def by metis
qed

lemma keeps_write:
  assumes "\<And>p. prefix (d @ [n]) p \<Longrightarrow> may_touch S st run p \<and> \<not> run_evidence S st run p"
  shows "del.keeps S J st run (write_private_file d n bytes)"
  by (rule del.keeps_of_triple, rule triple_weaken [OF triple_write_private_file])
    (use assms [of "d @ [n]"] in \<open>auto intro: deletes_changed\<close>)

lemma keeps_rename:
  assumes "\<And>p. prefix (d @ [n]) p \<or> prefix (e @ [m]) p \<Longrightarrow> may_touch S st run p \<and> \<not> run_evidence S st run p"
  shows "del.keeps S J st run (atomic_rename_noreplace d n e m)"
proof -
  have "deletes S J st run u (move_tree (d @ [n]) (e @ [m]) u)" if "\<not> occupied u (e @ [m])" for u
    by (rule deletes_moved [OF that assms])
  then show ?thesis
    unfolding atomic_rename_noreplace_def
    by (intro del.keeps_lift_err del.keeps_of_triple triple_weaken [OF triple_sys_rename_noreplace])
      (auto intro: del.K_refl)
qed

lemma learns_find_attempt: "learns (find_attempt d bytes names) (\<lambda>r _. case r of None \<Rightarrow> True | Some n \<Rightarrow> n \<in> set names)"
proof (induction names)
  case Nil
  show ?case by (auto intro: learns_ret)
next
  case (Cons n names)
  have "learns (if actual = bytes then ret (Some n) else find_attempt d bytes names)
      (\<lambda>r _. case r of None \<Rightarrow> True | Some m \<Rightarrow> m \<in> set (n # names))" for actual
    by (rule learns_if) (auto intro!: learns_ret learns_mono [OF Cons.IH] split: option.splits)
  then show ?case by (simp del: list.set) (rule learns_perform_result)
qed

lemma parse_completion_attempt_prefix:
  "parse_completion_attempt S n \<noteq> None \<Longrightarrow> \<exists>r. n = CHR ''.'' # r"
  by (auto simp: parse_completion_attempt_def dest!: strip_prefix_SomeD split: option.splits)

lemma completion_name_no_evidence:
  assumes "parse_completion_attempt S n \<noteq> None \<or> n = completion_attempt_name S u \<or> n = COMPLETE"
  shows "n \<notin> {ITEMS, STATE, PLAN}"
  using assms parse_completion_attempt_prefix [of S n]
  by (auto simp: completion_attempt_name_def quarantine_names)

lemma keeps_publish_completion:
  "del.keeps S J st run (publish_completion S J (run_dir S st run) plan)"
proof -
  let ?run = "run_dir S st run"
  let ?own = "\<lambda>n. n \<notin> {ITEMS, STATE, PLAN}"
  have own: "n \<noteq> ITEMS \<and> n \<noteq> STATE \<and> n \<noteq> PLAN" if "\<exists>y. parse_completion_attempt S n = Some y" for n
    using completion_name_no_evidence [of S n] that by auto
  have staged: "del.keeps S J st run (write_private_file ?run (completion_attempt_name S fresh) bytes)" for fresh bytes
    by (rule keeps_write) (rule run_child_no_evidence, auto simp: completion_attempt_name_def quarantine_names)
  have rename: "del.keeps S J st run (atomic_rename_noreplace ?run n ?run COMPLETE)" if "?own n" for n
    using that completion_name_no_evidence [of S COMPLETE]
    by (intro keeps_rename) (auto intro: run_child_no_evidence [THEN conjunct1] dest: run_child_no_evidence [THEN conjunct2, rotated])
  have pick: "learns (case found of
         Some staged \<Rightarrow> ret staged
       | None \<Rightarrow> if length attempts \<ge> 4 then fail QuarantineCollision
           else perform new_v4 (\<lambda>fresh.
           let staged = completion_attempt_name S fresh in
           perform (write_private_file ?run staged bytes) (\<lambda>_. ret staged))) (\<lambda>n _. ?own n)"
    if "case found of None \<Rightarrow> True | Some n \<Rightarrow> ?own n" for found attempts bytes
    using that completion_name_no_evidence [of S]
    by (auto simp: Let_def intro!: learns_ret learns_fail learns_if learns_perform_result split: option.splits)
  show ?thesis
    unfolding publish_completion_def Let_def
    apply (rule del.keeps_perform, intro keep_intros)
    apply (rule del.keeps_perform [OF del.keeps_reads], intro read_intros)
    apply (rule del.keeps_if, intro keep_intros)
    apply (rule del.keeps_learn_then [OF del.keeps_reads learns_find_attempt], intro read_intros)
    apply (rule del.keeps_learn_then [OF _ pick [unfolded Let_def]])
      apply (intro keep_intros staged)
     apply (simp add: own split: option.splits)
    apply (rule del.keeps_attempt, rule rename, assumption)
    apply (intro keep_intros)
       apply (intro del.keeps_reads read_intros)+
    done
qed

section \<open>Terminal records\<close>

lemma split_once_SomeD: "split_once c s = Some (a, b) \<Longrightarrow> s = a @ c # b"
  unfolding split_once_def by (induction s arbitrary: a b) (auto split: if_splits)

lemma parse_uuid_pair_text:
  assumes "parse_uuid_pair S body = Some (u, v)"
  shows "\<exists>a. body = uuid_string S u @ ''.'' @ a"
proof -
  obtain a b where s: "split_once CHR ''.'' body = Some (a, b)" "canonical_snapshot_id S a = Some u"
    using assms by (auto simp: parse_uuid_pair_def split: option.splits)
  have "uuid_string S u = a" using s(2) by (auto simp: canonical_snapshot_id_def split: option.splits if_splits)
  then show ?thesis using split_once_SomeD [OF s(1)] by auto
qed

lemma parse_terminal_attempt_prefix:
  assumes "is_some_and (parse_terminal_attempt S n) (\<lambda>p. fst p = u)"
  shows "\<exists>a. n = terminal_attempt_prefix S u @ a"
proof -
  obtain v where "parse_terminal_attempt S n = Some (u, v)" using assms by (auto simp: is_some_and_def split: option.splits)
  then obtain rest body where n: "strip_prefix n TERMINAL_ATTEMPT_PREFIX = Some rest"
      "strip_suffix rest ''.tmp'' = Some body" "parse_uuid_pair S body = Some (u, v)"
    by (auto simp: parse_terminal_attempt_def split: option.splits)
  from parse_uuid_pair_text [OF n(3)] obtain a where "body = uuid_string S u @ ''.'' @ a" by blast
  then show ?thesis using strip_prefix_SomeD [OF n(1)] strip_suffix_SomeD [OF n(2)]
    by (simp add: terminal_attempt_prefix_def)
qed

lemma learns_own_terminal_attempts:
  "learns (own_terminal_attempts S runs u bytes k names) (\<lambda>ns _. \<forall>n \<in> set ns. \<exists>a. n = terminal_attempt_prefix S u @ a)"
proof (induction names arbitrary: k)
  case Nil
  show ?case by (auto intro: learns_ret)
next
  case (Cons n names)
  have own: "learns (perform (own_terminal_attempts S runs u bytes (Suc k) names) (\<lambda>rest. ret (n # rest)))
      (\<lambda>ns _. \<forall>n \<in> set ns. \<exists>a. n = terminal_attempt_prefix S u @ a)"
    if "is_some_and (parse_terminal_attempt S n) (\<lambda>p. fst p = u)"
    using parse_terminal_attempt_prefix [OF that]
    by (intro learns_known [OF Cons.IH] learns_ret) auto
  show ?case
    unfolding own_terminal_attempts.simps
    by (intro learns_if learns_fail learns_perform_result Cons.IH own)
qed

lemma learns_collect_own_attempts:
  assumes "\<forall>n \<in> set own. \<exists>a. n = terminal_attempt_prefix S u @ a"
  shows "learns (collect_own_attempts S runs u expected own names)
    (\<lambda>ns _. \<forall>n \<in> set ns. \<exists>a. n = terminal_attempt_prefix S u @ a)"
  using assms
proof (induction names arbitrary: own)
  case Nil
  then show ?case by (auto intro: learns_ret)
next
  case (Cons n names)
  have own: "learns (collect_own_attempts S runs u expected (own @ [n]) names)
      (\<lambda>ns _. \<forall>n \<in> set ns. \<exists>a. n = terminal_attempt_prefix S u @ a)"
    if "is_some_and (parse_terminal_attempt S n) (\<lambda>p. fst p = u)"
    using parse_terminal_attempt_prefix [OF that] Cons.prems by (intro Cons.IH) auto
  show ?case
    unfolding collect_own_attempts.simps
    by (intro learns_if learns_fail learns_perform_result Cons.IH [OF Cons.prems] own)
qed

lemma keeps_publish_terminal:
  assumes ids: "uuid_text_ok S" and run: "cm_run_id complete = run"
  shows "del.keeps S J st run (publish_terminal S J (runs_dir st) complete)"
proof -
  let ?runs = "runs_dir st" and ?name = "terminal_name S run"
  let ?own = "\<lambda>n. \<exists>a. n = terminal_attempt_prefix S run @ a"
  have fresh_own: "?own (terminal_attempt_name S run fresh)" for fresh
    by (simp add: terminal_attempt_name_def)
  have staged: "del.keeps S J st run (write_private_file ?runs (terminal_attempt_name S run fresh) bytes)" for fresh bytes
    by (rule keeps_write, rule runs_child_no_evidence [OF ids]) (use fresh_own in auto)
  have rename: "del.keeps S J st run (atomic_rename_noreplace ?runs n ?runs ?name)" if "?own n" for n
    by (rule keeps_rename, erule disjE; rule runs_child_no_evidence [OF ids]) (use that in auto)
  have pick: "learns (case attempts of
        staged # _ \<Rightarrow> ret staged
      | [] \<Rightarrow> if k then fail TooManyGcRuns
          else perform new_v4 (\<lambda>fresh.
          perform (write_private_file ?runs (terminal_attempt_name S run fresh) bytes)
            (\<lambda>_. ret (terminal_attempt_name S run fresh)))) (\<lambda>n _. ?own n)"
    if "\<forall>n \<in> set attempts. ?own n" for attempts k bytes
    using that fresh_own
    by (auto intro!: learns_ret learns_fail learns_if learns_perform_result split: list.splits)
  have picked: "del.keeps S J st run (case attempts of
        staged # _ \<Rightarrow> ret staged
      | [] \<Rightarrow> if k then fail TooManyGcRuns
          else perform new_v4 (\<lambda>fresh.
          perform (write_private_file ?runs (terminal_attempt_name S run fresh) bytes)
            (\<lambda>_. ret (terminal_attempt_name S run fresh))))" for attempts :: "string list" and k bytes
    by (cases attempts) (auto intro!: keep_intros staged)
  show ?thesis
    unfolding publish_terminal_def Let_def run
    apply (rule del.keeps_perform, intro keep_intros)
    apply (rule del.keeps_perform [OF del.keeps_reads], intro read_intros)
    apply (rule del.keeps_case_option)
     apply (rule del.keeps_perform [OF del.keeps_reads], intro read_intros)
     apply (rule del.keeps_learn_then [OF del.keeps_reads learns_own_terminal_attempts], intro read_intros)
     apply (rule del.keeps_if, intro keep_intros)
     apply (rule del.keeps_learn_then [OF picked pick], assumption)
     apply (rule del.keeps_attempt, rule rename, assumption)
     apply (intro keep_intros)
        apply (intro del.keeps_reads read_intros)+
    done
qed

lemma keeps_finalize_terminal:
  assumes ids: "uuid_text_ok S" and run: "cm_run_id complete = run"
  shows "del.keeps S J st run (finalize_terminal S J (runs_dir st) complete)"
proof -
  have remove: "del.keeps S J st run (remove_file_synced (runs_dir st) (terminal_attempt_prefix S run @ a) r s b)" for a r s b
    using runs_child_no_evidence [OF ids, of "terminal_attempt_prefix S run @ a" run st]
    by (intro keeps_remove_file) (auto simp: run_dir_def prefix_def)
  show ?thesis
    unfolding finalize_terminal_def run
    apply (rule del.keeps_perform, intro keep_intros)
    apply (rule del.keeps_perform [OF del.keeps_reads], intro read_intros)
    apply (rule del.keeps_if, intro keep_intros)
    apply (rule del.keeps_perform [OF del.keeps_reads], intro read_intros)
    apply (rule del.keeps_learn_then [OF del.keeps_reads learns_collect_own_attempts], intro read_intros, simp)
    apply (rule del.keeps_perform [OF del.keeps_for_acts])
     apply (auto dest!: bspec intro!: remove) []
    apply (intro del.keeps_reads read_intros)
    done
qed

section \<open>Cleaning up and the whole operation\<close>

lemma keeps_remove_completion_attempts:
  "del.keeps S J st run (remove_completion_attempts S J (run_dir S st run) complete)"
proof -
  have remove: "del.keeps S J st run (remove_file_synced (run_dir S st run) n r s b)" for n r s b
    by (rule keeps_remove_file [OF may_touch_run(1)]) (simp add: prefix_def)
  show ?thesis
    unfolding remove_completion_attempts_def Let_def
    by (intro keep_intros remove; intro del.keeps_reads read_intros)
qed

lemma keeps_remove_markers:
  "del.keeps S J st run (remove_markers S J (run_dir S st run @ [STATE]) r plan marked)"
proof -
  have remove: "del.keeps S J st run (remove_file_synced (run_dir S st run @ [STATE]) n r s b)" for n r s b
    using may_touch_run(1) [of S st run "[STATE, n]"]
    by (intro keeps_remove_file) (auto simp: prefix_def quarantine_names)
  show ?thesis
    unfolding remove_markers_def
    by (intro keep_intros remove; intro del.keeps_reads read_intros)
qed

lemma keeps_cleanup:
  assumes ids: "uuid_text_ok S" and run: "cm_run_id complete = run"
  shows "del.keeps S J st run
     (cleanup_completed_run_without_plan S J (runs_dir st) (run_dir S st run) complete)"
proof -
  let ?run = "run_dir S st run"
  have remove: "del.keeps S J st run (remove_file_synced ?run n r s b)" for n r s b
    by (rule keeps_remove_file [OF may_touch_run(1)]) (simp add: prefix_def)
  have last: "del.keeps S J st run (remove_held_dir_synced (runs_dir st) (uuid_string S run) h r s b)" for h r s b
    by (rule keeps_remove_dir) (simp_all add: run_dir_def [symmetric] may_touch_run(2), simp add: run_dir_def prefix_def)
  have state: "del.keeps S J st run (case found of
      None \<Rightarrow> ret ()
    | Some d \<Rightarrow> perform (of_result (ok_or plan QuarantineCollision)) (\<lambda>p.
        perform (validate_state_subset S d p) (\<lambda>marked.
        perform (remove_markers S J d r p marked) (\<lambda>_.
        remove_empty_child_synced ?run STATE r DeletionRun))))"
    if "case found of None \<Rightarrow> True | Some h \<Rightarrow> h = ?run @ [STATE]" for found r plan
    using that
    by (cases found) (auto intro!: keep_intros keeps_remove_markers keeps_remove_empty_child
        intro: del.keeps_reads [OF reads_state_checks(2)])
  show ?thesis
    unfolding cleanup_completed_run_without_plan_def Let_def run
    apply (rule del.keeps_perform [OF del.keeps_reads], intro read_intros)
    apply (rule del.keeps_perform [OF del.keeps_reads], intro read_intros)
    apply (rule del.keeps_perform [OF del.keeps_reads], intro read_intros)
    apply (rule del.keeps_learn_then [OF del.keeps_reads learns_optional_handle], intro read_intros)
    apply (rule del.keeps_perform [OF state], assumption)
    apply (intro keep_intros keeps_remove_empty_child remove last keeps_remove_completion_attempts
        keeps_publish_terminal [OF ids run] keeps_finalize_terminal [OF ids run])
        apply (intro del.keeps_reads read_intros)+
    done
qed

lemma validate_completion_run:
  "validate_completion_standalone J bytes run v = Inr complete \<Longrightarrow> cm_run_id complete = run"
  by (auto simp: validate_completion_standalone_def split: if_splits)

lemma keeps_open_run_roots: "del.keeps S J st run (open_run_roots st)"
proof (rule del.keeps_run_roots)
  fix p t u
  assume p: "p \<in> {quarantine_dir st, quarantine_dir st @ [Q_VERSION], runs_dir st, works_dir st}"
    and c: "changed_at p t u"
  have "\<not> prefix (run_dir S st run) p"
    using p by (auto simp: run_dir_def runs_dir_def works_dir_def quarantine_dir_def quarantine_names)
  then have "\<not> run_evidence S st run p" using run_evidence_run by blast
  moreover have "may_touch S st run p" unfolding may_touch_def using p by blast
  ultimately show "deletes S J st run t u" by (rule deletes_changed [OF c, rotated])
qed

lemma keeps_finish_absent_run:
  assumes ids: "uuid_text_ok S" and "\<And>c. terminal = Some c \<Longrightarrow> cm_run_id c = run"
  shows "del.keeps S J st run (finish_absent_run S J (runs_dir st) run terminal h)"
proof -
  have last: "del.keeps S J st run (remove_held_dir_synced (runs_dir st) (uuid_string S run) h r s b)" for h r s b
    by (rule keeps_remove_dir) (simp_all add: run_dir_def [symmetric] may_touch_run(2), simp add: run_dir_def prefix_def)
  show ?thesis
    unfolding finish_absent_run_def
    apply (rule del.keeps_learn_then [where R = "\<lambda>c. terminal = Some c"], intro keep_intros,
        rule learns_of_result, simp)
    apply (intro keep_intros last keeps_finalize_terminal [OF ids assms(2)], intro del.keeps_reads read_intros)
    apply assumption
    done
qed

lemma keeps_finish_completed_run:
  assumes ids: "uuid_text_ok S"
  shows "del.keeps S J st run (finish_completed_run S J (runs_dir st) (run_dir S st run) run v bytes)"
  unfolding finish_completed_run_def
  apply (rule del.keeps_learn_then [where R = "\<lambda>c. cm_run_id c = run"], intro keep_intros,
      rule learns_of_result, erule validate_completion_run)
  apply (intro keep_intros keeps_cleanup [OF ids])
    apply (intro del.keeps_reads read_intros)+
  apply assumption
  done

lemma keeps_cleanup_completed_run:
  assumes ids: "uuid_text_ok S" and "gp_run_id plan = run"
  shows "del.keeps S J st run (cleanup_completed_run S J (runs_dir st) (run_dir S st run) plan)"
  unfolding cleanup_completed_run_def assms(2)
  apply (rule del.keeps_perform [OF del.keeps_reads], intro read_intros)
  apply (rule del.keeps_learn_then [where R = "\<lambda>c. cm_run_id c = run"], intro keep_intros,
      rule learns_of_result, erule validate_completion_run)
  apply (rule keeps_cleanup [OF ids], assumption)
  done

lemma check_plan_bytes_run:
  "check_plan_bytes S J a b run v bytes = Inr plan \<Longrightarrow> gp_run_id plan = run"
  by (auto simp: check_plan_bytes_def split: if_splits)

lemma keeps_delete_active_run:
  assumes ids: "uuid_text_ok S"
  shows "del.keeps S J st run (delete_active_run S J st (runs_dir st) (run_dir S st run) run)"
proof -
  let ?run = "run_dir S st run"
  have rest: "del.upholds S J st run (plan_stands S J st run plan)
      (perform (preflight_run_root S J ?run (completion_from_plan plan) False) (\<lambda>_.
       perform (preflight_terminal_family S J (runs_dir st) (completion_from_plan plan) False) (\<lambda>_.
       perform (open_run_dirs ?run) (\<lambda>d.
       perform (preflight_initial_nested S J d plan) (\<lambda>_.
       perform (delete_candidates S J d plan 0 (gp_candidates plan)) (\<lambda>reclaimed_bytes.
       perform (require_empty (rd_items d)) (\<lambda>_.
       perform (require_empty (rd_marker_staging d)) (\<lambda>_.
       perform (validate_state_exact S (rd_state d) plan) (\<lambda>_.
       perform (publish_completion S J ?run plan) (\<lambda>_.
       perform (cleanup_completed_run S J (runs_dir st) ?run plan) (\<lambda>_.
       ret \<lparr>dr_run_id = run,
         dr_outcome = (if reclaimed_bytes = 0 then DeletionResumed else DeletionCompleted),
         dr_reclaimed_bytes = reclaimed_bytes\<rparr>)))))))))))
      (\<lambda>_ _. True)" if "gp_run_id plan = run" for plan
    apply (rule del.upholds_read_then, intro read_intros)
    apply (rule del.upholds_read_then, intro read_intros)
    apply (rule del.upholds_learn_then [OF _ learns_run_dirs], intro read_intros)
    apply (rule del.upholds_fact, simp only: run_dirs_of_def [symmetric])
    apply (rule del.upholds_read_then, intro read_intros)
    apply (rule del.upholds_perform [OF delete_candidates_upholds], simp)
    apply (rule del.upholds_keeps)
    apply (intro keep_intros keeps_publish_completion keeps_cleanup_completed_run [OF ids that])
      apply (intro del.keeps_reads read_intros)+
    done
  show ?thesis
    unfolding del.keeps_def delete_active_run_def
    apply (rule del.upholds_learn_then [OF _ learns_read_private_file], intro read_intros)
    apply (rule del.upholds_perform [where Q = "\<lambda>plan t. gp_run_id plan = run \<and> plan_stands S J st run plan t"])
     apply (rule del.upholds_of_result)
     apply (auto simp: plan_stands_def dest: check_plan_bytes_run) []
    apply (rule del.upholds_pull)
    subgoal for bytes plan u
      apply (cases "gp_run_id plan = run")
       apply (rule del.upholds_weaken [OF rest], assumption, simp, simp)
      apply (simp add: del.upholds_def)
      done
    done
qed

lemma delete_quarantined_run_deletes:
  assumes ids: "uuid_text_ok S"
  shows "deletes S J st run (w_tree w) (w_tree (snd (delete_quarantined_run S J st run w)))"
proof -
  have ended: "learns (read_terminal S J runs run v) (\<lambda>r _. \<forall>c. r = Some c \<longrightarrow> cm_run_id c = run)" for runs v
    unfolding read_terminal_def
    apply (rule learns_perform_result)
    subgoal for found
      apply (cases found; simp)
       apply (rule learns_ret, simp)
      apply (rule learns_known [where R = "\<lambda>c. cm_run_id c = run"], rule learns_of_result, erule validate_completion_run)
      apply (rule learns_ret, simp)
      done
    done
  let ?runs = "runs_dir st" and ?run = "run_dir S st run"
  have present: "del.keeps S J st run (perform (lift_err SnapIo (sys_entries ?run)) (\<lambda>names.
        if names = [] then finish_absent_run S J ?runs run terminal (Some ?run)
        else perform (read_optional_private_file ?run COMPLETE MAX_MANIFEST_BYTES) (\<lambda>complete. case complete of
          Some bytes \<Rightarrow> finish_completed_run S J ?runs ?run run (st_vault_id st) bytes
        | None \<Rightarrow> delete_active_run S J st ?runs ?run run)))"
    if "\<forall>c. terminal = Some c \<longrightarrow> cm_run_id c = run" for terminal
    apply (rule del.keeps_perform [OF del.keeps_reads], intro read_intros)
    apply (rule del.keeps_if, rule keeps_finish_absent_run [OF ids], use that in blast)
    apply (rule del.keeps_perform [OF del.keeps_reads], intro read_intros)
    apply (intro keep_intros keeps_finish_completed_run [OF ids] keeps_delete_active_run [OF ids])
    done
  have rest: "del.keeps S J st run (perform (read_terminal S J ?runs run (st_vault_id st)) (\<lambda>terminal.
      perform (open_optional_private_dir ?runs (uuid_string S run)) (\<lambda>found. case found of
        None \<Rightarrow> finish_absent_run S J ?runs run terminal None
      | Some h \<Rightarrow> perform (lift_err SnapIo (sys_entries h)) (\<lambda>names.
          if names = [] then finish_absent_run S J ?runs run terminal (Some h)
          else perform (read_optional_private_file h COMPLETE MAX_MANIFEST_BYTES) (\<lambda>complete. case complete of
            Some bytes \<Rightarrow> finish_completed_run S J ?runs h run (st_vault_id st) bytes
          | None \<Rightarrow> delete_active_run S J st ?runs h run)))))"
    apply (rule del.keeps_learn_then [OF del.keeps_reads ended], intro read_intros)
    apply (rule del.keeps_learn_then [OF del.keeps_reads learns_optional_handle], intro read_intros)
    subgoal for terminal found
    proof (cases found)
      case None
      assume "\<forall>c. terminal = Some c \<longrightarrow> cm_run_id c = run"
      then show ?thesis unfolding None by (simp add: keeps_finish_absent_run [OF ids])
    next
      case (Some h)
      assume t: "\<forall>c. terminal = Some c \<longrightarrow> cm_run_id c = run"
        and "case found of None \<Rightarrow> True | Some h \<Rightarrow> h = ?runs @ [uuid_string S run]"
      then have h: "h = ?run" by (simp add: Some run_dir_def)
      show ?thesis unfolding Some h option.case by (rule present [OF t])
    qed
    done
  have locked: "del.keeps S J st run (delete_quarantined_locked S J st run)"
    unfolding delete_quarantined_locked_def
    apply (rule del.keeps_learn_then [OF keeps_open_run_roots learns_run_roots])
    subgoal for x
    proof -
      assume "fst x = ?runs \<and> fst (snd x) = works_dir st"
      then obtain work stale where x: "x = (?runs, work, stale)" by (cases x) auto
      show ?thesis unfolding x prod.case by (rule rest)
    qed
    done
  have "del.keeps S J st run (delete_quarantined_run S J st run)"
    unfolding delete_quarantined_run_def with_operation_lock_def
    by (intro keep_intros locked; intro del.keeps_reads read_intros)
  then show ?thesis by (rule del.keepsD)
qed

end
