(* ===== verification/Detach_Safety.thy ===== *)
theory Detach_Safety
  imports Deletion_Safety Retention_Scan
begin

text \<open>
  What \<open>quarantine_retention\<close> may change, whatever fails on the way: a snapshot stays where it is, or
  is moved whole into the items of a run whose stored plan names it. Items, plans and markers that
  exist are never changed.
\<close>

section \<open>The discipline of detachment\<close>

definition plan_names :: "snap_libs \<Rightarrow> gc_plan \<Rightarrow> string set" where
  "plan_names S plan = (\<lambda>c. uuid_string S (gc_snapshot_id c)) ` set (gp_candidates plan)"

definition item_path :: "snap_libs \<Rightarrow> snapshot_store \<Rightarrow> uuid \<Rightarrow> string \<Rightarrow> fs_path" where
  "item_path S st run n = run_dir S st run @ [ITEMS, n]"

text \<open>The evidence of any entry of \<open>runs\<close>: items, plan and markers.\<close>

definition evidence_at :: "snapshot_store \<Rightarrow> fs_path \<Rightarrow> bool" where
  "evidence_at st p = (\<exists>run n q. p = runs_dir st @ [run, ITEMS, n] @ q \<or> p = runs_dir st @ [run, PLAN]
     \<or> p = runs_dir st @ [run, STATE, n])"

definition detached_to ::
    "snap_libs \<Rightarrow> gc_json \<Rightarrow> snapshot_store \<Rightarrow> tree \<Rightarrow> tree \<Rightarrow> string \<Rightarrow> bool" where
  "detached_to S J st t u n = (\<not> occupied u (st_objects st @ [n]) \<and>
     (\<exists>run plan. plan_stands S J st run plan u \<and> n \<in> plan_names S plan
        \<and> (\<forall>q. node_at u (item_path S st run n @ q) = node_at t (st_objects st @ [n] @ q))))"

definition detaches :: "snap_libs \<Rightarrow> gc_json \<Rightarrow> snapshot_store \<Rightarrow> tree \<Rightarrow> tree \<Rightarrow> bool" where
  "detaches S J st t u =
     ((\<forall>p. \<not> prefix (quarantine_dir st) p \<and> \<not> (\<exists>n. prefix (st_objects st @ [n]) p) \<longrightarrow> node_at u p = node_at t p)
    \<and> (\<forall>n. occupied t (st_objects st @ [n]) \<longrightarrow>
         same_below t u (st_objects st @ [n]) \<or> detached_to S J st t u n)
    \<and> (\<forall>n. occupied u (st_objects st @ [n]) \<longrightarrow> occupied t (st_objects st @ [n]))
    \<and> (\<forall>p x. evidence_at st p \<and> node_at t p = Some x \<longrightarrow> node_at u p = Some x)
    \<and> (\<forall>run n. occupied t (runs_dir st @ [run, ITEMS, n]) \<longrightarrow> same_below t u (runs_dir st @ [run, ITEMS, n])))"

lemma plan_stands_kept:
  assumes "detaches S J st t u" and "plan_stands S J st run plan t"
  shows "plan_stands S J st run plan u"
proof -
  have "evidence_at st (run_dir S st run @ [PLAN])" by (auto simp: evidence_at_def run_dir_def)
  with assms show ?thesis unfolding detaches_def plan_stands_def file_holds_def by blast
qed

lemma detached_to_later:
  assumes "detaches S J st u v" and "detached_to S J st t u n" and "occupied t (st_objects st @ [n])"
  shows "detached_to S J st t v n"
proof -
  obtain run plan where p: "plan_stands S J st run plan u" "n \<in> plan_names S plan"
    and item: "node_at u (item_path S st run n @ q) = node_at t (st_objects st @ [n] @ q)" for q
    using assms(2) unfolding detached_to_def by blast
  have "occupied u (item_path S st run n)" using assms(3) item unfolding occupied_iff by simp
  then have "same_below u v (item_path S st run n)"
    using assms(1) by (simp add: detaches_def item_path_def run_dir_def)
  then show ?thesis
    using p item plan_stands_kept [OF assms(1)] assms(1,2)
    unfolding detached_to_def detaches_def same_below_def by metis
qed

lemma detaches_trans:
  assumes 1: "detaches S J st t u" and 2: "detaches S J st u v"
  shows "detaches S J st t v"
  unfolding detaches_def
proof (intro conjI allI impI)
  fix p
  assume "\<not> prefix (quarantine_dir st) p \<and> \<not> (\<exists>n. prefix (st_objects st @ [n]) p)"
  with 1 2 show "node_at v p = node_at t p" by (simp add: detaches_def)
next
  fix n
  let ?o = "st_objects st @ [n]"
  assume o: "occupied t ?o"
  consider "same_below t u ?o" | "detached_to S J st t u n" using 1 o unfolding detaches_def by blast
  then show "same_below t v ?o \<or> detached_to S J st t v n"
  proof cases
    case 1
    then have "same_below u v ?o \<or> detached_to S J st u v n"
      using 2 o occupied_same unfolding detaches_def by blast
    with 1 show ?thesis by (auto intro: same_below_trans simp: detached_to_def same_below_def)
  next
    case 2
    with assms(2) o show ?thesis by (blast intro: detached_to_later)
  qed
next
  fix run n
  assume "occupied t (runs_dir st @ [run, ITEMS, n])"
  with 1 2 show "same_below t v (runs_dir st @ [run, ITEMS, n])"
    unfolding detaches_def by (metis same_below_trans occupied_same)
qed (use 1 2 in \<open>auto simp: detaches_def\<close>)

interpretation det: discipline "detaches S J st" for S J st
  by unfold_locales (simp add: detaches_def, rule detaches_trans)

section \<open>Steps\<close>

lemma not_prefix_objects:
  assumes "store_layout st" and "prefix (quarantine_dir st) p"
  shows "\<not> prefix (st_objects st) p"
  using assms by (auto simp: store_layout_def quarantine_dir_def OBJECTS_DIRECTORY_def quarantine_names prefix_def)

text \<open>A change inside the quarantine that leaves the evidence alone.\<close>

lemma detaches_outside:
  assumes lay: "store_layout st"
    and same: "\<And>p. \<not> prefix (quarantine_dir st) p \<Longrightarrow> node_at u p = node_at t p"
    and evid: "\<And>p x. evidence_at st p \<Longrightarrow> node_at t p = Some x \<Longrightarrow> node_at u p = Some x"
    and item: "\<And>run n. occupied t (runs_dir st @ [run, ITEMS, n]) \<Longrightarrow> same_below t u (runs_dir st @ [run, ITEMS, n])"
  shows "detaches S J st t u"
proof -
  have "\<not> prefix (quarantine_dir st) (st_objects st @ [n] @ q)" for n q
    using not_prefix_objects [OF lay] by (metis prefixI)
  then have "same_below t u (st_objects st @ [n])" for n using same by (simp add: same_below_def)
  then have "occupied u (st_objects st @ [n]) \<longleftrightarrow> occupied t (st_objects st @ [n])"
    and "same_below t u (st_objects st @ [n])" for n by (simp_all add: occupied_same)
  with same evid item show ?thesis by (simp add: detaches_def)
qed

lemma item_is_evidence: "evidence_at st (runs_dir st @ [run, ITEMS, n] @ q)"
  unfolding evidence_at_def by blast

lemma detaches_changed:
  assumes lay: "store_layout st" and c: "changed_at p t u"
    and p: "prefix (quarantine_dir st) p" "\<not> evidence_at st p"
  shows "detaches S J st t u"
proof (rule detaches_outside [OF lay])
  have *: "node_at u q = node_at t q" if "q \<noteq> p" for q using c that by (simp add: changed_at_def)
  show "node_at u q = node_at t q" if "\<not> prefix (quarantine_dir st) q" for q
    by (rule *) (use that p(1) in auto)
  show "node_at u q = Some x" if "evidence_at st q" "node_at t q = Some x" for q x
  proof -
    have "q \<noteq> p" using that(1) p(2) by blast
    with that(2) * show ?thesis by simp
  qed
  show "same_below t u (runs_dir st @ [run, ITEMS, n])" for run n
  proof -
    have "node_at u (runs_dir st @ [run, ITEMS, n] @ q) = node_at t (runs_dir st @ [run, ITEMS, n] @ q)" for q
      using p(2) item_is_evidence [of st run n q] by (intro *) blast
    then show ?thesis by (simp add: same_below_def)
  qed
qed

lemma detaches_moved:
  assumes lay: "store_layout st" and free: "\<not> occupied t d"
    and q: "prefix (quarantine_dir st) s" "prefix (quarantine_dir st) d"
    and s: "\<And>p. prefix s p \<Longrightarrow> \<not> evidence_at st p"
    and d: "\<And>run n q. \<not> prefix d (runs_dir st @ [run, ITEMS, n]) \<Longrightarrow> \<not> prefix d (runs_dir st @ [run, ITEMS, n] @ q)"
  shows "detaches S J st t (move_tree s d t)"
proof (rule detaches_outside [OF lay])
  fix p
  assume "\<not> prefix (quarantine_dir st) p"
  then have "\<not> prefix s p" "\<not> prefix d p" using q by (metis prefix_order.trans)+
  then show "node_at (move_tree s d t) p = node_at t p" by (simp add: node_at_move_outside)
next
  fix p x
  assume e: "evidence_at st p" and x: "node_at t p = Some x"
  have "\<not> prefix d p" using free x not_occupied by force
  moreover have "\<not> prefix s p" using s e by blast
  ultimately show "node_at (move_tree s d t) p = Some x" using x by (simp add: node_at_move_outside)
next
  fix run n
  let ?i = "runs_dir st @ [run, ITEMS, n]"
  assume "occupied t ?i"
  then obtain r where "node_at t (?i @ r) \<noteq> None" unfolding occupied_iff by blast
  then have "\<not> prefix d (?i @ r)" using free [unfolded not_occupied] by metis
  then have "\<not> prefix d ?i" using prefix_prefix by blast
  then have "\<not> prefix d (?i @ q)" for q using d by simp
  moreover have "\<not> prefix s (?i @ q)" for q using s item_is_evidence [of st run n q] by auto
  ultimately show "same_below t (move_tree s d t) ?i"
    by (simp add: same_below_def node_at_move_outside)
qed

text \<open>The detachment of a snapshot that the standing plan names.\<close>

lemma detaches_candidate:
  assumes lay: "store_layout st" and plan: "plan_stands S J st run plan t" and n: "n \<in> plan_names S plan"
    and free: "\<not> occupied t (item_path S st run n)"
  shows "detaches S J st t (move_tree (st_objects st @ [n]) (item_path S st run n) t)"
proof -
  let ?o = "st_objects st @ [n]" and ?d = "item_path S st run n"
  let ?u = "move_tree ?o ?d t"
  have q: "prefix (quarantine_dir st) (runs_dir st @ r)" for r by (simp add: runs_dir_def)
  have dq: "prefix (quarantine_dir st) ?d" by (simp add: item_path_def run_dir_def q)
  have od: "\<not> prefix ?d (st_objects st @ r)" for r
    using not_prefix_objects [OF lay] dq by (metis prefix_order.trans prefixI)
  have out: "node_at ?u p = node_at t p" if "\<not> prefix ?o p" "\<not> prefix ?d p" for p
    using that by (simp add: node_at_move_outside)
  have runs: "\<not> prefix ?o (runs_dir st @ r)" for r
    using not_prefix_objects [OF lay q] by (metis append_prefixD)
  have evid: "node_at ?u p = Some x" if "evidence_at st p" "node_at t p = Some x" for p x
  proof -
    have "\<not> prefix ?d p" using that free not_occupied by force
    moreover have "\<not> prefix ?o p" using that(1) runs unfolding evidence_at_def by auto
    ultimately show ?thesis using that out by simp
  qed
  have gone: "node_at ?u (?o @ r) = None" for r
    using od [of "[n] @ r"] by (simp add: node_at_move_outside)
  have "plan_stands S J st run plan ?u"
  proof -
    have "evidence_at st (run_dir S st run @ [PLAN])" by (auto simp: evidence_at_def run_dir_def)
    with plan evid show ?thesis unfolding plan_stands_def file_holds_def by blast
  qed
  then have det: "detached_to S J st t ?u n"
    using n gone node_at_move_inside [OF free, of ?o] unfolding detached_to_def occupied_iff by auto
  have other: "same_below t ?u (st_objects st @ [m])" if "m \<noteq> n" for m
    using that od by (auto simp: same_below_def prefix_def intro!: out)
  have item: "same_below t ?u (runs_dir st @ [r, ITEMS, m])" if "occupied t (runs_dir st @ [r, ITEMS, m])" for r m
  proof -
    have "runs_dir st @ [r, ITEMS, m] \<noteq> ?d" using that free by metis
    then have "\<not> prefix ?d (runs_dir st @ [r, ITEMS, m] @ x)" for x
      by (auto simp: item_path_def run_dir_def)
    then show ?thesis unfolding same_below_def using runs [of "[r, ITEMS, m] @ _"] out by simp
  qed
  show ?thesis
    unfolding detaches_def
  proof (intro conjI allI impI)
    fix p
    assume "\<not> prefix (quarantine_dir st) p \<and> \<not> (\<exists>n. prefix (st_objects st @ [n]) p)"
    then have "\<not> prefix ?o p" "\<not> prefix ?d p" using prefix_order.trans [OF dq, of p] by auto
    then show "node_at ?u p = node_at t p" by (rule out)
  next
    fix m
    show "same_below t ?u (st_objects st @ [m]) \<or> detached_to S J st t ?u m"
      using det other [of m] by (cases "m = n") simp_all
    show "occupied t (st_objects st @ [m])" if "occupied ?u (st_objects st @ [m])"
    proof (cases "m = n")
      case True
      with that gone show ?thesis unfolding occupied_iff by simp
    next
      case False
      with that show ?thesis using occupied_same [OF other] by simp
    qed
  qed (use evid item in auto)
qed

section \<open>Operations\<close>

context discipline
begin

text \<open>A precondition that the discipline preserves still holds afterwards.\<close>

lemma upholds_stable:
  assumes "\<And>t u. K t u \<Longrightarrow> P t \<Longrightarrow> P u" and "upholds P m Q"
  shows "upholds P m (\<lambda>_. P)"
  using assms unfolding upholds_def by blast

lemma upholds_stable_then:
  assumes "\<And>t u. K t u \<Longrightarrow> P t \<Longrightarrow> P u" and "upholds P m (\<lambda>_ _. True)" and "\<And>x. upholds P (f x) R"
  shows "upholds P (perform m f) R"
  by (rule upholds_perform [OF upholds_stable [OF assms(1,2)] assms(3)])

end

lemma evidence_at_runs: "evidence_at st p \<Longrightarrow> prefix (runs_dir st) p"
  by (auto simp: evidence_at_def)

lemma evidence_at_run:
  "evidence_at st (runs_dir st @ run # k # r) \<longleftrightarrow>
     k = ITEMS \<and> r \<noteq> [] \<or> k = PLAN \<and> r = [] \<or> k = STATE \<and> length r = 1"
  by (cases r) (auto simp: evidence_at_def)

lemma keeps_staged_write:
  assumes "store_layout st" and "prefix (quarantine_dir st) d" and "\<not> evidence_at st (d @ [n])"
  shows "det.keeps S J st (write_private_file d n bytes)"
  by (rule det.keeps_of_triple, rule triple_weaken [OF triple_write_private_file])
    (use assms in \<open>auto intro: detaches_changed\<close>)

lemma keeps_staged_dir:
  assumes "store_layout st" and "prefix (quarantine_dir st) d" and "\<not> evidence_at st (d @ [n])"
  shows "det.keeps S J st (create_private_dir d n)"
  by (rule det.keeps_of_triple, rule triple_weaken [OF triple_create_private_dir])
    (use assms in \<open>auto intro: detaches_changed det.K_refl\<close>)

lemma keeps_marker_rename:
  assumes lay: "store_layout st"
  shows "det.keeps S J st (atomic_rename_noreplace (run_dir S st run @ [MARKER_STAGING]) a (run_dir S st run @ [STATE]) b)"
proof -
  let ?s = "(run_dir S st run @ [MARKER_STAGING]) @ [a]" and ?d = "(run_dir S st run @ [STATE]) @ [b]"
  have "detaches S J st u (move_tree ?s ?d u)" if "\<not> occupied u ?d" for u
  proof (rule detaches_moved [OF lay that])
    show "prefix (quarantine_dir st) ?s" "prefix (quarantine_dir st) ?d"
      by (simp_all add: run_dir_def runs_dir_def)
    show "\<not> evidence_at st p" if "prefix ?s p" for p
      using that by (auto simp: prefix_def run_dir_def evidence_at_run quarantine_names)
    show "\<not> prefix ?d (runs_dir st @ [r, ITEMS, n] @ q)" for r n q
      by (simp add: run_dir_def quarantine_names)
  qed
  then show ?thesis
    unfolding atomic_rename_noreplace_def
    by (intro det.keeps_lift_err det.keeps_of_triple triple_weaken [OF triple_sys_rename_noreplace])
      (auto intro: det.K_refl)
qed

lemma keeps_publish_marker:
  assumes lay: "store_layout st"
  shows "det.keeps S J st (publish_marker S J (run_dirs_of (run_dir S st run)) plan c)"
proof -
  have staged: "det.keeps S J st (write_private_file (run_dir S st run @ [MARKER_STAGING]) n bytes)" for n bytes
    by (rule keeps_staged_write [OF lay]) (simp_all add: run_dir_def evidence_at_run quarantine_names, simp add: runs_dir_def quarantine_names)
  show ?thesis
    unfolding publish_marker_def Let_def run_dirs_of_simps
    by (intro keep_intros staged keeps_marker_rename [OF lay]; intro det.keeps_reads read_intros)
qed

lemma rename_candidate_upholds:
  assumes lay: "store_layout st" and n: "n \<in> plan_names S plan"
  shows "det.upholds S J st (plan_stands S J st run plan)
     (atomic_rename_noreplace (st_objects st) n (run_dir S st run @ [ITEMS]) n) (\<lambda>_ _. True)"
  unfolding atomic_rename_noreplace_def
proof (rule det.upholds_lift_err, rule det.upholds_of_triple)
  fix u
  assume p: "plan_stands S J st run plan u"
  have "detaches S J st u (move_tree (st_objects st @ [n]) ((run_dir S st run @ [ITEMS]) @ [n]) u)"
    if "\<not> occupied u ((run_dir S st run @ [ITEMS]) @ [n])"
    using detaches_candidate [OF lay p n] that by (simp add: item_path_def)
  then show "triple (\<lambda>t. t = u) (sys_rename_noreplace (st_objects st @ [n]) ((run_dir S st run @ [ITEMS]) @ [n]))
      (\<lambda>_ t. detaches S J st u t \<and> True) (detaches S J st u)"
    by (intro triple_weaken [OF triple_sys_rename_noreplace]) (auto intro: det.K_refl)
qed

lemma process_candidate_upholds:
  assumes lay: "store_layout st" and c: "c \<in> set (gp_candidates plan)"
  shows "det.upholds S J st (plan_stands S J st run plan)
     (process_candidate S J st plan (run_dirs_of (run_dir S st run)) c) (\<lambda>_ _. True)"
proof -
  let ?P = "plan_stands S J st run plan" and ?n = "uuid_string S (gc_snapshot_id c)"
  let ?d = "run_dirs_of (run_dir S st run)"
  have n: "?n \<in> plan_names S plan" using c by (auto simp: plan_names_def)
  have stable: "det.upholds S J st ?P m (\<lambda>_. ?P)" if "det.upholds S J st ?P m Q" for m :: "'x snap" and Q
    using plan_stands_kept that by (rule det.upholds_stable)
  have rd: "det.upholds S J st ?P m (\<lambda>_ _. True)" if "reads m" for m :: "'x snap"
    using det.upholds_reads [OF that] by (rule det.upholds_weaken) auto
  have move: "det.upholds S J st ?P (move_candidate S st plan ?d c source) (\<lambda>_. ?P)" for source
    unfolding move_candidate_def Let_def run_dirs_of_simps
    apply (rule det.upholds_read_then, intro read_intros)
    apply (rule det.upholds_read_then, intro read_intros)
    apply (rule det.upholds_perform [OF stable [OF rename_candidate_upholds [OF lay n]]])
    apply (rule det.upholds_reads, intro read_intros)
    done
  have pick: "det.upholds S J st ?P (case (source, destination) of
              (Some from, None) \<Rightarrow>
                perform (move_candidate S st plan ?d c from) (\<lambda>target. ret (target, 1))
            | (None, Some target) \<Rightarrow>
                perform (lift_err (detached_unknown plan c) (verify_bound S target c (st_vault_id st))) (\<lambda>_.
                perform (sync_detached plan c (rd_items ?d) QuarantineItems) (\<lambda>_.
                perform (sync_detached plan c (st_objects st) SourceObjects) (\<lambda>_.
                ret (target, 0))))
            | _ \<Rightarrow> fail QuarantineCollision) (\<lambda>_. ?P)" for source destination
  proof (cases source; cases destination)
    fix origin
    assume "source = Some origin" "destination = None"
    then show ?thesis
      by (simp only: prod.case option.case) (rule det.upholds_perform [OF move], rule det.upholds_retI, assumption)
  qed (simp_all only: prod.case option.case, (rule det.upholds_reads, intro read_intros)+)
  show ?thesis
    unfolding process_candidate_def Let_def
    apply (rule det.upholds_read_then, intro read_intros)
    subgoal for marked
      apply (cases marked; simp only: option.case)
       apply (rule det.upholds_read_then, intro read_intros)
       apply (rule det.upholds_read_then, intro read_intros)
       apply (rule det.upholds_perform [OF pick])
       apply (simp only: split_beta)
       apply (rule det.upholds_read_then, intro read_intros)
       apply (rule det.upholds_perform [OF det.upholds_keeps], intro keep_intros keeps_publish_marker [OF lay])
       apply (rule det.upholds_retI, simp)
      apply (rule rd, intro read_intros)
      done
    done
qed

lemma process_plan_upholds:
  assumes lay: "store_layout st"
  shows "det.upholds S J st (plan_stands S J st run plan)
     (process_plan S J st plan (run_dirs_of (run_dir S st run)) outcome stale) (\<lambda>_ _. True)"
proof -
  let ?P = "plan_stands S J st run plan" and ?d = "run_dirs_of (run_dir S st run)"
  have "det.upholds S J st ?P (process_candidates S J st plan ?d counts cs) (\<lambda>_ _. True)"
    if "set cs \<subseteq> set (gp_candidates plan)" for cs counts
    using that
  proof (induction cs arbitrary: counts)
    case Nil
    show ?case by (simp, rule det.upholds_retI, simp)
  next
    case (Cons c cs)
    show ?case
      unfolding process_candidates.simps
      apply (rule det.upholds_stable_then)
        apply (erule (1) plan_stands_kept)
       apply (rule process_candidate_upholds [OF lay])
       apply (use Cons in auto)
      done
  qed
  note all = this
  show ?thesis
    unfolding process_plan_def
    apply (rule det.upholds_read_then, intro read_intros)
    apply (rule det.upholds_perform, rule all, simp, rule det.upholds_retI, simp)
    done
qed

section \<open>Resuming runs\<close>

text \<open>The runs that recovery has read: each with its directory and its standing plan.\<close>

definition runs_stand ::
    "snap_libs \<Rightarrow> gc_json \<Rightarrow> snapshot_store \<Rightarrow> (uuid \<times> fs_path \<times> gc_plan) list \<Rightarrow> tree \<Rightarrow> bool" where
  "runs_stand S J st loaded t =
     list_all (\<lambda>(u, run, plan). run = run_dir S st u \<and> plan_stands S J st u plan t) loaded"

lemma runs_stand_kept: "detaches S J st t u \<Longrightarrow> runs_stand S J st loaded t \<Longrightarrow> runs_stand S J st loaded u"
  unfolding runs_stand_def by (induction loaded) (auto intro: plan_stands_kept)

lemma learns_list_runs:
  "learns (list_runs S J runs v req k seen found names)
     (\<lambda>r _. list_all (\<lambda>(u, name). name = uuid_string S u) found \<longrightarrow> list_all (\<lambda>(u, name). name = uuid_string S u) r)"
proof (induction names arbitrary: k seen found)
  case Nil
  show ?case by (simp add: learns_ret)
next
  case (Cons name names)
  let ?ok = "list_all (\<lambda>(u, name). name = uuid_string S u)"
  have fresh: "learns (list_runs S J runs v req k' seen' (found @ [(u, name)]) names) (\<lambda>r _. ?ok found \<longrightarrow> ?ok r)"
    if "name = uuid_string S u" for k' seen' u name
    by (rule learns_mono [OF Cons.IH]) (use that in auto)
  show ?case
    unfolding list_runs.simps
    by (auto intro!: learns_if learns_fail learns_perform_result Cons.IH fresh split: option.splits)
qed

lemma learns_load_runs:
  assumes "list_all (\<lambda>(u, name). name = uuid_string S u) found"
  shows "learns (load_runs S J (runs_dir st) (st_vault_id st) found) (\<lambda>loaded t. runs_stand S J st loaded t)"
  using assms
proof (induction found)
  case Nil
  show ?case by (simp add: learns_ret runs_stand_def)
next
  case (Cons f found)
  obtain u where f: "f = (u, uuid_string S u)" using Cons.prems by (cases f) auto
  have ih: "learns (load_runs S J (runs_dir st) (st_vault_id st) found) (\<lambda>loaded t. runs_stand S J st loaded t)"
    using Cons by simp
  let ?run = "run_dir S st u"
  have rest: "learns (perform (of_result (check_plan_bytes S J InvalidGcPlan InvalidGcPlan u (st_vault_id st) bytes)) (\<lambda>plan.
       perform (load_runs S J (runs_dir st) (st_vault_id st) found) (\<lambda>loaded. ret ((u, ?run, plan) # loaded))))
     (\<lambda>loaded t. file_holds t (?run @ [PLAN]) bytes \<and> length bytes \<le> MAX_PLAN_BYTES \<longrightarrow> runs_stand S J st loaded t)" for bytes
    apply (rule learns_known [where R = "\<lambda>plan. check_plan_bytes S J InvalidGcPlan InvalidGcPlan u (st_vault_id st) bytes = Inr plan"],
        rule learns_of_result, assumption)
    apply (rule learns_perform [OF ih], intro read_intros)
    apply (rule learns_ret)
    apply (auto simp: runs_stand_def plan_stands_def)
    done
  show ?case
    unfolding f load_runs.simps
    apply (rule learns_known [OF learns_lift_err [OF learns_private_handle]])
    apply (simp only: run_dir_def [symmetric])
    apply (rule learns_perform_result)
    apply (rule learns_perform [OF learns_read_private_file], intro read_intros)
    apply (rule rest)
    done
qed

lemma resume_runs_upholds:
  assumes lay: "store_layout st"
  shows "det.upholds S J st (runs_stand S J st loaded) (resume_runs S J st runs req stale report loaded) (\<lambda>_ _. True)"
proof (induction loaded arbitrary: report)
  case Nil
  show ?case by (simp, rule det.upholds_retI, simp)
next
  case (Cons l loaded)
  obtain u run plan where l: "l = (u, run, plan)" by (cases l)
  let ?P = "runs_stand S J st (l # loaded)"
  have one: "det.upholds S J st ?P (process_plan S J st plan (run_dirs_of run) RecoveredExisting stale) (\<lambda>_ _. True)"
  proof (cases "run = run_dir S st u")
    case True
    show ?thesis
      unfolding True using process_plan_upholds [OF lay, of S J u plan RecoveredExisting stale]
      by (rule det.upholds_weaken) (auto simp: l runs_stand_def)
  qed (simp add: det.upholds_def l runs_stand_def)
  have rest: "det.upholds S J st ?P (resume_runs S J st runs req stale r loaded) (\<lambda>_ _. True)" for r
    by (rule det.upholds_weaken [OF Cons.IH]) (auto simp: runs_stand_def)
  show ?case
    unfolding l resume_runs.simps
    apply (rule det.upholds_read_then, intro read_intros)
    apply (rule det.upholds_read_then, intro read_intros)
    apply (rule det.upholds_learn_then [OF _ learns_run_dirs], intro read_intros)
    apply (rule det.upholds_fact)
    apply (simp only: run_dirs_of_def [symmetric])
    apply (rule det.upholds_stable_then [OF runs_stand_kept one [unfolded l] rest [unfolded l]], assumption+)
    done
qed

lemma keeps_recover_runs:
  assumes lay: "store_layout st"
  shows "det.keeps S J st (recover_runs S J st (runs_dir st) req stale)"
proof -
  let ?ok = "list_all (\<lambda>(u, name). name = uuid_string S u)"
  have ok: "learns (list_runs S J (runs_dir st) (st_vault_id st) req 0 [] [] names) (\<lambda>found _. ?ok found)" for names
    by (rule learns_mono [OF learns_list_runs]) auto
  have rest: "det.keeps S J st (perform (load_runs S J (runs_dir st) (st_vault_id st) (sort_key fst found)) (\<lambda>loaded.
     if request_conflicts req loaded then fail QuarantineCollision
     else resume_runs S J st (runs_dir st) req stale None loaded))" if "?ok found" for found
  proof -
    have sorted: "?ok (sort_key fst found)" using that by (auto simp: list_all_iff)
    show ?thesis
      unfolding det.keeps_def
      apply (rule det.upholds_learn_then [OF _ learns_load_runs [OF sorted]], intro read_intros)
      apply (rule det.upholds_if, rule det.upholds_fail)
      apply (rule det.upholds_weaken [OF resume_runs_upholds [OF lay]], auto)
      done
  qed
  show ?thesis
    unfolding recover_runs_def
    apply (rule det.keeps_perform [OF det.keeps_reads], intro read_intros)
    apply (rule det.keeps_learn_then [OF det.keeps_reads ok rest], intro read_intros)
    apply assumption
    done
qed

section \<open>A new run\<close>

text \<open>\<open>serde_json\<close> reads back the plan it has written.\<close>

definition plan_json_ok :: "gc_json \<Rightarrow> bool" where
  "plan_json_ok J = (\<forall>plan bytes. plan_to_vec J plan = Some bytes \<longrightarrow> plan_parse J bytes = Some plan)"

lemma new_plan_checks:
  assumes json: "plan_json_ok J" and p: "new_plan S J st (run, now, policy) cands = Inr plan"
    and bytes: "plan_to_vec J plan = Some bytes"
  shows "gp_run_id plan = run \<and> check_plan_bytes S J InvalidGcPlan InvalidGcPlan run (st_vault_id st) bytes = Inr plan"
proof -
  have "gp_run_id plan = run" "validate_plan S J plan (st_vault_id st) = Inr ()"
    using p by (auto simp: new_plan_def Let_def)
  moreover have "plan_parse J bytes = Some plan" using json bytes by (simp add: plan_json_ok_def)
  ultimately show ?thesis by (simp add: check_plan_bytes_def bytes)
qed

lemma learns_of_triple: "(\<And>u. triple (\<lambda>t. t = u) m Q E) \<Longrightarrow> learns m Q"
  unfolding learns_def
proof (intro allI impI)
  fix w :: world and x
  assume "\<And>u. triple (\<lambda>t. t = u) m Q E" and "fst (m w) = Inr x"
  then show "Q x (w_tree (snd (m w)))" unfolding triple_def by (metis sum.simps(6))
qed

lemma learns_new_dir: "learns (create_private_dir d n) (\<lambda>h _. h = d @ [n])"
  by (rule learns_of_triple, rule triple_weaken [OF triple_create_private_dir]) auto

lemma learns_write_private_file: "learns (write_private_file d n bytes) (\<lambda>_ t. file_holds t (d @ [n]) bytes)"
proof (rule learns_of_triple)
  fix u
  let ?p = "d @ [n]"
  let ?any = "\<lambda>_. True"
  have create: "triple (\<lambda>t. t = u) (sys_create_file ?p) (\<lambda>_ t. \<exists>i b c. node_at t ?p = Some (FileNode i b c)) ?any"
    by (rule triple_weaken [OF triple_sys_create_file]) (auto simp: node_at_put)
  have perm: "triple (\<lambda>t. \<exists>i b c. node_at t ?p = Some (FileNode i b c)) (sys_set_private ?p)
      (\<lambda>_ t. \<exists>i c. node_at t ?p = Some (FileNode i True c)) ?any"
    by (rule triple_pull, rule triple_weaken [OF triple_sys_set_private]) (auto simp: node_at_put)
  have fill: "triple (\<lambda>t. \<exists>i c. node_at t ?p = Some (FileNode i True c)) (sys_write ?p bytes)
      (\<lambda>_ t. file_holds t ?p bytes) ?any"
    by (rule triple_pull, rule triple_weaken [OF triple_sys_write]) (auto simp: node_at_put file_holds_def)
  show "triple (\<lambda>t. t = u) (write_private_file d n bytes) (\<lambda>_ t. file_holds t ?p bytes) ?any"
    unfolding write_private_file_def Let_def set_private_file_permissions_def
    apply (rule triple_perform [OF triple_lift_err [OF create]])
    apply (rule triple_perform [OF triple_lift_err [OF triple_lift_err [OF perm]]])
    apply (rule triple_perform [OF triple_lift_err [OF fill]])
    apply (rule triple_weaken [OF triple_reads], intro read_intros, auto)
    done
qed

lemma works_not_runs: "\<not> prefix (runs_dir st) (works_dir st @ p)" "\<not> evidence_at st (works_dir st @ p)"
proof -
  show "\<not> prefix (runs_dir st) (works_dir st @ p)"
    by (simp add: runs_dir_def works_dir_def quarantine_names)
  then show "\<not> evidence_at st (works_dir st @ p)" using evidence_at_runs by blast
qed

lemma write_run_upholds:
  assumes lay: "store_layout st"
  shows "det.upholds S J st (\<lambda>_. True) (write_run S J (works_dir st) name plan)
     (\<lambda>_ t. \<exists>bytes. plan_to_vec J plan = Some bytes \<and> file_holds t (works_dir st @ [name, PLAN]) bytes)"
proof -
  let ?work = "works_dir st"
  have q: "prefix (quarantine_dir st) (?work @ p)" for p by (simp add: works_dir_def)
  have dir: "det.keeps S J st (create_private_dir (?work @ p) n)" for p n
    by (rule keeps_staged_dir [OF lay q]) (simp add: works_not_runs)
  have wr: "det.keeps S J st (write_private_file (?work @ p) n bytes)" for p n bytes
    by (rule keeps_staged_write [OF lay q]) (simp add: works_not_runs)
  note made = learns_lift_err [OF learns_new_dir]
  have step: "det.upholds S J st (\<lambda>_. True) (perform (pf (create_private_dir (?work @ p) n)) f) R"
    if "det.upholds S J st (\<lambda>_. True) (f (?work @ p @ [n])) R" for p n f R
  proof (rule det.upholds_perform [OF det.upholds_keeps_learns [OF det.keeps_lift_err [OF dir] made]])
    show "det.upholds S J st (\<lambda>_. h = (?work @ p) @ [n]) (f h) R" for h
      using that by (cases "h = (?work @ p) @ [n]") (auto simp: det.upholds_def)
  qed
  have tail: "det.upholds S J st (\<lambda>_. True) (perform (of_result (ok_or (plan_to_vec J plan) SnapJson)) (\<lambda>bytes.
     perform (write_private_file (?work @ [name]) PLAN bytes) (\<lambda>_.
     perform (sync_published a QuarantineItems) (\<lambda>_.
     perform (sync_published b QuarantineState) (\<lambda>_.
     perform (sync_published c QuarantineMarkerStaging) (\<lambda>_.
     sync_published d QuarantineRun))))))
     (\<lambda>_ t. \<exists>bytes. plan_to_vec J plan = Some bytes \<and> file_holds t (works_dir st @ [name, PLAN]) bytes)" for a b c d
    apply (rule det.upholds_perform [where Q = "\<lambda>bytes _. plan_to_vec J plan = Some bytes"])
     apply (rule det.upholds_of_result, simp)
    apply (rule det.upholds_perform [where Q = "\<lambda>_ t. \<exists>bytes. plan_to_vec J plan = Some bytes \<and> file_holds t (works_dir st @ [name, PLAN]) bytes"])
    subgoal for bytes
      using det.upholds_keeps_learns [OF wr learns_write_private_file, of "\<lambda>_. True" "[name]" PLAN bytes]
      by (auto simp: det.upholds_def)
    apply (rule det.upholds_reads, intro read_intros)
    done
  show ?thesis
    unfolding write_run_def
    by (rule step [of _ "[]", unfolded append_Nil2 append_Nil], (rule step [of _ "[name]"])+, rule tail)
qed

lemma start_run_upholds:
  assumes lay: "store_layout st" and json: "plan_json_ok J"
    and p: "new_plan S J st request cands = Inr plan"
  shows "det.keeps S J st (start_run S J st (runs_dir st) (works_dir st) stale plan)"
proof -
  let ?run = "gp_run_id plan"
  obtain run now policy where request: "request = (run, now, policy)" by (cases request)
  have checked: "check_plan_bytes S J InvalidGcPlan InvalidGcPlan ?run (st_vault_id st) bytes = Inr plan"
    if "plan_to_vec J plan = Some bytes" for bytes
    using new_plan_checks [OF json p [unfolded request] that] by simp
  have rename: "det.upholds S J st
      (\<lambda>t. \<exists>bytes. plan_to_vec J plan = Some bytes \<and> file_holds t (works_dir st @ [name, PLAN]) bytes)
      (atomic_rename_noreplace (works_dir st) name (runs_dir st) (uuid_string S ?run))
      (\<lambda>_. plan_stands S J st ?run plan)" for name
    unfolding atomic_rename_noreplace_def
  proof (rule det.upholds_lift_err, rule det.upholds_of_triple)
    fix u
    let ?s = "works_dir st @ [name]" and ?d = "runs_dir st @ [uuid_string S ?run]"
    assume "\<exists>bytes. plan_to_vec J plan = Some bytes \<and> file_holds u (works_dir st @ [name, PLAN]) bytes"
    then obtain bytes where b: "plan_to_vec J plan = Some bytes" "file_holds u (?s @ [PLAN]) bytes" by auto
    have ok: "detaches S J st u (move_tree ?s ?d u) \<and> plan_stands S J st ?run plan (move_tree ?s ?d u)"
      if free: "\<not> occupied u ?d"
    proof
      show "detaches S J st u (move_tree ?s ?d u)"
      proof (rule detaches_moved [OF lay free])
        show "prefix (quarantine_dir st) ?s" "prefix (quarantine_dir st) ?d"
          by (simp_all add: works_dir_def runs_dir_def)
        show "\<not> evidence_at st q" if "prefix ?s q" for q
          using that works_not_runs(2) by (auto simp: prefix_def)
      qed auto
      have "file_holds (move_tree ?s ?d u) (?d @ [PLAN]) bytes"
        using b(2) node_at_move_inside [OF free, of ?s "[PLAN]"] by (simp add: file_holds_def)
      then show "plan_stands S J st ?run plan (move_tree ?s ?d u)"
        using checked [OF b(1)] by (auto simp: plan_stands_def run_dir_def)
    qed
    show "triple (\<lambda>t. t = u) (sys_rename_noreplace ?s ?d)
        (\<lambda>_ t. detaches S J st u t \<and> plan_stands S J st ?run plan t) (detaches S J st u)"
      by (rule triple_weaken [OF triple_sys_rename_noreplace]) (use ok in \<open>auto intro: det.K_refl\<close>)
  qed
  show ?thesis
    unfolding start_run_def Let_def
    apply (rule det.keeps_perform, intro keep_intros)
    apply (rule det.keeps_weaken, rule det.upholds_perform [OF write_run_upholds [OF lay]])
     apply (rule det.upholds_perform [OF rename])
     apply (rule det.upholds_read_then, intro read_intros)
     apply (rule det.upholds_read_then, intro read_intros)
     apply (rule det.upholds_learn_then [OF _ learns_lift_err [OF learns_private_handle]], intro read_intros)
     apply (rule det.upholds_fact)
     apply (rule det.upholds_learn_then [OF _ learns_run_dirs], intro read_intros)
     apply (rule det.upholds_fact)
     apply (simp only: run_dirs_of_def [symmetric] run_dir_def [symmetric])
     apply (rule process_plan_upholds [OF lay])
    apply simp
    done
qed

theorem quarantine_retention_detaches:
  assumes lay: "store_layout st" and json: "plan_json_ok J"
  shows "detaches S J st (w_tree w) (w_tree (snd (quarantine_retention S J st run now policy w)))"
proof -
  have roots: "det.keeps S J st (open_run_roots st)"
  proof (rule det.keeps_run_roots)
    fix p t u
    assume p: "p \<in> {quarantine_dir st, quarantine_dir st @ [Q_VERSION], runs_dir st, works_dir st}"
      and c: "changed_at p t u"
    have "prefix (quarantine_dir st) p" using p by (auto simp: runs_dir_def works_dir_def)
    moreover have "\<not> evidence_at st p"
      using p works_not_runs(2) [of st "[]"] by (auto simp: evidence_at_def runs_dir_def)
    ultimately show "detaches S J st t u" by (rule detaches_changed [OF lay c])
  qed
  have rest: "det.keeps S J st (perform (recover_runs S J st (runs_dir st) (Some (run, now, policy)) stale) (\<lambda>existing. case existing of
       Some report \<Rightarrow> ret report
     | None \<Rightarrow>
         perform (plan_retention_locked S st now policy) (\<lambda>retention.
         if rp_candidates retention = []
         then ret \<lparr>qr_outcome = NoCandidates, qr_run_id = run, qr_detached = 0,
           qr_already_marked = 0, qr_stale_work_entries = stale\<rparr>
         else perform (bounded_active_run_count S J (runs_dir st) (st_vault_id st)) (\<lambda>active.
         if active + stale \<ge> MAX_RUNS then fail TooManyGcRuns
         else perform (bind_candidates S st (rp_candidates retention)) (\<lambda>candidates.
         perform (of_result (new_plan S J st (run, now, policy) candidates)) (\<lambda>plan.
         start_run S J st (runs_dir st) (works_dir st) stale plan))))))" for stale
    apply (rule det.keeps_perform [OF keeps_recover_runs [OF lay]])
    apply (rule det.keeps_case_option)
     apply (rule det.keeps_perform [OF det.keeps_reads], intro read_intros)
     apply (rule det.keeps_if, intro keep_intros)
     apply (rule det.keeps_perform [OF det.keeps_reads], intro read_intros)
     apply (rule det.keeps_if, intro keep_intros)
     apply (rule det.keeps_perform [OF det.keeps_reads], intro read_intros)
    subgoal for x retention active cands
      by (rule det.keeps_learn_then [where R = "\<lambda>plan. new_plan S J st (run, now, policy) cands = Inr plan"])
        (auto intro: keep_intros learns_of_result start_run_upholds [OF lay json])
    apply (intro keep_intros)
    done
  have locked: "det.keeps S J st (quarantine_locked S J st (run, now, policy))"
    unfolding quarantine_locked_def prod.case
    apply (rule det.keeps_learn_then [OF roots learns_run_roots])
    subgoal for x
    proof -
      assume "fst x = runs_dir st \<and> fst (snd x) = works_dir st"
      then obtain stale where x: "x = (runs_dir st, works_dir st, stale)" by (cases x) auto
      show ?thesis unfolding x prod.case by (rule rest)
    qed
    done
  have "det.keeps S J st (quarantine_retention S J st run now policy)"
    unfolding quarantine_retention_def with_operation_lock_def
    by (intro keep_intros locked; intro det.keeps_reads read_intros)
  then show ?thesis by (rule det.keepsD)
qed

end
