(* ===== verification/Quarantine_Properties.thy ===== *)
theory Quarantine_Properties
  imports Detach_Safety Concrete_Snapshots
begin

text \<open>
  The properties of the quarantine: what a detachment and what a deletion may do to stored
  snapshots, and what becomes of a snapshot over any history of operations on its store.
\<close>

section \<open>Histories\<close>

text \<open>The operations of a store that change the disk, and runs of them. Each call brings its own
  faults, clock and identifiers and starts on the tree that the call before has left.\<close>

datatype store_op =
    Publish snapshot_manifest string
  | Quarantine uuid u64 retention_policy
  | DeleteRun uuid

fun tree_after :: "snap_libs \<Rightarrow> gc_json \<Rightarrow> snapshot_store \<Rightarrow> store_op \<Rightarrow> world \<Rightarrow> tree" where
  "tree_after S J st (Publish m payload) w = w_tree (snd (publish S st m payload w))"
| "tree_after S J st (Quarantine run now policy) w = w_tree (snd (quarantine_retention S J st run now policy w))"
| "tree_after S J st (DeleteRun run) w = w_tree (snd (delete_quarantined_run S J st run w))"

fun after_ops :: "snap_libs \<Rightarrow> gc_json \<Rightarrow> snapshot_store \<Rightarrow> tree \<Rightarrow> (store_op \<times> world) list \<Rightarrow> tree" where
  "after_ops S J st t [] = t"
| "after_ops S J st t ((op, w) # ops) = after_ops S J st (tree_after S J st op (w\<lparr>w_tree := t\<rparr>)) ops"

text \<open>The snapshot that \<open>t\<close> stores under \<open>n\<close> is whole in \<open>u\<close>.\<close>

definition whole_at :: "snapshot_store \<Rightarrow> tree \<Rightarrow> string \<Rightarrow> tree \<Rightarrow> fs_path \<Rightarrow> bool" where
  "whole_at st t n u d = (\<forall>q. node_at u (d @ q) = node_at t (st_objects st @ [n] @ q))"

definition kept_somewhere :: "snap_libs \<Rightarrow> snapshot_store \<Rightarrow> tree \<Rightarrow> string \<Rightarrow> tree \<Rightarrow> bool" where
  "kept_somewhere S st t n u = (whole_at st t n u (st_objects st @ [n]) \<or> (\<exists>run. whole_at st t n u (item_path S st run n)))"

lemma whole_at_occupied:
  "whole_at st t n u d \<Longrightarrow> occupied t (st_objects st @ [n]) \<Longrightarrow> occupied u d"
  by (simp add: whole_at_def occupied_iff)

lemma whole_at_same: "whole_at st t n u d \<Longrightarrow> same_below u v d \<Longrightarrow> whole_at st t n v d"
  by (simp add: whole_at_def same_below_def)

lemma publish_keeps_snapshot:
  assumes lay: "store_layout st" and "uuid_text_ok S"
    and k: "kept_somewhere S st t n (w_tree w)" and o: "occupied t (st_objects st @ [n])"
  shows "kept_somewhere S st t n (w_tree (snd (publish S st m payload w)))"
proof -
  let ?u = "w_tree (snd (publish S st m payload w))"
  have pk: "publish_keeps S st m (w_tree w) ?u" by (rule publish_keeps_evidence [OF assms(1,2)])
  have out: "same_below (w_tree w) ?u (item_path S st run n)" for run
  proof -
    have "\<not> prefix (st_staging st) (item_path S st run n @ q)" "\<not> prefix (st_objects st) (item_path S st run n @ q)" for q
      using lay by (auto simp: store_layout_def item_path_def run_dir_def runs_dir_def quarantine_dir_def
          STAGING_DIRECTORY_def OBJECTS_DIRECTORY_def quarantine_names)
    with pk show ?thesis unfolding publish_keeps_def same_below_def by blast
  qed
  have here: "same_below (w_tree w) ?u (st_objects st @ [n])" if "whole_at st t n (w_tree w) (st_objects st @ [n])"
    using pk whole_at_occupied [OF that o] unfolding publish_keeps_def by blast
  show ?thesis using k here out whole_at_same unfolding kept_somewhere_def by blast
qed

lemma quarantine_keeps_snapshot:
  assumes lay: "store_layout st" and "plan_json_ok J"
    and k: "kept_somewhere S st t n (w_tree w)" and o: "occupied t (st_objects st @ [n])"
  shows "kept_somewhere S st t n (w_tree (snd (quarantine_retention S J st run now policy w)))"
proof -
  let ?u = "w_tree (snd (quarantine_retention S J st run now policy w))"
  have d: "detaches S J st (w_tree w) ?u" by (rule quarantine_retention_detaches [OF assms(1,2)])
  from k consider "whole_at st t n (w_tree w) (st_objects st @ [n])" | r where "whole_at st t n (w_tree w) (item_path S st r n)"
    unfolding kept_somewhere_def by blast
  then show ?thesis
  proof cases
    case 1
    then have "same_below (w_tree w) ?u (st_objects st @ [n]) \<or> detached_to S J st (w_tree w) ?u n"
      using d whole_at_occupied [OF _ o] unfolding detaches_def by blast
    with 1 show ?thesis
      unfolding kept_somewhere_def detached_to_def same_below_def whole_at_def by auto
  next
    case 2
    then have "same_below (w_tree w) ?u (item_path S st r n)"
      using d whole_at_occupied [OF _ o, of "w_tree w"] by (simp add: detaches_def item_path_def run_dir_def)
    with 2 show ?thesis unfolding kept_somewhere_def using whole_at_same by blast
  qed
qed

lemma runs_apart:
  assumes "uuid_text_ok S" and "r \<noteq> run"
  shows "\<not> may_touch S st run (item_path S st r n @ q)"
proof -
  have parse: "uuid_parse_str S (uuid_string S u) = Some u" for u using assms(1) by (simp add: uuid_text_ok_def)
  have "uuid_string S r \<noteq> uuid_string S run" using parse [of r] parse [of run] assms(2) by auto
  moreover have "uuid_string S r \<noteq> terminal_name S run" "terminal_attempt_prefix S run @ a \<noteq> uuid_string S r" for a
    using uuid_string_plain [OF assms(1)] uuid_string_plain [OF assms(1), THEN not_sym]
    by (auto simp: terminal_name_def terminal_attempt_prefix_def quarantine_names)
  ultimately show ?thesis
    by (auto simp: may_touch_def item_path_def run_dir_def runs_dir_def works_dir_def quarantine_names)
qed

lemma deletion_keeps_snapshot:
  assumes lay: "store_layout st" and ids: "uuid_text_ok S" and k: "kept_somewhere S st t n (w_tree w)"
  shows "kept_somewhere S st t n (w_tree (snd (delete_quarantined_run S J st run w))) \<or> authorized S J st run (w_tree w) n"
proof -
  let ?u = "w_tree (snd (delete_quarantined_run S J st run w))"
  have d: "deletes S J st run (w_tree w) ?u" by (rule delete_quarantined_run_deletes [OF ids])
  from k consider "whole_at st t n (w_tree w) (st_objects st @ [n])" | r where "whole_at st t n (w_tree w) (item_path S st r n)"
    unfolding kept_somewhere_def by blast
  then show ?thesis
  proof cases
    case 1
    have "\<not> may_touch S st run (st_objects st @ q)" if "q \<noteq> []" for q
      using lay that by (auto simp: may_touch_def store_layout_def run_dir_def runs_dir_def works_dir_def quarantine_dir_def
          OBJECTS_DIRECTORY_def quarantine_names)
    then have "same_below (w_tree w) ?u (st_objects st @ [n])"
      using d unfolding deletes_def same_below_def by (metis append.assoc append_is_Nil_conv list.distinct(1))
    with 1 show ?thesis unfolding kept_somewhere_def using whole_at_same by blast
  next
    case 2
    show ?thesis
    proof (cases "same_below (w_tree w) ?u (item_path S st r n)")
      case True
      with 2 show ?thesis unfolding kept_somewhere_def using whole_at_same by blast
    next
      case False
      then obtain q where q: "node_at ?u (item_path S st r n @ q) \<noteq> node_at (w_tree w) (item_path S st r n @ q)"
        by (auto simp: same_below_def)
      then have "r = run" using runs_apart [OF ids] d unfolding deletes_def by blast
      with q d show ?thesis unfolding deletes_def item_path_def by (metis append.assoc)
    qed
  qed
qed

lemma history_keeps_snapshot:
  assumes lay: "store_layout st" and ids: "uuid_text_ok S" and json: "plan_json_ok J"
    and o: "occupied t (st_objects st @ [n])"
  shows "kept_somewhere S st t n u \<Longrightarrow> kept_somewhere S st t n (after_ops S J st u ops)
    \<or> (\<exists>pre run w post. ops = pre @ (DeleteRun run, w) # post \<and> authorized S J st run (after_ops S J st u pre) n)"
proof (induction ops arbitrary: u)
  case Nil
  then show ?case by simp
next
  case (Cons x ops)
  obtain op w where x: "x = (op, w)" by (cases x)
  let ?w = "w\<lparr>w_tree := u\<rparr>"
  have k: "kept_somewhere S st t n (w_tree ?w)" using Cons.prems by simp
  have "kept_somewhere S st t n (tree_after S J st op ?w)
      \<or> (\<exists>run. op = DeleteRun run \<and> authorized S J st run u n)"
  proof (cases op)
    case (Publish m payload)
    then show ?thesis using publish_keeps_snapshot [OF lay ids k o] by simp
  next
    case (Quarantine run now policy)
    then show ?thesis using quarantine_keeps_snapshot [OF lay json k o] by simp
  next
    case (DeleteRun run)
    then show ?thesis using deletion_keeps_snapshot [OF lay ids k, of J run] by simp
  qed
  then show ?case
  proof
    assume "kept_somewhere S st t n (tree_after S J st op ?w)"
    from Cons.IH [OF this] show ?thesis unfolding x after_ops.simps by (metis after_ops.simps(2) append_Cons)
  next
    assume "\<exists>run. op = DeleteRun run \<and> authorized S J st run u n"
    then show ?thesis unfolding x by (metis after_ops.simps(1) append_Nil)
  qed
qed

section \<open>A concrete codec\<close>

text \<open>A stand-in for \<open>serde_json\<close> that writes and reads one plan and its marker.\<close>

definition demo_candidate :: gc_candidate where
  "demo_candidate = \<lparr>gc_snapshot_id = 5, gc_manifest_blake3 = replicate 64 CHR ''a'',
     gc_payload_blake3 = replicate 64 CHR ''b'', gc_payload_bytes = 6, gc_logical_bytes = 186,
     gc_created_at_unix_ms = 100, gc_lineage_key = ''a.md'', gc_lineage_blake3 = blake3_to_hex demo_snap ''a.md'',
     gc_reasons = [Age]\<rparr>"

definition demo_plan :: gc_plan where
  "demo_plan = \<lparr>gp_version = 1, gp_run_id = 9, gp_vault_id = 7, gp_policy = retention_policy_default,
     gp_evaluated_at_unix_ms = 1000, gp_candidates = [demo_candidate],
     gp_plan_blake3 = blake3_to_hex demo_snap ''unsigned''\<rparr>"

definition demo_gc :: gc_json where
  "demo_gc = \<lparr>plan_to_vec = (\<lambda>p. if p = demo_plan then Some ''plan'' else None),
     plan_parse = (\<lambda>s. if s = ''plan'' then Some demo_plan else None),
     unsigned_to_vec = (\<lambda>_. Some ''unsigned''),
     detached_to_vec = (\<lambda>d. if d = marker_of demo_plan demo_candidate then Some ''marker'' else None),
     detached_parse = (\<lambda>s. if s = ''marker'' then Some (marker_of demo_plan demo_candidate) else None),
     completion_to_vec = (\<lambda>c. if c = completion_from_plan demo_plan then Some ''done'' else None),
     completion_parse = (\<lambda>s. if s = ''done'' then Some (completion_from_plan demo_plan) else None)\<rparr>"

lemma demo_plan_json_ok: "plan_json_ok demo_gc"
  by (auto simp: plan_json_ok_def demo_gc_def split: if_splits)

lemma demo_plan_checks: "is_ok (check_plan_bytes demo_snap demo_gc InvalidGcPlan InvalidGcPlan 9 7 ''plan'')"
  by code_simp

lemma demo_layout: "store_layout demo_store"
  by (simp add: store_layout_def demo_store_def)

section \<open>Detachment\<close>

text \<open>
  C16: Whatever system calls fail and wherever the process dies, quarantining leaves everything
  outside the quarantine and the objects as it was; every stored snapshot stays in place unchanged,
  or is moved whole into the items of a run whose stored and valid plan names it; no object appears;
  and every item, plan and marker that existed is still there, unchanged.\<close>

theorem quarantine_never_loses_evidence:
  assumes "store_layout st" and "plan_json_ok J"
    and "t = w_tree w" and "u = w_tree (snd (quarantine_retention S J st run now policy w))"
  shows "(\<not> prefix (quarantine_dir st) p \<and> (\<forall>m. \<not> prefix (st_objects st @ [m]) p) \<longrightarrow> node_at u p = node_at t p)
    \<and> (occupied t (st_objects st @ [n]) \<longrightarrow>
         (\<forall>q. node_at u (st_objects st @ n # q) = node_at t (st_objects st @ n # q))
         \<or> \<not> occupied u (st_objects st @ [n])
           \<and> (\<exists>r plan. plan_stands S J st r plan u \<and> n \<in> plan_names S plan
                \<and> (\<forall>q. node_at u (run_dir S st r @ [ITEMS, n] @ q) = node_at t (st_objects st @ n # q))))
    \<and> (occupied u (st_objects st @ [n]) \<longrightarrow> occupied t (st_objects st @ [n]))
    \<and> (evidence_at st p \<and> node_at t p = Some x \<longrightarrow> node_at u p = Some x)"
proof -
  have d: "detaches S J st t u" unfolding assms(3,4) by (rule quarantine_retention_detaches [OF assms(1,2)])
  then have o: "same_below t u (st_objects st @ [n]) \<or> detached_to S J st t u n" if "occupied t (st_objects st @ [n])"
    using that unfolding detaches_def by blast
  have "(\<forall>q. node_at u (st_objects st @ n # q) = node_at t (st_objects st @ n # q))
      \<or> \<not> occupied u (st_objects st @ [n])
        \<and> (\<exists>r plan. plan_stands S J st r plan u \<and> n \<in> plan_names S plan
             \<and> (\<forall>q. node_at u (run_dir S st r @ [ITEMS, n] @ q) = node_at t (st_objects st @ n # q)))"
    if "occupied t (st_objects st @ [n])"
    using o [OF that] by (simp add: same_below_def detached_to_def item_path_def)
  with d show ?thesis unfolding detaches_def by blast
qed

theorem quarantine_never_loses_evidence_witness:
  "\<exists>d. \<forall>q. node_at (w_tree (snd (quarantine_retention demo_snap demo_gc demo_store 9 1000 retention_policy_default
       ((crash_world 60)\<lparr>w_tree := demo_object_tree\<rparr>)))) (d @ q) = node_at demo_object_tree ([OBJECTS_DIRECTORY, demo_name] @ q)"
proof -
  let ?w = "(crash_world 60)\<lparr>w_tree := demo_object_tree\<rparr>"
  let ?u = "w_tree (snd (quarantine_retention demo_snap demo_gc demo_store 9 1000 retention_policy_default ?w))"
  have tree: "demo_object_tree = w_tree ?w" by simp
  have o: "occupied demo_object_tree (st_objects demo_store @ [demo_name])"
    by (simp add: occupied_def demo_object_tree_def demo_tree_def demo_store_def)
  note moved = quarantine_never_loses_evidence [OF demo_layout demo_plan_json_ok tree refl, where n = demo_name
      and S = demo_snap and run = 9 and now = 1000 and policy = retention_policy_default]
  have "(\<forall>q. node_at ?u (st_objects demo_store @ demo_name # q) = node_at demo_object_tree (st_objects demo_store @ demo_name # q))
      \<or> (\<exists>r. \<forall>q. node_at ?u (run_dir demo_snap demo_store r @ [ITEMS, demo_name] @ q)
           = node_at demo_object_tree (st_objects demo_store @ demo_name # q))"
    using moved o by blast
  then show ?thesis
  proof
    assume "\<forall>q. node_at ?u (st_objects demo_store @ demo_name # q) = node_at demo_object_tree (st_objects demo_store @ demo_name # q)"
    then show ?thesis by (intro exI [of _ "[OBJECTS_DIRECTORY, demo_name]"]) (simp add: demo_store_def)
  next
    assume "\<exists>r. \<forall>q. node_at ?u (run_dir demo_snap demo_store r @ [ITEMS, demo_name] @ q)
        = node_at demo_object_tree (st_objects demo_store @ demo_name # q)"
    then obtain r where "\<forall>q. node_at ?u (run_dir demo_snap demo_store r @ [ITEMS, demo_name] @ q)
        = node_at demo_object_tree (st_objects demo_store @ demo_name # q)" ..
    then show ?thesis
      by (intro exI [of _ "run_dir demo_snap demo_store r @ [ITEMS, demo_name]"]) (simp add: demo_store_def)
  qed
qed

section \<open>Deletion\<close>

text \<open>
  C17: Whatever system calls fail and wherever the process dies, deleting a run changes nothing
  outside the directory and the terminal records of that run, but for the four directories above them
  (the quarantine, its version, the runs and the works); it creates and alters no plan, marker or item; and it removes something of an item only if the plan stored for the run is valid, names
  that item, and a marker that matches the plan was stored for it when the deletion began.\<close>

theorem deletion_is_authorized:
  assumes "uuid_text_ok S" and "t = w_tree w" and "u = w_tree (snd (delete_quarantined_run S J st run w))"
  shows "(\<not> may_touch S st run p \<longrightarrow> node_at u p = node_at t p)
    \<and> (run_evidence S st run p \<and> node_at u p = Some x \<longrightarrow> node_at t p = Some x)
    \<and> (node_at u (run_dir S st run @ [ITEMS, n] @ q) \<noteq> node_at t (run_dir S st run @ [ITEMS, n] @ q)
        \<longrightarrow> authorized S J st run t n)"
proof -
  have "deletes S J st run t u" unfolding assms(2,3) by (rule delete_quarantined_run_deletes [OF assms(1)])
  then show ?thesis unfolding deletes_def by blast
qed

text \<open>An item without a plan survives the deletion of its run, whenever that dies.\<close>

theorem deletion_is_authorized_witness:
  "node_at (w_tree (snd (delete_quarantined_run demo_snap demo_gc demo_store 9
      ((crash_world 100)\<lparr>w_tree := (run_dir demo_snap demo_store 9 @ [ITEMS, demo_name], DirNode 9 True) # demo_tree\<rparr>))))
    (run_dir demo_snap demo_store 9 @ [ITEMS, demo_name]) = Some (DirNode 9 True)"
proof -
  let ?d = "run_dir demo_snap demo_store 9"
  let ?t = "(?d @ [ITEMS, demo_name], DirNode 9 True) # demo_tree"
  let ?w = "(crash_world 100)\<lparr>w_tree := ?t\<rparr>"
  have tree: "?t = w_tree ?w" by simp
  have "node_at ?t (?d @ [PLAN]) = None"
    by (simp add: node_at_def demo_tree_def run_dir_def runs_dir_def quarantine_dir_def demo_store_def quarantine_names
        OPERATION_LOCK_FILE_def)
  then have "authorized demo_snap demo_gc demo_store 9 ?t demo_name = False"
    unfolding authorized_def file_holds_def by simp
  with deletion_is_authorized [OF demo_uuid_text_ok tree refl, where run = 9 and st = demo_store and J = demo_gc
      and n = demo_name and q = "[]"]
  show ?thesis by (auto simp: node_at_def)
qed

section \<open>Histories\<close>

text \<open>
  C15: Take a snapshot that the store holds and any sequence of publications, quarantine calls and
  deletions of runs, each under arbitrary failures and crashes. At the end the snapshot is whole in
  the objects or in the items of a run; or the sequence contains the deletion of a run that, when
  that deletion began, had a valid stored plan naming the snapshot and a matching marker for it.\<close>

theorem snapshot_leaves_only_by_authorized_deletion:
  assumes "store_layout st" and "uuid_text_ok S" and "plan_json_ok J"
    and "occupied t (st_objects st @ [n])" and "u = after_ops S J st t ops"
  shows "(\<forall>q. node_at u (st_objects st @ n # q) = node_at t (st_objects st @ n # q))
    \<or> (\<exists>run. \<forall>q. node_at u (run_dir S st run @ [ITEMS, n] @ q) = node_at t (st_objects st @ n # q))
    \<or> (\<exists>pre run w post. ops = pre @ (DeleteRun run, w) # post \<and> authorized S J st run (after_ops S J st t pre) n)"
proof -
  have "kept_somewhere S st t n t" by (simp add: kept_somewhere_def whole_at_def)
  from history_keeps_snapshot [OF assms(1-4) this, of ops] show ?thesis
    unfolding kept_somewhere_def whole_at_def item_path_def assms(5) by simp
qed

text \<open>A publication and a quarantine call, both interrupted.\<close>

theorem snapshot_leaves_only_by_authorized_deletion_witness:
  "\<exists>d. \<forall>q. node_at (after_ops demo_snap demo_gc demo_store demo_object_tree
        [(Publish (demo_manifest 6 100) demo_payload, crash_world 20),
         (Quarantine 9 1000 retention_policy_default, crash_world 70)]) (d @ q)
      = node_at demo_object_tree ([OBJECTS_DIRECTORY, demo_name] @ q)"
proof -
  let ?ops = "[(Publish (demo_manifest 6 100) demo_payload, crash_world 20),
         (Quarantine 9 1000 retention_policy_default, crash_world 70)]"
  let ?u = "after_ops demo_snap demo_gc demo_store demo_object_tree ?ops"
  have o: "occupied demo_object_tree (st_objects demo_store @ [demo_name])"
    by (simp add: occupied_def demo_object_tree_def demo_tree_def demo_store_def)
  have none: "?ops \<noteq> pre @ (DeleteRun run, w) # post" for pre run w post
    by (auto simp: Cons_eq_append_conv)
  from snapshot_leaves_only_by_authorized_deletion [OF demo_layout demo_uuid_text_ok demo_plan_json_ok o refl, of ?ops] none
  consider "\<forall>q. node_at ?u (st_objects demo_store @ demo_name # q) = node_at demo_object_tree (st_objects demo_store @ demo_name # q)"
    | run where "\<forall>q. node_at ?u (run_dir demo_snap demo_store run @ [ITEMS, demo_name] @ q)
        = node_at demo_object_tree (st_objects demo_store @ demo_name # q)"
    by blast
  then show ?thesis
  proof cases
    case 1
    then show ?thesis by (intro exI [of _ "[OBJECTS_DIRECTORY, demo_name]"]) (simp add: demo_store_def)
  next
    case 2
    then show ?thesis
      by (intro exI [of _ "run_dir demo_snap demo_store run @ [ITEMS, demo_name]"]) (simp add: demo_store_def)
  qed
qed

end
