(* ===== verification/Transfer_Worker.thy ===== *)
theory Transfer_Worker
  imports Change_Batches
begin

text \<open>
  \<open>crates/myvault-transfer/src/lib.rs\<close>: the worker that claims one due transfer, has an executor
  carry it out, and records the outcome; its implementation of \<open>TransferStore\<close> on \<open>SyncStore\<close>; and
  the loop \<open>drain_guarded_snapshot\<close> of \<open>sync_commands.rs\<close> that calls it.

  \<^item> The trait \<open>TransferStore\<close> is the record \<open>transfer_store\<close> of its methods over a type of stores. A
    method returns its result and the store it leaves.
  \<^item> An executor may call the gate \<open>before_local_publish\<close> any number of times, each time seeing the
    answer, before it finishes. This is the tree \<open>execution\<close>; executors are parameters.
\<close>

section \<open>Intents, evidence, failures\<close>

definition SHA256_HEX_LENGTH :: nat where "SHA256_HEX_LENGTH = 64"
definition MAX_REDACTED_CODE_BYTES :: nat where "MAX_REDACTED_CODE_BYTES = 96"
definition MAX_PORTABLE_PATH_BYTES :: nat where "MAX_PORTABLE_PATH_BYTES = 4 * 1024"
definition MAX_REMOTE_ID_BYTES :: nat where "MAX_REMOTE_ID_BYTES = 4 * 1024"
definition MAX_TRANSFER_BYTES :: u64 where "MAX_TRANSFER_BYTES = 512 * 1024 * 1024"
definition BASE_BACKOFF_MS :: u64 where "BASE_BACKOFF_MS = 1000"
definition MAX_BACKOFF_MS :: u64 where "MAX_BACKOFF_MS = 15 * 60 * 1000"

datatype worker_error = WInvalidIntent | WInvalidEvidence | WStore | WTimestampOverflow

datatype content_kind = MarkdownContent | BlobContent

record transfer_intent =
  ti_operation_id :: uuid
  ti_direction :: transfer_direction
  ti_path :: string
  ti_parent_id :: string
  ti_remote_file_id :: "string option"
  ti_expected_local_revision :: "string option"
  ti_expected_remote_revision :: "string option"
  ti_sha256_hex :: string
  ti_byte_len :: u64
  ti_content_kind :: content_kind
  ti_operation_marker :: string
  ti_stage_ref :: "string option"
  ti_base_ref :: "string option"
  ti_attempt_count :: u32

record verified_transfer =
  vt_operation_id :: uuid
  vt_remote_file_id :: string
  vt_remote_revision :: string
  vt_local_revision :: "string option"
  vt_sha256_hex :: string
  vt_byte_len :: u64
  vt_base_ref :: string
  vt_outcome_code :: string

datatype failure_kind =
    AuthRequiredFailure | Offline | RateLimited | TransientSafe | TransientUnknown | Permanent
  | NeedsReconcileFailure

text \<open>\<open>std::time::Duration\<close>.\<close>

record duration =
  du_secs :: u64
  du_nanos :: u32

record execution_failure =
  ef_kind :: failure_kind
  ef_code :: string
  ef_retry_after :: "duration option"

section \<open>Validation\<close>

definition worker_validate_sha256 :: "string \<Rightarrow> worker_error + unit" where
  "worker_validate_sha256 value =
     (if length value \<noteq> SHA256_HEX_LENGTH \<or> \<not> list_all is_lower_hex_byte value
      then Inl WInvalidEvidence else Inr ())"

definition worker_validate_code :: "string \<Rightarrow> worker_error + unit" where
  "worker_validate_code value =
     (if value = [] \<or> length value > MAX_REDACTED_CODE_BYTES
         \<or> \<not> list_all (\<lambda>b. is_ascii_lowercase b \<or> is_ascii_digit b \<or> b = CHR ''_'') value
      then Inl WInvalidEvidence else Inr ())"

definition validate_opaque :: "string \<Rightarrow> nat \<Rightarrow> worker_error + unit" where
  "validate_opaque value max_bytes =
     (if value = [] \<or> length value > max_bytes \<or> contains_control value
         \<or> list_ex (\<lambda>b. b \<in> set [CHR ''/'', CHR 0x5C]) value
      then Inl WInvalidEvidence else Inr ())"

definition to_ascii_lowercase :: "string \<Rightarrow> string" where
  "to_ascii_lowercase s = map (\<lambda>c. if is_ascii_uppercase c then char_of (byte c + 32) else c) s"

definition eq_ignore_ascii_case :: "string \<Rightarrow> string \<Rightarrow> bool" where
  "eq_ignore_ascii_case a b = (to_ascii_lowercase a = to_ascii_lowercase b)"

definition validate_worker_path :: "string \<Rightarrow> worker_error + unit" where
  "validate_worker_path value =
     (if value = [] \<or> length value > MAX_PORTABLE_PATH_BYTES
         \<or> starts_with value ''/'' \<or> ends_with_byte value CHR ''/'' \<or> CHR 0x5C \<in> set value
         \<or> contains_control value
         \<or> list_ex (\<lambda>part. part = [] \<or> part \<in> set [''.'', ''..'']) (split_on CHR ''/'' value)
      then Inl WInvalidIntent
      else if eq_ignore_ascii_case (hd (split_on CHR ''/'' value)) ''.obsidian''
         \<or> eq_ignore_ascii_case (hd (split_on CHR ''/'' value)) ''.trash''
      then Inl WInvalidIntent else Inr ())"

definition intent_validate :: "transfer_intent \<Rightarrow> worker_error + unit" where
  "intent_validate i =
     (if is_nil (ti_operation_id i) then Inl WInvalidIntent
      else and_then (validate_worker_path (ti_path i)) (\<lambda>_.
      and_then (for_each (\<lambda>v. validate_opaque v MAX_REMOTE_ID_BYTES) (ti_parent_id i # flatten_opt
        [ti_remote_file_id i, ti_expected_local_revision i, ti_expected_remote_revision i])) (\<lambda>_.
      and_then (worker_validate_sha256 (ti_sha256_hex i)) (\<lambda>_.
      if ti_byte_len i > MAX_TRANSFER_BYTES then Inl WInvalidIntent
      else and_then (for_each (\<lambda>v. validate_opaque v MAX_REMOTE_ID_BYTES) (ti_operation_marker i # flatten_opt
        [ti_stage_ref i, ti_base_ref i])) (\<lambda>_.
      if ti_direction i = TransferDownload \<and> ti_remote_file_id i = None then Inl WInvalidIntent
      else if ti_direction i = TransferUpload \<and> (ti_expected_local_revision i = None \<or> ti_stage_ref i = None)
      then Inl WInvalidIntent else Inr ())))))"

definition intent_new :: "transfer_intent \<Rightarrow> worker_error + transfer_intent" where
  "intent_new i = and_then (intent_validate i) (\<lambda>_. Inr i)"

definition verified_new :: "verified_transfer \<Rightarrow> worker_error + verified_transfer" where
  "verified_new v =
     and_then (for_each (\<lambda>s. validate_opaque s MAX_REMOTE_ID_BYTES) (vt_remote_file_id v # vt_remote_revision v
       # flatten_opt [vt_local_revision v])) (\<lambda>_.
     and_then (worker_validate_sha256 (vt_sha256_hex v)) (\<lambda>_.
     and_then (validate_opaque (vt_base_ref v) MAX_REMOTE_ID_BYTES) (\<lambda>_.
     and_then (worker_validate_code (vt_outcome_code v)) (\<lambda>_.
     if is_nil (vt_operation_id v) \<or> vt_byte_len v > MAX_TRANSFER_BYTES then Inl WInvalidEvidence
     else Inr v))))"

definition verified_matches :: "verified_transfer \<Rightarrow> transfer_intent \<Rightarrow> bool" where
  "verified_matches v i = (vt_operation_id v = ti_operation_id i \<and> vt_sha256_hex v = ti_sha256_hex i
     \<and> vt_byte_len v = ti_byte_len i)"

definition failure_new :: "failure_kind \<Rightarrow> string \<Rightarrow> duration option \<Rightarrow> worker_error + execution_failure" where
  "failure_new kind code retry_after =
     and_then (worker_validate_code code) (\<lambda>_.
     if kind \<noteq> RateLimited \<and> retry_after \<noteq> None then Inl WInvalidEvidence
     else Inr \<lparr>ef_kind = kind, ef_code = code, ef_retry_after = retry_after\<rparr>)"

section \<open>Delays\<close>

text \<open>\<open>Uuid::as_bytes\<close> is big-endian; the seed reads the first eight bytes little-endian.\<close>

definition uuid_byte :: "uuid \<Rightarrow> nat \<Rightarrow> u64" where
  "uuid_byte u k = ucast (take_bit 8 (drop_bit (120 - 8 * k) u))"

definition jitter_seed :: "uuid \<Rightarrow> u64" where
  "jitter_seed u = foldr (\<lambda>k acc. acc * 256 + uuid_byte u k) [0..<8] 0"

definition saturating_mul64 :: "u64 \<Rightarrow> u64 \<Rightarrow> u64" where
  "saturating_mul64 a b = (if unat a * unat b < 2 ^ 64 then a * b else - 1)"

definition saturating_add64 :: "u64 \<Rightarrow> u64 \<Rightarrow> u64" where
  "saturating_add64 a b = (if unat a + unat b < 2 ^ 64 then a + b else - 1)"

definition retry_delay_ms :: "uuid \<Rightarrow> u32 \<Rightarrow> u64" where
  "retry_delay_ms operation_id attempt_count =
     (let shift = min attempt_count 9;
          exponential = saturating_mul64 BASE_BACKOFF_MS (push_bit (unat shift) 1);
          capped = min exponential MAX_BACKOFF_MS;
          jitter_bound = max (capped div 4) 1 in
      min (saturating_add64 capped (jitter_seed operation_id mod jitter_bound)) MAX_BACKOFF_MS)"

definition checked_add_ms :: "u64 \<Rightarrow> u64 \<Rightarrow> worker_error + u64" where
  "checked_add_ms now delay =
     (if unat now + unat delay < 2 ^ 64 then Inr (now + delay) else Inl WTimestampOverflow)"

text \<open>\<open>Duration::as_millis\<close> is a 128-bit number; \<open>u64::try_from\<close> may refuse it.\<close>

definition as_millis :: "duration \<Rightarrow> nat" where
  "as_millis d = unat (du_secs d) * 1000 + unat (du_nanos d) div 1000000"

definition rate_limit_delay :: "execution_failure \<Rightarrow> uuid \<Rightarrow> u32 \<Rightarrow> u64" where
  "rate_limit_delay failure operation_id attempt_count =
     (let requested = (case ef_retry_after failure of
            Some d \<Rightarrow> if as_millis d < 2 ^ 64 then of_nat (as_millis d) else retry_delay_ms operation_id attempt_count
          | None \<Rightarrow> retry_delay_ms operation_id attempt_count) in
      min (max requested BASE_BACKOFF_MS) MAX_BACKOFF_MS)"

section \<open>The store the worker needs\<close>

record 's transfer_store =
  ts_claim_due :: "u64 \<Rightarrow> 's \<Rightarrow> (worker_error + transfer_intent option) \<times> 's"
  ts_begin_local_publish :: "uuid \<Rightarrow> u64 \<Rightarrow> 's \<Rightarrow> (worker_error + unit) \<times> 's"
  ts_complete_verified :: "verified_transfer \<Rightarrow> u64 \<Rightarrow> 's \<Rightarrow> (worker_error + unit) \<times> 's"
  ts_schedule_retry :: "uuid \<Rightarrow> u64 \<Rightarrow> string \<Rightarrow> 's \<Rightarrow> (worker_error + unit) \<times> 's"
  ts_pause_offline :: "uuid \<Rightarrow> u64 \<Rightarrow> string \<Rightarrow> 's \<Rightarrow> (worker_error + unit) \<times> 's"
  ts_mark_auth_required :: "uuid \<Rightarrow> string \<Rightarrow> u64 \<Rightarrow> 's \<Rightarrow> (worker_error + unit) \<times> 's"
  ts_mark_needs_reconcile :: "uuid \<Rightarrow> string \<Rightarrow> u64 \<Rightarrow> 's \<Rightarrow> (worker_error + unit) \<times> 's"

text \<open>A method of \<open>SyncStore\<close> is one transaction: an error leaves the store as it was.\<close>

definition committed :: "worker_error \<Rightarrow> (sync_store \<Rightarrow> error + sync_store) \<Rightarrow> sync_store
    \<Rightarrow> (worker_error + unit) \<times> sync_store" where
  "committed failure f s = (case f s of Inl _ \<Rightarrow> (Inl failure, s) | Inr s' \<Rightarrow> (Inr (), s'))"

definition intent_of_record :: "transfer_record \<Rightarrow> transfer_intent" where
  "intent_of_record t = \<lparr>ti_operation_id = tr_operation_id t, ti_direction = tr_direction t,
     ti_path = tr_portable_path t, ti_parent_id = tr_remote_parent_id t,
     ti_remote_file_id = tr_remote_file_id t, ti_expected_local_revision = tr_expected_local_revision t,
     ti_expected_remote_revision = tr_expected_remote_revision t, ti_sha256_hex = tr_sha256 t,
     ti_byte_len = tr_byte_length t,
     ti_content_kind = (case tr_mime_class t of MimeMarkdown \<Rightarrow> MarkdownContent | MimeBlob \<Rightarrow> BlobContent),
     ti_operation_marker = tr_operation_marker t, ti_stage_ref = tr_stage_reference t,
     ti_base_ref = tr_base_reference t, ti_attempt_count = word_of_int (tr_attempt_count t)\<rparr>"

text \<open>The claim is committed before the intent is validated.\<close>

definition sync_claim_due :: "libs \<Rightarrow> u64 \<Rightarrow> sync_store \<Rightarrow> (worker_error + transfer_intent option) \<times> sync_store" where
  "sync_claim_due L now s =
     (case claim_next_transfer L now s of
        Inl _ \<Rightarrow> (Inl WStore, s)
      | Inr (None, s') \<Rightarrow> (Inr None, s')
      | Inr (Some t, s') \<Rightarrow> (and_then (intent_new (intent_of_record t)) (\<lambda>i. Inr (Some i)), s'))"

definition sync_begin_local_publish :: "libs \<Rightarrow> uuid \<Rightarrow> u64 \<Rightarrow> sync_store \<Rightarrow> (worker_error + unit) \<times> sync_store" where
  "sync_begin_local_publish L op now s =
     (case load_change_batch s of
        Inl _ \<Rightarrow> (Inl WStore, s)
      | Inr None \<Rightarrow> (Inr (), s)
      | Inr (Some batch) \<Rightarrow>
          (case local_mutations (cb_batch_id batch) s of
             Inl _ \<Rightarrow> (Inl WStore, s)
           | Inr mutations \<Rightarrow>
               if \<not> list_ex (\<lambda>m. lm_mutation_id m = uuid_to_string L op) mutations then (Inr (), s)
               else committed WStore (begin_transfer_local_publish L op now) s))"

definition sync_complete_verified :: "libs \<Rightarrow> verified_transfer \<Rightarrow> u64 \<Rightarrow> sync_store \<Rightarrow> (worker_error + unit) \<times> sync_store" where
  "sync_complete_verified L v now s =
     (case and_then (ok_or (vt_local_revision v) WInvalidEvidence) (\<lambda>local_revision.
         map_err (\<lambda>_. WInvalidEvidence) (completion_new (vt_remote_file_id v) (vt_remote_revision v)
           local_revision (vt_base_ref v) (vt_outcome_code v) now)) of
        Inl e \<Rightarrow> (Inl e, s)
      | Inr completion \<Rightarrow> committed WStore
          (\<lambda>s. and_then (complete_verified_transfer L (vt_operation_id v) completion s) (\<lambda>r. Inr (snd r))) s)"

definition sync_transfer_store :: "libs \<Rightarrow> sync_store transfer_store" where
  "sync_transfer_store L = \<lparr>
     ts_claim_due = sync_claim_due L,
     ts_begin_local_publish = sync_begin_local_publish L,
     ts_complete_verified = sync_complete_verified L,
     ts_schedule_retry = (\<lambda>op next code. committed WStore (schedule_transfer_retry L op next code next)),
     ts_pause_offline = (\<lambda>op next code. committed WStore (pause_transfer_offline L op next code next)),
     ts_mark_auth_required = (\<lambda>op code now. committed WStore (mark_transfer_auth_required L op code now)),
     ts_mark_needs_reconcile = (\<lambda>op code now. committed WStore (mark_transfer_needs_reconcile L op code now))\<rparr>"

section \<open>The worker\<close>

datatype 'e execution =
    Finish 'e "execution_failure + verified_transfer"
  | AskGate "worker_error + unit \<Rightarrow> 'e execution"

text \<open>Runs an execution against the gate; the last error of the gate is remembered.\<close>

primrec run_execution :: "('s \<Rightarrow> (worker_error + unit) \<times> 's) \<Rightarrow> 'e execution \<Rightarrow> 's \<Rightarrow> worker_error option
    \<Rightarrow> 's \<times> worker_error option \<times> 'e \<times> (execution_failure + verified_transfer)" where
  "run_execution gate (Finish e result) = (\<lambda>s gate_error. (s, gate_error, e, result))"
| "run_execution gate (AskGate continue) = (\<lambda>s gate_error.
     let (answer, s') = gate s in
     run_execution gate (continue answer) s' (case answer of Inl e \<Rightarrow> Some e | Inr _ \<Rightarrow> gate_error))"

datatype work_outcome =
    Idle | Completed uuid | RetryScheduled uuid | AuthRequired uuid | NeedsReconcile uuid

record ('s, 'e) worker =
  wk_store :: 's
  wk_executor :: 'e
  wk_auth_refresh_required :: "uuid option"

text \<open>Calls a store method, then continues with the given outcome.\<close>

definition record_outcome :: "('s \<Rightarrow> (worker_error + unit) \<times> 's) \<Rightarrow> work_outcome \<Rightarrow> ('s, 'e) worker
    \<Rightarrow> (worker_error + work_outcome) \<times> ('s, 'e) worker" where
  "record_outcome f outcome w =
     (case f (wk_store w) of (r, s) \<Rightarrow> (map_sum id (\<lambda>_. outcome) r, w\<lparr>wk_store := s\<rparr>))"

definition handle_failure :: "'s transfer_store \<Rightarrow> uuid \<Rightarrow> u64 \<Rightarrow> u32 \<Rightarrow> execution_failure \<Rightarrow> ('s, 'e) worker
    \<Rightarrow> (worker_error + work_outcome) \<times> ('s, 'e) worker" where
  "handle_failure T op now attempt_count failure w =
     (case ef_kind failure of
        AuthRequiredFailure \<Rightarrow>
          (case record_outcome (ts_mark_auth_required T op (ef_code failure) now) (AuthRequired op) w of
             (Inl e, w') \<Rightarrow> (Inl e, w')
           | (Inr r, w') \<Rightarrow> (Inr r, w'\<lparr>wk_auth_refresh_required := Some op\<rparr>))
      | Offline \<Rightarrow>
          (case checked_add_ms now BASE_BACKOFF_MS of
             Inl e \<Rightarrow> (Inl e, w)
           | Inr next \<Rightarrow> record_outcome (ts_pause_offline T op next (ef_code failure)) (RetryScheduled op) w)
      | RateLimited \<Rightarrow>
          (case checked_add_ms now (rate_limit_delay failure op attempt_count) of
             Inl e \<Rightarrow> (Inl e, w)
           | Inr next \<Rightarrow> record_outcome (ts_schedule_retry T op next (ef_code failure)) (RetryScheduled op) w)
      | TransientSafe \<Rightarrow>
          (case checked_add_ms now (retry_delay_ms op attempt_count) of
             Inl e \<Rightarrow> (Inl e, w)
           | Inr next \<Rightarrow> record_outcome (ts_schedule_retry T op next (ef_code failure)) (RetryScheduled op) w)
      | _ \<Rightarrow> record_outcome (ts_mark_needs_reconcile T op (ef_code failure) now) (NeedsReconcile op) w)"

text \<open>What happens after the claim of an intent.\<close>

definition advance_claimed ::
    "'s transfer_store \<Rightarrow> ('e \<Rightarrow> transfer_intent \<Rightarrow> 'e execution) \<Rightarrow> u64 \<Rightarrow> u64 \<Rightarrow> transfer_intent \<Rightarrow> ('s, 'e) worker
      \<Rightarrow> (worker_error + work_outcome) \<times> ('s, 'e) worker" where
  "advance_claimed T execute cutoff clock intent w =
     (let op = ti_operation_id intent in
      case run_execution (ts_begin_local_publish T op cutoff) (execute (wk_executor w) intent) (wk_store w) None of
        (s, gate_error, e, execution) \<Rightarrow>
          let w' = w\<lparr>wk_store := s, wk_executor := e\<rparr>; completion_now = max clock cutoff in
          (case gate_error of
            Some error \<Rightarrow> (Inl error, w')
          | None \<Rightarrow>
              (case execution of
                 Inr verified \<Rightarrow>
                   if \<not> verified_matches verified intent
                   then record_outcome (ts_mark_needs_reconcile T op ''verified_evidence_mismatch'' completion_now)
                     (NeedsReconcile op) w'
                   else record_outcome (ts_complete_verified T verified completion_now) (Completed op) w'
               | Inl failure \<Rightarrow> handle_failure T op completion_now (ti_attempt_count intent) failure w')))"

definition run_once_with_completion_clock ::
    "'s transfer_store \<Rightarrow> ('e \<Rightarrow> transfer_intent \<Rightarrow> 'e execution) \<Rightarrow> u64 \<Rightarrow> u64 \<Rightarrow> ('s, 'e) worker
      \<Rightarrow> (worker_error + work_outcome) \<times> ('s, 'e) worker" where
  "run_once_with_completion_clock T execute cutoff clock w =
     (if wk_auth_refresh_required w \<noteq> None then (Inr Idle, w)
      else case ts_claim_due T cutoff (wk_store w) of
        (Inl e, s) \<Rightarrow> (Inl e, w\<lparr>wk_store := s\<rparr>)
      | (Inr None, s) \<Rightarrow> (Inr Idle, w\<lparr>wk_store := s\<rparr>)
      | (Inr (Some intent), s) \<Rightarrow> advance_claimed T execute cutoff clock intent (w\<lparr>wk_store := s\<rparr>))"

definition run_once ::
    "'s transfer_store \<Rightarrow> ('e \<Rightarrow> transfer_intent \<Rightarrow> 'e execution) \<Rightarrow> u64 \<Rightarrow> ('s, 'e) worker
      \<Rightarrow> (worker_error + work_outcome) \<times> ('s, 'e) worker" where
  "run_once T execute now = run_once_with_completion_clock T execute now now"

section \<open>Draining\<close>

datatype guarded_outcome = Drained | DrainAuthRequired

text \<open>One sample of the completion clock per round; the list is as long as \<open>max_operations\<close>.\<close>

fun drain_guarded_snapshot ::
    "'s transfer_store \<Rightarrow> ('e \<Rightarrow> transfer_intent \<Rightarrow> 'e execution) \<Rightarrow> u64 \<Rightarrow> u64 list \<Rightarrow> ('s, 'e) worker
      \<Rightarrow> (worker_error + guarded_outcome) \<times> ('s, 'e) worker" where
  "drain_guarded_snapshot T execute cutoff [] w = (Inr Drained, w)"
| "drain_guarded_snapshot T execute cutoff (clock # clocks) w =
     (case run_once_with_completion_clock T execute cutoff clock w of
        (Inl e, w') \<Rightarrow> (Inl e, w')
      | (Inr Idle, w') \<Rightarrow> (Inr Drained, w')
      | (Inr (AuthRequired op), w') \<Rightarrow> (Inr DrainAuthRequired, w')
      | (Inr _, w') \<Rightarrow> drain_guarded_snapshot T execute cutoff clocks w')"

end
