(* ===== verification/Worker_Contract.thy ===== *)
theory Worker_Contract
  imports Transfer_Worker Store_Invariant
begin

text \<open>
  The contract between the transfer worker and its store. The locale \<open>transfer_contract\<close> says what
  each method may do to the phase and the due time of transfers; what one call of the worker does
  follows from it for every executor. \<open>SyncStore\<close> fulfils it.
\<close>

section \<open>Delays\<close>

lemma unat_push_bit_1: "k < 64 \<Longrightarrow> unat (push_bit k 1 :: u64) = 2 ^ k"
  using power_strict_increasing [of k 64 "2 :: nat"] by (simp only: unsigned_push_bit_eq) (simp add: take_bit_eq_mod)

lemma retry_delay_value:
  "\<exists>j < 250 * 2 ^ min (unat a) 9. unat (retry_delay_ms op a) = 1000 * 2 ^ min (unat a) 9 + j"
proof -
  let ?n = "min (unat a) 9"
  have n: "?n \<le> 9" by simp
  have shift: "unat (min a 9) = ?n" by (simp add: min_def word_le_nat_alt)
  have p: "(2 :: nat) ^ ?n \<le> 512" using power_increasing [OF n, of "2 :: nat"] by simp
  have bit: "unat (push_bit ?n 1 :: u64) = 2 ^ ?n" by (rule unat_push_bit_1) simp
  have mul: "unat (saturating_mul64 BASE_BACKOFF_MS (push_bit ?n 1)) = 1000 * 2 ^ ?n"
    using p bit by (simp add: saturating_mul64_def BASE_BACKOFF_MS_def unat_word_ariths)
  let ?c = "saturating_mul64 BASE_BACKOFF_MS (push_bit ?n 1)"
  have cap: "min ?c MAX_BACKOFF_MS = ?c"
    using mul p by (simp add: min_def word_le_nat_alt MAX_BACKOFF_MS_def)
  have quarter: "unat (?c div 4) = 250 * 2 ^ ?n" using mul by (simp add: unat_div)
  have "1 \<le> unat (?c div 4)" unfolding quarter by simp
  then have bound: "max (?c div 4) 1 = ?c div 4"
    by (metis max.absorb1 unat_1 word_le_nat_alt)
  let ?j = "jitter_seed op mod (?c div 4)"
  have j: "unat ?j < 250 * 2 ^ ?n" using quarter by (simp add: unat_mod)
  have sum: "unat (saturating_add64 ?c ?j) = 1000 * 2 ^ ?n + unat ?j"
    using mul j p by (simp add: saturating_add64_def unat_word_ariths)
  have "min (saturating_add64 ?c ?j) MAX_BACKOFF_MS = saturating_add64 ?c ?j"
    using sum j p by (simp add: min_def word_le_nat_alt MAX_BACKOFF_MS_def)
  then have "retry_delay_ms op a = saturating_add64 ?c ?j"
    unfolding retry_delay_ms_def Let_def shift cap bound .
  with sum j show ?thesis by auto
qed

definition delay_ok :: "u64 \<Rightarrow> bool" where
  "delay_ok d = (1000 \<le> unat d \<and> unat d \<le> 900000)"

lemma retry_delay_ok: "delay_ok (retry_delay_ms op a)"
proof -
  obtain j where j: "j < 250 * 2 ^ min (unat a) 9" "unat (retry_delay_ms op a) = 1000 * 2 ^ min (unat a) 9 + j"
    using retry_delay_value by blast
  have "(2 :: nat) ^ min (unat a) 9 \<le> 512" using power_increasing [of "min (unat a) 9" 9 "2 :: nat"] by simp
  moreover have "(1 :: nat) \<le> 2 ^ min (unat a) 9" by simp
  ultimately show ?thesis unfolding delay_ok_def j(2) using j(1) by linarith
qed

lemma rate_limit_delay_ok: "delay_ok (rate_limit_delay f op a)"
  unfolding delay_ok_def rate_limit_delay_def Let_def
  by (auto simp: min_def max_def word_le_nat_alt BASE_BACKOFF_MS_def MAX_BACKOFF_MS_def)

lemma base_delay_ok: "delay_ok BASE_BACKOFF_MS"
  by (simp add: delay_ok_def BASE_BACKOFF_MS_def)

text \<open>The next attempt of a transfer that is put off at \<open>now\<close>.\<close>

definition put_off :: "u64 \<Rightarrow> u64 \<Rightarrow> bool" where
  "put_off now later = (unat now + 1000 \<le> unat later \<and> unat later \<le> unat now + 900000)"

lemma checked_add_put_off: "checked_add_ms now d = Inr later \<Longrightarrow> delay_ok d \<Longrightarrow> put_off now later"
  by (auto simp: checked_add_ms_def put_off_def delay_ok_def unat_word_ariths split: if_splits)

section \<open>The contract\<close>

type_synonym transfer_view = "(transfer_phase \<times> u64) option"

text \<open>The view of one operation changes, that of all others stays.\<close>

definition view_set :: "('s \<Rightarrow> uuid \<Rightarrow> transfer_view) \<Rightarrow> 's \<Rightarrow> 's \<Rightarrow> uuid \<Rightarrow> transfer_phase \<Rightarrow> u64 \<Rightarrow> bool" where
  "view_set view s s' op p n = (view s' op = Some (p, n) \<and> (\<forall>o'. o' \<noteq> op \<longrightarrow> view s' o' = view s o'))"

definition due_view :: "u64 \<Rightarrow> transfer_view \<Rightarrow> bool" where
  "due_view now v = (case v of None \<Rightarrow> False
     | Some (p, n) \<Rightarrow> p \<in> {TransferPending, TransferRetryScheduled} \<and> n \<le> now)"

definition claimed :: "('s \<Rightarrow> uuid \<Rightarrow> transfer_view) \<Rightarrow> u64 \<Rightarrow> 's \<Rightarrow> 's \<Rightarrow> uuid \<Rightarrow> bool" where
  "claimed view now s s' op = (due_view now (view s op) \<and> (\<exists>n. view_set view s s' op TransferRunning n))"

lemma view_set_after: "view_set view s1 s2 op p n \<Longrightarrow> view_set view s s1 op q m \<Longrightarrow> view_set view s s2 op p n"
  by (simp add: view_set_def)

lemma claimed_then: "claimed view now s s1 op \<Longrightarrow> view_set view s1 s2 op p n \<Longrightarrow> view_set view s s2 op p n"
  unfolding claimed_def by (blast intro: view_set_after)

text \<open>What a result of the worker says of the store, for a disposition recorded at \<open>now\<close>.\<close>

definition outcome_stored :: "('s \<Rightarrow> uuid \<Rightarrow> transfer_view) \<Rightarrow> u64 \<Rightarrow> 's \<Rightarrow> 's \<Rightarrow> work_outcome \<Rightarrow> bool" where
  "outcome_stored view now s s' outcome = (case outcome of
       Idle \<Rightarrow> False
     | Completed op \<Rightarrow> \<exists>n. view_set view s s' op TransferCompleted n
     | RetryScheduled op \<Rightarrow> \<exists>n. put_off now n \<and> view_set view s s' op TransferRetryScheduled n
     | AuthRequired op \<Rightarrow> \<exists>n. view_set view s s' op TransferAuthRequired n
     | NeedsReconcile op \<Rightarrow> \<exists>n. view_set view s s' op TransferNeedsReconcile n)"

fun outcome_op :: "work_outcome \<Rightarrow> uuid" where
  "outcome_op Idle = 0"
| "outcome_op (Completed op) = op"
| "outcome_op (RetryScheduled op) = op"
| "outcome_op (AuthRequired op) = op"
| "outcome_op (NeedsReconcile op) = op"

text \<open>The auth latch after a result.\<close>

definition latch_after :: "uuid option \<Rightarrow> (worker_error + work_outcome) \<Rightarrow> uuid option" where
  "latch_after latch r = (case r of Inr (AuthRequired op) \<Rightarrow> Some op | _ \<Rightarrow> latch)"

text \<open>One round of the worker, from \<open>w\<close> to \<open>w'\<close> with result \<open>r\<close>.\<close>

definition round_ok :: "('s \<Rightarrow> uuid \<Rightarrow> transfer_view) \<Rightarrow> u64 \<Rightarrow> u64 \<Rightarrow> ('s, 'e) worker
    \<Rightarrow> (worker_error + work_outcome) \<Rightarrow> ('s, 'e) worker \<Rightarrow> bool" where
  "round_ok view cutoff clock w r w' = (wk_auth_refresh_required w' = latch_after (wk_auth_refresh_required w) r \<and>
     (case r of
        Inl _ \<Rightarrow> view (wk_store w') = view (wk_store w) \<or> (\<exists>op. claimed view cutoff (wk_store w) (wk_store w') op)
      | Inr Idle \<Rightarrow> w' = w \<and> (wk_auth_refresh_required w \<noteq> None \<or> (\<forall>op. \<not> due_view cutoff (view (wk_store w) op)))
      | Inr outcome \<Rightarrow> wk_auth_refresh_required w = None \<and> due_view cutoff (view (wk_store w) (outcome_op outcome))
          \<and> outcome_stored view (max clock cutoff) (wk_store w) (wk_store w') outcome))"

definition due_ops :: "('s \<Rightarrow> uuid \<Rightarrow> transfer_view) \<Rightarrow> u64 \<Rightarrow> 's \<Rightarrow> uuid set" where
  "due_ops view now s = {op. due_view now (view s op)}"

lemma put_off_not_due: "put_off (max clock cutoff) n \<Longrightarrow> \<not> n \<le> cutoff"
  by (auto simp: put_off_def max_def word_le_nat_alt split: if_splits)

lemma outcome_not_due:
  assumes "outcome_stored view (max clock cutoff) s s' outcome"
  shows "due_ops view cutoff s' = due_ops view cutoff s - {outcome_op outcome}"
    and "op \<noteq> outcome_op outcome \<Longrightarrow> view s' op = view s op"
proof -
  from assms obtain p n where v: "view_set view s s' (outcome_op outcome) p n"
      "\<not> due_view cutoff (Some (p, n))"
    by (cases outcome) (auto simp: outcome_stored_def due_view_def dest: put_off_not_due)
  then show "due_ops view cutoff s' = due_ops view cutoff s - {outcome_op outcome}"
    by (auto simp: due_ops_def view_set_def) metis+
  from v show "op \<noteq> outcome_op outcome \<Longrightarrow> view s' op = view s op" by (simp add: view_set_def)
qed

locale transfer_contract =
  fixes T :: "'s transfer_store"
    and view :: "'s \<Rightarrow> uuid \<Rightarrow> transfer_view"
    and inv :: "'s \<Rightarrow> bool"
  assumes claim_none: "inv s \<Longrightarrow> ts_claim_due T now s = (Inr None, s') \<Longrightarrow> s' = s \<and> (\<forall>op. \<not> due_view now (view s op))"
    and claim_some: "inv s \<Longrightarrow> ts_claim_due T now s = (Inr (Some i), s')
      \<Longrightarrow> inv s' \<and> claimed view now s s' (ti_operation_id i)"
    and claim_error: "inv s \<Longrightarrow> ts_claim_due T now s = (Inl e, s') \<Longrightarrow> inv s' \<and> (s' = s \<or> (\<exists>op. claimed view now s s' op))"
    and gate: "inv s \<Longrightarrow> ts_begin_local_publish T op now s = (r, s') \<Longrightarrow> inv s' \<and> view s' = view s"
    and complete: "inv s \<Longrightarrow> ts_complete_verified T v now s = (Inr (), s')
      \<Longrightarrow> inv s' \<and> (\<exists>n. view_set view s s' (vt_operation_id v) TransferCompleted n)"
    and retry: "inv s \<Longrightarrow> ts_schedule_retry T op nxt code s = (Inr (), s')
      \<Longrightarrow> inv s' \<and> view_set view s s' op TransferRetryScheduled nxt"
    and offline: "inv s \<Longrightarrow> ts_pause_offline T op nxt code s = (Inr (), s')
      \<Longrightarrow> inv s' \<and> view_set view s s' op TransferRetryScheduled nxt"
    and auth: "inv s \<Longrightarrow> ts_mark_auth_required T op code now s = (Inr (), s')
      \<Longrightarrow> inv s' \<and> (\<exists>n. view_set view s s' op TransferAuthRequired n)"
    and reconcile: "inv s \<Longrightarrow> ts_mark_needs_reconcile T op code now s = (Inr (), s')
      \<Longrightarrow> inv s' \<and> (\<exists>n. view_set view s s' op TransferNeedsReconcile n)"
    and complete_error: "ts_complete_verified T v now s = (Inl e, s') \<Longrightarrow> s' = s"
    and retry_error: "ts_schedule_retry T op nxt code s = (Inl e, s') \<Longrightarrow> s' = s"
    and offline_error: "ts_pause_offline T op nxt code s = (Inl e, s') \<Longrightarrow> s' = s"
    and auth_error: "ts_mark_auth_required T op code now s = (Inl e, s') \<Longrightarrow> s' = s"
    and reconcile_error: "ts_mark_needs_reconcile T op code now s = (Inl e, s') \<Longrightarrow> s' = s"
begin

lemma run_execution_view:
  assumes "inv s" and "run_execution (ts_begin_local_publish T op now) tree s g = (s', g', e, r)"
  shows "inv s' \<and> view s' = view s"
  using assms
proof (induction tree arbitrary: s g)
  case (Finish e result)
  then show ?case by simp
next
  case (AskGate continue)
  obtain a s1 where a: "ts_begin_local_publish T op now s = (a, s1)" by fastforce
  from gate [OF AskGate.prems(1) a] have s1: "inv s1 \<and> view s1 = view s" .
  have "run_execution (ts_begin_local_publish T op now) (continue a) s1 (case a of Inl e \<Rightarrow> Some e | Inr _ \<Rightarrow> g) = (s', g', e, r)"
    using AskGate.prems(2) by (simp add: a)
  from AskGate.IH [OF _ _ this] s1 show ?case by auto
qed

text \<open>The three facts about a disposition that is recorded: the store, the outcome and the latch.\<close>

definition disposed :: "u64 \<Rightarrow> ('s, 'e) worker \<Rightarrow> uuid \<Rightarrow> (worker_error + work_outcome) \<Rightarrow> ('s, 'e) worker \<Rightarrow> bool" where
  "disposed now w op r w' = (inv (wk_store w')
     \<and> wk_auth_refresh_required w' = latch_after (wk_auth_refresh_required w) r \<and> (case r of
       Inl _ \<Rightarrow> view (wk_store w') = view (wk_store w)
     | Inr outcome \<Rightarrow> outcome_op outcome = op \<and> outcome_stored view now (wk_store w) (wk_store w') outcome))"

text \<open>A method that records an outcome, or fails and leaves the store as it was.\<close>

definition records :: "u64 \<Rightarrow> ('s \<Rightarrow> (worker_error + unit) \<times> 's) \<Rightarrow> 's \<Rightarrow> work_outcome \<Rightarrow> bool" where
  "records now g s outcome = (case g s of
       (Inl _, s') \<Rightarrow> s' = s
     | (Inr _, s') \<Rightarrow> inv s' \<and> outcome_stored view now s s' outcome)"

lemma recorded:
  assumes "inv (wk_store w)" and "record_outcome g outcome w = (r, w')" and "records now g (wk_store w) outcome"
  shows "inv (wk_store w') \<and> wk_auth_refresh_required w' = wk_auth_refresh_required w
    \<and> (case r of Inl _ \<Rightarrow> wk_store w' = wk_store w
       | Inr u \<Rightarrow> u = outcome \<and> outcome_stored view now (wk_store w) (wk_store w') outcome)"
proof -
  obtain a s where g: "g (wk_store w) = (a, s)" by fastforce
  with assms(2) have "r = map_sum id (\<lambda>_. outcome) a" "w' = w\<lparr>wk_store := s\<rparr>" by (auto simp: record_outcome_def)
  with assms(1,3) g show ?thesis by (cases a) (auto simp: records_def)
qed

lemma recorded_disposed:
  assumes "inv (wk_store w)" and "record_outcome g outcome w = (r, w')" and "records now g (wk_store w) outcome"
    and "\<And>u. outcome \<noteq> AuthRequired u" and "outcome_op outcome = op"
  shows "disposed now w op r w'"
  using recorded [OF assms(1-3)] assms(1,4,5) by (cases r) (auto simp: disposed_def latch_after_def split: work_outcome.splits)

lemma records_reconcile: "inv s \<Longrightarrow> records now (ts_mark_needs_reconcile T op code t) s (NeedsReconcile op)"
  by (auto simp: records_def outcome_stored_def split: prod.splits sum.splits dest: reconcile reconcile_error)

lemma records_auth: "inv s \<Longrightarrow> records now (ts_mark_auth_required T op code t) s (AuthRequired op)"
  by (auto simp: records_def outcome_stored_def split: prod.splits sum.splits dest: auth auth_error)

lemma records_complete: "inv s \<Longrightarrow> records now (ts_complete_verified T v t) s (Completed (vt_operation_id v))"
  by (auto simp: records_def outcome_stored_def split: prod.splits sum.splits dest: complete complete_error)

lemma records_retry:
  "inv s \<Longrightarrow> put_off now n \<Longrightarrow> records now (ts_schedule_retry T op n code) s (RetryScheduled op)"
  by (auto simp: records_def outcome_stored_def split: prod.splits sum.splits dest: retry retry_error)

lemma records_offline:
  "inv s \<Longrightarrow> put_off now n \<Longrightarrow> records now (ts_pause_offline T op n code) s (RetryScheduled op)"
  by (auto simp: records_def outcome_stored_def split: prod.splits sum.splits dest: offline offline_error)

lemma reconcile_disposed:
  assumes "inv (wk_store w)"
    and "record_outcome (ts_mark_needs_reconcile T op code t) (NeedsReconcile op) w = (r, w')"
  shows "disposed now w op r w'"
  by (rule recorded_disposed [OF assms records_reconcile [OF assms(1)]]) simp_all

lemma put_off_disposed:
  assumes i: "inv (wk_store w)" and d: "delay_ok d"
    and ok: "\<And>n. put_off now n \<Longrightarrow> records now (g n) (wk_store w) (RetryScheduled op)"
    and run: "(case checked_add_ms now d of Inl e \<Rightarrow> (Inl e, w)
       | Inr later \<Rightarrow> record_outcome (g later) (RetryScheduled op) w) = (r, w')"
  shows "disposed now w op r w'"
proof (cases "checked_add_ms now d")
  case (Inl e)
  with run i show ?thesis by (auto simp: disposed_def latch_after_def)
next
  case (Inr later)
  with run have "record_outcome (g later) (RetryScheduled op) w = (r, w')" by simp
  from recorded_disposed [OF i this ok [OF checked_add_put_off [OF Inr d]]] show ?thesis by simp
qed

lemma handle_failure_disposed:
  assumes i: "inv (wk_store w)" and h: "handle_failure T op now a f w = (r, w')"
  shows "disposed now w op r w'"
proof (cases "ef_kind f")
  case AuthRequiredFailure
  obtain q w1 where q: "record_outcome (ts_mark_auth_required T op (ef_code f) now) (AuthRequired op) w = (q, w1)"
    by fastforce
  from recorded [OF i q records_auth [OF i]] i h show ?thesis
    by (cases q) (auto simp: handle_failure_def AuthRequiredFailure q disposed_def latch_after_def)
next
  case Offline
  show ?thesis
    by (rule put_off_disposed [OF i base_delay_ok records_offline [OF i]])
      (use h in \<open>simp_all add: handle_failure_def Offline\<close>)
next
  case RateLimited
  show ?thesis
    by (rule put_off_disposed [OF i rate_limit_delay_ok records_retry [OF i]])
      (use h in \<open>simp_all add: handle_failure_def RateLimited\<close>)
next
  case TransientSafe
  show ?thesis
    by (rule put_off_disposed [OF i retry_delay_ok records_retry [OF i]])
      (use h in \<open>simp_all add: handle_failure_def TransientSafe\<close>)
qed (use h in \<open>auto simp: handle_failure_def intro: reconcile_disposed [OF i]\<close>)

lemma disposed_from:
  assumes "view (wk_store w1) = view (wk_store w)" "wk_auth_refresh_required w1 = wk_auth_refresh_required w"
    and "disposed now w1 op r w'"
  shows "disposed now w op r w'"
  using assms by (simp add: disposed_def outcome_stored_def view_set_def cong: sum.case_cong work_outcome.case_cong)

lemma advance_disposed:
  assumes i: "inv (wk_store w)" and h: "advance_claimed T execute cutoff clock intent w = (r, w')"
  shows "disposed (max clock cutoff) w (ti_operation_id intent) r w'"
proof -
  let ?op = "ti_operation_id intent"
  obtain s ge e x where run: "run_execution (ts_begin_local_publish T ?op cutoff)
      (execute (wk_executor w) intent) (wk_store w) None = (s, ge, e, x)" by (metis prod_cases4)
  let ?w = "w\<lparr>wk_store := s, wk_executor := e\<rparr>"
  from run_execution_view [OF i run] have s: "inv (wk_store ?w)" "view (wk_store ?w) = view (wk_store w)" by simp_all
  have "disposed (max clock cutoff) ?w ?op r w'"
  proof (cases ge)
    case (Some err)
    with h run s show ?thesis by (auto simp: advance_claimed_def disposed_def latch_after_def)
  next
    case None
    show ?thesis
    proof (cases x)
      case (Inl f)
      with h run None have "handle_failure T ?op (max clock cutoff) (ti_attempt_count intent) f ?w = (r, w')"
        by (simp add: advance_claimed_def Let_def)
      from handle_failure_disposed [OF s(1) this] show ?thesis .
    next
      case (Inr v)
      show ?thesis
      proof (cases "verified_matches v intent")
        case True
        with h run None Inr
        have "record_outcome (ts_complete_verified T v (max clock cutoff)) (Completed ?op) ?w = (r, w')"
          by (simp add: advance_claimed_def Let_def)
        moreover from True have "vt_operation_id v = ?op" by (simp add: verified_matches_def)
        ultimately show ?thesis
          using recorded_disposed [OF s(1) _ records_complete [OF s(1), of _ v "max clock cutoff"]] by simp
      next
        case False
        with h run None Inr have "record_outcome (ts_mark_needs_reconcile T ?op ''verified_evidence_mismatch''
            (max clock cutoff)) (NeedsReconcile ?op) ?w = (r, w')"
          by (simp add: advance_claimed_def Let_def)
        from reconcile_disposed [OF s(1) this] show ?thesis .
      qed
    qed
  qed
  from disposed_from [OF s(2) _ this] show ?thesis by simp
qed

lemma run_once_round:
  assumes i: "inv (wk_store w)"
    and h: "run_once_with_completion_clock T execute cutoff clock w = (r, w')"
  shows "inv (wk_store w') \<and> round_ok view cutoff clock w r w'"
proof (cases "wk_auth_refresh_required w")
  case (Some u)
  with h i show ?thesis by (auto simp: run_once_with_completion_clock_def round_ok_def latch_after_def)
next
  case None
  obtain c s1 where c: "ts_claim_due T cutoff (wk_store w) = (c, s1)" by fastforce
  consider e where "c = Inl e" | "c = Inr None" | intent where "c = Inr (Some intent)"
    by (metis old.sum.exhaust not_None_eq)
  then show ?thesis
  proof cases
    case 1
    from claim_error [OF i c [unfolded 1]] h c None 1 show ?thesis
      by (auto simp: run_once_with_completion_clock_def round_ok_def latch_after_def)
  next
    case 2
    from claim_none [OF i c [unfolded 2]] h c None 2 i show ?thesis
      by (auto simp: run_once_with_completion_clock_def round_ok_def latch_after_def)
  next
    case 3
    let ?op = "ti_operation_id intent"
    from claim_some [OF i c [unfolded 3]] have s1: "inv s1" and cl: "claimed view cutoff (wk_store w) s1 ?op" by simp_all
    from h c None 3 have a: "advance_claimed T execute cutoff clock intent (w\<lparr>wk_store := s1\<rparr>) = (r, w')"
      by (simp add: run_once_with_completion_clock_def)
    from advance_disposed [OF _ a] s1 have d: "disposed (max clock cutoff) (w\<lparr>wk_store := s1\<rparr>) ?op r w'" by simp
    show ?thesis
    proof (cases r)
      case (Inl e)
      with d have "view (wk_store w') = view s1" by (simp add: disposed_def)
      with cl have "claimed view cutoff (wk_store w) (wk_store w') ?op" by (simp add: claimed_def view_set_def)
      with Inl d None show ?thesis by (auto simp: disposed_def round_ok_def)
    next
      case (Inr outcome)
      with d have o: "outcome_op outcome = ?op" "outcome_stored view (max clock cutoff) s1 (wk_store w') outcome"
        by (simp_all add: disposed_def)
      then have "outcome_stored view (max clock cutoff) (wk_store w) (wk_store w') outcome" "outcome \<noteq> Idle"
        using claimed_then [OF cl] by (auto simp: outcome_stored_def split: work_outcome.splits)
      with o Inr d None cl show ?thesis
        by (cases outcome) (auto simp: disposed_def round_ok_def claimed_def)
    qed
  qed
qed

lemma drain_step:
  assumes i: "inv (wk_store w)"
    and r: "run_once_with_completion_clock T execute cutoff clock w = (Inr outcome, w1)" and o: "outcome \<noteq> Idle"
  shows "inv (wk_store w1)" "outcome_op outcome \<in> due_ops view cutoff (wk_store w)"
    "due_ops view cutoff (wk_store w1) = due_ops view cutoff (wk_store w) - {outcome_op outcome}"
    "op \<notin> due_ops view cutoff (wk_store w) \<Longrightarrow> view (wk_store w1) op = view (wk_store w) op"
    "wk_auth_refresh_required w1 = latch_after None (Inr outcome)"
proof -
  from run_once_round [OF i r] have v: "inv (wk_store w1)" and k: "round_ok view cutoff clock w (Inr outcome) w1" by simp_all
  from k o have d: "due_view cutoff (view (wk_store w) (outcome_op outcome))"
      and st: "outcome_stored view (max clock cutoff) (wk_store w) (wk_store w1) outcome"
      and "wk_auth_refresh_required w = None"
    by (auto simp: round_ok_def split: work_outcome.splits)
  then show "wk_auth_refresh_required w1 = latch_after None (Inr outcome)" using k by (simp add: round_ok_def)
  show "inv (wk_store w1)" by (rule v)
  from d show m: "outcome_op outcome \<in> due_ops view cutoff (wk_store w)" by (simp add: due_ops_def)
  show "due_ops view cutoff (wk_store w1) = due_ops view cutoff (wk_store w) - {outcome_op outcome}"
    by (rule outcome_not_due [OF st])
  show "op \<notin> due_ops view cutoff (wk_store w) \<Longrightarrow> view (wk_store w1) op = view (wk_store w) op"
    by (rule outcome_not_due(2) [OF st]) (use m in blast)
qed

text \<open>Only transfers due at the fixed cutoff are touched, whatever the clocks say.\<close>

lemma drain_untouched:
  assumes "inv (wk_store w)" and "drain_guarded_snapshot T execute cutoff clocks w = (r, w')"
    and "op \<notin> due_ops view cutoff (wk_store w)"
  shows "view (wk_store w') op = view (wk_store w) op"
  using assms
proof (induction clocks arbitrary: w)
  case Nil
  then show ?case by simp
next
  case (Cons clock clocks)
  obtain q w1 where q: "run_once_with_completion_clock T execute cutoff clock w = (q, w1)" by fastforce
  show ?case
  proof (cases q)
    case (Inl e)
    with run_once_round [OF Cons.prems(1) q] Cons.prems(2,3) q show ?thesis
      by (auto simp: round_ok_def claimed_def view_set_def due_ops_def) metis
  next
    case (Inr outcome)
    show ?thesis
    proof (cases "outcome = Idle")
      case True
      with run_once_round [OF Cons.prems(1) q] Inr Cons.prems(2) q show ?thesis by (simp add: round_ok_def)
    next
      case False
      note st = drain_step [OF Cons.prems(1) q [unfolded Inr] False]
      from st(4) [OF Cons.prems(3)] have v: "view (wk_store w1) op = view (wk_store w) op" .
      from Cons.prems(3) st(3) have n: "op \<notin> due_ops view cutoff (wk_store w1)" by simp
      show ?thesis
      proof (cases "\<exists>u. outcome = AuthRequired u")
        case True
        with Cons.prems(2) q Inr v show ?thesis by auto
      next
        case nau: False
        with False Cons.prems(2) q Inr have "drain_guarded_snapshot T execute cutoff clocks w1 = (r, w')"
          by (cases outcome) simp_all
        from Cons.IH [OF st(1) this n] v show ?thesis by simp
      qed
    qed
  qed
qed

text \<open>With a round for each due transfer, a drain that reports \<open>Drained\<close> leaves none due.\<close>

lemma drain_complete:
  assumes "inv (wk_store w)" and "drain_guarded_snapshot T execute cutoff clocks w = (Inr Drained, w')"
    and "finite (due_ops view cutoff (wk_store w))" and "card (due_ops view cutoff (wk_store w)) \<le> length clocks"
    and "wk_auth_refresh_required w = None"
  shows "due_ops view cutoff (wk_store w') = {}"
  using assms
proof (induction clocks arbitrary: w)
  case Nil
  then show ?case by simp
next
  case (Cons clock clocks)
  obtain q w1 where q: "run_once_with_completion_clock T execute cutoff clock w = (q, w1)" by fastforce
  from q Cons.prems(2) obtain outcome where Inr: "q = Inr outcome" by (cases q) auto
  show ?case
  proof (cases "outcome = Idle")
    case True
    with run_once_round [OF Cons.prems(1) q] Inr Cons.prems(2,5) q show ?thesis by (auto simp: round_ok_def due_ops_def)
  next
    case False
    note st = drain_step [OF Cons.prems(1) q [unfolded Inr] False]
    have "drain_guarded_snapshot T execute cutoff clocks w1 = (Inr Drained, w')"
      and "wk_auth_refresh_required w1 = None"
      using Cons.prems(2) q Inr False st(5) by (cases outcome; simp add: latch_after_def)+
    with Cons.IH [OF st(1)] st(2,3) Cons.prems(3,4) show ?thesis by simp
  qed
qed

end

end
