(* ===== verification/Worker_Store.thy ===== *)
theory Worker_Store
  imports Worker_Contract Store_Effects
begin

text \<open>
  \<open>SyncStore\<close> fulfils the contract of the transfer worker: what each of the seven methods does to the
  phase and due time of every transfer, and that it keeps the invariant of the whole store.
\<close>

section \<open>The view of a transfer\<close>

definition row_view :: "transfer_record \<Rightarrow> transfer_phase \<times> u64" where
  "row_view t = (tr_phase t, tr_next_attempt_at_unix_ms t)"

definition sync_view :: "sync_store \<Rightarrow> uuid \<Rightarrow> transfer_view" where
  "sync_view s op = map_option row_view (find_transfer s op)"

lemma find_transfer_key: "find_transfer s op = Some t \<Longrightarrow> tr_operation_id t = op"
  by (auto simp: find_transfer_def find_Some_iff)

lemma find_transfer_in: "find_transfer s op = Some t \<Longrightarrow> t \<in> set (ss_transfers s)"
  by (auto simp: find_transfer_def find_Some_iff)

lemma find_transfer_unique:
  assumes "transfers_inv s" "t \<in> set (ss_transfers s)"
  shows "find_transfer s (tr_operation_id t) = Some t"
proof -
  have d: "distinct (map tr_operation_id (ss_transfers s))" using assms(1) by (simp add: transfers_inv_def tracked_def)
  have "find (\<lambda>x. tr_operation_id x = tr_operation_id t) xs = Some t"
    if "t \<in> set xs" "distinct (map tr_operation_id xs)" for xs using that by (induction xs) auto
  with d assms(2) show ?thesis by (simp add: find_transfer_def)
qed

lemma due_view_row: "due_view now (Some (row_view t)) = transfer_due now t"
  by (simp add: due_view_def row_view_def transfer_due_def)

lemma due_view_None: "\<not> due_view now None"
  by (simp add: due_view_def)

lemma hit_exists: "count_where P xs = 1 \<Longrightarrow> \<exists>x \<in> set xs. P x"
  by (metis count_where_0 zero_neq_one)

text \<open>An update of one transfer.\<close>

lemma view_update:
  assumes s': "ss_transfers s' = update_where P f (ss_transfers s)" and hit: "count_where P (ss_transfers s) = 1"
    and P: "\<And>t. P t \<Longrightarrow> tr_operation_id t = op \<and> tr_operation_id (f t) = op" and i: "transfers_inv s"
  obtains t where "t \<in> set (ss_transfers s)" "P t" "find_transfer s op = Some t"
    "sync_view s' op = Some (row_view (f t))" "\<And>o'. o' \<noteq> op \<Longrightarrow> sync_view s' o' = sync_view s o'"
proof -
  from hit_exists [OF hit] obtain t where t: "t \<in> set (ss_transfers s)" "P t" by blast
  from find_transfer_unique [OF i t(1)] P [OF t(2)] have f: "find_transfer s op = Some t" by simp
  have after: "find_transfer s' o' = map_option (\<lambda>t. if P t then f t else t) (find_transfer s o')" for o'
    unfolding find_transfer_def s' by (rule find_update_where) (use P in auto)
  show thesis
  proof (rule that [OF t f])
    show "sync_view s' op = Some (row_view (f t))" by (simp add: sync_view_def after f t(2))
    show "sync_view s' o' = sync_view s o'" if "o' \<noteq> op" for o'
    proof (cases "find_transfer s o'")
      case (Some u)
      from find_transfer_key [OF Some] that P [of u] have "\<not> P u" by auto
      with Some show ?thesis by (simp add: sync_view_def after)
    qed (simp add: sync_view_def after)
  qed
qed

lemma update_transfer_view:
  assumes "update_transfer op phases extra f s = Inr s'" "transfers_inv s" "\<And>t. tr_operation_id (f t) = tr_operation_id t"
  obtains t where "find_transfer s op = Some t" "tr_phase t \<in> set phases" "sync_view s' op = Some (row_view (f t))"
    "\<And>o'. o' \<noteq> op \<Longrightarrow> sync_view s' o' = sync_view s o'"
proof -
  note u = update_transfer_Inr [OF assms(1)]
  have "ss_transfers s' = update_where (\<lambda>t. tr_operation_id t = op \<and> tr_phase t \<in> set phases \<and> extra t) f (ss_transfers s)"
    by (simp add: u(1))
  from this u(2) show thesis
    by (rule view_update [OF _ _ _ assms(2)]) (use assms(3) that in auto)
qed

section \<open>The methods\<close>

lemma schedule_retry_view:
  assumes "schedule_transfer_retry L op nxt code now s = Inr s'" "transfers_inv s"
  shows "view_set sync_view s s' op TransferRetryScheduled nxt"
proof -
  from assms(1) consider t where "require_transfer L s op = Inr t" "tr_phase t = TransferRetryScheduled"
      "tr_next_attempt_at_unix_ms t = nxt" "s' = s"
    | "update_transfer op [TransferRunning, TransferAuthRequired, TransferNeedsReconcile] (\<lambda>_. True)
        (\<lambda>t. t\<lparr>tr_phase := TransferRetryScheduled, tr_attempt_count := tr_attempt_count t + 1,
           tr_next_attempt_at_unix_ms := nxt, tr_updated_at_unix_ms := now,
           tr_last_error_code := Some code\<rparr>) s = Inr s'"
    unfolding schedule_transfer_retry_def if_results and_then_eq_Inr by blast
  then show ?thesis
  proof cases
    case 1
    then show ?thesis by (auto simp: view_set_def sync_view_def row_view_def dest!: require_transfer_find)
  next
    case 2
    then show ?thesis
      by (rule update_transfer_view [OF _ assms(2)]) (simp_all add: view_set_def row_view_def)
  qed
qed

lemma pause_offline_view:
  assumes "pause_transfer_offline L op nxt code now s = Inr s'" "transfers_inv s"
  shows "view_set sync_view s s' op TransferRetryScheduled nxt"
proof -
  from assms(1) consider t where "require_transfer L s op = Inr t" "tr_phase t = TransferRetryScheduled"
      "tr_next_attempt_at_unix_ms t = nxt" "s' = s"
    | "update_transfer op [TransferRunning] (\<lambda>_. True)
        (\<lambda>t. t\<lparr>tr_phase := TransferRetryScheduled, tr_next_attempt_at_unix_ms := nxt,
           tr_updated_at_unix_ms := now, tr_last_error_code := Some code\<rparr>) s = Inr s'"
    unfolding pause_transfer_offline_def if_results and_then_eq_Inr by blast
  then show ?thesis
  proof cases
    case 1
    then show ?thesis by (auto simp: view_set_def sync_view_def row_view_def dest!: require_transfer_find)
  next
    case 2
    then show ?thesis
      by (rule update_transfer_view [OF _ assms(2)]) (simp_all add: view_set_def row_view_def)
  qed
qed

lemma mark_stopped_view:
  assumes "mark_transfer_stopped L op target code now s = Inr s'" "transfers_inv s"
  shows "\<exists>n. view_set sync_view s s' op target n"
proof -
  from assms(1) consider t where "require_transfer L s op = Inr t" "tr_phase t = target" "s' = s"
    | "update_transfer op [TransferRunning] (\<lambda>_. True)
        (\<lambda>t. t\<lparr>tr_phase := target, tr_updated_at_unix_ms := now, tr_last_error_code := Some code\<rparr>) s = Inr s'"
    unfolding mark_transfer_stopped_def if_results and_then_eq_Inr by blast
  then show ?thesis
  proof cases
    case 1
    then show ?thesis by (auto simp: view_set_def sync_view_def row_view_def dest!: require_transfer_find)
  next
    case 2
    then show ?thesis
      by (rule update_transfer_view [OF _ assms(2)]) (auto simp: view_set_def row_view_def)
  qed
qed

lemma complete_view:
  assumes "complete_verified_transfer L op c s = Inr (co, s')" "transfers_inv s"
  shows "\<exists>n. view_set sync_view s s' op TransferCompleted n"
  using assms(1)
proof (cases rule: complete_verified_transfer_Inr)
  case (same t)
  then show ?thesis by (auto simp: view_set_def sync_view_def row_view_def dest!: require_transfer_find)
next
  case (completed t rs ms)
  have "ss_transfers s' = update_where (done_hit op) (completed_transfer c) (ss_transfers s)" by (simp add: completed(4))
  from this completed(5) show ?thesis
    by (rule view_update [OF _ _ _ assms(2), where op = op])
      (use completed_keys in \<open>auto simp: view_set_def row_view_def completed_transfer_def\<close>)
qed

lemma begin_publish_view:
  assumes "begin_transfer_local_publish L op now s = Inr s'" "transfers_inv s"
  shows "sync_view s' = sync_view s"
proof -
  obtain active :: change_batch and t :: transfer_record where "(let mutation = transfer_mutation_id L op in
      case move_mutation (cb_batch_id active) mutation LocalPending LocalApplying s of
        None \<Rightarrow>
          (case load_local_mutation_state s (cb_batch_id active) mutation of
             Some LocalApplying \<Rightarrow>
               if tr_last_error_code t = Some ''reconcile_requested'' then Inr s
               else Inl MutationNeedsReconcile
           | Some LocalNeedsReconcile \<Rightarrow> Inl MutationNeedsReconcile
           | Some LocalCommitted \<Rightarrow> Inl InvalidStateTransition
           | _ \<Rightarrow> Inl UnknownMutation)
      | Some s1 \<Rightarrow>
          update_transfer op [TransferRunning, TransferNeedsReconcile] (\<lambda>t. tr_updated_at_unix_ms t \<le> now)
            (\<lambda>t. t\<lparr>tr_updated_at_unix_ms := now\<rparr>) s1) = Inr s'"
    using assms(1) unfolding begin_transfer_local_publish_def if_results(1) and_then_eq_Inr by blast
  then consider "s' = s" | s1 where "rows_move s s1" "update_transfer op [TransferRunning, TransferNeedsReconcile]
      (\<lambda>t. tr_updated_at_unix_ms t \<le> now) (\<lambda>t. t\<lparr>tr_updated_at_unix_ms := now\<rparr>) s1 = Inr s'"
    by (auto simp: Let_def dest!: move_mutation_Some split: option.split_asm local_mutation_state.split_asm if_split_asm)
  then show ?thesis
  proof cases
    case 1
    then show ?thesis by simp
  next
    case 2
    have "sync_view s1 = sync_view s" "transfers_inv s1"
      using 2(1) assms(2) transfers_inv_cong [of s1 s]
      by (auto simp: rows_move_def sync_view_def find_transfer_def)
    moreover have "sync_view s' = sync_view s1"
    proof (rule ext)
      fix o'
      show "sync_view s' o' = sync_view s1 o'"
        by (rule update_transfer_view [OF 2(2) calculation(2)], simp)
          (cases "o' = op"; simp add: sync_view_def row_view_def)
    qed
    ultimately show ?thesis by simp
  qed
qed

lemma claim_view:
  assumes "claim_next_transfer L now s = Inr (Some t, s')" "transfers_inv s"
  shows "claimed sync_view now s s' (tr_operation_id t)"
proof -
  from assms(1) obtain u us where "due_transfers now s = u # us" and t: "tr_operation_id t = tr_operation_id u"
    and up: "update_transfer (tr_operation_id u) [TransferPending, TransferRetryScheduled] (\<lambda>_. True)
      (\<lambda>t. t\<lparr>tr_phase := TransferRunning, tr_updated_at_unix_ms := now\<rparr>) s = Inr s'"
    by (auto simp: claim_next_transfer_def row_to_transfer_def Let_def split: list.split_asm)
  then have "u \<in> set (due_transfers now s)" by simp
  then have u: "u \<in> set (ss_transfers s)" "transfer_due now u" by (simp_all add: due_transfers_def)
  from find_transfer_unique [OF assms(2) u(1)] u(2) have "due_view now (sync_view s (tr_operation_id u))"
    by (simp add: sync_view_def due_view_row)
  moreover have "\<exists>n. view_set sync_view s s' (tr_operation_id u) TransferRunning n"
    by (rule update_transfer_view [OF up assms(2)]) (auto simp: view_set_def row_view_def)
  ultimately show ?thesis by (simp add: claimed_def t)
qed

lemma claim_none_due:
  assumes "claim_next_transfer L now s = Inr (None, s')"
  shows "s' = s \<and> (\<forall>op. \<not> due_view now (sync_view s op))"
proof -
  from assms have "due_transfers now s = []" "s' = s"
    by (auto simp: claim_next_transfer_def Let_def split: list.split_asm)
  then have "\<forall>t \<in> set (ss_transfers s). \<not> transfer_due now t"
    by (metis due_transfers_def filter_empty_conv length_0_conv length_sort)
  then have "\<not> due_view now (sync_view s op)" for op
    using find_transfer_in [of s op] by (cases "find_transfer s op") (simp_all add: sync_view_def due_view_row due_view_None)
  with \<open>s' = s\<close> show ?thesis by blast
qed

lemma intent_new_id: "intent_new i = Inr j \<Longrightarrow> j = i"
  by (auto simp: intent_new_def)

lemma complete_verified_stored:
  assumes "store_inv L s" "sync_complete_verified L v now s = (Inr (), s')"
  shows "store_inv L s' \<and> (\<exists>n. view_set sync_view s s' (vt_operation_id v) TransferCompleted n)"
proof -
  from assms(2) obtain c co where r: "complete_verified_transfer L (vt_operation_id v) c s = Inr (co, s')"
    by (auto simp: sync_complete_verified_def committed_def split: sum.splits)
  with complete_view [OF r store_invD(4) [OF assms(1)]] store_step_inv [OF store_step.complete_transfer [OF r] assms(1)]
  show ?thesis by blast
qed

lemma begin_publish_stored:
  assumes "store_inv L s" "sync_begin_local_publish L op now s = (r, s')"
  shows "store_inv L s' \<and> sync_view s' = sync_view s"
proof -
  from assms(2) have "s' = s \<or> begin_transfer_local_publish L op now s = Inr s'"
    by (auto simp: sync_begin_local_publish_def committed_def split: sum.splits option.splits if_splits)
  with begin_publish_view [OF _ store_invD(4) [OF assms(1)]] store_step_inv [OF store_step.begin_publish assms(1)] assms(1)
  show ?thesis by blast
qed

lemma claim_stored:
  assumes i: "store_inv L s"
  shows "sync_claim_due L now s = (Inr (Some ti), s') \<Longrightarrow> store_inv L s' \<and> claimed sync_view now s s' (ti_operation_id ti)"
    and "sync_claim_due L now s = (Inl e, s') \<Longrightarrow> store_inv L s' \<and> (s' = s \<or> (\<exists>op. claimed sync_view now s s' op))"
proof -
  have st: "store_inv L s1 \<and> claimed sync_view now s s1 (tr_operation_id t)"
    if "claim_next_transfer L now s = Inr (Some t, s1)" for t s1
    using claim_view [OF that store_invD(4) [OF i]] store_step_inv [OF store_step.claim_transfer [OF that] i] by blast
  show "store_inv L s' \<and> claimed sync_view now s s' (ti_operation_id ti)"
    if "sync_claim_due L now s = (Inr (Some ti), s')"
  proof -
    from that obtain t where "claim_next_transfer L now s = Inr (Some t, s')" "intent_new (intent_of_record t) = Inr ti"
      by (auto simp: sync_claim_due_def split: sum.splits option.splits)
    with st show ?thesis by (auto dest!: intent_new_id simp: intent_of_record_def)
  qed
  show "store_inv L s' \<and> (s' = s \<or> (\<exists>op. claimed sync_view now s s' op))"
    if "sync_claim_due L now s = (Inl e, s')"
  proof -
    from that have "s' = s \<or> (\<exists>t. claim_next_transfer L now s = Inr (Some t, s'))"
      by (auto simp: sync_claim_due_def split: sum.splits option.splits)
    with st i show ?thesis by blast
  qed
qed

lemma committed_Inr: "committed e f s = (Inr (), s') \<Longrightarrow> f s = Inr s'"
  by (auto simp: committed_def split: sum.splits)

lemma committed_Inl: "committed e f s = (Inl x, s') \<Longrightarrow> s' = s"
  by (auto simp: committed_def split: sum.splits)

interpretation sync_worker: transfer_contract "sync_transfer_store L" sync_view "store_inv L" for L
proof
  fix s s' :: sync_store and now nxt :: u64 and op :: uuid and code :: string and e :: worker_error
    and v :: verified_transfer and i :: transfer_intent and r :: "worker_error + unit"
  assume inv: "store_inv L s"
  note t = store_invD(4) [OF inv]
  show "s' = s \<and> (\<forall>op. \<not> due_view now (sync_view s op))" if "ts_claim_due (sync_transfer_store L) now s = (Inr None, s')"
    using that claim_none_due [of L now s s']
    by (auto simp: sync_transfer_store_def sync_claim_due_def split: sum.splits option.splits)
  show "store_inv L s' \<and> claimed sync_view now s s' (ti_operation_id i)"
    if "ts_claim_due (sync_transfer_store L) now s = (Inr (Some i), s')"
    using that claim_stored(1) [OF inv] by (simp add: sync_transfer_store_def)
  show "store_inv L s' \<and> (s' = s \<or> (\<exists>op. claimed sync_view now s s' op))"
    if "ts_claim_due (sync_transfer_store L) now s = (Inl e, s')"
    using that claim_stored(2) [OF inv] by (simp add: sync_transfer_store_def)
  show "store_inv L s' \<and> sync_view s' = sync_view s"
    if "ts_begin_local_publish (sync_transfer_store L) op now s = (r, s')"
    using that begin_publish_stored [OF inv] by (simp add: sync_transfer_store_def)
  show "store_inv L s' \<and> (\<exists>n. view_set sync_view s s' (vt_operation_id v) TransferCompleted n)"
    if "ts_complete_verified (sync_transfer_store L) v now s = (Inr (), s')"
    using that complete_verified_stored [OF inv] by (simp add: sync_transfer_store_def)
  show "store_inv L s' \<and> view_set sync_view s s' op TransferRetryScheduled nxt"
    if "ts_schedule_retry (sync_transfer_store L) op nxt code s = (Inr (), s')"
    using that schedule_retry_view [OF _ t] store_step_inv [OF store_step.retry_transfer inv]
    by (auto dest!: committed_Inr simp: sync_transfer_store_def)
  show "store_inv L s' \<and> view_set sync_view s s' op TransferRetryScheduled nxt"
    if "ts_pause_offline (sync_transfer_store L) op nxt code s = (Inr (), s')"
    using that pause_offline_view [OF _ t] store_step_inv [OF store_step.pause inv]
    by (auto dest!: committed_Inr simp: sync_transfer_store_def)
  show "store_inv L s' \<and> (\<exists>n. view_set sync_view s s' op TransferAuthRequired n)"
    if "ts_mark_auth_required (sync_transfer_store L) op code now s = (Inr (), s')"
    using that mark_stopped_view [OF _ t] store_step_inv [OF store_step.stop inv]
    by (auto dest!: committed_Inr simp: sync_transfer_store_def mark_transfer_auth_required_def)
  show "store_inv L s' \<and> (\<exists>n. view_set sync_view s s' op TransferNeedsReconcile n)"
    if "ts_mark_needs_reconcile (sync_transfer_store L) op code now s = (Inr (), s')"
    using that mark_stopped_view [OF _ t] store_step_inv [OF store_step.stop inv]
    by (auto dest!: committed_Inr simp: sync_transfer_store_def mark_transfer_needs_reconcile_def)
qed (auto simp: sync_transfer_store_def sync_complete_verified_def dest: committed_Inl split: sum.splits)

end
