(* ===== verification/Worker_Properties.thy ===== *)
theory Worker_Properties
  imports Worker_Store Concrete_Store
begin

text \<open>
  The properties of the transfer worker on \<open>SyncStore\<close>: what one round may do, what a drain serves,
  the delay before a retry, and the error of a publication whose gate was refused.
\<close>

section \<open>A concrete round\<close>

text \<open>The download of \<open>demo_page\<close> is claimed at 20 and its executor finds no network at 25.\<close>

definition demo_worker :: "(sync_store, unit) worker" where
  "demo_worker = \<lparr>wk_store = demo_page, wk_executor = (), wk_auth_refresh_required = None\<rparr>"

definition demo_offline :: "unit \<Rightarrow> transfer_intent \<Rightarrow> unit execution" where
  "demo_offline e intent = Finish () (Inl \<lparr>ef_kind = Offline, ef_code = ''offline'', ef_retry_after = None\<rparr>)"

definition demo_waiting :: sync_store where
  "demo_waiting = demo_page\<lparr>ss_transfers := [demo_transfer\<lparr>tr_phase := TransferRetryScheduled,
     tr_next_attempt_at_unix_ms := 1025, tr_updated_at_unix_ms := 1025, tr_last_error_code := Some ''offline''\<rparr>]\<rparr>"

definition demo_claimed :: transfer_record where
  "demo_claimed = demo_transfer\<lparr>tr_phase := TransferRunning, tr_updated_at_unix_ms := 20\<rparr>"

lemma demo_intent: "intent_new (intent_of_record demo_claimed) = Inr (intent_of_record demo_claimed)"
  by (code_simp; simp?)

lemma demo_pause: "pause_transfer_offline demo_libs 21 1025 ''offline'' 1025 demo_running = Inr demo_waiting"
  by (code_simp; simp?)

lemma demo_sync_claim: "sync_claim_due demo_libs 20 demo_page = (Inr (Some (intent_of_record demo_claimed)), demo_running)"
  using demo_intent by (simp add: sync_claim_due_def demo_claim_transfer demo_claimed_def)

lemma demo_claimed_id: "ti_operation_id (intent_of_record demo_claimed) = 21"
  by (simp add: intent_of_record_def demo_claimed_def demo_transfer_def)

lemma demo_round:
  "run_once_with_completion_clock (sync_transfer_store demo_libs) demo_offline 20 25 demo_worker
     = (Inr (RetryScheduled 21), demo_worker\<lparr>wk_store := demo_waiting\<rparr>)"
  by (simp add: run_once_with_completion_clock_def sync_transfer_store_def demo_sync_claim demo_worker_def
      advance_claimed_def demo_offline_def demo_claimed_id handle_failure_def checked_add_ms_def BASE_BACKOFF_MS_def
      record_outcome_def committed_def demo_pause)

lemma demo_worker_inv: "store_inv demo_libs (wk_store demo_worker)"
  using store_reachable_inv [OF demo_page_reachable(1)] by (simp add: demo_worker_def)

section \<open>What a round does\<close>

text \<open>
  C12: one round of the worker on the sync store, with any executor and any clock. The invariant of the
  store is kept. Idle leaves everything as it was, and unless the auth latch is set nothing was due.
  Any other result names a transfer that was due at the cutoff, and exactly that transfer's phase is
  changed to the one of the result, a retry at least one second and at most fifteen minutes after the
  clamped completion clock. An error leaves at most one due transfer claimed as running. Only an auth
  failure sets the latch.
\<close>

theorem worker_outcome_is_durable:
  assumes "store_inv L (wk_store w)"
    and "run_once_with_completion_clock (sync_transfer_store L) execute cutoff clock w = (r, w')"
  shows "store_inv L (wk_store w') \<and> round_ok sync_view cutoff clock w r w'"
  using assms by (rule sync_worker.run_once_round)

theorem worker_outcome_is_durable_witness:
  "store_inv demo_libs demo_waiting \<and> outcome_stored sync_view 25 demo_page demo_waiting (RetryScheduled 21)"
  using worker_outcome_is_durable [OF demo_worker_inv demo_round]
  by (simp add: round_ok_def demo_worker_def max_def)

section \<open>What a drain serves\<close>

lemma due_ops_sync:
  assumes "transfers_inv s"
  shows "due_ops sync_view now s = tr_operation_id ` set (due_transfers now s)"
proof (intro equalityI subsetI)
  fix op assume "op \<in> due_ops sync_view now s"
  then obtain t where t: "find_transfer s op = Some t" "transfer_due now t"
    by (cases "find_transfer s op") (simp_all add: due_ops_def sync_view_def due_view_row due_view_None)
  with find_transfer_in [OF t(1)] find_transfer_key [OF t(1)] show "op \<in> tr_operation_id ` set (due_transfers now s)"
    by (auto simp: due_transfers_def)
next
  fix op assume "op \<in> tr_operation_id ` set (due_transfers now s)"
  then obtain t where "t \<in> set (ss_transfers s)" "transfer_due now t" "op = tr_operation_id t"
    by (auto simp: due_transfers_def)
  with find_transfer_unique [OF assms] show "op \<in> due_ops sync_view now s"
    by (simp add: due_ops_def sync_view_def due_view_row)
qed

text \<open>
  C13: a drain serves the snapshot of its cutoff. Whatever the executor and the clocks do, a transfer
  that was not due at the cutoff keeps its phase and due time. With a round for every due transfer and
  a worker whose auth latch is clear, a drain that reports \<open>Drained\<close> leaves no transfer due at the
  cutoff: a transfer put off during the drain is never claimed again in it.
\<close>

theorem drain_serves_the_snapshot:
  assumes "store_inv L (wk_store w)"
    and "drain_guarded_snapshot (sync_transfer_store L) execute cutoff clocks w = (r, w')"
    and "wk_auth_refresh_required w = None"
    and "length (due_transfers cutoff (wk_store w)) \<le> length clocks"
  shows "(\<not> due_view cutoff (sync_view (wk_store w) op) \<longrightarrow> sync_view (wk_store w') op = sync_view (wk_store w) op)
    \<and> (r = Inr Drained \<longrightarrow> (\<forall>o'. \<not> due_view cutoff (sync_view (wk_store w') o')))"
proof -
  have due: "due_ops sync_view cutoff (wk_store w) = tr_operation_id ` set (due_transfers cutoff (wk_store w))"
    using due_ops_sync store_invD(4) [OF assms(1)] .
  have "card (due_ops sync_view cutoff (wk_store w)) \<le> length clocks"
    unfolding due using card_image_le [of "set (due_transfers cutoff (wk_store w))" tr_operation_id]
      card_length [of "due_transfers cutoff (wk_store w)"] assms(4) by simp
  moreover have "finite (due_ops sync_view cutoff (wk_store w))" unfolding due by simp
  ultimately have "r = Inr Drained \<longrightarrow> due_ops sync_view cutoff (wk_store w') = {}"
    using sync_worker.drain_complete [OF assms(1)] assms(2, 3) by blast
  moreover have "op \<notin> due_ops sync_view cutoff (wk_store w) \<longrightarrow> sync_view (wk_store w') op = sync_view (wk_store w) op"
    using sync_worker.drain_untouched [OF assms(1, 2)] by blast
  ultimately show ?thesis by (simp add: due_ops_def)
qed

lemma demo_drain:
  "drain_guarded_snapshot (sync_transfer_store demo_libs) demo_offline 20 [25] demo_worker
     = (Inr Drained, demo_worker\<lparr>wk_store := demo_waiting\<rparr>)"
  by (simp add: demo_round)

lemma demo_due: "length (due_transfers 20 demo_page) = 1"
  by (simp add: due_transfers_def demo_page_def demo_transfer_def transfer_due_def)

theorem drain_serves_the_snapshot_witness: "due_view 20 (sync_view demo_page 21) \<and> \<not> due_view 20 (sync_view demo_waiting 21)"
proof -
  have "due_view 20 (sync_view demo_page 21)"
    by (simp add: due_view_def sync_view_def find_transfer_def demo_page_def demo_transfer_def row_view_def)
  then show ?thesis
    using drain_serves_the_snapshot [OF demo_worker_inv demo_drain, of 21] demo_due by (simp add: demo_worker_def)
qed

section \<open>The delay before a retry\<close>

text \<open>
  C14: the delay before retry number \<open>a\<close> of a transfer lies between one and one and a quarter times
  \<open>2\<^sup>min a 9\<close> seconds, in 64 bits without wrap-around, whatever the identifier that seeds the jitter.
\<close>

theorem retry_delay_is_bounded:
  "1000 * 2 ^ min (unat a) 9 \<le> unat (retry_delay_ms op a) \<and> unat (retry_delay_ms op a) < 1250 * 2 ^ min (unat a) 9"
  using retry_delay_value [of a op] by auto

section \<open>A refused publication\<close>

lemma run_execution_keeps_error:
  "run_execution gate tree s (Some e) = (s', ge, x, res) \<Longrightarrow> ge \<noteq> None"
proof (induction tree arbitrary: s e)
  case (AskGate continue)
  from AskGate.prems AskGate.IH [OF rangeI] show ?case by (auto split: prod.splits sum.splits)
qed auto

text \<open>
  If the gate before the local publication refuses the claimed transfer, the round is an error,
  whatever the executor then does and reports: it is never recorded as completed.
\<close>

theorem refused_publish_is_an_error:
  assumes "wk_auth_refresh_required w = None"
    and "sync_claim_due L cutoff (wk_store w) = (Inr (Some intent), s)"
    and "execute (wk_executor w) intent = AskGate continue"
    and "sync_begin_local_publish L (ti_operation_id intent) cutoff s = (Inl e, s1)"
  shows "\<exists>e'. fst (run_once_with_completion_clock (sync_transfer_store L) execute cutoff clock w) = Inl e'"
proof -
  obtain s2 ge x res where run: "run_execution (sync_begin_local_publish L (ti_operation_id intent) cutoff)
      (continue (Inl e)) s1 (Some e) = (s2, ge, x, res)" by (metis prod_cases4)
  from run_execution_keeps_error [OF run] obtain e' where "ge = Some e'" by auto
  with run assms show ?thesis
    by (simp add: run_once_with_completion_clock_def advance_claimed_def sync_transfer_store_def)
qed

text \<open>A publication that a crash left half applied, and that nobody has reconciled.\<close>

definition demo_applying :: "sync_store \<Rightarrow> sync_store" where
  "demo_applying s = s\<lparr>ss_batch_mutations := [(legacy_row 12 (uuid_text 21))\<lparr>bm_state := LocalApplying\<rparr>]\<rparr>"

lemma demo_gate_refused:
  "sync_claim_due demo_libs 20 (demo_applying demo_page) = (Inr (Some (intent_of_record demo_claimed)), demo_applying demo_running)"
  "sync_begin_local_publish demo_libs 21 20 (demo_applying demo_running) = (Inl WStore, demo_applying demo_running)"
  by (code_simp; simp?)+

definition demo_asking :: "unit \<Rightarrow> transfer_intent \<Rightarrow> unit execution" where
  "demo_asking e intent = AskGate (\<lambda>_. demo_offline e intent)"

theorem refused_publish_is_an_error_witness:
  "\<exists>e. fst (run_once_with_completion_clock (sync_transfer_store demo_libs) demo_asking 20 25
     (demo_worker\<lparr>wk_store := demo_applying demo_page\<rparr>)) = Inl e"
  by (rule refused_publish_is_an_error [where intent = "intent_of_record demo_claimed" and s = "demo_applying demo_running"])
    (simp_all add: demo_worker_def demo_gate_refused demo_asking_def [abs_def] demo_claimed_id)

end
