(* ===== verification/Conflict_Evidence.thy ===== *)
theory Conflict_Evidence
  imports Materialization
begin

text \<open>
  \<open>conflict/evidence.rs\<close>: from a materialized plan to the conflict evidence that the mutation ledger
  stores. Every code of the evidence is derived from the plan; the caller gives the operation, an
  explanation, the alias of the device and the time.
\<close>

record conflict_evidence_input =
  ci_operation_id :: uuid
  ci_explanation_code :: "string option"
  ci_device_alias :: "string option"
  ci_captured_at_unix_ms :: u64

datatype conflict_evidence_failure =
    OperationNotInPlan | MissingDestinationEvidence | InvalidDestinationPath
  | InvalidEvidenceCode | InvalidEvidenceReference

section \<open>Codes\<close>

datatype side_state = Deleted | NotCaptured | PresentWithoutBase | UnchangedFromBase | ChangedFromBase

fun side_state_as_str :: "side_state \<Rightarrow> string" where
  "side_state_as_str Deleted = ''deleted''"
| "side_state_as_str NotCaptured = ''not_captured''"
| "side_state_as_str PresentWithoutBase = ''present_without_base''"
| "side_state_as_str UnchangedFromBase = ''unchanged_from_base''"
| "side_state_as_str ChangedFromBase = ''changed_from_base''"

definition side_state_derive ::
    "conflict_cell \<Rightarrow> bool \<Rightarrow> content_fingerprint option \<Rightarrow> content_fingerprint option \<Rightarrow> side_state" where
  "side_state_derive cell is_local base side =
     (let deleted = (if is_local then cell \<in> set [C09, C11, C21] else cell \<in> set [C10, C11, C20]) in
      if deleted then Deleted
      else case (base, side) of
        (_, None) \<Rightarrow> NotCaptured
      | (None, Some _) \<Rightarrow> PresentWithoutBase
      | (Some b, Some s) \<Rightarrow> if b = s then UnchangedFromBase else ChangedFromBase)"

datatype content_class = MarkdownVerified | TextContent | BinaryContent | ContentFingerprintOnly | MetadataOnly

fun content_class_as_str :: "content_class \<Rightarrow> string" where
  "content_class_as_str MarkdownVerified = ''markdown_verified''"
| "content_class_as_str TextContent = ''text''"
| "content_class_as_str BinaryContent = ''binary''"
| "content_class_as_str ContentFingerprintOnly = ''content_fingerprint_only''"
| "content_class_as_str MetadataOnly = ''metadata_only''"

definition content_class_derive :: "materialization_plan \<Rightarrow> content_class" where
  "content_class_derive plan =
     (let facts = cv_facts (mp_classification_evidence plan); cell = mp_cell plan in
      if cell = C03 then MarkdownVerified
      else if cell \<in> set [C04, C07, C08] then TextContent
      else if cell = C05 then BinaryContent
      else if cf_base facts \<noteq> None \<or> cf_local facts \<noteq> None \<or> cf_remote facts \<noteq> None then ContentFingerprintOnly
      else MetadataOnly)"

datatype lineage_state =
    ExactIdentity | SameTarget | Divergent | CycleRejected | LineageDestinationCollision | ParentChanged

fun lineage_state_as_str :: "lineage_state \<Rightarrow> string" where
  "lineage_state_as_str ExactIdentity = ''exact_identity''"
| "lineage_state_as_str SameTarget = ''same_target''"
| "lineage_state_as_str Divergent = ''divergent''"
| "lineage_state_as_str CycleRejected = ''cycle_rejected''"
| "lineage_state_as_str LineageDestinationCollision = ''destination_collision''"
| "lineage_state_as_str ParentChanged = ''parent_changed''"

definition lineage_state_derive :: "materialization_plan \<Rightarrow> lineage_state" where
  "lineage_state_derive plan =
     (let cell = mp_cell plan in
      if cell = C18 \<and> LocalRenameIntent \<in> set (mp_retained plan) then CycleRejected
      else if cell \<in> set [C14a, C17] then SameTarget
      else if cell \<in> set [C14c, C18, C19] then Divergent
      else if cell \<in> set [C14b, C22a, C22b, C23, C24, C25, C34] then LineageDestinationCollision
      else if cell = C26 then ParentChanged
      else ExactIdentity)"

datatype ambiguity_reason =
    NoAmbiguity | TextOverlap | MissingExactBase | AmbiguousText | MergeBoundsExceeded | PortableNameCollision
  | DivergentRename | DivergentMove | AmbiguousRenameMove | RenameMoveCycle | AmbiguousDestination
  | DuplicateRemotePath | ParentLineageChanged

fun ambiguity_as_str :: "ambiguity_reason \<Rightarrow> string" where
  "ambiguity_as_str NoAmbiguity = ''none''"
| "ambiguity_as_str TextOverlap = ''text_overlap''"
| "ambiguity_as_str MissingExactBase = ''missing_exact_base''"
| "ambiguity_as_str AmbiguousText = ''ambiguous_text''"
| "ambiguity_as_str MergeBoundsExceeded = ''merge_bounds_exceeded''"
| "ambiguity_as_str PortableNameCollision = ''portable_name_collision''"
| "ambiguity_as_str DivergentRename = ''divergent_rename''"
| "ambiguity_as_str DivergentMove = ''divergent_move''"
| "ambiguity_as_str AmbiguousRenameMove = ''rename_move_conflict''"
| "ambiguity_as_str RenameMoveCycle = ''rename_move_cycle''"
| "ambiguity_as_str AmbiguousDestination = ''destination_collision''"
| "ambiguity_as_str DuplicateRemotePath = ''duplicate_remote_path''"
| "ambiguity_as_str ParentLineageChanged = ''parent_lineage_changed''"

definition ambiguity_derive :: "materialization_plan \<Rightarrow> ambiguity_reason" where
  "ambiguity_derive plan =
     (let cell = mp_cell plan in
      if cell = C18 \<and> LocalRenameIntent \<in> set (mp_retained plan) then RenameMoveCycle
      else if cell = C04 then TextOverlap
      else if cell \<in> set [C06a, C06b] then MissingExactBase
      else if cell = C07 then AmbiguousText
      else if cell = C08 then MergeBoundsExceeded
      else if cell \<in> set [C14b, C34] then PortableNameCollision
      else if cell = C14c then DivergentRename
      else if cell = C18 then DivergentMove
      else if cell = C19 then AmbiguousRenameMove
      else if cell \<in> set [C22a, C22b, C23, C24] then AmbiguousDestination
      else if cell = C25 then DuplicateRemotePath
      else if cell = C26 then ParentLineageChanged
      else NoAmbiguity)"

datatype evidence_sufficiency =
    SufficiencyExact | PreserveBothComplete | RemoteBlockedComplete | ReconcileComplete | BoundaryRejected

fun sufficiency_as_str :: "evidence_sufficiency \<Rightarrow> string" where
  "sufficiency_as_str SufficiencyExact = ''exact''"
| "sufficiency_as_str PreserveBothComplete = ''preserve_both_complete''"
| "sufficiency_as_str RemoteBlockedComplete = ''remote_blocked_complete''"
| "sufficiency_as_str ReconcileComplete = ''reconcile_complete''"
| "sufficiency_as_str BoundaryRejected = ''boundary_rejected''"

fun sufficiency_derive :: "conflict_outcome \<Rightarrow> evidence_sufficiency" where
  "sufficiency_derive NoOpVerified = SufficiencyExact"
| "sufficiency_derive GuardedLocalReplace = SufficiencyExact"
| "sufficiency_derive SafeTextMergeLocal = SufficiencyExact"
| "sufficiency_derive PreserveBothLocal = PreserveBothComplete"
| "sufficiency_derive RemoteMutationBlocked = RemoteBlockedComplete"
| "sufficiency_derive NeedsReconcile = ReconcileComplete"
| "sufficiency_derive UnsupportedProtected = BoundaryRejected"

record derived_evidence_codes =
  de_local_state :: side_state
  de_remote_state :: side_state
  de_content_class :: content_class
  de_lineage_state :: lineage_state
  de_ambiguity_reason :: ambiguity_reason
  de_evidence_sufficiency :: evidence_sufficiency

definition codes_from_plan :: "materialization_plan \<Rightarrow> derived_evidence_codes" where
  "codes_from_plan plan =
     (let facts = cv_facts (mp_classification_evidence plan) in
      \<lparr>de_local_state = side_state_derive (mp_cell plan) True (cf_base facts) (cf_local facts),
       de_remote_state = side_state_derive (mp_cell plan) False (cf_base facts) (cf_remote facts),
       de_content_class = content_class_derive plan, de_lineage_state = lineage_state_derive plan,
       de_ambiguity_reason = ambiguity_derive plan,
       de_evidence_sufficiency = sufficiency_derive (mp_outcome plan)\<rparr>)"

section \<open>Evidence\<close>

definition is_redacted_code :: "string \<Rightarrow> bool" where
  "is_redacted_code value =
     ((1 \<le> length value \<and> length value \<le> 128)
      \<and> list_all (\<lambda>b. is_ascii_alphanumeric b \<or> b \<in> set ''-_.'') value)"

definition validate_evidence_input :: "conflict_evidence_input \<Rightarrow> conflict_evidence_failure + unit" where
  "validate_evidence_input i =
     (if is_some_and (ci_explanation_code i) (\<lambda>v. \<not> is_redacted_code v)
         \<or> is_some_and (ci_device_alias i) (\<lambda>v. \<not> is_redacted_code v)
      then Inl InvalidEvidenceCode
      else if \<not> fits_i64 (ci_captured_at_unix_ms i) then Inl InvalidEvidenceReference else Inr ())"

definition content_hash :: "content_fingerprint option \<Rightarrow> string option" where
  "content_hash = map_option fp_sha256"

definition content_length :: "content_fingerprint option \<Rightarrow> u64 option" where
  "content_length = map_option fp_byte_length"

text \<open>The record before its fingerprint is sealed.\<close>

definition unsealed_evidence ::
    "materialization_plan \<Rightarrow> conflict_evidence_input \<Rightarrow> materialization_draft option \<Rightarrow> publication_target \<Rightarrow> string
      \<Rightarrow> conflict_evidence" where
  "unsealed_evidence plan i copy destination key =
     (let derived = codes_from_plan plan;
          expected_copy = Option.bind copy md_expected_content in
      \<lparr>ce_conflict_id = mp_conflict_id plan, ce_operation_id = ci_operation_id i,
       ce_stable_cell_id = cell_as_str (mp_cell plan),
       ce_local_state_code = side_state_as_str (de_local_state derived),
       ce_remote_state_code = side_state_as_str (de_remote_state derived),
       ce_content_class = content_class_as_str (de_content_class derived),
       ce_lineage_state = lineage_state_as_str (de_lineage_state derived),
       ce_classification_code = outcome_as_str (mp_outcome plan),
       ce_ambiguity_reason = ambiguity_as_str (de_ambiguity_reason derived),
       ce_evidence_sufficiency = sufficiency_as_str (de_evidence_sufficiency derived),
       ce_conflict_copy_operation_id = map_option md_operation_id copy,
       ce_base_evidence_id = None, ce_local_evidence_id = None, ce_remote_evidence_id = None,
       ce_base_sha256 = map_option (\<lambda>s. fp_sha256 (ps_content s)) (mp_base plan),
       ce_base_byte_length = map_option (\<lambda>s. fp_byte_length (ps_content s)) (mp_base plan),
       ce_local_sha256 = content_hash (map_option ps_content (mp_local plan)),
       ce_local_byte_length = content_length (map_option ps_content (mp_local plan)),
       ce_remote_sha256 = content_hash (map_option ps_content (mp_remote plan)),
       ce_remote_byte_length = content_length (map_option ps_content (mp_remote plan)),
       ce_naming_version = CONFLICT_NAMING_VERSION,
       ce_normalized_collision_key = key,
       ce_target_parent_id = pt_parent_id destination,
       ce_expected_conflict_copy_sha256 = content_hash expected_copy,
       ce_expected_conflict_copy_byte_length = content_length expected_copy,
       ce_explanation_code = ci_explanation_code i, ce_device_alias = ci_device_alias i,
       ce_evidence_fingerprint = [], ce_captured_at_unix_ms = ci_captured_at_unix_ms i\<rparr>)"

definition conflict_evidence_from_plan ::
    "libs \<Rightarrow> materialization_plan \<Rightarrow> conflict_evidence_input \<Rightarrow> conflict_evidence_failure + conflict_evidence" where
  "conflict_evidence_from_plan L plan i =
     and_then (validate_evidence_input i) (\<lambda>_.
     and_then (ok_or (find (\<lambda>d. md_operation_id d = ci_operation_id i \<and> md_durable_operation_kind d \<noteq> None)
       (mp_drafts plan)) OperationNotInPlan) (\<lambda>operation_draft.
     let copy = find (\<lambda>d. md_kind d = PlanConflictCopyPublish) (mp_drafts plan) in
     and_then (ok_or (md_destination (case copy of Some d \<Rightarrow> d | None \<Rightarrow> operation_draft))
       MissingDestinationEvidence) (\<lambda>destination.
     and_then (map_err (\<lambda>_. InvalidDestinationPath)
       (normalized_collision_key L (pt_portable_path destination))) (\<lambda>key.
     let e = unsealed_evidence plan i copy destination key in
     Inr (e\<lparr>ce_evidence_fingerprint := conflict_fingerprint L e\<rparr>)))))"

end
