(* ===== verification/Evidence_Properties.thy ===== *)
theory Evidence_Properties
  imports Conflict_Evidence Materialization_Properties Concrete_Run
begin

text \<open>
  Conflict evidence and the ledger: the evidence of a materialized plan passes the validation of the
  ledger and is recorded, and recording it again from another device at another time changes nothing.
\<close>

section \<open>The stored vocabularies\<close>

definition all_side_states :: "side_state list" where
  "all_side_states = [Deleted, NotCaptured, PresentWithoutBase, UnchangedFromBase, ChangedFromBase]"

interpretation side_codes: redacted_vocabulary side_state_as_str all_side_states
proof unfold_locales
  show "x \<in> set all_side_states" for x by (cases x) (simp_all add: all_side_states_def)
qed code_simp+

definition all_content_classes :: "content_class list" where
  "all_content_classes = [MarkdownVerified, TextContent, BinaryContent, ContentFingerprintOnly, MetadataOnly]"

interpretation class_codes: redacted_vocabulary content_class_as_str all_content_classes
proof unfold_locales
  show "x \<in> set all_content_classes" for x by (cases x) (simp_all add: all_content_classes_def)
qed code_simp+

definition all_lineage_states :: "lineage_state list" where
  "all_lineage_states = [ExactIdentity, SameTarget, Divergent, CycleRejected, LineageDestinationCollision, ParentChanged]"

interpretation lineage_codes: redacted_vocabulary lineage_state_as_str all_lineage_states
proof unfold_locales
  show "x \<in> set all_lineage_states" for x by (cases x) (simp_all add: all_lineage_states_def)
qed code_simp+

definition all_ambiguities :: "ambiguity_reason list" where
  "all_ambiguities = [NoAmbiguity, TextOverlap, MissingExactBase, AmbiguousText, MergeBoundsExceeded,
     PortableNameCollision, DivergentRename, DivergentMove, AmbiguousRenameMove, RenameMoveCycle,
     AmbiguousDestination, DuplicateRemotePath, ParentLineageChanged]"

interpretation ambiguity_codes: redacted_vocabulary ambiguity_as_str all_ambiguities
proof unfold_locales
  show "x \<in> set all_ambiguities" for x by (cases x) (simp_all add: all_ambiguities_def)
qed code_simp+

definition all_sufficiencies :: "evidence_sufficiency list" where
  "all_sufficiencies = [SufficiencyExact, PreserveBothComplete, RemoteBlockedComplete, ReconcileComplete, BoundaryRejected]"

interpretation sufficiency_codes: redacted_vocabulary sufficiency_as_str all_sufficiencies
proof unfold_locales
  show "x \<in> set all_sufficiencies" for x by (cases x) (simp_all add: all_sufficiencies_def)
qed code_simp+

lemmas evidence_codes_redacted = side_codes.spell_redacted class_codes.spell_redacted lineage_codes.spell_redacted
  ambiguity_codes.spell_redacted sufficiency_codes.spell_redacted cell_codes.spell_redacted outcome_codes.spell_redacted

section \<open>Evidence of a materialized plan\<close>

lemma redacted_code_valid: "is_redacted_code v \<Longrightarrow> validate_redacted_code v = Inr ()"
  by (auto simp: is_redacted_code_def validate_redacted_code_def remote_id_byte_def list_all_iff)

lemma materialized_conflict_id:
  "materialize_conflict_plan L plan c = Inr mp \<Longrightarrow> derive_bound_conflict_id L plan = Inr (mp_conflict_id mp)"
  by (auto simp: materialize_conflict_plan_def)

lemma copy_draft_durable:
  assumes "draft_for L r plan c cid = Inr (d, dep)" "md_kind d = PlanConflictCopyPublish"
  shows "md_durable_operation_kind d = Some ConflictCopyPublish \<and> md_expected_content d \<noteq> None"
  using assms by (cases r) (auto simp: draft_defs elim!: conflict_copy_draft_Inr)

lemma find_Some_in: "find P xs = Some x \<Longrightarrow> x \<in> set xs \<and> P x"
  by (auto simp: find_Some_iff)

lemma hex_code_valid: "is_lower_hex_64 s \<Longrightarrow> validate_redacted_code s = Inr ()"
  using lower_hex_remote by (auto simp: is_lower_hex_64_def validate_redacted_code_def list_all_iff)

lemma conflict_fingerprint_seal [simp]:
  "conflict_fingerprint L (e\<lparr>ce_evidence_fingerprint := f\<rparr>) = conflict_fingerprint L e"
  by (simp add: conflict_fingerprint_def conflict_fields_def)

lemma conflict_evidence_Inr:
  assumes "conflict_evidence_from_plan L mp i = Inr e"
  obtains d copy destination key where "validate_evidence_input i = Inr ()"
    "d \<in> set (mp_drafts mp)" "md_operation_id d = ci_operation_id i" "md_durable_operation_kind d \<noteq> None"
    "copy = find (\<lambda>d. md_kind d = PlanConflictCopyPublish) (mp_drafts mp)"
    "md_destination (case copy of Some x \<Rightarrow> x | None \<Rightarrow> d) = Some destination"
    "normalized_collision_key L (pt_portable_path destination) = Inr key"
    "e = (unsealed_evidence mp i copy destination key)\<lparr>ce_evidence_fingerprint :=
        conflict_fingerprint L (unsealed_evidence mp i copy destination key)\<rparr>"
proof -
  from assms obtain d destination key where
    "validate_evidence_input i = Inr ()"
    "find (\<lambda>d. md_operation_id d = ci_operation_id i \<and> md_durable_operation_kind d \<noteq> None) (mp_drafts mp) = Some d"
    "md_destination (case find (\<lambda>d. md_kind d = PlanConflictCopyPublish) (mp_drafts mp) of Some x \<Rightarrow> x | None \<Rightarrow> d) = Some destination"
    "normalized_collision_key L (pt_portable_path destination) = Inr key"
    "e = (unsealed_evidence mp i (find (\<lambda>d. md_kind d = PlanConflictCopyPublish) (mp_drafts mp)) destination key)
       \<lparr>ce_evidence_fingerprint := conflict_fingerprint L
         (unsealed_evidence mp i (find (\<lambda>d. md_kind d = PlanConflictCopyPublish) (mp_drafts mp)) destination key)\<rparr>"
    by (auto simp: conflict_evidence_from_plan_def Let_def)
  with find_Some_in [OF this(2)] show thesis by (intro that) auto
qed

text \<open>The drafts the evidence rests on are valid, so its contents and its target are.\<close>

lemma evidence_drafts:
  assumes mat: "materialize_conflict_plan L plan c = Inr mp" and d: "d \<in> set (mp_drafts mp)"
    and k: "md_durable_operation_kind d \<noteq> None \<or> md_kind d = PlanConflictCopyPublish"
  shows "draft_valid L d" "md_kind d = PlanConflictCopyPublish \<Longrightarrow> md_expected_content d \<noteq> None"
proof -
  obtain r dep cid where r: "draft_for L r plan c cid = Inr (d, dep)" by (rule materialized_draft [OF mat d])
  have ctx: "validate_context L c = Inr ()" by (rule materialize_Inr [OF mat])
  from k copy_draft_durable [OF r] obtain kind where "md_durable_operation_kind d = Some kind" by auto
  from draft_for_valid [OF ctx r this] show "draft_valid L d" .
  show "md_kind d = PlanConflictCopyPublish \<Longrightarrow> md_expected_content d \<noteq> None" using copy_draft_durable [OF r] by blast
qed

lemma source_pair_valid:
  assumes "is_none_or x (\<lambda>s. \<not> source_invalid L s)"
  shows "validate_hash_size_pair (map_option (\<lambda>s. fp_sha256 (ps_content s)) x) (map_option (\<lambda>s. fp_byte_length (ps_content s)) x) = Inr ()"
  using fingerprint_pair_valid [of "map_option ps_content x"] assms
  by (cases x) (auto dest: source_content_valid)

lemmas unsealed = unsealed_evidence_def Let_def

lemma unsealed_codes:
  assumes "is_lower_hex_64 (mp_conflict_id mp)" "is_lower_hex_64 key" "u = unsealed_evidence mp i copy destination key"
  shows "for_each validate_redacted_code
        [ce_conflict_id u, ce_stable_cell_id u, ce_local_state_code u, ce_remote_state_code u,
         ce_content_class u, ce_lineage_state u, ce_classification_code u, ce_ambiguity_reason u,
         ce_evidence_sufficiency u, ce_naming_version u, ce_normalized_collision_key u] = Inr ()"
proof -
  have "validate_redacted_code CONFLICT_NAMING_VERSION = Inr ()" by code_simp
  then show ?thesis using assms hex_code_valid by (simp add: unsealed evidence_codes_redacted)
qed

lemma unsealed_explained:
  assumes "validate_evidence_input i = Inr ()" "u = unsealed_evidence mp i copy destination key"
  shows "for_each validate_redacted_code (flatten_opt [ce_explanation_code u]) = Inr ()"
    "for_each validate_redacted_code (flatten_opt [ce_device_alias u]) = Inr ()"
    "fits_i64 (ce_captured_at_unix_ms u)"
  using assms redacted_code_valid
  by (auto simp: validate_evidence_input_def for_each_opts unsealed is_some_and_def is_none_or_def
      split: if_split_asm option.splits)

lemma unsealed_pairs:
  assumes "validate_context L c = Inr ()" "mp_base mp = mc_base c" "mp_local mp = mc_local c" "mp_remote mp = mc_remote c"
    "u = unsealed_evidence mp i copy destination key"
  shows "validate_hash_size_pair (ce_base_sha256 u) (ce_base_byte_length u) = Inr ()"
    "validate_hash_size_pair (ce_local_sha256 u) (ce_local_byte_length u) = Inr ()"
    "validate_hash_size_pair (ce_remote_sha256 u) (ce_remote_byte_length u) = Inr ()"
proof -
  have "is_none_or x (\<lambda>s. \<not> source_invalid L s)" if "x \<in> {mc_base c, mc_local c, mc_remote c}" for x
    using that validate_context_Inr(9) [OF assms(1)] by (cases x) auto
  note source_pair_valid [OF this]
  then show "validate_hash_size_pair (ce_base_sha256 u) (ce_base_byte_length u) = Inr ()"
    "validate_hash_size_pair (ce_local_sha256 u) (ce_local_byte_length u) = Inr ()"
    "validate_hash_size_pair (ce_remote_sha256 u) (ce_remote_byte_length u) = Inr ()"
    by (simp_all add: assms unsealed content_hash_def content_length_def option.map_comp comp_def)
qed

lemma unsealed_copy:
  assumes "\<And>x. copy = Some x \<Longrightarrow> draft_valid L x \<and> md_expected_content x \<noteq> None"
    "u = unsealed_evidence mp i copy destination key"
  shows "validate_hash_size_pair (ce_expected_conflict_copy_sha256 u) (ce_expected_conflict_copy_byte_length u) = Inr ()"
    "ce_conflict_copy_operation_id u \<noteq> None \<Longrightarrow> ce_expected_conflict_copy_sha256 u \<noteq> None"
  using assms fingerprint_pair_valid
  by (cases copy; force simp: unsealed content_hash_def content_length_def draft_valid_def validate_hash_size_pair_def)+

lemma evidence_valid:
  assumes mat: "materialize_conflict_plan L plan c = Inr mp"
    and ev: "conflict_evidence_from_plan L mp i = Inr e"
    and libs: "sha256_total L" "\<not> is_nil (ce_operation_id e)" "is_none_or (ce_conflict_copy_operation_id e) (\<lambda>u. \<not> is_nil u)"
  shows "validate_conflict_evidence L e = Inr ()"
proof (rule conflict_evidence_Inr [OF ev], rule materialize_Inr [OF mat])
  fix d copy destination key ev' cid
  assume inp: "validate_evidence_input i = Inr ()"
    and d: "d \<in> set (mp_drafts mp)" "md_operation_id d = ci_operation_id i" "md_durable_operation_kind d \<noteq> None"
    and copy: "copy = find (\<lambda>d. md_kind d = PlanConflictCopyPublish) (mp_drafts mp)"
    and dest: "md_destination (case copy of Some x \<Rightarrow> x | None \<Rightarrow> d) = Some destination"
    and key: "normalized_collision_key L (pt_portable_path destination) = Inr key"
    and e: "e = (unsealed_evidence mp i copy destination key)\<lparr>ce_evidence_fingerprint :=
        conflict_fingerprint L (unsealed_evidence mp i copy destination key)\<rparr>"
    and ctx: "validate_context L c = Inr ()"
    and mp: "mp_base mp = mc_base c" "mp_local mp = mc_local c" "mp_remote mp = mc_remote c"
  let ?u = "unsealed_evidence mp i copy destination key"
  have copied: "draft_valid L x \<and> md_expected_content x \<noteq> None" if "copy = Some x" for x
    using find_Some_in [of _ "mp_drafts mp" x] that copy evidence_drafts [OF mat, of x] by auto
  have "draft_valid L (case copy of Some x \<Rightarrow> x | None \<Rightarrow> d)"
    using copied evidence_drafts(1) [OF mat d(1)] d(3) by (cases copy) auto
  then have "is_remote_id (pt_parent_id destination)"
    using dest by (simp add: draft_valid_def target_invalid_def)
  then have parent: "validate_remote_id (ce_target_parent_id ?u) = Inr ()"
    by (simp add: unsealed remote_id_valid)
  have ids: "\<not> is_nil (ce_operation_id ?u)" "is_none_or (ce_conflict_copy_operation_id ?u) (\<lambda>u. \<not> is_nil u)"
    using libs(2, 3) by (simp_all add: e)
  have none: "ce_base_evidence_id ?u = None" "ce_local_evidence_id ?u = None" "ce_remote_evidence_id ?u = None"
    by (simp_all add: unsealed)
  have hex: "is_lower_hex_64 (mp_conflict_id mp)" "is_lower_hex_64 key"
    using bound_conflict_id_hex [OF libs(1) materialized_conflict_id [OF mat]] normalized_collision_key_hex [OF libs(1) key] .
  note groups = unsealed_codes [OF hex refl] unsealed_explained [OF inp refl] unsealed_pairs [OF ctx mp refl]
    unsealed_copy [OF copied refl]
  show ?thesis
    unfolding e validate_conflict_evidence_def
    using groups parent ids none fingerprints_valid(3) [OF libs(1)]
    by (cases "ce_conflict_copy_operation_id ?u") (simp_all add: u64_to_i64_def)
qed

lemma evidence_ids_None:
  "conflict_evidence_from_plan L mp i = Inr e \<Longrightarrow>
     ce_base_evidence_id e = None \<and> ce_local_evidence_id e = None \<and> ce_remote_evidence_id e = None"
  by (erule conflict_evidence_Inr) (simp add: unsealed)

lemma hash_size_pair_fits:
  "validate_hash_size_pair h n = Inr () \<Longrightarrow> paired h n \<and> is_none_or n fits_i64"
  by (auto simp: validate_hash_size_pair_def paired_def u64_to_i64_def split: option.splits if_split_asm)

lemma evidence_lengths_fit: "lengths_fit ns = Inr () \<longleftrightarrow> (\<forall>n \<in> set ns. is_none_or n fits_i64)"
  by (auto simp: lengths_fit_def for_each_opts u64_to_i64_def is_none_or_def split: option.splits)

lemma valid_evidence_fits:
  assumes "validate_conflict_evidence L e = Inr ()"
  shows "lengths_fit [ce_base_byte_length e, ce_local_byte_length e, ce_remote_byte_length e,
       ce_expected_conflict_copy_byte_length e, Some (ce_captured_at_unix_ms e)] = Inr ()"
    "paired (ce_base_sha256 e) (ce_base_byte_length e)" "paired (ce_local_sha256 e) (ce_local_byte_length e)"
    "paired (ce_remote_sha256 e) (ce_remote_byte_length e)"
    "paired (ce_expected_conflict_copy_sha256 e) (ce_expected_conflict_copy_byte_length e)"
proof -
  have v: "validate_hash_size_pair (ce_base_sha256 e) (ce_base_byte_length e) = Inr ()"
    "validate_hash_size_pair (ce_local_sha256 e) (ce_local_byte_length e) = Inr ()"
    "validate_hash_size_pair (ce_remote_sha256 e) (ce_remote_byte_length e) = Inr ()"
    "validate_hash_size_pair (ce_expected_conflict_copy_sha256 e) (ce_expected_conflict_copy_byte_length e) = Inr ()"
    "fits_i64 (ce_captured_at_unix_ms e)"
    using assms by (simp_all add: validate_conflict_evidence_def u64_to_i64_def if_distrib split: if_split_asm)
  note p = v(1-4) [THEN hash_size_pair_fits]
  from p v(5) show "lengths_fit [ce_base_byte_length e, ce_local_byte_length e, ce_remote_byte_length e,
       ce_expected_conflict_copy_byte_length e, Some (ce_captured_at_unix_ms e)] = Inr ()"
    by (simp add: evidence_lengths_fit)
  from p show "paired (ce_base_sha256 e) (ce_base_byte_length e)" "paired (ce_local_sha256 e) (ce_local_byte_length e)"
    "paired (ce_remote_sha256 e) (ce_remote_byte_length e)"
    "paired (ce_expected_conflict_copy_sha256 e) (ce_expected_conflict_copy_byte_length e)" by simp_all
qed

section \<open>A concrete capture\<close>

definition demo_capture :: conflict_evidence_input where
  "demo_capture = \<lparr>ci_operation_id = 7, ci_explanation_code = Some ''remote_edit'', ci_device_alias = Some ''laptop'',
     ci_captured_at_unix_ms = 500\<rparr>"

lemma demo_captured:
  obtains mp e where
    "materialize_conflict_plan plan_libs (classify_conflict demo_remote_input) (demo_ctx demo_remote_ev) = Inr mp"
    "conflict_evidence_from_plan plan_libs mp demo_capture = Inr e" "ce_operation_id e = 7"
    "ce_conflict_copy_operation_id e = None"
proof (rule demo_remote_materialized)
  fix mp d
  assume mat: "materialize_conflict_plan plan_libs (classify_conflict demo_remote_input) (demo_ctx demo_remote_ev) = Inr mp"
    and d: "hd (mp_drafts mp) = d" "d \<in> set (mp_drafts mp)" "md_durable_operation_kind d = Some LocalPublish" "md_operation_id d = 7"
      "map_option pt_portable_path (md_destination d) = Some ''notes/a.md''"
  obtain ds where ds: "mp_drafts mp = d # ds" using d(1, 2) by (cases "mp_drafts mp") auto
  have "md_kind x \<noteq> PlanConflictCopyPublish" if x: "x \<in> set (mp_drafts mp)" for x
  proof -
    obtain r dep cid where "r \<in> set (cp_drafts (classify_conflict demo_remote_input))"
      "draft_for plan_libs r (classify_conflict demo_remote_input) (demo_ctx demo_remote_ev) cid = Inr (x, dep)"
      by (rule materialized_draft [OF mat x])
    then show ?thesis by (auto simp: demo_remote_plan draft_defs)
  qed
  then have copy: "find (\<lambda>d. md_kind d = PlanConflictCopyPublish) (mp_drafts mp) = None" by (auto simp: find_None_iff)
  obtain t where t: "md_destination d = Some t" "pt_portable_path t = ''notes/a.md''" using d(5) by auto
  have "is_ok (normalized_collision_key plan_libs ''notes/a.md'')" by code_simp
  then obtain key where key: "normalized_collision_key plan_libs ''notes/a.md'' = Inr key" by (auto simp: is_ok_iff)
  have inp: "validate_evidence_input demo_capture = Inr ()" by code_simp
  have op: "ci_operation_id demo_capture = 7" by (simp add: demo_capture_def)
  have "conflict_evidence_from_plan plan_libs mp demo_capture = Inr ((unsealed_evidence mp demo_capture None t key)
    \<lparr>ce_evidence_fingerprint := conflict_fingerprint plan_libs (unsealed_evidence mp demo_capture None t key)\<rparr>)"
    unfolding conflict_evidence_from_plan_def inp copy op by (simp add: ds d(3, 4) t key Let_def)
  then show thesis using that [OF mat] by (simp add: unsealed op)
qed

section \<open>Properties\<close>

text \<open>
  C34: the evidence of a materialized plan is recorded. Given a total digest and identifiers that are
  not nil, the evidence built from any materialized plan is accepted by the ledger as it is, as soon
  as its operation is registered, the publication of its conflict copy, if it has one, is registered
  as such and not yet claimed by other evidence, and the conflict has no evidence yet.
\<close>

theorem materialized_evidence_is_recorded:
  assumes "materialize_conflict_plan L plan c = Inr mp" "conflict_evidence_from_plan L mp i = Inr e"
    and "sha256_total L" "\<not> is_nil (ce_operation_id e)" "is_none_or (ce_conflict_copy_operation_id e) (\<lambda>u. \<not> is_nil u)"
    and "load_intent g (ce_operation_id e) \<noteq> None" "load_conflict_evidence g (ce_conflict_id e) = None"
    and "is_none_or (ce_conflict_copy_operation_id e) (\<lambda>u. load_mutation_kind g u = Some ConflictCopyPublish
      \<and> \<not> list_ex (\<lambda>r. ce_conflict_copy_operation_id r = Some u) (lg_conflicts g))"
  shows "record_conflict_evidence L e g = Inr (ConflictRegistered, g\<lparr>lg_conflicts := lg_conflicts g @ [e]\<rparr>)"
proof -
  have v: "validate_conflict_evidence L e = Inr ()" by (rule evidence_valid) fact+
  have "insert_conflict_evidence g e = Inr (g\<lparr>lg_conflicts := lg_conflicts g @ [e]\<rparr>)"
    using valid_evidence_fits [OF v] evidence_ids_None [OF assms(2)] assms(6-8)
    by (cases "ce_conflict_copy_operation_id e") (auto simp: insert_conflict_evidence_def load_mutation_kind_def)
  then show ?thesis
    using v evidence_ids_None [OF assms(2)] assms(6-8)
    by (cases "ce_conflict_copy_operation_id e")
      (auto simp: record_conflict_evidence_def load_mutation_kind_def load_conflict_evidence_fingerprint_def)
qed

theorem materialized_evidence_is_recorded_witness:
  "\<exists>e. ce_operation_id e = 7
    \<and> record_conflict_evidence plan_libs e demo_completed = Inr (ConflictRegistered, demo_completed\<lparr>lg_conflicts := [e]\<rparr>)"
proof (rule demo_captured)
  fix mp e
  assume e: "materialize_conflict_plan plan_libs (classify_conflict demo_remote_input) (demo_ctx demo_remote_ev) = Inr mp"
    "conflict_evidence_from_plan plan_libs mp demo_capture = Inr e" "ce_operation_id e = 7"
    "ce_conflict_copy_operation_id e = None"
  have total: "sha256_total plan_libs" using demo_sha256_total by (simp add: sha256_total_def plan_libs_def)
  have g: "load_intent demo_completed 7 \<noteq> None" "lg_conflicts demo_completed = []"
    by (simp_all add: demo_completed_def load_intent_def demo_intent_def sealed_intent_def demo_draft_def)
  have "record_conflict_evidence plan_libs e demo_completed
      = Inr (ConflictRegistered, demo_completed\<lparr>lg_conflicts := lg_conflicts demo_completed @ [e]\<rparr>)"
    by (rule materialized_evidence_is_recorded [OF e(1, 2) total]) (simp_all add: e g is_nil_def load_conflict_evidence_def)
  with e(3) g show ?thesis by auto
qed

text \<open>
  Recording the same conflict again is idempotent. Evidence captured for the same operation and
  explanation from another device or at another time is recognised as present once the first has been
  recorded, and the ledger stays as it is.
\<close>

theorem recaptured_evidence_is_present:
  assumes "materialize_conflict_plan L plan c = Inr mp" "conflict_evidence_from_plan L mp i = Inr e"
    and "conflict_evidence_from_plan L mp (i\<lparr>ci_device_alias := device, ci_captured_at_unix_ms := now\<rparr>) = Inr e'"
    and "sha256_total L" "record_conflict_evidence L e g = Inr (out, g')"
  shows "record_conflict_evidence L e' g' = Inr (ConflictAlreadyPresent, g')"
proof -
  have same: "e' = e\<lparr>ce_device_alias := device, ce_captured_at_unix_ms := now\<rparr>"
    using assms(2, 3)
    by (auto simp: conflict_evidence_from_plan_def unsealed conflict_fingerprint_def conflict_fields_def)
  have v: "validate_conflict_evidence L e = Inr ()" "load_mutation_kind g (ce_operation_id e) \<noteq> None"
    using assms(5) by (auto simp: record_conflict_evidence_def split: if_split_asm)
  then have ids: "\<not> is_nil (ce_operation_id e)" "is_none_or (ce_conflict_copy_operation_id e) (\<lambda>u. \<not> is_nil u)"
    by (auto simp: validate_conflict_evidence_def is_none_or_def split: if_split_asm option.splits)
  have "validate_conflict_evidence L e' = Inr ()"
    by (rule evidence_valid [OF assms(1, 3, 4)]) (use ids in \<open>simp_all add: same\<close>)
  moreover have "load_conflict_evidence_fingerprint g' (ce_conflict_id e) = Some (ce_evidence_fingerprint e)"
    "load_mutation_kind g' (ce_operation_id e) \<noteq> None"
    using record_conflict_evidence_Inr [OF assms(5)] v(2)
    by (auto simp: load_conflict_evidence_fingerprint_def load_conflict_evidence_def find_append load_mutation_kind_def load_intent_def)
  ultimately show ?thesis by (simp add: record_conflict_evidence_def same)
qed

theorem recaptured_evidence_is_present_witness:
  "\<exists>e e' g. ce_captured_at_unix_ms e' = 900 \<and> lg_conflicts g = [e]
    \<and> record_conflict_evidence plan_libs e' g = Inr (ConflictAlreadyPresent, g)"
proof (rule demo_captured)
  fix mp e
  assume e: "materialize_conflict_plan plan_libs (classify_conflict demo_remote_input) (demo_ctx demo_remote_ev) = Inr mp"
    "conflict_evidence_from_plan plan_libs mp demo_capture = Inr e" "ce_operation_id e = 7"
    "ce_conflict_copy_operation_id e = None"
  have total: "sha256_total plan_libs" using demo_sha256_total by (simp add: sha256_total_def plan_libs_def)
  let ?i = "demo_capture\<lparr>ci_device_alias := Some ''phone'', ci_captured_at_unix_ms := 900\<rparr>"
  have "validate_evidence_input ?i = Inr ()" by code_simp
  with e(2) obtain e' where e': "conflict_evidence_from_plan plan_libs mp ?i = Inr e'" "ce_captured_at_unix_ms e' = 900"
    by (auto simp: conflict_evidence_from_plan_def unsealed)
  have g: "load_intent demo_completed 7 \<noteq> None" "lg_conflicts demo_completed = []"
    by (simp_all add: demo_completed_def load_intent_def demo_intent_def sealed_intent_def demo_draft_def)
  have "validate_conflict_evidence plan_libs e = Inr ()"
    by (rule evidence_valid [OF e(1, 2) total]) (simp_all add: e is_nil_def)
  then have "record_conflict_evidence plan_libs e demo_completed = Inr (ConflictRegistered, demo_completed\<lparr>lg_conflicts := [e]\<rparr>)"
    using valid_evidence_fits [of plan_libs e] evidence_ids_None [OF e(2)] g e(3, 4)
    by (auto simp: record_conflict_evidence_def insert_conflict_evidence_def load_mutation_kind_def
        load_conflict_evidence_fingerprint_def load_conflict_evidence_def)
  from recaptured_evidence_is_present [OF e(1, 2) e'(1) total this] e'(2) show ?thesis
    by (intro exI [of _ e] exI [of _ e'] exI [of _ "demo_completed\<lparr>lg_conflicts := [e]\<rparr>"]) simp
qed

end
