(* ===== verification/Recovery_Intents.thy ===== *)
theory Recovery_Intents
  imports Snapshot_Records
begin

text \<open>
  The data of \<open>crates/myvault-recovery\<close>: errors, operation kinds, intents to rename, move, trash or
  restore a note, their constructors and their validator, and the classification of what is found on
  disk. \<open>serde_json\<close> is the record \<open>journal_json\<close>; BLAKE3 and UUID text are those of \<open>snap_libs\<close>.
\<close>

section \<open>Constants and errors\<close>

definition MAX_ENTRY_BYTES :: nat where "MAX_ENTRY_BYTES = 64 * 1024"
definition MAX_ENTRY_COUNT :: nat where "MAX_ENTRY_COUNT = 4096"
definition MAX_DIRECTORY_ENTRY_COUNT :: nat where "MAX_DIRECTORY_ENTRY_COUNT = 8192"
definition MAX_PAGE_SIZE :: nat where "MAX_PAGE_SIZE = 128"
definition INTENT_VERSION :: u32 where "INTENT_VERSION = 4"
definition TOMBSTONE_VERSION :: u32 where "TOMBSTONE_VERSION = 1"

datatype journal_error =
    JournalIo io_kind
  | JournalSyncUnsupported io_kind
  | JournalJson
  | JournalInvalidRoot string
  | JournalPrivacyValidationRequired
  | JournalExtendedAcl
  | InvalidFileRevision
  | InvalidOperationId
  | InvalidTrashId
  | InvalidManifestDigest
  | InvalidOperationTopology
  | InvalidPortablePath
  | IdenticalPaths
  | CaseRenameContractRequired
  | InvalidCaseRenameContract
  | InvalidEntryName
  | EntryTooLarge
  | TooManyEntries
  | TooManyDirectoryEntries
  | InvalidPageSize
  | UnsupportedJournalVersion u32
  | JournalCollision
  | IntentMismatch
  | JournalExternalMutation
  | JournalPublishedButNotSynced io_kind

fun journal_from_private :: "private_error \<Rightarrow> journal_error" where
  "journal_from_private (PfIo k) = JournalIo k"
| "journal_from_private (DirectorySyncUnsupported k) = JournalSyncUnsupported k"
| "journal_from_private (PfInvalidRoot reason) = JournalInvalidRoot reason"
| "journal_from_private PfPrivacyValidationRequired = JournalPrivacyValidationRequired"
| "journal_from_private PfExtendedAcl = JournalExtendedAcl"
| "journal_from_private PfExternalMutation = JournalExternalMutation"

fun published_sync_error :: "journal_error \<Rightarrow> journal_error" where
  "published_sync_error (JournalIo k) = JournalPublishedButNotSynced k"
| "published_sync_error e = e"

section \<open>Operation kinds and revisions\<close>

text \<open>An \<open>i64\<close> is its 64 bits, read with \<open>sint\<close>.\<close>

datatype recovery_operation_kind =
    NormalMove
  | CaseRename
  | TrashOperation (trash_id: uuid) (manifest_blake3: string) (trashed_at_unix_ms: "64 word")
  | RestoreOperation (trash_id: uuid) (manifest_blake3: string)

definition validate_blake3_hex :: "string \<Rightarrow> unit + unit" where
  "validate_blake3_hex digest =
     (if length digest = 64 \<and> list_all (\<lambda>b. is_ascii_digit b \<or> 97 \<le> byte b \<and> byte b \<le> 102) digest
      then Inr () else Inl ())"

fun operation_kind_validate :: "recovery_operation_kind \<Rightarrow> journal_error + unit" where
  "operation_kind_validate NormalMove = Inr ()"
| "operation_kind_validate CaseRename = Inr ()"
| "operation_kind_validate (TrashOperation tid digest trashed_at) =
     (if is_nil tid then Inl InvalidTrashId
      else if sint trashed_at < 0 then Inl InvalidOperationTopology
      else map_err (\<lambda>_. InvalidManifestDigest) (validate_blake3_hex digest))"
| "operation_kind_validate (RestoreOperation tid digest) =
     (if is_nil tid then Inl InvalidTrashId
      else map_err (\<lambda>_. InvalidManifestDigest) (validate_blake3_hex digest))"

record file_revision =
  fr_blake3_hex :: string
  fr_byte_len :: u64

definition file_revision_from_bytes :: "snap_libs \<Rightarrow> string \<Rightarrow> file_revision" where
  "file_revision_from_bytes S bytes =
     \<lparr>fr_blake3_hex = blake3_to_hex S bytes, fr_byte_len = of_nat (length bytes)\<rparr>"

definition file_revision_validate :: "file_revision \<Rightarrow> journal_error + unit" where
  "file_revision_validate r = map_err (\<lambda>_. InvalidFileRevision) (validate_blake3_hex (fr_blake3_hex r))"

section \<open>Paths of an operation\<close>

definition canonical_portable :: "string \<Rightarrow> journal_error + string" where
  "canonical_portable path =
     map_err (\<lambda>_. InvalidPortablePath) (and_then (from_portable path) (\<lambda>p. Inr (as_str p)))"

definition canonical_portable_opt :: "string option \<Rightarrow> journal_error + string option" where
  "canonical_portable_opt path = (case path of
       None \<Rightarrow> Inr None
     | Some p \<Rightarrow> and_then (canonical_portable p) (\<lambda>q. Inr (Some q)))"

definition trash_payload_path :: "snap_libs \<Rightarrow> string \<Rightarrow> uuid \<Rightarrow> string" where
  "trash_payload_path S area tid = ''.trash/v1/'' @ area @ ''/'' @ uuid_string S tid @ ''/payload''"

definition is_content_path :: "snap_libs \<Rightarrow> string \<Rightarrow> journal_error + bool" where
  "is_content_path S path =
     and_then (map_err (\<lambda>_. InvalidPortablePath) (from_portable path)) (\<lambda>p.
     let first_key = hd (split_on CHR ''/'' (collision_key (sl_libs S) p)) in
     Inr (first_key \<noteq> ''.trash'' \<and> first_key \<noteq> ''.obsidian''))"

definition require_content_path :: "snap_libs \<Rightarrow> string \<Rightarrow> journal_error + unit" where
  "require_content_path S path =
     and_then (is_content_path S path) (\<lambda>b. if b then Inr () else Inl InvalidOperationTopology)"

definition validate_path_relationship ::
    "snap_libs \<Rightarrow> string \<Rightarrow> string \<Rightarrow> bool \<Rightarrow> string option \<Rightarrow> journal_error + unit" where
  "validate_path_relationship S source target case_rename temp =
     (let portable = \<lambda>p. map_err (\<lambda>_. InvalidPortablePath) (from_portable p);
          key = collision_key (sl_libs S) in
      if source = target then Inl IdenticalPaths
      else and_then (portable source) (\<lambda>from_path.
      and_then (portable target) (\<lambda>to_path.
      let same_key = (key from_path = key to_path) in
      if same_key \<and> \<not> case_rename then Inl CaseRenameContractRequired
      else if case_rename then
        (case temp of
           None \<Rightarrow> Inl InvalidCaseRenameContract
         | Some t \<Rightarrow> and_then (portable t) (\<lambda>temp_path.
             if \<not> same_key \<or> key temp_path = key from_path \<or> key temp_path = key to_path
             then Inl InvalidCaseRenameContract else Inr ()))
      else
        (case temp of
           None \<Rightarrow> Inr ()
         | Some t \<Rightarrow> and_then (portable t) (\<lambda>temp_path.
             if key temp_path = key from_path \<or> key temp_path = key to_path
             then Inl InvalidCaseRenameContract else Inr ())))))"

fun validate_operation_topology ::
    "snap_libs \<Rightarrow> recovery_operation_kind \<Rightarrow> string \<Rightarrow> string \<Rightarrow> string option \<Rightarrow> journal_error + unit" where
  "validate_operation_topology S NormalMove source target temp =
     and_then (require_content_path S source) (\<lambda>_.
     and_then (require_content_path S target) (\<lambda>_.
     if temp \<noteq> None then Inl InvalidOperationTopology
     else validate_path_relationship S source target False None))"
| "validate_operation_topology S CaseRename source target temp =
     and_then (require_content_path S source) (\<lambda>_.
     and_then (require_content_path S target) (\<lambda>_.
     case temp of
       None \<Rightarrow> Inl InvalidOperationTopology
     | Some t \<Rightarrow> and_then (require_content_path S t) (\<lambda>_.
         validate_path_relationship S source target True (Some t))))"
| "validate_operation_topology S (TrashOperation tid _ _) source target temp =
     and_then (require_content_path S source) (\<lambda>_.
     if target \<noteq> trash_payload_path S ''items'' tid \<or> temp \<noteq> Some (trash_payload_path S ''staging'' tid)
     then Inl InvalidOperationTopology else Inr ())"
| "validate_operation_topology S (RestoreOperation tid _) source target temp =
     and_then (require_content_path S target) (\<lambda>_.
     if source \<noteq> trash_payload_path S ''items'' tid \<or> temp \<noteq> None
     then Inl InvalidOperationTopology else Inr ())"

section \<open>Intents\<close>

record rename_move_intent =
  ri_version :: u32
  ri_operation_id :: uuid
  ri_from :: string
  ri_to :: string
  ri_expected :: file_revision
  ri_temp :: "string option"
  ri_kind :: recovery_operation_kind

definition new_for_kind ::
    "snap_libs \<Rightarrow> uuid \<Rightarrow> recovery_operation_kind \<Rightarrow> string \<Rightarrow> string \<Rightarrow> file_revision \<Rightarrow> string option
      \<Rightarrow> journal_error + rename_move_intent" where
  "new_for_kind S operation_id kind source target expected temp =
     (if is_nil operation_id then Inl InvalidOperationId
      else and_then (operation_kind_validate kind) (\<lambda>_.
      and_then (canonical_portable source) (\<lambda>source.
      and_then (canonical_portable target) (\<lambda>target.
      and_then (canonical_portable_opt temp) (\<lambda>temp.
      and_then (validate_operation_topology S kind source target temp) (\<lambda>_.
      and_then (file_revision_validate expected) (\<lambda>_.
      Inr \<lparr>ri_version = INTENT_VERSION, ri_operation_id = operation_id, ri_from = source, ri_to = target,
        ri_expected = expected, ri_temp = temp, ri_kind = kind\<rparr>)))))))"

definition rename_move_new ::
    "snap_libs \<Rightarrow> uuid \<Rightarrow> string \<Rightarrow> string \<Rightarrow> file_revision \<Rightarrow> journal_error + rename_move_intent" where
  "rename_move_new S operation_id source target expected =
     new_for_kind S operation_id NormalMove source target expected None"

definition new_case_rename ::
    "snap_libs \<Rightarrow> uuid \<Rightarrow> string \<Rightarrow> string \<Rightarrow> file_revision \<Rightarrow> string \<Rightarrow> journal_error + rename_move_intent" where
  "new_case_rename S operation_id source target expected temp =
     new_for_kind S operation_id CaseRename source target expected (Some temp)"

definition new_trash ::
    "snap_libs \<Rightarrow> uuid \<Rightarrow> uuid \<Rightarrow> string \<Rightarrow> 64 word \<Rightarrow> string \<Rightarrow> file_revision
      \<Rightarrow> journal_error + rename_move_intent" where
  "new_trash S operation_id tid digest trashed_at source expected =
     (let target = trash_payload_path S ''items'' tid; temp = trash_payload_path S ''staging'' tid in
      new_for_kind S operation_id (TrashOperation tid digest trashed_at) source target expected (Some temp))"

definition new_restore ::
    "snap_libs \<Rightarrow> uuid \<Rightarrow> uuid \<Rightarrow> string \<Rightarrow> string \<Rightarrow> file_revision \<Rightarrow> journal_error + rename_move_intent" where
  "new_restore S operation_id tid digest target expected =
     (let source = trash_payload_path S ''items'' tid in
      new_for_kind S operation_id (RestoreOperation tid digest) source target expected None)"

definition recovery_intent_validate :: "snap_libs \<Rightarrow> rename_move_intent \<Rightarrow> journal_error + unit" where
  "recovery_intent_validate S i =
     (if ri_version i \<noteq> INTENT_VERSION then Inl (UnsupportedJournalVersion (ri_version i))
      else if is_nil (ri_operation_id i) then Inl InvalidOperationId
      else and_then (operation_kind_validate (ri_kind i)) (\<lambda>_.
      and_then (file_revision_validate (ri_expected i)) (\<lambda>_.
      and_then (canonical_portable (ri_from i)) (\<lambda>source.
      and_then (canonical_portable (ri_to i)) (\<lambda>target.
      and_then (canonical_portable_opt (ri_temp i)) (\<lambda>temp.
      if source \<noteq> ri_from i \<or> target \<noteq> ri_to i \<or> temp \<noteq> ri_temp i then Inl InvalidPortablePath
      else validate_operation_topology S (ri_kind i) source target temp))))))"

section \<open>What recovery finds\<close>

datatype recovery_decision =
    NotStarted | InProgressAtTemp | Committed | DestinationCollided | DuplicateManual | DataLoss | ExternallyMutated

record recovery_topology =
  rt_from :: "file_revision option"
  rt_to :: "file_revision option"
  rt_temp :: "file_revision option"

definition decide_recovery :: "rename_move_intent \<Rightarrow> recovery_topology \<Rightarrow> recovery_decision" where
  "decide_recovery i t = (let expected = ri_expected i in
     case (rt_from t, rt_to t, rt_temp t) of
       (Some source, None, None) \<Rightarrow> if source = expected then NotStarted else ExternallyMutated
     | (None, None, Some temp) \<Rightarrow> if temp = expected then InProgressAtTemp else ExternallyMutated
     | (None, Some target, None) \<Rightarrow> if target = expected then Committed else ExternallyMutated
     | (Some source, Some target, None) \<Rightarrow>
         if source = expected \<and> target = expected then DuplicateManual
         else if source = expected \<and> target \<noteq> expected then DestinationCollided else ExternallyMutated
     | (None, None, None) \<Rightarrow> DataLoss
     | _ \<Rightarrow> ExternallyMutated)"

section \<open>Encodings\<close>

record completion_tombstone =
  ct_version :: u32
  ct_operation_id :: uuid
  ct_intent_blake3_hex :: string

text \<open>
  \<open>serde_json\<close> at the types of the source. \<open>routing_parse\<close> gives the version and the text of the
  operation id, \<open>version_parse\<close> the version alone.
\<close>

record journal_json =
  intent_to_vec :: "rename_move_intent \<Rightarrow> string option"
  intent_parse :: "string \<Rightarrow> rename_move_intent option"
  version_parse :: "string \<Rightarrow> u32 option"
  routing_parse :: "string \<Rightarrow> (u32 \<times> string) option"
  tombstone_to_vec :: "completion_tombstone \<Rightarrow> string option"
  tombstone_parse :: "string \<Rightarrow> completion_tombstone option"

definition canonical_bytes :: "journal_json \<Rightarrow> rename_move_intent \<Rightarrow> journal_error + string" where
  "canonical_bytes J i =
     and_then (ok_or (intent_to_vec J i) JournalJson) (\<lambda>bytes.
     if length bytes > MAX_ENTRY_BYTES then Inl EntryTooLarge else Inr bytes)"

definition tombstone_for_intent ::
    "snap_libs \<Rightarrow> journal_json \<Rightarrow> rename_move_intent \<Rightarrow> journal_error + completion_tombstone" where
  "tombstone_for_intent S J i =
     and_then (canonical_bytes J i) (\<lambda>bytes.
     Inr \<lparr>ct_version = TOMBSTONE_VERSION, ct_operation_id = ri_operation_id i,
       ct_intent_blake3_hex = blake3_to_hex S bytes\<rparr>)"

definition tombstone_validate_for ::
    "snap_libs \<Rightarrow> journal_json \<Rightarrow> completion_tombstone \<Rightarrow> rename_move_intent \<Rightarrow> journal_error + unit" where
  "tombstone_validate_for S J c i =
     and_then (tombstone_for_intent S J i) (\<lambda>expected.
     if c = expected then Inr () else Inl IntentMismatch)"

definition decode_intent :: "journal_json \<Rightarrow> string \<Rightarrow> journal_error + rename_move_intent" where
  "decode_intent J bytes =
     and_then (ok_or (version_parse J bytes) JournalJson) (\<lambda>version.
     if version \<noteq> INTENT_VERSION then Inl (UnsupportedJournalVersion version)
     else ok_or (intent_parse J bytes) JournalJson)"

datatype journal_evidence =
    SupportedIntent rename_move_intent
  | UnsupportedIntent uuid u32

definition routing_from_slice :: "snap_libs \<Rightarrow> journal_json \<Rightarrow> string \<Rightarrow> journal_error + u32 \<times> uuid" where
  "routing_from_slice S J bytes =
     and_then (ok_or (routing_parse J bytes) JournalJson) (\<lambda>(version, id_text).
     and_then (ok_or (uuid_parse_str S id_text) JournalJson) (\<lambda>operation_id.
     if is_nil operation_id \<or> uuid_string S operation_id \<noteq> id_text then Inl JournalJson
     else Inr (version, operation_id)))"

definition classify_evidence ::
    "snap_libs \<Rightarrow> journal_json \<Rightarrow> uuid \<Rightarrow> string \<Rightarrow> journal_error + journal_evidence" where
  "classify_evidence S J operation_id bytes =
     and_then (routing_from_slice S J bytes) (\<lambda>(version, stored_id).
     if stored_id \<noteq> operation_id then Inl InvalidEntryName
     else if version \<noteq> INTENT_VERSION then Inr (UnsupportedIntent operation_id version)
     else and_then (ok_or (intent_parse J bytes) JournalJson) (\<lambda>i.
     and_then (recovery_intent_validate S i) (\<lambda>_.
     if ri_operation_id i \<noteq> operation_id then Inl InvalidEntryName
     else and_then (canonical_bytes J i) (\<lambda>again.
     if again \<noteq> bytes then Inl InvalidEntryName else Inr (SupportedIntent i)))))"

definition entry_name :: "snap_libs \<Rightarrow> uuid \<Rightarrow> string" where
  "entry_name S operation_id = uuid_string S operation_id @ ''.json''"

definition parse_entry_name :: "snap_libs \<Rightarrow> string \<Rightarrow> uuid option" where
  "parse_entry_name S name =
     Option.bind (strip_suffix name ''.json'') (\<lambda>id_text.
     Option.bind (uuid_parse_str S id_text) (\<lambda>operation_id.
     if uuid_string S operation_id = id_text then Some operation_id else None))"

end
