(* ===== verification/Recovery_Journal.thy ===== *)
theory Recovery_Journal
  imports Recovery_Intents
begin

text \<open>
  The operations of \<open>RecoveryJournal\<close> in \<open>crates/myvault-recovery\<close>, on the private tree of
  \<open>Private_Files\<close>. Intents are entries \<open><operation id>.json\<close> of one directory, completion tombstones
  the same names of its child \<open>completed\<close>. The directory synchronisation that the source passes as a
  closure is \<open>sync_held_directory\<close> outside its tests.
\<close>

definition JOURNAL_DIRECTORY :: string where "JOURNAL_DIRECTORY = ''operation-journal''"
definition COMPLETED_DIRECTORY :: string where "COMPLETED_DIRECTORY = ''completed''"

record recovery_journal =
  rj_directory :: fs_path
  rj_completed :: fs_path

type_synonym 'a journal_act = "(journal_error, 'a) act"

abbreviation jpf :: "(private_error, 'a) act \<Rightarrow> 'a journal_act" where
  "jpf m \<equiv> lift_err journal_from_private m"

abbreviation jio :: "(io_kind, 'a) act \<Rightarrow> 'a journal_act" where
  "jio m \<equiv> lift_err JournalIo m"

datatype journal_publish_outcome = EntryPublished | EntryAlreadyPublished

datatype complete_outcome = OperationCompleted | OperationAlreadyCompleted

record 'a journal_page =
  jp_entries :: "'a list"
  jp_next_after :: "uuid option"

section \<open>Files of the journal\<close>

definition sync_held_directory :: "fs_path \<Rightarrow> unit journal_act" where
  "sync_held_directory directory = jpf (sync_directory directory)"

definition sync_after_publish :: "fs_path \<Rightarrow> unit journal_act" where
  "sync_after_publish directory = lift_err published_sync_error (sync_held_directory directory)"

definition journal_rename_noreplace :: "fs_path \<Rightarrow> string \<Rightarrow> string \<Rightarrow> unit journal_act" where
  "journal_rename_noreplace directory source destination =
     jio (sys_rename_noreplace (directory @ [source]) (directory @ [destination]))"

definition read_raw :: "fs_path \<Rightarrow> string \<Rightarrow> string journal_act" where
  "read_raw directory name =
     (let path = directory @ [name] in
      perform (jio (sys_metadata path)) (\<lambda>metadata. case metadata of
          DirNode _ _ \<Rightarrow> fail InvalidEntryName
        | FileNode _ _ named \<Rightarrow>
            if length named > MAX_ENTRY_BYTES then fail EntryTooLarge
            else perform (jio (sys_metadata path)) (\<lambda>_.
              perform (jpf (verify_private_file path)) (\<lambda>_.
              perform (jio (sys_metadata path)) (\<lambda>held. case held of
                  DirNode _ _ \<Rightarrow> fail (JournalIo OtherKind)
                | FileNode _ _ stored \<Rightarrow>
                    (let bytes = take (MAX_ENTRY_BYTES + 1) stored in
                     if length bytes > MAX_ENTRY_BYTES then fail EntryTooLarge else ret bytes))))))"

definition read_raw_if_exists :: "fs_path \<Rightarrow> string \<Rightarrow> string option journal_act" where
  "read_raw_if_exists directory name =
     attempt (read_raw directory name) (\<lambda>r. case r of
         Inr bytes \<Rightarrow> ret (Some bytes)
       | Inl e \<Rightarrow> if e = JournalIo NotFound then ret None else fail e)"

definition publish_temp_name :: "snap_libs \<Rightarrow> uuid \<Rightarrow> string" where
  "publish_temp_name S fresh = ''.publish-'' @ uuid_string S fresh @ ''.tmp''"

definition publish_bytes :: "snap_libs \<Rightarrow> fs_path \<Rightarrow> string \<Rightarrow> string \<Rightarrow> bool journal_act" where
  "publish_bytes S directory final_name bytes =
     perform new_v4 (\<lambda>fresh.
     let temporary_name = publish_temp_name S fresh; temporary = directory @ [temporary_name] in
     perform (jio (sys_create_file temporary)) (\<lambda>_.
     perform (jpf (set_private_file_permissions temporary)) (\<lambda>_.
     perform (jio (sys_write temporary bytes)) (\<lambda>_.
     perform (jio sys_sync) (\<lambda>_.
     perform (jpf (verify_private_file temporary)) (\<lambda>_.
     attempt (journal_rename_noreplace directory temporary_name final_name) (\<lambda>r. case r of
         Inr _ \<Rightarrow> perform (sync_after_publish directory) (\<lambda>_. ret True)
       | Inl e \<Rightarrow> if e = JournalIo AlreadyExists then
           perform (read_raw directory final_name) (\<lambda>actual.
           if actual = bytes then perform (sync_after_publish directory) (\<lambda>_. ret False)
           else fail JournalCollision)
         else fail e)))))))"

section \<open>Opening, publication and completion\<close>

text \<open>The race-checked opening of the two ambient roots is the argument \<open>root\<close>.\<close>

definition journal_open :: "private_error + fs_path \<Rightarrow> recovery_journal journal_act" where
  "journal_open root =
     perform (jpf (of_result root)) (\<lambda>app_directory.
     perform (jpf (create_or_open_private_dir app_directory JOURNAL_DIRECTORY)) (\<lambda>directory.
     perform (jpf (create_or_open_private_dir directory COMPLETED_DIRECTORY)) (\<lambda>completed.
     ret \<lparr>rj_directory = directory, rj_completed = completed\<rparr>)))"

definition compare_published :: "string \<Rightarrow> string \<Rightarrow> journal_error + journal_publish_outcome" where
  "compare_published actual expected =
     (if actual = expected then Inr EntryAlreadyPublished else Inl JournalCollision)"

definition journal_publish ::
    "snap_libs \<Rightarrow> journal_json \<Rightarrow> recovery_journal \<Rightarrow> rename_move_intent
      \<Rightarrow> journal_publish_outcome journal_act" where
  "journal_publish S J j i =
     perform (of_result (recovery_intent_validate S i)) (\<lambda>_.
     perform (of_result (canonical_bytes J i)) (\<lambda>bytes.
     let final_name = entry_name S (ri_operation_id i) in
     perform (read_raw_if_exists (rj_directory j) final_name) (\<lambda>existing. case existing of
         Some actual \<Rightarrow>
           perform (of_result (compare_published actual bytes)) (\<lambda>outcome.
           perform (sync_after_publish (rj_directory j)) (\<lambda>_. ret outcome))
       | None \<Rightarrow>
           perform (publish_bytes S (rj_directory j) final_name bytes) (\<lambda>fresh.
           ret (if fresh then EntryPublished else EntryAlreadyPublished)))))"

definition check_tombstone ::
    "snap_libs \<Rightarrow> journal_json \<Rightarrow> rename_move_intent \<Rightarrow> string \<Rightarrow> journal_error + unit" where
  "check_tombstone S J i actual =
     and_then (ok_or (tombstone_parse J actual) JournalJson) (\<lambda>observed.
     and_then (tombstone_validate_for S J observed i) (\<lambda>_.
     and_then (ok_or (tombstone_to_vec J observed) JournalJson) (\<lambda>again.
     if again \<noteq> actual then Inl IntentMismatch else Inr ())))"

definition journal_complete ::
    "snap_libs \<Rightarrow> journal_json \<Rightarrow> recovery_journal \<Rightarrow> uuid \<Rightarrow> rename_move_intent
      \<Rightarrow> complete_outcome journal_act" where
  "journal_complete S J j operation_id expected =
     perform (of_result (recovery_intent_validate S expected)) (\<lambda>_.
     perform (require (ri_operation_id expected = operation_id) IntentMismatch) (\<lambda>_.
     let final_name = entry_name S operation_id in
     perform (read_raw_if_exists (rj_directory j) final_name) (\<lambda>existing. case existing of
         None \<Rightarrow> fail IntentMismatch
       | Some actual \<Rightarrow>
           perform (of_result (canonical_bytes J expected)) (\<lambda>bytes.
           perform (require (actual = bytes) IntentMismatch) (\<lambda>_.
           perform (of_result (tombstone_for_intent S J expected)) (\<lambda>tombstone.
           perform (of_result (ok_or (tombstone_to_vec J tombstone) JournalJson)) (\<lambda>tombstone_bytes.
           perform (read_raw_if_exists (rj_completed j) final_name) (\<lambda>present. case present of
               Some actual \<Rightarrow>
                 perform (of_result (check_tombstone S J expected actual)) (\<lambda>_.
                 perform (sync_after_publish (rj_completed j)) (\<lambda>_. ret OperationAlreadyCompleted))
             | None \<Rightarrow>
                 perform (publish_bytes S (rj_completed j) final_name tombstone_bytes) (\<lambda>fresh.
                 ret (if fresh then OperationCompleted else OperationAlreadyCompleted))))))))))"

section \<open>Reading\<close>

definition check_entry ::
    "snap_libs \<Rightarrow> journal_json \<Rightarrow> uuid \<Rightarrow> string \<Rightarrow> journal_error + rename_move_intent" where
  "check_entry S J operation_id bytes =
     and_then (decode_intent J bytes) (\<lambda>i.
     and_then (recovery_intent_validate S i) (\<lambda>_.
     if ri_operation_id i \<noteq> operation_id then Inl InvalidEntryName
     else and_then (canonical_bytes J i) (\<lambda>again.
     if again \<noteq> bytes then Inl InvalidEntryName else Inr i)))"

definition journal_read ::
    "snap_libs \<Rightarrow> journal_json \<Rightarrow> recovery_journal \<Rightarrow> uuid \<Rightarrow> rename_move_intent journal_act" where
  "journal_read S J j operation_id =
     perform (read_raw (rj_directory j) (entry_name S operation_id)) (\<lambda>bytes.
     of_result (check_entry S J operation_id bytes))"

definition read_evidence ::
    "snap_libs \<Rightarrow> journal_json \<Rightarrow> recovery_journal \<Rightarrow> uuid \<Rightarrow> journal_evidence journal_act" where
  "read_evidence S J j operation_id =
     perform (read_raw (rj_directory j) (entry_name S operation_id)) (\<lambda>bytes.
     of_result (classify_evidence S J operation_id bytes))"

definition is_valid_tombstone ::
    "snap_libs \<Rightarrow> journal_json \<Rightarrow> rename_move_intent \<Rightarrow> string \<Rightarrow> bool" where
  "is_valid_tombstone S J i bytes = (case tombstone_parse J bytes of
       None \<Rightarrow> False
     | Some c \<Rightarrow> is_ok (tombstone_validate_for S J c i) \<and> is_some_and (tombstone_to_vec J c) (\<lambda>b. b = bytes))"

definition has_valid_completion_for ::
    "snap_libs \<Rightarrow> journal_json \<Rightarrow> recovery_journal \<Rightarrow> rename_move_intent \<Rightarrow> bool journal_act" where
  "has_valid_completion_for S J j i =
     attempt (read_raw_if_exists (rj_completed j) (entry_name S (ri_operation_id i))) (\<lambda>r. case r of
         Inr (Some bytes) \<Rightarrow> ret (is_valid_tombstone S J i bytes)
       | _ \<Rightarrow> ret False)"

definition has_valid_completion ::
    "snap_libs \<Rightarrow> journal_json \<Rightarrow> recovery_journal \<Rightarrow> uuid \<Rightarrow> bool journal_act" where
  "has_valid_completion S J j operation_id =
     perform (journal_read S J j operation_id) (\<lambda>i. has_valid_completion_for S J j i)"

definition directory_entries_bounded :: "recovery_journal \<Rightarrow> string list journal_act" where
  "directory_entries_bounded j =
     perform (jio (sys_entries (rj_directory j))) (\<lambda>names.
     if length names > MAX_DIRECTORY_ENTRY_COUNT then fail TooManyDirectoryEntries else ret names)"

fun collect_active_ids ::
    "snap_libs \<Rightarrow> journal_json \<Rightarrow> recovery_journal \<Rightarrow> uuid list \<Rightarrow> string list \<Rightarrow> uuid list journal_act" where
  "collect_active_ids S J j ids [] = ret ids"
| "collect_active_ids S J j ids (name # names) =
     (if \<not> valid_utf8 name then collect_active_ids S J j ids names
      else case parse_entry_name S name of
        None \<Rightarrow> collect_active_ids S J j ids names
      | Some operation_id \<Rightarrow>
          perform (has_valid_completion S J j operation_id) (\<lambda>completed.
          if completed then collect_active_ids S J j ids names
          else if length (ids @ [operation_id]) > MAX_ENTRY_COUNT then fail TooManyEntries
          else collect_active_ids S J j (ids @ [operation_id]) names))"

definition active_ids ::
    "snap_libs \<Rightarrow> journal_json \<Rightarrow> recovery_journal \<Rightarrow> uuid list journal_act" where
  "active_ids S J j =
     perform (directory_entries_bounded j) (\<lambda>names.
     perform (collect_active_ids S J j [] names) (\<lambda>ids. ret (remdups_adj (sort ids))))"

section \<open>Pages\<close>

text \<open>The identifiers of a page, and whether more follow.\<close>

definition select_page :: "('a \<Rightarrow> uuid) \<Rightarrow> uuid option \<Rightarrow> nat \<Rightarrow> 'a list \<Rightarrow> 'a list \<times> uuid option" where
  "select_page key after limit xs =
     (let selected = take (limit + 1) (filter (\<lambda>x. is_none_or after (\<lambda>cursor. key x > cursor)) xs);
          has_more = length selected > limit;
          selected = take limit selected in
      (selected, if has_more \<and> selected \<noteq> [] then Some (key (last selected)) else None))"

fun collect_reads :: "('a \<Rightarrow> 'b journal_act) \<Rightarrow> 'a list \<Rightarrow> 'b list journal_act" where
  "collect_reads f [] = ret []"
| "collect_reads f (x # xs) =
     perform (f x) (\<lambda>y. perform (collect_reads f xs) (\<lambda>ys. ret (y # ys)))"

definition list_page ::
    "snap_libs \<Rightarrow> journal_json \<Rightarrow> recovery_journal \<Rightarrow> uuid option \<Rightarrow> nat
      \<Rightarrow> rename_move_intent journal_page journal_act" where
  "list_page S J j after limit =
     (if \<not> (1 \<le> limit \<and> limit \<le> MAX_PAGE_SIZE) then fail InvalidPageSize
      else perform (active_ids S J j) (\<lambda>ids.
        let (selected, next_after) = select_page (\<lambda>x. x) after limit ids in
        perform (collect_reads (journal_read S J j) selected) (\<lambda>entries.
        ret \<lparr>jp_entries = entries, jp_next_after = next_after\<rparr>)))"

fun collect_evidence ::
    "snap_libs \<Rightarrow> journal_json \<Rightarrow> recovery_journal \<Rightarrow> (uuid \<times> journal_evidence) list \<Rightarrow> string list
      \<Rightarrow> (uuid \<times> journal_evidence) list journal_act" where
  "collect_evidence S J j entries [] = ret entries"
| "collect_evidence S J j entries (name # names) =
     (if \<not> valid_utf8 name then collect_evidence S J j entries names
      else case parse_entry_name S name of
        None \<Rightarrow> collect_evidence S J j entries names
      | Some operation_id \<Rightarrow>
          perform (read_evidence S J j operation_id) (\<lambda>evidence.
          perform (case evidence of
              SupportedIntent i \<Rightarrow> perform (has_valid_completion_for S J j i) (\<lambda>completed. ret (\<not> completed))
            | UnsupportedIntent _ _ \<Rightarrow> ret True) (\<lambda>active.
          if \<not> active then collect_evidence S J j entries names
          else if length (entries @ [(operation_id, evidence)]) > MAX_ENTRY_COUNT then fail TooManyEntries
          else collect_evidence S J j (entries @ [(operation_id, evidence)]) names)))"

text \<open>\<open>dedup_by_key\<close> keeps the first of equal neighbours.\<close>

fun dedup_by_key :: "('a \<Rightarrow> 'k) \<Rightarrow> 'a list \<Rightarrow> 'a list" where
  "dedup_by_key key [] = []"
| "dedup_by_key key [x] = [x]"
| "dedup_by_key key (x # y # xs) =
     (if key x = key y then dedup_by_key key (x # xs) else x # dedup_by_key key (y # xs))"

definition list_evidence_page ::
    "snap_libs \<Rightarrow> journal_json \<Rightarrow> recovery_journal \<Rightarrow> uuid option \<Rightarrow> nat
      \<Rightarrow> journal_evidence journal_page journal_act" where
  "list_evidence_page S J j after limit =
     (if \<not> (1 \<le> limit \<and> limit \<le> MAX_PAGE_SIZE) then fail InvalidPageSize
      else perform (directory_entries_bounded j) (\<lambda>names.
        perform (collect_evidence S J j [] names) (\<lambda>entries.
        let (selected, next_after) = select_page fst after limit (dedup_by_key fst (sort_key fst entries)) in
        ret \<lparr>jp_entries = map snd selected, jp_next_after = next_after\<rparr>)))"

end
