(* ===== verification/Journal_Safety.thy ===== *)
theory Journal_Safety
  imports Recovery_Journal Snapshot_Publish
begin

text \<open>
  What the recovery journal may do to the tree, whatever fails: it is append-only, every new entry is
  the canonical encoding of a valid intent under its own name, and a new tombstone stands beside the
  intent it completes.
\<close>

lemma perform_pure:
  "perform (of_result (Inr x)) f = f x" "perform (of_result (Inl e)) f = fail e"
  "perform (require True e) g = g ()" "perform (require False e) g = fail e"
  by (simp_all add: perform_def of_result_def require_def ret_def fail_def fun_eq_iff)

lemma triple_strengthen: "triple P m Q E \<Longrightarrow> (\<And>t. P' t \<Longrightarrow> P t) \<Longrightarrow> triple P' m Q E"
  by (simp add: triple_def)

section \<open>Names\<close>

lemma entry_name_not_temp: "entry_name S u \<noteq> publish_temp_name S f"
proof
  assume "entry_name S u = publish_temp_name S f"
  then have "last (entry_name S u) = last (publish_temp_name S f)" by simp
  then show False by (simp add: entry_name_def publish_temp_name_def)
qed

lemma entry_name_inject: "uuid_text_ok S \<Longrightarrow> entry_name S u = entry_name S v \<longleftrightarrow> u = v"
  by (auto simp: entry_name_def uuid_text_ok_def) (metis option.inject)

lemma parse_entry_name_entry: "uuid_text_ok S \<Longrightarrow> parse_entry_name S (entry_name S u) = Some u"
  by (simp add: parse_entry_name_def entry_name_def uuid_text_ok_def)

lemma parse_entry_name_SomeD: "parse_entry_name S n = Some u \<Longrightarrow> n = entry_name S u"
  by (auto simp: parse_entry_name_def entry_name_def bind_eq_Some_conv dest!: strip_suffix_SomeD split: if_splits)

lemma completed_not_entry: "COMPLETED_DIRECTORY \<noteq> entry_name S u" "COMPLETED_DIRECTORY \<noteq> publish_temp_name S u"
proof -
  show "COMPLETED_DIRECTORY \<noteq> entry_name S u"
  proof
    assume "COMPLETED_DIRECTORY = entry_name S u"
    then have "last COMPLETED_DIRECTORY = last (entry_name S u)" by simp
    then show False by (simp add: COMPLETED_DIRECTORY_def entry_name_def)
  qed
  show "COMPLETED_DIRECTORY \<noteq> publish_temp_name S u"
    by (simp add: COMPLETED_DIRECTORY_def publish_temp_name_def)
qed

section \<open>Reading\<close>

lemma reads_read_raw [read_intros]: "reads (read_raw d n)"
  unfolding read_raw_def Let_def by (intro read_intros)

lemma reads_read_raw_if_exists [read_intros]: "reads (read_raw_if_exists d n)"
  unfolding read_raw_if_exists_def by (intro read_intros)

lemma reads_sync_after_publish [read_intros]: "reads (sync_after_publish d)"
  unfolding sync_after_publish_def sync_held_directory_def by (intro read_intros)

lemma learns_read_raw:
  "learns (read_raw d n) (\<lambda>bytes t. file_holds t (d @ [n]) bytes \<and> length bytes \<le> MAX_ENTRY_BYTES)"
  unfolding read_raw_def Let_def
proof (rule learns_then, intro read_intros)
  have tail: "learns (perform (jio (sys_metadata (d @ [n]))) (\<lambda>_.
        perform (jpf (verify_private_file (d @ [n]))) (\<lambda>_.
        perform (jio (sys_metadata (d @ [n]))) (\<lambda>held. case held of
            DirNode _ _ \<Rightarrow> fail (JournalIo OtherKind)
          | FileNode _ _ stored \<Rightarrow>
              if length (take (MAX_ENTRY_BYTES + 1) stored) > MAX_ENTRY_BYTES then fail EntryTooLarge
              else ret (take (MAX_ENTRY_BYTES + 1) stored)))))
      (\<lambda>bytes t. file_holds t (d @ [n]) bytes \<and> length bytes \<le> MAX_ENTRY_BYTES)"
    by (rule learns_then, intro read_intros,
        rule learns_perform [OF learns_lift_err [OF learns_verify_private_file]], intro read_intros,
        rule learns_perform [OF learns_lift_err [OF learns_sys_metadata]], intro read_intros)
      (auto intro!: learns_if learns_ret learns_fail simp: file_holds_def split: node.splits)
  show "learns (case m of
        DirNode _ _ \<Rightarrow> fail InvalidEntryName
      | FileNode _ _ named \<Rightarrow>
          if length named > MAX_ENTRY_BYTES then fail EntryTooLarge
          else perform (jio (sys_metadata (d @ [n]))) (\<lambda>_.
            perform (jpf (verify_private_file (d @ [n]))) (\<lambda>_.
            perform (jio (sys_metadata (d @ [n]))) (\<lambda>held. case held of
                DirNode _ _ \<Rightarrow> fail (JournalIo OtherKind)
              | FileNode _ _ stored \<Rightarrow>
                  if length (take (MAX_ENTRY_BYTES + 1) stored) > MAX_ENTRY_BYTES then fail EntryTooLarge
                  else ret (take (MAX_ENTRY_BYTES + 1) stored)))))
      (\<lambda>bytes t. file_holds t (d @ [n]) bytes \<and> length bytes \<le> MAX_ENTRY_BYTES)" for m
  proof (cases m)
    case (FileNode i b c)
    show ?thesis unfolding FileNode node.case by (rule learns_if [OF learns_fail tail])
  qed (simp add: learns_fail)
qed

lemma learns_read_raw_if_exists:
  "learns (read_raw_if_exists d n)
     (\<lambda>r t. \<forall>bytes. r = Some bytes \<longrightarrow> file_holds t (d @ [n]) bytes \<and> length bytes \<le> MAX_ENTRY_BYTES)"
  unfolding read_raw_if_exists_def
  by (rule learns_attempt [OF reads_read_raw _ learns_read_raw])
    (auto intro!: read_intros learns_ret learns_fail learns_if)

section \<open>Publishing bytes\<close>

text \<open>Nothing present changes; what is new is a temporary file or the final file with its bytes.\<close>

definition bytes_published :: "snap_libs \<Rightarrow> fs_path \<Rightarrow> string \<Rightarrow> string \<Rightarrow> tree \<Rightarrow> tree \<Rightarrow> bool" where
  "bytes_published S d final bytes t u =
     (\<forall>p. if node_at t p = None
          then node_at u p = None \<or> (\<exists>f. p = d @ [publish_temp_name S f])
               \<or> p = d @ [final] \<and> file_holds u p bytes
          else node_at u p = node_at t p)"

lemma bytes_published_refl: "bytes_published S d final bytes t t"
  by (simp add: bytes_published_def)

lemma bytes_published_temp:
  "\<not> occupied t (d @ [publish_temp_name S f]) \<Longrightarrow> changed_at (d @ [publish_temp_name S f]) t u
     \<Longrightarrow> bytes_published S d final bytes t u"
  by (auto simp: bytes_published_def changed_at_def not_occupied) (metis prefix_order.refl option.discI)

lemma bytes_published_renamed:
  assumes temp: "\<not> occupied t p" "changed_at p t v" and p: "p = d @ [publish_temp_name S f]"
    and holds: "file_holds v p bytes" and q: "q = d @ [final]" "\<not> occupied v q" "p \<noteq> q"
  shows "bytes_published S d final bytes t (move_tree p q v) \<and> file_holds (move_tree p q v) q bytes"
proof -
  let ?u = "move_tree p q v"
  have inside: "node_at ?u (q @ r) = node_at v (p @ r)" for r by (rule node_at_move_inside [OF q(2)])
  have outside: "node_at ?u r = (if prefix p r then None else node_at v r)" if "\<not> prefix q r" for r
    by (rule node_at_move_outside [OF that])
  have below: "node_at t (p @ r) = None" for r using temp(1) by (simp add: not_occupied)
  have rest: "node_at v r = node_at t r" if "r \<noteq> p" for r using temp(2) that by (simp add: changed_at_def)
  have final: "file_holds ?u q bytes" using inside [of "[]"] holds by (simp add: file_holds_def)
  have free: "node_at t (q @ r) = None" for r
  proof -
    have "node_at v (q @ r) = None" using q(2) by (simp add: not_occupied)
    moreover have "q @ r \<noteq> p" using p q by (auto simp: append_eq_append_conv2)
    ultimately show ?thesis using rest by simp
  qed
  have "if node_at t r = None then node_at ?u r = None \<or> (\<exists>f. r = d @ [publish_temp_name S f])
      \<or> r = d @ [final] \<and> file_holds ?u r bytes else node_at ?u r = node_at t r" for r
  proof (cases "prefix q r")
    case True
    then obtain s where r: "r = q @ s" by (auto simp: prefix_def)
    have "node_at ?u r = None" if "s \<noteq> []"
      using that inside [of s] rest [of "p @ s"] below [of s] r by simp
    then show ?thesis using free [of s] final r q(1) by (cases s) auto
  next
    case False
    have "r \<noteq> p" if "\<not> prefix p r" using that by auto
    then show ?thesis using outside [OF False] below rest [of r] by (cases "prefix p r") (auto simp: prefix_def)
  qed
  then show ?thesis using final by (simp add: bytes_published_def)
qed

lemma triple_publish_bytes:
  assumes final: "\<And>f. final \<noteq> publish_temp_name S f"
  shows "triple (\<lambda>t. t = t0) (publish_bytes S d final bytes)
     (\<lambda>_ u. bytes_published S d final bytes t0 u \<and> file_holds u (d @ [final]) bytes)
     (bytes_published S d final bytes t0)"
proof -
  let ?E = "bytes_published S d final bytes t0"
  let ?Q = "\<lambda>_ u. ?E u \<and> file_holds u (d @ [final]) bytes"
  let ?A = "\<lambda>p t. \<not> occupied t0 p \<and> changed_at p t0 t"
  have E: "?E t" if "?A (d @ [publish_temp_name S f]) t" for f t
    using bytes_published_temp that by blast
  have create: "triple (\<lambda>t. t = t0) (jio (sys_create_file p))
      (\<lambda>_ t. ?A p t \<and> (\<exists>i b. node_at t p = Some (FileNode i b []))) ?E" for p
    by (rule triple_lift_err, rule triple_weaken [OF triple_sys_create_file])
      (auto simp: node_at_put bytes_published_refl intro: changed_at_put)
  have perm: "triple (\<lambda>t. ?A p t \<and> (\<exists>i b. node_at t p = Some (FileNode i b []))) (jpf (set_private_file_permissions p))
      (\<lambda>_ t. ?A p t \<and> file_holds t p []) ?E" if p: "p = d @ [publish_temp_name S f]" for p f
    unfolding set_private_file_permissions_def
    by (rule triple_lift_err, rule triple_lift_err, rule triple_pull, rule triple_weaken [OF triple_sys_set_private])
      (use E p in \<open>auto simp: node_at_put file_holds_def intro: changed_at_trans [OF _ changed_at_put]\<close>)
  have fill: "triple (\<lambda>t. ?A p t \<and> file_holds t p []) (jio (sys_write p bytes))
      (\<lambda>_ t. ?A p t \<and> file_holds t p bytes) ?E" if p: "p = d @ [publish_temp_name S f]" for p f
    by (rule triple_lift_err, rule triple_pull, rule triple_weaken [OF triple_sys_write])
      (use E p in \<open>auto simp: node_at_put file_holds_def intro: changed_at_trans [OF _ changed_at_put]\<close>)
  have finish: "triple (?Q x) (perform (sync_after_publish d) (\<lambda>_. ret b)) ?Q ?E" for x :: bool and b
    by (rule triple_read_then, intro read_intros, blast, rule triple_ret) auto
  have rename: "triple (\<lambda>t. ?A p t \<and> file_holds t p bytes)
      (journal_rename_noreplace d (publish_temp_name S f) final) (\<lambda>_. ?Q True) ?E"
    if p: "p = d @ [publish_temp_name S f]" for p f
    unfolding journal_rename_noreplace_def
    apply (rule triple_lift_err, rule triple_pull, rule triple_weaken [OF triple_sys_rename_noreplace])
      apply simp
    subgoal for u x t
      using bytes_published_renamed [of t0 p u d S f bytes "d @ [final]" final] p final by auto
    subgoal for u t using E p by auto
    done
  have collided: "triple ?E (perform (read_raw d final) (\<lambda>actual.
        if actual = bytes then perform (sync_after_publish d) (\<lambda>_. ret False) else fail JournalCollision)) ?Q ?E"
    by (rule triple_learn_then [OF _ learns_read_raw], intro read_intros, assumption, rule triple_if,
        rule triple_read_then, intro read_intros, blast, rule triple_ret) (auto intro: triple_fail)
  show ?thesis
    unfolding publish_bytes_def Let_def
    apply (rule triple_perform [OF triple_new_v4])
    apply (rule triple_perform [OF create])
    apply (rule triple_perform [OF perm], rule refl)
    apply (rule triple_perform [OF fill], rule refl)
    apply (rule triple_read_then, intro read_intros, use E in blast)
    apply (rule triple_read_then, intro read_intros, use E in blast)
    apply (rule triple_attempt [OF rename], rule refl)
     apply (simp, rule finish)
    apply (auto intro!: triple_fail collided)
    done
qed


section \<open>The discipline of the journal\<close>

definition intent_stored ::
    "snap_libs \<Rightarrow> journal_json \<Rightarrow> recovery_journal \<Rightarrow> rename_move_intent \<Rightarrow> tree \<Rightarrow> bool" where
  "intent_stored S J j i t = (recovery_intent_validate S i = Inr ()
     \<and> (\<exists>bytes. canonical_bytes J i = Inr bytes
          \<and> file_holds t (rj_directory j @ [entry_name S (ri_operation_id i)]) bytes))"

definition tombstone_stored ::
    "snap_libs \<Rightarrow> journal_json \<Rightarrow> recovery_journal \<Rightarrow> rename_move_intent \<Rightarrow> tree \<Rightarrow> bool" where
  "tombstone_stored S J j i t = (intent_stored S J j i t
     \<and> (\<exists>c bytes. tombstone_for_intent S J i = Inr c \<and> tombstone_to_vec J c = Some bytes
          \<and> file_holds t (rj_completed j @ [entry_name S (ri_operation_id i)]) bytes))"

definition new_in_journal ::
    "snap_libs \<Rightarrow> journal_json \<Rightarrow> recovery_journal \<Rightarrow> tree \<Rightarrow> fs_path \<Rightarrow> bool" where
  "new_in_journal S J j u p =
     ((\<exists>f. p = rj_directory j @ [publish_temp_name S f] \<or> p = rj_completed j @ [publish_temp_name S f])
    \<or> (\<exists>i. p = rj_directory j @ [entry_name S (ri_operation_id i)] \<and> intent_stored S J j i u)
    \<or> (\<exists>i. p = rj_completed j @ [entry_name S (ri_operation_id i)] \<and> tombstone_stored S J j i u))"

definition journal_keeps ::
    "snap_libs \<Rightarrow> journal_json \<Rightarrow> recovery_journal \<Rightarrow> tree \<Rightarrow> tree \<Rightarrow> bool" where
  "journal_keeps S J j t u = (\<forall>p. if node_at t p = None
     then node_at u p = None \<or> new_in_journal S J j u p else node_at u p = node_at t p)"

lemma journal_keeps_node: "journal_keeps S J j t u \<Longrightarrow> node_at t p = Some n \<Longrightarrow> node_at u p = Some n"
  by (auto simp: journal_keeps_def split: if_splits dest!: spec [of _ p])

lemma journal_keeps_file: "journal_keeps S J j t u \<Longrightarrow> file_holds t p bytes \<Longrightarrow> file_holds u p bytes"
  by (auto simp: file_holds_def dest: journal_keeps_node)

lemma journal_keeps_intent: "journal_keeps S J j t u \<Longrightarrow> intent_stored S J j i t \<Longrightarrow> intent_stored S J j i u"
  by (auto simp: intent_stored_def dest: journal_keeps_file)

lemma journal_keeps_tombstone:
  "journal_keeps S J j t u \<Longrightarrow> tombstone_stored S J j i t \<Longrightarrow> tombstone_stored S J j i u"
  by (auto simp: tombstone_stored_def journal_keeps_intent dest: journal_keeps_file)

lemma journal_keeps_new: "journal_keeps S J j t u \<Longrightarrow> new_in_journal S J j t p \<Longrightarrow> new_in_journal S J j u p"
  unfolding new_in_journal_def using journal_keeps_intent journal_keeps_tombstone by blast

interpretation journal: discipline "journal_keeps S J j" for S J j
proof
  show "journal_keeps S J j t t" for t by (simp add: journal_keeps_def)
  fix t u v
  assume tu: "journal_keeps S J j t u" and uv: "journal_keeps S J j u v"
  show "journal_keeps S J j t v"
    unfolding journal_keeps_def
  proof
    fix p
    show "if node_at t p = None then node_at v p = None \<or> new_in_journal S J j v p else node_at v p = node_at t p"
    proof (cases "node_at t p")
      case None
      then have "node_at u p = None \<or> new_in_journal S J j u p" using tu by (auto simp: journal_keeps_def split: if_splits)
      moreover have "node_at u p = None \<Longrightarrow> node_at v p = None \<or> new_in_journal S J j v p"
        using uv by (auto simp: journal_keeps_def split: if_splits)
      ultimately show ?thesis using None journal_keeps_new [OF uv] by auto
    next
      case (Some n)
      then show ?thesis using journal_keeps_node [OF tu Some] journal_keeps_node [OF uv] by simp
    qed
  qed
qed

lemma published_intent_keeps:
  assumes "bytes_published S (rj_directory j) (entry_name S (ri_operation_id i)) bytes t u"
    and "recovery_intent_validate S i = Inr ()" "canonical_bytes J i = Inr bytes"
  shows "journal_keeps S J j t u"
  unfolding journal_keeps_def
proof
  fix p
  from assms(1) have "if node_at t p = None then node_at u p = None
      \<or> (\<exists>f. p = rj_directory j @ [publish_temp_name S f])
      \<or> p = rj_directory j @ [entry_name S (ri_operation_id i)] \<and> file_holds u p bytes
    else node_at u p = node_at t p" unfolding bytes_published_def by (rule spec)
  then show "if node_at t p = None then node_at u p = None \<or> new_in_journal S J j u p else node_at u p = node_at t p"
    using assms(2,3) by (auto simp: new_in_journal_def intent_stored_def split: if_splits)
qed

lemma published_tombstone_keeps:
  assumes pub: "bytes_published S (rj_completed j) (entry_name S (ri_operation_id i)) bytes t u"
    and i: "intent_stored S J j i t" and c: "tombstone_for_intent S J i = Inr c" "tombstone_to_vec J c = Some bytes"
  shows "journal_keeps S J j t u"
proof -
  have keep: "node_at u p = node_at t p" if "node_at t p \<noteq> None" for p
    using pub that by (auto simp: bytes_published_def dest: spec [of _ p])
  have "intent_stored S J j i u"
    using i keep by (fastforce simp: intent_stored_def file_holds_def)
  show ?thesis
    unfolding journal_keeps_def
  proof
    fix p
    from pub have "if node_at t p = None then node_at u p = None
        \<or> (\<exists>f. p = rj_completed j @ [publish_temp_name S f])
        \<or> p = rj_completed j @ [entry_name S (ri_operation_id i)] \<and> file_holds u p bytes
      else node_at u p = node_at t p" unfolding bytes_published_def by (rule spec)
    then show "if node_at t p = None then node_at u p = None \<or> new_in_journal S J j u p else node_at u p = node_at t p"
      using c \<open>intent_stored S J j i u\<close> by (auto simp: new_in_journal_def tombstone_stored_def split: if_splits)
  qed
qed

section \<open>Publication and completion\<close>

lemma triple_journal_publish:
  "triple (\<lambda>t. t = t0) (journal_publish S J j i)
     (\<lambda>_ u. journal_keeps S J j t0 u \<and> intent_stored S J j i u) (journal_keeps S J j t0)"
proof (cases "recovery_intent_validate S i = Inr () \<and> is_ok (canonical_bytes J i)")
  case False
  then show ?thesis
    unfolding journal_publish_def
    by (cases "recovery_intent_validate S i"; cases "canonical_bytes J i")
      (auto simp: triple_def perform_def of_result_def journal.K_refl)
next
  case True
  then obtain bytes where v: "recovery_intent_validate S i = Inr ()" and b: "canonical_bytes J i = Inr bytes"
    by (auto simp: is_ok_iff)
  let ?n = "entry_name S (ri_operation_id i)"
  have finish: "triple (\<lambda>t. journal_keeps S J j t0 t \<and> intent_stored S J j i t)
      (perform (sync_after_publish (rj_directory j)) (\<lambda>_. ret x))
      (\<lambda>_ u. journal_keeps S J j t0 u \<and> intent_stored S J j i u) (journal_keeps S J j t0)" for x
    by (rule triple_read_then, intro read_intros, blast, rule triple_ret) auto
  have wrote: "triple (\<lambda>t. t = t0) (publish_bytes S (rj_directory j) ?n bytes)
      (\<lambda>_ u. journal_keeps S J j t0 u \<and> intent_stored S J j i u) (journal_keeps S J j t0)"
    by (rule triple_weaken [OF triple_publish_bytes])
      (use entry_name_not_temp v b in \<open>auto simp: intent_stored_def intro: published_intent_keeps\<close>)
  show ?thesis
    unfolding journal_publish_def Let_def v b
    apply (rule triple_perform [where Q = "\<lambda>_ t. t = t0"], rule triple_of_result, simp, simp)
    apply (rule triple_perform [where Q = "\<lambda>bs t. t = t0 \<and> bs = bytes"], rule triple_of_result, simp, simp)
    apply (rule triple_pure, simp)
    apply (rule triple_learn_then [OF _ learns_read_raw_if_exists], intro read_intros)
     apply (simp add: journal.K_refl)
    subgoal for existing
    proof (cases existing)
      case None
      then show ?thesis
        by simp (rule triple_perform [OF wrote], rule triple_ret, simp)
    next
      case (Some actual)
      have "triple (\<lambda>t. t = t0 \<and> file_holds t (rj_directory j @ [?n]) actual)
          (of_result (compare_published actual bytes))
          (\<lambda>_ t. journal_keeps S J j t0 t \<and> intent_stored S J j i t) (journal_keeps S J j t0)"
        by (rule triple_of_result)
          (auto simp: compare_published_def intent_stored_def v b journal.K_refl split: if_splits)
      from triple_perform [OF this finish] show ?thesis
        unfolding Some option.case by (rule triple_strengthen) simp
    qed
    done
qed

lemma check_tombstone_stored:
  assumes "check_tombstone S J i actual = Inr ()"
  obtains c where "tombstone_for_intent S J i = Inr c" "tombstone_to_vec J c = Some actual"
  using assms by (auto simp: check_tombstone_def tombstone_validate_for_def split: if_splits)

lemma triple_journal_complete:
  "triple (\<lambda>t. t = t0) (journal_complete S J j op i)
     (\<lambda>_ u. journal_keeps S J j t0 u \<and> tombstone_stored S J j i u) (journal_keeps S J j t0)"
proof -
  let ?n = "entry_name S (ri_operation_id i)"
  let ?K = "journal_keeps S J j t0"
  let ?Q = "\<lambda>_ u. ?K u \<and> tombstone_stored S J j i u"
  have finish: "triple (\<lambda>t. ?K t \<and> tombstone_stored S J j i t)
      (perform (sync_after_publish (rj_completed j)) (\<lambda>_. ret x)) ?Q ?K" for x
    by (rule triple_read_then, intro read_intros, blast, rule triple_ret) auto
  have wrote: "triple (\<lambda>t. t = t0 \<and> intent_stored S J j i t)
      (perform (publish_bytes S (rj_completed j) ?n bytes)
        (\<lambda>fresh. ret (if fresh then OperationCompleted else OperationAlreadyCompleted))) ?Q ?K"
    if c: "tombstone_for_intent S J i = Inr c" "tombstone_to_vec J c = Some bytes" for c bytes
  proof (rule triple_perform [where Q = "\<lambda>_ u. ?K u \<and> tombstone_stored S J j i u"])
    have k: "?K u" if "bytes_published S (rj_completed j) ?n bytes t0 u" "intent_stored S J j i t0" for u
      by (rule published_tombstone_keeps [OF that c])
    show "triple (\<lambda>t. t = t0 \<and> intent_stored S J j i t) (publish_bytes S (rj_completed j) ?n bytes) ?Q ?K"
      unfolding triple_def
    proof (intro allI impI)
      fix w :: world
      assume w: "w_tree w = t0 \<and> intent_stored S J j i (w_tree w)"
      then show "case fst (publish_bytes S (rj_completed j) ?n bytes w) of
            Inl _ \<Rightarrow> ?K (w_tree (snd (publish_bytes S (rj_completed j) ?n bytes w)))
          | Inr x \<Rightarrow> ?Q x (w_tree (snd (publish_bytes S (rj_completed j) ?n bytes w)))"
        using triple_publish_bytes [of ?n S t0 "rj_completed j" bytes, OF entry_name_not_temp,
            unfolded triple_def, rule_format, of w] k c journal_keeps_intent [of S J j t0 _ i]
        by (auto simp: tombstone_stored_def split: sum.splits)
    qed
  qed (auto intro: triple_ret)
  have present: "triple (\<lambda>t. t = t0 \<and> intent_stored S J j i t \<and> file_holds t (rj_completed j @ [?n]) actual)
      (perform (of_result (check_tombstone S J i actual)) (\<lambda>_.
       perform (sync_after_publish (rj_completed j)) (\<lambda>_. ret OperationAlreadyCompleted))) ?Q ?K" for actual
    by (rule triple_perform [OF _ finish], rule triple_of_result)
      (auto simp: journal.K_refl tombstone_stored_def elim!: check_tombstone_stored)
  have tail: "triple (\<lambda>t. t = t0 \<and> intent_stored S J j i t)
      (perform (read_raw_if_exists (rj_completed j) ?n) (\<lambda>present. case present of
           Some actual \<Rightarrow>
             perform (of_result (check_tombstone S J i actual)) (\<lambda>_.
             perform (sync_after_publish (rj_completed j)) (\<lambda>_. ret OperationAlreadyCompleted))
         | None \<Rightarrow>
             perform (publish_bytes S (rj_completed j) ?n bytes) (\<lambda>fresh.
             ret (if fresh then OperationCompleted else OperationAlreadyCompleted)))) ?Q ?K"
    if c: "tombstone_for_intent S J i = Inr c" "tombstone_to_vec J c = Some bytes" for c bytes
    apply (rule triple_learn_then [OF _ learns_read_raw_if_exists], intro read_intros, simp add: journal.K_refl)
    subgoal for x
      using wrote [OF c] by (cases x) (auto intro: triple_strengthen [OF present])
    done
  have body: "triple (\<lambda>t. t = t0 \<and> file_holds t (rj_directory j @ [?n]) actual)
      (perform (of_result (canonical_bytes J i)) (\<lambda>bytes.
       perform (require (actual = bytes) IntentMismatch) (\<lambda>_.
       perform (of_result (tombstone_for_intent S J i)) (\<lambda>tombstone.
       perform (of_result (ok_or (tombstone_to_vec J tombstone) JournalJson)) (\<lambda>tombstone_bytes.
       perform (read_raw_if_exists (rj_completed j) ?n) (\<lambda>present. case present of
           Some actual \<Rightarrow>
             perform (of_result (check_tombstone S J i actual)) (\<lambda>_.
             perform (sync_after_publish (rj_completed j)) (\<lambda>_. ret OperationAlreadyCompleted))
         | None \<Rightarrow>
             perform (publish_bytes S (rj_completed j) ?n tombstone_bytes) (\<lambda>fresh.
             ret (if fresh then OperationCompleted else OperationAlreadyCompleted)))))))) ?Q ?K"
    if v: "recovery_intent_validate S i = Inr ()" for actual
  proof (cases "\<exists>c tb. canonical_bytes J i = Inr actual \<and> tombstone_for_intent S J i = Inr c \<and> tombstone_to_vec J c = Some tb")
    case True
    then obtain c tb where c: "canonical_bytes J i = Inr actual" "tombstone_for_intent S J i = Inr c" "tombstone_to_vec J c = Some tb"
      by blast
    from tail [OF c(2,3)] show ?thesis
      by (simp add: c perform_pure) (erule triple_strengthen, simp add: intent_stored_def v c)
  next
    case False
    then show ?thesis
      by (cases "canonical_bytes J i"; cases "tombstone_for_intent S J i"; cases "actual = projr (canonical_bytes J i)";
          cases "tombstone_to_vec J (projr (tombstone_for_intent S J i))")
        (auto simp: perform_pure journal.K_refl intro: triple_fail)
  qed
  show ?thesis
  proof (cases "recovery_intent_validate S i = Inr () \<and> ri_operation_id i = op")
    case False
    then show ?thesis
      by (cases "recovery_intent_validate S i")
        (auto simp: journal_complete_def perform_pure journal.K_refl intro: triple_fail)
  next
    case True
    then show ?thesis
      unfolding journal_complete_def Let_def
      apply (simp add: perform_pure)
      apply (rule triple_learn_then [OF _ learns_read_raw_if_exists], intro read_intros, simp add: journal.K_refl)
      subgoal for existing
        by (cases existing) (auto simp: journal.K_refl intro: triple_fail triple_strengthen [OF body])
      done
  qed
qed

section \<open>Histories\<close>

lemma reads_journal_read [read_intros]: "reads (journal_read S J j op)"
  unfolding journal_read_def by (intro read_intros)

lemma reads_read_evidence [read_intros]: "reads (read_evidence S J j op)"
  unfolding read_evidence_def by (intro read_intros)

lemma reads_has_valid_completion_for [read_intros]: "reads (has_valid_completion_for S J j i)"
  unfolding has_valid_completion_for_def by (intro read_intros)

lemma reads_has_valid_completion [read_intros]: "reads (has_valid_completion S J j op)"
  unfolding has_valid_completion_def by (intro read_intros)

lemma reads_directory_entries_bounded [read_intros]: "reads (directory_entries_bounded j)"
  unfolding directory_entries_bounded_def by (intro read_intros)

lemma reads_collect_active_ids [read_intros]: "reads (collect_active_ids S J j ids names)"
  by (induction names arbitrary: ids) (auto intro!: read_intros split: option.split)

lemma reads_active_ids [read_intros]: "reads (active_ids S J j)"
  unfolding active_ids_def by (intro read_intros)

lemma reads_collect_reads [read_intros]: "(\<And>x. reads (f x)) \<Longrightarrow> reads (collect_reads f xs)"
  by (induction xs) (auto intro!: read_intros)

lemma reads_list_page [read_intros]: "reads (list_page S J j after limit)"
  unfolding list_page_def Let_def by (intro read_intros)

lemma reads_collect_evidence [read_intros]: "reads (collect_evidence S J j entries names)"
  by (induction names arbitrary: entries)
    (auto intro!: read_intros split: option.split journal_evidence.split)

lemma reads_list_evidence_page [read_intros]: "reads (list_evidence_page S J j after limit)"
  unfolding list_evidence_page_def Let_def by (intro read_intros)

datatype journal_request =
    CallPublish rename_move_intent
  | CallComplete uuid rename_move_intent
  | CallRead uuid
  | CallReadEvidence uuid
  | CallListPage "uuid option" nat
  | CallListEvidencePage "uuid option" nat

fun journal_call :: "snap_libs \<Rightarrow> journal_json \<Rightarrow> recovery_journal \<Rightarrow> journal_request \<Rightarrow> world \<Rightarrow> world" where
  "journal_call S J j (CallPublish i) w = snd (journal_publish S J j i w)"
| "journal_call S J j (CallComplete op i) w = snd (journal_complete S J j op i w)"
| "journal_call S J j (CallRead op) w = snd (journal_read S J j op w)"
| "journal_call S J j (CallReadEvidence op) w = snd (read_evidence S J j op w)"
| "journal_call S J j (CallListPage after limit) w = snd (list_page S J j after limit w)"
| "journal_call S J j (CallListEvidencePage after limit) w = snd (list_evidence_page S J j after limit w)"

fun journal_run :: "snap_libs \<Rightarrow> journal_json \<Rightarrow> recovery_journal \<Rightarrow> journal_request list \<Rightarrow> world \<Rightarrow> world" where
  "journal_run S J j [] w = w"
| "journal_run S J j (c # cs) w = journal_run S J j cs (journal_call S J j c w)"

lemma journal_publish_upholds:
  "journal.upholds S J j (\<lambda>_. True) (journal_publish S J j i) (\<lambda>_. intent_stored S J j i)"
  by (rule journal.upholds_of_triple, rule triple_journal_publish)

lemma journal_complete_upholds:
  "journal.upholds S J j (\<lambda>_. True) (journal_complete S J j op i) (\<lambda>_. tombstone_stored S J j i)"
  by (rule journal.upholds_of_triple, rule triple_journal_complete)

lemma journal_call_keeps: "journal_keeps S J j (w_tree w) (w_tree (journal_call S J j c w))"
proof (cases c)
  case (CallPublish i)
  then show ?thesis using journal.upholds_K [OF journal_publish_upholds] by simp
next
  case (CallComplete op i)
  then show ?thesis using journal.upholds_K [OF journal_complete_upholds] by simp
qed (simp_all add: reads_tree read_intros journal.K_refl)

lemma journal_run_keeps: "journal_keeps S J j (w_tree w) (w_tree (journal_run S J j cs w))"
proof (induction cs arbitrary: w)
  case (Cons c cs)
  from journal.K_trans [OF journal_call_keeps Cons.IH] show ?case by simp
qed (simp add: journal.K_refl)

end
