(* ===== verification/Journal_Reading.thy ===== *)
theory Journal_Reading
  imports Journal_Safety Snapshot_Resume
begin

text \<open>
  What the reading operations of the journal return when no call fails, as functions of the tree:
  \<open>yields t m r\<close> says that \<open>m\<close>, started on the tree \<open>t\<close>, returns \<open>r\<close> and leaves the tree alone. The
  listings of a sound journal follow, and the success of a publication.
\<close>

section \<open>Results on a given tree\<close>

named_theorems yields_intros "evaluation of reading operations"

definition yields :: "tree \<Rightarrow> ('e, 'a) act \<Rightarrow> 'e + 'a \<Rightarrow> bool" where
  "yields t m r = (\<forall>w. calm w \<and> w_tree w = t \<longrightarrow> (\<exists>w'. m w = (r, w') \<and> calm w' \<and> w_tree w' = t))"

lemma yieldsD:
  assumes "yields t m r" "calm w" "w_tree w = t"
  obtains w' where "m w = (r, w')" "calm w'" "w_tree w' = t"
  using assms by (auto simp: yields_def)

lemma yields_fst: "yields (w_tree w) m r \<Longrightarrow> calm w \<Longrightarrow> fst (m w) = r"
  by (auto simp: yields_def)

lemma yields_ret [yields_intros]: "yields t (ret x) (Inr x)"
  by (simp add: yields_def ret_def)

lemma yields_fail [yields_intros]: "yields t (fail e) (Inl e)"
  by (simp add: yields_def fail_def)

lemma yields_of_result [yields_intros]: "yields t (of_result r) r"
  by (simp add: yields_def of_result_def)

lemma yields_attempt: "yields t m q \<Longrightarrow> yields t (f q) r \<Longrightarrow> yields t (attempt m f) r"
  by (fastforce simp: yields_def attempt_def)

lemma yields_perform: "yields t m (Inr x) \<Longrightarrow> yields t (f x) r \<Longrightarrow> yields t (perform m f) r"
  unfolding perform_attempt by (erule yields_attempt) simp

lemma yields_perform_Inl: "yields t m (Inl e) \<Longrightarrow> yields t (perform m f) (Inl e)"
  unfolding perform_attempt by (erule yields_attempt) (simp add: yields_fail)

lemma yields_lift_err: "yields t m r \<Longrightarrow> yields t (lift_err g m) (map_err g r)"
  by (fastforce simp: yields_def lift_err_def)

lemma yields_sys_metadata: "yields t (sys_metadata p) (ok_or (node_at t p) NotFound)"
  by (simp add: yields_def sys_metadata_def calm_syscall)

lemma yields_sys_entries: "yields t (sys_entries p) (Inr (names_in t p))"
  by (simp add: yields_def sys_entries_def calm_syscall)

lemma yields_sys_sync: "yields t sys_sync (Inr ())"
  by (simp add: yields_def sys_sync_def calm_syscall ret_def)

lemma yields_verify_private_file:
  "yields t (verify_private_file p)
     (if \<exists>i c. node_at t p = Some (FileNode i True c) then Inr () else Inl PfExternalMutation)"
proof -
  have "private_at p w \<and> is_some_and (node_at (w_tree w) p) (\<lambda>n. \<not> is_dir_node n)
      \<longleftrightarrow> (\<exists>i c. node_at (w_tree w) p = Some (FileNode i True c))" for w
  proof (cases "node_at (w_tree w) p")
    case (Some m)
    then show ?thesis by (cases m) (auto simp: private_at_def is_some_and_def)
  qed (simp add: private_at_def is_some_and_def)
  then show ?thesis
    by (simp add: yields_def verify_private_file_def privacy_check_def calm_def tick_def)
qed

lemma yields_sync_after_publish: "yields t (sync_after_publish d) (Inr ())"
proof -
  have "yields t (sync_after_publish d)
      (map_err published_sync_error (map_err journal_from_private (map_err PfIo (Inr ()))))"
    unfolding sync_after_publish_def sync_held_directory_def sync_directory_def
    by (intro yields_lift_err yields_sys_sync)
  then show ?thesis by simp
qed

text \<open>The result of \<open>read_raw\<close>.\<close>

definition raw_at :: "tree \<Rightarrow> fs_path \<Rightarrow> journal_error + string" where
  "raw_at t p = (case node_at t p of
       None \<Rightarrow> Inl (JournalIo NotFound)
     | Some (DirNode _ _) \<Rightarrow> Inl InvalidEntryName
     | Some (FileNode _ pr bytes) \<Rightarrow>
         if length bytes > MAX_ENTRY_BYTES then Inl EntryTooLarge
         else if pr then Inr bytes else Inl JournalExternalMutation)"

lemma yields_read_raw: "yields t (read_raw d n) (raw_at t (d @ [n]))"
proof (cases "node_at t (d @ [n])")
  case None
  then have "yields t (jio (sys_metadata (d @ [n]))) (Inl (JournalIo NotFound))"
    using yields_lift_err [OF yields_sys_metadata, of t JournalIo "d @ [n]"] by simp
  then show ?thesis
    unfolding read_raw_def Let_def by (simp add: raw_at_def None yields_perform_Inl)
next
  case (Some m)
  have meta: "yields t (jio (sys_metadata (d @ [n]))) (Inr m)"
    using yields_lift_err [OF yields_sys_metadata, of t JournalIo "d @ [n]"] Some by simp
  show ?thesis
  proof (cases m)
    case (DirNode i b)
    show ?thesis
      unfolding read_raw_def Let_def
      by (rule yields_perform [OF meta]) (simp add: DirNode raw_at_def Some yields_fail)
  next
    case (FileNode i b c)
    have priv: "yields t (jpf (verify_private_file (d @ [n]))) (if b then Inr () else Inl JournalExternalMutation)"
      using yields_lift_err [OF yields_verify_private_file, of t journal_from_private "d @ [n]"] Some FileNode
      by (cases b) auto
    have held: "yields t (perform (jpf (verify_private_file (d @ [n]))) (\<lambda>_.
        perform (jio (sys_metadata (d @ [n]))) (\<lambda>held. case held of
            FileNode _ _ stored \<Rightarrow>
              if length (take (MAX_ENTRY_BYTES + 1) stored) > MAX_ENTRY_BYTES then fail EntryTooLarge
              else ret (take (MAX_ENTRY_BYTES + 1) stored)
          | DirNode _ _ \<Rightarrow> fail (JournalIo OtherKind))))
        (if b then Inr c else Inl JournalExternalMutation)" if l: "length c \<le> MAX_ENTRY_BYTES"
    proof (cases b)
      case True
      with priv have "yields t (jpf (verify_private_file (d @ [n]))) (Inr ())" by simp
      then show ?thesis
        by (rule yields_perform, intro yields_perform [OF meta]) (use True l in \<open>simp add: FileNode yields_ret\<close>)
    next
      case False
      with priv show ?thesis by (simp add: yields_perform_Inl)
    qed
    show ?thesis
    proof (cases "length c > MAX_ENTRY_BYTES")
      case True
      show ?thesis
        unfolding read_raw_def Let_def
        by (rule yields_perform [OF meta]) (simp add: FileNode raw_at_def Some True yields_fail)
    next
      case False
      then have "raw_at t (d @ [n]) = (if b then Inr c else Inl JournalExternalMutation)"
        by (simp add: raw_at_def Some FileNode)
      then show ?thesis
        unfolding read_raw_def Let_def
        apply (intro yields_perform [OF meta])
        using yields_perform [OF meta held] False by (simp add: FileNode)
    qed
  qed
qed

lemma yields_read_raw_if_exists:
  "yields t (read_raw_if_exists d n) (case raw_at t (d @ [n]) of
       Inr bytes \<Rightarrow> Inr (Some bytes)
     | Inl e \<Rightarrow> if e = JournalIo NotFound then Inr None else Inl e)"
  unfolding read_raw_if_exists_def
  by (rule yields_attempt [OF yields_read_raw]) (auto intro: yields_intros split: sum.split)

section \<open>Entries and completions\<close>

text \<open>
  What the theorems rely on in \<open>serde_json\<close>: what it writes reads back, in full and through the two
  envelopes, and the tombstone of a 64-digit digest is short.
\<close>

definition journal_json_ok :: "snap_libs \<Rightarrow> journal_json \<Rightarrow> bool" where
  "journal_json_ok S J =
     ((\<forall>i bytes. intent_to_vec J i = Some bytes \<longrightarrow> intent_parse J bytes = Some i
        \<and> version_parse J bytes = Some (ri_version i)
        \<and> routing_parse J bytes = Some (ri_version i, uuid_string S (ri_operation_id i)))
    \<and> (\<forall>c bytes. tombstone_to_vec J c = Some bytes \<longrightarrow> tombstone_parse J bytes = Some c
        \<and> (length (ct_intent_blake3_hex c) = 64 \<longrightarrow> length bytes \<le> MAX_ENTRY_BYTES)))"

definition stored_intent ::
    "snap_libs \<Rightarrow> journal_json \<Rightarrow> recovery_journal \<Rightarrow> tree \<Rightarrow> uuid \<Rightarrow> rename_move_intent option" where
  "stored_intent S J j t op =
     (case and_then (raw_at t (rj_directory j @ [entry_name S op])) (check_entry S J op) of
        Inl _ \<Rightarrow> None | Inr i \<Rightarrow> Some i)"

definition completed_in ::
    "snap_libs \<Rightarrow> journal_json \<Rightarrow> recovery_journal \<Rightarrow> tree \<Rightarrow> rename_move_intent \<Rightarrow> bool" where
  "completed_in S J j t i =
     (case raw_at t (rj_completed j @ [entry_name S (ri_operation_id i)]) of
        Inl _ \<Rightarrow> False | Inr bytes \<Rightarrow> is_valid_tombstone S J i bytes)"

definition active_in :: "snap_libs \<Rightarrow> journal_json \<Rightarrow> recovery_journal \<Rightarrow> tree \<Rightarrow> uuid \<Rightarrow> bool" where
  "active_in S J j t op = is_some_and (stored_intent S J j t op) (\<lambda>i. \<not> completed_in S J j t i)"

lemma raw_at_file: "file_holds t p bytes \<Longrightarrow> length bytes \<le> MAX_ENTRY_BYTES \<Longrightarrow> raw_at t p = Inr bytes"
  by (auto simp: raw_at_def file_holds_def)

lemma raw_at_Inr: "raw_at t p = Inr bytes \<Longrightarrow> file_holds t p bytes \<and> length bytes \<le> MAX_ENTRY_BYTES"
  by (auto simp: raw_at_def file_holds_def split: option.splits node.splits if_splits)

lemma canonical_bytes_Inr:
  "canonical_bytes J i = Inr bytes \<longleftrightarrow> intent_to_vec J i = Some bytes \<and> length bytes \<le> MAX_ENTRY_BYTES"
  by (cases "intent_to_vec J i") (auto simp: canonical_bytes_def)

lemma intent_version: "recovery_intent_validate S i = Inr () \<Longrightarrow> ri_version i = INTENT_VERSION \<and> ri_operation_id i \<noteq> 0"
  by (auto simp: recovery_intent_validate_def is_nil_def split: if_splits)

lemma check_entry_stored:
  assumes "journal_json_ok S J" "recovery_intent_validate S i = Inr ()" "canonical_bytes J i = Inr bytes"
  shows "check_entry S J (ri_operation_id i) bytes = Inr i"
proof -
  have "version_parse J bytes = Some INTENT_VERSION" "intent_parse J bytes = Some i"
    using assms(1,3) intent_version [OF assms(2)] by (auto simp: journal_json_ok_def canonical_bytes_Inr)
  then show ?thesis using assms(2,3) by (simp add: check_entry_def decode_intent_def del: and_then_eq_Inr)
qed

lemma check_entry_Inr:
  "check_entry S J op bytes = Inr i \<Longrightarrow>
     recovery_intent_validate S i = Inr () \<and> ri_operation_id i = op \<and> canonical_bytes J i = Inr bytes"
  by (auto simp: check_entry_def split: if_splits)

lemma stored_intent_iff:
  assumes "journal_json_ok S J"
  shows "stored_intent S J j t op = Some i \<longleftrightarrow> ri_operation_id i = op \<and> intent_stored S J j i t"
proof
  assume "stored_intent S J j t op = Some i"
  then show "ri_operation_id i = op \<and> intent_stored S J j i t"
    by (auto simp: stored_intent_def intent_stored_def split: sum.splits dest!: raw_at_Inr check_entry_Inr)
next
  assume i: "ri_operation_id i = op \<and> intent_stored S J j i t"
  then obtain bytes where b: "canonical_bytes J i = Inr bytes"
      "file_holds t (rj_directory j @ [entry_name S op]) bytes" "recovery_intent_validate S i = Inr ()"
    by (auto simp: intent_stored_def)
  with check_entry_stored [OF assms b(3) b(1)] i raw_at_file [OF b(2)] show "stored_intent S J j t op = Some i"
    by (simp add: stored_intent_def canonical_bytes_Inr)
qed

lemma yields_journal_read:
  assumes "stored_intent S J j t op = Some i"
  shows "yields t (journal_read S J j op) (Inr i)"
proof -
  obtain bytes where b: "raw_at t (rj_directory j @ [entry_name S op]) = Inr bytes" "check_entry S J op bytes = Inr i"
    using assms by (auto simp: stored_intent_def split: sum.splits)
  have "yields t (read_raw (rj_directory j) (entry_name S op)) (Inr bytes)"
    using yields_read_raw [of t "rj_directory j" "entry_name S op"] b(1) by simp
  then show ?thesis
    unfolding journal_read_def by (rule yields_perform) (simp add: b(2) yields_of_result [of t "Inr i"])
qed

lemma yields_has_valid_completion_for:
  "yields t (has_valid_completion_for S J j i) (Inr (completed_in S J j t i))"
  unfolding has_valid_completion_for_def
  by (rule yields_attempt [OF yields_read_raw_if_exists])
    (auto simp: completed_in_def intro: yields_intros split: sum.split)

lemma tombstone_completes:
  assumes ok: "journal_json_ok S J" "blake3_total S" and t: "tombstone_stored S J j i t"
  shows "completed_in S J j t i"
proof -
  obtain c bytes where c: "tombstone_for_intent S J i = Inr c" "tombstone_to_vec J c = Some bytes"
      "file_holds t (rj_completed j @ [entry_name S (ri_operation_id i)]) bytes"
    using t by (auto simp: tombstone_stored_def)
  have "length (ct_intent_blake3_hex c) = 64"
    using c(1) ok(2) by (auto simp: tombstone_for_intent_def blake3_to_hex_def blake3_total_def length_hex_string)
  with ok(1) c(2) have "length bytes \<le> MAX_ENTRY_BYTES" "tombstone_parse J bytes = Some c"
    by (auto simp: journal_json_ok_def)
  with c show ?thesis
    by (simp add: completed_in_def raw_at_file is_valid_tombstone_def tombstone_validate_for_def is_some_and_def)
qed

section \<open>Listings of a sound journal\<close>

definition journal_layout :: "recovery_journal \<Rightarrow> bool" where
  "journal_layout j = (rj_completed j = rj_directory j @ [COMPLETED_DIRECTORY])"

text \<open>Every entry is a valid intent under its own name.\<close>

definition journal_sound :: "snap_libs \<Rightarrow> journal_json \<Rightarrow> recovery_journal \<Rightarrow> tree \<Rightarrow> bool" where
  "journal_sound S J j t = (\<forall>op. occupied t (rj_directory j @ [entry_name S op]) \<longrightarrow>
     (\<exists>i. ri_operation_id i = op \<and> intent_stored S J j i t))"

lemma journal_keeps_sound:
  assumes ids: "uuid_text_ok S" and lay: "journal_layout j" and keep: "journal_keeps S J j t u" and sound: "journal_sound S J j t"
  shows "journal_sound S J j u"
  unfolding journal_sound_def
proof (intro allI impI)
  fix op
  let ?p = "rj_directory j @ [entry_name S op]"
  assume "occupied u ?p"
  then obtain r where u: "node_at u (?p @ r) \<noteq> None" by (auto simp: occupied_iff)
  show "\<exists>i. ri_operation_id i = op \<and> intent_stored S J j i u"
  proof (cases "node_at t (?p @ r)")
    case None
    with keep u have "new_in_journal S J j u (?p @ r)" by (auto simp: journal_keeps_def dest!: spec [of _ "?p @ r"])
    then show ?thesis
      using lay completed_not_entry(1) [of S op]
      by (auto simp: new_in_journal_def journal_layout_def entry_name_not_temp entry_name_inject [OF ids] Cons_eq_append_conv)
  next
    case (Some n)
    then have "occupied t ?p" using occupied_iff by blast
    then show ?thesis using sound journal_keeps_intent [OF keep] by (fastforce simp: journal_sound_def)
  qed
qed

definition entry_ids :: "snap_libs \<Rightarrow> string list \<Rightarrow> uuid list" where
  "entry_ids S names = List.map_filter (\<lambda>n. if valid_utf8 n then parse_entry_name S n else None) names"

lemma entry_ids_simps:
  "entry_ids S [] = []"
  "entry_ids S (n # ns) = (case (if valid_utf8 n then parse_entry_name S n else None) of
     None \<Rightarrow> entry_ids S ns | Some op \<Rightarrow> op # entry_ids S ns)"
  by (simp_all add: entry_ids_def split: option.split)

lemma valid_utf8_entry_name: "uuid_text_ok S \<Longrightarrow> valid_utf8 (entry_name S u)"
  by (rule valid_utf8_ascii) (auto simp: entry_name_def byte_def dest: uuid_char)

lemma entry_ids_Cons:
  assumes "uuid_text_ok S"
  shows "(\<exists>op. n = entry_name S op \<and> entry_ids S (n # ns) = op # entry_ids S ns)
    \<or> (\<forall>op. n \<noteq> entry_name S op) \<and> entry_ids S (n # ns) = entry_ids S ns"
proof (cases "\<exists>op. n = entry_name S op")
  case True
  then show ?thesis
    using parse_entry_name_entry [OF assms] valid_utf8_entry_name [OF assms] by (auto simp: entry_ids_simps)
next
  case False
  then have "parse_entry_name S n = None" using parse_entry_name_SomeD [of S n] by (cases "parse_entry_name S n") auto
  with False show ?thesis by (simp add: entry_ids_simps)
qed

lemma set_entry_ids:
  assumes "uuid_text_ok S"
  shows "set (entry_ids S names) = {op. entry_name S op \<in> set names}"
proof (induction names)
  case (Cons n ns)
  then show ?case using entry_ids_Cons [OF assms, of n ns] entry_name_inject [OF assms] by auto
qed (simp add: entry_ids_simps)

lemma distinct_entry_ids:
  assumes "uuid_text_ok S"
  shows "distinct names \<Longrightarrow> distinct (entry_ids S names)"
proof (induction names)
  case (Cons n ns)
  then show ?case using entry_ids_Cons [OF assms, of n ns] by (auto simp: set_entry_ids [OF assms])
qed (simp add: entry_ids_simps)

lemma yields_collect_active_ids:
  assumes "\<forall>op \<in> set (entry_ids S names). stored_intent S J j t op \<noteq> None"
    and "length (ids @ filter (active_in S J j t) (entry_ids S names)) \<le> MAX_ENTRY_COUNT"
  shows "yields t (collect_active_ids S J j ids names) (Inr (ids @ filter (active_in S J j t) (entry_ids S names)))"
  using assms
proof (induction names arbitrary: ids)
  case Nil
  then show ?case by (simp add: entry_ids_simps yields_ret)
next
  case (Cons n ns)
  show ?case
  proof (cases "if valid_utf8 n then parse_entry_name S n else None")
    case None
    then have "collect_active_ids S J j ids (n # ns) = collect_active_ids S J j ids ns"
      by (auto split: if_splits)
    with Cons.IH [of ids] Cons.prems None show ?thesis by (simp only: entry_ids_simps option.case)
  next
    case (Some op)
    with Cons.prems(1) obtain i where i: "stored_intent S J j t op = Some i" by (auto simp: entry_ids_simps)
    have compl: "yields t (has_valid_completion S J j op) (Inr (completed_in S J j t i))"
      unfolding has_valid_completion_def
      by (rule yields_perform [OF yields_journal_read [OF i] yields_has_valid_completion_for])
    have unfolded: "collect_active_ids S J j ids (n # ns) = perform (has_valid_completion S J j op) (\<lambda>completed.
        if completed then collect_active_ids S J j ids ns
        else if length (ids @ [op]) > MAX_ENTRY_COUNT then fail TooManyEntries
        else collect_active_ids S J j (ids @ [op]) ns)"
      using Some by (auto split: if_splits)
    have act: "active_in S J j t op \<longleftrightarrow> \<not> completed_in S J j t i" by (simp add: active_in_def i is_some_and_def)
    show ?thesis
      unfolding unfolded
      apply (rule yields_perform [OF compl])
      using Cons.IH [of ids] Cons.IH [of "ids @ [op]"] Cons.prems Some
      by (cases "completed_in S J j t i") (auto simp: entry_ids_simps act)
  qed
qed

lemma active_stored: "active_in S J j t op \<Longrightarrow> node_at t (rj_directory j @ [entry_name S op]) \<noteq> None"
  by (auto simp: active_in_def stored_intent_def is_some_and_def raw_at_def split: sum.splits option.splits)

lemma active_ids_list:
  assumes "uuid_text_ok S"
  shows "sort (filter (active_in S J j t) (entry_ids S (names_in t (rj_directory j))))
      = sorted_list_of_set {op. active_in S J j t op}"
    and "length (filter (active_in S J j t) (entry_ids S (names_in t (rj_directory j))))
      = card {op. active_in S J j t op}"
proof -
  let ?xs = "filter (active_in S J j t) (entry_ids S (names_in t (rj_directory j)))"
  have d: "distinct ?xs" by (simp add: distinct_entry_ids [OF assms])
  have s: "set ?xs = {op. active_in S J j t op}"
    using active_stored by (force simp: set_entry_ids [OF assms] set_names_in)
  show "sort ?xs = sorted_list_of_set {op. active_in S J j t op}"
    by (rule sorted_distinct_set_unique) (use d s finite_set [of ?xs] in \<open>simp_all del: set_filter\<close>)
  show "length ?xs = card {op. active_in S J j t op}"
    using distinct_card [OF d] by (simp add: s del: set_filter)
qed

definition journal_readable :: "snap_libs \<Rightarrow> journal_json \<Rightarrow> recovery_journal \<Rightarrow> tree \<Rightarrow> bool" where
  "journal_readable S J j t = (journal_sound S J j t
     \<and> length (names_in t (rj_directory j)) \<le> MAX_DIRECTORY_ENTRY_COUNT
     \<and> card {op. active_in S J j t op} \<le> MAX_ENTRY_COUNT)"

lemma sound_stored:
  assumes "journal_json_ok S J" "journal_sound S J j t" "node_at t (rj_directory j @ [entry_name S op]) \<noteq> None"
  shows "stored_intent S J j t op \<noteq> None"
proof -
  have "occupied t (rj_directory j @ [entry_name S op])" using assms(3) by (metis append_Nil2 occupied_iff)
  then show ?thesis using assms(2) by (auto simp: journal_sound_def stored_intent_iff [OF assms(1)])
qed

lemma yields_active_ids:
  assumes "uuid_text_ok S" "journal_json_ok S J" "journal_readable S J j t"
  shows "yields t (active_ids S J j) (Inr (sorted_list_of_set {op. active_in S J j t op}))"
proof -
  let ?names = "names_in t (rj_directory j)"
  have names: "yields t (directory_entries_bounded j) (Inr ?names)"
    unfolding directory_entries_bounded_def
    by (rule yields_perform [OF yields_lift_err [OF yields_sys_entries, simplified]])
      (use assms(3) in \<open>simp add: journal_readable_def yields_ret\<close>)
  have "\<forall>op \<in> set (entry_ids S ?names). stored_intent S J j t op \<noteq> None"
    using assms(3) sound_stored [OF assms(2)] by (auto simp: set_entry_ids [OF assms(1)] set_names_in journal_readable_def)
  from yields_collect_active_ids [OF this, of "[]"]
  have "yields t (collect_active_ids S J j [] ?names) (Inr (filter (active_in S J j t) (entry_ids S ?names)))"
    using assms(3) active_ids_list(2) [OF assms(1)] by (simp add: journal_readable_def)
  note ids = this
  have "remdups_adj (sort (filter (active_in S J j t) (entry_ids S ?names))) = sorted_list_of_set {op. active_in S J j t op}"
    by (simp add: active_ids_list [OF assms(1)] remdups_adj_distinct)
  then show ?thesis
    unfolding active_ids_def by (intro yields_perform [OF names] yields_perform [OF ids]) (simp add: yields_ret)
qed

lemma yields_collect_reads:
  "(\<And>x. x \<in> set xs \<Longrightarrow> yields t (f x) (Inr (g x))) \<Longrightarrow> yields t (collect_reads f xs) (Inr (map g xs))"
proof (induction xs)
  case (Cons x xs)
  have "yields t (f x) (Inr (g x))" "yields t (collect_reads f xs) (Inr (map g xs))"
    using Cons by simp_all
  then show ?case by (auto intro!: yields_perform yields_ret)
qed (simp add: yields_ret)

abbreviation intent_at :: "snap_libs \<Rightarrow> journal_json \<Rightarrow> recovery_journal \<Rightarrow> tree \<Rightarrow> uuid \<Rightarrow> rename_move_intent" where
  "intent_at S J j t op \<equiv> the (stored_intent S J j t op)"

text \<open>What \<open>list_page\<close> is to return: the active intents after the cursor, in the order of their ids.\<close>

definition page_of ::
    "snap_libs \<Rightarrow> journal_json \<Rightarrow> recovery_journal \<Rightarrow> tree \<Rightarrow> uuid option \<Rightarrow> nat \<Rightarrow> rename_move_intent journal_page" where
  "page_of S J j t after limit =
     (let rest = filter (\<lambda>op. is_none_or after (\<lambda>cursor. cursor < op)) (sorted_list_of_set {op. active_in S J j t op})
      in \<lparr>jp_entries = map (intent_at S J j t) (take limit rest),
          jp_next_after = (if limit < length rest then Some (rest ! (limit - 1)) else None)\<rparr>)"

lemma select_page_of:
  assumes "1 \<le> limit"
  shows "select_page key after limit xs =
     (let rest = filter (\<lambda>x. is_none_or after (\<lambda>cursor. cursor < key x)) xs
      in (take limit rest, if limit < length rest then Some (key (rest ! (limit - 1))) else None))"
proof -
  have "last (take limit xs) = xs ! (limit - 1)" if "limit < length xs" for xs :: "'a list"
    using that assms by (subst last_conv_nth) (auto simp: min_def)
  then show ?thesis using assms by (auto simp: select_page_def Let_def min_def)
qed

lemma finite_active: "uuid_text_ok S \<Longrightarrow> finite {op. active_in S J j t op}"
  by (rule finite_subset [of _ "set (entry_ids S (names_in t (rj_directory j)))"])
    (auto simp: set_entry_ids set_names_in dest!: active_stored)

lemma yields_list_page:
  assumes "uuid_text_ok S" "journal_json_ok S J" "journal_readable S J j t" "1 \<le> limit" "limit \<le> MAX_PAGE_SIZE"
  shows "yields t (list_page S J j after limit) (Inr (page_of S J j t after limit))"
proof -
  let ?ids = "sorted_list_of_set {op. active_in S J j t op}"
  let ?rest = "filter (\<lambda>op. is_none_or after (\<lambda>cursor. cursor < op)) ?ids"
  have "stored_intent S J j t op = Some (intent_at S J j t op)" if "op \<in> set (take limit ?rest)" for op
    using in_set_takeD [OF that] finite_active [OF assms(1), of J j t] by (auto simp: active_in_def is_some_and_def split: option.splits)
  then have reads: "yields t (collect_reads (journal_read S J j) (take limit ?rest)) (Inr (map (intent_at S J j t) (take limit ?rest)))"
    by (intro yields_collect_reads yields_journal_read)
  have "list_page S J j after limit = perform (active_ids S J j) (\<lambda>ids.
      let (selected, next_after) = select_page (\<lambda>x. x) after limit ids in
      perform (collect_reads (journal_read S J j) selected) (\<lambda>entries.
      ret \<lparr>jp_entries = entries, jp_next_after = next_after\<rparr>))"
    using assms(4,5) by (simp add: list_page_def)
  then show ?thesis
    apply (simp only:)
    apply (rule yields_perform [OF yields_active_ids [OF assms(1-3)]])
    apply (simp only: select_page_of [OF assms(4)] Let_def prod.case)
    apply (rule yields_perform [OF reads])
    apply (simp add: page_of_def Let_def yields_ret)
    done
qed

section \<open>The listing with foreign versions\<close>

lemma yields_read_evidence:
  assumes ids: "uuid_text_ok S" and ok: "journal_json_ok S J" and i: "stored_intent S J j t op = Some i"
  shows "yields t (read_evidence S J j op) (Inr (SupportedIntent i))"
proof -
  from i obtain bytes where b: "raw_at t (rj_directory j @ [entry_name S op]) = Inr bytes" "check_entry S J op bytes = Inr i"
    by (auto simp: stored_intent_def split: sum.splits)
  note c = check_entry_Inr [OF b(2)]
  have r: "routing_parse J bytes = Some (ri_version i, uuid_string S op)" "intent_parse J bytes = Some i"
    using ok c by (auto simp: journal_json_ok_def canonical_bytes_Inr)
  have "routing_from_slice S J bytes = Inr (INTENT_VERSION, op)"
    using r(1) ids intent_version [of S i] c by (auto simp: routing_from_slice_def uuid_text_ok_def is_nil_def)
  then have "classify_evidence S J op bytes = Inr (SupportedIntent i)"
    using c r(2) by (simp add: classify_evidence_def del: and_then_eq_Inr)
  moreover have "yields t (read_raw (rj_directory j) (entry_name S op)) (Inr bytes)"
    using yields_read_raw [of t "rj_directory j" "entry_name S op"] b(1) by simp
  ultimately show ?thesis
    unfolding read_evidence_def by (metis yields_of_result yields_perform)
qed

definition active_evidence ::
    "snap_libs \<Rightarrow> journal_json \<Rightarrow> recovery_journal \<Rightarrow> tree \<Rightarrow> uuid list \<Rightarrow> (uuid \<times> journal_evidence) list" where
  "active_evidence S J j t ops = map (\<lambda>op. (op, SupportedIntent (intent_at S J j t op))) (filter (active_in S J j t) ops)"

lemma yields_collect_evidence:
  assumes ids: "uuid_text_ok S" and ok: "journal_json_ok S J"
    and "\<forall>op \<in> set (entry_ids S names). stored_intent S J j t op \<noteq> None"
    and "length (entries @ active_evidence S J j t (entry_ids S names)) \<le> MAX_ENTRY_COUNT"
  shows "yields t (collect_evidence S J j entries names) (Inr (entries @ active_evidence S J j t (entry_ids S names)))"
  using assms(3,4)
proof (induction names arbitrary: entries)
  case Nil
  then show ?case by (simp add: entry_ids_simps yields_ret active_evidence_def)
next
  case (Cons n ns)
  show ?case
  proof (cases "if valid_utf8 n then parse_entry_name S n else None")
    case None
    then have "collect_evidence S J j entries (n # ns) = collect_evidence S J j entries ns"
      by (auto split: if_splits)
    with Cons.IH [of entries] Cons.prems None show ?thesis by (simp only: entry_ids_simps option.case)
  next
    case (Some op)
    with Cons.prems(1) obtain i where i: "stored_intent S J j t op = Some i" by (auto simp: entry_ids_simps)
    have act: "active_in S J j t op \<longleftrightarrow> \<not> completed_in S J j t i" by (simp add: active_in_def i is_some_and_def)
    have compl: "yields t (perform (has_valid_completion_for S J j i) (\<lambda>completed. ret (\<not> completed)))
        (Inr (active_in S J j t op))"
      by (rule yields_perform [OF yields_has_valid_completion_for]) (simp add: act yields_ret)
    have unfolded: "collect_evidence S J j entries (n # ns) = perform (read_evidence S J j op) (\<lambda>evidence.
          perform (case evidence of
              SupportedIntent i \<Rightarrow> perform (has_valid_completion_for S J j i) (\<lambda>completed. ret (\<not> completed))
            | UnsupportedIntent _ _ \<Rightarrow> ret True) (\<lambda>active.
          if \<not> active then collect_evidence S J j entries ns
          else if length (entries @ [(op, evidence)]) > MAX_ENTRY_COUNT then fail TooManyEntries
          else collect_evidence S J j (entries @ [(op, evidence)]) ns))"
      using Some by (auto split: if_splits)
    show ?thesis
      unfolding unfolded
      apply (rule yields_perform [OF yields_read_evidence [OF ids ok i]])
      apply (simp only: journal_evidence.case)
      apply (rule yields_perform [OF compl])
      using Cons.IH [of entries] Cons.IH [of "entries @ [(op, SupportedIntent i)]"] Cons.prems Some i
      by (cases "active_in S J j t op") (auto simp: entry_ids_simps active_evidence_def)
  qed
qed

lemma dedup_by_key_distinct: "distinct (map key xs) \<Longrightarrow> dedup_by_key key xs = xs"
  by (induction key xs rule: dedup_by_key.induct) auto

lemma sort_key_map: "sort_key fst (map (\<lambda>x. (x, g x)) xs) = map (\<lambda>x. (x, g x)) (sort xs)"
proof (induction xs)
  case (Cons x xs)
  have "insort_key fst (x, g x) (map (\<lambda>x. (x, g x)) ys) = map (\<lambda>x. (x, g x)) (insort x ys)" for ys
    by (induction ys) auto
  with Cons show ?case by simp
qed simp

lemma yields_list_evidence_page:
  assumes "uuid_text_ok S" "journal_json_ok S J" "journal_readable S J j t" "1 \<le> limit" "limit \<le> MAX_PAGE_SIZE"
  shows "yields t (list_evidence_page S J j after limit)
    (Inr \<lparr>jp_entries = map SupportedIntent (jp_entries (page_of S J j t after limit)),
      jp_next_after = jp_next_after (page_of S J j t after limit)\<rparr>)"
proof -
  let ?names = "names_in t (rj_directory j)"
  let ?ids = "sorted_list_of_set {op. active_in S J j t op}"
  let ?g = "\<lambda>op. (op, SupportedIntent (intent_at S J j t op))"
  have names: "yields t (directory_entries_bounded j) (Inr ?names)"
    unfolding directory_entries_bounded_def
    by (rule yields_perform [OF yields_lift_err [OF yields_sys_entries, simplified]])
      (use assms(3) in \<open>simp add: journal_readable_def yields_ret\<close>)
  have "\<forall>op \<in> set (entry_ids S ?names). stored_intent S J j t op \<noteq> None"
    using assms(3) sound_stored [OF assms(2)] by (auto simp: set_entry_ids [OF assms(1)] set_names_in journal_readable_def)
  from yields_collect_evidence [OF assms(1,2) this, of "[]"]
  have entries: "yields t (collect_evidence S J j [] ?names) (Inr (active_evidence S J j t (entry_ids S ?names)))"
    using assms(3) active_ids_list(2) [OF assms(1)] by (simp add: journal_readable_def active_evidence_def)
  have "dedup_by_key fst (sort_key fst (active_evidence S J j t (entry_ids S ?names))) = map ?g ?ids"
    by (simp add: active_evidence_def sort_key_map active_ids_list [OF assms(1)] dedup_by_key_distinct comp_def)
  then have select: "select_page fst after limit (dedup_by_key fst (sort_key fst (active_evidence S J j t (entry_ids S ?names))))
      = (map ?g (take limit (filter (\<lambda>op. is_none_or after (\<lambda>cursor. cursor < op)) ?ids)), jp_next_after (page_of S J j t after limit))"
    by (auto simp: select_page_of [OF assms(4)] page_of_def Let_def filter_map comp_def take_map)
  have "list_evidence_page S J j after limit = perform (directory_entries_bounded j) (\<lambda>names.
        perform (collect_evidence S J j [] names) (\<lambda>entries.
        let (selected, next_after) = select_page fst after limit (dedup_by_key fst (sort_key fst entries)) in
        ret \<lparr>jp_entries = map snd selected, jp_next_after = next_after\<rparr>))"
    using assms(4,5) by (simp add: list_evidence_page_def)
  then show ?thesis
    by (simp only:) (rule yields_perform [OF names], rule yields_perform [OF entries],
      simp add: select page_of_def Let_def comp_def yields_ret)
qed

section \<open>Publication when no call fails\<close>

lemma succeeds_create_publish:
  assumes p: "p = d @ [publish_temp_name S f]" and q: "q = d @ [final]" and pq: "p \<noteq> q"
  shows "succeeds (\<lambda>t. t = u \<and> \<not> occupied u p \<and> \<not> occupied u q)
     (perform (jio (sys_create_file p)) (\<lambda>_.
      perform (jpf (set_private_file_permissions p)) (\<lambda>_.
      perform (jio (sys_write p bytes)) (\<lambda>_.
      perform (jio sys_sync) (\<lambda>_.
      perform (jpf (verify_private_file p)) (\<lambda>_.
      journal_rename_noreplace d (publish_temp_name S f) final)))))) (\<lambda>_ _. True)"
proof -
  let ?A = "\<lambda>n t. changed_at p u t \<and> \<not> occupied u q \<and> node_at t p = Some n"
  let ?F = "\<lambda>b c t. \<exists>i. ?A (FileNode i b c) t"
  have create: "succeeds (\<lambda>t. t = u \<and> \<not> occupied u p \<and> \<not> occupied u q) (jio (sys_create_file p)) (\<lambda>_ t. \<exists>b. ?F b [] t)"
    by (rule succeeds_lift_err, rule succeeds_pull, rule succeeds_weaken [OF succeeds_sys_create_file [of u]])
      (auto simp: node_at_put intro: changed_at_put)
  have perm: "succeeds (\<lambda>t. \<exists>b. ?F b [] t) (jpf (set_private_file_permissions p)) (\<lambda>_. ?F True [])"
    unfolding set_private_file_permissions_def
    by (rule succeeds_lift_err, rule succeeds_lift_err, rule succeeds_pull, rule succeeds_weaken [OF succeeds_sys_set_private])
      (auto simp: node_at_put intro: changed_at_trans [OF _ changed_at_put])
  have fill: "succeeds (?F True []) (jio (sys_write p bytes)) (\<lambda>_. ?F True bytes)"
    by (rule succeeds_lift_err, rule succeeds_pull, rule succeeds_weaken [OF succeeds_sys_write])
      (auto simp: node_at_put intro: changed_at_trans [OF _ changed_at_put])
  have verify: "succeeds (?F True bytes) (jpf (verify_private_file p)) (\<lambda>_. ?F True bytes)"
    by (rule succeeds_lift_err, rule succeeds_verify_private_file) (auto simp: file_holds_def)
  have free: "\<not> occupied t q" if "changed_at p u t" "\<not> occupied u q" for t
  proof -
    have "p \<noteq> q @ r" for r using p q pq by (auto simp: append_eq_append_conv2 Cons_eq_append_conv)
    then show ?thesis using that by (simp add: occupied_iff changed_at_def) metis
  qed
  have rename: "succeeds (?F True bytes) (journal_rename_noreplace d (publish_temp_name S f) final) (\<lambda>_ _. True)"
    unfolding journal_rename_noreplace_def
    by (rule succeeds_lift_err, rule succeeds_pull, rule succeeds_weaken [OF succeeds_sys_rename_noreplace])
      (use free in \<open>auto simp: p [symmetric] q [symmetric]\<close>)
  show ?thesis
    by (intro succeeds_perform [OF create] succeeds_perform [OF perm] succeeds_perform [OF fill]
        succeeds_perform [OF succeeds_lift_err [OF succeeds_sys_sync]] succeeds_perform [OF verify] rename)
qed

lemma calm_publish_bytes:
  fixes w :: world
  assumes calm: "calm w" and temp: "\<not> occupied (w_tree w) (d @ [publish_temp_name S (w_uuids w (w_drawn w))])"
    and final: "\<not> occupied (w_tree w) (d @ [final])" "\<And>f. final \<noteq> publish_temp_name S f"
  obtains w' where "publish_bytes S d final bytes w = (Inr True, w')" "calm w'"
proof -
  let ?f = "w_uuids w (w_drawn w)"
  let ?p = "d @ [publish_temp_name S ?f]"
  let ?w = "w\<lparr>w_drawn := Suc (w_drawn w)\<rparr>"
  have w: "calm ?w" "w_tree ?w = w_tree w" using calm by (simp_all add: calm_def)
  have "?p \<noteq> d @ [final]" using final(2) [of ?f] by simp
  from succeeds_create_publish [OF refl refl this, of "w_tree w" bytes] w temp final(1)
  obtain x w1 where 1: "(perform (jio (sys_create_file ?p)) (\<lambda>_.
      perform (jpf (set_private_file_permissions ?p)) (\<lambda>_.
      perform (jio (sys_write ?p bytes)) (\<lambda>_.
      perform (jio sys_sync) (\<lambda>_.
      perform (jpf (verify_private_file ?p)) (\<lambda>_.
      journal_rename_noreplace d (publish_temp_name S ?f) final)))))) ?w = (Inr x, w1)" "calm w1"
    by (auto simp: succeeds_def)
  obtain w' where w': "sync_after_publish d w1 = (Inr (), w')" "calm w'"
    by (rule yieldsD [OF yields_sync_after_publish \<open>calm w1\<close> refl])
  have "publish_bytes S d final bytes w = (Inr True, w')"
    using 1(1) w'(1)
    by (auto simp: publish_bytes_def Let_def new_v4_def perform_def attempt_def ret_def split: prod.splits sum.splits)
  then show thesis using w'(2) that by blast
qed

lemma journal_publish_result:
  fixes w :: world
  assumes ids: "uuid_text_ok S" and json: "journal_json_ok S J" and sound: "journal_sound S J j (w_tree w)"
    and calm: "calm w" and temp: "\<not> occupied (w_tree w) (rj_directory j @ [publish_temp_name S (w_uuids w (w_drawn w))])"
    and v: "recovery_intent_validate S i = Inr ()" and b: "canonical_bytes J i = Inr bytes"
  shows "fst (journal_publish S J j i w) = (case stored_intent S J j (w_tree w) (ri_operation_id i) of
       None \<Rightarrow> Inr EntryPublished
     | Some i' \<Rightarrow> if i' = i then Inr EntryAlreadyPublished else Inl JournalCollision)
     \<and> calm (snd (journal_publish S J j i w))"
proof -
  let ?t = "w_tree w"
  let ?d = "rj_directory j"
  let ?n = "entry_name S (ri_operation_id i)"
  have publish: "journal_publish S J j i = perform (read_raw_if_exists ?d ?n) (\<lambda>existing. case existing of
         Some actual \<Rightarrow>
           perform (of_result (compare_published actual bytes)) (\<lambda>outcome.
           perform (sync_after_publish ?d) (\<lambda>_. ret outcome))
       | None \<Rightarrow>
           perform (publish_bytes S ?d ?n bytes) (\<lambda>fresh.
           ret (if fresh then EntryPublished else EntryAlreadyPublished)))"
    by (simp add: journal_publish_def Let_def v b perform_pure)
  show ?thesis
  proof (cases "occupied ?t (?d @ [?n])")
    case True
    then obtain i' where i': "ri_operation_id i' = ri_operation_id i" "intent_stored S J j i' ?t"
      using sound by (auto simp: journal_sound_def)
    then obtain bytes' where b': "canonical_bytes J i' = Inr bytes'" "file_holds ?t (?d @ [?n]) bytes'"
      by (auto simp: intent_stored_def)
    have stored: "stored_intent S J j ?t (ri_operation_id i) = Some i'"
      using i' by (simp add: stored_intent_iff [OF json])
    have "raw_at ?t (?d @ [?n]) = Inr bytes'" using raw_at_file [OF b'(2)] b'(1) by (simp add: canonical_bytes_Inr)
    then have r: "yields ?t (read_raw_if_exists ?d ?n) (Inr (Some bytes'))"
      using yields_read_raw_if_exists [of ?t ?d ?n] by simp
    have same: "bytes' = bytes \<longleftrightarrow> i' = i"
      proof -
      have parse: "intent_parse J bs = Some k" if "canonical_bytes J k = Inr bs" for k bs
        using that json by (simp add: canonical_bytes_Inr journal_json_ok_def)
      show ?thesis using parse [OF b] parse [OF b'(1)] b b'(1) by auto
    qed
    have "yields ?t (perform (of_result (compare_published bytes' bytes)) (\<lambda>outcome.
           perform (sync_after_publish ?d) (\<lambda>_. ret outcome)))
        (if i' = i then Inr EntryAlreadyPublished else Inl JournalCollision)"
      by (cases "i' = i")
        (auto simp: compare_published_def same perform_pure intro: yields_fail yields_perform [OF yields_sync_after_publish yields_ret])
    then have "yields ?t (journal_publish S J j i) (if i' = i then Inr EntryAlreadyPublished else Inl JournalCollision)"
      unfolding publish by (intro yields_perform [OF r]) simp
    from yieldsD [OF this calm refl] show ?thesis unfolding stored by (metis fst_conv option.case(2) snd_conv)
  next
    case False
    then have none: "node_at ?t (?d @ [?n]) = None" by (metis append_Nil2 occupied_iff)
    then have stored: "stored_intent S J j ?t (ri_operation_id i) = None"
      by (simp add: stored_intent_def raw_at_def)
    have r: "yields ?t (read_raw_if_exists ?d ?n) (Inr None)"
      using yields_read_raw_if_exists [of ?t ?d ?n] none by (simp add: raw_at_def)
    obtain w1 where w1: "read_raw_if_exists ?d ?n w = (Inr None, w1)" "calm w1" "w_tree w1 = ?t"
      by (rule yieldsD [OF r calm refl])
    obtain c where "snd (read_raw_if_exists ?d ?n w) = w\<lparr>w_clock := c\<rparr>"
      using reads_read_raw_if_exists [of ?d ?n] by (auto simp: reads_def)
    then have draws: "w_uuids w1 (w_drawn w1) = w_uuids w (w_drawn w)" using w1(1) by auto
    have "\<not> occupied (w_tree w1) (?d @ [publish_temp_name S (w_uuids w1 (w_drawn w1))])"
      "\<not> occupied (w_tree w1) (?d @ [?n])"
      using temp False by (simp_all only: draws w1(3) not_False_eq_True)
    then obtain w2 where "publish_bytes S ?d ?n bytes w1 = (Inr True, w2)" "calm w2"
      using entry_name_not_temp by (rule calm_publish_bytes [OF w1(2)])
    then show ?thesis
      unfolding publish using w1(1) by (simp add: perform_def stored ret_def)
  qed
qed

text \<open>Completing an operation again.\<close>

lemma yields_journal_complete:
  assumes json: "journal_json_ok S J" and hash: "blake3_total S" and t: "tombstone_stored S J j i t"
  shows "yields t (journal_complete S J j (ri_operation_id i) i) (Inr OperationAlreadyCompleted)"
proof -
  let ?n = "entry_name S (ri_operation_id i)"
  obtain bytes c tb where i: "recovery_intent_validate S i = Inr ()" "canonical_bytes J i = Inr bytes"
      "file_holds t (rj_directory j @ [?n]) bytes"
    and c: "tombstone_for_intent S J i = Inr c" "tombstone_to_vec J c = Some tb" "file_holds t (rj_completed j @ [?n]) tb"
    using t by (auto simp: tombstone_stored_def intent_stored_def)
  have "length (ct_intent_blake3_hex c) = 64"
    using c(1) hash by (auto simp: tombstone_for_intent_def blake3_to_hex_def blake3_total_def length_hex_string)
  with json c(2) have tb: "length tb \<le> MAX_ENTRY_BYTES" "tombstone_parse J tb = Some c"
    by (auto simp: journal_json_ok_def)
  have entry: "yields t (read_raw_if_exists (rj_directory j) ?n) (Inr (Some bytes))"
    using yields_read_raw_if_exists [of t "rj_directory j" ?n] raw_at_file [OF i(3)] i(2) by (simp add: canonical_bytes_Inr)
  have present: "yields t (read_raw_if_exists (rj_completed j) ?n) (Inr (Some tb))"
    using yields_read_raw_if_exists [of t "rj_completed j" ?n] raw_at_file [OF c(3) tb(1)] by simp
  have "check_tombstone S J i tb = Inr ()"
    using tb(2) c by (simp add: check_tombstone_def tombstone_validate_for_def)
  then have finish: "yields t (perform (of_result (check_tombstone S J i tb)) (\<lambda>_.
      perform (sync_after_publish (rj_completed j)) (\<lambda>_. ret OperationAlreadyCompleted))) (Inr OperationAlreadyCompleted)"
    by (auto simp: perform_pure intro: yields_perform [OF yields_sync_after_publish yields_ret])
  have "yields t (perform (read_raw_if_exists (rj_completed j) ?n) (\<lambda>present. case present of
           Some actual \<Rightarrow>
             perform (of_result (check_tombstone S J i actual)) (\<lambda>_.
             perform (sync_after_publish (rj_completed j)) (\<lambda>_. ret OperationAlreadyCompleted))
         | None \<Rightarrow>
             perform (publish_bytes S (rj_completed j) ?n tb) (\<lambda>fresh.
             ret (if fresh then OperationCompleted else OperationAlreadyCompleted)))) (Inr OperationAlreadyCompleted)"
    by (rule yields_perform [OF present]) (simp add: finish)
  note tail = this
  show ?thesis
    unfolding journal_complete_def Let_def i(1)
    by (simp add: perform_pure) (rule yields_perform [OF entry], simp add: i(2) c(1,2) perform_pure tail)
qed

end
