(* ===== verification/Concrete_Journal.thy ===== *)
theory Concrete_Journal
  imports Journal_Reading Concrete_Snapshots
begin

text \<open>
  A concrete stand-in for \<open>serde_json\<close> at the types of the recovery journal, with the proof that it
  satisfies what the journal theorems assume, and a small journal to instantiate them on.
\<close>

section \<open>Framed fields\<close>

definition frame :: "string list \<Rightarrow> string" where
  "frame xs = concat (map (\<lambda>x. nibbles 8 (length x) @ x) xs)"

fun unframe :: "nat \<Rightarrow> string \<Rightarrow> string list" where
  "unframe 0 s = []"
| "unframe (Suc k) s =
     (if s = [] then []
      else let n = nibbles_value (take 8 s) in take n (drop 8 s) # unframe k (drop (8 + n) s))"

definition framed :: "string list \<Rightarrow> string option" where
  "framed xs = (if list_all (\<lambda>x. length x < 2 ^ 32) xs then Some (frame xs) else None)"

definition fields :: "string \<Rightarrow> string list" where
  "fields s = unframe (length s) s"

lemma length_frame: "length xs \<le> length (frame xs)"
  by (induction xs) (auto simp: frame_def)

lemma unframe_frame:
  assumes "list_all (\<lambda>x. length x < 2 ^ 32) xs" and "length xs \<le> k"
  shows "unframe k (frame xs) = xs"
  using assms
proof (induction xs arbitrary: k)
  case Nil
  then show ?case by (cases k) (simp_all add: frame_def)
next
  case (Cons x xs)
  then obtain k' where k: "k = Suc k'" by (cases k) auto
  have "(16 :: nat) ^ 8 = 2 ^ 32" by simp
  then have n: "nibbles_value (nibbles 8 (length x)) = length x"
    using Cons.prems(1) by (simp add: nibbles_value_nibbles)
  have "frame (x # xs) = nibbles 8 (length x) @ x @ frame xs" by (simp add: frame_def)
  moreover have "nibbles 8 (length x) \<noteq> []" using length_nibbles [of 8 "length x"] by force
  ultimately show ?case using Cons n k by simp
qed

lemma fields_framed: "framed xs = Some s \<Longrightarrow> fields s = xs"
  by (auto simp: framed_def fields_def unframe_frame length_frame split: if_splits)

section \<open>The encodings\<close>

fun kind_fields :: "recovery_operation_kind \<Rightarrow> string list" where
  "kind_fields NormalMove = [''n'']"
| "kind_fields CaseRename = [''c'']"
| "kind_fields (TrashOperation tid digest at_ms) = [''t'', word_text 32 tid, digest, word_text 16 at_ms]"
| "kind_fields (RestoreOperation tid digest) = [''r'', word_text 32 tid, digest]"

definition recovery_fields :: "rename_move_intent \<Rightarrow> string list" where
  "recovery_fields i = [word_text 8 (ri_version i), word_text 32 (ri_operation_id i), ri_from i, ri_to i,
     fr_blake3_hex (ri_expected i), word_text 16 (fr_byte_len (ri_expected i)),
     (case ri_temp i of None \<Rightarrow> ''-'' | Some t \<Rightarrow> CHR ''+'' # t)] @ kind_fields (ri_kind i)"

definition parse_kind :: "string list \<Rightarrow> recovery_operation_kind" where
  "parse_kind xs = (case xs of
       [tag] \<Rightarrow> if tag = ''n'' then NormalMove else CaseRename
     | [_, tid, digest, at_ms] \<Rightarrow> TrashOperation (text_word tid) digest (text_word at_ms)
     | [_, tid, digest] \<Rightarrow> RestoreOperation (text_word tid) digest
     | _ \<Rightarrow> NormalMove)"

definition parse_intent :: "string list \<Rightarrow> rename_move_intent option" where
  "parse_intent xs = (case xs of
       version # op # source # target # digest # len_text # temp # kind \<Rightarrow>
         Some \<lparr>ri_version = text_word version, ri_operation_id = text_word op, ri_from = source, ri_to = target,
           ri_expected = \<lparr>fr_blake3_hex = digest, fr_byte_len = text_word len_text\<rparr>,
           ri_temp = (if temp = ''-'' then None else Some (tl temp)), ri_kind = parse_kind kind\<rparr>
     | _ \<Rightarrow> None)"

definition tombstone_fields :: "completion_tombstone \<Rightarrow> string list" where
  "tombstone_fields c = [word_text 8 (ct_version c), word_text 32 (ct_operation_id c), ct_intent_blake3_hex c]"

definition demo_json :: journal_json where
  "demo_json = \<lparr>intent_to_vec = (\<lambda>i. framed (recovery_fields i)), intent_parse = (\<lambda>s. parse_intent (fields s)),
     version_parse = (\<lambda>s. map_option ri_version (parse_intent (fields s))),
     routing_parse = (\<lambda>s. map_option (\<lambda>i. (ri_version i, word_text 32 (ri_operation_id i))) (parse_intent (fields s))),
     tombstone_to_vec = (\<lambda>c. framed (tombstone_fields c)),
     tombstone_parse = (\<lambda>s. case fields s of [v, op, digest] \<Rightarrow>
         Some \<lparr>ct_version = text_word v, ct_operation_id = text_word op, ct_intent_blake3_hex = digest\<rparr>
       | _ \<Rightarrow> None)\<rparr>"

lemma parse_kind_fields: "parse_kind (kind_fields k) = k"
  by (cases k) (simp_all add: parse_kind_def)

lemma parse_intent_fields: "parse_intent (recovery_fields i) = Some i"
  by (cases "ri_temp i") (simp_all add: parse_intent_def recovery_fields_def parse_kind_fields)

lemma demo_journal_json_ok: "journal_json_ok demo_snap demo_json"
proof -
  have len: "length s \<le> MAX_ENTRY_BYTES" if "framed (tombstone_fields c) = Some s" "length (ct_intent_blake3_hex c) = 64" for c s
    using that by (auto simp: framed_def tombstone_fields_def frame_def MAX_ENTRY_BYTES_def split: if_splits)
  have "uuid_string demo_snap u = word_text 32 u" for u by (simp add: demo_snap_def)
  then show ?thesis
    using len by (auto simp: journal_json_ok_def demo_json_def parse_intent_fields dest!: fields_framed)
      (simp_all add: tombstone_fields_def)
qed

section \<open>A journal\<close>

definition demo_journal :: recovery_journal where
  "demo_journal = \<lparr>rj_directory = [''j''], rj_completed = [''j'', COMPLETED_DIRECTORY]\<rparr>"

definition demo_journal_tree :: tree where
  "demo_journal_tree = [([''j''], DirNode 1 True), ([''j'', COMPLETED_DIRECTORY], DirNode 2 True)]"

definition demo_rename :: rename_move_intent where
  "demo_rename = \<lparr>ri_version = 4, ri_operation_id = 7, ri_from = ''a.md'', ri_to = ''b.md'',
     ri_expected = file_revision_from_bytes demo_snap ''# note'', ri_temp = None, ri_kind = NormalMove\<rparr>"

lemma demo_journal_layout: "journal_layout demo_journal"
  by (simp add: journal_layout_def demo_journal_def)

lemma demo_rename_valid: "recovery_intent_validate demo_snap demo_rename = Inr ()"
  by code_simp

lemma demo_rename_bytes: "is_ok (canonical_bytes demo_json demo_rename)"
proof -
  have "length (blake3_to_hex demo_snap s) = 64" for s
    using demo_blake3_total by (simp add: blake3_to_hex_def blake3_total_def length_hex_string)
  then have "length (fr_blake3_hex (ri_expected demo_rename)) = 64"
    by (simp add: demo_rename_def file_revision_from_bytes_def)
  then have "list_all (\<lambda>x. length x < 2 ^ 32) (recovery_fields demo_rename)"
    "length (frame (recovery_fields demo_rename)) \<le> MAX_ENTRY_BYTES"
    by (simp_all add: recovery_fields_def frame_def MAX_ENTRY_BYTES_def)
      (simp_all add: demo_rename_def)
  then show ?thesis by (simp add: canonical_bytes_def demo_json_def framed_def)
qed

lemma demo_journal_sound: "journal_sound demo_snap demo_json demo_journal demo_journal_tree"
proof -
  have "\<not> occupied demo_journal_tree ([''j''] @ [entry_name demo_snap op])" for op
    using completed_not_entry(1) [of demo_snap op] by (auto simp: occupied_def demo_journal_tree_def)
  then show ?thesis by (simp add: journal_sound_def demo_journal_def)
qed

text \<open>The journal with the intent recorded, and with it completed.\<close>

definition demo_entry_tree :: tree where
  "demo_entry_tree = ([''j'', entry_name demo_snap 7], FileNode 3 True (projr (canonical_bytes demo_json demo_rename)))
     # demo_journal_tree"

definition demo_completed_tree :: tree where
  "demo_completed_tree = ([''j'', COMPLETED_DIRECTORY, entry_name demo_snap 7],
       FileNode 4 True (the (tombstone_to_vec demo_json (projr (tombstone_for_intent demo_snap demo_json demo_rename)))))
     # demo_entry_tree"

lemmas demo_journal_trees = demo_completed_tree_def demo_entry_tree_def demo_journal_tree_def demo_journal_def

lemma demo_entry_nodes:
  assumes "t \<in> {demo_entry_tree, demo_completed_tree}"
  shows "node_at t [''j'', entry_name demo_snap op]
    = (if op = 7 then Some (FileNode 3 True (projr (canonical_bytes demo_json demo_rename))) else None)"
    and "occupied t [''j'', entry_name demo_snap op] \<longleftrightarrow> op = 7"
  using assms completed_not_entry(1) [of demo_snap op] entry_name_inject [OF demo_uuid_text_ok, of op 7]
  by (auto simp: demo_journal_trees node_at_def occupied_def)

lemma demo_intent_stored:
  assumes "t \<in> {demo_entry_tree, demo_completed_tree}"
  shows "intent_stored demo_snap demo_json demo_journal demo_rename t"
proof -
  obtain bytes where "canonical_bytes demo_json demo_rename = Inr bytes" using demo_rename_bytes by (auto simp: is_ok_iff)
  moreover have "ri_operation_id demo_rename = 7" by (simp add: demo_rename_def)
  ultimately show ?thesis
    using demo_entry_nodes(1) [OF assms, of 7] demo_rename_valid
    by (simp add: intent_stored_def file_holds_def demo_journal_def)
qed

lemma demo_active_only:
  assumes "t \<in> {demo_entry_tree, demo_completed_tree}" "active_in demo_snap demo_json demo_journal t op"
  shows "op = 7"
  using active_stored [OF assms(2)] demo_entry_nodes(1) [OF assms(1), of op]
  by (cases "op = 7") (simp_all add: demo_journal_def)

lemma demo_journal_readable:
  assumes "t \<in> {demo_entry_tree, demo_completed_tree}"
  shows "journal_readable demo_snap demo_json demo_journal t"
proof -
  have "ri_operation_id demo_rename = 7" by (simp add: demo_rename_def)
  then have "journal_sound demo_snap demo_json demo_journal t"
    using demo_entry_nodes(2) [OF assms] demo_intent_stored [OF assms] by (auto simp: journal_sound_def demo_journal_def)
  moreover have "length (names_in t [''j'']) \<le> length t"
    unfolding names_in_def by (rule order_trans [OF length_remdups_leq]) simp
  moreover have "length t \<le> 4" using assms by (auto simp: demo_journal_trees)
  moreover have "card {op. active_in demo_snap demo_json demo_journal t op} \<le> card {7 :: uuid}"
    by (rule card_mono) (use demo_active_only [OF assms] in blast)+
  ultimately show ?thesis
    by (simp add: journal_readable_def demo_journal_def MAX_DIRECTORY_ENTRY_COUNT_def MAX_ENTRY_COUNT_def)
qed

lemma demo_active: "{op. active_in demo_snap demo_json demo_journal demo_entry_tree op} = {7}"
proof -
  have op: "ri_operation_id demo_rename = 7" by (simp add: demo_rename_def)
  then have "stored_intent demo_snap demo_json demo_journal demo_entry_tree 7 = Some demo_rename"
    using demo_intent_stored [of demo_entry_tree] by (simp add: stored_intent_iff [OF demo_journal_json_ok])
  moreover have "\<not> completed_in demo_snap demo_json demo_journal demo_entry_tree demo_rename"
    by (simp add: completed_in_def raw_at_def node_at_def demo_journal_trees op)
  ultimately have "active_in demo_snap demo_json demo_journal demo_entry_tree 7" by (simp add: active_in_def is_some_and_def)
  then show ?thesis using demo_active_only [of demo_entry_tree] by blast
qed

lemma demo_tombstone_stored: "tombstone_stored demo_snap demo_json demo_journal demo_rename demo_completed_tree"
proof -
  obtain bytes where b: "canonical_bytes demo_json demo_rename = Inr bytes" using demo_rename_bytes by (auto simp: is_ok_iff)
  then obtain c where c: "tombstone_for_intent demo_snap demo_json demo_rename = Inr c" "length (ct_intent_blake3_hex c) = 64"
    using demo_blake3_total by (simp add: tombstone_for_intent_def blake3_to_hex_def blake3_total_def length_hex_string)
  have "tombstone_to_vec demo_json c = Some (frame (tombstone_fields c))"
    using c(2) by (simp add: demo_json_def framed_def tombstone_fields_def)
  moreover have "ri_operation_id demo_rename = 7" by (simp add: demo_rename_def)
  ultimately show ?thesis
    using demo_intent_stored [of demo_completed_tree] c(1)
    by (simp add: tombstone_stored_def file_holds_def demo_journal_def) (simp add: demo_completed_tree_def node_at_def)
qed

end
