(* ===== verification/Journal_Properties.thy ===== *)
theory Journal_Properties
  imports Concrete_Journal
begin

text \<open>
  The recovery journal: it is append-only under any failures, an interrupted publication converges, a
  completed operation stays as evidence and leaves the listings, the listings are exactly the active
  intents, and the constructors of intents produce exactly what the validator accepts.
\<close>

section \<open>Safety\<close>

text \<open>
  C18: the journal is append-only. Whatever publications, completions and readings are run, under any
  failures and crashes, no file or directory that was there is changed or removed; every new entry is
  the canonical encoding of a valid intent under its own operation id; every new tombstone completes
  an intent that is stored beside it; and apart from temporary files nothing else appears anywhere.
\<close>

theorem journal_is_append_only:
  assumes "journal_layout j" and "uuid_text_ok S"
    and t: "t = w_tree w" and u: "u = w_tree (journal_run S J j cs w)"
  shows "(\<forall>p. node_at t p \<noteq> None \<longrightarrow> node_at u p = node_at t p)
    \<and> (\<forall>op. node_at t (rj_directory j @ [entry_name S op]) = None
          \<longrightarrow> node_at u (rj_directory j @ [entry_name S op]) \<noteq> None
          \<longrightarrow> (\<exists>i. ri_operation_id i = op \<and> intent_stored S J j i u))
    \<and> (\<forall>op. node_at t (rj_completed j @ [entry_name S op]) = None
          \<longrightarrow> node_at u (rj_completed j @ [entry_name S op]) \<noteq> None
          \<longrightarrow> (\<exists>i. ri_operation_id i = op \<and> tombstone_stored S J j i u))
    \<and> (\<forall>p. node_at t p = None \<longrightarrow> node_at u p \<noteq> None
          \<longrightarrow> (\<exists>d \<in> {rj_directory j, rj_completed j}. \<exists>x. p = d @ [entry_name S x] \<or> p = d @ [publish_temp_name S x]))"
proof (intro conjI allI impI)
  have keep: "journal_keeps S J j t u" using journal_run_keeps t u by simp
  then have new: "new_in_journal S J j u p" if "node_at t p = None" "node_at u p \<noteq> None" for p
    using that by (auto simp: journal_keeps_def dest!: spec [of _ p])
  show "node_at u p = node_at t p" if "node_at t p \<noteq> None" for p
    using that journal_keeps_node [OF keep] by auto
  show "\<exists>i. ri_operation_id i = op \<and> intent_stored S J j i u"
    if "node_at t (rj_directory j @ [entry_name S op]) = None" "node_at u (rj_directory j @ [entry_name S op]) \<noteq> None" for op
    using new [OF that] assms(1) completed_not_entry(1) [of S op]
    by (auto simp: new_in_journal_def journal_layout_def entry_name_not_temp entry_name_inject [OF assms(2)])
  show "\<exists>i. ri_operation_id i = op \<and> tombstone_stored S J j i u"
    if "node_at t (rj_completed j @ [entry_name S op]) = None" "node_at u (rj_completed j @ [entry_name S op]) \<noteq> None" for op
    using new [OF that] assms(1) entry_name_not_temp [of S op]
    by (auto simp: new_in_journal_def journal_layout_def entry_name_inject [OF assms(2)])
  show "\<exists>d \<in> {rj_directory j, rj_completed j}. \<exists>x. p = d @ [entry_name S x] \<or> p = d @ [publish_temp_name S x]"
    if "node_at t p = None" "node_at u p \<noteq> None" for p
    using new [OF that] by (auto simp: new_in_journal_def)
qed

text \<open>A publication and a completion in a process that dies at its twelfth system call.\<close>

theorem journal_is_append_only_witness:
  "node_at (w_tree (journal_run demo_snap demo_json demo_journal [CallPublish demo_rename, CallComplete 7 demo_rename]
      ((crash_world 12)\<lparr>w_tree := demo_journal_tree\<rparr>))) [''j''] = Some (DirNode 1 True)"
  using journal_is_append_only [OF demo_journal_layout demo_uuid_text_ok refl refl, where J = demo_json
      and cs = "[CallPublish demo_rename, CallComplete 7 demo_rename]" and w = "(crash_world 12)\<lparr>w_tree := demo_journal_tree\<rparr>"]
  by (simp add: demo_journal_tree_def node_at_def)

text \<open>
  C20: completion hides, it never forgets. Let \<open>complete\<close> have returned, whatever failed on its way,
  and let any further calls of the journal follow, any of whose steps may fail. Then, from a readable
  journal and without failures of their own, reading the operation gives the intent it was completed
  for, and a page of the listing does not contain it.
\<close>

theorem completed_operation_is_never_listed:
  assumes "journal_layout j" and ids: "uuid_text_ok S" and json: "journal_json_ok S J" and hash: "blake3_total S"
    and complete: "journal_complete S J j op i w = (Inr out, w1)"
    and run: "w2 = (journal_run S J j cs w1)\<lparr>w_faults := \<lambda>_. None\<rparr>" and ok: "journal_readable S J j (w_tree w2)"
    and listed: "list_page S J j after limit w2 = (Inr page, w3)"
  shows "fst (journal_read S J j op w2) = Inr i \<and> op \<notin> ri_operation_id ` set (jp_entries page)"
proof -
  have calm: "calm w2" by (simp add: run calm_def)
  have op: "ri_operation_id i = op"
    using complete by (auto simp: journal_complete_def perform_def of_result_def require_def fail_def split: sum.splits if_splits)
  have "tombstone_stored S J j i (w_tree w1)"
    by (rule journal.upholds_Q [OF journal_complete_upholds _ complete]) simp
  then have stored: "tombstone_stored S J j i (w_tree w2)"
    using journal_keeps_tombstone [OF journal_run_keeps] run by simp
  then have i: "stored_intent S J j (w_tree w2) op = Some i"
    using op by (simp add: stored_intent_iff [OF json] tombstone_stored_def)
  have "1 \<le> limit" "limit \<le> MAX_PAGE_SIZE"
    using listed by (auto simp: list_page_def fail_def split: if_splits)
  from yields_fst [OF yields_list_page [OF ids json ok this, where after = after] calm] listed
  have page: "page = page_of S J j (w_tree w2) after limit" by simp
  have "\<not> active_in S J j (w_tree w2) op"
    using tombstone_completes [OF json hash stored] by (simp add: active_in_def i is_some_and_def)
  moreover have "active_in S J j (w_tree w2) (ri_operation_id e)" if e: "e \<in> set (jp_entries page)" for e
  proof -
    obtain x where x: "x \<in> {op. active_in S J j (w_tree w2) op}" "e = intent_at S J j (w_tree w2) x"
      using e finite_active [OF ids] by (auto simp: page page_of_def Let_def dest!: in_set_takeD)
    then have "stored_intent S J j (w_tree w2) x = Some e" by (auto simp: active_in_def is_some_and_def split: option.splits)
    then show ?thesis using x(1) by (simp add: stored_intent_iff [OF json])
  qed
  ultimately show ?thesis using yields_fst [OF yields_journal_read [OF i] calm] by auto
qed

text \<open>Completing the demo operation once more, then listing.\<close>

theorem completed_operation_is_never_listed_witness:
  "\<exists>w1 page w3. journal_complete demo_snap demo_json demo_journal 7 demo_rename (calm_world demo_completed_tree 0)
        = (Inr OperationAlreadyCompleted, w1)
    \<and> list_page demo_snap demo_json demo_journal None 5 w1 = (Inr page, w3)
    \<and> fst (journal_read demo_snap demo_json demo_journal 7 w1) = Inr demo_rename
    \<and> 7 \<notin> ri_operation_id ` set (jp_entries page)"
proof -
  have op: "ri_operation_id demo_rename = 7" by (simp add: demo_rename_def)
  obtain w1 where w1: "journal_complete demo_snap demo_json demo_journal 7 demo_rename (calm_world demo_completed_tree 0)
      = (Inr OperationAlreadyCompleted, w1)" "calm w1" "w_tree w1 = demo_completed_tree"
    using yieldsD [OF yields_journal_complete [OF demo_journal_json_ok demo_blake3_total demo_tombstone_stored],
        of "calm_world demo_completed_tree 0"] by (auto simp: op)
  have ok: "journal_readable demo_snap demo_json demo_journal (w_tree w1)" using demo_journal_readable w1(3) by simp
  have limit: "1 \<le> (5 :: nat)" "5 \<le> MAX_PAGE_SIZE" by (simp_all add: MAX_PAGE_SIZE_def)
  obtain page w3 where page: "list_page demo_snap demo_json demo_journal None 5 w1 = (Inr page, w3)"
    by (rule yieldsD [OF yields_list_page [OF demo_uuid_text_ok demo_journal_json_ok ok limit] w1(2) refl])
  have "w1 = (journal_run demo_snap demo_json demo_journal [] w1)\<lparr>w_faults := \<lambda>_. None\<rparr>"
    using w1(2) by (simp add: calm_def)
  from completed_operation_is_never_listed [OF demo_journal_layout demo_uuid_text_ok demo_journal_json_ok
      demo_blake3_total w1(1) this ok page] w1(1) page show ?thesis by blast
qed

section \<open>Publication\<close>

text \<open>
  C19: publication converges. From a sound journal, after any calls under any failures, a publication
  of a valid intent without failures and with an unused temporary name returns: it publishes the
  intent if its operation is not recorded, recognises it if it is, and reports a collision exactly if
  the operation is bound to another intent. After the first two results reading the operation gives
  the intent.
\<close>

theorem journal_publish_converges:
  assumes lay: "journal_layout j" and ids: "uuid_text_ok S" and json: "journal_json_ok S J"
    and sound: "journal_sound S J j (w_tree w)" and w1: "w1 = (journal_run S J j cs w)\<lparr>w_faults := \<lambda>_. None\<rparr>"
    and temp: "\<not> occupied (w_tree w1) (rj_directory j @ [publish_temp_name S (w_uuids w1 (w_drawn w1))])"
    and v: "recovery_intent_validate S i = Inr ()" and b: "is_ok (canonical_bytes J i)"
    and result: "journal_publish S J j i w1 = (r, w2)"
  shows "r = (case stored_intent S J j (w_tree w1) (ri_operation_id i) of
       None \<Rightarrow> Inr EntryPublished
     | Some bound \<Rightarrow> if bound = i then Inr EntryAlreadyPublished else Inl JournalCollision)
    \<and> (is_ok r \<longrightarrow> fst (journal_read S J j (ri_operation_id i) w2) = Inr i)"
proof -
  have s1: "journal_sound S J j (w_tree w1)"
    using journal_keeps_sound [OF ids lay journal_run_keeps sound] w1 by simp
  have calm: "calm w1" using w1 by (simp add: calm_def)
  obtain bytes where bytes: "canonical_bytes J i = Inr bytes" using b by (auto simp: is_ok_iff)
  note res = journal_publish_result [OF ids json s1 calm temp v bytes]
  have "fst (journal_read S J j (ri_operation_id i) w2) = Inr i" if "is_ok r"
  proof -
    from that result obtain out where "journal_publish S J j i w1 = (Inr out, w2)" by (auto simp: is_ok_iff)
    then have "intent_stored S J j i (w_tree w2)"
      by (rule journal.upholds_Q [OF journal_publish_upholds TrueI])
    then have "stored_intent S J j (w_tree w2) (ri_operation_id i) = Some i" by (simp add: stored_intent_iff [OF json])
    then show ?thesis using yields_fst [OF yields_journal_read] res result by auto
  qed
  then show ?thesis using res result by auto
qed

text \<open>After a publication that died at its first system call.\<close>

theorem journal_publish_converges_witness:
  "\<exists>w2. journal_publish demo_snap demo_json demo_journal demo_rename
      ((journal_run demo_snap demo_json demo_journal [CallPublish demo_rename]
         ((crash_world 0)\<lparr>w_tree := demo_journal_tree\<rparr>))\<lparr>w_faults := \<lambda>_. None\<rparr>) = (Inr EntryPublished, w2)
    \<and> fst (journal_read demo_snap demo_json demo_journal 7 w2) = Inr demo_rename"
proof -
  let ?w = "(crash_world 0)\<lparr>w_tree := demo_journal_tree\<rparr>"
  let ?w1 = "(journal_run demo_snap demo_json demo_journal [CallPublish demo_rename] ?w)\<lparr>w_faults := \<lambda>_. None\<rparr>"
  have op: "ri_operation_id demo_rename = 7" by (simp add: demo_rename_def)
  obtain bytes where "canonical_bytes demo_json demo_rename = Inr bytes" using demo_rename_bytes by (auto simp: is_ok_iff)
  then have w1: "w_tree ?w1 = demo_journal_tree"
    by (simp add: journal_publish_def demo_rename_valid perform_pure Let_def read_raw_if_exists_def read_raw_def perform_def
        attempt_def lift_err_def sys_metadata_def syscall_def crash_world_def tick_def fail_def io_fault_def split: prod.splits)
  have sound: "journal_sound demo_snap demo_json demo_journal (w_tree ?w)" using demo_journal_sound by simp
  have temp: "\<not> occupied (w_tree ?w1) (rj_directory demo_journal @ [publish_temp_name demo_snap f])" for f
    unfolding w1 using completed_not_entry(2) [of demo_snap f] by (auto simp: occupied_def demo_journal_trees)
  obtain r w2 where r: "journal_publish demo_snap demo_json demo_journal demo_rename ?w1 = (r, w2)"
    by (cases "journal_publish demo_snap demo_json demo_journal demo_rename ?w1")
  note conv = journal_publish_converges [OF demo_journal_layout demo_uuid_text_ok demo_journal_json_ok sound refl
      temp demo_rename_valid demo_rename_bytes r]
  have none: "stored_intent demo_snap demo_json demo_journal demo_journal_tree 7 = None"
    using completed_not_entry(1) [of demo_snap 7] by (simp add: stored_intent_def raw_at_def node_at_def demo_journal_trees)
  have "r = Inr EntryPublished \<and> fst (journal_read demo_snap demo_json demo_journal 7 w2) = Inr demo_rename"
    using conv unfolding w1 op none by simp
  then show ?thesis using r by blast
qed

section \<open>Listings\<close>

text \<open>
  C21: the listings are the active operations. On a sound journal within its limits, and without
  failures, both listings return the intents that are stored and not completed, after the cursor, in the order of their ids,
  \<open>limit\<close> of them at most; the cursor for the next page is there exactly if more follow, and is the
  last id of the page. The two listings agree.
\<close>

theorem listing_is_the_active_page:
  assumes "uuid_text_ok S" and "journal_json_ok S J" and "journal_readable S J j (w_tree w)" and "calm w"
    and "1 \<le> limit" and "limit \<le> MAX_PAGE_SIZE"
  shows "fst (list_page S J j after limit w) = Inr (page_of S J j (w_tree w) after limit)
    \<and> fst (list_evidence_page S J j after limit w)
      = Inr \<lparr>jp_entries = map SupportedIntent (jp_entries (page_of S J j (w_tree w) after limit)),
             jp_next_after = jp_next_after (page_of S J j (w_tree w) after limit)\<rparr>"
  using yields_fst [OF yields_list_page [OF assms(1-3,5,6)] assms(4)]
    yields_fst [OF yields_list_evidence_page [OF assms(1-3,5,6)] assms(4)] by simp

theorem listing_is_the_active_page_witness:
  "fst (list_page demo_snap demo_json demo_journal None 5 (calm_world demo_entry_tree 0))
    = Inr \<lparr>jp_entries = [demo_rename], jp_next_after = None\<rparr>"
proof -
  have op: "ri_operation_id demo_rename = 7" by (simp add: demo_rename_def)
  then have "stored_intent demo_snap demo_json demo_journal demo_entry_tree 7 = Some demo_rename"
    using demo_intent_stored [of demo_entry_tree] by (simp add: stored_intent_iff [OF demo_journal_json_ok])
  then have "page_of demo_snap demo_json demo_journal demo_entry_tree None 5 = \<lparr>jp_entries = [demo_rename], jp_next_after = None\<rparr>"
    by (simp add: page_of_def demo_active is_none_or_def)
  then show ?thesis
    using listing_is_the_active_page [OF demo_uuid_text_ok demo_journal_json_ok, where j = demo_journal
        and w = "calm_world demo_entry_tree 0" and after = None and limit = 5] demo_journal_readable [of demo_entry_tree]
    by (simp add: MAX_PAGE_SIZE_def)
qed

section \<open>Intents\<close>

lemma canonical_portable_fixed:
  assumes "canonical_portable s = Inr c"
  shows "canonical_portable c = Inr c"
proof -
  obtain p where p: "from_portable s = Inr p" "c = as_str p" using assms by (auto simp: canonical_portable_def)
  from from_portable_canonical [OF from_portable_canonicalises [OF p(1)]] show ?thesis
    by (simp add: canonical_portable_def p(2))
qed

lemma canonical_portable_opt_fixed: "canonical_portable_opt s = Inr c \<Longrightarrow> canonical_portable_opt c = Inr c"
  by (auto simp: canonical_portable_opt_def dest: canonical_portable_fixed split: option.splits)

lemma new_for_kind_valid:
  assumes "new_for_kind S op kind source target expected temp = Inr i"
  shows "recovery_intent_validate S i = Inr ()"
proof -
  from assms obtain a b c
    where parts: "\<not> is_nil op" "operation_kind_validate kind = Inr ()" "canonical_portable source = Inr a"
      "canonical_portable target = Inr b" "canonical_portable_opt temp = Inr c"
      "validate_operation_topology S kind a b c = Inr ()" "file_revision_validate expected = Inr ()"
      and i: "i = \<lparr>ri_version = INTENT_VERSION, ri_operation_id = op, ri_from = a, ri_to = b,
        ri_expected = expected, ri_temp = c, ri_kind = kind\<rparr>"
    by (auto simp: new_for_kind_def split: if_splits)
  show ?thesis
    using parts(1,2,6,7) parts(3,4) [THEN canonical_portable_fixed] canonical_portable_opt_fixed [OF parts(5)]
    by (simp add: recovery_intent_validate_def i del: and_then_eq_Inr)
qed

lemma valid_new_for_kind:
  "recovery_intent_validate S i = Inr ()
   \<longleftrightarrow> new_for_kind S (ri_operation_id i) (ri_kind i) (ri_from i) (ri_to i) (ri_expected i) (ri_temp i) = Inr i"
proof
  assume "recovery_intent_validate S i = Inr ()"
  then show "new_for_kind S (ri_operation_id i) (ri_kind i) (ri_from i) (ri_to i) (ri_expected i) (ri_temp i) = Inr i"
    by (auto simp: recovery_intent_validate_def new_for_kind_def split: if_splits)
qed (rule new_for_kind_valid)

lemma valid_topology:
  "recovery_intent_validate S i = Inr () \<Longrightarrow>
     validate_operation_topology S (ri_kind i) (ri_from i) (ri_to i) (ri_temp i) = Inr ()"
  by (auto simp: recovery_intent_validate_def split: if_splits)

text \<open>The constructor of the intent's kind, on the fields of the intent.\<close>

definition reconstructed :: "snap_libs \<Rightarrow> rename_move_intent \<Rightarrow> bool" where
  "reconstructed S i = (case ri_kind i of
       NormalMove \<Rightarrow> rename_move_new S (ri_operation_id i) (ri_from i) (ri_to i) (ri_expected i) = Inr i
     | CaseRename \<Rightarrow> (\<exists>temp. ri_temp i = Some temp
         \<and> new_case_rename S (ri_operation_id i) (ri_from i) (ri_to i) (ri_expected i) temp = Inr i)
     | TrashOperation tid digest trashed \<Rightarrow> new_trash S (ri_operation_id i) tid digest trashed (ri_from i) (ri_expected i) = Inr i
     | RestoreOperation tid digest \<Rightarrow> new_restore S (ri_operation_id i) tid digest (ri_to i) (ri_expected i) = Inr i)"

lemmas constructor_defs = rename_move_new_def new_case_rename_def new_trash_def new_restore_def

lemma reconstructed_valid: "reconstructed S i \<Longrightarrow> recovery_intent_validate S i = Inr ()"
  unfolding reconstructed_def constructor_defs Let_def
  by (auto intro: new_for_kind_valid split: recovery_operation_kind.split_asm)

lemma valid_reconstructed:
  assumes v: "recovery_intent_validate S i = Inr ()"
  shows "reconstructed S i"
proof -
  note made = v [unfolded valid_new_for_kind] and topology = valid_topology [OF v]
  show ?thesis
  proof (cases "ri_kind i")
    case NormalMove
    then have "ri_temp i = None" using topology by (auto split: if_split_asm)
    then show ?thesis using made NormalMove by (simp add: reconstructed_def rename_move_new_def)
  next
    case CaseRename
    then obtain temp where "ri_temp i = Some temp" using topology by (auto split: option.split_asm)
    then show ?thesis using made CaseRename by (simp add: reconstructed_def new_case_rename_def)
  next
    case (TrashOperation tid digest trashed)
    then have "ri_to i = trash_payload_path S ''items'' tid" "ri_temp i = Some (trash_payload_path S ''staging'' tid)"
      using topology by (auto split: if_split_asm)
    then show ?thesis using made TrashOperation by (simp add: reconstructed_def new_trash_def)
  next
    case (RestoreOperation tid digest)
    then have "ri_from i = trash_payload_path S ''items'' tid" "ri_temp i = None"
      using topology by (auto split: if_split_asm)
    then show ?thesis using made RestoreOperation by (simp add: reconstructed_def new_restore_def)
  qed
qed

text \<open>
  C22: the four public constructors and the validator agree. What the journal accepts, on publication
  and when reading, is exactly what a constructor can return for some arguments; and the constructor
  of the intent's own kind returns the intent from its fields: a trash intent from its source alone,
  with the item and the staging path of its identifier, a restore intent from its target alone, a
  move without a temporary path, a case rename with one.
\<close>

theorem valid_intents_are_constructible:
  "(recovery_intent_validate S i = Inr () \<longleftrightarrow>
      (\<exists>op source target expected. rename_move_new S op source target expected = Inr i)
      \<or> (\<exists>op source target expected temp. new_case_rename S op source target expected temp = Inr i)
      \<or> (\<exists>op tid digest trashed source expected. new_trash S op tid digest trashed source expected = Inr i)
      \<or> (\<exists>op tid digest target expected. new_restore S op tid digest target expected = Inr i))
   \<and> (recovery_intent_validate S i = Inr () \<longleftrightarrow> (case ri_kind i of
         NormalMove \<Rightarrow> rename_move_new S (ri_operation_id i) (ri_from i) (ri_to i) (ri_expected i) = Inr i
       | CaseRename \<Rightarrow> (\<exists>temp. ri_temp i = Some temp
           \<and> new_case_rename S (ri_operation_id i) (ri_from i) (ri_to i) (ri_expected i) temp = Inr i)
       | TrashOperation tid digest trashed \<Rightarrow> new_trash S (ri_operation_id i) tid digest trashed (ri_from i) (ri_expected i) = Inr i
       | RestoreOperation tid digest \<Rightarrow> new_restore S (ri_operation_id i) tid digest (ri_to i) (ri_expected i) = Inr i))"
    (is "(?valid \<longleftrightarrow> ?any) \<and> (?valid \<longleftrightarrow> ?own)")
proof (intro conjI iffI)
  have own: "?own \<longleftrightarrow> reconstructed S i" by (simp add: reconstructed_def)
  show "?own" if "?valid" unfolding own by (rule valid_reconstructed [OF that])
  show "?valid" if "?own" using that unfolding own by (rule reconstructed_valid)
  show "?valid" if "?any"
    using that unfolding constructor_defs Let_def by (elim disjE exE) (erule new_for_kind_valid)+
  show "?any" if "?valid"
    using valid_reconstructed [OF that] unfolding reconstructed_def
    by (cases "ri_kind i") (simp_all only: recovery_operation_kind.case, blast+)
qed

theorem valid_intents_are_constructible_witness:
  "rename_move_new demo_snap 7 ''a.md'' ''b.md'' (ri_expected demo_rename) = Inr demo_rename
   \<and> (\<exists>i. new_trash demo_snap 9 5 (replicate 64 CHR ''a'') 100 ''a.md'' (ri_expected demo_rename) = Inr i
        \<and> recovery_intent_validate demo_snap i = Inr ())"
proof -
  have kind: "ri_kind demo_rename = NormalMove" "ri_operation_id demo_rename = 7" "ri_from demo_rename = ''a.md''"
    "ri_to demo_rename = ''b.md''"
    by (simp_all add: demo_rename_def)
  have trash: "is_ok (new_trash demo_snap 9 5 (replicate 64 CHR ''a'') 100 ''a.md'' (ri_expected demo_rename))"
    by code_simp
  obtain i where i: "new_trash demo_snap 9 5 (replicate 64 CHR ''a'') 100 ''a.md'' (ri_expected demo_rename) = Inr i"
    using trash by (auto simp: is_ok_iff)
  then show ?thesis
    using valid_intents_are_constructible [of demo_snap demo_rename] valid_intents_are_constructible [of demo_snap i]
      demo_rename_valid by (auto simp: kind)
qed

end
