(* ===== verification/Spec2Isabelle.thy ===== *)
theory Spec2Isabelle
  imports Ledger_Properties Identity_Properties Markdown_Properties Path_Properties
    Classifier_Properties Replay_Properties Materialization_Properties Store_Properties Scan_Properties
    Snapshot_Properties Quarantine_Properties Worker_Properties
    Evidence_Properties Journal_Properties
begin

text \<open>
  \<^bold>\<open>A verification of the core of myVault.\<close>

  myVault keeps a vault of Markdown notes and synchronises it with a remote folder. The Rust crates
  under \<open>src/crates\<close> carry its logic; this development models the crates that decide what may
  happen to a user's notes.

  \<^bold>\<open>The parts of the program and how they interact\<close>

  \<^item> \<open>myvault-core/src/path.rs\<close> defines portable vault paths, the names every other part uses.
  \<^item> \<open>myvault-sync-engine/src/lib.rs\<close> reads remote metadata through the trait \<open>DriveClient\<close> and
    drives the initial scan; \<open>store.rs\<close> is the durable state of the engine: the binding to a remote
    root, the scan frontier, the change cursor with its batches, a job queue, content transfers, and
    the ledger of mutations with their evidence. The cursor moves only over this store.
  \<^item> \<open>myvault-sync-engine/src/conflict\<close> decides what to do when both sides changed: \<open>identity.rs\<close>
    names a conflict and its copies, \<open>markdown.rs\<close> merges notes, \<open>classifier.rs\<close> turns evidence into
    a plan, \<open>materialization.rs\<close> turns a plan into intents that the ledger of \<open>store.rs\<close> registers,
    \<open>evidence.rs\<close> into the evidence it stores; the classifier reads the rows of that ledger back as replay proofs.
  \<^item> \<open>myvault-private-fs\<close> gives access to private directories; \<open>myvault-snapshots\<close> builds on it:
    \<open>lib.rs\<close> publishes recovery snapshots, \<open>retention.rs\<close> selects the ones to retire, and
    \<open>quarantine.rs\<close> detaches and deletes those, over a plan, markers and terminal records on disk.
  \<^item> \<open>myvault-recovery\<close> journals the intents of local moves in a private directory, so that an
    interrupted move can be recognised.
  \<^item> \<open>myvault-transfer\<close> claims one due transfer of the store at a time, has an executor carry it out
    and records the outcome; the sync command of the application calls it until nothing is due.

  \<^bold>\<open>Theories and what they model\<close>

  \<^item> \<open>Prelude\<close>, \<open>Tables\<close>, \<open>Rust_Strings\<close>, \<open>Encoding\<close>: results and errors, rows of SQLite tables as
    lists with the locale \<open>versioned_rows\<close>, the part of the Rust library on strings, and byte
    encodings with the locale \<open>prefix_code\<close> (a stream of length-prefixed fields determines them). The
    locale \<open>wire_enum\<close> states that an enum and its stored spelling determine each other; every enum of
    the store interprets it.
  \<^item> \<open>Vault_Path\<close> (\<open>path.rs\<close>) and \<open>Path_Properties\<close>: construction of paths, collision keys, and that
    an accepted path is its own canonical form.
  \<^item> \<open>Remote_Model\<close> (\<open>lib.rs\<close>): errors, remote entries, pages, changes and their validators.
  \<^item> \<open>Mutation_Records\<close>, \<open>Mutation_Ledger\<close> (\<open>store.rs\<close>): intents, states, evidence, fingerprints, and
    the operations of the ledger. \<open>Ledger_Lifecycle\<close> has the step relation of committed calls, the
    invariant of the tables and the abstract lifecycle of one operation; \<open>Ledger_Properties\<close> shows
    that the store refines the lifecycle, that completion has stored and matching evidence, that
    superseded versions never commit, that nothing recorded is ever changed, and the exact results of
    registration and claim.
  \<^item> \<open>Sync_Records\<close>, \<open>Initial_Sync\<close>, \<open>Queue_Jobs\<close>, \<open>Transfers\<close>, \<open>Change_Batches\<close> (\<open>store.rs\<close>): the
    database as one record and its operations. \<open>Sync_Scan\<close>, \<open>Store_Steps\<close>, \<open>Store_Invariant\<close> and
    \<open>Store_Effects\<close> have one step relation for all calls, the invariant of all tables, and what a
    step can do to the cursor, to a batch and to a transfer. \<open>Store_Properties\<close> states what moves the
    cursor, when a typed batch commits, the lifecycle of transfers and what recovery leaves;
    \<open>Scan_Tree\<close> and \<open>Scan_Properties\<close> show that the scan of a finite folder tree ends after one call
    per page with exactly the entries of the tree.
  \<^item> \<open>Conflict_Codes\<close>, \<open>Conflict_Identity\<close>, \<open>Identity_Properties\<close> (\<open>identity.rs\<close>): conflict and
    operation identifiers and the choice of a free name for a conflict copy.
  \<^item> \<open>Markdown_Merge\<close>, \<open>Markdown_Properties\<close> (\<open>markdown.rs\<close>): parsing, edit scripts, combination and
    rendering; a merge applies the scripts of both sides, is symmetric, and parsing loses nothing.
  \<^item> \<open>Conflict_Classifier\<close>, \<open>Classifier_Properties\<close>, \<open>Replay_Properties\<close> (\<open>classifier.rs\<close>): evidence and
    its seals, the conflict matrix, and what each plan may publish, must retain and needs as proof.
  \<^item> \<open>Materialization\<close>, \<open>Materialization_Properties\<close> (\<open>materialization.rs\<close>): drafts, dependencies and
    intents; the cursor waits for every publication and the intents are valid for the ledger.
  \<^item> \<open>Conflict_Evidence\<close> (\<open>evidence.rs\<close>): the evidence of a conflict with its codes, derived from a
    materialized plan. \<open>Evidence_Properties\<close> shows that the ledger of \<open>store.rs\<close> accepts it and
    recognises it when it is captured again.
  \<^item> \<open>Private_Files\<close> (\<open>myvault-private-fs/src/lib.rs\<close>): a directory tree, system calls with a fault
    oracle, and the operations of the crate. \<open>Private_Logic\<close> has the reasoning: \<open>reads\<close>, \<open>learns\<close>,
    \<open>triple\<close>, \<open>succeeds\<close>, and the locale \<open>discipline\<close>, in which a component states as a reflexive and
    transitive relation what it may do to the tree, whatever fails.
  \<^item> \<open>Snapshot_Records\<close>, \<open>Snapshot_Store\<close> (\<open>myvault-snapshots/src/lib.rs\<close>): manifests, the operation
    lock, publication through work and staging directories, and inspection. \<open>Snapshot_Publish\<close> and
    \<open>Snapshot_Resume\<close> prove the discipline of publication and its success after any interruption.
  \<^item> \<open>Snapshot_Retention\<close> (\<open>retention.rs\<close>): selection and scan. \<open>Retention_Properties\<close> and
    \<open>Retention_Scan\<close> prove that the selection equals a declarative reference and rests on verified
    objects. \<open>Snapshot_Properties\<close> states the properties of both.
  \<^item> \<open>Quarantine_Plan\<close>, \<open>Quarantine_Detach\<close>, \<open>Quarantine_Delete\<close> (\<open>quarantine.rs\<close>): plans, markers
    and terminal records, \<open>quarantine_retention\<close> with the recovery of interrupted runs, and
    \<open>delete_quarantined_run\<close>. \<open>Quarantine_Layout\<close> names the directories; \<open>Deletion_Safety\<close> and
    \<open>Detach_Safety\<close> prove the two disciplines; \<open>Quarantine_Properties\<close> states them and composes them
    with publication: over any history a snapshot leaves only by an authorized deletion.
  \<^item> \<open>Recovery_Intents\<close>, \<open>Recovery_Journal\<close> (\<open>myvault-recovery/src/lib.rs\<close>): intents to rename, move,
    trash or restore a note, and the append-only journal of them with its completion tombstones.
    \<open>Journal_Safety\<close> proves its discipline; \<open>Journal_Reading\<close> evaluates its readings on a tree with
    \<open>yields\<close>; \<open>Journal_Properties\<close> states that nothing recorded is lost, that an interrupted
    publication converges, what the listings contain, and that the validator accepts exactly what the
    four constructors build. \<open>Concrete_Journal\<close> has concrete encodings.
  \<^item> \<open>Transfer_Worker\<close> (\<open>myvault-transfer/src/lib.rs\<close>, \<open>drain_guarded_snapshot\<close> of
    \<open>sync_commands.rs\<close>): intents, evidence, delays, the worker and its implementation on \<open>SyncStore\<close>.
    The locale \<open>transfer_contract\<close> of \<open>Worker_Contract\<close> has the laws a worker needs of its store and
    proves what a round and a drain do; \<open>Worker_Store\<close> interprets it on \<open>SyncStore\<close>;
    \<open>Worker_Properties\<close> states the result for the store. The delays show that the cap of 15 minutes
    is never reached by a computed backoff, only by a delay the provider asks for.
  \<^item> \<open>Concrete_Libs\<close>, \<open>Concrete_Run\<close>, \<open>Concrete_Store\<close>, \<open>Concrete_Snapshots\<close>: concrete functions in
    place of the third-party crates, with proofs that they satisfy what the theorems assume of them,
    and concrete runs on which the theorems are instantiated.

  \<^bold>\<open>How code becomes definitions\<close>

  A struct is a \<open>record\<close>, an enum a \<open>datatype\<close>, a \<open>Result\<close> a sum with the error on the left, a
  fixed-width integer a word of that width (\<open>checked_add\<close> and its relatives return an option). A
  string is the list of its UTF-8 bytes. A method of \<open>SyncStore\<close> is a function from the database to
  an error or the new database: it runs in one SQLite transaction, so an error leaves the database as
  it was. SQL conditions that can meet \<open>NULL\<close> are written in three-valued logic. An operation on
  files is a function from the world to a result and a world. Each system call asks the fault oracle
  whether it fails; a failing call changes nothing, except that a failing write leaves a prefix of
  its bytes. A process that dies is an oracle that fails every later call, so theorems over all
  oracles cover crashes at every point. What a completed call did to the tree is taken as durable: the
  loss of completed but unsynced changes in a power failure is not modelled.

  \<^bold>\<open>Parameters and hypotheses\<close>

  Third-party code is a parameter: NFKC and case folding, SHA-256, BLAKE3, UUID text, UUIDv5, the
  diff of the crate \<open>similar\<close>, \<open>serde_json\<close>, and the remote provider. Theorems that need something of
  it have it as a named hypothesis, for instance that UUID text parses back (\<open>uuid_text_ok\<close>), that
  JSON reads back what it wrote (\<open>manifest_json_ok\<close>, \<open>plan_json_ok\<close>,
  \<open>journal_json_ok\<close>), or that a diff transforms one
  text into the other. No theorem assumes a hash to be injective: where equality of hashes matters,
  the conclusion names the collision.

  \<^bold>\<open>Bounds and termination\<close>

  All loops of the models end. The 32 attempts to draw an unused work name are the bound of the
  source (\<open>create_fresh_work\<close>), and convergence assumes one unused name among them. The deletion of
  an item repeats until the item is gone: \<open>delete_item_loop\<close> terminates because each round that
  continues has removed an entry of the tree. The initial scan is driven from outside, one page per
  call; \<open>scan_covers_the_tree\<close> gives the number of calls. A drain has as many rounds as its list of
  clock samples, the \<open>max_operations\<close> of the source. An executor asks the gate finitely often. Version counters, attempts and sizes are kept
  at their widths.

  \<^bold>\<open>Not modelled\<close>

  \<^item> Schema creation, migrations and the opening of the SQLite file: text of SQL executed by a
    library.
  \<^item> The Windows and Android variants of the private filesystem, access control lists, and the
    opening of ambient roots: system calls of each platform.
  \<^item> The local vault, the service that executes moves, the executors of transfers and the
    application service: orchestration over platform file handles and ports.
  \<^item> The Drive client, sign-in, the Tauri commands and plugins, and the user interface: network,
    operating system services and glue.
\<close>

end
